(* ===== verification/Cel_Lexer.thy ===== *)
theory Cel_Lexer
  imports Prelude
begin

text \<open>
  The tokenizer of the formula language (services/api/src/common/utils/cel-evaluator.ts).

  Numbers are values of decimal.js, a package outside the repository: the type of decimals is
  a parameter \<open>'d\<close> and the operations the evaluator calls are the fields of a record, with no
  assumption about them. A call that may throw a DecimalError returns \<^const>\<open>None\<close> there.
\<close>

section \<open>The decimal library as a parameter\<close>

record 'd decimal_api =
  d_parse :: "string \<Rightarrow> 'd option"
  d_of_int :: "int \<Rightarrow> 'd"
  d_neg :: "'d \<Rightarrow> 'd"
  d_abs :: "'d \<Rightarrow> 'd"
  d_plus :: "'d \<Rightarrow> 'd \<Rightarrow> 'd"
  d_minus :: "'d \<Rightarrow> 'd \<Rightarrow> 'd"
  d_times :: "'d \<Rightarrow> 'd \<Rightarrow> 'd"
  d_div :: "'d \<Rightarrow> 'd \<Rightarrow> 'd"
  d_mod :: "'d \<Rightarrow> 'd \<Rightarrow> 'd"
  d_cmp :: "'d \<Rightarrow> 'd \<Rightarrow> int option"
  d_is_zero :: "'d \<Rightarrow> bool"
  d_to_places :: "'d \<Rightarrow> 'd \<Rightarrow> 'd option"

section \<open>Tokens\<close>

datatype cel_op =
    OpEq | OpNe | OpLe | OpGe | OpAnd | OpOr
  | OpPlus | OpMinus | OpTimes | OpDiv | OpMod | OpLt | OpGt | OpNot

datatype 'd token =
    TNum 'd
  | TStr string
  | TIdent string
  | TOp cel_op
  | TLParen
  | TRParen
  | TComma
  | TQMark
  | TColon
  | TBool bool
  | TNil
  | TEof

text \<open>
  What evaluation can throw: a CelError with its message, a DecimalError of the library, or a
  TypeError of the runtime (reading a field of undefined).
\<close>

datatype cel_error = CelError string | DecimalError | TypeErr

fun op_text :: "cel_op \<Rightarrow> string" where
  "op_text OpEq = ''==''"
| "op_text OpNe = ''!=''"
| "op_text OpLe = ''<=''"
| "op_text OpGe = ''>=''"
| "op_text OpAnd = ''&&''"
| "op_text OpOr = ''||''"
| "op_text OpPlus = ''+''"
| "op_text OpMinus = ''-''"
| "op_text OpTimes = ''*''"
| "op_text OpDiv = ''/''"
| "op_text OpMod = ''%''"
| "op_text OpLt = ''<''"
| "op_text OpGt = ''>''"
| "op_text OpNot = ''!''"

section \<open>Character classes and scanners\<close>

definition char_in :: "nat \<Rightarrow> nat \<Rightarrow> char \<Rightarrow> bool" where
  "char_in lo hi c = (let n = of_char c in lo \<le> n \<and> n \<le> hi)"

definition is_digit :: "char \<Rightarrow> bool" where
  "is_digit c = char_in 48 57 c"

definition is_alpha :: "char \<Rightarrow> bool" where
  "is_alpha c = (char_in 65 90 c \<or> char_in 97 122 c)"

definition num_char :: "char \<Rightarrow> bool" where
  "num_char c = (is_digit c \<or> c = CHR ''.'' \<or> c = CHR ''_'')"

definition ident_start :: "char \<Rightarrow> bool" where
  "ident_start c = (is_alpha c \<or> c = CHR ''_'')"

definition ident_char :: "char \<Rightarrow> bool" where
  "ident_char c = (is_alpha c \<or> is_digit c \<or> c = CHR ''_'' \<or> c = CHR ''.'')"

definition lex_space :: "char \<Rightarrow> bool" where
  "lex_space c = ((of_char c :: nat) \<in> set [32, 9, 10, 13])"

definition is_quote :: "char \<Rightarrow> bool" where
  "is_quote c = (c = CHR 0x27 \<or> c = CHR 0x22)"

text \<open>The number loop: digits, dots and underscores, then an exponent if an e follows.\<close>

definition scan_number :: "string \<Rightarrow> string \<times> string" where
  "scan_number s =
     (let body = takeWhile num_char s; r = dropWhile num_char s in
      case r of
        [] \<Rightarrow> (body, [])
      | e # r1 \<Rightarrow>
          if e = CHR ''e'' \<or> e = CHR ''E'' then
            (let (sg, r2) = (case r1 of
                 [] \<Rightarrow> ([], [])
               | x # xs \<Rightarrow> if x = CHR ''+'' \<or> x = CHR ''-'' then ([x], xs) else ([], r1))
             in (body @ e # sg @ takeWhile is_digit r2, dropWhile is_digit r2))
          else (body, r))"

text \<open>The string loop after the opening quote; \<^const>\<open>None\<close> when the input ends first.\<close>

fun scan_string :: "char \<Rightarrow> string \<Rightarrow> (string \<times> string) option" where
  "scan_string q [] = None"
| "scan_string q (c # s) =
     (if c = q then Some ([], s)
      else if c = CHR 0x5C then
        (case s of
           [] \<Rightarrow> None
         | d # s' \<Rightarrow> map_option (\<lambda>(w, r). (d # w, r)) (scan_string q s'))
      else map_option (\<lambda>(w, r). (c # w, r)) (scan_string q s))"

definition two_char_op :: "char \<Rightarrow> char \<Rightarrow> cel_op option" where
  "two_char_op c d =
     (if [c, d] = ''=='' then Some OpEq
      else if [c, d] = ''!='' then Some OpNe
      else if [c, d] = ''<='' then Some OpLe
      else if [c, d] = ''>='' then Some OpGe
      else if [c, d] = ''&&'' then Some OpAnd
      else if [c, d] = ''||'' then Some OpOr
      else None)"

definition one_char_op :: "char \<Rightarrow> cel_op option" where
  "one_char_op c =
     (if c = CHR ''+'' then Some OpPlus
      else if c = CHR ''-'' then Some OpMinus
      else if c = CHR ''*'' then Some OpTimes
      else if c = CHR ''/'' then Some OpDiv
      else if c = CHR ''%'' then Some OpMod
      else if c = CHR ''<'' then Some OpLt
      else if c = CHR ''>'' then Some OpGt
      else if c = CHR ''!'' then Some OpNot
      else None)"

definition punct :: "char \<Rightarrow> 'd token option" where
  "punct c =
     (if c = CHR ''('' then Some TLParen
      else if c = CHR '')'' then Some TRParen
      else if c = CHR '','' then Some TComma
      else if c = CHR ''?'' then Some TQMark
      else if c = CHR '':'' then Some TColon
      else None)"

definition word_token :: "string \<Rightarrow> 'd token" where
  "word_token w =
     (if w = ''true'' then TBool True
      else if w = ''false'' then TBool False
      else if w = ''null'' \<or> w = ''nil'' then TNil
      else TIdent w)"

definition push_token :: "'d token \<Rightarrow> cel_error + 'd token list \<Rightarrow> cel_error + 'd token list" where
  "push_token t r = bindR r (\<lambda>ts. Inr (t # ts))"

lemma push_token_simps [simp]:
  "push_token t (Inr ts) = Inr (t # ts)" "push_token t (Inl e) = Inl e"
  by (simp_all add: push_token_def)

lemma scan_number_rest: "length (snd (scan_number s)) \<le> length (dropWhile num_char s)"
proof (cases "dropWhile num_char s")
  case (Cons e r1)
  have "length (dropWhile is_digit x) \<le> length x" for x by (rule length_dropWhile_le)
  then show ?thesis
    using Cons by (cases r1) (auto simp: scan_number_def Let_def intro: le_SucI)
next
  case Nil
  then show ?thesis by (simp add: scan_number_def Let_def del: dropWhile_eq_Nil_conv)
qed

lemma scan_number_shorter:
  assumes "scan_number (c # s) = (w, r)" "num_char c"
  shows "length r < length (c # s)"
proof -
  have "length r \<le> length (dropWhile num_char s)"
    using scan_number_rest[of "c # s"] assms by simp
  also have "\<dots> \<le> length s" by (rule length_dropWhile_le)
  finally show ?thesis by simp
qed

lemma scan_string_shorter: "scan_string q s = Some (w, r) \<Longrightarrow> length r < length s"
proof (induction q s arbitrary: w rule: scan_string.induct)
  case (2 q c s)
  show ?case
  proof (cases "c = q")
    case False
    show ?thesis
    proof (cases "c = CHR 0x5C")
      case True
      with False 2 show ?thesis by (cases s) fastforce+
    next
      case nb: False
      with False 2 show ?thesis by fastforce
    qed
  qed (use 2 in simp)
qed simp

section \<open>The tokenizer\<close>

function tokenize_from :: "'d decimal_api \<Rightarrow> nat \<Rightarrow> string \<Rightarrow> cel_error + 'd token list" where
  "tokenize_from D i [] = Inr [TEof]"
| "tokenize_from D i (c # s) =
     (if lex_space c then tokenize_from D (i + 1) s
      else if is_digit c then
        (case scan_number (c # s) of (w, r) \<Rightarrow>
           (case d_parse D (filter (\<lambda>x. x \<noteq> CHR ''_'') w) of
              None \<Rightarrow> Inl DecimalError
            | Some v \<Rightarrow> push_token (TNum v) (tokenize_from D (i + length w) r)))
      else if is_quote c then
        (case scan_string c s of
           None \<Rightarrow> Inl (CelError (''Unterminated string at '' @ show_nat i))
         | Some (w, r) \<Rightarrow>
             push_token (TStr w) (tokenize_from D (i + (length (c # s) - length r)) r))
      else if ident_start c then
        push_token (word_token (takeWhile ident_char (c # s)))
          (tokenize_from D (i + length (takeWhile ident_char (c # s)))
            (dropWhile ident_char (c # s)))
      else
        (case (case s of [] \<Rightarrow> None | d # s' \<Rightarrow> two_char_op c d) of
           Some oper \<Rightarrow> push_token (TOp oper) (tokenize_from D (i + 2) (tl s))
         | None \<Rightarrow>
             (case one_char_op c of
                Some oper \<Rightarrow> push_token (TOp oper) (tokenize_from D (i + 1) s)
              | None \<Rightarrow>
                  (case punct c of
                     Some t \<Rightarrow> push_token t (tokenize_from D (i + 1) s)
                   | None \<Rightarrow> Inl (CelError (''Unexpected character '' @ CHR 0x27 # c # CHR 0x27 # '' at '' @ show_nat i))))))"
  by pat_completeness auto
termination
proof (relation "measure (\<lambda>(D, i, s). length s)", goal_cases)
  case (3 D i c s x y x2)
  then show ?case using scan_number_shorter[of c s x y] by (simp add: num_char_def)
next
  case (4 D i c s x2 x y)
  then show ?case using scan_string_shorter[of c s x y] by simp
next
  case (5 D i c s)
  then show ?case
    using length_dropWhile_le[of ident_char s] by (auto simp: ident_start_def ident_char_def)
qed (auto simp: Let_def)

declare tokenize_from.simps [simp del]

definition tokenize :: "'d decimal_api \<Rightarrow> string \<Rightarrow> cel_error + 'd token list" where
  "tokenize D src = tokenize_from D 0 src"

end
