(* ===== verification/Cel_Parser.thy ===== *)
theory Cel_Parser
  imports Cel_Lexer
begin

text \<open>
  The Pratt parser of the formula language (class Parser and binaryBp in
  services/api/src/common/utils/cel-evaluator.ts).

  The parser's state, its position in the token array, is the list of the tokens that are left.
  The methods call each other, so they are mutually recursive with a fuel argument;
  \<open>parse_fuel\<close> gives the fuel of a run and \<open>parse_total\<close> shows that it is never used up.
\<close>

section \<open>Syntax trees\<close>

datatype 'd node =
    NNum 'd
  | NStr string
  | NBool bool
  | NNil
  | NRef string
  | NUnary cel_op "'d node"
  | NBin cel_op "'d node" "'d node"
  | NCond "'d node" "'d node" "'d node"
  | NCall string "'d node list"

text \<open>Binding powers: the left one; the right one is one more (every operator is left associative).\<close>

fun left_bp :: "cel_op \<Rightarrow> nat option" where
  "left_bp OpOr = Some 2"
| "left_bp OpAnd = Some 4"
| "left_bp OpEq = Some 6"
| "left_bp OpNe = Some 6"
| "left_bp OpLt = Some 8"
| "left_bp OpLe = Some 8"
| "left_bp OpGt = Some 8"
| "left_bp OpGe = Some 8"
| "left_bp OpPlus = Some 10"
| "left_bp OpMinus = Some 10"
| "left_bp OpTimes = Some 12"
| "left_bp OpDiv = Some 12"
| "left_bp OpMod = Some 12"
| "left_bp OpNot = None"

definition binary_bp :: "cel_op \<Rightarrow> (nat \<times> nat) option" where
  "binary_bp oper = map_option (\<lambda>l. (l, l + 1)) (left_bp oper)"

definition unary_op :: "cel_op \<Rightarrow> bool" where
  "unary_op oper = (oper = OpMinus \<or> oper = OpPlus \<or> oper = OpNot)"

text \<open>What a parser method returns: a value and the tokens left, a throw, or no fuel.\<close>

datatype 'a parsed = OutOfFuel | Throw cel_error | Done 'a

fun bindP :: "'a parsed \<Rightarrow> ('a \<Rightarrow> 'b parsed) \<Rightarrow> 'b parsed" where
  "bindP OutOfFuel f = OutOfFuel"
| "bindP (Throw e) f = Throw e"
| "bindP (Done x) f = f x"

lemma bindP_cong [fundef_cong]:
  "p = p' \<Longrightarrow> (\<And>x. p' = Done x \<Longrightarrow> f x = g x) \<Longrightarrow> bindP p f = bindP p' g"
  by (cases p') simp_all

lemma bindP_Done_iff: "bindP p f = Done y \<longleftrightarrow> (\<exists>x. p = Done x \<and> f x = Done y)"
  by (cases p) simp_all

lemma bindP_OutOfFuel_iff:
  "bindP p f = OutOfFuel \<longleftrightarrow> p = OutOfFuel \<or> (\<exists>x. p = Done x \<and> f x = OutOfFuel)"
  by (cases p) simp_all

text \<open>\<open>peek\<close>: past the end it answers the end-of-input token.\<close>

definition peek :: "'d token list \<Rightarrow> 'd token" where
  "peek ts = (case ts of [] \<Rightarrow> TEof | t # _ \<Rightarrow> t)"

lemma peek_simps [simp]: "peek [] = TEof" "peek (t # ts) = t"
  by (simp_all add: peek_def)

fun token_name :: "'d token \<Rightarrow> string" where
  "token_name (TNum _) = ''num''"
| "token_name (TStr _) = ''str''"
| "token_name (TIdent _) = ''ident''"
| "token_name (TOp _) = ''op''"
| "token_name TLParen = ''lparen''"
| "token_name TRParen = ''rparen''"
| "token_name TComma = ''comma''"
| "token_name TQMark = ''qmark''"
| "token_name TColon = ''colon''"
| "token_name (TBool _) = ''bool''"
| "token_name TNil = ''nil''"
| "token_name TEof = ''eof''"

section \<open>The parser\<close>

text \<open>
  \<open>parse_expr\<close> is \<open>parseExpression\<close> up to its loop, \<open>parse_loop\<close> one pass of the loop with the
  left operand built so far, \<open>parse_args\<close> the argument list of a call after its first \<open>(\<close>.
\<close>

fun parse_expr :: "nat \<Rightarrow> nat \<Rightarrow> 'd token list \<Rightarrow> ('d node \<times> 'd token list) parsed"
  and parse_loop :: "nat \<Rightarrow> nat \<Rightarrow> 'd node \<Rightarrow> 'd token list \<Rightarrow> ('d node \<times> 'd token list) parsed"
  and parse_unary :: "nat \<Rightarrow> 'd token list \<Rightarrow> ('d node \<times> 'd token list) parsed"
  and parse_primary :: "nat \<Rightarrow> 'd token list \<Rightarrow> ('d node \<times> 'd token list) parsed"
  and parse_args :: "nat \<Rightarrow> 'd token list \<Rightarrow> ('d node list \<times> 'd token list) parsed"
where
  "parse_expr 0 m ts = OutOfFuel"
| "parse_expr (Suc n) m ts = bindP (parse_unary n ts) (\<lambda>(lhs, r). parse_loop n m lhs r)"
| "parse_loop 0 m lhs ts = OutOfFuel"
| "parse_loop (Suc n) m lhs ts =
     (case peek ts of
        TQMark \<Rightarrow>
          if m \<le> 1 then
            bindP (parse_expr n 0 (tl ts)) (\<lambda>(thenN, r).
              if peek r \<noteq> TColon then Throw (CelError ''Expected \":\" in ternary'')
              else bindP (parse_expr n 1 (tl r)) (\<lambda>(elseN, r').
                parse_loop n m (NCond lhs thenN elseN) r'))
          else Done (lhs, ts)
      | TOp oper \<Rightarrow>
          (case binary_bp oper of
             None \<Rightarrow> Done (lhs, ts)
           | Some (l, rb) \<Rightarrow>
               if l < m then Done (lhs, ts)
               else bindP (parse_expr n rb (tl ts)) (\<lambda>(rhs, r).
                 parse_loop n m (NBin oper lhs rhs) r))
      | _ \<Rightarrow> Done (lhs, ts))"
| "parse_unary 0 ts = OutOfFuel"
| "parse_unary (Suc n) ts =
     (case peek ts of
        TOp oper \<Rightarrow>
          if unary_op oper
          then bindP (parse_unary n (tl ts)) (\<lambda>(arg, r). Done (NUnary oper arg, r))
          else parse_primary n ts
      | _ \<Rightarrow> parse_primary n ts)"
| "parse_primary 0 ts = OutOfFuel"
| "parse_primary (Suc n) ts =
     (case ts of
        [] \<Rightarrow> Throw TypeErr
      | tok # r \<Rightarrow>
          (case tok of
             TNum v \<Rightarrow> Done (NNum v, r)
           | TStr v \<Rightarrow> Done (NStr v, r)
           | TBool v \<Rightarrow> Done (NBool v, r)
           | TNil \<Rightarrow> Done (NNil, r)
           | TLParen \<Rightarrow>
               bindP (parse_expr n 0 r) (\<lambda>(inner, r').
                 if peek r' \<noteq> TRParen then Throw (CelError ''Expected \")\"'')
                 else Done (inner, tl r'))
           | TIdent name \<Rightarrow>
               if peek r = TLParen then
                 (if peek (tl r) = TRParen then Done (NCall name [], tl (tl r))
                  else bindP (parse_args n (tl r)) (\<lambda>(args, r').
                    if peek r' \<noteq> TRParen then Throw (CelError ''Expected \")\" after args'')
                    else Done (NCall name args, tl r')))
               else Done (NRef name, r)
           | _ \<Rightarrow> Throw (CelError (''Unexpected token '' @ token_name tok))))"
| "parse_args 0 ts = OutOfFuel"
| "parse_args (Suc n) ts =
     bindP (parse_expr n 0 ts) (\<lambda>(a, r).
       if peek r = TComma
       then bindP (parse_args n (tl r)) (\<lambda>(as, r'). Done (a # as, r'))
       else Done ([a], r))"

definition parse_fuel :: "'d token list \<Rightarrow> nat" where
  "parse_fuel ts = 4 * length ts + 4"

text \<open>The method \<open>parse\<close>: one expression and then the end of the input.\<close>

definition parse :: "'d token list \<Rightarrow> 'd node parsed" where
  "parse ts =
     bindP (parse_expr (parse_fuel ts) 0 ts) (\<lambda>(expr, r).
       if peek r \<noteq> TEof then Throw (CelError ''Unexpected trailing input'') else Done expr)"

declare parse_expr.simps [simp del] parse_loop.simps [simp del] parse_unary.simps [simp del]
  parse_primary.simps [simp del] parse_args.simps [simp del]

section \<open>More fuel gives the same result\<close>

definition fuel_le :: "'a parsed \<Rightarrow> 'a parsed \<Rightarrow> bool" where
  "fuel_le p q = (p = OutOfFuel \<or> p = q)"

lemma fuel_le_refl [simp, intro]: "fuel_le p p"
  by (simp add: fuel_le_def)

lemma fuel_le_out [simp]: "fuel_le OutOfFuel p"
  by (simp add: fuel_le_def)

lemma fuel_le_trans: "fuel_le p q \<Longrightarrow> fuel_le q r \<Longrightarrow> fuel_le p r"
  by (auto simp: fuel_le_def)

lemma fuel_le_bind:
  assumes "fuel_le p q" "\<And>x y. fuel_le (f (x, y)) (g (x, y))"
  shows "fuel_le (bindP p f) (bindP q g)"
proof (cases p)
  case (Done x)
  with assms(1) have "q = Done x" by (simp add: fuel_le_def)
  with Done assms(2) show ?thesis by (cases x) simp
qed (use assms(1) in \<open>auto simp: fuel_le_def\<close>)

lemma fuel_le_loop_step:
  assumes "\<And>m (ts :: 'd token list). fuel_le (parse_expr n m ts) (parse_expr (Suc n) m ts)"
    "\<And>m l (ts :: 'd token list). fuel_le (parse_loop n m l ts) (parse_loop (Suc n) m l ts)"
  shows "fuel_le (parse_loop (Suc n) m l (ts :: 'd token list)) (parse_loop (Suc (Suc n)) m l ts)"
  unfolding parse_loop.simps(2)[of n m l ts] parse_loop.simps(2)[of "Suc n" m l ts]
  by (auto split: token.splits option.splits intro!: fuel_le_bind assms)

lemma fuel_le_unary_step:
  assumes "\<And>ts :: 'd token list. fuel_le (parse_unary n ts) (parse_unary (Suc n) ts)"
    "\<And>ts :: 'd token list. fuel_le (parse_primary n ts) (parse_primary (Suc n) ts)"
  shows "fuel_le (parse_unary (Suc n) (ts :: 'd token list)) (parse_unary (Suc (Suc n)) ts)"
  unfolding parse_unary.simps(2)[of n ts] parse_unary.simps(2)[of "Suc n" ts]
  by (auto split: token.splits intro!: fuel_le_bind assms)

lemma fuel_le_primary_step:
  assumes "\<And>m (ts :: 'd token list). fuel_le (parse_expr n m ts) (parse_expr (Suc n) m ts)"
    "\<And>ts :: 'd token list. fuel_le (parse_args n ts) (parse_args (Suc n) ts)"
  shows "fuel_le (parse_primary (Suc n) (ts :: 'd token list)) (parse_primary (Suc (Suc n)) ts)"
  unfolding parse_primary.simps(2)[of n ts] parse_primary.simps(2)[of "Suc n" ts]
  by (auto split: token.splits list.splits intro!: fuel_le_bind assms)

lemma fuel_le_args_step:
  assumes "\<And>m (ts :: 'd token list). fuel_le (parse_expr n m ts) (parse_expr (Suc n) m ts)"
    "\<And>ts :: 'd token list. fuel_le (parse_args n ts) (parse_args (Suc n) ts)"
  shows "fuel_le (parse_args (Suc n) (ts :: 'd token list)) (parse_args (Suc (Suc n)) ts)"
  unfolding parse_args.simps(2)[of n ts] parse_args.simps(2)[of "Suc n" ts]
  by (auto intro!: fuel_le_bind assms)

lemma fuel_le_expr_step:
  assumes "\<And>ts :: 'd token list. fuel_le (parse_unary n ts) (parse_unary (Suc n) ts)"
    "\<And>m l (ts :: 'd token list). fuel_le (parse_loop n m l ts) (parse_loop (Suc n) m l ts)"
  shows "fuel_le (parse_expr (Suc n) m (ts :: 'd token list)) (parse_expr (Suc (Suc n)) m ts)"
  unfolding parse_expr.simps(2)[of n m ts] parse_expr.simps(2)[of "Suc n" m ts]
  by (auto intro!: fuel_le_bind assms)

lemma fuel_le_Suc:
  "(\<forall>m (ts :: 'd token list). fuel_le (parse_expr n m ts) (parse_expr (Suc n) m ts)) \<and>
   (\<forall>m l (ts :: 'd token list). fuel_le (parse_loop n m l ts) (parse_loop (Suc n) m l ts)) \<and>
   (\<forall>ts :: 'd token list. fuel_le (parse_unary n ts) (parse_unary (Suc n) ts)) \<and>
   (\<forall>ts :: 'd token list. fuel_le (parse_primary n ts) (parse_primary (Suc n) ts)) \<and>
   (\<forall>ts :: 'd token list. fuel_le (parse_args n ts) (parse_args (Suc n) ts))"
proof (induction n)
  case 0
  show ?case
    by (simp add: parse_expr.simps(1) parse_loop.simps(1) parse_unary.simps(1)
        parse_primary.simps(1) parse_args.simps(1))
next
  case (Suc n)
  then show ?case
    by (intro conjI allI fuel_le_expr_step fuel_le_loop_step fuel_le_unary_step
        fuel_le_primary_step fuel_le_args_step) simp_all
qed

lemma fuel_le_mono:
  assumes "\<And>n. fuel_le (f n) (f (Suc n))" "n \<le> n'"
  shows "fuel_le (f n) (f n')"
  using assms(2) by (induction rule: dec_induct) (auto intro: assms(1) fuel_le_trans)

lemma fuel_le_more:
  assumes "\<And>n. fuel_le (f n) (f (Suc n))" "f n = Done x" "n \<le> n'"
  shows "f n' = Done x"
  using fuel_le_mono[of f n n'] assms by (simp add: fuel_le_def)

lemma parse_expr_more: "parse_expr n m ts = Done x \<Longrightarrow> n \<le> n' \<Longrightarrow> parse_expr n' m ts = Done x"
  using fuel_le_Suc by (intro fuel_le_more[of "\<lambda>n. parse_expr n m ts" n x n']) blast+

lemma parse_loop_more: "parse_loop n m l ts = Done x \<Longrightarrow> n \<le> n' \<Longrightarrow> parse_loop n' m l ts = Done x"
  using fuel_le_Suc by (intro fuel_le_more[of "\<lambda>n. parse_loop n m l ts" n x n']) blast+

lemma parse_unary_more: "parse_unary n ts = Done x \<Longrightarrow> n \<le> n' \<Longrightarrow> parse_unary n' ts = Done x"
  using fuel_le_Suc by (intro fuel_le_more[of "\<lambda>n. parse_unary n ts" n x n']) blast+

lemma parse_primary_more: "parse_primary n ts = Done x \<Longrightarrow> n \<le> n' \<Longrightarrow> parse_primary n' ts = Done x"
  using fuel_le_Suc by (intro fuel_le_more[of "\<lambda>n. parse_primary n ts" n x n']) blast+

lemma parse_args_more: "parse_args n ts = Done x \<Longrightarrow> n \<le> n' \<Longrightarrow> parse_args n' ts = Done x"
  using fuel_le_Suc by (intro fuel_le_more[of "\<lambda>n. parse_args n ts" n x n']) blast+

section \<open>Totality: every method consumes input\<close>

text \<open>What a call leaves is shorter than what it was given, and the fuel bounds are enough.\<close>

definition shrinks :: "nat \<Rightarrow> ('a \<times> 'd token list) parsed \<Rightarrow> bool" where
  "shrinks n p = (case p of Done (_, r) \<Rightarrow> length r < n | _ \<Rightarrow> True)"

lemma shrinks_simps [simp]:
  "shrinks n OutOfFuel" "shrinks n (Throw e)" "shrinks n (Done (x, r)) \<longleftrightarrow> length r < n"
  by (simp_all add: shrinks_def)

lemma shrinks_bind:
  assumes "shrinks k p" "\<And>x r. length r < k \<Longrightarrow> shrinks n (f (x, r))"
  shows "shrinks n (bindP p f)"
  using assms by (cases p) (auto simp: shrinks_def)

lemma shrinks_weaken: "shrinks k p \<Longrightarrow> k \<le> n \<Longrightarrow> shrinks n p"
  by (auto simp: shrinks_def split: parsed.splits)

lemma peek_nonempty: "peek ts \<noteq> TEof \<Longrightarrow> length (tl ts) < length ts"
  by (cases ts) simp_all

lemma peek_token: "peek ts = t \<Longrightarrow> t \<noteq> TEof \<Longrightarrow> \<exists>r. ts = t # r"
  by (cases ts) simp_all

lemma consumes:
  "(\<forall>m ts. shrinks (length (ts :: 'd token list)) (parse_expr n m ts)) \<and>
   (\<forall>m l ts. shrinks (Suc (length (ts :: 'd token list))) (parse_loop n m l ts)) \<and>
   (\<forall>ts. shrinks (length (ts :: 'd token list)) (parse_unary n ts)) \<and>
   (\<forall>ts. shrinks (length (ts :: 'd token list)) (parse_primary n ts)) \<and>
   (\<forall>ts. shrinks (length (ts :: 'd token list)) (parse_args n ts))"
proof (induction n)
  case 0
  show ?case
    by (simp add: parse_expr.simps(1) parse_loop.simps(1) parse_unary.simps(1)
        parse_primary.simps(1) parse_args.simps(1))
next
  case (Suc n)
  note E = Suc[THEN conjunct1, rule_format]
  note L = Suc[THEN conjunct2, THEN conjunct1, rule_format]
  note U = Suc[THEN conjunct2, THEN conjunct2, THEN conjunct1, rule_format]
  note P = Suc[THEN conjunct2, THEN conjunct2, THEN conjunct2, THEN conjunct1, rule_format]
  note A = Suc[THEN conjunct2, THEN conjunct2, THEN conjunct2, THEN conjunct2, rule_format]
  have loop: "shrinks (Suc (length ts)) (parse_loop (Suc n) m l ts)" for m l and ts :: "'d token list"
    unfolding parse_loop.simps(2)
    by (cases ts)
      (auto split: token.splits option.splits intro!: shrinks_bind[OF E] shrinks_weaken[OF L])
  have unary: "shrinks (length ts) (parse_unary (Suc n) ts)" for ts :: "'d token list"
    unfolding parse_unary.simps(2)
    by (cases ts) (auto split: token.splits intro!: shrinks_bind[OF U] P[of "[]", simplified] P[of "x # y" for x y, simplified])
  have primary: "shrinks (length ts) (parse_primary (Suc n) ts)" for ts :: "'d token list"
    unfolding parse_primary.simps(2)
    by (cases ts; cases "tl ts")
      (auto split: token.splits intro!: shrinks_bind[OF E] shrinks_bind[OF A])
  have args: "shrinks (length ts) (parse_args (Suc n) ts)" for ts :: "'d token list"
    unfolding parse_args.simps(2)
    by (auto intro!: shrinks_bind[OF E] shrinks_bind[OF A])
  have expr: "shrinks (length ts) (parse_expr (Suc n) m ts)" for m and ts :: "'d token list"
    unfolding parse_expr.simps(2)
    by (auto intro!: shrinks_bind[OF U] shrinks_weaken[OF L])
  show ?case using loop unary primary args expr by blast
qed


definition in_fuel :: "'a parsed \<Rightarrow> bool" where
  "in_fuel p = (p \<noteq> OutOfFuel)"

lemma in_fuel_simps [simp]: "in_fuel (Throw e)" "in_fuel (Done x)" "\<not> in_fuel OutOfFuel"
  by (simp_all add: in_fuel_def)

lemma bind_not_out:
  assumes "in_fuel p" "shrinks k p" "\<And>x r. length r < k \<Longrightarrow> in_fuel (f (x, r))"
  shows "in_fuel (bindP p f)"
  using assms by (cases p) auto

lemma enough_fuel:
  "(\<forall>m ts. 4 * length (ts :: 'd token list) + 4 \<le> n \<longrightarrow> in_fuel (parse_expr n m ts)) \<and>
   (\<forall>m l ts. 4 * length (ts :: 'd token list) + 1 \<le> n \<longrightarrow> in_fuel (parse_loop n m l ts)) \<and>
   (\<forall>ts. 4 * length (ts :: 'd token list) + 3 \<le> n \<longrightarrow> in_fuel (parse_unary n ts)) \<and>
   (\<forall>ts. 4 * length (ts :: 'd token list) + 2 \<le> n \<longrightarrow> in_fuel (parse_primary n ts)) \<and>
   (\<forall>ts. 4 * length (ts :: 'd token list) + 5 \<le> n \<longrightarrow> in_fuel (parse_args n ts))"
proof (induction n)
  case (Suc n)
  note E = Suc[THEN conjunct1, rule_format]
  note L = Suc[THEN conjunct2, THEN conjunct1, rule_format]
  note U = Suc[THEN conjunct2, THEN conjunct2, THEN conjunct1, rule_format]
  note P = Suc[THEN conjunct2, THEN conjunct2, THEN conjunct2, THEN conjunct1, rule_format]
  note A = Suc[THEN conjunct2, THEN conjunct2, THEN conjunct2, THEN conjunct2, rule_format]
  note cE = consumes[of n, THEN conjunct1, rule_format]
  note cU = consumes[of n, THEN conjunct2, THEN conjunct2, THEN conjunct1, rule_format]
  note cA = consumes[of n, THEN conjunct2, THEN conjunct2, THEN conjunct2, THEN conjunct2, rule_format]
  have loop: "in_fuel (parse_loop (Suc n) m l ts)"
    if "4 * length ts + 1 \<le> Suc n" for m l and ts :: "'d token list"
    unfolding parse_loop.simps(2) using that
    by (cases ts) (auto split: token.splits option.splits intro!: bind_not_out[OF E cE] L)
  have unary: "in_fuel (parse_unary (Suc n) ts)"
    if "4 * length ts + 3 \<le> Suc n" for ts :: "'d token list"
    unfolding parse_unary.simps(2) using that
    by (cases ts) (auto split: token.splits intro!: bind_not_out[OF U cU] P)
  have primary: "in_fuel (parse_primary (Suc n) ts)"
    if "4 * length ts + 2 \<le> Suc n" for ts :: "'d token list"
    unfolding parse_primary.simps(2) using that
    by (cases ts; cases "tl ts")
      (auto split: token.splits intro!: bind_not_out[OF E cE] bind_not_out[OF A cA])
  have args: "in_fuel (parse_args (Suc n) ts)"
    if "4 * length ts + 5 \<le> Suc n" for ts :: "'d token list"
    unfolding parse_args.simps(2) using that
    by (auto dest!: peek_token intro!: bind_not_out[OF E cE] bind_not_out[OF A cA])
  have expr: "in_fuel (parse_expr (Suc n) m ts)"
    if "4 * length ts + 4 \<le> Suc n" for m and ts :: "'d token list"
    unfolding parse_expr.simps(2) using that
    by (auto intro!: bind_not_out[OF U cU] L)
  show ?case using loop unary primary args expr by blast
qed simp

lemma parse_in_fuel: "in_fuel (parse ts)"
  unfolding parse_def
  by (rule bind_not_out[OF enough_fuel[THEN conjunct1, rule_format] consumes[THEN conjunct1, rule_format]])
    (simp_all add: parse_fuel_def)

section \<open>Every throw is a CelError\<close>

definition ends_eof :: "'d token list \<Rightarrow> bool" where
  "ends_eof ts = (\<exists>us. ts = us @ [TEof] \<and> TEof \<notin> set us)"

lemma ends_eof_Nil [simp]: "\<not> ends_eof []"
  by (simp add: ends_eof_def)

lemma ends_eof_Cons [simp]: "ends_eof (t # ts) \<longleftrightarrow> (if t = TEof then ts = [] else ends_eof ts)"
  by (auto simp: ends_eof_def Cons_eq_append_conv)

lemma ends_eof_tl: "ends_eof ts \<Longrightarrow> peek ts \<noteq> TEof \<Longrightarrow> ends_eof (tl ts)"
  by (cases ts) auto

definition clean_run :: "('a \<Rightarrow> bool) \<Rightarrow> ('a \<times> 'd token list) parsed \<Rightarrow> bool" where
  "clean_run P p = (case p of
     OutOfFuel \<Rightarrow> True
   | Throw e \<Rightarrow> (\<exists>msg. e = CelError msg)
   | Done (x, r) \<Rightarrow> P x \<and> ends_eof r)"

lemma clean_run_simps [simp]:
  "clean_run P OutOfFuel" "clean_run P (Throw (CelError msg))"
  "clean_run P (Done (x, r)) \<longleftrightarrow> P x \<and> ends_eof r"
  by (simp_all add: clean_run_def)

lemma clean_run_bind:
  assumes "clean_run P p" "\<And>x r. P x \<Longrightarrow> ends_eof r \<Longrightarrow> clean_run Q (f (x, r))"
  shows "clean_run Q (bindP p f)"
  using assms by (cases p) (auto simp: clean_run_def)

text \<open>The trees a parser builds: binary nodes hold binary operators, unary nodes unary ones.\<close>

fun wf_node :: "'d node \<Rightarrow> bool" where
  "wf_node (NUnary oper a) \<longleftrightarrow> unary_op oper \<and> wf_node a"
| "wf_node (NBin oper a b) \<longleftrightarrow> binary_bp oper \<noteq> None \<and> wf_node a \<and> wf_node b"
| "wf_node (NCond a b c) \<longleftrightarrow> wf_node a \<and> wf_node b \<and> wf_node c"
| "wf_node (NCall name as) \<longleftrightarrow> (\<forall>a\<in>set as. wf_node a)"
| "wf_node _ \<longleftrightarrow> True"

lemma clean_runs:
  "(\<forall>m ts. ends_eof (ts :: 'd token list) \<longrightarrow> clean_run wf_node (parse_expr n m ts)) \<and>
   (\<forall>m l ts. wf_node l \<longrightarrow> ends_eof (ts :: 'd token list) \<longrightarrow> clean_run wf_node (parse_loop n m l ts)) \<and>
   (\<forall>ts. ends_eof (ts :: 'd token list) \<longrightarrow> clean_run wf_node (parse_unary n ts)) \<and>
   (\<forall>ts. ends_eof (ts :: 'd token list) \<longrightarrow> clean_run wf_node (parse_primary n ts)) \<and>
   (\<forall>ts. ends_eof (ts :: 'd token list) \<longrightarrow> clean_run (\<lambda>as. \<forall>a\<in>set as. wf_node a) (parse_args n ts))"
proof (induction n)
  case 0
  show ?case
    by (simp add: parse_expr.simps(1) parse_loop.simps(1) parse_unary.simps(1)
        parse_primary.simps(1) parse_args.simps(1))
next
  case (Suc n)
  note E = Suc[THEN conjunct1, rule_format]
  note L = Suc[THEN conjunct2, THEN conjunct1, rule_format]
  note U = Suc[THEN conjunct2, THEN conjunct2, THEN conjunct1, rule_format]
  note P = Suc[THEN conjunct2, THEN conjunct2, THEN conjunct2, THEN conjunct1, rule_format]
  note A = Suc[THEN conjunct2, THEN conjunct2, THEN conjunct2, THEN conjunct2, rule_format]
  have loop: "clean_run wf_node (parse_loop (Suc n) m l ts)"
    if "wf_node l" "ends_eof ts" for m l and ts :: "'d token list"
    unfolding parse_loop.simps(2) using that
    by (auto split: token.splits option.splits intro!: clean_run_bind[OF E] L ends_eof_tl)
  have unary: "clean_run wf_node (parse_unary (Suc n) ts)"
    if "ends_eof ts" for ts :: "'d token list"
    unfolding parse_unary.simps(2) using that
    by (auto split: token.splits intro!: clean_run_bind[OF U] P ends_eof_tl)
  have primary: "clean_run wf_node (parse_primary (Suc n) ts)"
    if "ends_eof ts" for ts :: "'d token list"
    unfolding parse_primary.simps(2) using that
    by (auto split: token.splits list.splits intro!: clean_run_bind[OF E] clean_run_bind[OF A] ends_eof_tl)
  have args: "clean_run (\<lambda>as. \<forall>a\<in>set as. wf_node a) (parse_args (Suc n) ts)"
    if "ends_eof ts" for ts :: "'d token list"
    unfolding parse_args.simps(2) using that
    by (auto intro!: clean_run_bind[OF E] clean_run_bind[OF A] ends_eof_tl)
  have expr: "clean_run wf_node (parse_expr (Suc n) m ts)"
    if "ends_eof ts" for m and ts :: "'d token list"
    unfolding parse_expr.simps(2) using that
    by (auto intro!: clean_run_bind[OF U] L)
  show ?case using loop unary primary args expr by blast
qed

lemma parse_outcomes:
  assumes "ends_eof ts"
  shows "(\<exists>e. parse ts = Done e \<and> wf_node e) \<or> (\<exists>msg. parse ts = Throw (CelError msg))"
proof -
  have "clean_run wf_node (parse_expr (parse_fuel ts) 0 ts)"
    using clean_runs assms by blast
  moreover have "in_fuel (parse ts)" by (rule parse_in_fuel)
  ultimately show ?thesis
    by (cases "parse_expr (parse_fuel ts) 0 ts") (auto simp: parse_def clean_run_def split: if_splits)
qed

definition lexed :: "cel_error + 'd token list \<Rightarrow> bool" where
  "lexed r = (case r of Inl e \<Rightarrow> True | Inr ts \<Rightarrow> ends_eof ts)"

lemma lexed_simps [simp]: "lexed (Inl e)" "lexed (Inr ts) \<longleftrightarrow> ends_eof ts"
  by (simp_all add: lexed_def)

lemma lexed_push: "lexed r \<Longrightarrow> t \<noteq> TEof \<Longrightarrow> lexed (push_token t r)"
  by (cases r) auto

lemma word_token_not_eof [simp]: "word_token w \<noteq> TEof"
  by (simp add: word_token_def)

lemma punct_not_eof [simp]: "punct c = Some t \<Longrightarrow> t \<noteq> TEof"
  by (auto simp: punct_def split: if_splits)

lemma lexed_if: "(b \<Longrightarrow> lexed x) \<Longrightarrow> (\<not> b \<Longrightarrow> lexed y) \<Longrightarrow> lexed (if b then x else y)"
  by simp

lemma lexed_option:
  "(v = None \<Longrightarrow> lexed x) \<Longrightarrow> (\<And>w. v = Some w \<Longrightarrow> lexed (f w)) \<Longrightarrow> lexed (case v of None \<Rightarrow> x | Some w \<Rightarrow> f w)"
  by (cases v) simp_all

lemma lexed_pair: "(\<And>x y. v = (x, y) \<Longrightarrow> lexed (f x y)) \<Longrightarrow> lexed (case v of (x, y) \<Rightarrow> f x y)"
  by (cases v) simp

lemma tokenize_from_lexed: "lexed (tokenize_from D i s)"
proof (induction D i s rule: tokenize_from.induct)
  case (2 D i c s)
  show ?case
    unfolding tokenize_from.simps
    by (intro lexed_if lexed_option lexed_pair lexed_push lexed_simps(1))
      ((rule 2, (assumption | rule sym, assumption)+) | simp)+
qed (simp add: tokenize_from.simps)

end
