(* ===== verification/Cel_Print.thy ===== *)
theory Cel_Print
  imports Cel_Parser
begin

text \<open>
  A printer for formulas and the proof that the parser reads back what it prints. The printer
  is not code of the repository: it is the specification of the grammar the parser accepts
  (precedence, associativity, where parentheses are needed).
\<close>

section \<open>Printing and parsing\<close>

text \<open>
  \<open>print_at k e\<close> writes the tree at binding power k, with parentheses only where the tree
  binds weaker than its place and around a compound operand of a unary operator.
\<close>

definition parens :: "'d token list \<Rightarrow> 'd token list" where
  "parens ts = TLParen # ts @ [TRParen]"

fun sep_commas :: "'d token list list \<Rightarrow> 'd token list" where
  "sep_commas [] = []"
| "sep_commas [ts] = ts"
| "sep_commas (ts # us # vs) = ts @ TComma # sep_commas (us # vs)"

fun compound :: "'d node \<Rightarrow> bool" where
  "compound (NBin _ _ _) = True"
| "compound (NCond _ _ _) = True"
| "compound _ = False"

fun print_at :: "nat \<Rightarrow> 'd node \<Rightarrow> 'd token list" where
  "print_at k (NNum v) = [TNum v]"
| "print_at k (NStr s) = [TStr s]"
| "print_at k (NBool b) = [TBool b]"
| "print_at k NNil = [TNil]"
| "print_at k (NRef name) = [TIdent name]"
| "print_at k (NUnary oper a) = TOp oper #
     (if compound a then parens (print_at 0 a) else print_at 0 a)"
| "print_at k (NBin oper a b) =
     (let l = the (left_bp oper); ts = print_at l a @ TOp oper # print_at (l + 1) b
      in if k \<le> l then ts else parens ts)"
| "print_at k (NCond a b c) =
     (let ts = print_at 2 a @ TQMark # print_at 0 b @ TColon # print_at 1 c
      in if k \<le> 1 then ts else parens ts)"
| "print_at k (NCall name as) = TIdent name # parens (sep_commas (map (print_at 0) as))"

text \<open>Runs of the methods with some fuel.\<close>

definition "runs_expr m ts x = (\<exists>n. parse_expr n m ts = Done x)"
definition "runs_loop m l ts x = (\<exists>n. parse_loop n m l ts = Done x)"
definition "runs_unary ts x = (\<exists>n. parse_unary n ts = Done x)"
definition "runs_args ts x = (\<exists>n. parse_args n ts = Done x)"

lemma runs_exprI: "runs_unary ts (a, r) \<Longrightarrow> runs_loop m a r x \<Longrightarrow> runs_expr m ts x"
proof -
  assume "runs_unary ts (a, r)" "runs_loop m a r x"
  then obtain n n' where "parse_unary n ts = Done (a, r)" "parse_loop n' m a r = Done x"
    by (auto simp: runs_unary_def runs_loop_def)
  then have "parse_expr (Suc (max n n')) m ts = Done x"
    by (simp add: parse_expr.simps(2) parse_unary_more[of n _ _ "max n n'"]
        parse_loop_more[of n' _ _ _ _ "max n n'"])
  then show ?thesis unfolding runs_expr_def by blast
qed

lemma runs_loop_bin:
  assumes "left_bp oper = Some l" "m \<le> l" "runs_expr (l + 1) ts (b, r)" "runs_loop m (NBin oper a b) r x"
  shows "runs_loop m a (TOp oper # ts) x"
proof -
  from assms obtain n n' where "parse_expr n (l + 1) ts = Done (b, r)"
    "parse_loop n' m (NBin oper a b) r = Done x"
    by (auto simp: runs_expr_def runs_loop_def)
  with assms(1,2) have "parse_loop (Suc (max n n')) m a (TOp oper # ts) = Done x"
    by (simp add: parse_loop.simps(2) binary_bp_def parse_expr_more[of n _ _ _ "max n n'"]
        parse_loop_more[of n' _ _ _ _ "max n n'"])
  then show ?thesis unfolding runs_loop_def by blast
qed

lemma runs_loop_cond:
  assumes "m \<le> 1" "runs_expr 0 ts (b, TColon # us)" "runs_expr 1 us (c, r)"
    "runs_loop m (NCond a b c) r x"
  shows "runs_loop m a (TQMark # ts) x"
proof -
  from assms obtain n n' n'' where n: "parse_expr n 0 ts = Done (b, TColon # us)"
    "parse_expr n' 1 us = Done (c, r)" "parse_loop n'' m (NCond a b c) r = Done x"
    by (auto simp: runs_expr_def runs_loop_def)
  let ?k = "max n (max n' n'')"
  have "parse_expr ?k 0 ts = Done (b, TColon # us)" "parse_expr ?k 1 us = Done (c, r)"
    "parse_loop ?k m (NCond a b c) r = Done x"
    using n by (auto intro: parse_expr_more parse_loop_more)
  with assms(1) have "parse_loop (Suc ?k) m a (TQMark # ts) = Done x"
    by (simp add: parse_loop.simps(2) del: max.bounded_iff)
  then show ?thesis unfolding runs_loop_def by blast
qed

text \<open>What may follow a tree printed at power k: nothing that its last operand would take.\<close>

definition follows :: "nat \<Rightarrow> 'd token list \<Rightarrow> bool" where
  "follows k r = (case peek r of
     TOp oper \<Rightarrow> (case left_bp oper of None \<Rightarrow> True | Some l \<Rightarrow> l \<le> k)
   | TQMark \<Rightarrow> 1 < k
   | TLParen \<Rightarrow> False
   | _ \<Rightarrow> True)"

lemma runs_loop_stop:
  assumes "follows k r" "k < m" shows "runs_loop m a r (a, r)"
proof -
  have "parse_loop 1 m a r = Done (a, r)"
    using assms by (auto simp: parse_loop.simps follows_def binary_bp_def split: token.splits option.splits)
  then show ?thesis unfolding runs_loop_def by blast
qed

lemma runs_loop_low: "follows k r \<Longrightarrow> k \<le> 1 \<Longrightarrow> runs_loop m a r (a, r)"
proof -
  assume f: "follows k r" "k \<le> 1"
  have "parse_loop 1 m a r = Done (a, r)"
  proof (cases "peek r")
    case (TOp oper)
    with f show ?thesis by (cases oper) (auto simp: parse_loop.simps follows_def binary_bp_def)
  qed (use f in \<open>auto simp: parse_loop.simps follows_def\<close>)
  then show ?thesis unfolding runs_loop_def by blast
qed

lemma follows_mono: "follows k r \<Longrightarrow> k \<le> k' \<Longrightarrow> follows k' r"
  by (auto simp: follows_def split: token.splits option.splits)

lemma follows_closers [simp]:
  "follows k (TRParen # r)" "follows k (TComma # r)" "follows k (TColon # r)" "follows k [TEof]"
  "follows k (TQMark # r) \<longleftrightarrow> 1 < k"
  by (simp_all add: follows_def)

lemma follows_no_paren: "follows k r \<Longrightarrow> peek r \<noteq> TLParen"
  by (auto simp: follows_def)

lemma runs_unary_atom:
  "parse_primary 1 ts = Done x \<Longrightarrow> \<forall>oper. peek ts \<noteq> TOp oper \<Longrightarrow> runs_unary ts x"
  unfolding runs_unary_def
  by (rule exI[of _ 2]) (auto simp: numeral_2_eq_2 parse_unary.simps split: token.split)

lemma runs_unary_op: "unary_op oper \<Longrightarrow> runs_unary ts (a, r) \<Longrightarrow> runs_unary (TOp oper # ts) (NUnary oper a, r)"
proof -
  assume "unary_op oper" "runs_unary ts (a, r)"
  then obtain n where "parse_unary n ts = Done (a, r)" by (auto simp: runs_unary_def)
  with \<open>unary_op oper\<close> have "parse_unary (Suc n) (TOp oper # ts) = Done (NUnary oper a, r)"
    by (simp add: parse_unary.simps)
  then show ?thesis unfolding runs_unary_def by blast
qed

lemma runs_unary_parens:
  assumes "runs_expr 0 (ts @ TRParen # r) (a, TRParen # r)"
  shows "runs_unary (parens ts @ r) (a, r)"
proof -
  from assms obtain n where "parse_expr n 0 (ts @ TRParen # r) = Done (a, TRParen # r)"
    by (auto simp: runs_expr_def)
  then have "parse_unary (Suc (Suc n)) (parens ts @ r) = Done (a, r)"
    by (simp add: parens_def parse_unary.simps parse_primary.simps)
  then show ?thesis unfolding runs_unary_def by blast
qed

lemma runs_unary_call:
  assumes "runs_args ts (as, TRParen # r)" "peek ts \<noteq> TRParen"
  shows "runs_unary (TIdent name # TLParen # ts) (NCall name as, r)"
proof -
  from assms obtain n where "parse_args n ts = Done (as, TRParen # r)"
    by (auto simp: runs_args_def)
  with assms(2) have "parse_unary (Suc (Suc n)) (TIdent name # TLParen # ts) = Done (NCall name as, r)"
    by (simp add: parse_unary.simps parse_primary.simps)
  then show ?thesis unfolding runs_unary_def by blast
qed

lemma runs_args_one: "runs_expr 0 ts (a, r) \<Longrightarrow> peek r \<noteq> TComma \<Longrightarrow> runs_args ts ([a], r)"
proof -
  assume "runs_expr 0 ts (a, r)" "peek r \<noteq> TComma"
  then obtain n where "parse_expr n 0 ts = Done (a, r)" by (auto simp: runs_expr_def)
  with \<open>peek r \<noteq> TComma\<close> have "parse_args (Suc n) ts = Done ([a], r)"
    by (simp add: parse_args.simps)
  then show ?thesis unfolding runs_args_def by blast
qed

lemma runs_args_more:
  assumes "runs_expr 0 ts (a, TComma # us)" "runs_args us (as, r)"
  shows "runs_args ts (a # as, r)"
proof -
  from assms obtain n n' where n: "parse_expr n 0 ts = Done (a, TComma # us)"
    "parse_args n' us = Done (as, r)" by (auto simp: runs_expr_def runs_args_def)
  have "parse_expr (max n n') 0 ts = Done (a, TComma # us)" "parse_args (max n n') us = Done (as, r)"
    using n by (auto intro: parse_expr_more parse_args_more)
  then have "parse_args (Suc (max n n')) ts = Done (a # as, r)"
    by (simp add: parse_args.simps del: max.bounded_iff)
  then show ?thesis unfolding runs_args_def by blast
qed

lemma print_at_start: "print_at k e \<noteq> [] \<and> hd (print_at k e) \<noteq> TRParen"
  by (induction k e rule: print_at.induct) (auto simp: parens_def Let_def hd_append)

lemma peek_print_at: "peek (print_at k e @ r) \<noteq> TRParen"
  using print_at_start[of k e] by (cases "print_at k e") auto

definition reads_back :: "'d node \<Rightarrow> bool" where
  "reads_back e = (\<forall>k m rest x. m \<le> k \<longrightarrow> follows k rest \<longrightarrow> runs_loop m e rest x \<longrightarrow>
     runs_expr m (print_at k e @ rest) x)"

lemma reads_backD:
  "reads_back e \<Longrightarrow> m \<le> k \<Longrightarrow> follows k rest \<Longrightarrow> runs_loop m e rest x \<Longrightarrow> runs_expr m (print_at k e @ rest) x"
  unfolding reads_back_def by blast

lemma reads_backI:
  assumes "\<And>k rest. peek rest \<noteq> TLParen \<Longrightarrow> runs_unary (print_at k e @ rest) (e, rest)"
  shows "reads_back e \<and>
    (\<forall>k rest. \<not> compound e \<longrightarrow> peek rest \<noteq> TLParen \<longrightarrow> runs_unary (print_at k e @ rest) (e, rest))"
  using assms follows_no_paren unfolding reads_back_def by (blast intro: runs_exprI)

lemma reads_back_atom:
  assumes "\<And>k rest. peek rest \<noteq> TLParen \<Longrightarrow>
      parse_primary 1 (print_at k e @ rest) = Done (e, rest) \<and> (\<forall>oper. peek (print_at k e @ rest) \<noteq> TOp oper)"
  shows "reads_back e \<and>
    (\<forall>k rest. \<not> compound e \<longrightarrow> peek rest \<noteq> TLParen \<longrightarrow> runs_unary (print_at k e @ rest) (e, rest))"
  using assms by (intro reads_backI runs_unary_atom) blast+

lemma reads_back_parens:
  assumes "reads_back e" shows "runs_unary (parens (print_at 0 e) @ rest) (e, rest)"
  by (intro runs_unary_parens reads_backD[OF assms] runs_loop_low[of 0]) simp_all

lemma reads_back_args:
  assumes "\<forall>a\<in>set as. reads_back a" "as \<noteq> []"
  shows "runs_args (sep_commas (map (print_at 0) as) @ TRParen # r) (as, TRParen # r)"
  using assms
proof (induction as rule: induct_list012)
  case (2 a)
  then show ?case
    by (auto intro!: runs_args_one reads_backD runs_loop_low[of 0])
next
  case (3 a b as)
  have "runs_expr 0 (print_at 0 a @ TComma # sep_commas (map (print_at 0) (b # as)) @ TRParen # r)
      (a, TComma # sep_commas (map (print_at 0) (b # as)) @ TRParen # r)"
    using 3 by (intro reads_backD runs_loop_low[of 0]) simp_all
  with 3 show ?case by (auto intro: runs_args_more)
qed simp

lemma reads_back_bin:
  assumes "reads_back a" "reads_back b" "left_bp oper = Some l"
  shows "reads_back (NBin oper a b)"
proof -
  have bare: "runs_expr m (print_at l a @ TOp oper # print_at (l + 1) b @ rest) x"
    if "m \<le> l" "follows l rest" "runs_loop m (NBin oper a b) rest x" for m rest x
  proof (intro reads_backD[OF assms(1)] runs_loop_bin)
    show "runs_expr (l + 1) (print_at (l + 1) b @ rest) (b, rest)"
      using that(2) by (intro reads_backD[OF assms(2)] runs_loop_stop[of l]) (auto intro: follows_mono)
  qed (use that assms(3) in \<open>simp_all add: follows_def\<close>)
  have par: "runs_unary (parens (print_at 0 (NBin oper a b)) @ rest) (NBin oper a b, rest)" for rest
    using bare[of 0 "TRParen # rest"] assms(3)
    by (intro runs_unary_parens) (simp add: runs_loop_low[of 0])
  show ?thesis
    unfolding reads_back_def
  proof (intro allI impI)
    fix k m rest x
    assume "m \<le> k" "follows k rest" "runs_loop m (NBin oper a b) rest x"
    then show "runs_expr m (print_at k (NBin oper a b) @ rest) x"
      using bare[of m rest x] par[of rest] assms(3)
      by (cases "k \<le> l") (auto intro: follows_mono runs_exprI)
  qed
qed

lemma reads_back_cond:
  assumes "reads_back a" "reads_back b" "reads_back c"
  shows "reads_back (NCond a b c)"
proof -
  have bare: "runs_expr m (print_at 2 a @ TQMark # print_at 0 b @ TColon # print_at 1 c @ rest) x"
    if "m \<le> 1" "follows 1 rest" "runs_loop m (NCond a b c) rest x" for m rest x
  proof (intro reads_backD[OF assms(1)] runs_loop_cond)
    show "runs_expr 0 (print_at 0 b @ TColon # print_at 1 c @ rest) (b, TColon # print_at 1 c @ rest)"
      by (intro reads_backD[OF assms(2)] runs_loop_low[of 0]) simp_all
    show "runs_expr 1 (print_at 1 c @ rest) (c, rest)"
      using that(2) by (intro reads_backD[OF assms(3)] runs_loop_low[of 1]) simp_all
  qed (use that in simp_all)
  have par: "runs_unary (parens (print_at 0 (NCond a b c)) @ rest) (NCond a b c, rest)" for rest
    using bare[of 0 "TRParen # rest"]
    by (intro runs_unary_parens) (simp add: runs_loop_low[of 0])
  show ?thesis
    unfolding reads_back_def
  proof (intro allI impI)
    fix k m rest x
    assume "m \<le> k" "follows k rest" "runs_loop m (NCond a b c) rest x"
    then show "runs_expr m (print_at k (NCond a b c) @ rest) x"
      using bare[of m rest x] par[of rest]
      by (cases "k \<le> 1") (auto intro: follows_mono runs_exprI)
  qed
qed

lemma print_reads_back:
  "wf_node e \<Longrightarrow> reads_back e \<and>
     (\<forall>k rest. \<not> compound e \<longrightarrow> peek rest \<noteq> TLParen \<longrightarrow> runs_unary (print_at k e @ rest) (e, rest))"
proof (induction e)
  case (NUnary oper a)
  then have "runs_unary (print_at k (NUnary oper a) @ rest) (NUnary oper a, rest)"
    if "peek rest \<noteq> TLParen" for k rest
    using that reads_back_parens[of a rest] by (auto intro!: runs_unary_op)
  then show ?case by (rule reads_backI)
next
  case (NBin oper a b)
  then show ?case by (auto simp: binary_bp_def intro: reads_back_bin)
next
  case (NCond a b c)
  then show ?case by (auto intro: reads_back_cond)
next
  case (NCall name as)
  have "runs_unary (print_at k (NCall name as) @ rest) (NCall name as, rest)" for k rest
  proof (cases as)
    case Nil
    have "parse_primary 1 (TIdent name # TLParen # TRParen # rest) = Done (NCall name [], rest)"
      by (simp add: parse_primary.simps)
    then show ?thesis using Nil by (auto simp: parens_def intro: runs_unary_atom)
  next
    case (Cons b bs)
    have "peek (sep_commas (map (print_at 0) as) @ TRParen # rest) \<noteq> TRParen"
      using Cons by (cases bs) (simp_all add: peek_print_at)
    moreover have "\<forall>a\<in>set as. reads_back a" using NCall by auto
    ultimately show ?thesis
      using reads_back_args[of as rest] Cons by (simp add: parens_def runs_unary_call)
  qed
  then show ?case by (intro reads_backI)
qed (rule reads_back_atom; simp add: parse_primary.simps)+

lemma parse_expr_parse_fuel:
  assumes "runs_expr 0 ts x" shows "parse_expr (parse_fuel ts) 0 ts = Done x"
proof -
  obtain n where n: "parse_expr n 0 ts = Done x"
    using assms by (auto simp: runs_expr_def)
  have "in_fuel (parse_expr (parse_fuel ts) 0 ts)"
    by (rule enough_fuel[THEN conjunct1, rule_format]) (simp add: parse_fuel_def)
  moreover have "fuel_le (parse_expr (parse_fuel ts) 0 ts) (parse_expr (max n (parse_fuel ts)) 0 ts)"
    by (rule fuel_le_mono[of "\<lambda>n. parse_expr n 0 ts"])
      (simp_all add: fuel_le_Suc[THEN conjunct1, rule_format])
  ultimately show ?thesis
    using parse_expr_more[OF n, of "max n (parse_fuel ts)"] by (auto simp: fuel_le_def)
qed

lemma print_parses:
  assumes "wf_node e" shows "parse (print_at 0 e @ [TEof]) = Done e"
proof -
  have "runs_expr 0 (print_at 0 e @ [TEof]) (e, [TEof])"
    using print_reads_back[OF assms]
    by (intro reads_backD runs_loop_low[of 0]) auto
  then show ?thesis by (simp add: parse_def parse_expr_parse_fuel)
qed

section \<open>From text to tokens and back\<close>

definition escape_char :: "char \<Rightarrow> string" where
  "escape_char c = (if c = CHR 0x22 \<or> c = CHR 0x5C then [CHR 0x5C, c] else [c])"

fun show_token :: "('d \<Rightarrow> string) \<Rightarrow> 'd token \<Rightarrow> string" where
  "show_token num (TNum v) = num v"
| "show_token num (TStr s) = CHR 0x22 # concat (map escape_char s) @ [CHR 0x22]"
| "show_token num (TIdent w) = w"
| "show_token num (TOp oper) = op_text oper"
| "show_token num TLParen = ''(''"
| "show_token num TRParen = '')''"
| "show_token num TComma = '',''"
| "show_token num TQMark = ''?''"
| "show_token num TColon = '':''"
| "show_token num (TBool b) = (if b then ''true'' else ''false'')"
| "show_token num TNil = ''null''"
| "show_token num TEof = []"

definition show_tokens :: "('d \<Rightarrow> string) \<Rightarrow> 'd token list \<Rightarrow> string" where
  "show_tokens num ts = concat (map (\<lambda>t. show_token num t @ '' '') ts)"

definition good_name :: "string \<Rightarrow> bool" where
  "good_name w = (w \<noteq> [] \<and> ident_start (hd w) \<and> list_all ident_char w \<and>
     w \<notin> set [''true'', ''false'', ''null'', ''nil''])"

text \<open>Tokens that text can carry; a number is a text that the decimal library reads back.\<close>

fun good_token :: "'d decimal_api \<Rightarrow> ('d \<Rightarrow> string) \<Rightarrow> 'd token \<Rightarrow> bool" where
  "good_token D num (TNum v) \<longleftrightarrow> num v \<noteq> [] \<and> is_digit (hd (num v)) \<and> list_all num_char (num v) \<and>
     d_parse D (filter (\<lambda>x. x \<noteq> CHR ''_'') (num v)) = Some v"
| "good_token D num (TIdent w) \<longleftrightarrow> good_name w"
| "good_token D num TEof \<longleftrightarrow> False"
| "good_token D num _ \<longleftrightarrow> True"

lemma takeWhile_stop: "list_all P w \<Longrightarrow> \<not> P c \<Longrightarrow> takeWhile P (w @ c # s) = w \<and> dropWhile P (w @ c # s) = c # s"
  by (induction w) auto

lemma char_class_simps:
  "\<not> num_char (CHR '' '')" "\<not> ident_char (CHR '' '')" "lex_space (CHR '' '')"
  by (simp_all add: num_char_def is_digit_def char_in_def ident_char_def is_alpha_def lex_space_def)

lemma scan_number_stop: "list_all num_char w \<Longrightarrow> scan_number (w @ CHR '' '' # s) = (w, CHR '' '' # s)"
  by (simp add: scan_number_def takeWhile_stop char_class_simps Let_def)

lemma scan_string_escaped:
  "scan_string (CHR 0x22) (concat (map escape_char w) @ CHR 0x22 # s) = Some (w, s)"
  by (induction w) (auto simp: escape_char_def)

lemma digit_not_space: "is_digit c \<Longrightarrow> \<not> lex_space c"
  by (auto simp: is_digit_def char_in_def lex_space_def)

lemma ident_start_plain: "ident_start c \<Longrightarrow> \<not> lex_space c \<and> \<not> is_digit c \<and> \<not> is_quote c"
  by (auto simp: is_digit_def char_in_def lex_space_def ident_start_def is_alpha_def is_quote_def Let_def)

lemma tokenize_space: "tokenize_from D i (CHR '' '' # s) = tokenize_from D (i + 1) s"
  by (simp add: tokenize_from.simps char_class_simps)

lemma tokenize_word:
  assumes "w \<noteq> []" "ident_start (hd w)" "list_all ident_char w"
  shows "tokenize_from D i (w @ CHR '' '' # s) = push_token (word_token w) (tokenize_from D (i + length w + 1) s)"
proof -
  obtain c w' where w: "w = c # w'" using assms(1) by (cases w) auto
  have "takeWhile ident_char (w @ CHR '' '' # s) = w" "dropWhile ident_char (w @ CHR '' '' # s) = CHR '' '' # s"
    using takeWhile_stop[OF assms(3) char_class_simps(2)] by auto
  then show ?thesis
    using assms ident_start_plain[of c] unfolding w append_Cons
    by (simp only: tokenize_from.simps(2)[of D i c]) (simp add: tokenize_space)
qed

lemma tokenize_number:
  assumes "good_token D num (TNum v)"
  shows "tokenize_from D i (num v @ CHR '' '' # s) = push_token (TNum v) (tokenize_from D (i + length (num v) + 1) s)"
proof -
  obtain c w' where w: "num v = c # w'" using assms by (cases "num v") auto
  have "scan_number (num v @ CHR '' '' # s) = (num v, CHR '' '' # s)"
    using assms by (intro scan_number_stop) simp
  moreover have "is_digit c" "d_parse D (filter (\<lambda>x. x \<noteq> CHR ''_'') (num v)) = Some v"
    using assms w by auto
  ultimately show ?thesis
    using digit_not_space[of c] unfolding w append_Cons
    by (simp only: tokenize_from.simps(2)[of D i c]) (simp add: tokenize_space)
qed

lemma tokenize_string:
  "\<exists>k. tokenize_from D i (show_token num (TStr w) @ CHR '' '' # s) = push_token (TStr w) (tokenize_from D k s)"
  by (simp add: tokenize_from.simps scan_string_escaped tokenize_space char_in_def lex_space_def
      is_digit_def is_quote_def)
    blast

lemma tokenize_punct:
  assumes "t \<in> {TLParen, TRParen, TComma, TQMark, TColon}"
  shows "tokenize_from D i (show_token num t @ CHR '' '' # s) = push_token t (tokenize_from D (i + 2) s)"
  using assms
  by (auto simp: tokenize_from.simps tokenize_space char_in_def lex_space_def is_digit_def is_quote_def
      ident_start_def is_alpha_def two_char_op_def one_char_op_def punct_def)

lemma tokenize_op:
  "\<exists>k. tokenize_from D i (show_token num (TOp oper) @ CHR '' '' # s) = push_token (TOp oper) (tokenize_from D k s)"
  by (cases oper)
    (auto simp: tokenize_from.simps tokenize_space char_in_def lex_space_def is_digit_def is_quote_def
      ident_start_def is_alpha_def two_char_op_def one_char_op_def punct_def)

lemma tokenize_token:
  fixes t :: "'d token"
  assumes "good_token D num t"
  shows "\<exists>k. tokenize_from D i (show_token num t @ CHR '' '' # s) = push_token t (tokenize_from D k s)"
proof (cases t)
  case (TNum v)
  with assms tokenize_number[of D num v] show ?thesis by auto
next
  case (TIdent w)
  then have "word_token w = (TIdent w :: 'd token)" using assms by (auto simp: good_name_def word_token_def)
  with tokenize_word[of w D i s] assms TIdent
  have "tokenize_from D i (w @ CHR '' '' # s) = push_token (TIdent w) (tokenize_from D (i + length w + 1) s)"
    by (simp add: good_name_def)
  then show ?thesis using TIdent by (metis show_token.simps(3))
next
  case (TBool b)
  then show ?thesis
    using tokenize_word[of "show_token num t" D i s]
    by (cases b) (simp_all add: ident_start_def ident_char_def is_alpha_def char_in_def word_token_def, blast+)
next
  case TNil
  then show ?thesis
    using tokenize_word[of "show_token num t" D i s]
    by (simp add: ident_start_def ident_char_def is_alpha_def char_in_def word_token_def, blast)
qed (use assms tokenize_string tokenize_op tokenize_punct[of t D i num s] in auto)

lemma tokenize_show_tokens:
  "list_all (good_token D num) ts \<Longrightarrow> tokenize_from D i (show_tokens num ts) = Inr (ts @ [TEof])"
proof (induction ts arbitrary: i)
  case Nil
  show ?case by (simp add: show_tokens_def tokenize_from.simps)
next
  case (Cons t ts)
  obtain k where "tokenize_from D i (show_token num t @ CHR '' '' # show_tokens num ts) =
      push_token t (tokenize_from D k (show_tokens num ts))"
    using tokenize_token[of D num t i "show_tokens num ts"] Cons.prems by auto
  then show ?case using Cons by (simp add: show_tokens_def)
qed

text \<open>A tree whose names and numbers text can carry.\<close>

fun good_node :: "'d decimal_api \<Rightarrow> ('d \<Rightarrow> string) \<Rightarrow> 'd node \<Rightarrow> bool" where
  "good_node D num (NNum v) \<longleftrightarrow> good_token D num (TNum v)"
| "good_node D num (NRef w) \<longleftrightarrow> good_name w"
| "good_node D num (NUnary oper a) \<longleftrightarrow> good_node D num a"
| "good_node D num (NBin oper a b) \<longleftrightarrow> good_node D num a \<and> good_node D num b"
| "good_node D num (NCond a b c) \<longleftrightarrow> good_node D num a \<and> good_node D num b \<and> good_node D num c"
| "good_node D num (NCall w as) \<longleftrightarrow> good_name w \<and> (\<forall>a\<in>set as. good_node D num a)"
| "good_node D num _ \<longleftrightarrow> True"

lemma good_sep_commas:
  "list_all (good_token D num) (sep_commas (map f as)) \<longleftrightarrow> (\<forall>a\<in>set as. list_all (good_token D num) (f a))"
  by (induction as rule: induct_list012) auto

lemma good_parens: "list_all (good_token D num) (parens ts) \<longleftrightarrow> list_all (good_token D num) ts"
  by (simp add: parens_def)

lemma good_print: "good_node D num e \<Longrightarrow> list_all (good_token D num) (print_at k e)"
  by (induction k e rule: print_at.induct) (simp_all add: good_parens Let_def good_sep_commas)

definition formula_text :: "('d \<Rightarrow> string) \<Rightarrow> 'd node \<Rightarrow> string" where
  "formula_text num e = show_tokens num (print_at 0 e)"

end
