(* ===== verification/Cel_Eval.thy ===== *)
theory Cel_Eval
  imports Cel_Parser
begin

text \<open>
  The evaluator of the formula language (evalNode, resolveRef, evalBin, evalCall and the unit
  rules of services/api/src/common/utils/cel-evaluator.ts) and its public entry points.
\<close>

section \<open>Values and contexts\<close>

text \<open>
  \<open>VUndef\<close> is the \<open>value\<close> field of an object that has none: what a reference yields when the
  name is a member of \<open>Object.prototype\<close>.
\<close>

datatype 'd cel_payload = VNum 'd | VStr string | VBool bool | VNull | VUndef

record 'd cel_value =
  cv_value :: "'d cel_payload"
  cv_unit :: "string option"

record 'd cel_context =
  cx_metrics :: "'d cel_value js_object"
  cx_factors :: "'d cel_value js_object option"
  cx_period_days :: "int option"

definition plain :: "'d cel_payload \<Rightarrow> 'd cel_value" where
  "plain p = \<lparr> cv_value = p, cv_unit = None \<rparr>"

definition host_object :: "'d cel_value" where
  "host_object = plain VUndef"

lemma plain_simps [simp]: "cv_value (plain p) = p" "cv_unit (plain p) = None"
  by (simp_all add: plain_def)

lemma host_object_simps [simp]: "cv_value host_object = VUndef" "cv_unit host_object = None"
  by (simp_all add: host_object_def)

definition cel_functions :: "string list" where
  "cel_functions =
     [''sum'', ''avg'', ''min'', ''max'', ''ratio'', ''abs'', ''round'', ''coalesce'', ''factor'', ''metric'']"

section \<open>Helpers\<close>

definition truthy :: "'d decimal_api \<Rightarrow> 'd cel_value \<Rightarrow> bool" where
  "truthy D v = (case cv_value v of
     VNull \<Rightarrow> False
   | VUndef \<Rightarrow> False
   | VBool b \<Rightarrow> b
   | VNum d \<Rightarrow> \<not> d_is_zero D d
   | VStr s \<Rightarrow> s \<noteq> [])"

definition same_value :: "'d decimal_api \<Rightarrow> 'd cel_value \<Rightarrow> 'd cel_value \<Rightarrow> bool" where
  "same_value D a b = (case (cv_value a, cv_value b) of
     (VNum x, VNum y) \<Rightarrow> d_cmp D x y = Some 0
   | (VStr s, VStr t) \<Rightarrow> s = t
   | (VBool x, VBool y) \<Rightarrow> x = y
   | (VNull, VNull) \<Rightarrow> True
   | (VUndef, VUndef) \<Rightarrow> True
   | _ \<Rightarrow> False)"

text \<open>A string that counts as true: present and not empty.\<close>

definition truthy_unit :: "string option \<Rightarrow> bool" where
  "truthy_unit u = (u \<noteq> None \<and> u \<noteq> Some [])"

definition unit_text :: "string option \<Rightarrow> string" where
  "unit_text u = (case u of None \<Rightarrow> ''undefined'' | Some s \<Rightarrow> s)"

definition require_same_unit :: "'d cel_value \<Rightarrow> 'd cel_value \<Rightarrow> cel_op \<Rightarrow> cel_error + unit" where
  "require_same_unit a b oper =
     (if cv_unit a \<noteq> cv_unit b \<and> truthy_unit (cv_unit a) \<and> truthy_unit (cv_unit b)
      then Inl (CelError (''Unit mismatch on '' @ CHR 0x27 # op_text oper @ CHR 0x27 # '': '' @
             unit_text (cv_unit a) @ '' vs '' @ unit_text (cv_unit b)))
      else Inr ())"

text \<open>The replacement of \<open>^\*\<close> and \<open>\*$\<close> by nothing: one star off each end.\<close>

definition strip_stars :: "string \<Rightarrow> string" where
  "strip_stars s =
     (let t = (if s \<noteq> [] \<and> hd s = CHR ''*'' then tl s else s)
      in if t \<noteq> [] \<and> last t = CHR ''*'' then butlast t else t)"

definition unit_or :: "string \<Rightarrow> string option \<Rightarrow> string" where
  "unit_or dflt u = (case u of None \<Rightarrow> dflt | Some s \<Rightarrow> s)"

definition combine_units :: "string option \<Rightarrow> string option \<Rightarrow> cel_op \<Rightarrow> string option" where
  "combine_units l r oper =
     (if \<not> truthy_unit l \<and> \<not> truthy_unit r then None
      else if oper = OpTimes then
        (let s = strip_stars (unit_or [] l @ ''*'' @ unit_or [] r) in if s = [] then None else Some s)
      else
        (let s = unit_or [] l @ ''/'' @ unit_or ''1'' r
         in Some (if hd s = CHR ''/'' then ''1'' @ s else s)))"

text \<open>\<open>typeof\<close> of the value field.\<close>

definition type_of :: "'d cel_payload \<Rightarrow> string" where
  "type_of p = (case p of
     VNum _ \<Rightarrow> ''object'' | VStr _ \<Rightarrow> ''string'' | VBool _ \<Rightarrow> ''boolean''
   | VNull \<Rightarrow> ''object'' | VUndef \<Rightarrow> ''undefined'')"

section \<open>References\<close>

text \<open>
  \<open>name in obj\<close> also holds for what the object inherits; the value read then is the member of
  the prototype. An own entry is never undefined here: the contexts are built from values.
\<close>

definition resolve_ref :: "'d decimal_api \<Rightarrow> string \<Rightarrow> 'd cel_context \<Rightarrow> cel_error + 'd cel_value" where
  "resolve_ref D name ctx =
     (if name = ''periodDays'' then
        Inr (plain (VNum (d_of_int D (case cx_period_days ctx of None \<Rightarrow> 365 | Some n \<Rightarrow> n))))
      else if js_in name (cx_metrics ctx) then
        Inr (case own_get (cx_metrics ctx) name of Some v \<Rightarrow> v | None \<Rightarrow> host_object)
      else (case cx_factors ctx of
          None \<Rightarrow> Inl (CelError (''Unresolved reference: '' @ name))
        | Some fs \<Rightarrow>
            if js_in name fs then Inr (case own_get fs name of Some v \<Rightarrow> v | None \<Rightarrow> host_object)
            else Inl (CelError (''Unresolved reference: '' @ name))))"

section \<open>Operators\<close>

definition compare_with :: "cel_op \<Rightarrow> int option \<Rightarrow> bool" where
  "compare_with oper c = (case c of
     None \<Rightarrow> False
   | Some n \<Rightarrow>
       (if oper = OpLt then n < 0 else if oper = OpLe then n \<le> 0 else if oper = OpGt then n > 0 else n \<ge> 0))"

definition eval_strict :: "'d decimal_api \<Rightarrow> cel_op \<Rightarrow> 'd cel_value \<Rightarrow> 'd cel_value \<Rightarrow> cel_error + 'd cel_value" where
  "eval_strict D oper l r =
     (if oper = OpEq \<or> oper = OpNe then
        (let eq = same_value D l r in Inr (plain (VBool (if oper = OpEq then eq else \<not> eq))))
      else if oper = OpLt \<or> oper = OpLe \<or> oper = OpGt \<or> oper = OpGe then
        bindR (require_same_unit l r oper) (\<lambda>_.
          (case (cv_value l, cv_value r) of
             (VNum x, VNum y) \<Rightarrow> Inr (plain (VBool (compare_with oper (d_cmp D x y))))
           | _ \<Rightarrow> Inl (CelError (''Comparison '' @ op_text oper @ '' requires numbers''))))
      else
        (case (cv_value l, cv_value r) of
           (VNum x, VNum y) \<Rightarrow>
             (if oper = OpPlus \<or> oper = OpMinus then
                bindR (require_same_unit l r oper) (\<lambda>_.
                  Inr \<lparr> cv_value = VNum (if oper = OpPlus then d_plus D x y else d_minus D x y),
                        cv_unit = cv_unit l \<rparr>)
              else if oper = OpTimes then
                Inr \<lparr> cv_value = VNum (d_times D x y), cv_unit = combine_units (cv_unit l) (cv_unit r) OpTimes \<rparr>
              else if oper = OpDiv then
                (if d_is_zero D y then Inl (CelError ''Division by zero'')
                 else Inr \<lparr> cv_value = VNum (d_div D x y), cv_unit = combine_units (cv_unit l) (cv_unit r) OpDiv \<rparr>)
              else if oper = OpMod then
                (if d_is_zero D y then Inl (CelError ''Modulo by zero'')
                 else Inr \<lparr> cv_value = VNum (d_mod D x y), cv_unit = cv_unit l \<rparr>)
              else Inl (CelError (''Unknown op '' @ op_text oper)))
         | _ \<Rightarrow> Inl (CelError (''Arithmetic on non-numeric ('' @ type_of (cv_value l) @ '' '' @
                     op_text oper @ '' '' @ type_of (cv_value r) @ '')''))))"

section \<open>Functions\<close>

fun sum_loop :: "'d decimal_api \<Rightarrow> string \<Rightarrow> string option \<Rightarrow> 'd cel_value list \<Rightarrow> 'd \<Rightarrow> cel_error + 'd" where
  "sum_loop D name u [] acc = Inr acc"
| "sum_loop D name u (a # as) acc =
     (case cv_value a of
        VNum x \<Rightarrow>
          if cv_unit a \<noteq> u
          then Inl (CelError (name @ ''() unit mismatch: '' @ unit_text u @ '' vs '' @ unit_text (cv_unit a)))
          else sum_loop D name u as (d_plus D acc x)
      | _ \<Rightarrow> Inl (CelError (name @ ''() requires numbers'')))"

definition better :: "'d decimal_api \<Rightarrow> string \<Rightarrow> 'd \<Rightarrow> 'd \<Rightarrow> bool" where
  "better D name x best = (case d_cmp D x best of
     None \<Rightarrow> False | Some n \<Rightarrow> (name = ''min'' \<and> n < 0) \<or> (name = ''max'' \<and> n > 0))"

fun best_loop :: "'d decimal_api \<Rightarrow> string \<Rightarrow> string option \<Rightarrow> 'd cel_value list \<Rightarrow> 'd \<Rightarrow> cel_error + 'd" where
  "best_loop D name u [] best = Inr best"
| "best_loop D name u (a # as) best =
     (case cv_value a of
        VNum x \<Rightarrow>
          if cv_unit a \<noteq> u then Inl (CelError (name @ ''() unit mismatch''))
          else best_loop D name u as (if better D name x best then x else best)
      | _ \<Rightarrow> Inl (CelError (name @ ''() requires numbers'')))"

fun first_present :: "'d cel_value list \<Rightarrow> 'd cel_value" where
  "first_present [] = plain VNull"
| "first_present (a # as) =
     (if cv_value a \<noteq> VNull \<and> cv_value a \<noteq> VUndef then a else first_present as)"

definition eval_call :: "'d decimal_api \<Rightarrow> string \<Rightarrow> 'd cel_value list \<Rightarrow> cel_error + 'd cel_value" where
  "eval_call D name args =
     (if name \<notin> set cel_functions then Inl (CelError (''Function not allowed: '' @ name))
      else if name = ''sum'' \<or> name = ''avg'' then
        (case args of
           [] \<Rightarrow> Inr (plain (VNum (d_of_int D 0)))
         | a # _ \<Rightarrow>
             bindR (sum_loop D name (cv_unit a) args (d_of_int D 0)) (\<lambda>acc.
               Inr \<lparr> cv_value = VNum (if name = ''sum'' then acc
                                      else d_div D acc (d_of_int D (int (length args)))),
                     cv_unit = cv_unit a \<rparr>))
      else if name = ''min'' \<or> name = ''max'' then
        (case args of
           [] \<Rightarrow> Inl (CelError (name @ ''() requires args''))
         | a # _ \<Rightarrow>
             (case cv_value a of
                VNum x \<Rightarrow> bindR (best_loop D name (cv_unit a) args x) (\<lambda>best.
                  Inr \<lparr> cv_value = VNum best, cv_unit = cv_unit a \<rparr>)
              | _ \<Rightarrow> Inl (CelError (name @ ''() requires numbers''))))
      else if name = ''ratio'' then
        (case args of
           [n, d] \<Rightarrow>
             (case (cv_value n, cv_value d) of
                (VNum x, VNum y) \<Rightarrow>
                  if d_is_zero D y then Inl (CelError ''ratio() division by zero'')
                  else Inr \<lparr> cv_value = VNum (d_div D x y), cv_unit = combine_units (cv_unit n) (cv_unit d) OpDiv \<rparr>
              | _ \<Rightarrow> Inl (CelError ''ratio() needs numbers''))
         | _ \<Rightarrow> Inl (CelError ''ratio(numer, denom)''))
      else if name = ''abs'' then
        (case args of
           a # _ \<Rightarrow>
             (case cv_value a of
                VNum x \<Rightarrow> Inr \<lparr> cv_value = VNum (d_abs D x), cv_unit = cv_unit a \<rparr>
              | _ \<Rightarrow> Inl (CelError ''abs() needs number''))
         | [] \<Rightarrow> Inl (CelError ''abs() needs number''))
      else if name = ''round'' then
        (case args of
           a # opts \<Rightarrow>
             (case cv_value a of
                VNum x \<Rightarrow>
                  (let places = (case opts of
                       dp # _ \<Rightarrow> (case cv_value dp of VNum p \<Rightarrow> p | _ \<Rightarrow> d_of_int D 0)
                     | [] \<Rightarrow> d_of_int D 0)
                   in case d_to_places D x places of
                        None \<Rightarrow> Inl DecimalError
                      | Some y \<Rightarrow> Inr \<lparr> cv_value = VNum y, cv_unit = cv_unit a \<rparr>)
              | _ \<Rightarrow> Inl (CelError ''round() needs number''))
         | [] \<Rightarrow> Inl (CelError ''round() needs number''))
      else if name = ''coalesce'' then Inr (first_present args)
      else Inl (CelError (''Use bare reference for '' @ name @ ''(); not implemented as a call here'')))"

section \<open>The evaluator\<close>

definition eval_unary :: "'d decimal_api \<Rightarrow> cel_op \<Rightarrow> 'd cel_value \<Rightarrow> cel_error + 'd cel_value" where
  "eval_unary D oper arg =
     (if oper = OpMinus then
        (case cv_value arg of
           VNum x \<Rightarrow> Inr \<lparr> cv_value = VNum (d_neg D x), cv_unit = cv_unit arg \<rparr>
         | _ \<Rightarrow> Inl (CelError ''Unary - on non-number''))
      else if oper = OpPlus then Inr arg
      else if oper = OpNot then Inr (plain (VBool (\<not> truthy D arg)))
      else Inl (CelError (''Unknown unary '' @ op_text oper)))"

fun eval_node :: "'d decimal_api \<Rightarrow> 'd cel_context \<Rightarrow> 'd node \<Rightarrow> cel_error + 'd cel_value"
  and eval_args :: "'d decimal_api \<Rightarrow> 'd cel_context \<Rightarrow> 'd node list \<Rightarrow> cel_error + 'd cel_value list"
where
  "eval_node D ctx (NNum v) = Inr (plain (VNum v))"
| "eval_node D ctx (NStr s) = Inr (plain (VStr s))"
| "eval_node D ctx (NBool b) = Inr (plain (VBool b))"
| "eval_node D ctx NNil = Inr (plain VNull)"
| "eval_node D ctx (NRef name) = resolve_ref D name ctx"
| "eval_node D ctx (NUnary oper a) = bindR (eval_node D ctx a) (eval_unary D oper)"
| "eval_node D ctx (NBin oper a b) =
     bindR (eval_node D ctx a) (\<lambda>l.
       if oper = OpAnd then
         (if truthy D l then bindR (eval_node D ctx b) (\<lambda>r. Inr (plain (VBool (truthy D r))))
          else Inr (plain (VBool False)))
       else if oper = OpOr then
         (if truthy D l then Inr (plain (VBool True))
          else bindR (eval_node D ctx b) (\<lambda>r. Inr (plain (VBool (truthy D r)))))
       else bindR (eval_node D ctx b) (eval_strict D oper l))"
| "eval_node D ctx (NCond t a b) =
     bindR (eval_node D ctx t) (\<lambda>v. if truthy D v then eval_node D ctx a else eval_node D ctx b)"
| "eval_node D ctx (NCall name as) = bindR (eval_args D ctx as) (eval_call D name)"
| "eval_args D ctx [] = Inr []"
| "eval_args D ctx (a # as) =
     bindR (eval_node D ctx a) (\<lambda>v. bindR (eval_args D ctx as) (\<lambda>vs. Inr (v # vs)))"

section \<open>Entry points\<close>

text \<open>A run of the parser as a result; no run is out of fuel (\<open>parse_in_fuel\<close>).\<close>

definition parse_result :: "'d token list \<Rightarrow> cel_error + 'd node" where
  "parse_result ts = (case parse ts of
     Done e \<Rightarrow> Inr e | Throw e \<Rightarrow> Inl e | OutOfFuel \<Rightarrow> Inl (CelError ''out of fuel''))"

definition validate :: "'d decimal_api \<Rightarrow> string \<Rightarrow> cel_error + unit" where
  "validate D src = bindR (tokenize D src) (\<lambda>ts. bindR (parse_result ts) (\<lambda>_. Inr ()))"

definition evaluate :: "'d decimal_api \<Rightarrow> string \<Rightarrow> 'd cel_context \<Rightarrow> cel_error + 'd cel_value" where
  "evaluate D src ctx = bindR (tokenize D src) (\<lambda>ts. bindR (parse_result ts) (eval_node D ctx))"

end
