(* ===== verification/Cel_Props.thy ===== *)
theory Cel_Props
  imports Cel_Print Cel_Eval
begin

text \<open>
  What the formula language guarantees: the front end always answers, text and trees round
  trip, evaluation reads only the names it mentions, the functions are the listed ones, the
  unit rules of sums, products and comparisons, and where host objects are reachable.

  \<open>int_api\<close> is a concrete decimal library (integers) for the witnesses.
\<close>

definition int_api :: "int decimal_api" where
  "int_api = \<lparr> d_parse = (\<lambda>s. if list_all is_digit s
                   then Some (foldl (\<lambda>n c. 10 * n + (of_char c - 48)) 0 s) else None),
     d_of_int = (\<lambda>n. n), d_neg = uminus, d_abs = abs, d_plus = (+), d_minus = (-), d_times = (*),
     d_div = (div), d_mod = (mod), d_cmp = (\<lambda>x y. Some (if x < y then - 1 else if x = y then 0 else 1)),
     d_is_zero = (\<lambda>x. x = 0), d_to_places = (\<lambda>x p. if 0 \<le> p then Some x else None) \<rparr>"

section \<open>Names\<close>

fun refs :: "'d node \<Rightarrow> string set" where
  "refs (NRef w) = {w}"
| "refs (NUnary oper a) = refs a"
| "refs (NBin oper a b) = refs a \<union> refs b"
| "refs (NCond a b c) = refs a \<union> refs b \<union> refs c"
| "refs (NCall w as) = (\<Union>a\<in>set as. refs a)"
| "refs _ = {}"

lemma eval_refs_aux:
  "(\<And>w. w \<in> refs e \<Longrightarrow> resolve_ref D w ctx = resolve_ref D w ctx') \<Longrightarrow> eval_node D ctx e = eval_node D ctx' e"
  "(\<And>w. w \<in> (\<Union>a\<in>set as. refs a) \<Longrightarrow> resolve_ref D w ctx = resolve_ref D w ctx') \<Longrightarrow> eval_args D ctx as = eval_args D ctx' as"
  by (induction D ctx e and D ctx as rule: eval_node_eval_args.induct)
    (auto intro!: bindR_cong)

section \<open>Host objects\<close>

definition own_defined :: "'d cel_value js_object \<Rightarrow> bool" where
  "own_defined ob = (\<forall>v\<in>set (map snd ob). cv_value v \<noteq> VUndef)"

definition no_undef :: "'d cel_value \<Rightarrow> bool" where
  "no_undef v = (cv_value v \<noteq> VUndef)"

lemma own_getD: "own_defined ob \<Longrightarrow> own_get ob k = Some v \<Longrightarrow> cv_value v \<noteq> VUndef"
  by (force simp: own_defined_def own_get_def dest: map_of_SomeD)

lemma own_get_None: "own_get ob k = None \<longleftrightarrow> k \<notin> set (map fst ob)"
  by (simp add: own_get_def map_of_eq_None_iff)

lemma resolve_own:
  assumes "own_defined (cx_metrics ctx)" "\<And>fs. cx_factors ctx = Some fs \<Longrightarrow> own_defined fs"
    "w \<notin> set object_prototype" "resolve_ref D w ctx = Inr v"
  shows "cv_value v \<noteq> VUndef"
  using assms(3,4)
  by (auto simp: resolve_ref_def js_in_def own_get_None split: if_splits option.splits
      dest: own_getD[OF assms(1)] own_getD[OF assms(2)])

lemma eval_strict_no_undef: "eval_strict D oper l r = Inr v \<Longrightarrow> cv_value v \<noteq> VUndef"
  by (auto simp: eval_strict_def bindR_Inr_iff Let_def split: if_splits cel_payload.splits)

lemma eval_unary_no_undef: "cv_value a \<noteq> VUndef \<Longrightarrow> eval_unary D oper a = Inr v \<Longrightarrow> cv_value v \<noteq> VUndef"
  by (auto simp: eval_unary_def split: if_splits cel_payload.splits)

lemma first_present_no_undef: "cv_value (first_present as) \<noteq> VUndef"
  by (induction as) auto

lemma eval_call_no_undef: "eval_call D name as = Inr v \<Longrightarrow> cv_value v \<noteq> VUndef"
  unfolding eval_call_def
  by (auto simp: bindR_Inr_iff Let_def first_present_no_undef
      split: if_splits list.splits cel_payload.splits option.splits)

lemma eval_no_undef:
  assumes "own_defined (cx_metrics ctx)" "\<And>fs. cx_factors ctx = Some fs \<Longrightarrow> own_defined fs"
  shows "refs e \<inter> set object_prototype = {} \<Longrightarrow> eval_node D ctx e = Inr v \<Longrightarrow> cv_value v \<noteq> VUndef"
proof (induction e arbitrary: v)
  case (NRef w)
  then show ?case using resolve_own[OF assms, of w] by auto
next
  case (NUnary oper a)
  then show ?case by (auto simp: bindR_Inr_iff dest: eval_unary_no_undef)
next
  case (NBin oper a b)
  then show ?case by (auto simp: bindR_Inr_iff split: if_splits dest: eval_strict_no_undef)
next
  case (NCond t a b)
  then show ?case by (auto simp: bindR_Inr_iff Int_Un_distrib2 split: if_splits)
next
  case (NCall name as)
  then show ?case by (auto simp: bindR_Inr_iff dest: eval_call_no_undef)
qed auto

section \<open>Folds over the arguments\<close>

text \<open>All arguments are numbers with the given unit.\<close>

fun numbers :: "string option \<Rightarrow> 'd cel_value list \<Rightarrow> 'd list option" where
  "numbers u [] = Some []"
| "numbers u (a # as) = (case cv_value a of
     VNum x \<Rightarrow> (if cv_unit a = u then map_option ((#) x) (numbers u as) else None)
   | _ \<Rightarrow> None)"

lemma sum_loop_numbers:
  "sum_loop D name u as acc = Inr s \<longleftrightarrow> (\<exists>xs. numbers u as = Some xs \<and> s = foldl (d_plus D) acc xs)"
  by (induction as arbitrary: acc) (auto split: cel_payload.splits)

lemma best_loop_numbers:
  "best_loop D name u as best = Inr s \<longleftrightarrow>
     (\<exists>xs. numbers u as = Some xs \<and> s = foldl (\<lambda>b x. if better D name x b then x else b) best xs)"
  by (induction as arbitrary: best) (auto split: cel_payload.splits)

definition ordered_api :: "('d :: linorder) decimal_api \<Rightarrow> bool" where
  "ordered_api D = (\<forall>x y. d_cmp D x y = Some (if x < y then - 1 else if x = y then 0 else 1))"

lemma fold_min:
  assumes "ordered_api D"
  shows "foldl (\<lambda>b x. if better D ''min'' x b then x else b) best xs = Min (insert best (set xs))"
proof (induction xs arbitrary: best)
  case (Cons x xs)
  have "(if better D ''min'' x best then x else best) = min x best"
    using assms by (auto simp: better_def ordered_api_def min_def)
  then show ?case using Cons[of "min x best"]
    by (cases "xs = []") (simp_all add: min.assoc min.left_commute min.commute insert_commute)
qed simp

lemma fold_max:
  assumes "ordered_api D"
  shows "foldl (\<lambda>b x. if better D ''max'' x b then x else b) best xs = Max (insert best (set xs))"
proof (induction xs arbitrary: best)
  case (Cons x xs)
  have "(if better D ''max'' x best then x else best) = max x best"
    using assms by (auto simp: better_def ordered_api_def max_def)
  then show ?case using Cons[of "max x best"]
    by (cases "xs = []") (simp_all add: max.assoc max.left_commute max.commute insert_commute)
qed simp

section \<open>Runs\<close>

lemma bindR_error: "bindR r f = Inl e \<Longrightarrow> (\<And>v. f v \<noteq> Inl e) \<Longrightarrow> r = Inl e"
  by (cases r) simp_all

lemma push_token_error: "push_token t r = Inl e \<longleftrightarrow> r = Inl e"
  by (cases r) simp_all

definition lex_error :: "cel_error + 'd token list \<Rightarrow> bool" where
  "lex_error r = (\<forall>e. r = Inl e \<longrightarrow> e = DecimalError \<or> (\<exists>msg. e = CelError msg))"

lemma lex_error_simps [simp]:
  "lex_error (Inr ts)" "lex_error (Inl DecimalError)" "lex_error (Inl (CelError msg))"
  "lex_error (push_token t r) = lex_error r"
  by (auto simp: lex_error_def push_token_error)

lemma lex_error_if: "(b \<Longrightarrow> lex_error x) \<Longrightarrow> (\<not> b \<Longrightarrow> lex_error y) \<Longrightarrow> lex_error (if b then x else y)"
  by simp

lemma lex_error_option:
  "(v = None \<Longrightarrow> lex_error x) \<Longrightarrow> (\<And>w. v = Some w \<Longrightarrow> lex_error (f w)) \<Longrightarrow>
     lex_error (case v of None \<Rightarrow> x | Some w \<Rightarrow> f w)"
  by (cases v) simp_all

lemma lex_error_pair: "(\<And>x y. v = (x, y) \<Longrightarrow> lex_error (f x y)) \<Longrightarrow> lex_error (case v of (x, y) \<Rightarrow> f x y)"
  by (cases v) simp

lemma tokenize_from_error: "lex_error (tokenize_from D i s)"
proof (induction D i s rule: tokenize_from.induct)
  case (2 D i c s)
  show ?case
    unfolding tokenize_from.simps
    by (intro lex_error_if lex_error_option lex_error_pair lex_error_simps lex_error_simps(4)[THEN iffD2])
      ((rule 2, (assumption | rule sym, assumption)+) | simp)+
qed (simp add: tokenize_from.simps)

lemma run_text:
  assumes "wf_node e" "good_node D num e"
  shows "bindR (tokenize D (formula_text num e)) parse_result = Inr e"
    "evaluate D (formula_text num e) ctx = eval_node D ctx e"
proof -
  have t: "tokenize D (formula_text num e) = Inr (print_at 0 e @ [TEof])"
    using tokenize_show_tokens[OF good_print[OF assms(2)]]
    by (simp add: tokenize_def formula_text_def)
  have p: "parse_result (print_at 0 e @ [TEof]) = Inr e"
    by (simp add: parse_result_def print_parses[OF assms(1)])
  show "bindR (tokenize D (formula_text num e)) parse_result = Inr e"
    "evaluate D (formula_text num e) ctx = eval_node D ctx e"
    using t p by (simp_all add: evaluate_def)
qed

section \<open>Properties\<close>

text \<open>
  C31: the front end always answers. Tokenizing ends with a DecimalError, a CelError or tokens;
  for tokens the parser returns a well-formed tree or throws a CelError (never a TypeError, and
  its fuel is never used up).
\<close>

theorem front_end_total:
  "tokenize D src = Inl DecimalError \<or> (\<exists>msg. tokenize D src = Inl (CelError msg)) \<or>
   (\<exists>ts. tokenize D src = Inr ts \<and>
      ((\<exists>e. parse ts = Done e \<and> wf_node e) \<or> (\<exists>msg. parse ts = Throw (CelError msg))))"
proof (cases "tokenize D src")
  case (Inl e)
  then show ?thesis using tokenize_from_error[of D 0 src] by (auto simp: tokenize_def lex_error_def)
next
  case (Inr ts)
  then have "ends_eof ts" using tokenize_from_lexed[of D 0 src] by (simp add: tokenize_def)
  with Inr show ?thesis using parse_outcomes[of ts] by auto
qed

text \<open>
  C4: every well-formed tree is read back from its text, printed with parentheses only where
  the binding powers require them, and evaluating the text is evaluating the tree.
\<close>

theorem formula_roundtrip:
  assumes "wf_node e" "good_node D num e"
  shows "bindR (tokenize D (formula_text num e)) parse_result = Inr e \<and>
    evaluate D (formula_text num e) ctx = eval_node D ctx e"
  using run_text[OF assms] by simp

definition sample_tree :: "int node" where
  "sample_tree = NBin OpTimes (NUnary OpMinus (NRef ''energy.kwh''))
     (NCond (NBin OpLt (NRef ''fte'') (NNum 5)) (NCall ''sum'' [NNum 3, NNum 4]) (NStr ''none''))"

text \<open>A witness: -energy.kwh * (fte < 5 ? sum(3, 4) : "none").\<close>

theorem formula_roundtrip_witness:
  "bindR (tokenize int_api (formula_text (\<lambda>n. [char_of (nat n + 48)]) sample_tree)) parse_result = Inr sample_tree"
proof -
  have "wf_node sample_tree" "good_node int_api (\<lambda>n. [char_of (nat n + 48)]) sample_tree"
    by code_simp+
  then show ?thesis by (rule formula_roundtrip[THEN conjunct1])
qed

text \<open>The value of a formula depends only on the names that occur in it.\<close>

theorem eval_reads_only_refs:
  assumes "\<And>w. w \<in> refs e \<Longrightarrow> resolve_ref D w ctx = resolve_ref D w ctx'"
  shows "eval_node D ctx e = eval_node D ctx' e"
  by (rule eval_refs_aux) (rule assms)

definition ctx_of :: "(string \<times> int cel_value) list \<Rightarrow> int cel_context" where
  "ctx_of ms = \<lparr> cx_metrics = ms, cx_factors = None, cx_period_days = None \<rparr>"

theorem eval_reads_only_refs_witness:
  "eval_node int_api (ctx_of [(''a'', plain (VNum 1))]) (NBin OpPlus (NRef ''a'') (NNum 2)) =
   eval_node int_api (ctx_of [(''b'', plain (VNum 7)), (''a'', plain (VNum 1))]) (NBin OpPlus (NRef ''a'') (NNum 2))"
  by (rule eval_reads_only_refs) (simp add: resolve_ref_def ctx_of_def js_in_def own_get_def)

text \<open>
  C38: a formula that names no member of \<open>Object.prototype\<close> never yields a host object (a value
  whose value field is undefined), whatever the context holds.
\<close>

theorem no_host_value:
  assumes "own_defined (cx_metrics ctx)" "\<And>fs. cx_factors ctx = Some fs \<Longrightarrow> own_defined fs"
    "refs e \<inter> set object_prototype = {}" "eval_node D ctx e = Inr v"
  shows "cv_value v \<noteq> VUndef"
  using eval_no_undef[OF assms] .

theorem no_host_value_witness:
  "cv_value (plain (VNum (3 :: int))) \<noteq> VUndef"
  by (rule no_host_value[of "ctx_of [(''a'', plain (VNum 1))]" "NBin OpPlus (NRef ''a'') (NNum 2)" int_api])
    (simp_all add: ctx_of_def own_defined_def object_prototype_def resolve_ref_def js_in_def own_get_def
      eval_strict_def require_same_unit_def int_api_def plain_def)

text \<open>
  C6: but the names of \<open>Object.prototype\<close> are reachable: unless the context has an own entry of
  that name, the formula \<open>constructor\<close> evaluates (to an object without a value), and comparing
  two host objects answers true.
\<close>

theorem host_object_reachable:
  fixes D :: "'d decimal_api"
  assumes "''constructor'' \<notin> set (map fst (cx_metrics ctx))" "''toString'' \<notin> set (map fst (cx_metrics ctx))"
  shows "evaluate D ''constructor '' ctx = Inr host_object \<and>
    evaluate D ''constructor == toString '' ctx = Inr (plain (VBool True))"
proof -
  let ?e = "NBin OpEq (NRef ''constructor'') (NRef ''toString'') :: 'd node"
  have good: "good_name ''constructor''" "good_name ''toString''" by code_simp+
  have t: "formula_text num (NRef ''constructor'' :: 'd node) = ''constructor ''"
    "formula_text num ?e = ''constructor == toString ''" for num
    by (simp_all add: formula_text_def show_tokens_def)
  have r: "resolve_ref D ''constructor'' ctx = Inr host_object" "resolve_ref D ''toString'' ctx = Inr host_object"
    using assms by (simp_all add: resolve_ref_def js_in_def object_prototype_def own_get_None[THEN iffD2])
  have "evaluate D (formula_text (\<lambda>_. []) (NRef ''constructor'' :: 'd node)) ctx = Inr host_object"
    using run_text(2)[of "NRef ''constructor''" D "\<lambda>_. []" ctx] good r by simp
  moreover have "evaluate D (formula_text (\<lambda>_. []) ?e) ctx = Inr (plain (VBool True))"
    using run_text(2)[of ?e D "\<lambda>_. []" ctx] good r
    by (simp add: binary_bp_def eval_strict_def same_value_def)
  ultimately show ?thesis unfolding t by simp
qed

theorem host_object_reachable_witness:
  "evaluate int_api ''constructor '' (ctx_of []) = Inr host_object"
  using host_object_reachable[of "ctx_of []" int_api] by (simp add: ctx_of_def)

text \<open>
  C7: a call succeeds only for one of the eight implemented functions; every other name,
  the listed \<open>factor\<close> and \<open>metric\<close> included, is an error for all arguments.
\<close>

theorem call_allowlist:
  "(eval_node D ctx (NCall name as) = Inr v \<longrightarrow>
      name \<in> {''sum'', ''avg'', ''min'', ''max'', ''ratio'', ''abs'', ''round'', ''coalesce''}) \<and>
   (eval_args D ctx as = Inr vs \<longrightarrow> name \<notin> set cel_functions \<longrightarrow>
      eval_node D ctx (NCall name as) = Inl (CelError (''Function not allowed: '' @ name)))"
  by (auto simp: bindR_Inr_iff eval_call_def)

theorem call_allowlist_witness:
  "eval_node int_api (ctx_of []) (NCall ''exec'' [NNum 1]) = Inl (CelError ''Function not allowed: exec'')"
  using call_allowlist[of int_api "ctx_of []" "''exec''" "[NNum 1]" _ "[plain (VNum 1)]"]
  by (simp add: cel_functions_def eval_call_def)

text \<open>
  A sum or difference is computed exactly when both sides are numbers whose units agree or
  of which one has no unit; the result carries the unit of the left side, so a unit on the
  right of a unitless number is dropped.
\<close>

theorem plus_units:
  assumes "oper = OpPlus \<or> oper = OpMinus"
  shows "eval_strict D oper l r = Inr v \<longleftrightarrow>
    (\<exists>x y. cv_value l = VNum x \<and> cv_value r = VNum y \<and>
       (cv_unit l = cv_unit r \<or> \<not> truthy_unit (cv_unit l) \<or> \<not> truthy_unit (cv_unit r)) \<and>
       v = \<lparr> cv_value = VNum (if oper = OpPlus then d_plus D x y else d_minus D x y), cv_unit = cv_unit l \<rparr>)"
  using assms
  by (auto simp: eval_strict_def require_same_unit_def bindR_Inr_iff split: cel_payload.splits if_splits)

theorem plus_units_witness:
  "eval_strict int_api OpPlus (plain (VNum 2)) \<lparr> cv_value = VNum 3, cv_unit = Some ''kWh'' \<rparr> = Inr (plain (VNum 5))"
  using plus_units[of OpPlus int_api "plain (VNum 2)" "\<lparr> cv_value = VNum 3, cv_unit = Some ''kWh'' \<rparr>" "plain (VNum 5)"]
  by (simp add: truthy_unit_def plain_def int_api_def)

text \<open>
  C4: \<open>sum\<close> of at least one argument succeeds exactly when all arguments are numbers of one unit,
  with their left-to-right total; \<open>min\<close> and \<open>max\<close> then give the least and the greatest number.
\<close>

theorem aggregate_calls:
  assumes "ordered_api D"
  shows "(eval_call D ''sum'' (a # as) = Inr v \<longleftrightarrow>
      (\<exists>xs. numbers (cv_unit a) (a # as) = Some xs \<and>
         v = \<lparr> cv_value = VNum (foldl (d_plus D) (d_of_int D 0) xs), cv_unit = cv_unit a \<rparr>)) \<and>
    (eval_call D ''min'' (a # as) = Inr v \<longleftrightarrow>
      (\<exists>xs. numbers (cv_unit a) (a # as) = Some xs \<and> v = \<lparr> cv_value = VNum (Min (set xs)), cv_unit = cv_unit a \<rparr>)) \<and>
    (eval_call D ''max'' (a # as) = Inr v \<longleftrightarrow>
      (\<exists>xs. numbers (cv_unit a) (a # as) = Some xs \<and> v = \<lparr> cv_value = VNum (Max (set xs)), cv_unit = cv_unit a \<rparr>))"
  by (auto simp: eval_call_def cel_functions_def bindR_Inr_iff best_loop_numbers sum_loop_numbers
      fold_min[OF assms] fold_max[OF assms] split: cel_payload.splits
      simp del: best_loop.simps sum_loop.simps)

theorem aggregate_calls_witness:
  "eval_call int_api ''min'' [plain (VNum 4), plain (VNum 2)] = Inr (plain (VNum 2))"
  using aggregate_calls[of int_api "plain (VNum 4)" "[plain (VNum 2)]" "plain (VNum 2)"]
  by (simp add: ordered_api_def int_api_def plain_def)

end
