(* ===== verification/Store.thy ===== *)
theory Store
  imports Prelude "HOL-Library.Char_ord" "HOL-Library.List_Lexorder"
begin

text \<open>
  Tables as lists of rows and the contracts the services share.

  The database is reached through Prisma, a package outside the repository: \<open>findFirst\<close>,
  \<open>findMany\<close>, \<open>update\<close> and \<open>create\<close> are modelled by their documented behaviour on a list of rows
  in insertion order. The environment of a request gives the clock, the identifiers the
  database generates, and whether writing the audit row succeeds.
\<close>

record env =
  ev_now :: int
  ev_ids :: "nat \<Rightarrow> string"
  ev_audit_ok :: bool

section \<open>Rows\<close>

definition find_first :: "('r \<Rightarrow> bool) \<Rightarrow> 'r list \<Rightarrow> 'r option" where
  "find_first P rows = List.find P rows"

definition update_where :: "('r \<Rightarrow> bool) \<Rightarrow> ('r \<Rightarrow> 'r) \<Rightarrow> 'r list \<Rightarrow> 'r list" where
  "update_where P f rows = map (\<lambda>r. if P r then f r else r) rows"

lemma find_first_Some: "find_first P rows = Some r \<Longrightarrow> r \<in> set rows \<and> P r"
  unfolding find_first_def find_Some_iff by (metis nth_mem)

lemma find_first_None: "find_first P rows = None \<longleftrightarrow> (\<forall>r\<in>set rows. \<not> P r)"
  by (auto simp: find_first_def find_None_iff)

lemma find_first_append:
  "find_first P (xs @ ys) = (case find_first P xs of None \<Rightarrow> find_first P ys | Some r \<Rightarrow> Some r)"
  by (induction xs) (simp_all add: find_first_def)

lemma find_first_simps [simp]:
  "find_first P [] = None"
  "find_first P (r # rows) = (if P r then Some r else find_first P rows)"
  by (simp_all add: find_first_def)

lemma update_where_simps [simp]:
  "update_where P f [] = []"
  "update_where P f (r # rows) = (if P r then f r else r) # update_where P f rows"
  by (simp_all add: update_where_def)

lemma length_update_where [simp]: "length (update_where P f rows) = length rows"
  by (simp add: update_where_def)

lemma update_where_keeps:
  "(\<And>r. P r \<Longrightarrow> k (f r) = k r) \<Longrightarrow> map k (update_where P f rows) = map k rows"
  by (induction rows) auto

lemma set_update_where: "set (update_where P f rows) = f ` {r \<in> set rows. P r} \<union> {r \<in> set rows. \<not> P r}"
  by (induction rows) auto

lemma update_where_other:
  "(\<And>r. P r \<Longrightarrow> \<not> Q r \<and> \<not> Q (f r)) \<Longrightarrow> filter Q (update_where P f rows) = filter Q rows"
  by (induction rows) auto

text \<open>Reading a row after an update of its own: the identifiers are distinct.\<close>

lemma find_first_update_same:
  assumes "distinct (map rid rows)" "r \<in> set rows" "\<And>x. rid (f x) = rid x"
  shows "find_first (\<lambda>x. rid x = rid r) (update_where (\<lambda>x. rid x = rid r) f rows) = Some (f r)"
  using assms by (induction rows) (auto simp: image_iff)

lemma find_first_unique:
  assumes "distinct (map rid rows)" "r \<in> set rows" "P r" "\<And>x. P x \<Longrightarrow> rid x = rid r"
  shows "find_first P rows = Some r"
proof -
  obtain x where x: "find_first P rows = Some x"
    using assms(2,3) find_first_None[of P rows] by (cases "find_first P rows") auto
  then have "rid x = rid r" "x \<in> set rows" using find_first_Some[OF x] assms(4) by auto
  with assms(1,2) have "x = r" by (auto simp: distinct_map dest: inj_onD)
  with x show ?thesis by simp
qed

section \<open>Systems\<close>

text \<open>
  A service is a set of operations on a state. \<open>runs_ok\<close> says that each call of a sequence can
  happen in the state it meets (fresh identifiers, say).
\<close>

fun runs_ok :: "('op \<Rightarrow> 's \<Rightarrow> 's) \<Rightarrow> ('op \<Rightarrow> 's \<Rightarrow> bool) \<Rightarrow> 'op list \<Rightarrow> 's \<Rightarrow> bool" where
  "runs_ok step ok [] s = True"
| "runs_ok step ok (c # cs) s = (ok c s \<and> runs_ok step ok cs (step c s))"

text \<open>An invariant kept by each operation holds after every run from a good state.\<close>

locale invariant_system =
  fixes step :: "'op \<Rightarrow> 's \<Rightarrow> 's"
    and ok :: "'op \<Rightarrow> 's \<Rightarrow> bool"
    and inv :: "'s \<Rightarrow> bool"
  assumes step_inv: "inv s \<Longrightarrow> ok oper s \<Longrightarrow> inv (step oper s)"
begin

lemma run_inv: "inv s \<Longrightarrow> runs_ok step ok cs s \<Longrightarrow> inv (fold step cs s)"
  by (induction cs arbitrary: s) (auto intro: step_inv)

lemma runs_ok_append: "runs_ok step ok (cs @ ds) s \<longleftrightarrow> runs_ok step ok cs s \<and> runs_ok step ok ds (fold step cs s)"
  by (induction cs arbitrary: s) auto

end

text \<open>
  Operations run for a tenant: an operation of one tenant leaves the rows of every other tenant
  as they are, and so does every run of other tenants.
\<close>

locale tenant_scoped = invariant_system step ok inv
  for step :: "'op \<Rightarrow> 's \<Rightarrow> 's" and ok :: "'op \<Rightarrow> 's \<Rightarrow> bool" and inv :: "'s \<Rightarrow> bool" +
  fixes tenant_of :: "'r \<Rightarrow> string"
    and rows_of :: "'s \<Rightarrow> 'r list"
    and op_tenant :: "'op \<Rightarrow> string"
  assumes foreign_kept: "inv s \<Longrightarrow> ok oper s \<Longrightarrow> op_tenant oper \<noteq> u \<Longrightarrow>
    filter (\<lambda>r. tenant_of r = u) (rows_of (step oper s)) = filter (\<lambda>r. tenant_of r = u) (rows_of s)"
begin

lemma run_foreign:
  "inv s \<Longrightarrow> runs_ok step ok cs s \<Longrightarrow> u \<notin> op_tenant ` set cs \<Longrightarrow>
     filter (\<lambda>r. tenant_of r = u) (rows_of (fold step cs s)) = filter (\<lambda>r. tenant_of r = u) (rows_of s)"
  by (induction cs arbitrary: s) (auto simp: foreign_kept step_inv)

end

text \<open>
  A relation between the state before and after, kept by each operation and closed under
  composition, holds across every run: the history of a record, what never comes back.
\<close>

locale history_system = invariant_system step ok inv
  for step :: "'op \<Rightarrow> 's \<Rightarrow> 's" and ok :: "'op \<Rightarrow> 's \<Rightarrow> bool" and inv :: "'s \<Rightarrow> bool" +
  fixes rel :: "'s \<Rightarrow> 's \<Rightarrow> bool"
  assumes rel_refl: "inv s \<Longrightarrow> rel s s"
    and rel_trans: "rel s u \<Longrightarrow> rel u v \<Longrightarrow> rel s v"
    and step_rel: "inv s \<Longrightarrow> ok oper s \<Longrightarrow> rel s (step oper s)"
begin

lemma run_rel: "inv s \<Longrightarrow> runs_ok step ok cs s \<Longrightarrow> rel s (fold step cs s)"
proof (induction cs arbitrary: s)
  case (Cons c cs)
  then have "rel s (step c s)" "rel (step c s) (fold step cs (step c s))"
    by (auto intro: step_rel step_inv)
  then show ?case by (auto intro: rel_trans)
qed (simp add: rel_refl)

end

end
