(* ===== verification/Audit_Log.thy ===== *)
theory Audit_Log
  imports Store
begin

text \<open>
  The audit trail (services/api/src/audit/audit.service.ts) and the stable hashing it uses
  (common/utils/hash.ts): best-effort logging, the paged query and export, the Merkle anchor.

  SHA-256 is a parameter. The snapshots stored in the diff column are the values the callers
  pass; the type of the snapshots is a parameter \<open>'s\<close>.
\<close>

section \<open>Writing\<close>

datatype audit_action =
    ACreate | AUpdate | ADelete | AApprove | AReject | ALock | AUnlock
  | AExport | ALogin | AImpersonate | ASign | AExtract | AOverride

definition action_names :: "(string \<times> audit_action) list" where
  "action_names =
     [(''CREATE'', ACreate), (''UPDATE'', AUpdate), (''DELETE'', ADelete), (''APPROVE'', AApprove),
      (''REJECT'', AReject), (''LOCK'', ALock), (''UNLOCK'', AUnlock), (''EXPORT'', AExport),
      (''LOGIN'', ALogin), (''IMPERSONATE'', AImpersonate), (''SIGN'', ASign), (''EXTRACT'', AExtract),
      (''OVERRIDE'', AOverride)]"

record 's audit_row =
  au_id :: string
  au_tenant :: string
  au_actor :: "string option"
  au_entity :: string
  au_entity_id :: string
  au_action :: audit_action
  au_before :: "'s option"
  au_after :: "'s option"
  au_meta :: "'s option"
  au_at :: int

record 's audit_input =
  ai_tenant :: "string option"
  ai_user :: "string option"
  ai_entity :: string
  ai_entity_id :: "string option"
  ai_action :: string
  ai_before :: "'s option"
  ai_after :: "'s option"
  ai_meta :: "'s option"

definition map_action :: "string \<Rightarrow> audit_action" where
  "map_action verb =
     (case map_of action_names (js_upper (if verb = [] then ''UPDATE'' else verb)) of
        Some a \<Rightarrow> a | None \<Rightarrow> AUpdate)"

text \<open>
  \<open>log\<close>: the insert fails without a tenant (the column is required) or when the environment says
  so; the failure is swallowed.
\<close>

definition audit_log :: "env \<Rightarrow> 's audit_input \<Rightarrow> 's audit_row list \<Rightarrow> 's audit_row list" where
  "audit_log E i rows =
     (case ai_tenant i of
        None \<Rightarrow> rows
      | Some t \<Rightarrow>
          if ev_audit_ok E
          then rows @ [\<lparr> au_id = ev_ids E 0, au_tenant = t, au_actor = ai_user i, au_entity = ai_entity i,
                  au_entity_id = (case ai_entity_id i of None \<Rightarrow> [] | Some e \<Rightarrow> e),
                  au_action = map_action (ai_action i), au_before = ai_before i, au_after = ai_after i,
                  au_meta = ai_meta i, au_at = ev_now E \<rparr>]
          else rows)"

text \<open>The common call: an actor of a tenant acts on an entity.\<close>

definition audit_entry ::
  "string \<Rightarrow> string \<Rightarrow> string \<Rightarrow> string option \<Rightarrow> string \<Rightarrow> 's option \<Rightarrow> 's option \<Rightarrow> 's option \<Rightarrow> 's audit_input" where
  "audit_entry t u ent eid act b a mt =
     \<lparr> ai_tenant = Some t, ai_user = Some u, ai_entity = ent, ai_entity_id = eid, ai_action = act,
       ai_before = b, ai_after = a, ai_meta = mt \<rparr>"

section \<open>Querying\<close>

record audit_filter =
  af_tenant :: string
  af_entity :: "string option"
  af_entity_id :: "string option"
  af_user :: "string option"
  af_action :: "string option"
  af_from :: "int option"
  af_to :: "int option"
  af_take :: "int option"
  af_skip :: "int option"

definition opt_eq :: "'a option \<Rightarrow> 'a \<Rightarrow> bool" where
  "opt_eq f v = (case f of None \<Rightarrow> True | Some x \<Rightarrow> v = x)"

lemma opt_eq_simps [simp]: "opt_eq None v" "opt_eq (Some x) v \<longleftrightarrow> v = x"
  by (simp_all add: opt_eq_def)

definition filter_action :: "string option \<Rightarrow> audit_action option" where
  "filter_action a = (case a of
     None \<Rightarrow> None
   | Some v \<Rightarrow> (if v = [] then None else map_of action_names (js_upper v)))"

definition audit_matches :: "audit_filter \<Rightarrow> 's audit_row \<Rightarrow> bool" where
  "audit_matches f r \<longleftrightarrow>
     au_tenant r = af_tenant f \<and> opt_eq (af_entity f) (au_entity r) \<and>
     opt_eq (af_entity_id f) (au_entity_id r) \<and>
     (case af_user f of None \<Rightarrow> True | Some u \<Rightarrow> au_actor r = Some u) \<and>
     opt_eq (filter_action (af_action f)) (au_action r) \<and>
     (case af_from f of None \<Rightarrow> True | Some a \<Rightarrow> a \<le> au_at r) \<and>
     (case af_to f of None \<Rightarrow> True | Some b \<Rightarrow> au_at r \<le> b)"

text \<open>Newest first; rows of one instant stay in table order (the database leaves it open).\<close>

definition audit_query :: "audit_filter \<Rightarrow> 's audit_row list \<Rightarrow> 's audit_row list" where
  "audit_query f rows =
     (let tk = clamp_take 500 (case af_take f of None \<Rightarrow> 100 | Some n \<Rightarrow> n);
          sk = clamp_skip (case af_skip f of None \<Rightarrow> 0 | Some n \<Rightarrow> n)
      in take (nat tk) (drop (nat sk) (sort_key (\<lambda>r. - au_at r) (filter (audit_matches f) rows))))"

section \<open>Streaming\<close>

text \<open>
  One iteration reads the page after \<open>last_id\<close> in the order of the ids; the generator's pages are
  returned as a list. The loop has fuel (\<open>stream_complete\<close> shows how much is enough); an empty
  last id counts as none, as in the code.
\<close>

definition page_after :: "string \<Rightarrow> nat \<Rightarrow> string option \<Rightarrow> 's audit_row list \<Rightarrow> 's audit_row list" where
  "page_after t batch last_id rows =
     take batch (sort_key au_id (filter (\<lambda>r. au_tenant r = t \<and>
       (case last_id of None \<Rightarrow> True | Some i \<Rightarrow> i = [] \<or> i < au_id r)) rows))"

fun stream_all :: "nat \<Rightarrow> string \<Rightarrow> nat \<Rightarrow> string option \<Rightarrow> 's audit_row list \<Rightarrow> 's audit_row list list option" where
  "stream_all 0 t batch last_id rows = None"
| "stream_all (Suc n) t batch last_id rows =
     (let page = page_after t batch last_id rows in
      if page = [] then Some []
      else if length page < batch then Some [page]
      else map_option ((#) page) (stream_all n t batch (Some (au_id (last page))) rows))"

section \<open>Hashing\<close>

datatype json =
    JNull | JUndefined | JBool bool | JNum string | JStr string
  | JArr "json list" | JObj "(string \<times> json) list"

text \<open>\<open>JSON.stringify\<close> of a string and of a scalar; a number is carried as its text.\<close>

definition hex_digit :: "nat \<Rightarrow> char" where
  "hex_digit n = (if n < 10 then char_of (48 + n) else char_of (87 + n))"

definition json_char :: "char \<Rightarrow> string" where
  "json_char c =
     (let n = of_char c :: nat in
      if c = CHR 0x22 then [CHR 0x5C, CHR 0x22]
      else if c = CHR 0x5C then [CHR 0x5C, CHR 0x5C]
      else if n = 8 then [CHR 0x5C, CHR ''b'']
      else if n = 9 then [CHR 0x5C, CHR ''t'']
      else if n = 10 then [CHR 0x5C, CHR ''n'']
      else if n = 12 then [CHR 0x5C, CHR ''f'']
      else if n = 13 then [CHR 0x5C, CHR ''r'']
      else if n < 32 then [CHR 0x5C, CHR ''u'', CHR ''0'', CHR ''0'', hex_digit (n div 16), hex_digit (n mod 16)]
      else [c])"

definition json_string :: "string \<Rightarrow> string" where
  "json_string s = CHR 0x22 # concat (map json_char s) @ [CHR 0x22]"

fun stable_stringify :: "json \<Rightarrow> string" where
  "stable_stringify JNull = ''null''"
| "stable_stringify JUndefined = ''undefined''"
| "stable_stringify (JBool b) = (if b then ''true'' else ''false'')"
| "stable_stringify (JNum s) = s"
| "stable_stringify (JStr s) = json_string s"
| "stable_stringify (JArr xs) = ''['' @ join_with (CHR '','') (map stable_stringify xs) @ '']''"
| "stable_stringify (JObj ps) =
     ''{'' @ join_with (CHR '','')
       (map (\<lambda>(k, s). json_string k @ '':'' @ s)
         (sort_key fst (map (\<lambda>(k, v). (k, stable_stringify v)) ps))) @ ''}''"

definition hash_object :: "(string \<Rightarrow> string) \<Rightarrow> json \<Rightarrow> string" where
  "hash_object sha v = sha (stable_stringify v)"

section \<open>The Merkle root\<close>

fun merkle_level :: "(string \<Rightarrow> string) \<Rightarrow> string list \<Rightarrow> string list" where
  "merkle_level sha [] = []"
| "merkle_level sha [x] = [sha (x @ x)]"
| "merkle_level sha (x # y # xs) = sha (x @ y) # merkle_level sha xs"

lemma length_merkle_level: "length (merkle_level sha xs) = (length xs + 1) div 2"
  by (induction sha xs rule: merkle_level.induct) auto

function merkle_loop :: "(string \<Rightarrow> string) \<Rightarrow> string list \<Rightarrow> string list" where
  "merkle_loop sha level = (if 1 < length level then merkle_loop sha (merkle_level sha level) else level)"
  by pat_completeness auto
termination by (relation "measure (\<lambda>(sha, level). length level)") (auto simp: length_merkle_level)

declare merkle_loop.simps [simp del]

definition merkle_root :: "(string \<Rightarrow> string) \<Rightarrow> string list \<Rightarrow> string" where
  "merkle_root sha leaves = (if leaves = [] then sha [] else hd (merkle_loop sha leaves))"

section \<open>The nightly anchor\<close>

record anchor =
  an_tenant :: string
  an_rows :: nat
  an_root :: string
  an_chained :: string
  an_first :: string
  an_last :: string

definition day_ms :: int where
  "day_ms = 24 * 60 * 60 * 1000"

text \<open>
  The window: yesterday's local midnight (the server's fixed offset from UTC is a parameter)
  and the midnight after it.
\<close>

definition anchor_since :: "int \<Rightarrow> int \<Rightarrow> int" where
  "anchor_since tz now = (now - day_ms + tz) div day_ms * day_ms - tz"

definition anchor_until :: "int \<Rightarrow> int \<Rightarrow> int" where
  "anchor_until tz now = anchor_since tz now + day_ms"

definition action_text :: "audit_action \<Rightarrow> string" where
  "action_text a = (case List.find (\<lambda>(s, b). b = a) action_names of Some (s, _) \<Rightarrow> s | None \<Rightarrow> [])"

text \<open>The diff column is JSON that the callers' snapshots give: \<open>diff_json\<close>.\<close>

definition anchor_leaf :: "('s audit_row \<Rightarrow> json) \<Rightarrow> (string \<Rightarrow> string) \<Rightarrow> 's audit_row \<Rightarrow> string" where
  "anchor_leaf diff_json sha r = hash_object sha (JObj
     [(''id'', JStr (au_id r)), (''entityType'', JStr (au_entity r)), (''entityId'', JStr (au_entity_id r)),
      (''action'', JStr (action_text (au_action r))), (''diff'', diff_json r)])"

definition daily_anchor :: "('s audit_row \<Rightarrow> json) \<Rightarrow> (string \<Rightarrow> string) \<Rightarrow> int \<Rightarrow> int \<Rightarrow> 's audit_row list \<Rightarrow> anchor list" where
  "daily_anchor diff_json sha tz now rows =
     (let inside = filter (\<lambda>r. anchor_since tz now \<le> au_at r \<and> au_at r < anchor_until tz now) rows
      in map (\<lambda>t.
           let mine = sort_key au_id (filter (\<lambda>r. au_tenant r = t) inside);
               root = merkle_root sha (map (anchor_leaf diff_json sha) mine)
           in \<lparr> an_tenant = t, an_rows = length mine, an_root = root, an_chained = sha root,
                an_first = au_id (hd mine), an_last = au_id (last mine) \<rparr>)
         (filter (\<lambda>t. t \<noteq> []) (remdups (map au_tenant inside))))"

end
