(* ===== verification/Audit_Props.thy ===== *)
theory Audit_Props
  imports Audit_Log
begin

text \<open>
  The audit trail: it only grows, its export yields every row once, its query never leaves the
  tenant, the hashes do not depend on key order, and what the Merkle root binds.
\<close>

section \<open>Logging\<close>

lemma audit_log_extends: "\<exists>zs. audit_log E i rows = rows @ zs"
  by (auto simp: audit_log_def split: option.splits)

lemma audit_log_prefix: "take (length rows) (audit_log E i rows) = rows"
  using audit_log_extends[of E i rows] by auto

lemma audit_log_other_tenant:
  "ai_tenant i = Some t \<Longrightarrow> t \<noteq> u \<Longrightarrow>
     filter (\<lambda>r. au_tenant r = u) (audit_log E i rows) = filter (\<lambda>r. au_tenant r = u) rows"
  by (simp add: audit_log_def)

lemma audit_entry_sel [simp]: "ai_tenant (audit_entry t u ent eid act b a mt) = Some t"
  by (simp add: audit_entry_def)

section \<open>Streaming\<close>

definition rows_after :: "string \<Rightarrow> string option \<Rightarrow> 's audit_row list \<Rightarrow> 's audit_row list" where
  "rows_after t last_id rows = sort_key au_id (filter (\<lambda>r. au_tenant r = t \<and>
       (case last_id of None \<Rightarrow> True | Some i \<Rightarrow> i = [] \<or> i < au_id r)) rows)"

lemma page_after_rows: "page_after t batch last_id rows = take batch (rows_after t last_id rows)"
  by (simp add: page_after_def rows_after_def)

lemma sorted_ids_split:
  assumes "sorted (map au_id R)" "distinct (map au_id R)" "R = xs @ ys" "xs \<noteq> []"
  shows "filter (\<lambda>r. au_id (last xs) < au_id r) R = ys"
proof -
  have srt: "sorted_wrt (<) (map au_id R)" using assms(1,2) by (simp add: strict_sorted_iff)
  obtain zs z where xs: "xs = zs @ [z]" using assms(4) by (cases xs rule: rev_cases) auto
  have "filter (\<lambda>r. au_id z < au_id r) xs = []" "filter (\<lambda>r. au_id z < au_id r) ys = ys"
    using srt unfolding assms(3) xs
    by (auto simp: filter_empty_conv filter_id_conv sorted_wrt_append dest: less_imp_not_less)
  then show ?thesis by (simp add: assms(3) xs)
qed

lemma rows_after_step:
  assumes "distinct (map au_id rows)" "\<forall>r\<in>set rows. au_id r \<noteq> []" "batch > 0"
    "length (page_after t batch last_id rows) = batch"
  shows "rows_after t (Some (au_id (last (page_after t batch last_id rows)))) rows =
    drop batch (rows_after t last_id rows)"
proof -
  let ?R = "rows_after t last_id rows" and ?xs = "page_after t batch last_id rows"
  let ?i = "au_id (last ?xs)"
  have xs: "?xs = take batch ?R" "?R = ?xs @ drop batch ?R" by (simp_all add: page_after_rows)
  have ne: "?xs \<noteq> []" using assms(3,4) by auto
  have mem: "last ?xs \<in> set ?R" using ne xs(1) by (metis in_set_takeD last_in_set)
  then have nonempty: "?i \<noteq> []" and after: "case last_id of None \<Rightarrow> True | Some i \<Rightarrow> i = [] \<or> i < ?i"
    using assms(2) by (auto simp: rows_after_def)
  have "distinct (map au_id ?R)"
    using assms(1) by (simp add: rows_after_def distinct_map inj_on_def)
  then have "filter (\<lambda>r. ?i < au_id r) ?R = drop batch ?R"
    using sorted_ids_split[OF _ _ xs(2) ne] by (simp add: rows_after_def)
  moreover have "filter (\<lambda>r. ?i < au_id r) ?R = rows_after t (Some ?i) rows"
    using nonempty after
    by (auto simp: rows_after_def filter_sort split: option.splits
        intro!: arg_cong[of _ _ "sort_key au_id"] filter_cong)
  ultimately show ?thesis by simp
qed

lemma stream_all_rows:
  assumes "distinct (map au_id rows)" "\<forall>r\<in>set rows. au_id r \<noteq> []" "batch > 0"
  shows "length (rows_after t last_id rows) < fuel \<Longrightarrow>
    \<exists>pages. stream_all fuel t batch last_id rows = Some pages \<and> concat pages = rows_after t last_id rows \<and>
      (\<forall>p\<in>set pages. p \<noteq> [] \<and> length p \<le> batch)"
proof (induction fuel arbitrary: last_id)
  case (Suc n)
  let ?R = "rows_after t last_id rows" and ?page = "page_after t batch last_id rows"
  show ?case
  proof (cases "length ?page < batch")
    case True
    then have "?page = ?R" by (simp add: page_after_rows)
    then show ?thesis using True by (cases "?page = []") auto
  next
    case False
    then have full: "length ?page = batch" by (simp add: page_after_rows)
    then have ne: "?page \<noteq> []" using assms(3) by auto
    have nxt: "rows_after t (Some (au_id (last ?page))) rows = drop batch ?R"
      by (rule rows_after_step[OF assms full])
    have "length (drop batch ?R) < n" using Suc.prems assms(3) full by (auto simp: page_after_rows)
    then obtain pages where p: "stream_all n t batch (Some (au_id (last ?page))) rows = Some pages"
      "concat pages = drop batch ?R" "\<forall>p\<in>set pages. p \<noteq> [] \<and> length p \<le> batch"
      using Suc.IH[of "Some (au_id (last ?page))"] nxt by auto
    have "?page @ drop batch ?R = ?R" by (simp add: page_after_rows)
    with p ne full False show ?thesis by (simp add: Let_def)
  qed
qed simp

section \<open>Hashing\<close>

inductive json_same :: "json \<Rightarrow> json \<Rightarrow> bool" where
  same_refl: "json_same v v"
| same_arr: "list_all2 json_same xs ys \<Longrightarrow> json_same (JArr xs) (JArr ys)"
| same_obj: "list_all2 (\<lambda>p q. fst p = fst q \<and> json_same (snd p) (snd q)) ps qs' \<Longrightarrow>
     distinct (map fst qs) \<Longrightarrow> set qs' = set qs \<Longrightarrow> distinct qs' \<Longrightarrow> json_same (JObj ps) (JObj qs)"

lemma sort_key_fst_cong:
  assumes "set ps = set qs" "distinct (map fst ps)" "distinct (map fst qs)"
  shows "sort_key fst ps = sort_key fst (qs :: (string \<times> 'a) list)"
proof (rule map_sorted_distinct_set_unique[of fst])
  show "inj_on fst (set (sort_key fst ps) \<union> set (sort_key fst qs))"
    using assms by (simp add: distinct_map)
qed (use assms in \<open>simp_all add: distinct_map\<close>)

lemma stringify_same: "json_same x y \<Longrightarrow> stable_stringify x = stable_stringify y"
proof (induction rule: json_same.induct)
  case (same_arr xs ys)
  then have "map stable_stringify xs = map stable_stringify ys"
    by (auto simp: list_all2_conv_all_nth intro: nth_equalityI)
  then show ?case by simp
next
  case (same_obj ps qs' qs)
  let ?f = "\<lambda>(k, v). (k, stable_stringify v)"
  have "map ?f ps = map ?f qs'"
    using same_obj(1) by (auto simp: list_all2_conv_all_nth split_def intro: nth_equalityI)
  moreover have "sort_key fst (map ?f qs') = sort_key fst (map ?f qs)"
  proof (rule sort_key_fst_cong)
    have k: "map fst (map ?f zs) = map fst zs" for zs by (induction zs) auto
    have "distinct (map fst qs')"
      using same_obj(2-4) by (simp add: distinct_map)
    then show "distinct (map fst (map ?f qs'))" "distinct (map fst (map ?f qs))"
      using same_obj(2) by (simp_all only: k)
    show "set (map ?f qs') = set (map ?f qs)" using same_obj(3) by simp
  qed
  ultimately show ?case by simp
qed simp

section \<open>The Merkle tree\<close>

text \<open>The strings hashed on the way from the leaves to the root.\<close>

fun level_inputs :: "string list \<Rightarrow> string list" where
  "level_inputs [] = []"
| "level_inputs [x] = [x @ x]"
| "level_inputs (x # y # xs) = (x @ y) # level_inputs xs"

lemma merkle_level_inputs: "merkle_level sha xs = map sha (level_inputs xs)"
  by (induction sha xs rule: merkle_level.induct) auto

function merkle_inputs :: "(string \<Rightarrow> string) \<Rightarrow> string list \<Rightarrow> string set" where
  "merkle_inputs sha xs = (if 1 < length xs then set (level_inputs xs) \<union> merkle_inputs sha (merkle_level sha xs) else {})"
  by pat_completeness auto
termination by (relation "measure (\<lambda>(sha, level). length level)") (auto simp: length_merkle_level)

declare merkle_inputs.simps [simp del]

definition collision_in :: "(string \<Rightarrow> string) \<Rightarrow> string set \<Rightarrow> string set \<Rightarrow> bool" where
  "collision_in sha A B = (\<exists>a\<in>A. \<exists>b\<in>B. a \<noteq> b \<and> sha a = sha b)"

lemma length_level_inputs: "length (level_inputs xs) = (length xs + 1) div 2"
  by (induction xs rule: level_inputs.induct) auto

lemma level_inputs_inj:
  "length xs = length ys \<Longrightarrow> \<forall>x\<in>set xs \<union> set ys. length x = L \<Longrightarrow> level_inputs xs = level_inputs ys \<Longrightarrow> xs = ys"
proof (induction xs arbitrary: ys rule: level_inputs.induct)
  case (2 x)
  then obtain y where "ys = [y]" by (cases ys) auto
  with 2 show ?case by simp
next
  case (3 x x' xs)
  then obtain y y' zs where "ys = y # y' # zs" by (cases ys; cases "tl ys") auto
  with 3 show ?case by auto
qed simp

lemma map_collision:
  assumes "map sha A = map sha B" "A \<noteq> B" shows "collision_in sha (set A) (set B)"
proof -
  have len: "length A = length B" using assms(1) by (metis length_map)
  then obtain i where i: "i < length A" "A ! i \<noteq> B ! i" using assms(2) by (auto simp: list_eq_iff_nth_eq)
  then have "sha (A ! i) = sha (B ! i)" using assms(1) len by (metis nth_map)
  moreover have "A ! i \<in> set A" "B ! i \<in> set B" using i len by auto
  ultimately show ?thesis using i by (auto simp: collision_in_def)
qed

lemma collision_mono: "collision_in sha A B \<Longrightarrow> A \<subseteq> A' \<Longrightarrow> B \<subseteq> B' \<Longrightarrow> collision_in sha A' B'"
  by (auto simp: collision_in_def)

lemma merkle_loop_binding:
  "\<forall>s. length (sha s) = L \<Longrightarrow> length xs = length ys \<Longrightarrow> \<forall>x\<in>set xs \<union> set ys. length x = L \<Longrightarrow>
    merkle_loop sha xs = merkle_loop sha ys \<Longrightarrow>
    xs = ys \<or> collision_in sha (merkle_inputs sha xs) (merkle_inputs sha ys)"
proof (induction sha xs arbitrary: ys rule: merkle_loop.induct)
  case (1 sha xs)
  note shl = 1(2) and len = 1(3) and leaves = 1(4) and eq = 1(5)
  show ?case
  proof (cases "1 < length xs")
    case True
    have inp: "merkle_inputs sha xs = set (level_inputs xs) \<union> merkle_inputs sha (merkle_level sha xs)"
      "merkle_inputs sha ys = set (level_inputs ys) \<union> merkle_inputs sha (merkle_level sha ys)"
      using True len by (simp_all add: merkle_inputs.simps[of sha xs] merkle_inputs.simps[of sha ys])
    have step: "merkle_loop sha (merkle_level sha xs) = merkle_loop sha (merkle_level sha ys)"
      using eq True len by (simp add: merkle_loop.simps[of sha xs] merkle_loop.simps[of sha ys])
    have "merkle_level sha xs = merkle_level sha ys \<or>
        collision_in sha (merkle_inputs sha (merkle_level sha xs)) (merkle_inputs sha (merkle_level sha ys))"
      using shl len by (intro 1(1)[OF True shl _ _ step]) (auto simp: length_merkle_level merkle_level_inputs length_level_inputs)
    then show ?thesis
    proof
      assume same: "merkle_level sha xs = merkle_level sha ys"
      show ?thesis
      proof (cases "level_inputs xs = level_inputs ys")
        case True
        with level_inputs_inj[OF len leaves] show ?thesis by simp
      next
        case False
        with map_collision[of sha "level_inputs xs" "level_inputs ys"] same
        have "collision_in sha (set (level_inputs xs)) (set (level_inputs ys))"
          by (simp add: merkle_level_inputs)
        then show ?thesis unfolding inp by (blast intro: collision_mono)
      qed
    next
      assume "collision_in sha (merkle_inputs sha (merkle_level sha xs)) (merkle_inputs sha (merkle_level sha ys))"
      then show ?thesis unfolding inp by (blast intro: collision_mono)
    qed
  next
    case False
    then show ?thesis using len eq by (simp add: merkle_loop.simps[of sha xs] merkle_loop.simps[of sha ys])
  qed
qed

lemma merkle_loop_single: "xs \<noteq> [] \<Longrightarrow> \<exists>r. merkle_loop sha xs = [r]"
proof (induction sha xs rule: merkle_loop.induct)
  case (1 sha xs)
  show ?case
  proof (cases "1 < length xs")
    case True
    then have "merkle_level sha xs \<noteq> []" by (cases xs; cases "tl xs") auto
    with 1 True show ?thesis by (simp add: merkle_loop.simps[of sha xs])
  next
    case False
    with 1(2) show ?thesis by (cases xs) (simp_all add: merkle_loop.simps)
  qed
qed

lemma merkle_level_odd: "odd (length xs) \<Longrightarrow> merkle_level sha (xs @ [last xs]) = merkle_level sha xs"
  by (induction sha xs rule: merkle_level.induct) auto


lemma filter_map_key:
  "distinct ts \<Longrightarrow> (\<And>x. k (F x) = x) \<Longrightarrow> filter (\<lambda>a. k a = t) (map F ts) = (if t \<in> set ts then [F t] else [])"
  by (induction ts) auto

section \<open>Properties\<close>

text \<open>
  C23: the export yields every audit row of the tenant exactly once, in the order of the ids, in
  non-empty pages of at most the batch size, and it ends: one more round than there are rows is
  enough.
\<close>

theorem stream_complete:
  assumes "distinct (map au_id rows)" "\<forall>r\<in>set rows. au_id r \<noteq> []" "batch > 0"
    "length (filter (\<lambda>r. au_tenant r = t) rows) < fuel"
  shows "\<exists>pages. stream_all fuel t batch None rows = Some pages \<and>
    concat pages = sort_key au_id (filter (\<lambda>r. au_tenant r = t) rows) \<and>
    (\<forall>p\<in>set pages. p \<noteq> [] \<and> length p \<le> batch)"
  using stream_all_rows[OF assms(1-3), of t None fuel] assms(4) by (simp add: rows_after_def)

definition sample_row :: "string \<Rightarrow> string \<Rightarrow> int \<Rightarrow> unit audit_row" where
  "sample_row i t w = \<lparr> au_id = i, au_tenant = t, au_actor = None, au_entity = ''E'', au_entity_id = [],
     au_action = ACreate, au_before = None, au_after = None, au_meta = None, au_at = w \<rparr>"

lemma sample_row_sel [simp]: "au_id (sample_row i t w) = i" "au_tenant (sample_row i t w) = t" "au_at (sample_row i t w) = w"
  by (simp_all add: sample_row_def)

theorem stream_complete_witness:
  "\<exists>pages. stream_all 4 ''t'' 1 None [sample_row ''b'' ''t'' 5, sample_row ''a'' ''t'' 7, sample_row ''c'' ''u'' 1] = Some pages \<and>
     concat pages = [sample_row ''a'' ''t'' 7, sample_row ''b'' ''t'' 5]"
  using stream_complete[of "[sample_row ''b'' ''t'' 5, sample_row ''a'' ''t'' 7, sample_row ''c'' ''u'' 1]" 1 "''t''" 4]
  by auto

text \<open>
  A query returns at most 500 rows, all of the asking tenant and matching the filter, newest first.
\<close>

theorem audit_query_sound:
  "length (audit_query f rows) \<le> 500 \<and>
   (\<forall>r\<in>set (audit_query f rows). r \<in> set rows \<and> au_tenant r = af_tenant f \<and> audit_matches f r) \<and>
   sorted (map (\<lambda>r. - au_at r) (audit_query f rows))"
proof -
  let ?all = "sort_key (\<lambda>r. - au_at r) (filter (audit_matches f) rows)"
  have mem: "\<forall>r\<in>set (take n (drop m ?all)). r \<in> set rows \<and> au_tenant r = af_tenant f \<and> audit_matches f r" for n m
    by (auto dest!: in_set_takeD in_set_dropD simp: audit_matches_def)
  have srt: "sorted (map (\<lambda>r. - au_at r) (take n (drop m ?all)))" for n m
    by (simp add: sorted_wrt_take sorted_wrt_drop flip: take_map drop_map)
  have len: "length (take (nat (clamp_take 500 k)) xs) \<le> 500" for k and xs :: "'a audit_row list"
  proof -
    have "nat (clamp_take 500 k) \<le> 500" by (simp add: clamp_take_def nat_le_iff)
    then show ?thesis by simp
  qed
  show ?thesis
    unfolding audit_query_def Let_def using mem srt len by blast
qed

text \<open>
  Two values that differ only in the order of the keys of their objects, at any depth, have
  the same hash.
\<close>

theorem hash_order_independent:
  "json_same x y \<Longrightarrow> hash_object sha x = hash_object sha y"
  by (simp add: hash_object_def stringify_same)

theorem hash_order_independent_witness:
  "hash_object (\<lambda>s. s) (JObj [(''b'', JNum ''1''), (''a'', JNull)]) = hash_object (\<lambda>s. s) (JObj [(''a'', JNull), (''b'', JNum ''1'')])"
  by (rule hash_order_independent, rule same_obj[of _ "[(''b'', JNum ''1''), (''a'', JNull)]"])
    (simp_all add: same_refl insert_commute)

text \<open>
  C6: for equally many leaves the Merkle root binds the leaves: two different lists of hashes
  have the same root only if SHA-256 collides on strings hashed on the way.
\<close>

theorem merkle_binding:
  assumes "\<forall>s. length (sha s) = L" "length xs = length ys" "\<forall>x\<in>set xs \<union> set ys. length x = L"
    "merkle_root sha xs = merkle_root sha ys" "xs \<noteq> ys"
  shows "\<exists>a\<in>merkle_inputs sha xs. \<exists>b\<in>merkle_inputs sha ys. a \<noteq> b \<and> sha a = sha b"
proof -
  have ne: "xs \<noteq> []" "ys \<noteq> []" using assms(2,5) by auto
  then have "merkle_loop sha xs = merkle_loop sha ys"
    using assms(4) merkle_loop_single[of xs sha] merkle_loop_single[of ys sha] by (auto simp: merkle_root_def)
  then have "collision_in sha (merkle_inputs sha xs) (merkle_inputs sha ys)"
    using merkle_loop_binding[OF assms(1-3)] assms(5) by blast
  then show ?thesis by (simp add: collision_in_def)
qed

theorem merkle_binding_witness:
  "\<exists>a\<in>merkle_inputs (\<lambda>_. ''h'') [''x'', ''y'']. \<exists>b\<in>merkle_inputs (\<lambda>_. ''h'') [''y'', ''x'']. a \<noteq> b"
  using merkle_binding[of "\<lambda>_. ''h''" 1 "[''x'', ''y'']" "[''y'', ''x'']"]
  by (auto simp: merkle_root_def merkle_loop.simps)

text \<open>
  It does not bind their number: repeating the last of an odd number (three or more) of
  leaves gives the same root.
\<close>

theorem merkle_duplicate_leaf:
  assumes "odd (length xs)" "length xs \<noteq> 1"
  shows "merkle_root sha (xs @ [last xs]) = merkle_root sha xs"
proof -
  have "1 < length xs" using assms by (cases "length xs") auto
  then show ?thesis
    using merkle_level_odd[OF assms(1)]
    by (auto simp: merkle_root_def merkle_loop.simps[of sha xs] merkle_loop.simps[of sha "xs @ [last xs]"])
qed

theorem merkle_duplicate_leaf_witness:
  "merkle_root (\<lambda>s. s) [''a'', ''b'', ''c'', ''c''] = merkle_root (\<lambda>s. s) [''a'', ''b'', ''c'']"
  using merkle_duplicate_leaf[of "[''a'', ''b'', ''c'']" "\<lambda>s. s"] by simp

text \<open>
  The windows of the nightly anchor tile time: the next day's window starts where this one
  ends, each window has ended when it is anchored, and a row is anchored under its tenant exactly
  when its time is in the window, together with all rows of the tenant in it.
\<close>

theorem daily_anchor_covers:
  "anchor_since tz (now + day_ms) = anchor_until tz now \<and> anchor_until tz now \<le> now \<and>
   (\<forall>t. t \<noteq> [] \<longrightarrow>
     (let mine = filter (\<lambda>r. au_tenant r = t \<and> anchor_since tz now \<le> au_at r \<and> au_at r < anchor_until tz now) rows
      in map an_rows (filter (\<lambda>a. an_tenant a = t) (daily_anchor dj sha tz now rows)) =
           (if mine = [] then [] else [length mine]) \<and>
         map an_root (filter (\<lambda>a. an_tenant a = t) (daily_anchor dj sha tz now rows)) =
           (if mine = [] then [] else [merkle_root sha (map (anchor_leaf dj sha) (sort_key au_id mine))])))"
proof -
  have window: "anchor_since tz (now + day_ms) = anchor_until tz now" "anchor_until tz now \<le> now"
  proof -
    have "(now + tz + day_ms * (- 1)) div day_ms = - 1 + (now + tz) div day_ms"
      by (rule div_mult_self2) (simp add: day_ms_def)
    then have q: "(now - day_ms + tz) div day_ms = (now + tz) div day_ms - 1"
      by (simp add: diff_add_eq add_diff_eq flip: diff_conv_add_uminus)
    have p: "now + day_ms - day_ms + tz = now + tz" by simp
    have "(now + tz) div day_ms * day_ms \<le> now + tz" by (simp add: day_ms_def)
    then show "anchor_since tz (now + day_ms) = anchor_until tz now" "anchor_until tz now \<le> now"
      unfolding anchor_since_def anchor_until_def q p by (simp_all add: left_diff_distrib)
  qed
  define inside where "inside = filter (\<lambda>r. anchor_since tz now \<le> au_at r \<and> au_at r < anchor_until tz now) rows"
  define F where "F u = (let mine = sort_key au_id (filter (\<lambda>r. au_tenant r = u) inside);
      root = merkle_root sha (map (anchor_leaf dj sha) mine)
    in \<lparr> an_tenant = u, an_rows = length mine, an_root = root, an_chained = sha root,
         an_first = au_id (hd mine), an_last = au_id (last mine) \<rparr>)" for u
  have da: "daily_anchor dj sha tz now rows = map F (filter (\<lambda>t. t \<noteq> []) (remdups (map au_tenant inside)))"
    by (simp add: daily_anchor_def inside_def F_def Let_def)
  have F: "an_tenant (F u) = u" for u by (simp add: F_def Let_def)
  have one: "filter (\<lambda>a. an_tenant a = t) (daily_anchor dj sha tz now rows) =
      (if filter (\<lambda>r. au_tenant r = t) inside = [] then [] else [F t])" if "t \<noteq> []" for t
    unfolding da using that filter_map_key[of _ an_tenant F t, OF _ F]
    by (auto simp: filter_empty_conv)
  have mine: "filter (\<lambda>r. au_tenant r = t) inside =
      filter (\<lambda>r. au_tenant r = t \<and> anchor_since tz now \<le> au_at r \<and> au_at r < anchor_until tz now) rows" for t
    by (auto simp: inside_def intro!: filter_cong)
  show ?thesis
    using window one by (auto simp: F_def mine Let_def)
qed

theorem daily_anchor_covers_witness:
  "map an_rows (filter (\<lambda>a. an_tenant a = ''t'')
     (daily_anchor (\<lambda>_. JNull) (\<lambda>s. s) 0 (2 * day_ms) [sample_row ''a'' ''t'' day_ms, sample_row ''b'' ''u'' day_ms])) = [1]"
  using daily_anchor_covers[of 0 "2 * day_ms" "[sample_row ''a'' ''t'' day_ms, sample_row ''b'' ''u'' day_ms]" "\<lambda>_. JNull" "\<lambda>s. s"]
  by (auto simp: sample_row_def anchor_since_def anchor_until_def day_ms_def Let_def)

theorem audit_query_sound_witness:
  "length (audit_query \<lparr> af_tenant = ''t'', af_entity = None, af_entity_id = None, af_user = None, af_action = None,
       af_from = None, af_to = None, af_take = None, af_skip = None \<rparr> [sample_row ''a'' ''t'' 1]) \<le> 500"
  by (rule audit_query_sound[THEN conjunct1])

end
