(* ===== verification/Topo_Sort.thy ===== *)
theory Topo_Sort
  imports Prelude
begin

text \<open>
  The depth-first topological sort that the repository writes twice: \<open>topoSort\<close> over the rows of
  a bulk import (hierarchy.service.ts) and \<open>topoSortFormulas\<close> (calculation.processor.ts). Here
  it is one function over a key and the list of the keys an item depends on.

  The code's set of finished keys always holds the keys of the result list, so the model tests
  membership there; its stack set is emptied on the way back, so the model passes it down.
\<close>

section \<open>The algorithm\<close>

text \<open>\<open>new Map(rows.map(r => [key r, r])).get(k)\<close>: of several rows with one key the last.\<close>

definition lookup_row :: "('a \<Rightarrow> 'k) \<Rightarrow> 'a list \<Rightarrow> 'k \<Rightarrow> 'a option" where
  "lookup_row key rows k = List.find (\<lambda>r. key r = k) (rev rows)"

lemma lookup_row_Some: "lookup_row key rows k = Some r \<Longrightarrow> r \<in> set rows \<and> key r = k"
  unfolding lookup_row_def find_Some_iff by (metis length_rev nth_mem set_rev)

lemma lookup_row_None: "lookup_row key rows k = None \<longleftrightarrow> k \<notin> key ` set rows"
  by (auto simp: lookup_row_def find_None_iff)

definition open_keys :: "('a \<Rightarrow> 'k) \<Rightarrow> 'a list \<Rightarrow> 'k list \<Rightarrow> nat" where
  "open_keys key rows stack = card (key ` set rows - set stack)"

lemma open_keys_push:
  assumes "key r \<notin> set stack" "key r \<in> key ` set rows"
  shows "open_keys key rows (key r # stack) < open_keys key rows stack"
  unfolding open_keys_def using assms by (intro psubset_card_mono) auto

lemma open_keys_push_other:
  assumes "key r \<notin> key ` set rows"
  shows "open_keys key rows (key r # stack) = open_keys key rows stack"
proof -
  have "key ` set rows - set (key r # stack) = key ` set rows - set stack" using assms by auto
  then show ?thesis by (simp only: open_keys_def)
qed

function (sequential)
      topo_visit :: "('a \<Rightarrow> 'k) \<Rightarrow> ('a \<Rightarrow> 'k list) \<Rightarrow> 'a list \<Rightarrow> 'a \<Rightarrow> 'k list \<Rightarrow> 'a list \<Rightarrow> 'k + 'a list"
  and topo_visit_deps :: "('a \<Rightarrow> 'k) \<Rightarrow> ('a \<Rightarrow> 'k list) \<Rightarrow> 'a list \<Rightarrow> 'k list \<Rightarrow> 'k list \<Rightarrow> 'a list \<Rightarrow> 'k + 'a list"
where
  "topo_visit key deps rows r stack res =
     (if key r \<in> set (map key res) then Inr res
      else if key r \<in> set stack then Inl (key r)
      else bindR (topo_visit_deps key deps rows (deps r) (key r # stack) res) (\<lambda>res'. Inr (res' @ [r])))"
| "topo_visit_deps key deps rows [] stack res = Inr res"
| "topo_visit_deps key deps rows (k # ks) stack res =
     (case lookup_row key rows k of
        None \<Rightarrow> topo_visit_deps key deps rows ks stack res
      | Some d \<Rightarrow> bindR (topo_visit key deps rows d stack res) (topo_visit_deps key deps rows ks stack))"
  by pat_completeness auto

termination
proof (relation "measures
    [\<lambda>x. case x of
        Inl (key, deps, rows, r, stack, res) \<Rightarrow> open_keys key rows stack + (if key r \<in> key ` set rows then 0 else 1)
      | Inr (key, deps, rows, ks, stack, res) \<Rightarrow> open_keys key rows stack,
     \<lambda>x. case x of Inl _ \<Rightarrow> 0 | Inr (key, deps, rows, ks, stack, res) \<Rightarrow> length ks + 1]", goal_cases)
  case (2 key deps rows r stack res)
  then show ?case
    using open_keys_push[of key r stack rows] open_keys_push_other[of key r rows stack] by auto
next
  case (4 key deps rows k ks stack res d)
  then show ?case using lookup_row_Some[of key rows k d] by auto
qed auto

declare topo_visit.simps [simp del] topo_visit_deps.simps(2) [simp del]

fun topo_loop :: "('a \<Rightarrow> 'k) \<Rightarrow> ('a \<Rightarrow> 'k list) \<Rightarrow> 'a list \<Rightarrow> 'a list \<Rightarrow> 'a list \<Rightarrow> 'k + 'a list" where
  "topo_loop key deps rows [] res = Inr res"
| "topo_loop key deps rows (r # rs) res =
     bindR (topo_visit key deps rows r [] res) (topo_loop key deps rows rs)"

definition topo_order :: "('a \<Rightarrow> 'k) \<Rightarrow> ('a \<Rightarrow> 'k list) \<Rightarrow> 'a list \<Rightarrow> 'k + 'a list" where
  "topo_order key deps rows = topo_loop key deps rows rows []"

section \<open>The result is a dependency order\<close>

text \<open>Keys occur once and what an item depends on (among the rows) stands before it.\<close>

definition dep_ordered :: "('a \<Rightarrow> 'k) \<Rightarrow> ('a \<Rightarrow> 'k list) \<Rightarrow> 'a list \<Rightarrow> 'a list \<Rightarrow> bool" where
  "dep_ordered key deps rows res \<longleftrightarrow>
     distinct (map key res) \<and> set res \<subseteq> set rows \<and>
     (\<forall>ys r zs. res = ys @ r # zs \<longrightarrow> (\<forall>k\<in>set (deps r). k \<in> key ` set rows \<longrightarrow> k \<in> key ` set ys))"

lemma dep_ordered_Nil [simp]: "dep_ordered key deps rows []"
  by (simp add: dep_ordered_def)

lemma dep_ordered_snoc:
  assumes "dep_ordered key deps rows res" "r \<in> set rows" "key r \<notin> key ` set res"
    "\<forall>k\<in>set (deps r). k \<in> key ` set rows \<longrightarrow> k \<in> key ` set res"
  shows "dep_ordered key deps rows (res @ [r])"
proof -
  have "k \<in> key ` set ys"
    if "res @ [r] = ys @ x # zs" "k \<in> set (deps x)" "k \<in> key ` set rows" for ys x zs k
  proof (cases zs rule: rev_cases)
    case Nil
    with that assms(4) show ?thesis by auto
  next
    case (snoc zs' z)
    with that(1) have "res = ys @ x # zs'" by simp
    with assms(1) that show ?thesis unfolding dep_ordered_def by blast
  qed
  with assms show ?thesis unfolding dep_ordered_def by auto
qed

text \<open>One step of the search: the result grows by new keys that are not on the stack.\<close>

definition grows :: "('a \<Rightarrow> 'k) \<Rightarrow> ('a \<Rightarrow> 'k list) \<Rightarrow> 'a list \<Rightarrow> 'k list \<Rightarrow> 'a list \<Rightarrow> 'a list \<Rightarrow> bool" where
  "grows key deps rows stack res res' \<longleftrightarrow>
     dep_ordered key deps rows res' \<and> key ` set res \<subseteq> key ` set res' \<and>
     (key ` set res' - key ` set res) \<inter> set stack = {}"

lemma grows_refl: "dep_ordered key deps rows res \<Longrightarrow> grows key deps rows stack res res"
  by (simp add: grows_def)

lemma grows_trans: "grows key deps rows s a b \<Longrightarrow> grows key deps rows s b c \<Longrightarrow> grows key deps rows s a c"
proof -
  assume a: "grows key deps rows s a b" and b: "grows key deps rows s b c"
  have "(C - A) \<inter> S = {}" if "A \<subseteq> B" "(B - A) \<inter> S = {}" "(C - B) \<inter> S = {}" for A B C S :: "'b set"
    using that by blast
  with a b show ?thesis unfolding grows_def by (meson order_trans)
qed

lemma topo_visit_grows:
  "dep_ordered key deps rows res \<Longrightarrow> r \<in> set rows \<Longrightarrow> topo_visit key deps rows r stack res = Inr res' \<Longrightarrow>
     grows key deps rows stack res res' \<and> key r \<in> key ` set res'"
  "dep_ordered key deps rows res \<Longrightarrow> topo_visit_deps key deps rows ks stack res = Inr res' \<Longrightarrow>
     grows key deps rows stack res res' \<and> (\<forall>k\<in>set ks. k \<in> key ` set rows \<longrightarrow> k \<in> key ` set res')"
proof (induction key deps rows r stack res and key deps rows ks stack res
    arbitrary: res' and res' rule: topo_visit_topo_visit_deps.induct)
  case (1 key deps rows r stack res)
  show ?case
  proof (cases "key r \<in> set (map key res) \<or> key r \<in> set stack")
    case True
    with 1(2-4) show ?thesis by (auto simp: topo_visit.simps intro: grows_refl split: if_splits)
  next
    case False
    with 1(4) obtain mid where mid: "topo_visit_deps key deps rows (deps r) (key r # stack) res = Inr mid"
      "res' = mid @ [r]"
      by (auto simp: topo_visit.simps[of key deps rows r] bindR_Inr_iff)
    have g: "grows key deps rows (key r # stack) res mid"
      and d: "\<forall>k\<in>set (deps r). k \<in> key ` set rows \<longrightarrow> k \<in> key ` set mid"
      using 1(1)[OF _ _ 1(2) mid(1)] False by auto
    from g have o: "dep_ordered key deps rows mid" "key ` set res \<subseteq> key ` set mid"
      "(key ` set mid - key ` set res) \<inter> set (key r # stack) = {}"
      by (simp_all add: grows_def)
    have "key r \<notin> key ` set mid" using o(3) False by auto
    then have "dep_ordered key deps rows res'"
      unfolding mid(2) using o(1) d 1(3) by (intro dep_ordered_snoc) auto
    moreover have "key ` set res \<subseteq> key ` set res'" "(key ` set res' - key ` set res) \<inter> set stack = {}"
      using o(2,3) False by (auto simp: mid(2))
    ultimately show ?thesis by (auto simp: mid(2) grows_def)
  qed
next
  case (2 key deps rows stack res)
  then show ?case by (auto intro: grows_refl)
next
  case (3 key deps rows k ks stack res)
  show ?case
  proof (cases "lookup_row key rows k")
    case None
    with 3 show ?thesis by (auto simp: topo_visit_deps.simps(2) lookup_row_None)
  next
    case (Some d)
    note d = lookup_row_Some[OF Some]
    from 3(5) Some obtain mid where m: "topo_visit key deps rows d stack res = Inr mid"
      "topo_visit_deps key deps rows ks stack mid = Inr res'"
      by (auto simp: topo_visit_deps.simps(2) bindR_Inr_iff)
    have a: "grows key deps rows stack res mid \<and> key d \<in> key ` set mid"
      using 3(2)[OF Some 3(4) _ m(1)] d by blast
    have b: "grows key deps rows stack mid res' \<and> (\<forall>k\<in>set ks. k \<in> key ` set rows \<longrightarrow> k \<in> key ` set res')"
      using 3(3)[OF Some m(1) _ m(2)] a by (simp add: grows_def)
    then have "key d \<in> key ` set res'" using a unfolding grows_def by blast
    with a b d show ?thesis by (auto intro: grows_trans)
  qed
qed


lemma topo_loop_grows:
  "dep_ordered key deps rows res \<Longrightarrow> set rs \<subseteq> set rows \<Longrightarrow> topo_loop key deps rows rs res = Inr res' \<Longrightarrow>
     dep_ordered key deps rows res' \<and> key ` set res \<subseteq> key ` set res' \<and> key ` set rs \<subseteq> key ` set res'"
proof (induction rs arbitrary: res)
  case (Cons r rs)
  then obtain mid where m: "topo_visit key deps rows r [] res = Inr mid" "topo_loop key deps rows rs mid = Inr res'"
    by (auto simp: bindR_Inr_iff)
  have a: "grows key deps rows [] res mid \<and> key r \<in> key ` set mid"
    using topo_visit_grows(1)[OF Cons.prems(1) _ m(1)] Cons.prems(2) by simp
  then have "dep_ordered key deps rows res' \<and> key ` set mid \<subseteq> key ` set res' \<and> key ` set rs \<subseteq> key ` set res'"
    using Cons.IH[OF _ _ m(2)] Cons.prems(2) by (simp add: grows_def)
  with a show ?case unfolding grows_def by auto
qed simp

lemma topo_order_sound:
  assumes "topo_order key deps rows = Inr res"
  shows "dep_ordered key deps rows res" "key ` set res = key ` set rows"
  using topo_loop_grows[of key deps rows "[]" rows res] assms
  by (auto simp: topo_order_def dep_ordered_def)

section \<open>Failure is a cycle\<close>

text \<open>The dependencies between the keys of the rows.\<close>

definition dep_edges :: "('a \<Rightarrow> 'k) \<Rightarrow> ('a \<Rightarrow> 'k list) \<Rightarrow> 'a list \<Rightarrow> ('k \<times> 'k) set" where
  "dep_edges key deps rows = {(key r, k) | r k. r \<in> set rows \<and> k \<in> set (deps r) \<and> k \<in> key ` set rows}"

lemma dep_edgesI: "r \<in> set rows \<Longrightarrow> k \<in> set (deps r) \<Longrightarrow> k \<in> key ` set rows \<Longrightarrow> (key r, k) \<in> dep_edges key deps rows"
  by (auto simp: dep_edges_def)

lemma topo_visit_cycle:
  "r \<in> set rows \<Longrightarrow> \<forall>s\<in>set stack. (s, key r) \<in> (dep_edges key deps rows)\<^sup>+ \<Longrightarrow>
     topo_visit key deps rows r stack res = Inl c \<Longrightarrow> (c, c) \<in> (dep_edges key deps rows)\<^sup>+"
  "\<forall>s\<in>set stack. \<forall>k\<in>set ks. k \<in> key ` set rows \<longrightarrow> (s, k) \<in> (dep_edges key deps rows)\<^sup>+ \<Longrightarrow>
     topo_visit_deps key deps rows ks stack res = Inl c \<Longrightarrow> (c, c) \<in> (dep_edges key deps rows)\<^sup>+"
proof (induction key deps rows r stack res and key deps rows ks stack res
    rule: topo_visit_topo_visit_deps.induct)
  case (1 key deps rows r stack res)
  show ?case
  proof (cases "key r \<in> set (map key res) \<or> key r \<in> set stack")
    case True
    with 1(3,4) show ?thesis by (auto simp: topo_visit.simps split: if_splits)
  next
    case False
    with 1(4) have run: "topo_visit_deps key deps rows (deps r) (key r # stack) res = Inl c"
      by (auto simp: topo_visit.simps[of key deps rows r] bindR_Inl_iff)
    have "(s, k) \<in> (dep_edges key deps rows)\<^sup>+"
      if "s \<in> set (key r # stack)" "k \<in> set (deps r)" "k \<in> key ` set rows" for s k
      using that 1(3) dep_edgesI[of r rows k deps key, OF 1(2)] by (auto intro: trancl_into_trancl)
    then show ?thesis using 1(1)[OF _ _ _ run] False by auto
  qed
next
  case (3 key deps rows k ks stack res)
  show ?case
  proof (cases "lookup_row key rows k")
    case None
    with 3 show ?thesis by (auto simp: topo_visit_deps.simps(2))
  next
    case (Some d)
    note d = lookup_row_Some[OF Some]
    from 3(5) Some consider "topo_visit key deps rows d stack res = Inl c"
      | mid where "topo_visit key deps rows d stack res = Inr mid" "topo_visit_deps key deps rows ks stack mid = Inl c"
      by (auto simp: topo_visit_deps.simps(2) bindR_Inl_iff)
    then show ?thesis
    proof cases
      case 1
      then show ?thesis using 3(2)[OF Some _ _ 1] 3(4) d by auto
    next
      case 2
      then show ?thesis using 3(3)[OF Some 2(1) _ 2(2)] 3(4) by auto
    qed
  qed
qed simp

lemma topo_loop_cycle:
  "set rs \<subseteq> set rows \<Longrightarrow> topo_loop key deps rows rs res = Inl c \<Longrightarrow> (c, c) \<in> (dep_edges key deps rows)\<^sup>+"
proof (induction rs arbitrary: res)
  case (Cons r rs)
  then show ?case using topo_visit_cycle(1)[of r rows "[]" key deps res c] by (auto simp: bindR_Inl_iff)
qed simp

lemma dep_ordered_acyclic:
  assumes "distinct (map key rows)" "dep_ordered key deps rows res" "key ` set res = key ` set rows"
  shows "(c, c) \<notin> (dep_edges key deps rows)\<^sup>+"
proof -
  define pos where "pos k = (LEAST i. i < length res \<and> key (res ! i) = k)" for k
  have dist: "distinct (map key res)" and sub: "set res \<subseteq> set rows" using assms(2) by (auto simp: dep_ordered_def)
  have pos: "pos (key (res ! i)) = i" if "i < length res" for i
    unfolding pos_def using that dist by (intro Least_equality) (auto simp: distinct_conv_nth)
  have edge: "pos b < pos a" if "(a, b) \<in> dep_edges key deps rows" for a b
  proof -
    from that obtain r where r: "a = key r" "r \<in> set rows" "b \<in> set (deps r)" "b \<in> key ` set rows"
      by (auto simp: dep_edges_def)
    then obtain r' where "r' \<in> set res" "key r' = key r" using assms(3) by force
    then have "r \<in> set res" using assms(1) sub r(2) by (metis distinct_map inj_onD subsetD)
    then obtain i where i: "i < length res" "res ! i = r" by (auto simp: in_set_conv_nth)
    then have "res = take i res @ r # drop (Suc i) res" using id_take_nth_drop[of i res] by simp
    then have "b \<in> key ` set (take i res)" using assms(2) r unfolding dep_ordered_def by blast
    then obtain j where "j < i" "key (res ! j) = b" using i by (auto simp: in_set_conv_nth)
    with i r(1) pos[of j] pos[of i] show ?thesis by auto
  qed
  have "pos b < pos a" if "(a, b) \<in> (dep_edges key deps rows)\<^sup>+" for a b
    using that by (induction rule: trancl_induct) (auto dest: edge)
  then show ?thesis by blast
qed

lemma topo_order_cycle: "topo_order key deps rows = Inl c \<Longrightarrow> (c, c) \<in> (dep_edges key deps rows)\<^sup>+"
  unfolding topo_order_def by (rule topo_loop_cycle) simp_all

lemma topo_order_iff:
  assumes "distinct (map key rows)"
  shows "is_ok (topo_order key deps rows) \<longleftrightarrow> acyclic (dep_edges key deps rows)"
proof (cases "topo_order key deps rows")
  case (Inl c)
  with topo_order_cycle[OF Inl] show ?thesis by (auto simp: acyclic_def)
next
  case (Inr res)
  with topo_order_sound[OF Inr] dep_ordered_acyclic[OF assms] show ?thesis by (auto simp: acyclic_def)
qed

end
