(* ===== verification/Doubles.thy ===== *)
theory Doubles
  imports Prelude "HOL-Library.Log_Nat"
begin

text \<open>
  JavaScript numbers where rounding matters: a double is the rational it denotes, and the result of
  an operation is the exact result rounded to 53 binary digits, ties to even. The exponent has
  no bound here: the model of a computation is the program's as long as its values stay in
  \<open>double_range\<close>, where no result overflows or is subnormal; where the code can leave that range, the
  properties bound their inputs, and NaN is a case of its own.
\<close>

section \<open>Rounding\<close>

definition half_even :: "rat \<Rightarrow> int" where
  "half_even x =
     (let f = \<lfloor>x\<rfloor>; d = x - of_int f in
      if d < 1 / 2 then f else if d > 1 / 2 then f + 1 else if even f then f else f + 1)"

text \<open>The exponent of the leading binary digit of a positive rational.\<close>

definition exponent2 :: "rat \<Rightarrow> int" where
  "exponent2 q =
     (let (a, b) = quotient_of q; e = bitlen a - bitlen b in if (2::rat) powi e \<le> q then e else e - 1)"

definition fl_pos :: "rat \<Rightarrow> rat" where
  "fl_pos q = (let s = (2::rat) powi (52 - exponent2 q) in of_int (half_even (q * s)) / s)"

definition fl :: "rat \<Rightarrow> rat" where
  "fl q = (if q = 0 then 0 else if q < 0 then - fl_pos (- q) else fl_pos q)"

text \<open>\<open>Math.round\<close>: the nearest integer, ties upwards.\<close>

definition js_round :: "rat \<Rightarrow> int" where
  "js_round x = \<lfloor>x + 1 / 2\<rfloor>"

section \<open>Rounding to digits\<close>

lemma half_even_close: "\<bar>of_int (half_even x) - x\<bar> \<le> 1 / 2"
  using floor_correct[of x] by (auto simp: half_even_def Let_def)

text \<open>The exponent of a positive rational in any base: the power below it and the one above.\<close>

lemma exponent_bounds:
  fixes q :: rat and B :: nat
  assumes "0 < q" "1 < B" "quotient_of q = (a, b)"
    and e: "e = (let d = int (floorlog B (nat a)) - int (floorlog B (nat b)) in if of_nat B powi d \<le> q then d else d - 1)"
  shows "of_nat B powi e \<le> q \<and> q < of_nat B powi (e + 1)"
proof -
  have b: "0 < b" and q: "q = of_int a / of_int b" using quotient_of_denom_pos[OF assms(3)] quotient_of_div[OF assms(3)] by simp_all
  then have a: "0 < a" using assms(1) by (simp add: zero_less_divide_iff)
  let ?la = "floorlog B (nat a)" and ?lb = "floorlog B (nat b)" and ?B = "of_nat B :: rat"
  have fa: "B ^ (?la - 1) \<le> nat a" "nat a < B ^ ?la" and fb: "B ^ (?lb - 1) \<le> nat b" "nat b < B ^ ?lb"
    using floorlog_bounds[of "nat a" B] floorlog_bounds[of "nat b" B] a b assms(2) by simp_all
  have pos: "0 < ?la" "0 < ?lb" using a b assms(2) by (simp_all add: floorlog_def)
  have num: "(of_nat (nat a)::rat) = of_int a" "(of_nat (nat b)::rat) = of_int b" using a b by (simp_all add: of_nat_nat)
  have ra: "?B ^ (?la - 1) \<le> of_int a" "of_int a < ?B ^ ?la" and rb: "?B ^ (?lb - 1) \<le> of_int b" "of_int b < ?B ^ ?lb"
    unfolding num[symmetric] of_nat_power[symmetric] using fa fb by (simp_all only: of_nat_le_iff of_nat_less_iff)
  have B: "?B \<noteq> 0" using assms(2) by simp
  have pb: "0 < ?B ^ (?lb - 1)" using assms(2) by simp
  have "?B powi (int ?la - 1 - int ?lb) = ?B ^ (?la - 1) / ?B ^ ?lb"
    using pos B by (subst power_int_diff) (simp_all add: power_int_def nat_diff_distrib)
  also have "\<dots> \<le> of_int a / of_int b" by (rule frac_le) (use a b ra rb in simp_all)
  finally have lower: "?B powi (int ?la - int ?lb - 1) \<le> q" by (simp add: q algebra_simps)
  have "of_int a / of_int b < ?B ^ ?la / ?B ^ (?lb - 1)"
    by (rule frac_less) (use a b ra(2) rb(1) pb in simp_all)
  also have "\<dots> = ?B powi (int ?la - (int ?lb - 1))"
    using pos B by (subst power_int_diff) (simp_all add: power_int_def nat_diff_distrib)
  finally have upper: "q < ?B powi (int ?la - int ?lb + 1)" by (simp add: q algebra_simps)
  show ?thesis using lower upper by (simp add: e Let_def)
qed

text \<open>
  Rounding to a fixed number of significant digits, as doubles (binary, ties to even) and decimals
  (twenty digits, ties away from zero) both do it.
\<close>

locale digit_rounding =
  fixes B :: nat and k :: nat and rnd :: "rat \<Rightarrow> int" and expo :: "rat \<Rightarrow> int" and R :: "rat \<Rightarrow> rat"
  assumes radix: "1 < B"
    and rnd_close: "\<bar>of_int (rnd x) - x\<bar> \<le> 1 / 2"
    and rnd_int: "rnd (of_int n) = n"
    and rnd_mono: "x \<le> y \<Longrightarrow> rnd x \<le> rnd y"
    and expo: "0 < q \<Longrightarrow> of_nat B powi expo q \<le> q \<and> q < of_nat B powi (expo q + 1)"
    and R_eq: "0 < q \<Longrightarrow> R q = of_int (rnd (q * of_nat B powi (int k - expo q))) / of_nat B powi (int k - expo q)"
begin

abbreviation beta :: rat where "beta \<equiv> of_nat B"

lemma beta_simps [simp]: "0 < beta powi e" "beta \<noteq> 0" "1 < beta" "beta powi e \<noteq> 0" "0 < B"
  using radix by simp_all

lemma beta_split: "beta powi e * beta powi (int k - e) = beta ^ k" "beta powi (e + 1) * beta powi (int k - e) = beta ^ Suc k"
proof -
  have b: "beta \<noteq> 0" using radix by simp
  have "e + (int k - e) = int k" "e + 1 + (int k - e) = int (Suc k)" by simp_all
  then show "beta powi e * beta powi (int k - e) = beta ^ k" "beta powi (e + 1) * beta powi (int k - e) = beta ^ Suc k"
    using power_int_add[of beta e "int k - e"] power_int_add[of beta "e + 1" "int k - e"] b by (simp_all only: power_int_of_nat simp_thms)
qed

lemma beta_mono: "i \<le> j \<Longrightarrow> beta powi i \<le> beta powi j"
  using radix by (intro power_int_increasing) simp_all

lemma R_error: "0 < q \<Longrightarrow> \<bar>R q - q\<bar> \<le> q / (2 * beta ^ k)"
proof -
  assume q: "0 < q"
  define s where "s = beta powi (int k - expo q)"
  have s: "0 < s" by (simp add: s_def)
  have "R q - q = (of_int (rnd (q * s)) - q * s) / s" using s by (simp add: R_eq[OF q] s_def[symmetric] diff_divide_distrib)
  then have "\<bar>R q - q\<bar> = \<bar>of_int (rnd (q * s)) - q * s\<bar> / s" using s by simp
  also have "\<dots> \<le> (1 / 2) / s" using rnd_close s by (intro divide_right_mono) simp_all
  also have "\<dots> = beta powi expo q / (2 * beta ^ k)" using radix by (simp add: s_def beta_split(1)[of "expo q", symmetric])
  also have "\<dots> \<le> q / (2 * beta ^ k)" using expo[OF q] by (intro divide_right_mono) simp_all
  finally show ?thesis .
qed

text \<open>What fits in the digits is kept.\<close>

lemma R_fits: "0 < q \<Longrightarrow> q * beta powi (int k - expo q) = of_int n \<Longrightarrow> R q = q"
  by (simp add: R_eq rnd_int) (metis beta_simps(4) nonzero_mult_div_cancel_right)

lemma R_at_least: "0 < q \<Longrightarrow> beta powi expo q \<le> R q"
proof -
  assume q: "0 < q"
  let ?s = "beta powi (int k - expo q)"
  have m: "beta powi expo q * ?s = of_int (int B ^ k)" by (simp add: beta_split)
  have "beta powi expo q * ?s \<le> q * ?s" using expo[OF q] by (intro mult_right_mono) simp_all
  from rnd_mono[OF this] have "int B ^ k \<le> rnd (q * ?s)" unfolding m rnd_int .
  then have "of_int (int B ^ k) \<le> (of_int (rnd (q * ?s)) :: rat)" by (simp only: of_int_le_iff)
  then have "beta powi expo q * ?s / ?s \<le> of_int (rnd (q * ?s)) / ?s" unfolding m by (intro divide_right_mono) simp_all
  then show ?thesis by (simp add: R_eq[OF q])
qed

lemma R_at_most: "0 < q \<Longrightarrow> R q \<le> beta powi (expo q + 1)"
proof -
  assume q: "0 < q"
  let ?s = "beta powi (int k - expo q)"
  have m: "beta powi (expo q + 1) * ?s = of_int (int B ^ Suc k)" by (simp add: beta_split del: power_Suc)
  have "q * ?s \<le> beta powi (expo q + 1) * ?s" using expo[OF q] by (intro mult_right_mono) simp_all
  from rnd_mono[OF this] have "rnd (q * ?s) \<le> int B ^ Suc k" unfolding m rnd_int .
  then have "(of_int (rnd (q * ?s)) :: rat) \<le> of_int (int B ^ Suc k)" by (simp only: of_int_le_iff)
  then have "of_int (rnd (q * ?s)) / ?s \<le> beta powi (expo q + 1) * ?s / ?s" unfolding m by (intro divide_right_mono) (simp_all del: of_int_power)
  also have "beta powi (expo q + 1) * ?s / ?s = beta powi (expo q + 1)" by (rule nonzero_mult_div_cancel_right) simp
  finally show ?thesis by (simp only: R_eq[OF q])
qed

lemma R_pos: "0 < q \<Longrightarrow> 0 < R q"
  using R_at_least beta_simps(1) less_le_trans by blast

lemma R_mono: "0 < x \<Longrightarrow> x \<le> y \<Longrightarrow> R x \<le> R y"
proof -
  assume x: "0 < x" and xy: "x \<le> y"
  then have y: "0 < y" by simp
  consider "expo x = expo y" | "expo x < expo y" | "expo y < expo x" by linarith
  then show ?thesis
  proof cases
    case 1
    let ?s = "beta powi (int k - expo y)"
    have "x * ?s \<le> y * ?s" using xy by (intro mult_right_mono) simp_all
    then have "of_int (rnd (x * ?s)) \<le> (of_int (rnd (y * ?s)) :: rat)" using rnd_mono by simp
    then show ?thesis unfolding R_eq[OF x] R_eq[OF y] 1 by (intro divide_right_mono) simp_all
  next
    case 2
    then have "beta powi (expo x + 1) \<le> beta powi expo y" by (intro beta_mono) simp
    then show ?thesis using R_at_most[OF x] R_at_least[OF y] by linarith
  next
    case 3
    then have "beta powi (expo y + 1) \<le> beta powi expo x" by (intro beta_mono) simp
    then show ?thesis using expo[OF x] expo[OF y] xy by linarith
  qed
qed

lemma expo_unique: "0 < q \<Longrightarrow> beta powi e \<le> q \<Longrightarrow> q < beta powi (e + 1) \<Longrightarrow> expo q = e"
proof -
  assume q: "0 < q" and e: "beta powi e \<le> q" "q < beta powi (e + 1)"
  have "\<not> expo q < e" using expo[OF q] e beta_mono[of "expo q + 1" e] by force
  moreover have "\<not> e < expo q" using expo[OF q] e beta_mono[of "e + 1" "expo q"] by force
  ultimately show ?thesis by simp
qed

lemma R_again: "0 < q \<Longrightarrow> R (R q) = R q"
proof -
  assume q: "0 < q"
  let ?s = "beta powi (int k - expo q)"
  have m: "R q * ?s = of_int (rnd (q * ?s))" unfolding R_eq[OF q] by (rule nonzero_eq_divide_eq[THEN iffD1, OF _ refl]) simp
  show ?thesis
  proof (cases "R q < beta powi (expo q + 1)")
    case True
    then have "expo (R q) = expo q" using R_at_least[OF q] expo_unique[OF R_pos[OF q]] by blast
    then show ?thesis using R_fits[OF R_pos[OF q]] m by simp
  next
    case False
    then have r: "R q = beta powi (expo q + 1)" using R_at_most[OF q] by simp
    have "beta powi (expo q + 1) < beta powi (expo q + 1 + 1)" using radix by (intro power_int_strict_increasing) simp_all
    then have "expo (R q) = expo q + 1" using r expo_unique[OF R_pos[OF q], of "expo q + 1"] by simp
    then have "R q * beta powi (int k - expo (R q)) = beta powi int k" by (simp add: r power_int_add[symmetric])
    then have "R q * beta powi (int k - expo (R q)) = of_int (int B ^ k)" by simp
    then show ?thesis by (rule R_fits[OF R_pos[OF q]])
  qed
qed

end

lemma half_even_mono: "x \<le> y \<Longrightarrow> half_even x \<le> half_even y"
proof -
  assume xy: "x \<le> y"
  have "\<lfloor>x\<rfloor> \<le> \<lfloor>y\<rfloor>" using xy by (rule floor_mono)
  then consider "\<lfloor>x\<rfloor> = \<lfloor>y\<rfloor>" | "\<lfloor>x\<rfloor> < \<lfloor>y\<rfloor>" by linarith
  then show ?thesis
  proof cases
    case 1
    then show ?thesis using xy by (auto simp: half_even_def Let_def)
  next
    case 2
    then show ?thesis by (auto simp: half_even_def Let_def)
  qed
qed

lemma half_even_int [simp]: "half_even (of_int n) = n"
  by (simp add: half_even_def)

interpretation bin: digit_rounding 2 52 half_even exponent2 fl_pos
proof
  fix q :: rat
  assume q: "0 < q"
  obtain a b where ab: "quotient_of q = (a, b)" by (cases "quotient_of q")
  show "of_nat 2 powi exponent2 q \<le> q \<and> q < of_nat 2 powi (exponent2 q + 1)"
    by (rule exponent_bounds[OF q _ ab]) (simp_all add: exponent2_def ab bitlen_def Let_def)
next
  show "\<bar>of_int (half_even x) - x\<bar> \<le> 1 / 2" for x by (rule half_even_close)
qed (simp_all add: half_even_mono fl_pos_def Let_def)

lemmas fl_pos_mono = bin.R_mono

lemma fl_pos_error: "0 < q \<Longrightarrow> \<bar>fl_pos q - q\<bar> \<le> q / 2 ^ 53"
  using bin.R_error[of q] by simp

lemma fl_error: "\<bar>fl q - q\<bar> \<le> \<bar>q\<bar> / 2 ^ 53"
proof (cases "q < 0")
  case True
  then have "\<bar>fl q - q\<bar> = \<bar>fl_pos (- q) - (- q)\<bar>" by (simp add: fl_def abs_if)
  then show ?thesis using fl_pos_error[of "- q"] True by simp
next
  case False
  then show ?thesis using fl_pos_error[of q] by (simp add: fl_def)
qed

lemma fl_minus: "fl (- q) = - fl q"
  by (simp add: fl_def)

lemma fl_nonneg: "0 \<le> q \<Longrightarrow> 0 \<le> fl q"
  using bin.R_pos[of q] by (cases "q = 0") (simp_all add: fl_def)

lemma fl_mono: "x \<le> y \<Longrightarrow> fl x \<le> fl y"
proof -
  assume xy: "x \<le> y"
  have pos: "fl a \<le> fl b" if "0 < a" "a \<le> b" for a b
    using that fl_pos_mono[of a b] by (simp add: fl_def)
  consider "0 < x" | "y < 0" | "x \<le> 0" "0 \<le> y" using xy by linarith
  then show ?thesis
  proof cases
    case 1
    then show ?thesis using pos xy by simp
  next
    case 2
    then show ?thesis using pos[of "- y" "- x"] xy by (simp add: fl_minus)
  next
    case 3
    then show ?thesis using fl_nonneg[of y] fl_nonneg[of "- x"] by (simp add: fl_minus)
  qed
qed

lemma fl_close: "\<bar>q\<bar> \<le> c \<Longrightarrow> q - c / 2 ^ 53 \<le> fl q \<and> fl q \<le> q + c / 2 ^ 53"
proof -
  assume "\<bar>q\<bar> \<le> c"
  then have "\<bar>fl q - q\<bar> \<le> c / 2 ^ 53" by (intro order_trans[OF fl_error] divide_right_mono) simp_all
  then show ?thesis unfolding abs_le_iff by linarith
qed

lemma js_round_close: "x - 1 / 2 < of_int (js_round x) \<and> of_int (js_round x) \<le> x + 1 / 2"
  unfolding js_round_def by linarith

lemma fl_zero [simp]: "fl 0 = 0"
  by (simp add: fl_def)

lemma fl_bounds: "0 \<le> q \<Longrightarrow> q * (1 - 1 / 2 ^ 53) \<le> fl q \<and> fl q \<le> q * (1 + 1 / 2 ^ 53)"
proof -
  assume "0 \<le> q"
  then have "\<bar>fl q - q\<bar> \<le> q / 2 ^ 53" using fl_error[of q] by simp
  then have "fl q \<le> q + q / 2 ^ 53" "q - q / 2 ^ 53 \<le> fl q" by linarith+
  then show ?thesis by (simp only: ring_distribs mult_1_right times_divide_eq_right)
qed

lemma js_round_int [simp]: "js_round (of_int n) = n"
  by (simp add: js_round_def) linarith

lemma js_round_zero [simp]: "js_round 0 = 0"
  using js_round_int[of 0] by simp

section \<open>Decimals\<close>

text \<open>
  \<open>Decimal.div\<close> with the library's default precision: twenty significant digits, ties away from
  zero; sums, differences and products are rounded the same way.
\<close>

definition exponent10 :: "rat \<Rightarrow> int" where
  "exponent10 q =
     (let (a, b) = quotient_of q; e = int (floorlog 10 (nat a)) - int (floorlog 10 (nat b))
      in if (10::rat) powi e \<le> q then e else e - 1)"

definition half_up :: "rat \<Rightarrow> int" where
  "half_up x = \<lfloor>x + 1 / 2\<rfloor>"

definition dec_round :: "rat \<Rightarrow> rat" where
  "dec_round q =
     (if q = 0 then 0
      else (let s = (10::rat) powi (19 - exponent10 \<bar>q\<bar>) in sgn q * of_int (half_up (\<bar>q\<bar> * s)) / s))"

definition dec_div :: "rat \<Rightarrow> rat \<Rightarrow> rat" where
  "dec_div a b = dec_round (a / b)"

definition dec_plus :: "rat \<Rightarrow> rat \<Rightarrow> rat" where
  "dec_plus a b = dec_round (a + b)"

definition dec_minus :: "rat \<Rightarrow> rat \<Rightarrow> rat" where
  "dec_minus a b = dec_round (a - b)"

definition dec_times :: "rat \<Rightarrow> rat \<Rightarrow> rat" where
  "dec_times a b = dec_round (a * b)"

text \<open>
  A decimal with \<open>k\<close> places, ties away from zero: \<open>toFixed(k)\<close>, and what a database column of
  \<open>k\<close> places stores.
\<close>

definition dec_places :: "nat \<Rightarrow> rat \<Rightarrow> rat" where
  "dec_places k q = sgn q * of_int (half_up (\<bar>q\<bar> * 10 ^ k)) / 10 ^ k"

text \<open>Decimals with at most \<open>k\<close> places.\<close>

definition on_grid :: "nat \<Rightarrow> rat \<Rightarrow> bool" where
  "on_grid k q \<longleftrightarrow> (\<exists>n::int. q * 10 ^ k = of_int n)"

lemma half_up_int [simp]: "half_up (of_int n) = n"
  by (simp add: half_up_def) linarith

lemma half_up_close: "\<bar>of_int (half_up x) - x\<bar> \<le> 1 / 2"
  unfolding half_up_def by linarith

lemma dec_round_zero [simp]: "dec_round 0 = 0"
  by (simp add: dec_round_def)

definition dec_pos :: "rat \<Rightarrow> rat" where
  "dec_pos q = (let s = (10::rat) powi (19 - exponent10 q) in of_int (half_up (q * s)) / s)"

lemma half_up_mono: "x \<le> y \<Longrightarrow> half_up x \<le> half_up y"
  unfolding half_up_def by (intro floor_mono) simp

interpretation dec: digit_rounding 10 19 half_up exponent10 dec_pos
proof
  fix q :: rat
  assume q: "0 < q"
  obtain a b where ab: "quotient_of q = (a, b)" by (cases "quotient_of q")
  show "of_nat 10 powi exponent10 q \<le> q \<and> q < of_nat 10 powi (exponent10 q + 1)"
    by (rule exponent_bounds[OF q _ ab]) (simp_all add: exponent10_def ab Let_def)
next
  show "\<bar>of_int (half_up x) - x\<bar> \<le> 1 / 2" for x by (rule half_up_close)
qed (simp_all add: half_up_mono dec_pos_def Let_def)

lemma dec_round_pos: "dec_round q = sgn q * dec_pos \<bar>q\<bar>"
  by (simp add: dec_round_def dec_pos_def Let_def)

text \<open>Twenty digits lose at most half a unit of the last one.\<close>

lemma dec_round_error: "\<bar>dec_round q - q\<bar> \<le> \<bar>q\<bar> / (2 * 10 ^ 19)"
proof -
  consider "q = 0" | "0 < q" | "q < 0" by linarith
  then show ?thesis
  proof cases
    case 3
    have "dec_round q - q = - (dec_pos (- q) - (- q))" using 3 by (simp add: dec_round_pos)
    then have "\<bar>dec_round q - q\<bar> = \<bar>dec_pos (- q) - (- q)\<bar>" by (simp only: abs_minus_cancel)
    then show ?thesis using dec.R_error[of "- q"] 3 by simp
  qed (use dec.R_error[of q] in \<open>simp_all add: dec_round_pos\<close>)
qed

lemma dec_round_nonneg: "0 \<le> q \<Longrightarrow> 0 \<le> dec_round q"
  using dec.R_pos[of q] by (cases "q = 0") (simp_all add: dec_round_pos)

lemma dec_round_minus: "dec_round (- q) = - dec_round q"
  by (simp add: dec_round_pos sgn_minus)

lemma dec_round_mono: "x \<le> y \<Longrightarrow> dec_round x \<le> dec_round y"
proof -
  assume xy: "x \<le> y"
  have pos: "dec_round a \<le> dec_round b" if "0 < a" "a \<le> b" for a b
    using that dec.R_mono[of a b] by (simp add: dec_round_pos)
  consider "0 < x" | "y < 0" | "x \<le> 0" "0 \<le> y" using xy by linarith
  then show ?thesis
  proof cases
    case 1
    then show ?thesis using pos xy by simp
  next
    case 2
    then show ?thesis using pos[of "- y" "- x"] xy by (simp add: dec_round_minus)
  next
    case 3
    then show ?thesis using dec_round_nonneg[of y] dec_round_nonneg[of "- x"] by (simp add: dec_round_minus)
  qed
qed

lemma dec_round_again [simp]: "dec_round (dec_round q) = dec_round q"
proof -
  have "dec_round (dec_round a) = dec_round a" if "0 < a" for a
    using that dec.R_again[OF that] dec.R_pos[OF that] by (simp add: dec_round_pos)
  from this[of q] this[of "- q"] show ?thesis by (cases q "0 :: rat" rule: linorder_cases) (simp_all add: dec_round_minus)
qed

text \<open>Twelve places below a hundred million are exact, as are the sums and differences of such.\<close>

lemma dec_round_exact_places:
  assumes "on_grid k q" "\<bar>q\<bar> < 10 ^ (20 - k)" "k \<le> 20"
  shows "dec_round q = q"
proof (cases "q = 0")
  case False
  let ?e = "exponent10 \<bar>q\<bar>"
  have "(10::rat) powi ?e \<le> \<bar>q\<bar>" using dec.expo[of "\<bar>q\<bar>"] False by simp
  also have "\<dots> < 10 powi int (20 - k)" using assms(2) by (simp add: power_int_def)
  finally have "?e < int (20 - k)" by (metis not_le one_le_numeral power_int_increasing)
  then have e: "?e + int k < 20" using assms(3) by (simp add: of_nat_diff)
  obtain n :: int where n: "q * 10 ^ k = of_int n" using assms(1) by (auto simp: on_grid_def)
  have "(10::rat) powi (19 - ?e) = 10 ^ nat (19 - ?e)" using e by (simp add: power_int_def)
  also have "nat (19 - ?e) = k + nat (19 - ?e - int k)" using e by simp
  finally have s: "(10::rat) powi (19 - ?e) = 10 ^ k * of_int (10 ^ nat (19 - ?e - int k))" by (simp add: power_add)
  have "\<bar>q\<bar> * 10 powi (19 - ?e) = of_int \<bar>n\<bar> * of_int (10 ^ nat (19 - ?e - int k))"
    unfolding s using arg_cong[OF n, of abs] by (simp add: abs_mult mult.assoc[symmetric])
  then have "\<bar>q\<bar> * 10 powi (19 - ?e) = of_int (\<bar>n\<bar> * 10 ^ nat (19 - ?e - int k))" by (simp only: of_int_mult)
  then have "of_int (half_up (\<bar>q\<bar> * 10 powi (19 - ?e))) = \<bar>q\<bar> * 10 powi (19 - ?e)" by (metis half_up_int)
  then show ?thesis using False by (simp add: dec_round_def Let_def mult_sgn_abs mult.assoc[symmetric])
qed simp

lemma dec_round_exact: "on_grid 12 q \<Longrightarrow> \<bar>q\<bar> < 10 ^ 8 \<Longrightarrow> dec_round q = q"
  using dec_round_exact_places[of 12 q] by simp

lemma on_grid_zero [simp]: "on_grid k 0"
  by (auto simp: on_grid_def intro: exI[of _ 0])

lemma on_grid_plus: "on_grid k a \<Longrightarrow> on_grid k b \<Longrightarrow> on_grid k (a + b)"
proof -
  assume "on_grid k a" "on_grid k b"
  then obtain m n :: int where "a * 10 ^ k = of_int m" "b * 10 ^ k = of_int n" by (auto simp: on_grid_def)
  then have "(a + b) * 10 ^ k = of_int (m + n)" by (simp add: distrib_right)
  then show ?thesis unfolding on_grid_def by blast
qed

lemma on_grid_times: "on_grid j a \<Longrightarrow> on_grid k b \<Longrightarrow> on_grid (j + k) (a * b)"
proof -
  assume "on_grid j a" "on_grid k b"
  then obtain m n :: int where mn: "a * 10 ^ j = of_int m" "b * 10 ^ k = of_int n" by (auto simp: on_grid_def)
  have "a * b * 10 ^ (j + k) = (a * 10 ^ j) * (b * 10 ^ k)" by (simp add: power_add)
  then have "a * b * 10 ^ (j + k) = of_int (m * n)" by (simp only: mn of_int_mult)
  then show ?thesis unfolding on_grid_def by blast
qed

text \<open>
  \<open>fl\<close> rounds as a double does where the double is a normal number or zero: outside of this range
  the double underflows or overflows, which \<open>fl\<close> does not do. Properties whose numbers come from
  outside bound them so that every intermediate result is inside.
\<close>

definition double_range :: "rat \<Rightarrow> bool" where
  "double_range q \<longleftrightarrow> q = 0 \<or> 1 / 2 ^ 1022 \<le> \<bar>q\<bar> \<and> \<bar>q\<bar> \<le> 2 ^ 1023"

lemma on_grid_sum: "(\<And>x. x \<in> set xs \<Longrightarrow> on_grid k x) \<Longrightarrow> on_grid k (sum_list xs)"
  by (induction xs) (auto intro: on_grid_plus)

text \<open>A loop of \<open>plus\<close> is exact when no partial sum needs more than the twenty digits.\<close>

lemma dec_sum_exact:
  assumes "\<forall>x\<in>set xs. on_grid k x" "sum_list (map abs xs) < 10 ^ (20 - k)" "k \<le> 20"
  shows "foldl dec_plus 0 xs = sum_list xs"
  using assms(1,2)
proof (induction xs rule: rev_induct)
  case (snoc x xs)
  have "\<bar>sum_list ys\<bar> \<le> sum_list (map abs ys)" for ys :: "rat list" by (induction ys) auto
  from this[of "xs @ [x]"] have "\<bar>sum_list xs + x\<bar> < 10 ^ (20 - k)" using snoc.prems(2) by simp
  moreover have "on_grid k (sum_list xs + x)" using snoc.prems(1) by (intro on_grid_plus on_grid_sum) simp_all
  ultimately have "dec_plus (sum_list xs) x = sum_list xs + x"
    unfolding dec_plus_def by (intro dec_round_exact_places[OF _ _ assms(3)])
  moreover have "foldl dec_plus 0 xs = sum_list xs" using snoc by simp
  ultimately show ?case by simp
qed simp

end
