(* ===== verification/Hierarchy.thy ===== *)
theory Hierarchy
  imports Audit_Log Topo_Sort Doubles
begin

text \<open>
  The entity hierarchy (services/api/src/hierarchy/hierarchy.service.ts): nodes with a dotted
  path, created one by one or from a CSV file, moved, closed, listed as a tree and summed up.

  The public taxonomy (\<open>node_type\<close>) and the stored one (\<open>entity_type\<close>) are different enums; at run
  time both are strings, and \<open>validate_parent_child\<close> compares the strings. JSON metadata is
  carried as its text; coordinates and revenue are rationals.
\<close>

section \<open>Data\<close>

datatype node_type = NGroup | NCompany | NBusinessUnit | NRegion | NFacility | NProcess | NProductLine

datatype entity_type = EGroup | ELegalEntity | EDivision | ESite | EDepartment

fun node_type_text :: "node_type \<Rightarrow> string" where
  "node_type_text NGroup = ''GROUP''"
| "node_type_text NCompany = ''COMPANY''"
| "node_type_text NBusinessUnit = ''BUSINESS_UNIT''"
| "node_type_text NRegion = ''REGION''"
| "node_type_text NFacility = ''FACILITY''"
| "node_type_text NProcess = ''PROCESS''"
| "node_type_text NProductLine = ''PRODUCT_LINE''"

fun entity_type_text :: "entity_type \<Rightarrow> string" where
  "entity_type_text EGroup = ''GROUP''"
| "entity_type_text ELegalEntity = ''LEGAL_ENTITY''"
| "entity_type_text EDivision = ''DIVISION''"
| "entity_type_text ESite = ''SITE''"
| "entity_type_text EDepartment = ''DEPARTMENT''"

definition node_types :: "node_type list" where
  "node_types = [NGroup, NCompany, NBusinessUnit, NRegion, NFacility, NProcess, NProductLine]"

definition entity_types :: "entity_type list" where
  "entity_types = [EGroup, ELegalEntity, EDivision, ESite, EDepartment]"

fun map_node_type :: "node_type \<Rightarrow> entity_type" where
  "map_node_type NGroup = EGroup"
| "map_node_type NCompany = ELegalEntity"
| "map_node_type NBusinessUnit = EDivision"
| "map_node_type NRegion = ESite"
| "map_node_type NFacility = ESite"
| "map_node_type NProcess = EDepartment"
| "map_node_type NProductLine = EDepartment"

record entity_node =
  en_id :: string
  en_tenant :: string
  en_parent :: "string option"
  en_path :: string
  en_type :: entity_type
  en_name :: string
  en_code :: string
  en_country :: string
  en_state :: "string option"
  en_lat :: "rat option"
  en_lng :: "rat option"
  en_employees :: "int option"
  en_revenue :: "rat option"
  en_from :: int
  en_to :: "int option"
  en_meta :: string

text \<open>What the audit rows of this service hold.\<close>

datatype node_snap =
    SnapNode entity_node
  | SnapPlace string "string option"
  | SnapImport nat nat

record hdb =
  h_nodes :: "entity_node list"
  h_audit :: "node_snap audit_row list"

record node_dto =
  nd_type :: node_type
  nd_code :: string
  nd_name :: string
  nd_parent :: "string option"
  nd_country :: "string option"
  nd_region :: "string option"
  nd_lat :: "rat option"
  nd_lng :: "rat option"
  nd_from :: "int option"
  nd_to :: "int option"
  nd_meta :: "string option"

record node_patch =
  np_name :: "string option"
  np_country :: "string option"
  np_region :: "string option"
  np_lat :: "rat option"
  np_lng :: "rat option"
  np_from :: "int option"
  np_to :: "int option"
  np_meta :: "string option"

section \<open>Shared helpers\<close>

text \<open>An optional string that counts as true.\<close>

definition given :: "string option \<Rightarrow> string option" where
  "given v = (if v = Some [] then None else v)"

definition or_else :: "'a option \<Rightarrow> 'a \<Rightarrow> 'a" where
  "or_else v d = (case v of None \<Rightarrow> d | Some x \<Rightarrow> x)"

lemma or_else_simps [simp]: "or_else None d = d" "or_else (Some x) d = x"
  by (simp_all add: or_else_def)

definition find_node :: "string \<Rightarrow> string \<Rightarrow> entity_node list \<Rightarrow> entity_node option" where
  "find_node t i nodes = find_first (\<lambda>n. en_id n = i \<and> en_tenant n = t) nodes"

definition path_join :: "string \<Rightarrow> string \<Rightarrow> string" where
  "path_join p c = p @ ''.'' @ c"

definition child_path :: "entity_node option \<Rightarrow> string \<Rightarrow> string" where
  "child_path parent c = (case parent of None \<Rightarrow> c | Some p \<Rightarrow> path_join (en_path p) c)"

definition allowed_parents :: "(string \<times> string list) list" where
  "allowed_parents =
     [(''GROUP'', []),
      (''COMPANY'', [''GROUP'']),
      (''BUSINESS_UNIT'', [''GROUP'', ''COMPANY'']),
      (''REGION'', [''COMPANY'', ''BUSINESS_UNIT'']),
      (''FACILITY'', [''COMPANY'', ''BUSINESS_UNIT'', ''REGION'']),
      (''PROCESS'', [''BUSINESS_UNIT'', ''FACILITY'']),
      (''PRODUCT_LINE'', [''BUSINESS_UNIT'', ''FACILITY''])]"

definition validate_parent_child :: "string option \<Rightarrow> string \<Rightarrow> http_error + unit" where
  "validate_parent_child parent_type child_type =
     (case parent_type of
        None \<Rightarrow>
          if child_type \<noteq> ''GROUP'' \<and> child_type \<noteq> ''COMPANY''
          then Inl (BadRequest (''Type '' @ child_type @ '' requires a parent''))
          else Inr ()
      | Some p \<Rightarrow>
          (case map_of allowed_parents child_type of
             Some ps \<Rightarrow>
               if p \<in> set ps then Inr ()
               else Inl (BadRequest (child_type @ '' cannot be a child of '' @ p))
           | None \<Rightarrow> Inl (BadRequest (child_type @ '' cannot be a child of '' @ p))))"

text \<open>The insert: the index on tenant and code is unique, the primary key is fresh.\<close>

definition insert_node :: "entity_node \<Rightarrow> entity_node list \<Rightarrow> http_error + entity_node list" where
  "insert_node n nodes =
     (if \<exists>m\<in>set nodes. en_tenant m = en_tenant n \<and> en_code m = en_code n
      then Inl (PrismaError ''P2002'') else Inr (nodes @ [n]))"

section \<open>Create, read, update\<close>

definition make_node :: "env \<Rightarrow> string \<Rightarrow> node_dto \<Rightarrow> entity_node option \<Rightarrow> entity_node" where
  "make_node E t dto parent =
     \<lparr> en_id = ev_ids E 1, en_tenant = t, en_parent = map_option en_id parent,
       en_path = child_path parent (nd_code dto), en_type = map_node_type (nd_type dto), en_name = nd_name dto,
       en_code = nd_code dto, en_country = or_else (nd_country dto) ''IN'',
       en_state = nd_region dto, en_lat = nd_lat dto, en_lng = nd_lng dto,
       en_employees = None, en_revenue = None,
       en_from = or_else (nd_from dto) (ev_now E), en_to = nd_to dto,
       en_meta = or_else (nd_meta dto) ''{}'' \<rparr>"

definition create_node :: "env \<Rightarrow> string \<Rightarrow> node_dto \<Rightarrow> string \<Rightarrow> hdb \<Rightarrow> entity_node outcome \<times> hdb" where
  "create_node E t dto actor db =
     (let found = (case given (nd_parent dto) of None \<Rightarrow> Inr None
                   | Some p \<Rightarrow> (case find_node t p (h_nodes db) of
                       None \<Rightarrow> Inl (NotFound ''Parent node not found'')
                     | Some n \<Rightarrow> Inr (Some n)))
      in case found of
           Inl e \<Rightarrow> (Inl e, db)
         | Inr parent \<Rightarrow>
             (case validate_parent_child (map_option (\<lambda>p. entity_type_text (en_type p)) parent) (node_type_text (nd_type dto)) of
                Inl e \<Rightarrow> (Inl e, db)
              | Inr _ \<Rightarrow>
                  (let path = child_path parent (nd_code dto) in
                   if \<exists>n\<in>set (h_nodes db). en_tenant n = t \<and> en_path n = path
                   then (Inl (Conflict (''Node with path '' @ path @ '' already exists'')), db)
                   else
                     (let node = make_node E t dto parent
                      in case insert_node node (h_nodes db) of
                           Inl e \<Rightarrow> (Inl e, db)
                         | Inr nodes \<Rightarrow>
                             (Inr node, db \<lparr> h_nodes := nodes,
                                h_audit := audit_log E (audit_entry t actor ''HierarchyNode'' (Some (en_id node))
                                  ''create'' None (Some (SnapNode node)) None) (h_audit db) \<rparr>)))))"

definition list_nodes :: "string \<Rightarrow> node_type option \<Rightarrow> string option \<Rightarrow> string option \<Rightarrow> hdb \<Rightarrow> entity_node list outcome" where
  "list_nodes t ty parent scope db =
     (let prefix = (case given scope of None \<Rightarrow> None
                    | Some s \<Rightarrow> map_option en_path (find_node t s (h_nodes db)))
      in if ty \<noteq> None \<and> node_type_text (the ty) \<notin> set (map entity_type_text entity_types)
         then Inl (PlainError ''Invalid value for argument `type`'')
         else Inr (sort_key en_path (filter (\<lambda>n. en_tenant n = t \<and>
           (case ty of None \<Rightarrow> True | Some y \<Rightarrow> entity_type_text (en_type n) = node_type_text y) \<and>
           (case parent of None \<Rightarrow> True | Some p \<Rightarrow> en_parent n = Some p) \<and>
           (case prefix of None \<Rightarrow> True | Some p \<Rightarrow> starts_with (en_path n) p)) (h_nodes db))))"

text \<open>\<open>findOne\<close>; the children and the parent it also loads are \<open>children_of\<close> and \<open>parent_of\<close>.\<close>

definition find_one_node :: "string \<Rightarrow> string \<Rightarrow> hdb \<Rightarrow> entity_node outcome" where
  "find_one_node t i db =
     (case find_node t i (h_nodes db) of None \<Rightarrow> Inl (NotFound ''Node not found'') | Some n \<Rightarrow> Inr n)"

definition children_of :: "entity_node list \<Rightarrow> entity_node \<Rightarrow> entity_node list" where
  "children_of nodes n = filter (\<lambda>m. en_parent m = Some (en_id n)) nodes"

definition parent_of :: "entity_node list \<Rightarrow> entity_node \<Rightarrow> entity_node option" where
  "parent_of nodes n = (case en_parent n of None \<Rightarrow> None | Some p \<Rightarrow> find_first (\<lambda>m. en_id m = p) nodes)"

definition patch_node :: "node_patch \<Rightarrow> entity_node \<Rightarrow> entity_node" where
  "patch_node p n = n \<lparr>
     en_name := or_else (np_name p) (en_name n),
     en_country := or_else (np_country p) (en_country n),
     en_state := (case np_region p of None \<Rightarrow> en_state n | Some s \<Rightarrow> Some s),
     en_lat := (case np_lat p of None \<Rightarrow> en_lat n | Some x \<Rightarrow> Some x),
     en_lng := (case np_lng p of None \<Rightarrow> en_lng n | Some x \<Rightarrow> Some x),
     en_from := or_else (np_from p) (en_from n),
     en_to := (case np_to p of None \<Rightarrow> en_to n | Some x \<Rightarrow> Some x),
     en_meta := or_else (np_meta p) (en_meta n) \<rparr>"

definition update_node :: "env \<Rightarrow> string \<Rightarrow> string \<Rightarrow> node_patch \<Rightarrow> string \<Rightarrow> hdb \<Rightarrow> entity_node outcome \<times> hdb" where
  "update_node E t i p actor db =
     (case find_one_node t i db of
        Inl e \<Rightarrow> (Inl e, db)
      | Inr before \<Rightarrow>
          (Inr (patch_node p before), db \<lparr> h_nodes := update_where (\<lambda>n. en_id n = i) (patch_node p) (h_nodes db),
             h_audit := audit_log E (audit_entry t actor ''HierarchyNode'' (Some i) ''update''
               (Some (SnapNode before)) (Some (SnapNode (patch_node p before))) None) (h_audit db) \<rparr>))"

section \<open>Move\<close>

text \<open>
  The transaction of \<open>move\<close>: the node gets its new parent and path, and every row whose path
  starts with the old path and a dot gets the new path with its own suffix.
\<close>

definition reparent :: "string \<Rightarrow> entity_node \<Rightarrow> entity_node option \<Rightarrow> string \<Rightarrow> entity_node list \<Rightarrow> entity_node list" where
  "reparent t node parent new_path nodes =
     map (\<lambda>n. if en_id n = en_id node then n \<lparr> en_parent := map_option en_id parent, en_path := new_path \<rparr>
              else if en_tenant n = t \<and> starts_with (en_path n) (en_path node @ ''.'')
                then n \<lparr> en_path := new_path @ drop (length (en_path node)) (en_path n) \<rparr>
              else n) nodes"

definition move_node :: "env \<Rightarrow> string \<Rightarrow> string \<Rightarrow> string option \<Rightarrow> string \<Rightarrow> hdb \<Rightarrow> entity_node outcome \<times> hdb" where
  "move_node E t i new_parent actor db =
     (case find_one_node t i db of
        Inl e \<Rightarrow> (Inl e, db)
      | Inr node \<Rightarrow>
          (let target = (case given new_parent of None \<Rightarrow> Inr None
                 | Some p \<Rightarrow> (case find_node t p (h_nodes db) of
                     None \<Rightarrow> Inl (NotFound ''New parent not found'')
                   | Some n \<Rightarrow>
                       if starts_with (en_path n) (en_path node)
                       then Inl (BadRequest ''Cannot move a node under one of its descendants'')
                       else Inr (Some n)))
           in case target of
                Inl e \<Rightarrow> (Inl e, db)
              | Inr parent \<Rightarrow>
                  (case validate_parent_child (map_option (\<lambda>p. entity_type_text (en_type p)) parent) (entity_type_text (en_type node)) of
                     Inl e \<Rightarrow> (Inl e, db)
                   | Inr _ \<Rightarrow>
                       (let new_path = child_path parent (en_code node) in
                        if en_path node = new_path then (Inr node, db)
                        else
                          (let db' = db \<lparr> h_nodes := reparent t node parent new_path (h_nodes db),
                                 h_audit := audit_log E (audit_entry t actor ''HierarchyNode'' (Some i) ''move''
                                   (Some (SnapPlace (en_path node) (en_parent node)))
                                   (Some (SnapPlace new_path (map_option en_id parent))) None) (h_audit db) \<rparr>
                           in (find_one_node t i db', db'))))))"

definition soft_delete_node :: "env \<Rightarrow> string \<Rightarrow> string \<Rightarrow> string \<Rightarrow> hdb \<Rightarrow> unit outcome \<times> hdb" where
  "soft_delete_node E t i actor db =
     (case find_one_node t i db of
        Inl e \<Rightarrow> (Inl e, db)
      | Inr node \<Rightarrow>
          (Inr (), db \<lparr> h_nodes := update_where (\<lambda>n. en_id n = i) (\<lambda>n. n \<lparr> en_to := Some (ev_now E) \<rparr>) (h_nodes db),
             h_audit := audit_log E (audit_entry t actor ''EntityNode'' (Some i) ''DELETE''
               (Some (SnapNode node)) None None) (h_audit db) \<rparr>))"

section \<open>Tree and roll-up\<close>

text \<open>The rows of the tenant in path order, the roots of the forest, and the children of a node.\<close>

definition tree_rows :: "string \<Rightarrow> hdb \<Rightarrow> entity_node list" where
  "tree_rows t db = sort_key en_path (filter (\<lambda>n. en_tenant n = t) (h_nodes db))"

definition tree_is_child :: "entity_node list \<Rightarrow> entity_node \<Rightarrow> bool" where
  "tree_is_child rows n = (case given (en_parent n) of None \<Rightarrow> False | Some p \<Rightarrow> p \<in> set (map en_id rows))"

definition tree_roots :: "entity_node list \<Rightarrow> entity_node list" where
  "tree_roots rows = filter (\<lambda>n. \<not> tree_is_child rows n) rows"

definition tree_children :: "entity_node list \<Rightarrow> entity_node \<Rightarrow> entity_node list" where
  "tree_children rows n = filter (\<lambda>m. tree_is_child rows m \<and> en_parent m = Some (en_id n)) rows"

definition in_subtree_by_path :: "string \<Rightarrow> entity_node \<Rightarrow> entity_node \<Rightarrow> bool" where
  "in_subtree_by_path t base n \<longleftrightarrow>
     en_tenant n = t \<and> (en_id n = en_id base \<or> starts_with (en_path n) (en_path base @ ''.''))"

record rollup_result =
  ru_node :: string
  ru_path :: string
  ru_employees :: int
  ru_revenue :: rat
  ru_count :: nat

text \<open>The revenue is added up with the twenty digits of the decimal library.\<close>

definition rollup :: "string \<Rightarrow> string \<Rightarrow> hdb \<Rightarrow> rollup_result outcome" where
  "rollup t i db =
     bindR (find_one_node t i db) (\<lambda>base.
       let rows = filter (in_subtree_by_path t base) (h_nodes db)
       in Inr \<lparr> ru_node = i, ru_path = en_path base,
            ru_employees = sum_list (map (\<lambda>r. or_else (en_employees r) 0) rows),
            ru_revenue = foldl dec_plus 0 (map (\<lambda>r. or_else (en_revenue r) 0) rows),
            ru_count = length rows \<rparr>)"

section \<open>Bulk import\<close>

record import_row =
  ir_type :: string
  ir_code :: string
  ir_name :: string
  ir_parent :: "string option"
  ir_country :: "string option"
  ir_region :: "string option"

definition row_deps :: "import_row \<Rightarrow> string list" where
  "row_deps r = (case given (ir_parent r) of None \<Rightarrow> [] | Some p \<Rightarrow> [p])"

definition topo_sort_rows :: "import_row list \<Rightarrow> http_error + import_row list" where
  "topo_sort_rows rows = (case topo_order ir_code row_deps rows of
     Inl c \<Rightarrow> Inl (BadRequest (''Cycle detected at code '' @ c)) | Inr res \<Rightarrow> Inr res)"

fun error_text :: "http_error \<Rightarrow> string" where
  "error_text (BadRequest m) = m"
| "error_text (Unauthorized m) = m"
| "error_text (Forbidden m) = m"
| "error_text (NotFound m) = m"
| "error_text (Conflict m) = m"
| "error_text (ServiceUnavailable m) = m"
| "error_text (PrismaError m) = m"
| "error_text (PlainError m) = m"

definition node_type_of :: "string \<Rightarrow> node_type option" where
  "node_type_of s = List.find (\<lambda>t. node_type_text t = s) node_types"

text \<open>
  State of the import loop: the rows of the table inside the transaction, the nodes by code, the
  number inserted, the messages, and whether a statement of the transaction has failed.
\<close>

record import_state =
  is_nodes :: "entity_node list"
  is_by_code :: "(string \<times> entity_node) list"
  is_count :: nat
  is_errors :: "string list"
  is_failed :: bool

definition row_error :: "string \<Rightarrow> string \<Rightarrow> string" where
  "row_error c msg = ''Row code='' @ c @ '': '' @ msg"

definition row_node :: "env \<Rightarrow> nat \<Rightarrow> string \<Rightarrow> import_row \<Rightarrow> node_type \<Rightarrow> entity_node option \<Rightarrow> entity_node" where
  "row_node E k t r ty parent =
     \<lparr> en_id = ev_ids E k, en_tenant = t, en_parent = map_option en_id parent,
       en_path = child_path parent (ir_code r), en_type = map_node_type ty, en_name = ir_name r,
       en_code = ir_code r, en_country = or_else (ir_country r) ''IN'', en_state = ir_region r,
       en_lat = None, en_lng = None, en_employees = None, en_revenue = None,
       en_from = ev_now E, en_to = None, en_meta = ''{}'' \<rparr>"

text \<open>
  A create in the transaction. With \<open>aborts\<close> a transaction in which a statement has failed
  refuses every later statement (as PostgreSQL documents).
\<close>

definition import_create :: "bool \<Rightarrow> import_row \<Rightarrow> entity_node \<Rightarrow> import_state \<Rightarrow> import_state" where
  "import_create aborts r node s =
     (if aborts \<and> is_failed s then s \<lparr> is_errors := is_errors s @ [row_error (ir_code r) ''current transaction is aborted''] \<rparr>
      else case insert_node node (is_nodes s) of
        Inl e \<Rightarrow> s \<lparr> is_errors := is_errors s @ [row_error (ir_code r) (error_text e)], is_failed := True \<rparr>
      | Inr nodes \<Rightarrow> s \<lparr> is_nodes := nodes, is_by_code := upsert (ir_code r) node (is_by_code s), is_count := is_count s + 1 \<rparr>)"

definition import_row_step :: "bool \<Rightarrow> env \<Rightarrow> nat \<Rightarrow> string \<Rightarrow> import_row \<Rightarrow> import_state \<Rightarrow> import_state" where
  "import_row_step aborts E k t r s =
     (case node_type_of (ir_type r) of
        None \<Rightarrow> s
      | Some ty \<Rightarrow>
          (case given (ir_parent r) of
             None \<Rightarrow> import_create aborts r (row_node E k t r ty None) s
           | Some pc \<Rightarrow>
               (case map_of (is_by_code s) pc of
                  None \<Rightarrow> s \<lparr> is_errors := is_errors s @ [row_error (ir_code r) (''parentCode '' @ pc @ '' not found'')] \<rparr>
                | Some parent \<Rightarrow>
                    (case validate_parent_child (Some (entity_type_text (en_type parent))) (ir_type r) of
                       Inl e \<Rightarrow> s \<lparr> is_errors := is_errors s @ [row_error (ir_code r) (error_text e)] \<rparr>
                     | Inr _ \<Rightarrow> import_create aborts r (row_node E k t r ty (Some parent)) s))))"

fun import_loop :: "bool \<Rightarrow> env \<Rightarrow> nat \<Rightarrow> string \<Rightarrow> import_row list \<Rightarrow> import_state \<Rightarrow> import_state" where
  "import_loop aborts E k t [] s = s"
| "import_loop aborts E k t (r # rs) s = import_loop aborts E (k + 1) t rs (import_row_step aborts E k t r s)"

definition import_start :: "string \<Rightarrow> entity_node list \<Rightarrow> import_state" where
  "import_start t nodes =
     \<lparr> is_nodes = nodes,
       is_by_code = fold (\<lambda>n. upsert (en_code n) n) (filter (\<lambda>n. en_tenant n = t) nodes) [],
       is_count = 0, is_errors = [], is_failed = False \<rparr>"

definition bulk_import :: "bool \<Rightarrow> env \<Rightarrow> string \<Rightarrow> import_row list \<Rightarrow> string \<Rightarrow> hdb \<Rightarrow> (nat \<times> string list) outcome \<times> hdb" where
  "bulk_import aborts E t rows actor db =
     (if rows = [] then (Inr (0, []), db)
      else if length rows > 10000 then (Inl (BadRequest ''Bulk import exceeds 10,000-row limit''), db)
      else if \<exists>r\<in>set rows. node_type_of (ir_type r) = None then (Inl (BadRequest ''Invalid type on row''), db)
      else case topo_sort_rows rows of
          Inl e \<Rightarrow> (Inl e, db)
        | Inr ordered \<Rightarrow>
            (let s = import_loop aborts E 1 t ordered (import_start t (h_nodes db));
                 kept = (if aborts \<and> is_failed s then h_nodes db else is_nodes s)
             in (Inr (is_count s, is_errors s), db \<lparr> h_nodes := kept,
                   h_audit := audit_log E (audit_entry t actor ''EntityNode'' None ''CREATE'' None None
                     (Some (SnapImport (is_count s) (length (is_errors s))))) (h_audit db) \<rparr>)))"

end
