(* ===== verification/Hierarchy_Props.thy ===== *)
theory Hierarchy_Props
  imports Hierarchy Audit_Props
begin

text \<open>
  The hierarchy: paths spell the chain of codes in every reachable state, a roll-up is the sum
  over the subtree, an import inserts parents before children, tenants stay apart, and what the
  two type taxonomies do to create and move.
\<close>

section \<open>Paths\<close>

definition path_inv :: "entity_node list \<Rightarrow> bool" where
  "path_inv nodes \<longleftrightarrow>
     distinct (map en_id nodes) \<and> distinct (map (\<lambda>n. (en_tenant n, en_code n)) nodes) \<and>
     (\<forall>n\<in>set nodes. CHR ''.'' \<notin> set (en_code n) \<and>
        (case en_parent n of
           None \<Rightarrow> en_path n = en_code n
         | Some p \<Rightarrow> (\<exists>m\<in>set nodes. en_id m = p \<and> en_tenant m = en_tenant n \<and>
             en_path n = path_join (en_path m) (en_code n))))"

lemma last_sep_eq: "x \<notin> set c \<Longrightarrow> x \<notin> set d \<Longrightarrow> p @ x # c = q @ x # d \<Longrightarrow> p = q \<and> c = d"
proof (induction p arbitrary: q)
  case Nil
  then show ?case by (cases q) auto
next
  case (Cons a p)
  then show ?case by (cases q) auto
qed

lemma path_join_eq:
  "CHR ''.'' \<notin> set c \<Longrightarrow> CHR ''.'' \<notin> set d \<Longrightarrow> path_join p c = path_join q d \<Longrightarrow> p = q \<and> c = d"
  using last_sep_eq[of "CHR ''.''" c d p q] by (simp add: path_join_def)

lemma path_join_not_code: "CHR ''.'' \<notin> set c \<Longrightarrow> c \<noteq> path_join p d"
  by (auto simp: path_join_def)

lemma sep_prefix:
  "x \<notin> set c \<Longrightarrow> starts_with (p @ x # c) (q @ [x]) \<longleftrightarrow> p = q \<or> starts_with p (q @ [x])"
proof (induction p arbitrary: q)
  case Nil
  then show ?case by (cases q) (auto simp: starts_with_iff)
next
  case (Cons a p)
  then show ?case by (cases q) auto
qed

lemma path_join_prefix:
  "CHR ''.'' \<notin> set c \<Longrightarrow> starts_with (path_join p c) (q @ ''.'') \<longleftrightarrow> p = q \<or> starts_with p (q @ ''.'')"
  using sep_prefix[of "CHR ''.''" c p q] by (simp add: path_join_def)

lemma code_no_prefix: "CHR ''.'' \<notin> set c \<Longrightarrow> \<not> starts_with c (q @ ''.'')"
  by (auto simp: starts_with_iff)

text \<open>What the invariant gives for one node.\<close>

lemma path_invD:
  assumes "path_inv nodes" "n \<in> set nodes"
  shows "CHR ''.'' \<notin> set (en_code n)"
    "en_parent n = None \<Longrightarrow> en_path n = en_code n"
    "en_parent n = Some p \<Longrightarrow> \<exists>m\<in>set nodes. en_id m = p \<and> en_tenant m = en_tenant n \<and>
       en_path n = path_join (en_path m) (en_code n)"
  using assms by (auto simp: path_inv_def)

lemma path_inv_same_id:
  "path_inv nodes \<Longrightarrow> n \<in> set nodes \<Longrightarrow> m \<in> set nodes \<Longrightarrow> en_id n = en_id m \<Longrightarrow> n = m"
  by (auto simp: path_inv_def distinct_map dest: inj_onD)

lemma path_inv_same_code:
  "path_inv nodes \<Longrightarrow> n \<in> set nodes \<Longrightarrow> m \<in> set nodes \<Longrightarrow> en_tenant n = en_tenant m \<Longrightarrow> en_code n = en_code m \<Longrightarrow> n = m"
  by (auto simp: path_inv_def distinct_map dest: inj_onD)

lemma path_ends_in_code:
  assumes "path_inv nodes" "n \<in> set nodes"
  shows "en_path n = en_code n \<or> (\<exists>q. en_path n = path_join q (en_code n))"
  using path_invD[OF assms] by (cases "en_parent n") auto

text \<open>A path belongs to one node of its tenant.\<close>

lemma path_inv_same_path:
  assumes "path_inv nodes" "n \<in> set nodes" "m \<in> set nodes" "en_tenant n = en_tenant m" "en_path n = en_path m"
  shows "n = m"
proof -
  note c = path_invD(1)[OF assms(1,2)] path_invD(1)[OF assms(1,3)]
  have "en_code n = en_code m"
    using path_ends_in_code[OF assms(1,2)] path_ends_in_code[OF assms(1,3)] assms(5) c
      path_join_eq path_join_not_code by metis
  then show ?thesis using path_inv_same_code[OF assms(1-4)] by simp
qed

section \<open>Descendants\<close>

text \<open>The parent links inside a table.\<close>

definition parent_link :: "entity_node list \<Rightarrow> (entity_node \<times> entity_node) set" where
  "parent_link nodes = {(n, m). n \<in> set nodes \<and> m \<in> set nodes \<and> en_parent n = Some (en_id m)}"

lemma parent_link_path:
  assumes "path_inv nodes" "(n, m) \<in> parent_link nodes"
  shows "en_tenant m = en_tenant n \<and> en_path n = path_join (en_path m) (en_code n)"
proof -
  have "n \<in> set nodes" "en_parent n = Some (en_id m)" "m \<in> set nodes" using assms(2) by (auto simp: parent_link_def)
  with path_invD(3)[OF assms(1), of n "en_id m"] path_inv_same_id[OF assms(1)] show ?thesis by auto
qed

lemma descendant_path:
  assumes "path_inv nodes" "(n, m) \<in> (parent_link nodes)\<^sup>+"
  shows "en_tenant m = en_tenant n \<and> starts_with (en_path n) (en_path m @ ''.'')"
  using assms(2)
proof (induction rule: converse_trancl_induct)
  case (base n)
  with parent_link_path[OF assms(1) base] show ?case by (simp add: path_join_def starts_with_iff)
next
  case (step n k)
  have "CHR ''.'' \<notin> set (en_code n)"
    using step(1) path_invD(1)[OF assms(1)] by (auto simp: parent_link_def)
  with step parent_link_path[OF assms(1) step(1)] show ?case by (simp add: path_join_prefix)
qed

lemma path_descendant:
  assumes "path_inv nodes" "m \<in> set nodes"
  shows "n \<in> set nodes \<Longrightarrow> en_tenant n = en_tenant m \<Longrightarrow> starts_with (en_path n) (en_path m @ ''.'') \<Longrightarrow>
    (n, m) \<in> (parent_link nodes)\<^sup>+"
proof (induction "length (en_path n)" arbitrary: n rule: less_induct)
  case less
  note d = path_invD[OF assms(1) less(2)]
  obtain p where p: "en_parent n = Some p"
    using d(1,2) less(4) code_no_prefix[of "en_code n" "en_path m"] by (cases "en_parent n") auto
  then obtain k where k: "k \<in> set nodes" "en_id k = p" "en_tenant k = en_tenant n"
    "en_path n = path_join (en_path k) (en_code n)" using d(3) by blast
  have link: "(n, k) \<in> parent_link nodes" using less(2) k p by (auto simp: parent_link_def)
  have "en_path k = en_path m \<or> starts_with (en_path k) (en_path m @ ''.'')"
    using less(4) k(4) d(1) by (simp add: path_join_prefix)
  then show ?case
  proof
    assume "en_path k = en_path m"
    then have "k = m" using path_inv_same_path[OF assms(1) k(1) assms(2)] k(3) less(3) by simp
    with link show ?thesis by auto
  next
    assume "starts_with (en_path k) (en_path m @ ''.'')"
    moreover have "length (en_path k) < length (en_path n)" by (simp add: k(4) path_join_def)
    ultimately have "(k, m) \<in> (parent_link nodes)\<^sup>+" using less(1)[of k] k less(3) by simp
    with link show ?thesis by (rule trancl_into_trancl2)
  qed
qed

lemma subtree_by_path:
  assumes "path_inv nodes" "m \<in> set nodes" "n \<in> set nodes" "en_tenant m = t"
  shows "in_subtree_by_path t m n \<longleftrightarrow> (n, m) \<in> (parent_link nodes)\<^sup>*"
proof -
  have "n = m \<longleftrightarrow> en_id n = en_id m" using path_inv_same_id[OF assms(1,3,2)] by auto
  with descendant_path[OF assms(1), of n m] path_descendant[OF assms(1,2,3)] assms(4)
  show ?thesis unfolding in_subtree_by_path_def rtrancl_eq_or_trancl by auto
qed


section \<open>Operations keep the paths\<close>

lemma path_inv_update:
  assumes "path_inv nodes"
    "\<And>n. P n \<Longrightarrow> en_id (f n) = en_id n \<and> en_tenant (f n) = en_tenant n \<and> en_code (f n) = en_code n \<and>
       en_parent (f n) = en_parent n \<and> en_path (f n) = en_path n"
  shows "path_inv (update_where P f nodes)"
proof -
  define g where "g n = (if P n then f n else n)" for n
  have same: "en_id (g n) = en_id n" "en_tenant (g n) = en_tenant n" "en_code (g n) = en_code n"
      "en_parent (g n) = en_parent n" "en_path (g n) = en_path n" for n
    using assms(2)[of n] by (simp_all add: g_def)
  have "update_where P f nodes = map g nodes" by (simp add: update_where_def g_def)
  then show ?thesis
    using assms(1) by (simp add: path_inv_def same comp_def cong: option.case_cong)
qed

lemma path_inv_insert:
  assumes "path_inv nodes" "insert_node n nodes = Inr nodes'" "en_id n \<notin> set (map en_id nodes)"
    "CHR ''.'' \<notin> set (en_code n)"
    "case en_parent n of None \<Rightarrow> en_path n = en_code n
     | Some p \<Rightarrow> (\<exists>m\<in>set nodes. en_id m = p \<and> en_tenant m = en_tenant n \<and> en_path n = path_join (en_path m) (en_code n))"
  shows "path_inv nodes'"
proof -
  have n': "nodes' = nodes @ [n]" and uniq: "\<forall>m\<in>set nodes. \<not> (en_tenant m = en_tenant n \<and> en_code m = en_code n)"
    using assms(2) by (auto simp: insert_node_def split: if_splits)
  have "distinct (map (\<lambda>n. (en_tenant n, en_code n)) nodes')" "distinct (map en_id nodes')"
    using assms(1,3) uniq by (auto simp: path_inv_def n')
  moreover have "\<forall>m\<in>set nodes'. CHR ''.'' \<notin> set (en_code m) \<and> (case en_parent m of None \<Rightarrow> en_path m = en_code m
     | Some p \<Rightarrow> (\<exists>k\<in>set nodes'. en_id k = p \<and> en_tenant k = en_tenant m \<and> en_path m = path_join (en_path k) (en_code m)))"
    using assms(1,4,5) unfolding path_inv_def n' by (auto split: option.splits)
  ultimately show ?thesis unfolding path_inv_def by blast
qed

lemma find_node_Some: "find_node t i nodes = Some n \<Longrightarrow> n \<in> set nodes \<and> en_id n = i \<and> en_tenant n = t"
  by (auto simp: find_node_def dest: find_first_Some)

lemma child_path_ok:
  assumes "parent = None \<or> (\<exists>m\<in>set nodes. parent = Some m \<and> en_tenant m = t)"
  shows "case map_option en_id parent of None \<Rightarrow> child_path parent c = c
     | Some p \<Rightarrow> (\<exists>m\<in>set nodes. en_id m = p \<and> en_tenant m = t \<and> child_path parent c = path_join (en_path m) c)"
  using assms by (cases parent) (auto simp: child_path_def)

text \<open>The table after each operation.\<close>

lemma make_node_sel [simp]:
  "en_id (make_node E t dto parent) = ev_ids E 1" "en_tenant (make_node E t dto parent) = t"
  "en_parent (make_node E t dto parent) = map_option en_id parent" "en_code (make_node E t dto parent) = nd_code dto"
  "en_path (make_node E t dto parent) = child_path parent (nd_code dto)"
  "en_type (make_node E t dto parent) = map_node_type (nd_type dto)"
  by (simp_all add: make_node_def)

text \<open>What a creation does: nothing, or the insert of the node under a parent of the tenant.\<close>

lemma create_node_cases:
  obtains (rejected) "h_nodes (snd (create_node E t dto actor db)) = h_nodes db" "\<not> is_ok (fst (create_node E t dto actor db))"
  | (created) parent nodes' where
      "given (nd_parent dto) = None \<and> parent = None \<or>
       (\<exists>p. given (nd_parent dto) = Some p \<and> find_node t p (h_nodes db) = parent \<and> parent \<noteq> None)"
      "validate_parent_child (map_option (\<lambda>p. entity_type_text (en_type p)) parent) (node_type_text (nd_type dto)) = Inr ()"
      "insert_node (make_node E t dto parent) (h_nodes db) = Inr nodes'"
      "h_nodes (snd (create_node E t dto actor db)) = nodes'"
      "fst (create_node E t dto actor db) = Inr (make_node E t dto parent)"
proof (cases "given (nd_parent dto)")
  case None
  then show ?thesis
    using rejected created[of None] by (fastforce simp: create_node_def Let_def split: sum.splits if_splits)
next
  case (Some p)
  show ?thesis
  proof (cases "find_node t p (h_nodes db)")
    case None
    with Some show ?thesis using rejected by (simp add: create_node_def Let_def)
  next
    case fn: (Some m)
    with Some show ?thesis
      using rejected created[of "Some m"] by (fastforce simp: create_node_def Let_def split: sum.splits if_splits)
  qed
qed

lemma created_parent:
  "given (nd_parent dto) = None \<and> parent = None \<or>
     (\<exists>p. given (nd_parent dto) = Some p \<and> find_node t p nodes = parent \<and> parent \<noteq> None) \<Longrightarrow>
   parent = None \<or> (\<exists>m\<in>set nodes. parent = Some m \<and> en_tenant m = t)"
  by (auto dest: find_node_Some)

lemma create_node_path_inv:
  assumes "path_inv (h_nodes db)" "ev_ids E 1 \<notin> set (map en_id (h_nodes db))" "CHR ''.'' \<notin> set (nd_code dto)"
  shows "path_inv (h_nodes (snd (create_node E t dto actor db)))"
proof (cases rule: create_node_cases[of E t dto actor db])
  case rejected
  with assms show ?thesis by simp
next
  case (created parent nodes')
  have "path_inv nodes'"
    by (rule path_inv_insert[OF assms(1) created(3)])
      (use assms(2,3) child_path_ok[OF created_parent[OF created(1)]] in \<open>auto split: option.splits\<close>)
  with created show ?thesis by simp
qed


lemma update_node_path_inv:
  assumes "path_inv (h_nodes db)" shows "path_inv (h_nodes (snd (update_node E t i p actor db)))"
  using assms by (auto simp: update_node_def patch_node_def split: sum.splits intro!: path_inv_update)

lemma soft_delete_path_inv:
  assumes "path_inv (h_nodes db)" shows "path_inv (h_nodes (snd (soft_delete_node E t i actor db)))"
  using assms by (auto simp: soft_delete_node_def split: sum.splits intro!: path_inv_update)

text \<open>Moving a subtree: the suffixes are kept, so the paths still spell the chains.\<close>

lemma reparent_path_inv:
  assumes inv: "path_inv nodes" and node: "node \<in> set nodes" "en_tenant node = t"
    and parent: "parent = None \<or> (\<exists>m\<in>set nodes. parent = Some m \<and> en_tenant m = t \<and> \<not> starts_with (en_path m) (en_path node))"
    and new: "new_path = child_path parent (en_code node)"
  shows "path_inv (reparent t node parent new_path nodes)"
proof -
  define below where "below n \<longleftrightarrow> en_tenant n = t \<and> starts_with (en_path n) (en_path node @ ''.'')" for n :: entity_node
  define g where "g n = (if en_id n = en_id node then n \<lparr> en_parent := map_option en_id parent, en_path := new_path \<rparr>
      else if below n then n \<lparr> en_path := new_path @ drop (length (en_path node)) (en_path n) \<rparr> else n)" for n :: entity_node
  have same: "en_id (g n) = en_id n" "en_tenant (g n) = en_tenant n" "en_code (g n) = en_code n" for n
    by (simp_all add: g_def)
  have is_node: "n = node" if "n \<in> set nodes" "en_id n = en_id node" for n
    using path_inv_same_id[OF inv that(1) node(1) that(2)] .
  have gnode: "en_path (g node) = new_path" "en_parent (g node) = map_option en_id parent" by (simp_all add: g_def)
  have gother: "en_parent (g n) = en_parent n" "en_path (g n) = (if below n then new_path @ drop (length (en_path node)) (en_path n) else en_path n)"
    if "en_id n \<noteq> en_id node" for n
    using that by (simp_all add: g_def)
  have link: "case en_parent (g n) of None \<Rightarrow> en_path (g n) = en_code (g n)
     | Some p \<Rightarrow> (\<exists>m\<in>set (map g nodes). en_id m = p \<and> en_tenant m = en_tenant (g n) \<and> en_path (g n) = path_join (en_path m) (en_code (g n)))"
    if n: "n \<in> set nodes" for n
  proof (cases "en_id n = en_id node")
    case True
    then have [simp]: "n = node" using is_node[OF n] by simp
    show ?thesis
    proof (cases parent)
      case None
      then show ?thesis using new by (simp add: gnode same child_path_def)
    next
      case (Some m)
      then have m: "m \<in> set nodes" "en_tenant m = t" "\<not> starts_with (en_path m) (en_path node)" using parent by auto
      then have "en_id m \<noteq> en_id node" using is_node[of m] by auto
      moreover have "\<not> below m" using m(3) starts_with_trans[of "en_path m" "en_path node @ ''.''" "en_path node"] by (auto simp: below_def)
      ultimately have "en_path (g m) = en_path m" by (simp add: gother)
      then show ?thesis using Some m node(2) new by (auto simp: gnode same child_path_def intro!: bexI[of _ m])
    qed
  next
    case False
    note d = path_invD[OF inv n]
    show ?thesis
    proof (cases "en_parent n")
      case None
      then have "\<not> below n" using d(1,2) code_no_prefix by (auto simp: below_def)
      then show ?thesis using None d(2) by (simp add: gother[OF False] same)
    next
      case (Some p)
      then obtain m where m: "m \<in> set nodes" "en_id m = p" "en_tenant m = en_tenant n" "en_path n = path_join (en_path m) (en_code n)"
        using d(3) by blast
      have "en_path (g n) = path_join (en_path (g m)) (en_code n)"
      proof (cases "m = node")
        case True
        then have "below n" using m node(2) d(1) by (simp add: below_def path_join_prefix)
        then show ?thesis using m(4) True by (simp add: gother[OF False] gnode path_join_def)
      next
        case mn: False
        then have mid: "en_id m \<noteq> en_id node" using is_node[OF m(1)] by auto
        have "en_path m = en_path node \<Longrightarrow> en_tenant m = t \<Longrightarrow> False"
          using path_inv_same_path[OF inv m(1) node(1)] node(2) mn by simp
        then have b: "below n \<longleftrightarrow> below m" using m(3,4) d(1) by (auto simp: below_def path_join_prefix)
        show ?thesis
        proof (cases "below m")
          case True
          then have "length (en_path node) \<le> length (en_path m)" by (auto simp: below_def dest: starts_with_length)
          then show ?thesis using True b m(4) by (simp add: gother[OF False] gother[OF mid] path_join_def)
        qed (use b m(4) in \<open>simp add: gother[OF False] gother[OF mid]\<close>)
      qed
      then show ?thesis using Some m by (auto simp: gother[OF False] same intro!: bexI[of _ m])
    qed
  qed
  have "reparent t node parent new_path nodes = map g nodes" by (simp add: reparent_def g_def below_def)
  moreover have "path_inv (map g nodes)"
    unfolding path_inv_def
  proof (intro conjI ballI)
    show "distinct (map en_id (map g nodes))" "distinct (map (\<lambda>n. (en_tenant n, en_code n)) (map g nodes))"
      using inv by (simp_all add: path_inv_def same comp_def)
  next
    fix k assume "k \<in> set (map g nodes)"
    then obtain n where n: "n \<in> set nodes" "k = g n" by auto
    show "CHR ''.'' \<notin> set (en_code k)" using path_invD(1)[OF inv n(1)] by (simp add: n same)
    show "case en_parent k of None \<Rightarrow> en_path k = en_code k
     | Some p \<Rightarrow> (\<exists>m\<in>set (map g nodes). en_id m = p \<and> en_tenant m = en_tenant k \<and> en_path k = path_join (en_path m) (en_code k))"
      using link[OF n(1)] unfolding n(2) .
  qed
  ultimately show ?thesis by simp
qed

text \<open>What a move does.\<close>

lemma move_node_cases:
  obtains (same) "snd (move_node E t i np actor db) = db"
  | (moved) node parent where "find_node t i (h_nodes db) = Some node"
      "given np = None \<and> parent = None \<or>
       (\<exists>p m. given np = Some p \<and> find_node t p (h_nodes db) = Some m \<and> parent = Some m \<and> \<not> starts_with (en_path m) (en_path node))"
      "validate_parent_child (map_option (\<lambda>p. entity_type_text (en_type p)) parent) (entity_type_text (en_type node)) = Inr ()"
      "en_path node \<noteq> child_path parent (en_code node)"
      "h_nodes (snd (move_node E t i np actor db)) = reparent t node parent (child_path parent (en_code node)) (h_nodes db)"
proof (cases "find_node t i (h_nodes db)")
  case None
  then show ?thesis using same by (simp add: move_node_def find_one_node_def)
next
  case node: (Some node)
  show ?thesis
  proof (cases "given np")
    case None
    then show ?thesis
      using node same moved[of node None]
      by (fastforce simp: move_node_def find_one_node_def Let_def split: sum.splits if_splits)
  next
    case np: (Some p)
    show ?thesis
    proof (cases "find_node t p (h_nodes db)")
      case None
      then show ?thesis using same node np by (simp add: move_node_def find_one_node_def)
    next
      case (Some m)
      then show ?thesis
        using node np same moved[of node "Some m"]
        by (fastforce simp: move_node_def find_one_node_def Let_def split: sum.splits if_splits)
    qed
  qed
qed

lemma move_node_path_inv:
  assumes "path_inv (h_nodes db)" shows "path_inv (h_nodes (snd (move_node E t i np actor db)))"
proof (cases rule: move_node_cases[of E t i np actor db])
  case (moved node parent)
  note n = find_node_Some[OF moved(1)]
  show ?thesis unfolding moved(5)
    by (rule reparent_path_inv[OF assms]) (use n moved(2) in \<open>auto dest: find_node_Some\<close>)
qed (use assms in simp)


section \<open>Bulk import\<close>

definition fresh_from :: "env \<Rightarrow> nat \<Rightarrow> entity_node list \<Rightarrow> bool" where
  "fresh_from E k nodes = (\<forall>j\<ge>k. ev_ids E j \<notin> set (map en_id nodes))"

definition import_inv :: "env \<Rightarrow> string \<Rightarrow> nat \<Rightarrow> import_state \<Rightarrow> bool" where
  "import_inv E t k s \<longleftrightarrow> path_inv (is_nodes s) \<and> fresh_from E k (is_nodes s) \<and>
     (\<forall>p\<in>set (is_by_code s). snd p \<in> set (is_nodes s) \<and> en_tenant (snd p) = t)"

lemma set_upsert: "set (upsert k v ps) \<subseteq> insert (k, v) (set ps)"
  by (induction ps) (auto split: if_splits)

lemma row_node_sel [simp]:
  "en_id (row_node E k t r ty parent) = ev_ids E k" "en_tenant (row_node E k t r ty parent) = t"
  "en_code (row_node E k t r ty parent) = ir_code r" "en_parent (row_node E k t r ty parent) = map_option en_id parent"
  "en_path (row_node E k t r ty parent) = child_path parent (ir_code r)"
  by (simp_all add: row_node_def)

lemma fresh_from_Suc: "fresh_from E k nodes \<Longrightarrow> fresh_from E (Suc k) nodes"
  by (simp add: fresh_from_def)

lemma import_create_inv:
  assumes "import_inv E t k s" "inj (ev_ids E)" "CHR ''.'' \<notin> set (ir_code r)"
    "parent = None \<or> (\<exists>m\<in>set (is_nodes s). parent = Some m \<and> en_tenant m = t)"
  shows "import_inv E t (k + 1) (import_create aborts r (row_node E k t r ty parent) s)"
proof (cases "(aborts \<and> is_failed s) \<or> \<not> is_ok (insert_node (row_node E k t r ty parent) (is_nodes s))")
  case True
  then show ?thesis
    using assms(1) by (auto simp: import_create_def import_inv_def fresh_from_Suc split: sum.splits)
next
  case False
  then obtain nodes' where n: "insert_node (row_node E k t r ty parent) (is_nodes s) = Inr nodes'"
    by (auto simp: is_ok_iff)
  then have n': "nodes' = is_nodes s @ [row_node E k t r ty parent]"
    by (auto simp: insert_node_def split: if_splits)
  have fresh: "ev_ids E k \<notin> set (map en_id (is_nodes s))" using assms(1) by (auto simp: import_inv_def fresh_from_def)
  have "path_inv nodes'"
    by (rule path_inv_insert[OF _ n])
      (use assms fresh child_path_ok[OF assms(4)] in \<open>auto simp: import_inv_def\<close>)
  moreover have "fresh_from E (k + 1) nodes'"
    using assms(1,2) by (auto simp: n' import_inv_def fresh_from_def inj_eq)
  ultimately show ?thesis
    using False n assms(1) set_upsert[of "ir_code r" "row_node E k t r ty parent" "is_by_code s"]
    by (auto simp: import_create_def import_inv_def n')
qed

lemma import_row_step_inv:
  assumes "import_inv E t k s" "inj (ev_ids E)" "CHR ''.'' \<notin> set (ir_code r)"
  shows "import_inv E t (k + 1) (import_row_step aborts E k t r s)"
proof (cases "node_type_of (ir_type r)")
  case None
  then show ?thesis using assms(1) by (auto simp: import_row_step_def import_inv_def fresh_from_Suc)
next
  case ty: (Some ty)
  show ?thesis
  proof (cases "given (ir_parent r)")
    case None
    with ty import_create_inv[OF assms, of None] show ?thesis by (simp add: import_row_step_def)
  next
    case pc: (Some pc)
    show ?thesis
    proof (cases "map_of (is_by_code s) pc")
      case None
      then show ?thesis using ty pc assms(1) by (auto simp: import_row_step_def import_inv_def fresh_from_Suc)
    next
      case (Some m)
      then have m: "m \<in> set (is_nodes s)" "en_tenant m = t"
        using assms(1) by (auto simp: import_inv_def dest!: map_of_SomeD)
      with import_create_inv[OF assms, of "Some m" aborts ty] ty pc Some assms(1) show ?thesis
        by (auto simp: import_row_step_def import_inv_def fresh_from_Suc split: sum.splits)
    qed
  qed
qed

lemma import_loop_inv:
  "import_inv E t k s \<Longrightarrow> inj (ev_ids E) \<Longrightarrow> \<forall>r\<in>set rs. CHR ''.'' \<notin> set (ir_code r) \<Longrightarrow>
     import_inv E t (k + length rs) (import_loop aborts E k t rs s)"
proof (induction rs arbitrary: k s)
  case (Cons r rs)
  then show ?case using Cons.IH[of "k + 1"] import_row_step_inv[of E t k s r aborts] by simp
qed simp

lemma fold_upsert_mem:
  "p \<in> set (fold (\<lambda>n. upsert (f n) n) ns ps) \<Longrightarrow> snd p \<in> set ns \<or> p \<in> set ps"
proof (induction ns arbitrary: ps)
  case (Cons n ns)
  then have "snd p \<in> set ns \<or> p \<in> insert (f n, n) (set ps)"
    using Cons.IH[of "upsert (f n) n ps"] subsetD[OF set_upsert[of "f n" n ps], of p] by auto
  then show ?case by auto
qed simp

lemma import_start_inv: "path_inv nodes \<Longrightarrow> fresh_from E k nodes \<Longrightarrow> import_inv E t k (import_start t nodes)"
  by (auto simp: import_inv_def import_start_def dest!: fold_upsert_mem)

lemma row_deps_iff: "k \<in> set (row_deps r) \<longleftrightarrow> given (ir_parent r) = Some k"
  by (auto simp: row_deps_def split: option.splits)

lemma topo_sort_rows_order: "topo_sort_rows rows = Inr res \<longleftrightarrow> topo_order ir_code row_deps rows = Inr res"
  by (auto simp: topo_sort_rows_def split: sum.splits)

lemma topo_sort_rows_set: "topo_sort_rows rows = Inr res \<Longrightarrow> set res \<subseteq> set rows"
  using topo_order_sound(1)[of ir_code row_deps rows res] by (auto simp: topo_sort_rows_order dep_ordered_def)

lemma bulk_import_path_inv:
  assumes "path_inv (h_nodes db)" "fresh_from E 1 (h_nodes db)" "inj (ev_ids E)" "\<forall>r\<in>set rows. CHR ''.'' \<notin> set (ir_code r)"
  shows "path_inv (h_nodes (snd (bulk_import aborts E t rows actor db)))"
proof (cases "topo_sort_rows rows")
  case (Inl e)
  with assms show ?thesis by (simp add: bulk_import_def)
next
  case (Inr ordered)
  have "\<forall>r\<in>set ordered. CHR ''.'' \<notin> set (ir_code r)" using topo_sort_rows_set[OF Inr] assms(4) by auto
  then have "path_inv (is_nodes (import_loop aborts E 1 t ordered (import_start t (h_nodes db))))"
    using import_loop_inv[OF import_start_inv[OF assms(1,2)] assms(3), of ordered t aborts] by (simp add: import_inv_def)
  with Inr assms(1) show ?thesis by (simp add: bulk_import_def Let_def)
qed


section \<open>Types\<close>

lemma given_simps [simp]: "given None = None" "given (Some []) = None" "s \<noteq> [] \<Longrightarrow> given (Some s) = Some s"
  by (simp_all add: given_def)

lemma stored_parent_allowed:
  "validate_parent_child (Some (entity_type_text et)) (node_type_text nt) = Inr () \<Longrightarrow>
     et = EGroup \<and> nt \<in> {NCompany, NBusinessUnit}"
  by (cases et; cases nt) (simp_all add: validate_parent_child_def allowed_parents_def)

lemma stored_child_allowed:
  "validate_parent_child pt (entity_type_text et) = Inr () \<Longrightarrow> pt = None \<and> et = EGroup"
  by (cases et; cases pt) (simp_all add: validate_parent_child_def allowed_parents_def split: if_splits)

lemma root_allowed:
  "validate_parent_child None (node_type_text nt) = Inr () \<Longrightarrow> nt \<in> {NGroup, NCompany}"
  by (cases nt) (simp_all add: validate_parent_child_def)


text \<open>Groups are roots: no operation puts a group under a parent.\<close>

definition group_roots :: "entity_node list \<Rightarrow> bool" where
  "group_roots nodes = (\<forall>n\<in>set nodes. en_type n = EGroup \<longrightarrow> en_parent n = None)"

lemma no_group_below: "validate_parent_child (Some p) ''GROUP'' \<noteq> Inr ()"
  by (simp add: validate_parent_child_def allowed_parents_def)

lemma group_roots_insert:
  "group_roots nodes \<Longrightarrow> insert_node n nodes = Inr nodes' \<Longrightarrow> (en_type n = EGroup \<Longrightarrow> en_parent n = None) \<Longrightarrow> group_roots nodes'"
  by (auto simp: group_roots_def insert_node_def split: if_splits)

lemma group_roots_update:
  "group_roots nodes \<Longrightarrow> (\<And>n. en_type (f n) = en_type n \<and> en_parent (f n) = en_parent n) \<Longrightarrow> group_roots (update_where P f nodes)"
  by (auto simp: group_roots_def set_update_where)

lemma map_node_type_group: "map_node_type ty = EGroup \<longleftrightarrow> ty = NGroup"
  by (cases ty) simp_all

lemma create_node_group_roots:
  assumes "group_roots (h_nodes db)" shows "group_roots (h_nodes (snd (create_node E t dto actor db)))"
proof (cases rule: create_node_cases[of E t dto actor db])
  case (created parent nodes')
  have "group_roots nodes'"
    using created(2) by (intro group_roots_insert[OF assms created(3)])
      (cases parent, auto simp: map_node_type_group no_group_below)
  with created show ?thesis by simp
qed (use assms in simp)

lemma move_node_same:
  assumes "path_inv (h_nodes db)" "group_roots (h_nodes db)"
  shows "h_nodes (snd (move_node E t i np actor db)) = h_nodes db"
proof (cases rule: move_node_cases[of E t i np actor db])
  case (moved node parent)
  note n = find_node_Some[OF moved(1)]
  have "parent = None" "en_type node = EGroup" using stored_child_allowed[OF moved(3)] by auto
  then have "en_path node = en_code node" using assms n path_invD(2)[OF assms(1), of node] by (simp add: group_roots_def)
  then show ?thesis using moved(4) \<open>parent = None\<close> by (simp add: child_path_def)
qed simp

lemma node_type_of_text: "node_type_of s = Some ty \<Longrightarrow> s = node_type_text ty"
  by (auto simp: node_type_of_def find_Some_iff)

lemma import_create_group_roots:
  "group_roots (is_nodes s) \<Longrightarrow> (ty = NGroup \<Longrightarrow> parent = None) \<Longrightarrow>
     group_roots (is_nodes (import_create aborts r (row_node E k t r ty parent) s))"
  by (auto simp: import_create_def row_node_def map_node_type_group split: sum.splits elim!: group_roots_insert)

lemma import_loop_group_roots:
  "group_roots (is_nodes s) \<Longrightarrow> group_roots (is_nodes (import_loop aborts E k t rs s))"
proof (induction rs arbitrary: k s)
  case (Cons r rs)
  have "group_roots (is_nodes (import_row_step aborts E k t r s))"
    using Cons.prems
    by (auto simp: import_row_step_def no_group_below split: option.splits sum.splits dest!: node_type_of_text
        intro!: import_create_group_roots)
  with Cons show ?case by simp
qed simp

section \<open>The system\<close>

datatype hier_op =
    OpCreate env string node_dto string
  | OpUpdate env string string node_patch string
  | OpMove env string string "string option" string
  | OpDelete env string string string
  | OpImport bool env string "import_row list" string

fun hier_step :: "hier_op \<Rightarrow> hdb \<Rightarrow> hdb" where
  "hier_step (OpCreate E t dto actor) db = snd (create_node E t dto actor db)"
| "hier_step (OpUpdate E t i p actor) db = snd (update_node E t i p actor db)"
| "hier_step (OpMove E t i np actor) db = snd (move_node E t i np actor db)"
| "hier_step (OpDelete E t i actor) db = snd (soft_delete_node E t i actor db)"
| "hier_step (OpImport aborts E t rows actor) db = snd (bulk_import aborts E t rows actor db)"

fun hier_tenant :: "hier_op \<Rightarrow> string" where
  "hier_tenant (OpCreate E t dto actor) = t"
| "hier_tenant (OpUpdate E t i p actor) = t"
| "hier_tenant (OpMove E t i np actor) = t"
| "hier_tenant (OpDelete E t i actor) = t"
| "hier_tenant (OpImport aborts E t rows actor) = t"

text \<open>What a call must satisfy: the database's new ids are fresh and distinct, codes have no dot.\<close>

fun hier_ok :: "hier_op \<Rightarrow> hdb \<Rightarrow> bool" where
  "hier_ok (OpCreate E t dto actor) db \<longleftrightarrow> fresh_from E 1 (h_nodes db) \<and> CHR ''.'' \<notin> set (nd_code dto)"
| "hier_ok (OpImport aborts E t rows actor) db \<longleftrightarrow> fresh_from E 1 (h_nodes db) \<and> inj (ev_ids E) \<and>
     (\<forall>r\<in>set rows. CHR ''.'' \<notin> set (ir_code r))"
| "hier_ok _ db \<longleftrightarrow> True"

definition hier_inv :: "hdb \<Rightarrow> bool" where
  "hier_inv db = (path_inv (h_nodes db) \<and> group_roots (h_nodes db))"

lemma hier_step_group_roots: "hier_inv db \<Longrightarrow> group_roots (h_nodes (hier_step c db))"
proof (cases c)
  case (OpImport aborts E t rows actor)
  then show "hier_inv db \<Longrightarrow> ?thesis"
    by (auto simp: hier_inv_def bulk_import_def Let_def import_start_def split: sum.splits intro: import_loop_group_roots)
qed (auto simp: hier_inv_def move_node_same create_node_group_roots update_node_def soft_delete_node_def patch_node_def
      split: sum.splits intro!: group_roots_update)

lemma hier_step_inv: "hier_inv db \<Longrightarrow> hier_ok c db \<Longrightarrow> hier_inv (hier_step c db)"
proof -
  assume a: "hier_inv db" "hier_ok c db"
  then have "path_inv (h_nodes (hier_step c db))"
    by (cases c)
      (auto simp: hier_inv_def fresh_from_def intro!: create_node_path_inv update_node_path_inv move_node_path_inv
        soft_delete_path_inv bulk_import_path_inv)
  with hier_step_group_roots[OF a(1)] show ?thesis by (simp add: hier_inv_def)
qed

lemma update_where_foreign:
  assumes "path_inv nodes" "n \<in> set nodes" "en_tenant n \<noteq> u" "\<And>m. en_tenant (f m) = en_tenant m"
  shows "filter (\<lambda>m. en_tenant m = u) (update_where (\<lambda>m. en_id m = en_id n) f nodes) = filter (\<lambda>m. en_tenant m = u) nodes"
proof -
  have "filter (\<lambda>m. en_tenant m = u) (update_where (\<lambda>m. en_id m = en_id n) f ms) = filter (\<lambda>m. en_tenant m = u) ms"
    if "set ms \<subseteq> set nodes" for ms
    using that
  proof (induction ms)
    case (Cons m ms)
    then show ?case using path_inv_same_id[OF assms(1), of m n] assms(2-4) by auto
  qed simp
  then show ?thesis by blast
qed

lemma insert_node_foreign:
  "insert_node n nodes = Inr nodes' \<Longrightarrow> en_tenant n \<noteq> u \<Longrightarrow> filter (\<lambda>m. en_tenant m = u) nodes' = filter (\<lambda>m. en_tenant m = u) nodes"
  by (auto simp: insert_node_def split: if_splits)

lemma reparent_foreign:
  assumes "path_inv nodes" "node \<in> set nodes" "en_tenant node = t" "t \<noteq> u"
  shows "filter (\<lambda>m. en_tenant m = u) (reparent t node parent new nodes) = filter (\<lambda>m. en_tenant m = u) nodes"
proof -
  have "filter (\<lambda>m. en_tenant m = u) (reparent t node parent new ms) = filter (\<lambda>m. en_tenant m = u) ms"
    if "set ms \<subseteq> set nodes" for ms
    using that
  proof (induction ms)
    case (Cons m ms)
    then show ?case using path_inv_same_id[OF assms(1), of m node] assms(2-4) by (auto simp: reparent_def)
  qed (simp add: reparent_def)
  then show ?thesis by blast
qed

lemma import_loop_foreign:
  "t \<noteq> u \<Longrightarrow> filter (\<lambda>m. en_tenant m = u) (is_nodes (import_loop aborts E k t rs s)) = filter (\<lambda>m. en_tenant m = u) (is_nodes s)"
proof (induction rs arbitrary: k s)
  case (Cons r rs)
  have "filter (\<lambda>m. en_tenant m = u) (is_nodes (import_row_step aborts E k t r s)) = filter (\<lambda>m. en_tenant m = u) (is_nodes s)"
    using Cons.prems
    by (auto simp: import_row_step_def import_create_def insert_node_foreign[where n = "row_node E k t r ty p" for ty p]
        split: option.splits sum.splits)
  with Cons show ?case by simp
qed simp

lemma hier_step_foreign:
  assumes "hier_inv db" "hier_tenant c \<noteq> u"
  shows "filter (\<lambda>m. en_tenant m = u) (h_nodes (hier_step c db)) = filter (\<lambda>m. en_tenant m = u) (h_nodes db)"
proof (cases c)
  case (OpCreate E t dto actor)
  show ?thesis
  proof (cases rule: create_node_cases[of E t dto actor db])
    case (created parent nodes')
    then show ?thesis using insert_node_foreign[OF created(3), of u] assms OpCreate by simp
  qed (simp add: OpCreate)
next
  case (OpUpdate E t i p actor)
  then show ?thesis
    using assms update_where_foreign[of "h_nodes db" _ u "patch_node p"]
    by (auto simp: update_node_def find_one_node_def hier_inv_def patch_node_def split: option.splits dest!: find_node_Some)
next
  case (OpMove E t i np actor)
  show ?thesis
  proof (cases rule: move_node_cases[of E t i np actor db])
    case (moved node parent)
    then show ?thesis
      using assms OpMove find_node_Some[OF moved(1)] reparent_foreign[of "h_nodes db" node t u] by (simp add: hier_inv_def)
  qed (simp add: OpMove)
next
  case (OpDelete E t i actor)
  then show ?thesis
    using assms update_where_foreign[of "h_nodes db" _ u "\<lambda>n. n \<lparr> en_to := Some (ev_now E) \<rparr>"]
    by (auto simp: soft_delete_node_def find_one_node_def hier_inv_def split: option.splits dest!: find_node_Some)
next
  case (OpImport aborts E t rows actor)
  then show ?thesis
    using assms by (auto simp: bulk_import_def Let_def import_loop_foreign import_start_def split: sum.splits)
qed

interpretation hier: tenant_scoped hier_step hier_ok hier_inv en_tenant h_nodes hier_tenant
  by unfold_locales (auto intro: hier_step_inv simp: hier_step_foreign)


section \<open>Sums\<close>

lemma sum_list_filter_set:
  "distinct xs \<Longrightarrow> sum_list (map f (filter P xs)) = sum f {x \<in> set xs. P x}"
  by (simp add: sum_list_distinct_conv_sum_set)

lemma import_loop_count:
  "length (is_nodes (import_loop aborts E k t rs s)) + is_count s =
   length (is_nodes s) + is_count (import_loop aborts E k t rs s)"
proof (induction rs arbitrary: k s)
  case (Cons r rs)
  have "length (is_nodes (import_row_step aborts E k t r s)) + is_count s =
      length (is_nodes s) + is_count (import_row_step aborts E k t r s)"
    by (auto simp: import_row_step_def import_create_def insert_node_def split: option.splits sum.splits if_splits)
  with Cons[of "k + 1" "import_row_step aborts E k t r s"] show ?case by simp
qed simp

lemma import_loop_failed:
  "(is_failed s \<longrightarrow> is_errors s \<noteq> []) \<Longrightarrow>
     is_failed (import_loop aborts E k t rs s) \<longrightarrow> is_errors (import_loop aborts E k t rs s) \<noteq> []"
proof (induction rs arbitrary: k s)
  case (Cons r rs)
  have "is_failed (import_row_step aborts E k t r s) \<longrightarrow> is_errors (import_row_step aborts E k t r s) \<noteq> []"
    using Cons.prems
    by (auto simp: import_row_step_def import_create_def split: option.splits sum.splits if_splits)
  with Cons.IH[of "import_row_step aborts E k t r s" "k + 1"] show ?case by simp
qed simp

section \<open>Properties\<close>

definition empty_hdb :: hdb where
  "empty_hdb = \<lparr> h_nodes = [], h_audit = [] \<rparr>"

definition sample_dto :: "node_type \<Rightarrow> string \<Rightarrow> string option \<Rightarrow> node_dto" where
  "sample_dto ty c parent = \<lparr> nd_type = ty, nd_code = c, nd_name = c, nd_parent = parent, nd_country = None,
     nd_region = None, nd_lat = None, nd_lng = None, nd_from = None, nd_to = None, nd_meta = None \<rparr>"

definition sample_env :: "string \<Rightarrow> env" where
  "sample_env pre = \<lparr> ev_now = 0, ev_ids = (\<lambda>k. pre @ replicate k CHR ''x''), ev_audit_ok = True \<rparr>"

text \<open>
  C11: in every state that creations, updates, moves, deletions and imports reach, as long as no
  created or imported code contains a dot, the identifiers are distinct, a code is unique in its
  tenant, parents are in the tenant, and the path of a node is its parent's path, a dot and its
  code (the code alone at a root). The create request enforces such codes by its pattern; the import
  does not (\<open>dotted_import\<close>).
\<close>

theorem hierarchy_paths:
  assumes "hier_inv db" "runs_ok hier_step hier_ok cs db"
  shows "path_inv (h_nodes (fold hier_step cs db))"
  using hier.run_inv[OF assms] by (simp add: hier_inv_def)

theorem hierarchy_paths_witness:
  "path_inv (h_nodes (fold hier_step
     [OpCreate (sample_env ''a'') ''t'' (sample_dto NGroup ''g'' None) ''u'',
      OpCreate (sample_env ''b'') ''t'' (sample_dto NCompany ''c'' (Some ''ax'')) ''u''] empty_hdb))"
  by (rule hierarchy_paths)
    (simp_all add: hier_inv_def group_roots_def path_inv_def empty_hdb_def fresh_from_def sample_dto_def sample_env_def
      create_node_def validate_parent_child_def insert_node_def child_path_def make_node_def Let_def)



text \<open>
  The transaction of a move keeps the paths of the whole table spelling the parent chains,
  when the new parent is not below the moved node.
\<close>

theorem reparent_keeps_paths:
  assumes "path_inv nodes" "node \<in> set nodes" "m \<in> set nodes" "en_tenant m = en_tenant node"
    "\<not> starts_with (en_path m) (en_path node)"
  shows "path_inv (reparent (en_tenant node) node (Some m) (child_path (Some m) (en_code node)) nodes)"
  by (rule reparent_path_inv) (use assms in auto)

theorem reparent_keeps_paths_witness:
  "let g = make_node (sample_env ''a'') ''t'' (sample_dto NGroup ''g'' None) None;
       h = make_node (sample_env ''b'') ''t'' (sample_dto NGroup ''h'' None) None
   in path_inv (reparent ''t'' g (Some h) ''h.g'' [g, h])"
  using reparent_keeps_paths[of "[make_node (sample_env ''a'') ''t'' (sample_dto NGroup ''g'' None) None,
      make_node (sample_env ''b'') ''t'' (sample_dto NGroup ''h'' None) None]"
    "make_node (sample_env ''a'') ''t'' (sample_dto NGroup ''g'' None) None"
    "make_node (sample_env ''b'') ''t'' (sample_dto NGroup ''h'' None) None"]
  by (simp add: path_inv_def sample_dto_def sample_env_def child_path_def path_join_def Let_def)

text \<open>
  C27: in a hierarchy whose paths spell the parent links (the invariant of C11, which needs codes
  without a dot), a roll-up is the sum of head count and revenue over exactly the nodes from which
  the parent links lead to the node (itself included), each counted once. The revenue, added up in
  decimals of twenty digits, is exact when the amounts have two places, as the column stores them,
  and their sizes stay below 10^18 together.
\<close>

theorem rollup_subtree:
  assumes "path_inv (h_nodes db)" "rollup t i db = Inr r" "\<forall>n\<in>set (h_nodes db). on_grid 2 (or_else (en_revenue n) 0)"
    "(\<Sum>n\<leftarrow>h_nodes db. \<bar>or_else (en_revenue n) 0\<bar>) < 10 ^ 18"
  shows "\<exists>m\<in>set (h_nodes db). en_id m = i \<and> en_tenant m = t \<and>
    (let below = {n \<in> set (h_nodes db). (n, m) \<in> (parent_link (h_nodes db))\<^sup>*}
     in ru_employees r = (\<Sum>n\<in>below. or_else (en_employees n) 0) \<and>
        ru_revenue r = (\<Sum>n\<in>below. or_else (en_revenue n) 0) \<and> ru_count r = card below)"
proof -
  obtain m where m: "find_node t i (h_nodes db) = Some m"
    using assms(2) by (cases "find_node t i (h_nodes db)") (auto simp: rollup_def find_one_node_def)
  note mm = find_node_Some[OF m]
  have dist: "distinct (h_nodes db)" using assms(1) by (auto simp: path_inv_def distinct_map)
  have below: "{n \<in> set (h_nodes db). in_subtree_by_path t m n} = {n \<in> set (h_nodes db). (n, m) \<in> (parent_link (h_nodes db))\<^sup>*}"
    using subtree_by_path[OF assms(1), of m] mm by auto
  have cnt: "length (filter (in_subtree_by_path t m) (h_nodes db)) = card {n \<in> set (h_nodes db). in_subtree_by_path t m n}"
    using distinct_card[OF distinct_filter[OF dist, of "in_subtree_by_path t m"]] by simp
  let ?rows = "filter (in_subtree_by_path t m) (h_nodes db)"
  have r: "r = \<lparr> ru_node = i, ru_path = en_path m,
      ru_employees = sum_list (map (\<lambda>r. or_else (en_employees r) 0) ?rows),
      ru_revenue = foldl dec_plus 0 (map (\<lambda>r. or_else (en_revenue r) 0) ?rows), ru_count = length ?rows \<rparr>"
    using assms(2) m by (simp add: rollup_def find_one_node_def Let_def)
  have part: "(\<Sum>n\<leftarrow>filter P xs. \<bar>or_else (en_revenue n) 0\<bar>) \<le> (\<Sum>n\<leftarrow>xs. \<bar>or_else (en_revenue n) 0\<bar>)" for P xs
    by (induction xs) auto
  have "foldl dec_plus 0 (map (\<lambda>r. or_else (en_revenue r) 0) ?rows) = sum_list (map (\<lambda>r. or_else (en_revenue r) 0) ?rows)"
    using assms(3,4) part[of "in_subtree_by_path t m" "h_nodes db"] by (intro dec_sum_exact[of _ 2]) (auto simp: comp_def)
  note r = r[unfolded this]
  show ?thesis
    by (rule bexI[of _ m]) (simp_all add: r mm sum_list_filter_set[OF dist] cnt below[symmetric])
qed

definition sample_hdb :: "string \<Rightarrow> string \<Rightarrow> hdb" where
  "sample_hdb pre c = \<lparr> h_nodes = [make_node (sample_env pre) ''t'' (sample_dto NGroup c None) None], h_audit = [] \<rparr>"

text \<open>A group, a company in it, and another root whose path starts with the same letter.\<close>

definition revenue_hdb :: hdb where
  "revenue_hdb = \<lparr> h_nodes =
     [(make_node (sample_env ''a'') ''t'' (sample_dto NGroup ''g'' None) None) \<lparr> en_revenue := Some (100 + 1 / 4) \<rparr>,
      (make_node (sample_env ''b'') ''t'' (sample_dto NCompany ''c'' (Some ''ax'')) (Some
         (make_node (sample_env ''a'') ''t'' (sample_dto NGroup ''g'' None) None))) \<lparr> en_revenue := Some (50 + 1 / 2), en_employees := Some 7 \<rparr>,
      (make_node (sample_env ''d'') ''t'' (sample_dto NGroup ''gx'' None) None) \<lparr> en_revenue := Some 1000 \<rparr>],
     h_audit = [] \<rparr>"

theorem rollup_subtree_witness:
  "\<exists>m\<in>set (h_nodes revenue_hdb). en_id m = ''ax'' \<and>
     (let below = {n \<in> set (h_nodes revenue_hdb). (n, m) \<in> (parent_link (h_nodes revenue_hdb))\<^sup>*}
      in (\<Sum>n\<in>below. or_else (en_employees n) 0) = 7 \<and> (\<Sum>n\<in>below. or_else (en_revenue n) 0) = 150 + 3 / 4 \<and> card below = 2)"
proof -
  note d = revenue_hdb_def make_node_def sample_dto_def sample_env_def child_path_def path_join_def
  have p: "path_inv (h_nodes revenue_hdb)" by (simp add: path_inv_def d)
  have s: "dec_plus (dec_plus 0 (100 + 1 / 4)) (50 + 1 / 2) = 150 + 3 / 4" by code_simp
  have r: "rollup ''t'' ''ax'' revenue_hdb =
      Inr \<lparr> ru_node = ''ax'', ru_path = ''g'', ru_employees = 7, ru_revenue = 150 + 3 / 4, ru_count = 2 \<rparr>"
    using s by (simp add: d rollup_def find_one_node_def find_node_def in_subtree_by_path_def)
  have g: "\<forall>n\<in>set (h_nodes revenue_hdb). on_grid 2 (or_else (en_revenue n) 0)"
    by (simp add: d on_grid_def)
  have "(\<Sum>n\<leftarrow>h_nodes revenue_hdb. \<bar>or_else (en_revenue n) 0\<bar>) < 10 ^ 18" by (simp add: d)
  from rollup_subtree[OF p r g this] show ?thesis by (auto simp: Let_def)
qed

text \<open>
  The import takes a code with a dot: its root then lies below another root by its path, and the
  roll-up of that root counts it although no parent link leads there.
\<close>

definition dotted_rows :: "import_row list" where
  "dotted_rows = [\<lparr> ir_type = ''GROUP'', ir_code = ''g'', ir_name = ''g'', ir_parent = None, ir_country = None, ir_region = None \<rparr>,
     \<lparr> ir_type = ''GROUP'', ir_code = ''g.x'', ir_name = ''x'', ir_parent = None, ir_country = None, ir_region = None \<rparr>]"

definition dotted_db :: hdb where
  "dotted_db = snd (bulk_import False (sample_env ''a'') ''t'' dotted_rows ''u'' empty_hdb)"

theorem dotted_import:
  "list_all (\<lambda>n. en_parent n = None) (h_nodes dotted_db) \<and>
   (case rollup ''t'' ''ax'' dotted_db of Inr r \<Rightarrow> ru_path r = ''g'' \<and> ru_count r = 2 | Inl e \<Rightarrow> False)"
  by code_simp

text \<open>
  Under a parent only companies and business units can be created, and only when the parent
  is a group; without one, groups and companies. Regions, facilities, processes and product
  lines are rejected under every parent.
\<close>

theorem create_node_types:
  assumes "fst (create_node E t dto actor db) = Inr n"
  shows "(case given (nd_parent dto) of
      None \<Rightarrow> nd_type dto \<in> {NGroup, NCompany}
    | Some p \<Rightarrow> (\<exists>m. find_node t p (h_nodes db) = Some m \<and> en_type m = EGroup) \<and>
        nd_type dto \<in> {NCompany, NBusinessUnit})"
proof (cases rule: create_node_cases[of E t dto actor db])
  case (created parent nodes')
  then show ?thesis
    using root_allowed[of "nd_type dto"] by (auto dest!: stored_parent_allowed)
qed (use assms in simp)

theorem create_node_types_witness:
  "NGroup \<in> {NGroup, NCompany}"
  using create_node_types[of "sample_env ''a''" "''t''" "sample_dto NGroup ''g'' None" "''u''" empty_hdb]
  by (simp add: create_node_def sample_dto_def sample_env_def empty_hdb_def validate_parent_child_def insert_node_def Let_def)

text \<open>
  No move ever changes a node: in every reachable state a move leaves the table as it is
  (it succeeds only for a group without a new parent, which is where the group already is).
\<close>

theorem move_node_stuck:
  assumes "hier_inv db"
  shows "h_nodes (snd (move_node E t i np actor db)) = h_nodes db"
  using move_node_same assms by (simp add: hier_inv_def)

theorem move_node_stuck_witness:
  "h_nodes (snd (move_node (sample_env ''b'') ''t'' ''ax'' None ''u''
     \<lparr> h_nodes = [make_node (sample_env ''a'') ''t'' (sample_dto NGroup ''g'' None) None], h_audit = [] \<rparr>)) =
   [make_node (sample_env ''a'') ''t'' (sample_dto NGroup ''g'' None) None]"
  using move_node_stuck[of "\<lparr> h_nodes = [make_node (sample_env ''a'') ''t'' (sample_dto NGroup ''g'' None) None], h_audit = [] \<rparr>"]
  by (simp add: hier_inv_def group_roots_def path_inv_def sample_dto_def sample_env_def child_path_def)

text \<open>
  An import without duplicate codes is ordered with parents first, unless the parent codes
  of the rows form a cycle, in which case (and only then) it is rejected.
\<close>

theorem topo_sort_rows_correct:
  assumes "distinct (map ir_code rows)"
  shows "case topo_sort_rows rows of
      Inl e \<Rightarrow> \<not> acyclic (dep_edges ir_code row_deps rows)
    | Inr res \<Rightarrow> acyclic (dep_edges ir_code row_deps rows) \<and> set res = set rows \<and> distinct (map ir_code res) \<and>
        (\<forall>ys r zs. res = ys @ r # zs \<longrightarrow>
           (\<forall>p. given (ir_parent r) = Some p \<longrightarrow> p \<in> ir_code ` set rows \<longrightarrow> p \<in> ir_code ` set ys))"
proof (cases "topo_sort_rows rows")
  case (Inl e)
  then show ?thesis
    using topo_order_iff[OF assms, of row_deps] by (cases "topo_order ir_code row_deps rows") (auto simp: topo_sort_rows_def)
next
  case (Inr res)
  then have t: "topo_order ir_code row_deps rows = Inr res" by (simp add: topo_sort_rows_order)
  note o = topo_order_sound[OF t]
  have "acyclic (dep_edges ir_code row_deps rows)" using topo_order_iff[OF assms, of row_deps] t by simp
  moreover have "set res = set rows"
  proof
    show sub: "set res \<subseteq> set rows" using o(1) by (simp add: dep_ordered_def)
    show "set rows \<subseteq> set res"
    proof
      fix r assume r: "r \<in> set rows"
      then obtain r' where "r' \<in> set res" "ir_code r' = ir_code r" using o(2) by force
      with r sub assms show "r \<in> set res" by (metis distinct_map inj_onD subsetD)
    qed
  qed
  moreover have "distinct (map ir_code res) \<and> (\<forall>ys r zs. res = ys @ r # zs \<longrightarrow>
       (\<forall>p. given (ir_parent r) = Some p \<longrightarrow> p \<in> ir_code ` set rows \<longrightarrow> p \<in> ir_code ` set ys))"
    using o(1) by (simp add: dep_ordered_def row_deps_iff Ball_def)
  ultimately show ?thesis using Inr by simp
qed

definition sample_import :: "string \<Rightarrow> string \<Rightarrow> string option \<Rightarrow> import_row" where
  "sample_import ty c p = \<lparr> ir_type = ty, ir_code = c, ir_name = c, ir_parent = p, ir_country = None, ir_region = None \<rparr>"

theorem topo_sort_rows_correct_witness:
  "acyclic (dep_edges ir_code row_deps [sample_import ''COMPANY'' ''b'' (Some ''a''), sample_import ''GROUP'' ''a'' None])"
proof -
  have "topo_sort_rows [sample_import ''COMPANY'' ''b'' (Some ''a''), sample_import ''GROUP'' ''a'' None] =
      Inr [sample_import ''GROUP'' ''a'' None, sample_import ''COMPANY'' ''b'' (Some ''a'')]"
    by code_simp
  then show ?thesis
    using topo_sort_rows_correct[of "[sample_import ''COMPANY'' ''b'' (Some ''a''), sample_import ''GROUP'' ''a'' None]"]
    by (simp add: sample_import_def)
qed

text \<open>
  An import adds exactly as many rows as it reports, unless the database aborts the
  transaction at the first failed insert: then it reports rows although none was kept.
\<close>

theorem bulk_import_count:
  assumes "bulk_import aborts E t rows actor db = (Inr (n, errs), db')"
  shows "length (h_nodes db') = length (h_nodes db) + n \<or> aborts \<and> h_nodes db' = h_nodes db \<and> errs \<noteq> []"
proof (cases "rows = []")
  case True
  with assms show ?thesis by (simp add: bulk_import_def)
next
  case False
  with assms obtain ordered where o: "topo_sort_rows rows = Inr ordered"
    by (auto simp: bulk_import_def split: if_splits sum.splits)
  let ?s = "import_loop aborts E 1 t ordered (import_start t (h_nodes db))"
  have r: "n = is_count ?s" "errs = is_errors ?s"
    "h_nodes db' = (if aborts \<and> is_failed ?s then h_nodes db else is_nodes ?s)"
    using assms False o by (auto simp: bulk_import_def Let_def split: if_splits)
  have "length (is_nodes ?s) = length (h_nodes db) + is_count ?s"
    using import_loop_count[of aborts E 1 t ordered "import_start t (h_nodes db)"] by (simp add: import_start_def)
  moreover have "is_failed ?s \<longrightarrow> is_errors ?s \<noteq> []"
    by (rule import_loop_failed) (simp add: import_start_def)
  ultimately show ?thesis using r by auto
qed

theorem bulk_import_count_witness:
  "\<exists>db'. bulk_import True (sample_env ''a'') ''t'' [sample_import ''GROUP'' ''g'' None, sample_import ''GROUP'' ''h'' None] ''u''
       (sample_hdb ''b'' ''h'') = (Inr (1, [''Row code=h: P2002'']), db') \<and>
     (length (h_nodes db') = length (h_nodes (sample_hdb ''b'' ''h'')) + 1 \<or> h_nodes db' = h_nodes (sample_hdb ''b'' ''h''))"
proof -
  let ?r = "bulk_import True (sample_env ''a'') ''t'' [sample_import ''GROUP'' ''g'' None, sample_import ''GROUP'' ''h'' None] ''u''
       (sample_hdb ''b'' ''h'')"
  have "fst ?r = Inr (1, [''Row code=h: P2002''])" by code_simp
  then have "?r = (Inr (1, [''Row code=h: P2002'']), snd ?r)" by (metis prod.collapse)
  with bulk_import_count[OF this] show ?thesis by auto
qed

text \<open>
  The scope filter of the listing is a plain prefix test on the path: every node of the
  tenant whose path continues the scope's path is listed, a sibling whose code merely starts
  with the scope's code included.
\<close>

theorem list_nodes_scope:
  assumes "find_node t s (h_nodes db) = Some m" "s \<noteq> []" "list_nodes t None None (Some s) db = Inr ns"
    "n \<in> set (h_nodes db)" "en_tenant n = t" "en_path n = en_path m @ x"
  shows "n \<in> set ns"
  using assms by (auto simp: list_nodes_def)


theorem list_nodes_scope_witness:
  "\<exists>ns. list_nodes ''t'' None None (Some ''ax'') (\<lparr> h_nodes = h_nodes (sample_hdb ''a'' ''acme'') @ h_nodes (sample_hdb ''b'' ''acme2''), h_audit = [] \<rparr>) = Inr ns \<and>
     make_node (sample_env ''b'') ''t'' (sample_dto NGroup ''acme2'' None) None \<in> set ns"
proof -
  let ?a = "make_node (sample_env ''a'') ''t'' (sample_dto NGroup ''acme'' None) None"
  let ?b = "make_node (sample_env ''b'') ''t'' (sample_dto NGroup ''acme2'' None) None"
  let ?db = "\<lparr> h_nodes = h_nodes (sample_hdb ''a'' ''acme'') @ h_nodes (sample_hdb ''b'' ''acme2''), h_audit = [] \<rparr>"
  have f: "find_node ''t'' ''ax'' (h_nodes ?db) = Some ?a"
    by (simp add: sample_hdb_def find_node_def sample_env_def)
  obtain ns where l: "list_nodes ''t'' None None (Some ''ax'') ?db = Inr ns" by (simp add: list_nodes_def Let_def)
  have "?b \<in> set ns"
    by (rule list_nodes_scope[OF f _ l, of _ "''2''"]) (simp_all add: sample_hdb_def sample_dto_def child_path_def)
  with l show ?thesis by blast
qed

end
