(* ===== verification/Calendar.thy ===== *)
theory Calendar
  imports Prelude
begin

text \<open>
  The \<open>Date\<close> of the language in UTC: a time value counts milliseconds since 1970; the year and
  month of a time value and \<open>Date.UTC\<close> follow the ECMAScript definitions (DayFromYear, MakeDay).
\<close>

definition ms_day :: int where
  "ms_day = 86400000"

definition leap_year :: "int \<Rightarrow> bool" where
  "leap_year y = (y mod 4 = 0 \<and> (y mod 100 \<noteq> 0 \<or> y mod 400 = 0))"

definition day_from_year :: "int \<Rightarrow> int" where
  "day_from_year y = 365 * (y - 1970) + (y - 1969) div 4 - (y - 1901) div 100 + (y - 1601) div 400"

definition year_days :: "int \<Rightarrow> int" where
  "year_days y = (if leap_year y then 366 else 365)"

text \<open>Days of the year before the month m = 0, \<dots>, 11 (12 gives the length of the year).\<close>

definition month_starts :: "int list" where
  "month_starts = [0, 31, 59, 90, 120, 151, 181, 212, 243, 273, 304, 334, 365]"

definition month_start :: "int \<Rightarrow> int \<Rightarrow> int" where
  "month_start y m = month_starts ! nat m + (if 2 \<le> m \<and> leap_year y then 1 else 0)"

text \<open>MakeDay: months outside 0, \<dots>, 11 carry into the year.\<close>

definition make_day :: "int \<Rightarrow> int \<Rightarrow> int \<Rightarrow> int" where
  "make_day y m d = day_from_year (y + m div 12) + month_start (y + m div 12) (m mod 12) + d - 1"

text \<open>The midnight of a day, with the month counted from 1.\<close>

definition make_time :: "int \<Rightarrow> int \<Rightarrow> int \<Rightarrow> int" where
  "make_time y m d = make_day y (m - 1) d * ms_day"

text \<open>
  \<open>Date.UTC(y, m - 1, d)\<close>: a year from 0 to 99 means one of the twentieth century. A result more
  than \<open>max_time\<close> away from 1970 is an invalid date; it is a number here, and the properties that
  depend on it assume times within the range.
\<close>

definition full_year :: "int \<Rightarrow> int" where
  "full_year y = (if 0 \<le> y \<and> y \<le> 99 then 1900 + y else y)"

definition utc :: "int \<Rightarrow> int \<Rightarrow> int \<Rightarrow> int" where
  "utc y m d = make_time (full_year y) m d"

definition max_time :: int where
  "max_time = 8640000000000000"

text \<open>The year of a day: the 400-year cycle first, then an estimate that is at most one too big.\<close>

definition cycle_day :: "int \<Rightarrow> int" where
  "cycle_day y = 365 * y + (y + 3) div 4 - (y + 99) div 100 + (y + 399) div 400"

definition year_of_day :: "int \<Rightarrow> int" where
  "year_of_day n =
     (let q = (n - 10957) div 146097; r = (n - 10957) mod 146097; e = r div 365
      in 2000 + 400 * q + (if cycle_day e \<le> r then e else e - 1))"

text \<open>The month 0, \<dots>, 11 of the day d of the year y.\<close>

function month_scan :: "int \<Rightarrow> int \<Rightarrow> int \<Rightarrow> int" where
  "month_scan y d m = (if m < 11 \<and> month_start y (m + 1) \<le> d then month_scan y d (m + 1) else m)"
  by pat_completeness auto
termination by (relation "measure (\<lambda>(y, d, m). nat (11 - m))") auto

declare month_scan.simps [simp del]

definition month_of_day :: "int \<Rightarrow> int" where
  "month_of_day n = month_scan (year_of_day n) (n - day_from_year (year_of_day n)) 0"

definition day_of :: "int \<Rightarrow> int" where
  "day_of t = t div ms_day"

definition utc_year :: "int \<Rightarrow> int" where
  "utc_year t = year_of_day (day_of t)"

text \<open>\<open>getUTCMonth() + 1\<close>.\<close>

definition utc_month :: "int \<Rightarrow> int" where
  "utc_month t = month_of_day (day_of t) + 1"

definition utc_date :: "int \<Rightarrow> int" where
  "utc_date t = day_of t - day_from_year (utc_year t) - month_start (utc_year t) (utc_month t - 1) + 1"

section \<open>Years\<close>

lemma day_from_year_cycle: "day_from_year (2000 + 400 * q + y) = 10957 + 146097 * q + cycle_day y"
proof -
  have "(2000 + 400 * q + y - 1969) div 4 = 100 * q + 7 + (y + 3) div 4"
    using div_mult_self2[of 4 "y + 3" "100 * q + 7"] by (simp add: algebra_simps)
  moreover have "(2000 + 400 * q + y - 1901) div 100 = 4 * q + (y + 99) div 100"
    using div_mult_self2[of 100 "y + 99" "4 * q"] by (simp add: algebra_simps)
  moreover have "(2000 + 400 * q + y - 1601) div 400 = q + (y + 399) div 400"
    using div_mult_self2[of 400 "y + 399" q] by (simp add: algebra_simps)
  ultimately show ?thesis by (simp add: day_from_year_def cycle_day_def)
qed

lemma cycle_day_bounds:
  assumes "0 \<le> y" "y \<le> 400" shows "365 * y \<le> cycle_day y" "cycle_day y \<le> 365 * y + 101"
proof -
  have "(y + 99) div 100 \<le> (y + 3) div 4" using assms by linarith
  moreover have "0 \<le> (y + 399) div 400" "(y + 399) div 400 \<le> 1" "(y + 3) div 4 \<le> 100" "0 \<le> (y + 99) div 100"
    using assms by linarith+
  ultimately show "365 * y \<le> cycle_day y" "cycle_day y \<le> 365 * y + 101" by (simp_all add: cycle_day_def)
qed

lemma div_mod_eqI: "a = b * q + r \<Longrightarrow> 0 \<le> r \<Longrightarrow> r < b \<Longrightarrow> a div b = q \<and> a mod b = r" for a b q r :: int
  using int_div_pos_eq[of a b q r] int_mod_pos_eq[of a b q r] by simp

lemma div_step: "0 < k \<Longrightarrow> (x + 1) div k = x div k + (if (x + 1) mod k = 0 then 1 else 0)" for x k :: int
proof -
  assume k: "0 < k"
  have x: "x = k * (x div k) + x mod k" by simp
  have r: "0 \<le> x mod k" "x mod k < k" using k by simp_all
  show ?thesis
  proof (cases "x mod k + 1 = k")
    case True
    then have "x + 1 = k * (x div k) + k" using x by linarith
    then have "x + 1 = k * (x div k + 1) + 0" by (simp add: distrib_left)
    from div_mod_eqI[OF this] k show ?thesis by simp
  next
    case False
    then have "x + 1 = k * (x div k) + (x mod k + 1)" using x by simp
    from div_mod_eqI[OF this] r False show ?thesis by simp
  qed
qed

lemma mod_shift: "(y - k * c) mod k = y mod k" for y k c :: int
  using mod_mult_self2[of y k "- c"] by simp

lemma mod_dvd_zero: "y mod k = 0 \<Longrightarrow> c dvd k \<Longrightarrow> y mod c = 0" for y k c :: int
  by (meson dvd_eq_mod_eq_0 dvd_trans)

lemma leap_sum:
  "(P100 \<Longrightarrow> P4) \<Longrightarrow> (P400 \<Longrightarrow> P100) \<Longrightarrow>
     (if P4 then 1 else 0) - (if P100 then 1 else 0) + (if P400 then 1 else 0) =
     (if P4 \<and> (\<not> P100 \<or> P400) then 366 else 365) - (365 :: int)"
  by (cases P4; cases P100; cases P400) simp_all

lemma year_terms:
  "365 * (y + 1 - 1970) + (p + a) - (q + b) + (r + c) = 365 * (y - 1970) + p - q + r + 365 + (a - b + c)" for y p q r a b c :: int
  by simp

lemma day_from_year_Suc: "day_from_year (y + 1) = day_from_year y + year_days y"
proof -
  define a b c where "a = (if y mod 4 = 0 then 1 else (0 :: int))" and "b = (if y mod 100 = 0 then 1 else (0 :: int))"
    and "c = (if y mod 400 = 0 then 1 else (0 :: int))"
  have "(y + 1 - 1969) div 4 = (y - 1969) div 4 + a"
    using div_step[of 4 "y - 1969"] mod_shift[of y 4 492] by (simp add: a_def)
  moreover have "(y + 1 - 1901) div 100 = (y - 1901) div 100 + b"
    using div_step[of 100 "y - 1901"] mod_shift[of y 100 19] by (simp add: b_def)
  moreover have "(y + 1 - 1601) div 400 = (y - 1601) div 400 + c"
    using div_step[of 400 "y - 1601"] mod_shift[of y 400 4] by (simp add: c_def)
  ultimately have "day_from_year (y + 1) = day_from_year y + 365 + (a - b + c)"
    unfolding day_from_year_def by (simp only: year_terms)
  moreover have "a - b + c = year_days y - 365"
    unfolding a_def b_def c_def year_days_def leap_year_def
    by (rule leap_sum) (erule mod_dvd_zero, simp)+
  ultimately show ?thesis by simp
qed

lemma year_days_pos: "365 \<le> year_days y" "year_days y \<le> 366"
  by (simp_all add: year_days_def)

lemma day_from_year_mono: "x < y \<Longrightarrow> day_from_year x < day_from_year y"
proof (induction "nat (y - x)" arbitrary: y)
  case (Suc n)
  then have "x < y - 1 \<or> x = y - 1" "n = nat (y - 1 - x)" by auto
  moreover have "day_from_year (y - 1) < day_from_year y"
    using day_from_year_Suc[of "y - 1"] year_days_pos(1)[of "y - 1"] by simp
  ultimately show ?case using Suc(1)[of "y - 1"] by auto
qed simp

lemma year_of_day_spec: "day_from_year (year_of_day n) \<le> n" "n < day_from_year (year_of_day n + 1)"
proof -
  define q where "q = (n - 10957) div 146097"
  define r where "r = (n - 10957) mod 146097"
  define e where "e = r div 365"
  have n: "n = 10957 + 146097 * q + r" by (simp add: q_def r_def)
  have r: "0 \<le> r" "r < 146097" by (simp_all add: r_def)
  have e: "0 \<le> e" "365 * e \<le> r" "r < 365 * e + 365" "e \<le> 400" using r by (simp_all add: e_def)
  have c400: "cycle_day 400 = 146097" by (simp add: cycle_day_def)
  have next_e: "r < cycle_day (e + 1)"
  proof (cases "e = 400")
    case True
    then show ?thesis using r c400 by (simp add: cycle_day_def)
  next
    case False
    then have "365 * (e + 1) \<le> cycle_day (e + 1)" using e by (intro cycle_day_bounds(1)) auto
    then have "365 * e + 365 \<le> cycle_day (e + 1)" by (simp add: distrib_left)
    with e(3) show ?thesis by (rule less_le_trans)
  qed
  have y: "year_of_day n = 2000 + 400 * q + (if cycle_day e \<le> r then e else e - 1)"
    by (simp add: year_of_day_def Let_def q_def r_def e_def)
  have c: "cycle_day (e - 1) \<le> r" if "\<not> cycle_day e \<le> r"
  proof -
    have "e \<noteq> 0" using that r by (auto simp: cycle_day_def)
    then have "cycle_day (e - 1) \<le> 365 * (e - 1) + 101" using e cycle_day_bounds(2)[of "e - 1"] by linarith
    moreover have "365 * (e - 1) + 101 \<le> r" using e(2) by (simp add: right_diff_distrib)
    ultimately show ?thesis by (rule order_trans)
  qed
  show "day_from_year (year_of_day n) \<le> n"
    unfolding y day_from_year_cycle using c n by auto
  have "day_from_year (2000 + 400 * q + k + 1) = 10957 + 146097 * q + cycle_day (k + 1)" for k
    using day_from_year_cycle[of q "k + 1"] by (simp add: algebra_simps)
  then show "n < day_from_year (year_of_day n + 1)"
    unfolding y using next_e n by auto
qed

lemma year_of_day_unique:
  assumes "day_from_year y \<le> n" "n < day_from_year (y + 1)" shows "year_of_day n = y"
proof (rule ccontr)
  assume "year_of_day n \<noteq> y"
  then consider "year_of_day n + 1 \<le> y" | "y + 1 \<le> year_of_day n" by linarith
  then show False
  proof cases
    case 1
    then have "day_from_year (year_of_day n + 1) \<le> day_from_year y"
      using day_from_year_mono[of "year_of_day n + 1" y] by (cases "year_of_day n + 1 = y") auto
    with year_of_day_spec(2)[of n] assms show False by linarith
  next
    case 2
    then have "day_from_year (y + 1) \<le> day_from_year (year_of_day n)"
      using day_from_year_mono[of "y + 1" "year_of_day n"] by (cases "y + 1 = year_of_day n") auto
    with year_of_day_spec(1)[of n] assms show False by linarith
  qed
qed

section \<open>Months\<close>

lemma month_cases:
  assumes "0 \<le> m" "m \<le> (11 :: int)"
  shows "m = 0 \<or> m = 1 \<or> m = 2 \<or> m = 3 \<or> m = 4 \<or> m = 5 \<or> m = 6 \<or> m = 7 \<or> m = 8 \<or> m = 9 \<or> m = 10 \<or> m = 11"
  using assms by presburger

lemma month_start_step: "0 \<le> m \<Longrightarrow> m \<le> 11 \<Longrightarrow> 28 \<le> month_start y (m + 1) - month_start y m \<and> month_start y (m + 1) - month_start y m \<le> 31"
  apply (drule (1) month_cases) by (elim disjE; simp add: month_start_def month_starts_def nat_numeral)

lemma month_start_0 [simp]: "month_start y 0 = 0"
  by (simp add: month_start_def month_starts_def)

lemma month_start_12: "month_start y 12 = year_days y"
  by (simp add: month_start_def month_starts_def year_days_def nat_numeral)

text \<open>The first day of the month with the index n = 12 * year + month.\<close>

definition month_day :: "int \<Rightarrow> int" where
  "month_day n = day_from_year (n div 12) + month_start (n div 12) (n mod 12)"

lemma make_day_month: "make_day y m d = month_day (12 * y + m) + d - 1"
  by (simp add: make_day_def month_day_def)

lemma month_day_Suc: "28 \<le> month_day (n + 1) - month_day n \<and> month_day (n + 1) - month_day n \<le> 31"
proof -
  define q r where "q = n div 12" and "r = n mod 12"
  have n: "n = 12 * q + r" "0 \<le> r" "r < 12" by (simp_all add: q_def r_def)
  have m: "month_day n = day_from_year q + month_start q r" by (simp add: month_day_def q_def r_def)
  show ?thesis
  proof (cases "r = 11")
    case True
    with n have "n + 1 = 12 * (q + 1) + 0" by simp
    from div_mod_eqI[OF this] have "(n + 1) div 12 = q + 1" "(n + 1) mod 12 = 0" by simp_all
    then have "month_day (n + 1) = day_from_year q + month_start q 12"
      by (simp add: month_day_def day_from_year_Suc month_start_12)
    then show ?thesis using month_start_step[of 11 q] True m by simp
  next
    case False
    with n have "n + 1 = 12 * q + (r + 1)" "r + 1 < 12" by simp_all
    from div_mod_eqI[OF this(1)] this(2) n have "(n + 1) div 12 = q" "(n + 1) mod 12 = r + 1" by simp_all
    then show ?thesis using month_start_step[of r q] n m by (simp add: month_day_def)
  qed
qed

lemma month_day_mono: "i < j \<Longrightarrow> month_day i < month_day j"
proof (induction "nat (j - i)" arbitrary: j)
  case (Suc n)
  then have "i < j - 1 \<or> i = j - 1" "n = nat (j - 1 - i)" by auto
  moreover have "month_day (j - 1) < month_day j" using month_day_Suc[of "j - 1"] by simp
  ultimately show ?case using Suc(1)[of "j - 1"] by auto
qed simp


lemma month_scan_spec:
  "0 \<le> m \<Longrightarrow> m \<le> 11 \<Longrightarrow> month_start y m \<le> d \<Longrightarrow> d < month_start y 12 \<Longrightarrow>
     (let r = month_scan y d m in 0 \<le> r \<and> r \<le> 11 \<and> month_start y r \<le> d \<and> d < month_start y (r + 1))"
proof (induction y d m rule: month_scan.induct)
  case (1 y d m)
  show ?case
  proof (cases "m < 11 \<and> month_start y (m + 1) \<le> d")
    case True
    with 1 show ?thesis by (simp add: month_scan.simps[of y d m])
  next
    case False
    have "d < month_start y (m + 1)"
    proof (cases "m < 11")
      case False
      with 1(3) have "m = 11" by simp
      with 1(5) show ?thesis by simp
    qed (use False in simp)
    with False 1 show ?thesis by (simp add: month_scan.simps[of y d m])
  qed
qed

lemma month_of_day_spec:
  "0 \<le> month_of_day n" "month_of_day n \<le> 11"
  "month_day (12 * year_of_day n + month_of_day n) \<le> n" "n < month_day (12 * year_of_day n + month_of_day n + 1)"
proof -
  let ?y = "year_of_day n" and ?d = "n - day_from_year (year_of_day n)" and ?m = "month_of_day n"
  have "0 \<le> ?d" "?d < month_start ?y 12"
    using year_of_day_spec[of n] by (simp_all add: month_start_12 day_from_year_Suc)
  then have s: "0 \<le> ?m" "?m \<le> 11" "month_start ?y ?m \<le> ?d" "?d < month_start ?y (?m + 1)"
    using month_scan_spec[of 0 ?y ?d] by (simp_all add: month_of_day_def Let_def)
  have i: "(12 * ?y + ?m) div 12 = ?y" "(12 * ?y + ?m) mod 12 = ?m"
    using div_mod_eqI[of "12 * ?y + ?m" 12 ?y ?m] s by auto
  show "0 \<le> ?m" "?m \<le> 11" using s by auto
  show lo: "month_day (12 * ?y + ?m) \<le> n" using s by (simp add: month_day_def i)
  show "n < month_day (12 * ?y + ?m + 1)"
  proof (cases "?m = 11")
    case True
    have "month_day (12 * (?y + 1)) = day_from_year (?y + 1)" by (simp add: month_day_def)
    moreover have "12 * ?y + ?m + 1 = 12 * (?y + 1)" using True by simp
    ultimately show ?thesis using year_of_day_spec(2)[of n] by (simp only:)
  next
    case False
    then have "(12 * ?y + ?m + 1) div 12 = ?y" "(12 * ?y + ?m + 1) mod 12 = ?m + 1"
      using div_mod_eqI[of "12 * ?y + ?m + 1" 12 ?y "?m + 1"] s by auto
    then show ?thesis using s by (simp add: month_day_def)
  qed
qed

lemma month_day_mono_le: "i \<le> j \<Longrightarrow> month_day i \<le> month_day j"
  using month_day_mono[of i j] by (cases "i = j") auto

text \<open>The month index of a time value: 12 times the year plus the month counted from 0.\<close>

definition month_index :: "int \<Rightarrow> int" where
  "month_index t = 12 * utc_year t + (utc_month t - 1)"

definition month_ms :: "int \<Rightarrow> int" where
  "month_ms n = month_day n * ms_day"

lemma ms_day_pos: "0 < ms_day" by (simp add: ms_day_def)

lemma day_of_bounds: "day_of t * ms_day \<le> t" "t < (day_of t + 1) * ms_day"
proof -
  have e: "day_of t * ms_day + t mod ms_day = t" by (simp add: day_of_def)
  have b: "0 \<le> t mod ms_day" "t mod ms_day < ms_day" using ms_day_pos by simp_all
  show "day_of t * ms_day \<le> t" using e b by linarith
  show "t < (day_of t + 1) * ms_day" unfolding distrib_right using e b by linarith
qed

lemma day_of_less_iff: "day_of t < d \<longleftrightarrow> t < d * ms_day"
proof
  assume "day_of t < d"
  then have "(day_of t + 1) * ms_day \<le> d * ms_day" using ms_day_pos by (intro mult_right_mono) auto
  then show "t < d * ms_day" using day_of_bounds(2)[of t] by linarith
next
  assume "t < d * ms_day"
  then have "day_of t * ms_day < d * ms_day" using day_of_bounds(1)[of t] by linarith
  then show "day_of t < d" using ms_day_pos by simp
qed

lemma month_index_spec: "month_ms (month_index t) \<le> t" "t < month_ms (month_index t + 1)"
proof -
  have i: "month_index t = 12 * year_of_day (day_of t) + month_of_day (day_of t)"
    by (simp add: month_index_def utc_year_def utc_month_def)
  show "month_ms (month_index t) \<le> t" "t < month_ms (month_index t + 1)"
    using month_of_day_spec(3,4)[of "day_of t"] day_of_less_iff[of t "month_day (month_index t)"]
      day_of_less_iff[of t "month_day (month_index t + 1)"]
    by (auto simp: i month_ms_def)
qed

lemma month_ms_mono: "i < j \<Longrightarrow> month_ms i < month_ms j"
  using month_day_mono[of i j] ms_day_pos by (simp add: month_ms_def)

lemma month_index_unique:
  assumes "month_ms n \<le> t" "t < month_ms (n + 1)" shows "month_index t = n"
proof (rule ccontr)
  assume "month_index t \<noteq> n"
  then consider "month_index t + 1 \<le> n" | "n + 1 \<le> month_index t" by linarith
  then show False
  proof cases
    case 1
    then have "month_ms (month_index t + 1) \<le> month_ms n"
      using month_ms_mono[of "month_index t + 1" n] by (cases "month_index t + 1 = n") auto
    with month_index_spec(2)[of t] assms show False by linarith
  next
    case 2
    then have "month_ms (n + 1) \<le> month_ms (month_index t)"
      using month_ms_mono[of "n + 1" "month_index t"] by (cases "n + 1 = month_index t") auto
    with month_index_spec(1)[of t] assms show False by linarith
  qed
qed

lemma utc_month_range: "1 \<le> utc_month t" "utc_month t \<le> 12"
  using month_of_day_spec(1,2)[of "day_of t"] by (simp_all add: utc_month_def)

text \<open>From the year 100 on \<open>Date.UTC\<close> reads the year as it is.\<close>

lemma utc_year_plain: "100 \<le> y \<Longrightarrow> utc y m d = make_time y m d"
  by (simp add: utc_def full_year_def)

lemma make_time_shift: "make_time y m d = month_ms (12 * y + (m - 1)) + (d - 1) * ms_day"
  by (simp add: make_time_def make_day_month month_ms_def algebra_simps)

lemma utc_first: "100 \<le> y \<Longrightarrow> utc y m 1 = month_ms (12 * y + (m - 1))"
  by (simp add: utc_year_plain make_time_shift)

lemma utc_shift: "100 \<le> y \<Longrightarrow> utc y m d = month_ms (12 * y + (m - 1)) + (d - 1) * ms_day"
  by (simp add: utc_year_plain make_time_shift)

text \<open>A time value is its date plus the time within the day.\<close>

lemma utc_date_spec: "day_of t = month_day (month_index t) + utc_date t - 1" "1 \<le> utc_date t" "utc_date t \<le> 31"
proof -
  let ?y = "utc_year t" and ?m = "utc_month t - 1"
  have i: "(12 * ?y + ?m) div 12 = ?y" "(12 * ?y + ?m) mod 12 = ?m"
    using div_mod_eqI[of "12 * ?y + ?m" 12 ?y ?m] utc_month_range[of t] by auto
  have j: "?m mod 12 = ?m" using utc_month_range[of t] by (simp add: mod_pos_pos_trivial)
  show d: "day_of t = month_day (month_index t) + utc_date t - 1"
    by (simp add: month_index_def month_day_def i j utc_date_def)
  have "month_day (month_index t) \<le> day_of t" "day_of t < month_day (month_index t + 1)"
    using month_of_day_spec(3,4)[of "day_of t"] by (simp_all add: month_index_def utc_year_def utc_month_def)
  then show "1 \<le> utc_date t" "utc_date t \<le> 31" using d month_day_Suc[of "month_index t"] by auto
qed

section \<open>Text\<close>

definition show_int :: "int \<Rightarrow> string" where
  "show_int n = (if n < 0 then ''-'' @ show_nat (nat (- n)) else show_nat (nat n))"

text \<open>\<open>String(n).padStart(k, '0')\<close>.\<close>

definition pad_start :: "nat \<Rightarrow> string \<Rightarrow> string" where
  "pad_start k s = replicate (k - length s) (CHR ''0'') @ s"

text \<open>\<open>toISOString\<close>: years outside 0, \<dots>, 9999 are written with a sign and six digits.\<close>

definition iso_year :: "int \<Rightarrow> string" where
  "iso_year y = (if 0 \<le> y \<and> y \<le> 9999 then pad_start 4 (show_int y)
     else (if y < 0 then ''-'' else ''+'') @ pad_start 6 (show_int \<bar>y\<bar>))"

definition iso_string :: "int \<Rightarrow> string" where
  "iso_string t =
     (let r = t mod ms_day in
      iso_year (utc_year t) @ ''-'' @ pad_start 2 (show_int (utc_month t)) @ ''-'' @ pad_start 2 (show_int (utc_date t)) @
      ''T'' @ pad_start 2 (show_int (r div 3600000)) @ '':'' @ pad_start 2 (show_int (r div 60000 mod 60)) @ '':'' @
      pad_start 2 (show_int (r div 1000 mod 60)) @ ''.'' @ pad_start 3 (show_int (r mod 1000)) @ ''Z'')"

end
