(* ===== verification/Dates.thy ===== *)
theory Dates
  imports Calendar
begin

text \<open>
  Fiscal years and periods (packages/shared/src/dates.ts). A \<open>Date\<close> is its time value; the
  functions that can build an invalid date from text return an optional time value (\<^const>\<open>None\<close>
  is NaN). A day past the end of its month (31 February) rolls over, as the engine does; a
  month above 12 or a day above 31 is invalid.
\<close>

section \<open>Fiscal years\<close>

record fiscal_config =
  fc_month :: int
  fc_day :: int

definition default_fy :: fiscal_config where
  "default_fy = \<lparr> fc_month = 4, fc_day = 1 \<rparr>"

record fiscal_year =
  fy_label :: string
  fy_start :: int
  fy_end :: int
  fy_year :: int

text \<open>The remainder of the language has the sign of the dividend.\<close>

definition js_rem :: "int \<Rightarrow> int \<Rightarrow> int" where
  "js_rem a b = (if a < 0 then - ((- a) mod b) else a mod b)"

definition fiscal_year_from :: "int \<Rightarrow> fiscal_config \<Rightarrow> fiscal_year" where
  "fiscal_year_from y c =
     \<lparr> fy_label = ''FY'' @ show_int y @ ''-'' @ pad_start 2 (show_int (js_rem (y + 1) 100)),
       fy_start = utc y (fc_month c) (fc_day c),
       fy_end = utc (y + 1) (fc_month c) (fc_day c) - 1,
       fy_year = y \<rparr>"

definition get_fiscal_year :: "int \<Rightarrow> fiscal_config \<Rightarrow> fiscal_year" where
  "get_fiscal_year t c =
     (let m = utc_month t; d = utc_date t; y = utc_year t;
          starts_in = (if m > fc_month c \<or> m = fc_month c \<and> d \<ge> fc_day c then y else y - 1)
      in fiscal_year_from starts_in c)"

section \<open>Parsing\<close>

definition dec_digit :: "char \<Rightarrow> bool" where
  "dec_digit c = (let n = of_char c :: nat in 48 \<le> n \<and> n \<le> 57)"

definition latin_letter :: "char \<Rightarrow> bool" where
  "latin_letter c = (let n = of_char c :: nat in (65 \<le> n \<and> n \<le> 90) \<or> (97 \<le> n \<and> n \<le> 122))"

definition digits_value :: "string \<Rightarrow> int" where
  "digits_value s = foldl (\<lambda>n c. 10 * n + (of_char c - 48)) 0 s"

text \<open>Exactly k digits at the front of the text.\<close>

definition scan_digits :: "nat \<Rightarrow> string \<Rightarrow> (int \<times> string) option" where
  "scan_digits k s =
     (if k \<le> length s \<and> list_all dec_digit (take k s) then Some (digits_value (take k s), drop k s) else None)"

definition scan_text :: "string \<Rightarrow> string \<Rightarrow> string option" where
  "scan_text p s = (if starts_with s p then Some (drop (length p) s) else None)"

text \<open>YYYY-MM-DD at the front of the text.\<close>

definition scan_date :: "string \<Rightarrow> ((int \<times> int \<times> int) \<times> string) option" where
  "scan_date s =
     Option.bind (scan_digits 4 s) (\<lambda>(y, r1).
     Option.bind (scan_text ''-'' r1) (\<lambda>r2.
     Option.bind (scan_digits 2 r2) (\<lambda>(m, r3).
     Option.bind (scan_text ''-'' r3) (\<lambda>r4.
     Option.bind (scan_digits 2 r4) (\<lambda>(d, r5). Some ((y, m, d), r5))))))"

text \<open>\<open>toDate\<close> of a date that matches the pattern.\<close>

definition to_date :: "int \<times> int \<times> int \<Rightarrow> int option" where
  "to_date p = (case p of (y, m, d) \<Rightarrow>
     if 1 \<le> m \<and> m \<le> 12 \<and> 1 \<le> d \<and> d \<le> 31 then Some (make_time y m d) else None)"

definition end_of_day :: "int \<Rightarrow> int" where
  "end_of_day t = utc (utc_year t) (utc_month t) (utc_date t) + (ms_day - 1)"

type_synonym date_range = "int option \<times> int option"

definition month_names :: "string list" where
  "month_names = [''jan'', ''feb'', ''mar'', ''apr'', ''may'', ''jun'', ''jul'', ''aug'', ''sep'', ''oct'', ''nov'', ''dec'']"

text \<open>FYdddd-dd, the whole text, in the letter case of the pattern: the start year.\<close>

definition scan_fy :: "string \<Rightarrow> int option" where
  "scan_fy s =
     Option.bind (scan_text ''FY'' s) (\<lambda>r1.
     Option.bind (scan_digits 4 r1) (\<lambda>(y, r2).
     Option.bind (scan_text ''-'' r2) (\<lambda>r3.
     Option.bind (scan_digits 2 r3) (\<lambda>(yy, r4). if r4 = [] then Some y else None))))"

definition parse_range_form :: "string \<Rightarrow> date_range option" where
  "parse_range_form raw =
     Option.bind (scan_date raw) (\<lambda>(a, r1).
     Option.bind (scan_text ''..'' r1) (\<lambda>r2.
     Option.bind (scan_date r2) (\<lambda>(b, r3).
       if r3 = [] then Some (to_date a, map_option end_of_day (to_date b)) else None)))"

definition quarter_range :: "int \<Rightarrow> int \<Rightarrow> fiscal_config \<Rightarrow> date_range" where
  "quarter_range q y c =
     (let m = (fc_month c - 1 + (q - 1) * 3) mod 12 + 1;
          yy = (if fc_month c + (q - 1) * 3 > 12 then y + 1 else y);
          start = utc yy m (fc_day c);
          nxt = utc (utc_year start) (utc_month start + 3) (utc_date start)
      in (Some start, Some (nxt - 1)))"

definition parse_quarter_form :: "string \<Rightarrow> fiscal_config \<Rightarrow> date_range option" where
  "parse_quarter_form raw c =
     (case js_upper raw of
        Q # d # r \<Rightarrow>
          if Q = CHR ''Q'' \<and> d \<in> set ''1234'' \<and> r \<noteq> [] \<and> js_space (hd r)
          then map_option (\<lambda>y. quarter_range (of_char d - 48) y c) (scan_fy (dropWhile js_space r))
          else None
      | _ \<Rightarrow> None)"

definition parse_fy_form :: "string \<Rightarrow> fiscal_config \<Rightarrow> date_range option" where
  "parse_fy_form raw c =
     map_option (\<lambda>y. (Some (fy_start (fiscal_year_from y c)), Some (fy_end (fiscal_year_from y c)))) (scan_fy (js_upper raw))"

definition month_range :: "int \<Rightarrow> int \<Rightarrow> date_range" where
  "month_range y m = (Some (utc y m 1), Some (utc y (m + 1) 1 - 1))"

fun index_of :: "'a \<Rightarrow> 'a list \<Rightarrow> int \<Rightarrow> int option" where
  "index_of x [] k = None"
| "index_of x (y # ys) k = (if x = y then Some k else index_of x ys (k + 1))"

definition parse_month_name_form :: "string \<Rightarrow> date_range option" where
  "parse_month_name_form raw =
     (let w = takeWhile latin_letter raw; r = dropWhile latin_letter raw in
      if 3 \<le> length w \<and> length w \<le> 9 \<and> r \<noteq> [] \<and> js_space (hd r)
      then Option.bind (scan_digits 4 (dropWhile js_space r)) (\<lambda>(y, r2).
        if r2 \<noteq> [] then None
        else map_option (\<lambda>i. month_range y (i + 1)) (index_of (js_lower (take 3 w)) month_names 0))
      else None)"

definition parse_iso_month_form :: "string \<Rightarrow> date_range option" where
  "parse_iso_month_form raw =
     Option.bind (scan_digits 4 raw) (\<lambda>(y, r1).
     Option.bind (scan_text ''-'' r1) (\<lambda>r2.
     Option.bind (scan_digits 2 r2) (\<lambda>(m, r3). if r3 = [] then Some (month_range y m) else None)))"

fun first_some :: "'a option list \<Rightarrow> 'a option" where
  "first_some [] = None"
| "first_some (x # xs) = (case x of Some v \<Rightarrow> Some v | None \<Rightarrow> first_some xs)"

definition parse_period :: "string \<Rightarrow> fiscal_config \<Rightarrow> http_error + date_range" where
  "parse_period s c =
     (let raw = js_trim s in
      case first_some [parse_range_form raw, parse_quarter_form raw c, parse_fy_form raw c,
          parse_month_name_form raw, parse_iso_month_form raw] of
        Some r \<Rightarrow> Inr r
      | None \<Rightarrow> Inl (PlainError (''Unrecognized period: '' @ s)))"

section \<open>Days and months\<close>

definition iso_date :: "int \<Rightarrow> string" where
  "iso_date t = show_int (utc_year t) @ ''-'' @ pad_start 2 (show_int (utc_month t)) @ ''-'' @ pad_start 2 (show_int (utc_date t))"

definition format_period :: "int \<Rightarrow> int \<Rightarrow> string" where
  "format_period a b = iso_date a @ ''..'' @ iso_date b"

definition days_in_period :: "int \<Rightarrow> int \<Rightarrow> int" where
  "days_in_period a b =
     (utc (utc_year b) (utc_month b) (utc_date b) - utc (utc_year a) (utc_month a) (utc_date a)) div ms_day + 1"

definition overlap_days :: "int \<times> int \<Rightarrow> int \<times> int \<Rightarrow> int" where
  "overlap_days a b =
     (let s = (if fst a > fst b then fst a else fst b); e = (if snd a < snd b then snd a else snd b)
      in if e < s then 0 else days_in_period s e)"

record month_bucket =
  mb_start :: int
  mb_end :: int
  mb_year :: int
  mb_month :: int

lemma next_month: "100 \<le> utc_year t \<Longrightarrow> utc (utc_year t) (utc_month t + 1) 1 = month_ms (month_index t + 1)"
  by (simp add: utc_first month_index_def)

lemma next_month_later: "t < utc (utc_year t) (utc_month t + 1) 1"
proof -
  have "month_ms (month_index t + 1) \<le> month_ms (12 * full_year (utc_year t) + utc_month t)"
    using month_ms_mono[of "month_index t + 1" "12 * full_year (utc_year t) + utc_month t"]
    by (auto simp: month_index_def full_year_def)
  then show ?thesis using month_index_spec(2)[of t] by (simp add: utc_def make_time_shift)
qed

function split_loop :: "int \<Rightarrow> int \<Rightarrow> month_bucket list" where
  "split_loop cursor e =
     (if cursor \<le> e then
        (let y = utc_year cursor; m = utc_month cursor; nxt = utc y (m + 1) 1
         in \<lparr> mb_start = cursor, mb_end = min (nxt - 1) e, mb_year = y, mb_month = m \<rparr> # split_loop nxt e)
      else [])"
  by pat_completeness auto

termination
proof (relation "measure (\<lambda>(cursor, e). nat (e + 1 - cursor))", goal_cases)
  case (2 cursor e y m nxt)
  then show ?case using next_month_later[of cursor] by auto
qed auto

declare split_loop.simps [simp del]

definition split_into_months :: "int \<Rightarrow> int \<Rightarrow> month_bucket list" where
  "split_into_months s e =
     (let nxt = utc (utc_year s) (utc_month s + 1) 1
      in \<lparr> mb_start = s, mb_end = min (nxt - 1) e, mb_year = utc_year s, mb_month = utc_month s \<rparr> # split_loop nxt e)"

section \<open>Lemmas\<close>

lemma utc_same_day: "100 \<le> utc_year t \<Longrightarrow> utc (utc_year t) (utc_month t) (utc_date t) = day_of t * ms_day"
proof -
  assume "100 \<le> utc_year t"
  then have "utc (utc_year t) (utc_month t) (utc_date t) = (month_day (month_index t) + utc_date t - 1) * ms_day"
    by (simp add: utc_year_plain make_time_def make_day_month month_index_def)
  then show ?thesis using utc_date_spec(1)[of t] by simp
qed

lemma days_in_period_days: "100 \<le> utc_year a \<Longrightarrow> 100 \<le> utc_year b \<Longrightarrow> days_in_period a b = day_of b - day_of a + 1"
proof -
  assume "100 \<le> utc_year a" "100 \<le> utc_year b"
  moreover have "day_of b * ms_day - day_of a * ms_day = (day_of b - day_of a) * ms_day" by (simp add: left_diff_distrib)
  ultimately show ?thesis using ms_day_pos by (simp add: days_in_period_def utc_same_day)
qed

text \<open>The start of the fiscal year against the time.\<close>

lemma fiscal_start_before:
  assumes "1 \<le> fc_month c" "fc_month c \<le> 12" "1 \<le> fc_day c" "fc_day c \<le> 28" "100 \<le> utc_year t"
  shows "utc (utc_year t) (fc_month c) (fc_day c) \<le> t \<longleftrightarrow>
    utc_month t > fc_month c \<or> utc_month t = fc_month c \<and> utc_date t \<ge> fc_day c"
proof -
  let ?n = "12 * utc_year t + (fc_month c - 1)"
  have s: "utc (utc_year t) (fc_month c) (fc_day c) = (month_day ?n + fc_day c - 1) * ms_day"
    using assms(5) by (simp add: utc_year_plain make_time_def make_day_month)
  have le: "utc (utc_year t) (fc_month c) (fc_day c) \<le> t \<longleftrightarrow> month_day ?n + fc_day c - 1 \<le> day_of t"
    unfolding s using day_of_less_iff[of t "month_day ?n + fc_day c - 1"] by linarith
  note d = utc_date_spec[of t]
  consider "utc_month t > fc_month c" | "utc_month t = fc_month c" | "utc_month t < fc_month c" by linarith
  then show ?thesis
  proof cases
    case 1
    then have "?n < month_index t" by (simp add: month_index_def)
    then have "month_day (?n + 1) \<le> month_day (month_index t)"
      by (intro month_day_mono_le) simp
    then have "month_day ?n + fc_day c - 1 \<le> day_of t" using month_day_Suc[of ?n] assms d by linarith
    with 1 le show ?thesis by simp
  next
    case 2
    then have "month_index t = ?n" by (simp add: month_index_def)
    with 2 le d(1) show ?thesis by auto
  next
    case 3
    then have "month_index t < ?n" by (simp add: month_index_def)
    then have "month_day (month_index t + 1) \<le> month_day ?n"
      by (intro month_day_mono_le) simp
    moreover have "day_of t < month_day (month_index t + 1)"
      using month_index_spec(2)[of t] day_of_less_iff[of t "month_day (month_index t + 1)"] by (simp add: month_ms_def)
    ultimately have "\<not> month_day ?n + fc_day c - 1 \<le> day_of t" using assms by linarith
    with 3 le show ?thesis by simp
  qed
qed

lemma utc_strict_years: "100 \<le> y \<Longrightarrow> utc y m d < utc (y + 1) m d"
  using month_ms_mono[of "12 * y + (m - 1)" "12 * (y + 1) + (m - 1)"] by (simp add: utc_shift)

end
