(* ===== verification/Dates_Props.thy ===== *)
theory Dates_Props
  imports Dates
begin

text \<open>
  Fiscal years contain the dates they are asked for, their labels parse back, and splitting a
  period into months is a partition.
\<close>

section \<open>Numbers as text\<close>

lemma show_nat_less: "n < 10 \<Longrightarrow> show_nat n = [char_of (48 + n)]"
  by (simp add: show_nat.simps)

lemma show_nat_step: "10 \<le> n \<Longrightarrow> show_nat n = show_nat (n div 10) @ [char_of (48 + n mod 10)]"
  by (subst show_nat.simps) simp

lemma digits_value_snoc: "digits_value (s @ [c]) = 10 * digits_value s + (of_char c - 48)"
  by (simp add: digits_value_def)

lemma digit_char: "d < 10 \<Longrightarrow> dec_digit (char_of (48 + d)) \<and> (of_char (char_of (48 + d) :: char) :: int) = int (48 + d)"
proof -
  assume d: "d < (10 :: nat)"
  have "(of_char (char_of (48 + d) :: char) :: nat) = 48 + d" using d by simp
  moreover have "(of_char (char_of (48 + d) :: char) :: int) = int (of_char (char_of (48 + d) :: char))"
    by (simp only: of_nat_of_char)
  ultimately show ?thesis using d by (simp add: dec_digit_def)
qed

lemma show_nat_digits: "list_all dec_digit (show_nat n) \<and> digits_value (show_nat n) = int n"
proof (induction n rule: less_induct)
  case (less n)
  show ?case
  proof (cases "n < 10")
    case True
    then show ?thesis using digit_char[OF True] by (simp add: show_nat_less digits_value_def)
  next
    case False
    then have "list_all dec_digit (show_nat (n div 10)) \<and> digits_value (show_nat (n div 10)) = int (n div 10)"
      using less[of "n div 10"] by simp
    moreover have "int n = 10 * int (n div 10) + int (n mod 10)" by (metis mult_div_mod_eq of_nat_add of_nat_mult of_nat_numeral)
    ultimately show ?thesis using False digit_char[of "n mod 10"] by (simp add: show_nat_step digits_value_snoc)
  qed
qed

lemma length_show_nat_le: "n < 10 ^ Suc k \<Longrightarrow> length (show_nat n) \<le> Suc k"
proof (induction k arbitrary: n)
  case 0
  then show ?case by (simp add: show_nat_less)
next
  case (Suc k)
  show ?case
  proof (cases "n < 10")
    case False
    have "n div 10 < 10 ^ Suc k" using Suc.prems by (simp add: less_mult_imp_div_less)
    then show ?thesis using Suc.IH[of "n div 10"] False by (simp add: show_nat_step)
  qed (simp add: show_nat_less)
qed

lemma length_show_nat_ge: "10 ^ k \<le> n \<Longrightarrow> Suc k \<le> length (show_nat n)"
proof (induction k arbitrary: n)
  case 0
  then show ?case by (cases "n < 10") (simp_all add: show_nat_less show_nat_step)
next
  case (Suc k)
  then have "10 \<le> n" by (meson order_trans self_le_power one_le_numeral zero_less_Suc)
  moreover have "10 ^ k \<le> n div 10" using Suc.prems by (simp add: less_eq_div_iff_mult_less_eq mult.commute)
  ultimately show ?case using Suc.IH[of "n div 10"] by (simp add: show_nat_step)
qed

lemma scan_digits_append:
  "length s = k \<Longrightarrow> list_all dec_digit s \<Longrightarrow> scan_digits k (s @ r) = Some (digits_value s, r)"
  by (simp add: scan_digits_def)

lemma digits_value_zeros: "digits_value (replicate k (CHR ''0'') @ s) = digits_value s"
  by (induction k) (simp_all add: digits_value_def)

lemma pad2_digits:
  assumes "0 \<le> n" "n < 100"
  shows "length (pad_start 2 (show_int n)) = 2 \<and> list_all dec_digit (pad_start 2 (show_int n)) \<and> digits_value (pad_start 2 (show_int n)) = n"
proof -
  have "length (show_nat (nat n)) \<le> 2" using length_show_nat_le[of "nat n" 1] assms by (simp add: numeral_2_eq_2)
  moreover have "list_all dec_digit (replicate k (CHR ''0''))" for k by (induction k) (simp_all add: dec_digit_def)
  ultimately show ?thesis
    using show_nat_digits[of "nat n"] assms by (simp add: show_int_def pad_start_def digits_value_zeros)
qed

lemma upper_digit: "dec_digit c \<Longrightarrow> js_upper_char c = c"
  by (auto simp: dec_digit_def js_upper_char_def Let_def)

lemma space_digit: "dec_digit c \<Longrightarrow> \<not> js_space c"
  by (auto simp: dec_digit_def js_space_def Let_def)

lemma js_upper_digits: "list_all dec_digit s \<Longrightarrow> js_upper s = s"
  by (induction s) (simp_all add: js_upper_def upper_digit)

lemma js_upper_append [simp]: "js_upper (a @ b) = js_upper a @ js_upper b"
  by (simp add: js_upper_def)

section \<open>Splitting\<close>

text \<open>Buckets that follow each other without gap from s to e, each inside its month.\<close>

fun month_chain :: "int \<Rightarrow> int \<Rightarrow> month_bucket list \<Rightarrow> bool" where
  "month_chain s e [] \<longleftrightarrow> s = e + 1"
| "month_chain s e (b # bs) \<longleftrightarrow> mb_start b = s \<and> s \<le> mb_end b \<and> mb_end b \<le> e \<and>
     month_index s = 12 * mb_year b + (mb_month b - 1) \<and> month_index (mb_end b) = month_index s \<and>
     month_chain (mb_end b + 1) e bs"

lemma month_ms_mono_le: "i \<le> j \<Longrightarrow> month_ms i \<le> month_ms j"
  using month_ms_mono[of i j] by (cases "i = j") auto

lemma bucket_month:
  assumes "t \<le> e" "x = min (month_ms (month_index t + 1) - 1) e"
  shows "t \<le> x" "month_index x = month_index t"
proof -
  show "t \<le> x" using assms month_index_spec(2)[of t] by simp
  then show "month_index x = month_index t"
    using assms month_index_spec(1)[of t] by (intro month_index_unique) auto
qed

lemma next_month_year:
  assumes "100 \<le> utc_year t"
  shows "100 \<le> utc_year (month_ms (month_index t + 1))"
proof -
  let ?n = "month_ms (month_index t + 1)"
  have "month_index ?n = month_index t + 1" by (rule month_index_unique) (simp_all add: month_ms_mono)
  then show ?thesis using assms utc_month_range[of t] utc_month_range[of ?n] by (simp add: month_index_def)
qed

lemma split_loop_chain: "split_loop cursor e = bs \<Longrightarrow> cursor = month_ms (month_index cursor) \<Longrightarrow> cursor \<le> e + 1 \<Longrightarrow>
  100 \<le> utc_year cursor \<Longrightarrow> month_chain cursor e bs"
proof (induction cursor e arbitrary: bs rule: split_loop.induct)
  case (1 cursor e)
  let ?n = "month_ms (month_index cursor + 1)"
  show ?case
  proof (cases "cursor \<le> e")
    case True
    define rest where "rest = split_loop ?n e"
    let ?b = "\<lparr> mb_start = cursor, mb_end = min (?n - 1) e, mb_year = utc_year cursor, mb_month = utc_month cursor \<rparr>"
    have bs: "bs = ?b # rest"
      using 1(2,5) True by (simp add: split_loop.simps[of cursor e] next_month rest_def Let_def)
    have "month_index ?n = month_index cursor + 1" by (rule month_index_unique) (simp_all add: month_ms_mono)
    then have nn: "?n = month_ms (month_index ?n)" by simp
    have "month_chain (min (?n - 1) e + 1) e rest"
    proof (cases "?n \<le> e + 1")
      case True
      have "month_chain ?n e rest"
        using 1(1)[OF \<open>cursor \<le> e\<close> refl refl refl, unfolded next_month[OF 1(5)], OF rest_def[symmetric] nn True next_month_year[OF 1(5)]] .
      then show ?thesis using True by (simp add: min_def)
    next
      case False
      then have "rest = []" by (simp add: rest_def split_loop.simps)
      then show ?thesis using False by (simp add: min_def)
    qed
    then show ?thesis
      unfolding bs using True bucket_month[OF True refl] by (simp add: month_index_def)
  next
    case False
    then have "bs = []" using 1(2) by (simp add: split_loop.simps)
    then show ?thesis using False 1(4) by simp
  qed
qed

section \<open>Properties\<close>

text \<open>
  The fiscal year of a date from the year 101 on contains the date, for every configuration with
  a month and a start day that every month has; consecutive fiscal years tile time.
\<close>

theorem fiscal_year_contains:
  assumes "1 \<le> fc_month c" "fc_month c \<le> 12" "1 \<le> fc_day c" "fc_day c \<le> 28" "101 \<le> utc_year t"
  shows "fy_start (get_fiscal_year t c) \<le> t \<and> t \<le> fy_end (get_fiscal_year t c) \<and>
    fy_end (fiscal_year_from y c) + 1 = fy_start (fiscal_year_from (y + 1) c)"
proof -
  let ?Y = "utc_year t"
  have idx: "12 * ?Y \<le> month_index t" "month_index t + 1 \<le> 12 * (?Y + 1)"
    using utc_month_range[of t] by (simp_all add: month_index_def)
  have dd: "0 \<le> (fc_day c - 1) * ms_day" using assms ms_day_pos by simp
  have "t < utc (?Y + 1) (fc_month c) (fc_day c)"
  proof -
    have "month_ms (month_index t + 1) \<le> month_ms (12 * (?Y + 1) + (fc_month c - 1))"
      using idx assms by (intro month_ms_mono_le) linarith
    with month_index_spec(2)[of t] dd assms(5) show ?thesis by (simp add: utc_shift)
  qed
  moreover have "utc (?Y - 1) (fc_month c) (fc_day c) \<le> t"
  proof -
    let ?n = "12 * (?Y - 1) + (fc_month c - 1)"
    have "month_day ?n + fc_day c - 1 \<le> month_day (?n + 1)" using month_day_Suc[of ?n] assms by linarith
    also have "\<dots> \<le> month_day (month_index t)" using idx assms by (intro month_day_mono_le) (simp add: right_diff_distrib)
    finally have "(month_day ?n + fc_day c - 1) * ms_day \<le> month_ms (month_index t)"
      using ms_day_pos by (simp add: month_ms_def)
    moreover have "utc (?Y - 1) (fc_month c) (fc_day c) = (month_day ?n + fc_day c - 1) * ms_day"
      using assms(5) by (simp add: utc_year_plain make_time_def make_day_month)
    ultimately show ?thesis using month_index_spec(1)[of t] by linarith
  qed
  ultimately show ?thesis
    using fiscal_start_before[of c t] assms by (auto simp: get_fiscal_year_def fiscal_year_from_def Let_def)
qed

theorem fiscal_year_contains_witness:
  "fy_start (get_fiscal_year 0 default_fy) \<le> 0 \<and> 0 \<le> fy_end (get_fiscal_year 0 default_fy)"
proof -
  have "101 \<le> utc_year 0" by code_simp
  then show ?thesis using fiscal_year_contains[of default_fy 0] by (simp add: default_fy_def)
qed

text \<open>
  The label of a fiscal year parses back to the first and last instant of that year, for
  start years from 1000 to 9998.
\<close>

theorem fiscal_label_roundtrip:
  assumes "1000 \<le> y" "y \<le> 9998"
  shows "parse_period (fy_label (fiscal_year_from y c)) c =
    Inr (Some (fy_start (fiscal_year_from y c)), Some (fy_end (fiscal_year_from y c)))"
proof -
  let ?a = "show_nat (nat y)" and ?b = "pad_start 2 (show_int ((y + 1) mod 100))"
  have a: "length ?a = 4" "list_all dec_digit ?a" "digits_value ?a = y"
    using length_show_nat_le[of "nat y" 3] length_show_nat_ge[of 3 "nat y"] show_nat_digits[of "nat y"] assms by (auto intro!: antisym simp: nat_less_iff le_nat_iff)
  have b: "length ?b = 2" "list_all dec_digit ?b" using pad2_digits[of "(y + 1) mod 100"] by auto
  have label: "fy_label (fiscal_year_from y c) = ''FY'' @ ?a @ ''-'' @ ?b"
    using assms by (simp add: fiscal_year_from_def show_int_def js_rem_def)
  have upper: "js_upper (''FY'' @ ?a @ ''-'' @ ?b) = ''FY'' @ ?a @ ''-'' @ ?b"
    using js_upper_digits[OF a(2)] js_upper_digits[OF b(2)] by (simp add: js_upper_def js_upper_char_def)
  obtain b1 b2 where bb: "?b = [b1, b2]" using b(1) by (cases ?b; cases "tl ?b") (auto simp: length_Suc_conv numeral_2_eq_2)
  have trim: "js_trim (''FY'' @ ?a @ ''-'' @ ?b) = ''FY'' @ ?a @ ''-'' @ ?b"
    using b(2) space_digit[of b2] unfolding bb by (simp add: js_trim_def js_space_def)
  have fy: "scan_fy (''FY'' @ ?a @ ''-'' @ ?b) = Some y"
    using scan_digits_append[OF a(1,2), of "''-'' @ ?b"] scan_digits_append[OF b, of "[]"] a(3)
    by (simp add: scan_fy_def scan_text_def)
  have "parse_range_form (''FY'' @ ?a @ ''-'' @ ?b) = None"
    by (simp add: parse_range_form_def scan_date_def scan_digits_def dec_digit_def)
  moreover have "parse_quarter_form (''FY'' @ ?a @ ''-'' @ ?b) c = None"
    unfolding parse_quarter_form_def upper by (cases ?a) auto
  ultimately show ?thesis
    unfolding label using fy upper trim by (simp add: parse_period_def parse_fy_form_def)
qed

theorem fiscal_label_roundtrip_witness:
  "parse_period (fy_label (fiscal_year_from 2024 default_fy)) default_fy = Inr (Some 1711929600000, Some 1743465599999)"
proof -
  have "fy_start (fiscal_year_from 2024 default_fy) = 1711929600000" "fy_end (fiscal_year_from 2024 default_fy) = 1743465599999"
    by code_simp+
  with fiscal_label_roundtrip[of 2024 default_fy] show ?thesis by simp
qed

text \<open>
  C24: splitting a period into months is a partition: for a period that starts in the year 100 or
  later (an earlier year below 100 is read as one of the twentieth century) and ends a month before
  the last instant a date can hold, the buckets follow each other without gap or overlap from the
  first to the last instant, and each lies inside the month it names.
\<close>

theorem split_into_months_partition:
  assumes "s \<le> e" "100 \<le> utc_year s" "e \<le> max_time - 31 * ms_day"
  shows "month_chain s e (split_into_months s e)"
proof -
  let ?n = "month_ms (month_index s + 1)"
  let ?b = "\<lparr> mb_start = s, mb_end = min (?n - 1) e, mb_year = utc_year s, mb_month = utc_month s \<rparr>"
  have sp: "split_into_months s e = ?b # split_loop ?n e" using assms(2) by (simp add: split_into_months_def next_month Let_def)
  have "month_index ?n = month_index s + 1" by (rule month_index_unique) (simp_all add: month_ms_mono)
  then have nn: "?n = month_ms (month_index ?n)" by simp
  have "month_chain (min (?n - 1) e + 1) e (split_loop ?n e)"
  proof (cases "?n \<le> e + 1")
    case True
    then show ?thesis using split_loop_chain[OF refl nn True next_month_year[OF assms(2)]] by (simp add: min_def)
  next
    case False
    then show ?thesis by (simp add: split_loop.simps[of ?n e] min_def)
  qed
  then show ?thesis unfolding sp using assms(1) bucket_month[OF assms(1) refl] by (simp add: month_index_def)
qed

theorem split_into_months_partition_witness:
  "month_chain 0 5000000000 (split_into_months 0 5000000000) \<and> length (split_into_months 0 5000000000) = 2"
proof -
  have "length (split_into_months 0 5000000000) = 2" "100 \<le> utc_year 0" "5000000000 \<le> max_time - 31 * ms_day" by code_simp+
  with split_into_months_partition[of 0 5000000000] show ?thesis by simp
qed

end
