(* ===== verification/Metrics.thy ===== *)
theory Metrics
  imports Audit_Log Calendar
begin

text \<open>
  Metric events and their life cycle (services/api/src/metrics/metrics.service.ts): creation
  against the registry, editing, submission, approval by a second person, rejection, locking,
  and the spreadsheet import.

  Decimal values are a type parameter \<open>'v\<close>: this service only stores them. JSON dimensions are
  carried as text. The rows of a spreadsheet are what the spreadsheet library yields.
\<close>

section \<open>Data\<close>

datatype metric_status = MDraft | MSubmitted | MReviewed | MApproved | MRejected | MLocked

fun metric_status_text :: "metric_status \<Rightarrow> string" where
  "metric_status_text MDraft = ''DRAFT''"
| "metric_status_text MSubmitted = ''SUBMITTED''"
| "metric_status_text MReviewed = ''REVIEWED''"
| "metric_status_text MApproved = ''APPROVED''"
| "metric_status_text MRejected = ''REJECTED''"
| "metric_status_text MLocked = ''LOCKED''"

datatype metric_source = SManual | SExtracted | SImported | SCalculated | SErp

datatype source_type = StExtraction | StManual | StCalculation | StApi

definition map_source :: "metric_source option \<Rightarrow> source_type" where
  "map_source s = (case s of
     Some SExtracted \<Rightarrow> StExtraction
   | Some SCalculated \<Rightarrow> StCalculation
   | Some SErp \<Rightarrow> StApi
   | _ \<Rightarrow> StManual)"

record 'v metric_event =
  me_id :: string
  me_tenant :: string
  me_scope :: string
  me_key :: string
  me_start :: int
  me_end :: int
  me_value :: 'v
  me_unit :: string
  me_dims :: string
  me_source :: source_type
  me_extraction :: "string option"
  me_calc_run :: "string option"
  me_status :: metric_status
  me_submitted_by :: string
  me_submitted_at :: int
  me_approved_by :: "string option"
  me_approved_at :: "int option"
  me_comment :: "string option"

record canonical_metric =
  cm_key :: string
  cm_category :: string
  cm_unit :: string
  cm_allowed :: "string list"
  cm_active :: bool

record mapping_row =
  mp_framework :: string
  mp_keys :: "string list"

datatype 'v metric_snap =
    SnapEvent "'v metric_event"
  | SnapTransition string
  | SnapReason string
  | SnapCounts nat nat

text \<open>A scope node is known by its id and its tenant.\<close>

record 'v mdb =
  m_nodes :: "(string \<times> string) list"
  m_registry :: "canonical_metric list"
  m_mappings :: "mapping_row list"
  m_events :: "'v metric_event list"
  m_audit :: "'v metric_snap audit_row list"

record 'v metric_dto =
  md_key :: string
  md_scope :: string
  md_start :: int
  md_end :: int
  md_value :: 'v
  md_unit :: string
  md_source :: "metric_source option"
  md_extraction :: "string option"
  md_notes :: "string option"
  md_meta :: "string option"

record 'v metric_patch =
  mt_value :: "'v option"
  mt_unit :: "string option"
  mt_scope :: "string option"
  mt_start :: "int option"
  mt_end :: "int option"
  mt_notes :: "string option"
  mt_meta :: "string option"

definition keep :: "'a option \<Rightarrow> 'a \<Rightarrow> 'a" where
  "keep v d = (case v of None \<Rightarrow> d | Some x \<Rightarrow> x)"

lemma keep_simps [simp]: "keep None d = d" "keep (Some x) d = x"
  by (simp_all add: keep_def)

section \<open>Registry\<close>

definition list_registry :: "string option \<Rightarrow> string option \<Rightarrow> 'v mdb \<Rightarrow> canonical_metric list" where
  "list_registry category framework db =
     (let base = filter (\<lambda>c. opt_eq category (cm_category c) \<and> cm_active c) (m_registry db)
      in sort_key cm_key (case framework of
           None \<Rightarrow> base
         | Some f \<Rightarrow>
             if f = [] then base
             else (let keys = concat (map mp_keys (filter (\<lambda>p. mp_framework p = f) (m_mappings db)))
                   in filter (\<lambda>c. cm_key c \<in> set keys) base)))"

definition get_registry :: "string \<Rightarrow> 'v mdb \<Rightarrow> (canonical_metric \<times> mapping_row list) outcome" where
  "get_registry k db =
     (case find_first (\<lambda>c. cm_key c = k) (m_registry db) of
        None \<Rightarrow> Inl (NotFound ''Metric not in registry'')
      | Some c \<Rightarrow> Inr (c, filter (\<lambda>p. k \<in> set (mp_keys p)) (m_mappings db)))"

section \<open>Creating and reading\<close>

definition owns_node :: "string \<Rightarrow> string \<Rightarrow> 'v mdb \<Rightarrow> bool" where
  "owns_node t n db = ((n, t) \<in> set (m_nodes db))"

text \<open>The unit rule of the registry: the canonical unit (when there is one) or an allowed one.\<close>

definition unit_rejected :: "canonical_metric \<Rightarrow> string \<Rightarrow> bool" where
  "unit_rejected c u = (cm_unit c \<noteq> [] \<and> cm_unit c \<noteq> u \<and> u \<notin> set (cm_allowed c))"

definition new_event :: "env \<Rightarrow> string \<Rightarrow> 'v metric_dto \<Rightarrow> string \<Rightarrow> 'v metric_event" where
  "new_event E t dto actor =
     \<lparr> me_id = ev_ids E 1, me_tenant = t, me_scope = md_scope dto, me_key = md_key dto,
       me_start = md_start dto, me_end = md_end dto, me_value = md_value dto, me_unit = md_unit dto,
       me_dims = keep (md_meta dto) ''{}'', me_source = map_source (md_source dto),
       me_extraction = md_extraction dto, me_calc_run = None, me_status = MDraft,
       me_submitted_by = actor, me_submitted_at = ev_now E, me_approved_by = None,
       me_approved_at = None, me_comment = md_notes dto \<rparr>"

definition create_event :: "env \<Rightarrow> string \<Rightarrow> 'v metric_dto \<Rightarrow> string \<Rightarrow> 'v mdb \<Rightarrow> 'v metric_event outcome \<times> 'v mdb" where
  "create_event E t dto actor db =
     (if \<not> owns_node t (md_scope dto) db
      then (Inl (BadRequest ''scopeNodeId not found in this tenant''), db)
      else case find_first (\<lambda>c. cm_key c = md_key dto) (m_registry db) of
        None \<Rightarrow> (Inl (BadRequest (''Unknown metric: '' @ md_key dto)), db)
      | Some c \<Rightarrow>
          if unit_rejected c (md_unit dto)
          then (Inl (BadRequest (''Unit mismatch: expected '' @ cm_unit c @ '', got '' @ md_unit dto)), db)
          else if md_start dto > md_end dto
          then (Inl (BadRequest ''periodStart must be <= periodEnd''), db)
          else (let e = new_event E t dto actor
                in (Inr e, db \<lparr> m_events := m_events db @ [e],
                     m_audit := audit_log E (audit_entry t actor ''MetricEvent'' (Some (me_id e)) ''create''
                       None (Some (SnapEvent e)) None) (m_audit db) \<rparr>)))"

record metric_query =
  mq_key :: "string option"
  mq_scopes :: "string list option"
  mq_from :: "int option"
  mq_to :: "int option"
  mq_status :: "metric_status list option"
  mq_take :: "nat option"

definition in_nonempty :: "'a list option \<Rightarrow> 'a \<Rightarrow> bool" where
  "in_nonempty f v = (case f of None \<Rightarrow> True | Some xs \<Rightarrow> xs = [] \<or> v \<in> set xs)"

text \<open>Latest period end first, at most 200 rows unless the caller gives another number.\<close>

definition query_events :: "string \<Rightarrow> metric_query \<Rightarrow> 'v mdb \<Rightarrow> 'v metric_event list" where
  "query_events t q db =
     take (keep (mq_take q) 200) (sort_key (\<lambda>e. - me_end e) (filter (\<lambda>e.
       me_tenant e = t \<and> opt_eq (mq_key q) (me_key e) \<and> in_nonempty (mq_scopes q) (me_scope e) \<and>
       (case mq_from q of None \<Rightarrow> True | Some d \<Rightarrow> d \<le> me_start e) \<and>
       (case mq_to q of None \<Rightarrow> True | Some d \<Rightarrow> me_end e \<le> d) \<and>
       in_nonempty (mq_status q) (me_status e)) (m_events db)))"

definition find_event :: "string \<Rightarrow> string \<Rightarrow> 'v mdb \<Rightarrow> 'v metric_event outcome" where
  "find_event t i db =
     (case find_first (\<lambda>e. me_id e = i \<and> me_tenant e = t) (m_events db) of
        None \<Rightarrow> Inl (NotFound ''Metric event not found'') | Some e \<Rightarrow> Inr e)"

section \<open>Changing\<close>

text \<open>The update by primary key and the audit row that every change of an event ends with.\<close>

definition change_event ::
  "env \<Rightarrow> string \<Rightarrow> string \<Rightarrow> string \<Rightarrow> string \<Rightarrow> ('v metric_event \<Rightarrow> 'v metric_event) \<Rightarrow> 'v metric_snap option \<Rightarrow>
     'v metric_event \<Rightarrow> 'v mdb \<Rightarrow> 'v metric_event outcome \<times> 'v mdb" where
  "change_event E t i actor verb f mt e db =
     (Inr (f e), db \<lparr> m_events := update_where (\<lambda>x. me_id x = i) f (m_events db),
        m_audit := audit_log E (audit_entry t actor ''MetricEvent'' (Some i) verb
          (Some (SnapEvent e)) (Some (SnapEvent (f e))) mt) (m_audit db) \<rparr>)"

definition patch_event :: "'v metric_patch \<Rightarrow> 'v metric_event \<Rightarrow> 'v metric_event" where
  "patch_event p e = e \<lparr> me_value := keep (mt_value p) (me_value e), me_unit := keep (mt_unit p) (me_unit e),
     me_scope := keep (mt_scope p) (me_scope e), me_start := keep (mt_start p) (me_start e),
     me_end := keep (mt_end p) (me_end e),
     me_comment := (case mt_notes p of None \<Rightarrow> me_comment e | Some c \<Rightarrow> Some c),
     me_dims := keep (mt_meta p) (me_dims e) \<rparr>"

definition update_event :: "env \<Rightarrow> string \<Rightarrow> string \<Rightarrow> 'v metric_patch \<Rightarrow> string \<Rightarrow> 'v mdb \<Rightarrow> 'v metric_event outcome \<times> 'v mdb" where
  "update_event E t i p actor db =
     (case find_event t i db of
        Inl er \<Rightarrow> (Inl er, db)
      | Inr e \<Rightarrow>
          if me_status e \<notin> {MDraft, MSubmitted}
          then (Inl (Conflict (''Cannot edit a metric in status '' @ metric_status_text (me_status e))), db)
          else if (case mt_scope p of None \<Rightarrow> False | Some s \<Rightarrow> s \<noteq> [] \<and> s \<noteq> me_scope e \<and> \<not> owns_node t s db)
          then (Inl (BadRequest ''scopeNodeId not found in this tenant''), db)
          else if mt_scope p = Some [] \<and> [] \<notin> set (map fst (m_nodes db))
          then (Inl (PrismaError ''P2003''), db)
          else change_event E t i actor ''UPDATE'' (patch_event p) None e db)"

definition submit_event :: "env \<Rightarrow> string \<Rightarrow> string \<Rightarrow> string \<Rightarrow> 'v mdb \<Rightarrow> 'v metric_event outcome \<times> 'v mdb" where
  "submit_event E t i actor db =
     (case find_event t i db of
        Inl er \<Rightarrow> (Inl er, db)
      | Inr e \<Rightarrow>
          if me_status e \<noteq> MDraft
          then (Inl (Conflict (''Cannot submit metric in status '' @ metric_status_text (me_status e))), db)
          else change_event E t i actor ''UPDATE''
                 (\<lambda>x. x \<lparr> me_status := MSubmitted, me_submitted_at := ev_now E, me_submitted_by := actor \<rparr>)
                 (Some (SnapTransition ''SUBMITTED'')) e db)"

definition approve_event :: "env \<Rightarrow> string \<Rightarrow> string \<Rightarrow> string \<Rightarrow> 'v mdb \<Rightarrow> 'v metric_event outcome \<times> 'v mdb" where
  "approve_event E t i actor db =
     (case find_event t i db of
        Inl er \<Rightarrow> (Inl er, db)
      | Inr e \<Rightarrow>
          if me_status e \<noteq> MSubmitted
          then (Inl (Conflict (''Can only approve a SUBMITTED metric (got '' @ metric_status_text (me_status e) @ '')'')), db)
          else if me_submitted_by e = actor
          then (Inl (Conflict ''Submitter cannot approve their own entry (segregation of duties)''), db)
          else change_event E t i actor ''APPROVE''
                 (\<lambda>x. x \<lparr> me_status := MApproved, me_approved_at := Some (ev_now E), me_approved_by := Some actor \<rparr>)
                 None e db)"

definition reject_event :: "env \<Rightarrow> string \<Rightarrow> string \<Rightarrow> string \<Rightarrow> string \<Rightarrow> 'v mdb \<Rightarrow> 'v metric_event outcome \<times> 'v mdb" where
  "reject_event E t i reason actor db =
     (case find_event t i db of
        Inl er \<Rightarrow> (Inl er, db)
      | Inr e \<Rightarrow>
          if me_status e \<noteq> MSubmitted
          then (Inl (Conflict ''Can only reject a SUBMITTED metric''), db)
          else change_event E t i actor ''REJECT''
                 (\<lambda>x. x \<lparr> me_status := MDraft,
                    me_comment := Some (''[REJECTED '' @ iso_string (ev_now E) @ '' by '' @ actor @ ''] '' @ reason) \<rparr>)
                 (Some (SnapReason reason)) e db)"

definition lock_event :: "env \<Rightarrow> string \<Rightarrow> string \<Rightarrow> string \<Rightarrow> 'v mdb \<Rightarrow> 'v metric_event outcome \<times> 'v mdb" where
  "lock_event E t i actor db =
     (case find_event t i db of
        Inl er \<Rightarrow> (Inl er, db)
      | Inr e \<Rightarrow>
          if me_status e \<noteq> MApproved
          then (Inl (Conflict ''Only APPROVED metrics can be locked''), db)
          else change_event E t i actor ''LOCK'' (\<lambda>x. x \<lparr> me_status := MLocked \<rparr>) None e db)"

section \<open>Spreadsheet import\<close>

text \<open>
  A sheet is its header (column number and text) and its rows (row number and cells). Parsing of
  dates and decimals is given by the runtime and the decimal library: \<open>parse_date\<close>, \<open>parse_dec\<close>.
\<close>

type_synonym sheet = "((nat \<times> string) list \<times> (nat \<times> (nat \<times> string) list) list) option"

definition required_columns :: "string list" where
  "required_columns = [''canonicalKey'', ''scopeNodeId'', ''periodStart'', ''periodEnd'', ''value'', ''unit'']"

definition row_data :: "(nat \<times> string) list \<Rightarrow> (nat \<times> string) list \<Rightarrow> string js_object" where
  "row_data headers cells =
     fold (\<lambda>(col, v) d. case map_of headers col of
         Some h \<Rightarrow> if h = [] then d else upsert h v d
       | None \<Rightarrow> d) cells []"

text \<open>\<open>String(data.x)\<close>: a missing cell reads as the text undefined.\<close>

definition cell_text :: "string js_object \<Rightarrow> string \<Rightarrow> string" where
  "cell_text d k = (case own_get d k of None \<Rightarrow> ''undefined'' | Some v \<Rightarrow> v)"

definition import_event ::
  "(string \<Rightarrow> int option) \<Rightarrow> (string \<Rightarrow> 'v option) \<Rightarrow> env \<Rightarrow> nat \<Rightarrow> string \<Rightarrow> string \<Rightarrow> string js_object \<Rightarrow> string + 'v metric_event" where
  "import_event parse_date parse_dec E k t actor d =
     (case parse_dec (cell_text d ''value'') of
        None \<Rightarrow> Inl ''[DecimalError] Invalid argument''
      | Some v \<Rightarrow>
          (case (parse_date (cell_text d ''periodStart''), parse_date (cell_text d ''periodEnd'')) of
             (Some a, Some b) \<Rightarrow>
               Inr \<lparr> me_id = ev_ids E k, me_tenant = t, me_scope = cell_text d ''scopeNodeId'',
                  me_key = cell_text d ''canonicalKey'', me_start = a, me_end = b, me_value = v,
                  me_unit = cell_text d ''unit'', me_dims = ''{}'', me_source = StManual, me_extraction = None,
                  me_calc_run = None, me_status = MDraft, me_submitted_by = actor, me_submitted_at = ev_now E,
                  me_approved_by = None, me_approved_at = None, me_comment = (if own_get d ''notes'' = Some [] then None else own_get d ''notes'') \<rparr>
           | _ \<Rightarrow> Inl ''Invalid Date''))"

text \<open>
  The loop over the rows inside one transaction. A scope node that exists for no tenant violates
  the foreign key; with \<open>aborts\<close> the database refuses every statement after a failed one.
\<close>

record 'v sheet_state =
  ss_events :: "'v metric_event list"
  ss_created :: nat
  ss_errors :: "string list"
  ss_failed :: bool

definition sheet_error :: "nat \<Rightarrow> string \<Rightarrow> 'v sheet_state \<Rightarrow> 'v sheet_state" where
  "sheet_error r msg s = s \<lparr> ss_errors := ss_errors s @ [''Row '' @ show_nat r @ '': '' @ msg] \<rparr>"

definition sheet_step ::
  "(string \<Rightarrow> int option) \<Rightarrow> (string \<Rightarrow> 'v option) \<Rightarrow> bool \<Rightarrow> env \<Rightarrow> string \<Rightarrow> string \<Rightarrow> string list \<Rightarrow>
     (nat \<times> string) list \<Rightarrow> nat \<times> (nat \<times> string) list \<Rightarrow> 'v sheet_state \<Rightarrow> 'v sheet_state" where
  "sheet_step parse_date parse_dec aborts E t actor node_ids headers row s =
     (let d = row_data headers (snd row) in
      if d = [] then s
      else case import_event parse_date parse_dec E (fst row) t actor d of
          Inl msg \<Rightarrow> sheet_error (fst row) msg s
        | Inr e \<Rightarrow>
            if aborts \<and> ss_failed s then sheet_error (fst row) ''current transaction is aborted'' s
            else if me_scope e \<notin> set node_ids then (sheet_error (fst row) ''P2003'' s) \<lparr> ss_failed := True \<rparr>
            else s \<lparr> ss_events := ss_events s @ [e], ss_created := ss_created s + 1 \<rparr>)"

definition import_sheet ::
  "(string \<Rightarrow> int option) \<Rightarrow> (string \<Rightarrow> 'v option) \<Rightarrow> bool \<Rightarrow> env \<Rightarrow> string \<Rightarrow>
     sheet \<Rightarrow> string \<Rightarrow> 'v mdb \<Rightarrow>
     (nat \<times> string list) outcome \<times> 'v mdb" where
  "import_sheet parse_date parse_dec aborts E t sheet actor db =
     (case sheet of
        None \<Rightarrow> (Inl (BadRequest ''No worksheet found''), db)
      | Some (raw_headers, rows) \<Rightarrow>
          (let headers = map (\<lambda>(c, h). (c, js_trim h)) raw_headers in
           case filter (\<lambda>c. c \<notin> set (map snd headers)) required_columns of
             c # _ \<Rightarrow> (Inl (BadRequest (''Missing required column: '' @ c)), db)
           | [] \<Rightarrow>
               (let s = fold (sheet_step parse_date parse_dec aborts E t actor (map fst (m_nodes db)) headers) rows
                      \<lparr> ss_events = m_events db, ss_created = 0, ss_errors = [], ss_failed = False \<rparr>;
                    kept = (if aborts \<and> ss_failed s then m_events db else ss_events s)
                in (Inr (ss_created s, ss_errors s), db \<lparr> m_events := kept,
                     m_audit := audit_log E (audit_entry t actor ''MetricEvent'' None ''CREATE'' None None
                       (Some (SnapCounts (ss_created s) (length (ss_errors s))))) (m_audit db) \<rparr>))))"

section \<open>The system\<close>

datatype 'v metric_op =
    MoCreate env string "'v metric_dto" string
  | MoUpdate env string string "'v metric_patch" string
  | MoSubmit env string string string
  | MoApprove env string string string
  | MoReject env string string string string
  | MoLock env string string string
  | MoImport "string \<Rightarrow> int option" "string \<Rightarrow> 'v option" bool env string sheet string

fun metric_step :: "'v metric_op \<Rightarrow> 'v mdb \<Rightarrow> 'v mdb" where
  "metric_step (MoCreate E t dto actor) db = snd (create_event E t dto actor db)"
| "metric_step (MoUpdate E t i p actor) db = snd (update_event E t i p actor db)"
| "metric_step (MoSubmit E t i actor) db = snd (submit_event E t i actor db)"
| "metric_step (MoApprove E t i actor) db = snd (approve_event E t i actor db)"
| "metric_step (MoReject E t i reason actor) db = snd (reject_event E t i reason actor db)"
| "metric_step (MoLock E t i actor) db = snd (lock_event E t i actor db)"
| "metric_step (MoImport pd pv aborts E t sheet actor) db = snd (import_sheet pd pv aborts E t sheet actor db)"

fun metric_tenant :: "'v metric_op \<Rightarrow> string" where
  "metric_tenant (MoCreate E t dto actor) = t"
| "metric_tenant (MoUpdate E t i p actor) = t"
| "metric_tenant (MoSubmit E t i actor) = t"
| "metric_tenant (MoApprove E t i actor) = t"
| "metric_tenant (MoReject E t i reason actor) = t"
| "metric_tenant (MoLock E t i actor) = t"
| "metric_tenant (MoImport pd pv aborts E t sheet actor) = t"

text \<open>A creation gets a fresh identifier from the database, an import one for each of its rows.\<close>

fun metric_ok :: "'v metric_op \<Rightarrow> 'v mdb \<Rightarrow> bool" where
  "metric_ok (MoCreate E t dto actor) db \<longleftrightarrow> ev_ids E 1 \<notin> set (map me_id (m_events db))"
| "metric_ok (MoImport pd pv aborts E t sheet actor) db \<longleftrightarrow>
     (case sheet of None \<Rightarrow> True | Some (h, rows) \<Rightarrow>
        distinct (map (\<lambda>r. ev_ids E (fst r)) rows) \<and>
        set (map (\<lambda>r. ev_ids E (fst r)) rows) \<inter> set (map me_id (m_events db)) = {})"
| "metric_ok _ db \<longleftrightarrow> True"

end
