(* ===== verification/Lifecycle.thy ===== *)
theory Lifecycle
  imports Store
begin

text \<open>
  Tables whose rows have a life cycle. A step of such a table appends fresh rows of one tenant and
  moves rows of that tenant along a relation; the rows keep their place. What the service does to
  its table is shown to be such a step once, and invariants, history and the separation of tenants
  follow here.
\<close>

section \<open>Steps of a table\<close>

definition table_move ::
  "('r \<Rightarrow> string) \<Rightarrow> ('r \<Rightarrow> string) \<Rightarrow> ('r \<Rightarrow> bool) \<Rightarrow> ('r \<Rightarrow> 'r \<Rightarrow> bool) \<Rightarrow> string \<Rightarrow> 'r list \<Rightarrow> 'r list \<Rightarrow> bool" where
  "table_move rid tenant fresh move t rows rows' \<longleftrightarrow> (\<exists>moved new. rows' = moved @ new \<and>
     (\<forall>r\<in>set new. tenant r = t \<and> fresh r) \<and> distinct (map rid new) \<and> rid ` set new \<inter> rid ` set rows = {} \<and>
     list_all2 (\<lambda>r r'. r' = r \<or> tenant r = t \<and> move r r') rows moved)"

definition table_later :: "('r \<Rightarrow> 'r \<Rightarrow> bool) \<Rightarrow> 'r list \<Rightarrow> 'r list \<Rightarrow> bool" where
  "table_later move rows rows' \<longleftrightarrow> (\<exists>moved new. rows' = moved @ new \<and> list_all2 move\<^sup>*\<^sup>* rows moved)"

lemma table_moveI:
  "list_all2 (\<lambda>r r'. r' = r \<or> tenant r = t \<and> move r r') rows moved \<Longrightarrow> \<forall>r\<in>set new. tenant r = t \<and> fresh r \<Longrightarrow>
     distinct (map rid new) \<Longrightarrow> rid ` set new \<inter> rid ` set rows = {} \<Longrightarrow> table_move rid tenant fresh move t rows (moved @ new)"
  by (auto simp: table_move_def)

lemma table_moveE:
  assumes "table_move rid tenant fresh move t rows rows'"
  obtains moved new where "rows' = moved @ new" "\<forall>r\<in>set new. tenant r = t \<and> fresh r" "distinct (map rid new)"
    "rid ` set new \<inter> rid ` set rows = {}" "list_all2 (\<lambda>r r'. r' = r \<or> tenant r = t \<and> move r r') rows moved"
  using assms by (auto simp: table_move_def)

lemma table_move_refl: "table_move rid tenant fresh move t rows rows"
  using table_moveI[of tenant t move rows rows "[]"] by (simp add: list_all2_same)

lemma table_move_append:
  "tenant r = t \<Longrightarrow> fresh r \<Longrightarrow> rid r \<notin> set (map rid rows) \<Longrightarrow> table_move rid tenant fresh move t rows (rows @ [r])"
  by (rule table_moveI) (simp_all add: list_all2_same)

text \<open>The update of the row with an identifier.\<close>

lemma table_move_update:
  assumes "distinct (map rid rows)" "r \<in> set rows" "rid r = i" "tenant r = t" "move r (f r)"
  shows "table_move rid tenant fresh move t rows (update_where (\<lambda>x. rid x = i) f rows)"
proof -
  have "\<forall>x\<in>set rows. rid x = i \<longrightarrow> x = r"
    using assms(1-3) by (auto simp: distinct_map dest: inj_onD)
  then have "list_all2 (\<lambda>r r'. r' = r \<or> tenant r = t \<and> move r r') rows (update_where (\<lambda>x. rid x = i) f rows)"
    using assms(4,5) by (auto simp: update_where_def list_all2_map2 list_all2_same)
  from table_moveI[OF this, of "[]"] show ?thesis by simp
qed

lemma table_later_refl: "table_later move rows rows"
  unfolding table_later_def by (rule exI[of _ rows], rule exI[of _ "[]"]) (simp add: list_all2_same)

lemma table_later_trans:
  assumes "table_later move a b" "table_later move b c" shows "table_later move a c"
proof -
  obtain m n where mn: "b = m @ n" "list_all2 move\<^sup>*\<^sup>* a m" using assms(1) by (auto simp: table_later_def)
  obtain m' n' where mn': "c = m' @ n'" "list_all2 move\<^sup>*\<^sup>* b m'" using assms(2) by (auto simp: table_later_def)
  obtain x y where xy: "m' = x @ y" "list_all2 move\<^sup>*\<^sup>* m x" "list_all2 move\<^sup>*\<^sup>* n y"
    using mn'(2) mn(1) by (auto simp: list_all2_append1)
  have "list_all2 move\<^sup>*\<^sup>* a x"
    using list_all2_trans[OF _ mn(2) xy(2), of "move\<^sup>*\<^sup>*"] by auto
  with mn' xy show ?thesis by (auto simp: table_later_def)
qed

text \<open>A row at its place later.\<close>

lemma table_later_nth:
  assumes "table_later move rows rows'" "k < length rows"
  shows "k < length rows' \<and> move\<^sup>*\<^sup>* (rows ! k) (rows' ! k)"
  using assms by (auto simp: table_later_def list_all2_conv_all_nth nth_append)

lemma table_later_mem:
  assumes "table_later move rows rows'" "r \<in> set rows"
  shows "\<exists>r'\<in>set rows'. move\<^sup>*\<^sup>* r r'"
  using assms table_later_nth by (metis in_set_conv_nth)

section \<open>Systems over a table\<close>

definition table_ok :: "('r \<Rightarrow> string) \<Rightarrow> ('r \<Rightarrow> bool) \<Rightarrow> 'r list \<Rightarrow> bool" where
  "table_ok rid good rows \<longleftrightarrow> distinct (map rid rows) \<and> (\<forall>r\<in>set rows. good r)"

locale table_system =
  fixes rid :: "'r \<Rightarrow> string" and tenant :: "'r \<Rightarrow> string" and fresh :: "'r \<Rightarrow> bool" and move :: "'r \<Rightarrow> 'r \<Rightarrow> bool"
    and good :: "'r \<Rightarrow> bool"
    and step :: "'op \<Rightarrow> 's \<Rightarrow> 's" and ok :: "'op \<Rightarrow> 's \<Rightarrow> bool" and rows_of :: "'s \<Rightarrow> 'r list" and op_tenant :: "'op \<Rightarrow> string"
  assumes move_keeps: "move r r' \<Longrightarrow> rid r' = rid r \<and> tenant r' = tenant r"
    and fresh_good: "fresh r \<Longrightarrow> good r"
    and move_good: "move r r' \<Longrightarrow> good r \<Longrightarrow> good r'"
    and step_table: "distinct (map rid (rows_of s)) \<Longrightarrow> ok oper s \<Longrightarrow>
      table_move rid tenant fresh move (op_tenant oper) (rows_of s) (rows_of (step oper s))"
begin

lemma moved_ids: "list_all2 (\<lambda>r r'. r' = r \<or> tenant r = t \<and> move r r') rows moved \<Longrightarrow> map rid moved = map rid rows"
  by (induction rule: list_all2_induct) (auto dest: move_keeps)

lemma table_move_ids:
  assumes "table_move rid tenant fresh move t rows rows'" "distinct (map rid rows)"
  shows "distinct (map rid rows')"
  using assms(1)
proof (rule table_moveE)
  fix moved new
  assume a: "rows' = moved @ new" "distinct (map rid new)" "rid ` set new \<inter> rid ` set rows = {}"
    "list_all2 (\<lambda>r r'. r' = r \<or> tenant r = t \<and> move r r') rows moved"
  have "rid ` set moved = rid ` set rows" using arg_cong[OF moved_ids[OF a(4)], of set] by simp
  then show ?thesis using a(1-3) assms(2) moved_ids[OF a(4)] by (simp add: inf_commute)
qed

lemma table_move_good:
  assumes "table_move rid tenant fresh move t rows rows'" "\<forall>r\<in>set rows. good r"
  shows "\<forall>r\<in>set rows'. good r"
  using assms(1)
proof (rule table_moveE)
  fix moved new
  assume a: "rows' = moved @ new" "\<forall>r\<in>set new. tenant r = t \<and> fresh r"
    "list_all2 (\<lambda>r r'. r' = r \<or> tenant r = t \<and> move r r') rows moved"
  have "\<forall>r\<in>set moved. good r" using a(3) assms(2) move_good by (induction rule: list_all2_induct) auto
  then show ?thesis using a(1,2) fresh_good by auto
qed

lemma table_move_later: "table_move rid tenant fresh move t rows rows' \<Longrightarrow> table_later move rows rows'"
  unfolding table_move_def table_later_def by (fastforce elim: list_all2_mono)

lemma table_move_foreign:
  assumes "table_move rid tenant fresh move t rows rows'" "t \<noteq> u"
  shows "filter (\<lambda>r. tenant r = u) rows' = filter (\<lambda>r. tenant r = u) rows"
  using assms(1)
proof (rule table_moveE)
  fix moved new
  assume a: "rows' = moved @ new" "\<forall>r\<in>set new. tenant r = t \<and> fresh r"
    "list_all2 (\<lambda>r r'. r' = r \<or> tenant r = t \<and> move r r') rows moved"
  have "filter (\<lambda>r. tenant r = u) moved = filter (\<lambda>r. tenant r = u) rows"
    using a(3) assms(2) by (induction rule: list_all2_induct) (auto dest!: move_keeps)
  moreover have "filter (\<lambda>r. tenant r = u) new = []" using a(2) assms(2) by (auto simp: filter_empty_conv)
  ultimately show ?thesis by (simp add: a(1))
qed

lemma table_inv_step: "table_ok rid good (rows_of s) \<Longrightarrow> ok oper s \<Longrightarrow> table_ok rid good (rows_of (step oper s))"
  unfolding table_ok_def using table_move_ids[OF step_table] table_move_good[OF step_table] by blast

lemma table_step_foreign:
  "table_ok rid good (rows_of s) \<Longrightarrow> ok oper s \<Longrightarrow> op_tenant oper \<noteq> u \<Longrightarrow>
     filter (\<lambda>r. tenant r = u) (rows_of (step oper s)) = filter (\<lambda>r. tenant r = u) (rows_of s)"
  using table_move_foreign[OF step_table] by (simp add: table_ok_def)

lemma table_step_later:
  "table_ok rid good (rows_of s) \<Longrightarrow> ok oper s \<Longrightarrow> table_later move (rows_of s) (rows_of (step oper s))"
  using table_move_later[OF step_table] by (simp add: table_ok_def)

end

sublocale table_system \<subseteq> scoped: tenant_scoped step ok "\<lambda>s. table_ok rid good (rows_of s)" tenant rows_of op_tenant
  by unfold_locales (rule table_inv_step table_step_foreign; assumption)+

sublocale table_system \<subseteq> history: history_system step ok "\<lambda>s. table_ok rid good (rows_of s)"
    "\<lambda>s s'. table_later move (rows_of s) (rows_of s')"
  by unfold_locales (rule table_later_refl table_step_later table_later_trans; assumption?)+

text \<open>What an interpretation offers: every run keeps the rows good, ids distinct, other tenants'
  rows as they are, and moves each row along.\<close>

context table_system
begin

lemma run_good: "table_ok rid good (rows_of s) \<Longrightarrow> runs_ok step ok cs s \<Longrightarrow> r \<in> set (rows_of (fold step cs s)) \<Longrightarrow> good r"
  using scoped.run_inv[of s cs] by (simp add: table_ok_def)

lemma run_row_later:
  "table_ok rid good (rows_of s) \<Longrightarrow> runs_ok step ok cs s \<Longrightarrow> r \<in> set (rows_of s) \<Longrightarrow> \<exists>r'\<in>set (rows_of (fold step cs s)). move\<^sup>*\<^sup>* r r'"
  using table_later_mem[OF history.run_rel] .

lemma moves_keep: "move\<^sup>*\<^sup>* r r' \<Longrightarrow> rid r' = rid r \<and> tenant r' = tenant r"
  by (induction rule: rtranclp_induct) (auto dest: move_keeps)

end

end
