(* ===== verification/Metrics_Props.thy ===== *)
theory Metrics_Props
  imports Metrics Audit_Props Lifecycle "HOL-Library.Sublist"
begin

text \<open>
  The life cycle of metric events. Every operation of the service is shown to do one of three
  things to the table: nothing, append fresh drafts, or move one event along \<open>event_step\<close>. What
  holds of every reachable table follows from that relation.
\<close>

section \<open>The life cycle\<close>

inductive event_step :: "'v metric_event \<Rightarrow> 'v metric_event \<Rightarrow> bool" where
  edit: "me_status e \<in> {MDraft, MSubmitted} \<Longrightarrow> event_step e (patch_event p e)"
| submit: "me_status e = MDraft \<Longrightarrow>
    event_step e (e \<lparr> me_status := MSubmitted, me_submitted_at := now, me_submitted_by := actor \<rparr>)"
| approve: "me_status e = MSubmitted \<Longrightarrow> me_submitted_by e \<noteq> actor \<Longrightarrow>
    event_step e (e \<lparr> me_status := MApproved, me_approved_at := Some now, me_approved_by := Some actor \<rparr>)"
| reject: "me_status e = MSubmitted \<Longrightarrow> event_step e (e \<lparr> me_status := MDraft, me_comment := Some note \<rparr>)"
| lock: "me_status e = MApproved \<Longrightarrow> event_step e (e \<lparr> me_status := MLocked \<rparr>)"

inductive_cases event_step_cases: "event_step e e'"

definition fresh_draft :: "'v metric_event \<Rightarrow> bool" where
  "fresh_draft e \<longleftrightarrow> me_status e = MDraft \<and> me_approved_by e = None"

abbreviation event_table :: "string \<Rightarrow> 'v metric_event list \<Rightarrow> 'v metric_event list \<Rightarrow> bool" where
  "event_table \<equiv> table_move me_id me_tenant fresh_draft event_step"

lemma event_step_keeps:
  "event_step e e' \<Longrightarrow> me_id e' = me_id e \<and> me_tenant e' = me_tenant e \<and> me_key e' = me_key e"
  by (auto simp: patch_event_def elim!: event_step_cases)

section \<open>The operations\<close>

lemma find_event_Inr: "find_event t i db = Inr e \<Longrightarrow> e \<in> set (m_events db) \<and> me_id e = i \<and> me_tenant e = t"
  by (auto simp: find_event_def split: option.splits dest: find_first_Some)

lemma change_event_table:
  assumes "distinct (map me_id (m_events db))" "find_event t i db = Inr e" "event_step e (f e)"
  shows "event_table t (m_events db) (m_events (snd (change_event E t i actor verb f mt e db)))"
  using table_move_update[OF assms(1), of e i me_tenant t event_step f fresh_draft] find_event_Inr[OF assms(2)] assms(3)
  by (auto simp: change_event_def)

lemma create_event_table:
  "ev_ids E 1 \<notin> set (map me_id (m_events db)) \<Longrightarrow> event_table t (m_events db) (m_events (snd (create_event E t dto actor db)))"
  by (auto simp: create_event_def new_event_def fresh_draft_def Let_def table_move_refl
      intro!: table_move_append split: option.splits)

lemma subseq_subset: "subseq xs ys \<Longrightarrow> set xs \<subseteq> set ys"
  by (induction rule: list_emb.induct) auto

lemma subseq_distinct: "subseq xs ys \<Longrightarrow> distinct ys \<Longrightarrow> distinct xs"
  by (induction rule: list_emb.induct) (auto dest: subseq_subset)

text \<open>The import appends drafts with the identifiers of its rows.\<close>

lemma import_event_fresh:
  "import_event pd pv E k t actor d = Inr e \<Longrightarrow> (me_tenant e = t \<and> fresh_draft e \<and> me_extraction e = None) \<and> me_id e = ev_ids E k"
  by (auto simp: import_event_def fresh_draft_def split: option.splits)

lemma sheet_step_grows:
  "\<exists>new. ss_events (sheet_step pd pv aborts E t actor ids h row s) = ss_events s @ new \<and>
     (\<forall>e\<in>set new. me_tenant e = t \<and> fresh_draft e \<and> me_extraction e = None) \<and> (new = [] \<or> map me_id new = [ev_ids E (fst row)])"
  using import_event_fresh[of pd pv E "fst row" t actor "row_data h (snd row)"]
  by (auto simp: sheet_step_def sheet_error_def Let_def split: sum.splits)

lemma sheet_fold_grows:
  "\<exists>new. ss_events (fold (sheet_step pd pv aborts E t actor ids h) rows s) = ss_events s @ new \<and>
     (\<forall>e\<in>set new. me_tenant e = t \<and> fresh_draft e \<and> me_extraction e = None) \<and> subseq (map me_id new) (map (\<lambda>r. ev_ids E (fst r)) rows)"
proof (induction rows arbitrary: s)
  case (Cons r rows)
  let ?s = "sheet_step pd pv aborts E t actor ids h r s"
  obtain a where a: "ss_events ?s = ss_events s @ a" "\<forall>e\<in>set a. me_tenant e = t \<and> fresh_draft e \<and> me_extraction e = None"
    "a = [] \<or> map me_id a = [ev_ids E (fst r)]"
    using sheet_step_grows[of pd pv aborts E t actor ids h r s] by metis
  obtain b where b: "ss_events (fold (sheet_step pd pv aborts E t actor ids h) rows ?s) = ss_events ?s @ b"
    "\<forall>e\<in>set b. me_tenant e = t \<and> fresh_draft e \<and> me_extraction e = None" "subseq (map me_id b) (map (\<lambda>r. ev_ids E (fst r)) rows)" using Cons by blast
  have "subseq (map me_id (a @ b)) (map (\<lambda>r. ev_ids E (fst r)) (r # rows))" using a(3) b(3) by auto
  then show ?case using a b by (intro exI[of _ "a @ b"]) auto
qed simp

lemma import_sheet_grows:
  "\<exists>new. m_events (snd (import_sheet pd pv aborts E t sheet actor db)) = m_events db @ new \<and>
     (\<forall>e\<in>set new. me_tenant e = t \<and> fresh_draft e \<and> me_extraction e = None) \<and>
     subseq (map me_id new) (case sheet of None \<Rightarrow> [] | Some (h, rows) \<Rightarrow> map (\<lambda>r. ev_ids E (fst r)) rows)"
proof (cases sheet)
  case (Some hr)
  obtain h rows where hr: "hr = (h, rows)" by (cases hr)
  let ?h = "map (\<lambda>(c, h). (c, js_trim h)) h"
  let ?s0 = "\<lparr> ss_events = m_events db, ss_created = 0, ss_errors = [], ss_failed = False \<rparr>"
  show ?thesis
    using sheet_fold_grows[of pd pv aborts E t actor "map fst (m_nodes db)" ?h rows ?s0]
    by (auto simp: import_sheet_def Some hr Let_def split: list.splits)
qed (auto simp: import_sheet_def)

lemma import_sheet_table:
  assumes "metric_ok (MoImport pd pv aborts E t sheet actor) db"
  shows "event_table t (m_events db) (m_events (snd (import_sheet pd pv aborts E t sheet actor db)))"
proof -
  define ids where "ids = (case sheet of None \<Rightarrow> [] | Some (h, rows) \<Rightarrow> map (\<lambda>r. ev_ids E (fst r)) rows)"
  obtain new where n: "m_events (snd (import_sheet pd pv aborts E t sheet actor db)) = m_events db @ new"
    "\<forall>e\<in>set new. me_tenant e = t \<and> fresh_draft e \<and> me_extraction e = None" "subseq (map me_id new) ids"
    using import_sheet_grows[of pd pv aborts E t sheet actor db] unfolding ids_def by blast
  have "distinct ids" "set ids \<inter> set (map me_id (m_events db)) = {}"
    using assms by (auto simp: ids_def split: option.splits)
  then have "distinct (map me_id new)" "me_id ` set new \<inter> me_id ` set (m_events db) = {}"
    using subseq_distinct[OF n(3)] subseq_subset[OF n(3)] by auto
  then show ?thesis unfolding n(1) using n(2) by (intro table_moveI) (simp_all add: list_all2_same)
qed

lemma metric_step_table:
  assumes "distinct (map me_id (m_events db))" "metric_ok c db"
  shows "event_table (metric_tenant c) (m_events db) (m_events (metric_step c db))"
proof (cases c)
  case (MoCreate E t dto actor)
  then show ?thesis using create_event_table assms(2) by simp
next
  case (MoImport pd pv aborts E t sheet actor)
  then show ?thesis using import_sheet_table assms(2) by simp
qed (auto simp: update_event_def submit_event_def approve_event_def reject_event_def lock_event_def
    split: sum.splits intro!: table_move_refl change_event_table[OF assms(1)] event_step.intros)

section \<open>What holds of every table\<close>

definition signed_off :: "'v metric_event \<Rightarrow> bool" where
  "signed_off e \<longleftrightarrow> (case me_status e of
     MApproved \<Rightarrow> (case me_approved_by e of None \<Rightarrow> False | Some a \<Rightarrow> a \<noteq> me_submitted_by e)
   | MLocked \<Rightarrow> (case me_approved_by e of None \<Rightarrow> False | Some a \<Rightarrow> a \<noteq> me_submitted_by e)
   | MDraft \<Rightarrow> me_approved_by e = None
   | MSubmitted \<Rightarrow> me_approved_by e = None
   | _ \<Rightarrow> False)"

definition metric_inv :: "'v mdb \<Rightarrow> bool" where
  "metric_inv db \<longleftrightarrow> table_ok me_id signed_off (m_events db)"

lemma event_step_signed: "event_step e e' \<Longrightarrow> signed_off e \<Longrightarrow> signed_off e'"
  by (auto simp: signed_off_def patch_event_def elim!: event_step_cases split: option.splits metric_status.splits)

interpretation metrics: table_system me_id me_tenant fresh_draft event_step signed_off metric_step metric_ok m_events metric_tenant
proof
  show "me_id e' = me_id e \<and> me_tenant e' = me_tenant e" if "event_step e e'" for e e' :: "'v metric_event"
    using event_step_keeps[OF that] by simp
  show "signed_off e" if "fresh_draft e" for e :: "'v metric_event"
    using that by (simp add: fresh_draft_def signed_off_def)
qed (fact event_step_signed metric_step_table)+

lemma metric_invD: "metric_inv db \<Longrightarrow> distinct (map me_id (m_events db))"
  by (simp add: metric_inv_def table_ok_def)

lemma update_where_ids: "(\<And>x. me_id (f x) = me_id x) \<Longrightarrow> map me_id (update_where P f es) = map me_id es"
  by (rule update_where_keeps) simp

section \<open>Properties\<close>

text \<open>What a later form of an event keeps.\<close>

lemma event_step_final:
  "event_step e e' \<Longrightarrow> me_status e \<noteq> MLocked \<and> (me_status e = MApproved \<longrightarrow> e' = e \<lparr> me_status := MLocked \<rparr>)"
  by (erule event_step_cases) auto

lemma locked_stays: "event_step\<^sup>*\<^sup>* e e' \<Longrightarrow> me_status e = MLocked \<Longrightarrow> e' = e"
  by (induction rule: rtranclp_induct) (auto dest: event_step_final)

lemma approved_stays:
  "event_step\<^sup>*\<^sup>* e e' \<Longrightarrow> me_status e = MApproved \<Longrightarrow> e' = e \<or> e' = e \<lparr> me_status := MLocked \<rparr>"
proof (induction rule: rtranclp_induct)
  case (step y z)
  have "y = e \<or> me_status y = MLocked" using step(3)[OF step(4)] by (rule disj_forward) simp_all
  then show ?case
  proof
    assume "y = e"
    then have "event_step e z" using step(2) by simp
    from event_step_final[OF this] show ?thesis using step(4) by simp
  next
    assume "me_status y = MLocked"
    then show ?thesis using event_step_final[OF step(2)] by simp
  qed
qed simp

text \<open>C2: The operations of the metrics service implement the life cycle of an event: one call
  appends drafts (with new identifiers) of the caller's tenant at the end of the table and moves events of that tenant
  along \<open>event_step\<close> (edit, submit, approve, reject, lock), and does nothing else.\<close>

theorem metric_refines_lifecycle:
  assumes "metric_inv db" "metric_ok c db"
  shows "\<exists>moved new. m_events (metric_step c db) = moved @ new \<and> (\<forall>e\<in>set new. me_tenant e = metric_tenant c \<and> fresh_draft e) \<and>
    list_all2 (\<lambda>e e'. e' = e \<or> (me_tenant e = metric_tenant c \<and> event_step e e')) (m_events db) moved"
  using metric_step_table[OF metric_invD[OF assms(1)] assms(2)] by (auto simp: table_move_def)

text \<open>C1: Segregation of duties: after any run of calls from a good table, an approved or locked
  event carries an approver, who is not the person recorded as its submitter.\<close>

theorem metric_separation_of_duties:
  assumes "metric_inv db" "runs_ok metric_step metric_ok cs db"
    "e \<in> set (m_events (fold metric_step cs db))" "me_status e \<in> {MApproved, MLocked}"
  shows "\<exists>a. me_approved_by e = Some a \<and> a \<noteq> me_submitted_by e"
  using metrics.run_good[OF assms(1)[unfolded metric_inv_def] assms(2,3)] assms(4)
  by (auto simp: signed_off_def split: option.splits)

text \<open>An approved value is final: after any run of calls a locked event is still in the table
  as it was, and an approved event is as it was, up to its status becoming LOCKED.\<close>

theorem metric_approved_final:
  assumes "metric_inv db" "runs_ok metric_step metric_ok cs db" "e \<in> set (m_events db)"
    "me_status e \<in> {MApproved, MLocked}"
  shows "e \<in> set (m_events (fold metric_step cs db)) \<or>
    (me_status e = MApproved \<and> e \<lparr> me_status := MLocked \<rparr> \<in> set (m_events (fold metric_step cs db)))"
  using metrics.run_row_later[OF assms(1)[unfolded metric_inv_def] assms(2,3)] assms(4)
    locked_stays approved_stays by auto

text \<open>C38: Tenants stay apart: a run of calls for other tenants leaves a tenant's metric events,
  and so every listing of them, as they are.\<close>

theorem metrics_tenants_apart:
  assumes "metric_inv db" "runs_ok metric_step metric_ok cs db" "t \<notin> metric_tenant ` set cs"
  shows "query_events t q (fold metric_step cs db) = query_events t q db"
proof -
  have "query_events t q d = take (keep (mq_take q) 200) (sort_key (\<lambda>e. - me_end e)
      (filter (\<lambda>e. opt_eq (mq_key q) (me_key e) \<and> in_nonempty (mq_scopes q) (me_scope e) \<and>
       (case mq_from q of None \<Rightarrow> True | Some d \<Rightarrow> d \<le> me_start e) \<and>
       (case mq_to q of None \<Rightarrow> True | Some d \<Rightarrow> me_end e \<le> d) \<and>
       in_nonempty (mq_status q) (me_status e)) (filter (\<lambda>e. me_tenant e = t) (m_events d))))" for d
    by (simp only: query_events_def filter_filter)
  note q = this
  show ?thesis unfolding q metrics.scoped.run_foreign[OF assms(1)[unfolded metric_inv_def] assms(2,3)] ..
qed

text \<open>Creating an event succeeds exactly when the scope node belongs to the tenant, the metric
  is registered with a matching or allowed unit, and the period does not end before it starts;
  the result is then a draft of the tenant submitted by the caller, appended to the table.\<close>

theorem create_event_iff:
  "fst (create_event E t dto actor db) = Inr e \<longleftrightarrow>
     e = new_event E t dto actor \<and> (md_scope dto, t) \<in> set (m_nodes db) \<and> md_start dto \<le> md_end dto \<and>
     m_events (snd (create_event E t dto actor db)) = m_events db @ [e] \<and>
     (\<exists>c. find_first (\<lambda>c. cm_key c = md_key dto) (m_registry db) = Some c \<and>
        (cm_unit c = [] \<or> cm_unit c = md_unit dto \<or> md_unit dto \<in> set (cm_allowed c)))"
  by (auto simp: create_event_def owns_node_def unit_rejected_def Let_def split: option.splits)

text \<open>The approver may have written the value: after an edit of a submitted event by somebody
  other than its submitter, the same person's approval succeeds, with the edited value and
  the name of the first submitter.\<close>

theorem editor_may_approve:
  assumes "metric_inv db" "find_event t i db = Inr e" "me_status e = MSubmitted" "me_submitted_by e \<noteq> editor"
    "mt_scope p = None"
  shows "fst (approve_event E t i editor (snd (update_event E' t i p editor db))) =
    Inr ((patch_event p e) \<lparr> me_status := MApproved, me_approved_at := Some (ev_now E), me_approved_by := Some editor \<rparr>)"
proof -
  let ?db = "snd (update_event E' t i p editor db)"
  note e = find_event_Inr[OF assms(2)]
  have ev: "m_events ?db = update_where (\<lambda>x. me_id x = i) (patch_event p) (m_events db)"
    using assms(2,3,5) by (simp add: update_event_def change_event_def)
  have "distinct (map me_id (m_events ?db))" "patch_event p e \<in> set (m_events ?db)"
    using assms(1) e by (auto simp: ev metric_inv_def table_ok_def patch_event_def set_update_where update_where_ids)
  moreover have "me_id (patch_event p e) = i" "me_tenant (patch_event p e) = t" using e by (simp_all add: patch_event_def)
  ultimately have "find_event t i ?db = Inr (patch_event p e)"
    using find_first_unique[of me_id "m_events ?db" "patch_event p e" "\<lambda>e. me_id e = i \<and> me_tenant e = t"]
    by (simp add: find_event_def)
  then show ?thesis using assms(3,4) by (simp add: approve_event_def change_event_def patch_event_def)
qed

text \<open>A spreadsheet row is stored without the checks of creation: when its date and number
  cells parse and its scope node exists in any tenant, the row is inserted, whatever the
  registry says of its metric and unit and whoever owns the node.\<close>

theorem import_sheet_unchecked:
  assumes "set required_columns \<subseteq> set (map (\<lambda>(n, h). js_trim h) headers)"
    "row_data (map (\<lambda>(n, h). (n, js_trim h)) headers) cells \<noteq> []"
    "import_event pd pv E k t actor (row_data (map (\<lambda>(n, h). (n, js_trim h)) headers) cells) = Inr e"
    "me_scope e \<in> set (map fst (m_nodes db))"
  shows "fst (import_sheet pd pv aborts E t (Some (headers, [(k, cells)])) actor db) = Inr (1, []) \<and>
    m_events (snd (import_sheet pd pv aborts E t (Some (headers, [(k, cells)])) actor db)) = m_events db @ [e]"
proof -
  have "filter (\<lambda>c. c \<notin> set (map snd (map (\<lambda>(n, h). (n, js_trim h)) headers))) required_columns = []"
    using assms(1) by (force simp: filter_empty_conv)
  then show ?thesis using assms(2-) by (simp add: import_sheet_def sheet_step_def Let_def del: map_map set_map)
qed

section \<open>Witnesses\<close>

definition sample_metric_env :: "string \<Rightarrow> env" where
  "sample_metric_env x = \<lparr> ev_now = 0, ev_ids = (\<lambda>k. x @ show_nat k), ev_audit_ok = True \<rparr>"

definition sample_registry :: "canonical_metric list" where
  "sample_registry = [\<lparr> cm_key = ''energy.total'', cm_category = ''ENV'', cm_unit = ''GJ'', cm_allowed = [''MWh''], cm_active = True \<rparr>]"

definition sample_metric_dto :: "nat metric_dto" where
  "sample_metric_dto = \<lparr> md_key = ''energy.total'', md_scope = ''n1'', md_start = 0, md_end = 1, md_value = 5,
     md_unit = ''GJ'', md_source = None, md_extraction = None, md_notes = None, md_meta = None \<rparr>"

definition sample_event :: "metric_status \<Rightarrow> string option \<Rightarrow> nat metric_event" where
  "sample_event st appr = (new_event (sample_metric_env ''e'') ''t'' sample_metric_dto ''u'')
     \<lparr> me_id := ''e'', me_status := st, me_approved_by := appr \<rparr>"

definition sample_mdb :: "nat metric_event list \<Rightarrow> nat mdb" where
  "sample_mdb es = \<lparr> m_nodes = [(''n1'', ''t''), (''n2'', ''v'')], m_registry = sample_registry,
     m_mappings = [], m_events = es, m_audit = [] \<rparr>"

lemmas sample_metric_simps = sample_metric_env_def sample_metric_dto_def sample_event_def sample_mdb_def
  new_event_def metric_inv_def table_ok_def signed_off_def

theorem metric_refines_lifecycle_witness:
  "\<exists>moved new. m_events (metric_step (MoSubmit (sample_metric_env ''a'') ''t'' ''e'' ''u'')
       (sample_mdb [sample_event MDraft None])) = moved @ new \<and> (\<forall>e\<in>set new. me_tenant e = ''t'' \<and> fresh_draft e) \<and>
     list_all2 (\<lambda>e e'. e' = e \<or> (me_tenant e = ''t'' \<and> event_step e e')) [sample_event MDraft None] moved"
  using metric_refines_lifecycle[of "sample_mdb [sample_event MDraft None]" "MoSubmit (sample_metric_env ''a'') ''t'' ''e'' ''u''"]
  by (simp add: sample_metric_simps)

theorem metric_separation_of_duties_witness:
  "\<exists>a. me_approved_by ((sample_event MSubmitted None) \<lparr> me_status := MApproved, me_approved_at := Some 0, me_approved_by := Some ''w'' \<rparr>) = Some a \<and> a \<noteq> ''u''"
  using metric_separation_of_duties[of "sample_mdb [sample_event MSubmitted None]"
      "[MoApprove (sample_metric_env ''a'') ''t'' ''e'' ''w'']"
      "(sample_event MSubmitted None) \<lparr> me_status := MApproved, me_approved_at := Some 0, me_approved_by := Some ''w'' \<rparr>"]
  by (simp add: sample_metric_simps approve_event_def find_event_def change_event_def)

theorem metric_approved_final_witness:
  "sample_event MLocked (Some ''w'') \<in> set (m_events (fold metric_step
     [MoReject (sample_metric_env ''a'') ''t'' ''e'' ''bad'' ''w''] (sample_mdb [sample_event MLocked (Some ''w'')])))"
  using metric_approved_final[of "sample_mdb [sample_event MLocked (Some ''w'')]"
      "[MoReject (sample_metric_env ''a'') ''t'' ''e'' ''bad'' ''w'']" "sample_event MLocked (Some ''w'')"]
  by (simp add: sample_metric_simps)

theorem metrics_tenants_apart_witness:
  "query_events ''t'' \<lparr> mq_key = None, mq_scopes = None, mq_from = None, mq_to = None, mq_status = None, mq_take = None \<rparr>
     (fold metric_step [MoSubmit (sample_metric_env ''a'') ''v'' ''e'' ''u''] (sample_mdb [sample_event MDraft None])) =
   [sample_event MDraft None]"
  by (subst metrics_tenants_apart)
    (simp_all add: sample_metric_simps query_events_def opt_eq_def in_nonempty_def)

theorem editor_may_approve_witness:
  "\<exists>e. fst (approve_event (sample_metric_env ''b'') ''t'' ''e'' ''w'' (snd (update_event (sample_metric_env ''a'') ''t'' ''e''
     \<lparr> mt_value = Some 9, mt_unit = None, mt_scope = None, mt_start = None, mt_end = None, mt_notes = None, mt_meta = None \<rparr>
     ''w'' (sample_mdb [sample_event MSubmitted None])))) = Inr e \<and> me_value e = 9 \<and> me_submitted_by e = ''u''"
  using editor_may_approve[of "sample_mdb [sample_event MSubmitted None]" "''t''" "''e''" "sample_event MSubmitted None" "''w''"
     "\<lparr> mt_value = Some 9, mt_unit = None, mt_scope = None, mt_start = None, mt_end = None, mt_notes = None, mt_meta = None \<rparr>"
     "sample_metric_env ''b''" "sample_metric_env ''a''"]
  by (simp add: sample_metric_simps find_event_def patch_event_def)

theorem import_sheet_unchecked_witness:
  "fst (import_sheet (\<lambda>s. Some 0) (\<lambda>s. Some (7::nat)) True \<lparr> ev_now = 0, ev_ids = (\<lambda>k. ''a2''), ev_audit_ok = True \<rparr> ''t''
     (Some ([(1, ''canonicalKey''), (2, ''scopeNodeId''), (3, ''periodStart''), (4, ''periodEnd''), (5, ''value''), (6, ''unit'')],
       [(2, [(1, ''no.such.metric''), (2, ''n2'')])])) ''u'' (sample_mdb [])) = Inr (1, [])"
proof -
  have "js_trim ''canonicalKey'' = ''canonicalKey''" "js_trim ''scopeNodeId'' = ''scopeNodeId''" "js_trim ''periodStart'' = ''periodStart''"
    "js_trim ''periodEnd'' = ''periodEnd''" "js_trim ''value'' = ''value''" "js_trim ''unit'' = ''unit''"
    by (simp_all add: js_trim_def js_space_def)
  note t = this
  show ?thesis
    by (rule import_sheet_unchecked[where e = "\<lparr> me_id = ''a2'', me_tenant = ''t'', me_scope = ''n2'',
        me_key = ''no.such.metric'', me_start = 0, me_end = 0, me_value = 7, me_unit = ''undefined'', me_dims = ''{}'',
        me_source = StManual, me_extraction = None, me_calc_run = None, me_status = MDraft, me_submitted_by = ''u'',
        me_submitted_at = 0, me_approved_by = None, me_approved_at = None, me_comment = None \<rparr>", THEN conjunct1])
      (simp_all add: t required_columns_def row_data_def import_event_def sample_metric_simps cell_text_def own_get_def)
qed

end
