(* ===== verification/Calc.thy ===== *)
theory Calc
  imports Metrics Cel_Eval Topo_Sort
begin

text \<open>
  Calculation runs: the service (services/api/src/calculations/calculations.service.ts), which
  stores formulas and starts runs, and the worker (calculation.processor.ts), which resolves and
  orders the formulas, sums the approved inputs, evaluates and stores the results.

  Decimals are the type \<open>'d\<close> with the operations \<^typ>\<open>'d decimal_api\<close> of the formula language;
  the decimals the database client returns count as numbers of the evaluator. The queue is the
  list of the jobs ever accepted: BullMQ ignores a job whose id exists already.
\<close>

section \<open>Data\<close>

text \<open>The \<open>formula\<close> column when it is a JSON object; its fields may be missing.\<close>

record formula_json =
  fj_expression :: "string option"
  fj_unit :: "string option"
  fj_inputs :: "string list option"

record framework_mapping =
  fm_id :: string
  fm_framework :: string
  fm_code :: string
  fm_section :: "string option"
  fm_version :: string
  fm_keys :: "string list"
  fm_formula :: "formula_json option"

record calc_formula =
  cf_id :: string
  cf_key :: string
  cf_expression :: string
  cf_unit :: string
  cf_inputs :: "string list"
  cf_version :: string

record 'd emission_factor =
  ef_tenant :: "string option"
  ef_activity :: string
  ef_value :: 'd
  ef_unit :: string

record 'd calc_run =
  cr_id :: string
  cr_tenant :: string
  cr_formula :: string
  cr_output_key :: string
  cr_output_value :: 'd
  cr_output_unit :: string
  cr_input_keys :: "string list"
  cr_factor_keys :: "string list"
  cr_scopes :: "string list"
  cr_start :: int
  cr_end :: int
  cr_at :: int
  cr_by :: string
  cr_duration :: int

record calc_job =
  cj_id :: "string option"
  cj_run :: string
  cj_tenant :: string
  cj_kind :: string
  cj_outputs :: "string list"

datatype 'd calc_snap = SnapMapping framework_mapping | SnapQueued string

record 'd cdb =
  c_nodes :: "(string \<times> string) list"
  c_registry :: "canonical_metric list"
  c_mappings :: "framework_mapping list"
  c_events :: "'d metric_event list"
  c_factors :: "'d emission_factor list"
  c_runs :: "'d calc_run list"
  c_queue :: "calc_job list"
  c_audit :: "'d calc_snap audit_row list"

section \<open>Formulas\<close>

text \<open>Code ascending, then version descending; rows equal in both keep their order.\<close>

definition list_formulas :: "string option \<Rightarrow> 'd cdb \<Rightarrow> framework_mapping list" where
  "list_formulas framework db =
     sort_key fm_code (rev (sort_key fm_version (rev (filter (\<lambda>m.
       case framework of None \<Rightarrow> True | Some f \<Rightarrow> f = [] \<or> fm_framework m = f) (c_mappings db)))))"

record formula_dto =
  fd_key :: string
  fd_name :: string
  fd_expression :: string
  fd_unit :: string
  fd_version :: "string option"
  fd_frameworks :: "string list option"
  fd_inputs :: "string list option"
  fd_description :: "string option"

fun cel_message :: "cel_error \<Rightarrow> string" where
  "cel_message (CelError m) = m"
| "cel_message DecimalError = ''[DecimalError] Invalid argument''"
| "cel_message TypeErr = ''TypeError''"

text \<open>The values of the \<open>Framework\<close> enum in the database schema; the client rejects any other.\<close>

definition schema_frameworks :: "string list" where
  "schema_frameworks =
     [''BRSR'', ''BRSR_CORE'', ''GRI'', ''SASB'', ''TCFD'', ''IFRS_S1'', ''IFRS_S2'', ''CSRD_ESRS'', ''CDP'']"

definition new_mapping :: "env \<Rightarrow> formula_dto \<Rightarrow> framework_mapping" where
  "new_mapping E dto =
     \<lparr> fm_id = ev_ids E 1,
       fm_framework = (case keep (fd_frameworks dto) [] of [] \<Rightarrow> ''BRSR'' | f # _ \<Rightarrow> f),
       fm_code = fd_name dto, fm_section = fd_description dto, fm_version = keep (fd_version dto) ''v1'',
       fm_keys = fd_key dto # keep (fd_inputs dto) [],
       fm_formula = Some \<lparr> fj_expression = Some (fd_expression dto), fj_unit = Some (fd_unit dto),
         fj_inputs = Some (keep (fd_inputs dto) []) \<rparr> \<rparr>"

definition create_formula ::
  "'d decimal_api \<Rightarrow> env \<Rightarrow> string \<Rightarrow> formula_dto \<Rightarrow> string \<Rightarrow> 'd cdb \<Rightarrow> framework_mapping outcome \<times> 'd cdb" where
  "create_formula D E t dto actor db =
     (case validate D (fd_expression dto) of
        Inl e \<Rightarrow> (Inl (BadRequest (''Invalid CEL expression: '' @ cel_message e)), db)
      | Inr _ \<Rightarrow>
          (case find_first (\<lambda>c. cm_key c = fd_key dto) (c_registry db) of
             None \<Rightarrow> (Inl (BadRequest (''Output canonical metric does not exist: '' @ fd_key dto)), db)
           | Some c \<Rightarrow>
               if unit_rejected c (fd_unit dto)
               then (Inl (BadRequest (''Output unit '' @ fd_unit dto @ '' doesn'' @ CHR 0x27 # ''t match canonical unit '' @
                       cm_unit c @ '' for '' @ fd_key dto)), db)
               else (let m = new_mapping E dto in
                 if fm_framework m \<notin> set schema_frameworks
                 then (Inl (PrismaError ''validation''), db)
                 else if \<exists>x\<in>set (c_mappings db). fm_framework x = fm_framework m \<and> fm_code x = fm_code m \<and> fm_version x = fm_version m
                 then (Inl (PrismaError ''P2002''), db)
                 else (Inr m, db \<lparr> c_mappings := c_mappings db @ [m],
                        c_audit := audit_log E (audit_entry t actor ''FrameworkMapping'' (Some (fm_id m)) ''CREATE''
                          None (Some (SnapMapping m)) None) (c_audit db) \<rparr>))))"

section \<open>Starting and reading runs\<close>

record run_dto =
  rd_start :: int
  rd_end :: int
  rd_scopes :: "string list option"
  rd_outputs :: "string list option"
  rd_key :: "string option"

text \<open>Without scope nodes the first fifty nodes of the tenant are taken.\<close>

definition run_scopes :: "string \<Rightarrow> string list option \<Rightarrow> (string \<times> string) list \<Rightarrow> http_error + string list" where
  "run_scopes t scopes nodes =
     (let given_scopes = keep scopes [];
          mine = map fst (filter (\<lambda>n. snd n = t) nodes)
      in if given_scopes = [] then
           (if mine = []
            then Inl (BadRequest ''No entity hierarchy exists. Create at least one entity before running calculations.'')
            else Inr (take 50 mine))
         else if length (filter (\<lambda>i. i \<in> set given_scopes) mine) \<noteq> length given_scopes
         then Inl (BadRequest ''One or more scopeNodeIds do not belong to this tenant'')
         else Inr given_scopes)"

definition first_or :: "'a \<Rightarrow> 'a list \<Rightarrow> 'a" where
  "first_or d xs = (case xs of [] \<Rightarrow> d | x # _ \<Rightarrow> x)"

definition new_run :: "'d decimal_api \<Rightarrow> env \<Rightarrow> string \<Rightarrow> run_dto \<Rightarrow> string list \<Rightarrow> string \<Rightarrow> 'd calc_run" where
  "new_run D E t dto scopes actor =
     \<lparr> cr_id = ev_ids E 1, cr_tenant = t, cr_formula = ''pending'',
       cr_output_key = first_or [] (keep (rd_outputs dto) []), cr_output_value = d_of_int D 0, cr_output_unit = [],
       cr_input_keys = [], cr_factor_keys = [], cr_scopes = scopes, cr_start = rd_start dto, cr_end = rd_end dto,
       cr_at = ev_now E, cr_by = actor, cr_duration = 0 \<rparr>"

definition job_id :: "string \<Rightarrow> string option \<Rightarrow> string option" where
  "job_id t k = (case k of None \<Rightarrow> None
     | Some s \<Rightarrow> if s = [] then None else Some (''calc-'' @ t @ ''-'' @ s))"

definition queue_add :: "calc_job \<Rightarrow> calc_job list \<Rightarrow> calc_job list" where
  "queue_add j q = (if cj_id j \<noteq> None \<and> cj_id j \<in> set (map cj_id q) then q else q @ [j])"

definition start_run ::
  "'d decimal_api \<Rightarrow> env \<Rightarrow> string \<Rightarrow> run_dto \<Rightarrow> string \<Rightarrow> string \<Rightarrow> 'd cdb \<Rightarrow> 'd calc_run outcome \<times> 'd cdb" where
  "start_run D E t dto actor kind db =
     (if rd_start dto > rd_end dto then (Inl (BadRequest ''periodStart must be <= periodEnd''), db)
      else case run_scopes t (rd_scopes dto) (c_nodes db) of
        Inl e \<Rightarrow> (Inl e, db)
      | Inr scopes \<Rightarrow>
          (let r = new_run D E t dto scopes actor
           in (Inr r, db \<lparr> c_runs := c_runs db @ [r],
                c_queue := queue_add \<lparr> cj_id = job_id t (rd_key dto), cj_run = cr_id r, cj_tenant = t,
                  cj_kind = kind, cj_outputs = keep (rd_outputs dto) [] \<rparr> (c_queue db),
                c_audit := audit_log E (audit_entry t actor ''CalcRun'' (Some (cr_id r)) ''CREATE'' None None
                  (Some (SnapQueued kind))) (c_audit db) \<rparr>)))"

definition list_runs :: "string \<Rightarrow> int \<Rightarrow> 'd cdb \<Rightarrow> 'd calc_run list" where
  "list_runs t n db =
     take (nat (clamp_take 200 n)) (sort_key (\<lambda>r. - cr_at r) (filter (\<lambda>r. cr_tenant r = t) (c_runs db)))"

text \<open>A run with its outputs; the graph has a node per output and an edge per input key.\<close>

record 'd run_view =
  rv_run :: "'d calc_run"
  rv_outputs :: "'d metric_event list"
  rv_nodes :: "(string \<times> string \<times> metric_status) list"
  rv_edges :: "(string \<times> string) list"

definition get_run :: "string \<Rightarrow> string \<Rightarrow> 'd cdb \<Rightarrow> 'd run_view outcome" where
  "get_run t i db =
     (case find_first (\<lambda>r. cr_id r = i \<and> cr_tenant r = t) (c_runs db) of
        None \<Rightarrow> Inl (NotFound ''Run not found'')
      | Some r \<Rightarrow>
          (let emitted = filter (\<lambda>e. me_tenant e = t \<and> me_calc_run e = Some i) (c_events db)
           in Inr \<lparr> rv_run = r, rv_outputs = emitted,
                rv_nodes = map (\<lambda>e. (me_id e, me_key e, me_status e)) emitted,
                rv_edges = map (\<lambda>k. (k, cr_output_key r)) (cr_input_keys r) \<rparr>))"

definition run_scope1 :: "'d decimal_api \<Rightarrow> env \<Rightarrow> string \<Rightarrow> run_dto \<Rightarrow> string \<Rightarrow> 'd cdb \<Rightarrow> 'd calc_run outcome \<times> 'd cdb" where
  "run_scope1 D E t w actor =
     start_run D E t (w \<lparr> rd_outputs := Some [''ghg_scope1_total'', ''ghg_scope1_stationary'', ''ghg_scope1_mobile'',
       ''ghg_scope1_process'', ''ghg_scope1_fugitive''] \<rparr>) actor ''SCOPE1''"

definition run_scope2 :: "'d decimal_api \<Rightarrow> env \<Rightarrow> string \<Rightarrow> run_dto \<Rightarrow> string \<Rightarrow> 'd cdb \<Rightarrow> 'd calc_run outcome \<times> 'd cdb" where
  "run_scope2 D E t w actor =
     start_run D E t (w \<lparr> rd_outputs := Some [''ghg_scope2_location'', ''ghg_scope2_market''] \<rparr>) actor ''SCOPE2''"

definition run_scope3 :: "'d decimal_api \<Rightarrow> env \<Rightarrow> string \<Rightarrow> run_dto \<Rightarrow> int \<Rightarrow> string \<Rightarrow> 'd cdb \<Rightarrow> 'd calc_run outcome \<times> 'd cdb" where
  "run_scope3 D E t w category actor db =
     (if category < 1 \<or> 15 < category then (Inl (BadRequest ''category must be an integer in 1..15''), db)
      else start_run D E t (w \<lparr> rd_outputs := Some [''ghg_scope3_cat'' @ show_int category] \<rparr>) actor
             (''SCOPE3_C'' @ show_int category) db)"

section \<open>The worker\<close>

text \<open>1. The formulas that the mapping rows carry.\<close>

definition mapping_formula :: "framework_mapping \<Rightarrow> calc_formula option" where
  "mapping_formula m =
     (case fm_formula m of
        None \<Rightarrow> None
      | Some j \<Rightarrow>
          (let f = \<lparr> cf_id = fm_id m, cf_key = first_or [] (fm_keys m), cf_expression = keep (fj_expression j) [],
                     cf_unit = keep (fj_unit j) [], cf_inputs = keep (fj_inputs j) [], cf_version = fm_version m \<rparr>
           in if cf_expression f = [] \<or> cf_key f = [] then None else Some f))"

definition stored_formulas :: "string list \<Rightarrow> framework_mapping list \<Rightarrow> calc_formula list" where
  "stored_formulas outputs ms =
     List.map_filter mapping_formula (if outputs = [] then ms
       else filter (\<lambda>m. \<exists>k\<in>set (fm_keys m). k \<in> set outputs) ms)"

definition builtin_scope2 :: calc_formula where
  "builtin_scope2 =
     \<lparr> cf_id = ''builtin:scope2_location_from_electricity'', cf_key = ''ghg_scope2_location'',
       cf_expression = ''purchased_electricity_kwh * 0.000716'', cf_unit = ''tCO2e'',
       cf_inputs = [''purchased_electricity_kwh''], cf_version = ''builtin-v1'' \<rparr>"

definition resolve_formulas :: "string list \<Rightarrow> framework_mapping list \<Rightarrow> calc_formula list" where
  "resolve_formulas outputs ms =
     (let fs = stored_formulas outputs ms
      in if (''ghg_scope2_location'' \<in> set outputs \<or> outputs = []) \<and> ''ghg_scope2_location'' \<notin> set (map cf_key fs)
         then fs @ [builtin_scope2] else fs)"

text \<open>2. The order of evaluation: the depth-first sort of \<open>Topo_Sort\<close>.\<close>

definition topo_sort_formulas :: "calc_formula list \<Rightarrow> string + calc_formula list" where
  "topo_sort_formulas fs = (case topo_order cf_key cf_inputs fs of
     Inl k \<Rightarrow> Inl (''Formula cycle at '' @ k) | Inr r \<Rightarrow> Inr r)"

text \<open>3. The inputs: approved or locked events of the run's tenant, nodes and period.\<close>

definition run_input :: "'d calc_run \<Rightarrow> string list \<Rightarrow> 'd metric_event \<Rightarrow> bool" where
  "run_input r keys e =
     (me_tenant e = cr_tenant r \<and> (keys = [] \<or> me_key e \<in> set keys) \<and> me_scope e \<in> set (cr_scopes r) \<and>
      cr_start r \<le> me_start e \<and> me_end e \<le> cr_end r \<and> (me_status e = MApproved \<or> me_status e = MLocked))"

definition unit_mismatch :: "string \<Rightarrow> string option \<Rightarrow> string \<Rightarrow> string" where
  "unit_mismatch k u v = ''Unit mismatch for '' @ k @ '': '' @ unit_text u @ '' vs '' @ v @ ''. Normalise at ingest.''"

text \<open>
  The sums per key. A key that \<open>Object.prototype\<close> has reads as a host object without unit, which
  no unit equals. (A formula writing the key \<open>__proto__\<close>, which would replace the prototype, is
  outside the model.)
\<close>

fun sum_inputs :: "'d decimal_api \<Rightarrow> 'd metric_event list \<Rightarrow> 'd cel_value js_object \<Rightarrow> string + 'd cel_value js_object" where
  "sum_inputs D [] ctx = Inr ctx"
| "sum_inputs D (e # es) ctx =
     (case own_get ctx (me_key e) of
        Some v \<Rightarrow>
          if cv_unit v \<noteq> Some (me_unit e) then Inl (unit_mismatch (me_key e) (cv_unit v) (me_unit e))
          else sum_inputs D es (upsert (me_key e)
            (v \<lparr> cv_value := (case cv_value v of VNum d \<Rightarrow> VNum (d_plus D d (me_value e)) | p \<Rightarrow> p) \<rparr>) ctx)
      | None \<Rightarrow>
          if me_key e \<in> set object_prototype then Inl (unit_mismatch (me_key e) None (me_unit e))
          else sum_inputs D es (upsert (me_key e)
            \<lparr> cv_value = VNum (d_plus D (d_of_int D 0) (me_value e)), cv_unit = Some (me_unit e) \<rparr> ctx))"

text \<open>4. The factors: the global ones and the tenant's; of several for an activity the last.\<close>

definition factor_context :: "string \<Rightarrow> 'd emission_factor list \<Rightarrow> 'd cel_value js_object" where
  "factor_context t fs =
     fold (\<lambda>f ctx. upsert (ef_activity f) \<lparr> cv_value = VNum (ef_value f), cv_unit = Some (ef_unit f) \<rparr> ctx)
       (filter (\<lambda>f. ef_tenant f = None \<or> ef_tenant f = Some t) fs) []"

text \<open>5. Days of the period: rounded, at least one.\<close>

definition period_days :: "int \<Rightarrow> int \<Rightarrow> int" where
  "period_days a b = max 1 ((2 * (b - a) + ms_day) div (2 * ms_day))"

record 'd calc_state =
  cs_ctx :: "'d cel_value js_object"
  cs_events :: "'d metric_event list"
  cs_used :: "string list"
  cs_factors :: "string list"
  cs_last :: "(calc_formula \<times> 'd) option"

definition add_new :: "'a \<Rightarrow> 'a list \<Rightarrow> 'a list" where
  "add_new x xs = (if x \<in> set xs then xs else xs @ [x])"

definition note_input :: "'d cel_value js_object \<Rightarrow> 'd cel_value js_object \<Rightarrow> string \<Rightarrow> string list \<times> string list \<Rightarrow> string list \<times> string list" where
  "note_input ctx factors k used =
     (if js_in k ctx then (add_new k (fst used), snd used)
      else if js_in k factors then (fst used, add_new k (snd used)) else used)"

definition output_event :: "env \<Rightarrow> nat \<Rightarrow> 'd calc_run \<Rightarrow> string \<Rightarrow> calc_formula \<Rightarrow> 'd \<Rightarrow> 'd metric_event" where
  "output_event E k r scope f v =
     \<lparr> me_id = ev_ids E k, me_tenant = cr_tenant r, me_scope = scope, me_key = cf_key f,
       me_start = cr_start r, me_end = cr_end r, me_value = v, me_unit = cf_unit f,
       me_dims = ''formulaVersion='' @ cf_version f @ '';formulaId='' @ cf_id f,
       me_source = StCalculation, me_extraction = None, me_calc_run = Some (cr_id r), me_status = MApproved,
       me_submitted_by = cr_by r, me_submitted_at = ev_now E, me_approved_by = None, me_approved_at = None,
       me_comment = None \<rparr>"

text \<open>The value of a formula when it is a number; anything else is logged and skipped.\<close>

definition formula_value :: "'d decimal_api \<Rightarrow> calc_formula \<Rightarrow> 'd cel_context \<Rightarrow> 'd option" where
  "formula_value D f ctx = (case evaluate D (cf_expression f) ctx of
     Inr v \<Rightarrow> (case cv_value v of VNum d \<Rightarrow> Some d | _ \<Rightarrow> None) | Inl _ \<Rightarrow> None)"

text \<open>
  One formula. Storing the event fails when the run has no scope node or the node is gone: the
  exception leaves the loop (\<open>Inl\<close>, with the state reached).
\<close>

definition calc_step ::
  "'d decimal_api \<Rightarrow> env \<Rightarrow> 'd calc_run \<Rightarrow> string list \<Rightarrow> 'd cel_value js_object \<Rightarrow> int \<Rightarrow> calc_formula \<Rightarrow> 'd calc_state \<Rightarrow>
     'd calc_state + 'd calc_state" where
  "calc_step D E r node_ids factors days f s =
     (case formula_value D f \<lparr> cx_metrics = cs_ctx s, cx_factors = Some factors, cx_period_days = Some days \<rparr> of
        None \<Rightarrow> Inr s
      | Some v \<Rightarrow>
          (case cr_scopes r of
             [] \<Rightarrow> Inl s
           | scope # _ \<Rightarrow>
               if scope \<notin> set node_ids then Inl s
               else (let ctx = upsert (cf_key f) \<lparr> cv_value = VNum v, cv_unit = Some (cf_unit f) \<rparr> (cs_ctx s);
                         used = fold (note_input ctx factors) (cf_inputs f) (cs_used s, cs_factors s)
                     in Inr \<lparr> cs_ctx = ctx, cs_events = cs_events s @ [output_event E (length (cs_events s)) r scope f v],
                          cs_used = fst used, cs_factors = snd used, cs_last = Some (f, v) \<rparr>)))"

fun calc_loop ::
  "'d decimal_api \<Rightarrow> env \<Rightarrow> 'd calc_run \<Rightarrow> string list \<Rightarrow> 'd cel_value js_object \<Rightarrow> int \<Rightarrow> calc_formula list \<Rightarrow> 'd calc_state \<Rightarrow>
     'd calc_state + 'd calc_state" where
  "calc_loop D E r node_ids factors days [] s = Inr s"
| "calc_loop D E r node_ids factors days (f # fs) s =
     bindR (calc_step D E r node_ids factors days f s) (calc_loop D E r node_ids factors days fs)"

definition required_keys :: "calc_formula list \<Rightarrow> string list" where
  "required_keys fs = fold add_new (concat (map cf_inputs fs)) []"

text \<open>What the worker reads before it evaluates: the ordered formulas and the summed inputs.\<close>

definition calc_inputs :: "'d decimal_api \<Rightarrow> 'd calc_run \<Rightarrow> string list \<Rightarrow> 'd cdb \<Rightarrow> string + calc_formula list \<times> 'd cel_value js_object" where
  "calc_inputs D r outputs db =
     (let fs = resolve_formulas outputs (c_mappings db) in
      bindR (topo_sort_formulas fs) (\<lambda>ordered.
      bindR (sum_inputs D (filter (run_input r (required_keys fs)) (c_events db)) []) (\<lambda>ctx.
        Inr (ordered, ctx))))"

definition finish_run :: "'d decimal_api \<Rightarrow> int \<Rightarrow> 'd calc_state \<Rightarrow> 'd calc_run \<Rightarrow> 'd calc_run" where
  "finish_run D duration s r = r \<lparr>
     cr_formula := (case cs_last s of None \<Rightarrow> ''none'' | Some (f, v) \<Rightarrow> cf_id f),
     cr_output_key := (case cs_last s of None \<Rightarrow> cr_output_key r | Some (f, v) \<Rightarrow> cf_key f),
     cr_output_value := (case cs_last s of None \<Rightarrow> d_of_int D 0 | Some (f, v) \<Rightarrow> v),
     cr_output_unit := (case cs_last s of None \<Rightarrow> [] | Some (f, v) \<Rightarrow> cf_unit f),
     cr_input_keys := cs_used s, cr_factor_keys := cs_factors s, cr_duration := duration \<rparr>"

text \<open>
  The handler. \<open>Inl\<close> is the exception rethrown to the queue, which then retries the job; events
  stored before it stay.
\<close>

definition process_run :: "'d decimal_api \<Rightarrow> env \<Rightarrow> int \<Rightarrow> calc_job \<Rightarrow> 'd cdb \<Rightarrow> (string + unit) \<times> 'd cdb" where
  "process_run D E duration j db =
     (case find_first (\<lambda>r. cr_id r = cj_run j \<and> cr_tenant r = cj_tenant j) (c_runs db) of
        None \<Rightarrow> (Inr (), db)
      | Some r \<Rightarrow>
          (let failed = db \<lparr> c_runs := update_where (\<lambda>x. cr_id x = cj_run j) (\<lambda>x. x \<lparr> cr_duration := duration \<rparr>) (c_runs db) \<rparr>
           in case calc_inputs D r (cj_outputs j) db of
                Inl m \<Rightarrow> (Inl m, failed)
              | Inr (ordered, ctx) \<Rightarrow>
                  (case calc_loop D E r (map fst (c_nodes db)) (factor_context (cj_tenant j) (c_factors db))
                          (period_days (cr_start r) (cr_end r)) ordered
                          \<lparr> cs_ctx = ctx, cs_events = [], cs_used = [], cs_factors = [], cs_last = None \<rparr> of
                     Inl s \<Rightarrow> (Inl ''metricEvent.create failed'', failed \<lparr> c_events := c_events db @ cs_events s \<rparr>)
                   | Inr s \<Rightarrow> (Inr (), db \<lparr> c_events := c_events db @ cs_events s,
                       c_runs := update_where (\<lambda>x. cr_id x = cj_run j) (finish_run D duration s) (c_runs db) \<rparr>))))"

end
