(* ===== verification/Calc_Props.thy ===== *)
theory Calc_Props
  imports Calc Cel_Props Metrics_Props
begin

text \<open>
  Calculation runs: the stored results solve the formulas simultaneously, a run reads approved
  values of its own tenant only, a failing run stores nothing, and what happens when a job or a
  request is repeated.
\<close>

section \<open>The loop\<close>

abbreviation eval_ctx :: "'d cel_value js_object \<Rightarrow> 'd cel_value js_object \<Rightarrow> int \<Rightarrow> 'd cel_context" where
  "eval_ctx ctx factors days \<equiv> \<lparr> cx_metrics = ctx, cx_factors = Some factors, cx_period_days = Some days \<rparr>"

definition ctx_after :: "'d cel_value js_object \<Rightarrow> 'd metric_event list \<Rightarrow> 'd cel_value js_object" where
  "ctx_after ctx es = fold (\<lambda>e. upsert (me_key e) \<lparr> cv_value = VNum (me_value e), cv_unit = Some (me_unit e) \<rparr>) es ctx"

lemma ctx_after_simps [simp]:
  "ctx_after ctx [] = ctx"
  "ctx_after ctx (e # es) = ctx_after (upsert (me_key e) \<lparr> cv_value = VNum (me_value e), cv_unit = Some (me_unit e) \<rparr> ctx) es"
  by (simp_all add: ctx_after_def)

lemma own_get_ctx_after: "k \<notin> set (map me_key es) \<Longrightarrow> own_get (ctx_after ctx es) k = own_get ctx k"
  by (induction es arbitrary: ctx) (auto simp: own_get_upsert)

lemma output_event_sel [simp]:
  "me_key (output_event E k r scope f v) = cf_key f" "me_value (output_event E k r scope f v) = v"
  "me_unit (output_event E k r scope f v) = cf_unit f"
  by (simp_all add: output_event_def)

lemma js_in_own_get: "js_in k ob \<longleftrightarrow> own_get ob k \<noteq> None \<or> k \<in> set object_prototype"
  by (auto simp: js_in_def own_get_def map_of_eq_None_iff simp del: not_None_eq)

lemma resolve_ref_agree:
  assumes "own_get ctx w = own_get ctx' w"
  shows "resolve_ref D w (eval_ctx ctx fs n) = resolve_ref D w (eval_ctx ctx' fs n)"
  using assms by (simp add: resolve_ref_def js_in_own_get)

text \<open>The names a formula mentions.\<close>

definition formula_refs :: "'d decimal_api \<Rightarrow> calc_formula \<Rightarrow> string set" where
  "formula_refs D f = (case bindR (tokenize D (cf_expression f)) parse_result of Inl _ \<Rightarrow> {} | Inr e \<Rightarrow> refs e)"

lemma formula_value_agree:
  assumes "\<And>w. w \<in> formula_refs D f \<Longrightarrow> own_get ctx w = own_get ctx' w"
  shows "formula_value D f (eval_ctx ctx fs n) = formula_value D f (eval_ctx ctx' fs n)"
proof -
  have "eval_node D (eval_ctx ctx fs n) e = eval_node D (eval_ctx ctx' fs n) e"
    if "tokenize D (cf_expression f) = Inr ts" "parse_result ts = Inr e" for ts e
    by (rule eval_refs_aux) (use assms that in \<open>auto simp: formula_refs_def intro: resolve_ref_agree\<close>)
  then have "evaluate D (cf_expression f) (eval_ctx ctx fs n) = evaluate D (cf_expression f) (eval_ctx ctx' fs n)"
    unfolding evaluate_def by (intro bindR_cong refl) auto
  then show ?thesis by (simp add: formula_value_def)
qed

lemma calc_step_cases:
  assumes "calc_step D E r ids factors days f s = Inr s'"
  shows "case formula_value D f (eval_ctx (cs_ctx s) factors days) of
     None \<Rightarrow> s' = s
   | Some v \<Rightarrow> (\<exists>scope. cs_events s' = cs_events s @ [output_event E (length (cs_events s)) r scope f v] \<and>
       cs_ctx s' = upsert (cf_key f) \<lparr> cv_value = VNum v, cv_unit = Some (cf_unit f) \<rparr> (cs_ctx s))"
  using assms by (auto simp: calc_step_def Let_def split: option.splits list.splits if_splits)

text \<open>A list of formulas in which none mentions its own key or that of a later one.\<close>

fun refs_before :: "'d decimal_api \<Rightarrow> calc_formula list \<Rightarrow> bool" where
  "refs_before D [] = True"
| "refs_before D (f # fs) \<longleftrightarrow> formula_refs D f \<inter> insert (cf_key f) (cf_key ` set fs) = {} \<and> refs_before D fs"

lemma calc_loop_solves:
  assumes "calc_loop D E r ids factors days fs s = Inr s'" "distinct (map cf_key fs)" "refs_before D fs"
  shows "\<exists>new. cs_events s' = cs_events s @ new \<and> cs_ctx s' = ctx_after (cs_ctx s) new \<and>
     me_key ` set new \<subseteq> cf_key ` set fs \<and>
     (\<forall>f\<in>set fs. formula_value D f (eval_ctx (cs_ctx s') factors days) =
        map_of (map (\<lambda>e. (me_key e, me_value e)) new) (cf_key f))"
  using assms
proof (induction fs arbitrary: s)
  case (Cons f fs)
  obtain s1 where s1: "calc_step D E r ids factors days f s = Inr s1"
    "calc_loop D E r ids factors days fs s1 = Inr s'" using Cons.prems(1) by (auto simp: bindR_Inr_iff)
  obtain new where new: "cs_events s' = cs_events s1 @ new" "cs_ctx s' = ctx_after (cs_ctx s1) new"
      "me_key ` set new \<subseteq> cf_key ` set fs"
    and vals: "\<forall>g\<in>set fs. formula_value D g (eval_ctx (cs_ctx s') factors days) =
        map_of (map (\<lambda>e. (me_key e, me_value e)) new) (cf_key g)"
    using Cons.IH[OF s1(2)] Cons.prems(2,3) by auto
  have fresh: "cf_key f \<notin> me_key ` set new" using new(3) Cons.prems(2) by auto
  then have fresh': "map_of (map (\<lambda>e. (me_key e, me_value e)) new) (cf_key f) = None"
    by (auto simp: map_of_eq_None_iff)
  have same: "own_get (cs_ctx s') w = own_get (cs_ctx s) w" if "w \<in> formula_refs D f" for w
  proof -
    have w: "w \<noteq> cf_key f" "w \<notin> set (map me_key new)" using that Cons.prems(3) new(3) by auto
    have "own_get (cs_ctx s1) w = own_get (cs_ctx s) w"
      using calc_step_cases[OF s1(1)] w(1) by (auto simp: own_get_upsert split: option.splits)
    then show ?thesis using own_get_ctx_after[OF w(2), of "cs_ctx s1"] by (simp add: new(2))
  qed
  note fv = formula_value_agree[of D f "cs_ctx s'" "cs_ctx s" factors days, OF same]
  show ?case
  proof (cases "formula_value D f (eval_ctx (cs_ctx s) factors days)")
    case None
    then have "s1 = s" using calc_step_cases[OF s1(1)] by simp
    with None new vals fresh' fv show ?thesis by (intro exI[of _ new]) auto
  next
    case (Some v)
    then obtain scope where ev: "cs_events s1 = cs_events s @ [output_event E (length (cs_events s)) r scope f v]"
      "cs_ctx s1 = upsert (cf_key f) \<lparr> cv_value = VNum v, cv_unit = Some (cf_unit f) \<rparr> (cs_ctx s)"
      using calc_step_cases[OF s1(1)] by auto
    let ?e = "output_event E (length (cs_events s)) r scope f v"
    have "cf_key f \<notin> cf_key ` set fs" using Cons.prems(2) by simp
    then have "\<forall>g\<in>set fs. cf_key g \<noteq> cf_key f" by (metis imageI)
    with Some new vals fv ev show ?thesis by (intro exI[of _ "?e # new"]) auto
  qed
qed simp

text \<open>Sorted formulas whose mentions of other formulas are declared as inputs.\<close>

lemma dep_orderedD:
  assumes "dep_ordered key deps rows (ys @ r # zs)"
  shows "r \<in> set rows" "\<forall>k\<in>set (deps r). k \<in> key ` set rows \<longrightarrow> k \<in> key ` set ys"
    "distinct (map key (ys @ r # zs))"
  using assms unfolding dep_ordered_def by (simp, blast, blast)

lemma disjoint_via: "B \<subseteq> C \<Longrightarrow> B \<inter> Y = {} \<Longrightarrow> A \<inter> C \<subseteq> Y \<Longrightarrow> A \<inter> B = {}"
  by (auto dest: subsetD)

lemma topo_refs_before:
  assumes "\<forall>f\<in>set fs. formula_refs D f \<inter> cf_key ` set fs \<subseteq> set (cf_inputs f)"
  shows "dep_ordered cf_key cf_inputs fs (ys @ zs) \<Longrightarrow> cf_key ` set (ys @ zs) = cf_key ` set fs \<Longrightarrow> refs_before D zs"
proof (induction zs arbitrary: ys)
  case (Cons f zs)
  note f = dep_orderedD(1,2)[OF Cons.prems(1)] and dist = dep_orderedD(3)[OF Cons.prems(1)]
  have "insert (cf_key f) (cf_key ` set zs) \<subseteq> cf_key ` set fs" using Cons.prems(2) by auto
  moreover have "insert (cf_key f) (cf_key ` set zs) \<inter> cf_key ` set ys = {}"
    using dist by (simp only: map_append list.map distinct_append set_map list.set) blast
  moreover have "formula_refs D f \<inter> cf_key ` set fs \<subseteq> cf_key ` set ys"
    using bspec[OF assms f(1)] f(2) by blast
  ultimately have "formula_refs D f \<inter> insert (cf_key f) (cf_key ` set zs) = {}" by (rule disjoint_via)
  moreover have "refs_before D zs"
    by (rule Cons.IH[of "ys @ [f]"]) (use Cons.prems in \<open>simp_all only: append.assoc append.simps\<close>)
  ultimately show ?case by simp
qed simp


section \<open>What a run depends on\<close>

text \<open>Two environments store the same events up to identifier and time.\<close>

definition unstamped :: "'d metric_event \<Rightarrow> 'd metric_event" where
  "unstamped e = e \<lparr> me_id := [], me_submitted_at := 0 \<rparr>"

definition same_window :: "'d calc_run \<Rightarrow> 'd calc_run \<Rightarrow> bool" where
  "same_window r r' \<longleftrightarrow> cr_id r' = cr_id r \<and> cr_tenant r' = cr_tenant r \<and> cr_scopes r' = cr_scopes r \<and>
     cr_start r' = cr_start r \<and> cr_end r' = cr_end r \<and> cr_by r' = cr_by r"

definition same_state :: "'d calc_state \<Rightarrow> 'd calc_state \<Rightarrow> bool" where
  "same_state s s' \<longleftrightarrow> cs_ctx s' = cs_ctx s \<and> map unstamped (cs_events s') = map unstamped (cs_events s) \<and>
     cs_used s' = cs_used s \<and> cs_factors s' = cs_factors s \<and> cs_last s' = cs_last s"

definition same_result :: "'d calc_state + 'd calc_state \<Rightarrow> 'd calc_state + 'd calc_state \<Rightarrow> bool" where
  "same_result x y \<longleftrightarrow> (case (x, y) of (Inl s, Inl s') \<Rightarrow> same_state s s' | (Inr s, Inr s') \<Rightarrow> same_state s s' | _ \<Rightarrow> False)"

lemma unstamped_output:
  "same_window r r' \<Longrightarrow> unstamped (output_event E' k' r' scope f v) = unstamped (output_event E k r scope f v)"
  by (simp add: unstamped_def output_event_def same_window_def)

lemma calc_step_same:
  assumes "same_window r r'" "same_state s s'"
  shows "same_result (calc_step D E r ids factors days f s) (calc_step D E' r' ids factors days f s')"
proof -
  have c: "cs_ctx s' = cs_ctx s" "cr_scopes r' = cr_scopes r" using assms by (simp_all add: same_state_def same_window_def)
  show ?thesis
  proof (cases "formula_value D f (eval_ctx (cs_ctx s) factors days)")
    case None
    then show ?thesis using assms(2) by (simp add: calc_step_def c same_result_def)
  next
    case (Some v)
    then show ?thesis
      using assms unstamped_output[OF assms(1)]
      by (cases "cr_scopes r") (auto simp: calc_step_def c same_result_def same_state_def Let_def)
  qed
qed

lemma calc_loop_same:
  "same_window r r' \<Longrightarrow> same_state s s' \<Longrightarrow>
     same_result (calc_loop D E r ids factors days fs s) (calc_loop D E' r' ids factors days fs s')"
proof (induction fs arbitrary: s s')
  case (Cons f fs)
  have "same_result (calc_step D E r ids factors days f s) (calc_step D E' r' ids factors days f s')"
    by (rule calc_step_same[OF Cons.prems])
  then show ?case
    using Cons.IH[OF Cons.prems(1)]
    by (cases "calc_step D E r ids factors days f s"; cases "calc_step D E' r' ids factors days f s'")
      (simp_all add: same_result_def)
qed (simp add: same_result_def)

lemma run_input_keys: "run_input r keys e \<longleftrightarrow> run_input r [] e \<and> (keys = [] \<or> me_key e \<in> set keys)"
  by (auto simp: run_input_def)

lemma filter_run_input:
  "filter (run_input r keys) es = filter (\<lambda>e. keys = [] \<or> me_key e \<in> set keys) (filter (run_input r []) es)"
  by (induction es) (auto simp: run_input_keys[of r keys])

lemma calc_inputs_same:
  assumes "same_window r r'" "c_mappings db' = c_mappings db"
    "filter (run_input r (required_keys (resolve_formulas outputs (c_mappings db)))) (c_events db') =
     filter (run_input r (required_keys (resolve_formulas outputs (c_mappings db)))) (c_events db)"
  shows "calc_inputs D r' outputs db' = calc_inputs D r outputs db"
proof -
  have "run_input r' = run_input r" using assms(1) by (auto simp: fun_eq_iff run_input_def same_window_def)
  then show ?thesis using assms(2,3) by (simp add: calc_inputs_def)
qed

section \<open>Results of the handler\<close>

definition calc_start :: "'d cel_value js_object \<Rightarrow> 'd calc_state" where
  "calc_start ctx = \<lparr> cs_ctx = ctx, cs_events = [], cs_used = [], cs_factors = [], cs_last = None \<rparr>"

definition job_loop ::
  "'d decimal_api \<Rightarrow> env \<Rightarrow> calc_job \<Rightarrow> 'd cdb \<Rightarrow> 'd calc_run \<Rightarrow> calc_formula list \<Rightarrow> 'd cel_value js_object \<Rightarrow> 'd calc_state + 'd calc_state" where
  "job_loop D E j db r ordered ctx = calc_loop D E r (map fst (c_nodes db)) (factor_context (cj_tenant j) (c_factors db))
     (period_days (cr_start r) (cr_end r)) ordered (calc_start ctx)"

lemma process_run_eq:
  assumes "find_first (\<lambda>r. cr_id r = cj_run j \<and> cr_tenant r = cj_tenant j) (c_runs db) = Some r"
  shows "fst (process_run D E n j db) = (case calc_inputs D r (cj_outputs j) db of Inl m \<Rightarrow> Inl m
       | Inr (ordered, ctx) \<Rightarrow> (case job_loop D E j db r ordered ctx of Inl s \<Rightarrow> Inl ''metricEvent.create failed'' | Inr s \<Rightarrow> Inr ()))"
    "c_events (snd (process_run D E n j db)) = c_events db @ (case calc_inputs D r (cj_outputs j) db of Inl m \<Rightarrow> []
       | Inr (ordered, ctx) \<Rightarrow> (case job_loop D E j db r ordered ctx of Inl s \<Rightarrow> cs_events s | Inr s \<Rightarrow> cs_events s))"
  by (auto simp: process_run_def assms job_loop_def calc_start_def Let_def split: sum.splits)

lemma process_run_keeps:
  "c_mappings (snd (process_run D E n j db)) = c_mappings db"
  "c_nodes (snd (process_run D E n j db)) = c_nodes db"
  "c_factors (snd (process_run D E n j db)) = c_factors db"
  by (auto simp: process_run_def Let_def split: option.splits sum.splits)

lemma find_first_update:
  assumes "\<And>x. P (f x) = P x"
  shows "find_first P (update_where Q f rows) = map_option (\<lambda>r. if Q r then f r else r) (find_first P rows)"
  using assms by (induction rows) auto

lemma process_run_finds:
  assumes "find_first (\<lambda>r. cr_id r = cj_run j \<and> cr_tenant r = cj_tenant j) (c_runs db) = Some r"
  shows "\<exists>r'. find_first (\<lambda>r. cr_id r = cj_run j \<and> cr_tenant r = cj_tenant j) (c_runs (snd (process_run D E n j db))) = Some r' \<and>
    same_window r r'"
  using assms
  by (auto simp: process_run_def Let_def find_first_update finish_run_def same_window_def split: sum.splits)

text \<open>The events of a run: unstamped, they depend on the inputs alone.\<close>

lemma job_loop_same:
  assumes "same_window r r'" "c_nodes db' = c_nodes db"
    "factor_context (cj_tenant j) (c_factors db') = factor_context (cj_tenant j) (c_factors db)"
  shows "same_result (job_loop D E j db r ordered ctx) (job_loop D E' j db' r' ordered ctx)"
proof -
  have "cr_start r' = cr_start r" "cr_end r' = cr_end r" using assms(1) by (simp_all add: same_window_def)
  then show ?thesis
    unfolding job_loop_def assms(2,3) by (simp add: calc_loop_same[OF assms(1)] same_state_def)
qed

text \<open>With its scope node in place a run's loop never stops early.\<close>

lemma calc_loop_no_failure:
  assumes "cr_scopes r = scope # rest" "scope \<in> set ids"
  shows "\<exists>s'. calc_loop D E r ids factors days fs s = Inr s'"
proof (induction fs arbitrary: s)
  case (Cons f fs)
  have "\<exists>s'. calc_step D E r ids factors days f s = Inr s'"
    using assms by (auto simp: calc_step_def Let_def split: option.splits)
  with Cons show ?case by auto
qed simp

lemma calc_events_shape:
  assumes "calc_loop D E r ids factors days fs s = x"
  shows "\<exists>new. cs_events (case x of Inl s' \<Rightarrow> s' | Inr s' \<Rightarrow> s') = cs_events s @ new \<and>
     (\<forall>e\<in>set new. \<exists>f\<in>set fs. \<exists>k v. \<exists>scope\<in>set ids. cr_scopes r \<noteq> [] \<and> scope = hd (cr_scopes r) \<and> e = output_event E k r scope f v)"
  using assms
proof (induction fs arbitrary: s)
  case (Cons f fs)
  show ?case
  proof (cases "calc_step D E r ids factors days f s")
    case (Inl s1)
    then have "s1 = s" by (auto simp: calc_step_def Let_def split: option.splits list.splits if_splits)
    then have "x = Inl s" using Inl Cons.prems by simp
    then show ?thesis by (intro exI[of _ "[]"]) simp
  next
    case (Inr s1)
    then have x: "calc_loop D E r ids factors days fs s1 = x" using Cons.prems by simp
    have one: "cs_events s1 = cs_events s \<or> (\<exists>k v. \<exists>scope\<in>set ids. cr_scopes r \<noteq> [] \<and> scope = hd (cr_scopes r) \<and>
        cs_events s1 = cs_events s @ [output_event E k r scope f v])"
      using Inr by (auto simp: calc_step_def Let_def split: option.splits list.splits if_splits) blast
    obtain new where new: "cs_events (case x of Inl s' \<Rightarrow> s' | Inr s' \<Rightarrow> s') = cs_events s1 @ new"
      "\<forall>e\<in>set new. \<exists>f\<in>set fs. \<exists>k v. \<exists>scope\<in>set ids. cr_scopes r \<noteq> [] \<and> scope = hd (cr_scopes r) \<and> e = output_event E k r scope f v"
      using Cons.IH[OF x] by blast
    from one show ?thesis
    proof
      assume "cs_events s1 = cs_events s"
      then show ?thesis using new by (intro exI[of _ new]) auto
    next
      assume "\<exists>k v. \<exists>scope\<in>set ids. cr_scopes r \<noteq> [] \<and> scope = hd (cr_scopes r) \<and>
        cs_events s1 = cs_events s @ [output_event E k r scope f v]"
      then obtain k v where "hd (cr_scopes r) \<in> set ids" "cr_scopes r \<noteq> []"
        "cs_events s1 = cs_events s @ [output_event E k r (hd (cr_scopes r)) f v]" by blast
      then show ?thesis using new by (intro exI[of _ "output_event E k r (hd (cr_scopes r)) f v # new"]) auto
    qed
  qed
qed auto


section \<open>Properties\<close>

text \<open>C3: The results of a run solve its formulas simultaneously. When every mention of another
  formula's output is declared as an input, then after a successful run, in the context of the
  summed inputs overwritten by all stored results, each formula evaluates to the value stored
  for its key, and to no number when none is stored.\<close>

theorem calc_solves:
  assumes "find_first (\<lambda>r. cr_id r = cj_run j \<and> cr_tenant r = cj_tenant j) (c_runs db) = Some r"
    "\<forall>f\<in>set (resolve_formulas (cj_outputs j) (c_mappings db)).
       formula_refs D f \<inter> cf_key ` set (resolve_formulas (cj_outputs j) (c_mappings db)) \<subseteq> set (cf_inputs f)"
    "fst (process_run D E n j db) = Inr ()"
  shows "\<exists>ordered ctx new. calc_inputs D r (cj_outputs j) db = Inr (ordered, ctx) \<and>
    c_events (snd (process_run D E n j db)) = c_events db @ new \<and>
    cf_key ` set ordered = cf_key ` set (resolve_formulas (cj_outputs j) (c_mappings db)) \<and>
    (\<forall>f\<in>set ordered. formula_value D f (eval_ctx (ctx_after ctx new) (factor_context (cj_tenant j) (c_factors db))
        (period_days (cr_start r) (cr_end r))) = map_of (map (\<lambda>e. (me_key e, me_value e)) new) (cf_key f))"
proof -
  note eq = process_run_eq[OF assms(1), of D E n]
  obtain ordered ctx s where run: "calc_inputs D r (cj_outputs j) db = Inr (ordered, ctx)"
    "job_loop D E j db r ordered ctx = Inr s"
    using assms(3) eq(1) by (auto split: sum.splits)
  let ?fs = "resolve_formulas (cj_outputs j) (c_mappings db)"
  have t: "topo_order cf_key cf_inputs ?fs = Inr ordered"
    using run(1) by (auto simp: calc_inputs_def Let_def bindR_Inr_iff topo_sort_formulas_def split: sum.splits)
  note sound = topo_order_sound[OF t]
  have before: "refs_before D ordered"
    using topo_refs_before[OF assms(2), of "[]" ordered] sound by simp
  have dist: "distinct (map cf_key ordered)" using sound(1) by (simp add: dep_ordered_def)
  obtain new where new: "cs_events s = new" "cs_ctx s = ctx_after ctx new"
    "\<forall>f\<in>set ordered. formula_value D f (eval_ctx (cs_ctx s) (factor_context (cj_tenant j) (c_factors db))
        (period_days (cr_start r) (cr_end r))) = map_of (map (\<lambda>e. (me_key e, me_value e)) new) (cf_key f)"
    using calc_loop_solves[OF run(2)[unfolded job_loop_def] dist before] by (auto simp: calc_start_def)
  have "c_events (snd (process_run D E n j db)) = c_events db @ new" using eq(2) run new(1) by simp
  with run(1) sound(2) new(2,3) show ?thesis by auto
qed

text \<open>C20: A run reads approved values of its own tenant only: changing any events except the
  approved and locked ones of the run's tenant, scope nodes and period, and any factors except
  the global and the tenant's own, changes neither the outcome nor the stored results.\<close>

theorem calc_isolated:
  assumes "find_first (\<lambda>r. cr_id r = cj_run j \<and> cr_tenant r = cj_tenant j) (c_runs db) = Some r"
    "c_runs db' = c_runs db" "c_mappings db' = c_mappings db" "c_nodes db' = c_nodes db"
    "filter (\<lambda>f. ef_tenant f = None \<or> ef_tenant f = Some (cj_tenant j)) (c_factors db') =
     filter (\<lambda>f. ef_tenant f = None \<or> ef_tenant f = Some (cj_tenant j)) (c_factors db)"
    "filter (\<lambda>e. me_tenant e = cr_tenant r \<and> me_scope e \<in> set (cr_scopes r) \<and> cr_start r \<le> me_start e \<and>
       me_end e \<le> cr_end r \<and> (me_status e = MApproved \<or> me_status e = MLocked)) (c_events db') =
     filter (\<lambda>e. me_tenant e = cr_tenant r \<and> me_scope e \<in> set (cr_scopes r) \<and> cr_start r \<le> me_start e \<and>
       me_end e \<le> cr_end r \<and> (me_status e = MApproved \<or> me_status e = MLocked)) (c_events db)"
  shows "fst (process_run D E n j db') = fst (process_run D E n j db) \<and>
    (\<exists>new. c_events (snd (process_run D E n j db)) = c_events db @ new \<and>
       c_events (snd (process_run D E n j db')) = c_events db' @ new)"
proof -
  have r': "find_first (\<lambda>r. cr_id r = cj_run j \<and> cr_tenant r = cj_tenant j) (c_runs db') = Some r"
    using assms(1,2) by simp
  have fc: "factor_context (cj_tenant j) (c_factors db') = factor_context (cj_tenant j) (c_factors db)"
    using assms(5) by (simp add: factor_context_def)
  have "run_input r [] = (\<lambda>e. me_tenant e = cr_tenant r \<and> me_scope e \<in> set (cr_scopes r) \<and> cr_start r \<le> me_start e \<and>
       me_end e \<le> cr_end r \<and> (me_status e = MApproved \<or> me_status e = MLocked))"
    by (auto simp: fun_eq_iff run_input_def)
  then have "filter (run_input r []) (c_events db') = filter (run_input r []) (c_events db)" using assms(6) by simp
  then have "filter (run_input r keys) (c_events db') = filter (run_input r keys) (c_events db)" for keys
    by (simp only: filter_run_input[of r keys])
  then have ci: "calc_inputs D r (cj_outputs j) db' = calc_inputs D r (cj_outputs j) db"
    using assms(3) by (simp add: calc_inputs_def)
  have jl: "job_loop D E j db' r ordered ctx = job_loop D E j db r ordered ctx" for ordered ctx
    by (simp add: job_loop_def fc assms(4))
  show ?thesis
    using process_run_eq(2)[OF assms(1), of D E n] process_run_eq(2)[OF r', of D E n, unfolded ci jl]
      process_run_eq(1)[OF assms(1), of D E n] process_run_eq(1)[OF r', of D E n, unfolded ci jl] by simp
qed

text \<open>A job that runs twice (the queue retries it, or delivers it again) stores its results
  twice: when no formula reads another's output, the second run of a successful job succeeds
  and appends the same events once more, up to identifier and time.\<close>

theorem calc_retry_duplicates:
  assumes "find_first (\<lambda>r. cr_id r = cj_run j \<and> cr_tenant r = cj_tenant j) (c_runs db) = Some r"
    "set (map cf_key (resolve_formulas (cj_outputs j) (c_mappings db))) \<inter>
       set (required_keys (resolve_formulas (cj_outputs j) (c_mappings db))) = {}"
    "required_keys (resolve_formulas (cj_outputs j) (c_mappings db)) \<noteq> []"
    "fst (process_run D E n j db) = Inr ()"
  shows "fst (process_run D E' n' j (snd (process_run D E n j db))) = Inr () \<and>
    (\<exists>new new'. c_events (snd (process_run D E n j db)) = c_events db @ new \<and>
       c_events (snd (process_run D E' n' j (snd (process_run D E n j db)))) = c_events db @ new @ new' \<and>
       map unstamped new' = map unstamped new)"
proof -
  let ?db = "snd (process_run D E n j db)" and ?fs = "resolve_formulas (cj_outputs j) (c_mappings db)"
  note eq = process_run_eq[OF assms(1), of D E n]
  obtain ordered ctx s where run: "calc_inputs D r (cj_outputs j) db = Inr (ordered, ctx)"
    "job_loop D E j db r ordered ctx = Inr s"
    using assms(4) eq(1) by (auto split: sum.splits)
  have ev: "c_events ?db = c_events db @ cs_events s" using eq(2) run by simp
  obtain r' where r': "find_first (\<lambda>r. cr_id r = cj_run j \<and> cr_tenant r = cj_tenant j) (c_runs ?db) = Some r'"
    "same_window r r'" using process_run_finds[OF assms(1), of D E n] by blast
  have "topo_order cf_key cf_inputs ?fs = Inr ordered"
    using run(1) by (auto simp: calc_inputs_def Let_def bindR_Inr_iff topo_sort_formulas_def split: sum.splits)
  then have keys: "cf_key ` set ordered = cf_key ` set ?fs" by (rule topo_order_sound)
  have "me_key e \<notin> set (required_keys ?fs)" if "e \<in> set (cs_events s)" for e
  proof -
    have "me_key e \<in> cf_key ` set ordered"
      using calc_events_shape[OF run(2)[unfolded job_loop_def]] that by (auto simp: calc_start_def)
    then show ?thesis using assms(2) keys by auto
  qed
  then have "filter (run_input r (required_keys ?fs)) (cs_events s) = []"
    using assms(3) by (auto simp: filter_empty_conv run_input_def)
  then have ci: "calc_inputs D r' (cj_outputs j) ?db = Inr (ordered, ctx)"
    using calc_inputs_same[OF r'(2), of ?db db "cj_outputs j" D] run(1) by (simp add: process_run_keeps ev)
  obtain s' where s': "job_loop D E' j ?db r' ordered ctx = Inr s'" "map unstamped (cs_events s') = map unstamped (cs_events s)"
    using job_loop_same[OF r'(2), of ?db db j D E ordered ctx E'] run(2)
    by (auto simp: process_run_keeps same_result_def same_state_def split: sum.splits)
  show ?thesis
    using process_run_eq[OF r'(1), of D E' n'] s' by (simp add: ci ev)
qed

text \<open>The results enter the table as approved without anybody's approval: each event a worker
  stores has status APPROVED and no approver, so it fails the rule that every approved event of
  the metrics service satisfies.\<close>

theorem calc_outputs_unsigned:
  assumes "find_first (\<lambda>r. cr_id r = cj_run j \<and> cr_tenant r = cj_tenant j) (c_runs db) = Some r"
  shows "\<exists>new. c_events (snd (process_run D E n j db)) = c_events db @ new \<and>
    (\<forall>e\<in>set new. me_status e = MApproved \<and> me_approved_by e = None \<and> me_submitted_by e = cr_by r \<and>
       me_tenant e = cr_tenant r \<and> me_scope e \<in> set (cr_scopes r) \<and> \<not> signed_off e)"
proof -
  let ?new = "case calc_inputs D r (cj_outputs j) db of Inl m \<Rightarrow> []
       | Inr (ordered, ctx) \<Rightarrow> (case job_loop D E j db r ordered ctx of Inl s \<Rightarrow> cs_events s | Inr s \<Rightarrow> cs_events s)"
  have one: "me_status e = MApproved \<and> me_approved_by e = None \<and> me_submitted_by e = cr_by r \<and>
       me_tenant e = cr_tenant r \<and> me_scope e \<in> set (cr_scopes r) \<and> \<not> signed_off e" if mem: "e \<in> set ?new" for e
  proof -
    obtain ordered ctx where ci: "calc_inputs D r (cj_outputs j) db = Inr (ordered, ctx)"
      using mem by (cases "calc_inputs D r (cj_outputs j) db") auto
    have o: "e \<in> set (cs_events (case job_loop D E j db r ordered ctx of Inl s \<Rightarrow> s | Inr s \<Rightarrow> s))"
      using mem by (cases "job_loop D E j db r ordered ctx") (simp_all add: ci)
    obtain f k v where "cr_scopes r \<noteq> []" "e = output_event E k r (hd (cr_scopes r)) f v"
      using calc_events_shape[OF refl, of D E r "map fst (c_nodes db)" "factor_context (cj_tenant j) (c_factors db)"
          "period_days (cr_start r) (cr_end r)" ordered "calc_start ctx"] o by (auto simp: job_loop_def calc_start_def)
    then show ?thesis by (simp add: output_event_def signed_off_def)
  qed
  then show ?thesis using process_run_eq(2)[OF assms, of D E n] by blast
qed

text \<open>A failing run stores nothing: when the job of a run that was just started fails (a cycle
  of formulas, or inputs of one key in two units), no event has been stored.\<close>

theorem calc_failure_clean:
  assumes "fst (start_run D E t dto actor kind db) = Inr r" "cr_id r \<notin> set (map cr_id (c_runs db))"
    "cj_run j = cr_id r" "cj_tenant j = t"
    "fst (process_run D E' n j (snd (start_run D E t dto actor kind db))) = Inl m"
    "distinct (map fst (c_nodes db))"
  shows "c_events (snd (process_run D E' n j (snd (start_run D E t dto actor kind db)))) = c_events db"
proof -
  let ?db = "snd (start_run D E t dto actor kind db)"
  obtain scopes where s: "run_scopes t (rd_scopes dto) (c_nodes db) = Inr scopes" "r = new_run D E t dto scopes actor"
    "c_runs ?db = c_runs db @ [r]" "c_nodes ?db = c_nodes db" "c_events ?db = c_events db"
    using assms(1) by (auto simp: start_run_def Let_def split: if_splits sum.splits)
  have "\<exists>scope rest. scopes = scope # rest \<and> scope \<in> set (map fst (c_nodes db))"
  proof (cases "keep (rd_scopes dto) [] = []")
    case True
    then show ?thesis
      using s(1) by (cases "map fst (filter (\<lambda>n. snd n = t) (c_nodes db))") (auto simp: run_scopes_def Let_def filter_eq_Cons_iff)
  next
    case False
    then have sc: "scopes = keep (rd_scopes dto) []"
      and len: "length (filter (\<lambda>i. i \<in> set scopes) (map fst (filter (\<lambda>n. snd n = t) (c_nodes db)))) = length scopes"
      using s(1) by (auto simp: run_scopes_def Let_def split: if_splits)
    have "set (filter (\<lambda>i. i \<in> set scopes) (map fst (filter (\<lambda>n. snd n = t) (c_nodes db)))) = set scopes"
    proof (rule card_subset_eq)
      have "distinct (filter (\<lambda>i. i \<in> set scopes) (map fst (filter (\<lambda>n. snd n = t) (c_nodes db))))"
        by (rule distinct_filter, rule distinct_map_filter[OF assms(6)])
      from distinct_card[OF this] len card_length[of scopes] card_mono[OF finite_set[of scopes], of "set (filter (\<lambda>i. i \<in> set scopes) (map fst (filter (\<lambda>n. snd n = t) (c_nodes db))))"]
      show "card (set (filter (\<lambda>i. i \<in> set scopes) (map fst (filter (\<lambda>n. snd n = t) (c_nodes db))))) = card (set scopes)"
        by (simp only:) auto
    qed auto
    then have "set scopes \<subseteq> set (map fst (c_nodes db))" by auto
    moreover have "scopes \<noteq> []" using False sc by simp
    ultimately show ?thesis by (cases scopes) auto
  qed
  then obtain scope rest where sc: "cr_scopes r = scope # rest" "scope \<in> set (map fst (c_nodes ?db))"
    by (auto simp: s new_run_def)
  have "\<forall>x\<in>set (c_runs db). cr_id x \<noteq> cr_id r" using assms(2) by (metis image_eqI list.set_map)
  then have "find_first (\<lambda>r. cr_id r = cj_run j \<and> cr_tenant r = cj_tenant j) (c_runs db) = None"
    using assms(3) by (simp add: find_first_None)
  then have "find_first (\<lambda>r. cr_id r = cj_run j \<and> cr_tenant r = cj_tenant j) (c_runs ?db) = Some r"
    using assms(3,4) by (simp add: s(3) find_first_append) (simp add: s(2) new_run_def)
  note eq = process_run_eq[OF this, of D E' n]
  have "\<exists>s'. job_loop D E' j ?db r ordered ctx = Inr s'" for ordered ctx
    unfolding job_loop_def by (rule calc_loop_no_failure[OF sc])
  then have "\<exists>m. calc_inputs D r (cj_outputs j) ?db = Inl m"
    using eq(1) assms(5) by (cases "calc_inputs D r (cj_outputs j) ?db") (auto split: sum.splits, metis sum.distinct(1))
  then show ?thesis using eq(2) s(5) by auto
qed

text \<open>The idempotency key covers the queue, not the table: repeating a request with the same
  key stores a second run, which keeps the status pending for ever, for its job is dropped.\<close>

theorem calc_idempotency_key:
  assumes "rd_key dto = Some k" "k \<noteq> []"
    "fst (start_run D E t dto actor kind db) = Inr r"
    "fst (start_run D E' t dto actor kind (snd (start_run D E t dto actor kind db))) = Inr r'"
  shows "c_queue (snd (start_run D E' t dto actor kind (snd (start_run D E t dto actor kind db)))) =
      c_queue (snd (start_run D E t dto actor kind db)) \<and>
    c_runs (snd (start_run D E' t dto actor kind (snd (start_run D E t dto actor kind db)))) =
      c_runs (snd (start_run D E t dto actor kind db)) @ [r'] \<and> cr_formula r' = ''pending''"
  using assms by (auto simp: start_run_def Let_def queue_add_def job_id_def new_run_def split: if_splits sum.splits)


section \<open>Witnesses\<close>

definition calc_env :: "string \<Rightarrow> env" where
  "calc_env x = \<lparr> ev_now = 0, ev_ids = (\<lambda>k. x @ replicate k CHR ''i''), ev_audit_ok = True \<rparr>"

definition sample_input :: "string \<Rightarrow> string \<Rightarrow> int \<Rightarrow> int metric_event" where
  "sample_input i u v = \<lparr> me_id = i, me_tenant = u, me_scope = ''n1'', me_key = ''a'', me_start = 0, me_end = 1, me_value = v,
     me_unit = ''kWh'', me_dims = ''{}'', me_source = StManual, me_extraction = None, me_calc_run = None, me_status = MApproved,
     me_submitted_by = ''u'', me_submitted_at = 0, me_approved_by = Some ''w'', me_approved_at = Some 0, me_comment = None \<rparr>"

definition sample_run :: "int calc_run" where
  "sample_run = \<lparr> cr_id = ''r'', cr_tenant = ''t'', cr_formula = ''pending'', cr_output_key = ''x'', cr_output_value = 0,
     cr_output_unit = [], cr_input_keys = [], cr_factor_keys = [], cr_scopes = [''n1''], cr_start = 0, cr_end = 1, cr_at = 0,
     cr_by = ''u'', cr_duration = 0 \<rparr>"

definition sample_job :: calc_job where
  "sample_job = \<lparr> cj_id = None, cj_run = ''r'', cj_tenant = ''t'', cj_kind = ''GENERAL'', cj_outputs = [''x''] \<rparr>"

definition sample_mapping :: framework_mapping where
  "sample_mapping = \<lparr> fm_id = ''m'', fm_framework = ''BRSR'', fm_code = ''c'', fm_section = None, fm_version = ''v1'',
     fm_keys = [''x'', ''a''], fm_formula = Some \<lparr> fj_expression = Some ''a*2'', fj_unit = Some ''MJ'', fj_inputs = Some [''a''] \<rparr> \<rparr>"

definition sample_cdb :: "int metric_event list \<Rightarrow> int calc_run list \<Rightarrow> int cdb" where
  "sample_cdb es rs = \<lparr> c_nodes = [(''n1'', ''t'')], c_registry = [], c_mappings = [sample_mapping], c_events = es,
     c_factors = [], c_runs = rs, c_queue = [], c_audit = [] \<rparr>"

lemma sample_formulas:
  "resolve_formulas [''x''] [sample_mapping] =
     [\<lparr> cf_id = ''m'', cf_key = ''x'', cf_expression = ''a*2'', cf_unit = ''MJ'', cf_inputs = [''a''], cf_version = ''v1'' \<rparr>]"
  by code_simp

lemma sample_refs:
  "formula_refs int_api \<lparr> cf_id = ''m'', cf_key = ''x'', cf_expression = ''a*2'', cf_unit = ''MJ'', cf_inputs = [''a''], cf_version = ''v1'' \<rparr> = {''a''}"
  by code_simp

lemma sample_value:
  "formula_value int_api \<lparr> cf_id = ''m'', cf_key = ''x'', cf_expression = ''a*2'', cf_unit = ''MJ'', cf_inputs = [''a''], cf_version = ''v1'' \<rparr>
     (eval_ctx [(''a'', \<lparr> cv_value = VNum 7, cv_unit = Some ''kWh'' \<rparr>)] [] 1) = Some 14"
  by code_simp

lemma sample_order:
  "topo_sort_formulas [\<lparr> cf_id = ''m'', cf_key = ''x'', cf_expression = ''a*2'', cf_unit = ''MJ'', cf_inputs = [''a''], cf_version = ''v1'' \<rparr>] =
     Inr [\<lparr> cf_id = ''m'', cf_key = ''x'', cf_expression = ''a*2'', cf_unit = ''MJ'', cf_inputs = [''a''], cf_version = ''v1'' \<rparr>]"
  by code_simp

lemmas sample_calc_simps = process_run_def calc_inputs_def sample_job_def sample_cdb_def sample_run_def sample_input_def
  sample_formulas sample_order required_keys_def add_new_def run_input_def Let_def object_prototype_def own_get_def

lemma sample_find:
  "find_first (\<lambda>r. cr_id r = cj_run sample_job \<and> cr_tenant r = cj_tenant sample_job) (c_runs (sample_cdb es [sample_run])) = Some sample_run"
  by (simp add: sample_job_def sample_cdb_def sample_run_def)

lemma int_api_sel: "d_plus int_api = (+)" "d_of_int int_api n = n"
  by (simp_all add: int_api_def)

lemma sample_filter:
  "filter (run_input sample_run [''a'']) [sample_input ''i'' ''t'' 7] = [sample_input ''i'' ''t'' 7]"
  by (simp add: run_input_def sample_run_def sample_input_def)

lemma sample_sum:
  "sum_inputs int_api [sample_input ''i'' ''t'' 7] [] = Inr [(''a'', \<lparr> cv_value = VNum 7, cv_unit = Some ''kWh'' \<rparr>)]"
  by (simp add: sample_input_def own_get_def object_prototype_def int_api_sel)

lemma sample_inputs:
  "calc_inputs int_api sample_run (cj_outputs sample_job) (sample_cdb [sample_input ''i'' ''t'' 7] [sample_run]) =
     Inr ([\<lparr> cf_id = ''m'', cf_key = ''x'', cf_expression = ''a*2'', cf_unit = ''MJ'', cf_inputs = [''a''], cf_version = ''v1'' \<rparr>],
       [(''a'', \<lparr> cv_value = VNum 7, cv_unit = Some ''kWh'' \<rparr>)])"
  by (simp add: calc_inputs_def sample_job_def sample_cdb_def sample_formulas sample_order sample_filter sample_sum
      required_keys_def add_new_def Let_def del: filter.simps sum_inputs.simps)

lemma sample_loop:
  "\<exists>s. job_loop int_api (calc_env ''e'') sample_job (sample_cdb [sample_input ''i'' ''t'' 7] [sample_run]) sample_run
     [\<lparr> cf_id = ''m'', cf_key = ''x'', cf_expression = ''a*2'', cf_unit = ''MJ'', cf_inputs = [''a''], cf_version = ''v1'' \<rparr>]
     [(''a'', \<lparr> cv_value = VNum 7, cv_unit = Some ''kWh'' \<rparr>)] = Inr s \<and> map me_value (cs_events s) = [14]"
  by (simp add: job_loop_def sample_cdb_def sample_run_def sample_job_def calc_start_def factor_context_def
      period_days_def ms_day_def calc_step_def sample_value Let_def)

lemma sample_process:
  "fst (process_run int_api (calc_env ''e'') 5 sample_job (sample_cdb [sample_input ''i'' ''t'' 7] [sample_run])) = Inr ()"
  "map me_value (c_events (snd (process_run int_api (calc_env ''e'') 5 sample_job (sample_cdb [sample_input ''i'' ''t'' 7] [sample_run])))) = [7, 14]"
  using sample_loop by (auto simp: process_run_eq[OF sample_find] sample_inputs) (simp add: sample_cdb_def sample_input_def)

theorem calc_solves_witness:
  "\<exists>ordered ctx. \<exists>new :: int metric_event list. calc_inputs int_api sample_run [''x''] (sample_cdb [sample_input ''i'' ''t'' 7] [sample_run]) = Inr (ordered, ctx) \<and>
     map me_value new = [14 :: int] \<and> cf_key ` set ordered = {''x''}"
proof -
  have "\<forall>f\<in>set (resolve_formulas (cj_outputs sample_job) (c_mappings (sample_cdb [sample_input ''i'' ''t'' 7] [sample_run]))).
     formula_refs int_api f \<inter> cf_key ` set (resolve_formulas (cj_outputs sample_job) (c_mappings (sample_cdb [sample_input ''i'' ''t'' 7] [sample_run])))
       \<subseteq> set (cf_inputs f)"
    by (simp add: sample_job_def sample_cdb_def sample_formulas sample_refs)
  from calc_solves[OF sample_find this sample_process(1)] obtain ordered ctx new where
    o: "calc_inputs int_api sample_run (cj_outputs sample_job) (sample_cdb [sample_input ''i'' ''t'' 7] [sample_run]) = Inr (ordered, ctx)"
    "c_events (snd (process_run int_api (calc_env ''e'') 5 sample_job (sample_cdb [sample_input ''i'' ''t'' 7] [sample_run]))) =
       c_events (sample_cdb [sample_input ''i'' ''t'' 7] [sample_run]) @ new"
    "cf_key ` set ordered = cf_key ` set (resolve_formulas (cj_outputs sample_job) (c_mappings (sample_cdb [sample_input ''i'' ''t'' 7] [sample_run])))"
    by blast
  have v: "map me_value new = [14]" using sample_process(2) unfolding o(2) by (simp add: sample_cdb_def sample_input_def)
  have k: "cf_key ` set ordered = {''x''}" unfolding o(3) by (simp add: sample_job_def sample_cdb_def sample_formulas)
  have "cj_outputs sample_job = [''x'']" by (simp add: sample_job_def)
  from o(1)[unfolded this] v k show ?thesis by (intro exI[of _ ordered] exI[of _ ctx] exI[of _ new] conjI)
qed

theorem calc_isolated_witness:
  "fst (process_run int_api (calc_env ''e'') 5 sample_job (sample_cdb [sample_input ''i'' ''t'' 7, sample_input ''k'' ''v'' 100] [sample_run])) = Inr ()"
proof -
  have "fst (process_run int_api (calc_env ''e'') 5 sample_job (sample_cdb [sample_input ''i'' ''t'' 7, sample_input ''k'' ''v'' 100] [sample_run])) =
    fst (process_run int_api (calc_env ''e'') 5 sample_job (sample_cdb [sample_input ''i'' ''t'' 7] [sample_run]))"
    by (rule calc_isolated[OF sample_find, THEN conjunct1]) (simp_all add: sample_cdb_def sample_input_def sample_run_def)
  then show ?thesis by (simp only: sample_process(1))
qed

theorem calc_retry_duplicates_witness:
  "fst (process_run int_api (calc_env ''f'') 6 sample_job
     (snd (process_run int_api (calc_env ''e'') 5 sample_job (sample_cdb [sample_input ''i'' ''t'' 7] [sample_run])))) = Inr ()"
  by (rule calc_retry_duplicates[OF sample_find _ _ sample_process(1), THEN conjunct1])
    (simp_all add: sample_job_def sample_cdb_def sample_formulas required_keys_def add_new_def)

theorem calc_outputs_unsigned_witness:
  "\<exists>new. c_events (snd (process_run int_api (calc_env ''e'') 5 sample_job (sample_cdb [sample_input ''i'' ''t'' 7] [sample_run]))) =
     [sample_input ''i'' ''t'' 7] @ new \<and> map me_value new = [14] \<and> (\<forall>e\<in>set new. \<not> signed_off e)"
proof -
  obtain new where "c_events (snd (process_run int_api (calc_env ''e'') 5 sample_job (sample_cdb [sample_input ''i'' ''t'' 7] [sample_run]))) =
     [sample_input ''i'' ''t'' 7] @ new" "\<forall>e\<in>set new. \<not> signed_off e"
    using calc_outputs_unsigned[OF sample_find, of int_api "calc_env ''e''" 5 "[sample_input ''i'' ''t'' 7]"]
    by (auto simp: sample_cdb_def)
  with sample_process(2) show ?thesis by auto
qed

definition sample_window :: "string option \<Rightarrow> run_dto" where
  "sample_window k = \<lparr> rd_start = 0, rd_end = 1, rd_scopes = Some [''n1''], rd_outputs = Some [''x''], rd_key = k \<rparr>"

text \<open>A failing run: two approved inputs of one key in different units.\<close>

definition mixed_inputs :: "int metric_event list" where
  "mixed_inputs = [sample_input ''i'' ''t'' 7, (sample_input ''k'' ''t'' 7) \<lparr> me_unit := ''MWh'' \<rparr>]"

theorem calc_failure_clean_witness:
  "c_events (snd (process_run int_api (calc_env ''f'') 5 (sample_job \<lparr> cj_run := ''ei'' \<rparr>)
     (snd (start_run int_api (calc_env ''e'') ''t'' (sample_window None) ''u'' ''GENERAL'' (sample_cdb mixed_inputs []))))) = mixed_inputs"
proof -
  have c: "c_events (sample_cdb mixed_inputs []) = mixed_inputs" by (simp add: sample_cdb_def)
  have "\<exists>r. fst (start_run int_api (calc_env ''e'') ''t'' (sample_window None) ''u'' ''GENERAL'' (sample_cdb mixed_inputs [])) = Inr r \<and> cr_id r = ''ei''"
    by (simp add: start_run_def run_scopes_def sample_window_def sample_cdb_def new_run_def calc_env_def Let_def)
  then obtain r where r: "fst (start_run int_api (calc_env ''e'') ''t'' (sample_window None) ''u'' ''GENERAL'' (sample_cdb mixed_inputs [])) = Inr r"
    "cr_id r = ''ei''" by blast
  have f: "fst (process_run int_api (calc_env ''f'') 5 (sample_job \<lparr> cj_run := ''ei'' \<rparr>)
     (snd (start_run int_api (calc_env ''e'') ''t'' (sample_window None) ''u'' ''GENERAL'' (sample_cdb mixed_inputs [])))) =
     Inl ''Unit mismatch for a: kWh vs MWh. Normalise at ingest.''"
    by (simp add: sample_calc_simps start_run_def run_scopes_def sample_window_def new_run_def calc_env_def mixed_inputs_def
        unit_mismatch_def unit_text_def)
  show ?thesis
    using calc_failure_clean[OF r(1) _ _ _ f] r(2) c by (simp add: sample_job_def sample_cdb_def)
qed

theorem calc_idempotency_key_witness:
  "length (c_runs (snd (start_run int_api (calc_env ''f'') ''t'' (sample_window (Some ''k'')) ''u'' ''GENERAL''
     (snd (start_run int_api (calc_env ''e'') ''t'' (sample_window (Some ''k'')) ''u'' ''GENERAL'' (sample_cdb [] [])))))) = 2"
proof -
  have "\<exists>r. fst (start_run int_api (calc_env ''e'') ''t'' (sample_window (Some ''k'')) ''u'' ''GENERAL'' (sample_cdb [] [])) = Inr r"
    "\<exists>r. fst (start_run int_api (calc_env ''f'') ''t'' (sample_window (Some ''k'')) ''u'' ''GENERAL''
       (snd (start_run int_api (calc_env ''e'') ''t'' (sample_window (Some ''k'')) ''u'' ''GENERAL'' (sample_cdb [] [])))) = Inr r"
    "length (c_runs (snd (start_run int_api (calc_env ''e'') ''t'' (sample_window (Some ''k'')) ''u'' ''GENERAL'' (sample_cdb [] [])))) = 1"
    by (simp_all add: start_run_def run_scopes_def sample_window_def sample_cdb_def new_run_def Let_def)
  then obtain r r' where r: "fst (start_run int_api (calc_env ''e'') ''t'' (sample_window (Some ''k'')) ''u'' ''GENERAL'' (sample_cdb [] [])) = Inr r"
    "fst (start_run int_api (calc_env ''f'') ''t'' (sample_window (Some ''k'')) ''u'' ''GENERAL''
       (snd (start_run int_api (calc_env ''e'') ''t'' (sample_window (Some ''k'')) ''u'' ''GENERAL'' (sample_cdb [] [])))) = Inr r'"
    and l: "length (c_runs (snd (start_run int_api (calc_env ''e'') ''t'' (sample_window (Some ''k'')) ''u'' ''GENERAL'' (sample_cdb [] [])))) = 1"
    by blast
  have "rd_key (sample_window (Some ''k'')) = Some ''k''" by (simp add: sample_window_def)
  from calc_idempotency_key[OF this _ r] l show ?thesis by simp
qed

end
