(* ===== verification/Iam.thy ===== *)
theory Iam
  imports Audit_Log Calendar
begin

text \<open>
  Identity and access (services/api/src/iam/iam.service.ts): password login with lockout, refresh
  tokens with rotation and reuse detection, users, roles and role assignments.

  The JWT library, bcrypt and Keycloak are outside the repository: \<open>jwt_api\<close> signs and verifies
  claims, \<open>bcrypt\<close> compares a password with a hash, and what Keycloak answers is an argument.
  The module-level maps of the service (failed logins, refresh tokens, revoked families) are part
  of the state.
\<close>

section \<open>Data\<close>

record iam_config =
  ic_secret :: "string option"
  ic_production :: bool
  ic_max_failed :: nat
  ic_lock_minutes :: int
  ic_access_ttl :: int
  ic_refresh_ttl :: int

record jwt_claims =
  jc_sub :: string
  jc_email :: "string option"
  jc_tenant :: "string option"
  jc_type :: "string option"
  jc_jti :: "string option"
  jc_fam :: "string option"
  jc_exp :: int

text \<open>
  Signing with the issuer brsr-api, and verifying signature, issuer and expiry at a time.
\<close>

record jwt_api =
  jw_sign :: "string \<Rightarrow> jwt_claims \<Rightarrow> string"
  jw_verify :: "string \<Rightarrow> int \<Rightarrow> string \<Rightarrow> jwt_claims option"

record iam_user =
  us_id :: string
  us_tenant :: string
  us_subject :: string
  us_email :: string
  us_hash :: "string option"
  us_first :: "string option"
  us_last :: "string option"
  us_login :: "int option"
  us_active :: bool
  us_created :: int

record iam_role =
  ro_id :: string
  ro_tenant :: string
  ro_name :: string
  ro_system :: bool
  ro_permissions :: "string list"

record role_assignment =
  ra_id :: string
  ra_user :: string
  ra_role :: string
  ra_scope :: "string option"
  ra_by :: string
  ra_expires :: "int option"

datatype iam_snap =
    SnapUser iam_user
  | SnapEmail string
  | SnapRole iam_role
  | SnapAssignment role_assignment
  | SnapFailed string nat bool
  | SnapNote string

record refresh_entry =
  re_user :: string
  re_fam :: string
  re_revoked :: bool

record idb =
  i_users :: "iam_user list"
  i_roles :: "iam_role list"
  i_assignments :: "role_assignment list"
  i_nodes :: "(string \<times> string) list"
  i_failed :: "(string \<times> (nat \<times> int)) list"
  i_jtis :: "(string \<times> refresh_entry) list"
  i_families :: "string list"
  i_audit :: "iam_snap audit_row list"

section \<open>Sign-in\<close>

definition jwt_secret :: "iam_config \<Rightarrow> string outcome" where
  "jwt_secret cfg =
     (let s = (case ic_secret cfg of None \<Rightarrow> [] | Some s \<Rightarrow> s) in
      if length s < 32 then
        (if ic_production cfg
         then Inl (ServiceUnavailable ''JWT_SECRET is missing or too short (need >= 32 chars). Refusing to sign tokens.'')
         else Inr (case ic_secret cfg of None \<Rightarrow> ''dev-secret-change-me-min-32-characters-long!!'' | Some s \<Rightarrow> s))
      else Inr s)"

definition lock_key :: "string \<Rightarrow> string" where
  "lock_key email = js_lower (js_trim email)"

definition find_login :: "string \<Rightarrow> idb \<Rightarrow> iam_user option" where
  "find_login email db = find_first (\<lambda>u. us_email u = email \<and> us_active u) (i_users db)"

definition user_audit :: "env \<Rightarrow> string option \<Rightarrow> string option \<Rightarrow> string option \<Rightarrow> string \<Rightarrow> iam_snap option \<Rightarrow> idb \<Rightarrow> idb" where
  "user_audit E t u i verb mt db = db \<lparr> i_audit := audit_log E
     \<lparr> ai_tenant = t, ai_user = u, ai_entity = ''User'', ai_entity_id = i, ai_action = verb,
       ai_before = None, ai_after = None, ai_meta = mt \<rparr> (i_audit db) \<rparr>"

text \<open>\<open>recordFailure\<close>: count, lock at the limit, audit under the user's tenant if there is a user.\<close>

definition record_failure :: "iam_config \<Rightarrow> env \<Rightarrow> string \<Rightarrow> iam_user option \<Rightarrow> string \<Rightarrow> idb \<Rightarrow> idb" where
  "record_failure cfg E email user reason db =
     (let n = (case map_of (i_failed db) (lock_key email) of None \<Rightarrow> 0 | Some (c, _) \<Rightarrow> c) + 1;
          locked = (n \<ge> ic_max_failed cfg);
          db' = db \<lparr> i_failed := upsert (lock_key email)
            (n, if locked then ev_now E + ic_lock_minutes cfg * 60000 else 0) (i_failed db) \<rparr>
      in user_audit E (map_option us_tenant user) (map_option us_id user) (map_option us_id user) ''login''
           (Some (SnapFailed reason n locked)) db')"

definition access_claims :: "iam_config \<Rightarrow> env \<Rightarrow> iam_user \<Rightarrow> jwt_claims" where
  "access_claims cfg E u = \<lparr> jc_sub = us_id u, jc_email = Some (us_email u), jc_tenant = Some (us_tenant u),
     jc_type = None, jc_jti = None, jc_fam = None, jc_exp = ev_now E + ic_access_ttl cfg \<rparr>"

definition refresh_claims :: "iam_config \<Rightarrow> env \<Rightarrow> iam_user \<Rightarrow> string \<Rightarrow> string \<Rightarrow> jwt_claims" where
  "refresh_claims cfg E u jti fam = \<lparr> jc_sub = us_id u, jc_email = None, jc_tenant = None,
     jc_type = Some ''refresh'', jc_jti = Some jti, jc_fam = Some fam, jc_exp = ev_now E + ic_refresh_ttl cfg \<rparr>"

record token_pair =
  tp_access :: string
  tp_refresh :: string

text \<open>Minutes until the end of the lock, rounded up.\<close>

definition lock_minutes_left :: "int \<Rightarrow> int \<Rightarrow> int" where
  "lock_minutes_left till now = - ((now - till) div 60000)"

text \<open>
  A login waits for the user query and for bcrypt, and other requests run meanwhile. The lockout
  check before and what follows the comparison are separate steps; the second one works on the
  user that the query found.
\<close>

definition login_check :: "env \<Rightarrow> string \<Rightarrow> string \<Rightarrow> idb \<Rightarrow> unit outcome" where
  "login_check E email password db =
     (if email = [] \<or> password = [] then Inl (BadRequest ''email and password required'')
      else case map_of (i_failed db) (lock_key email) of
        Some (c, till) \<Rightarrow>
          if till > ev_now E
          then Inl (Forbidden (''Account locked. Try again in ~'' @ show_int (lock_minutes_left till (ev_now E)) @ '' min.''))
          else Inr ()
      | None \<Rightarrow> Inr ())"

definition login_finish ::
  "iam_config \<Rightarrow> jwt_api \<Rightarrow> (string \<Rightarrow> string \<Rightarrow> bool) \<Rightarrow> env \<Rightarrow> string \<Rightarrow> string \<Rightarrow> iam_user option \<Rightarrow> idb \<Rightarrow> token_pair outcome \<times> idb" where
  "login_finish cfg J bcrypt E email password user db =
     (case user of
        None \<Rightarrow> (Inl (Unauthorized ''Invalid credentials''), record_failure cfg E email None ''user_not_found'' db)
      | Some u \<Rightarrow>
          (case us_hash u of
             None \<Rightarrow> (Inl (Unauthorized ''Credentials login not enabled for this user''),
                      record_failure cfg E email (Some u) ''no_password_hash'' db)
           | Some h \<Rightarrow>
               if h = [] then (Inl (Unauthorized ''Credentials login not enabled for this user''),
                      record_failure cfg E email (Some u) ''no_password_hash'' db)
               else if \<not> bcrypt password h
               then (Inl (Unauthorized ''Invalid credentials''), record_failure cfg E email (Some u) ''bad_password'' db)
               else (let cleared = db \<lparr> i_failed := filter (\<lambda>(k, _). k \<noteq> lock_key email) (i_failed db) \<rparr> in
                 case jwt_secret cfg of
                   Inl e \<Rightarrow> (Inl e, cleared)
                 | Inr secret \<Rightarrow>
                     (let jti = ev_ids E 1; fam = ev_ids E 2;
                          db1 = cleared \<lparr> i_jtis := upsert jti \<lparr> re_user = us_id u, re_fam = fam, re_revoked = False \<rparr> (i_jtis cleared),
                            i_users := update_where (\<lambda>x. us_id x = us_id u) (\<lambda>x. x \<lparr> us_login := Some (ev_now E) \<rparr>) (i_users cleared) \<rparr>
                      in (Inr \<lparr> tp_access = jw_sign J secret (access_claims cfg E u),
                                tp_refresh = jw_sign J secret (refresh_claims cfg E u jti fam) \<rparr>,
                          user_audit E (Some (us_tenant u)) (Some (us_id u)) (Some (us_id u)) ''login'' None db1)))))"

text \<open>A login that nothing overlaps.\<close>

definition login ::
  "iam_config \<Rightarrow> jwt_api \<Rightarrow> (string \<Rightarrow> string \<Rightarrow> bool) \<Rightarrow> env \<Rightarrow> string \<Rightarrow> string \<Rightarrow> idb \<Rightarrow> token_pair outcome \<times> idb" where
  "login cfg J bcrypt E email password db =
     (case login_check E email password db of
        Inl e \<Rightarrow> (Inl e, db)
      | Inr _ \<Rightarrow> login_finish cfg J bcrypt E email password (find_login email db) db)"

section \<open>Refresh and logout\<close>

text \<open>
  \<open>refreshToken\<close> waits once, for the database to answer the user query. The checks before and
  the rotation after are separate steps, between which other requests run; the answer is the
  one of the second step. (The dash of the reuse message is written as a comma.)
\<close>

definition refresh_begin :: "iam_config \<Rightarrow> jwt_api \<Rightarrow> env \<Rightarrow> string \<Rightarrow> idb \<Rightarrow> (string \<times> jwt_claims) outcome \<times> idb" where
  "refresh_begin cfg J E token db =
     (case jwt_secret cfg of
        Inl e \<Rightarrow> (Inl e, db)
      | Inr secret \<Rightarrow>
          (case jw_verify J secret (ev_now E) token of
             None \<Rightarrow> (Inl (Unauthorized ''Invalid or expired refresh token''), db)
           | Some c \<Rightarrow>
               (case (jc_type c, jc_jti c, jc_fam c) of
                  (Some ty, Some jti, Some fam) \<Rightarrow>
                    if ty \<noteq> ''refresh'' \<or> jti = [] \<or> fam = [] then (Inl (Unauthorized ''Invalid refresh token''), db)
                    else if fam \<in> set (i_families db) then (Inl (Unauthorized ''Refresh token family revoked''), db)
                    else (case map_of (i_jtis db) jti of
                        None \<Rightarrow> (Inl (Unauthorized ''Refresh token not recognised''), db)
                      | Some e \<Rightarrow>
                          if re_revoked e
                          then (Inl (Unauthorized ''Refresh token reuse detected, please re-authenticate''),
                                db \<lparr> i_families := fam # i_families db \<rparr>)
                          else (Inr (secret, c), db))
                | _ \<Rightarrow> (Inl (Unauthorized ''Invalid refresh token''), db))))"

definition refresh_finish ::
  "iam_config \<Rightarrow> jwt_api \<Rightarrow> env \<Rightarrow> string \<times> jwt_claims \<Rightarrow> idb \<Rightarrow> token_pair outcome \<times> idb" where
  "refresh_finish cfg J E sc db =
     (let secret = fst sc; c = snd sc;
          jti = (case jc_jti c of None \<Rightarrow> [] | Some x \<Rightarrow> x); fam = (case jc_fam c of None \<Rightarrow> [] | Some x \<Rightarrow> x)
      in case find_first (\<lambda>u. us_id u = jc_sub c) (i_users db) of
           None \<Rightarrow> (Inl (Unauthorized ''User not found or inactive''), db)
         | Some u \<Rightarrow>
             if \<not> us_active u then (Inl (Unauthorized ''User not found or inactive''), db)
             else (let entry = (case map_of (i_jtis db) jti of None \<Rightarrow> \<lparr> re_user = us_id u, re_fam = fam, re_revoked = False \<rparr> | Some e \<Rightarrow> e);
                       jtis = upsert (ev_ids E 1) \<lparr> re_user = us_id u, re_fam = fam, re_revoked = False \<rparr>
                                (upsert jti (entry \<lparr> re_revoked := True \<rparr>) (i_jtis db))
                   in (Inr \<lparr> tp_access = jw_sign J secret (access_claims cfg E u),
                             tp_refresh = jw_sign J secret (refresh_claims cfg E u (ev_ids E 1) fam) \<rparr>,
                       db \<lparr> i_jtis := jtis \<rparr>)))"

definition refresh_token :: "iam_config \<Rightarrow> jwt_api \<Rightarrow> env \<Rightarrow> string \<Rightarrow> idb \<Rightarrow> token_pair outcome \<times> idb" where
  "refresh_token cfg J E token db =
     (case refresh_begin cfg J E token db of
        (Inl e, db') \<Rightarrow> (Inl e, db')
      | (Inr sc, db') \<Rightarrow> refresh_finish cfg J E sc db')"

text \<open>Logout revokes the family of any valid token and never fails.\<close>

definition logout :: "iam_config \<Rightarrow> jwt_api \<Rightarrow> env \<Rightarrow> string option \<Rightarrow> idb \<Rightarrow> idb" where
  "logout cfg J E token db =
     (case token of
        None \<Rightarrow> db
      | Some t \<Rightarrow>
          if t = [] then db
          else (case jwt_secret cfg of
             Inl e \<Rightarrow> db
           | Inr secret \<Rightarrow>
               (case jw_verify J secret (ev_now E) t of
                  None \<Rightarrow> db
                | Some c \<Rightarrow> (case jc_fam c of None \<Rightarrow> db
                    | Some fam \<Rightarrow> if fam = [] then db else db \<lparr> i_families := fam # i_families db \<rparr>))))"

section \<open>Users\<close>

text \<open>The unique indices on the identity subject and on tenant and email.\<close>

definition email_taken :: "string \<Rightarrow> string \<Rightarrow> string \<Rightarrow> iam_user list \<Rightarrow> bool" where
  "email_taken t email i users = (\<exists>u\<in>set users. us_tenant u = t \<and> us_email u = email \<and> us_id u \<noteq> i)"

definition space_parts :: "string \<Rightarrow> string option \<times> string option" where
  "space_parts name = (let ps = split_on CHR '' '' name in
     (Some (hd ps), if length ps > 1 then Some (join_with CHR '' '' (tl ps)) else None))"

definition insert_user :: "iam_user \<Rightarrow> idb \<Rightarrow> iam_user outcome \<times> idb" where
  "insert_user u db =
     (if email_taken (us_tenant u) (us_email u) (us_id u) (i_users db) then (Inl (PrismaError ''P2002''), db)
      else (Inr u, db \<lparr> i_users := i_users db @ [u] \<rparr>))"

record kc_claims =
  kc_tenant :: "string option"
  kc_sub :: string
  kc_email :: "string option"
  kc_preferred :: "string option"
  kc_name :: "string option"

text \<open>
  The code exchange: \<open>tokens\<close> is the decoded access token of Keycloak's answer, \<open>None\<close> when it
  cannot be decoded.
\<close>

definition claims_email :: "kc_claims \<Rightarrow> string" where
  "claims_email c = (case kc_email c of Some e \<Rightarrow> e | None \<Rightarrow> (case kc_preferred c of Some e \<Rightarrow> e | None \<Rightarrow> []))"

definition provision_user :: "env \<Rightarrow> string \<Rightarrow> kc_claims \<Rightarrow> idb \<Rightarrow> iam_user outcome \<times> idb" where
  "provision_user E t c db =
     (case find_first (\<lambda>u. us_subject u = kc_sub c) (i_users db) of
        Some u \<Rightarrow>
          if email_taken (us_tenant u) (claims_email c) (us_id u) (i_users db) then (Inl (PrismaError ''P2002''), db)
          else (let f = (\<lambda>x. x \<lparr> us_email := claims_email c, us_login := Some (ev_now E) \<rparr>)
                in (Inr (f u), db \<lparr> i_users := update_where (\<lambda>x. us_id x = us_id u) f (i_users db) \<rparr>))
      | None \<Rightarrow>
          (let ps = space_parts (case kc_name c of Some n \<Rightarrow> n | None \<Rightarrow> claims_email c)
           in insert_user \<lparr> us_id = ev_ids E 1, us_tenant = t, us_subject = kc_sub c, us_email = claims_email c,
                us_hash = None, us_first = fst ps, us_last = snd ps, us_login = None, us_active = True,
                us_created = ev_now E \<rparr> db))"

definition exchange_code :: "env \<Rightarrow> kc_claims option \<Rightarrow> idb \<Rightarrow> iam_user outcome \<times> idb" where
  "exchange_code E tokens db =
     (case tokens of
        None \<Rightarrow> (Inl (BadRequest ''Could not decode access token''), db)
      | Some c \<Rightarrow>
          (case kc_tenant c of
             None \<Rightarrow> (Inl (BadRequest ''Token missing tenant_id claim''), db)
           | Some t \<Rightarrow>
               if t = [] then (Inl (BadRequest ''Token missing tenant_id claim''), db)
               else (case provision_user E t c db of
                   (Inl e, db') \<Rightarrow> (Inl e, db')
                 | (Inr u, db') \<Rightarrow> (Inr u, user_audit E (Some t) (Some (us_id u)) (Some (us_id u)) ''LOGIN'' None db'))))"

text \<open>\<open>me\<close>: the user without the password hash, and the assignments with their roles.\<close>

definition me_view :: "string \<Rightarrow> idb \<Rightarrow> (iam_user \<times> (role_assignment \<times> iam_role) list) outcome" where
  "me_view i db =
     (case find_first (\<lambda>u. us_id u = i) (i_users db) of
        None \<Rightarrow> Inl (NotFound ''User not found'')
      | Some u \<Rightarrow> Inr (u \<lparr> us_hash := None \<rparr>,
          List.map_filter (\<lambda>a. map_option (Pair a) (find_first (\<lambda>r. ro_id r = ra_role a) (i_roles db)))
            (filter (\<lambda>a. ra_user a = i) (i_assignments db))))"

fun contains_text :: "string \<Rightarrow> string \<Rightarrow> bool" where
  "contains_text q [] = (q = [])"
| "contains_text q (c # s) = (starts_with (c # s) q \<or> contains_text q s)"

definition matches_text :: "string \<Rightarrow> string option \<Rightarrow> bool" where
  "matches_text q v = (case v of None \<Rightarrow> False | Some s \<Rightarrow> contains_text (js_lower q) (js_lower s))"

definition list_users :: "string \<Rightarrow> string option \<Rightarrow> int \<Rightarrow> int \<Rightarrow> idb \<Rightarrow> iam_user list" where
  "list_users t q n k db =
     map (\<lambda>u. u \<lparr> us_hash := None \<rparr>) (take (nat (clamp_take 200 n)) (drop (nat (clamp_skip k))
       (sort_key (\<lambda>u. - us_created u) (filter (\<lambda>u. us_tenant u = t \<and>
         (case q of None \<Rightarrow> True | Some s \<Rightarrow> s = [] \<or> matches_text s (Some (us_email u)) \<or>
            matches_text s (us_first u) \<or> matches_text s (us_last u))) (i_users db)))))"

text \<open>
  \<open>kc\<close> is the subject Keycloak gives for the address (found or provisioned, with the mail sent),
  or \<open>None\<close> when one of these calls fails.
\<close>

definition invited_user :: "env \<Rightarrow> string \<Rightarrow> string \<Rightarrow> string \<Rightarrow> string option \<Rightarrow> string option \<Rightarrow> idb \<Rightarrow> iam_user outcome \<times> idb" where
  "invited_user E t subject email fname lname db =
     (case find_first (\<lambda>u. us_subject u = subject) (i_users db) of
        Some u \<Rightarrow> (Inr u, db)
      | None \<Rightarrow> insert_user \<lparr> us_id = ev_ids E 1, us_tenant = t, us_subject = subject, us_email = email, us_hash = None,
          us_first = fname, us_last = lname, us_login = None, us_active = True, us_created = ev_now E \<rparr> db)"

definition invite_user ::
  "env \<Rightarrow> string \<Rightarrow> string option \<Rightarrow> string \<Rightarrow> string option \<Rightarrow> string option \<Rightarrow> string \<Rightarrow> idb \<Rightarrow> iam_user outcome \<times> idb" where
  "invite_user E t kc email fname lname actor db =
     (case invited_user E t (case kc of Some i \<Rightarrow> i | None \<Rightarrow> ''local:'' @ email) email fname lname db of
        (Inl e, db') \<Rightarrow> (Inl e, db')
      | (Inr u, db') \<Rightarrow> (Inr u, db' \<lparr> i_audit := audit_log E (audit_entry t actor ''User'' (Some (us_id u)) ''CREATE''
          None (Some (SnapEmail email)) (Some (SnapNote ''invited''))) (i_audit db') \<rparr>))"

record user_patch =
  up_email :: "string option"
  up_first :: "string option"
  up_last :: "string option"
  up_display :: "string option"
  up_active :: "bool option"

definition patch_user :: "user_patch \<Rightarrow> iam_user \<Rightarrow> iam_user" where
  "patch_user p u = (let ps = space_parts (case up_display p of None \<Rightarrow> [] | Some n \<Rightarrow> n) in
     u \<lparr> us_email := (case up_email p of None \<Rightarrow> us_email u | Some e \<Rightarrow> e),
         us_first := (if up_display p \<noteq> None then fst ps else if up_first p \<noteq> None then up_first p else us_first u),
         us_last := (if up_display p \<noteq> None then snd ps else if up_last p \<noteq> None then up_last p else us_last u),
         us_active := (case up_active p of None \<Rightarrow> us_active u | Some b \<Rightarrow> b) \<rparr>)"

definition update_user :: "env \<Rightarrow> string \<Rightarrow> string \<Rightarrow> user_patch \<Rightarrow> string \<Rightarrow> idb \<Rightarrow> iam_user outcome \<times> idb" where
  "update_user E t i p actor db =
     (case find_first (\<lambda>u. us_id u = i \<and> us_tenant u = t) (i_users db) of
        None \<Rightarrow> (Inl (NotFound ''User not found''), db)
      | Some u \<Rightarrow>
          if email_taken t (us_email (patch_user p u)) i (i_users db) then (Inl (PrismaError ''P2002''), db)
          else (Inr (patch_user p u), db \<lparr> i_users := update_where (\<lambda>x. us_id x = i) (patch_user p) (i_users db),
                 i_audit := audit_log E (audit_entry t actor ''User'' (Some i) ''UPDATE'' (Some (SnapUser u))
                   (Some (SnapUser (patch_user p u))) None) (i_audit db) \<rparr>))"

text \<open>Deactivation in Keycloak is attempted afterwards; its failure is only logged.\<close>

definition deactivate_user :: "env \<Rightarrow> string \<Rightarrow> string \<Rightarrow> string \<Rightarrow> idb \<Rightarrow> unit outcome \<times> idb" where
  "deactivate_user E t i actor db =
     (case find_first (\<lambda>u. us_id u = i \<and> us_tenant u = t) (i_users db) of
        None \<Rightarrow> (Inl (NotFound ''User not found''), db)
      | Some u \<Rightarrow> (Inr (), db \<lparr> i_users := update_where (\<lambda>x. us_id x = i) (\<lambda>x. x \<lparr> us_active := False \<rparr>) (i_users db),
          i_audit := audit_log E (audit_entry t actor ''User'' (Some i) ''DELETE'' None None None) (i_audit db) \<rparr>))"

section \<open>Roles\<close>

text \<open>System roles first, then by name.\<close>

definition list_roles :: "string \<Rightarrow> idb \<Rightarrow> iam_role list" where
  "list_roles t db = sort_key (\<lambda>r. if ro_system r then 0 else (1 :: nat)) (sort_key ro_name (filter (\<lambda>r. ro_tenant r = t) (i_roles db)))"

definition create_role :: "env \<Rightarrow> string \<Rightarrow> string \<Rightarrow> string list \<Rightarrow> string \<Rightarrow> idb \<Rightarrow> iam_role outcome \<times> idb" where
  "create_role E t name perms actor db =
     (if \<exists>r\<in>set (i_roles db). ro_tenant r = t \<and> ro_name r = name then (Inl (PrismaError ''P2002''), db)
      else (let r = \<lparr> ro_id = ev_ids E 1, ro_tenant = t, ro_name = name, ro_system = False, ro_permissions = perms \<rparr>
            in (Inr r, db \<lparr> i_roles := i_roles db @ [r],
                  i_audit := audit_log E (audit_entry t actor ''Role'' (Some (ro_id r)) ''CREATE'' None (Some (SnapRole r)) None)
                    (i_audit db) \<rparr>)))"

text \<open>
  The unique index on user, role and node does not compare absent nodes: the database takes two
  NULLs for different.
\<close>

definition assign_role :: "env \<Rightarrow> string \<Rightarrow> string \<Rightarrow> string \<Rightarrow> string option \<Rightarrow> string \<Rightarrow> idb \<Rightarrow> role_assignment outcome \<times> idb" where
  "assign_role E t user role scope actor db =
     (if find_first (\<lambda>r. ro_id r = role \<and> ro_tenant r = t) (i_roles db) = None
      then (Inl (NotFound ''Role not found in this tenant''), db)
      else if find_first (\<lambda>u. us_id u = user \<and> us_tenant u = t) (i_users db) = None
      then (Inl (NotFound ''User not found in this tenant''), db)
      else if (case scope of None \<Rightarrow> False | Some s \<Rightarrow> s \<noteq> [] \<and> (s, t) \<notin> set (i_nodes db))
      then (Inl (NotFound ''Scope node not found in this tenant''), db)
      else if (case scope of None \<Rightarrow> False | Some s \<Rightarrow> s \<notin> set (map fst (i_nodes db)))
      then (Inl (PrismaError ''P2003''), db)
      else if scope \<noteq> None \<and> (\<exists>a\<in>set (i_assignments db). ra_user a = user \<and> ra_role a = role \<and> ra_scope a = scope)
      then (Inl (PrismaError ''P2002''), db)
      else (let a = \<lparr> ra_id = ev_ids E 1, ra_user = user, ra_role = role, ra_scope = scope, ra_by = actor, ra_expires = None \<rparr>
            in (Inr a, db \<lparr> i_assignments := i_assignments db @ [a],
                  i_audit := audit_log E (audit_entry t actor ''RoleAssignment'' (Some (ra_id a)) ''CREATE'' None
                    (Some (SnapAssignment a)) None) (i_audit db) \<rparr>)))"

definition user_tenant :: "string \<Rightarrow> idb \<Rightarrow> string option" where
  "user_tenant i db = map_option us_tenant (find_first (\<lambda>u. us_id u = i) (i_users db))"

definition revoke_assignment :: "env \<Rightarrow> string \<Rightarrow> string \<Rightarrow> string \<Rightarrow> idb \<Rightarrow> unit outcome \<times> idb" where
  "revoke_assignment E t i actor db =
     (case find_first (\<lambda>a. ra_id a = i \<and> user_tenant (ra_user a) db = Some t) (i_assignments db) of
        None \<Rightarrow> (Inl (NotFound ''Assignment not found''), db)
      | Some a \<Rightarrow> (Inr (), db \<lparr> i_assignments := filter (\<lambda>x. ra_id x \<noteq> i) (i_assignments db),
          i_audit := audit_log E (audit_entry t actor ''RoleAssignment'' (Some i) ''DELETE'' (Some (SnapAssignment a)) None None)
            (i_audit db) \<rparr>))"

end
