(* ===== verification/Guards.thy ===== *)
theory Guards
  imports Iam
begin

text \<open>
  What a request passes before a handler: the JWT guard, the role, tenant and permission guards,
  the guard of internal callbacks, the throttling key, the magic links of surveys and supplier
  portals, and the mapping of exceptions to responses
  (services/api/src/common/guards, common/utils/magic-link.ts, common/filters).
\<close>

section \<open>Principal\<close>

record token_claims =
  tc_sub :: string
  tc_email :: "string option"
  tc_preferred :: "string option"
  tc_tenant :: "string option"
  tc_realm :: "string list"
  tc_client :: "string list"
  tc_scope :: string

record principal =
  pr_id :: string
  pr_email :: string
  pr_tenant :: string
  pr_roles :: "string list"
  pr_scopes :: "string list"

text \<open>\<open>extractToken\<close>.\<close>

definition bearer_token :: "string option \<Rightarrow> string option" where
  "bearer_token header = (case header of None \<Rightarrow> None
     | Some h \<Rightarrow> if starts_with h ''Bearer '' then Some (drop 7 h) else None)"

text \<open>
  \<open>verify\<close>: the shared secret first (when one is set), then the keys of Keycloak (when the client
  could be built). Both verifications are the JWT library's.
\<close>

definition verify_token ::
  "(string \<Rightarrow> string \<Rightarrow> token_claims option) \<Rightarrow> (string \<Rightarrow> token_claims option) option \<Rightarrow> string option \<Rightarrow> string \<Rightarrow> token_claims option" where
  "verify_token hs256 rs256 secret token =
     (case (case secret of None \<Rightarrow> None | Some s \<Rightarrow> if s = [] then None else hs256 s token) of
        Some c \<Rightarrow> Some c
      | None \<Rightarrow> (case rs256 of None \<Rightarrow> None | Some f \<Rightarrow> f token))"

definition jwt_guard ::
  "bool \<Rightarrow> (string \<Rightarrow> string \<Rightarrow> token_claims option) \<Rightarrow> (string \<Rightarrow> token_claims option) option \<Rightarrow> string option \<Rightarrow> string option \<Rightarrow>
     principal option outcome" where
  "jwt_guard public hs256 rs256 secret header =
     (if public then Inr None
      else case bearer_token header of
        None \<Rightarrow> Inl (Unauthorized ''Missing bearer token'')
      | Some token \<Rightarrow>
          if token = [] then Inl (Unauthorized ''Missing bearer token'')
          else (case verify_token hs256 rs256 secret token of
             None \<Rightarrow> Inl (Unauthorized ''Invalid or expired token'')
           | Some c \<Rightarrow>
               (case tc_tenant c of
                  None \<Rightarrow> Inl (Unauthorized ''Token missing tenant_id claim'')
                | Some t \<Rightarrow>
                    if t = [] then Inl (Unauthorized ''Token missing tenant_id claim'')
                    else Inr (Some \<lparr> pr_id = tc_sub c,
                      pr_email = (case tc_email c of Some e \<Rightarrow> e | None \<Rightarrow> (case tc_preferred c of Some e \<Rightarrow> e | None \<Rightarrow> [])),
                      pr_tenant = t, pr_roles = rev (remdups (rev (tc_realm c @ tc_client c))),
                      pr_scopes = filter (\<lambda>s. s \<noteq> []) (split_on CHR '' '' (tc_scope c)) \<rparr>))))"

section \<open>Roles and tenants\<close>

fun join_text :: "string \<Rightarrow> string list \<Rightarrow> string" where
  "join_text sep [] = []"
| "join_text sep [w] = w"
| "join_text sep (w # v # ws) = w @ sep @ join_text sep (v # ws)"

definition roles_guard :: "string list \<Rightarrow> principal option \<Rightarrow> bool outcome" where
  "roles_guard required p =
     (if required = [] then Inr True
      else if \<exists>r\<in>set required. r \<in> set (case p of None \<Rightarrow> [] | Some u \<Rightarrow> pr_roles u) then Inr True
      else Inl (Forbidden (''Requires one of roles: '' @ join_text '', '' required)))"

definition tenant_guard :: "string option \<Rightarrow> principal option \<Rightarrow> bool outcome" where
  "tenant_guard param p =
     (case param of
        None \<Rightarrow> Inr True
      | Some t \<Rightarrow>
          if t = [] then Inr True
          else (case p of
             None \<Rightarrow> Inl (Forbidden ''Unauthenticated'')
           | Some u \<Rightarrow>
               if t \<noteq> pr_tenant u \<and> ''PLATFORM_ADMIN'' \<notin> set (pr_roles u)
               then Inl (Forbidden ''Cross-tenant access denied'') else Inr True))"

section \<open>Permissions\<close>

text \<open>The cache of the guard: per user, the permissions and when they expire.\<close>

type_synonym perms_cache = "(string \<times> (string list \<times> int)) list"

definition live_permissions :: "int \<Rightarrow> string \<Rightarrow> string \<Rightarrow> idb \<Rightarrow> string list" where
  "live_permissions now user t db =
     concat (map (\<lambda>a. case find_first (\<lambda>r. ro_id r = ra_role a) (i_roles db) of
         None \<Rightarrow> [] | Some r \<Rightarrow> if ro_tenant r = t then ro_permissions r else [])
       (filter (\<lambda>a. ra_user a = user \<and> (case ra_expires a of None \<Rightarrow> True | Some e \<Rightarrow> now < e)) (i_assignments db)))"

text \<open>A failing query gives no permissions, which are cached as well.\<close>

definition resolve_permissions :: "bool \<Rightarrow> int \<Rightarrow> string \<Rightarrow> string \<Rightarrow> idb \<Rightarrow> perms_cache \<Rightarrow> string list \<times> perms_cache" where
  "resolve_permissions db_up now user t db cache =
     (case map_of cache user of
        Some (perms, till) \<Rightarrow>
          if till > now then (perms, cache)
          else (let ps = (if db_up then live_permissions now user t db else []) in (ps, upsert user (ps, now + 60000) cache))
      | None \<Rightarrow> (let ps = (if db_up then live_permissions now user t db else []) in (ps, upsert user (ps, now + 60000) cache)))"

text \<open>The decision of the policy engine: \<open>None\<close> when the call fails.\<close>

definition opa_allow :: "bool \<Rightarrow> (bool \<times> string option) option \<Rightarrow> bool \<times> string option" where
  "opa_allow enabled answer =
     (if \<not> enabled then (True, None)
      else case answer of None \<Rightarrow> (False, Some ''Policy engine unavailable'') | Some d \<Rightarrow> d)"

definition abac_guard ::
  "bool \<Rightarrow> (principal \<Rightarrow> string list \<Rightarrow> (bool \<times> string option) option) \<Rightarrow> bool \<Rightarrow> int \<Rightarrow> string list \<Rightarrow> principal option \<Rightarrow> idb \<Rightarrow> perms_cache \<Rightarrow>
     bool outcome \<times> perms_cache" where
  "abac_guard opa_on opa db_up now required p db cache =
     (if required = [] then (Inr True, cache)
      else case p of
        None \<Rightarrow> (Inl (Forbidden ''No principal on request''), cache)
      | Some u \<Rightarrow>
          if opa_on then
            (case opa_allow opa_on (opa u required) of
               (allow, reason) \<Rightarrow>
                 if allow then (Inr True, cache)
                 else (Inl (Forbidden (case reason of None \<Rightarrow> ''Not authorized'' | Some m \<Rightarrow> m)), cache))
          else if ''PLATFORM_ADMIN'' \<in> set (pr_roles u) then (Inr True, cache)
          else (case resolve_permissions db_up now (pr_id u) (pr_tenant u) db cache of
             (granted, cache') \<Rightarrow>
               (let missing = filter (\<lambda>x. x \<notin> set granted) required in
                if missing = [] then (Inr True, cache')
                else (Inl (Forbidden (''Missing permissions: '' @ join_text '', '' missing)), cache'))))"

text \<open>The body forwarded to the policy engine.\<close>

definition mask_sensitive :: "'v \<Rightarrow> 'v js_object \<Rightarrow> 'v js_object" where
  "mask_sensitive stars body =
     fold (\<lambda>k b. if js_in k b then upsert k stars b else b) [''password'', ''secret'', ''token'', ''clientSecret''] body"

section \<open>Internal callbacks and throttling\<close>

definition callback_guard :: "string option \<Rightarrow> string option \<Rightarrow> bool outcome" where
  "callback_guard expected provided =
     (case (expected, provided) of
        (Some e, Some p) \<Rightarrow>
          if e = [] \<or> p = [] then Inl (Unauthorized ''Missing internal callback secret'')
          else if length p \<noteq> length e \<or> p \<noteq> e then Inl (Unauthorized ''Invalid internal callback secret'')
          else Inr True
      | _ \<Rightarrow> Inl (Unauthorized ''Missing internal callback secret''))"

definition throttle_key :: "principal option \<Rightarrow> string option \<Rightarrow> string option \<Rightarrow> string option \<Rightarrow> string" where
  "throttle_key p tenant ip forwarded =
     (case (case p of Some u \<Rightarrow> Some (pr_tenant u) | None \<Rightarrow> tenant) of
        Some t \<Rightarrow> if t \<noteq> [] then ''tenant:'' @ t
                  else (case p of Some u \<Rightarrow> if pr_id u \<noteq> [] then ''user:'' @ pr_id u
                                             else (case ip of Some a \<Rightarrow> a | None \<Rightarrow> (case forwarded of Some f \<Rightarrow> f | None \<Rightarrow> ''unknown''))
                        | None \<Rightarrow> (case ip of Some a \<Rightarrow> a | None \<Rightarrow> (case forwarded of Some f \<Rightarrow> f | None \<Rightarrow> ''unknown'')))
      | None \<Rightarrow> (case ip of Some a \<Rightarrow> a | None \<Rightarrow> (case forwarded of Some f \<Rightarrow> f | None \<Rightarrow> ''unknown'')))"

section \<open>Magic links\<close>

datatype link_scope = LinkSurvey | LinkSupplier

record link_payload =
  lp_tenant :: string
  lp_scope :: link_scope
  lp_target :: string
  lp_exp :: int
  lp_subject :: "string option"
  lp_nonce :: string

text \<open>
  The runtime's JSON and base64url conversion of a payload and its HMAC (both texts in base64url,
  which has no dot).
\<close>

record link_api =
  li_encode :: "link_payload \<Rightarrow> string"
  li_decode :: "string \<Rightarrow> link_payload option"
  li_hmac :: "string \<Rightarrow> string \<Rightarrow> string"

definition link_sign ::
  "link_api \<Rightarrow> string \<Rightarrow> env \<Rightarrow> string \<Rightarrow> link_scope \<Rightarrow> string \<Rightarrow> int \<Rightarrow> string option \<Rightarrow> string" where
  "link_sign L secret E t scope target ttl subject =
     (let b = li_encode L \<lparr> lp_tenant = t, lp_scope = scope, lp_target = target, lp_exp = ev_now E div 1000 + ttl,
                            lp_subject = subject, lp_nonce = ev_ids E 1 \<rparr>
      in b @ ''.'' @ li_hmac L secret b)"

text \<open>Of the parts between the dots the first two are read.\<close>

definition link_verify :: "link_api \<Rightarrow> string \<Rightarrow> int \<Rightarrow> string \<Rightarrow> (string \<times> link_scope \<times> string \<times> string option) option" where
  "link_verify L secret now token =
     (case split_on CHR ''.'' token of
        b # sig # _ \<Rightarrow>
          if b = [] \<or> sig = [] then None
          else if length sig \<noteq> length (li_hmac L secret b) \<or> sig \<noteq> li_hmac L secret b then None
          else (case li_decode L b of
             None \<Rightarrow> None
           | Some p \<Rightarrow> if lp_exp p * 1000 < now then None
                       else Some (lp_tenant p, lp_scope p, lp_target p, lp_subject p))
      | _ \<Rightarrow> None)"

section \<open>Validation of bodies\<close>

text \<open>
  The global validation pipe refuses a body with a property that carries no validation decorator
  in the class of the body (whitelist with \<open>forbidNonWhitelisted\<close>). \<open>decorated\<close> lists the
  properties of the class that have one.
\<close>

definition whitelist_pipe :: "string list \<Rightarrow> 'a js_object \<Rightarrow> 'a js_object outcome" where
  "whitelist_pipe decorated body =
     (case filter (\<lambda>k. k \<notin> set decorated) (map fst body) of
        [] \<Rightarrow> Inr body
      | k # _ \<Rightarrow> Inl (BadRequest (''property '' @ k @ '' should not exist'')))"

lemma whitelist_pipe_Inr: "whitelist_pipe ks body = Inr b \<longleftrightarrow> b = body \<and> set (map fst body) \<subseteq> set ks"
  by (auto simp: whitelist_pipe_def filter_empty_conv split: list.splits)
     (metis (no_types, lifting) filter_eq_Cons_iff in_set_conv_decomp fst_conv image_eqI list.set_map subsetD)

section \<open>Exceptions as responses\<close>

text \<open>Status and code of the response, without the message.\<close>

definition status_code_text :: "int \<Rightarrow> string" where
  "status_code_text s =
     (if s = 400 then ''BAD_REQUEST'' else if s = 401 then ''UNAUTHORIZED'' else if s = 403 then ''FORBIDDEN''
      else if s = 404 then ''NOT_FOUND'' else if s = 409 then ''CONFLICT'' else if s = 422 then ''UNPROCESSABLE''
      else if s = 429 then ''TOO_MANY_REQUESTS'' else if s \<ge> 500 then ''INTERNAL_ERROR'' else ''ERROR'')"

definition prisma_status :: "string \<Rightarrow> int \<times> string" where
  "prisma_status code =
     (if code = ''P2002'' then (409, ''CONFLICT'')
      else if code = ''P2003'' then (422, ''INVALID_REFERENCE'')
      else if code = ''P2025'' then (404, ''NOT_FOUND'')
      else if code = ''P2014'' then (409, ''RELATION_VIOLATION'')
      else (500, ''PRISMA_'' @ code))"

text \<open>The client's validation error, which has no code, is the code \<open>validation\<close> here.\<close>

fun error_status :: "http_error \<Rightarrow> int \<times> string" where
  "error_status (BadRequest m) = (400, status_code_text 400)"
| "error_status (Unauthorized m) = (401, status_code_text 401)"
| "error_status (Forbidden m) = (403, status_code_text 403)"
| "error_status (NotFound m) = (404, status_code_text 404)"
| "error_status (Conflict m) = (409, status_code_text 409)"
| "error_status (ServiceUnavailable m) = (503, status_code_text 503)"
| "error_status (PrismaError c) = (if c = ''validation'' then (400, ''PRISMA_VALIDATION'') else prisma_status c)"
| "error_status (PlainError m) = (500, ''INTERNAL_ERROR'')"

fun error_message :: "http_error \<Rightarrow> string" where
  "error_message (BadRequest m) = m"
| "error_message (Unauthorized m) = m"
| "error_message (Forbidden m) = m"
| "error_message (NotFound m) = m"
| "error_message (Conflict m) = m"
| "error_message (ServiceUnavailable m) = m"
| "error_message (PrismaError c) = c"
| "error_message (PlainError m) = m"

text \<open>In production the message of every answer from 500 on is the generic one.\<close>

definition error_response :: "bool \<Rightarrow> http_error \<Rightarrow> int \<times> string \<times> string" where
  "error_response production e =
     (case error_status e of (s, c) \<Rightarrow>
        (s, c, if s \<ge> 500 \<and> production then ''Internal server error'' else error_message e))"

end
