(* ===== verification/Links.thy ===== *)
theory Links
  imports Guards
begin

text \<open>
  Magic links as an interface (services/api/src/common/utils/magic-link.ts): what the services that
  issue and accept them rely on. The conversion of payloads to text and the HMAC are given from
  outside; the law assumed of them is that the conversion can be undone and that neither text
  contains the dot that separates them.
\<close>

definition link_payload_of :: "env \<Rightarrow> string \<Rightarrow> link_scope \<Rightarrow> string \<Rightarrow> int \<Rightarrow> string option \<Rightarrow> link_payload" where
  "link_payload_of E t scope target ttl subject = \<lparr> lp_tenant = t, lp_scope = scope, lp_target = target,
     lp_exp = ev_now E div 1000 + ttl, lp_subject = subject, lp_nonce = ev_ids E 1 \<rparr>"

definition link_api_ok :: "link_api \<Rightarrow> bool" where
  "link_api_ok L \<longleftrightarrow> (\<forall>p. li_decode L (li_encode L p) = Some p \<and> li_encode L p \<noteq> [] \<and> CHR ''.'' \<notin> set (li_encode L p)) \<and>
     (\<forall>s b. li_hmac L s b \<noteq> [] \<and> CHR ''.'' \<notin> set (li_hmac L s b))"

lemma link_verify_signed:
  assumes "p = link_payload_of E t scope target ttl subject" "li_decode L (li_encode L p) = Some p"
    "li_encode L p \<noteq> []" "CHR ''.'' \<notin> set (li_encode L p)" "\<forall>s b. li_hmac L s b \<noteq> [] \<and> CHR ''.'' \<notin> set (li_hmac L s b)"
  shows "link_verify L secret' now (link_sign L secret E t scope target ttl subject) =
    (if li_hmac L secret (li_encode L p) = li_hmac L secret' (li_encode L p) \<and> now \<le> (ev_now E div 1000 + ttl) * 1000
     then Some (t, scope, target, subject) else None)"
proof -
  have s: "link_sign L secret E t scope target ttl subject = li_encode L p @ ''.'' @ li_hmac L secret (li_encode L p)"
    by (simp add: link_sign_def Let_def assms(1) link_payload_of_def)
  have "split_on CHR ''.'' (li_encode L p @ ''.'' @ li_hmac L secret (li_encode L p)) = [li_encode L p, li_hmac L secret (li_encode L p)]"
    using assms(4,5) by (simp add: split_on_append split_on_clean)
  then show ?thesis using assms(2,3,5) by (auto simp: s link_verify_def assms(1) link_payload_of_def)
qed

text \<open>A token the platform signed, whenever it is accepted, is for the target it was signed for.\<close>

lemma link_verify_target:
  assumes "link_api_ok L" "link_verify L secret now (link_sign L secret E t scope target ttl subject) = Some (u, sc, tg, sb)"
  shows "u = t \<and> sc = scope \<and> tg = target \<and> sb = subject"
  using assms link_verify_signed[OF refl, of L E t scope target ttl subject secret now secret]
  by (auto simp: link_api_ok_def split: if_splits)

section \<open>A conversion without JSON\<close>

text \<open>
  A conversion that satisfies the law: the fields in nibbles, separated by dashes. It stands for
  the JSON and base64url conversion of the runtime in the examples.
\<close>

definition nibbles :: "string \<Rightarrow> string" where
  "nibbles s = concat (map (\<lambda>c. [char_of (97 + (of_char c :: nat) div 16), char_of (97 + (of_char c :: nat) mod 16)]) s)"

fun from_nibbles :: "string \<Rightarrow> string" where
  "from_nibbles (a # b # s) = char_of (16 * ((of_char a :: nat) - 97) + ((of_char b :: nat) - 97)) # from_nibbles s"
| "from_nibbles _ = []"

lemma nibble_chars:
  "of_char (char_of (97 + (of_char c :: nat) div 16) :: char) = 97 + (of_char c :: nat) div 16"
  "of_char (char_of (97 + (of_char c :: nat) mod 16) :: char) = 97 + (of_char c :: nat) mod 16"
proof -
  have "(of_char c :: nat) div 16 < 16" by (rule less_mult_imp_div_less) simp
  then show "of_char (char_of (97 + (of_char c :: nat) div 16) :: char) = 97 + (of_char c :: nat) div 16" by simp
qed simp

lemma from_nibbles: "from_nibbles (nibbles s) = s"
proof (induction s)
  case (Cons c s)
  then show ?case by (simp add: nibbles_def nibble_chars del: of_char_of)
qed (simp add: nibbles_def)

lemma nibbles_clean: "c \<in> set (nibbles s) \<Longrightarrow> 97 \<le> (of_char c :: nat)"
proof (induction s)
  case (Cons d s)
  then show ?case by (auto simp: nibbles_def nibble_chars simp del: of_char_of)
qed (simp add: nibbles_def)

definition unary :: "int \<Rightarrow> string" where
  "unary n = (if n < 0 then CHR ''n'' else CHR ''p'') # replicate (nat \<bar>n\<bar>) (CHR ''u'')"

definition from_unary :: "string \<Rightarrow> int" where
  "from_unary s = (if hd s = CHR ''n'' then - int (length (tl s)) else int (length (tl s)))"

lemma from_unary: "from_unary (unary n) = n"
  by (simp add: unary_def from_unary_def)

fun scope_text :: "link_scope \<Rightarrow> string" where
  "scope_text LinkSurvey = ''s''"
| "scope_text LinkSupplier = ''v''"

definition subject_text :: "string option \<Rightarrow> string" where
  "subject_text s = (case s of None \<Rightarrow> ''n'' | Some v \<Rightarrow> CHR ''y'' # nibbles v)"

definition payload_fields :: "link_payload \<Rightarrow> string list" where
  "payload_fields p = [nibbles (lp_tenant p), scope_text (lp_scope p), nibbles (lp_target p), unary (lp_exp p),
     subject_text (lp_subject p), nibbles (lp_nonce p)]"

definition fields_payload :: "string list \<Rightarrow> link_payload option" where
  "fields_payload ws = (case ws of
     [t, sc, tg, e, sb, n] \<Rightarrow> Some \<lparr> lp_tenant = from_nibbles t, lp_scope = (if sc = ''s'' then LinkSurvey else LinkSupplier),
       lp_target = from_nibbles tg, lp_exp = from_unary e,
       lp_subject = (case sb of [] \<Rightarrow> None | c # v \<Rightarrow> if c = CHR ''n'' then None else Some (from_nibbles v)), lp_nonce = from_nibbles n \<rparr>
   | _ \<Rightarrow> None)"

definition plain_links :: link_api where
  "plain_links = \<lparr> li_encode = (\<lambda>p. join_with CHR ''-'' (payload_fields p)), li_decode = (\<lambda>s. fields_payload (split_on CHR ''-'' s)),
     li_hmac = (\<lambda>s b. ''m'') \<rparr>"

lemma fields_payload: "fields_payload (payload_fields p) = Some p"
  by (cases "lp_scope p"; cases "lp_subject p")
    (simp_all add: fields_payload_def payload_fields_def from_nibbles from_unary subject_text_def)

lemma payload_fields_clean: "w \<in> set (payload_fields p) \<Longrightarrow> c \<in> set w \<Longrightarrow> 97 \<le> (of_char c :: nat)"
  by (cases "lp_scope p"; cases "lp_subject p")
    (auto simp: payload_fields_def subject_text_def unary_def dest: nibbles_clean split: if_splits)

lemma join_chars: "c \<in> set (join_with d ws) \<Longrightarrow> c = d \<or> (\<exists>w\<in>set ws. c \<in> set w)"
  by (induction d ws rule: join_with.induct) auto

lemma plain_links_ok: "link_api_ok plain_links"
proof -
  have "CHR ''-'' \<notin> set w" if "w \<in> set (payload_fields p)" for p w
    using payload_fields_clean[OF that, of "CHR ''-''"] by auto
  then have d: "fields_payload (split_on CHR ''-'' (join_with CHR ''-'' (payload_fields p))) = Some p" for p
    using split_join[of "payload_fields p" "CHR ''-''"] fields_payload[of p] by (simp add: payload_fields_def)
  have e: "join_with CHR ''-'' (payload_fields p) \<noteq> []" for p by (simp add: payload_fields_def)
  have "CHR ''.'' \<notin> set (join_with CHR ''-'' (payload_fields p))" for p
    using join_chars[of "CHR ''.''" "CHR ''-''" "payload_fields p"] payload_fields_clean[of _ p "CHR ''.''"] by auto
  with d e show ?thesis by (simp add: link_api_ok_def plain_links_def)
qed

end
