(* ===== verification/Iam_Props.thy ===== *)
theory Iam_Props
  imports Guards Links
begin

text \<open>
  Sign-in and authorisation: a refresh token works once, a reused one ends its family, what two
  overlapping refreshes do, the lockout, role assignments stay inside a tenant, and what the
  permission guard grants.
\<close>

section \<open>The system\<close>

text \<open>
  The requests that wait in the middle appear by their halves, so that a run interleaves them: the
  check of a login changes nothing and has no step, its second half may come with any user; the
  second half of a refresh may come with any claims.
\<close>

datatype iam_op =
    OpLoginFinish env string string "iam_user option"
  | OpRefreshBegin env string
  | OpRefreshFinish env "string \<times> jwt_claims"
  | OpLogout env "string option"
  | OpExchange env "kc_claims option"
  | OpInvite env string "string option" string "string option" "string option" string
  | OpUpdateUser env string string user_patch string
  | OpDeactivate env string string string
  | OpCreateRole env string string "string list" string
  | OpAssign env string string string "string option" string
  | OpRevoke env string string string

fun iam_step :: "iam_config \<Rightarrow> jwt_api \<Rightarrow> (string \<Rightarrow> string \<Rightarrow> bool) \<Rightarrow> iam_op \<Rightarrow> idb \<Rightarrow> idb" where
  "iam_step cfg J bc (OpLoginFinish E email pw u) db = snd (login_finish cfg J bc E email pw u db)"
| "iam_step cfg J bc (OpRefreshBegin E tok) db = snd (refresh_begin cfg J E tok db)"
| "iam_step cfg J bc (OpRefreshFinish E sc) db = snd (refresh_finish cfg J E sc db)"
| "iam_step cfg J bc (OpLogout E tok) db = logout cfg J E tok db"
| "iam_step cfg J bc (OpExchange E c) db = snd (exchange_code E c db)"
| "iam_step cfg J bc (OpInvite E t kc email f l actor) db = snd (invite_user E t kc email f l actor db)"
| "iam_step cfg J bc (OpUpdateUser E t i p actor) db = snd (update_user E t i p actor db)"
| "iam_step cfg J bc (OpDeactivate E t i actor) db = snd (deactivate_user E t i actor db)"
| "iam_step cfg J bc (OpCreateRole E t name perms actor) db = snd (create_role E t name perms actor db)"
| "iam_step cfg J bc (OpAssign E t u r scope actor) db = snd (assign_role E t u r scope actor db)"
| "iam_step cfg J bc (OpRevoke E t i actor) db = snd (revoke_assignment E t i actor db)"

text \<open>Fresh identifiers: token ids, and rows created.\<close>

fun iam_ok :: "iam_op \<Rightarrow> idb \<Rightarrow> bool" where
  "iam_ok (OpLoginFinish E email pw u) db \<longleftrightarrow> ev_ids E 1 \<notin> set (map fst (i_jtis db))"
| "iam_ok (OpRefreshFinish E sc) db \<longleftrightarrow> ev_ids E 1 \<notin> set (map fst (i_jtis db))"
| "iam_ok (OpExchange E c) db \<longleftrightarrow> ev_ids E 1 \<notin> set (map us_id (i_users db))"
| "iam_ok (OpInvite E t kc email f l actor) db \<longleftrightarrow> ev_ids E 1 \<notin> set (map us_id (i_users db))"
| "iam_ok (OpCreateRole E t name perms actor) db \<longleftrightarrow> ev_ids E 1 \<notin> set (map ro_id (i_roles db))"
| "iam_ok _ db \<longleftrightarrow> True"

section \<open>Invariant\<close>

text \<open>User, role and scope node of an assignment are of one tenant.\<close>

definition assignment_ok :: "idb \<Rightarrow> role_assignment \<Rightarrow> bool" where
  "assignment_ok db a \<longleftrightarrow> (\<exists>u\<in>set (i_users db). \<exists>r\<in>set (i_roles db). us_id u = ra_user a \<and> ro_id r = ra_role a \<and>
     us_tenant u = ro_tenant r \<and> (case ra_scope a of None \<Rightarrow> True | Some s \<Rightarrow> (s, us_tenant u) \<in> set (i_nodes db)))"

definition iam_inv :: "idb \<Rightarrow> bool" where
  "iam_inv db \<longleftrightarrow> distinct (map us_id (i_users db)) \<and> distinct (map ro_id (i_roles db)) \<and>
     [] \<notin> set (map fst (i_nodes db)) \<and> (\<forall>a\<in>set (i_assignments db). assignment_ok db a)"

text \<open>How the tables grow: users keep identifier and tenant, roles and nodes stay.\<close>

definition iam_grows :: "idb \<Rightarrow> idb \<Rightarrow> bool" where
  "iam_grows db db' \<longleftrightarrow> (\<exists>us rs. map (\<lambda>u. (us_id u, us_tenant u)) (i_users db') = map (\<lambda>u. (us_id u, us_tenant u)) (i_users db) @ us \<and>
     distinct (map fst us) \<and> fst ` set us \<inter> us_id ` set (i_users db) = {} \<and>
     i_roles db' = i_roles db @ rs \<and> distinct (map ro_id rs) \<and> ro_id ` set rs \<inter> ro_id ` set (i_roles db) = {} \<and>
     i_nodes db' = i_nodes db)"

lemma iam_growsI:
  "map (\<lambda>u. (us_id u, us_tenant u)) (i_users db') = map (\<lambda>u. (us_id u, us_tenant u)) (i_users db) @ us \<Longrightarrow>
   distinct (map fst us) \<Longrightarrow> fst ` set us \<inter> us_id ` set (i_users db) = {} \<Longrightarrow>
   i_roles db' = i_roles db @ rs \<Longrightarrow> distinct (map ro_id rs) \<Longrightarrow> ro_id ` set rs \<inter> ro_id ` set (i_roles db) = {} \<Longrightarrow>
   i_nodes db' = i_nodes db \<Longrightarrow> iam_grows db db'"
  unfolding iam_grows_def by blast

lemma iam_grows_same:
  "map (\<lambda>u. (us_id u, us_tenant u)) (i_users db') = map (\<lambda>u. (us_id u, us_tenant u)) (i_users db) \<Longrightarrow>
   i_roles db' = i_roles db \<Longrightarrow> i_nodes db' = i_nodes db \<Longrightarrow> iam_grows db db'"
  by (rule iam_growsI[of _ _ "[]" "[]"]) simp_all

lemma iam_grows_user:
  "i_users db' = i_users db @ [u] \<Longrightarrow> us_id u \<notin> us_id ` set (i_users db) \<Longrightarrow>
   i_roles db' = i_roles db \<Longrightarrow> i_nodes db' = i_nodes db \<Longrightarrow> iam_grows db db'"
  by (rule iam_growsI[of _ _ "[(us_id u, us_tenant u)]" "[]"]) simp_all

lemma iam_grows_role:
  "i_users db' = i_users db \<Longrightarrow> i_roles db' = i_roles db @ [r] \<Longrightarrow> ro_id r \<notin> ro_id ` set (i_roles db) \<Longrightarrow>
   i_nodes db' = i_nodes db \<Longrightarrow> iam_grows db db'"
  by (rule iam_growsI[of _ _ "[]" "[r]"]) simp_all

lemma iam_grows_user_mem:
  assumes "iam_grows db db'" "u \<in> set (i_users db)"
  shows "\<exists>u'\<in>set (i_users db'). us_id u' = us_id u \<and> us_tenant u' = us_tenant u"
proof -
  have "(us_id u, us_tenant u) \<in> set (map (\<lambda>u. (us_id u, us_tenant u)) (i_users db'))"
    using assms unfolding iam_grows_def by fastforce
  then show ?thesis by auto
qed

lemma assignment_ok_grows: "iam_grows db db' \<Longrightarrow> assignment_ok db a \<Longrightarrow> assignment_ok db' a"
  unfolding assignment_ok_def
  by (elim bexE) (use iam_grows_user_mem[of db db'] in \<open>fastforce simp: iam_grows_def split: option.splits\<close>)

lemma iam_inv_grows:
  assumes "iam_grows db db'" "iam_inv db" "\<forall>a\<in>set (i_assignments db'). a \<in> set (i_assignments db) \<or> assignment_ok db a"
  shows "iam_inv db'"
proof -
  obtain us rs where g: "map (\<lambda>u. (us_id u, us_tenant u)) (i_users db') = map (\<lambda>u. (us_id u, us_tenant u)) (i_users db) @ us"
    "distinct (map fst us)" "fst ` set us \<inter> us_id ` set (i_users db) = {}" "i_roles db' = i_roles db @ rs" "distinct (map ro_id rs)"
    "ro_id ` set rs \<inter> ro_id ` set (i_roles db) = {}" "i_nodes db' = i_nodes db" using assms(1) unfolding iam_grows_def by blast
  have "map us_id (i_users db') = map fst (map (\<lambda>u. (us_id u, us_tenant u)) (i_users db'))" by simp
  also have "\<dots> = map us_id (i_users db) @ map fst us" unfolding g(1) by simp
  finally have "distinct (map us_id (i_users db'))" using assms(2) g(2,3) by (auto simp: iam_inv_def)
  moreover have "\<forall>a\<in>set (i_assignments db'). assignment_ok db' a"
    using assms(2,3) assignment_ok_grows[OF assms(1)] by (auto simp: iam_inv_def)
  ultimately show ?thesis using assms(2) g by (auto simp: iam_inv_def)
qed

section \<open>The operations\<close>

lemma update_where_id_tenant:
  "(\<And>x. us_id (f x) = us_id x \<and> us_tenant (f x) = us_tenant x) \<Longrightarrow>
     map (\<lambda>u. (us_id u, us_tenant u)) (update_where P f us) = map (\<lambda>u. (us_id u, us_tenant u)) us"
  by (rule update_where_keeps) simp

lemma login_finish_keeps:
  "map (\<lambda>u. (us_id u, us_tenant u)) (i_users (snd (login_finish cfg J bc E email pw u db))) = map (\<lambda>u. (us_id u, us_tenant u)) (i_users db) \<and>
   i_roles (snd (login_finish cfg J bc E email pw u db)) = i_roles db \<and> i_nodes (snd (login_finish cfg J bc E email pw u db)) = i_nodes db \<and>
   i_assignments (snd (login_finish cfg J bc E email pw u db)) = i_assignments db \<and> i_families (snd (login_finish cfg J bc E email pw u db)) = i_families db \<and>
   (i_jtis (snd (login_finish cfg J bc E email pw u db)) = i_jtis db \<or>
      (\<exists>e. i_jtis (snd (login_finish cfg J bc E email pw u db)) = upsert (ev_ids E 1) e (i_jtis db)))"
  by (auto simp: login_finish_def record_failure_def user_audit_def Let_def update_where_id_tenant
      split: option.splits sum.splits)

lemma refresh_finish_keeps:
  "i_users (snd (refresh_finish cfg J E sc db)) = i_users db" "i_roles (snd (refresh_finish cfg J E sc db)) = i_roles db"
  "i_nodes (snd (refresh_finish cfg J E sc db)) = i_nodes db" "i_assignments (snd (refresh_finish cfg J E sc db)) = i_assignments db"
  "i_families (snd (refresh_finish cfg J E sc db)) = i_families db"
  by (auto simp: refresh_finish_def Let_def split: option.splits)

lemma refresh_begin_keeps:
  "i_users (snd (refresh_begin cfg J E tok db)) = i_users db" "i_roles (snd (refresh_begin cfg J E tok db)) = i_roles db"
  "i_nodes (snd (refresh_begin cfg J E tok db)) = i_nodes db" "i_assignments (snd (refresh_begin cfg J E tok db)) = i_assignments db"
  "i_jtis (snd (refresh_begin cfg J E tok db)) = i_jtis db" "set (i_families db) \<subseteq> set (i_families (snd (refresh_begin cfg J E tok db)))"
  by (auto simp: refresh_begin_def Let_def split: option.splits sum.splits)

lemma refresh_token_keeps:
  "i_users (snd (refresh_token cfg J E tok db)) = i_users db" "i_roles (snd (refresh_token cfg J E tok db)) = i_roles db"
  "i_nodes (snd (refresh_token cfg J E tok db)) = i_nodes db" "i_assignments (snd (refresh_token cfg J E tok db)) = i_assignments db"
  "set (i_families db) \<subseteq> set (i_families (snd (refresh_token cfg J E tok db)))"
  using refresh_begin_keeps[where cfg=cfg and J=J and E=E and tok=tok and db=db]
  by (auto simp: refresh_token_def refresh_finish_keeps split: prod.splits sum.splits)

lemma logout_keeps:
  "i_users (logout cfg J E tok db) = i_users db" "i_roles (logout cfg J E tok db) = i_roles db"
  "i_nodes (logout cfg J E tok db) = i_nodes db" "i_assignments (logout cfg J E tok db) = i_assignments db"
  "i_jtis (logout cfg J E tok db) = i_jtis db" "set (i_families db) \<subseteq> set (i_families (logout cfg J E tok db))"
  by (auto simp: logout_def split: option.splits sum.splits)

text \<open>The other operations: tokens stay; what they do to the tables.\<close>

lemma user_audit_keeps [simp]:
  "i_users (user_audit E t u i v mt db) = i_users db" "i_roles (user_audit E t u i v mt db) = i_roles db"
  "i_nodes (user_audit E t u i v mt db) = i_nodes db" "i_assignments (user_audit E t u i v mt db) = i_assignments db"
  "i_jtis (user_audit E t u i v mt db) = i_jtis db" "i_families (user_audit E t u i v mt db) = i_families db"
  by (simp_all add: user_audit_def)

text \<open>A step that leaves the tokens and the assignments alone.\<close>

definition quiet :: "idb \<Rightarrow> idb \<Rightarrow> bool" where
  "quiet db db' \<longleftrightarrow> i_jtis db' = i_jtis db \<and> i_families db' = i_families db \<and> i_assignments db' = i_assignments db \<and> iam_grows db db'"

lemma iam_grows_refl [simp]: "iam_grows db db"
  by (rule iam_grows_same) simp_all

lemma quiet_audit: "quiet db db' \<Longrightarrow> quiet db (user_audit E t u i v mt db')"
  "quiet db db' \<Longrightarrow> quiet db (db' \<lparr> i_audit := x \<rparr>)"
  by (simp_all add: quiet_def iam_grows_def)

lemma quiet_insert:
  "us_id u \<notin> set (map us_id (i_users db)) \<Longrightarrow> quiet db (snd (insert_user u db))"
  by (auto simp: insert_user_def quiet_def intro: iam_grows_user)

lemma quiet_update:
  "(\<And>x. us_id (f x) = us_id x \<and> us_tenant (f x) = us_tenant x) \<Longrightarrow> quiet db (db \<lparr> i_users := update_where P f (i_users db) \<rparr>)"
  by (auto simp: quiet_def update_where_id_tenant intro!: iam_grows_same)

lemma quiet_exchange:
  assumes "ev_ids E 1 \<notin> set (map us_id (i_users db))"
  shows "quiet db (snd (exchange_code E c db))"
proof -
  have p: "quiet db (snd (provision_user E t c db))" for t c
    using assms by (auto simp: provision_user_def Let_def quiet_def[of db db] intro!: quiet_update quiet_insert split: option.splits)
  show ?thesis
  proof (cases c)
    case (Some k)
    show ?thesis
      using p[of "the (kc_tenant k)" k]
      by (cases "provision_user E (the (kc_tenant k)) k db")
        (auto simp: exchange_code_def Some quiet_def[of db db] intro!: quiet_audit split: option.splits sum.splits)
  qed (simp add: exchange_code_def quiet_def)
qed

lemma quiet_invite:
  assumes "ev_ids E 1 \<notin> set (map us_id (i_users db))"
  shows "quiet db (snd (invite_user E t kc email f l actor db))"
proof -
  define s where "s = (case kc of Some i \<Rightarrow> i | None \<Rightarrow> ''local:'' @ email)"
  have "quiet db (snd (invited_user E t s email f l db))"
    using assms by (auto simp: invited_user_def quiet_def[of db db] intro!: quiet_insert split: option.splits)
  then show ?thesis
    by (cases "invited_user E t s email f l db") (auto simp: invite_user_def s_def intro!: quiet_audit split: sum.splits)
qed

lemma patch_user_sel: "us_id (patch_user p u) = us_id u \<and> us_tenant (patch_user p u) = us_tenant u"
  by (simp add: patch_user_def Let_def)

lemma quiet_others:
  "quiet db (snd (update_user E t i p actor db))" "quiet db (snd (deactivate_user E t i actor db))"
  by (auto simp: update_user_def deactivate_user_def patch_user_sel quiet_def[of db db]
      intro!: quiet_audit(2)[OF quiet_update] split: option.splits)

lemma quiet_create_role:
  "ev_ids E 1 \<notin> set (map ro_id (i_roles db)) \<Longrightarrow> quiet db (snd (create_role E t n ps actor db))"
  by (auto simp: create_role_def Let_def quiet_def intro: iam_grows_role)

lemma assign_role_cases:
  "i_assignments (snd (assign_role E t u r sc actor db)) = i_assignments db \<or>
   (\<exists>x y. find_first (\<lambda>x. ro_id x = r \<and> ro_tenant x = t) (i_roles db) = Some x \<and>
      find_first (\<lambda>x. us_id x = u \<and> us_tenant x = t) (i_users db) = Some y \<and>
      (\<forall>s. sc = Some s \<longrightarrow> s \<in> set (map fst (i_nodes db)) \<and> (s \<noteq> [] \<longrightarrow> (s, t) \<in> set (i_nodes db))) \<and>
      i_assignments (snd (assign_role E t u r sc actor db)) = i_assignments db @
        [\<lparr> ra_id = ev_ids E 1, ra_user = u, ra_role = r, ra_scope = sc, ra_by = actor, ra_expires = None \<rparr>])"
  by (cases sc) (auto simp: assign_role_def Let_def)

lemma assign_role_keeps:
  "i_users (snd (assign_role E t u r sc actor db)) = i_users db" "i_roles (snd (assign_role E t u r sc actor db)) = i_roles db"
  "i_nodes (snd (assign_role E t u r sc actor db)) = i_nodes db" "i_jtis (snd (assign_role E t u r sc actor db)) = i_jtis db"
  "i_families (snd (assign_role E t u r sc actor db)) = i_families db"
  by (simp_all add: assign_role_def Let_def)

lemma assign_role_ok:
  assumes "iam_inv db"
  shows "\<forall>a\<in>set (i_assignments (snd (assign_role E t u r sc actor db))). a \<in> set (i_assignments db) \<or> assignment_ok db a"
  using assign_role_cases[of E t u r sc actor db]
proof (elim disjE exE conjE)
  fix x y
  assume f: "find_first (\<lambda>x. ro_id x = r \<and> ro_tenant x = t) (i_roles db) = Some x"
      "find_first (\<lambda>x. us_id x = u \<and> us_tenant x = t) (i_users db) = Some y"
    and s: "\<forall>s. sc = Some s \<longrightarrow> s \<in> set (map fst (i_nodes db)) \<and> (s \<noteq> [] \<longrightarrow> (s, t) \<in> set (i_nodes db))"
    and as: "i_assignments (snd (assign_role E t u r sc actor db)) = i_assignments db @
        [\<lparr> ra_id = ev_ids E 1, ra_user = u, ra_role = r, ra_scope = sc, ra_by = actor, ra_expires = None \<rparr>]"
  have "(s, t) \<in> set (i_nodes db)" if "sc = Some s" for s
    using s that assms by (cases "s = []") (auto simp: iam_inv_def)
  then have "assignment_ok db \<lparr> ra_id = ev_ids E 1, ra_user = u, ra_role = r, ra_scope = sc, ra_by = actor, ra_expires = None \<rparr>"
    unfolding assignment_ok_def
    by (intro bexI[of _ y] bexI[of _ x]) (use find_first_Some[OF f(1)] find_first_Some[OF f(2)] in \<open>auto split: option.splits\<close>)
  with as show ?thesis by auto
qed auto

text \<open>One step: growing tables, assignments inside a tenant, burnt tokens stay burnt.\<close>

definition burnt :: "idb \<Rightarrow> string \<Rightarrow> bool" where
  "burnt db jti \<longleftrightarrow> (case map_of (i_jtis db) jti of None \<Rightarrow> False | Some e \<Rightarrow> re_revoked e)"

definition burns_more :: "idb \<Rightarrow> idb \<Rightarrow> bool" where
  "burns_more db db' \<longleftrightarrow> set (i_families db) \<subseteq> set (i_families db') \<and> (\<forall>jti. burnt db jti \<longrightarrow> burnt db' jti) \<and>
     (\<forall>jti. map_of (i_jtis db) jti \<noteq> None \<longrightarrow> map_of (i_jtis db') jti \<noteq> None)"

lemma burnt_upsert_fresh:
  "i_jtis db' = upsert k e (i_jtis db) \<Longrightarrow> k \<notin> set (map fst (i_jtis db)) \<Longrightarrow> burnt db jti \<Longrightarrow> burnt db' jti"
  by (auto simp: burnt_def map_of_eq_None_iff[THEN iffD2] split: option.splits dest: map_of_SomeD)

lemma quiet_burns: "quiet db db' \<Longrightarrow> burns_more db db'"
  by (simp add: quiet_def burns_more_def burnt_def)

lemma refresh_finish_burns_more:
  assumes "ev_ids E 1 \<notin> set (map fst (i_jtis db))"
  shows "burns_more db (snd (refresh_finish cfg J E sc db))"
proof -
  have "burnt (snd (refresh_finish cfg J E sc db)) jti" if "burnt db jti" for jti
  proof -
    have "jti \<noteq> ev_ids E 1" using assms that by (force simp: burnt_def split: option.splits dest: map_of_SomeD)
    then show ?thesis using that
      by (auto simp: refresh_finish_def Let_def burnt_def split: option.splits)
  qed
  moreover have "map_of (i_jtis (snd (refresh_finish cfg J E sc db))) jti \<noteq> None" if "map_of (i_jtis db) jti \<noteq> None" for jti
    using that by (auto simp: refresh_finish_def Let_def split: option.splits)
  ultimately show ?thesis by (simp add: burns_more_def refresh_finish_keeps)
qed

lemma iam_step_effect:
  assumes "iam_inv db" "iam_ok c db"
  shows "iam_inv (iam_step cfg J bc c db) \<and> burns_more db (iam_step cfg J bc c db)"
proof -
  have q: ?thesis if "quiet db (iam_step cfg J bc c db)"
    using that quiet_burns[OF that] iam_inv_grows[OF _ assms(1)] by (auto simp: quiet_def)
  have g: "iam_inv d" if "iam_grows db d" "i_assignments d = i_assignments db" for d
    using iam_inv_grows[OF that(1) assms(1)] that(2) by simp
  show ?thesis
  proof (cases c)
    case (OpLoginFinish E email pw u)
    note l = login_finish_keeps[of cfg J bc E email pw u db]
    have "burns_more db (snd (login_finish cfg J bc E email pw u db))"
      using l burnt_upsert_fresh[of "snd (login_finish cfg J bc E email pw u db)" "ev_ids E 1" _ db] assms(2)
      unfolding burns_more_def OpLoginFinish burnt_def by auto
    with g[OF iam_grows_same] l show ?thesis by (simp add: OpLoginFinish)
  next
    case (OpRefreshBegin E tok)
    show ?thesis using g[OF iam_grows_same] refresh_begin_keeps by (simp add: OpRefreshBegin burns_more_def burnt_def)
  next
    case (OpRefreshFinish E sc)
    show ?thesis using g[OF iam_grows_same] refresh_finish_burns_more[of E db cfg J sc] assms(2)
      by (simp add: OpRefreshFinish refresh_finish_keeps)
  next
    case (OpLogout E tok)
    show ?thesis using g[OF iam_grows_same] logout_keeps by (simp add: OpLogout burns_more_def burnt_def)
  next
    case (OpAssign E t u r sc actor)
    let ?d = "snd (assign_role E t u r sc actor db)"
    have "iam_grows db ?d" by (intro iam_grows_same) (simp_all add: assign_role_keeps)
    from iam_inv_grows[OF this assms(1) assign_role_ok[OF assms(1)]] show ?thesis
      by (simp add: OpAssign burns_more_def burnt_def assign_role_keeps)
  next
    case (OpRevoke E t i actor)
    let ?d = "snd (revoke_assignment E t i actor db)"
    have k: "i_users ?d = i_users db" "i_roles ?d = i_roles db" "i_nodes ?d = i_nodes db" "i_jtis ?d = i_jtis db"
      "i_families ?d = i_families db" "set (i_assignments ?d) \<subseteq> set (i_assignments db)"
      by (auto simp: revoke_assignment_def split: option.splits)
    have "iam_grows db ?d" by (intro iam_grows_same) (simp_all add: k)
    from iam_inv_grows[OF this assms(1)] k(6) have "iam_inv ?d" by blast
    then show ?thesis by (simp add: OpRevoke burns_more_def burnt_def k)
  qed (rule q, use assms(2) in \<open>simp add: quiet_exchange quiet_invite quiet_others quiet_create_role\<close>)+
qed

interpretation iam: history_system "iam_step cfg J bc" iam_ok iam_inv burns_more for cfg J bc
  by unfold_locales (simp_all add: iam_step_effect, auto simp: burns_more_def)


section \<open>Refresh tokens\<close>

text \<open>What a successful refresh says of its token.\<close>

lemma refresh_token_ok:
  assumes "fst (refresh_token cfg J E tok db) = Inr p"
  shows "\<exists>secret c jti fam e. jwt_secret cfg = Inr secret \<and> jw_verify J secret (ev_now E) tok = Some c \<and>
    jc_jti c = Some jti \<and> jc_fam c = Some fam \<and> fam \<notin> set (i_families db) \<and> map_of (i_jtis db) jti = Some e \<and> \<not> re_revoked e \<and>
    refresh_begin cfg J E tok db = (Inr (secret, c), db) \<and>
    refresh_finish cfg J E (secret, c) db = (Inr p, snd (refresh_token cfg J E tok db))"
proof (cases "refresh_begin cfg J E tok db")
  case (Pair r d)
  then obtain sc where sc: "r = Inr sc" using assms by (cases r) (auto simp: refresh_token_def)
  have "\<exists>secret c jti fam e. sc = (secret, c) \<and> jwt_secret cfg = Inr secret \<and> jw_verify J secret (ev_now E) tok = Some c \<and>
    jc_jti c = Some jti \<and> jc_fam c = Some fam \<and> fam \<notin> set (i_families db) \<and> map_of (i_jtis db) jti = Some e \<and> \<not> re_revoked e \<and> d = db"
    using Pair sc by (auto simp: refresh_begin_def split: sum.splits option.splits if_splits)
  then obtain secret c jti fam e where w: "sc = (secret, c)" "jwt_secret cfg = Inr secret" "jw_verify J secret (ev_now E) tok = Some c"
    "jc_jti c = Some jti" "jc_fam c = Some fam" "fam \<notin> set (i_families db)" "map_of (i_jtis db) jti = Some e" "\<not> re_revoked e" "d = db"
    by blast
  have b: "refresh_begin cfg J E tok db = (Inr (secret, c), db)" using Pair sc w by simp
  then have t: "refresh_token cfg J E tok db = refresh_finish cfg J E (secret, c) db" by (simp add: refresh_token_def)
  have "refresh_finish cfg J E (secret, c) db = (Inr p, snd (refresh_token cfg J E tok db))"
    using assms by (simp add: t prod_eq_iff)
  then show ?thesis using w b by blast
qed

lemma refresh_burnt_fails:
  assumes "\<forall>c. jw_verify J secret (ev_now E) tok = Some c \<longrightarrow> (\<exists>jti. jc_jti c = Some jti \<and> burnt db jti)" "jwt_secret cfg = Inr secret"
  shows "\<not> is_ok (fst (refresh_token cfg J E tok db))"
proof
  assume "is_ok (fst (refresh_token cfg J E tok db))"
  then obtain p where "fst (refresh_token cfg J E tok db) = Inr p" by (auto simp: is_ok_iff)
  from refresh_token_ok[OF this] assms(2) obtain c jti e where
    "jw_verify J secret (ev_now E) tok = Some c" "jc_jti c = Some jti" "map_of (i_jtis db) jti = Some e" "\<not> re_revoked e"
    by (metis sum.inject(2))
  with assms(1) show False by (auto simp: burnt_def)
qed

lemma refresh_finish_burns:
  assumes "refresh_finish cfg J E (secret, c) db = (Inr p, db')" "jc_jti c = Some jti"
    "ev_ids E 1 \<notin> set (map fst (i_jtis db))" "jti \<in> set (map fst (i_jtis db))"
  shows "burnt db' jti"
proof -
  have "jti \<noteq> ev_ids E 1" using assms(3,4) by metis
  then show ?thesis using assms(1,2)
    by (auto simp: refresh_finish_def Let_def burnt_def split: option.splits if_splits)
qed

lemma refresh_begin_ok:
  assumes "fst (refresh_begin cfg J E tok db) = Inr sc"
  shows "\<exists>secret c jti. sc = (secret, c) \<and> jwt_secret cfg = Inr secret \<and> jw_verify J secret (ev_now E) tok = Some c \<and>
    jc_jti c = Some jti \<and> map_of (i_jtis db) jti \<noteq> None \<and> \<not> burnt db jti"
  using assms by (auto simp: refresh_begin_def burnt_def split: sum.splits option.splits if_splits)

text \<open>C12: A refresh token works once. After a refresh with it has gone through (its check, any steps of
  other requests, its rotation), every request that presents the same token later is refused,
  whatever goes on between: logins, logouts, administration, and the halves of other refreshes,
  those that passed their check before included. (The JWT library gives one token the same claims
  whenever it verifies. Two requests that both pass the check before either rotates are both
  answered: \<open>refresh_race\<close>.)\<close>

theorem refresh_single_use:
  assumes "\<forall>secret now now' c c'. jw_verify J secret now tok = Some c \<longrightarrow> jw_verify J secret now' tok = Some c' \<longrightarrow> c = c'"
    "iam_inv db" "fst (refresh_begin cfg J E tok db) = Inr sc" "runs_ok (iam_step cfg J bc) iam_ok cs db"
    "ev_ids E1 1 \<notin> set (map fst (i_jtis (fold (iam_step cfg J bc) cs db)))"
    "fst (refresh_finish cfg J E1 sc (fold (iam_step cfg J bc) cs db)) = Inr p"
    "runs_ok (iam_step cfg J bc) iam_ok cs' (snd (refresh_finish cfg J E1 sc (fold (iam_step cfg J bc) cs db)))"
  shows "\<not> is_ok (fst (refresh_begin cfg J E' tok
    (fold (iam_step cfg J bc) cs' (snd (refresh_finish cfg J E1 sc (fold (iam_step cfg J bc) cs db))))))"
proof
  let ?d = "fold (iam_step cfg J bc) cs db"
  let ?f = "snd (refresh_finish cfg J E1 sc ?d)"
  let ?e = "fold (iam_step cfg J bc) cs' ?f"
  assume "is_ok (fst (refresh_begin cfg J E' tok ?e))"
  then obtain sc' where "fst (refresh_begin cfg J E' tok ?e) = Inr sc'" by (auto simp: is_ok_iff)
  from refresh_begin_ok[OF this] obtain secret' c' jti' where r': "jwt_secret cfg = Inr secret'"
    "jw_verify J secret' (ev_now E') tok = Some c'" "jc_jti c' = Some jti'" "\<not> burnt ?e jti'" by blast
  from refresh_begin_ok[OF assms(3)] obtain secret c jti where r: "sc = (secret, c)" "jwt_secret cfg = Inr secret"
    "jw_verify J secret (ev_now E) tok = Some c" "jc_jti c = Some jti" "map_of (i_jtis db) jti \<noteq> None" by blast
  have same: "jti' = jti" using assms(1)[rule_format, OF r(3), of "ev_now E'" c'] r r' by simp
  have d: "iam_inv ?d" "burns_more db ?d" using iam.run_inv[OF assms(2,4)] iam.run_rel[OF assms(2,4)] .
  have "map_of (i_jtis ?d) jti \<noteq> None" using r(5) d(2) by (simp add: burns_more_def)
  then have "jti \<in> set (map fst (i_jtis ?d))" by (simp add: map_of_eq_None_iff)
  moreover have "refresh_finish cfg J E1 (secret, c) ?d = (Inr p, ?f)" using assms(6) unfolding r(1) by (simp add: prod_eq_iff)
  ultimately have "burnt ?f jti" using refresh_finish_burns[OF _ r(4) assms(5)] by blast
  moreover have "iam_inv ?f" using iam_step_effect[of ?d "OpRefreshFinish E1 sc" cfg J bc] d(1) assms(5) by simp
  ultimately have "burnt ?e jti" using iam.run_rel[OF _ assms(7)] by (auto simp: burns_more_def)
  then show False using r'(4) same by simp
qed

text \<open>Reuse ends the family: presenting a token whose identifier is already used adds its
  family to the revoked ones, and from then on no token of that family is ever refreshed.\<close>

theorem refresh_reuse_burns_family:
  assumes "jwt_secret cfg = Inr secret" "jw_verify J secret (ev_now E) tok = Some c"
    "jc_type c = Some ''refresh''" "jc_jti c = Some jti" "jti \<noteq> []" "jc_fam c = Some fam" "fam \<noteq> []" "burnt db jti"
    "iam_inv db" "runs_ok (iam_step cfg J bc) iam_ok cs (snd (refresh_token cfg J E tok db))"
    "jw_verify J secret (ev_now E') tok' = Some c'" "jc_fam c' = Some fam"
  shows "\<not> is_ok (fst (refresh_token cfg J E' tok' (fold (iam_step cfg J bc) cs (snd (refresh_token cfg J E tok db)))))"
proof -
  let ?db = "snd (refresh_token cfg J E tok db)"
  obtain e where e: "map_of (i_jtis db) jti = Some e" "re_revoked e" using assms(8) by (auto simp: burnt_def split: option.splits)
  have d: "fam \<in> set (i_families ?db) \<and> i_users ?db = i_users db \<and> i_roles ?db = i_roles db \<and> i_nodes ?db = i_nodes db \<and> i_assignments ?db = i_assignments db"
    using assms(1-7) e by (auto simp: refresh_token_def refresh_begin_def)
  then have "iam_inv ?db" using iam_inv_grows[OF iam_grows_same assms(9), of ?db] by simp
  from iam.run_rel[OF this assms(10)] d have f: "fam \<in> set (i_families (fold (iam_step cfg J bc) cs ?db))"
    by (auto simp: burns_more_def)
  show ?thesis
  proof
    assume "is_ok (fst (refresh_token cfg J E' tok' (fold (iam_step cfg J bc) cs ?db)))"
    then obtain p where "fst (refresh_token cfg J E' tok' (fold (iam_step cfg J bc) cs ?db)) = Inr p" by (auto simp: is_ok_iff)
    from refresh_token_ok[OF this] f assms(1,11,12) show False by auto
  qed
qed

lemma refresh_finish_live:
  assumes "find_first (\<lambda>u. us_id u = jc_sub c) (i_users db) = Some u" "us_active u" "jc_jti c = Some j"
  shows "\<exists>p e x. refresh_finish cfg J E (secret, c) db = (Inr p, db \<lparr> i_jtis := upsert (ev_ids E 1) e (upsert j x (i_jtis db)) \<rparr>) \<and>
    \<not> re_revoked e"
  using assms by (auto simp: refresh_finish_def Let_def)

lemma refresh_begin_pure:
  assumes "fst (refresh_begin cfg J E tok db) = Inr sc"
  shows "snd (refresh_begin cfg J E tok db) = db \<and> (\<exists>jti. jc_jti (snd sc) = Some jti \<and> map_of (i_jtis db) jti \<noteq> None)"
  using assms by (auto simp: refresh_begin_def split: sum.split_asm option.split_asm if_split_asm)

text \<open>The single use holds for requests one after the other only. When two requests with one
  token overlap at the wait for the database, both pass the check and both are answered: two
  new refresh tokens of the family are live.\<close>

theorem refresh_race:
  assumes "fst (refresh_begin cfg J E tok db) = Inr (secret, c)" "fst (refresh_begin cfg J E' tok db) = Inr (secret', c')"
    "find_first (\<lambda>u. us_id u = jc_sub c) (i_users db) = Some u" "find_first (\<lambda>u. us_id u = jc_sub c') (i_users db) = Some u'"
    "us_active u" "us_active u'" "ev_ids E 1 \<noteq> ev_ids E' 1"
    "map_of (i_jtis db) (ev_ids E 1) = None" "map_of (i_jtis db) (ev_ids E' 1) = None"
  shows "snd (refresh_begin cfg J E' tok (snd (refresh_begin cfg J E tok db))) = db \<and>
    is_ok (fst (refresh_finish cfg J E (secret, c) db)) \<and>
    is_ok (fst (refresh_finish cfg J E' (secret', c') (snd (refresh_finish cfg J E (secret, c) db)))) \<and>
    (let db' = snd (refresh_finish cfg J E' (secret', c') (snd (refresh_finish cfg J E (secret, c) db)))
     in \<forall>i\<in>{ev_ids E 1, ev_ids E' 1}. map_of (i_jtis db') i \<noteq> None \<and> \<not> burnt db' i)"
proof -
  obtain j j' where j: "jc_jti c = Some j" "jc_jti c' = Some j'" "map_of (i_jtis db) j \<noteq> None" "map_of (i_jtis db) j' \<noteq> None"
    using refresh_begin_pure[OF assms(1)] refresh_begin_pure[OF assms(2)] by auto
  have ne: "j \<noteq> ev_ids E 1" "j' \<noteq> ev_ids E 1" "j \<noteq> ev_ids E' 1" "j' \<noteq> ev_ids E' 1"
    using j(3,4) assms(8,9) by auto
  obtain p e x where f: "refresh_finish cfg J E (secret, c) db = (Inr p, db \<lparr> i_jtis := upsert (ev_ids E 1) e (upsert j x (i_jtis db)) \<rparr>)"
    "\<not> re_revoked e" using refresh_finish_live[OF assms(3,5) j(1)] by blast
  obtain p' e' x' where f': "refresh_finish cfg J E' (secret', c') (db \<lparr> i_jtis := upsert (ev_ids E 1) e (upsert j x (i_jtis db)) \<rparr>) =
      (Inr p', db \<lparr> i_jtis := upsert (ev_ids E' 1) e' (upsert j' x' (upsert (ev_ids E 1) e (upsert j x (i_jtis db)))) \<rparr>)"
    "\<not> re_revoked e'"
    using refresh_finish_live[where db="db \<lparr> i_jtis := upsert (ev_ids E 1) e (upsert j x (i_jtis db)) \<rparr>", OF _ assms(6) j(2)] assms(4) by fastforce
  show ?thesis
    using f f' ne assms(7) refresh_begin_pure[OF assms(1)] refresh_begin_pure[OF assms(2)] by (simp add: burnt_def)
qed

text \<open>A small instance: one user, one token, the claims the library reads from it.\<close>

definition demo_config :: iam_config where
  "demo_config = \<lparr> ic_secret = Some ''0123456789abcdef0123456789abcdef'', ic_production = True, ic_max_failed = 2,
     ic_lock_minutes = 15, ic_access_ttl = 900000, ic_refresh_ttl = 604800000 \<rparr>"

definition demo_claims :: jwt_claims where
  "demo_claims = \<lparr> jc_sub = ''u1'', jc_email = None, jc_tenant = None, jc_type = Some ''refresh'', jc_jti = Some ''j1'',
     jc_fam = Some ''f1'', jc_exp = 900 \<rparr>"

definition demo_jwt :: jwt_api where
  "demo_jwt = \<lparr> jw_sign = (\<lambda>s c. jc_sub c), jw_verify = (\<lambda>s now tok. if tok = ''t'' then Some demo_claims else None) \<rparr>"

definition demo_user :: iam_user where
  "demo_user = \<lparr> us_id = ''u1'', us_tenant = ''a'', us_subject = ''s1'', us_email = ''x@y'', us_hash = Some ''h'', us_first = None,
     us_last = None, us_login = None, us_active = True, us_created = 0 \<rparr>"

definition demo_iam :: idb where
  "demo_iam = \<lparr> i_users = [demo_user], i_roles = [], i_assignments = [], i_nodes = [], i_failed = [],
     i_jtis = [(''j1'', \<lparr> re_user = ''u1'', re_fam = ''f1'', re_revoked = False \<rparr>)], i_families = [], i_audit = [] \<rparr>"

definition demo_env :: "string \<Rightarrow> int \<Rightarrow> env" where
  "demo_env i now = \<lparr> ev_now = now, ev_ids = (\<lambda>n. i), ev_audit_ok = True \<rparr>"

lemmas demo_iam_defs = demo_config_def demo_claims_def demo_jwt_def demo_user_def demo_iam_def demo_env_def

lemma demo_refresh:
  "refresh_begin demo_config demo_jwt (demo_env i now) ''t'' demo_iam =
     (Inr (''0123456789abcdef0123456789abcdef'', demo_claims), demo_iam)"
  "refresh_token demo_config demo_jwt (demo_env ''j2'' 5) ''t'' demo_iam =
     (Inr \<lparr> tp_access = ''u1'', tp_refresh = ''u1'' \<rparr>, demo_iam \<lparr> i_jtis :=
        [(''j1'', \<lparr> re_user = ''u1'', re_fam = ''f1'', re_revoked = True \<rparr>),
         (''j2'', \<lparr> re_user = ''u1'', re_fam = ''f1'', re_revoked = False \<rparr>)] \<rparr>)"
  by (simp_all add: demo_iam_defs refresh_token_def refresh_begin_def refresh_finish_def jwt_secret_def Let_def
      access_claims_def refresh_claims_def)

lemma demo_iam_inv [simp]: "iam_inv demo_iam" "iam_inv (demo_iam \<lparr> i_jtis := js \<rparr>)"
  by (simp_all add: iam_inv_def demo_iam_def)

lemma demo_finish:
  "refresh_finish demo_config demo_jwt (demo_env ''j2'' 5) (''0123456789abcdef0123456789abcdef'', demo_claims) demo_iam =
     (Inr \<lparr> tp_access = ''u1'', tp_refresh = ''u1'' \<rparr>, demo_iam \<lparr> i_jtis :=
        [(''j1'', \<lparr> re_user = ''u1'', re_fam = ''f1'', re_revoked = True \<rparr>),
         (''j2'', \<lparr> re_user = ''u1'', re_fam = ''f1'', re_revoked = False \<rparr>)] \<rparr>)"
  by (simp add: demo_iam_defs refresh_finish_def Let_def access_claims_def refresh_claims_def)

text \<open>A second request has passed its check before the first rotates; its rotation comes between.\<close>

theorem refresh_single_use_witness:
  "\<not> is_ok (fst (refresh_begin demo_config demo_jwt (demo_env ''j4'' 6) ''t''
     (fold (iam_step demo_config demo_jwt (\<lambda>p h. True))
       [OpRefreshFinish (demo_env ''j3'' 6) (''0123456789abcdef0123456789abcdef'', demo_claims)]
       (snd (refresh_finish demo_config demo_jwt (demo_env ''j2'' 5) (''0123456789abcdef0123456789abcdef'', demo_claims)
         (fold (iam_step demo_config demo_jwt (\<lambda>p h. True)) [OpRefreshBegin (demo_env ''k'' 5) ''t''] demo_iam))))))"
  by (rule refresh_single_use[where E = "demo_env ''k'' 4" and p = "\<lparr> tp_access = ''u1'', tp_refresh = ''u1'' \<rparr>"])
    (simp_all add: demo_refresh(1) demo_finish, simp_all add: demo_iam_defs)

theorem refresh_reuse_burns_family_witness:
  "\<not> is_ok (fst (refresh_token demo_config demo_jwt (demo_env ''j3'' 6) ''t''
     (fold (iam_step demo_config demo_jwt (\<lambda>p h. True)) []
       (snd (refresh_token demo_config demo_jwt (demo_env ''j2'' 5) ''t''
         (demo_iam \<lparr> i_jtis := [(''j1'', \<lparr> re_user = ''u1'', re_fam = ''f1'', re_revoked = True \<rparr>)] \<rparr>))))))"
  by (rule refresh_reuse_burns_family[where secret = "''0123456789abcdef0123456789abcdef''" and c = demo_claims and jti = "''j1''"
        and fam = "''f1''" and c' = demo_claims])
    (simp_all add: burnt_def, simp_all add: demo_iam_defs jwt_secret_def)

theorem refresh_race_witness:
  "let db' = snd (refresh_finish demo_config demo_jwt (demo_env ''j3'' 5) (''0123456789abcdef0123456789abcdef'', demo_claims)
       (snd (refresh_finish demo_config demo_jwt (demo_env ''j2'' 5) (''0123456789abcdef0123456789abcdef'', demo_claims) demo_iam)))
   in \<forall>i\<in>{ev_ids (demo_env ''j2'' 5) 1, ev_ids (demo_env ''j3'' 5) 1}. map_of (i_jtis db') i \<noteq> None \<and> \<not> burnt db' i"
proof -
  have f: "find_first (\<lambda>u. us_id u = jc_sub demo_claims) (i_users demo_iam) = Some demo_user" "us_active demo_user"
    "map_of (i_jtis demo_iam) ''j2'' = None" "map_of (i_jtis demo_iam) ''j3'' = None"
    by (simp_all add: demo_iam_defs)
  have i: "ev_ids (demo_env i 5) 1 = i" for i by (simp add: demo_env_def)
  show ?thesis
    using refresh_race[of demo_config demo_jwt "demo_env ''j2'' 5" "''t''" demo_iam "''0123456789abcdef0123456789abcdef''" demo_claims
        "demo_env ''j3'' 5" "''0123456789abcdef0123456789abcdef''" demo_claims demo_user demo_user] f
    unfolding i Let_def by (simp add: demo_refresh(1))
qed

section \<open>Lockout\<close>

text \<open>The password is right for the user the query found.\<close>

definition password_ok :: "(string \<Rightarrow> string \<Rightarrow> bool) \<Rightarrow> string \<Rightarrow> iam_user option \<Rightarrow> bool" where
  "password_ok bc pw user \<longleftrightarrow> (case user of None \<Rightarrow> False
     | Some u \<Rightarrow> (case us_hash u of None \<Rightarrow> False | Some h \<Rightarrow> h \<noteq> [] \<and> bc pw h))"

text \<open>A login for the address that ends with a wrong or with the right password.\<close>

fun fails_for :: "(string \<Rightarrow> string \<Rightarrow> bool) \<Rightarrow> string \<Rightarrow> iam_op \<Rightarrow> bool" where
  "fails_for bc k (OpLoginFinish E email pw u) \<longleftrightarrow> lock_key email = k \<and> \<not> password_ok bc pw u"
| "fails_for bc k _ \<longleftrightarrow> False"

fun passes_for :: "(string \<Rightarrow> string \<Rightarrow> bool) \<Rightarrow> string \<Rightarrow> iam_op \<Rightarrow> bool" where
  "passes_for bc k (OpLoginFinish E email pw u) \<longleftrightarrow> lock_key email = k \<and> password_ok bc pw u"
| "passes_for bc k _ \<longleftrightarrow> False"

fun login_time :: "iam_op \<Rightarrow> int" where
  "login_time (OpLoginFinish E email pw u) = ev_now E"
| "login_time _ = 0"

lemma user_audit_failed [simp]: "i_failed (user_audit E t u i v mt db) = i_failed db"
  by (simp add: user_audit_def)

lemma record_failure_counts:
  "map_of (i_failed (record_failure cfg E email u reason db)) k =
     (if k = lock_key email
      then (let n = (case map_of (i_failed db) k of None \<Rightarrow> 0 | Some (c, _) \<Rightarrow> c) + 1
            in Some (n, if n \<ge> ic_max_failed cfg then ev_now E + ic_lock_minutes cfg * 60000 else 0))
      else map_of (i_failed db) k)"
  by (simp add: record_failure_def Let_def)

lemma failed_login_counts:
  assumes "\<not> password_ok bc pw u"
  shows "\<exists>reason w. snd (login_finish cfg J bc E email pw u db) = record_failure cfg E email w reason db"
  using assms by (auto simp: login_finish_def password_ok_def split: option.splits)

lemma map_of_filter_other: "k \<noteq> k' \<Longrightarrow> map_of (filter (\<lambda>(x, _). x \<noteq> k') ps) k = map_of ps k"
  by (induction ps) auto

lemma correct_login_clears:
  assumes "password_ok bc pw u" "k \<noteq> lock_key email"
  shows "map_of (i_failed (snd (login_finish cfg J bc E email pw u db))) k = map_of (i_failed db) k"
  using assms by (auto simp: login_finish_def password_ok_def Let_def map_of_filter_other split: option.splits sum.splits)

lemma other_step_counts:
  assumes "\<not> fails_for bc k c" "\<not> passes_for bc k c"
  shows "map_of (i_failed (iam_step cfg J bc c db)) k = map_of (i_failed db) k"
proof (cases c)
  case (OpLoginFinish E email pw u)
  then have ne: "k \<noteq> lock_key email" using assms by auto
  show ?thesis
  proof (cases "password_ok bc pw u")
    case True
    then show ?thesis using correct_login_clears ne by (simp add: OpLoginFinish)
  next
    case False
    from failed_login_counts[OF False, of cfg J E email db] ne show ?thesis
      by (auto simp: OpLoginFinish record_failure_counts)
  qed
next
  case (OpRefreshBegin E tok)
  then show ?thesis by (auto simp: refresh_begin_def split: sum.splits option.splits)
next
  case (OpRefreshFinish E sc)
  then show ?thesis by (auto simp: refresh_finish_def Let_def split: option.splits)
next
  case (OpLogout E tok)
  then show ?thesis by (auto simp: logout_def split: option.splits sum.splits)
next
  case (OpExchange E k)
  then show ?thesis
    by (auto simp: exchange_code_def provision_user_def insert_user_def Let_def split: option.splits sum.splits prod.splits if_splits)
next
  case (OpInvite E t kc email f l actor)
  then show ?thesis
    by (auto simp: invite_user_def invited_user_def insert_user_def Let_def split: option.splits sum.splits prod.splits if_splits)
qed (auto simp: update_user_def deactivate_user_def create_role_def assign_role_def revoke_assignment_def Let_def split: option.splits)

text \<open>The counter after a run without a correct login: at least the failures of the run, and locked
  from the last of them when the limit is reached.\<close>

lemma failures_counted:
  assumes "\<forall>c\<in>set cs. \<not> passes_for bc k c" "filter (fails_for bc k) cs \<noteq> []"
  shows "\<exists>n\<ge>length (filter (fails_for bc k) cs). map_of (i_failed (fold (iam_step cfg J bc) cs db)) k =
     Some (n, if n \<ge> ic_max_failed cfg
       then login_time (List.last (filter (fails_for bc k) cs)) + ic_lock_minutes cfg * 60000 else 0)"
  using assms
proof (induction cs rule: rev_induct)
  case (snoc c cs)
  let ?d = "fold (iam_step cfg J bc) cs db"
  show ?case
  proof (cases "fails_for bc k c")
    case False
    then have "map_of (i_failed (iam_step cfg J bc c ?d)) k = map_of (i_failed ?d) k"
      using other_step_counts snoc.prems(1) by simp
    moreover obtain n where "length (filter (fails_for bc k) cs) \<le> n" "map_of (i_failed ?d) k =
        Some (n, if n \<ge> ic_max_failed cfg then login_time (List.last (filter (fails_for bc k) cs)) + ic_lock_minutes cfg * 60000 else 0)"
      using snoc False by auto
    ultimately show ?thesis using False by (intro exI[of _ n]) simp
  next
    case True
    then obtain E email pw u where c: "c = OpLoginFinish E email pw u" "lock_key email = k" "\<not> password_ok bc pw u"
      by (cases c) auto
    obtain reason w where f: "iam_step cfg J bc c ?d = record_failure cfg E email w reason ?d"
      using failed_login_counts[OF c(3), of cfg J E email ?d] by (auto simp: c(1))
    define m where "m = (case map_of (i_failed ?d) k of None \<Rightarrow> 0 | Some (x, _) \<Rightarrow> x)"
    have m: "length (filter (fails_for bc k) cs) \<le> m"
    proof (cases "filter (fails_for bc k) cs = []")
      case False
      then show ?thesis using snoc by (auto simp: m_def)
    qed simp
    have "map_of (i_failed (iam_step cfg J bc c ?d)) k =
        Some (m + 1, if m + 1 \<ge> ic_max_failed cfg then ev_now E + ic_lock_minutes cfg * 60000 else 0)"
      by (simp add: f record_failure_counts c(2) m_def Let_def)
    then show ?thesis using True m by (intro exI[of _ "m + 1"]) (simp add: c(1))
  qed
qed simp

text \<open>C32: Lockout: when the failed logins for one address (however written: case and surrounding
  spaces do not matter) reach the configured limit within the length of the lock, then every login
  for it that comes before the end of the lock, counted from the last failure, is refused and
  changes nothing, the right password included. Anything may go on between the failures and after
  them, except that a login with the right password for the address comes to its end: a login that
  had passed its check before the lock and ends after it lifts the lock.\<close>

theorem login_lockout:
  assumes "\<forall>c\<in>set cs. \<not> passes_for bc k c" "fs = filter (fails_for bc k) cs" "fs \<noteq> []" "ic_max_failed cfg \<le> length fs"
    "\<forall>c\<in>set fs. login_time (List.last fs) - ic_lock_minutes cfg * 60000 \<le> login_time c"
    "lock_key email = k" "ev_now E < login_time (List.last fs) + ic_lock_minutes cfg * 60000"
  shows "\<exists>e. login cfg J bc E email pw (fold (iam_step cfg J bc) cs db) = (Inl e, fold (iam_step cfg J bc) cs db)"
proof -
  obtain n where "length fs \<le> n" "map_of (i_failed (fold (iam_step cfg J bc) cs db)) k =
      Some (n, if n \<ge> ic_max_failed cfg then login_time (List.last fs) + ic_lock_minutes cfg * 60000 else 0)"
    using failures_counted[OF assms(1), of cfg J db] assms(2,3) by blast
  then have "map_of (i_failed (fold (iam_step cfg J bc) cs db)) (lock_key email) =
      Some (n, login_time (List.last fs) + ic_lock_minutes cfg * 60000)" using assms(4,6) by simp
  then show ?thesis using assms(7) by (simp add: login_def login_check_def)
qed

theorem login_lockout_witness:
  "let db' = fold (iam_step demo_config demo_jwt (\<lambda>p h. p = ''good''))
       [OpLoginFinish (demo_env ''i'' 10) ''x@y'' ''bad'' (Some demo_user), OpLogout (demo_env ''i'' 15) None,
        OpLoginFinish (demo_env ''i'' 20) '' X@y'' ''good'' None] demo_iam
   in \<exists>e. login demo_config demo_jwt (\<lambda>p h. p = ''good'') (demo_env ''i'' 1000) ''x@y'' ''good'' db' = (Inl e, db')"
proof -
  have k: "lock_key ''x@y'' = ''x@y''" "lock_key '' X@y'' = ''x@y''" by code_simp+
  have p: "\<not> password_ok (\<lambda>p h. p = ''good'') ''bad'' (Some demo_user)" "\<not> password_ok (\<lambda>p h. p = ''good'') ''good'' None"
    by (simp_all add: password_ok_def demo_user_def)
  show ?thesis unfolding Let_def
    by (rule login_lockout[where k = "''x@y''", OF _ refl]) (simp_all add: k p, simp_all add: demo_config_def demo_env_def)
qed

text \<open>A correct login that passed its check before the lock was set ends after it and lifts it.\<close>

theorem lockout_lifted_in_flight:
  assumes "password_ok bc pw (Some u)"
  shows "map_of (i_failed (snd (login_finish cfg J bc E email pw (Some u) db))) (lock_key email) = None"
  using assms
  by (auto simp: login_finish_def password_ok_def Let_def map_of_eq_None_iff split: option.splits sum.splits)

section \<open>Permissions\<close>












section \<open>Magic links\<close>

text \<open>C36: A signed link verifies under the same secret exactly until its expiry and gives back tenant,
  scope, target and subject; and whatever text is accepted, under any secret and at any time, starts
  with a body and a dot and the HMAC of that body under the verifying secret, and what it gives is the decoded
  body, not yet expired: nothing is accepted on the word of the text alone. (The conversion to base64url
  gives texts without a dot and is undone by the decoding.)\<close>

theorem link_roundtrip:
  assumes "p = link_payload_of E t scope target ttl subject" "li_decode L (li_encode L p) = Some p"
    "li_encode L p \<noteq> []" "CHR ''.'' \<notin> set (li_encode L p)" "\<forall>s b. li_hmac L s b \<noteq> [] \<and> CHR ''.'' \<notin> set (li_hmac L s b)"
  shows "link_verify L secret now (link_sign L secret E t scope target ttl subject) =
      (if now \<le> (ev_now E div 1000 + ttl) * 1000 then Some (t, scope, target, subject) else None) \<and>
    (link_verify L secret' now' token = Some r \<longrightarrow>
      (\<exists>b q. starts_with (token @ ''.'') (b @ ''.'' @ li_hmac L secret' b @ ''.'') \<and> li_decode L b = Some q \<and>
         now' \<le> lp_exp q * 1000 \<and> r = (lp_tenant q, lp_scope q, lp_target q, lp_subject q)))"
proof (intro conjI impI)
  show "link_verify L secret now (link_sign L secret E t scope target ttl subject) =
      (if now \<le> (ev_now E div 1000 + ttl) * 1000 then Some (t, scope, target, subject) else None)"
    by (simp add: link_verify_signed[OF assms])
  assume "link_verify L secret' now' token = Some r"
  then obtain b sig rest q where v: "split_on CHR ''.'' token = b # sig # rest" "sig = li_hmac L secret' b"
    "li_decode L b = Some q" "\<not> lp_exp q * 1000 < now'" "r = (lp_tenant q, lp_scope q, lp_target q, lp_subject q)"
    by (auto simp: link_verify_def split: list.splits if_splits option.splits)
  have "token = join_with CHR ''.'' (b # sig # rest)" using join_split[of "CHR ''.''" token] v(1) by simp
  then have "starts_with (token @ ''.'') (b @ ''.'' @ sig @ ''.'')"
    by (cases rest) (auto simp: starts_with_iff)
  with v show "\<exists>b q. starts_with (token @ ''.'') (b @ ''.'' @ li_hmac L secret' b @ ''.'') \<and> li_decode L b = Some q \<and>
         now' \<le> lp_exp q * 1000 \<and> r = (lp_tenant q, lp_scope q, lp_target q, lp_subject q)"
    by (intro exI[of _ b] exI[of _ q]) auto
qed

text \<open>A conversion and an HMAC that differ from secret to secret; the link of one is refused under the other.\<close>

definition keyed_links :: link_api where
  "keyed_links = plain_links \<lparr> li_hmac := (\<lambda>s b. nibbles s @ ''m'') \<rparr>"

lemma keyed_links_ok: "link_api_ok keyed_links"
  using plain_links_ok nibbles_clean by (fastforce simp: link_api_ok_def keyed_links_def)

theorem link_roundtrip_witness:
  "link_verify keyed_links ''k'' 61000 (link_sign keyed_links ''k'' (demo_env ''n'' 1000) ''a'' LinkSurvey ''s1'' 60 None) =
     Some (''a'', LinkSurvey, ''s1'', None) \<and>
   link_verify keyed_links ''other'' 61000 (link_sign keyed_links ''k'' (demo_env ''n'' 1000) ''a'' LinkSurvey ''s1'' 60 None) = None"
proof
  let ?p = "link_payload_of (demo_env ''n'' 1000) ''a'' LinkSurvey ''s1'' 60 None"
  note ok = keyed_links_ok[unfolded link_api_ok_def]
  show "link_verify keyed_links ''k'' 61000 (link_sign keyed_links ''k'' (demo_env ''n'' 1000) ''a'' LinkSurvey ''s1'' 60 None) =
     Some (''a'', LinkSurvey, ''s1'', None)"
    using link_roundtrip[OF refl, of keyed_links "demo_env ''n'' 1000" "''a''" LinkSurvey "''s1''" 60 None "''k''" 61000] ok
    by (simp add: demo_env_def)
  have "li_hmac keyed_links ''k'' (li_encode keyed_links ?p) \<noteq> li_hmac keyed_links ''other'' (li_encode keyed_links ?p)"
    by (simp add: keyed_links_def nibbles_def)
  then show "link_verify keyed_links ''other'' 61000 (link_sign keyed_links ''k'' (demo_env ''n'' 1000) ''a'' LinkSurvey ''s1'' 60 None) = None"
    using link_verify_signed[OF refl, of keyed_links "demo_env ''n'' 1000" "''a''" LinkSurvey "''s1''" 60 None "''other''" 61000 "''k''"] ok
    by simp
qed

section \<open>Foreign users and repeated roles\<close>

text \<open>An invitation whose identity subject exists already returns the row of the other tenant and
  audits it in the tenant of the caller.\<close>

theorem invite_foreign_user:
  assumes "find_first (\<lambda>u. us_subject u = ''local:'' @ email) (i_users db) = Some u"
  shows "invite_user E t None email f l actor db =
    (Inr u, db \<lparr> i_audit := audit_log E (audit_entry t actor ''User'' (Some (us_id u)) ''CREATE'' None (Some (SnapEmail email))
       (Some (SnapNote ''invited''))) (i_audit db) \<rparr>)"
  using assms by (simp add: invite_user_def invited_user_def)

text \<open>Without a scope node a role can be assigned again and again.\<close>

theorem unscoped_assign_twice:
  assumes "is_ok (fst (assign_role E t user role None actor db))"
  shows "is_ok (fst (assign_role E' t user role None actor' (snd (assign_role E t user role None actor db))))"
  using assms by (auto simp: assign_role_def Let_def split: if_splits)

end
