(* ===== verification/Brsr.thy ===== *)
theory Brsr
  imports Calc Dates
begin

text \<open>
  Disclosures (services/api/src/brsr/brsr.service.ts): the mapping rows of a framework, their
  resolution to approved metric events, the section tree of the user interface, the preview page
  and the request of a report.

  Decimals are those of the formula language with their text; the server's time zone is a fixed
  offset. Rows the database orders by a key keep their order inside one key.
\<close>

section \<open>Data\<close>

record 'd decimal_text = "'d decimal_api" +
  d_show :: "'d \<Rightarrow> string"

record brsr_mapping = framework_mapping +
  bm_aggregation :: "string option"

record resolve_dto =
  rq_fy :: string
  rq_framework :: string
  rq_scopes :: "string list"
  rq_section :: "string option"

record resolved_section =
  rs_section :: string
  rs_label :: string
  rs_value :: "string option"
  rs_unit :: "string option"
  rs_sources :: "string list"
  rs_run :: "string option"
  rs_documents :: "string list"
  rs_fields :: "string list"

datatype report_status = RDraft | RGenerating | RGenerated | RInReview | RApproved | RPublished | RFiled

record report =
  rp_id :: string
  rp_tenant :: string
  rp_fy :: string
  rp_framework :: string
  rp_title :: string
  rp_status :: report_status
  rp_version :: nat
  rp_scopes :: "string list"
  rp_principles :: "int list"
  rp_formats :: "string list"
  rp_pdf :: "string option"
  rp_xlsx :: "string option"
  rp_xbrl :: "string option"
  rp_overrides :: "string option js_object"
  rp_by :: string
  rp_at :: int
  rp_approved_by :: "string option"
  rp_filed_at :: "int option"
  rp_hash :: "string option"

record report_job =
  rj_id :: "string option"
  rj_report :: string
  rj_tenant :: string
  rj_format :: string

datatype report_snap = SnapReport report | SnapGenerate | SnapFiling string

text \<open>The tables the reports need; \<open>r_fields\<close> has the tenant and document of an extracted field.\<close>

record 'd rdb =
  r_nodes :: "(string \<times> string) list"
  r_mappings :: "brsr_mapping list"
  r_events :: "'d metric_event list"
  r_fields :: "(string \<times> string \<times> string) list"
  r_reports :: "report list"
  r_queue :: "report_job list"
  r_objects :: "(string \<times> string) list"
  r_audit :: "report_snap audit_row list"

section \<open>Mappings\<close>

text \<open>An enum column is ordered by the declaration of its values.\<close>

definition framework_rank :: "string \<Rightarrow> int" where
  "framework_rank f = (case index_of f schema_frameworks 0 of None \<Rightarrow> 0 | Some i \<Rightarrow> i)"

definition list_mappings :: "string option \<Rightarrow> string option \<Rightarrow> 'd rdb \<Rightarrow> brsr_mapping list outcome" where
  "list_mappings framework version db =
     (case framework of
        Some f \<Rightarrow>
          if f \<noteq> [] \<and> f \<notin> set schema_frameworks then Inl (BadRequest (''Unknown framework: '' @ f))
          else if f = [] then Inl (PrismaError ''validation'')
          else Inr (sort_key fm_code (filter (\<lambda>m. fm_framework m = f \<and> opt_eq version (fm_version m)) (r_mappings db)))
      | None \<Rightarrow> Inr (sort_key (\<lambda>m. framework_rank (fm_framework m)) (sort_key fm_code
          (filter (\<lambda>m. opt_eq version (fm_version m)) (r_mappings db)))))"

section \<open>The fiscal year of a request\<close>

text \<open>
  The leftmost match of two to four digits, other characters, two to four digits. A run of digits
  has to end where the first group ends, so it is a whole run.
\<close>

fun fy_match :: "string \<Rightarrow> (string \<times> string) option" where
  "fy_match [] = None"
| "fy_match (c # s) =
     (let a = takeWhile dec_digit (c # s);
          b = takeWhile dec_digit (dropWhile (\<lambda>x. \<not> dec_digit x) (dropWhile dec_digit (c # s)))
      in if 2 \<le> length a \<and> length a \<le> 4 \<and> 2 \<le> length b then Some (a, take 4 b) else fy_match s)"

text \<open>\<open>parseInt(s, 10)\<close>, \<open>None\<close> for NaN.\<close>

definition js_parse_int :: "string \<Rightarrow> int option" where
  "js_parse_int s =
     (let t = dropWhile js_space s;
          neg = (case t of c # _ \<Rightarrow> c = CHR ''-'' | [] \<Rightarrow> False);
          u = (case t of c # r \<Rightarrow> if c = CHR ''-'' \<or> c = CHR ''+'' then r else t | [] \<Rightarrow> []);
          ds = takeWhile dec_digit u
      in if ds = [] then None else Some (if neg then - digits_value ds else digits_value ds))"

text \<open>Midnight of the first of April and of the last of March, local time.\<close>

definition fy_range :: "int \<Rightarrow> int \<Rightarrow> int \<Rightarrow> int \<times> int" where
  "fy_range tz a b = (utc a 4 1 - tz, utc b 3 31 - tz)"

definition century :: "int \<Rightarrow> int" where
  "century a = (if a < 100 then a + 2000 else a)"

definition parse_fy :: "int \<Rightarrow> int \<Rightarrow> string \<Rightarrow> int \<times> int" where
  "parse_fy tz now fy =
     (case fy_match fy of
        Some (a, b) \<Rightarrow> fy_range tz (century (digits_value a)) (century (digits_value b))
      | None \<Rightarrow>
          (case js_parse_int fy of
             Some y \<Rightarrow>
               if y < 1990 \<or> 2100 < y
               then (let c = (if utc_month (now + tz) \<ge> 4 then utc_year (now + tz) else utc_year (now + tz) - 1) in fy_range tz c (c + 1))
               else fy_range tz y (y + 1)
           | None \<Rightarrow>
               (let c = (if utc_month (now + tz) \<ge> 4 then utc_year (now + tz) else utc_year (now + tz) - 1) in fy_range tz c (c + 1))))"

section \<open>Resolution\<close>

definition resolve_mappings :: "resolve_dto \<Rightarrow> brsr_mapping list \<Rightarrow> brsr_mapping list" where
  "resolve_mappings dto ms =
     sort_key fm_code (filter (\<lambda>m. fm_framework m = rq_framework dto \<and>
       (case rq_section dto of None \<Rightarrow> True | Some s \<Rightarrow> s = [] \<or> fm_code m = s)) ms)"

definition resolve_events :: "string \<Rightarrow> string list \<Rightarrow> int \<times> int \<Rightarrow> string list \<Rightarrow> 'd metric_event list \<Rightarrow> 'd metric_event list" where
  "resolve_events t scopes period keys es =
     sort_key (\<lambda>e. - me_end e) (filter (\<lambda>e. me_tenant e = t \<and> me_scope e \<in> set scopes \<and> fst period \<le> me_start e \<and>
       me_end e \<le> snd period \<and> (me_status e = MApproved \<or> me_status e = MLocked) \<and> me_key e \<in> set keys) es)"

text \<open>The fold of \<open>reduce\<close>, with the strict comparison of the decimal library.\<close>

definition d_less :: "'d decimal_text \<Rightarrow> 'd \<Rightarrow> 'd \<Rightarrow> bool" where
  "d_less D x y = (case d_cmp D x y of None \<Rightarrow> False | Some n \<Rightarrow> n < 0)"

definition d_total :: "'d decimal_text \<Rightarrow> 'd list \<Rightarrow> 'd" where
  "d_total D vs = foldl (d_plus D) (d_of_int D 0) vs"

definition aggregate_value :: "'d decimal_text \<Rightarrow> string \<Rightarrow> 'd metric_event list \<Rightarrow> string option \<times> string option" where
  "aggregate_value D rule es =
     (case es of
        [] \<Rightarrow> (None, None)
      | e # _ \<Rightarrow>
          (let vs = map me_value es in
           if rule = ''MIN'' then (Some (d_show D (foldl (\<lambda>a c. if d_less D c a then c else a) (me_value e) vs)), None)
           else if rule = ''MAX'' then (Some (d_show D (foldl (\<lambda>a c. if d_less D a c then c else a) (me_value e) vs)), None)
           else if rule = ''LATEST'' then (Some (d_show D (me_value e)), me_calc_run e)
           else if rule = ''FIRST'' then (Some (d_show D (me_value (last es))), me_calc_run (last es))
           else (Some (d_show D (d_total D vs)), None)))"

definition event_fields :: "'d metric_event list \<Rightarrow> string list" where
  "event_fields es = filter (\<lambda>x. x \<noteq> []) (List.map_filter me_extraction es)"

definition field_document :: "string \<Rightarrow> (string \<times> string \<times> string) list \<Rightarrow> string \<Rightarrow> string option" where
  "field_document t fds i = map_of (map (\<lambda>(f, u, d). (f, d)) (filter (\<lambda>(f, u, d). u = t) fds)) i"

text \<open>\<open>Array.from(new Set(xs))\<close> keeps first occurrences.\<close>

definition js_unique :: "'a list \<Rightarrow> 'a list" where
  "js_unique xs = rev (remdups (rev xs))"

definition resolve_one ::
  "'d decimal_text \<Rightarrow> string \<Rightarrow> (string \<times> string \<times> string) list \<Rightarrow> 'd metric_event list \<Rightarrow> brsr_mapping \<Rightarrow> resolved_section" where
  "resolve_one D t fds events m =
     (let candidates = concat (map (\<lambda>k. filter (\<lambda>e. me_key e = k) events) (fm_keys m));
          sorted_es = sort_key (\<lambda>e. - me_end e) candidates;
          rule = (case bm_aggregation m of None \<Rightarrow> ''SUM'' | Some r \<Rightarrow> r);
          ag = aggregate_value D rule sorted_es;
          fs = event_fields candidates
      in \<lparr> rs_section = (case fm_section m of None \<Rightarrow> fm_code m | Some s \<Rightarrow> s), rs_label = fm_code m, rs_value = fst ag,
           rs_unit = (case candidates of [] \<Rightarrow> None | e # _ \<Rightarrow> Some (me_unit e)), rs_sources = map me_id candidates,
           rs_run = snd ag,
           rs_documents = js_unique (filter (\<lambda>x. x \<noteq> []) (List.map_filter (field_document t fds) fs)), rs_fields = fs \<rparr>)"

definition resolve :: "'d decimal_text \<Rightarrow> int \<Rightarrow> env \<Rightarrow> string \<Rightarrow> resolve_dto \<Rightarrow> 'd rdb \<Rightarrow> resolved_section list outcome" where
  "resolve D tz E t dto db =
     (if rq_framework dto \<notin> set schema_frameworks then Inl (BadRequest (''Unknown framework: '' @ rq_framework dto))
      else (let ms = resolve_mappings dto (r_mappings db);
                es = resolve_events t (rq_scopes dto) (parse_fy tz (ev_now E) (rq_fy dto)) (concat (map fm_keys ms)) (r_events db)
            in Inr (map (resolve_one D t (r_fields db) es) ms)))"

section \<open>The section tree\<close>

text \<open>\<open>/^P(\d+)/i\<close> on the label, in upper case.\<close>

definition principle_of :: "string \<Rightarrow> string" where
  "principle_of label =
     (case label of
        [] \<Rightarrow> ''General''
      | c # s \<Rightarrow> (let ds = takeWhile dec_digit s in
          if (c = CHR ''P'' \<or> c = CHR ''p'') \<and> ds \<noteq> [] then CHR ''P'' # ds else ''General''))"

record question =
  qu_ref :: string
  qu_text :: string
  qu_numeric :: bool
  qu_answer :: "string option"
  qu_unit :: "string option"
  qu_evidence :: "string list"

record section_group =
  sg_id :: string
  sg_principle :: string
  sg_title :: string
  sg_total :: nat
  sg_answered :: nat
  sg_questions :: "question list"

text \<open>A value is a string here, so the answer is never typed numeric.\<close>

definition question_of :: "resolved_section \<Rightarrow> question" where
  "question_of r =
     \<lparr> qu_ref = rs_label r,
       qu_text = (if rs_section r \<noteq> [] \<and> rs_section r \<noteq> ''Principle '' @ tl (principle_of (rs_label r)) then rs_section r else rs_label r),
       qu_numeric = False, qu_answer = rs_value r, qu_unit = rs_unit r, qu_evidence = rs_documents r \<rparr>"

fun group_sections :: "resolved_section list \<Rightarrow> (string \<times> question list) list \<Rightarrow> (string \<times> question list) list" where
  "group_sections [] groups = groups"
| "group_sections (r # rs) groups =
     (let p = principle_of (rs_label r); qs = (case map_of groups p of None \<Rightarrow> [] | Some qs \<Rightarrow> qs)
      in group_sections rs (upsert p (qs @ [question_of r]) groups))"

definition group_view :: "string \<times> question list \<Rightarrow> section_group" where
  "group_view g =
     \<lparr> sg_id = js_lower (fst g), sg_principle = fst g,
       sg_title = (if fst g = ''General'' then ''General'' else ''Principle '' @ tl (fst g)),
       sg_total = length (snd g), sg_answered = length (filter (\<lambda>q. qu_answer q \<noteq> None) (snd g)), sg_questions = snd g \<rparr>"

definition sections :: "'d decimal_text \<Rightarrow> int \<Rightarrow> env \<Rightarrow> string \<Rightarrow> string \<Rightarrow> string \<Rightarrow> 'd rdb \<Rightarrow> section_group list outcome" where
  "sections D tz E t fy framework db =
     (let scopes = take 50 (map fst (filter (\<lambda>n. snd n = t) (r_nodes db))) in
      if scopes = [] then Inr []
      else case resolve D tz E t \<lparr> rq_fy = fy, rq_framework = framework, rq_scopes = scopes, rq_section = None \<rparr> db of
        Inl e \<Rightarrow> Inl e
      | Inr rs \<Rightarrow> Inr (map group_view (group_sections rs [])))"

section \<open>Preview\<close>

definition escape_char :: "char \<Rightarrow> string" where
  "escape_char c =
     (if c = CHR ''&'' then ''&amp;'' else if c = CHR ''<'' then ''&lt;'' else if c = CHR ''>'' then ''&gt;''
      else if c = CHR 0x22 then ''&quot;'' else if c = CHR 0x27 then ''&#39;'' else [c])"

definition escape_html :: "string \<Rightarrow> string" where
  "escape_html s = concat (map escape_char s)"

definition html_row :: "resolved_section \<Rightarrow> string" where
  "html_row r =
     ''<tr><td>'' @ escape_html (rs_section r) @ ''</td><td>'' @ escape_html (rs_label r) @ ''</td><td>'' @
     escape_html (case rs_value r of None \<Rightarrow> ''-'' | Some v \<Rightarrow> v) @ ''</td><td>'' @
     escape_html (case rs_unit r of None \<Rightarrow> [] | Some u \<Rightarrow> u) @ ''</td></tr>''"

text \<open>The page, with its style sheet. The dash of the titles is written as a hyphen.\<close>

definition html_style :: string where
  "html_style = join_with CHR 0x0A
     [''      <style>'',
      ''        body{font-family:-apple-system,sans-serif;color:#111;padding:24px;}'',
      ''        table{border-collapse:collapse;width:100%;}'',
      ''        th,td{border:1px solid #ddd;padding:6px 10px;font-size:13px;text-align:left;}'',
      ''        th{background:#f6f6f6;}'',
      ''      </style></head>'']"

definition html_page :: "resolve_dto \<Rightarrow> resolved_section list \<Rightarrow> string" where
  "html_page dto rs = join_with CHR 0x0A
     [''<!doctype html><html><head><meta charset='' @ [CHR 0x22] @ ''utf-8'' @ [CHR 0x22] @ ''><title>'' @
        escape_html (rq_framework dto) @ '' preview - '' @ escape_html (rq_fy dto) @ ''</title>'',
      html_style, ''      <body>'',
      ''      <h1>'' @ escape_html (rq_framework dto) @ '' - '' @ escape_html (rq_fy dto) @ '' preview</h1>'',
      ''      <p>Scope nodes: '' @ show_nat (length (rq_scopes dto)) @ ''</p>'',
      ''      <table><thead><tr><th>Section</th><th>Label</th><th>Value</th><th>Unit</th></tr></thead>'',
      ''      <tbody>'' @ concat (map html_row rs) @ ''</tbody></table>'',
      ''      </body></html>'']"

definition preview :: "'d decimal_text \<Rightarrow> int \<Rightarrow> env \<Rightarrow> string \<Rightarrow> resolve_dto \<Rightarrow> 'd rdb \<Rightarrow> string outcome" where
  "preview D tz E t dto db = bindR (resolve D tz E t dto db) (\<lambda>rs. Inr (html_page dto rs))"

section \<open>Requesting a report\<close>

record generate_dto = resolve_dto +
  gq_formats :: "string list option"
  gq_principles :: "int list option"
  gq_key :: "string option"

definition requested_formats :: "string list option \<Rightarrow> string list" where
  "requested_formats fs = (case fs of None \<Rightarrow> [''pdf'', ''xlsx''] | Some xs \<Rightarrow> xs)"

definition report_job_id :: "string \<Rightarrow> string option \<Rightarrow> string \<Rightarrow> string option" where
  "report_job_id t k fmt = (case k of None \<Rightarrow> None
     | Some s \<Rightarrow> if s = [] then None else Some (''report-'' @ t @ ''-'' @ s @ ''-'' @ fmt))"

definition report_enqueue :: "report_job \<Rightarrow> report_job list \<Rightarrow> report_job list" where
  "report_enqueue j q = (if rj_id j \<noteq> None \<and> rj_id j \<in> set (map rj_id q) then q else q @ [j])"

definition report_jobs :: "string \<Rightarrow> string option \<Rightarrow> string \<Rightarrow> string list option \<Rightarrow> report_job list" where
  "report_jobs t k i fs =
     map (\<lambda>fmt. \<lparr> rj_id = report_job_id t k fmt, rj_report = i, rj_tenant = t, rj_format = fmt \<rparr>)
       (requested_formats fs @ (if ''xbrl'' \<in> set (case fs of None \<Rightarrow> [] | Some xs \<Rightarrow> xs) then [''xbrl''] else []))"

definition new_report :: "env \<Rightarrow> string \<Rightarrow> generate_dto \<Rightarrow> string \<Rightarrow> report" where
  "new_report E t dto actor =
     \<lparr> rp_id = ev_ids E 1, rp_tenant = t, rp_fy = rq_fy dto, rp_framework = rq_framework dto,
       rp_title = rq_framework dto @ '' '' @ rq_fy dto, rp_status = RDraft, rp_version = 1, rp_scopes = rq_scopes dto,
       rp_principles = (case gq_principles dto of None \<Rightarrow> [] | Some ps \<Rightarrow> ps), rp_formats = requested_formats (gq_formats dto),
       rp_pdf = None, rp_xlsx = None, rp_xbrl = None, rp_overrides = [], rp_by = actor, rp_at = ev_now E,
       rp_approved_by = None, rp_filed_at = None, rp_hash = None \<rparr>"

text \<open>A report is unique in tenant, year, framework and version; the version is the default one.\<close>

definition generate :: "env \<Rightarrow> string \<Rightarrow> generate_dto \<Rightarrow> string \<Rightarrow> 'd rdb \<Rightarrow> report outcome \<times> 'd rdb" where
  "generate E t dto actor db =
     (if rq_framework dto \<notin> set schema_frameworks then (Inl (BadRequest (''Unknown framework: '' @ rq_framework dto)), db)
      else if length (filter (\<lambda>n. fst n \<in> set (rq_scopes dto) \<and> snd n = t) (r_nodes db)) \<noteq> length (rq_scopes dto)
      then (Inl (BadRequest ''One or more scopeNodeIds do not belong to this tenant''), db)
      else if \<exists>r\<in>set (r_reports db). rp_tenant r = t \<and> rp_fy r = rq_fy dto \<and> rp_framework r = rq_framework dto \<and> rp_version r = 1
      then (Inl (PrismaError ''P2002''), db)
      else (let r = new_report E t dto actor
            in (Inr r, db \<lparr> r_reports := r_reports db @ [r],
                  r_queue := fold report_enqueue (report_jobs t (gq_key dto) (rp_id r) (gq_formats dto)) (r_queue db),
                  r_audit := audit_log E (audit_entry t actor ''Report'' (Some (rp_id r)) ''CREATE'' None (Some (SnapReport r))
                    (Some SnapGenerate)) (r_audit db) \<rparr>)))"

definition find_report :: "string \<Rightarrow> string \<Rightarrow> 'd rdb \<Rightarrow> report outcome" where
  "find_report t i db =
     (case find_first (\<lambda>r. rp_id r = i \<and> rp_tenant r = t) (r_reports db) of
        None \<Rightarrow> Inl (NotFound ''Report not found'') | Some r \<Rightarrow> Inr r)"

end
