(* ===== verification/Reports.thy ===== *)
theory Reports
  imports Brsr Guards
begin

text \<open>
  Reports: the worker that writes the files of a report
  (services/api/src/brsr/brsr-report.processor.ts) and the service that lists, approves and files
  it (services/api/src/reports/reports.service.ts).

  The PDF and spreadsheet libraries turn the content given here (pages of text lines and footers,
  sheets of rows) into bytes, or fail; how many pages a text takes and which of them are still
  buffered is theirs too. The object store accepts a file or fails.
\<close>

section \<open>Content of the files\<close>

text \<open>\<open>/^P(\d+)/\<close> on the section id: the digits.\<close>

definition section_principle :: "string \<Rightarrow> string option" where
  "section_principle s =
     (case s of
        [] \<Rightarrow> None
      | c # r \<Rightarrow> (let ds = takeWhile dec_digit r in if c = CHR ''P'' \<and> ds \<noteq> [] then Some ds else None))"

definition report_principles :: "resolved_section list \<Rightarrow> string list" where
  "report_principles rs = sort (remdups (List.map_filter (\<lambda>r. section_principle (rs_section r)) rs))"

definition principle_rows :: "string \<Rightarrow> resolved_section list \<Rightarrow> resolved_section list" where
  "principle_rows p rs = filter (\<lambda>r. starts_with (rs_section r) (CHR ''P'' # p)) rs"

definition value_text :: "string \<Rightarrow> resolved_section \<Rightarrow> string" where
  "value_text absent r = (case rs_value r of None \<Rightarrow> absent | Some v \<Rightarrow> v)"

text \<open>Pages of lines: cover, contents, a page per principle.\<close>

definition pdf_pages :: "int \<Rightarrow> report \<Rightarrow> resolved_section list \<Rightarrow> string list list" where
  "pdf_pages now rp rs =
     [rp_framework rp @ '' Report'', rp_fy rp, ''Generated '' @ iso_string now] #
     (''Table of Contents'' # map (\<lambda>p. ''Principle '' @ p) (report_principles rs)) #
     map (\<lambda>p. (''Principle '' @ p) # concat (map (\<lambda>r. [rs_section r @ '': '' @ rs_label r,
         ''  '' @ value_text ''-'' r @ (case rs_unit r of None \<Rightarrow> [] | Some u \<Rightarrow> if u = [] then [] else CHR '' '' # u)])
       (principle_rows p rs))) (report_principles rs)"

text \<open>Sheets of rows, the header row first.\<close>

definition xlsx_sheets :: "int \<Rightarrow> report \<Rightarrow> resolved_section list \<Rightarrow> (string \<times> string list list) list" where
  "xlsx_sheets now rp rs =
     map (\<lambda>p. (''Principle '' @ p, [''Section'', ''Label'', ''Value'', ''Unit''] #
       map (\<lambda>r. [rs_section r, rs_label r, value_text [] r, case rs_unit r of None \<Rightarrow> [] | Some u \<Rightarrow> u]) (principle_rows p rs)))
       (report_principles rs) @
     [(''Audit Trail'', [''Section'', ''Source MetricEvent IDs''] #
        map (\<lambda>r. [rs_section r, join_text '', '' (rs_sources r)]) rs),
      (''Meta'', [[''Framework'', rp_framework rp], [''FY'', rp_fy rp], [''Generated'', iso_string now]])]"

definition escape_xml_char :: "char \<Rightarrow> string" where
  "escape_xml_char c =
     (if c = CHR ''<'' then ''&lt;'' else if c = CHR ''>'' then ''&gt;'' else if c = CHR ''&'' then ''&amp;''
      else if c = CHR 0x22 then ''&quot;'' else if c = CHR 0x27 then ''&apos;'' else [c])"

definition escape_xml :: "string \<Rightarrow> string" where
  "escape_xml s = concat (map escape_xml_char s)"

definition quoted :: "string \<Rightarrow> string" where
  "quoted s = CHR 0x22 # s @ [CHR 0x22]"

definition xbrl_item :: "resolved_section \<Rightarrow> string" where
  "xbrl_item r =
     ''<brsr:item sectionId='' @ quoted (escape_xml (rs_section r)) @ '' unit='' @
     quoted (escape_xml (case rs_unit r of None \<Rightarrow> [] | Some u \<Rightarrow> u)) @ ''>'' @ escape_xml (value_text [] r) @ ''</brsr:item>''"

definition xbrl_text :: "report \<Rightarrow> resolved_section list \<Rightarrow> string" where
  "xbrl_text rp rs = join_with CHR 0x0A
     [''<?xml version='' @ quoted ''1.0'' @ '' encoding='' @ quoted ''UTF-8'' @ ''?>'',
      ''<xbrl xmlns:brsr='' @ quoted ''urn:brsr:v2'' @ '' framework='' @ quoted (escape_xml (rp_framework rp)) @
        '' fy='' @ quoted (escape_xml (rp_fy rp)) @ ''>'',
      ''  <!-- STUB: Replace with Arelle-generated XBRL instance from services/xbrl/. -->'',
      ''  '' @ join_text [CHR 0x0A, CHR '' '', CHR '' ''] (map xbrl_item rs),
      ''</xbrl>'']"

section \<open>The worker\<close>

record report_io =
  io_pages :: "string list list \<Rightarrow> nat"
  io_range :: "nat \<Rightarrow> nat \<times> nat"
  io_pdf :: "string list list \<Rightarrow> string list \<Rightarrow> string option"
  io_xlsx :: "(string \<times> string list list) list \<Rightarrow> string option"
  io_put :: "string \<Rightarrow> string \<Rightarrow> bool"
  io_sha :: "string \<Rightarrow> string"

definition opt_json :: "json \<Rightarrow> string option \<Rightarrow> json" where
  "opt_json absent v = (case v of None \<Rightarrow> absent | Some s \<Rightarrow> JStr s)"

definition section_json :: "resolved_section \<Rightarrow> json" where
  "section_json r = JObj
     [(''sectionId'', JStr (rs_section r)), (''label'', JStr (rs_label r)), (''value'', opt_json JNull (rs_value r)),
      (''unit'', opt_json JUndefined (rs_unit r)), (''sourceMetricEventIds'', JArr (map JStr (rs_sources r))),
      (''calcRunId'', opt_json JNull (rs_run r)),
      (''evidence'', JObj [(''documentIds'', JArr (map JStr (rs_documents r))), (''extractionFieldIds'', JArr (map JStr (rs_fields r)))])]"

text \<open>
  The footers: for \<open>i\<close> from 0 below the number of buffered pages, \<open>switchToPage(i)\<close> and a line. A page
  outside the buffered range (its first page and its length) cannot be switched to: the library throws.
\<close>

definition page_footers :: "nat \<times> nat \<Rightarrow> string list option" where
  "page_footers rng =
     (if list_all (\<lambda>i. fst rng \<le> i \<and> i < fst rng + snd rng) [0..<snd rng]
      then Some (map (\<lambda>i. ''Page '' @ show_nat (i + 1) @ '' of '' @ show_nat (snd rng)) [0..<snd rng]) else None)"

definition build_pdf :: "report_io \<Rightarrow> int \<Rightarrow> report \<Rightarrow> resolved_section list \<Rightarrow> string option" where
  "build_pdf io now rp rs =
     (let pages = pdf_pages now rp rs in
      case page_footers (io_range io (io_pages io pages)) of None \<Rightarrow> None | Some footers \<Rightarrow> io_pdf io pages footers)"

text \<open>Every format but pdf and xlsx takes the XBRL branch.\<close>

definition report_suffix :: "string \<Rightarrow> string" where
  "report_suffix fmt = (if fmt = ''pdf'' then ''pdf'' else if fmt = ''xlsx'' then ''xlsx'' else ''xbrl'')"

definition report_body :: "report_io \<Rightarrow> int \<Rightarrow> string \<Rightarrow> report \<Rightarrow> resolved_section list \<Rightarrow> string option" where
  "report_body io now fmt rp rs =
     (if fmt = ''pdf'' then build_pdf io now rp rs
      else if fmt = ''xlsx'' then io_xlsx io (xlsx_sheets now rp rs)
      else Some (xbrl_text rp rs))"

definition report_file_key :: "string \<Rightarrow> string \<Rightarrow> string \<Rightarrow> string" where
  "report_file_key t i suffix = ''t/'' @ t @ ''/reports/'' @ i @ ''.'' @ suffix"

definition set_column :: "string \<Rightarrow> string \<Rightarrow> report \<Rightarrow> report" where
  "set_column suffix k r =
     (if suffix = ''pdf'' then r \<lparr> rp_pdf := Some k \<rparr> else if suffix = ''xlsx'' then r \<lparr> rp_xlsx := Some k \<rparr> else r \<lparr> rp_xbrl := Some k \<rparr>)"

text \<open>\<open>updated[fmt + 'S3']\<close>; the column for docx is never written.\<close>

definition has_file :: "report \<Rightarrow> string \<Rightarrow> bool" where
  "has_file r fmt =
     (case (if fmt = ''pdf'' then rp_pdf r else if fmt = ''xlsx'' then rp_xlsx r else if fmt = ''xbrl'' then rp_xbrl r else None) of
        None \<Rightarrow> False | Some k \<Rightarrow> k \<noteq> [])"

definition finished_report :: "string \<Rightarrow> string \<Rightarrow> string \<Rightarrow> report \<Rightarrow> report" where
  "finished_report suffix k hash r =
     (let u = set_column suffix k r \<lparr> rp_hash := Some hash \<rparr>
      in if list_all (has_file u) (rp_formats r) \<and> rp_status u = RDraft then u \<lparr> rp_status := RInReview \<rparr> else u)"

definition process_report :: "'d decimal_text \<Rightarrow> int \<Rightarrow> report_io \<Rightarrow> env \<Rightarrow> report_job \<Rightarrow> 'd rdb \<Rightarrow> unit outcome \<times> 'd rdb" where
  "process_report D tz io E job db =
     (case find_first (\<lambda>r. rp_id r = rj_report job \<and> rp_tenant r = rj_tenant job) (r_reports db) of
        None \<Rightarrow> (Inr (), db)
      | Some rp \<Rightarrow>
          (case resolve D tz E (rj_tenant job)
              \<lparr> rq_fy = rp_fy rp, rq_framework = rp_framework rp, rq_scopes = rp_scopes rp, rq_section = None \<rparr> db of
             Inl e \<Rightarrow> (Inl e, db)
           | Inr rs \<Rightarrow>
               (case report_body io (ev_now E) (rj_format job) rp rs of
                  None \<Rightarrow> (Inl (PlainError ''file''), db)
                | Some body \<Rightarrow>
                    (let suffix = report_suffix (rj_format job); k = report_file_key (rj_tenant job) (rp_id rp) suffix in
                     if \<not> io_put io k body then (Inl (PlainError ''storage''), db)
                     else (Inr (), db \<lparr> r_objects := upsert k body (r_objects db),
                       r_reports := update_where (\<lambda>x. rp_id x = rp_id rp)
                         (finished_report suffix k (hash_object (io_sha io) (JArr (map section_json rs)))) (r_reports db) \<rparr>)))))"

section \<open>The service\<close>

definition list_reports :: "string \<Rightarrow> int \<Rightarrow> int \<Rightarrow> 'd rdb \<Rightarrow> report list" where
  "list_reports t n k db =
     take (nat (clamp_take 200 n)) (drop (nat (clamp_skip k))
       (sort_key (\<lambda>r. - rp_at r) (filter (\<lambda>r. rp_tenant r = t) (r_reports db))))"

definition signed_url :: "(string \<Rightarrow> int \<Rightarrow> string) \<Rightarrow> string \<Rightarrow> string \<Rightarrow> string \<Rightarrow> 'd rdb \<Rightarrow> string outcome" where
  "signed_url presign t i fmt db =
     bindR (find_report t i db) (\<lambda>r.
       case (if fmt = ''pdf'' then rp_pdf r else if fmt = ''xlsx'' then rp_xlsx r else if fmt = ''xbrl'' then rp_xbrl r else None) of
         None \<Rightarrow> Inl (NotFound (''No '' @ fmt @ '' output for this report''))
       | Some k \<Rightarrow> if k = [] then Inl (NotFound (''No '' @ fmt @ '' output for this report'')) else Inr (presign k 300))"

fun report_status_text :: "report_status \<Rightarrow> string" where
  "report_status_text RDraft = ''DRAFT''"
| "report_status_text RGenerating = ''GENERATING''"
| "report_status_text RGenerated = ''GENERATED''"
| "report_status_text RInReview = ''IN_REVIEW''"
| "report_status_text RApproved = ''APPROVED''"
| "report_status_text RPublished = ''PUBLISHED''"
| "report_status_text RFiled = ''FILED''"

definition approved_report :: "env \<Rightarrow> string \<Rightarrow> string option \<Rightarrow> report \<Rightarrow> report" where
  "approved_report E actor notes r =
     r \<lparr> rp_status := RApproved, rp_approved_by := Some actor,
         rp_overrides := upsert ''approvedAt'' (Some (iso_string (ev_now E))) (upsert ''approvalNotes'' notes (rp_overrides r)) \<rparr>"

definition approve_report :: "env \<Rightarrow> string \<Rightarrow> string \<Rightarrow> string option \<Rightarrow> string \<Rightarrow> 'd rdb \<Rightarrow> report outcome \<times> 'd rdb" where
  "approve_report E t i notes actor db =
     (case find_report t i db of
        Inl e \<Rightarrow> (Inl e, db)
      | Inr r \<Rightarrow>
          if rp_status r = RFiled then (Inl (Conflict ''Report already filed''), db)
          else if rp_status r = RApproved then (Inr r, db)
          else if rp_status r \<notin> {RDraft, RGenerated, RInReview}
          then (Inl (Conflict (''Report in status '' @ report_status_text (rp_status r) @
                 '' cannot be approved. Must be one of DRAFT,GENERATED,IN_REVIEW.'')), db)
          else if rp_by r = actor then (Inl (Conflict ''Creator cannot approve their own report''), db)
          else (Inr (approved_report E actor notes r),
                db \<lparr> r_reports := update_where (\<lambda>x. rp_id x = i) (approved_report E actor notes) (r_reports db),
                     r_audit := audit_log E (audit_entry t actor ''Report'' (Some i) ''APPROVE'' (Some (SnapReport r))
                       (Some (SnapReport (approved_report E actor notes r))) None) (r_audit db) \<rparr>))"

text \<open>The filing date is parsed by the runtime; \<open>None\<close> is an invalid date, which the client refuses.\<close>

definition filed_report :: "int \<Rightarrow> string \<Rightarrow> string \<Rightarrow> report \<Rightarrow> report" where
  "filed_report at_ms reference actor r =
     r \<lparr> rp_status := RFiled, rp_filed_at := Some at_ms,
         rp_overrides := upsert ''filedBy'' (Some actor) (upsert ''filingReference'' (Some reference) (rp_overrides r)) \<rparr>"

definition file_report ::
  "(string \<Rightarrow> int option) \<Rightarrow> env \<Rightarrow> string \<Rightarrow> string \<Rightarrow> string \<Rightarrow> string option \<Rightarrow> string \<Rightarrow> 'd rdb \<Rightarrow> report outcome \<times> 'd rdb" where
  "file_report parse_at E t i reference filed_at actor db =
     (case find_report t i db of
        Inl e \<Rightarrow> (Inl e, db)
      | Inr r \<Rightarrow>
          if rp_status r \<noteq> RApproved then (Inl (Conflict ''Report must be APPROVED before filing''), db)
          else (case (case filed_at of None \<Rightarrow> Some (ev_now E) | Some s \<Rightarrow> if s = [] then Some (ev_now E) else parse_at s) of
             None \<Rightarrow> (Inl (PrismaError ''validation''), db)
           | Some ms \<Rightarrow>
               (Inr (filed_report ms reference actor r),
                db \<lparr> r_reports := update_where (\<lambda>x. rp_id x = i) (filed_report ms reference actor) (r_reports db),
                     r_audit := audit_log E (audit_entry t actor ''Report'' (Some i) ''SIGN'' (Some (SnapReport r))
                       (Some (SnapReport (filed_report ms reference actor r))) (Some (SnapFiling reference))) (r_audit db) \<rparr>)))"

end
