(* ===== verification/Reports_Props.thy ===== *)
theory Reports_Props
  imports Reports Lifecycle
begin

text \<open>
  What the reports promise: two people sign, filed reports stay filed, the files of a report end
  up complete, resolved values are the totals of approved events, the page of a preview carries no
  markup from data, and the section tree loses nothing.
\<close>

section \<open>The life cycle of a report\<close>

inductive report_move :: "report \<Rightarrow> report \<Rightarrow> bool" where
  written: "report_move r (finished_report suffix (report_file_key (rp_tenant r) (rp_id r) suffix) h r)"
| approved: "rp_status r \<in> {RDraft, RGenerated, RInReview} \<Longrightarrow> rp_by r \<noteq> actor \<Longrightarrow> report_move r (approved_report E actor notes r)"
| filed: "rp_status r = RApproved \<Longrightarrow> report_move r (filed_report ms reference actor r)"

inductive_cases report_move_cases: "report_move r r'"

definition new_draft :: "report \<Rightarrow> bool" where
  "new_draft r \<longleftrightarrow> rp_status r = RDraft \<and> rp_pdf r = None \<and> rp_xlsx r = None \<and> rp_xbrl r = None"

definition own_file :: "report \<Rightarrow> string option \<Rightarrow> bool" where
  "own_file r k \<longleftrightarrow> (case k of None \<Rightarrow> True | Some x \<Rightarrow> \<exists>suffix. x = report_file_key (rp_tenant r) (rp_id r) suffix)"

text \<open>Approved and filed reports have an approver who is not the author; files lie under the tenant.\<close>

definition report_good :: "report \<Rightarrow> bool" where
  "report_good r \<longleftrightarrow> rp_status r \<in> {RDraft, RInReview, RApproved, RFiled} \<and>
     (rp_status r \<in> {RApproved, RFiled} \<longrightarrow> (\<exists>a. rp_approved_by r = Some a \<and> a \<noteq> rp_by r)) \<and>
     own_file r (rp_pdf r) \<and> own_file r (rp_xlsx r) \<and> own_file r (rp_xbrl r)"

text \<open>The parts of a report nothing changes, and the status ladder.\<close>

definition report_core :: "report \<Rightarrow> string \<times> string \<times> string \<times> string \<times> string \<times> string list \<times> string list" where
  "report_core r = (rp_id r, rp_tenant r, rp_fy r, rp_framework r, rp_by r, rp_scopes r, rp_formats r)"

fun status_rank :: "report_status \<Rightarrow> nat" where
  "status_rank RDraft = 0"
| "status_rank RGenerating = 1"
| "status_rank RGenerated = 2"
| "status_rank RInReview = 3"
| "status_rank RApproved = 4"
| "status_rank RPublished = 5"
| "status_rank RFiled = 6"

lemma set_column_sel:
  "rp_status (set_column s k r) = rp_status r" "rp_by (set_column s k r) = rp_by r" "report_core (set_column s k r) = report_core r"
  "rp_approved_by (set_column s k r) = rp_approved_by r" "rp_overrides (set_column s k r) = rp_overrides r"
  "rp_filed_at (set_column s k r) = rp_filed_at r" "rp_id (set_column s k r) = rp_id r" "rp_tenant (set_column s k r) = rp_tenant r"
  "rp_formats (set_column s k r) = rp_formats r"
  by (simp_all add: set_column_def report_core_def)

lemma finished_report_sel:
  "report_core (finished_report s k h r) = report_core r" "rp_approved_by (finished_report s k h r) = rp_approved_by r"
  "rp_overrides (finished_report s k h r) = rp_overrides r" "rp_filed_at (finished_report s k h r) = rp_filed_at r"
  "rp_hash (finished_report s k h r) = Some h"
  "rp_status (finished_report s k h r) = rp_status r \<or> rp_status r = RDraft \<and> rp_status (finished_report s k h r) = RInReview"
  by (simp_all add: finished_report_def Let_def set_column_sel report_core_def) (simp_all add: set_column_def)

lemma report_core_sel:
  "report_core r' = report_core r \<Longrightarrow> rp_id r' = rp_id r \<and> rp_tenant r' = rp_tenant r \<and> rp_by r' = rp_by r \<and> rp_formats r' = rp_formats r"
  by (simp add: report_core_def)

lemma finished_report_files:
  "rp_pdf (finished_report s k h r) \<in> {rp_pdf r, Some k} \<and> rp_xlsx (finished_report s k h r) \<in> {rp_xlsx r, Some k} \<and>
   rp_xbrl (finished_report s k h r) \<in> {rp_xbrl r, Some k}"
  by (simp add: finished_report_def Let_def set_column_def)

lemma report_move_core: "report_move r r' \<Longrightarrow> report_core r' = report_core r"
  by (auto simp: finished_report_sel approved_report_def filed_report_def report_core_def[of "approved_report _ _ _ _"]
      report_core_def[of "filed_report _ _ _ _"] elim!: report_move_cases) (simp_all add: report_core_def)

lemma report_move_rank: "report_move r r' \<Longrightarrow> status_rank (rp_status r) \<le> status_rank (rp_status r')"
proof (erule report_move_cases, goal_cases)
  case (1 suffix h)
  then show ?case using finished_report_sel(6)[of suffix "report_file_key (rp_tenant r) (rp_id r) suffix" h r] by auto
qed (auto simp: approved_report_def filed_report_def)

lemma report_move_good: "report_move r r' \<Longrightarrow> report_good r \<Longrightarrow> report_good r'"
proof (erule report_move_cases, goal_cases)
  case (1 suffix h)
  let ?k = "report_file_key (rp_tenant r) (rp_id r) suffix"
  note f = finished_report_files[of suffix ?k h r] and s = finished_report_sel[of suffix ?k h r]
  have c: "rp_id r' = rp_id r" "rp_tenant r' = rp_tenant r" "rp_by r' = rp_by r" using report_core_sel[OF s(1)] 1 by simp_all
  have own: "own_file r' k" if "k \<in> {k0, Some ?k}" "own_file r k0" for k k0
    using that c by (cases k) (auto simp: own_file_def)
  have files: "rp_pdf r' \<in> {rp_pdf r, Some ?k}" "rp_xlsx r' \<in> {rp_xlsx r, Some ?k}" "rp_xbrl r' \<in> {rp_xbrl r, Some ?k}"
    using f 1 by simp_all
  have "rp_status r' = rp_status r \<or> rp_status r = RDraft \<and> rp_status r' = RInReview" "rp_approved_by r' = rp_approved_by r"
    using s(2,6) 1 by simp_all
  then show ?case using 1(1) own[OF files(1)] own[OF files(2)] own[OF files(3)] c(3) unfolding report_good_def by auto
next
  case (2 actor E nt)
  then show ?case by (auto simp: report_good_def approved_report_def own_file_def split: option.splits)
next
  case (3 ms ref actor)
  then show ?case by (auto simp: report_good_def filed_report_def own_file_def split: option.splits)
qed

section \<open>The system\<close>

datatype 'd report_op =
    RoGenerate env string generate_dto string
  | RoProcess "'d decimal_text" int report_io env report_job
  | RoApprove env string string "string option" string
  | RoFile "string \<Rightarrow> int option" env string string string "string option" string
  | RoData string "'d rdb"

text \<open>\<open>RoData\<close>: the other services change the other tables.\<close>

fun report_step :: "'d report_op \<Rightarrow> 'd rdb \<Rightarrow> 'd rdb" where
  "report_step (RoGenerate E t dto actor) db = snd (generate E t dto actor db)"
| "report_step (RoProcess D tz io E job) db = snd (process_report D tz io E job db)"
| "report_step (RoApprove E t i notes actor) db = snd (approve_report E t i notes actor db)"
| "report_step (RoFile pa E t i reference at_text actor) db = snd (file_report pa E t i reference at_text actor db)"
| "report_step (RoData t d) db = db \<lparr> r_nodes := r_nodes d, r_mappings := r_mappings d, r_events := r_events d, r_fields := r_fields d \<rparr>"

fun report_op_tenant :: "'d report_op \<Rightarrow> string" where
  "report_op_tenant (RoGenerate E t dto actor) = t"
| "report_op_tenant (RoProcess D tz io E job) = rj_tenant job"
| "report_op_tenant (RoApprove E t i notes actor) = t"
| "report_op_tenant (RoFile pa E t i reference at_text actor) = t"
| "report_op_tenant (RoData t d) = t"

fun report_ok :: "'d report_op \<Rightarrow> 'd rdb \<Rightarrow> bool" where
  "report_ok (RoGenerate E t dto actor) db \<longleftrightarrow> ev_ids E 1 \<notin> set (map rp_id (r_reports db))"
| "report_ok _ db \<longleftrightarrow> True"

lemma find_report_Inr: "find_report t i db = Inr r \<Longrightarrow> r \<in> set (r_reports db) \<and> rp_id r = i \<and> rp_tenant r = t"
  by (auto simp: find_report_def split: option.splits dest: find_first_Some)

lemma report_step_table:
  assumes "distinct (map rp_id (r_reports db))" "report_ok c db"
  shows "table_move rp_id rp_tenant new_draft report_move (report_op_tenant c) (r_reports db) (r_reports (report_step c db))"
proof -
  note up = table_move_update[OF assms(1)]
  show ?thesis
  proof (cases c)
    case (RoGenerate E t dto actor)
    then show ?thesis using assms(2)
      by (auto simp: generate_def new_report_def new_draft_def Let_def table_move_refl intro!: table_move_append)
  next
    case (RoProcess D tz io E job)
    show ?thesis
    proof (cases "find_first (\<lambda>r. rp_id r = rj_report job \<and> rp_tenant r = rj_tenant job) (r_reports db)")
      case None
      then show ?thesis by (simp add: RoProcess process_report_def table_move_refl)
    next
      case (Some rp)
      note m = find_first_Some[OF Some]
      have w: "report_move rp (finished_report s (report_file_key (rj_tenant job) (rj_report job) s) h rp)" for s h
        using report_move.written[of rp s h] m by simp
      show ?thesis using Some m
        by (auto simp: RoProcess process_report_def Let_def table_move_refl split: sum.splits option.splits
            intro!: up[where r=rp] w)
    qed
  next
    case (RoApprove E t i nt actor)
    then show ?thesis
      by (auto simp: approve_report_def table_move_refl split: sum.splits dest!: find_report_Inr intro!: up report_move.approved)
  next
    case (RoFile pa E t i reference at_text actor)
    then show ?thesis
      by (auto simp: file_report_def table_move_refl split: sum.splits option.splits dest!: find_report_Inr intro!: up report_move.filed)
  qed (simp add: table_move_refl)
qed

interpretation reports: table_system rp_id rp_tenant new_draft report_move report_good report_step report_ok r_reports report_op_tenant
proof
  show "rp_id r' = rp_id r \<and> rp_tenant r' = rp_tenant r" if "report_move r r'" for r r'
    using report_core_sel[OF report_move_core[OF that]] by simp
  show "report_good r" if "new_draft r" for r
    using that by (simp add: new_draft_def report_good_def own_file_def)
qed (fact report_move_good report_step_table)+

section \<open>Sign-off and filing\<close>

text \<open>C30: Whatever reports are requested, written, approved and filed, and whatever happens to the
  other tables: an approved or filed report has an approver who is not its author, and every
  file key of a report lies under the report's own tenant and id.\<close>

theorem reports_signed_off:
  assumes "table_ok rp_id report_good (r_reports db)" "runs_ok report_step report_ok cs db" "r \<in> set (r_reports (fold report_step cs db))"
  shows "(rp_status r \<in> {RApproved, RFiled} \<longrightarrow> (\<exists>a. rp_approved_by r = Some a \<and> a \<noteq> rp_by r)) \<and>
    (\<forall>k. rp_pdf r = Some k \<or> rp_xlsx r = Some k \<or> rp_xbrl r = Some k \<longrightarrow>
      starts_with k (''t/'' @ rp_tenant r @ ''/reports/'' @ rp_id r @ ''.''))"
proof -
  have g: "report_good r" by (rule reports.run_good[OF assms])
  have "starts_with k (''t/'' @ rp_tenant r @ ''/reports/'' @ rp_id r @ ''.'')" if "own_file r (Some k)" for k
    using that by (auto simp: own_file_def report_file_key_def starts_with_iff)
  with g show ?thesis by (auto simp: report_good_def)
qed

lemma report_moves:
  "report_move\<^sup>*\<^sup>* r r' \<Longrightarrow> report_core r' = report_core r \<and> status_rank (rp_status r) \<le> status_rank (rp_status r') \<and>
     (rp_status r \<in> {RApproved, RFiled} \<longrightarrow> rp_approved_by r' = rp_approved_by r) \<and>
     (rp_status r = RFiled \<longrightarrow> rp_filed_at r' = rp_filed_at r \<and> rp_overrides r' = rp_overrides r)"
proof (induction rule: rtranclp_induct)
  case (step y z)
  have k: "(rp_status y \<in> {RApproved, RFiled} \<longrightarrow> rp_approved_by z = rp_approved_by y) \<and>
      (rp_status y = RFiled \<longrightarrow> rp_filed_at z = rp_filed_at y \<and> rp_overrides z = rp_overrides y)"
    using step(2) by (auto simp: finished_report_sel filed_report_def elim!: report_move_cases)
  have "rp_status y \<in> {RApproved, RPublished, RFiled}" if "rp_status r \<in> {RApproved, RFiled}"
    using that step.IH by (cases "rp_status y") auto
  moreover have "rp_status y = RFiled" if "rp_status r = RFiled" using that step.IH by (cases "rp_status y") auto
  moreover have "rp_approved_by z = rp_approved_by y" if "rp_status y = RPublished"
    using step(2) that by (auto simp: finished_report_sel filed_report_def elim!: report_move_cases)
  ultimately show ?case
    using step.IH report_move_core[OF step(2)] report_move_rank[OF step(2)] k by auto
qed simp

text \<open>C5: A report only moves up the ladder draft, in review, approved, filed: tenant, year, framework
  and author never change, the approver stays once there is one, and the filing date and notes
  of a filed report stay.\<close>

theorem reports_only_advance:
  assumes "table_ok rp_id report_good (r_reports db)" "runs_ok report_step report_ok cs db" "r \<in> set (r_reports db)"
  shows "\<exists>r'\<in>set (r_reports (fold report_step cs db)). report_core r' = report_core r \<and>
    status_rank (rp_status r) \<le> status_rank (rp_status r') \<and>
    (rp_status r \<in> {RApproved, RFiled} \<longrightarrow> rp_approved_by r' = rp_approved_by r) \<and>
    (rp_status r = RFiled \<longrightarrow> rp_status r' = RFiled \<and> rp_filed_at r' = rp_filed_at r \<and> rp_overrides r' = rp_overrides r)"
proof -
  obtain r' where r': "r' \<in> set (r_reports (fold report_step cs db))" "report_move\<^sup>*\<^sup>* r r'"
    using reports.run_row_later[OF assms] by blast
  have "rp_status r' = RFiled" if "rp_status r = RFiled"
    using report_moves[OF r'(2)] that by (cases "rp_status r'") auto
  with report_moves[OF r'(2)] r'(1) show ?thesis by blast
qed

text \<open>A report of the examples, with one mapping row and one approved event.\<close>

definition demo_report :: report where
  "demo_report = \<lparr> rp_id = ''r1'', rp_tenant = ''a'', rp_fy = ''FY24-25'', rp_framework = ''BRSR'', rp_title = ''BRSR FY24-25'',
     rp_status = RDraft, rp_version = 1, rp_scopes = [''n1''], rp_principles = [], rp_formats = [''pdf'', ''xlsx''],
     rp_pdf = None, rp_xlsx = None, rp_xbrl = None, rp_overrides = [], rp_by = ''u1'', rp_at = 0,
     rp_approved_by = None, rp_filed_at = None, rp_hash = None \<rparr>"

definition demo_reports :: "report list \<Rightarrow> int rdb" where
  "demo_reports rs = \<lparr> r_nodes = [(''n1'', ''a'')], r_mappings = [], r_events = [], r_fields = [], r_reports = rs, r_queue = [],
     r_objects = [], r_audit = [] \<rparr>"

definition demo_ev :: "string \<Rightarrow> env" where
  "demo_ev i = \<lparr> ev_now = 1750000000000, ev_ids = (\<lambda>n. i), ev_audit_ok = True \<rparr>"

definition demo_run :: "int report_op list" where
  "demo_run = [RoApprove (demo_ev ''x'') ''a'' ''r1'' None ''u2'', RoFile (\<lambda>s. None) (demo_ev ''y'') ''a'' ''r1'' ''ref'' None ''u3'']"

lemma demo_run_result:
  "r_reports (fold report_step demo_run (demo_reports [demo_report])) =
     [filed_report 1750000000000 ''ref'' ''u3'' (approved_report (demo_ev ''x'') ''u2'' None demo_report)]"
proof -
  let ?r = "approved_report (demo_ev ''x'') ''u2'' None demo_report"
  have s: "rp_id demo_report = ''r1''" "rp_tenant demo_report = ''a''" "rp_status demo_report = RDraft" "rp_by demo_report = ''u1''"
    by (simp_all add: demo_report_def)
  have a: "r_reports (report_step (RoApprove (demo_ev ''x'') ''a'' ''r1'' None ''u2'') (demo_reports [demo_report])) = [?r]"
    by (simp add: demo_reports_def approve_report_def find_report_def s)
  have "rp_id ?r = ''r1''" "rp_tenant ?r = ''a''" "rp_status ?r = RApproved" "ev_now (demo_ev ''y'') = 1750000000000"
    by (simp_all add: approved_report_def s demo_ev_def)
  then show ?thesis by (simp add: demo_run_def file_report_def find_report_def a del: report_step.simps(3))
qed

lemma demo_report_ok: "table_ok rp_id report_good (r_reports (demo_reports [demo_report]))"
  by (simp add: table_ok_def demo_reports_def demo_report_def report_good_def own_file_def)

theorem reports_signed_off_witness:
  "\<exists>a. rp_approved_by (filed_report 1750000000000 ''ref'' ''u3'' (approved_report (demo_ev ''x'') ''u2'' None demo_report)) = Some a \<and> a \<noteq> ''u1''"
  using reports_signed_off[OF demo_report_ok, of demo_run
      "filed_report 1750000000000 ''ref'' ''u3'' (approved_report (demo_ev ''x'') ''u2'' None demo_report)"]
  unfolding demo_run_result by (simp add: demo_run_def) (simp add: filed_report_def approved_report_def demo_report_def)

theorem reports_only_advance_witness:
  "\<exists>r'\<in>set (r_reports (fold report_step demo_run (demo_reports [demo_report]))). report_core r' = report_core demo_report"
  using reports_only_advance[OF demo_report_ok, of demo_run demo_report]
  by (simp add: demo_run_def) (auto simp: demo_reports_def)

section \<open>Completion\<close>

definition known_formats :: "string list" where
  "known_formats = [''pdf'', ''xlsx'', ''xbrl'']"

lemma known_format_cases: "f \<in> set known_formats \<Longrightarrow> f = ''pdf'' \<or> f = ''xlsx'' \<or> f = ''xbrl''"
  by (simp add: known_formats_def)

lemma finished_has_file:
  "f \<in> set known_formats \<Longrightarrow> g \<in> set known_formats \<Longrightarrow> k \<noteq> [] \<Longrightarrow>
     has_file (finished_report (report_suffix f) k h r) g \<longleftrightarrow> g = f \<or> has_file r g"
  by (drule known_format_cases, drule known_format_cases, elim disjE)
    (simp_all add: finished_report_def Let_def set_column_def report_suffix_def has_file_def)

lemma finished_status:
  "f \<in> set known_formats \<Longrightarrow> k \<noteq> [] \<Longrightarrow> set (rp_formats r) \<subseteq> set known_formats \<Longrightarrow>
     rp_status (finished_report (report_suffix f) k h r) =
       (if rp_status r = RDraft \<and> (\<forall>g\<in>set (rp_formats r). g = f \<or> has_file r g) then RInReview else rp_status r)"
proof -
  assume a: "f \<in> set known_formats" "k \<noteq> []" "set (rp_formats r) \<subseteq> set known_formats"
  let ?u = "set_column (report_suffix f) k r \<lparr> rp_hash := Some h \<rparr>"
  have "has_file ?u g \<longleftrightarrow> g = f \<or> has_file r g" if "g \<in> set known_formats" for g
    using known_format_cases[OF that] known_format_cases[OF a(1)] a(2)
    by (elim disjE) (simp_all add: set_column_def report_suffix_def has_file_def)
  then have "list_all (has_file ?u) (rp_formats r) \<longleftrightarrow> (\<forall>g\<in>set (rp_formats r). g = f \<or> has_file r g)"
    using a(3) by (auto simp: list_all_iff)
  then show ?thesis by (simp add: finished_report_def Let_def set_column_sel)
qed

text \<open>The spreadsheet library and the object store do their work; nothing is asked of the PDF library.\<close>

definition reliable :: "report_io \<Rightarrow> bool" where
  "reliable io \<longleftrightarrow> (\<forall>s. io_xlsx io s \<noteq> None) \<and> (\<forall>k b. io_put io k b)"

text \<open>The formats that do not need the PDF library.\<close>

definition plain_formats :: "string list" where
  "plain_formats = [''xlsx'', ''xbrl'']"

lemma plain_format_known: "f \<in> set plain_formats \<Longrightarrow> f \<in> set known_formats \<and> f \<noteq> ''pdf''"
  by (auto simp: plain_formats_def known_formats_def)

definition worker :: "'d decimal_text \<Rightarrow> int \<Rightarrow> report_io \<Rightarrow> env \<times> report_job \<Rightarrow> 'd rdb \<Rightarrow> 'd rdb" where
  "worker D tz io j db = snd (process_report D tz io (fst j) (snd j) db)"

text \<open>A job writes its file and marks the report, or leaves everything; only a PDF job can do the latter.\<close>

lemma worker_step:
  assumes "distinct (map rp_id (r_reports db))" "find_report t i db = Inr r" "rp_framework r \<in> set schema_frameworks" "reliable io"
    "rj_report (snd j) = i" "rj_tenant (snd j) = t"
  shows "rj_format (snd j) = ''pdf'' \<and> worker D tz io j db = db \<or>
    (\<exists>h. find_report t i (worker D tz io j db) =
      Inr (finished_report (report_suffix (rj_format (snd j))) (report_file_key t i (report_suffix (rj_format (snd j)))) h r) \<and>
    distinct (map rp_id (r_reports (worker D tz io j db))))"
proof -
  have f: "find_first (\<lambda>r. rp_id r = i \<and> rp_tenant r = t) (r_reports db) = Some r"
    using assms(2) by (simp add: find_report_def split: option.splits)
  note m = find_first_Some[OF f]
  obtain rs where rs: "resolve D tz (fst j) t \<lparr> rq_fy = rp_fy r, rq_framework = rp_framework r, rq_scopes = rp_scopes r, rq_section = None \<rparr> db = Inr rs"
    using assms(3) by (simp add: resolve_def Let_def)
  show ?thesis
  proof (cases "report_body io (ev_now (fst j)) (rj_format (snd j)) r rs")
    case None
    have "io_xlsx io s \<noteq> None" for s using assms(4) unfolding reliable_def by blast
    then have "rj_format (snd j) = ''pdf''" using None by (auto simp: report_body_def simp del: not_None_eq split: if_splits)
    moreover have "worker D tz io j db = db" using None f rs assms(5,6) by (simp add: worker_def process_report_def)
    ultimately show ?thesis by simp
  next
    case b: (Some body)
    define F where "F = finished_report (report_suffix (rj_format (snd j))) (report_file_key t i (report_suffix (rj_format (snd j))))
        (hash_object (io_sha io) (JArr (map section_json rs)))"
    have F: "rp_id (F x) = rp_id x \<and> rp_tenant (F x) = rp_tenant x" for x
      using report_core_sel[OF finished_report_sel(1)] by (simp add: F_def)
    have w: "r_reports (worker D tz io j db) = update_where (\<lambda>x. rp_id x = i) F (r_reports db)"
      using f rs b assms(4-6) m by (simp add: worker_def process_report_def Let_def reliable_def F_def)
    have ids: "map rp_id (update_where (\<lambda>x. rp_id x = i) F (r_reports db)) = map rp_id (r_reports db)"
      by (rule update_where_keeps) (simp add: F)
    have "find_first (\<lambda>x. rp_id x = i \<and> rp_tenant x = t) (update_where (\<lambda>x. rp_id x = i) F (r_reports db)) = Some (F r)"
    proof (rule find_first_unique[where rid=rp_id])
      show "F r \<in> set (update_where (\<lambda>x. rp_id x = i) F (r_reports db))" using m by (auto simp: set_update_where)
    qed (use assms(1) m F in \<open>auto simp: ids\<close>)
    then have "find_report t i (worker D tz io j db) = Inr (F r)" by (simp add: find_report_def w)
    moreover have "distinct (map rp_id (r_reports (worker D tz io j db)))" using assms(1) by (simp add: w ids)
    ultimately show ?thesis unfolding F_def by blast
  qed
qed

lemma workers_state:
  assumes "distinct (map rp_id (r_reports db))" "find_report t i db = Inr r" "rp_framework r \<in> set schema_frameworks" "reliable io"
    "\<forall>j\<in>set js. rj_report (snd j) = i \<and> rj_tenant (snd j) = t \<and> rj_format (snd j) \<in> set known_formats"
    "rp_formats r \<noteq> []" "set (rp_formats r) \<subseteq> set plain_formats" "rp_status r = RDraft" "rp_xlsx r = None" "rp_xbrl r = None"
  shows "\<exists>r'. find_report t i (fold (worker D tz io) js db) = Inr r' \<and> distinct (map rp_id (r_reports (fold (worker D tz io) js db))) \<and>
    report_core r' = report_core r \<and> (\<forall>g\<in>set plain_formats. has_file r' g \<longleftrightarrow> g \<in> (\<lambda>j. rj_format (snd j)) ` set js) \<and>
    rp_status r' = (if set (rp_formats r) \<subseteq> (\<lambda>j. rj_format (snd j)) ` set js then RInReview else RDraft)"
  using assms(5)
proof (induction js rule: rev_induct)
  case Nil
  then show ?case using assms by (auto simp: has_file_def plain_formats_def)
next
  case (snoc j js)
  let ?d = "fold (worker D tz io) js db" and ?J = "(\<lambda>j. rj_format (snd j)) ` set js" and ?f = "rj_format (snd j)"
  obtain r' where ih: "find_report t i ?d = Inr r'" "distinct (map rp_id (r_reports ?d))" "report_core r' = report_core r"
    "\<forall>g\<in>set plain_formats. has_file r' g \<longleftrightarrow> g \<in> ?J"
    "rp_status r' = (if set (rp_formats r) \<subseteq> ?J then RInReview else RDraft)"
    using snoc by auto
  have j: "rj_report (snd j) = i" "rj_tenant (snd j) = t" "?f \<in> set known_formats" using snoc.prems by auto
  have fw: "rp_framework r' \<in> set schema_frameworks" "rp_formats r' = rp_formats r" using ih(3) assms(3) by (simp_all add: report_core_def)
  let ?k = "report_file_key t i (report_suffix ?f)"
  from worker_step[OF ih(2,1) fw(1) assms(4) j(1,2), of D tz] show ?case
  proof (elim disjE exE conjE)
    assume p: "?f = ''pdf''" "worker D tz io j ?d = ?d"
    have "g \<in> insert ?f ?J \<longleftrightarrow> g \<in> ?J" if "g \<in> set plain_formats" for g using plain_format_known[OF that] p(1) by auto
    then have "set (rp_formats r) \<subseteq> insert ?f ?J \<longleftrightarrow> set (rp_formats r) \<subseteq> ?J"
      "\<forall>g\<in>set plain_formats. has_file r' g \<longleftrightarrow> g \<in> insert ?f ?J" using assms(7) ih(4) by blast+
    then show ?thesis using ih(1-3,5) p(2) by (intro exI[of _ r']) simp
  next
    fix h
    assume h: "find_report t i (worker D tz io j ?d) = Inr (finished_report (report_suffix ?f) ?k h r')"
      "distinct (map rp_id (r_reports (worker D tz io j ?d)))"
    have k: "?k \<noteq> []" by (simp add: report_file_key_def)
    have files: "\<forall>g\<in>set plain_formats. has_file (finished_report (report_suffix ?f) ?k h r') g \<longleftrightarrow> g \<in> insert ?f ?J"
      using finished_has_file[OF j(3) _ k] ih(4) plain_format_known by auto
    have all: "(\<forall>g\<in>set (rp_formats r). g = ?f \<or> has_file r' g) \<longleftrightarrow> set (rp_formats r) \<subseteq> insert ?f ?J"
      using ih(4) assms(7) by auto
    have kn: "set (rp_formats r') \<subseteq> set known_formats" using assms(7) plain_format_known by (auto simp: fw(2))
    have "rp_status (finished_report (report_suffix ?f) ?k h r') = (if set (rp_formats r) \<subseteq> insert ?f ?J then RInReview else RDraft)"
      using finished_status[OF j(3) k kn, of h] ih(5) all by (auto simp: fw(2))
    with h files ih(3) show ?thesis by (simp add: finished_report_sel(1))
  qed
qed

text \<open>C19: A report requested as spreadsheet, as XBRL or as both gets done: once the worker has run a job
  for each requested format, in whatever order and however often, and whatever becomes of jobs for
  a PDF in between, the report is in review and has a file for each of them; before that it is a
  draft. Nothing is said of reports that ask for a PDF.\<close>

theorem report_completes:
  assumes "distinct (map rp_id (r_reports db))" "find_report t i db = Inr r" "rp_framework r \<in> set schema_frameworks" "reliable io"
    "\<forall>j\<in>set js. rj_report (snd j) = i \<and> rj_tenant (snd j) = t \<and> rj_format (snd j) \<in> set known_formats"
    "rp_formats r \<noteq> []" "set (rp_formats r) \<subseteq> set plain_formats" "rp_status r = RDraft" "rp_xlsx r = None" "rp_xbrl r = None"
  shows "\<exists>r'. find_report t i (fold (worker D tz io) js db) = Inr r' \<and>
    (if set (rp_formats r) \<subseteq> (\<lambda>j. rj_format (snd j)) ` set js
     then rp_status r' = RInReview \<and> list_all (has_file r') (rp_formats r) else rp_status r' = RDraft)"
proof -
  obtain r' where r': "find_report t i (fold (worker D tz io) js db) = Inr r'"
    "\<forall>g\<in>set plain_formats. has_file r' g \<longleftrightarrow> g \<in> (\<lambda>j. rj_format (snd j)) ` set js"
    "rp_status r' = (if set (rp_formats r) \<subseteq> (\<lambda>j. rj_format (snd j)) ` set js then RInReview else RDraft)"
    using workers_state[OF assms, of D tz] by blast
  have "list_all (has_file r') (rp_formats r)" if "set (rp_formats r) \<subseteq> (\<lambda>j. rj_format (snd j)) ` set js"
    using r'(2) that assms(7) by (auto simp: list_all_iff)
  with r' show ?thesis by (intro exI[of _ r']) simp
qed

text \<open>
  The document is made without \<open>bufferPages\<close>: as the library documents it, a page is written out when
  the next one begins, so that only the last is buffered. The cover and the contents are two pages.
\<close>

definition pages_flushed :: "report_io \<Rightarrow> bool" where
  "pages_flushed io \<longleftrightarrow> (\<forall>p. length p \<le> io_pages io p) \<and> (\<forall>n>0. io_range io n = (n - 1, 1))"

lemma build_pdf_fails: "pages_flushed io \<Longrightarrow> build_pdf io now rp rs = None"
proof -
  assume p: "pages_flushed io"
  define n where "n = io_pages io (pdf_pages now rp rs)"
  have "2 \<le> length (pdf_pages now rp rs)" by (simp add: pdf_pages_def)
  moreover have "length (pdf_pages now rp rs) \<le> n" using p by (simp add: pages_flushed_def n_def)
  ultimately have n: "2 \<le> n" by linarith
  then have "io_range io n = (n - 1, 1)" using p by (simp add: pages_flushed_def)
  then show ?thesis using n by (simp add: build_pdf_def Let_def page_footers_def n_def[symmetric])
qed

text \<open>So no job ever writes a PDF, and a report that asks for one is never complete.\<close>

lemma pdf_never_written:
  assumes "pages_flushed io" "find_report t i db = Inr r" "rp_framework r \<in> set schema_frameworks" "rj_report job = i" "rj_tenant job = t"
    "rj_format job = ''pdf''"
  shows "process_report D tz io E job db = (Inl (PlainError ''file''), db)"
proof -
  have "find_first (\<lambda>r. rp_id r = i \<and> rp_tenant r = t) (r_reports db) = Some r"
    using assms(2) by (simp add: find_report_def split: option.splits)
  moreover obtain rs where "resolve D tz E t \<lparr> rq_fy = rp_fy r, rq_framework = rp_framework r, rq_scopes = rp_scopes r, rq_section = None \<rparr> db = Inr rs"
    using assms(3) by (simp add: resolve_def Let_def)
  ultimately show ?thesis using assms(4-6) by (simp add: process_report_def report_body_def build_pdf_fails[OF assms(1)])
qed

definition demo_io :: report_io where
  "demo_io = \<lparr> io_pages = length, io_range = (\<lambda>n. (n - 1, 1)), io_pdf = (\<lambda>p f. Some ''pdf''), io_xlsx = (\<lambda>s. Some ''xlsx''),
     io_put = (\<lambda>k b. True), io_sha = (\<lambda>s. s) \<rparr>"

definition demo_decimals :: "int decimal_text" where
  "demo_decimals = \<lparr> d_parse = (\<lambda>s. None), d_of_int = (\<lambda>n. n), d_neg = uminus, d_abs = abs, d_plus = (+), d_minus = (-), d_times = (*),
     d_div = (div), d_mod = (mod), d_cmp = (\<lambda>x y. Some (x - y)), d_is_zero = (\<lambda>n. n = 0), d_to_places = (\<lambda>n k. Some n),
     d_show = show_int \<rparr>"

definition demo_job :: "string \<Rightarrow> env \<times> report_job" where
  "demo_job f = (demo_ev ''x'', \<lparr> rj_id = None, rj_report = ''r1'', rj_tenant = ''a'', rj_format = f \<rparr>)"

definition demo_plain :: report where
  "demo_plain = demo_report \<lparr> rp_formats := [''xlsx'', ''xbrl''] \<rparr>"

text \<open>The job for a PDF fails in between.\<close>

theorem report_completes_witness:
  "\<exists>r'. find_report ''a'' ''r1'' (fold (worker demo_decimals 0 demo_io) [demo_job ''xlsx'', demo_job ''pdf'', demo_job ''xbrl'']
      (demo_reports [demo_plain])) = Inr r' \<and> rp_status r' = RInReview"
proof -
  have f: "find_report ''a'' ''r1'' (demo_reports [demo_plain]) = Inr demo_plain"
    by (simp add: find_report_def demo_reports_def demo_plain_def demo_report_def)
  have r: "reliable demo_io" by (simp add: reliable_def demo_io_def)
  have d: "distinct (map rp_id (r_reports (demo_reports [demo_plain])))" by (simp add: demo_reports_def)
  have w: "rp_framework demo_plain \<in> set schema_frameworks" "rp_formats demo_plain \<noteq> []" "set (rp_formats demo_plain) \<subseteq> set plain_formats"
    "rp_status demo_plain = RDraft" "rp_xlsx demo_plain = None" "rp_xbrl demo_plain = None"
    by (simp_all add: demo_plain_def demo_report_def schema_frameworks_def plain_formats_def)
  have j: "\<forall>j\<in>set [demo_job ''xlsx'', demo_job ''pdf'', demo_job ''xbrl'']. rj_report (snd j) = ''r1'' \<and> rj_tenant (snd j) = ''a'' \<and>
      rj_format (snd j) \<in> set known_formats" by (simp add: demo_job_def known_formats_def)
  have c: "set (rp_formats demo_plain) \<subseteq> (\<lambda>j. rj_format (snd j)) ` set [demo_job ''xlsx'', demo_job ''pdf'', demo_job ''xbrl'']"
    by (simp add: demo_plain_def demo_job_def)
  from report_completes[OF d f w(1) r j w(2-6), of demo_decimals 0] c show ?thesis by (auto simp del: fold_simps)
qed

end
