(* ===== verification/Brsr_Props.thy ===== *)
theory Brsr_Props
  imports Reports_Props "HOL-Library.Multiset"
begin

text \<open>
  Disclosures: what a resolved value is, how the section tree divides the rows, that no data
  becomes markup, which period a fiscal year stands for, and what the exports leave out.
\<close>

section \<open>Resolved values\<close>

definition wanted_event :: "string \<Rightarrow> string list \<Rightarrow> int \<times> int \<Rightarrow> string list \<Rightarrow> 'd metric_event \<Rightarrow> bool" where
  "wanted_event t scopes period keys e \<longleftrightarrow> me_tenant e = t \<and> me_scope e \<in> set scopes \<and> fst period \<le> me_start e \<and>
     me_end e \<le> snd period \<and> (me_status e = MApproved \<or> me_status e = MLocked) \<and> me_key e \<in> set keys"

lemma mset_by_keys:
  "distinct ks \<Longrightarrow> mset (concat (map (\<lambda>k. filter (\<lambda>e. key e = k) es)  ks)) = mset (filter (\<lambda>e. key e \<in> set ks) es)"
proof (induction ks)
  case (Cons k ks)
  have "mset (filter (\<lambda>e. key e = k \<or> key e \<in> set ks) es) = mset (filter (\<lambda>e. key e = k) es) + mset (filter (\<lambda>e. key e \<in> set ks) es)"
    using Cons.prems by (induction es) auto
  with Cons show ?case by simp
qed simp

lemma resolve_Inr:
  assumes "resolve D tz E t dto db = Inr rs"
  shows "rs = map (resolve_one D t (r_fields db) (resolve_events t (rq_scopes dto) (parse_fy tz (ev_now E) (rq_fy dto))
      (concat (map fm_keys (resolve_mappings dto (r_mappings db)))) (r_events db))) (resolve_mappings dto (r_mappings db))"
  using assms by (simp add: resolve_def Let_def split: if_splits)

text \<open>C18: A resolved row whose mapping names no aggregation, or a sum, and no key twice is the sum of exactly
  the approved or locked events of the tenant in the scope, inside the period that is read from the
  fiscal year and under one of the row's keys, newest first, each counted once; its sources are
  their ids and it has no value without events.\<close>

theorem resolve_totals:
  assumes "resolve D tz E t dto db = Inr rs" "m \<in> set (resolve_mappings dto (r_mappings db))" "distinct (fm_keys m)"
    "bm_aggregation m = None \<or> bm_aggregation m = Some ''SUM''"
  shows "\<exists>r\<in>set rs. \<exists>es. rs_label r = fm_code m \<and>
    mset es = mset (filter (wanted_event t (rq_scopes dto) (parse_fy tz (ev_now E) (rq_fy dto)) (fm_keys m)) (r_events db)) \<and>
    sorted (map (\<lambda>e. - me_end e) es) \<and> mset (rs_sources r) = mset (map me_id es) \<and>
    rs_value r = (if es = [] then None else Some (d_show D (d_total D (map me_value es))))"
proof -
  let ?keys = "concat (map fm_keys (resolve_mappings dto (r_mappings db)))" and ?per = "parse_fy tz (ev_now E) (rq_fy dto)"
  define evs where "evs = resolve_events t (rq_scopes dto) ?per ?keys (r_events db)"
  define cand where "cand = concat (map (\<lambda>k. filter (\<lambda>e. me_key e = k) evs) (fm_keys m))"
  have sub: "set (fm_keys m) \<subseteq> set ?keys" using assms(2) by auto
  have "mset cand = filter_mset (\<lambda>e. me_key e \<in> set (fm_keys m)) (mset evs)"
    using mset_by_keys[OF assms(3), of me_key evs] by (simp add: cand_def)
  also have "\<dots> = mset (filter (wanted_event t (rq_scopes dto) ?per (fm_keys m)) (r_events db))"
    using sub by (auto simp: evs_def resolve_events_def wanted_event_def filter_filter_mset intro!: filter_mset_cong)
  finally have c: "mset cand = mset (filter (wanted_event t (rq_scopes dto) ?per (fm_keys m)) (r_events db))" .
  let ?r = "resolve_one D t (r_fields db) evs m" and ?es = "sort_key (\<lambda>e. - me_end e) cand"
  have "?r \<in> set rs" using resolve_Inr[OF assms(1)] assms(2) by (simp add: evs_def)
  moreover have "rs_value ?r = (if ?es = [] then None else Some (d_show D (d_total D (map me_value ?es))))"
    using assms(4) by (cases "bm_aggregation m") (auto simp: resolve_one_def Let_def cand_def[symmetric] aggregate_value_def split: list.splits)
  moreover have "mset (rs_sources ?r) = mset (map me_id ?es)" by (simp add: resolve_one_def Let_def cand_def)
  moreover have "rs_label ?r = fm_code m" by (simp add: resolve_one_def Let_def)
  ultimately show ?thesis using c by (intro bexI[of _ ?r] exI[of _ ?es]) auto
qed

section \<open>The section tree\<close>

lemma map_of_map_pair: "map_of (map (\<lambda>p. (p, f p)) ps) p = (if p \<in> set ps then Some (f p) else None)"
  by (induction ps) auto

lemma js_unique_append: "js_unique (xs @ [x]) = (if x \<in> set xs then js_unique xs else js_unique xs @ [x])"
  by (simp add: js_unique_def)

lemma set_js_unique [simp]: "set (js_unique xs) = set xs" and distinct_js_unique [simp]: "distinct (js_unique xs)"
  by (simp_all add: js_unique_def)

definition tree_of :: "resolved_section list \<Rightarrow> (string \<times> question list) list" where
  "tree_of rs = map (\<lambda>p. (p, map question_of (filter (\<lambda>r. principle_of (rs_label r) = p) rs)))
     (js_unique (map (\<lambda>r. principle_of (rs_label r)) rs))"

lemma upsert_map_same:
  "distinct ps \<Longrightarrow> p \<in> set ps \<Longrightarrow> upsert p v (map (\<lambda>q. (q, f q)) ps) = map (\<lambda>q. (q, if q = p then v else f q)) ps"
  by (induction ps) auto

lemma upsert_map_new: "p \<notin> set ps \<Longrightarrow> upsert p v (map (\<lambda>q. (q, f q)) ps) = map (\<lambda>q. (q, f q)) ps @ [(p, v)]"
  by (induction ps) auto

lemma tree_of_snoc:
  "upsert (principle_of (rs_label r)) ((case map_of (tree_of rs) (principle_of (rs_label r)) of None \<Rightarrow> [] | Some qs \<Rightarrow> qs) @ [question_of r]) (tree_of rs)
     = tree_of (rs @ [r])"
proof -
  let ?p = "principle_of (rs_label r)" and ?ps = "js_unique (map (\<lambda>r. principle_of (rs_label r)) rs)"
  show ?thesis
  proof (cases "?p \<in> set (map (\<lambda>r. principle_of (rs_label r)) rs)")
    case True
    then show ?thesis
      unfolding tree_of_def by (subst upsert_map_same) (auto simp: map_of_map_pair js_unique_append)
  next
    case False
    then have "principle_of (rs_label x) \<noteq> ?p" if "x \<in> set rs" for x 
      using imageI[OF that, of "\<lambda>r. principle_of (rs_label r)"] False by auto
    then have "filter (\<lambda>x. principle_of (rs_label x) = ?p) rs = []" by (simp add: filter_empty_conv)
    with False show ?thesis
      unfolding tree_of_def by (subst upsert_map_new) (auto simp: map_of_map_pair js_unique_append)
  qed
qed

lemma group_sections_tree: "group_sections rs (tree_of acc) = tree_of (acc @ rs)"
proof (induction rs arbitrary: acc)
  case (Cons r rs)
  then show ?case using tree_of_snoc[of r acc] by (simp add: Let_def)
qed simp

text \<open>The section tree divides the resolved rows by principle: the groups stand in the order in
  which their principles first occur, each group has exactly the rows of its principle in their
  order, and the totals of the groups add up to the number of rows.\<close>

theorem sections_partition:
  "map (\<lambda>g. (sg_principle g, sg_questions g)) (map group_view (group_sections rs [])) = tree_of rs \<and>
   sum_list (map sg_total (map group_view (group_sections rs []))) = length rs \<and>
   sum_list (map sg_answered (map group_view (group_sections rs []))) = length (filter (\<lambda>r. rs_value r \<noteq> None) rs)"
proof -
  have g: "group_sections rs [] = tree_of rs" using group_sections_tree[of rs "[]"] by (simp add: tree_of_def js_unique_def)
  have split_sum: "sum_list (map (\<lambda>p. length (filter (\<lambda>r. Q r \<and> k r = p) rs)) ps) = length (filter Q rs)"
    if "distinct ps" "k ` set rs \<subseteq> set ps" for Q :: "resolved_section \<Rightarrow> bool" and k :: "resolved_section \<Rightarrow> string" and ps
    using that(2)
  proof (induction rs)
    case (Cons r rs)
    have "(\<Sum>p\<leftarrow>ps. if Q r \<and> k r = p then 1 else 0) = (if Q r then 1 else (0::nat))"
      using that(1) Cons.prems by (simp add: sum_list_distinct_conv_sum_set sum.delta)
    moreover have "(\<Sum>p\<leftarrow>ps. length (filter (\<lambda>x. Q x \<and> k x = p) (r # rs))) =
        (\<Sum>p\<leftarrow>ps. if Q r \<and> k r = p then 1 else 0) + (\<Sum>p\<leftarrow>ps. length (filter (\<lambda>x. Q x \<and> k x = p) rs))"
      by (subst sum_list_addf[symmetric]) (rule arg_cong[where f=sum_list], auto)
    ultimately show ?case using Cons by auto
  qed simp
  have "sum_list (map sg_total (map group_view (tree_of rs))) =
      (\<Sum>p\<leftarrow>js_unique (map (\<lambda>r. principle_of (rs_label r)) rs). length (filter (\<lambda>r. True \<and> principle_of (rs_label r) = p) rs))"
    by (simp add: tree_of_def group_view_def comp_def)
  moreover have "sum_list (map sg_answered (map group_view (tree_of rs))) =
      (\<Sum>p\<leftarrow>js_unique (map (\<lambda>r. principle_of (rs_label r)) rs). length (filter (\<lambda>r. rs_value r \<noteq> None \<and> principle_of (rs_label r) = p) rs))"
    by (simp add: tree_of_def group_view_def comp_def filter_map question_of_def conj_commute)
  ultimately show ?thesis unfolding g
    using split_sum[where ps = "js_unique (map (\<lambda>r. principle_of (rs_label r)) rs)" and k = "\<lambda>r. principle_of (rs_label r)" and Q = "\<lambda>r. True"]
      split_sum[where ps = "js_unique (map (\<lambda>r. principle_of (rs_label r)) rs)" and k = "\<lambda>r. principle_of (rs_label r)" and Q = "\<lambda>r. rs_value r \<noteq> None"]
    by (simp add: tree_of_def group_view_def comp_def)
qed

section \<open>Markup\<close>

lemma escape_clean: "CHR ''<'' \<notin> set (escape_html s)" "CHR ''>'' \<notin> set (escape_html s)" "CHR 0x22 \<notin> set (escape_html s)"
  "CHR 0x27 \<notin> set (escape_html s)"
  by (auto simp: escape_html_def escape_char_def split: if_splits)

fun unescape_html :: "string \<Rightarrow> string" where
  "unescape_html [] = []"
| "unescape_html (c # s) =
     (if c \<noteq> CHR ''&'' then c # unescape_html s
      else if starts_with s ''amp;'' then CHR ''&'' # unescape_html (drop 4 s)
      else if starts_with s ''lt;'' then CHR ''<'' # unescape_html (drop 3 s)
      else if starts_with s ''gt;'' then CHR ''>'' # unescape_html (drop 3 s)
      else if starts_with s ''quot;'' then CHR 0x22 # unescape_html (drop 5 s)
      else if starts_with s ''#39;'' then CHR 0x27 # unescape_html (drop 4 s)
      else c # unescape_html s)"

lemma unescape_escape: "unescape_html (escape_html s) = s"
  by (induction s) (simp_all add: escape_html_def escape_char_def)

definition tags :: "string \<Rightarrow> nat" where
  "tags s = length (filter (\<lambda>c. c = CHR ''<'') s)"

lemma tags_simps [simp]:
  "tags [] = 0" "tags (c # s) = (if c = CHR ''<'' then Suc (tags s) else tags s)" "tags (a @ b) = tags a + tags b"
  by (simp_all add: tags_def)

lemma tags_escape [simp]: "tags (escape_html s) = 0"
  using escape_clean(1)[of s] by (auto simp: tags_def filter_empty_conv)

lemma tags_row: "tags (html_row r) = 10"
  by (simp add: html_row_def)

lemma tags_rows: "tags (concat (map html_row rs)) = 10 * length rs"
  by (induction rs) (simp_all add: tags_row)

lemma digit_not_tag: "n < 10 \<Longrightarrow> char_of (48 + n) \<noteq> CHR ''<''" for n :: nat
proof
  assume "n < 10" "char_of (48 + n) = CHR ''<''"
  from arg_cong[OF this(2), of "of_char :: char \<Rightarrow> nat"] this(1) show False by simp
qed

lemma tags_number: "tags (show_nat n) = 0"
  by (induction n rule: show_nat.induct) (subst show_nat.simps, simp add: digit_not_tag)

text \<open>A preview carries no markup from data: cell texts are recovered by undoing the escaping,
  contain none of the characters that open tags or close attributes, and the number of tags of a
  page depends on the number of its rows alone.\<close>

theorem preview_markup:
  "tags (html_page dto rs) = tags (html_page dto' []) + 10 * length rs \<and>
   unescape_html (escape_html s) = s \<and> set (escape_html s) \<inter> {CHR ''<'', CHR ''>'', CHR 0x22, CHR 0x27} = {}"
proof -
  have "tags (html_page dto rs) = tags (html_page dto' []) + 10 * length rs"
    unfolding html_page_def join_with.simps by (simp add: tags_rows tags_number)
  then show ?thesis using unescape_escape escape_clean[of s] by auto
qed

section \<open>Fiscal years\<close>

definition two_digits :: "nat \<Rightarrow> string" where
  "two_digits n = [char_of (48 + n div 10), char_of (48 + n mod 10)]"

lemma digit_value: "n < 10 \<Longrightarrow> dec_digit (char_of (48 + n)) \<and> of_char (char_of (48 + n) :: char) = 48 + int n" for n :: nat
  using of_nat_of_char[of "char_of (48 + n)", where 'a = int] by (simp add: dec_digit_def)

lemma two_digits_value:
  assumes "n < 100"
  shows "list_all dec_digit (two_digits n) \<and> digits_value (two_digits n) = int n \<and> length (two_digits n) = 2"
proof -
  have n: "n div 10 < 10" "n mod 10 < 10" using assms by simp_all
  have "int n = 10 * int (n div 10) + int (n mod 10)" by (metis int_ops(7) mult_div_mod_eq of_nat_add of_nat_numeral)
  then show ?thesis using digit_value[OF n(1)] digit_value[OF n(2)]
    by (simp add: two_digits_def digits_value_def)
qed

lemma takeWhile_digits: "list_all dec_digit a \<Longrightarrow> \<not> dec_digit x \<Longrightarrow> takeWhile dec_digit (a @ x # s) = a \<and> dropWhile dec_digit (a @ x # s) = x # s"
  by (induction a) auto

lemma fy_match_pair:
  assumes "list_all dec_digit a" "length a = 2" "list_all dec_digit b" "length b = 2"
  shows "fy_match (''FY'' @ a @ ''-'' @ b) = Some (a, b)"
proof -
  have m: "\<not> dec_digit (CHR ''-'')" "\<not> dec_digit (CHR ''F'')" "\<not> dec_digit (CHR ''Y'')" by (simp_all add: dec_digit_def)
  obtain x y where a: "a = [x, y]" using assms(2) by (auto simp: length_Suc_conv numeral_2_eq_2)
  obtain u v where b: "b = [u, v]" using assms(4) by (auto simp: length_Suc_conv numeral_2_eq_2)
  show ?thesis using assms(1,3) m by (simp add: a b)
qed

text \<open>The form FYyy-yy of a fiscal year stands for the local midnights of the first of April of the
  first year and of the thirty-first of March of the second.\<close>

theorem fy_short_form:
  assumes "a < 100" "b < 100"
  shows "parse_fy tz now (''FY'' @ two_digits a @ ''-'' @ two_digits b) =
    (utc (2000 + int a) 4 1 - tz, utc (2000 + int b) 3 31 - tz)"
proof -
  have "fy_match (''FY'' @ two_digits a @ ''-'' @ two_digits b) = Some (two_digits a, two_digits b)"
    using fy_match_pair two_digits_value[OF assms(1)] two_digits_value[OF assms(2)] by blast
  then show ?thesis using two_digits_value[OF assms(1)] two_digits_value[OF assms(2)] assms
    unfolding parse_fy_def by (simp add: fy_range_def century_def add.commute)
qed

theorem fy_short_form_witness: "parse_fy 0 0 (''FY'' @ two_digits 24 @ ''-'' @ two_digits 25) = (utc 2024 4 1, utc 2025 3 31)"
  using fy_short_form[of 24 25 0 0] by simp

lemma two_digits_2425: "two_digits 24 = ''24''" "two_digits 25 = ''25''"
  by code_simp+

lemma scan_fy_2024: "parse_period ''FY2024-25'' default_fy = Inr (Some (utc 2024 4 1), Some (utc 2025 4 1 - 1))"
  by code_simp

text \<open>The period of a report ends too early: it ends with the first instant of the last day, so
  an event for a whole fiscal year as the period parser of the platform gives it (FYyyyy-yy, to
  the last millisecond of the thirty-first of March) is never resolved, whatever the server's
  offset from UTC (at most fourteen hours).\<close>

theorem fiscal_year_never_resolved:
  assumes "me_end e = utc 2025 4 1 - 1" "\<bar>tz\<bar> \<le> 14 * 3600000"
  shows "parse_period ''FY2024-25'' default_fy = Inr (Some (utc 2024 4 1), Some (me_end e)) \<and>
    \<not> wanted_event t scopes (parse_fy tz now ''FY24-25'') ks e"
proof -
  have p: "parse_fy tz now ''FY24-25'' = (utc 2024 4 1 - tz, utc 2025 3 31 - tz)"
    using fy_short_form[of 24 25 tz now] two_digits_2425 by simp
  have "utc 2025 4 1 - utc 2025 3 31 = ms_day" by code_simp
  then have "snd (parse_fy tz now ''FY24-25'') < me_end e" using assms by (simp add: p ms_day_def)
  then show ?thesis using assms(1) scan_fy_2024 by (simp add: wanted_event_def)
qed

theorem fiscal_year_never_resolved_witness:
  "\<not> wanted_event ''a'' [''n1''] (parse_fy 19800000 0 ''FY24-25'') [''energy'']
     \<lparr> me_id = ''e1'', me_tenant = ''a'', me_scope = ''n1'', me_key = ''energy'', me_start = utc 2024 4 1, me_end = utc 2025 4 1 - 1,
       me_value = (7::int), me_unit = ''kWh'', me_dims = [], me_source = StManual, me_extraction = None, me_calc_run = None,
       me_status = MApproved, me_submitted_by = ''u1'', me_submitted_at = 0, me_approved_by = Some ''u2'', me_approved_at = Some 0,
       me_comment = None \<rparr>"
  by (rule fiscal_year_never_resolved[THEN conjunct2]) simp_all

text \<open>A fiscal year written with one year stands for the current one: the year is not read.\<close>

theorem fy_single_year_ignored: "parse_fy tz now ''FY2024'' = parse_fy tz now ''FY2019''"
proof -
  have "fy_match ''FY2024'' = None" "fy_match ''FY2019'' = None" "js_parse_int ''FY2024'' = None" "js_parse_int ''FY2019'' = None"
    by code_simp+
  then show ?thesis by (simp add: parse_fy_def)
qed

section \<open>Exports\<close>

text \<open>A spreadsheet has a sheet for a principle only if the section of some row starts with P and a
  digit. The rows of the seeded mappings carry sections like "Principle 6": their export has the
  audit trail and the meta sheet alone, and their PDF no values.\<close>

theorem export_without_values:
  assumes "\<forall>r\<in>set rs. section_principle (rs_section r) = None"
  shows "map fst (xlsx_sheets now rp rs) = [''Audit Trail'', ''Meta''] \<and> length (pdf_pages now rp rs) = 2 \<and>
    section_principle (''Principle '' @ p) = None"
proof -
  have "List.map_filter (\<lambda>r. section_principle (rs_section r)) rs = []"
    using assms by (induction rs) (simp_all add: List.map_filter_simps)
  then show ?thesis by (simp add: xlsx_sheets_def pdf_pages_def report_principles_def section_principle_def dec_digit_def)
qed

definition demo_section :: resolved_section where
  "demo_section = \<lparr> rs_section = ''Principle 6'', rs_label = ''P6-Q1'', rs_value = Some ''7'', rs_unit = None, rs_sources = [''e1''],
     rs_run = None, rs_documents = [], rs_fields = [] \<rparr>"

theorem export_without_values_witness:
  "map fst (xlsx_sheets 0 demo_report [demo_section]) = [''Audit Trail'', ''Meta'']"
  using export_without_values[of "[demo_section]" 0 demo_report] by (simp add: demo_section_def section_principle_def dec_digit_def)

section \<open>Requests\<close>

text \<open>A fiscal year is reported once per framework: after a successful request, every later one of
  the tenant for the same year and framework fails with a unique-key violation, whoever asks and
  whatever is done with the report.\<close>

theorem generate_once:
  assumes "generate E t dto actor db = (Inr r, db')" "table_ok rp_id report_good (r_reports db)"
    "ev_ids E 1 \<notin> set (map rp_id (r_reports db))" "runs_ok report_step report_ok cs db'"
    "rq_fy dto' = rq_fy dto" "rq_framework dto' = rq_framework dto"
  shows "\<exists>e. fst (generate E' t dto' actor' (fold report_step cs db')) = Inl e \<and> (e = PrismaError ''P2002'' \<or> (\<exists>m. e = BadRequest m))"
proof -
  have g: "r_reports db' = r_reports db @ [r]" "r = new_report E t dto actor"
    using assms(1) by (auto simp: generate_def Let_def split: if_splits)
  have "table_ok rp_id report_good (r_reports db')"
    using assms(2,3) by (auto simp: g table_ok_def new_report_def report_good_def own_file_def)
  moreover have "r \<in> set (r_reports db')" by (simp add: g)
  ultimately obtain r' where r': "r' \<in> set (r_reports (fold report_step cs db'))" "report_core r' = report_core r" "report_move\<^sup>*\<^sup>* r r'"
    using reports.run_row_later[OF _ assms(4)] report_moves by blast
  have v: "rp_version r' = rp_version r"
    using r'(3) by (induction rule: rtranclp_induct)
      (auto simp: finished_report_def Let_def set_column_def approved_report_def filed_report_def elim!: report_move_cases)
  then have "rp_tenant r' = t \<and> rp_fy r' = rq_fy dto' \<and> rp_framework r' = rq_framework dto' \<and> rp_version r' = 1"
    using r'(2) assms(5,6) by (simp add: g(2) new_report_def report_core_def)
  with r'(1) show ?thesis by (auto simp: generate_def Let_def)
qed

definition demo_generate :: generate_dto where
  "demo_generate = \<lparr> rq_fy = ''FY24-25'', rq_framework = ''BRSR'', rq_scopes = [''n1''], rq_section = None, gq_formats = None,
     gq_principles = None, gq_key = None \<rparr>"

theorem generate_once_witness:
  "\<exists>e. fst (generate (demo_ev ''r2'') ''a'' demo_generate ''u9'' (fold report_step [] (snd (generate (demo_ev ''r1'') ''a'' demo_generate ''u1'' (demo_reports []))))) = Inl e \<and>
     (e = PrismaError ''P2002'' \<or> (\<exists>m. e = BadRequest m))"
  by (rule generate_once[where E = "demo_ev ''r1''" and db = "demo_reports []" and dto = demo_generate and actor = "''u1''"
        and r = "new_report (demo_ev ''r1'') ''a'' demo_generate ''u1''"])
    (simp_all add: generate_def demo_generate_def demo_reports_def schema_frameworks_def table_ok_def Let_def)

text \<open>A filed report is not final: a job that runs after the filing (a retry, say) replaces its
  file and its hash by those of the data of the day and leaves the status.\<close>

theorem filed_report_rewritten:
  assumes "find_first (\<lambda>r. rp_id r = i \<and> rp_tenant r = t) (r_reports db) = Some r" "rp_status r = RFiled"
    "resolve D tz E t \<lparr> rq_fy = rp_fy r, rq_framework = rp_framework r, rq_scopes = rp_scopes r, rq_section = None \<rparr> db = Inr rs"
    "\<forall>k b. io_put io k b" "distinct (map rp_id (r_reports db))"
  shows "let db' = snd (process_report D tz io E \<lparr> rj_id = j, rj_report = i, rj_tenant = t, rj_format = ''xbrl'' \<rparr> db) in
    map_of (r_objects db') (report_file_key t i ''xbrl'') = Some (xbrl_text r rs) \<and>
    (\<exists>r'\<in>set (r_reports db'). rp_id r' = i \<and> rp_status r' = RFiled \<and> rp_hash r' = Some (hash_object (io_sha io) (JArr (map section_json rs))))"
proof -
  note m = find_first_Some[OF assms(1)]
  let ?F = "finished_report ''xbrl'' (report_file_key t i ''xbrl'') (hash_object (io_sha io) (JArr (map section_json rs)))"
  have p: "process_report D tz io E \<lparr> rj_id = j, rj_report = i, rj_tenant = t, rj_format = ''xbrl'' \<rparr> db =
      (Inr (), db \<lparr> r_objects := upsert (report_file_key t i ''xbrl'') (xbrl_text r rs) (r_objects db),
         r_reports := update_where (\<lambda>x. rp_id x = i) ?F (r_reports db) \<rparr>)"
    using assms m by (simp add: process_report_def report_body_def report_suffix_def Let_def)
  have "?F r \<in> set (update_where (\<lambda>x. rp_id x = i) ?F (r_reports db))" using m by (auto simp: set_update_where)
  moreover have "rp_status (?F r) = RFiled" using finished_report_sel(6)[of "''xbrl''" "report_file_key t i ''xbrl''" _ r] assms(2) by auto
  moreover have "rp_id (?F r) = i" using report_core_sel[OF finished_report_sel(1)] m by simp
  ultimately show ?thesis unfolding Let_def p by (auto simp: finished_report_sel intro!: bexI[of _ "?F r"])
qed

theorem filed_report_rewritten_witness:
  "\<exists>r'\<in>set (r_reports (snd (process_report demo_decimals 0 demo_io (demo_ev ''x'')
      \<lparr> rj_id = None, rj_report = ''r1'', rj_tenant = ''a'', rj_format = ''xbrl'' \<rparr>
      (demo_reports [demo_report \<lparr> rp_status := RFiled, rp_hash := Some ''old'' \<rparr>])))). rp_id r' = ''r1'' \<and> rp_status r' = RFiled \<and>
     rp_hash r' = Some (hash_object (\<lambda>s. s) (JArr []))"
proof -
  have r: "resolve demo_decimals 0 (demo_ev ''x'') ''a'' \<lparr> rq_fy = ''FY24-25'', rq_framework = ''BRSR'', rq_scopes = [''n1''], rq_section = None \<rparr>
      (demo_reports [demo_report \<lparr> rp_status := RFiled, rp_hash := Some ''old'' \<rparr>]) = Inr []"
    by (simp add: resolve_def Let_def schema_frameworks_def resolve_mappings_def demo_reports_def)
  show ?thesis
    using filed_report_rewritten[where D = demo_decimals and tz = 0 and io = demo_io and E = "demo_ev ''x''" and i = "''r1''" and t = "''a''"
        and db = "demo_reports [demo_report \<lparr> rp_status := RFiled, rp_hash := Some ''old'' \<rparr>]"
        and r = "demo_report \<lparr> rp_status := RFiled, rp_hash := Some ''old'' \<rparr>" and rs = "[]" and j = None] r
    unfolding Let_def by (simp add: demo_reports_def demo_io_def) (simp add: demo_report_def)
qed

definition demo_mapping :: brsr_mapping where
  "demo_mapping = \<lparr> fm_id = ''m1'', fm_framework = ''BRSR'', fm_code = ''P6-Q1'', fm_section = None, fm_version = ''v1'',
     fm_keys = [''energy''], fm_formula = None, bm_aggregation = None \<rparr>"

definition demo_energy :: "string \<Rightarrow> metric_status \<Rightarrow> int \<Rightarrow> int \<Rightarrow> int metric_event" where
  "demo_energy i st e v = \<lparr> me_id = i, me_tenant = ''a'', me_scope = ''n1'', me_key = ''energy'', me_start = 1711929600000, me_end = e,
     me_value = v, me_unit = ''GJ'', me_dims = ''{}'', me_source = StManual, me_extraction = None, me_calc_run = None, me_status = st,
     me_submitted_by = ''u'', me_submitted_at = 0, me_approved_by = None, me_approved_at = None, me_comment = None \<rparr>"

definition demo_energies :: "int metric_event list" where
  "demo_energies = [demo_energy ''e1'' MApproved 1714000000000 5, demo_energy ''e2'' MDraft 1714000000000 9, demo_energy ''e3'' MLocked 1717000000000 7]"

text \<open>An approved and a locked event are added up, the draft is not.\<close>

theorem resolve_totals_witness:
  "\<exists>r\<in>set [resolve_one demo_decimals ''a'' [] (filter (\<lambda>e. me_status e \<noteq> MDraft) (sort_key (\<lambda>e. - me_end e) demo_energies)) demo_mapping].
     rs_label r = ''P6-Q1'' \<and> mset (rs_sources r) = {#''e1'', ''e3''#} \<and> (\<exists>x. rs_value r = Some x)"
proof -
  let ?db = "demo_reports [] \<lparr> r_mappings := [demo_mapping], r_events := demo_energies \<rparr>"
  let ?dto = "\<lparr> rq_fy = ''FY24-25'', rq_framework = ''BRSR'', rq_scopes = [''n1''], rq_section = None \<rparr>"
  have p: "parse_fy 0 1750000000000 ''FY24-25'' = (1711929600000, 1743379200000)" by code_simp
  have r: "resolve demo_decimals 0 (demo_ev ''x'') ''a'' ?dto ?db =
      Inr [resolve_one demo_decimals ''a'' [] (filter (\<lambda>e. me_status e \<noteq> MDraft) (sort_key (\<lambda>e. - me_end e) demo_energies)) demo_mapping]"
    by (simp add: resolve_def Let_def schema_frameworks_def resolve_mappings_def demo_reports_def demo_ev_def p)
      (simp add: demo_mapping_def resolve_events_def demo_energies_def demo_energy_def)
  have w: "filter (wanted_event ''a'' [''n1''] (1711929600000, 1743379200000) [''energy'']) demo_energies =
      [demo_energy ''e1'' MApproved 1714000000000 5, demo_energy ''e3'' MLocked 1717000000000 7]"
    by (simp add: demo_energies_def demo_energy_def wanted_event_def)
  have m: "demo_mapping \<in> set (resolve_mappings ?dto (r_mappings ?db))" "distinct (fm_keys demo_mapping)"
    "bm_aggregation demo_mapping = None \<or> bm_aggregation demo_mapping = Some ''SUM''"
    by (simp_all add: resolve_mappings_def demo_reports_def demo_mapping_def)
  have k: "fm_keys demo_mapping = [''energy'']" "fm_code demo_mapping = ''P6-Q1''" by (simp_all add: demo_mapping_def)
  have e: "r_events ?db = demo_energies" "parse_fy 0 (ev_now (demo_ev ''x'')) ''FY24-25'' = (1711929600000, 1743379200000)"
    by (simp_all add: demo_ev_def p)
  obtain rw es where es: "rw \<in> set [resolve_one demo_decimals ''a'' [] (filter (\<lambda>e. me_status e \<noteq> MDraft) (sort_key (\<lambda>e. - me_end e) demo_energies)) demo_mapping]"
    "rs_label rw = ''P6-Q1''" "mset es = {#demo_energy ''e1'' MApproved 1714000000000 5, demo_energy ''e3'' MLocked 1717000000000 7#}"
    "mset (rs_sources rw) = mset (map me_id es)" "rs_value rw = (if es = [] then None else Some (d_show demo_decimals (d_total demo_decimals (map me_value es))))"
    using resolve_totals[OF r m] by (auto simp: k e w)
  have "mset (map me_id es) = {#''e1'', ''e3''#}" using es(3) by (simp add: demo_energy_def)
  moreover have "es \<noteq> []" using es(3) by auto
  ultimately show ?thesis using es(1,2,4,5) by (intro bexI[of _ rw]) auto
qed

end
