(* ===== verification/Extraction_Review.thy ===== *)
theory Extraction_Review
  imports Metrics Dates Guards
begin

text \<open>
  Extraction review (services/api/src/extraction/extraction.service.ts): the queue of extracted
  values, correction, rejection and approval by a reviewer, and the promotion of approved values
  to metric events; with the validation of the request bodies (dto/extraction.dto.ts and the
  global pipe of main.ts).

  The state is composed with that of the metrics service. Confidence scores are rationals.
  Decimals are the type parameter \<open>'v\<close>; parsing a numeric text (decimal.js) and \<open>Number\<close> of a
  decimal are parameters, as is the signing of download addresses.
\<close>

section \<open>Data\<close>

datatype field_status = FDraft | FNeedsReview | FAutoAccepted | FApproved | FRejected | FOverridden

datatype confidence_level = CoLow | CoMedium | CoHigh | CoVerified

record 'v extraction_field =
  xf_id :: string
  xf_tenant :: string
  xf_document :: string
  xf_key :: string
  xf_text :: "string option"
  xf_num :: "'v option"
  xf_unit :: "string option"
  xf_start :: "int option"
  xf_end :: "int option"
  xf_page :: "int option"
  xf_raw :: string
  xf_confidence :: rat
  xf_status :: field_status
  xf_reviewed_by :: "string option"
  xf_reviewed_at :: "int option"
  xf_reason :: "string option"
  xf_created :: int

record document_row =
  dc_id :: string
  dc_tenant :: string
  dc_scope :: string
  dc_name :: string
  dc_type :: string
  dc_bucket :: string
  dc_key :: string

datatype 'v field_snap =
    SnapField "'v extraction_field"
  | SnapPromoted "'v metric_event"
  | SnapRejected string
  | SnapBulk nat "string list"
  | SnapPromotedFrom string

text \<open>\<open>x_scores\<close> holds the two columns of a metric event that only the promotion writes.\<close>

record 'v xdb =
  x_docs :: "document_row list"
  x_fields :: "'v extraction_field list"
  x_metrics :: "'v mdb"
  x_scores :: "(string \<times> confidence_level \<times> rat) list"
  x_audit :: "'v field_snap audit_row list"

section \<open>Reading\<close>

definition document_of :: "'v xdb \<Rightarrow> 'v extraction_field \<Rightarrow> document_row option" where
  "document_of db f = find_first (\<lambda>d. dc_id d = xf_document f) (x_docs db)"

datatype ('v, 'n) shown_value = ShownText string | ShownNumber 'n | ShownNull

record ('v, 'n) field_view =
  fv_row :: "'v extraction_field"
  fv_file_id :: string
  fv_key :: string
  fv_label :: string
  fv_file :: "string option"
  fv_value :: "('v, 'n) shown_value"
  fv_confidence :: rat
  fv_unit :: "string option"
  fv_page :: "int option"
  fv_evidence :: string

definition to_client_shape :: "('v \<Rightarrow> 'n) \<Rightarrow> document_row option \<Rightarrow> 'v extraction_field \<Rightarrow> ('v, 'n) field_view" where
  "to_client_shape as_number doc f =
     \<lparr> fv_row = f, fv_file_id = xf_document f, fv_key = xf_key f, fv_label = xf_key f, fv_file = map_option dc_name doc,
       fv_value = (case xf_text f of Some s \<Rightarrow> ShownText s
         | None \<Rightarrow> (case xf_num f of Some v \<Rightarrow> ShownNumber (as_number v) | None \<Rightarrow> ShownNull)),
       fv_confidence = xf_confidence f, fv_unit = xf_unit f, fv_page = xf_page f, fv_evidence = xf_raw f \<rparr>"

record queue_query =
  qq_max_confidence :: "rat option"
  qq_document :: "string option"
  qq_status :: "field_status option"
  qq_take :: "int option"

text \<open>The bound \<open>maxConfidence\<close> is computed by the code and used nowhere.\<close>

definition queue_matches :: "string \<Rightarrow> queue_query \<Rightarrow> 'v extraction_field \<Rightarrow> bool" where
  "queue_matches t q f \<longleftrightarrow> xf_tenant f = t \<and> opt_eq (qq_document q) (xf_document f) \<and>
     (case qq_status q of Some s \<Rightarrow> xf_status f = s | None \<Rightarrow> xf_status f \<in> {FNeedsReview, FDraft})"

definition extraction_queue :: "('v \<Rightarrow> 'n) \<Rightarrow> string \<Rightarrow> queue_query \<Rightarrow> 'v xdb \<Rightarrow> ('v, 'n) field_view list" where
  "extraction_queue as_number t q db =
     map (\<lambda>f. to_client_shape as_number (document_of db f) f)
       (take (nat (clamp_take 200 (keep (qq_take q) 50)))
         (sort_key xf_confidence (sort_key xf_created (filter (queue_matches t q) (x_fields db)))))"

definition find_field :: "string \<Rightarrow> string \<Rightarrow> 'v xdb \<Rightarrow> 'v extraction_field outcome" where
  "find_field t i db =
     (case find_first (\<lambda>f. xf_id f = i \<and> xf_tenant f = t) (x_fields db) of
        None \<Rightarrow> Inl (NotFound ''Field not found'') | Some f \<Rightarrow> Inr f)"

definition get_field ::
  "('v \<Rightarrow> 'n) \<Rightarrow> (string \<Rightarrow> string \<Rightarrow> int \<Rightarrow> string) \<Rightarrow> string \<Rightarrow> string \<Rightarrow> 'v xdb \<Rightarrow> (('v, 'n) field_view \<times> string) outcome" where
  "get_field as_number presign t i db =
     bindR (find_field t i db) (\<lambda>f. case document_of db f of
         None \<Rightarrow> Inl (PlainError ''document'')
       | Some d \<Rightarrow> Inr (to_client_shape as_number (Some d) f, presign (dc_bucket d) (dc_key d) 600))"

definition field_count :: "('v extraction_field \<Rightarrow> bool) \<Rightarrow> string \<Rightarrow> 'v xdb \<Rightarrow> nat" where
  "field_count P t db = length (filter (\<lambda>f. xf_tenant f = t \<and> P f) (x_fields db))"

record extraction_stats =
  es_by_status :: "(field_status \<times> nat) list"
  es_reviewed :: nat
  es_low :: nat

definition field_statuses :: "field_status list" where
  "field_statuses = [FDraft, FNeedsReview, FAutoAccepted, FApproved, FRejected, FOverridden]"

definition stats :: "env \<Rightarrow> string \<Rightarrow> 'v xdb \<Rightarrow> extraction_stats" where
  "stats E t db =
     \<lparr> es_by_status = filter (\<lambda>(s, n). 0 < n) (map (\<lambda>s. (s, field_count (\<lambda>f. xf_status f = s) t db)) field_statuses),
       es_reviewed = field_count (\<lambda>f. case xf_reviewed_at f of None \<Rightarrow> False | Some a \<Rightarrow> ev_now E - ms_day \<le> a) t db,
       es_low = field_count (\<lambda>f. xf_confidence f < 85 / 100 \<and> xf_status f \<noteq> FApproved) t db \<rparr>"

section \<open>Correcting and rejecting\<close>

text \<open>
  A value as the handler sees it: a number is carried as its decimal text, an object and an array
  as their JSON text.
\<close>

datatype js_input =
    InNumber string | InString string | InBool bool | InArray string | InObject string | InNull | InUndefined

text \<open>The pattern of a decimal numeral: a sign, digits, and optionally a point with digits.\<close>

definition unsigned_numeral :: "string \<Rightarrow> bool" where
  "unsigned_numeral s =
     (takeWhile dec_digit s \<noteq> [] \<and>
      (case dropWhile dec_digit s of [] \<Rightarrow> True | c # ds \<Rightarrow> c = CHR ''.'' \<and> ds \<noteq> [] \<and> list_all dec_digit ds))"

definition numeric_text :: "string \<Rightarrow> bool" where
  "numeric_text s = (case s of [] \<Rightarrow> False | c # r \<Rightarrow> unsigned_numeral (if c = CHR ''-'' then r else s))"

fun input_text :: "js_input \<Rightarrow> string" where
  "input_text (InNumber s) = s"
| "input_text (InString s) = s"
| "input_text (InBool b) = (if b then ''true'' else ''false'')"
| "input_text (InArray s) = s"
| "input_text (InObject s) = s"
| "input_text InNull = ''null''"
| "input_text InUndefined = []"

fun is_numeric :: "js_input \<Rightarrow> bool" where
  "is_numeric (InNumber s) = True"
| "is_numeric (InString s) = numeric_text s"
| "is_numeric _ = False"

record field_patch =
  fp_value :: js_input
  fp_unit :: "string option"
  fp_notes :: "string option option"

definition patch_field :: "(string \<Rightarrow> 'v) \<Rightarrow> env \<Rightarrow> string \<Rightarrow> field_patch \<Rightarrow> 'v extraction_field \<Rightarrow> 'v extraction_field" where
  "patch_field to_dec E actor p f =
     f \<lparr> xf_text := (if is_numeric (fp_value p) then None else Some (input_text (fp_value p))),
         xf_num := (if is_numeric (fp_value p) then Some (to_dec (input_text (fp_value p))) else None),
         xf_unit := (case fp_unit p of Some u \<Rightarrow> Some u | None \<Rightarrow> xf_unit f),
         xf_reason := keep (fp_notes p) (xf_reason f),
         xf_status := FOverridden, xf_reviewed_at := Some (ev_now E), xf_reviewed_by := Some actor \<rparr>"

definition change_field ::
  "env \<Rightarrow> string \<Rightarrow> string \<Rightarrow> string \<Rightarrow> string \<Rightarrow> ('v extraction_field \<Rightarrow> 'v extraction_field) \<Rightarrow> 'v field_snap option \<Rightarrow>
     'v extraction_field \<Rightarrow> 'v xdb \<Rightarrow> 'v xdb" where
  "change_field E t i actor verb g mt f db =
     db \<lparr> x_fields := update_where (\<lambda>x. xf_id x = i) g (x_fields db),
          x_audit := audit_log E (audit_entry t actor ''ExtractionField'' (Some i) verb
            (Some (SnapField f)) (Some (SnapField (g f))) mt) (x_audit db) \<rparr>"

definition update_field ::
  "(string \<Rightarrow> 'v) \<Rightarrow> env \<Rightarrow> string \<Rightarrow> string \<Rightarrow> field_patch \<Rightarrow> string \<Rightarrow> 'v xdb \<Rightarrow> 'v extraction_field outcome \<times> 'v xdb" where
  "update_field to_dec E t i p actor db =
     (case find_field t i db of
        Inl er \<Rightarrow> (Inl er, db)
      | Inr f \<Rightarrow>
          if xf_status f = FApproved then (Inl (Conflict ''Field already approved''), db)
          else (Inr (patch_field to_dec E actor p f),
                change_field E t i actor ''OVERRIDE'' (patch_field to_dec E actor p) None f db))"

definition rejected_field :: "env \<Rightarrow> string \<Rightarrow> string \<Rightarrow> 'v extraction_field \<Rightarrow> 'v extraction_field" where
  "rejected_field E actor reason f =
     f \<lparr> xf_status := FRejected, xf_reason := Some reason, xf_reviewed_at := Some (ev_now E), xf_reviewed_by := Some actor \<rparr>"

definition reject_field ::
  "env \<Rightarrow> string \<Rightarrow> string \<Rightarrow> string \<Rightarrow> string \<Rightarrow> 'v xdb \<Rightarrow> 'v extraction_field outcome \<times> 'v xdb" where
  "reject_field E t i reason actor db =
     (case find_field t i db of
        Inl er \<Rightarrow> (Inl er, db)
      | Inr f \<Rightarrow> (Inr (rejected_field E actor reason f),
                  change_field E t i actor ''REJECT'' (rejected_field E actor reason) (Some (SnapRejected reason)) f db))"

section \<open>Promotion\<close>

definition confidence_level_of :: "rat \<Rightarrow> confidence_level" where
  "confidence_level_of score = (if score \<ge> 85 / 100 then CoHigh else if score \<ge> 65 / 100 then CoMedium else CoLow)"

text \<open>The unit under which a value is promoted: the extracted one, else the canonical one.\<close>

definition promoted_unit :: "'v extraction_field \<Rightarrow> canonical_metric \<Rightarrow> string" where
  "promoted_unit f c = keep (xf_unit f) (cm_unit c)"

definition promoted_event ::
  "env \<Rightarrow> nat \<Rightarrow> string \<Rightarrow> 'v extraction_field \<Rightarrow> string \<Rightarrow> string \<Rightarrow> int \<Rightarrow> int \<Rightarrow> 'v \<Rightarrow> 'v metric_event" where
  "promoted_event E k actor f scope u a b v =
     \<lparr> me_id = ev_ids E k, me_tenant = xf_tenant f, me_scope = scope, me_key = xf_key f, me_start = a, me_end = b,
       me_value = v, me_unit = u, me_dims = ''{}'', me_source = StExtraction, me_extraction = Some (xf_id f),
       me_calc_run = None, me_status = MDraft, me_submitted_by = actor, me_submitted_at = ev_now E,
       me_approved_by = None, me_approved_at = None,
       me_comment = Some (''Auto-promoted from approved extraction '' @ xf_id f) \<rparr>"

text \<open>
  The checks of the promotion in the order of the code; \<open>None\<close> is a promotion that is skipped.
  The period of the document is no column of the schema, so that only the field's own counts.
\<close>

definition promotion ::
  "env \<Rightarrow> nat \<Rightarrow> string \<Rightarrow> 'v extraction_field \<Rightarrow> document_row option \<Rightarrow> canonical_metric list \<Rightarrow> 'v metric_event option" where
  "promotion E k actor f doc registry =
     (case find_first (\<lambda>c. cm_key c = xf_key f) registry of
        None \<Rightarrow> None
      | Some c \<Rightarrow>
         (case (xf_start f, xf_end f) of
            (Some a, Some b) \<Rightarrow>
              (case xf_num f of
                 None \<Rightarrow> None
               | Some v \<Rightarrow>
                   if unit_rejected c (promoted_unit f c) then None
                   else (case doc of
                      None \<Rightarrow> None
                    | Some d \<Rightarrow> if dc_scope d = [] then None
                                else Some (promoted_event E k actor f (dc_scope d) (promoted_unit f c) a b v)))
          | _ \<Rightarrow> None))"

definition promote_to_metric_event ::
  "env \<Rightarrow> nat \<Rightarrow> string \<Rightarrow> 'v extraction_field \<Rightarrow> 'v xdb \<Rightarrow> 'v metric_event option \<times> 'v xdb" where
  "promote_to_metric_event E k actor f db =
     (case find_first (\<lambda>e. me_tenant e = xf_tenant f \<and> me_extraction e = Some (xf_id f)) (m_events (x_metrics db)) of
        Some e \<Rightarrow> (Some e, db)
      | None \<Rightarrow>
         (case promotion E k actor f (document_of db f) (m_registry (x_metrics db)) of
            None \<Rightarrow> (None, db)
          | Some e \<Rightarrow> (Some e,
              db \<lparr> x_metrics := (x_metrics db) \<lparr> m_events := m_events (x_metrics db) @ [e] \<rparr>,
                   x_scores := x_scores db @ [(me_id e, confidence_level_of (xf_confidence f), xf_confidence f)],
                   x_audit := audit_log E (audit_entry (xf_tenant f) actor ''MetricEvent'' (Some (me_id e)) ''CREATE''
                     None (Some (SnapPromoted e)) (Some (SnapPromotedFrom (xf_id f)))) (x_audit db) \<rparr>)))"

section \<open>Approving\<close>

definition approved_field :: "env \<Rightarrow> string \<Rightarrow> 'v extraction_field \<Rightarrow> 'v extraction_field" where
  "approved_field E actor f =
     f \<lparr> xf_status := FApproved, xf_reviewed_at := Some (ev_now E), xf_reviewed_by := Some actor \<rparr>"

definition approve_field :: "env \<Rightarrow> string \<Rightarrow> string \<Rightarrow> string \<Rightarrow> 'v xdb \<Rightarrow> 'v extraction_field outcome \<times> 'v xdb" where
  "approve_field E t i actor db =
     (case find_field t i db of
        Inl er \<Rightarrow> (Inl er, db)
      | Inr f \<Rightarrow>
          if xf_status f = FApproved then (Inr f, db)
          else (Inr (approved_field E actor f),
                snd (promote_to_metric_event E 1 actor (approved_field E actor f)
                  (change_field E t i actor ''APPROVE'' (approved_field E actor) None f db))))"

text \<open>
  Of a bulk approval the fields are marked first, then promoted one by one in the order of the
  table; the k-th of them would get the k-th identifier the database makes.
\<close>

definition promote_step ::
  "env \<Rightarrow> string \<Rightarrow> nat \<times> 'v extraction_field \<Rightarrow> nat \<times> 'v xdb \<Rightarrow> nat \<times> 'v xdb" where
  "promote_step E actor kf s =
     (let (r, db) = promote_to_metric_event E (fst kf) actor (snd kf) (snd s)
      in (if r = None then fst s else fst s + 1, db))"

definition promote_each :: "env \<Rightarrow> string \<Rightarrow> 'v extraction_field list \<Rightarrow> 'v xdb \<Rightarrow> nat \<times> 'v xdb" where
  "promote_each E actor fs db = fold (promote_step E actor) (enumerate 1 fs) (0, db)"

definition bulk_approve ::
  "env \<Rightarrow> string \<Rightarrow> string list \<Rightarrow> string \<Rightarrow> 'v xdb \<Rightarrow> (nat \<times> nat option) outcome \<times> 'v xdb" where
  "bulk_approve E t ids actor db =
     (if ids = [] then (Inr (0, None), db)
      else if 1000 < length ids then (Inl (Conflict ''Bulk-approve capped at 1,000 ids per request''), db)
      else
        (let sel = (\<lambda>f. xf_id f \<in> set ids \<and> xf_tenant f = t \<and> xf_status f \<noteq> FApproved);
             n = length (filter sel (x_fields db));
             db1 = db \<lparr> x_fields := update_where sel (approved_field E actor) (x_fields db),
                        x_audit := audit_log E (audit_entry t actor ''ExtractionField'' None ''APPROVE'' None None
                          (Some (SnapBulk n ids))) (x_audit db) \<rparr>;
             fs = filter (\<lambda>f. xf_id f \<in> set ids \<and> xf_tenant f = t \<and> xf_status f = FApproved) (x_fields db1);
             (promoted, db2) = promote_each E actor fs db1
         in (Inr (n, Some promoted), db2)))"

section \<open>Request bodies\<close>

text \<open>\<open>value\<close> is declared without one.\<close>

definition update_field_decorated :: "string list" where
  "update_field_decorated = [''unit'', ''notes'']"

text \<open>
  The two texts of the body after the pipe's conversion: numbers, truth values and objects become
  text, null passes as an absent value, an array is refused. Absent notes leave the column as it
  is, null notes clear it; both leave the unit. The pipe lists all complaints, the model the first.
\<close>

definition body_text :: "string \<Rightarrow> js_input option \<Rightarrow> string option option outcome" where
  "body_text k v = (case v of
     None \<Rightarrow> Inr None
   | Some InUndefined \<Rightarrow> Inr None
   | Some InNull \<Rightarrow> Inr (Some None)
   | Some (InArray s) \<Rightarrow> Inl (BadRequest (k @ '' must be a string''))
   | Some (InObject s) \<Rightarrow> Inr (Some (Some ''[object Object]''))
   | Some x \<Rightarrow> Inr (Some (Some (input_text x))))"

definition update_field_body :: "js_input js_object \<Rightarrow> field_patch outcome" where
  "update_field_body body =
     bindR (whitelist_pipe update_field_decorated body) (\<lambda>b.
     bindR (body_text ''unit'' (own_get b ''unit'')) (\<lambda>u.
     bindR (body_text ''notes'' (own_get b ''notes'')) (\<lambda>nt.
       if (case nt of Some (Some s) \<Rightarrow> 500 < length s | _ \<Rightarrow> False)
       then Inl (BadRequest ''notes must be shorter than or equal to 500 characters'')
       else Inr \<lparr> fp_value = keep (own_get b ''value'') InUndefined, fp_unit = keep u None, fp_notes = nt \<rparr>)))"

definition patch_request ::
  "(string \<Rightarrow> 'v) \<Rightarrow> env \<Rightarrow> string \<Rightarrow> string \<Rightarrow> js_input js_object \<Rightarrow> string \<Rightarrow> 'v xdb \<Rightarrow> 'v extraction_field outcome \<times> 'v xdb" where
  "patch_request to_dec E t i body actor db =
     (case update_field_body body of Inl er \<Rightarrow> (Inl er, db) | Inr p \<Rightarrow> update_field to_dec E t i p actor db)"

section \<open>The system\<close>

text \<open>The review operations next to those of the metrics service, over one database.\<close>

datatype 'v field_op =
    XoUpdate "string \<Rightarrow> 'v" env string string field_patch string
  | XoReject env string string string string
  | XoApprove env string string string
  | XoBulk env string "string list" string
  | XoMetric "'v metric_op"

fun field_step :: "'v field_op \<Rightarrow> 'v xdb \<Rightarrow> 'v xdb" where
  "field_step (XoUpdate to_dec E t i p actor) db = snd (update_field to_dec E t i p actor db)"
| "field_step (XoReject E t i reason actor) db = snd (reject_field E t i reason actor db)"
| "field_step (XoApprove E t i actor) db = snd (approve_field E t i actor db)"
| "field_step (XoBulk E t ids actor) db = snd (bulk_approve E t ids actor db)"
| "field_step (XoMetric c) db = db \<lparr> x_metrics := metric_step c (x_metrics db) \<rparr>"

fun field_op_tenant :: "'v field_op \<Rightarrow> string" where
  "field_op_tenant (XoUpdate to_dec E t i p actor) = t"
| "field_op_tenant (XoReject E t i reason actor) = t"
| "field_op_tenant (XoApprove E t i actor) = t"
| "field_op_tenant (XoBulk E t ids actor) = t"
| "field_op_tenant (XoMetric c) = metric_tenant c"

text \<open>The database makes fresh identifiers.\<close>

definition fresh_ids :: "env \<Rightarrow> nat \<Rightarrow> string list \<Rightarrow> bool" where
  "fresh_ids E n ids \<longleftrightarrow> distinct (map (ev_ids E) [1..<n + 1]) \<and> set (map (ev_ids E) [1..<n + 1]) \<inter> set ids = {}"

fun field_ok :: "'v field_op \<Rightarrow> 'v xdb \<Rightarrow> bool" where
  "field_ok (XoApprove E t i actor) db \<longleftrightarrow> fresh_ids E 1 (map me_id (m_events (x_metrics db)))"
| "field_ok (XoBulk E t ids actor) db \<longleftrightarrow> fresh_ids E (length (x_fields db)) (map me_id (m_events (x_metrics db)))"
| "field_ok (XoMetric c) db \<longleftrightarrow> metric_ok c (x_metrics db)"
| "field_ok _ db \<longleftrightarrow> True"

end
