(* ===== verification/Extraction_Props.thy ===== *)
theory Extraction_Props
  imports Extraction_Review Metrics_Props
begin

text \<open>
  What the extraction review promises: over every interleaving with the metrics service a value is
  promoted to at most one metric event, which names the field it came from; the events keep the
  life cycle of the metrics service; what a correction can and cannot reach.
\<close>

section \<open>The table of fields\<close>

inductive field_move :: "'v extraction_field \<Rightarrow> 'v extraction_field \<Rightarrow> bool" where
  corrected: "xf_status f \<noteq> FApproved \<Longrightarrow> field_move f (patch_field to_dec E actor p f)"
| turned_down: "field_move f (rejected_field E actor reason f)"
| approved: "xf_status f \<noteq> FApproved \<Longrightarrow> field_move f (approved_field E actor f)"

inductive_cases field_move_cases: "field_move f f'"

text \<open>A field that left the queue names its reviewer.\<close>

definition reviewed_field :: "'v extraction_field \<Rightarrow> bool" where
  "reviewed_field f \<longleftrightarrow> xf_status f \<in> {FDraft, FNeedsReview, FAutoAccepted} \<or> xf_reviewed_by f \<noteq> None"

lemma field_move_keeps:
  "field_move f f' \<Longrightarrow> xf_id f' = xf_id f \<and> xf_tenant f' = xf_tenant f \<and> xf_key f' = xf_key f \<and> xf_document f' = xf_document f"
  by (auto simp: patch_field_def rejected_field_def approved_field_def elim!: field_move_cases)

lemma field_move_reviewed: "field_move f f' \<Longrightarrow> reviewed_field f'"
  by (auto simp: patch_field_def rejected_field_def approved_field_def reviewed_field_def elim!: field_move_cases)

abbreviation field_table :: "string \<Rightarrow> 'v extraction_field list \<Rightarrow> 'v extraction_field list \<Rightarrow> bool" where
  "field_table \<equiv> table_move xf_id xf_tenant (\<lambda>_. False) field_move"

lemma find_field_Inr: "find_field t i db = Inr f \<Longrightarrow> f \<in> set (x_fields db) \<and> xf_id f = i \<and> xf_tenant f = t"
  by (auto simp: find_field_def split: option.splits dest: find_first_Some)

lemma change_field_sel [simp]:
  "x_fields (change_field E t i actor verb g mt f db) = update_where (\<lambda>x. xf_id x = i) g (x_fields db)"
  "x_metrics (change_field E t i actor verb g mt f db) = x_metrics db"
  "x_docs (change_field E t i actor verb g mt f db) = x_docs db"
  by (simp_all add: change_field_def)

lemma change_field_table:
  assumes "distinct (map xf_id (x_fields db))" "find_field t i db = Inr f" "field_move f (g f)"
  shows "field_table t (x_fields db) (update_where (\<lambda>x. xf_id x = i) g (x_fields db))"
  using table_move_update[OF assms(1), of f i xf_tenant t field_move g] find_field_Inr[OF assms(2)] assms(3) by auto

section \<open>Promotion\<close>

definition sourced :: "'v extraction_field \<Rightarrow> 'v metric_event \<Rightarrow> bool" where
  "sourced f e \<longleftrightarrow> me_tenant e = xf_tenant f \<and> me_extraction e = Some (xf_id f) \<and> me_key e = xf_key f"

abbreviation x_events :: "'v xdb \<Rightarrow> 'v metric_event list" where
  "x_events db \<equiv> m_events (x_metrics db)"

lemma promotion_event:
  "promotion E k actor f doc reg = Some e \<Longrightarrow> me_id e = ev_ids E k \<and> fresh_draft e \<and> sourced f e"
  by (auto simp: promotion_def promoted_event_def fresh_draft_def sourced_def split: option.splits if_splits)

lemma promote_cases:
  obtains (skipped) r where "promote_to_metric_event E k actor f db = (r, db)"
      "r = None \<or> (\<exists>e\<in>set (x_events db). me_tenant e = xf_tenant f \<and> me_extraction e = Some (xf_id f))"
  | (made) e sc au where "promote_to_metric_event E k actor f db =
        (Some e, db \<lparr> x_metrics := (x_metrics db) \<lparr> m_events := x_events db @ [e] \<rparr>, x_scores := sc, x_audit := au \<rparr>)"
      "me_id e = ev_ids E k" "fresh_draft e" "sourced f e"
      "\<forall>x\<in>set (x_events db). \<not> (me_tenant x = xf_tenant f \<and> me_extraction x = Some (xf_id f))"
proof (cases "find_first (\<lambda>e. me_tenant e = xf_tenant f \<and> me_extraction e = Some (xf_id f)) (x_events db)")
  case (Some e)
  then show ?thesis using that(1)[of "Some e"] find_first_Some[OF Some] by (auto simp: promote_to_metric_event_def)
next
  case None
  show ?thesis
  proof (cases "promotion E k actor f (document_of db f) (m_registry (x_metrics db))")
    case None': None
    then show ?thesis using that(1)[of None] None by (simp add: promote_to_metric_event_def)
  next
    case (Some e)
    then show ?thesis using that(2) None promotion_event[OF Some] by (auto simp: promote_to_metric_event_def find_first_None)
  qed
qed

definition single_source :: "'v metric_event list \<Rightarrow> bool" where
  "single_source es \<longleftrightarrow> distinct (map (\<lambda>e. (me_tenant e, me_extraction e)) (filter (\<lambda>e. me_extraction e \<noteq> None) es))"

text \<open>What a list of promotions does to the tables.\<close>

definition promotes :: "env \<Rightarrow> nat list \<Rightarrow> 'v extraction_field list \<Rightarrow> 'v xdb \<Rightarrow> 'v xdb \<Rightarrow> bool" where
  "promotes E ks fs db db' \<longleftrightarrow> x_fields db' = x_fields db \<and> x_docs db' = x_docs db \<and>
     m_registry (x_metrics db') = m_registry (x_metrics db) \<and> m_nodes (x_metrics db') = m_nodes (x_metrics db) \<and>
     (\<exists>new. x_events db' = x_events db @ new \<and> (\<forall>e\<in>set new. fresh_draft e \<and> (\<exists>f\<in>set fs. sourced f e)) \<and>
        subseq (map me_id new) (map (ev_ids E) ks) \<and>
        (\<forall>e\<in>set new. \<forall>x\<in>set (x_events db). \<not> (me_tenant x = me_tenant e \<and> me_extraction x = me_extraction e)) \<and>
        (single_source (x_events db) \<longrightarrow> single_source (x_events db')))"

lemma promotes_one: "promotes E [k] [f] db (snd (promote_to_metric_event E k actor f db))"
proof (rule promote_cases[of E k actor f db])
  fix e sc au
  assume a: "promote_to_metric_event E k actor f db =
      (Some e, db \<lparr> x_metrics := (x_metrics db) \<lparr> m_events := x_events db @ [e] \<rparr>, x_scores := sc, x_audit := au \<rparr>)"
    "me_id e = ev_ids E k" "fresh_draft e" "sourced f e"
    "\<forall>x\<in>set (x_events db). \<not> (me_tenant x = xf_tenant f \<and> me_extraction x = Some (xf_id f))"
  have "single_source (x_events db) \<Longrightarrow> single_source (x_events db @ [e])"
    using a(4,5) by (auto simp: single_source_def sourced_def)
  then show ?thesis using a by (auto simp: promotes_def sourced_def intro!: exI[of _ "[e]"])
qed (auto simp: promotes_def)

lemma promotes_append:
  assumes "promotes E ks fs a b" "promotes E ks' fs' b c"
  shows "promotes E (ks @ ks') (fs @ fs') a c"
proof -
  obtain m where m: "x_events b = x_events a @ m" "\<forall>e\<in>set m. fresh_draft e \<and> (\<exists>f\<in>set fs. sourced f e)"
    "subseq (map me_id m) (map (ev_ids E) ks)"
    "\<forall>e\<in>set m. \<forall>x\<in>set (x_events a). \<not> (me_tenant x = me_tenant e \<and> me_extraction x = me_extraction e)"
    "single_source (x_events a) \<longrightarrow> single_source (x_events b)" using assms(1) by (auto simp: promotes_def)
  obtain n where n: "x_events c = x_events b @ n" "\<forall>e\<in>set n. fresh_draft e \<and> (\<exists>f\<in>set fs'. sourced f e)"
    "subseq (map me_id n) (map (ev_ids E) ks')"
    "\<forall>e\<in>set n. \<forall>x\<in>set (x_events b). \<not> (me_tenant x = me_tenant e \<and> me_extraction x = me_extraction e)"
    "single_source (x_events b) \<longrightarrow> single_source (x_events c)" using assms(2) by (auto simp: promotes_def)
  have "subseq (map me_id (m @ n)) (map (ev_ids E) (ks @ ks'))" using m(3) n(3) by (simp add: list_emb_append_mono)
  moreover have "\<forall>e\<in>set (m @ n). \<forall>x\<in>set (x_events a). \<not> (me_tenant x = me_tenant e \<and> me_extraction x = me_extraction e)"
    using m(1,4) n(4) by auto
  moreover have "\<forall>e\<in>set (m @ n). fresh_draft e \<and> (\<exists>f\<in>set (fs @ fs'). sourced f e)" using m(2) n(2) by auto
  moreover have "x_events c = x_events a @ (m @ n)" using m(1) n(1) by simp
  moreover have "single_source (x_events a) \<longrightarrow> single_source (x_events c)" using m(5) n(5) by blast
  ultimately show ?thesis using assms unfolding promotes_def by (intro conjI exI[of _ "m @ n"]) simp_all
qed

lemma promotes_each: "promotes E [k..<k + length fs] fs (snd s) (snd (fold (promote_step E actor) (enumerate k fs) s))"
proof (induction fs arbitrary: k s)
  case (Cons f fs)
  let ?s = "promote_step E actor (k, f) s"
  have "snd ?s = snd (promote_to_metric_event E k actor f (snd s))" by (simp add: promote_step_def Let_def split: prod.splits)
  then have "promotes E [k] [f] (snd s) (snd ?s)" using promotes_one by metis
  moreover have "[k..<k + length (f # fs)] = [k] @ [Suc k..<Suc k + length fs]" by (simp add: upt_conv_Cons del: upt_Suc)
  ultimately show ?case using promotes_append[of E "[k]" "[f]" _ "snd ?s", OF _ Cons[of "Suc k" ?s]] by simp
qed (simp add: promotes_def)

text \<open>The promotions as a step of the event table.\<close>

lemma promotes_table:
  assumes "promotes E ks fs db db'" "\<forall>f\<in>set fs. xf_tenant f = t" "distinct (map (ev_ids E) ks)"
    "set (map (ev_ids E) ks) \<inter> set (map me_id (x_events db)) = {}"
  shows "event_table t (x_events db) (x_events db')"
proof -
  obtain new where n: "x_events db' = x_events db @ new" "\<forall>e\<in>set new. fresh_draft e \<and> (\<exists>f\<in>set fs. sourced f e)"
    "subseq (map me_id new) (map (ev_ids E) ks)" using assms(1) by (auto simp: promotes_def)
  have "distinct (map me_id new)" "set (map me_id new) \<subseteq> set (map (ev_ids E) ks)"
    using subseq_distinct[OF n(3) assms(3)] subseq_subset[OF n(3)] by simp_all
  then show ?thesis using n(2) assms(2,4) unfolding n(1)
    by (intro table_moveI) (force simp: list_all2_same sourced_def)+
qed

section \<open>Approvals\<close>

abbreviation marked :: "env \<Rightarrow> string \<Rightarrow> string \<Rightarrow> string \<Rightarrow> 'v extraction_field \<Rightarrow> 'v xdb \<Rightarrow> 'v xdb" where
  "marked E t i actor f db \<equiv> change_field E t i actor ''APPROVE'' (approved_field E actor) None f db"

lemma approve_field_promotes:
  assumes "find_field t i db = Inr f" "xf_status f \<noteq> FApproved"
  shows "snd (approve_field E t i actor db) =
      snd (promote_to_metric_event E 1 actor (approved_field E actor f) (marked E t i actor f db))"
    "promotes E [1] [approved_field E actor f] (marked E t i actor f db) (snd (approve_field E t i actor db))"
  using assms promotes_one[of E 1 "approved_field E actor f" "marked E t i actor f db" actor] by (simp_all add: approve_field_def)

definition bulk_selected :: "string \<Rightarrow> string list \<Rightarrow> 'v extraction_field \<Rightarrow> bool" where
  "bulk_selected t ids f \<longleftrightarrow> xf_id f \<in> set ids \<and> xf_tenant f = t \<and> xf_status f \<noteq> FApproved"

definition bulk_marked :: "env \<Rightarrow> string \<Rightarrow> string list \<Rightarrow> string \<Rightarrow> 'v xdb \<Rightarrow> 'v xdb" where
  "bulk_marked E t ids actor db = db \<lparr> x_fields := update_where (bulk_selected t ids) (approved_field E actor) (x_fields db),
     x_audit := audit_log E (audit_entry t actor ''ExtractionField'' None ''APPROVE'' None None
       (Some (SnapBulk (length (filter (bulk_selected t ids) (x_fields db))) ids))) (x_audit db) \<rparr>"

definition bulk_rows :: "string \<Rightarrow> string list \<Rightarrow> 'v xdb \<Rightarrow> 'v extraction_field list" where
  "bulk_rows t ids db = filter (\<lambda>f. xf_id f \<in> set ids \<and> xf_tenant f = t \<and> xf_status f = FApproved) (x_fields db)"

lemma bulk_marked_sel [simp]:
  "x_fields (bulk_marked E t ids actor db) = update_where (bulk_selected t ids) (approved_field E actor) (x_fields db)"
  "x_metrics (bulk_marked E t ids actor db) = x_metrics db" "x_docs (bulk_marked E t ids actor db) = x_docs db"
  by (simp_all add: bulk_marked_def)

lemma bulk_rows_tenant: "\<forall>f\<in>set (bulk_rows t ids db). xf_tenant f = t"
  by (auto simp: bulk_rows_def)

lemma bulk_approve_promotes:
  fixes ids :: "string list" and t :: string and E :: env and actor :: string and db :: "'v xdb"
  assumes "ids \<noteq> []" "length ids \<le> 1000"
  defines "fs \<equiv> bulk_rows t ids (bulk_marked E t ids actor db)"
  shows "promotes E [1..<1 + length fs] fs (bulk_marked E t ids actor db) (snd (bulk_approve E t ids actor db))"
proof -
  have q: "bulk_selected t ids = (\<lambda>f. xf_id f \<in> set ids \<and> xf_tenant f = t \<and> xf_status f \<noteq> FApproved)"
    by (simp add: fun_eq_iff bulk_selected_def)
  have "snd (bulk_approve E t ids actor db) = snd (promote_each E actor fs (bulk_marked E t ids actor db))"
    using assms(1,2) by (simp add: bulk_approve_def Let_def fs_def bulk_marked_def bulk_rows_def q split: prod.splits)
  then show ?thesis
    using promotes_each[of E 1 fs "(0, bulk_marked E t ids actor db)" actor] by (simp add: promote_each_def)
qed

lemma bulk_table:
  "field_table t (x_fields db) (update_where (bulk_selected t ids) (approved_field E actor) (x_fields db))"
proof -
  have "list_all2 (\<lambda>r r'. r' = r \<or> xf_tenant r = t \<and> field_move r r') (x_fields db)
      (update_where (bulk_selected t ids) (approved_field E actor) (x_fields db))"
    by (auto simp: update_where_def list_all2_map2 list_all2_same bulk_selected_def intro: approved)
  from table_moveI[OF this, of "[]"] show ?thesis by simp
qed

lemma approve_field_same: "x_fields (snd (approve_field E t i actor db)) = x_fields db \<and> x_metrics (snd (approve_field E t i actor db)) = x_metrics db"
  if "\<And>f. find_field t i db = Inr f \<Longrightarrow> xf_status f = FApproved"
  using that by (auto simp: approve_field_def split: sum.splits)

lemma bulk_approve_same:
  "\<not> (ids \<noteq> [] \<and> length ids \<le> 1000) \<Longrightarrow> snd (bulk_approve E t ids actor db) = db"
  by (auto simp: bulk_approve_def)

section \<open>One step\<close>

lemma approve_fields:
  assumes "distinct (map xf_id (x_fields db))"
  shows "field_table t (x_fields db) (x_fields (snd (approve_field E t i actor db)))"
proof (cases "\<exists>f. find_field t i db = Inr f \<and> xf_status f \<noteq> FApproved")
  case True
  then obtain f where f: "find_field t i db = Inr f" "xf_status f \<noteq> FApproved" by blast
  then have "x_fields (snd (approve_field E t i actor db)) = update_where (\<lambda>x. xf_id x = i) (approved_field E actor) (x_fields db)"
    using approve_field_promotes(2)[OF f, of E actor] by (simp add: promotes_def)
  then show ?thesis using change_field_table[OF assms f(1), of "approved_field E actor"] approved[OF f(2)] by simp
next
  case False
  then show ?thesis using approve_field_same[of t i db E actor] by (simp add: table_move_refl)
qed

lemma approve_events:
  assumes "fresh_ids E 1 (map me_id (x_events db))"
  shows "event_table t (x_events db) (x_events (snd (approve_field E t i actor db)))"
proof (cases "\<exists>f. find_field t i db = Inr f \<and> xf_status f \<noteq> FApproved")
  case True
  then obtain f where f: "find_field t i db = Inr f" "xf_status f \<noteq> FApproved" by blast
  have "event_table t (x_events (marked E t i actor f db)) (x_events (snd (approve_field E t i actor db)))"
    using promotes_table[OF approve_field_promotes(2)[OF f, of E actor], of t] find_field_Inr[OF f(1)] assms
    by (simp add: approved_field_def fresh_ids_def)
  then show ?thesis by simp
next
  case False
  then show ?thesis using approve_field_same[of t i db E actor] by (simp add: table_move_refl)
qed

lemma bulk_fields: "field_table t (x_fields db) (x_fields (snd (bulk_approve E t ids actor db)))"
proof (cases "ids \<noteq> [] \<and> length ids \<le> 1000")
  case True
  then show ?thesis using bulk_approve_promotes[where ids = ids and t = t and E = E and actor = actor and db = db] bulk_table[of t db ids E actor] by (simp add: promotes_def)
qed (simp add: bulk_approve_same table_move_refl)

lemma fresh_ids_mono:
  assumes "fresh_ids E n ids" "m \<le> n"
  shows "fresh_ids E m ids"
proof -
  obtain ds where "[1..<n + 1] = [1..<m + 1] @ ds" using upt_add_eq_append[of 1 "m + 1" "n - m"] assms(2) by auto
  with assms(1) show ?thesis unfolding fresh_ids_def by (simp only: map_append distinct_append set_append) blast
qed

lemma bulk_events:
  assumes "fresh_ids E (length (x_fields db)) (map me_id (x_events db))"
  shows "event_table t (x_events db) (x_events (snd (bulk_approve E t ids actor db)))"
proof (cases "ids \<noteq> [] \<and> length ids \<le> 1000")
  case True
  let ?db = "bulk_marked E t ids actor db"
  have "length (bulk_rows t ids ?db) \<le> length (x_fields db)"
    unfolding bulk_rows_def by (rule le_trans[OF length_filter_le]) simp
  from fresh_ids_mono[OF assms this] have ids: "distinct (map (ev_ids E) [1..<1 + length (bulk_rows t ids ?db)])"
    "set (map (ev_ids E) [1..<1 + length (bulk_rows t ids ?db)]) \<inter> set (map me_id (x_events ?db)) = {}"
    by (simp_all only: fresh_ids_def add.commute bulk_marked_sel)
  have pr: "promotes E [1..<1 + length (bulk_rows t ids ?db)] (bulk_rows t ids ?db) ?db (snd (bulk_approve E t ids actor db))"
    using bulk_approve_promotes True by blast
  from promotes_table[OF pr bulk_rows_tenant ids] show ?thesis by simp
qed (simp add: bulk_approve_same table_move_refl)

lemma update_fields:
  assumes "distinct (map xf_id (x_fields db))"
  shows "field_table t (x_fields db) (x_fields (snd (update_field to_dec E t i p actor db)))"
proof (cases "find_field t i db")
  case (Inr f)
  show ?thesis
  proof (cases "xf_status f = FApproved")
    case False
    with change_field_table[OF assms Inr, of "patch_field to_dec E actor p"] corrected[OF False, of to_dec E actor p] Inr
    show ?thesis by (simp add: update_field_def)
  qed (simp add: update_field_def Inr table_move_refl)
qed (simp add: update_field_def table_move_refl)

lemma reject_fields:
  assumes "distinct (map xf_id (x_fields db))"
  shows "field_table t (x_fields db) (x_fields (snd (reject_field E t i reason actor db)))"
proof (cases "find_field t i db")
  case (Inr f)
  with change_field_table[OF assms Inr, of "rejected_field E actor reason"] turned_down[of f E actor reason]
  show ?thesis by (simp add: reject_field_def)
qed (simp add: reject_field_def table_move_refl)

lemma field_step_fields:
  "distinct (map xf_id (x_fields db)) \<Longrightarrow> field_table (field_op_tenant c) (x_fields db) (x_fields (field_step c db))"
  by (cases c) (simp_all add: update_fields reject_fields approve_fields bulk_fields table_move_refl)

lemma field_step_review:
  "x_metrics (snd (update_field to_dec E t i p actor db)) = x_metrics db"
  "x_metrics (snd (reject_field E t i reason actor db)) = x_metrics db"
  by (auto simp: update_field_def reject_field_def split: sum.splits)

lemma field_step_events:
  assumes "distinct (map me_id (x_events db))" "field_ok c db"
  shows "event_table (field_op_tenant c) (x_events db) (x_events (field_step c db))"
  using assms by (cases c) (simp_all add: field_step_review table_move_refl approve_events bulk_events metric_step_table)

interpretation reviews: table_system xf_id xf_tenant "\<lambda>_. False" field_move reviewed_field field_step field_ok x_fields field_op_tenant
proof
  show "xf_id f' = xf_id f \<and> xf_tenant f' = xf_tenant f" if "field_move f f'" for f f' :: "'v extraction_field"
    using field_move_keeps[OF that] by simp
qed (simp_all add: field_step_fields field_move_reviewed)

interpretation reviewed_events: table_system me_id me_tenant fresh_draft event_step signed_off field_step field_ok x_events field_op_tenant
proof
  show "me_id e' = me_id e \<and> me_tenant e' = me_tenant e" if "event_step e e'" for e e' :: "'v metric_event"
    using event_step_keeps[OF that] by simp
  show "signed_off e" if "fresh_draft e" for e :: "'v metric_event"
    using that by (simp add: fresh_draft_def signed_off_def)
qed (fact event_step_signed field_step_events)+

section \<open>Where the events come from\<close>

text \<open>The metrics service lets a caller name an extraction as the source of a new event; such
  claims are left aside here.\<close>

fun no_claim :: "'v field_op \<Rightarrow> bool" where
  "no_claim (XoMetric (MoCreate E t dto actor)) \<longleftrightarrow> md_extraction dto = None"
| "no_claim _ \<longleftrightarrow> True"

definition field_fair :: "'v field_op \<Rightarrow> 'v xdb \<Rightarrow> bool" where
  "field_fair c db \<longleftrightarrow> field_ok c db \<and> no_claim c"

definition traced :: "'v extraction_field list \<Rightarrow> 'v metric_event \<Rightarrow> bool" where
  "traced fs e \<longleftrightarrow> me_extraction e = None \<or> (\<exists>f\<in>set fs. sourced f e)"

definition sources_ok :: "'v xdb \<Rightarrow> bool" where
  "sources_ok db \<longleftrightarrow> distinct (map me_id (x_events db)) \<and> distinct (map xf_id (x_fields db)) \<and>
     single_source (x_events db) \<and> (\<forall>e\<in>set (x_events db). traced (x_fields db) e)"

abbreviation field_ident :: "'v extraction_field \<Rightarrow> string \<times> string \<times> string" where
  "field_ident f \<equiv> (xf_id f, xf_tenant f, xf_key f)"

abbreviation event_source :: "'v metric_event \<Rightarrow> string \<times> string \<times> string option" where
  "event_source e \<equiv> (me_tenant e, me_key e, me_extraction e)"

lemma sourced_ident: "sourced f e \<longleftrightarrow> field_ident f \<in> {(x, me_tenant e, me_key e) | x. me_extraction e = Some x}"
  by (auto simp: sourced_def)

lemma traced_ident: "traced fs e \<longleftrightarrow> me_extraction e = None \<or> (\<exists>x. me_extraction e = Some x \<and> (x, me_tenant e, me_key e) \<in> set (map field_ident fs))"
  by (force simp: traced_def sourced_def)

lemma field_table_ident: "field_table t fs fs' \<Longrightarrow> map field_ident fs' = map field_ident fs"
proof (erule table_moveE)
  fix moved new
  assume a: "fs' = moved @ new" "\<forall>r\<in>set new. xf_tenant r = t \<and> False"
    "list_all2 (\<lambda>r r'. r' = r \<or> xf_tenant r = t \<and> field_move r r') fs moved"
  have "map field_ident moved = map field_ident fs"
    using a(3) by (induction rule: list_all2_induct) (auto dest: field_move_keeps)
  then show ?thesis using a(1,2) by (cases new) auto
qed

lemma event_step_source: "event_step e e' \<Longrightarrow> event_source e' = event_source e"
  by (auto simp: patch_event_def elim!: event_step_cases)

lemma single_source_map: "map event_source es' = map event_source es \<Longrightarrow> single_source es' \<longleftrightarrow> single_source es"
proof -
  have s: "map (\<lambda>e. (me_tenant e, me_extraction e)) (filter (\<lambda>e. me_extraction e \<noteq> None) es) =
      map (\<lambda>(t, k, x). (t, x)) (filter (\<lambda>(t, k, x). x \<noteq> None) (map event_source es))" for es :: "'v metric_event list"
    by (induction es) auto
  show "map event_source es' = map event_source es \<Longrightarrow> ?thesis" unfolding single_source_def s by simp
qed

lemma moved_sources: "list_all2 (\<lambda>e e'. e' = e \<or> me_tenant e = t \<and> event_step e e') es moved \<Longrightarrow> map event_source moved = map event_source es"
  by (induction rule: list_all2_induct) (auto dest: event_step_source)

lemma metric_step_unclaimed:
  assumes "no_claim (XoMetric c)" "e \<in> set (drop (length (m_events db)) (m_events (metric_step c db)))"
  shows "me_extraction e = None"
proof (cases c)
  case (MoCreate E t dto actor)
  then show ?thesis using assms
    by (auto simp: create_event_def new_event_def Let_def split: option.splits if_splits)
next
  case (MoImport pd pv aborts E t sheet actor)
  then show ?thesis using import_sheet_grows[of pd pv aborts E t sheet actor db] assms by auto
qed (use assms in \<open>auto simp: update_event_def submit_event_def approve_event_def reject_event_def lock_event_def
    change_event_def split: sum.splits if_splits\<close>)

text \<open>One step keeps the sources.\<close>

lemma metric_step_sources:
  assumes "metric_ok c (x_metrics db)" "no_claim (XoMetric c)" "sources_ok db"
  shows "sources_ok (field_step (XoMetric c) db)"
proof -
  let ?db = "field_step (XoMetric c) db"
  have d: "distinct (map me_id (x_events db))" using assms(3) by (simp add: sources_ok_def)
  note tm = metric_step_table[OF d assms(1)]
  then obtain moved new where mn: "m_events (metric_step c (x_metrics db)) = moved @ new"
    "list_all2 (\<lambda>e e'. e' = e \<or> me_tenant e = metric_tenant c \<and> event_step e e') (x_events db) moved" by (rule table_moveE)
  note src = moved_sources[OF mn(2)]
  have new: "\<forall>e\<in>set new. me_extraction e = None"
    using metric_step_unclaimed[OF assms(2), of _ "x_metrics db"] mn list_all2_lengthD[OF mn(2)] by auto
  have "single_source moved" using single_source_map[OF src] assms(3) by (simp add: sources_ok_def)
  then have "single_source (x_events ?db)" using new by (simp add: mn(1) single_source_def filter_empty_conv)
  moreover have "traced (x_fields db) e" if "e \<in> set moved" for e
  proof -
    have "event_source e \<in> event_source ` set moved" using that by (rule imageI)
    also have "\<dots> = event_source ` set (x_events db)" using arg_cong[OF src, of set] by simp
    finally obtain e0 where e0: "e0 \<in> set (x_events db)" "event_source e = event_source e0" by (rule imageE)
    then have "traced (x_fields db) e0" using assms(3) by (simp add: sources_ok_def)
    then show ?thesis using e0(2) by (simp add: traced_def sourced_def)
  qed
  ultimately show ?thesis
    using assms(3) metrics.table_move_ids[OF tm d] new by (auto simp: sources_ok_def mn(1) traced_def)
qed

lemma review_sources:
  assumes "field_ok c db" "sources_ok db" "single_source (x_events (field_step c db))"
    "\<And>e. e \<in> set (x_events (field_step c db)) \<Longrightarrow> e \<in> set (x_events db) \<or> traced (x_fields (field_step c db)) e"
  shows "sources_ok (field_step c db)"
proof -
  have d: "distinct (map me_id (x_events db))" "distinct (map xf_id (x_fields db))" using assms(2) by (simp_all add: sources_ok_def)
  have "traced (x_fields (field_step c db)) e" if "e \<in> set (x_events db)" for e
    using that assms(2) field_table_ident[OF field_step_fields[OF d(2), of c]] by (simp add: sources_ok_def traced_ident)
  then show ?thesis
    using assms(3,4) metrics.table_move_ids[OF field_step_events[OF d(1) assms(1)] d(1)]
      reviews.table_move_ids[OF field_step_fields[OF d(2), of c] d(2)]
    unfolding sources_ok_def by blast
qed

lemma promotes_sources:
  assumes "promotes E ks fs db db'" "set fs \<subseteq> set (x_fields db)" "single_source (x_events db)"
  shows "single_source (x_events db')" "e \<in> set (x_events db') \<Longrightarrow> e \<in> set (x_events db) \<or> traced (x_fields db') e"
proof -
  show "single_source (x_events db')" using assms(1,3) by (auto simp: promotes_def)
  obtain new where "x_events db' = x_events db @ new" "\<forall>e\<in>set new. \<exists>f\<in>set fs. sourced f e" "x_fields db' = x_fields db"
    using assms(1) by (auto simp: promotes_def)
  then show "e \<in> set (x_events db') \<Longrightarrow> e \<in> set (x_events db) \<or> traced (x_fields db') e"
    using assms(2) unfolding traced_def by auto
qed

lemma approved_in_table: "find_field t i db = Inr f \<Longrightarrow> approved_field E actor f \<in> set (x_fields (marked E t i actor f db))"
  using find_field_Inr[of t i db f] by (auto simp: set_update_where)

lemma field_step_sources:
  assumes "sources_ok db" "field_fair c db"
  shows "sources_ok (field_step c db)"
proof -
  note ok = assms(2)[unfolded field_fair_def, THEN conjunct1]
  have s: "single_source (x_events db)" using assms(1) by (simp add: sources_ok_def)
  show ?thesis
  proof (cases c)
    case (XoApprove E t i actor)
    show ?thesis
    proof (cases "\<exists>f. find_field t i db = Inr f \<and> xf_status f \<noteq> FApproved")
      case True
      then obtain f where f: "find_field t i db = Inr f" "xf_status f \<noteq> FApproved" by blast
      let ?db = "marked E t i actor f db"
      have "set [approved_field E actor f] \<subseteq> set (x_fields ?db)" "single_source (x_events ?db)"
        using approved_in_table[OF f(1), of E actor] s by simp_all
      note pr = promotes_sources[OF approve_field_promotes(2)[OF f] this]
      show ?thesis using review_sources[OF ok assms(1)] pr XoApprove by simp
    next
      case False
      then show ?thesis using approve_field_same[of t i db E actor] s by (intro review_sources[OF ok assms(1)]) (simp_all add: XoApprove)
    qed
  next
    case (XoBulk E t ids actor)
    show ?thesis
    proof (cases "ids \<noteq> [] \<and> length ids \<le> 1000")
      case True
      let ?db = "bulk_marked E t ids actor db"
      have pr: "promotes E [1..<1 + length (bulk_rows t ids ?db)] (bulk_rows t ids ?db) ?db (snd (bulk_approve E t ids actor db))"
        using bulk_approve_promotes True by blast
      have "set (bulk_rows t ids ?db) \<subseteq> set (x_fields ?db)" "single_source (x_events ?db)" using s by (auto simp: bulk_rows_def)
      note pr = promotes_sources[OF pr this]
      show ?thesis using review_sources[OF ok assms(1)] pr XoBulk by simp
    qed (simp add: XoBulk bulk_approve_same assms(1))
  next
    case (XoMetric d)
    then show ?thesis using metric_step_sources[of d db] assms by (simp add: field_fair_def)
  qed (use review_sources[OF ok assms(1)] s in \<open>simp_all add: field_step_review\<close>)
qed

interpretation sources: invariant_system field_step field_fair sources_ok
  by unfold_locales (rule field_step_sources)

section \<open>Properties\<close>

lemma filter_unique:
  "distinct (map k (filter P xs)) \<Longrightarrow> x \<in> set xs \<Longrightarrow> P x \<Longrightarrow> filter (\<lambda>y. P y \<and> k y = k x) xs = [x]"
proof (induction xs)
  case (Cons a xs)
  show ?case
  proof (cases "x \<in> set xs")
    case True
    then have "k x \<in> k ` set (filter P xs)" using Cons(4) by (intro imageI) simp
    then have "\<not> (P a \<and> k a = k x)" using Cons(2) by auto
    then show ?thesis using Cons(1)[OF _ True Cons(4)] Cons(2) by (auto split: if_splits)
  next
    case False
    then have x: "x = a" using Cons(3) by simp
    have "\<forall>y\<in>set xs. \<not> (P y \<and> k y = k a)" using Cons(2,4) unfolding x by (force simp: image_iff)
    then show ?thesis using Cons(4) unfolding x by (simp add: filter_empty_conv)
  qed
qed simp

text \<open>C10: Lineage: over every interleaving of review and metrics calls (in which no caller names an
  extraction himself) an event that comes from an extraction names a field of the same tenant with
  the same metric key, and is the only event of that field.\<close>

theorem extraction_lineage:
  assumes "sources_ok db" "runs_ok field_step field_fair cs db"
    "e \<in> set (x_events (fold field_step cs db))" "me_extraction e = Some x"
  shows "(\<exists>f\<in>set (x_fields (fold field_step cs db)). xf_id f = x \<and> xf_tenant f = me_tenant e \<and> xf_key f = me_key e) \<and>
    filter (\<lambda>e'. me_tenant e' = me_tenant e \<and> me_extraction e' = Some x) (x_events (fold field_step cs db)) = [e]"
proof -
  let ?db = "fold field_step cs db"
  have s: "sources_ok ?db" using sources.run_inv[OF assms(1,2)] .
  have "filter (\<lambda>e'. me_tenant e' = me_tenant e \<and> me_extraction e' = Some x) es = [e]"
    if "single_source es" "e \<in> set es" for es
  proof -
    have q: "(\<lambda>y. me_extraction y \<noteq> None \<and> (me_tenant y, me_extraction y) = (me_tenant e, me_extraction e)) =
        (\<lambda>e'. me_tenant e' = me_tenant e \<and> me_extraction e' = Some x)" using assms(4) by auto
    show ?thesis using filter_unique[OF that[unfolded single_source_def]] assms(4) unfolding q by simp
  qed
  then show ?thesis using s assms(3,4) by (fastforce simp: sources_ok_def traced_def sourced_def)
qed

text \<open>Approving a field that is not yet approved marks it and promotes it exactly when no event
  of the tenant comes from it yet, its key is registered, its period and numeric value are there,
  its unit is the canonical or an allowed one, and its document has a scope node. Otherwise the
  approval succeeds without an event.\<close>

theorem approval_promotes_iff:
  assumes "find_field t i db = Inr f" "xf_status f \<noteq> FApproved"
  shows "fst (approve_field E t i actor db) = Inr (approved_field E actor f) \<and>
    (x_events (snd (approve_field E t i actor db)) \<noteq> x_events db \<longleftrightarrow>
      (\<forall>e\<in>set (x_events db). \<not> (me_tenant e = t \<and> me_extraction e = Some i)) \<and>
      (\<exists>c. find_first (\<lambda>c. cm_key c = xf_key f) (m_registry (x_metrics db)) = Some c \<and>
           (cm_unit c = [] \<or> promoted_unit f c \<in> insert (cm_unit c) (set (cm_allowed c)))) \<and>
      xf_start f \<noteq> None \<and> xf_end f \<noteq> None \<and> xf_num f \<noteq> None \<and> (\<exists>d. document_of db f = Some d \<and> dc_scope d \<noteq> []))"
proof -
  let ?f = "approved_field E actor f" and ?db = "marked E t i actor f db"
  have f: "xf_tenant ?f = t" "xf_id ?f = i" "xf_key ?f = xf_key f" "xf_start ?f = xf_start f" "xf_end ?f = xf_end f"
    "xf_num ?f = xf_num f" "promoted_unit ?f c = promoted_unit f c" for c
    using find_field_Inr[OF assms(1)] by (simp_all add: approved_field_def promoted_unit_def)
  have d: "document_of ?db ?f = document_of db f" by (simp add: document_of_def approved_field_def)
  have p: "promotion E 1 actor ?f (document_of db f) reg \<noteq> None \<longleftrightarrow>
      (\<exists>c. find_first (\<lambda>c. cm_key c = xf_key f) reg = Some c \<and>
           (cm_unit c = [] \<or> promoted_unit f c \<in> insert (cm_unit c) (set (cm_allowed c)))) \<and>
      xf_start f \<noteq> None \<and> xf_end f \<noteq> None \<and> xf_num f \<noteq> None \<and> (\<exists>d. document_of db f = Some d \<and> dc_scope d \<noteq> [])" for reg
    unfolding promotion_def f unit_rejected_def by (auto split: option.splits)
  have "x_events (snd (approve_field E t i actor db)) \<noteq> x_events db \<longleftrightarrow>
      find_first (\<lambda>e. me_tenant e = t \<and> me_extraction e = Some i) (x_events db) = None \<and>
      promotion E 1 actor ?f (document_of db f) (m_registry (x_metrics db)) \<noteq> None"
    unfolding approve_field_promotes(1)[OF assms] promote_to_metric_event_def f d by (simp split: option.splits)
  then show ?thesis unfolding p find_first_None using assms by (simp add: approve_field_def)
qed

definition is_review :: "'v field_op \<Rightarrow> bool" where
  "is_review c = (case c of XoMetric d \<Rightarrow> False | _ \<Rightarrow> True)"

lemma review_step_appends:
  assumes "is_review c"
  shows "\<exists>new. x_events (field_step c db) = x_events db @ new \<and>
    (\<forall>e\<in>set new. \<forall>x\<in>set (x_events db). \<not> (me_tenant x = me_tenant e \<and> me_extraction x = me_extraction e))"
proof (cases c)
  case (XoApprove E t i actor)
  show ?thesis
  proof (cases "\<exists>f. find_field t i db = Inr f \<and> xf_status f \<noteq> FApproved")
    case True
    then obtain f where f: "find_field t i db = Inr f" "xf_status f \<noteq> FApproved" by blast
    from approve_field_promotes(2)[OF f, of E actor] show ?thesis unfolding XoApprove by (auto simp: promotes_def)
  next
    case False
    then show ?thesis using approve_field_same[of t i db E actor] by (simp add: XoApprove)
  qed
next
  case (XoBulk E t ids actor)
  show ?thesis
  proof (cases "ids \<noteq> [] \<and> length ids \<le> 1000")
    case True
    then show ?thesis
      using bulk_approve_promotes[where ids = ids and t = t and E = E and actor = actor and db = db]
      unfolding XoBulk by (auto simp: promotes_def)
  qed (simp add: XoBulk bulk_approve_same)
next
  case (XoMetric d)
  then show ?thesis using assms by (simp add: is_review_def)
qed (simp_all add: field_step_review)

text \<open>A correction made after promotion never reaches the metric: while a field has a metric event,
  no sequence of review calls (reject, correct, approve again, in any order) changes that event or adds
  another for the field.\<close>

theorem correction_never_reaches_metric:
  assumes "e \<in> set (x_events db)" "\<forall>c\<in>set cs. is_review c"
  shows "filter (\<lambda>x. me_tenant x = me_tenant e \<and> me_extraction x = me_extraction e) (x_events (fold field_step cs db)) =
    filter (\<lambda>x. me_tenant x = me_tenant e \<and> me_extraction x = me_extraction e) (x_events db)"
  using assms
proof (induction cs arbitrary: db)
  case (Cons c cs)
  obtain new where n: "x_events (field_step c db) = x_events db @ new"
    "\<forall>a\<in>set new. \<forall>x\<in>set (x_events db). \<not> (me_tenant x = me_tenant a \<and> me_extraction x = me_extraction a)"
    using review_step_appends[of c db] Cons(3) by auto
  have "filter (\<lambda>x. me_tenant x = me_tenant e \<and> me_extraction x = me_extraction e) new = []"
    using n(2)[rule_format, OF _ Cons(2)] by (simp add: filter_empty_conv) metis
  then show ?case using Cons(1)[of "field_step c db"] Cons(2,3) n(1) by simp
qed simp

text \<open>The correction endpoint loses the value: a body the validation pipe lets through carries no
  value, and the request it makes leaves the field with an empty text and no number.\<close>

theorem patch_request_erases:
  assumes "fst (patch_request to_dec E t i body actor db) = Inr f"
  shows "''value'' \<notin> set (map fst body) \<and> xf_text f = Some [] \<and> xf_num f = None \<and>
    f \<in> set (x_fields (snd (patch_request to_dec E t i body actor db)))"
proof -
  obtain p where p: "update_field_body body = Inr p" "fst (update_field to_dec E t i p actor db) = Inr f"
    using assms by (auto simp: patch_request_def split: sum.splits)
  then obtain f0 where f0: "find_field t i db = Inr f0" "xf_status f0 \<noteq> FApproved" "f = patch_field to_dec E actor p f0"
    by (auto simp: update_field_def split: sum.splits if_splits)
  have v: "''value'' \<notin> set (map fst body) \<and> fp_value p = InUndefined"
  proof (cases "filter (\<lambda>k. k \<notin> set update_field_decorated) (map fst body)")
    case Nil
    then have "''value'' \<notin> set (map fst body)" by (force simp: filter_empty_conv update_field_decorated_def)
    moreover have "own_get body ''value'' = None" using calculation by (simp add: own_get_def map_of_eq_None_iff)
    ultimately show ?thesis using p(1) Nil
      by (auto simp: update_field_body_def whitelist_pipe_def bindR_Inr_iff split: if_splits option.splits)
  next
    case (Cons k ks)
    then show ?thesis using p(1) by (simp add: update_field_body_def whitelist_pipe_def)
  qed
  have "f \<in> set (x_fields (snd (patch_request to_dec E t i body actor db)))"
    using f0 find_field_Inr[OF f0(1)] p(1) by (auto simp: patch_request_def update_field_def set_update_where)
  then show ?thesis using v f0(3) by (simp add: patch_field_def)
qed

text \<open>An event created by hand that names the extraction blocks its promotion.\<close>

theorem claimed_extraction_blocks:
  assumes "fst (create_event E t dto u (x_metrics db)) = Inr e" "md_extraction dto = Some i"
  shows "x_events (field_step (XoApprove E' t i actor) (field_step (XoMetric (MoCreate E t dto u)) db)) = x_events db @ [e]"
proof -
  let ?db = "field_step (XoMetric (MoCreate E t dto u)) db"
  have e: "x_events ?db = x_events db @ [e]" "me_tenant e = t" "me_extraction e = Some i"
    using assms by (auto simp: create_event_iff new_event_def)
  obtain new where n: "x_events (field_step (XoApprove E' t i actor) ?db) = x_events ?db @ new"
    "\<forall>a\<in>set new. \<forall>x\<in>set (x_events ?db). \<not> (me_tenant x = me_tenant a \<and> me_extraction x = me_extraction a)"
    using review_step_appends[of "XoApprove E' t i actor" ?db] by (auto simp: is_review_def)
  have "me_tenant a = t \<and> me_extraction a = Some i" if "a \<in> set new" for a
  proof (cases "\<exists>f. find_field t i ?db = Inr f \<and> xf_status f \<noteq> FApproved")
    case True
    then obtain f where f: "find_field t i ?db = Inr f" "xf_status f \<noteq> FApproved" by blast
    from approve_field_promotes(2)[OF f, of E' actor] find_field_Inr[OF f(1)] show ?thesis
      using n(1) that by (auto simp: promotes_def sourced_def approved_field_def)
  next
    case False
    then show ?thesis using approve_field_same[of t i ?db E' actor] n(1) that by simp
  qed
  then have "new = []" using n(2) e by (cases new) auto
  then show ?thesis using n(1) e(1) by simp
qed

text \<open>The reviewer who promoted a value is its submitter: he cannot approve the metric event.\<close>

theorem reviewer_not_approver:
  assumes "table_ok me_id signed_off (x_events db)" "runs_ok field_step field_ok cs db"
    "e \<in> set (x_events (fold field_step cs db))" "me_status e \<in> {MApproved, MLocked}"
  shows "\<exists>a. me_approved_by e = Some a \<and> a \<noteq> me_submitted_by e"
  using reviewed_events.run_good[OF assms(1,2,3)] assms(4) by (auto simp: signed_off_def split: option.splits)

section \<open>Witnesses\<close>

definition sample_field :: "field_status \<Rightarrow> nat extraction_field" where
  "sample_field st = \<lparr> xf_id = ''f'', xf_tenant = ''t'', xf_document = ''d'', xf_key = ''energy.total'', xf_text = None,
     xf_num = Some 5, xf_unit = Some ''GJ'', xf_start = Some 0, xf_end = Some 1, xf_page = None, xf_raw = ''5 GJ'',
     xf_confidence = 9 / 10, xf_status = st, xf_reviewed_by = None, xf_reviewed_at = None, xf_reason = None, xf_created = 0 \<rparr>"

definition sample_xdb :: "field_status \<Rightarrow> nat xdb" where
  "sample_xdb st = \<lparr> x_docs = [\<lparr> dc_id = ''d'', dc_tenant = ''t'', dc_scope = ''n1'', dc_name = ''bill'', dc_type = ''ELECTRICITY_BILL'',
       dc_bucket = ''b'', dc_key = ''k'' \<rparr>],
     x_fields = [sample_field st], x_metrics = sample_mdb [], x_scores = [], x_audit = [] \<rparr>"

definition sample_promoted :: "nat metric_event" where
  "sample_promoted = promoted_event (sample_metric_env ''a'') 1 ''r'' (sample_field FDraft) ''n1'' ''GJ'' 0 1 5"

definition sample_correction :: "nat field_op list" where
  "sample_correction = [XoReject (sample_metric_env ''b'') ''t'' ''f'' ''wrong'' ''r'',
     XoUpdate (\<lambda>s. 7) (sample_metric_env ''c'') ''t'' ''f'' \<lparr> fp_value = InString ''7'', fp_unit = None, fp_notes = None \<rparr> ''r'',
     XoApprove (sample_metric_env ''d'') ''t'' ''f'' ''r'']"

lemmas sample_x_simps = sample_metric_env_def sample_field_def sample_xdb_def sample_promoted_def sample_correction_def
  sample_mdb_def sample_registry_def

lemma sample_approved:
  "x_events (field_step (XoApprove (sample_metric_env ''a'') ''t'' ''f'' ''r'') (sample_xdb FDraft)) = [sample_promoted]"
  by (simp add: sample_x_simps approve_field_def find_field_def change_field_def promote_to_metric_event_def promotion_def
      approved_field_def document_of_def unit_rejected_def promoted_unit_def promoted_event_def)

theorem extraction_lineage_witness:
  "\<exists>f\<in>set (x_fields (field_step (XoApprove (sample_metric_env ''a'') ''t'' ''f'' ''r'') (sample_xdb FDraft))).
     xf_id f = ''f'' \<and> xf_tenant f = ''t'' \<and> xf_key f = ''energy.total''"
proof -
  have s: "sources_ok (sample_xdb FDraft)" by (simp add: sources_ok_def single_source_def sample_x_simps)
  have r: "runs_ok field_step field_fair [XoApprove (sample_metric_env ''a'') ''t'' ''f'' ''r''] (sample_xdb FDraft)"
    by (simp add: field_fair_def fresh_ids_def sample_x_simps)
  show ?thesis using extraction_lineage[OF s r, of sample_promoted "''f''"] sample_approved
    by (simp add: sample_promoted_def promoted_event_def sample_field_def)
qed

theorem approval_promotes_iff_witness:
  "x_events (snd (approve_field (sample_metric_env ''a'') ''t'' ''f'' ''r'' (sample_xdb FDraft))) \<noteq> x_events (sample_xdb FDraft)"
  using approval_promotes_iff[of "''t''" "''f''" "sample_xdb FDraft" "sample_field FDraft" "sample_metric_env ''a''" "''r''"]
  by (simp add: sample_x_simps find_field_def document_of_def promoted_unit_def)

text \<open>The corrected value 7 is approved; the metric event keeps the value 5.\<close>

theorem correction_never_reaches_metric_witness:
  "map xf_num (x_fields (fold field_step sample_correction
       (field_step (XoApprove (sample_metric_env ''a'') ''t'' ''f'' ''r'') (sample_xdb FDraft)))) = [Some 7] \<and>
   filter (\<lambda>x. me_tenant x = ''t'' \<and> me_extraction x = Some ''f'') (x_events (fold field_step sample_correction
       (field_step (XoApprove (sample_metric_env ''a'') ''t'' ''f'' ''r'') (sample_xdb FDraft)))) = [sample_promoted] \<and>
   me_value sample_promoted = 5"
proof -
  let ?db = "field_step (XoApprove (sample_metric_env ''a'') ''t'' ''f'' ''r'') (sample_xdb FDraft)"
  have "\<forall>c\<in>set sample_correction. is_review c" by (simp add: sample_correction_def is_review_def)
  from correction_never_reaches_metric[of sample_promoted ?db, OF _ this] sample_approved
  have "filter (\<lambda>x. me_tenant x = ''t'' \<and> me_extraction x = Some ''f'') (x_events (fold field_step sample_correction ?db)) = [sample_promoted]"
    by (simp add: sample_promoted_def promoted_event_def sample_field_def)
  moreover have "map xf_num (x_fields (fold field_step sample_correction ?db)) = [Some 7]" by code_simp
  moreover have "me_value sample_promoted = 5" by (simp add: sample_promoted_def promoted_event_def)
  ultimately show ?thesis by blast
qed

theorem patch_request_erases_witness:
  "xf_num (patch_field (\<lambda>s. 7) (sample_metric_env ''a'') ''r'' \<lparr> fp_value = InUndefined, fp_unit = None, fp_notes = Some (Some ''typo'') \<rparr>
     (sample_field FDraft)) = None"
  using patch_request_erases[of "\<lambda>s. 7" "sample_metric_env ''a''" "''t''" "''f''" "[(''notes'', InString ''typo'')]" "''r''" "sample_xdb FDraft"
      "patch_field (\<lambda>s. 7) (sample_metric_env ''a'') ''r'' \<lparr> fp_value = InUndefined, fp_unit = None, fp_notes = Some (Some ''typo'') \<rparr> (sample_field FDraft)"]
  by (simp add: patch_request_def update_field_body_def whitelist_pipe_def update_field_decorated_def body_text_def own_get_def
      update_field_def find_field_def sample_x_simps)

end
