(* ===== verification/Suppliers.thy ===== *)
theory Suppliers
  imports Guards Doubles Calendar
begin

text \<open>
  Suppliers (services/api/src/suppliers/suppliers.service.ts): the register, invitations by magic
  link, the public portal, and the scores. Scores are doubles. The scheme of a request is that of
  the other services; the mail client and SHA-256 are parameters, and so is the percent-encoding
  of a token in an address. Columns the service never writes are left out.
\<close>

section \<open>Data\<close>

datatype supplier_status = SuInvited | SuActive | SuEngaged | SuResponded | SuArchived

record supplier =
  su_id :: string
  su_tenant :: string
  su_name :: string
  su_country :: string
  su_sector :: "string option"
  su_email :: string
  su_status :: supplier_status
  su_added :: int
  su_engaged :: "int option"

record questionnaire =
  qn_id :: string
  qn_tenant :: string
  qn_name :: string

record supplier_invite =
  si_id :: string
  si_supplier :: string
  si_questionnaire :: string
  si_hash :: string
  si_sent :: int
  si_opened :: "int option"
  si_responded :: "int option"
  si_expires :: int

datatype response_status = SrDraft | SrSubmitted

text \<open>The answers of a response by question; \<open>None\<close> when the JSON column holds none.\<close>

record supplier_response =
  sr_id :: string
  sr_supplier :: string
  sr_questionnaire :: string
  sr_status :: response_status
  sr_answers :: "(string \<times> json) list option"
  sr_evidence :: "string list"
  sr_at :: "int option"

record supplier_score =
  sc_id :: string
  sc_supplier :: string
  sc_fy :: string
  sc_environment :: int
  sc_social :: int
  sc_governance :: int
  sc_composite :: int
  sc_at :: int

datatype supplier_snap =
    SnapSupplier supplier
  | SnapInvited string
  | SnapScored int string string

record sdb =
  s_suppliers :: "supplier list"
  s_questionnaires :: "questionnaire list"
  s_invites :: "supplier_invite list"
  s_responses :: "supplier_response list"
  s_scores :: "supplier_score list"
  s_audit :: "supplier_snap audit_row list"

section \<open>The register\<close>

definition list_suppliers :: "string \<Rightarrow> int \<Rightarrow> int \<Rightarrow> sdb \<Rightarrow> supplier list" where
  "list_suppliers t n k db =
     take (nat (clamp_take 200 n)) (drop (nat (clamp_skip k))
       (sort_key (\<lambda>s. - su_added s) (filter (\<lambda>s. su_tenant s = t \<and> su_status s \<noteq> SuArchived) (s_suppliers db))))"

definition find_supplier :: "string \<Rightarrow> string \<Rightarrow> sdb \<Rightarrow> supplier outcome" where
  "find_supplier t i db =
     (case find_first (\<lambda>s. su_id s = i \<and> su_tenant s = t) (s_suppliers db) of
        None \<Rightarrow> Inl (NotFound ''Supplier not found'') | Some s \<Rightarrow> Inr s)"

record supplier_dto =
  sd_name :: string
  sd_email :: string
  sd_country :: "string option"
  sd_category :: "string option"

text \<open>The unique index of the table: tenant and contact address.\<close>

definition email_taken :: "string \<Rightarrow> string \<Rightarrow> string \<Rightarrow> sdb \<Rightarrow> bool" where
  "email_taken t i email db = (\<exists>s\<in>set (s_suppliers db). su_tenant s = t \<and> su_email s = email \<and> su_id s \<noteq> i)"

definition new_supplier :: "env \<Rightarrow> string \<Rightarrow> supplier_dto \<Rightarrow> supplier" where
  "new_supplier E t dto =
     \<lparr> su_id = ev_ids E 1, su_tenant = t, su_name = sd_name dto,
       su_country = (case sd_country dto of None \<Rightarrow> ''IN'' | Some c \<Rightarrow> c), su_sector = sd_category dto, su_email = sd_email dto,
       su_status = SuInvited, su_added = ev_now E, su_engaged = None \<rparr>"

definition create_supplier :: "env \<Rightarrow> string \<Rightarrow> supplier_dto \<Rightarrow> string \<Rightarrow> sdb \<Rightarrow> supplier outcome \<times> sdb" where
  "create_supplier E t dto actor db =
     (let s = new_supplier E t dto in
      if email_taken t (su_id s) (su_email s) db then (Inl (PrismaError ''P2002''), db)
      else (Inr s, db \<lparr> s_suppliers := s_suppliers db @ [s],
              s_audit := audit_log E (audit_entry t actor ''Supplier'' (Some (su_id s)) ''CREATE'' None (Some (SnapSupplier s)) None) (s_audit db) \<rparr>))"

record supplier_patch =
  sp_name :: "string option"
  sp_email :: "string option"
  sp_country :: "string option"
  sp_category :: "string option"

definition patch_supplier :: "supplier_patch \<Rightarrow> supplier \<Rightarrow> supplier" where
  "patch_supplier p s =
     s \<lparr> su_name := (case sp_name p of None \<Rightarrow> su_name s | Some v \<Rightarrow> v),
         su_country := (case sp_country p of None \<Rightarrow> su_country s | Some v \<Rightarrow> v),
         su_email := (case sp_email p of None \<Rightarrow> su_email s | Some v \<Rightarrow> v),
         su_sector := (case sp_category p of None \<Rightarrow> su_sector s | Some v \<Rightarrow> Some v) \<rparr>"

definition update_supplier :: "env \<Rightarrow> string \<Rightarrow> string \<Rightarrow> supplier_patch \<Rightarrow> string \<Rightarrow> sdb \<Rightarrow> supplier outcome \<times> sdb" where
  "update_supplier E t i p actor db =
     (case find_supplier t i db of
        Inl er \<Rightarrow> (Inl er, db)
      | Inr s \<Rightarrow>
          if email_taken t i (su_email (patch_supplier p s)) db then (Inl (PrismaError ''P2002''), db)
          else (Inr (patch_supplier p s),
                db \<lparr> s_suppliers := update_where (\<lambda>x. su_id x = i) (patch_supplier p) (s_suppliers db),
                     s_audit := audit_log E (audit_entry t actor ''Supplier'' (Some i) ''UPDATE'' (Some (SnapSupplier s))
                       (Some (SnapSupplier (patch_supplier p s))) None) (s_audit db) \<rparr>))"

definition remove_supplier :: "env \<Rightarrow> string \<Rightarrow> string \<Rightarrow> string \<Rightarrow> sdb \<Rightarrow> unit outcome \<times> sdb" where
  "remove_supplier E t i actor db =
     (case find_supplier t i db of
        Inl er \<Rightarrow> (Inl er, db)
      | Inr s \<Rightarrow>
          (Inr (), db \<lparr> s_suppliers := update_where (\<lambda>x. su_id x = i) (\<lambda>x. x \<lparr> su_status := SuArchived \<rparr>) (s_suppliers db),
             s_audit := audit_log E (audit_entry t actor ''Supplier'' (Some i) ''DELETE'' (Some (SnapSupplier s)) None None) (s_audit db) \<rparr>))"

section \<open>Invitations\<close>

text \<open>
  What a request needs from outside: the link signer and its secret, SHA-256, the public address of
  the platform, the encoding of a query parameter, and the mail client (recipient, subject, body;
  it answers with the error, if any).
\<close>

record portal_api =
  pa_links :: link_api
  pa_secret :: string
  pa_sha :: "string \<Rightarrow> string"
  pa_base :: string
  pa_encode :: "string \<Rightarrow> string"
  pa_mail :: "string \<Rightarrow> string \<Rightarrow> string \<Rightarrow> string option"

definition build_url :: "portal_api \<Rightarrow> string \<Rightarrow> string \<Rightarrow> string" where
  "build_url P token path = pa_base P @ path @ ''?token='' @ pa_encode P token"

definition invite_ttl :: int where
  "invite_ttl = 60 * 60 * 24 * 60"

definition invite_body :: "string \<Rightarrow> string" where
  "invite_body url =
     ''<p>Hello,</p><p>Please complete your supplier ESG questionnaire:</p><p><a href='' @ [CHR 0x22] @ url @ [CHR 0x22] @ ''>'' @ url @ ''</a></p>''"

text \<open>The dash of the subject is a hyphen here.\<close>

definition invite_subject :: string where
  "invite_subject = ''[BRSR] Supplier questionnaire - action required''"

definition new_invite :: "portal_api \<Rightarrow> env \<Rightarrow> string \<Rightarrow> string \<Rightarrow> string \<Rightarrow> supplier_invite" where
  "new_invite P E i q token =
     \<lparr> si_id = ev_ids E 2, si_supplier = i, si_questionnaire = q, si_hash = pa_sha P token, si_sent = ev_now E,
       si_opened = None, si_responded = None, si_expires = ev_now E + invite_ttl * 1000 \<rparr>"

definition invite_supplier ::
  "portal_api \<Rightarrow> env \<Rightarrow> string \<Rightarrow> string \<Rightarrow> string option \<Rightarrow> string option \<Rightarrow> string \<Rightarrow> sdb \<Rightarrow> unit outcome \<times> sdb" where
  "invite_supplier P E t i to_email questionnaire_id actor db =
     (case find_supplier t i db of
        Inl er \<Rightarrow> (Inl er, db)
      | Inr s \<Rightarrow>
         (let recipient = (case to_email of None \<Rightarrow> su_email s | Some e \<Rightarrow> e) in
          if recipient = [] then (Inl (BadRequest ''Supplier has no primaryContactEmail; pass toEmail explicitly.''), db)
          else case questionnaire_id of
            None \<Rightarrow> (Inl (BadRequest ''questionnaireId is required to send an invitation.''), db)
          | Some q \<Rightarrow>
             if q = [] then (Inl (BadRequest ''questionnaireId is required to send an invitation.''), db)
             else (case find_first (\<lambda>x. qn_id x = q \<and> qn_tenant x = t) (s_questionnaires db) of
               None \<Rightarrow> (Inl (NotFound ''Questionnaire not found in this tenant''), db)
             | Some _ \<Rightarrow>
                (let token = link_sign (pa_links P) (pa_secret P) E t LinkSupplier i invite_ttl (Some recipient);
                     inv = new_invite P E i q token; url = build_url P token ''/suppliers/portal''
                 in if si_hash inv \<in> set (map si_hash (s_invites db)) then (Inl (PrismaError ''P2002''), db)
                    else (let db1 = db \<lparr> s_invites := s_invites db @ [inv] \<rparr> in
                      case pa_mail P recipient invite_subject (invite_body url) of
                        Some msg \<Rightarrow> (Inl (BadRequest (''Email dispatch failed: '' @ msg)), db1)
                      | None \<Rightarrow> (Inr (), db1 \<lparr> s_audit := audit_log E (audit_entry t actor ''Supplier'' (Some i) ''UPDATE''
                          None None (Some (SnapInvited recipient))) (s_audit db1) \<rparr>))))))"

section \<open>The portal\<close>

definition supplier_token :: "portal_api \<Rightarrow> int \<Rightarrow> string \<Rightarrow> (string \<times> string) outcome" where
  "supplier_token P now token =
     (case link_verify (pa_links P) (pa_secret P) now token of
        Some (t, LinkSupplier, target, subject) \<Rightarrow> Inr (t, target)
      | _ \<Rightarrow> Inl (BadRequest ''Invalid or expired token''))"

definition find_invite :: "portal_api \<Rightarrow> string \<Rightarrow> sdb \<Rightarrow> supplier_invite outcome" where
  "find_invite P token db =
     (case find_first (\<lambda>x. si_hash x = pa_sha P token) (s_invites db) of
        None \<Rightarrow> Inl (NotFound ''Invitation not found'') | Some x \<Rightarrow> Inr x)"

definition load_portal :: "portal_api \<Rightarrow> env \<Rightarrow> string \<Rightarrow> sdb \<Rightarrow> (string \<times> string \<times> questionnaire option) outcome \<times> sdb" where
  "load_portal P E token db =
     (case bindR (supplier_token P (ev_now E) token) (\<lambda>(t, target).
            bindR (find_supplier t target db) (\<lambda>s. bindR (find_invite P token db) (\<lambda>x. Inr (s, x)))) of
        Inl er \<Rightarrow> (Inl er, db)
      | Inr (s, x) \<Rightarrow>
          if si_expires x < ev_now E then (Inl (BadRequest ''Invitation expired''), db)
          else (Inr (su_id s, su_name s, find_first (\<lambda>q. qn_id q = si_questionnaire x) (s_questionnaires db)),
                if si_opened x = None
                then db \<lparr> s_invites := update_where (\<lambda>y. si_id y = si_id x) (\<lambda>y. y \<lparr> si_opened := Some (ev_now E) \<rparr>) (s_invites db) \<rparr>
                else db))"

record response_dto =
  rd_answers :: "(string \<times> json) list option"
  rd_evidence :: "string list option"

text \<open>The class of an answer decorates the question only; \<open>value\<close> has no validation decorator.\<close>

definition supplier_answer_decorated :: "string list" where
  "supplier_answer_decorated = [''questionId'']"

definition answer_body :: "json js_object \<Rightarrow> json js_object outcome" where
  "answer_body b = whitelist_pipe supplier_answer_decorated b"

text \<open>
  A submission reads the invitation first and writes in a transaction afterwards; another request
  may run in between, so the two halves are operations of their own.
\<close>

definition submit_check :: "portal_api \<Rightarrow> int \<Rightarrow> string \<Rightarrow> sdb \<Rightarrow> (string \<times> supplier_invite) outcome" where
  "submit_check P now token db =
     bindR (supplier_token P now token) (\<lambda>(t, target).
     bindR (find_invite P token db) (\<lambda>x.
       if si_responded x \<noteq> None then Inl (BadRequest ''Response already submitted'') else Inr (target, x)))"

definition new_response :: "env \<Rightarrow> string \<Rightarrow> supplier_invite \<Rightarrow> response_dto \<Rightarrow> supplier_response" where
  "new_response E target x dto =
     \<lparr> sr_id = ev_ids E 1, sr_supplier = target, sr_questionnaire = si_questionnaire x, sr_status = SrSubmitted,
       sr_answers = Some (case rd_answers dto of None \<Rightarrow> [] | Some a \<Rightarrow> a),
       sr_evidence = (case rd_evidence dto of None \<Rightarrow> [] | Some e \<Rightarrow> e), sr_at = Some (ev_now E) \<rparr>"

definition submit_write :: "env \<Rightarrow> response_dto \<Rightarrow> string \<times> supplier_invite \<Rightarrow> sdb \<Rightarrow> supplier_response outcome \<times> sdb" where
  "submit_write E dto c db =
     (case c of (target, x) \<Rightarrow>
        let r = new_response E target x dto in
        if target \<notin> set (map su_id (s_suppliers db)) then (Inl (PrismaError ''P2003''), db)
        else if si_id x \<notin> set (map si_id (s_invites db)) then (Inl (PrismaError ''P2025''), db)
        else (Inr r,
          db \<lparr> s_responses := s_responses db @ [r],
               s_invites := update_where (\<lambda>y. si_id y = si_id x) (\<lambda>y. y \<lparr> si_responded := Some (ev_now E) \<rparr>) (s_invites db),
               s_suppliers := update_where (\<lambda>y. su_id y = target)
                 (\<lambda>y. y \<lparr> su_status := SuResponded, su_engaged := Some (ev_now E) \<rparr>) (s_suppliers db) \<rparr>))"

definition submit_response :: "portal_api \<Rightarrow> env \<Rightarrow> string \<Rightarrow> response_dto \<Rightarrow> sdb \<Rightarrow> supplier_response outcome \<times> sdb" where
  "submit_response P E token dto db =
     (case submit_check P (ev_now E) token db of Inl er \<Rightarrow> (Inl er, db) | Inr c \<Rightarrow> submit_write E dto c db)"

section \<open>Scores\<close>

text \<open>The fiscal year of an instant in the time zone of the server (offset \<open>tz\<close>), from April.\<close>

definition last_two :: "string \<Rightarrow> string" where
  "last_two s = drop (length s - 2) s"

definition infer_fy_label :: "int \<Rightarrow> int \<Rightarrow> string" where
  "infer_fy_label tz d =
     (let y = (if 4 \<le> utc_month (d + tz) then utc_year (d + tz) else utc_year (d + tz) - 1)
      in ''FY'' @ last_two (show_int y) @ ''-'' @ last_two (show_int (y + 1)))"

text \<open>Questions of a category: the identifier starts with the letter, in either case.\<close>

definition in_category :: "char \<Rightarrow> string \<Rightarrow> bool" where
  "in_category c q = (case q of [] \<Rightarrow> False | x # _ \<Rightarrow> js_upper_char x = c)"

definition category_count :: "char \<Rightarrow> (string \<times> json) list \<Rightarrow> nat" where
  "category_count c answers = length (filter (\<lambda>a. in_category c (fst a)) answers)"

text \<open>\<open>Math.round((n / total) * 100)\<close> in double arithmetic.\<close>

definition share :: "nat \<Rightarrow> nat \<Rightarrow> int" where
  "share n tot = js_round (fl (fl (of_nat n / of_nat tot) * 100))"

definition category_total :: "(string \<times> json) list \<Rightarrow> nat" where
  "category_total answers =
     max 1 (category_count CHR ''E'' answers + category_count CHR ''S'' answers + category_count CHR ''G'' answers)"

definition composite :: "int \<Rightarrow> int \<Rightarrow> int \<Rightarrow> int" where
  "composite e s g = js_round (fl (of_int (e + s + g) / 3))"

text \<open>The newest submitted response; a descending order puts rows without a time first.\<close>

definition latest_response :: "string \<Rightarrow> sdb \<Rightarrow> supplier_response option" where
  "latest_response i db =
     (let rs = filter (\<lambda>r. sr_supplier r = i \<and> sr_status r = SrSubmitted) (s_responses db)
      in find_first (\<lambda>_. True) (filter (\<lambda>r. sr_at r = None) rs @
           sort_key (\<lambda>r. case sr_at r of None \<Rightarrow> 0 | Some a \<Rightarrow> - a) (filter (\<lambda>r. sr_at r \<noteq> None) rs)))"

definition new_score :: "env \<Rightarrow> string \<Rightarrow> string \<Rightarrow> (string \<times> json) list \<Rightarrow> supplier_score" where
  "new_score E i fy answers =
     (let tot = category_total answers;
          e = share (category_count CHR ''E'' answers) tot;
          s = share (category_count CHR ''S'' answers) tot;
          g = share (category_count CHR ''G'' answers) tot
      in \<lparr> sc_id = ev_ids E 1, sc_supplier = i, sc_fy = fy, sc_environment = e, sc_social = s, sc_governance = g,
           sc_composite = composite e s g, sc_at = ev_now E \<rparr>)"

definition upsert_score :: "supplier_score \<Rightarrow> supplier_score list \<Rightarrow> supplier_score \<times> supplier_score list" where
  "upsert_score n rows =
     (case find_first (\<lambda>x. sc_supplier x = sc_supplier n \<and> sc_fy x = sc_fy n) rows of
        None \<Rightarrow> (n, rows @ [n])
      | Some x \<Rightarrow> (n \<lparr> sc_id := sc_id x \<rparr>,
          update_where (\<lambda>y. sc_supplier y = sc_supplier n \<and> sc_fy y = sc_fy n) (\<lambda>y. n \<lparr> sc_id := sc_id y \<rparr>) rows))"

definition score_supplier :: "int \<Rightarrow> env \<Rightarrow> string \<Rightarrow> string \<Rightarrow> string \<Rightarrow> sdb \<Rightarrow> supplier_score outcome \<times> sdb" where
  "score_supplier tz E t i actor db =
     (case find_supplier t i db of
        Inl er \<Rightarrow> (Inl er, db)
      | Inr s \<Rightarrow>
         (case latest_response i db of
            None \<Rightarrow> (Inl (BadRequest ''No response submitted yet''), db)
          | Some r \<Rightarrow>
             (let answers = (case sr_answers r of None \<Rightarrow> [] | Some a \<Rightarrow> a) in
              if answers = [] then (Inl (BadRequest ''Response has no answers''), db)
              else (let fy = infer_fy_label tz (case sr_at r of None \<Rightarrow> ev_now E | Some a \<Rightarrow> a);
                        (row, rows) = upsert_score (new_score E i fy answers) (s_scores db)
                    in (Inr row, db \<lparr> s_scores := rows,
                          s_audit := audit_log E (audit_entry t actor ''Supplier'' (Some i) ''UPDATE'' None None
                            (Some (SnapScored (sc_composite row) fy (su_name s)))) (s_audit db) \<rparr>)))))"

definition grade :: "int \<Rightarrow> string" where
  "grade c = (if c \<ge> 85 then ''A'' else if c \<ge> 70 then ''B'' else if c \<ge> 50 then ''C'' else if c \<ge> 30 then ''D'' else ''F'')"

definition latest_score :: "sdb \<Rightarrow> supplier \<Rightarrow> supplier_score option" where
  "latest_score db s =
     find_first (\<lambda>_. True) (sort_key (\<lambda>x. - sc_at x) (filter (\<lambda>x. sc_supplier x = su_id s) (s_scores db)))"

record scorecard =
  cd_suppliers :: nat
  cd_average :: rat
  cd_distribution :: "(string \<times> nat) list"

definition count_grade :: "supplier_score \<Rightarrow> (string \<times> nat) list \<Rightarrow> (string \<times> nat) list" where
  "count_grade x buckets =
     upsert (grade (sc_composite x)) ((case map_of buckets (grade (sc_composite x)) of None \<Rightarrow> 0 | Some n \<Rightarrow> n) + 1) buckets"

definition aggregate_scorecard :: "string \<Rightarrow> sdb \<Rightarrow> scorecard" where
  "aggregate_scorecard t db =
     (let items = concat (map (\<lambda>s. case latest_score db s of None \<Rightarrow> [] | Some x \<Rightarrow> [x])
                    (filter (\<lambda>s. su_tenant s = t \<and> su_status s \<noteq> SuArchived) (s_suppliers db)))
      in \<lparr> cd_suppliers = length items,
           cd_average = (if items = [] then 0 else fl (of_int (sum_list (map sc_composite items)) / of_nat (length items))),
           cd_distribution = fold count_grade items [] \<rparr>)"

section \<open>The system\<close>

datatype supplier_op =
    SoCreate env string supplier_dto string
  | SoUpdate env string string supplier_patch string
  | SoRemove env string string string
  | SoInvite portal_api env string string "string option" "string option" string
  | SoPortal portal_api env string
  | SoSubmit portal_api env string response_dto
  | SoScore int env string string string

fun supplier_step :: "supplier_op \<Rightarrow> sdb \<Rightarrow> sdb" where
  "supplier_step (SoCreate E t dto actor) db = snd (create_supplier E t dto actor db)"
| "supplier_step (SoUpdate E t i p actor) db = snd (update_supplier E t i p actor db)"
| "supplier_step (SoRemove E t i actor) db = snd (remove_supplier E t i actor db)"
| "supplier_step (SoInvite P E t i em q actor) db = snd (invite_supplier P E t i em q actor db)"
| "supplier_step (SoPortal P E token) db = snd (load_portal P E token db)"
| "supplier_step (SoSubmit P E token dto) db = snd (submit_response P E token dto db)"
| "supplier_step (SoScore tz E t i actor) db = snd (score_supplier tz E t i actor db)"

text \<open>The database makes fresh identifiers.\<close>

fun supplier_ok :: "supplier_op \<Rightarrow> sdb \<Rightarrow> bool" where
  "supplier_ok (SoCreate E t dto actor) db \<longleftrightarrow> ev_ids E 1 \<notin> set (map su_id (s_suppliers db))"
| "supplier_ok (SoInvite P E t i em q actor) db \<longleftrightarrow> ev_ids E 2 \<notin> set (map si_id (s_invites db))"
| "supplier_ok (SoSubmit P E token dto) db \<longleftrightarrow> ev_ids E 1 \<notin> set (map sr_id (s_responses db))"
| "supplier_ok _ db \<longleftrightarrow> True"

end
