(* ===== verification/Suppliers_Props.thy ===== *)
theory Suppliers_Props
  imports Suppliers Links Lifecycle
begin

text \<open>
  What the supplier portal promises: each response answers an invitation of that supplier, each
  invitation is answered at most once as long as submissions do not interleave, an answered
  invitation stays answered; and what the scores amount to.
\<close>

section \<open>The table of invitations\<close>

inductive invite_move :: "supplier_invite \<Rightarrow> supplier_invite \<Rightarrow> bool" where
  opened: "si_opened x = None \<Longrightarrow> invite_move x (x \<lparr> si_opened := Some a \<rparr>)"
| responded: "invite_move x (x \<lparr> si_responded := Some a \<rparr>)"

inductive_cases invite_move_cases: "invite_move x x'"

definition new_invitation :: "supplier_invite \<Rightarrow> bool" where
  "new_invitation x \<longleftrightarrow> si_opened x = None \<and> si_responded x = None"

text \<open>Invitations have no tenant of their own: the table is that of one realm.\<close>

abbreviation invite_table :: "supplier_invite list \<Rightarrow> supplier_invite list \<Rightarrow> bool" where
  "invite_table \<equiv> table_move si_id (\<lambda>_. []) new_invitation invite_move []"

lemma invite_table_cases:
  assumes "invite_table xs ys"
  obtains moved new where "ys = moved @ new" "list_all2 (\<lambda>x y. y = x \<or> invite_move x y) xs moved" "\<forall>x\<in>set new. new_invitation x"
  using assms by (auto simp: table_move_def)

lemma find_invite_Inr: "find_invite P token db = Inr x \<Longrightarrow> x \<in> set (s_invites db) \<and> si_hash x = pa_sha P token"
  by (auto simp: find_invite_def split: option.splits dest: find_first_Some)

lemma find_supplier_Inr: "find_supplier t i db = Inr s \<Longrightarrow> s \<in> set (s_suppliers db) \<and> su_id s = i \<and> su_tenant s = t"
  by (auto simp: find_supplier_def split: option.splits dest: find_first_Some)

lemma invite_supplier_adds:
  "s_invites (snd (invite_supplier P E t i em q actor db)) = s_invites db \<or>
   (\<exists>qq sub. s_invites (snd (invite_supplier P E t i em q actor db)) =
      s_invites db @ [new_invite P E i qq (link_sign (pa_links P) (pa_secret P) E t LinkSupplier i invite_ttl (Some sub))])"
  by (simp add: invite_supplier_def Let_def split: sum.splits option.splits) blast

lemma invite_supplier_rest:
  "s_suppliers (snd (invite_supplier P E t i em q actor db)) = s_suppliers db"
  "s_responses (snd (invite_supplier P E t i em q actor db)) = s_responses db"
  "s_scores (snd (invite_supplier P E t i em q actor db)) = s_scores db"
  by (auto simp: invite_supplier_def Let_def split: sum.splits option.splits)

lemma load_portal_cases:
  obtains (same) "snd (load_portal P E token db) = db"
  | (opens) x where "x \<in> set (s_invites db)" "si_opened x = None"
      "snd (load_portal P E token db) =
        db \<lparr> s_invites := update_where (\<lambda>y. si_id y = si_id x) (\<lambda>y. y \<lparr> si_opened := Some (ev_now E) \<rparr>) (s_invites db) \<rparr>"
proof (cases "bindR (supplier_token P (ev_now E) token) (\<lambda>(t, target).
            bindR (find_supplier t target db) (\<lambda>s. bindR (find_invite P token db) (\<lambda>x. Inr (s, x))))")
  case (Inl er)
  then show ?thesis using that(1) by (simp add: load_portal_def)
next
  case (Inr sx)
  then obtain s x where "sx = (s, x)" "find_invite P token db = Inr x" by (auto simp: bindR_Inr_iff split: prod.splits)
  then show ?thesis using that Inr find_invite_Inr[of P token db x]
    by (cases "si_expires x < ev_now E"; cases "si_opened x") (auto simp: load_portal_def)
qed

lemma submit_check_Inr:
  assumes "submit_check P now token db = Inr (target, x)"
  shows "x \<in> set (s_invites db)" "si_hash x = pa_sha P token" "si_responded x = None"
    "\<exists>t sub. link_verify (pa_links P) (pa_secret P) now token = Some (t, LinkSupplier, target, sub)"
  using assms find_invite_Inr[of P token db x]
  by (auto simp: submit_check_def supplier_token_def bindR_Inr_iff split: option.splits prod.splits link_scope.splits if_splits)

lemma submit_write_writes:
  "(\<exists>er. submit_write E dto (target, x) db = (Inl er, db)) \<or>
   submit_write E dto (target, x) db = (Inr (new_response E target x dto),
      db \<lparr> s_responses := s_responses db @ [new_response E target x dto],
           s_invites := update_where (\<lambda>y. si_id y = si_id x) (\<lambda>y. y \<lparr> si_responded := Some (ev_now E) \<rparr>) (s_invites db),
           s_suppliers := update_where (\<lambda>y. su_id y = target)
             (\<lambda>y. y \<lparr> su_status := SuResponded, su_engaged := Some (ev_now E) \<rparr>) (s_suppliers db) \<rparr>)"
  by (simp add: submit_write_def Let_def del: set_map)

lemma supplier_step_invites:
  assumes "distinct (map si_id (s_invites db))" "supplier_ok c db"
  shows "invite_table (s_invites db) (s_invites (supplier_step c db))"
proof (cases c)
  case (SoInvite P E t i em q actor)
  then show ?thesis using invite_supplier_adds[of P E t i em q actor db] assms(2)
    by (auto intro!: table_move_refl table_move_append simp: new_invitation_def new_invite_def)
next
  case (SoPortal P E token)
  show ?thesis
  proof (rule load_portal_cases[of P E token db])
    fix x
    assume "x \<in> set (s_invites db)" "si_opened x = None" "snd (load_portal P E token db) =
        db \<lparr> s_invites := update_where (\<lambda>y. si_id y = si_id x) (\<lambda>y. y \<lparr> si_opened := Some (ev_now E) \<rparr>) (s_invites db) \<rparr>"
    then show ?thesis
      using table_move_update[OF assms(1), of x "si_id x" "\<lambda>_. []" "[]" invite_move "\<lambda>y. y \<lparr> si_opened := Some (ev_now E) \<rparr>"]
      by (simp add: SoPortal opened)
  qed (simp add: SoPortal table_move_refl)
next
  case (SoSubmit P E token dto)
  show ?thesis
  proof (cases "submit_check P (ev_now E) token db")
    case (Inr tx)
    obtain target x where tx: "tx = (target, x)" by (cases tx)
    note x = submit_check_Inr[OF Inr[unfolded tx]]
    show ?thesis
      using submit_write_writes[of E dto target x db] responded[of x "ev_now E"]
        table_move_update[OF assms(1) x(1), of "si_id x" "\<lambda>_. []" "[]" invite_move "\<lambda>y. y \<lparr> si_responded := Some (ev_now E) \<rparr>"]
      by (auto simp: SoSubmit submit_response_def Inr tx table_move_refl)
  qed (simp add: SoSubmit submit_response_def table_move_refl)
qed (auto simp: create_supplier_def update_supplier_def remove_supplier_def score_supplier_def Let_def
    intro!: table_move_refl split: sum.splits option.splits prod.splits)

interpretation invites: table_system si_id "\<lambda>_. []" new_invitation invite_move "\<lambda>_. True" supplier_step supplier_ok s_invites "\<lambda>_. []"
  by unfold_locales (auto elim!: invite_move_cases simp: supplier_step_invites)

section \<open>Responses answer invitations\<close>

text \<open>
  The portal as a system: calls of the service, and submissions as their two halves, so that other
  calls and other submissions run between a check and its write. The state remembers the checks that
  passed, and every token that was signed for an invitation or presented to the portal.
\<close>

record portal_state =
  ps_db :: sdb
  ps_pending :: "(string \<times> supplier_invite) list"
  ps_tokens :: "string list"

datatype portal_event =
    PvOp supplier_op
  | PvCheck env string
  | PvWrite env response_dto nat

text \<open>The tokens a call meets: the one an invitation is sent with, the one the portal is opened with.\<close>

fun op_tokens :: "portal_api \<Rightarrow> supplier_op \<Rightarrow> sdb \<Rightarrow> string list" where
  "op_tokens P (SoInvite P' E t i em q actor) db =
     (case find_supplier t i db of
        Inl er \<Rightarrow> []
      | Inr s \<Rightarrow> [link_sign (pa_links P) (pa_secret P) E t LinkSupplier i invite_ttl
                   (Some (case em of None \<Rightarrow> su_email s | Some e \<Rightarrow> e))])"
| "op_tokens P (SoPortal P' E token) db = [token]"
| "op_tokens P _ db = []"

fun portal_step :: "portal_api \<Rightarrow> portal_event \<Rightarrow> portal_state \<Rightarrow> portal_state" where
  "portal_step P (PvOp c) st = st \<lparr> ps_db := supplier_step c (ps_db st), ps_tokens := op_tokens P c (ps_db st) @ ps_tokens st \<rparr>"
| "portal_step P (PvCheck E token) st =
     st \<lparr> ps_tokens := token # ps_tokens st,
          ps_pending := ps_pending st @ (case submit_check P (ev_now E) token (ps_db st) of Inl er \<Rightarrow> [] | Inr c \<Rightarrow> [c]) \<rparr>"
| "portal_step P (PvWrite E dto n) st =
     (if n < length (ps_pending st)
      then st \<lparr> ps_db := snd (submit_write E dto (ps_pending st ! n) (ps_db st)),
                ps_pending := take n (ps_pending st) @ drop (Suc n) (ps_pending st) \<rparr>
      else st)"

text \<open>Calls go through the portal \<open>P\<close>; a submission is its two halves, never a single step.\<close>

fun uses_portal :: "portal_api \<Rightarrow> supplier_op \<Rightarrow> bool" where
  "uses_portal P (SoInvite P' E t i em q actor) \<longleftrightarrow> P' = P"
| "uses_portal P (SoPortal P' E token) \<longleftrightarrow> P' = P"
| "uses_portal P (SoSubmit P' E token dto) \<longleftrightarrow> False"
| "uses_portal P _ \<longleftrightarrow> True"

fun portal_event_ok :: "portal_api \<Rightarrow> portal_event \<Rightarrow> portal_state \<Rightarrow> bool" where
  "portal_event_ok P (PvOp c) st \<longleftrightarrow> supplier_ok c (ps_db st) \<and> uses_portal P c"
| "portal_event_ok P (PvCheck E token) st \<longleftrightarrow> True"
| "portal_event_ok P (PvWrite E dto n) st \<longleftrightarrow> ev_ids E 1 \<notin> set (map sr_id (s_responses (ps_db st)))"

text \<open>A fresh portal: nothing invited, answered, pending or presented yet.\<close>

definition portal_start :: "sdb \<Rightarrow> portal_state" where
  "portal_start db = \<lparr> ps_db = db \<lparr> s_invites := [], s_responses := [] \<rparr>, ps_pending = [], ps_tokens = [] \<rparr>"

text \<open>No two of the tokens that were met have the same SHA-256.\<close>

definition no_collision :: "portal_api \<Rightarrow> portal_state \<Rightarrow> bool" where
  "no_collision P st = inj_on (pa_sha P) (set (ps_tokens st))"

definition invited_by :: "portal_api \<Rightarrow> string set \<Rightarrow> supplier_invite \<Rightarrow> bool" where
  "invited_by P toks x \<longleftrightarrow> (\<exists>E t sub. link_sign (pa_links P) (pa_secret P) E t LinkSupplier (si_supplier x) invite_ttl (Some sub) \<in> toks \<and>
     si_hash x = pa_sha P (link_sign (pa_links P) (pa_secret P) E t LinkSupplier (si_supplier x) invite_ttl (Some sub)))"

definition filed_for :: "supplier_invite list \<Rightarrow> supplier_response \<Rightarrow> bool" where
  "filed_for xs r \<longleftrightarrow> (\<exists>x\<in>set xs. si_supplier x = sr_supplier r \<and> si_questionnaire x = sr_questionnaire r \<and> si_responded x \<noteq> None)"

definition check_stands :: "supplier_invite list \<Rightarrow> string \<times> supplier_invite \<Rightarrow> bool" where
  "check_stands xs c \<longleftrightarrow> (\<exists>y\<in>set xs. si_id y = si_id (snd c) \<and> si_supplier y = fst c \<and> si_questionnaire y = si_questionnaire (snd c))"

definition portal_rows :: "portal_api \<Rightarrow> portal_state \<Rightarrow> bool" where
  "portal_rows P st \<longleftrightarrow> distinct (map si_id (s_invites (ps_db st))) \<and>
     (\<forall>x\<in>set (s_invites (ps_db st)). invited_by P (set (ps_tokens st)) x) \<and>
     (\<forall>c\<in>set (ps_pending st). check_stands (s_invites (ps_db st)) c) \<and>
     (\<forall>r\<in>set (s_responses (ps_db st)). filed_for (s_invites (ps_db st)) r)"

definition portal_inv :: "portal_api \<Rightarrow> portal_state \<Rightarrow> bool" where
  "portal_inv P st \<longleftrightarrow> link_api_ok (pa_links P) \<and> (no_collision P st \<longrightarrow> portal_rows P st)"

lemma update_where_all: "(\<And>y. R y \<Longrightarrow> Q (f y)) \<Longrightarrow> (\<And>y. \<not> R y \<Longrightarrow> Q y) \<Longrightarrow> \<forall>y\<in>set (update_where R f rows). Q y"
  by (induction rows) simp_all

lemma invite_table_kept:
  assumes "invite_table xs ys" "x \<in> set xs"
  shows "\<exists>y\<in>set ys. si_id y = si_id x \<and> si_supplier y = si_supplier x \<and> si_questionnaire y = si_questionnaire x \<and>
    (si_responded x \<noteq> None \<longrightarrow> si_responded y \<noteq> None)"
proof -
  obtain m n where mn: "ys = m @ n" "list_all2 (\<lambda>x y. y = x \<or> invite_move x y) xs m"
    using invite_table_cases[OF assms(1)] by blast
  obtain i where i: "i < length xs" "x = xs ! i" using assms(2) by (auto simp: in_set_conv_nth)
  define y where "y = m ! i"
  have y: "y \<in> set m" "y = x \<or> invite_move x y"
    using mn(2) i by (auto simp: list_all2_conv_all_nth y_def)
  then show ?thesis by (intro bexI[of _ y]) (auto simp: mn(1) elim!: invite_move_cases)
qed

lemma rows_kept:
  assumes "invite_table xs ys"
  shows "check_stands xs c \<Longrightarrow> check_stands ys c" "filed_for xs r \<Longrightarrow> filed_for ys r"
  unfolding check_stands_def filed_for_def using invite_table_kept[OF assms] by (metis, metis)

lemma invited_by_mono: "invited_by P a x \<Longrightarrow> a \<subseteq> b \<Longrightarrow> invited_by P b x"
  unfolding invited_by_def by blast

lemma invited_by_updates [simp]:
  "invited_by P a (x \<lparr> si_opened := v \<rparr>) = invited_by P a x" "invited_by P a (x \<lparr> si_responded := v \<rparr>) = invited_by P a x"
  by (simp_all add: invited_by_def)

text \<open>The invitation of an accepted token was issued for the supplier the token names.\<close>

lemma accepted_target:
  assumes "link_api_ok (pa_links P)" "inj_on (pa_sha P) toks" "token \<in> toks" "invited_by P toks x"
    "submit_check P now token db = Inr (target, x)"
  shows "si_supplier x = target"
proof -
  note c = submit_check_Inr[OF assms(5)]
  obtain E t sub where h: "link_sign (pa_links P) (pa_secret P) E t LinkSupplier (si_supplier x) invite_ttl (Some sub) \<in> toks"
    "si_hash x = pa_sha P (link_sign (pa_links P) (pa_secret P) E t LinkSupplier (si_supplier x) invite_ttl (Some sub))"
    using assms(4) by (auto simp: invited_by_def)
  then have "token = link_sign (pa_links P) (pa_secret P) E t LinkSupplier (si_supplier x) invite_ttl (Some sub)"
    using c(2) assms(2,3) by (auto dest: inj_onD)
  then show ?thesis using c(4) link_verify_target[OF assms(1)] by metis
qed

lemma invite_adds_token:
  "s_invites (snd (invite_supplier P E t i em q actor db)) = s_invites db \<or>
   (\<exists>qq sub. s_invites (snd (invite_supplier P E t i em q actor db)) =
      s_invites db @ [new_invite P E i qq (link_sign (pa_links P) (pa_secret P) E t LinkSupplier i invite_ttl (Some sub))] \<and>
      op_tokens P (SoInvite P E t i em q actor) db = [link_sign (pa_links P) (pa_secret P) E t LinkSupplier i invite_ttl (Some sub)])"
  by (simp add: invite_supplier_def Let_def split: sum.splits option.splits) blast

lemma invited_by_new:
  "link_sign (pa_links P) (pa_secret P) E t LinkSupplier i invite_ttl (Some sub) \<in> a \<Longrightarrow>
   invited_by P a (new_invite P E i q (link_sign (pa_links P) (pa_secret P) E t LinkSupplier i invite_ttl (Some sub)))"
  unfolding invited_by_def by (rule exI[of _ E], rule exI[of _ t], rule exI[of _ sub]) (simp add: new_invite_def)

lemma supplier_step_invited:
  assumes "\<forall>x\<in>set (s_invites db). invited_by P a x" "uses_portal P c"
  shows "\<forall>x\<in>set (s_invites (supplier_step c db)). invited_by P (set (op_tokens P c db) \<union> a) x"
proof -
  have old: "\<forall>x\<in>set (s_invites db). invited_by P (set (op_tokens P c db) \<union> a) x"
    using assms(1) invited_by_mono[of P a _ "set (op_tokens P c db) \<union> a"] by blast
  show ?thesis
  proof (cases c)
    case (SoInvite P' E t i em q actor)
    have P: "P' = P" using assms(2) SoInvite by simp
    from invite_adds_token[of P E t i em q actor db] show ?thesis
    proof (elim disjE exE conjE)
      fix qq sub
      assume new: "s_invites (snd (invite_supplier P E t i em q actor db)) =
          s_invites db @ [new_invite P E i qq (link_sign (pa_links P) (pa_secret P) E t LinkSupplier i invite_ttl (Some sub))]"
        and tok: "op_tokens P (SoInvite P E t i em q actor) db = [link_sign (pa_links P) (pa_secret P) E t LinkSupplier i invite_ttl (Some sub)]"
      have "invited_by P (set (op_tokens P c db) \<union> a)
          (new_invite P E i qq (link_sign (pa_links P) (pa_secret P) E t LinkSupplier i invite_ttl (Some sub)))"
        unfolding SoInvite P tok by (rule invited_by_new) simp
      then show ?thesis using old by (simp add: SoInvite P new del: op_tokens.simps)
    qed (use old in \<open>simp add: SoInvite P del: op_tokens.simps\<close>)
  next
    case (SoPortal P' E token)
    show ?thesis
      by (rule load_portal_cases[of P' E token db]) (use old in \<open>auto simp: SoPortal set_update_where\<close>)
  qed (use old assms(2) in \<open>auto simp: create_supplier_def update_supplier_def remove_supplier_def score_supplier_def Let_def
      split: sum.splits option.splits prod.splits\<close>)
qed

lemma supplier_step_responses: "uses_portal P c \<Longrightarrow> s_responses (supplier_step c db) = s_responses db"
proof (cases c)
  case (SoPortal P' E token)
  then show ?thesis by (cases rule: load_portal_cases[of P' E token db]) simp_all
qed (auto simp: invite_supplier_rest create_supplier_def update_supplier_def remove_supplier_def score_supplier_def Let_def
    split: sum.splits option.splits prod.splits)

lemma write_table:
  assumes "distinct (map si_id (s_invites db))"
  shows "invite_table (s_invites db) (s_invites (snd (submit_write E dto (target, x) db)))"
proof -
  let ?f = "\<lambda>y. y \<lparr> si_responded := Some (ev_now E) \<rparr>"
  have "invite_table (s_invites db) (update_where (\<lambda>y. si_id y = si_id x) ?f (s_invites db))"
  proof (cases "si_id x \<in> set (map si_id (s_invites db))")
    case True
    then obtain y where y: "y \<in> set (s_invites db)" "si_id y = si_id x" by auto
    from table_move_update[OF assms y(1), of "si_id x" "\<lambda>_. []" "[]" invite_move ?f] responded y(2) show ?thesis by simp
  next
    case False
    then have "update_where (\<lambda>y. si_id y = si_id x) ?f (s_invites db) = s_invites db"
      unfolding update_where_def by (intro map_idI) (auto simp: image_iff)
    then show ?thesis by (simp add: table_move_refl)
  qed
  then show ?thesis using submit_write_writes[of E dto target x db] by (auto simp: table_move_refl)
qed

lemma write_responses:
  "s_responses (snd (submit_write E dto (target, x) db)) = s_responses db \<or>
   s_responses (snd (submit_write E dto (target, x) db)) = s_responses db @ [new_response E target x dto] \<and>
   (check_stands (s_invites db) (target, x) \<longrightarrow>
      filed_for (s_invites (snd (submit_write E dto (target, x) db))) (new_response E target x dto))"
proof -
  let ?f = "\<lambda>y. y \<lparr> si_responded := Some (ev_now E) \<rparr>"
  have "filed_for (update_where (\<lambda>y. si_id y = si_id x) ?f (s_invites db)) (new_response E target x dto)"
    if st: "check_stands (s_invites db) (target, x)"
  proof -
    obtain y where y: "y \<in> set (s_invites db)" "si_id y = si_id x" "si_supplier y = target" "si_questionnaire y = si_questionnaire x"
      using st by (auto simp: check_stands_def)
    show ?thesis unfolding filed_for_def by (rule bexI[of _ "?f y"]) (use y in \<open>auto simp: new_response_def set_update_where\<close>)
  qed
  then show ?thesis using submit_write_writes[of E dto target x db] by auto
qed

lemma no_collision_step: "no_collision P (portal_step P e st) \<Longrightarrow> no_collision P st"
  unfolding no_collision_def by (cases e) (auto elim: inj_on_subset split: if_splits)

lemma portal_event_rows:
  assumes "link_api_ok (pa_links P)" "no_collision P (portal_step P e st)" "portal_rows P st" "portal_event_ok P e st"
  shows "portal_rows P (portal_step P e st)"
proof (cases e)
  case (PvOp c)
  have u: "uses_portal P c" and k: "supplier_ok c (ps_db st)" using assms(4) PvOp by simp_all
  have d: "distinct (map si_id (s_invites (ps_db st)))" using assms(3) by (simp add: portal_rows_def)
  note t = supplier_step_invites[OF d k]
  have "\<forall>x\<in>set (s_invites (ps_db st)). invited_by P (set (ps_tokens st)) x" using assms(3) by (simp add: portal_rows_def)
  note i = supplier_step_invited[OF this u]
  show ?thesis using assms(3) i invites.table_move_ids[OF t d] rows_kept[OF t] supplier_step_responses[OF u, of "ps_db st"]
    by (simp add: PvOp portal_rows_def del: op_tokens.simps)
next
  case (PvCheck E token)
  have mono: "\<forall>x\<in>set (s_invites (ps_db st)). invited_by P (set (token # ps_tokens st)) x"
    using assms(3) invited_by_mono[of P "set (ps_tokens st)" _ "set (token # ps_tokens st)"] by (auto simp: portal_rows_def)
  have inj: "inj_on (pa_sha P) (set (token # ps_tokens st))" using assms(2) by (simp add: PvCheck no_collision_def)
  have "check_stands (s_invites (ps_db st)) c" if "submit_check P (ev_now E) token (ps_db st) = Inr c" for c
  proof -
    obtain target x where c: "c = (target, x)" by (cases c)
    note s = that[unfolded c]
    have x: "x \<in> set (s_invites (ps_db st))" using submit_check_Inr(1)[OF s] .
    have "si_supplier x = target" by (rule accepted_target[OF assms(1) inj _ _ s]) (use mono x in simp_all)
    then show ?thesis using x by (auto simp: c check_stands_def)
  qed
  then show ?thesis using assms(3) mono by (auto simp: PvCheck portal_rows_def split: sum.splits)
next
  case (PvWrite E dto n)
  show ?thesis
  proof (cases "n < length (ps_pending st)")
    case True
    obtain target x where c: "ps_pending st ! n = (target, x)" by (cases "ps_pending st ! n")
    let ?db = "snd (submit_write E dto (target, x) (ps_db st))"
    have d: "distinct (map si_id (s_invites (ps_db st)))" using assms(3) by (simp add: portal_rows_def)
    note t = write_table[OF d, of E dto target x]
    have st: "check_stands (s_invites (ps_db st)) (target, x)"
      using assms(3) nth_mem[OF True] by (simp add: portal_rows_def c)
    have inv: "\<forall>y\<in>set (s_invites ?db). invited_by P (set (ps_tokens st)) y"
      using assms(3) submit_write_writes[of E dto target x "ps_db st"] by (auto simp: portal_rows_def set_update_where)
    have pend: "\<forall>c\<in>set (take n (ps_pending st) @ drop (Suc n) (ps_pending st)). check_stands (s_invites ?db) c"
      using assms(3) rows_kept(1)[OF t] by (auto simp: portal_rows_def dest: in_set_takeD in_set_dropD)
    have resp: "\<forall>r\<in>set (s_responses ?db). filed_for (s_invites ?db) r"
      using assms(3) rows_kept(2)[OF t] write_responses[of E dto target x "ps_db st"] st by (auto simp: portal_rows_def)
    show ?thesis unfolding portal_rows_def using inv pend resp invites.table_move_ids[OF t d]
      by (simp add: PvWrite True c)
  qed (use assms(3) PvWrite in simp)
qed

lemma portal_step_inv: "portal_inv P st \<Longrightarrow> portal_event_ok P e st \<Longrightarrow> portal_inv P (portal_step P e st)"
  unfolding portal_inv_def using portal_event_rows no_collision_step by blast

interpretation portal: invariant_system "portal_step P" "portal_event_ok P" "portal_inv P" for P
  by unfold_locales (rule portal_step_inv)

lemma portal_start_inv: "link_api_ok (pa_links P) \<Longrightarrow> portal_inv P (portal_start db)"
  by (simp add: portal_inv_def portal_rows_def portal_start_def)

text \<open>C21: Each response answers an invitation: in every sequence of calls through one portal, with
  submissions whose check and write have other calls and other submissions between them, every response
  that was filed belongs to an invitation sent to the same supplier for the same questionnaire, and
  that invitation is marked as answered. Of SHA-256 it is used that no two tokens that were met have
  the same hash. (Two submissions that overlap may both be filed for one invitation.)\<close>

theorem responses_answer_invitations:
  assumes "link_api_ok (pa_links P)" "runs_ok (portal_step P) (portal_event_ok P) es (portal_start db)"
    "no_collision P (fold (portal_step P) es (portal_start db))"
    "r \<in> set (s_responses (ps_db (fold (portal_step P) es (portal_start db))))"
  shows "\<exists>x\<in>set (s_invites (ps_db (fold (portal_step P) es (portal_start db)))).
    si_supplier x = sr_supplier r \<and> si_questionnaire x = sr_questionnaire r \<and> si_responded x \<noteq> None"
  using portal.run_inv[OF portal_start_inv[OF assms(1)] assms(2)] assms(3,4)
  by (simp add: portal_inv_def portal_rows_def filed_for_def)

section \<open>Answered once\<close>

lemma invite_moves_keep:
  "invite_move\<^sup>*\<^sup>* x y \<Longrightarrow> si_hash y = si_hash x \<and> si_supplier y = si_supplier x \<and> (si_responded x \<noteq> None \<longrightarrow> si_responded y \<noteq> None)"
  by (induction rule: rtranclp_induct) (auto elim!: invite_move_cases)

lemma find_first_later:
  assumes "table_later move xs ys" "\<And>x y. move\<^sup>*\<^sup>* x y \<Longrightarrow> k y = k x" "find_first (\<lambda>x. k x = h) xs = Some x"
  shows "\<exists>y. find_first (\<lambda>x. k x = h) ys = Some y \<and> move\<^sup>*\<^sup>* x y"
proof -
  obtain m n where mn: "ys = m @ n" "list_all2 move\<^sup>*\<^sup>* xs m" using assms(1) by (auto simp: table_later_def)
  from mn(2) assms(3) have "\<exists>y. find_first (\<lambda>x. k x = h) m = Some y \<and> move\<^sup>*\<^sup>* x y"
    by (induction rule: list_all2_induct) (auto dest: assms(2) split: if_splits)
  then show ?thesis by (auto simp: mn(1) find_first_append)
qed

lemma find_first_updated:
  "find_first Q xs = Some x \<Longrightarrow> distinct (map rid xs) \<Longrightarrow> (\<And>y. Q (f y) = Q y) \<Longrightarrow>
     find_first Q (update_where (\<lambda>y. rid y = rid x) f xs) = Some (f x)"
proof (induction xs)
  case (Cons r xs)
  show ?case
  proof (cases "Q r")
    case False
    then have x: "find_first Q xs = Some x" using Cons(2) by simp
    then have "rid x \<in> rid ` set xs" using find_first_Some[OF x] by simp
    then have "rid r \<noteq> rid x" using Cons(3) by auto
    then show ?thesis using Cons(1)[OF x] Cons(3,4) False by simp
  qed (use Cons(2,4) in auto)
qed simp

text \<open>An invitation is answered at most once: after an accepted submission every later one
  with the same token is refused, whatever calls came in between.\<close>

theorem invitation_answered_once:
  assumes "distinct (map si_id (s_invites db))" "fst (submit_response P E token dto db) = Inr r"
    "runs_ok supplier_step supplier_ok cs (snd (submit_response P E token dto db))"
  shows "\<exists>m. fst (submit_response P E' token dto' (fold supplier_step cs (snd (submit_response P E token dto db)))) = Inl (BadRequest m)"
proof -
  let ?db = "snd (submit_response P E token dto db)" and ?P = "\<lambda>x. si_hash x = pa_sha P token"
  let ?db' = "fold supplier_step cs ?db"
  obtain target x where c: "submit_check P (ev_now E) token db = Inr (target, x)" "fst (submit_write E dto (target, x) db) = Inr r"
    using assms(2) by (auto simp: submit_response_def split: sum.splits)
  have inv: "s_invites ?db = update_where (\<lambda>y. si_id y = si_id x) (\<lambda>y. y \<lparr> si_responded := Some (ev_now E) \<rparr>) (s_invites db)"
    using c submit_write_writes[of E dto target x db] by (auto simp: submit_response_def)
  have f: "find_first ?P (s_invites db) = Some x"
    using c(1) by (auto simp: submit_check_def find_invite_def bindR_Inr_iff split: option.splits if_splits)
  have "find_first ?P (s_invites ?db) = Some (x \<lparr> si_responded := Some (ev_now E) \<rparr>)"
    unfolding inv by (rule find_first_updated[OF f assms(1)]) simp
  moreover have "map si_id (s_invites ?db) = map si_id (s_invites db)" unfolding inv by (rule update_where_keeps) simp
  then have "table_ok si_id (\<lambda>_. True) (s_invites ?db)" using assms(1) by (simp add: table_ok_def)
  note later = invites.history.run_rel[OF this assms(3)]
  ultimately obtain y where y: "find_first ?P (s_invites ?db') = Some y" "invite_move\<^sup>*\<^sup>* (x \<lparr> si_responded := Some (ev_now E) \<rparr>) y"
    using find_first_later[OF later, of si_hash "pa_sha P token"] invite_moves_keep by blast
  then have "si_responded y \<noteq> None" using invite_moves_keep by fastforce
  then show ?thesis using y(1)
    by (auto simp: submit_response_def submit_check_def find_invite_def supplier_token_def split: option.splits prod.splits link_scope.splits)
qed

lemma submit_write_ok:
  "target \<in> set (map su_id (s_suppliers db)) \<Longrightarrow> si_id x \<in> set (map si_id (s_invites db)) \<Longrightarrow>
   submit_write E dto (target, x) db = (Inr (new_response E target x dto),
      db \<lparr> s_responses := s_responses db @ [new_response E target x dto],
           s_invites := update_where (\<lambda>y. si_id y = si_id x) (\<lambda>y. y \<lparr> si_responded := Some (ev_now E) \<rparr>) (s_invites db),
           s_suppliers := update_where (\<lambda>y. su_id y = target)
             (\<lambda>y. y \<lparr> su_status := SuResponded, su_engaged := Some (ev_now E) \<rparr>) (s_suppliers db) \<rparr>)"
  "fst (submit_write E dto (target, x) db) = Inr r \<Longrightarrow>
     target \<in> set (map su_id (s_suppliers db)) \<and> si_id x \<in> set (map si_id (s_invites db)) \<and> r = new_response E target x dto"
  by (auto simp: submit_write_def Let_def simp del: set_map split: if_splits)

text \<open>Two submissions with one token whose checks both ran before either wrote are both accepted
  and file two responses.\<close>

theorem submission_race:
  assumes "submit_check P now token db = Inr c" "fst (submit_write E dto c db) = Inr r"
  shows "\<exists>r'. fst (submit_write E' dto' c (snd (submit_write E dto c db))) = Inr r' \<and>
    s_responses (snd (submit_write E' dto' c (snd (submit_write E dto c db)))) = s_responses db @ [r, r']"
proof -
  obtain target x where c: "c = (target, x)" by (cases c)
  have i: "map su_id (update_where (\<lambda>y. su_id y = target) (\<lambda>y. y \<lparr> su_status := SuResponded, su_engaged := Some (ev_now E) \<rparr>) (s_suppliers db)) = map su_id (s_suppliers db)"
    "map si_id (update_where (\<lambda>y. si_id y = si_id x) (\<lambda>y. y \<lparr> si_responded := Some (ev_now E) \<rparr>) (s_invites db)) = map si_id (s_invites db)"
    by (rule update_where_keeps; simp)+
  let ?db = "snd (submit_write E dto c db)"
  have t: "target \<in> set (map su_id (s_suppliers db))" "si_id x \<in> set (map si_id (s_invites db))" "r = new_response E target x dto"
    using submit_write_ok(2)[OF assms(2)[unfolded c]] by simp_all
  then have t': "target \<in> set (map su_id (s_suppliers ?db))" "si_id x \<in> set (map si_id (s_invites ?db))"
    unfolding c by (simp_all add: submit_write_ok(1)[OF t(1,2)] i del: set_map)
  have "s_responses ?db = s_responses db @ [r]" using t(3) unfolding c by (simp add: submit_write_ok(1)[OF t(1,2)])
  then show ?thesis using submit_write_ok(1)[OF t', of E' dto'] unfolding c by simp
qed

text \<open>An archived supplier comes back by answering an old invitation.\<close>

theorem archived_supplier_revived:
  assumes "fst (submit_response P E token dto db) = Inr r"
  shows "\<exists>r'. fst (submit_response P E token dto (snd (remove_supplier E' t i actor db))) = Inr r' \<and>
    (\<forall>s\<in>set (s_suppliers (snd (submit_response P E token dto (snd (remove_supplier E' t i actor db))))).
      su_id s = sr_supplier r' \<longrightarrow> su_status s = SuResponded)"
proof -
  let ?db = "snd (remove_supplier E' t i actor db)"
  obtain target x where c: "submit_check P (ev_now E) token db = Inr (target, x)" "fst (submit_write E dto (target, x) db) = Inr r"
    using assms by (auto simp: submit_response_def split: sum.splits)
  have k: "s_invites ?db = s_invites db" "map su_id (s_suppliers ?db) = map su_id (s_suppliers db)"
    using update_where_keeps[of "\<lambda>y. su_id y = i" su_id "\<lambda>y. y \<lparr> su_status := SuArchived \<rparr>" "s_suppliers db"]
    by (auto simp: remove_supplier_def split: sum.splits)
  have c': "submit_check P (ev_now E) token ?db = Inr (target, x)" using c(1) by (simp add: submit_check_def find_invite_def k(1))
  have t: "target \<in> set (map su_id (s_suppliers ?db))" "si_id x \<in> set (map si_id (s_invites ?db))"
    using submit_write_ok(2)[OF c(2)] unfolding k by simp_all
  have "\<forall>s\<in>set (update_where (\<lambda>y. su_id y = target) (\<lambda>y. y \<lparr> su_status := SuResponded, su_engaged := Some (ev_now E) \<rparr>) (s_suppliers ?db)).
      su_id s = target \<longrightarrow> su_status s = SuResponded" by (rule update_where_all) simp_all
  then show ?thesis unfolding submit_response_def c' by (simp add: submit_write_ok(1)[OF t] new_response_def)
qed

text \<open>No answer that carries a value passes the validation of the request.\<close>

theorem answer_value_refused: "answer_body b = Inr c \<Longrightarrow> own_get c ''value'' = None"
  by (auto simp: answer_body_def whitelist_pipe_Inr supplier_answer_decorated_def own_get_def map_of_eq_None_iff)

section \<open>Scores\<close>

lemma share_close:
  assumes "n \<le> tot" "0 < tot"
  shows "100 * (rat_of_nat n / of_nat tot) - 501 / 1000 \<le> of_int (share n tot) \<and>
    of_int (share n tot) \<le> 100 * (rat_of_nat n / of_nat tot) + 501 / 1000"
proof -
  define x where "x = rat_of_nat n / of_nat tot"
  have x: "0 \<le> x" "x \<le> 1" using assms by (simp_all add: x_def)
  then have f: "x - 1 / 2 ^ 53 \<le> fl x \<and> fl x \<le> x + 1 / 2 ^ 53" by (intro fl_close) simp
  then have "\<bar>fl x * 100\<bar> \<le> 101" using x by (simp add: abs_le_iff)
  from fl_close[OF this] js_round_close[of "fl (fl x * 100)"] f show ?thesis
    unfolding share_def x_def[symmetric] by simp
qed

lemma category_parts:
  assumes "category_count CHR ''E'' answers + category_count CHR ''S'' answers + category_count CHR ''G'' answers \<noteq> 0"
  shows "category_total answers = category_count CHR ''E'' answers + category_count CHR ''S'' answers + category_count CHR ''G'' answers"
  unfolding category_total_def by (rule max_absorb2) (use assms in linarith)

lemma composite_values: "composite e s g \<in> {33, 34}" if "99 \<le> e + s + g" "e + s + g \<le> 101"
proof -
  define n where "n = e + s + g"
  have "n = 99 \<or> n = 100 \<or> n = 101" using that unfolding n_def by linarith
  moreover have "js_round (fl (99 / 3)) = 33" "js_round (fl (100 / 3)) = 33" "js_round (fl (101 / 3)) = 34" by code_simp+
  ultimately show ?thesis unfolding composite_def n_def[symmetric] by auto
qed

text \<open>The three shares are within half a percent (and the rounding of doubles) of shares of one hundred.\<close>

lemma new_score_composite: "sc_composite (new_score E i fy answers) \<in> {0, 33, 34}"
proof -
  let ?e = "category_count CHR ''E'' answers" and ?s = "category_count CHR ''S'' answers" and ?g = "category_count CHR ''G'' answers"
  let ?t = "category_total answers"
  show ?thesis
  proof (cases "?e + ?s + ?g = 0")
    case True
    then have "share ?e ?t = 0" "share ?s ?t = 0" "share ?g ?t = 0" by (simp_all add: share_def)
    then show ?thesis by (simp add: new_score_def Let_def composite_def)
  next
    case False
    note t = category_parts[OF False]
    have x: "rat_of_nat ?e / of_nat ?t + rat_of_nat ?s / of_nat ?t + rat_of_nat ?g / of_nat ?t = 1"
    proof -
      have "rat_of_nat ?e + of_nat ?s + of_nat ?g = of_nat ?t" unfolding t by simp
      moreover have "?t \<noteq> 0" using False t by simp
      then have "rat_of_nat ?t \<noteq> 0" by simp
      ultimately show ?thesis by (simp add: add_divide_distrib[symmetric])
    qed
    have "?e \<le> ?t" "?s \<le> ?t" "?g \<le> ?t" "0 < ?t" using False unfolding t by simp_all
    note c = share_close[OF this(1,4)] share_close[OF this(2,4)] share_close[OF this(3,4)]
    have "rat_of_int (share ?e ?t + share ?s ?t + share ?g ?t) < 102" "98 < rat_of_int (share ?e ?t + share ?s ?t + share ?g ?t)"
      using c x by (simp, linarith)+
    then have "share ?e ?t + share ?s ?t + share ?g ?t < 102" "98 < share ?e ?t + share ?s ?t + share ?g ?t" by linarith+
    then show ?thesis using composite_values[of "share ?e ?t" "share ?s ?t" "share ?g ?t"] by (simp add: new_score_def Let_def)
  qed
qed

text \<open>The composite score does not measure anything: whatever a supplier answers, it is 33 or 34,
  or 0 when no question belongs to a category.\<close>

theorem supplier_score_constant:
  assumes "fst (score_supplier tz E t i actor db) = Inr row"
  shows "sc_composite row \<in> {0, 33, 34} \<and> grade (sc_composite row) \<in> {''D'', ''F''}"
proof -
  have "\<exists>fy answers x. row = new_score E i fy answers \<lparr> sc_id := x \<rparr> \<or> row = new_score E i fy answers"
    using assms by (auto simp: score_supplier_def upsert_score_def Let_def split: sum.splits option.splits if_splits)
  then obtain fy answers where "sc_composite row = sc_composite (new_score E i fy answers)" by force
  then show ?thesis using new_score_composite[of E i fy answers] by (auto simp: grade_def)
qed

section \<open>Witnesses\<close>

definition sample_portal :: portal_api where
  "sample_portal = \<lparr> pa_links = plain_links, pa_secret = ''k'', pa_sha = (\<lambda>s. s), pa_base = ''https://p'', pa_encode = (\<lambda>s. s),
     pa_mail = (\<lambda>r s b. None) \<rparr>"

definition sample_env :: "string \<Rightarrow> int \<Rightarrow> env" where
  "sample_env x now = \<lparr> ev_now = now, ev_ids = (\<lambda>k. x @ show_nat k), ev_audit_ok = True \<rparr>"

definition sample_sdb :: sdb where
  "sample_sdb = \<lparr> s_suppliers = [\<lparr> su_id = ''s'', su_tenant = ''t'', su_name = ''Acme'', su_country = ''IN'', su_sector = None,
       su_email = ''a@b'', su_status = SuInvited, su_added = 0, su_engaged = None \<rparr>],
     s_questionnaires = [\<lparr> qn_id = ''q'', qn_tenant = ''t'', qn_name = ''ESG'' \<rparr>], s_invites = [], s_responses = [], s_scores = [], s_audit = [] \<rparr>"

definition sample_token :: string where
  "sample_token = link_sign plain_links ''k'' (sample_env ''a'' 0) ''t'' LinkSupplier ''s'' invite_ttl (Some ''a@b'')"

definition sample_invited :: sdb where
  "sample_invited = snd (invite_supplier sample_portal (sample_env ''a'' 0) ''t'' ''s'' None (Some ''q'') ''u'' sample_sdb)"

definition sample_answers :: response_dto where
  "sample_answers = \<lparr> rd_answers = Some [(''E1'', JStr ''yes''), (''S1'', JStr ''no'')], rd_evidence = None \<rparr>"

lemma sample_token_ok: "link_verify plain_links ''k'' 5 sample_token = Some (''t'', LinkSupplier, ''s'', Some ''a@b'')"
  using plain_links_ok link_verify_signed[OF refl, of plain_links "sample_env ''a'' 0" "''t''" LinkSupplier "''s''" invite_ttl "Some ''a@b''" "''k''" 5 "''k''"]
  unfolding sample_token_def by (simp add: link_api_ok_def sample_env_def invite_ttl_def)

lemma sample_invited_simps: "sample_invited = sample_sdb \<lparr> s_invites := [new_invite sample_portal (sample_env ''a'' 0) ''s'' ''q'' sample_token],
    s_audit := s_audit sample_invited \<rparr>"
  by (simp add: sample_invited_def invite_supplier_def find_supplier_def sample_sdb_def sample_portal_def sample_token_def Let_def)

lemma sample_check:
  "submit_check sample_portal 5 sample_token sample_invited = Inr (''s'', new_invite sample_portal (sample_env ''a'' 0) ''s'' ''q'' sample_token)"
  using sample_token_ok by (subst sample_invited_simps)
    (simp add: submit_check_def supplier_token_def find_invite_def new_invite_def sample_portal_def)

lemma sample_submitted:
  "fst (submit_response sample_portal (sample_env ''b'' 5) sample_token sample_answers sample_invited) =
    Inr (new_response (sample_env ''b'' 5) ''s'' (new_invite sample_portal (sample_env ''a'' 0) ''s'' ''q'' sample_token) sample_answers)"
proof -
  have "submit_check sample_portal (ev_now (sample_env ''b'' 5)) sample_token sample_invited =
      Inr (''s'', new_invite sample_portal (sample_env ''a'' 0) ''s'' ''q'' sample_token)" using sample_check by (simp add: sample_env_def)
  moreover have "''s'' \<in> set (map su_id (s_suppliers sample_invited))"
    "si_id (new_invite sample_portal (sample_env ''a'' 0) ''s'' ''q'' sample_token) \<in> set (map si_id (s_invites sample_invited))"
    by (subst sample_invited_simps; simp add: sample_sdb_def)+
  ultimately show ?thesis by (simp add: submit_response_def submit_write_ok(1))
qed

definition sample_invite :: supplier_invite where
  "sample_invite = new_invite sample_portal (sample_env ''a'' 0) ''s'' ''q'' sample_token"

definition sample_events :: "portal_event list" where
  "sample_events = [PvOp (SoInvite sample_portal (sample_env ''a'' 0) ''t'' ''s'' None (Some ''q'') ''u''),
     PvCheck (sample_env ''b'' 5) sample_token, PvCheck (sample_env ''c'' 5) sample_token,
     PvWrite (sample_env ''d'' 6) sample_answers 0, PvWrite (sample_env ''e'' 7) sample_answers 0]"

definition sample_run :: portal_state where
  "sample_run = fold (portal_step sample_portal) sample_events (portal_start sample_sdb)"

lemma sample_start: "ps_db (portal_start sample_sdb) = sample_sdb"
  by (simp add: portal_start_def sample_sdb_def)

lemma sample_sdb_none: "s_invites sample_sdb = []" "s_responses sample_sdb = []"
  by (simp_all add: sample_sdb_def)

lemma sample_first:
  "portal_step sample_portal (PvOp (SoInvite sample_portal (sample_env ''a'' 0) ''t'' ''s'' None (Some ''q'') ''u'')) (portal_start sample_sdb) =
     \<lparr> ps_db = sample_invited, ps_pending = [], ps_tokens = [sample_token] \<rparr>"
  by (simp add: portal_start_def sample_invited_def)
    (simp add: find_supplier_def sample_sdb_def sample_token_def sample_portal_def)

lemma sample_second:
  "portal_step sample_portal (PvCheck (sample_env e 5) sample_token) \<lparr> ps_db = sample_invited, ps_pending = cs, ps_tokens = ts \<rparr> =
     \<lparr> ps_db = sample_invited, ps_pending = cs @ [(''s'', sample_invite)], ps_tokens = sample_token # ts \<rparr>"
  using sample_check by (simp add: sample_env_def sample_invite_def)

definition sample_answered :: "env \<Rightarrow> sdb \<Rightarrow> sdb" where
  "sample_answered E db = snd (submit_write E sample_answers (''s'', sample_invite) db)"

lemma sample_run_simps:
  "sample_run = \<lparr> ps_db = sample_answered (sample_env ''e'' 7) (sample_answered (sample_env ''d'' 6) sample_invited),
     ps_pending = [], ps_tokens = [sample_token, sample_token, sample_token] \<rparr>"
  unfolding sample_run_def sample_events_def
  by (simp add: sample_first sample_second del: portal_step.simps(1,2)) (simp add: sample_answered_def)

lemma sample_answered_rows:
  assumes "map su_id (s_suppliers db) = [''s'']" "map si_id (s_invites db) = [si_id sample_invite]"
  shows "s_responses (sample_answered E db) = s_responses db @ [new_response E ''s'' sample_invite sample_answers]"
    "map su_id (s_suppliers (sample_answered E db)) = [''s'']" "map si_id (s_invites (sample_answered E db)) = [si_id sample_invite]"
proof -
  have "''s'' \<in> set (map su_id (s_suppliers db))" "si_id sample_invite \<in> set (map si_id (s_invites db))" by (simp_all add: assms del: set_map)
  note w = submit_write_ok(1)[OF this, of E sample_answers]
  have "map su_id (update_where (\<lambda>y. su_id y = ''s'') (\<lambda>y. y \<lparr> su_status := SuResponded, su_engaged := Some (ev_now E) \<rparr>) (s_suppliers db)) = [''s'']"
    by (subst update_where_keeps) (simp_all add: assms(1))
  moreover have "map si_id (update_where (\<lambda>y. si_id y = si_id sample_invite) (\<lambda>y. y \<lparr> si_responded := Some (ev_now E) \<rparr>) (s_invites db)) = [si_id sample_invite]"
    by (subst update_where_keeps) (simp_all add: assms(2))
  ultimately show "s_responses (sample_answered E db) = s_responses db @ [new_response E ''s'' sample_invite sample_answers]"
    "map su_id (s_suppliers (sample_answered E db)) = [''s'']" "map si_id (s_invites (sample_answered E db)) = [si_id sample_invite]"
    unfolding sample_answered_def w by simp_all
qed

lemma sample_invited_ids:
  "map su_id (s_suppliers sample_invited) = [''s'']" "map si_id (s_invites sample_invited) = [si_id sample_invite]" "s_responses sample_invited = []"
  by (subst sample_invited_simps; simp add: sample_sdb_def sample_invite_def)+

lemma sample_two_filed:
  "s_responses (ps_db sample_run) = [new_response (sample_env ''d'' 6) ''s'' sample_invite sample_answers,
     new_response (sample_env ''e'' 7) ''s'' sample_invite sample_answers]"
  by (simp add: sample_run_simps sample_answered_rows sample_invited_ids del: set_map)

lemma sample_events_ok: "runs_ok (portal_step sample_portal) (portal_event_ok sample_portal) sample_events (portal_start sample_sdb)"
proof -
  have "s_responses (sample_answered (sample_env ''d'' 6) sample_invited) = [new_response (sample_env ''d'' 6) ''s'' sample_invite sample_answers]"
    by (simp add: sample_answered_rows sample_invited_ids)
  then show ?thesis unfolding sample_events_def
    by (simp add: sample_first sample_second del: portal_step.simps(1,2))
      (simp add: sample_start sample_sdb_none sample_invited_ids sample_answered_def[symmetric] new_response_def sample_env_def)
qed

text \<open>An invitation, two submissions with its token whose checks both run first, two responses.\<close>

theorem responses_answer_invitations_witness:
  "length (s_responses (ps_db sample_run)) = 2 \<and>
   (\<exists>x\<in>set (s_invites (ps_db sample_run)). si_supplier x = ''s'' \<and> si_questionnaire x = ''q'' \<and> si_responded x \<noteq> None)"
proof -
  have l: "link_api_ok (pa_links sample_portal)" by (simp add: sample_portal_def plain_links_ok)
  have n: "no_collision sample_portal (fold (portal_step sample_portal) sample_events (portal_start sample_sdb))"
    by (simp add: sample_run_def[symmetric] no_collision_def sample_run_simps)
  have m: "new_response (sample_env ''e'' 7) ''s'' sample_invite sample_answers
      \<in> set (s_responses (ps_db (fold (portal_step sample_portal) sample_events (portal_start sample_sdb))))"
    by (simp add: sample_run_def[symmetric] sample_two_filed)
  show ?thesis using responses_answer_invitations[OF l sample_events_ok n m] sample_two_filed
    by (simp add: sample_run_def[symmetric] new_response_def sample_invite_def new_invite_def)
qed

theorem invitation_answered_once_witness:
  "\<exists>m. fst (submit_response sample_portal (sample_env ''c'' 6) sample_token sample_answers
     (snd (submit_response sample_portal (sample_env ''b'' 5) sample_token sample_answers sample_invited))) = Inl (BadRequest m)"
proof -
  have "distinct (map si_id (s_invites sample_invited))" by (subst sample_invited_simps) simp
  from invitation_answered_once[OF this sample_submitted, of "[]"] show ?thesis by simp
qed

theorem submission_race_witness:
  "\<exists>r'. fst (submit_write (sample_env ''c'' 6) sample_answers
     (''s'', new_invite sample_portal (sample_env ''a'' 0) ''s'' ''q'' sample_token)
     (snd (submit_write (sample_env ''b'' 5) sample_answers (''s'', new_invite sample_portal (sample_env ''a'' 0) ''s'' ''q'' sample_token) sample_invited))) = Inr r'"
proof -
  have "fst (submit_write (sample_env ''b'' 5) sample_answers (''s'', new_invite sample_portal (sample_env ''a'' 0) ''s'' ''q'' sample_token) sample_invited) =
      Inr (new_response (sample_env ''b'' 5) ''s'' (new_invite sample_portal (sample_env ''a'' 0) ''s'' ''q'' sample_token) sample_answers)"
    using sample_submitted sample_check by (simp add: submit_response_def sample_env_def)
  from submission_race[OF sample_check this] show ?thesis by blast
qed

definition sample_scored :: sdb where
  "sample_scored = sample_sdb \<lparr> s_responses := [\<lparr> sr_id = ''r'', sr_supplier = ''s'', sr_questionnaire = ''q'', sr_status = SrSubmitted,
     sr_answers = rd_answers sample_answers, sr_evidence = [], sr_at = Some 0 \<rparr>] \<rparr>"

theorem supplier_score_constant_witness:
  "sc_composite (new_score (sample_env ''d'' 9) ''s'' (infer_fy_label 0 0) [(''E1'', JStr ''yes''), (''S1'', JStr ''no'')]) \<in> {0, 33, 34}"
  using supplier_score_constant[of 0 "sample_env ''d'' 9" "''t''" "''s''" "''u''" sample_scored
      "new_score (sample_env ''d'' 9) ''s'' (infer_fy_label 0 0) [(''E1'', JStr ''yes''), (''S1'', JStr ''no'')]"]
  by (simp add: score_supplier_def find_supplier_def latest_response_def upsert_score_def sample_scored_def sample_sdb_def sample_answers_def Let_def)

end
