(* ===== verification/Materiality.thy ===== *)
theory Materiality
  imports Suppliers
begin

text \<open>
  Materiality (services/api/src/materiality/materiality.service.ts): topics, stakeholder groups,
  surveys answered through magic links, and the assessment computed from their responses and
  signed by the board. Averages are decimals of twenty digits turned into doubles. Parsing the
  closing date of a survey is given by the runtime.
\<close>

section \<open>Data\<close>

record material_topic =
  tp_id :: string
  tp_tenant :: "string option"
  tp_framework :: string
  tp_code :: string
  tp_name :: string
  tp_description :: "string option"
  tp_category :: string

record stakeholder_group =
  sk_id :: string
  sk_tenant :: string
  sk_name :: string
  sk_type :: string
  sk_influence :: int
  sk_interest :: int

datatype survey_status = SvDraft | SvActive | SvClosed

record survey =
  sv_id :: string
  sv_tenant :: string
  sv_fy :: string
  sv_title :: string
  sv_status :: survey_status
  sv_launched :: "int option"
  sv_closed :: "int option"
  sv_by :: string

record survey_response =
  vr_id :: string
  vr_survey :: string
  vr_email :: string
  vr_role :: "string option"
  vr_at :: int
  vr_scores :: "(string \<times> int) list"
  vr_comments :: "string option"

record matrix_row =
  mx_topic :: string
  mx_importance :: rat
  mx_impact :: rat
  mx_score :: rat

record assessment =
  ma_id :: string
  ma_tenant :: string
  ma_fy :: string
  ma_matrix :: "matrix_row list"
  ma_priority :: "string list"
  ma_board_signed :: "int option"
  ma_signed_by :: "string option"
  ma_evidence :: "string option"
  ma_locked :: "int option"

datatype materiality_snap =
    SnapTopic material_topic
  | SnapStakeholder stakeholder_group
  | SnapSurvey survey
  | SnapSurveyPlan "string list" "string list"
  | SnapSurveyMove string
  | SnapAssessment assessment
  | SnapSigner string string "string option"

record zdb =
  z_topics :: "material_topic list"
  z_stakeholders :: "stakeholder_group list"
  z_surveys :: "survey list"
  z_responses :: "survey_response list"
  z_runs :: "assessment list"
  z_audit :: "materiality_snap audit_row list"

section \<open>Topics and stakeholders\<close>

text \<open>Ordered by framework, then code: two stable sorts.\<close>

definition list_topics :: "string \<Rightarrow> zdb \<Rightarrow> material_topic list" where
  "list_topics t db =
     sort_key tp_framework (sort_key tp_code (filter (\<lambda>p. tp_tenant p = None \<or> tp_tenant p = Some t) (z_topics db)))"

record topic_dto =
  td_code :: string
  td_title :: string
  td_description :: "string option"
  td_category :: "string option"

definition create_topic :: "env \<Rightarrow> string \<Rightarrow> topic_dto \<Rightarrow> string \<Rightarrow> zdb \<Rightarrow> material_topic outcome \<times> zdb" where
  "create_topic E t dto actor db =
     (let category = js_upper (case td_category dto of None \<Rightarrow> ''ENVIRONMENT'' | Some c \<Rightarrow> c) in
      if category \<notin> {''ENVIRONMENT'', ''SOCIAL'', ''GOVERNANCE''}
      then (Inl (BadRequest ''category must be ENVIRONMENT|SOCIAL|GOVERNANCE''), db)
      else if \<exists>p\<in>set (z_topics db). tp_tenant p = Some t \<and> tp_framework p = ''BRSR'' \<and> tp_code p = td_code dto
      then (Inl (PrismaError ''P2002''), db)
      else (let p = \<lparr> tp_id = ev_ids E 1, tp_tenant = Some t, tp_framework = ''BRSR'', tp_code = td_code dto, tp_name = td_title dto,
                      tp_description = td_description dto, tp_category = category \<rparr>
            in (Inr p, db \<lparr> z_topics := z_topics db @ [p],
                 z_audit := audit_log E (audit_entry t actor ''MaterialTopic'' (Some (tp_id p)) ''CREATE'' None (Some (SnapTopic p)) None) (z_audit db) \<rparr>)))"

definition list_stakeholders :: "string \<Rightarrow> zdb \<Rightarrow> stakeholder_group list" where
  "list_stakeholders t db = sort_key sk_name (filter (\<lambda>s. sk_tenant s = t) (z_stakeholders db))"

record stakeholder_dto =
  kd_name :: string
  kd_group :: "string option"
  kd_influence :: "int option"

definition stakeholder_type :: "string option \<Rightarrow> string" where
  "stakeholder_type g = (case g of None \<Rightarrow> ''EXTERNAL''
     | Some s \<Rightarrow> if js_upper s = ''EMPLOYEES'' \<or> js_upper s = ''INTERNAL'' then ''INTERNAL'' else ''EXTERNAL'')"

definition create_stakeholder :: "env \<Rightarrow> string \<Rightarrow> stakeholder_dto \<Rightarrow> string \<Rightarrow> zdb \<Rightarrow> stakeholder_group outcome \<times> zdb" where
  "create_stakeholder E t dto actor db =
     (let score = (case kd_influence dto of None \<Rightarrow> 3 | Some n \<Rightarrow> n);
          s = \<lparr> sk_id = ev_ids E 1, sk_tenant = t, sk_name = kd_name dto, sk_type = stakeholder_type (kd_group dto),
                sk_influence = score, sk_interest = score \<rparr>
      in (Inr s, db \<lparr> z_stakeholders := z_stakeholders db @ [s],
            z_audit := audit_log E (audit_entry t actor ''StakeholderGroup'' (Some (sk_id s)) ''CREATE'' None (Some (SnapStakeholder s)) None) (z_audit db) \<rparr>))"

section \<open>Surveys\<close>

record survey_dto =
  vd_name :: string
  vd_topics :: "string list"
  vd_stakeholders :: "string list"
  vd_closes :: "string option"

text \<open>The year of an invalid date is NaN, whose last two letters are aN.\<close>

definition survey_fy :: "int \<Rightarrow> (string \<Rightarrow> int option) \<Rightarrow> int \<Rightarrow> string option \<Rightarrow> string" where
  "survey_fy tz parse_at now closes =
     (case closes of None \<Rightarrow> infer_fy_label tz now
      | Some s \<Rightarrow> if s = [] then infer_fy_label tz now
                  else (case parse_at s of None \<Rightarrow> ''FYaN-aN'' | Some d \<Rightarrow> infer_fy_label tz d))"

definition create_survey ::
  "int \<Rightarrow> (string \<Rightarrow> int option) \<Rightarrow> env \<Rightarrow> string \<Rightarrow> survey_dto \<Rightarrow> string \<Rightarrow> zdb \<Rightarrow> survey outcome \<times> zdb" where
  "create_survey tz parse_at E t dto actor db =
     (let s = \<lparr> sv_id = ev_ids E 1, sv_tenant = t, sv_fy = survey_fy tz parse_at (ev_now E) (vd_closes dto), sv_title = vd_name dto,
                sv_status = SvDraft, sv_launched = None, sv_closed = None, sv_by = actor \<rparr> in
      if \<exists>x\<in>set (z_surveys db). sv_tenant x = t \<and> sv_fy x = sv_fy s \<and> sv_title x = sv_title s then (Inl (PrismaError ''P2002''), db)
      else (Inr s, db \<lparr> z_surveys := z_surveys db @ [s],
              z_audit := audit_log E (audit_entry t actor ''MaterialitySurvey'' (Some (sv_id s)) ''CREATE'' None (Some (SnapSurvey s))
                (Some (SnapSurveyPlan (vd_topics dto) (vd_stakeholders dto)))) (z_audit db) \<rparr>))"

definition find_survey :: "string \<Rightarrow> string \<Rightarrow> zdb \<Rightarrow> survey option" where
  "find_survey t i db = find_first (\<lambda>s. sv_id s = i \<and> sv_tenant s = t) (z_surveys db)"

fun survey_status_text :: "survey_status \<Rightarrow> string" where
  "survey_status_text SvDraft = ''DRAFT''"
| "survey_status_text SvActive = ''ACTIVE''"
| "survey_status_text SvClosed = ''CLOSED''"

definition move_survey :: "env \<Rightarrow> string \<Rightarrow> string \<Rightarrow> string \<Rightarrow> string \<Rightarrow> (survey \<Rightarrow> survey) \<Rightarrow> zdb \<Rightarrow> zdb" where
  "move_survey E t i actor transition f db =
     db \<lparr> z_surveys := update_where (\<lambda>s. sv_id s = i) f (z_surveys db),
          z_audit := audit_log E (audit_entry t actor ''MaterialitySurvey'' (Some i) ''UPDATE'' None None
            (Some (SnapSurveyMove transition))) (z_audit db) \<rparr>"

definition launched_survey :: "env \<Rightarrow> survey \<Rightarrow> survey" where
  "launched_survey E s = s \<lparr> sv_status := SvActive, sv_launched := Some (ev_now E) \<rparr>"

definition launch_survey :: "env \<Rightarrow> string \<Rightarrow> string \<Rightarrow> string \<Rightarrow> zdb \<Rightarrow> survey outcome \<times> zdb" where
  "launch_survey E t i actor db =
     (case find_survey t i db of
        None \<Rightarrow> (Inl (NotFound ''Survey not found''), db)
      | Some s \<Rightarrow>
          if sv_status s \<noteq> SvDraft then (Inl (Conflict (''Cannot launch survey in status '' @ survey_status_text (sv_status s))), db)
          else (Inr (launched_survey E s), move_survey E t i actor ''launched'' (launched_survey E) db))"

record survey_answer =
  va_name :: "string option"
  va_email :: "string option"
  va_scores :: "(string \<times> int) list"
  va_comments :: "string option"

text \<open>Of the verified token only the scope and the tenant are looked at.\<close>

definition submit_survey :: "link_api \<Rightarrow> string \<Rightarrow> env \<Rightarrow> string \<Rightarrow> string \<Rightarrow> survey_answer \<Rightarrow> zdb \<Rightarrow> survey_response outcome \<times> zdb" where
  "submit_survey L secret E i token dto db =
     (case link_verify L secret (ev_now E) token of
        Some (t, LinkSurvey, target, subject) \<Rightarrow>
          (case find_survey t i db of
             None \<Rightarrow> (Inl (Conflict ''Survey not active''), db)
           | Some s \<Rightarrow>
               if sv_status s \<noteq> SvActive then (Inl (Conflict ''Survey not active''), db)
               else (case va_email dto of
                  None \<Rightarrow> (Inl (BadRequest ''respondentEmail is required''), db)
                | Some e \<Rightarrow>
                   if e = [] then (Inl (BadRequest ''respondentEmail is required''), db)
                   else if \<exists>r\<in>set (z_responses db). vr_survey r = i \<and> vr_email r = e then (Inl (PrismaError ''P2002''), db)
                   else (let r = \<lparr> vr_id = ev_ids E 1, vr_survey = i, vr_email = e, vr_role = va_name dto, vr_at = ev_now E,
                                   vr_scores = va_scores dto, vr_comments = va_comments dto \<rparr>
                         in (Inr r, db \<lparr> z_responses := z_responses db @ [r] \<rparr>))))
      | _ \<Rightarrow> (Inl (BadRequest ''Invalid or expired token''), db))"

definition closed_survey :: "env \<Rightarrow> survey \<Rightarrow> survey" where
  "closed_survey E s = s \<lparr> sv_status := SvClosed, sv_closed := Some (ev_now E) \<rparr>"

definition close_survey :: "env \<Rightarrow> string \<Rightarrow> string \<Rightarrow> string \<Rightarrow> zdb \<Rightarrow> survey outcome \<times> zdb" where
  "close_survey E t i actor db =
     (case find_survey t i db of
        None \<Rightarrow> (Inl (NotFound ''Survey not found''), db)
      | Some s \<Rightarrow>
          if sv_status s = SvClosed then (Inr s, db)
          else (Inr (closed_survey E s), move_survey E t i actor ''closed'' (closed_survey E) db))"

section \<open>Assessments\<close>

text \<open>
  Sum and count by topic in the order in which topics first occur, as the code keeps them.
\<close>

definition add_score :: "string \<times> int \<Rightarrow> (string \<times> int \<times> nat) list \<Rightarrow> (string \<times> int \<times> nat) list" where
  "add_score s by_topic =
     (case map_of by_topic (fst s) of
        None \<Rightarrow> upsert (fst s) (snd s, 1) by_topic
      | Some (sm, n) \<Rightarrow> upsert (fst s) (sm + snd s, n + 1) by_topic)"

definition score_table :: "survey_response list \<Rightarrow> (string \<times> int \<times> nat) list" where
  "score_table rs = fold (\<lambda>r by_topic. fold add_score (vr_scores r) by_topic) rs []"

text \<open>A decimal division keeps twenty digits; \<open>toNumber\<close> rounds to a double.\<close>

definition mean_number :: "int \<Rightarrow> nat \<Rightarrow> rat" where
  "mean_number sm n = fl (dec_div (of_int sm) (of_nat (if n = 0 then 1 else n)))"

definition matrix_of :: "(string \<times> int \<times> nat) list \<Rightarrow> matrix_row list" where
  "matrix_of by_topic =
     sort_key (\<lambda>m. - mx_score m) (map (\<lambda>(topic, sm, n).
       \<lparr> mx_topic = topic, mx_importance = mean_number sm n, mx_impact = 0, mx_score = mean_number sm n \<rparr>) by_topic)"

definition new_assessment :: "env \<Rightarrow> string \<Rightarrow> string \<Rightarrow> survey_response list \<Rightarrow> assessment" where
  "new_assessment E t fy rs =
     (let matrix = matrix_of (score_table rs) in
      \<lparr> ma_id = ev_ids E 1, ma_tenant = t, ma_fy = fy, ma_matrix = matrix, ma_priority = map mx_topic (take 12 matrix),
        ma_board_signed = None, ma_signed_by = None, ma_evidence = None, ma_locked = None \<rparr>)"

definition create_assessment :: "env \<Rightarrow> string \<Rightarrow> string \<Rightarrow> string \<Rightarrow> zdb \<Rightarrow> assessment outcome \<times> zdb" where
  "create_assessment E t survey_id actor db =
     (case find_survey t survey_id db of
        None \<Rightarrow> (Inl (NotFound ''Survey not found''), db)
      | Some s \<Rightarrow>
          if sv_status s \<noteq> SvClosed then (Inl (BadRequest ''Survey must be CLOSED to run an assessment''), db)
          else if \<exists>x\<in>set (z_runs db). ma_tenant x = t \<and> ma_fy x = sv_fy s then (Inl (PrismaError ''P2002''), db)
          else (let a = new_assessment E t (sv_fy s) (filter (\<lambda>r. vr_survey r = survey_id) (z_responses db))
                in (Inr a, db \<lparr> z_runs := z_runs db @ [a],
                     z_audit := audit_log E (audit_entry t actor ''MaterialityAssessmentRun'' (Some (ma_id a)) ''CREATE'' None
                       (Some (SnapAssessment a)) None) (z_audit db) \<rparr>)))"

definition get_assessment :: "string \<Rightarrow> string \<Rightarrow> zdb \<Rightarrow> assessment outcome" where
  "get_assessment t i db =
     (case find_first (\<lambda>a. ma_id a = i \<and> ma_tenant a = t) (z_runs db) of
        None \<Rightarrow> Inl (NotFound ''Assessment not found'') | Some a \<Rightarrow> Inr a)"

record sign_dto =
  gd_name :: string
  gd_role :: string
  gd_evidence :: string
  gd_notes :: "string option"

definition signed_assessment :: "env \<Rightarrow> string \<Rightarrow> string \<Rightarrow> assessment \<Rightarrow> assessment" where
  "signed_assessment E evidence actor a =
     a \<lparr> ma_board_signed := Some (ev_now E), ma_signed_by := Some actor, ma_evidence := Some evidence, ma_locked := Some (ev_now E) \<rparr>"

definition sign_assessment :: "env \<Rightarrow> string \<Rightarrow> string \<Rightarrow> sign_dto \<Rightarrow> string \<Rightarrow> zdb \<Rightarrow> assessment outcome \<times> zdb" where
  "sign_assessment E t i dto actor db =
     (case get_assessment t i db of
        Inl er \<Rightarrow> (Inl er, db)
      | Inr a \<Rightarrow>
          if ma_locked a \<noteq> None then (Inl (Conflict ''Already signed''), db)
          else (let f = signed_assessment E (gd_evidence dto) actor in
                (Inr (f a), db \<lparr> z_runs := update_where (\<lambda>x. ma_id x = i) f (z_runs db),
                   z_audit := audit_log E (audit_entry t actor ''MaterialityAssessmentRun'' (Some i) ''SIGN'' (Some (SnapAssessment a))
                     (Some (SnapAssessment (f a))) (Some (SnapSigner (gd_name dto) (gd_role dto) (gd_notes dto)))) (z_audit db) \<rparr>)))"

section \<open>The system\<close>

datatype materiality_op =
    ZoTopic env string topic_dto string
  | ZoStakeholder env string stakeholder_dto string
  | ZoSurvey int "string \<Rightarrow> int option" env string survey_dto string
  | ZoLaunch env string string string
  | ZoSubmit link_api string env string string survey_answer
  | ZoClose env string string string
  | ZoAssess env string string string
  | ZoSign env string string sign_dto string

fun materiality_step :: "materiality_op \<Rightarrow> zdb \<Rightarrow> zdb" where
  "materiality_step (ZoTopic E t dto actor) db = snd (create_topic E t dto actor db)"
| "materiality_step (ZoStakeholder E t dto actor) db = snd (create_stakeholder E t dto actor db)"
| "materiality_step (ZoSurvey tz p E t dto actor) db = snd (create_survey tz p E t dto actor db)"
| "materiality_step (ZoLaunch E t i actor) db = snd (launch_survey E t i actor db)"
| "materiality_step (ZoSubmit L secret E i token dto) db = snd (submit_survey L secret E i token dto db)"
| "materiality_step (ZoClose E t i actor) db = snd (close_survey E t i actor db)"
| "materiality_step (ZoAssess E t i actor) db = snd (create_assessment E t i actor db)"
| "materiality_step (ZoSign E t i dto actor) db = snd (sign_assessment E t i dto actor db)"

text \<open>The tenant of a submission is that of its token; it touches none of the tables below.\<close>

fun materiality_tenant :: "materiality_op \<Rightarrow> string" where
  "materiality_tenant (ZoTopic E t dto actor) = t"
| "materiality_tenant (ZoStakeholder E t dto actor) = t"
| "materiality_tenant (ZoSurvey tz p E t dto actor) = t"
| "materiality_tenant (ZoLaunch E t i actor) = t"
| "materiality_tenant (ZoSubmit L secret E i token dto) = []"
| "materiality_tenant (ZoClose E t i actor) = t"
| "materiality_tenant (ZoAssess E t i actor) = t"
| "materiality_tenant (ZoSign E t i dto actor) = t"

text \<open>The database makes fresh identifiers.\<close>

fun materiality_ok :: "materiality_op \<Rightarrow> zdb \<Rightarrow> bool" where
  "materiality_ok (ZoSurvey tz p E t dto actor) db \<longleftrightarrow> ev_ids E 1 \<notin> set (map sv_id (z_surveys db))"
| "materiality_ok (ZoAssess E t i actor) db \<longleftrightarrow> ev_ids E 1 \<notin> set (map ma_id (z_runs db))"
| "materiality_ok _ db \<longleftrightarrow> True"

end
