(* ===== verification/Materiality_Props.thy ===== *)
theory Materiality_Props
  imports Materiality Links Lifecycle
begin

text \<open>
  What the materiality service promises: surveys only move forward, a closed survey takes no more
  responses, the matrix holds the mean importance of every topic in descending order, and a signed
  assessment is final.
\<close>

section \<open>The tables\<close>

inductive survey_move :: "survey \<Rightarrow> survey \<Rightarrow> bool" where
  launch: "sv_status s = SvDraft \<Longrightarrow> survey_move s (launched_survey E s)"
| close: "sv_status s \<noteq> SvClosed \<Longrightarrow> survey_move s (closed_survey E s)"

inductive_cases survey_move_cases: "survey_move s s'"

definition new_survey :: "survey \<Rightarrow> bool" where
  "new_survey s \<longleftrightarrow> sv_status s = SvDraft \<and> sv_launched s = None \<and> sv_closed s = None"

definition survey_good :: "survey \<Rightarrow> bool" where
  "survey_good s \<longleftrightarrow> (sv_status s = SvDraft \<longrightarrow> sv_launched s = None) \<and> (sv_status s = SvActive \<longrightarrow> sv_launched s \<noteq> None) \<and>
     (sv_status s = SvClosed \<longleftrightarrow> sv_closed s \<noteq> None)"

inductive run_move :: "assessment \<Rightarrow> assessment \<Rightarrow> bool" where
  sign: "ma_locked a = None \<Longrightarrow> run_move a (signed_assessment E evidence actor a)"

inductive_cases run_move_cases: "run_move a a'"

definition fresh_assessment :: "assessment \<Rightarrow> bool" where
  "fresh_assessment a \<longleftrightarrow> ma_locked a = None \<and> ma_signed_by a = None \<and> ma_board_signed a = None \<and> ma_evidence a = None"

definition run_signed :: "assessment \<Rightarrow> bool" where
  "run_signed a \<longleftrightarrow> fresh_assessment a \<or> (ma_locked a \<noteq> None \<and> ma_signed_by a \<noteq> None \<and> ma_board_signed a = ma_locked a \<and> ma_evidence a \<noteq> None)"

lemma find_survey_Some: "find_survey t i db = Some s \<Longrightarrow> s \<in> set (z_surveys db) \<and> sv_id s = i \<and> sv_tenant s = t"
  by (auto simp: find_survey_def dest: find_first_Some)

lemma get_assessment_Inr: "get_assessment t i db = Inr a \<Longrightarrow> a \<in> set (z_runs db) \<and> ma_id a = i \<and> ma_tenant a = t"
  by (auto simp: get_assessment_def split: option.splits dest: find_first_Some)

lemma move_survey_sel [simp]:
  "z_surveys (move_survey E t i actor tr f db) = update_where (\<lambda>s. sv_id s = i) f (z_surveys db)"
  "z_runs (move_survey E t i actor tr f db) = z_runs db" "z_responses (move_survey E t i actor tr f db) = z_responses db"
  by (simp_all add: move_survey_def)

text \<open>What each operation leaves alone.\<close>

lemma topic_rest: "z_surveys (snd (create_topic E t dto actor db)) = z_surveys db" "z_runs (snd (create_topic E t dto actor db)) = z_runs db"
  "z_responses (snd (create_topic E t dto actor db)) = z_responses db"
  by (simp_all add: create_topic_def Let_def)

lemma stakeholder_rest: "z_surveys (snd (create_stakeholder E t d actor db)) = z_surveys db"
  "z_runs (snd (create_stakeholder E t d actor db)) = z_runs db" "z_responses (snd (create_stakeholder E t d actor db)) = z_responses db"
  by (simp_all add: create_stakeholder_def Let_def)

lemma survey_rest: "z_runs (snd (create_survey tz p E t dto actor db)) = z_runs db"
  "z_responses (snd (create_survey tz p E t dto actor db)) = z_responses db"
  by (simp_all add: create_survey_def Let_def)

lemma launch_rest: "z_runs (snd (launch_survey E t i actor db)) = z_runs db" "z_responses (snd (launch_survey E t i actor db)) = z_responses db"
  by (simp_all add: launch_survey_def split: option.splits)

lemma close_rest: "z_runs (snd (close_survey E t i actor db)) = z_runs db" "z_responses (snd (close_survey E t i actor db)) = z_responses db"
  by (simp_all add: close_survey_def split: option.splits)

lemma submit_rest: "z_surveys (snd (submit_survey L secret E i token dto db)) = z_surveys db"
  "z_runs (snd (submit_survey L secret E i token dto db)) = z_runs db"
  by (simp_all add: submit_survey_def Let_def split: option.splits prod.splits link_scope.splits)

lemma assess_rest: "z_surveys (snd (create_assessment E t i actor db)) = z_surveys db"
  "z_responses (snd (create_assessment E t i actor db)) = z_responses db"
  by (simp_all add: create_assessment_def Let_def split: option.splits)

lemma sign_rest: "z_surveys (snd (sign_assessment E t i d actor db)) = z_surveys db"
  "z_responses (snd (sign_assessment E t i d actor db)) = z_responses db"
  by (simp_all add: sign_assessment_def Let_def split: sum.splits)

lemmas materiality_rest = topic_rest stakeholder_rest survey_rest launch_rest close_rest submit_rest assess_rest sign_rest

abbreviation survey_table :: "string \<Rightarrow> survey list \<Rightarrow> survey list \<Rightarrow> bool" where
  "survey_table \<equiv> table_move sv_id sv_tenant new_survey survey_move"

lemma move_survey_table:
  assumes "distinct (map sv_id (z_surveys db))" "find_survey t i db = Some s" "survey_move s (f s)"
  shows "survey_table t (z_surveys db) (update_where (\<lambda>s. sv_id s = i) f (z_surveys db))"
  using table_move_update[OF assms(1), of s i sv_tenant t survey_move f] find_survey_Some[OF assms(2)] assms(3) by auto

lemma launch_table:
  assumes "distinct (map sv_id (z_surveys db))"
  shows "survey_table t (z_surveys db) (z_surveys (snd (launch_survey E t i actor db)))"
proof (cases "find_survey t i db")
  case (Some s)
  then show ?thesis using move_survey_table[OF assms Some, of "launched_survey E"] launch[of s E]
    by (simp add: launch_survey_def table_move_refl)
qed (simp add: launch_survey_def table_move_refl)

lemma close_table:
  assumes "distinct (map sv_id (z_surveys db))"
  shows "survey_table t (z_surveys db) (z_surveys (snd (close_survey E t i actor db)))"
proof (cases "find_survey t i db")
  case (Some s)
  then show ?thesis using move_survey_table[OF assms Some, of "closed_survey E"] close[of s E]
    by (simp add: close_survey_def table_move_refl)
qed (simp add: close_survey_def table_move_refl)

lemma create_survey_table:
  "ev_ids E 1 \<notin> set (map sv_id (z_surveys db)) \<Longrightarrow> survey_table t (z_surveys db) (z_surveys (snd (create_survey tz p E t dto actor db)))"
  by (auto simp: create_survey_def Let_def new_survey_def table_move_refl intro!: table_move_append)

lemma materiality_surveys:
  "distinct (map sv_id (z_surveys db)) \<Longrightarrow> materiality_ok c db \<Longrightarrow>
     survey_table (materiality_tenant c) (z_surveys db) (z_surveys (materiality_step c db))"
  by (cases c) (simp_all add: materiality_rest table_move_refl launch_table close_table create_survey_table)

abbreviation run_table :: "string \<Rightarrow> assessment list \<Rightarrow> assessment list \<Rightarrow> bool" where
  "run_table \<equiv> table_move ma_id ma_tenant fresh_assessment run_move"

lemma sign_table:
  assumes "distinct (map ma_id (z_runs db))"
  shows "run_table t (z_runs db) (z_runs (snd (sign_assessment E t i d actor db)))"
proof (cases "get_assessment t i db")
  case (Inr a)
  then show ?thesis
    using table_move_update[OF assms, of a i ma_tenant t run_move "signed_assessment E (gd_evidence d) actor"]
      get_assessment_Inr[OF Inr] sign[of a E "gd_evidence d" actor]
    by (simp add: sign_assessment_def Let_def table_move_refl)
qed (simp add: sign_assessment_def table_move_refl)

lemma assess_table:
  assumes "ev_ids E 1 \<notin> set (map ma_id (z_runs db))"
  shows "run_table t (z_runs db) (z_runs (snd (create_assessment E t i actor db)))"
  using assms by (auto simp: create_assessment_def Let_def table_move_refl new_assessment_def fresh_assessment_def
      intro!: table_move_append split: option.splits)

lemma materiality_runs:
  "distinct (map ma_id (z_runs db)) \<Longrightarrow> materiality_ok c db \<Longrightarrow>
     run_table (materiality_tenant c) (z_runs db) (z_runs (materiality_step c db))"
  by (cases c) (simp_all add: materiality_rest table_move_refl sign_table assess_table)

interpretation surveys: table_system sv_id sv_tenant new_survey survey_move survey_good materiality_step materiality_ok z_surveys materiality_tenant
  by unfold_locales
    (auto elim!: survey_move_cases simp: launched_survey_def closed_survey_def new_survey_def survey_good_def materiality_surveys)

interpretation runs: table_system ma_id ma_tenant fresh_assessment run_move run_signed materiality_step materiality_ok z_runs materiality_tenant
  by unfold_locales
    (auto elim!: run_move_cases simp: signed_assessment_def run_signed_def fresh_assessment_def materiality_runs)

section \<open>Closed surveys\<close>

lemma closed_stays: "survey_move\<^sup>*\<^sup>* s s' \<Longrightarrow> sv_status s = SvClosed \<Longrightarrow> s' = s"
  by (induction rule: rtranclp_induct) (auto elim!: survey_move_cases)

lemma submit_survey_adds:
  "z_responses (snd (submit_survey L secret E i token dto db)) = z_responses db \<or>
   (\<exists>r t s. z_responses (snd (submit_survey L secret E i token dto db)) = z_responses db @ [r] \<and> vr_survey r = i \<and>
      find_survey t i db = Some s \<and> sv_status s = SvActive)"
proof (cases "link_verify L secret (ev_now E) token")
  case (Some p)
  obtain t sc tg sb where p: "p = (t, sc, tg, sb)" by (cases p)
  show ?thesis
  proof (cases "find_survey t i db")
    case (Some s)
    then show ?thesis using \<open>link_verify L secret (ev_now E) token = Some p\<close>
      by (cases sc; cases "sv_status s"; cases "va_email dto") (auto simp: submit_survey_def p Let_def)
  qed (use \<open>link_verify L secret (ev_now E) token = Some p\<close> in \<open>cases sc; simp add: submit_survey_def p\<close>)
qed (simp add: submit_survey_def)

lemma submit_other_survey:
  assumes "\<And>s. s \<in> set (z_surveys db) \<Longrightarrow> sv_id s = j \<Longrightarrow> sv_status s = SvClosed"
  shows "filter (\<lambda>r. vr_survey r = j) (z_responses (snd (submit_survey L secret E i token dto db))) =
    filter (\<lambda>r. vr_survey r = j) (z_responses db)"
  using submit_survey_adds[of L secret E i token dto db]
proof (elim disjE exE conjE)
  fix r t s
  assume a: "z_responses (snd (submit_survey L secret E i token dto db)) = z_responses db @ [r]" "vr_survey r = i"
    "find_survey t i db = Some s" "sv_status s = SvActive"
  then have "i \<noteq> j" using assms find_survey_Some[OF a(3)] by auto
  then show ?thesis using a(1,2) by simp
qed simp

text \<open>C25: A closed survey takes no more responses: whatever calls follow, its responses and the survey
  itself stay as they were.\<close>

theorem closed_survey_final:
  assumes "table_ok sv_id survey_good (z_surveys db)" "runs_ok materiality_step materiality_ok cs db"
    "s \<in> set (z_surveys db)" "sv_status s = SvClosed"
  shows "filter (\<lambda>r. vr_survey r = sv_id s) (z_responses (fold materiality_step cs db)) =
    filter (\<lambda>r. vr_survey r = sv_id s) (z_responses db) \<and> s \<in> set (z_surveys (fold materiality_step cs db))"
  using assms
proof (induction cs arbitrary: db)
  case (Cons c cs)
  let ?db = "materiality_step c db"
  have ok: "runs_ok materiality_step materiality_ok [c] db" using Cons(3) by simp
  obtain s' where s': "s' \<in> set (z_surveys ?db)" "survey_move\<^sup>*\<^sup>* s s'"
    using surveys.run_row_later[OF Cons(2) ok Cons(4)] by auto
  then have s: "s \<in> set (z_surveys ?db)" using closed_stays Cons(5) by blast
  have cl: "sv_status x = SvClosed" if "x \<in> set (z_surveys db)" "sv_id x = sv_id s" for x
    using that Cons(2,4,5) by (auto simp: table_ok_def distinct_map dest: inj_onD)
  have "filter (\<lambda>r. vr_survey r = sv_id s) (z_responses ?db) = filter (\<lambda>r. vr_survey r = sv_id s) (z_responses db)"
    using submit_other_survey[OF cl] by (cases c) (simp_all add: materiality_rest)
  then show ?case
    using Cons(1)[OF surveys.table_inv_step[OF Cons(2)] _ s Cons(5)] Cons(3) by simp
qed simp

section \<open>Signed assessments\<close>

lemma signed_stays: "run_move\<^sup>*\<^sup>* a a' \<Longrightarrow> ma_locked a \<noteq> None \<Longrightarrow> a' = a"
  by (induction rule: rtranclp_induct) (auto elim!: run_move_cases)

lemma run_data_kept: "run_move\<^sup>*\<^sup>* a a' \<Longrightarrow> ma_matrix a' = ma_matrix a \<and> ma_priority a' = ma_priority a \<and> ma_fy a' = ma_fy a \<and> ma_id a' = ma_id a"
  by (induction rule: rtranclp_induct) (auto elim!: run_move_cases simp: signed_assessment_def)

text \<open>A signed assessment is final, and its matrix was never changed on the way: after any calls a
  signed assessment is as it was, and an unsigned one still has its matrix and priorities.\<close>

theorem assessment_final:
  assumes "table_ok ma_id run_signed (z_runs db)" "runs_ok materiality_step materiality_ok cs db" "a \<in> set (z_runs db)"
  shows "\<exists>a'\<in>set (z_runs (fold materiality_step cs db)). ma_id a' = ma_id a \<and> ma_matrix a' = ma_matrix a \<and>
    ma_priority a' = ma_priority a \<and> (ma_locked a \<noteq> None \<longrightarrow> a' = a)"
  using runs.run_row_later[OF assms] run_data_kept signed_stays by blast

section \<open>The matrix\<close>

text \<open>The reference: all importances given to a topic.\<close>

definition importances :: "string \<Rightarrow> survey_response list \<Rightarrow> int list" where
  "importances topic rs = map snd (filter (\<lambda>s. fst s = topic) (concat (map vr_scores rs)))"

lemma score_table_concat: "score_table rs = fold add_score (concat (map vr_scores rs)) []"
proof -
  have "fold (\<lambda>r by_topic. fold add_score (vr_scores r) by_topic) rs tb = fold add_score (concat (map vr_scores rs)) tb" for tb
    by (induction rs arbitrary: tb) simp_all
  then show ?thesis by (simp add: score_table_def)
qed

lemma add_score_map: "map_of (add_score s tb) k =
    (if k = fst s then (case map_of tb k of None \<Rightarrow> Some (snd s, 1) | Some (sm, n) \<Rightarrow> Some (sm + snd s, n + 1)) else map_of tb k)"
  by (auto simp: add_score_def split: option.splits)

lemma fold_add_score:
  "map_of (fold add_score ss tb) k =
    (let is = map snd (filter (\<lambda>s. fst s = k) ss) in
     case map_of tb k of None \<Rightarrow> if is = [] then None else Some (sum_list is, length is)
     | Some (sm, n) \<Rightarrow> Some (sm + sum_list is, n + length is))"
proof (induction ss arbitrary: tb)
  case (Cons s ss)
  show ?case unfolding fold_Cons comp_apply Cons add_score_map by (auto simp: Let_def split: option.splits)
qed (simp add: Let_def split: option.splits)

lemma distinct_add_score: "distinct (map fst tb) \<Longrightarrow> distinct (map fst (add_score s tb))"
  by (auto simp: add_score_def distinct_upsert split: option.splits)

lemma score_table_spec:
  "distinct (map fst (score_table rs))"
  "map_of (score_table rs) k = (if importances k rs = [] then None else Some (sum_list (importances k rs), length (importances k rs)))"
proof -
  have "distinct (map fst (fold add_score ss tb))" if "distinct (map fst tb)" for ss tb
    using that by (induction ss arbitrary: tb) (simp_all add: distinct_add_score)
  then show "distinct (map fst (score_table rs))" by (simp add: score_table_concat)
  show "map_of (score_table rs) k = (if importances k rs = [] then None else Some (sum_list (importances k rs), length (importances k rs)))"
    by (simp add: score_table_concat fold_add_score importances_def Let_def)
qed

text \<open>C26: The matrix of an assessment has one row for each topic somebody scored, with the mean of
  all importances given to it in the responses, ordered from the highest mean to the lowest; the
  priorities are the topics of its first twelve rows.\<close>

theorem assessment_means:
  assumes "fst (create_assessment E t i actor db) = Inr a"
  defines "rs \<equiv> filter (\<lambda>r. vr_survey r = i) (z_responses db)"
  shows "distinct (map mx_topic (ma_matrix a)) \<and> sorted (map (\<lambda>m. - mx_score m) (ma_matrix a)) \<and>
    set (ma_matrix a) = {\<lparr> mx_topic = k, mx_importance = mean_number (sum_list (importances k rs)) (length (importances k rs)),
        mx_impact = 0, mx_score = mean_number (sum_list (importances k rs)) (length (importances k rs)) \<rparr> | k. importances k rs \<noteq> []} \<and>
    ma_priority a = take 12 (map mx_topic (ma_matrix a))"
proof -
  let ?row = "\<lambda>(topic, sm, n). \<lparr> mx_topic = topic, mx_importance = mean_number sm n, mx_impact = 0, mx_score = mean_number sm n \<rparr>"
  have a: "ma_matrix a = matrix_of (score_table rs)" "ma_priority a = map mx_topic (take 12 (matrix_of (score_table rs)))"
    using assms(1) unfolding rs_def by (auto simp: create_assessment_def new_assessment_def Let_def split: option.splits if_splits)
  have d: "distinct (map fst (score_table rs))" by (rule score_table_spec)
  have "map mx_topic (map ?row (score_table rs)) = map fst (score_table rs)" by (simp add: case_prod_beta')
  then have "distinct (map mx_topic (map ?row (score_table rs)))" using d by (simp only:)
  then have "distinct (map mx_topic (ma_matrix a))" unfolding a matrix_of_def by (simp only: distinct_map distinct_sort set_sort)
  moreover have "sorted (map (\<lambda>m. - mx_score m) (ma_matrix a))" by (simp add: a matrix_of_def)
  moreover have "(k, sm, n) \<in> set (score_table rs) \<longleftrightarrow> importances k rs \<noteq> [] \<and> sm = sum_list (importances k rs) \<and> n = length (importances k rs)" for k sm n
    using score_table_spec(2)[of rs k] map_of_eq_Some_iff[OF d, of k "(sm, n)"] by (auto split: if_splits)
  then have "set (ma_matrix a) = {\<lparr> mx_topic = k, mx_importance = mean_number (sum_list (importances k rs)) (length (importances k rs)),
        mx_impact = 0, mx_score = mean_number (sum_list (importances k rs)) (length (importances k rs)) \<rparr> | k. importances k rs \<noteq> []}"
  proof -
    assume m: "\<And>k sm n. (k, sm, n) \<in> set (score_table rs) \<longleftrightarrow>
        importances k rs \<noteq> [] \<and> sm = sum_list (importances k rs) \<and> n = length (importances k rs)"
    have "set (score_table rs) = (\<lambda>k. (k, sum_list (importances k rs), length (importances k rs))) ` {k. importances k rs \<noteq> []}"
      using m by (auto simp: image_iff)
    then show ?thesis unfolding a matrix_of_def set_sort set_map by (simp add: image_image setcompr_eq_image)
  qed
  ultimately show ?thesis by (simp add: a take_map)
qed

section \<open>Links\<close>

text \<open>A link that was issued for a supplier is never accepted by a survey; a link for one survey
  opens every active survey of the tenant.\<close>

theorem survey_link_scope:
  assumes "link_api_ok L" "now \<le> (ev_now E div 1000 + ttl) * 1000" "ev_now E' = now"
  shows "fst (submit_survey L secret E' i (link_sign L secret E t LinkSupplier x ttl subject) dto db) = Inl (BadRequest ''Invalid or expired token'') \<and>
    fst (submit_survey L secret E' i (link_sign L secret E t LinkSurvey x ttl subject) dto db) =
      fst (submit_survey L secret E' i (link_sign L secret E t LinkSurvey y ttl subject) dto db)"
proof -
  have "link_verify L secret (ev_now E') (link_sign L secret E t sc z ttl subject) = Some (t, sc, z, subject)" for sc z
    using assms link_verify_signed[OF refl, of L E t sc z ttl subject secret now secret] by (simp add: link_api_ok_def)
  then show ?thesis by (simp add: submit_survey_def)
qed

section \<open>Witnesses\<close>

definition sample_menv :: "string \<Rightarrow> env" where
  "sample_menv x = \<lparr> ev_now = 0, ev_ids = (\<lambda>k. x @ show_nat k), ev_audit_ok = True \<rparr>"

definition sample_survey :: "survey_status \<Rightarrow> survey" where
  "sample_survey st = \<lparr> sv_id = ''v'', sv_tenant = ''t'', sv_fy = ''FY24-25'', sv_title = ''S'', sv_status = st,
     sv_launched = Some 0, sv_closed = (if st = SvClosed then Some 1 else None), sv_by = ''u'' \<rparr>"

definition sample_vote :: "string \<Rightarrow> (string \<times> int) list \<Rightarrow> survey_response" where
  "sample_vote e ss = \<lparr> vr_id = e, vr_survey = ''v'', vr_email = e, vr_role = None, vr_at = 0, vr_scores = ss, vr_comments = None \<rparr>"

definition sample_zdb :: "survey_status \<Rightarrow> assessment list \<Rightarrow> zdb" where
  "sample_zdb st runs = \<lparr> z_topics = [], z_stakeholders = [], z_surveys = [sample_survey st],
     z_responses = [sample_vote ''a'' [(''E'', 4), (''S'', 2)], sample_vote ''b'' [(''E'', 5)]], z_runs = runs, z_audit = [] \<rparr>"

definition sample_assessment :: assessment where
  "sample_assessment = signed_assessment (sample_menv ''r'') ''s3'' ''u'' (new_assessment (sample_menv ''q'') ''t'' ''FY24-25'' [])"

lemmas sample_m_simps = sample_menv_def sample_survey_def sample_vote_def sample_zdb_def sample_assessment_def table_ok_def survey_good_def
  run_signed_def fresh_assessment_def new_assessment_def signed_assessment_def

theorem closed_survey_final_witness:
  "sample_survey SvClosed \<in> set (z_surveys (fold materiality_step [ZoLaunch (sample_menv ''a'') ''t'' ''v'' ''u''] (sample_zdb SvClosed [])))"
  using closed_survey_final[of "sample_zdb SvClosed []" "[ZoLaunch (sample_menv ''a'') ''t'' ''v'' ''u'']" "sample_survey SvClosed"]
  by (simp add: sample_m_simps)

theorem assessment_final_witness:
  "\<exists>a'\<in>set (z_runs (fold materiality_step [ZoSign (sample_menv ''a'') ''t'' ''q1'' \<lparr> gd_name = ''N'', gd_role = ''R'', gd_evidence = ''e'', gd_notes = None \<rparr> ''w'']
     (sample_zdb SvClosed [sample_assessment]))). a' = sample_assessment"
proof -
  have "table_ok ma_id run_signed (z_runs (sample_zdb SvClosed [sample_assessment]))" by (simp add: sample_m_simps Let_def)
  moreover have "runs_ok materiality_step materiality_ok [ZoSign (sample_menv ''a'') ''t'' ''q1''
      \<lparr> gd_name = ''N'', gd_role = ''R'', gd_evidence = ''e'', gd_notes = None \<rparr> ''w''] (sample_zdb SvClosed [sample_assessment])" by simp
  moreover have "sample_assessment \<in> set (z_runs (sample_zdb SvClosed [sample_assessment]))" by (simp add: sample_zdb_def)
  moreover have "ma_locked sample_assessment \<noteq> None" by (simp add: sample_assessment_def signed_assessment_def)
  ultimately show ?thesis using assessment_final by blast
qed

theorem assessment_means_witness:
  "ma_priority (new_assessment (sample_menv ''a'') ''t'' ''FY24-25'' (z_responses (sample_zdb SvClosed []))) =
     take 12 (map mx_topic (ma_matrix (new_assessment (sample_menv ''a'') ''t'' ''FY24-25'' (z_responses (sample_zdb SvClosed [])))))"
proof -
  have "filter (\<lambda>r. vr_survey r = ''v'') (z_responses (sample_zdb SvClosed [])) = z_responses (sample_zdb SvClosed [])" by (simp add: sample_m_simps)
  then have "fst (create_assessment (sample_menv ''a'') ''t'' ''v'' ''u'' (sample_zdb SvClosed [])) =
      Inr (new_assessment (sample_menv ''a'') ''t'' ''FY24-25'' (z_responses (sample_zdb SvClosed [])))"
  proof -
    assume f: "filter (\<lambda>r. vr_survey r = ''v'') (z_responses (sample_zdb SvClosed [])) = z_responses (sample_zdb SvClosed [])"
    have "find_survey ''t'' ''v'' (sample_zdb SvClosed []) = Some (sample_survey SvClosed)" "z_runs (sample_zdb SvClosed []) = []"
      by (simp_all add: find_survey_def sample_zdb_def sample_survey_def)
    then show ?thesis by (simp add: create_assessment_def Let_def f) (simp add: sample_survey_def)
  qed
  from assessment_means[OF this] show ?thesis by blast
qed

theorem survey_link_scope_witness:
  "fst (submit_survey plain_links ''k'' (sample_menv ''a'') ''v'' (link_sign plain_links ''k'' (sample_menv ''b'') ''t'' LinkSupplier ''s'' 60 None)
     \<lparr> va_name = None, va_email = Some ''e'', va_scores = [], va_comments = None \<rparr> (sample_zdb SvActive [])) = Inl (BadRequest ''Invalid or expired token'')"
proof -
  have "0 \<le> (ev_now (sample_menv ''b'') div 1000 + 60) * 1000" "ev_now (sample_menv ''a'') = 0" by (simp_all add: sample_menv_def)
  from survey_link_scope[OF plain_links_ok this, of "''k''"] show ?thesis by blast
qed

end
