(* ===== verification/Assurance.thy ===== *)
theory Assurance
  imports Extraction_Review Calc
begin

text \<open>
  Assurance (services/api/src/assurance/assurance.service.ts): snapshots of approved values with a
  hash, the lineage of a metric inside a snapshot, audit samples, and exceptions raised by the
  auditor. The values are read from the tables of the metrics and extraction services and from the
  calculation runs. The text and the number of a decimal, SHA-256 and the random draws are
  parameters.
\<close>

section \<open>Data\<close>

datatype snapshot_status = AsActive | AsSuperseded

record snapshot =
  as_id :: string
  as_tenant :: string
  as_fy :: string
  as_framework :: string
  as_scopes :: "string list"
  as_members :: "string list"
  as_note :: "string option"
  as_org :: string
  as_users :: "string list"
  as_count :: nat
  as_evidence :: nat
  as_hash :: string
  as_status :: snapshot_status
  as_report :: string
  as_at :: int

datatype exception_status = ExOpen | ExInReview | ExResponded | ExClosed

record audit_exception =
  ex_id :: string
  ex_snapshot :: string
  ex_event :: "string option"
  ex_severity :: string
  ex_description :: string
  ex_response :: "string option"
  ex_status :: exception_status
  ex_by :: string
  ex_at :: int
  ex_closed :: "int option"

datatype assurance_snap =
    SnapSnapshot snapshot
  | SnapException audit_exception
  | SnapResponder string

record 'd vdb =
  v_review :: "'d xdb"
  v_runs :: "'d calc_run list"
  v_mappings :: "framework_mapping list"
  v_snapshots :: "snapshot list"
  v_exceptions :: "audit_exception list"
  v_audit :: "assurance_snap audit_row list"

abbreviation v_events :: "'d vdb \<Rightarrow> 'd metric_event list" where
  "v_events db \<equiv> m_events (x_metrics (v_review db))"

section \<open>Snapshots\<close>

record snapshot_dto =
  nd_fy :: string
  nd_framework :: string
  nd_scopes :: "string list"
  nd_note :: "string option"

text \<open>The values of the column; another one is refused by the database client.\<close>

definition frameworks :: "string list" where
  "frameworks = [''BRSR'', ''BRSR_CORE'', ''GRI'', ''SASB'', ''TCFD'', ''IFRS_S1'', ''IFRS_S2'', ''CSRD_ESRS'', ''CDP'']"

definition snapshot_events :: "string \<Rightarrow> string list \<Rightarrow> 'd metric_event list \<Rightarrow> 'd metric_event list" where
  "snapshot_events t scopes es =
     sort_key me_id (filter (\<lambda>e. me_tenant e = t \<and> me_scope e \<in> set scopes \<and> me_status e \<in> {MApproved, MLocked}) es)"

definition anchor_json :: "('d \<Rightarrow> string) \<Rightarrow> 'd metric_event list \<Rightarrow> json" where
  "anchor_json show es =
     JArr (map (\<lambda>e. JObj [(''id'', JStr (me_id e)), (''value'', JStr (show (me_value e))), (''unit'', JStr (me_unit e))]) es)"

definition has_evidence :: "'d metric_event \<Rightarrow> bool" where
  "has_evidence e = (case me_extraction e of None \<Rightarrow> False | Some x \<Rightarrow> x \<noteq> [])"

text \<open>The request body has no auditor, so the name is always the default.\<close>

definition new_snapshot :: "('d \<Rightarrow> string) \<Rightarrow> (string \<Rightarrow> string) \<Rightarrow> env \<Rightarrow> string \<Rightarrow> snapshot_dto \<Rightarrow> 'd metric_event list \<Rightarrow> snapshot" where
  "new_snapshot show sha E t dto es =
     \<lparr> as_id = ev_ids E 1, as_tenant = t, as_fy = nd_fy dto, as_framework = nd_framework dto, as_scopes = nd_scopes dto,
       as_members = map me_id es, as_note = nd_note dto, as_org = ''TBD'', as_users = [], as_count = length es,
       as_evidence = length (filter has_evidence es), as_hash = hash_object sha (anchor_json show es),
       as_status = AsActive, as_report = [], as_at = ev_now E \<rparr>"

definition create_snapshot ::
  "('d \<Rightarrow> string) \<Rightarrow> (string \<Rightarrow> string) \<Rightarrow> env \<Rightarrow> string \<Rightarrow> snapshot_dto \<Rightarrow> string \<Rightarrow> 'd vdb \<Rightarrow> snapshot outcome \<times> 'd vdb" where
  "create_snapshot show sha E t dto actor db =
     (let s = new_snapshot show sha E t dto (snapshot_events t (nd_scopes dto) (v_events db)) in
      if nd_framework dto \<notin> set frameworks then (Inl (PrismaError ''validation''), db)
      else if \<exists>x\<in>set (v_snapshots db). as_tenant x = t \<and> as_fy x = as_fy s \<and> as_framework x = as_framework s \<and> as_at x = as_at s
      then (Inl (PrismaError ''P2002''), db)
      else (Inr s, db \<lparr> v_snapshots := v_snapshots db @ [s],
              v_audit := audit_log E (audit_entry t actor ''AssuranceSnapshot'' (Some (as_id s)) ''CREATE'' None (Some (SnapSnapshot s)) None) (v_audit db) \<rparr>))"

definition list_snapshots :: "string \<Rightarrow> 'd vdb \<Rightarrow> snapshot list" where
  "list_snapshots t db = sort_key (\<lambda>s. - as_at s) (filter (\<lambda>s. as_tenant s = t) (v_snapshots db))"

definition find_snapshot :: "string \<Rightarrow> string \<Rightarrow> 'd vdb \<Rightarrow> snapshot option" where
  "find_snapshot t i db = find_first (\<lambda>s. as_id s = i \<and> as_tenant s = t) (v_snapshots db)"

section \<open>Lineage\<close>

record 'd lineage_row =
  lr_event :: "'d metric_event"
  lr_field :: "'d extraction_field option"
  lr_document :: "document_row option"
  lr_run :: "'d calc_run option"

record 'd walk =
  wk_framework :: string
  wk_sections :: "(string \<times> string) list"
  wk_lineage :: "'d lineage_row list"

text \<open>Empty identifiers are dropped before the batched queries.\<close>

definition wanted :: "('e \<Rightarrow> string option) \<Rightarrow> 'e list \<Rightarrow> string list" where
  "wanted col es = remdups (filter (\<lambda>x. x \<noteq> []) (concat (map (\<lambda>e. case col e of None \<Rightarrow> [] | Some x \<Rightarrow> [x]) es)))"

definition lineage_of :: "string \<Rightarrow> 'd vdb \<Rightarrow> 'd metric_event list \<Rightarrow> 'd metric_event \<Rightarrow> 'd lineage_row" where
  "lineage_of t db es e =
     (let fields = filter (\<lambda>f. xf_id f \<in> set (wanted me_extraction es) \<and> xf_tenant f = t) (x_fields (v_review db));
          runs = filter (\<lambda>r. cr_id r \<in> set (wanted me_calc_run es) \<and> cr_tenant r = t) (v_runs db);
          field = find_first (\<lambda>f. Some (xf_id f) = me_extraction e) fields
      in \<lparr> lr_event = e, lr_field = field,
           lr_document = (case field of None \<Rightarrow> None | Some f \<Rightarrow> document_of (v_review db) f),
           lr_run = find_first (\<lambda>r. Some (cr_id r) = me_calc_run e) runs \<rparr>)"

definition walkthrough :: "string \<Rightarrow> string \<Rightarrow> string \<Rightarrow> 'd vdb \<Rightarrow> 'd walk outcome" where
  "walkthrough t i k db =
     (case find_snapshot t i db of
        None \<Rightarrow> Inl (NotFound ''Snapshot not found'')
      | Some s \<Rightarrow>
         (let es = filter (\<lambda>e. me_id e \<in> set (as_members s) \<and> me_tenant e = t \<and> me_key e = k) (v_events db) in
          Inr \<lparr> wk_framework = as_framework s,
                wk_sections = map (\<lambda>m. (case fm_section m of None \<Rightarrow> fm_code m | Some c \<Rightarrow> c, fm_code m))
                  (filter (\<lambda>m. fm_framework m = as_framework s \<and> k \<in> set (fm_keys m)) (v_mappings db)),
                wk_lineage = map (lineage_of t db es) es \<rparr>))"

section \<open>Samples\<close>

definition swap :: "'a list \<Rightarrow> nat \<Rightarrow> nat \<Rightarrow> 'a list" where
  "swap xs i j = xs[i := xs ! j, j := xs ! i]"

text \<open>
  The loop of the shuffle from the last index down to one: \<open>draw i\<close> is the number
  \<open>Math.floor(Math.random() * (i + 1))\<close> drawn in the step of index \<open>i\<close>, at most \<open>i\<close>.
\<close>

fun shuffle_loop :: "(nat \<Rightarrow> nat) \<Rightarrow> nat \<Rightarrow> 'a list \<Rightarrow> 'a list" where
  "shuffle_loop draw 0 xs = xs"
| "shuffle_loop draw (Suc i) xs = shuffle_loop draw i (swap xs (Suc i) (draw (Suc i)))"

definition shuffle :: "(nat \<Rightarrow> nat) \<Rightarrow> 'a list \<Rightarrow> 'a list" where
  "shuffle draw xs = shuffle_loop draw (length xs - 1) xs"

datatype sampling = SampleRandom | SampleStratified | SampleHighValue

text \<open>Buckets in the order in which their keys first occur, each in the order of the items.\<close>

definition add_bucket :: "('e \<Rightarrow> string) \<Rightarrow> 'e \<Rightarrow> (string \<times> 'e list) list \<Rightarrow> (string \<times> 'e list) list" where
  "add_bucket k it bs = upsert (k it) ((case map_of bs (k it) of None \<Rightarrow> [] | Some a \<Rightarrow> a) @ [it]) bs"

definition buckets_of :: "('e \<Rightarrow> string) \<Rightarrow> 'e list \<Rightarrow> (string \<times> 'e list) list" where
  "buckets_of k items = fold (add_bucket k) items []"

text \<open>The n-th shuffle of a request has its own draws.\<close>

definition stratified :: "(nat \<Rightarrow> nat \<Rightarrow> nat) \<Rightarrow> ('e \<Rightarrow> string) \<Rightarrow> nat \<Rightarrow> 'e list \<Rightarrow> 'e list" where
  "stratified draws k sz items =
     (let bs = buckets_of k items; per = max 1 (sz div length bs)
      in take sz (concat (map (\<lambda>(n, b). take per (shuffle (draws n) (snd b))) (enumerate 0 bs))))"

definition sample_items :: "('d \<Rightarrow> rat) \<Rightarrow> (nat \<Rightarrow> nat \<Rightarrow> nat) \<Rightarrow> sampling \<Rightarrow> nat \<Rightarrow> 'd metric_event list \<Rightarrow> 'd metric_event list" where
  "sample_items number draws m sz items =
     (case m of
        SampleRandom \<Rightarrow> take sz (shuffle (draws 0) items)
      | SampleHighValue \<Rightarrow> take sz (sort_key (\<lambda>e. - number (me_value e)) items)
      | SampleStratified \<Rightarrow> stratified draws me_key sz items)"

definition sample_snapshot ::
  "('d \<Rightarrow> rat) \<Rightarrow> (nat \<Rightarrow> nat \<Rightarrow> nat) \<Rightarrow> string \<Rightarrow> string \<Rightarrow> sampling \<Rightarrow> int \<Rightarrow> string option \<Rightarrow> 'd vdb \<Rightarrow> 'd metric_event list outcome" where
  "sample_snapshot number draws t i m sz key db =
     (case find_snapshot t i db of
        None \<Rightarrow> Inl (NotFound ''Snapshot not found'')
      | Some s \<Rightarrow>
         (let items = filter (\<lambda>e. me_id e \<in> set (as_members s) \<and> me_tenant e = t \<and>
                 (case key of None \<Rightarrow> True | Some k \<Rightarrow> k = [] \<or> me_key e = k)) (v_events db)
          in if items = [] then Inr []
             else Inr (sample_items number draws m (nat (min (max 1 sz) (int (length items)))) items)))"

section \<open>Exceptions\<close>

definition snapshot_of_tenant :: "string \<Rightarrow> 'd vdb \<Rightarrow> string \<Rightarrow> bool" where
  "snapshot_of_tenant t db i = (\<exists>s\<in>set (v_snapshots db). as_id s = i \<and> as_tenant s = t)"

definition list_exceptions :: "string \<Rightarrow> string option \<Rightarrow> 'd vdb \<Rightarrow> audit_exception list" where
  "list_exceptions t snap db =
     sort_key (\<lambda>e. - ex_at e) (filter (\<lambda>e. snapshot_of_tenant t db (ex_snapshot e) \<and>
       (case snap of None \<Rightarrow> True | Some s \<Rightarrow> s = [] \<or> ex_snapshot e = s)) (v_exceptions db))"

record exception_dto =
  xd_snapshot :: string
  xd_event :: "string option"
  xd_severity :: string
  xd_title :: "string option"
  xd_description :: "string option"

definition new_exception :: "env \<Rightarrow> exception_dto \<Rightarrow> string \<Rightarrow> audit_exception" where
  "new_exception E dto actor =
     \<lparr> ex_id = ev_ids E 1, ex_snapshot = xd_snapshot dto, ex_event = xd_event dto, ex_severity = js_upper (xd_severity dto),
       ex_description = (case xd_description dto of Some d \<Rightarrow> d | None \<Rightarrow> (case xd_title dto of Some x \<Rightarrow> x | None \<Rightarrow> [])),
       ex_response = None, ex_status = ExOpen, ex_by = actor, ex_at = ev_now E, ex_closed = None \<rparr>"

definition create_exception :: "env \<Rightarrow> string \<Rightarrow> exception_dto \<Rightarrow> string \<Rightarrow> 'd vdb \<Rightarrow> audit_exception outcome \<times> 'd vdb" where
  "create_exception E t dto actor db =
     (if xd_snapshot dto = [] then (Inl (BadRequest ''snapshotId is required''), db)
      else if \<not> snapshot_of_tenant t db (xd_snapshot dto) then (Inl (NotFound ''Snapshot not found in this tenant''), db)
      else if js_upper (xd_severity dto) \<notin> {''LOW'', ''MEDIUM'', ''HIGH''} then (Inl (BadRequest ''severity must be LOW|MEDIUM|HIGH''), db)
      else (let e = new_exception E dto actor in
            (Inr e, db \<lparr> v_exceptions := v_exceptions db @ [e],
               v_audit := audit_log E (audit_entry t actor ''AuditException'' (Some (ex_id e)) ''CREATE'' None (Some (SnapException e)) None) (v_audit db) \<rparr>)))"

definition answered_exception :: "env \<Rightarrow> string option \<Rightarrow> exception_status \<Rightarrow> audit_exception \<Rightarrow> audit_exception" where
  "answered_exception E response st e =
     e \<lparr> ex_response := response, ex_status := st, ex_closed := (if st = ExClosed then Some (ev_now E) else ex_closed e) \<rparr>"

text \<open>The class of the body allows the states other than OPEN.\<close>

definition respond_exception ::
  "env \<Rightarrow> string \<Rightarrow> string \<Rightarrow> string option \<Rightarrow> exception_status option \<Rightarrow> string \<Rightarrow> 'd vdb \<Rightarrow> audit_exception outcome \<times> 'd vdb" where
  "respond_exception E t i response status actor db =
     (case find_first (\<lambda>e. ex_id e = i \<and> snapshot_of_tenant t db (ex_snapshot e)) (v_exceptions db) of
        None \<Rightarrow> (Inl (NotFound ''Exception not found''), db)
      | Some e \<Rightarrow>
         (let st = keep status ExResponded in
          if ex_status e = ExClosed \<and> st \<noteq> ExClosed then (Inl (BadRequest ''Cannot reopen a CLOSED exception''), db)
          else (Inr (answered_exception E response st e),
            db \<lparr> v_exceptions := update_where (\<lambda>x. ex_id x = i) (answered_exception E response st) (v_exceptions db),
                 v_audit := audit_log E (audit_entry t actor ''AuditException'' (Some i) ''UPDATE'' (Some (SnapException e))
                   (Some (SnapException (answered_exception E response st e))) (Some (SnapResponder actor))) (v_audit db) \<rparr>)))"

section \<open>The system\<close>

text \<open>The auditor's operations next to review and metrics.\<close>

datatype 'd assurance_op =
    VoSnapshot "'d \<Rightarrow> string" "string \<Rightarrow> string" env string snapshot_dto string
  | VoRaise env string exception_dto string
  | VoRespond env string string "string option" "exception_status option" string
  | VoReview "'d field_op"

fun assurance_step :: "'d assurance_op \<Rightarrow> 'd vdb \<Rightarrow> 'd vdb" where
  "assurance_step (VoSnapshot show sha E t dto actor) db = snd (create_snapshot show sha E t dto actor db)"
| "assurance_step (VoRaise E t dto actor) db = snd (create_exception E t dto actor db)"
| "assurance_step (VoRespond E t i response status actor) db = snd (respond_exception E t i response status actor db)"
| "assurance_step (VoReview c) db = db \<lparr> v_review := field_step c (v_review db) \<rparr>"

fun assurance_ok :: "'d assurance_op \<Rightarrow> 'd vdb \<Rightarrow> bool" where
  "assurance_ok (VoSnapshot show sha E t dto actor) db \<longleftrightarrow> ev_ids E 1 \<notin> set (map as_id (v_snapshots db))"
| "assurance_ok (VoRaise E t dto actor) db \<longleftrightarrow> ev_ids E 1 \<notin> set (map ex_id (v_exceptions db))"
| "assurance_ok (VoRespond E t i response status actor) db \<longleftrightarrow> True"
| "assurance_ok (VoReview c) db \<longleftrightarrow> field_ok c (v_review db)"

end
