(* ===== verification/Assurance_Props.thy ===== *)
theory Assurance_Props
  imports Assurance Extraction_Props "HOL-Library.Multiset"
begin

text \<open>
  What the auditor can rely on: the hash of a snapshot stays the hash of its members, because
  approved values are final in the services underneath; the lineage of a promoted value is found;
  samples are members of the snapshot in every random outcome, and the shuffle can produce every
  order; closed exceptions stay closed.
\<close>

section \<open>The shuffle\<close>

lemma length_swap [simp]: "length (swap xs i j) = length xs"
  by (simp add: swap_def)

lemma mset_swap: "i < length xs \<Longrightarrow> j < length xs \<Longrightarrow> mset (swap xs i j) = mset xs"
  by (simp add: swap_def mset_update nth_list_update)

lemma nth_swap: "i < length xs \<Longrightarrow> j < length xs \<Longrightarrow> swap xs i j ! k = (if k = i then xs ! j else if k = j then xs ! i else xs ! k)"
  by (auto simp: swap_def nth_list_update)

lemma shuffle_loop_mset:
  "(\<And>i. draw i \<le> i) \<Longrightarrow> i < length xs \<Longrightarrow> mset (shuffle_loop draw i xs) = mset xs"
proof (induction draw i xs rule: shuffle_loop.induct)
  case (2 draw i xs)
  have "draw (Suc i) < length xs" using 2(2)[of "Suc i"] 2(3) by linarith
  then show ?case using 2 mset_swap[of "Suc i" xs "draw (Suc i)"] by simp
qed simp

lemma shuffle_mset:
  assumes "\<And>i. draw i \<le> i"
  shows "mset (shuffle draw xs) = mset xs"
proof (cases xs)
  case Nil
  then show ?thesis by (simp add: shuffle_def)
next
  case (Cons x ys)
  then show ?thesis using shuffle_loop_mset[OF assms, of "length xs - 1" xs] by (simp add: shuffle_def)
qed

lemma shuffle_loop_cong: "(\<And>j. j \<le> i \<Longrightarrow> d j = d' j) \<Longrightarrow> shuffle_loop d i xs = shuffle_loop d' i xs"
  by (induction i arbitrary: xs) simp_all

lemma shuffle_loop_reaches:
  "i < length xs \<Longrightarrow> length ys = length xs \<Longrightarrow> drop (Suc i) xs = drop (Suc i) ys \<Longrightarrow> mset (take (Suc i) xs) = mset (take (Suc i) ys) \<Longrightarrow>
     \<exists>draw. (\<forall>i. draw i \<le> i) \<and> shuffle_loop draw i xs = ys"
proof (induction i arbitrary: xs)
  case 0
  have "take (Suc 0) xs = take (Suc 0) ys"
    using 0(4) 0(1,2) by (cases xs; cases ys) auto
  then have "xs = ys" using 0(3) append_take_drop_id by metis
  then show ?case by (intro exI[of _ "\<lambda>i. 0"]) simp
next
  case (Suc i)
  have y: "ys ! Suc i \<in> set (take (Suc (Suc i)) ys)" using Suc(2,3) by (auto simp: in_set_conv_nth intro!: exI[of _ "Suc i"])
  then have "ys ! Suc i \<in> set (take (Suc (Suc i)) xs)" using Suc(5) by (metis set_mset_mset)
  then obtain j where j: "j \<le> Suc i" "xs ! j = ys ! Suc i" using Suc(2) by (auto simp: in_set_conv_nth less_Suc_eq_le)
  let ?zs = "swap xs (Suc i) j"
  have jl: "j < length xs" using j(1) Suc(2) by linarith
  have z: "?zs ! Suc i = ys ! Suc i" using nth_swap[OF Suc(2) jl] j(2) by simp
  have d: "drop (Suc (Suc i)) ?zs = drop (Suc (Suc i)) ys"
    using Suc(4) j(1) by (simp add: swap_def)
  have dz: "drop (Suc i) ?zs = drop (Suc i) ys"
    using z d Suc(2,3) by (metis Cons_nth_drop_Suc length_swap)
  have "mset (take (Suc (Suc i)) ?zs) + mset (drop (Suc (Suc i)) ?zs) = mset (take (Suc (Suc i)) xs) + mset (drop (Suc (Suc i)) xs)"
    using mset_swap[OF Suc(2) jl] by (metis append_take_drop_id mset_append)
  then have "mset (take (Suc (Suc i)) ?zs) = mset (take (Suc (Suc i)) ys)" using d Suc(4,5) by simp
  moreover have "take (Suc (Suc i)) ?zs = take (Suc i) ?zs @ [ys ! Suc i]" using z Suc(2) by (simp add: take_Suc_conv_app_nth)
  moreover have "take (Suc (Suc i)) ys = take (Suc i) ys @ [ys ! Suc i]" using Suc(2,3) by (simp add: take_Suc_conv_app_nth)
  ultimately have "mset (take (Suc i) ?zs) = mset (take (Suc i) ys)" by simp
  then obtain draw where dr: "\<forall>i. draw i \<le> i" "shuffle_loop draw i ?zs = ys"
    using Suc(1)[of ?zs] Suc(2,3) dz by auto
  let ?draw = "draw(Suc i := j)"
  have "shuffle_loop ?draw i ?zs = ys" using dr(2) shuffle_loop_cong[where d = ?draw and d' = draw and i = i and xs = ?zs] by simp
  then show ?case using dr(1) j(1) by (intro exI[of _ ?draw]) (simp add: fun_upd_def)
qed

text \<open>The shuffle is a permutation for every outcome of the draws, and every order of the items is
  the outcome of some draws.\<close>

theorem shuffle_permutes:
  "{shuffle draw xs | draw. \<forall>i. draw i \<le> i} = {ys. mset ys = mset xs}"
proof (intro equalityI subsetI)
  fix ys assume "ys \<in> {ys. mset ys = mset xs}"
  then have m: "mset ys = mset xs" by simp
  then have l: "length ys = length xs" by (rule mset_eq_length)
  have "\<exists>draw. (\<forall>i. draw i \<le> i) \<and> shuffle draw xs = ys"
  proof (cases xs)
    case Nil
    then show ?thesis using m by (intro exI[of _ "\<lambda>i. 0"]) (simp add: shuffle_def)
  next
    case (Cons x zs)
    then show ?thesis using shuffle_loop_reaches[of "length xs - 1" xs ys] l m by (simp add: shuffle_def)
  qed
  then show "ys \<in> {shuffle draw xs | draw. \<forall>i. draw i \<le> i}" by blast
qed (auto simp: shuffle_mset)

section \<open>Samples\<close>

lemma set_shuffle: "(\<And>i. draw i \<le> i) \<Longrightarrow> set (shuffle draw xs) = set xs"
  using shuffle_mset[of draw xs] by (metis set_mset_mset)

lemma length_shuffle: "(\<And>i. draw i \<le> i) \<Longrightarrow> length (shuffle draw xs) = length xs"
  using shuffle_mset[of draw xs] by (rule mset_eq_length)

lemma distinct_shuffle: "(\<And>i. draw i \<le> i) \<Longrightarrow> distinct (shuffle draw xs) = distinct xs"
  using shuffle_mset[of draw xs] by (rule mset_eq_imp_distinct_iff)

text \<open>The buckets divide the items.\<close>

lemma mset_add_bucket: "distinct (map fst bs) \<Longrightarrow> mset (concat (map snd (add_bucket k it bs))) = add_mset it (mset (concat (map snd bs)))"
proof (induction bs)
  case (Cons b bs)
  obtain q a where b: "b = (q, a)" by (cases b)
  show ?case
  proof (cases "q = k it")
    case True
    then show ?thesis by (simp add: b add_bucket_def)
  next
    case False
    then show ?thesis using Cons by (simp add: b add_bucket_def)
  qed
qed (simp add: add_bucket_def)

lemma distinct_add_bucket: "distinct (map fst bs) \<Longrightarrow> distinct (map fst (add_bucket k it bs))"
  by (simp add: add_bucket_def distinct_upsert)

lemma buckets_of_mset: "mset (concat (map snd (buckets_of k items))) = mset items" "distinct (map fst (buckets_of k items))"
proof -
  have "distinct (map fst bs) \<Longrightarrow> mset (concat (map snd (fold (add_bucket k) items bs))) = mset items + mset (concat (map snd bs)) \<and>
      distinct (map fst (fold (add_bucket k) items bs))" for bs
    by (induction items arbitrary: bs) (simp_all add: mset_add_bucket distinct_add_bucket)
  from this[of "[]"] show "mset (concat (map snd (buckets_of k items))) = mset items" "distinct (map fst (buckets_of k items))"
    by (simp_all add: buckets_of_def)
qed

text \<open>Taking a part of each shuffled bucket gives a part of the items.\<close>

lemma picked_subset:
  assumes "\<And>n i. draws n i \<le> i"
  shows "mset (concat (map (\<lambda>(n, b). take per (shuffle (draws n) (snd b))) (enumerate m bs))) \<subseteq># mset (concat (map snd bs))"
proof (induction bs arbitrary: m)
  case (Cons b bs)
  have "mset (take per (shuffle (draws m) (snd b))) \<subseteq># mset (shuffle (draws m) (snd b))"
    by (metis append_take_drop_id mset_append mset_subset_eq_add_left)
  then have "mset (take per (shuffle (draws m) (snd b))) \<subseteq># mset (snd b)" using shuffle_mset[of "draws m" "snd b"] assms by simp
  then show ?case using Cons[of "Suc m"] by (simp add: subset_mset.add_mono)
qed simp

lemma take_submset: "mset (take n xs) \<subseteq># mset xs"
  by (metis append_take_drop_id mset_append mset_subset_eq_add_left)

lemma submset_distinct:
  assumes "mset xs \<subseteq># mset ys" "distinct ys"
  shows "distinct xs"
proof -
  obtain zs where "mset ys = mset (xs @ zs)" using assms(1) by (metis ex_mset mset_append mset_subset_eq_exists_conv)
  then have "distinct (xs @ zs)" using assms(2) mset_eq_imp_distinct_iff by blast
  then show ?thesis by simp
qed

lemma sample_items_submset:
  assumes "\<And>n i. draws n i \<le> i"
  shows "mset (sample_items number draws m sz items) \<subseteq># mset items"
proof (cases m)
  case SampleRandom
  then show ?thesis using take_submset[of sz "shuffle (draws 0) items"] shuffle_mset[of "draws 0" items] assms by (simp add: sample_items_def)
next
  case SampleHighValue
  then show ?thesis using take_submset[of sz "sort_key (\<lambda>e. - number (me_value e)) items"] by (simp add: sample_items_def)
next
  case SampleStratified
  let ?per = "max 1 (sz div length (buckets_of me_key items))"
  have "mset (stratified draws me_key sz items) \<subseteq>#
      mset (concat (map (\<lambda>(n, b). take ?per (shuffle (draws n) (snd b))) (enumerate 0 (buckets_of me_key items))))"
    by (simp add: stratified_def Let_def take_submset)
  also have "\<dots> \<subseteq># mset (concat (map snd (buckets_of me_key items)))" using assms by (rule picked_subset)
  finally show ?thesis using SampleStratified by (simp add: sample_items_def buckets_of_mset)
qed

text \<open>A sample consists of events of the tenant in the snapshot (with the requested metric, if one was
  given), each at most once, and is no longer than requested; a random sample and one of the highest
  values have exactly the requested number of items, or all there are.\<close>

theorem sample_sound:
  assumes "\<forall>n i. draws n i \<le> i" "find_snapshot t i db = Some s" "distinct (map me_id (v_events db))"
    "sample_snapshot number draws t i m sz key db = Inr es"
  defines "items \<equiv> filter (\<lambda>e. me_id e \<in> set (as_members s) \<and> me_tenant e = t \<and>
      (case key of None \<Rightarrow> True | Some k \<Rightarrow> k = [] \<or> me_key e = k)) (v_events db)"
  shows "set es \<subseteq> set items \<and> distinct es \<and> int (length es) \<le> max 1 sz \<and>
    (m \<noteq> SampleStratified \<longrightarrow> int (length es) = min (max 1 sz) (int (length items)))"
proof (cases "items = []")
  case True
  then show ?thesis using assms by (simp add: sample_snapshot_def)
next
  case False
  let ?n = "nat (min (max 1 sz) (int (length items)))"
  have es: "es = sample_items number draws m ?n items" using assms False by (simp add: sample_snapshot_def Let_def)
  have sub: "mset es \<subseteq># mset items" unfolding es by (rule sample_items_submset) (use assms(1) in simp)
  have "distinct (v_events db)" using assms(3) by (simp add: distinct_map)
  then have "distinct es" using submset_distinct[OF sub] by (simp add: items_def)
  moreover have "set es \<subseteq> set items" using sub by (metis set_mset_mono set_mset_mset)
  moreover have "length es \<le> ?n" unfolding es by (cases m) (simp_all add: sample_items_def stratified_def Let_def)
  moreover have "length es = ?n" if "m \<noteq> SampleStratified"
    using that length_shuffle[of "draws 0" items] assms(1) unfolding es by (cases m) (simp_all add: sample_items_def)
  ultimately show ?thesis by auto
qed

section \<open>The anchor\<close>

text \<open>The hash over given members as they are in the table now.\<close>

definition recomputed_hash :: "('d \<Rightarrow> string) \<Rightarrow> (string \<Rightarrow> string) \<Rightarrow> string list \<Rightarrow> 'd metric_event list \<Rightarrow> string" where
  "recomputed_hash show sha ids es = hash_object sha (anchor_json show (sort_key me_id (filter (\<lambda>e. me_id e \<in> set ids) es)))"

text \<open>The part of an event the hash covers.\<close>

abbreviation hashed :: "'d metric_event \<Rightarrow> string \<times> 'd \<times> string" where
  "hashed e \<equiv> (me_id e, me_value e, me_unit e)"

lemma anchor_json_map:
  "anchor_json show es = JArr (map (\<lambda>(i, v, u). JObj [(''id'', JStr i), (''value'', JStr (show v)), (''unit'', JStr u)]) (map hashed es))"
  by (simp add: anchor_json_def)

lemma anchor_json_hashed: "map hashed es = map hashed es' \<Longrightarrow> anchor_json show es = anchor_json show es'"
  unfolding anchor_json_map by (rule arg_cong)

lemma map_sort_key: "(\<And>x. g (f x) = k x) \<Longrightarrow> map f (sort_key k xs) = sort_key g (map f xs)"
proof -
  assume g: "\<And>x. g (f x) = k x"
  have "map f (insort_key k x ys) = insort_key g (f x) (map f ys)" for x ys by (induction ys) (simp_all add: g)
  then show ?thesis by (induction xs) simp_all
qed

lemma approved_moves:
  "event_step\<^sup>*\<^sup>* e e' \<Longrightarrow> me_status e \<in> {MApproved, MLocked} \<Longrightarrow> hashed e' = hashed e"
  using locked_stays[of e e'] approved_stays[of e e'] by auto

lemma members_kept:
  assumes "list_all2 event_step\<^sup>*\<^sup>* es moved" "\<forall>e\<in>set es. me_id e \<in> M \<longrightarrow> me_status e \<in> {MApproved, MLocked}"
  shows "map hashed (filter (\<lambda>e. me_id e \<in> M) moved) = map hashed (filter (\<lambda>e. me_id e \<in> M) es)"
  using assms
proof (induction rule: list_all2_induct)
  case (Cons x xs y ys)
  have "me_id y = me_id x" using reviewed_events.moves_keep[OF Cons(1)] by simp
  then show ?case using Cons approved_moves[OF Cons(1)] by auto
qed simp

text \<open>C13: The anchor of a snapshot stays true: after any later calls of the metrics and extraction services
  the members of a snapshot are still there and hash to the value stored with it.\<close>

theorem snapshot_hash_stable:
  assumes "table_ok me_id signed_off (v_events db)" "fst (create_snapshot show sha E t dto actor db) = Inr s"
    "runs_ok field_step field_ok cs (v_review db)"
  shows "recomputed_hash show sha (as_members s) (m_events (x_metrics (fold field_step cs (v_review db)))) = as_hash s"
proof -
  let ?es = "v_events db" and ?es' = "m_events (x_metrics (fold field_step cs (v_review db)))"
  let ?P = "\<lambda>e. me_tenant e = t \<and> me_scope e \<in> set (nd_scopes dto) \<and> me_status e \<in> {MApproved, MLocked}"
  let ?M = "set (as_members s)"
  have s: "s = new_snapshot show sha E t dto (snapshot_events t (nd_scopes dto) ?es)"
    using assms(2) by (auto simp: create_snapshot_def Let_def split: if_splits)
  have M: "?M = me_id ` {e \<in> set ?es. ?P e}" by (auto simp: s new_snapshot_def snapshot_events_def)
  have d: "distinct (map me_id ?es)" using assms(1) by (simp add: table_ok_def)
  have P: "me_id e \<in> ?M \<longleftrightarrow> ?P e" if "e \<in> set ?es" for e
    using that d unfolding M by (auto simp: distinct_map dest: inj_onD)
  then have appr: "\<forall>e\<in>set ?es. me_id e \<in> ?M \<longrightarrow> me_status e \<in> {MApproved, MLocked}" by blast
  have "table_later event_step ?es ?es'" using reviewed_events.history.run_rel assms(1,3) by blast
  then obtain moved new where mn: "?es' = moved @ new" "list_all2 event_step\<^sup>*\<^sup>* ?es moved" by (auto simp: table_later_def)
  have mi: "map me_id moved = map me_id ?es"
    using mn(2) by (induction rule: list_all2_induct) (auto dest: reviewed_events.moves_keep)
  have "distinct (map me_id ?es')" using reviewed_events.scoped.run_inv[OF assms(1,3)] by (simp add: table_ok_def)
  then have fresh: "me_id e \<notin> me_id ` set moved" if "e \<in> set new" for e using that unfolding mn(1) by auto
  have "me_id ` set moved = me_id ` set ?es" using arg_cong[OF mi, of set] by simp
  then have "?M \<subseteq> me_id ` set moved" unfolding M by auto
  then have "me_id e \<notin> ?M" if "e \<in> set new" for e using fresh[OF that] by (rule contra_subsetD)
  then have "filter (\<lambda>e. me_id e \<in> ?M) new = []" by (simp add: filter_empty_conv)
  then have "map hashed (filter (\<lambda>e. me_id e \<in> ?M) ?es') = map hashed (filter (\<lambda>e. me_id e \<in> ?M) ?es)"
    using members_kept[OF mn(2) appr] by (simp add: mn(1))
  then have hm: "map hashed (sort_key me_id (filter (\<lambda>e. me_id e \<in> ?M) ?es')) = map hashed (sort_key me_id (filter (\<lambda>e. me_id e \<in> ?M) ?es))"
    by (simp add: map_sort_key[of fst hashed])
  have sk: "sort_key me_id (filter (\<lambda>e. me_id e \<in> ?M) ?es) = snapshot_events t (nd_scopes dto) ?es"
  proof -
    have "filter (\<lambda>e. me_id e \<in> ?M) ?es = filter ?P ?es" by (rule filter_cong[OF refl]) (rule P)
    then show ?thesis by (simp add: snapshot_events_def)
  qed
  have hs: "as_hash s = hash_object sha (anchor_json show (snapshot_events t (nd_scopes dto) ?es))"
    by (subst s) (simp add: new_snapshot_def)
  show ?thesis unfolding recomputed_hash_def hs by (simp only: anchor_json_hashed[OF hm] sk)
qed

section \<open>Lineage\<close>

text \<open>Every promoted value is traced: in a database reached from a sound one, each row of a
  walkthrough whose event comes from an extraction shows the field, of the same tenant, with the
  requested metric, and the document of that field.\<close>

theorem walkthrough_traces:
  assumes "sources_ok (v_review db)" "runs_ok field_step field_fair cs (v_review db)"
    "walkthrough t i k (db \<lparr> v_review := fold field_step cs (v_review db) \<rparr>) = Inr w"
    "row \<in> set (wk_lineage w)" "me_extraction (lr_event row) = Some x" "x \<noteq> []"
  shows "\<exists>f. lr_field row = Some f \<and> xf_id f = x \<and> xf_tenant f = t \<and> xf_key f = k \<and>
    lr_document row = document_of (fold field_step cs (v_review db)) f"
proof -
  let ?db = "db \<lparr> v_review := fold field_step cs (v_review db) \<rparr>"
  have ok: "sources_ok (v_review ?db)" using sources.run_inv[OF assms(1,2)] by simp
  obtain M where es: "row \<in> lineage_of t ?db (filter (\<lambda>e. me_id e \<in> M \<and> me_tenant e = t \<and> me_key e = k) (v_events ?db)) `
      set (filter (\<lambda>e. me_id e \<in> M \<and> me_tenant e = t \<and> me_key e = k) (v_events ?db))"
    using assms(3,4) by (auto simp: walkthrough_def Let_def split: option.splits)
  define es where "es = filter (\<lambda>e. me_id e \<in> M \<and> me_tenant e = t \<and> me_key e = k) (v_events ?db)"
  obtain e where e: "e \<in> set es" "row = lineage_of t ?db es e" using es unfolding es_def by blast
  have src: "me_extraction e = Some x" using assms(5) e(2) by (simp add: lineage_of_def Let_def)
  have "traced (x_fields (v_review ?db)) e" "me_tenant e = t" "me_key e = k" using ok e(1) by (auto simp: sources_ok_def es_def)
  then obtain f where f: "f \<in> set (x_fields (v_review ?db))" "xf_id f = x" "xf_tenant f = t" "xf_key f = k"
    using src by (auto simp: traced_def sourced_def)
  have w: "x \<in> set (wanted me_extraction es)" using e(1) src assms(6) by (force simp: wanted_def)
  have d: "distinct (map xf_id (filter (\<lambda>f. xf_id f \<in> set (wanted me_extraction es) \<and> xf_tenant f = t) (x_fields (v_review ?db))))"
    using ok by (simp add: sources_ok_def distinct_map_filter)
  have "find_first (\<lambda>f. Some (xf_id f) = me_extraction e)
      (filter (\<lambda>f. xf_id f \<in> set (wanted me_extraction es) \<and> xf_tenant f = t) (x_fields (v_review ?db))) = Some f"
    by (rule find_first_unique[OF d]) (use f w src in auto)
  then show ?thesis using f e(2) by (simp add: lineage_of_def Let_def)
qed

section \<open>Exceptions\<close>

definition closed_mark :: "audit_exception \<Rightarrow> bool" where
  "closed_mark e \<longleftrightarrow> ex_status e = ExClosed \<and> ex_closed e \<noteq> None"

inductive exception_move :: "audit_exception \<Rightarrow> audit_exception \<Rightarrow> bool" where
  answer: "ex_status e = ExClosed \<longrightarrow> st = ExClosed \<Longrightarrow> exception_move e (answered_exception E response st e)"

inductive_cases exception_move_cases: "exception_move e e'"

definition exception_good :: "audit_exception \<Rightarrow> bool" where
  "exception_good e \<longleftrightarrow> (ex_status e = ExClosed \<longleftrightarrow> ex_closed e \<noteq> None)"

definition new_open :: "audit_exception \<Rightarrow> bool" where
  "new_open e \<longleftrightarrow> ex_status e = ExOpen \<and> ex_closed e = None"

lemma assurance_step_exceptions:
  assumes "distinct (map ex_id (v_exceptions db))" "assurance_ok c db"
  shows "table_move ex_id (\<lambda>_. []) new_open exception_move [] (v_exceptions db) (v_exceptions (assurance_step c db))"
proof (cases c)
  case (VoRaise E t dto actor)
  then show ?thesis using assms(2)
    by (auto simp: create_exception_def new_exception_def new_open_def Let_def table_move_refl intro!: table_move_append)
next
  case (VoRespond E t i response status actor)
  show ?thesis
  proof (cases "find_first (\<lambda>e. ex_id e = i \<and> snapshot_of_tenant t db (ex_snapshot e)) (v_exceptions db)")
    case (Some e)
    have e: "e \<in> set (v_exceptions db)" "ex_id e = i" using find_first_Some[OF Some] by simp_all
    show ?thesis
    proof (cases "ex_status e = ExClosed \<and> keep status ExResponded \<noteq> ExClosed")
      case False
      then have "exception_move e (answered_exception E response (keep status ExResponded) e)" by (auto intro: answer)
      then have "table_move ex_id (\<lambda>_. []) new_open exception_move [] (v_exceptions db)
          (update_where (\<lambda>x. ex_id x = i) (answered_exception E response (keep status ExResponded)) (v_exceptions db))"
        by (intro table_move_update[OF assms(1) e]) simp_all
      then show ?thesis using False Some by (auto simp: VoRespond respond_exception_def Let_def)
    qed (simp add: VoRespond respond_exception_def Some Let_def table_move_refl)
  qed (simp add: VoRespond respond_exception_def table_move_refl)
qed (auto simp: create_snapshot_def Let_def intro!: table_move_refl)

interpretation exceptions: table_system ex_id "\<lambda>_. []" new_open exception_move exception_good assurance_step assurance_ok v_exceptions "\<lambda>_. []"
  by unfold_locales
    (auto elim!: exception_move_cases simp: answered_exception_def new_open_def exception_good_def assurance_step_exceptions split: if_splits)

lemma closed_exception_stays:
  "exception_move\<^sup>*\<^sup>* e e' \<Longrightarrow> ex_status e = ExClosed \<Longrightarrow> ex_status e' = ExClosed \<and> ex_id e' = ex_id e \<and> ex_by e' = ex_by e \<and> ex_severity e' = ex_severity e"
  by (induction rule: rtranclp_induct) (auto elim!: exception_move_cases simp: answered_exception_def)

text \<open>A closed exception is never reopened, and an exception carries a closing time exactly when it
  is closed, whatever the auditors and the other services do.\<close>

theorem exceptions_stay_closed:
  assumes "table_ok ex_id exception_good (v_exceptions db)" "runs_ok assurance_step assurance_ok cs db"
  shows "(\<forall>e\<in>set (v_exceptions db). ex_status e = ExClosed \<longrightarrow>
      (\<exists>e'\<in>set (v_exceptions (fold assurance_step cs db)). ex_id e' = ex_id e \<and> ex_status e' = ExClosed)) \<and>
    (\<forall>e\<in>set (v_exceptions (fold assurance_step cs db)). ex_status e = ExClosed \<longleftrightarrow> ex_closed e \<noteq> None)"
  using exceptions.run_row_later[OF assms] closed_exception_stays exceptions.run_good[OF assms]
  unfolding exception_good_def by blast

section \<open>Witnesses\<close>

definition sample_snapshot_row :: "string \<Rightarrow> snapshot" where
  "sample_snapshot_row i = \<lparr> as_id = ''n'', as_tenant = ''t'', as_fy = ''FY2024-25'', as_framework = ''BRSR'', as_scopes = [''n1''],
     as_members = [i], as_note = None, as_org = ''TBD'', as_users = [], as_count = 1, as_evidence = 0, as_hash = [],
     as_status = AsActive, as_report = [], as_at = 0 \<rparr>"

definition sample_exception :: audit_exception where
  "sample_exception = \<lparr> ex_id = ''x'', ex_snapshot = ''n'', ex_event = None, ex_severity = ''HIGH'', ex_description = ''d'',
     ex_response = None, ex_status = ExClosed, ex_by = ''u'', ex_at = 0, ex_closed = Some 1 \<rparr>"

definition sample_vdb :: "nat xdb \<Rightarrow> snapshot list \<Rightarrow> nat vdb" where
  "sample_vdb x ss = \<lparr> v_review = x, v_runs = [], v_mappings = [], v_snapshots = ss, v_exceptions = [sample_exception], v_audit = [] \<rparr>"

definition sample_reviewed :: "nat xdb" where
  "sample_reviewed = (sample_xdb FDraft) \<lparr> x_metrics := sample_mdb [sample_event MApproved (Some ''w'')] \<rparr>"

lemma sample_reviewed_events: "x_events sample_reviewed = [sample_event MApproved (Some ''w'')]"
  by (simp add: sample_reviewed_def sample_mdb_def)

theorem sample_sound_witness:
  "set (sample_items of_nat (\<lambda>n i. 0) SampleRandom 1 [sample_event MApproved (Some ''w'')]) \<subseteq> {sample_event MApproved (Some ''w'')}"
proof -
  let ?db = "sample_vdb sample_reviewed [sample_snapshot_row ''e'']"
  have e: "v_events ?db = [sample_event MApproved (Some ''w'')]" by (simp add: sample_vdb_def sample_reviewed_events)
  have f: "find_snapshot ''t'' ''n'' ?db = Some (sample_snapshot_row ''e'')"
    by (simp add: find_snapshot_def sample_vdb_def sample_snapshot_row_def)
  have m: "as_members (sample_snapshot_row ''e'') = [''e'']" "me_id (sample_event MApproved (Some ''w'')) = ''e''"
    "me_tenant (sample_event MApproved (Some ''w'')) = ''t''"
    by (simp_all add: sample_snapshot_row_def sample_event_def new_event_def)
  have "sample_snapshot of_nat (\<lambda>n i. 0) ''t'' ''n'' SampleRandom 1 None ?db =
      Inr (sample_items of_nat (\<lambda>n i. 0) SampleRandom 1 [sample_event MApproved (Some ''w'')])"
    by (simp add: sample_snapshot_def f e m Let_def)
  from sample_sound[OF _ f _ this] show ?thesis by (simp add: e m)
qed

theorem snapshot_hash_stable_witness:
  "recomputed_hash show_nat (\<lambda>s. s) [''e''] (x_events (fold field_step [XoMetric (MoLock (sample_metric_env ''l'') ''t'' ''e'' ''w'')] sample_reviewed)) =
     hash_object (\<lambda>s. s) (anchor_json show_nat [sample_event MApproved (Some ''w'')])"
proof -
  let ?db = "sample_vdb sample_reviewed []" and ?dto = "\<lparr> nd_fy = ''FY2024-25'', nd_framework = ''BRSR'', nd_scopes = [''n1''], nd_note = None \<rparr>"
  have e: "v_events ?db = [sample_event MApproved (Some ''w'')]" by (simp add: sample_vdb_def sample_reviewed_events)
  have m: "me_id (sample_event MApproved (Some ''w'')) = ''e''" "me_tenant (sample_event MApproved (Some ''w'')) = ''t''"
    "me_scope (sample_event MApproved (Some ''w'')) = ''n1''" "me_status (sample_event MApproved (Some ''w'')) = MApproved"
    "signed_off (sample_event MApproved (Some ''w''))"
    by (simp_all add: sample_event_def new_event_def sample_metric_dto_def signed_off_def)
  have t: "table_ok me_id signed_off (v_events ?db)" by (simp add: e table_ok_def m)
  have c: "fst (create_snapshot show_nat (\<lambda>s. s) (sample_metric_env ''z'') ''t'' ?dto ''u'' ?db) =
      Inr (new_snapshot show_nat (\<lambda>s. s) (sample_metric_env ''z'') ''t'' ?dto [sample_event MApproved (Some ''w'')])"
    by (simp add: create_snapshot_def snapshot_events_def e m frameworks_def Let_def) (simp add: sample_vdb_def)
  from snapshot_hash_stable[OF t c, of "[XoMetric (MoLock (sample_metric_env ''l'') ''t'' ''e'' ''w'')]"]
  show ?thesis by (simp add: new_snapshot_def m sample_vdb_def)
qed

theorem walkthrough_traces_witness:
  "\<exists>f. lr_field (lineage_of ''t'' (sample_vdb (field_step (XoApprove (sample_metric_env ''a'') ''t'' ''f'' ''r'') (sample_xdb FDraft)) [sample_snapshot_row ''a1''])
     [sample_promoted] sample_promoted) = Some f \<and> xf_id f = ''f''"
proof -
  let ?x = "sample_xdb FDraft" and ?c = "XoApprove (sample_metric_env ''a'') ''t'' ''f'' ''r''"
  let ?db = "sample_vdb ?x [sample_snapshot_row ''a1'']"
  let ?db' = "?db \<lparr> v_review := fold field_step [?c] (v_review ?db) \<rparr>"
  have s: "sources_ok (v_review ?db)" by (simp add: sources_ok_def single_source_def sample_x_simps sample_vdb_def)
  have r: "runs_ok field_step field_fair [?c] (v_review ?db)" by (simp add: field_fair_def fresh_ids_def sample_x_simps sample_vdb_def)
  have e: "v_events ?db' = [sample_promoted]" using sample_approved by (simp add: sample_vdb_def)
  have f: "find_snapshot ''t'' ''n'' ?db' = Some (sample_snapshot_row ''a1'')"
    by (simp add: find_snapshot_def sample_vdb_def sample_snapshot_row_def)
  have p: "me_id sample_promoted = ''a1''" "me_tenant sample_promoted = ''t''" "me_key sample_promoted = ''energy.total''" "me_extraction sample_promoted = Some ''f''"
    by (simp_all add: sample_promoted_def promoted_event_def sample_metric_env_def sample_field_def) code_simp
  have m: "as_members (sample_snapshot_row ''a1'') = [''a1'']" by (simp add: sample_snapshot_row_def)
  have w: "walkthrough ''t'' ''n'' ''energy.total'' ?db' = Inr \<lparr> wk_framework = as_framework (sample_snapshot_row ''a1''), wk_sections = [],
      wk_lineage = [lineage_of ''t'' ?db' [sample_promoted] sample_promoted] \<rparr>"
    by (simp only: walkthrough_def f e option.case Let_def filter.simps p m) (simp add: sample_vdb_def)
  have l: "lr_event (lineage_of ''t'' ?db' [sample_promoted] sample_promoted) = sample_promoted" by (simp add: lineage_of_def Let_def)
  from walkthrough_traces[OF s r w, of "lineage_of ''t'' ?db' [sample_promoted] sample_promoted" "''f''"] l p(4)
  have "\<exists>f. lr_field (lineage_of ''t'' ?db' [sample_promoted] sample_promoted) = Some f \<and> xf_id f = ''f''" by auto
  then show ?thesis by (simp add: sample_vdb_def)
qed

theorem exceptions_stay_closed_witness:
  "\<exists>e\<in>set (v_exceptions (fold assurance_step [VoRespond (sample_metric_env ''a'') ''t'' ''x'' (Some ''again'') (Some ExResponded) ''m'']
      (sample_vdb sample_reviewed [sample_snapshot_row ''e'']))). ex_id e = ''x'' \<and> ex_status e = ExClosed"
proof -
  have "table_ok ex_id exception_good (v_exceptions (sample_vdb sample_reviewed [sample_snapshot_row ''e'']))"
    by (simp add: table_ok_def sample_vdb_def sample_exception_def exception_good_def)
  moreover have "sample_exception \<in> set (v_exceptions (sample_vdb sample_reviewed [sample_snapshot_row ''e'']))" by (simp add: sample_vdb_def)
  moreover have "ex_status sample_exception = ExClosed" "ex_id sample_exception = ''x''" by (simp_all add: sample_exception_def)
  moreover have "runs_ok assurance_step assurance_ok [VoRespond (sample_metric_env ''a'') ''t'' ''x'' (Some ''again'') (Some ExResponded) ''m'']
      (sample_vdb sample_reviewed [sample_snapshot_row ''e''])" by simp
  ultimately show ?thesis using exceptions_stay_closed by metis
qed

end
