(* ===== verification/Carbon.thy ===== *)
theory Carbon
  imports Calc Doubles Dates
begin

text \<open>
  Carbon accounting (services/api/src/carbon/carbon.service.ts): emission totals over the metric
  events, the fifteen scope 3 runs, reduction targets, abatement projects with their cost curve,
  carbon credits, and the net-zero pathway.

  Decimals are rationals with the rounding of \<open>Doubles\<close>; a number of a body is the decimal written
  in it, which a double holds as \<open>fl\<close>. Parsing a date, the power of a decimal and the decimal text
  of a double (\<open>printed\<close>) are given by the runtime and the decimal library.
\<close>

section \<open>Data\<close>

datatype sbti_scope = ScS1 | ScS2 | ScS3 | ScS12 | ScAll

record sbti_target =
  st_id :: string
  st_tenant :: string
  st_scope :: sbti_scope
  st_baseline_year :: int
  st_baseline_value :: rat
  st_target_year :: int
  st_reduction :: rat

record abatement =
  ap_id :: string
  ap_tenant :: string
  ap_scopes :: "string list"
  ap_name :: string
  ap_description :: "string option"
  ap_capex :: rat
  ap_opex :: rat
  ap_reduction :: rat
  ap_lifetime :: int
  ap_mac :: rat

record carbon_credit =
  cc_id :: string
  cc_tenant :: string
  cc_registry :: string
  cc_serial :: string
  cc_vintage :: int
  cc_project :: string
  cc_quantity :: rat
  cc_price :: rat

datatype carbon_snap = SnapTarget sbti_target | SnapProject abatement | SnapCredit carbon_credit

record kdb =
  k_events :: "rat metric_event list"
  k_targets :: "sbti_target list"
  k_projects :: "abatement list"
  k_credits :: "carbon_credit list"
  k_audit :: "carbon_snap audit_row list"

section \<open>Periods\<close>

record emissions_query =
  eq_scope :: "int option"
  eq_from :: "string option"
  eq_to :: "string option"
  eq_scopes :: "string list option"

definition counts_status :: "'d metric_event \<Rightarrow> bool" where
  "counts_status e \<longleftrightarrow> me_status e = MApproved \<or> me_status e = MLocked"

text \<open>The Indian fiscal year of an instant, by UTC; it ends with the second before April.\<close>

definition fiscal_window :: "int \<Rightarrow> int \<times> int" where
  "fiscal_window t =
     (let year = (if utc_month t \<ge> 4 then utc_year t else utc_year t - 1)
      in (utc year 4 1, utc (year + 1) 3 31 + 86399000))"

text \<open>Both bounds when the query has them; a date the runtime cannot read fails in the query.\<close>

definition asked_period :: "(string \<Rightarrow> int option) \<Rightarrow> emissions_query \<Rightarrow> (int \<times> int) outcome option" where
  "asked_period parse_at q =
     (case (keep (eq_from q) [], keep (eq_to q) []) of
        ([], _) \<Rightarrow> None
      | (_, []) \<Rightarrow> None
      | (a, b) \<Rightarrow> Some (case (parse_at a, parse_at b) of
           (Some x, Some y) \<Rightarrow> Inr (x, y) | _ \<Rightarrow> Inl (PrismaError ''validation'')))"

definition resolve_period :: "(string \<Rightarrow> int option) \<Rightarrow> env \<Rightarrow> emissions_query \<Rightarrow> (int \<times> int) outcome" where
  "resolve_period parse_at E q =
     (case asked_period parse_at q of Some r \<Rightarrow> r | None \<Rightarrow> Inr (fiscal_window (ev_now E)))"

text \<open>The overview defaults to the year of the latest counted event of the tenant.\<close>

definition resolve_overview_period ::
  "(string \<Rightarrow> int option) \<Rightarrow> env \<Rightarrow> string \<Rightarrow> emissions_query \<Rightarrow> kdb \<Rightarrow> (int \<times> int) outcome" where
  "resolve_overview_period parse_at E t q db =
     (case asked_period parse_at q of
        Some r \<Rightarrow> r
      | None \<Rightarrow>
          (case sort_key (\<lambda>e. - me_end e) (filter (\<lambda>e. me_tenant e = t \<and> counts_status e) (k_events db)) of
             [] \<Rightarrow> resolve_period parse_at E q
           | latest # _ \<Rightarrow> Inr (fiscal_window (me_end latest))))"

definition counted :: "string \<Rightarrow> emissions_query \<Rightarrow> int \<times> int \<Rightarrow> 'd metric_event \<Rightarrow> bool" where
  "counted t q w e \<longleftrightarrow> me_tenant e = t \<and> in_nonempty (eq_scopes q) (me_scope e) \<and>
     fst w \<le> me_start e \<and> me_end e \<le> snd w \<and> counts_status e"

section \<open>Emissions of one scope\<close>

definition scope3_keys :: "string list" where
  "scope3_keys = map (\<lambda>i. ''ghg_scope3_cat'' @ show_int i) [1..15]"

definition scope_keys :: "int \<Rightarrow> string list" where
  "scope_keys n =
     (if n = 1 then [''ghg_scope1_total'']
      else if n = 2 then [''ghg_scope2_location'', ''ghg_scope2_market'']
      else if n = 3 then scope3_keys else [])"

definition add_total :: "rat metric_event \<Rightarrow> (string \<times> rat) list \<Rightarrow> (string \<times> rat) list" where
  "add_total e totals = upsert (me_key e) (dec_plus (keep (map_of totals (me_key e)) 0) (me_value e)) totals"

record scope_view =
  ew_scope :: int
  ew_totals :: "(string \<times> rat) list"
  ew_events :: "rat metric_event list"

section \<open>The overview\<close>

text \<open>\<open>/^ghg_scope3_cat\d+$/\<close>.\<close>

definition scope3_key :: "string \<Rightarrow> bool" where
  "scope3_key k \<longleftrightarrow> starts_with k ''ghg_scope3_cat'' \<and> drop 14 k \<noteq> [] \<and> list_all dec_digit (drop 14 k)"

definition cea_factor :: rat where
  "cea_factor = 716 / 1000000"

record overview_sums =
  os_s1 :: rat
  os_location :: rat
  os_market :: rat
  os_s3 :: rat
  os_months :: "(string \<times> rat) list"

definition add_month :: "string \<Rightarrow> rat \<Rightarrow> overview_sums \<Rightarrow> overview_sums" where
  "add_month ym v s = s \<lparr> os_months := upsert ym (dec_plus (keep (map_of (os_months s) ym) 0) v) (os_months s) \<rparr>"

definition overview_step :: "rat metric_event \<Rightarrow> overview_sums \<Rightarrow> overview_sums" where
  "overview_step e s =
     (let ym = take 7 (iso_string (me_end e)); v = me_value e in
      if me_key e = ''ghg_scope1_total'' then add_month ym v (s \<lparr> os_s1 := dec_plus (os_s1 s) v \<rparr>)
      else if me_key e = ''ghg_scope2_location'' then add_month ym v (s \<lparr> os_location := dec_plus (os_location s) v \<rparr>)
      else if me_key e = ''ghg_scope2_market'' then add_month ym v (s \<lparr> os_market := dec_plus (os_market s) v \<rparr>)
      else if scope3_key (me_key e) then add_month ym v (s \<lparr> os_s3 := dec_plus (os_s3 s) v \<rparr>)
      else if me_key e = ''purchased_electricity_kwh''
      then (let tco2e = dec_times v cea_factor in add_month ym tco2e (s \<lparr> os_location := dec_plus (os_location s) tco2e \<rparr>))
      else s)"

definition overview_start :: overview_sums where
  "overview_start = \<lparr> os_s1 = 0, os_location = 0, os_market = 0, os_s3 = 0, os_months = [] \<rparr>"

text \<open>\<open>Number(v.toFixed(3))\<close>.\<close>

definition number3 :: "rat \<Rightarrow> rat" where
  "number3 v = fl (dec_places 3 v)"

record overview_view =
  ow_s1 :: rat
  ow_location :: rat
  ow_market :: rat
  ow_s3 :: rat
  ow_total :: rat
  ow_trend :: "(string \<times> rat) list"

text \<open>
  Months are compared as texts: in the years 0 to 9999, where they have one shape, that is what
  \<open>localeCompare\<close> does.
\<close>

definition overview_of :: "rat metric_event list \<Rightarrow> overview_view" where
  "overview_of es =
     (let s = fold overview_step es overview_start
      in \<lparr> ow_s1 = number3 (os_s1 s), ow_location = number3 (os_location s), ow_market = number3 (os_market s),
           ow_s3 = number3 (os_s3 s), ow_total = number3 (dec_plus (dec_plus (os_s1 s) (os_location s)) (os_s3 s)),
           ow_trend = map (\<lambda>m. (fst m, number3 (snd m))) (sort_key fst (os_months s)) \<rparr>)"

definition emissions_overview ::
  "(string \<Rightarrow> int option) \<Rightarrow> env \<Rightarrow> string \<Rightarrow> emissions_query \<Rightarrow> kdb \<Rightarrow> overview_view outcome" where
  "emissions_overview parse_at E t q db =
     bindR (resolve_overview_period parse_at E t q db) (\<lambda>w. Inr (overview_of (filter (counted t q w) (k_events db))))"

definition emissions_of_scope ::
  "(string \<Rightarrow> int option) \<Rightarrow> env \<Rightarrow> string \<Rightarrow> emissions_query \<Rightarrow> int \<Rightarrow> kdb \<Rightarrow> scope_view outcome" where
  "emissions_of_scope parse_at E t q n db =
     bindR (resolve_period parse_at E q) (\<lambda>w.
       let es = filter (\<lambda>e. me_key e \<in> set (scope_keys n) \<and> counted t q w e) (k_events db)
       in Inr \<lparr> ew_scope = n, ew_totals = fold add_total es [], ew_events = es \<rparr>)"

definition emissions ::
  "(string \<Rightarrow> int option) \<Rightarrow> env \<Rightarrow> string \<Rightarrow> emissions_query \<Rightarrow> kdb \<Rightarrow> (overview_view + scope_view) outcome" where
  "emissions parse_at E t q db =
     (case eq_scope q of
        None \<Rightarrow> bindR (emissions_overview parse_at E t q db) (\<lambda>v. Inr (Inl v))
      | Some n \<Rightarrow> bindR (emissions_of_scope parse_at E t q n db) (\<lambda>v. Inr (Inr v)))"

section \<open>The fifteen categories\<close>

text \<open>Each run has its own identifiers and clock: \<open>Es\<close> gives the environment of the category.\<close>

fun scope3_loop ::
  "'d decimal_api \<Rightarrow> (int \<Rightarrow> env) \<Rightarrow> string \<Rightarrow> run_dto \<Rightarrow> string \<Rightarrow> int list \<Rightarrow> 'd calc_run list \<Rightarrow> 'd cdb \<Rightarrow>
     'd calc_run list outcome \<times> 'd cdb" where
  "scope3_loop D Es t dto actor [] runs db = (Inr runs, db)"
| "scope3_loop D Es t dto actor (cat # cats) runs db =
     (case run_scope3 D (Es cat) t dto cat actor db of
        (Inl e, db') \<Rightarrow> (Inl e, db')
      | (Inr r, db') \<Rightarrow> scope3_loop D Es t dto actor cats (runs @ [r]) db')"

definition run_all_scope3 ::
  "'d decimal_api \<Rightarrow> (int \<Rightarrow> env) \<Rightarrow> string \<Rightarrow> run_dto \<Rightarrow> string \<Rightarrow> 'd cdb \<Rightarrow> (nat \<times> string list) outcome \<times> 'd cdb" where
  "run_all_scope3 D Es t dto actor db =
     (case scope3_loop D Es t dto actor [1..15] [] db of
        (Inl e, db') \<Rightarrow> (Inl e, db')
      | (Inr runs, db') \<Rightarrow> (Inr (length runs, map cr_id runs), db'))"

section \<open>Reduction targets\<close>

definition find_row :: "('r \<Rightarrow> string) \<Rightarrow> ('r \<Rightarrow> string) \<Rightarrow> string \<Rightarrow> string \<Rightarrow> 'r list \<Rightarrow> 'r option" where
  "find_row rid tenant t i rows = find_first (\<lambda>r. rid r = i \<and> tenant r = t) rows"

definition list_by_id :: "('r \<Rightarrow> string) \<Rightarrow> ('r \<Rightarrow> string) \<Rightarrow> string \<Rightarrow> 'r list \<Rightarrow> 'r list" where
  "list_by_id rid tenant t rows = rev (sort_key rid (filter (\<lambda>r. tenant r = t) rows))"

definition list_sbti :: "string \<Rightarrow> kdb \<Rightarrow> sbti_target list" where
  "list_sbti t db = list_by_id st_id st_tenant t (k_targets db)"

record sbti_dto =
  bd_type :: string
  bd_baseline :: int
  bd_target :: int
  bd_reduction :: rat
  bd_scopes :: "string list option"

definition sbti_scope_of :: "string list \<Rightarrow> sbti_scope" where
  "sbti_scope_of scopes =
     (if ''S3'' \<in> set scopes \<or> ''S1_S2_S3'' \<in> set scopes \<or> ''ALL'' \<in> set scopes then ScAll
      else if scopes = [''S1''] then ScS1
      else if scopes = [''S2''] then ScS2
      else ScS12)"

definition to_sbti_create :: "env \<Rightarrow> string \<Rightarrow> sbti_dto \<Rightarrow> sbti_target" where
  "to_sbti_create E t dto =
     \<lparr> st_id = ev_ids E 1, st_tenant = t, st_scope = sbti_scope_of (map js_upper (keep (bd_scopes dto) [])),
       st_baseline_year = bd_baseline dto, st_baseline_value = 0, st_target_year = bd_target dto, st_reduction = bd_reduction dto \<rparr>"

definition create_sbti :: "env \<Rightarrow> string \<Rightarrow> sbti_dto \<Rightarrow> string \<Rightarrow> kdb \<Rightarrow> sbti_target outcome \<times> kdb" where
  "create_sbti E t dto actor db =
     (let x = to_sbti_create E t dto in
      (Inr x, db \<lparr> k_targets := k_targets db @ [x],
         k_audit := audit_log E (audit_entry t actor ''SbtiTarget'' (Some (st_id x)) ''CREATE'' None (Some (SnapTarget x)) None) (k_audit db) \<rparr>))"

record sbti_patch =
  bp_baseline :: "int option"
  bp_target :: "int option"
  bp_reduction :: "rat option"

definition patch_sbti :: "sbti_patch \<Rightarrow> sbti_target \<Rightarrow> sbti_target" where
  "patch_sbti p x = x \<lparr> st_baseline_year := keep (bp_baseline p) (st_baseline_year x),
     st_target_year := keep (bp_target p) (st_target_year x), st_reduction := keep (bp_reduction p) (st_reduction x) \<rparr>"

definition update_sbti :: "env \<Rightarrow> string \<Rightarrow> string \<Rightarrow> sbti_patch \<Rightarrow> string \<Rightarrow> kdb \<Rightarrow> sbti_target outcome \<times> kdb" where
  "update_sbti E t i p actor db =
     (case find_row st_id st_tenant t i (k_targets db) of
        None \<Rightarrow> (Inl (NotFound ''Target not found''), db)
      | Some x \<Rightarrow> (Inr (patch_sbti p x), db \<lparr> k_targets := update_where (\<lambda>y. st_id y = i) (patch_sbti p) (k_targets db),
          k_audit := audit_log E (audit_entry t actor ''SbtiTarget'' (Some i) ''UPDATE'' (Some (SnapTarget x))
            (Some (SnapTarget (patch_sbti p x))) None) (k_audit db) \<rparr>))"

definition delete_sbti :: "env \<Rightarrow> string \<Rightarrow> string \<Rightarrow> string \<Rightarrow> kdb \<Rightarrow> unit outcome \<times> kdb" where
  "delete_sbti E t i actor db =
     (case find_row st_id st_tenant t i (k_targets db) of
        None \<Rightarrow> (Inl (NotFound ''Target not found''), db)
      | Some x \<Rightarrow> (Inr (), db \<lparr> k_targets := filter (\<lambda>y. st_id y \<noteq> i) (k_targets db),
          k_audit := audit_log E (audit_entry t actor ''SbtiTarget'' (Some i) ''delete'' (Some (SnapTarget x)) None None) (k_audit db) \<rparr>))"

section \<open>Abatement projects\<close>

definition list_abatement :: "string \<Rightarrow> kdb \<Rightarrow> abatement list" where
  "list_abatement t db = list_by_id ap_id ap_tenant t (k_projects db)"

record abatement_dto =
  ad_name :: string
  ad_description :: "string option"
  ad_reduction :: rat
  ad_capex :: rat
  ad_opex :: "rat option"
  ad_lifetime :: "int option"
  ad_scope :: "string option"

text \<open>In doubles: a year of the investment and the yearly cost, per tonne.\<close>

definition create_mac :: "abatement_dto \<Rightarrow> rat" where
  "create_mac dto =
     (if fl (ad_reduction dto) > 0
      then fl (fl (fl (fl (ad_capex dto) / of_int (max 1 (keep (ad_lifetime dto) 10))) + fl (keep (ad_opex dto) 0)) / fl (ad_reduction dto))
      else 0)"

text \<open>The decimal columns of the table have two places.\<close>

definition to_abatement_create :: "(rat \<Rightarrow> rat) \<Rightarrow> env \<Rightarrow> string \<Rightarrow> abatement_dto \<Rightarrow> abatement" where
  "to_abatement_create printed E t dto =
     \<lparr> ap_id = ev_ids E 1, ap_tenant = t,
       ap_scopes = (case keep (ad_scope dto) [] of [] \<Rightarrow> [] | s \<Rightarrow> [s]), ap_name = ad_name dto,
       ap_description = ad_description dto, ap_capex = dec_places 2 (ad_capex dto), ap_opex = dec_places 2 (keep (ad_opex dto) 0),
       ap_reduction = dec_places 2 (ad_reduction dto), ap_lifetime = keep (ad_lifetime dto) 10,
       ap_mac = dec_places 2 (printed (create_mac dto)) \<rparr>"

definition create_abatement :: "(rat \<Rightarrow> rat) \<Rightarrow> env \<Rightarrow> string \<Rightarrow> abatement_dto \<Rightarrow> string \<Rightarrow> kdb \<Rightarrow> abatement outcome \<times> kdb" where
  "create_abatement printed E t dto actor db =
     (let x = to_abatement_create printed E t dto in
      (Inr x, db \<lparr> k_projects := k_projects db @ [x],
         k_audit := audit_log E (audit_entry t actor ''AbatementProject'' (Some (ap_id x)) ''create'' None (Some (SnapProject x)) None) (k_audit db) \<rparr>))"

record abatement_patch =
  aq_name :: "string option"
  aq_description :: "string option option"
  aq_capex :: "rat option"
  aq_opex :: "rat option"
  aq_reduction :: "rat option"
  aq_lifetime :: "int option"

definition patch_abatement :: "abatement_patch \<Rightarrow> abatement \<Rightarrow> abatement" where
  "patch_abatement p x = x \<lparr> ap_name := keep (aq_name p) (ap_name x), ap_description := keep (aq_description p) (ap_description x),
     ap_capex := keep (map_option (dec_places 2) (aq_capex p)) (ap_capex x),
     ap_opex := keep (map_option (dec_places 2) (aq_opex p)) (ap_opex x),
     ap_reduction := keep (map_option (dec_places 2) (aq_reduction p)) (ap_reduction x),
     ap_lifetime := keep (aq_lifetime p) (ap_lifetime x) \<rparr>"

definition update_abatement :: "env \<Rightarrow> string \<Rightarrow> string \<Rightarrow> abatement_patch \<Rightarrow> string \<Rightarrow> kdb \<Rightarrow> abatement outcome \<times> kdb" where
  "update_abatement E t i p actor db =
     (case find_row ap_id ap_tenant t i (k_projects db) of
        None \<Rightarrow> (Inl (NotFound ''Project not found''), db)
      | Some x \<Rightarrow> (Inr (patch_abatement p x), db \<lparr> k_projects := update_where (\<lambda>y. ap_id y = i) (patch_abatement p) (k_projects db),
          k_audit := audit_log E (audit_entry t actor ''AbatementProject'' (Some i) ''UPDATE'' (Some (SnapProject x))
            (Some (SnapProject (patch_abatement p x))) None) (k_audit db) \<rparr>))"

definition delete_abatement :: "env \<Rightarrow> string \<Rightarrow> string \<Rightarrow> string \<Rightarrow> kdb \<Rightarrow> unit outcome \<times> kdb" where
  "delete_abatement E t i actor db =
     (case find_row ap_id ap_tenant t i (k_projects db) of
        None \<Rightarrow> (Inl (NotFound ''Project not found''), db)
      | Some x \<Rightarrow> (Inr (), db \<lparr> k_projects := filter (\<lambda>y. ap_id y \<noteq> i) (k_projects db),
          k_audit := audit_log E (audit_entry t actor ''AbatementProject'' (Some i) ''delete'' (Some (SnapProject x)) None None) (k_audit db) \<rparr>))"

text \<open>The cost curve; \<open>pw b n\<close> is the power of a decimal by an integer.\<close>

record macc_row =
  mr_id :: string
  mr_name :: string
  mr_reduction :: rat
  mr_cost :: rat
  mr_capex :: rat

definition annuity_factor :: "(rat \<Rightarrow> int \<Rightarrow> rat) \<Rightarrow> int \<Rightarrow> rat" where
  "annuity_factor pw n = dec_div (dec_minus 1 (pw (dec_plus 1 (8 / 100)) (- n))) (8 / 100)"

definition cost_per_tonne :: "(rat \<Rightarrow> int \<Rightarrow> rat) \<Rightarrow> abatement \<Rightarrow> rat" where
  "cost_per_tonne pw p =
     (let af = annuity_factor pw (ap_lifetime p);
          annualised = (if af = 0 then ap_capex p else dec_div (ap_capex p) af);
          yearly = dec_plus annualised (ap_opex p)
      in if ap_reduction p = 0 then 0 else dec_div yearly (ap_reduction p))"

definition macc_row_of :: "(rat \<Rightarrow> int \<Rightarrow> rat) \<Rightarrow> abatement \<Rightarrow> macc_row" where
  "macc_row_of pw p = \<lparr> mr_id = ap_id p, mr_name = ap_name p, mr_reduction = fl (ap_reduction p),
     mr_cost = fl (cost_per_tonne pw p), mr_capex = fl (ap_capex p) \<rparr>"

definition macc :: "(rat \<Rightarrow> int \<Rightarrow> rat) \<Rightarrow> string \<Rightarrow> kdb \<Rightarrow> macc_row list" where
  "macc pw t db = sort_key mr_cost (map (macc_row_of pw) (filter (\<lambda>p. ap_tenant p = t) (k_projects db)))"

section \<open>Carbon credits\<close>

definition list_credits :: "string \<Rightarrow> kdb \<Rightarrow> carbon_credit list" where
  "list_credits t db = sort_key (\<lambda>c. - cc_vintage c) (filter (\<lambda>c. cc_tenant c = t) (k_credits db))"

record credit_dto =
  xd_registry :: string
  xd_serial :: string
  xd_vintage :: int
  xd_quantity :: rat
  xd_price :: rat
  xd_type :: "string option"

definition credit_registries :: "string list" where
  "credit_registries = [''VERRA'', ''GOLD_STANDARD'', ''CAR'', ''ART_TREES'']"

definition new_credit :: "env \<Rightarrow> string \<Rightarrow> credit_dto \<Rightarrow> carbon_credit" where
  "new_credit E t dto =
     \<lparr> cc_id = ev_ids E 1, cc_tenant = t, cc_registry = js_upper (xd_registry dto), cc_serial = xd_serial dto,
       cc_vintage = xd_vintage dto, cc_project = keep (xd_type dto) (xd_serial dto),
       cc_quantity = dec_places 4 (xd_quantity dto), cc_price = dec_places 4 (xd_price dto) \<rparr>"

text \<open>The pair of registry and serial number is unique over all tenants.\<close>

definition credit_taken :: "string \<Rightarrow> string \<Rightarrow> string \<Rightarrow> kdb \<Rightarrow> bool" where
  "credit_taken registry serial i db = (\<exists>c\<in>set (k_credits db). cc_registry c = registry \<and> cc_serial c = serial \<and> cc_id c \<noteq> i)"

definition create_credit :: "env \<Rightarrow> string \<Rightarrow> credit_dto \<Rightarrow> string \<Rightarrow> kdb \<Rightarrow> carbon_credit outcome \<times> kdb" where
  "create_credit E t dto actor db =
     (let c = new_credit E t dto in
      if cc_registry c \<notin> set credit_registries
      then (Inl (BadRequest (''Unknown carbon registry: '' @ xd_registry dto)), db)
      else if credit_taken (cc_registry c) (cc_serial c) (cc_id c) db then (Inl (PrismaError ''P2002''), db)
      else (Inr c, db \<lparr> k_credits := k_credits db @ [c],
         k_audit := audit_log E (audit_entry t actor ''CarbonCredit'' (Some (cc_id c)) ''create'' None (Some (SnapCredit c)) None) (k_audit db) \<rparr>))"

record credit_patch =
  xp_serial :: "string option"
  xp_vintage :: "int option"
  xp_type :: "string option"
  xp_quantity :: "rat option"
  xp_price :: "rat option"

definition patch_credit :: "credit_patch \<Rightarrow> carbon_credit \<Rightarrow> carbon_credit" where
  "patch_credit p c = c \<lparr> cc_serial := keep (xp_serial p) (cc_serial c), cc_vintage := keep (xp_vintage p) (cc_vintage c),
     cc_project := keep (xp_type p) (cc_project c), cc_quantity := keep (map_option (dec_places 4) (xp_quantity p)) (cc_quantity c),
     cc_price := keep (map_option (dec_places 4) (xp_price p)) (cc_price c) \<rparr>"

definition update_credit :: "env \<Rightarrow> string \<Rightarrow> string \<Rightarrow> credit_patch \<Rightarrow> string \<Rightarrow> kdb \<Rightarrow> carbon_credit outcome \<times> kdb" where
  "update_credit E t i p actor db =
     (case find_row cc_id cc_tenant t i (k_credits db) of
        None \<Rightarrow> (Inl (NotFound ''Credit not found''), db)
      | Some c \<Rightarrow>
          if credit_taken (cc_registry c) (keep (xp_serial p) (cc_serial c)) i db then (Inl (PrismaError ''P2002''), db)
          else (Inr (patch_credit p c), db \<lparr> k_credits := update_where (\<lambda>y. cc_id y = i) (patch_credit p) (k_credits db),
            k_audit := audit_log E (audit_entry t actor ''CarbonCredit'' (Some i) ''UPDATE'' (Some (SnapCredit c))
              (Some (SnapCredit (patch_credit p c))) None) (k_audit db) \<rparr>))"

definition delete_credit :: "env \<Rightarrow> string \<Rightarrow> string \<Rightarrow> string \<Rightarrow> kdb \<Rightarrow> unit outcome \<times> kdb" where
  "delete_credit E t i actor db =
     (case find_row cc_id cc_tenant t i (k_credits db) of
        None \<Rightarrow> (Inl (NotFound ''Credit not found''), db)
      | Some c \<Rightarrow> (Inr (), db \<lparr> k_credits := filter (\<lambda>y. cc_id y \<noteq> i) (k_credits db),
          k_audit := audit_log E (audit_entry t actor ''CarbonCredit'' (Some i) ''delete'' (Some (SnapCredit c)) None None) (k_audit db) \<rparr>))"

section \<open>The net-zero pathway\<close>

record pathway =
  nz_baseline :: rat
  nz_target :: rat
  nz_baseline_year :: int
  nz_target_year :: int
  nz_path :: "(int \<times> rat) list"

text \<open>The years of the baseline are bounded by local midnights; the status of an event is not asked.\<close>

definition baseline_events :: "int \<Rightarrow> string \<Rightarrow> int \<Rightarrow> kdb \<Rightarrow> rat metric_event list" where
  "baseline_events tz t year db = filter (\<lambda>e. me_tenant e = t \<and> me_key e = ''ghg_total'' \<and>
     utc year 1 1 - tz \<le> me_end e \<and> me_end e < utc (year + 1) 1 1 - tz) (k_events db)"

definition pathway_of :: "rat \<Rightarrow> sbti_target \<Rightarrow> pathway" where
  "pathway_of baseline x =
     (let target = dec_times baseline (dec_minus 1 (dec_div (st_reduction x) 100));
          years = st_target_year x - st_baseline_year x;
          annual = (if years > 0 then dec_div (dec_minus baseline target) (of_int years) else 0)
      in \<lparr> nz_baseline = fl baseline, nz_target = fl target, nz_baseline_year = st_baseline_year x,
           nz_target_year = st_target_year x,
           nz_path = map (\<lambda>y. (y, fl (dec_minus baseline (dec_times annual (of_int (y - st_baseline_year x))))))
             [st_baseline_year x..st_target_year x] \<rparr>)"

definition net_zero :: "int \<Rightarrow> string \<Rightarrow> kdb \<Rightarrow> pathway option" where
  "net_zero tz t db =
     (case list_sbti t db of
        [] \<Rightarrow> None
      | x # _ \<Rightarrow> Some (pathway_of
          (fold (\<lambda>e a. dec_plus a (me_value e)) (baseline_events tz t (st_baseline_year x) db) 0) x))"

section \<open>Operations\<close>

datatype carbon_op =
    KoTarget env string sbti_dto string
  | KoRetarget env string string sbti_patch string
  | KoUntarget env string string string
  | KoProject "rat \<Rightarrow> rat" env string abatement_dto string
  | KoReproject env string string abatement_patch string
  | KoUnproject env string string string
  | KoCredit env string credit_dto string
  | KoRecredit env string string credit_patch string
  | KoUncredit env string string string

fun carbon_step :: "carbon_op \<Rightarrow> kdb \<Rightarrow> kdb" where
  "carbon_step (KoTarget E t d u) db = snd (create_sbti E t d u db)"
| "carbon_step (KoRetarget E t i p u) db = snd (update_sbti E t i p u db)"
| "carbon_step (KoUntarget E t i u) db = snd (delete_sbti E t i u db)"
| "carbon_step (KoProject pr E t d u) db = snd (create_abatement pr E t d u db)"
| "carbon_step (KoReproject E t i p u) db = snd (update_abatement E t i p u db)"
| "carbon_step (KoUnproject E t i u) db = snd (delete_abatement E t i u db)"
| "carbon_step (KoCredit E t d u) db = snd (create_credit E t d u db)"
| "carbon_step (KoRecredit E t i p u) db = snd (update_credit E t i p u db)"
| "carbon_step (KoUncredit E t i u) db = snd (delete_credit E t i u db)"

fun carbon_tenant :: "carbon_op \<Rightarrow> string" where
  "carbon_tenant (KoTarget E t d u) = t"
| "carbon_tenant (KoRetarget E t i p u) = t"
| "carbon_tenant (KoUntarget E t i u) = t"
| "carbon_tenant (KoProject pr E t d u) = t"
| "carbon_tenant (KoReproject E t i p u) = t"
| "carbon_tenant (KoUnproject E t i u) = t"
| "carbon_tenant (KoCredit E t d u) = t"
| "carbon_tenant (KoRecredit E t i p u) = t"
| "carbon_tenant (KoUncredit E t i u) = t"

text \<open>The database makes fresh identifiers.\<close>

fun carbon_ok :: "carbon_op \<Rightarrow> kdb \<Rightarrow> bool" where
  "carbon_ok (KoTarget E t d u) db \<longleftrightarrow> ev_ids E 1 \<notin> set (map st_id (k_targets db))"
| "carbon_ok (KoProject pr E t d u) db \<longleftrightarrow> ev_ids E 1 \<notin> set (map ap_id (k_projects db))"
| "carbon_ok (KoCredit E t d u) db \<longleftrightarrow> ev_ids E 1 \<notin> set (map cc_id (k_credits db))"
| "carbon_ok _ db \<longleftrightarrow> True"

end
