(* ===== verification/Carbon_Props.thy ===== *)
theory Carbon_Props
  imports Carbon Cel_Props "HOL-Library.Multiset"
begin

text \<open>
  What carbon accounting promises: the overview is exact below a hundred million tonnes and says
  which events it counts, the fifteen scope 3 runs start together or not at all, a credit is held
  once on the whole platform, the cost curve lists every project once in ascending cost, and the
  pathway descends from the baseline year to the target year.
\<close>

section \<open>Exact totals\<close>

definition is_scope1 :: "rat metric_event \<Rightarrow> bool" where
  "is_scope1 e \<longleftrightarrow> me_key e = ''ghg_scope1_total''"

definition is_location :: "rat metric_event \<Rightarrow> bool" where
  "is_location e \<longleftrightarrow> me_key e = ''ghg_scope2_location'' \<or> me_key e = ''purchased_electricity_kwh''"

definition is_market :: "rat metric_event \<Rightarrow> bool" where
  "is_market e \<longleftrightarrow> me_key e = ''ghg_scope2_market''"

definition is_scope3 :: "rat metric_event \<Rightarrow> bool" where
  "is_scope3 e \<longleftrightarrow> scope3_key (me_key e)"

definition feeds :: "rat metric_event \<Rightarrow> bool" where
  "feeds e \<longleftrightarrow> is_scope1 e \<or> is_location e \<or> is_market e \<or> is_scope3 e"

definition month_of :: "rat metric_event \<Rightarrow> string" where
  "month_of e = take 7 (iso_string (me_end e))"

definition tco2e_of :: "rat metric_event \<Rightarrow> rat" where
  "tco2e_of e = (if me_key e = ''purchased_electricity_kwh'' then me_value e * cea_factor else me_value e)"

definition tonnes :: "(rat metric_event \<Rightarrow> bool) \<Rightarrow> rat metric_event list \<Rightarrow> rat" where
  "tonnes P es = sum_list (map tco2e_of (filter P es))"

text \<open>The decimals the columns hold, small enough for twenty digits.\<close>

definition exact_events :: "rat metric_event list \<Rightarrow> bool" where
  "exact_events es \<longleftrightarrow>
     (\<forall>e\<in>set es. feeds e \<longrightarrow> on_grid (if me_key e = ''purchased_electricity_kwh'' then 6 else 12) (me_value e)) \<and>
     (\<Sum>e\<leftarrow>filter feeds es. \<bar>tco2e_of e\<bar>) < 10 ^ 8"

lemma tonnes_simps [simp]: "tonnes P [] = 0" "tonnes P (es @ [e]) = tonnes P es + (if P e then tco2e_of e else 0)"
  by (simp_all add: tonnes_def)

lemma exact_snoc: "exact_events (es @ [e]) \<Longrightarrow> exact_events es"
proof -
  have "(\<Sum>x\<leftarrow>filter feeds es. \<bar>tco2e_of x\<bar>) \<le> (\<Sum>x\<leftarrow>filter feeds (es @ [e]). \<bar>tco2e_of x\<bar>)" by simp
  then show "exact_events (es @ [e]) \<Longrightarrow> exact_events es" by (auto simp: exact_events_def)
qed

lemma on_grid_tco2e: "exact_events es \<Longrightarrow> e \<in> set es \<Longrightarrow> feeds e \<Longrightarrow> on_grid 12 (tco2e_of e)"
proof -
  have "on_grid 6 cea_factor" by (auto simp: on_grid_def cea_factor_def intro: exI[of _ 716])
  then show "exact_events es \<Longrightarrow> e \<in> set es \<Longrightarrow> feeds e \<Longrightarrow> on_grid 12 (tco2e_of e)"
    using on_grid_times[of 6 "me_value e" 6 cea_factor] by (auto simp: exact_events_def tco2e_of_def)
qed

lemma abs_part:
  fixes f :: "'a \<Rightarrow> rat"
  assumes "\<And>e. P e \<Longrightarrow> Q e"
  shows "\<bar>sum_list (map f (filter P es))\<bar> \<le> (\<Sum>e\<leftarrow>filter Q es. \<bar>f e\<bar>)"
proof (induction es)
  case (Cons a es)
  then show ?case using assms[of a] abs_triangle_ineq[of "f a" "sum_list (map f (filter P es))"] abs_ge_zero[of "f a"]
    by (cases "P a"; cases "Q a") (simp, linarith?)+
qed simp

text \<open>Every part of the counted events has an exact sum.\<close>

lemma tonnes_exact:
  assumes "exact_events es" "\<And>e. P e \<Longrightarrow> feeds e"
  shows "on_grid 12 (tonnes P es) \<and> \<bar>tonnes P es\<bar> < 10 ^ 8"
proof
  show "on_grid 12 (tonnes P es)"
    unfolding tonnes_def using on_grid_tco2e[OF assms(1)] assms(2) by (intro on_grid_sum) auto
  have "\<bar>tonnes P es\<bar> \<le> (\<Sum>e\<leftarrow>filter feeds es. \<bar>tco2e_of e\<bar>)"
    unfolding tonnes_def using assms(2) by (rule abs_part)
  then show "\<bar>tonnes P es\<bar> < 10 ^ 8" using assms(1) by (simp add: exact_events_def)
qed

lemma dec_plus_tonnes:
  assumes "exact_events (es @ [e])" "\<And>e. P e \<Longrightarrow> feeds e" "P e"
  shows "dec_plus (tonnes P es) (tco2e_of e) = tonnes P (es @ [e])"
  using tonnes_exact[OF assms(1), of P, OF assms(2)] assms(3) dec_round_exact[of "tonnes P es + tco2e_of e"]
  by (simp add: dec_plus_def)

lemma elec_tonnes: "exact_events (es @ [e]) \<Longrightarrow> me_key e = ''purchased_electricity_kwh'' \<Longrightarrow> dec_times (me_value e) cea_factor = tco2e_of e"
proof -
  assume a: "exact_events (es @ [e])" "me_key e = ''purchased_electricity_kwh''"
  then have f: "feeds e" by (simp add: feeds_def is_location_def)
  have "on_grid 12 (tco2e_of e)" using on_grid_tco2e[OF a(1) _ f] by simp
  moreover have "\<bar>tco2e_of e\<bar> < 10 ^ 8"
  proof -
    have "0 \<le> (\<Sum>e\<leftarrow>filter feeds es. \<bar>tco2e_of e\<bar>)" by (rule sum_list_nonneg) auto
    then show ?thesis using a(1) f by (simp add: exact_events_def)
  qed
  ultimately show ?thesis using a(2) dec_round_exact[of "tco2e_of e"] by (simp add: dec_times_def tco2e_of_def)
qed

definition in_month :: "string \<Rightarrow> rat metric_event \<Rightarrow> bool" where
  "in_month m e \<longleftrightarrow> feeds e \<and> month_of e = m"

definition overview_sums_ok :: "rat metric_event list \<Rightarrow> overview_sums \<Rightarrow> bool" where
  "overview_sums_ok es s \<longleftrightarrow> os_s1 s = tonnes is_scope1 es \<and> os_location s = tonnes is_location es \<and>
     os_market s = tonnes is_market es \<and> os_s3 s = tonnes is_scope3 es \<and>
     distinct (map fst (os_months s)) \<and>
     (\<forall>m. map_of (os_months s) m = (if \<exists>e\<in>set es. in_month m e then Some (tonnes (in_month m) es) else None))"

lemma key_classes [simp]:
  "\<not> scope3_key ''ghg_scope1_total''" "\<not> scope3_key ''ghg_scope2_location''" "\<not> scope3_key ''ghg_scope2_market''"
  "\<not> scope3_key ''purchased_electricity_kwh''"
  by (simp_all add: scope3_key_def)

lemma month_step:
  assumes "exact_events (es @ [e])" "overview_sums_ok es s" "feeds e"
  shows "distinct (map fst (os_months (add_month (month_of e) (tco2e_of e) s))) \<and>
    map_of (os_months (add_month (month_of e) (tco2e_of e) s)) m =
      (if \<exists>x\<in>set (es @ [e]). in_month m x then Some (tonnes (in_month m) (es @ [e])) else None)"
proof
  show "distinct (map fst (os_months (add_month (month_of e) (tco2e_of e) s)))"
    using assms(2) by (simp add: overview_sums_ok_def add_month_def distinct_upsert)
  have old: "keep (map_of (os_months s) n) 0 = tonnes (in_month n) es" for n
  proof (cases "\<exists>x\<in>set es. in_month n x")
    case False
    then have "filter (in_month n) es = []" by (simp add: filter_empty_conv)
    then have "tonnes (in_month n) es = 0" by (simp add: tonnes_def)
    then show ?thesis using assms(2) False by (simp add: overview_sums_ok_def)
  qed (use assms(2) in \<open>simp add: overview_sums_ok_def\<close>)
  have own: "in_month (month_of e) e" using assms(3) by (simp add: in_month_def)
  have "dec_plus (tonnes (in_month (month_of e)) es) (tco2e_of e) = tonnes (in_month (month_of e)) (es @ [e])"
    by (rule dec_plus_tonnes[where P = "in_month (month_of e)", OF assms(1) _ own]) (simp add: in_month_def)
  then have new: "map_of (os_months (add_month (month_of e) (tco2e_of e) s)) m =
      (if m = month_of e then Some (tonnes (in_month m) (es @ [e])) else map_of (os_months s) m)"
    by (simp add: add_month_def old)
  show "map_of (os_months (add_month (month_of e) (tco2e_of e) s)) m =
      (if \<exists>x\<in>set (es @ [e]). in_month m x then Some (tonnes (in_month m) (es @ [e])) else None)"
  proof (cases "m = month_of e")
    case True
    then show ?thesis unfolding new using own by auto
  next
    case False
    then have "\<not> in_month m e" by (simp add: in_month_def)
    then show ?thesis using assms(2) False by (auto simp: new overview_sums_ok_def)
  qed
qed

lemma overview_step_ok:
  assumes "exact_events (es @ [e])" "overview_sums_ok es s"
  shows "overview_sums_ok (es @ [e]) (overview_step e s)"
proof -
  have month: "overview_sums_ok (es @ [e]) (add_month (month_of e) (tco2e_of e) s')"
    if f: "feeds e" and m: "os_months s' = os_months s"
      and sums: "os_s1 s' = tonnes is_scope1 (es @ [e])" "os_location s' = tonnes is_location (es @ [e])"
        "os_market s' = tonnes is_market (es @ [e])" "os_s3 s' = tonnes is_scope3 (es @ [e])" for s'
    using month_step[OF assms f] sums m by (simp add: overview_sums_ok_def add_month_def del: tonnes_simps)
  have part: "dec_plus (tonnes P es) (tco2e_of e) = tonnes P (es @ [e])" if "P e" "\<And>x. P x \<Longrightarrow> feeds x" for P
    using dec_plus_tonnes[OF assms(1), of P] that by blast
  note sums = assms(2)[unfolded overview_sums_ok_def]
  consider (one) "me_key e = ''ghg_scope1_total''" | (location) "me_key e = ''ghg_scope2_location''"
    | (market) "me_key e = ''ghg_scope2_market''" | (three) "scope3_key (me_key e)"
    | (power) "me_key e = ''purchased_electricity_kwh''" | (other) "\<not> feeds e"
    by (auto simp: feeds_def is_scope1_def is_location_def is_market_def is_scope3_def)
  then show ?thesis
  proof cases
    case one
    then have f: "is_scope1 e" "\<not> is_location e" "\<not> is_market e" "\<not> is_scope3 e" "feeds e" "tco2e_of e = me_value e"
      by (simp_all add: is_scope1_def is_location_def is_market_def is_scope3_def feeds_def tco2e_of_def)
    have "overview_sums_ok (es @ [e]) (add_month (month_of e) (tco2e_of e) (s \<lparr> os_s1 := dec_plus (os_s1 s) (tco2e_of e) \<rparr>))"
      using part[of is_scope1] sums f by (intro month) (simp_all add: feeds_def)
    then show ?thesis using one f by (simp add: overview_step_def month_of_def Let_def)
  next
    case location
    then have f: "\<not> is_scope1 e" "is_location e" "\<not> is_market e" "\<not> is_scope3 e" "feeds e" "tco2e_of e = me_value e"
      by (simp_all add: is_scope1_def is_location_def is_market_def is_scope3_def feeds_def tco2e_of_def)
    have "overview_sums_ok (es @ [e]) (add_month (month_of e) (tco2e_of e) (s \<lparr> os_location := dec_plus (os_location s) (tco2e_of e) \<rparr>))"
      using part[of is_location] sums f by (intro month) (simp_all add: feeds_def)
    then show ?thesis using location f by (simp add: overview_step_def month_of_def Let_def)
  next
    case market
    then have f: "\<not> is_scope1 e" "\<not> is_location e" "is_market e" "\<not> is_scope3 e" "feeds e" "tco2e_of e = me_value e"
      by (simp_all add: is_scope1_def is_location_def is_market_def is_scope3_def feeds_def tco2e_of_def)
    have "overview_sums_ok (es @ [e]) (add_month (month_of e) (tco2e_of e) (s \<lparr> os_market := dec_plus (os_market s) (tco2e_of e) \<rparr>))"
      using part[of is_market] sums f by (intro month) (simp_all add: feeds_def)
    then show ?thesis using market f by (simp add: overview_step_def month_of_def Let_def)
  next
    case three
    then have k: "me_key e \<noteq> ''ghg_scope1_total''" "me_key e \<noteq> ''ghg_scope2_location''" "me_key e \<noteq> ''ghg_scope2_market''"
      "me_key e \<noteq> ''purchased_electricity_kwh''" by auto
    then have f: "\<not> is_scope1 e" "\<not> is_location e" "\<not> is_market e" "is_scope3 e" "feeds e" "tco2e_of e = me_value e"
      using three by (simp_all add: is_scope1_def is_location_def is_market_def is_scope3_def feeds_def tco2e_of_def)
    have "overview_sums_ok (es @ [e]) (add_month (month_of e) (tco2e_of e) (s \<lparr> os_s3 := dec_plus (os_s3 s) (tco2e_of e) \<rparr>))"
      using part[of is_scope3] sums f by (intro month) (simp_all add: feeds_def)
    then show ?thesis using three k f by (simp add: overview_step_def month_of_def Let_def)
  next
    case power
    then have f: "\<not> is_scope1 e" "is_location e" "\<not> is_market e" "\<not> is_scope3 e" "feeds e"
      by (simp_all add: is_scope1_def is_location_def is_market_def is_scope3_def feeds_def)
    have "overview_sums_ok (es @ [e]) (add_month (month_of e) (tco2e_of e) (s \<lparr> os_location := dec_plus (os_location s) (tco2e_of e) \<rparr>))"
      using part[of is_location] sums f by (intro month) (simp_all add: feeds_def)
    then show ?thesis using power elec_tonnes[OF assms(1) power] by (simp add: overview_step_def month_of_def Let_def)
  next
    case other
    then have n: "\<not> is_scope1 e" "\<not> is_location e" "\<not> is_market e" "\<not> is_scope3 e" "\<not> in_month m e" for m
      by (simp_all add: feeds_def in_month_def)
    then have "overview_step e s = s"
      by (simp add: overview_step_def is_scope1_def is_location_def is_market_def is_scope3_def Let_def)
    then show ?thesis using sums n by (auto simp: overview_sums_ok_def)
  qed
qed

lemma overview_fold: "exact_events es \<Longrightarrow> overview_sums_ok es (fold overview_step es overview_start)"
proof (induction es rule: rev_induct)
  case (snoc e es)
  then show ?case using overview_step_ok[OF snoc.prems] exact_snoc by simp
qed (simp add: overview_sums_ok_def overview_start_def)

text \<open>What the code computes, whatever events are there.\<close>

lemma overview_sums_exact:
  assumes "resolve_overview_period parse_at E t q db = Inr w" "emissions_overview parse_at E t q db = Inr v"
    and "exact_events (filter (counted t q w) (k_events db))"
  defines "es \<equiv> filter (counted t q w) (k_events db)"
  shows "ow_s1 v = number3 (tonnes is_scope1 es) \<and> ow_location v = number3 (tonnes is_location es) \<and>
    ow_market v = number3 (tonnes is_market es) \<and> ow_s3 v = number3 (tonnes is_scope3 es) \<and>
    ow_total v = number3 (tonnes (\<lambda>e. is_scope1 e \<or> is_location e \<or> is_scope3 e) es) \<and>
    map fst (ow_trend v) = sorted_list_of_set (month_of ` {e \<in> set es. feeds e}) \<and>
    (\<forall>m x. (m, x) \<in> set (ow_trend v) \<longrightarrow> x = number3 (tonnes (in_month m) es))"
proof -
  let ?s = "fold overview_step es overview_start"
  have ex: "exact_events es" using assms(3) by (simp add: es_def)
  note ok = overview_fold[OF ex, unfolded overview_sums_ok_def]
  have v: "v = overview_of es" using assms(1,2) by (simp add: emissions_overview_def es_def)
  have cls: "\<not> (is_scope1 e \<and> is_location e)" "\<not> ((is_scope1 e \<or> is_location e) \<and> is_scope3 e)" for e
    by (auto simp: is_scope1_def is_location_def is_scope3_def)
  have join: "tonnes (\<lambda>e. P e \<or> Q e) xs = tonnes P xs + tonnes Q xs" if "\<And>e. \<not> (P e \<and> Q e)" for P Q xs
    using that by (induction xs rule: rev_induct) auto
  have plus: "dec_plus (tonnes P es) (tonnes Q es) = tonnes (\<lambda>e. P e \<or> Q e) es"
    if "\<And>e. \<not> (P e \<and> Q e)" "\<And>e. P e \<Longrightarrow> feeds e" "\<And>e. Q e \<Longrightarrow> feeds e" for P Q
  proof -
    have "on_grid 12 (tonnes (\<lambda>e. P e \<or> Q e) es) \<and> \<bar>tonnes (\<lambda>e. P e \<or> Q e) es\<bar> < 10 ^ 8"
      by (rule tonnes_exact[OF ex]) (use that(2,3) in blast)
    then show ?thesis using join[of P Q es] that(1) dec_round_exact by (simp add: dec_plus_def)
  qed
  have "dec_plus (tonnes is_scope1 es) (tonnes is_location es) = tonnes (\<lambda>e. is_scope1 e \<or> is_location e) es"
    by (rule plus) (use cls in \<open>auto simp: feeds_def\<close>)
  moreover have "dec_plus (tonnes (\<lambda>e. is_scope1 e \<or> is_location e) es) (tonnes is_scope3 es) =
      tonnes (\<lambda>e. (is_scope1 e \<or> is_location e) \<or> is_scope3 e) es"
    by (rule plus) (use cls in \<open>auto simp: feeds_def\<close>)
  ultimately have total: "dec_plus (dec_plus (os_s1 ?s) (os_location ?s)) (os_s3 ?s) =
      tonnes (\<lambda>e. is_scope1 e \<or> is_location e \<or> is_scope3 e) es" using ok by (simp add: disj_assoc)
  let ?m = "sort_key fst (os_months ?s)"
  have trend: "ow_trend v = map (\<lambda>m. (fst m, number3 (snd m))) ?m" by (simp add: v overview_of_def Let_def)
  have keys: "fst ` set (os_months ?s) = month_of ` {e \<in> set es. feeds e}"
  proof -
    have "m \<in> fst ` set (os_months ?s) \<longleftrightarrow> (\<exists>e\<in>set es. in_month m e)" for m
      using ok map_of_eq_None_iff[of "os_months ?s" m] by (auto split: if_splits)
    moreover have "(\<exists>e\<in>set es. in_month m e) \<longleftrightarrow> m \<in> month_of ` {e \<in> set es. feeds e}" for m
      by (auto simp: in_month_def)
    ultimately show ?thesis by (intro set_eqI) (simp only:)
  qed
  have "sorted (map fst ?m)" "distinct (map fst ?m)" "set (map fst ?m) = month_of ` {e \<in> set es. feeds e}"
    using ok keys by (simp_all add: distinct_map)
  then have "map fst ?m = sorted_list_of_set (month_of ` {e \<in> set es. feeds e})"
    by (metis sorted_list_of_set.idem_if_sorted_distinct)
  then have months: "map fst (ow_trend v) = sorted_list_of_set (month_of ` {e \<in> set es. feeds e})"
    by (simp add: trend comp_def)
  have month_sums: "x = number3 (tonnes (in_month m) es)" if "(m, x) \<in> set (ow_trend v)" for m x
  proof -
    have "(m, x) \<in> (\<lambda>m. (fst m, number3 (snd m))) ` set (os_months ?s)" using that by (simp add: trend)
    then obtain y where y: "(m, y) \<in> set (os_months ?s)" "x = number3 y" by (elim imageE) (metis fst_conv prod.collapse snd_conv)
    have d: "distinct (map fst (os_months ?s))"
      and m: "map_of (os_months ?s) m = (if \<exists>e\<in>set es. in_month m e then Some (tonnes (in_month m) es) else None)" using ok by blast+
    have "map_of (os_months ?s) m = Some y" using map_of_is_SomeI[OF d y(1)] .
    then show ?thesis using y(2) unfolding m by (auto split: if_splits)
  qed
  show ?thesis using ok total months month_sums by (simp add: v overview_of_def Let_def)
qed

text \<open>
  The documented location-based figure: the events that state scope 2 directly where there are any,
  and the purchased electricity, converted, where there are none.
\<close>

definition is_power :: "rat metric_event \<Rightarrow> bool" where
  "is_power e \<longleftrightarrow> me_key e = ''purchased_electricity_kwh''"

definition states_location :: "rat metric_event \<Rightarrow> bool" where
  "states_location e \<longleftrightarrow> me_key e = ''ghg_scope2_location''"

definition direct_scope2 :: "rat metric_event list \<Rightarrow> bool" where
  "direct_scope2 es = (\<exists>e\<in>set es. states_location e \<or> is_market e)"

definition documented_location :: "rat metric_event list \<Rightarrow> rat" where
  "documented_location es = (if direct_scope2 es then tonnes states_location es else tonnes is_power es)"

definition one_source :: "rat metric_event list \<Rightarrow> bool" where
  "one_source es \<longleftrightarrow> \<not> (direct_scope2 es \<and> (\<exists>e\<in>set es. is_power e))"

lemma tonnes_join: "(\<And>e. \<not> (P e \<and> Q e)) \<Longrightarrow> tonnes (\<lambda>e. P e \<or> Q e) es = tonnes P es + tonnes Q es"
  by (induction es rule: rev_induct) auto

lemma tonnes_none: "\<forall>e\<in>set es. \<not> P e \<Longrightarrow> tonnes P es = 0"
  by (simp add: tonnes_def filter_False)

lemma location_parts: "tonnes is_location es = tonnes states_location es + tonnes is_power es"
proof -
  have "is_location = (\<lambda>e. states_location e \<or> is_power e)"
    by (intro ext) (simp add: is_location_def states_location_def is_power_def)
  then show ?thesis using tonnes_join[of states_location is_power es] by (simp add: states_location_def is_power_def)
qed

lemma one_source_location: "one_source es \<Longrightarrow> tonnes is_location es = documented_location es"
  unfolding documented_location_def location_parts one_source_def direct_scope2_def
  by (auto intro!: tonnes_none)

lemma total_parts: "tonnes (\<lambda>e. is_scope1 e \<or> is_location e \<or> is_scope3 e) es =
    tonnes is_scope1 es + tonnes is_location es + tonnes is_scope3 es"
proof -
  have d: "\<not> (is_scope1 e \<and> (is_location e \<or> is_scope3 e))" "\<not> (is_location e \<and> is_scope3 e)" for e
    by (auto simp: is_scope1_def is_location_def is_scope3_def)
  show ?thesis
    using tonnes_join[of is_scope1 "\<lambda>e. is_location e \<or> is_scope3 e" es, OF d(1)] tonnes_join[of is_location is_scope3 es, OF d(2)] by simp
qed

text \<open>When both kinds of event are there, the figure adds them up.\<close>

lemma scope2_added_twice:
  assumes "resolve_overview_period parse_at E t q db = Inr w" "emissions_overview parse_at E t q db = Inr v"
    and "exact_events (filter (counted t q w) (k_events db))"
  shows "ow_location v = number3 (tonnes states_location (filter (counted t q w) (k_events db)) +
    tonnes is_power (filter (counted t q w) (k_events db)))"
  using overview_sums_exact[OF assms] by (simp add: location_parts)

text \<open>C22: The overview of the tenant's emissions is the documented one and exact, however its twenty-digit
  decimals are added up, when the counted events do not state scope 2 directly and give purchased
  electricity as well: scope 1, the market-based scope 2 and scope 3 are the sums over the approved or
  locked events of the period, the location-based scope 2 is the direct events or, where there are
  none, the converted electricity, the total is the sum of scope 1, the location-based scope 2
  and scope 3, and the trend has every month of a counted event once, in order, with the sum of that
  month's events.\<close>

theorem overview_exact:
  assumes "resolve_overview_period parse_at E t q db = Inr w" "emissions_overview parse_at E t q db = Inr v"
    and "exact_events (filter (counted t q w) (k_events db))" "one_source (filter (counted t q w) (k_events db))"
  defines "es \<equiv> filter (counted t q w) (k_events db)"
  shows "ow_s1 v = number3 (tonnes is_scope1 es) \<and> ow_location v = number3 (documented_location es) \<and>
    ow_market v = number3 (tonnes is_market es) \<and> ow_s3 v = number3 (tonnes is_scope3 es) \<and>
    ow_total v = number3 (tonnes is_scope1 es + documented_location es + tonnes is_scope3 es) \<and>
    map fst (ow_trend v) = sorted_list_of_set (month_of ` {e \<in> set es. feeds e}) \<and>
    (\<forall>m x. (m, x) \<in> set (ow_trend v) \<longrightarrow> x = number3 (tonnes (in_month m) es))"
  using overview_sums_exact[OF assms(1-3), unfolded total_parts one_source_location[OF assms(4)]] unfolding es_def .

section \<open>Scope 3 runs\<close>

definition category_dto :: "run_dto \<Rightarrow> int \<Rightarrow> run_dto" where
  "category_dto dto cat = dto \<lparr> rd_outputs := Some [''ghg_scope3_cat'' @ show_int cat] \<rparr>"

definition category_job :: "(int \<Rightarrow> env) \<Rightarrow> string \<Rightarrow> int \<Rightarrow> calc_job" where
  "category_job Es t cat = \<lparr> cj_id = None, cj_run = ev_ids (Es cat) 1, cj_tenant = t,
     cj_kind = ''SCOPE3_C'' @ show_int cat, cj_outputs = [''ghg_scope3_cat'' @ show_int cat] \<rparr>"

lemma scope3_loop_ok:
  assumes "rd_key dto = None" "rd_start dto \<le> rd_end dto"
  shows "set cats \<subseteq> {1..15} \<Longrightarrow> run_scopes t (rd_scopes dto) (c_nodes db) = Inr scopes \<Longrightarrow>
    \<exists>db'. scope3_loop D Es t dto actor cats runs db =
        (Inr (runs @ map (\<lambda>cat. new_run D (Es cat) t (category_dto dto cat) scopes actor) cats), db') \<and>
      c_runs db' = c_runs db @ map (\<lambda>cat. new_run D (Es cat) t (category_dto dto cat) scopes actor) cats \<and>
      c_queue db' = c_queue db @ map (category_job Es t) cats"
proof (induction cats arbitrary: runs db)
  case (Cons cat cats)
  let ?r = "new_run D (Es cat) t (category_dto dto cat) scopes actor"
  let ?step = "run_scope3 D (Es cat) t dto cat actor db"
  have step: "fst ?step = Inr ?r" "c_runs (snd ?step) = c_runs db @ [?r]"
    "c_queue (snd ?step) = c_queue db @ [category_job Es t cat]" "c_nodes (snd ?step) = c_nodes db"
    using Cons.prems assms by (simp_all add: run_scope3_def start_run_def category_dto_def category_job_def Let_def
        job_id_def queue_add_def new_run_def)
  then obtain db' where "?step = (Inr ?r, db')" by (cases ?step) simp
  with Cons.IH[of db' "runs @ [?r]"] step Cons.prems show ?case by auto
qed simp

lemma run_scope3_refused:
  "fst (run_scope3 D E t dto cat actor db) = Inl e \<Longrightarrow> snd (run_scope3 D E t dto cat actor db) = db"
  by (auto simp: run_scope3_def start_run_def Let_def split: if_splits sum.splits)

text \<open>The request for all of scope 3 either queues one run for each of the fifteen categories, in
  order and each with its own job, or it is refused and nothing is stored.\<close>

theorem scope3_all_or_nothing:
  assumes "rd_key dto = None"
  shows "(\<exists>e. run_all_scope3 D Es t dto actor db = (Inl e, db)) \<or>
    (\<exists>scopes db'. run_all_scope3 D Es t dto actor db = (Inr (15, map (\<lambda>cat. ev_ids (Es cat) 1) [1..15]), db') \<and>
       run_scopes t (rd_scopes dto) (c_nodes db) = Inr scopes \<and>
       c_runs db' = c_runs db @ map (\<lambda>cat. new_run D (Es cat) t (category_dto dto cat) scopes actor) [1..15] \<and>
       c_queue db' = c_queue db @ map (category_job Es t) [1..15])"
proof (cases "rd_start dto \<le> rd_end dto \<and> is_ok (run_scopes t (rd_scopes dto) (c_nodes db))")
  case True
  then obtain scopes where s: "run_scopes t (rd_scopes dto) (c_nodes db) = Inr scopes" by (auto simp: is_ok_iff)
  have n: "map cr_id (map (\<lambda>cat. new_run D (Es cat) t (category_dto dto cat) scopes actor) cats) = map (\<lambda>cat. ev_ids (Es cat) 1) cats" for cats
    by (simp add: new_run_def)
  have sub: "set [1..15] \<subseteq> {1..15::int}" by simp
  have dates: "rd_start dto \<le> rd_end dto" using True by simp
  obtain db' where d: "scope3_loop D Es t dto actor [1..15] [] db =
      (Inr (map (\<lambda>cat. new_run D (Es cat) t (category_dto dto cat) scopes actor) [1..15]), db')"
    "c_runs db' = c_runs db @ map (\<lambda>cat. new_run D (Es cat) t (category_dto dto cat) scopes actor) [1..15]"
    "c_queue db' = c_queue db @ map (category_job Es t) [1..15]"
    using scope3_loop_ok[OF assms dates sub s, of D Es actor "[]"] by auto
  have len: "length [1..15::int] = 15" by simp
  have "run_all_scope3 D Es t dto actor db = (Inr (15, map (\<lambda>cat. ev_ids (Es cat) 1) [1..15]), db')"
    unfolding run_all_scope3_def d(1) by (simp only: prod.case sum.case n length_map len)
  then show ?thesis using d(2,3) s by blast
next
  case False
  have up: "[1..15::int] = 1 # [2..15]" by (simp add: upto_rec1)
  have "\<exists>e. fst (run_scope3 D (Es 1) t dto 1 actor db) = Inl e"
    using False by (auto simp: run_scope3_def start_run_def Let_def split: sum.splits)
  then obtain e where e: "fst (run_scope3 D (Es 1) t dto 1 actor db) = Inl e" by blast
  then have "run_scope3 D (Es 1) t dto 1 actor db = (Inl e, db)"
    using run_scope3_refused[OF e] by (cases "run_scope3 D (Es 1) t dto 1 actor db") simp
  then have "run_all_scope3 D Es t dto actor db = (Inl e, db)" unfolding run_all_scope3_def up by simp
  then show ?thesis by blast
qed

section \<open>Registered credits\<close>

text \<open>Identifiers are unique, every credit is of a known registry, and its number there is its own.\<close>

definition carbon_good :: "kdb \<Rightarrow> bool" where
  "carbon_good db \<longleftrightarrow> distinct (map st_id (k_targets db)) \<and> distinct (map ap_id (k_projects db)) \<and>
     distinct (map cc_id (k_credits db)) \<and> distinct (map (\<lambda>c. (cc_registry c, cc_serial c)) (k_credits db)) \<and>
     (\<forall>c\<in>set (k_credits db). cc_registry c \<in> set credit_registries)"

lemma find_row_Some: "find_row rid tenant t i rows = Some r \<Longrightarrow> r \<in> set rows \<and> rid r = i \<and> tenant r = t"
  by (auto simp: find_row_def dest: find_first_Some)

lemma row_unique: "distinct (map rid rows) \<Longrightarrow> find_row rid tenant t i rows = Some r \<Longrightarrow> x \<in> set rows \<Longrightarrow> rid x = i \<Longrightarrow> x = r"
  using find_row_Some[of rid tenant t i rows r] by (auto simp: distinct_map dest: inj_onD)

lemma foreign_update:
  assumes "distinct (map rid rows)" "find_row rid tenant t i rows = Some r" "t \<noteq> u" "\<And>x. tenant (f x) = tenant x"
  shows "filter (\<lambda>x. tenant x = u) (update_where (\<lambda>x. rid x = i) f rows) = filter (\<lambda>x. tenant x = u) rows"
proof -
  have "\<forall>x\<in>set rows. rid x = i \<longrightarrow> tenant x \<noteq> u"
    using row_unique[OF assms(1,2)] find_row_Some[OF assms(2)] assms(3) by blast
  then show ?thesis using assms(4) by (induction rows) auto
qed

lemma foreign_delete:
  assumes "distinct (map rid rows)" "find_row rid tenant t i rows = Some r" "t \<noteq> u"
  shows "filter (\<lambda>x. rid x \<noteq> i \<and> tenant x = u) rows = filter (\<lambda>x. tenant x = u) rows"
proof -
  have "\<forall>x\<in>set rows. rid x = i \<longrightarrow> tenant x \<noteq> u"
    using row_unique[OF assms(1,2)] find_row_Some[OF assms(2)] assms(3) by blast
  then show ?thesis by (auto intro!: filter_cong)
qed

lemma distinct_map_cut: "distinct (map f rows) \<Longrightarrow> distinct (map f (filter P rows))"
  by (induction rows) auto

lemma carbon_patch_ids [simp]:
  "st_id (patch_sbti p x) = st_id x" "st_tenant (patch_sbti p x) = st_tenant x"
  "ap_id (patch_abatement q y) = ap_id y" "ap_tenant (patch_abatement q y) = ap_tenant y"
  "cc_id (patch_credit c z) = cc_id z" "cc_tenant (patch_credit c z) = cc_tenant z"
  "cc_registry (patch_credit c z) = cc_registry z" "cc_serial (patch_credit c z) = keep (xp_serial c) (cc_serial z)"
  by (simp_all add: patch_sbti_def patch_abatement_def patch_credit_def)

text \<open>Changing the key of one row to a free one keeps the keys distinct.\<close>

lemma distinct_rekey:
  assumes "distinct (map rid rows)" "distinct (map k rows)" "\<And>x. rid x = i \<Longrightarrow> x \<in> set rows \<Longrightarrow> k (f x) = v"
    "\<And>x. x \<in> set rows \<Longrightarrow> rid x \<noteq> i \<Longrightarrow> k x \<noteq> v"
  shows "distinct (map k (update_where (\<lambda>x. rid x = i) f rows))"
  using assms
proof (induction rows)
  case (Cons r rows)
  have ih: "distinct (map k (update_where (\<lambda>x. rid x = i) f rows))" using Cons by simp
  show ?case
  proof (cases "rid r = i")
    case True
    then have "\<forall>x\<in>set rows. rid x \<noteq> i" using Cons.prems(1) by (auto simp: image_iff)
    moreover from this have "update_where (\<lambda>x. rid x = i) f rows = rows" by (induction rows) auto
    ultimately show ?thesis using True Cons.prems by (auto simp: image_iff)
  next
    case False
    have "k r \<noteq> v" using False Cons.prems(4) by simp
    then show ?thesis using False ih Cons.prems by (auto simp: set_update_where)
  qed
qed simp

lemma create_credit_good:
  assumes "carbon_good db" "ev_ids E 1 \<notin> set (map cc_id (k_credits db))"
  shows "carbon_good (snd (create_credit E t d u db))"
proof -
  have "cc_id c \<noteq> ev_ids E 1" if "c \<in> set (k_credits db)" for c using that assms(2) by (metis imageI set_map)
  then show ?thesis using assms by (auto simp: carbon_good_def create_credit_def new_credit_def credit_taken_def Let_def)
qed

lemma update_credit_good:
  assumes "carbon_good db"
  shows "carbon_good (snd (update_credit E t i p u db))"
proof (cases "find_row cc_id cc_tenant t i (k_credits db)")
  case (Some c)
  note g = assms[unfolded carbon_good_def] and c = find_row_Some[OF Some]
  let ?rows = "update_where (\<lambda>y. cc_id y = i) (patch_credit p) (k_credits db)"
  show ?thesis
  proof (cases "credit_taken (cc_registry c) (keep (xp_serial p) (cc_serial c)) i db")
    case False
    have one: "x = c" if "x \<in> set (k_credits db)" "cc_id x = i" for x
      using row_unique[of cc_id "k_credits db"] g Some that by blast
    have "distinct (map (\<lambda>c. (cc_registry c, cc_serial c)) ?rows)"
      by (rule distinct_rekey[where rid = cc_id and v = "(cc_registry c, keep (xp_serial p) (cc_serial c))"])
        (use g one False in \<open>auto simp: credit_taken_def\<close>)
    moreover have "map cc_id ?rows = map cc_id (k_credits db)" by (rule update_where_keeps) simp
    moreover have "\<forall>x\<in>set ?rows. cc_registry x \<in> set credit_registries" using g by (auto simp: set_update_where)
    ultimately show ?thesis using g Some False by (simp add: update_credit_def carbon_good_def)
  qed (use assms Some in \<open>simp add: update_credit_def\<close>)
qed (use assms in \<open>simp add: update_credit_def\<close>)

lemma delete_credit_good: "carbon_good db \<Longrightarrow> carbon_good (snd (delete_credit E t i u db))"
  by (auto simp: carbon_good_def delete_credit_def distinct_map_cut split: option.splits)

lemma target_good: "carbon_good db \<Longrightarrow> ev_ids E 1 \<notin> set (map st_id (k_targets db)) \<Longrightarrow> carbon_good (snd (create_sbti E t d u db))"
  "carbon_good db \<Longrightarrow> carbon_good (snd (update_sbti E t i p u db))" "carbon_good db \<Longrightarrow> carbon_good (snd (delete_sbti E t i u db))"
  by (auto simp: carbon_good_def create_sbti_def to_sbti_create_def update_sbti_def delete_sbti_def distinct_map_cut
      update_where_keeps[of _ st_id] Let_def split: option.splits)

lemma project_good: "carbon_good db \<Longrightarrow> ev_ids E 1 \<notin> set (map ap_id (k_projects db)) \<Longrightarrow> carbon_good (snd (create_abatement pr E t d u db))"
  "carbon_good db \<Longrightarrow> carbon_good (snd (update_abatement E t i q u db))" "carbon_good db \<Longrightarrow> carbon_good (snd (delete_abatement E t i u db))"
  by (auto simp: carbon_good_def create_abatement_def to_abatement_create_def update_abatement_def delete_abatement_def
      distinct_map_cut update_where_keeps[of _ ap_id] Let_def split: option.splits)

lemma carbon_step_good: "carbon_good db \<Longrightarrow> carbon_ok c db \<Longrightarrow> carbon_good (carbon_step c db)"
  by (cases c) (simp_all add: create_credit_good update_credit_good delete_credit_good target_good project_good)

lemma carbon_foreign:
  assumes "carbon_good db" "carbon_tenant c \<noteq> u"
  shows "filter (\<lambda>x. st_tenant x = u) (k_targets (carbon_step c db)) = filter (\<lambda>x. st_tenant x = u) (k_targets db)"
    "filter (\<lambda>x. ap_tenant x = u) (k_projects (carbon_step c db)) = filter (\<lambda>x. ap_tenant x = u) (k_projects db)"
    "filter (\<lambda>x. cc_tenant x = u) (k_credits (carbon_step c db)) = filter (\<lambda>x. cc_tenant x = u) (k_credits db)"
proof -
  have d: "distinct (map st_id (k_targets db))" "distinct (map ap_id (k_projects db))" "distinct (map cc_id (k_credits db))"
    using assms(1) by (simp_all add: carbon_good_def)
  note f = foreign_update[OF d(1), of st_tenant] foreign_update[OF d(2), of ap_tenant] foreign_update[OF d(3), of cc_tenant]
    foreign_delete[OF d(1), of st_tenant] foreign_delete[OF d(2), of ap_tenant] foreign_delete[OF d(3), of cc_tenant]
  show "filter (\<lambda>x. st_tenant x = u) (k_targets (carbon_step c db)) = filter (\<lambda>x. st_tenant x = u) (k_targets db)"
    using assms(2) by (cases c) (simp_all add: create_sbti_def to_sbti_create_def update_sbti_def delete_sbti_def create_abatement_def
        update_abatement_def delete_abatement_def create_credit_def update_credit_def delete_credit_def Let_def f split: option.splits)
  show "filter (\<lambda>x. ap_tenant x = u) (k_projects (carbon_step c db)) = filter (\<lambda>x. ap_tenant x = u) (k_projects db)"
    using assms(2) by (cases c) (simp_all add: create_sbti_def update_sbti_def delete_sbti_def create_abatement_def to_abatement_create_def
        update_abatement_def delete_abatement_def create_credit_def update_credit_def delete_credit_def Let_def f split: option.splits)
  show "filter (\<lambda>x. cc_tenant x = u) (k_credits (carbon_step c db)) = filter (\<lambda>x. cc_tenant x = u) (k_credits db)"
    using assms(2) by (cases c) (simp_all add: create_sbti_def update_sbti_def delete_sbti_def create_abatement_def
        update_abatement_def delete_abatement_def create_credit_def new_credit_def update_credit_def delete_credit_def Let_def f
        split: option.splits)
qed

interpretation targets: tenant_scoped carbon_step carbon_ok carbon_good st_tenant k_targets carbon_tenant
  by unfold_locales (simp_all add: carbon_step_good carbon_foreign)

interpretation projects: tenant_scoped carbon_step carbon_ok carbon_good ap_tenant k_projects carbon_tenant
  by unfold_locales (simp_all add: carbon_step_good carbon_foreign)

interpretation credits: tenant_scoped carbon_step carbon_ok carbon_good cc_tenant k_credits carbon_tenant
  by unfold_locales (simp_all add: carbon_step_good carbon_foreign)

text \<open>C34: A credit is held once on the platform: after any calls of any tenants, two credits with the
  same registry and serial number are one, so the same tonnes are never claimed by two tenants, and every
  credit is of a known registry.\<close>

theorem credits_held_once:
  assumes "carbon_good db" "runs_ok carbon_step carbon_ok cs db" "c \<in> set (k_credits (fold carbon_step cs db))"
  shows "cc_registry c \<in> set credit_registries \<and> (\<forall>d. d \<in> set (k_credits (fold carbon_step cs db)) \<longrightarrow>
    cc_registry d = cc_registry c \<longrightarrow> cc_serial d = cc_serial c \<longrightarrow> d = c)"
proof -
  have "carbon_good (fold carbon_step cs db)" by (rule targets.run_inv[OF assms(1,2)])
  then have "distinct (map (\<lambda>c. (cc_registry c, cc_serial c)) (k_credits (fold carbon_step cs db)))"
    "\<forall>c\<in>set (k_credits (fold carbon_step cs db)). cc_registry c \<in> set credit_registries" by (simp_all add: carbon_good_def)
  then show ?thesis using assms(3) by (auto simp: distinct_map dest: inj_onD)
qed

text \<open>Calls of other tenants leave a tenant's targets, projects and credits as they are.\<close>

theorem carbon_tenants_apart:
  assumes "carbon_good db" "runs_ok carbon_step carbon_ok cs db" "u \<notin> carbon_tenant ` set cs"
  shows "list_sbti u (fold carbon_step cs db) = list_sbti u db \<and> list_abatement u (fold carbon_step cs db) = list_abatement u db \<and>
    list_credits u (fold carbon_step cs db) = list_credits u db \<and> macc pw u (fold carbon_step cs db) = macc pw u db"
  using targets.run_foreign[OF assms] projects.run_foreign[OF assms] credits.run_foreign[OF assms]
  by (simp add: list_sbti_def list_abatement_def list_by_id_def list_credits_def macc_def)

section \<open>The cost curve\<close>

text \<open>The curve has one row for each project of the tenant, cheapest tonne first.\<close>

theorem macc_complete:
  "mset (macc pw t db) = image_mset (macc_row_of pw) (mset (filter (\<lambda>p. ap_tenant p = t) (k_projects db))) \<and>
   sorted (map mr_cost (macc pw t db))"
  by (simp add: macc_def)

section \<open>The pathway\<close>

text \<open>A reduction of nought to hundred percent of a baseline: what the rounded arithmetic gives.\<close>

lemma dec_round_one [simp]: "dec_round 1 = 1"
  by (rule dec_round_exact) (auto simp: on_grid_def intro: exI[of _ "10 ^ 12"])

lemma target_between:
  assumes "0 \<le> b" "dec_round b = b" "0 \<le> r" "r \<le> 100"
  shows "0 \<le> dec_times b (dec_minus 1 (dec_div r 100)) \<and> dec_times b (dec_minus 1 (dec_div r 100)) \<le> b"
proof -
  have q: "0 \<le> dec_div r 100" "dec_div r 100 \<le> 1"
    using dec_round_mono[of 0 "r / 100"] dec_round_mono[of "r / 100" 1] assms(3,4) by (simp_all add: dec_div_def)
  have x: "0 \<le> dec_minus 1 (dec_div r 100)" "dec_minus 1 (dec_div r 100) \<le> 1"
    using dec_round_mono[of 0 "1 - dec_div r 100"] dec_round_mono[of "1 - dec_div r 100" 1] q by (simp_all add: dec_minus_def)
  have "0 \<le> b * dec_minus 1 (dec_div r 100)" "b * dec_minus 1 (dec_div r 100) \<le> b"
    using assms(1) x mult_left_mono[of "dec_minus 1 (dec_div r 100)" 1 b] by simp_all
  then show ?thesis using dec_round_mono[of 0] dec_round_mono[of "b * dec_minus 1 (dec_div r 100)" b] assms(2)
    by (simp add: dec_times_def)
qed

text \<open>The yearly step times the number of years comes back to the whole reduction, up to rounding.\<close>

lemma path_end:
  assumes b: "0 \<le> b" and T: "0 \<le> T" "T \<le> b" and n: "0 < (n :: int)"
  defines "an \<equiv> dec_div (dec_minus b T) (of_int n)"
  shows "\<bar>dec_minus b (dec_times an (of_int n)) - T\<bar> \<le> b / 10 ^ 18"
proof -
  have er: "\<bar>dec_round q - q\<bar> \<le> c / 20000000000000000000" if "\<bar>q\<bar> \<le> c" for q c
    using dec_round_error[of q] that by simp
  define D where "D = dec_minus b T"
  have D: "\<bar>D - (b - T)\<bar> \<le> b / 20000000000000000000" using er[of "b - T" b] T b by (simp add: D_def dec_minus_def)
  have Dabs: "\<bar>D\<bar> \<le> 2 * b" using D T b by linarith
  have n0: "(0::rat) < of_int n" using n by simp
  have an: "\<bar>an - D / of_int n\<bar> \<le> 2 * b / of_int n / 20000000000000000000"
    unfolding an_def dec_div_def D_def[symmetric] using Dabs n0 by (intro er) (simp add: divide_right_mono)
  have "an * of_int n - D = (an - D / of_int n) * of_int n" using n0 by (simp add: left_diff_distrib)
  then have "\<bar>an * of_int n - D\<bar> = \<bar>an - D / of_int n\<bar> * of_int n" using n0 by (simp add: abs_mult)
  also have "\<dots> \<le> 2 * b / of_int n / 20000000000000000000 * of_int n" using an n0 by (intro mult_right_mono) simp_all
  finally have m: "\<bar>an * of_int n - D\<bar> \<le> 2 * b / 20000000000000000000" using n0 by simp
  then have mabs: "\<bar>an * of_int n\<bar> \<le> 3 * b" using Dabs b by linarith
  define Q where "Q = dec_times an (of_int n)"
  have Q: "\<bar>Q - an * of_int n\<bar> \<le> 3 * b / 20000000000000000000" using er[OF mabs] by (simp add: Q_def dec_times_def)
  have "\<bar>b - Q\<bar> \<le> 5 * b" using Q mabs b by linarith
  then have R: "\<bar>dec_minus b Q - (b - Q)\<bar> \<le> 5 * b / 20000000000000000000" using er[of "b - Q" "5 * b"] by (simp add: dec_minus_def)
  have "\<bar>dec_minus b Q - T\<bar> \<le> 11 * b / 20000000000000000000" using R Q m D b by linarith
  also have "\<dots> \<le> b / 10 ^ 18" using b by simp
  finally show ?thesis by (simp add: Q_def)
qed

text \<open>C28: With no negative value among the baseline events and a reduction between nought and hundred
  percent, the pathway has one point for each year from the baseline year to the target year. It
  starts at the baseline, never rises, and in a target year after the baseline year it meets the
  target, up to the rounding of the decimals and doubles (two parts in ten to the fifteenth).\<close>

theorem net_zero_path:
  assumes "list_sbti t db = x # rest" "net_zero tz t db = Some p"
    and "\<forall>e\<in>set (baseline_events tz t (st_baseline_year x) db). 0 \<le> me_value e"
    and "0 \<le> st_reduction x" "st_reduction x \<le> 100"
  shows "map fst (nz_path p) = [nz_baseline_year p..nz_target_year p] \<and>
    (nz_baseline_year p \<le> nz_target_year p \<longrightarrow> hd (nz_path p) = (nz_baseline_year p, nz_baseline p)) \<and>
    sorted (map (\<lambda>y. - snd y) (nz_path p)) \<and> nz_target p \<le> nz_baseline p \<and>
    (nz_baseline_year p < nz_target_year p \<longrightarrow> \<bar>snd (last (nz_path p)) - nz_target p\<bar> \<le> 2 * nz_baseline p / 10 ^ 15)"
proof -
  define b where "b = fold (\<lambda>e a. dec_plus a (me_value e)) (baseline_events tz t (st_baseline_year x) db) 0"
  define T where "T = dec_times b (dec_minus 1 (dec_div (st_reduction x) 100))"
  let ?y0 = "st_baseline_year x" and ?y1 = "st_target_year x"
  define an where "an = (if ?y1 - ?y0 > 0 then dec_div (dec_minus b T) (of_int (?y1 - ?y0)) else 0)"
  define pt where "pt = (\<lambda>y. dec_minus b (dec_times an (of_int (y - ?y0))))"
  have p: "nz_path p = map (\<lambda>y. (y, fl (pt y))) [?y0..?y1]" "nz_baseline p = fl b" "nz_target p = fl T"
    "nz_baseline_year p = ?y0" "nz_target_year p = ?y1"
    using assms(1,2) by (auto simp: net_zero_def pathway_of_def b_def[symmetric] T_def an_def pt_def Let_def)
  have fold_ok: "0 \<le> fold (\<lambda>e a. dec_plus a (me_value e)) es c \<and>
      dec_round (fold (\<lambda>e a. dec_plus a (me_value e)) es c) = fold (\<lambda>e a. dec_plus a (me_value e)) es c"
    if "\<forall>e\<in>set es. 0 \<le> me_value e" "0 \<le> c" "dec_round c = c" for es :: "rat metric_event list" and c
    using that by (induction es arbitrary: c) (simp_all add: dec_plus_def dec_round_nonneg)
  have b: "0 \<le> b" "dec_round b = b" unfolding b_def using fold_ok[OF assms(3), of 0] by simp_all
  have T: "0 \<le> T" "T \<le> b" using target_between[OF b assms(4,5)] by (simp_all add: T_def)
  have an: "0 \<le> an"
    unfolding an_def using T by (simp add: dec_div_def dec_minus_def dec_round_nonneg)
  have start: "pt ?y0 = b" using b(2) by (simp add: pt_def dec_times_def dec_minus_def)
  have down: "pt j \<le> pt i" if "i \<le> j" for i j
  proof -
    have "an * of_int (i - ?y0) \<le> an * of_int (j - ?y0)" using that an by (intro mult_left_mono) simp_all
    then show ?thesis unfolding pt_def dec_minus_def dec_times_def by (intro dec_round_mono diff_mono) simp_all
  qed
  have years: "map fst (nz_path p) = [?y0..?y1]" by (simp add: p comp_def)
  have first: "hd (nz_path p) = (?y0, nz_baseline p)" if "?y0 \<le> ?y1"
    using that start by (simp add: p upto_rec1)
  have sorted: "sorted (map (\<lambda>y. - snd y) (nz_path p))"
    unfolding p(1) map_map sorted_map comp_def snd_conv
    by (rule sorted_wrt_mono_rel[OF _ sorted_wrt_upto]) (use fl_mono down in auto)
  have last: "\<bar>snd (last (nz_path p)) - nz_target p\<bar> \<le> 2 * nz_baseline p / 10 ^ 15" if "?y0 < ?y1"
  proof -
    have "last [?y0..?y1] = ?y1" using that by (subst upto_rec2) simp_all
    then have l: "snd (last (nz_path p)) = fl (pt ?y1)" using that by (simp add: p last_map)
    have close: "\<bar>pt ?y1 - T\<bar> \<le> b / 10 ^ 18"
      using path_end[OF b(1) T, of "?y1 - ?y0"] that by (simp add: pt_def an_def)
    have B: "b / 2 \<le> fl b" using fl_bounds[OF b(1)] b(1) by simp
    have "\<bar>pt ?y1\<bar> \<le> 2 * b" 
    proof -
      have "b / 10 ^ 18 \<le> b" using b(1) by simp
      then show ?thesis using close T by linarith
    qed
    then have "\<bar>fl (pt ?y1) - pt ?y1\<bar> \<le> 2 * b / 2 ^ 53" by (intro order_trans[OF fl_error divide_right_mono]) simp_all
    moreover have "\<bar>fl T - T\<bar> \<le> b / 2 ^ 53" using T by (intro order_trans[OF fl_error divide_right_mono]) simp_all
    ultimately have "\<bar>fl (pt ?y1) - fl T\<bar> \<le> 2 * b / 2 ^ 53 + b / 2 ^ 53 + b / 10 ^ 18" using close by linarith
    also have "\<dots> \<le> b / 10 ^ 15" using b(1) by simp
    also have "\<dots> \<le> 2 * fl b / 10 ^ 15" using B by (intro divide_right_mono) simp_all
    finally show ?thesis by (simp only: l p(2,3))
  qed
  show ?thesis using years first sorted last fl_mono[OF T(2)] by (simp add: p(2-5))
qed

section \<open>Witnesses\<close>

definition carbon_env :: "string \<Rightarrow> env" where
  "carbon_env x = \<lparr> ev_now = 0, ev_ids = (\<lambda>k. x @ show_nat k), ev_audit_ok = True \<rparr>"

definition sample_emission :: "string \<Rightarrow> string \<Rightarrow> rat \<Rightarrow> rat metric_event" where
  "sample_emission i k v = \<lparr> me_id = i, me_tenant = ''t'', me_scope = ''n'', me_key = k, me_start = 1, me_end = 2, me_value = v,
     me_unit = ''tCO2e'', me_dims = ''{}'', me_source = StManual, me_extraction = None, me_calc_run = None, me_status = MApproved,
     me_submitted_by = ''u'', me_submitted_at = 0, me_approved_by = None, me_approved_at = None, me_comment = None \<rparr>"

definition sample_emissions :: "rat metric_event list" where
  "sample_emissions = [sample_emission ''a'' ''ghg_scope1_total'' 716, sample_emission ''b'' ''purchased_electricity_kwh'' 1000000]"

definition sample_credit :: carbon_credit where
  "sample_credit = \<lparr> cc_id = ''c'', cc_tenant = ''t'', cc_registry = ''VERRA'', cc_serial = ''7'', cc_vintage = 2020, cc_project = ''P'',
     cc_quantity = 10, cc_price = 5 \<rparr>"

definition sample_target :: sbti_target where
  "sample_target = \<lparr> st_id = ''s'', st_tenant = ''t'', st_scope = ScAll, st_baseline_year = 2020, st_baseline_value = 0,
     st_target_year = 2030, st_reduction = 50 \<rparr>"

definition sample_kdb :: "rat metric_event list \<Rightarrow> kdb" where
  "sample_kdb es = \<lparr> k_events = es, k_targets = [sample_target], k_projects = [], k_credits = [sample_credit], k_audit = [] \<rparr>"

definition sample_equery :: emissions_query where
  "sample_equery = \<lparr> eq_scope = None, eq_from = Some ''a'', eq_to = Some ''b'', eq_scopes = None \<rparr>"

lemma sample_counted: "filter (counted ''t'' sample_equery (0, 9)) (k_events (sample_kdb sample_emissions)) = sample_emissions"
  by (simp add: sample_kdb_def sample_emissions_def sample_emission_def counted_def sample_equery_def in_nonempty_def counts_status_def)

theorem overview_exact_witness:
  "ow_location (overview_of sample_emissions) = number3 716 \<and> ow_total (overview_of sample_emissions) = number3 1432"
proof -
  let ?parse = "\<lambda>s. if s = ''a'' then Some 0 else Some (9 :: int)"
  have w: "resolve_overview_period ?parse (carbon_env ''e'') ''t'' sample_equery (sample_kdb sample_emissions) = Inr (0, 9)"
    by (simp add: resolve_overview_period_def asked_period_def sample_equery_def)
  have v: "emissions_overview ?parse (carbon_env ''e'') ''t'' sample_equery (sample_kdb sample_emissions) = Inr (overview_of sample_emissions)"
    by (simp add: emissions_overview_def w sample_counted)
  have "on_grid 12 (716 :: rat)" "on_grid 6 (1000000 :: rat)"
    by (auto simp: on_grid_def intro: exI[of _ "716 * 10 ^ 12"] exI[of _ "10 ^ 12"])
  then have "exact_events sample_emissions"
    by (simp add: exact_events_def sample_emissions_def sample_emission_def feeds_def is_scope1_def is_location_def tco2e_of_def cea_factor_def)
  moreover have "one_source sample_emissions"
    by (simp add: one_source_def direct_scope2_def states_location_def is_market_def sample_emissions_def sample_emission_def)
  moreover have "documented_location sample_emissions = 716" "tonnes is_scope1 sample_emissions = 716" "tonnes is_scope3 sample_emissions = 0"
    by (simp_all add: documented_location_def direct_scope2_def states_location_def is_market_def is_power_def is_scope1_def
      is_scope3_def scope3_key_def tonnes_def tco2e_of_def cea_factor_def sample_emissions_def sample_emission_def)
  ultimately show ?thesis using overview_exact[OF w v] by (simp add: sample_counted)
qed

definition sample_scope3_dto :: run_dto where
  "sample_scope3_dto = \<lparr> rd_start = 0, rd_end = 9, rd_scopes = Some [''n''], rd_outputs = None, rd_key = None \<rparr>"

definition sample_scope3_db :: "int cdb" where
  "sample_scope3_db = \<lparr> c_nodes = [(''n'', ''t'')], c_registry = [], c_mappings = [], c_events = [], c_factors = [], c_runs = [],
     c_queue = [], c_audit = [] \<rparr>"

theorem scope3_all_or_nothing_witness:
  "map cj_kind (c_queue (snd (run_all_scope3 int_api (\<lambda>i. carbon_env (show_int i)) ''t'' sample_scope3_dto ''u'' sample_scope3_db))) =
     map (\<lambda>i. ''SCOPE3_C'' @ show_int i) [1..15]"
proof -
  let ?run = "run_all_scope3 int_api (\<lambda>i. carbon_env (show_int i)) ''t'' sample_scope3_dto ''u'' sample_scope3_db"
  have k: "rd_key sample_scope3_dto = None" by (simp add: sample_scope3_dto_def)
  have "run_scopes ''t'' (rd_scopes sample_scope3_dto) (c_nodes sample_scope3_db) = Inr [''n'']"
    by (simp add: run_scopes_def sample_scope3_dto_def sample_scope3_db_def)
  from scope3_loop_ok[OF k _ _ this, of "[1..15]" int_api "\<lambda>i. carbon_env (show_int i)" "''u''" "[]"]
  have "\<exists>r d. ?run = (Inr r, d)" by (auto simp: run_all_scope3_def sample_scope3_dto_def)
  then obtain r d where r: "?run = (Inr r, d)" by blast
  then have "c_queue d = c_queue sample_scope3_db @ map (category_job (\<lambda>i. carbon_env (show_int i)) ''t'') [1..15]"
    using scope3_all_or_nothing[OF k, of int_api "\<lambda>i. carbon_env (show_int i)" "''t''" "''u''" sample_scope3_db] by (auto simp only: prod.inject sum.inject sum.simps)
  then show ?thesis unfolding r snd_conv by (simp add: sample_scope3_db_def category_job_def)
qed

theorem credits_held_once_witness:
  "carbon_good (sample_kdb []) \<and> cc_registry sample_credit \<in> set credit_registries"
proof -
  have g: "carbon_good (sample_kdb [])" by (simp add: carbon_good_def sample_kdb_def sample_credit_def credit_registries_def)
  have m: "sample_credit \<in> set (k_credits (fold carbon_step [] (sample_kdb [])))" by (simp add: sample_kdb_def)
  show ?thesis using g credits_held_once[OF g _ m] by simp
qed

theorem carbon_tenants_apart_witness:
  "list_credits ''t'' (fold carbon_step [KoUncredit (carbon_env ''e'') ''v'' ''c'' ''u''] (sample_kdb [])) = list_credits ''t'' (sample_kdb [])"
proof -
  have g: "carbon_good (sample_kdb [])" by (simp add: carbon_good_def sample_kdb_def sample_credit_def credit_registries_def)
  show ?thesis using carbon_tenants_apart[OF g, of "[KoUncredit (carbon_env ''e'') ''v'' ''c'' ''u'']" "''t''"] by simp
qed

theorem net_zero_path_witness:
  "map fst (nz_path (pathway_of 1000 sample_target)) = [2020..2030]"
proof -
  let ?es = "[sample_emission ''a'' ''ghg_total'' 1000 \<lparr> me_end := utc 2020 6 1 \<rparr>]"
  have l: "list_sbti ''t'' (sample_kdb ?es) = [sample_target]"
    by (simp add: list_sbti_def list_by_id_def sample_kdb_def sample_target_def)
  have d: "utc 2020 1 1 \<le> utc 2020 6 1" "utc 2020 6 1 < utc 2021 1 1" by code_simp+
  have b: "baseline_events 0 ''t'' (st_baseline_year sample_target) (sample_kdb ?es) = ?es"
    using d by (simp add: baseline_events_def sample_kdb_def sample_target_def sample_emission_def)
  have "on_grid 12 (1000 :: rat)" by (auto simp: on_grid_def intro: exI[of _ "10 ^ 15"])
  then have "dec_round 1000 = 1000" by (rule dec_round_exact) simp
  then have "net_zero 0 ''t'' (sample_kdb ?es) = Some (pathway_of 1000 sample_target)"
    by (simp add: net_zero_def l b dec_plus_def) (simp add: sample_emission_def)
  from net_zero_path[OF l this] show ?thesis by (simp add: b) (simp add: sample_target_def sample_emission_def pathway_of_def Let_def)
qed

end
