(* ===== verification/Files.thy ===== *)
theory Files
  imports Extraction_Review Hierarchy Doubles
begin

text \<open>
  Files and documents (services/api/src/files/files.service.ts, post-extraction.processor.ts):
  uploads with their name, type and deduplication rules, the dispatch to the extraction engine, its
  callback, the validation job, listing, download, deletion and reprocessing.

  Bodies are byte strings. SHA-256, the signing of addresses, the parsing of dates and of numeric
  texts are parameters; whether the object store and the engine accept a request is part of the
  call. The dispatch runs beside the request that starts it: it waits in \<open>y_dispatches\<close> until the
  engine has answered. A number of a body is the decimal written in it; \<open>fl\<close> makes it the double the
  code computes with.
\<close>

section \<open>Data\<close>

datatype doc_status =
    DsPending | DsUploaded | DsClassified | DsExtracted | DsExtractionFailed | DsPartial
  | DsNeedsReview | DsReviewNeeded | DsApproved | DsRejected

definition doc_statuses :: "(string \<times> doc_status) list" where
  "doc_statuses =
     [(''PENDING'', DsPending), (''UPLOADED'', DsUploaded), (''CLASSIFIED'', DsClassified), (''EXTRACTED'', DsExtracted),
      (''EXTRACTION_FAILED'', DsExtractionFailed), (''PARTIAL'', DsPartial), (''NEEDS_REVIEW'', DsNeedsReview),
      (''REVIEW_NEEDED'', DsReviewNeeded), (''APPROVED'', DsApproved), (''REJECTED'', DsRejected)]"

record stored_doc = document_row +
  fd_mime :: string
  fd_bytes :: nat
  fd_sha :: string
  fd_confidence :: "rat option"
  fd_by :: string
  fd_at :: int
  fd_status :: doc_status
  fd_tags :: "string list"

text \<open>What is posted to the extraction engine, and the row it is about.\<close>

record dispatch =
  dp_doc :: string
  dp_url :: string
  dp_tenant :: string
  dp_hint :: "string option"
  dp_callback :: string

datatype doc_snap =
    SnapUpload string nat "string option"
  | SnapDoc stored_doc
  | SnapReprocess
  | SnapExtracted string nat "string option"

record 'v fdb =
  y_nodes :: "entity_node list"
  y_docs :: "stored_doc list"
  y_fields :: "'v extraction_field list"
  y_metrics :: "'v mdb"
  y_objects :: "(string \<times> string \<times> string) list"
  y_dispatches :: "dispatch list"
  y_jobs :: "(string \<times> string) list"
  y_audit :: "doc_snap audit_row list"

section \<open>Names and types\<close>

definition allowed_mime :: "string list" where
  "allowed_mime =
     [''application/pdf'', ''application/vnd.openxmlformats-officedocument.spreadsheetml.sheet'',
      ''application/vnd.ms-excel'', ''text/csv'', ''image/png'', ''image/jpeg'']"

definition max_bytes :: nat where
  "max_bytes = 50 * 1024 * 1024"

definition known_doc_types :: "string list" where
  "known_doc_types =
     [''UTILITY_BILL'', ''FUEL_INVOICE'', ''ELECTRICITY_BILL'', ''WATER_BILL'', ''WASTE_MANIFEST'', ''HR_SHEET'', ''PAYROLL'',
      ''SAFETY_INCIDENT'', ''AUDITED_FINANCIALS'', ''GRI_INDEX'', ''BRSR_DRAFT'', ''POLICY_DOC'', ''BOARD_MINUTES'', ''CERTIFICATE'',
      ''SUPPLIER_RESPONSE'', ''EMISSIONS_INVENTORY'', ''OTHER'']"

definition normalize_doc_type :: "string option \<Rightarrow> string" where
  "normalize_doc_type d =
     (case keep d [] of [] \<Rightarrow> ''OTHER''
      | s \<Rightarrow> if js_upper s \<in> set known_doc_types then js_upper s else ''OTHER'')"

definition ext_to_mime :: "(string \<times> string) list" where
  "ext_to_mime =
     [(''pdf'', ''application/pdf''), (''xlsx'', ''application/vnd.openxmlformats-officedocument.spreadsheetml.sheet''),
      (''xls'', ''application/vnd.ms-excel''), (''csv'', ''text/csv''), (''png'', ''image/png''), (''jpg'', ''image/jpeg''),
      (''jpeg'', ''image/jpeg'')]"

text \<open>\<open>s.split('.').pop()?.toLowerCase()\<close>.\<close>

definition extension_of :: "string \<Rightarrow> string" where
  "extension_of s = js_lower (last (split_on (CHR ''.'') s))"

text \<open>An extension that \<open>Object.prototype\<close> has finds a host object, which is no allowed type either.\<close>

definition mime_from_extension :: "string \<Rightarrow> string" where
  "mime_from_extension s = keep (map_of ext_to_mime (extension_of s)) ''application/octet-stream''"

definition control_char :: "char \<Rightarrow> bool" where
  "control_char c = (let n = of_char c :: nat in n < 32 \<or> n = 127)"

definition quoting_chars :: "char list" where
  "quoting_chars = [CHR 0x22, CHR 0x27, CHR 0x60, CHR ''$'', CHR ''<'', CHR ''>'', CHR ''|'', CHR '';'', CHR 0x0D, CHR 0x0A]"

definition or_file :: "string \<Rightarrow> string" where
  "or_file s = (if s = [] then ''file'' else s)"

definition sanitize_filename :: "string \<Rightarrow> string" where
  "sanitize_filename name =
     (if name = [] then ''file''
      else (let part = last (split_on (CHR ''/'') (map (\<lambda>c. if c = CHR 0x5C then CHR ''/'' else c) name));
                cleaned = js_trim (map (\<lambda>c. if c \<in> set quoting_chars then CHR ''_'' else c) (filter (\<lambda>c. \<not> control_char c) part))
            in or_file (take 200 cleaned)))"

definition key_char :: "char \<Rightarrow> bool" where
  "key_char c = (let n = of_char c :: nat in (97 \<le> n \<and> n \<le> 122) \<or> (48 \<le> n \<and> n \<le> 57))"

definition key_extension :: "string \<Rightarrow> string" where
  "key_extension s =
     (let e = extension_of s in if 1 \<le> length e \<and> length e \<le> 8 \<and> list_all key_char e then e else ''bin'')"

section \<open>Uploading\<close>

record uploaded =
  up_mime :: string
  up_name :: string
  up_body :: string

record upload_dto =
  ud_type :: "string option"
  ud_scope :: "string option"
  ud_tags :: "string option"

definition effective_mime :: "uploaded \<Rightarrow> string" where
  "effective_mime u = (if up_mime u \<in> set allowed_mime then up_mime u else mime_from_extension (up_name u))"

definition object_key :: "env \<Rightarrow> string \<Rightarrow> string \<Rightarrow> string" where
  "object_key E t name =
     ''t/'' @ t @ ''/'' @ take 10 (iso_string (ev_now E)) @ ''/'' @ ev_ids E 2 @ ''.'' @ key_extension name"

text \<open>The order of the enum of node types is that of its declaration.\<close>

fun type_rank :: "entity_type \<Rightarrow> nat" where
  "type_rank EGroup = 0" | "type_rank ELegalEntity = 1" | "type_rank EDivision = 2" | "type_rank ESite = 3" | "type_rank EDepartment = 4"

definition upload_scope :: "string \<Rightarrow> string option \<Rightarrow> entity_node list \<Rightarrow> string option" where
  "upload_scope t wanted nodes =
     (case (case keep wanted [] of [] \<Rightarrow> None | s \<Rightarrow> find_first (\<lambda>n. en_id n = s \<and> en_tenant n = t) nodes) of
        Some n \<Rightarrow> Some (en_id n)
      | None \<Rightarrow> (case sort_key (\<lambda>n. type_rank (en_type n)) (filter (\<lambda>n. en_tenant n = t) nodes) of
           [] \<Rightarrow> None | n # _ \<Rightarrow> Some (en_id n)))"

definition same_content :: "string \<Rightarrow> string \<Rightarrow> stored_doc \<Rightarrow> bool" where
  "same_content t h d \<longleftrightarrow> dc_tenant d = t \<and> fd_sha d = h"

definition tag_list :: "string option \<Rightarrow> string list" where
  "tag_list g = (case g of None \<Rightarrow> [] | Some s \<Rightarrow> filter (\<lambda>w. w \<noteq> []) (map js_trim (split_on (CHR '','') s)))"

definition new_document :: "env \<Rightarrow> string \<Rightarrow> string \<Rightarrow> string \<Rightarrow> uploaded \<Rightarrow> upload_dto \<Rightarrow> string \<Rightarrow> string \<Rightarrow> stored_doc" where
  "new_document E bucket t actor u dto scope h =
     \<lparr> dc_id = ev_ids E 1, dc_tenant = t, dc_scope = scope, dc_name = sanitize_filename (up_name u),
       dc_type = normalize_doc_type (ud_type dto), dc_bucket = bucket, dc_key = object_key E t (sanitize_filename (up_name u)),
       fd_mime = up_mime u, fd_bytes = length (up_body u), fd_sha = h, fd_confidence = None, fd_by = actor, fd_at = ev_now E,
       fd_status = DsPending, fd_tags = tag_list (ud_tags dto) \<rparr>"

text \<open>The settings of the process, and the address signed for a key and a life time.\<close>

record file_config =
  fc_bucket :: string
  fc_internal :: "string option"
  fc_presign :: "string \<Rightarrow> string \<Rightarrow> int \<Rightarrow> string option \<Rightarrow> string"
  fc_sha :: "string \<Rightarrow> string"

definition dispatch_of :: "file_config \<Rightarrow> string \<Rightarrow> string \<Rightarrow> string \<Rightarrow> string option \<Rightarrow> dispatch" where
  "dispatch_of C i t k hint =
     \<lparr> dp_doc = i, dp_url = fc_presign C (fc_bucket C) k 3600 None, dp_tenant = t, dp_hint = hint,
       dp_callback = keep (fc_internal C) ''http://api:4000'' @ ''/api/v1/v1/files/extraction-callback'' \<rparr>"

text \<open>
  The insert. A request that inserted the same content since the lookup makes the unique index
  fail, and the row of that request is returned.
\<close>

definition store_document ::
  "file_config \<Rightarrow> env \<Rightarrow> string \<Rightarrow> stored_doc \<Rightarrow> string \<Rightarrow> upload_dto \<Rightarrow> 'v fdb \<Rightarrow> stored_doc outcome \<times> 'v fdb" where
  "store_document C E t d actor dto db =
     (case find_first (same_content t (fd_sha d)) (y_docs db) of
        Some x \<Rightarrow> (Inr x, db)
      | None \<Rightarrow> (Inr d, db \<lparr> y_docs := y_docs db @ [d],
          y_dispatches := y_dispatches db @ [dispatch_of C (dc_id d) t (dc_key d) (ud_type dto)],
          y_audit := audit_log E (audit_entry t actor ''Document'' (Some (dc_id d)) ''upload'' None None
            (Some (SnapUpload (dc_name d) (fd_bytes d) (ud_type dto)))) (y_audit db) \<rparr>))"

text \<open>The checks of a request up to its lookup, with the object it stores on the way.\<close>

definition upload_checked ::
  "file_config \<Rightarrow> env \<Rightarrow> string \<Rightarrow> string \<Rightarrow> uploaded option \<Rightarrow> upload_dto \<Rightarrow> bool \<Rightarrow> 'v fdb \<Rightarrow> stored_doc outcome \<times> 'v fdb" where
  "upload_checked C E t actor f dto put_ok db =
     (case f of
        None \<Rightarrow> (Inl (BadRequest ''No file provided''), db)
      | Some u \<Rightarrow>
          if max_bytes < length (up_body u)
          then (Inl (BadRequest (''File exceeds 50MB limit ('' @ show_nat (length (up_body u)) @ '' bytes)'')), db)
          else if effective_mime u \<notin> set allowed_mime
          then (Inl (BadRequest (''Unsupported file. Got mime '' @ CHR 0x27 # up_mime u @ CHR 0x27 # '' for '' @ CHR 0x27 # up_name u @
                  CHR 0x27 # ''. Allowed: PDF, XLSX, XLS, CSV, PNG, JPG.'')), db)
          else if \<not> put_ok then (Inl (PlainError ''s3''), db)
          else (let key = object_key E t (sanitize_filename (up_name u));
                    db1 = db \<lparr> y_objects := y_objects db @ [(fc_bucket C, key, up_body u)] \<rparr>
                in case upload_scope t (ud_scope dto) (y_nodes db) of
                     None \<Rightarrow> (Inl (BadRequest (''No entity hierarchy exists for this tenant. '' @
                       ''Create at least one entity node before uploading documents.'')), db1)
                   | Some scope \<Rightarrow> (Inr (new_document E (fc_bucket C) t actor u dto scope (fc_sha C (up_body u))), db1)))"

definition upload ::
  "file_config \<Rightarrow> env \<Rightarrow> string \<Rightarrow> string \<Rightarrow> uploaded option \<Rightarrow> upload_dto \<Rightarrow> bool \<Rightarrow> 'v fdb \<Rightarrow> stored_doc outcome \<times> 'v fdb" where
  "upload C E t actor f dto put_ok db =
     (case upload_checked C E t actor f dto put_ok db of
        (Inl e, db1) \<Rightarrow> (Inl e, db1)
      | (Inr d, db1) \<Rightarrow>
          (case find_first (same_content t (fd_sha d)) (y_docs db1) of
             Some x \<Rightarrow> (Inr x, db1)
           | None \<Rightarrow> store_document C E t d actor dto db1))"

definition set_status :: "string \<Rightarrow> doc_status \<Rightarrow> 'v fdb \<Rightarrow> 'v fdb" where
  "set_status i s db = db \<lparr> y_docs := update_where (\<lambda>d. dc_id d = i) (\<lambda>d. d \<lparr> fd_status := s \<rparr>) (y_docs db) \<rparr>"

text \<open>The answer of the engine to the first waiting dispatch of a document.\<close>

definition dispatch_extraction :: "string \<Rightarrow> bool \<Rightarrow> 'v fdb \<Rightarrow> 'v fdb" where
  "dispatch_extraction i accepted db =
     (case find_first (\<lambda>p. dp_doc p = i) (y_dispatches db) of
        None \<Rightarrow> db
      | Some p \<Rightarrow> set_status i (if accepted then DsClassified else DsRejected)
                    (db \<lparr> y_dispatches := remove1 p (y_dispatches db) \<rparr>))"

section \<open>Reading\<close>

record doc_query =
  dq_type :: "string option"
  dq_status :: "string option"
  dq_scope :: "string option"
  dq_take :: "int option"
  dq_skip :: "int option"

definition doc_filter :: "string option \<Rightarrow> string \<Rightarrow> bool" where
  "doc_filter f v = (case keep f [] of [] \<Rightarrow> True | s \<Rightarrow> v = s)"

text \<open>Latest first. The database refuses a type that is none of the enum.\<close>

definition list_documents :: "string \<Rightarrow> doc_query \<Rightarrow> 'v fdb \<Rightarrow> stored_doc list outcome" where
  "list_documents t q db =
     (let s = keep (dq_status q) [] in
      if s \<noteq> [] \<and> s \<notin> set (map fst doc_statuses)
      then Inl (BadRequest (''Invalid status. Allowed: '' @ join_with (CHR '','') (map fst doc_statuses)))
      else if keep (dq_type q) [] \<noteq> [] \<and> keep (dq_type q) [] \<notin> set known_doc_types then Inl (PrismaError ''validation'')
      else Inr (take (nat (clamp_take 200 (keep (dq_take q) 50))) (drop (nat (clamp_skip (keep (dq_skip q) 0)))
             (sort_key (\<lambda>d. - fd_at d) (filter (\<lambda>d. dc_tenant d = t \<and> doc_filter (dq_type q) (dc_type d) \<and>
               (s = [] \<or> map_of doc_statuses s = Some (fd_status d)) \<and> doc_filter (dq_scope q) (dc_scope d)) (y_docs db))))))"

definition find_document :: "string \<Rightarrow> string \<Rightarrow> 'v fdb \<Rightarrow> stored_doc outcome" where
  "find_document t i db =
     (case find_first (\<lambda>d. dc_id d = i \<and> dc_tenant d = t) (y_docs db) of
        None \<Rightarrow> Inl (NotFound ''Document not found'') | Some d \<Rightarrow> Inr d)"

text \<open>The fields that belong to a document, as the reviewer sees them.\<close>

definition field_to_client :: "('v \<Rightarrow> 'n) \<Rightarrow> stored_doc \<Rightarrow> 'v extraction_field \<Rightarrow> ('v, 'n) field_view" where
  "field_to_client as_number d f = to_client_shape as_number (Some (document_row.truncate d)) f"

definition extractions_of :: "('v \<Rightarrow> 'n) \<Rightarrow> string \<Rightarrow> string \<Rightarrow> 'v fdb \<Rightarrow> ('v, 'n) field_view list outcome" where
  "extractions_of as_number t i db =
     bindR (find_document t i db) (\<lambda>d. Inr (map (field_to_client as_number d) (filter (\<lambda>f. xf_document f = i) (y_fields db))))"

text \<open>Signing the preview is allowed to fail.\<close>

definition find_one ::
  "('v \<Rightarrow> 'n) \<Rightarrow> (string \<Rightarrow> string \<Rightarrow> int \<Rightarrow> string option) \<Rightarrow> string \<Rightarrow> string \<Rightarrow> 'v fdb \<Rightarrow>
     (stored_doc \<times> string option \<times> ('v, 'n) field_view list) outcome" where
  "find_one as_number presign t i db =
     bindR (find_document t i db) (\<lambda>d. bindR (extractions_of as_number t i db) (\<lambda>fs.
       Inr (d, presign (dc_bucket d) (dc_key d) 600, fs)))"

definition file_signed_url :: "file_config \<Rightarrow> string \<Rightarrow> string \<Rightarrow> int option \<Rightarrow> 'v fdb \<Rightarrow> string outcome" where
  "file_signed_url C t i ttl db =
     bindR (find_document t i db) (\<lambda>d.
       Inr (fc_presign C (dc_bucket d) (dc_key d) (keep ttl 600) (Some (sanitize_filename (dc_name d)))))"

record download =
  dn_headers :: "(string \<times> string) list"
  dn_body :: string

definition stream_download :: "string \<Rightarrow> string \<Rightarrow> 'v fdb \<Rightarrow> download outcome" where
  "stream_download t i db =
     bindR (find_document t i db) (\<lambda>d.
       case find_first (\<lambda>(b, k, body). b = dc_bucket d \<and> k = dc_key d) (y_objects db) of
         None \<Rightarrow> Inl (PlainError ''NoSuchKey'')
       | Some (b, k, body) \<Rightarrow> Inr \<lparr> dn_headers =
           [(''Content-Type'', fd_mime d), (''Content-Length'', show_nat (length body)),
            (''Content-Disposition'', ''attachment; filename='' @ CHR 0x22 # sanitize_filename (dc_name d) @ [CHR 0x22]),
            (''Cache-Control'', ''private, no-store'')], dn_body = body \<rparr>)"

section \<open>Deleting and reprocessing\<close>

definition soft_delete :: "env \<Rightarrow> string \<Rightarrow> string \<Rightarrow> string \<Rightarrow> 'v fdb \<Rightarrow> unit outcome \<times> 'v fdb" where
  "soft_delete E t i actor db =
     (case find_document t i db of
        Inl e \<Rightarrow> (Inl e, db)
      | Inr d \<Rightarrow> (Inr (), (set_status i DsRejected db) \<lparr>
          y_audit := audit_log E (audit_entry t actor ''Document'' (Some i) ''delete'' (Some (SnapDoc d)) None None) (y_audit db) \<rparr>))"

definition reprocess :: "file_config \<Rightarrow> env \<Rightarrow> string \<Rightarrow> string \<Rightarrow> string \<Rightarrow> 'v fdb \<Rightarrow> unit outcome \<times> 'v fdb" where
  "reprocess C E t i actor db =
     (case find_document t i db of
        Inl e \<Rightarrow> (Inl e, db)
      | Inr d \<Rightarrow> (Inr (), db \<lparr>
          y_fields := filter (\<lambda>f. \<not> (xf_document f = i \<and> xf_tenant f = t)) (y_fields db),
          y_docs := update_where (\<lambda>x. dc_id x = i) (\<lambda>x. x \<lparr> fd_status := DsPending, fd_confidence := None \<rparr>) (y_docs db),
          y_dispatches := y_dispatches db @ [dispatch_of C i t (dc_key d) (Some (dc_type d))],
          y_audit := audit_log E (audit_entry t actor ''Document'' (Some i) ''EXTRACT'' None None (Some SnapReprocess)) (y_audit db) \<rparr>))"

section \<open>The callback of the engine\<close>

record field_callback =
  fb_key :: string
  fb_value :: js_input
  fb_unit :: "string option"
  fb_confidence :: rat
  fb_page :: "int option"
  fb_evidence :: "string option"
  fb_start :: "string option"
  fb_end :: "string option"

record extraction_callback =
  ec_document :: string
  ec_tenant :: string
  ec_status :: string
  ec_error :: "string option"
  ec_fields :: "field_callback list"
  ec_confidence :: "rat option"
  ec_review :: bool

text \<open>The text of a value that is not numeric; \<open>null\<close> is an object for \<open>typeof\<close>, so its text is null.\<close>

definition callback_date :: "(string \<Rightarrow> int option) \<Rightarrow> string option \<Rightarrow> int option" where
  "callback_date parse_at d = (case keep d [] of [] \<Rightarrow> None | s \<Rightarrow> parse_at s)"

definition callback_field ::
  "(string \<Rightarrow> int option) \<Rightarrow> (string \<Rightarrow> 'v) \<Rightarrow> env \<Rightarrow> nat \<Rightarrow> string \<Rightarrow> string \<Rightarrow> field_callback \<Rightarrow> 'v extraction_field" where
  "callback_field parse_at to_dec E k t i f =
     \<lparr> xf_id = ev_ids E k, xf_tenant = t, xf_document = i, xf_key = fb_key f,
       xf_text = (if is_numeric (fb_value f) then None else Some (input_text (fb_value f))),
       xf_num = (if is_numeric (fb_value f) then Some (to_dec (input_text (fb_value f))) else None),
       xf_unit = fb_unit f, xf_start = callback_date parse_at (fb_start f), xf_end = callback_date parse_at (fb_end f),
       xf_page = fb_page f, xf_raw = keep (fb_evidence f) [], xf_confidence = fb_confidence f,
       xf_status = (if fl (fb_confidence f) < fl (85 / 100) then FNeedsReview else FDraft),
       xf_reviewed_by = None, xf_reviewed_at = None, xf_reason = None, xf_created = ev_now E \<rparr>"

definition avg :: "rat list \<Rightarrow> rat" where
  "avg xs = (if xs = [] then 0 else fl (fold (\<lambda>x a. fl (a + x)) xs 0 / of_nat (length xs)))"

definition composite_of :: "extraction_callback \<Rightarrow> rat" where
  "composite_of c = (case ec_confidence c of Some x \<Rightarrow> fl x | None \<Rightarrow> avg (map (\<lambda>f. fl (fb_confidence f)) (ec_fields c)))"

definition extracted_status :: "extraction_callback \<Rightarrow> doc_status" where
  "extracted_status c = (if composite_of c < fl (85 / 100) \<or> ec_review c then DsReviewNeeded else DsExtracted)"

definition callback_entry :: "extraction_callback \<Rightarrow> doc_snap audit_input" where
  "callback_entry c = \<lparr> ai_tenant = Some (ec_tenant c), ai_user = None, ai_entity = ''Document'', ai_entity_id = Some (ec_document c),
     ai_action = ''EXTRACT'', ai_before = None, ai_after = None,
     ai_meta = Some (SnapExtracted (ec_status c) (length (ec_fields c)) (ec_error c)) \<rparr>"

definition handle_extraction_callback ::
  "(string \<Rightarrow> int option) \<Rightarrow> (string \<Rightarrow> 'v) \<Rightarrow> env \<Rightarrow> extraction_callback \<Rightarrow> 'v fdb \<Rightarrow> unit outcome \<times> 'v fdb" where
  "handle_extraction_callback parse_at to_dec E c db =
     (case find_document (ec_tenant c) (ec_document c) db of
        Inl e \<Rightarrow> (Inl e, db)
      | Inr d \<Rightarrow>
          (let db1 = (if ec_status c = ''FAILED'' then set_status (ec_document c) DsRejected db
                      else db \<lparr> y_fields := y_fields db @
                               map (\<lambda>(k, f). callback_field parse_at to_dec E k (ec_tenant c) (ec_document c) f) (enumerate 1 (ec_fields c)),
                             y_docs := update_where (\<lambda>x. dc_id x = ec_document c)
                               (\<lambda>x. x \<lparr> fd_status := extracted_status c, fd_confidence := Some (composite_of c) \<rparr>) (y_docs db) \<rparr>)
           in (Inr (), db1 \<lparr> y_jobs := y_jobs db @ [(ec_document c, ec_tenant c)],
                 y_audit := audit_log E (callback_entry c) (y_audit db) \<rparr>)))"

section \<open>The validation job\<close>

definition mismatch_reason :: "canonical_metric \<Rightarrow> string \<Rightarrow> string" where
  "mismatch_reason c u = ''Unit mismatch: expected '' @ cm_unit c @ '', got '' @ u"

text \<open>The complaint about a field, if there is one.\<close>

definition unit_complaint :: "canonical_metric list \<Rightarrow> 'v extraction_field \<Rightarrow> string option" where
  "unit_complaint registry f =
     (case find_first (\<lambda>c. cm_key c = xf_key f) registry of
        None \<Rightarrow> None
      | Some c \<Rightarrow>
          (let u = keep (xf_unit f) [] in
           if cm_unit c \<noteq> [] \<and> u \<noteq> [] \<and> cm_unit c \<noteq> u \<and> u \<notin> set (cm_allowed c) then Some (mismatch_reason c u) else None))"

definition flag_field :: "string \<Rightarrow> 'v extraction_field \<Rightarrow> 'v extraction_field" where
  "flag_field reason f = f \<lparr> xf_status := FNeedsReview, xf_reason := Some reason \<rparr>"

definition validate_field :: "canonical_metric list \<Rightarrow> 'v extraction_field \<Rightarrow> 'v extraction_field list \<Rightarrow> 'v extraction_field list" where
  "validate_field registry f fs =
     (case unit_complaint registry f of
        None \<Rightarrow> fs | Some reason \<Rightarrow> update_where (\<lambda>x. xf_id x = xf_id f) (flag_field reason) fs)"

definition process_validation :: "string \<Rightarrow> string \<Rightarrow> 'v fdb \<Rightarrow> 'v fdb" where
  "process_validation i t db =
     db \<lparr> y_fields := fold (validate_field (m_registry (y_metrics db)))
            (filter (\<lambda>f. xf_document f = i \<and> xf_tenant f = t) (y_fields db)) (y_fields db) \<rparr>"

text \<open>The tables of the review service over the same rows; its audit rows are kept beside.\<close>

definition as_review :: "(string \<times> confidence_level \<times> rat) list \<Rightarrow> 'v field_snap audit_row list \<Rightarrow> 'v fdb \<Rightarrow> 'v xdb" where
  "as_review scores rows db = \<lparr> x_docs = map document_row.truncate (y_docs db), x_fields = y_fields db, x_metrics = y_metrics db,
     x_scores = scores, x_audit = rows \<rparr>"

definition after_review :: "'v xdb \<Rightarrow> 'v fdb \<Rightarrow> 'v fdb" where
  "after_review x db = db \<lparr> y_fields := x_fields x, y_metrics := x_metrics x \<rparr>"

section \<open>Operations\<close>

datatype 'v file_op =
    YoUpload file_config env string string "uploaded option" upload_dto bool
  | YoDispatch string bool
  | YoDelete env string string string
  | YoReprocess file_config env string string string
  | YoCallback "string \<Rightarrow> int option" "string \<Rightarrow> 'v" env extraction_callback
  | YoValidate string string

fun file_step :: "'v file_op \<Rightarrow> 'v fdb \<Rightarrow> 'v fdb" where
  "file_step (YoUpload C E t actor f dto put_ok) db = snd (upload C E t actor f dto put_ok db)"
| "file_step (YoDispatch i accepted) db = dispatch_extraction i accepted db"
| "file_step (YoDelete E t i actor) db = snd (soft_delete E t i actor db)"
| "file_step (YoReprocess C E t i actor) db = snd (reprocess C E t i actor db)"
| "file_step (YoCallback parse_at to_dec E c) db = snd (handle_extraction_callback parse_at to_dec E c db)"
| "file_step (YoValidate i t) db = process_validation i t db"

text \<open>Identifiers and object keys made for an upload are new.\<close>

fun file_ok :: "'v file_op \<Rightarrow> 'v fdb \<Rightarrow> bool" where
  "file_ok (YoUpload C E t actor f dto put_ok) db \<longleftrightarrow> ev_ids E 1 \<notin> set (map dc_id (y_docs db))"
| "file_ok _ db \<longleftrightarrow> True"

end
