(* ===== verification/Files_Props.thy ===== *)
theory Files_Props
  imports Files Lifecycle
begin

text \<open>
  What the file service promises: stored names are safe to put in a header, a download returns the
  bytes whose hash was recorded, a tenant holds a content once, the content of a document never
  changes, and the validation job flags exactly the fields with a wrong unit, however often it
  runs. The dispatch and the callback race for the status of a document.
\<close>

section \<open>Safe names\<close>

definition safe_name :: "string \<Rightarrow> bool" where
  "safe_name s \<longleftrightarrow> s \<noteq> [] \<and> length s \<le> 200 \<and>
     list_all (\<lambda>c. \<not> control_char c \<and> c \<notin> set quoting_chars \<and> c \<noteq> CHR ''/'' \<and> c \<noteq> CHR 0x5C) s"

lemma set_js_trim: "set (js_trim s) \<subseteq> set s"
  unfolding js_trim_def using set_dropWhileD by (metis set_rev subsetI)

lemma filename_safe: "safe_name (sanitize_filename name)"
proof (cases "name = []")
  case False
  let ?part = "last (split_on (CHR ''/'') (map (\<lambda>c. if c = CHR 0x5C then CHR ''/'' else c) name))"
  let ?clean = "map (\<lambda>c. if c \<in> set quoting_chars then CHR ''_'' else c) (filter (\<lambda>c. \<not> control_char c) ?part)"
  have part: "c \<noteq> CHR ''/''" "c \<noteq> CHR 0x5C" if "c \<in> set ?part" for c
  proof -
    have p: "?part \<in> set (split_on (CHR ''/'') (map (\<lambda>c. if c = CHR 0x5C then CHR ''/'' else c) name))" by simp
    show "c \<noteq> CHR ''/''" using split_on_parts[OF p] that by auto
    have "set ?part \<subseteq> set (map (\<lambda>c. if c = CHR 0x5C then CHR ''/'' else c) name)"
      using split_on_sub[OF p] .
    then show "c \<noteq> CHR 0x5C" using that by (auto split: if_splits)
  qed
  have ok: "\<not> control_char c \<and> c \<notin> set quoting_chars \<and> c \<noteq> CHR ''/'' \<and> c \<noteq> CHR 0x5C" if c: "c \<in> set ?clean" for c
  proof -
    obtain d where d: "d \<in> set ?part" "\<not> control_char d" "c = (if d \<in> set quoting_chars then CHR ''_'' else d)"
      using c unfolding set_map set_filter by blast
    have u: "\<not> control_char CHR ''_''" "CHR ''_'' \<notin> set quoting_chars" by (simp_all add: control_char_def quoting_chars_def)
    show ?thesis using d u part[OF d(1)] by (cases "d \<in> set quoting_chars") simp_all
  qed
  have f: "list_all (\<lambda>c. \<not> control_char c \<and> c \<notin> set quoting_chars \<and> c \<noteq> CHR ''/'' \<and> c \<noteq> CHR 0x5C) (take 200 (js_trim ?clean))"
    unfolding list_all_iff using ok set_js_trim set_take_subset[of 200 "js_trim ?clean"] by blast
  have d: "safe_name ''file''" by (simp add: safe_name_def control_char_def quoting_chars_def)
  have "safe_name (or_file (take 200 (js_trim ?clean)))"
  proof (cases "take 200 (js_trim ?clean) = []")
    case False
    then show ?thesis using f by (simp add: or_file_def safe_name_def)
  next
    case True
    show ?thesis using d unfolding True or_file_def by (simp only: simp_thms if_True)
  qed
  then show ?thesis using False by (simp only: sanitize_filename_def Let_def if_False)
qed (simp add: sanitize_filename_def safe_name_def control_char_def quoting_chars_def)

text \<open>The header of a download names the file in quotes that nothing in the name can close: the name
  has no quotes, control characters or path separators, is not empty and has at most 200
  characters, so no header can be injected through the name of an upload.\<close>

theorem download_header_safe:
  assumes "stream_download t i db = Inr r"
  shows "\<exists>name. safe_name name \<and>
    map_of (dn_headers r) ''Content-Disposition'' = Some (''attachment; filename='' @ CHR 0x22 # name @ [CHR 0x22])"
proof -
  obtain d where d: "find_document t i db = Inr d" using assms by (cases "find_document t i db") (simp_all add: stream_download_def)
  have "map_of (dn_headers r) ''Content-Disposition'' =
      Some (''attachment; filename='' @ CHR 0x22 # sanitize_filename (dc_name d) @ [CHR 0x22])"
    using assms by (auto simp: stream_download_def d split: option.splits)
  then show ?thesis using filename_safe by blast
qed

section \<open>Documents\<close>

inductive doc_move :: "stored_doc \<Rightarrow> stored_doc \<Rightarrow> bool" where
  status: "doc_move d (d \<lparr> fd_status := s \<rparr>)"
| scored: "doc_move d (d \<lparr> fd_status := s, fd_confidence := c \<rparr>)"

inductive_cases doc_move_cases: "doc_move d d'"

definition doc_good :: "stored_doc \<Rightarrow> bool" where
  "doc_good d \<longleftrightarrow> safe_name (dc_name d) \<and> dc_type d \<in> set known_doc_types \<and> fd_bytes d \<le> max_bytes"

definition new_doc :: "stored_doc \<Rightarrow> bool" where
  "new_doc d \<longleftrightarrow> doc_good d \<and> fd_status d = DsPending \<and> fd_confidence d = None"

text \<open>What a document is, as opposed to how far its extraction got.\<close>

definition doc_content :: "stored_doc \<Rightarrow> document_row \<times> string \<times> nat \<times> string" where
  "doc_content d = (document_row.truncate d, fd_mime d, fd_bytes d, fd_sha d)"

lemma doc_move_content: "doc_move\<^sup>*\<^sup>* d d' \<Longrightarrow> doc_content d' = doc_content d"
  by (induction rule: rtranclp_induct) (auto elim!: doc_move_cases simp: doc_content_def document_row.defs)

lemma doc_type_known: "normalize_doc_type d \<in> set known_doc_types"
  by (auto simp: normalize_doc_type_def known_doc_types_def split: list.splits)

lemma upload_cases:
  obtains (refused) e where "fst (upload C E t actor f dto put_ok db) = Inl e" "y_docs (snd (upload C E t actor f dto put_ok db)) = y_docs db"
      "y_objects (snd (upload C E t actor f dto put_ok db)) = y_objects db \<or>
       (\<exists>u :: uploaded. y_objects (snd (upload C E t actor f dto put_ok db)) = y_objects db @ [(fc_bucket C, object_key E t (sanitize_filename (up_name u)), up_body u)])"
    | (again) u x where "fst (upload C E t actor f dto put_ok db) = Inr x" "x \<in> set (y_docs db)" "same_content t (fc_sha C (up_body u)) x" "f = Some u"
      "y_docs (snd (upload C E t actor f dto put_ok db)) = y_docs db"
      "y_objects (snd (upload C E t actor f dto put_ok db)) = y_objects db @ [(fc_bucket C, object_key E t (sanitize_filename (up_name u)), up_body u)]"
    | (stored) u d scope where "fst (upload C E t actor f dto put_ok db) = Inr d" "f = Some u"
      "d = new_document E (fc_bucket C) t actor u dto scope (fc_sha C (up_body u))" "length (up_body u) \<le> max_bytes"
      "\<forall>x\<in>set (y_docs db). \<not> same_content t (fd_sha d) x" "y_docs (snd (upload C E t actor f dto put_ok db)) = y_docs db @ [d]"
      "y_objects (snd (upload C E t actor f dto put_ok db)) = y_objects db @ [(fc_bucket C, object_key E t (sanitize_filename (up_name u)), up_body u)]"
proof (cases f)
  case None
  then show ?thesis using refused by (simp add: upload_def upload_checked_def)
next
  case (Some u)
  let ?key = "object_key E t (sanitize_filename (up_name u))"
  let ?db1 = "db \<lparr> y_objects := y_objects db @ [(fc_bucket C, ?key, up_body u)] \<rparr>"
  show ?thesis
  proof (cases "max_bytes < length (up_body u) \<or> effective_mime u \<notin> set allowed_mime \<or> \<not> put_ok")
    case True
    then have "\<exists>e. upload_checked C E t actor f dto put_ok db = (Inl e, db)" by (auto simp: upload_checked_def Some)
    then show ?thesis using refused by (auto simp: upload_def)
  next
    case ok: False
    show ?thesis
    proof (cases "upload_scope t (ud_scope dto) (y_nodes db)")
      case None
      then have "\<exists>e. upload_checked C E t actor f dto put_ok db = (Inl e, ?db1)" using ok by (simp add: upload_checked_def Some Let_def)
      then obtain e where e: "upload_checked C E t actor f dto put_ok db = (Inl e, ?db1)" by blast
      have "y_objects (snd (upload C E t actor f dto put_ok db)) = y_objects db @ [(fc_bucket C, ?key, up_body u)]" by (simp add: upload_def e)
      then have "\<exists>u :: uploaded. y_objects (snd (upload C E t actor f dto put_ok db)) =
          y_objects db @ [(fc_bucket C, object_key E t (sanitize_filename (up_name u)), up_body u)]" by (rule exI[of _ u])
      then show ?thesis using refused[of e] by (simp add: upload_def e)
    next
      case (Some scope)
      let ?d = "new_document E (fc_bucket C) t actor u dto scope (fc_sha C (up_body u))"
      have c: "upload_checked C E t actor f dto put_ok db = (Inr ?d, ?db1)" using ok Some by (simp add: upload_checked_def \<open>f = Some u\<close> Let_def)
      have h: "fd_sha ?d = fc_sha C (up_body u)" by (simp add: new_document_def)
      show ?thesis
      proof (cases "find_first (same_content t (fd_sha ?d)) (y_docs db)")
        case None
        then have "\<forall>x\<in>set (y_docs db). \<not> same_content t (fd_sha ?d) x" by (simp add: find_first_None)
        then show ?thesis using stored[of ?d u scope] c None ok \<open>f = Some u\<close> by (simp add: upload_def store_document_def)
      next
        case (Some x)
        then show ?thesis using again[of x u] c h find_first_Some[OF Some] \<open>f = Some u\<close> by (simp add: upload_def)
      qed
    qed
  qed
qed

lemma new_document_new: "length (up_body u) \<le> max_bytes \<Longrightarrow> new_doc (new_document E b t actor u dto scope h)"
  by (simp add: new_doc_def doc_good_def new_document_def filename_safe doc_type_known)

lemma set_status_sel [simp]:
  "y_docs (set_status i s db) = update_where (\<lambda>d. dc_id d = i) (\<lambda>d. d \<lparr> fd_status := s \<rparr>) (y_docs db)"
  "y_fields (set_status i s db) = y_fields db" "y_objects (set_status i s db) = y_objects db"
  "y_metrics (set_status i s db) = y_metrics db" "y_dispatches (set_status i s db) = y_dispatches db"
  by (simp_all add: set_status_def)

abbreviation doc_table :: "stored_doc list \<Rightarrow> stored_doc list \<Rightarrow> bool" where
  "doc_table \<equiv> table_move dc_id (\<lambda>_. []) new_doc doc_move []"

lemma docs_updated: "(\<And>d. doc_move d (g d)) \<Longrightarrow> doc_table rows (update_where (\<lambda>d. dc_id d = i) g rows)"
  using table_moveI[of "\<lambda>_. []" "[]" doc_move rows "update_where (\<lambda>d. dc_id d = i) g rows" "[]" new_doc dc_id]
  by (simp add: update_where_def list_all2_map2 list_all2_same)

lemma docs_status: "doc_table rows (update_where (\<lambda>d. dc_id d = i) (\<lambda>d. d \<lparr> fd_status := s \<rparr>) rows)"
  by (rule docs_updated) (rule doc_move.status)

lemma docs_scored: "doc_table rows (update_where (\<lambda>d. dc_id d = i) (\<lambda>d. d \<lparr> fd_status := s, fd_confidence := c \<rparr>) rows)"
  by (rule docs_updated) (rule doc_move.scored)

lemma upload_docs:
  assumes "ev_ids E 1 \<notin> set (map dc_id (y_docs db))"
  shows "doc_table (y_docs db) (y_docs (snd (upload C E t actor f dto put_ok db)))"
proof (cases rule: upload_cases[of C E t actor f dto put_ok db])
  case (stored u d scope)
  have "doc_table (y_docs db) (y_docs db @ [d])"
    by (rule table_move_append) (use assms stored(3,4) new_document_new in \<open>auto simp: new_document_def\<close>)
  then show ?thesis unfolding stored(6) .
qed (simp_all add: table_move_refl)

lemma file_docs: "file_ok c db \<Longrightarrow> doc_table (y_docs db) (y_docs (file_step c db))"
  by (cases c) (auto simp: upload_docs dispatch_extraction_def soft_delete_def reprocess_def handle_extraction_callback_def
      process_validation_def table_move_refl docs_status docs_scored Let_def split: option.splits sum.splits)

interpretation docs: table_system dc_id "\<lambda>_. []" new_doc doc_move doc_good file_step file_ok y_docs "\<lambda>_. []"
  by unfold_locales (auto elim!: doc_move_cases simp: new_doc_def doc_good_def file_docs)

text \<open>A document is never lost and what it is never changes: after any calls, answers of the engine,
  callbacks and jobs, it is still there with the tenant, place, name, type, size, hash and stored
  object it was uploaded with; only its status and confidence move.\<close>

theorem document_kept:
  assumes "table_ok dc_id doc_good (y_docs db)" "runs_ok file_step file_ok cs db" "d \<in> set (y_docs db)"
  shows "\<exists>d'\<in>set (y_docs (fold file_step cs db)). doc_content d' = doc_content d"
  using docs.run_row_later[OF assms] doc_move_content by blast

section \<open>Stored contents\<close>

definition has_object :: "stored_doc \<Rightarrow> (string \<times> string \<times> string) list \<Rightarrow> string option" where
  "has_object d obs = map_option (\<lambda>(b, k, body). body) (find_first (\<lambda>(b, k, body). b = dc_bucket d \<and> k = dc_key d) obs)"

text \<open>Each document has its object, and a tenant each content once.\<close>

definition contents_ok :: "(string \<Rightarrow> string) \<Rightarrow> 'v fdb \<Rightarrow> bool" where
  "contents_ok H db \<longleftrightarrow> table_ok dc_id doc_good (y_docs db) \<and>
     distinct (map (\<lambda>d. (dc_tenant d, fd_sha d)) (y_docs db)) \<and>
     (\<forall>d\<in>set (y_docs db). \<exists>body. has_object d (y_objects db) = Some body \<and> H body = fd_sha d \<and> length body = fd_bytes d)"

text \<open>Uploads hash with one function and make new object keys.\<close>

fun contents_step_ok :: "(string \<Rightarrow> string) \<Rightarrow> 'v file_op \<Rightarrow> 'v fdb \<Rightarrow> bool" where
  "contents_step_ok H (YoUpload C E t actor f dto put_ok) db \<longleftrightarrow> fc_sha C = H \<and> ev_ids E 1 \<notin> set (map dc_id (y_docs db)) \<and>
     (\<forall>name. (fc_bucket C, object_key E t name) \<notin> (\<lambda>(b, k, body). (b, k)) ` set (y_objects db))"
| "contents_step_ok H _ db \<longleftrightarrow> True"

lemma contents_file_ok: "contents_step_ok H c db \<Longrightarrow> file_ok c db"
  by (cases c) auto

lemma has_object_later: "has_object d obs = Some body \<Longrightarrow> has_object d (obs @ more_obs) = Some body"
  by (auto simp: has_object_def find_first_append)

lemma content_columns:
  assumes "doc_content d' = doc_content d"
  shows "dc_tenant d' = dc_tenant d" "fd_sha d' = fd_sha d" "fd_bytes d' = fd_bytes d" "has_object d' obs = has_object d obs" "dc_id d' = dc_id d"
    "dc_name d' = dc_name d"
  using assms by (auto simp: doc_content_def document_row.defs has_object_def)

lemma contents_moved:
  assumes "contents_ok H db" "map doc_content rows = map doc_content (y_docs db)" "table_ok dc_id doc_good rows"
    "y_docs db' = rows" "y_objects db' = y_objects db @ new"
  shows "contents_ok H db'"
proof -
  have "map (\<lambda>d. (dc_tenant d, fd_sha d)) rows = map (\<lambda>d. (dc_tenant d, fd_sha d)) (y_docs db)"
  proof -
    have "map (\<lambda>(r, m, b, s). (dc_tenant r, s)) (map doc_content rows) = map (\<lambda>(r, m, b, s). (dc_tenant r, s)) (map doc_content (y_docs db))"
      by (simp only: assms(2))
    then show ?thesis by (simp add: doc_content_def document_row.defs comp_def)
  qed
  moreover have "\<exists>body. has_object d (y_objects db') = Some body \<and> H body = fd_sha d \<and> length body = fd_bytes d" if "d \<in> set rows" for d
  proof -
    have "doc_content d \<in> doc_content ` set (y_docs db)" using that arg_cong[OF assms(2), of set] by auto
    then obtain x where x: "x \<in> set (y_docs db)" "doc_content x = doc_content d" by auto
    then obtain body where "has_object x (y_objects db) = Some body" "H body = fd_sha x" "length body = fd_bytes x"
      using assms(1) unfolding contents_ok_def by blast
    then show ?thesis using content_columns[OF x(2)] has_object_later[of d "y_objects db" body new] assms(5) by auto
  qed
  ultimately show ?thesis using assms(1,3,4) by (simp add: contents_ok_def)
qed

lemma status_contents:
  assumes "contents_ok H db" "y_objects db' = y_objects db" "y_docs db' = update_where (\<lambda>d. dc_id d = i) g (y_docs db)"
    "\<And>d. doc_move d (g d)"
  shows "contents_ok H db'"
proof -
  have c: "doc_content (g d) = doc_content d" for d using assms(4) doc_move_content by blast
  then have "map doc_content (y_docs db') = map doc_content (y_docs db)" unfolding assms(3) by (intro update_where_keeps)
  moreover have "table_ok dc_id doc_good (y_docs db')"
    unfolding assms(3) using assms(1) docs.table_move_ids[OF docs_updated[OF assms(4)]] docs.table_move_good[OF docs_updated[OF assms(4)]]
    by (auto simp: contents_ok_def table_ok_def)
  ultimately show ?thesis using contents_moved[OF assms(1), of "y_docs db'" db' "[]"] assms(2) by simp
qed

lemma upload_contents:
  assumes "contents_ok H db" "contents_step_ok H (YoUpload C E t actor f dto put_ok) db"
  shows "contents_ok H (snd (upload C E t actor f dto put_ok db))"
proof (cases rule: upload_cases[of C E t actor f dto put_ok db])
  case (refused e)
  then show ?thesis using contents_moved[OF assms(1) refl _ refused(2), of "[]"] contents_moved[OF assms(1) refl _ refused(2)] assms(1)
    by (auto simp: contents_ok_def)
next
  case (again u x)
  then show ?thesis using contents_moved[OF assms(1) refl _ again(5,6)] assms(1) by (simp add: contents_ok_def)
next
  case (stored u d scope)
  let ?db = "snd (upload C E t actor f dto put_ok db)"
  let ?key = "object_key E t (sanitize_filename (up_name u))"
  have H: "fc_sha C = H" and fresh: "ev_ids E 1 \<notin> set (map dc_id (y_docs db))"
    and key: "(fc_bucket C, ?key) \<notin> (\<lambda>(b, k, body). (b, k)) ` set (y_objects db)" using assms(2) by simp_all
  have d: "dc_id d = ev_ids E 1" "dc_tenant d = t" "fd_sha d = H (up_body u)" "dc_bucket d = fc_bucket C" "dc_key d = ?key"
    "fd_bytes d = length (up_body u)" using stored(3) H by (simp_all add: new_document_def)
  have "find_first (\<lambda>(b, k, body). b = dc_bucket d \<and> k = dc_key d) (y_objects db) = None"
    unfolding find_first_None using key by (force simp: d)
  then have own: "has_object d (y_objects ?db) = Some (up_body u)"
    unfolding stored(7) by (simp add: has_object_def find_first_append d)
  have old: "\<exists>body. has_object x (y_objects ?db) = Some body \<and> H body = fd_sha x \<and> length body = fd_bytes x" if "x \<in> set (y_docs db)" for x
    using assms(1) that has_object_later[of x "y_objects db"] unfolding contents_ok_def stored(7) by metis
  have "table_ok dc_id doc_good (y_docs ?db)"
    using docs.table_inv_step[of db "YoUpload C E t actor f dto put_ok"] assms(1) fresh by (simp add: contents_ok_def)
  moreover have "distinct (map (\<lambda>d. (dc_tenant d, fd_sha d)) (y_docs ?db))"
    using assms(1) stored(5) d(2) unfolding stored(6) by (auto simp: contents_ok_def same_content_def)
  moreover have "\<forall>x\<in>set (y_docs ?db). \<exists>body. has_object x (y_objects ?db) = Some body \<and> H body = fd_sha x \<and> length body = fd_bytes x"
    using old own d(3,6) unfolding stored(6) by auto
  ultimately show ?thesis by (simp add: contents_ok_def)
qed

lemma contents_step:
  assumes "contents_ok H db" "contents_step_ok H c db"
  shows "contents_ok H (file_step c db)"
proof (cases c)
  case (YoUpload C E t actor f dto put_ok)
  then show ?thesis using upload_contents[OF assms(1)] assms(2) by simp
next
  case (YoDispatch i accepted)
  then show ?thesis using status_contents[OF assms(1), of "file_step c db" i "\<lambda>d. d \<lparr> fd_status := (if accepted then DsClassified else DsRejected) \<rparr>"]
      assms(1) doc_move.status by (cases "find_first (\<lambda>p. dp_doc p = i) (y_dispatches db)") (simp_all add: dispatch_extraction_def)
next
  case (YoDelete E t i actor)
  then show ?thesis using status_contents[OF assms(1), of "file_step c db" i "\<lambda>d. d \<lparr> fd_status := DsRejected \<rparr>"] assms(1) doc_move.status
    by (cases "find_document t i db") (simp_all add: soft_delete_def)
next
  case (YoReprocess C E t i actor)
  then show ?thesis using status_contents[OF assms(1), of "file_step c db" i "\<lambda>d. d \<lparr> fd_status := DsPending, fd_confidence := None \<rparr>"]
      assms(1) doc_move.scored by (cases "find_document t i db") (simp_all add: reprocess_def)
next
  case (YoCallback p q E e)
  show ?thesis
  proof (cases "find_document (ec_tenant e) (ec_document e) db")
    case (Inr d)
    show ?thesis
    proof (cases "ec_status e = ''FAILED''")
      case True
      show ?thesis by (rule status_contents[OF assms(1), where i = "ec_document e" and g = "\<lambda>d. d \<lparr> fd_status := DsRejected \<rparr>"])
        (simp_all add: YoCallback handle_extraction_callback_def Inr True Let_def doc_move.status)
    next
      case False
      show ?thesis by (rule status_contents[OF assms(1), where i = "ec_document e" and
          g = "\<lambda>d. d \<lparr> fd_status := extracted_status e, fd_confidence := Some (composite_of e) \<rparr>"])
        (simp_all add: YoCallback handle_extraction_callback_def Inr False Let_def doc_move.scored)
    qed
  qed (use assms(1) YoCallback in \<open>simp add: handle_extraction_callback_def\<close>)
next
  case (YoValidate i t)
  then show ?thesis using assms(1) by (simp add: process_validation_def contents_ok_def)
qed

interpretation contents: invariant_system file_step "contents_step_ok H" "contents_ok H" for H :: "string \<Rightarrow> string"
  by unfold_locales (rule contents_step)

text \<open>C14: A download returns bytes with the hash and length recorded when the document was uploaded,
  whatever calls, answers of the engine, callbacks and jobs came between; and a tenant holds each
  content once, however often it is uploaded.\<close>

theorem download_returns_upload:
  assumes "contents_ok H db" "runs_ok file_step (contents_step_ok H) cs db" "d \<in> set (y_docs (fold file_step cs db))"
  shows "(\<exists>r. stream_download (dc_tenant d) (dc_id d) (fold file_step cs db) = Inr r \<and> H (dn_body r) = fd_sha d \<and>
      length (dn_body r) = fd_bytes d) \<and>
    (\<forall>d'. d' \<in> set (y_docs (fold file_step cs db)) \<longrightarrow> dc_tenant d' = dc_tenant d \<longrightarrow> fd_sha d' = fd_sha d \<longrightarrow> d' = d)"
proof -
  let ?db = "fold file_step cs db"
  have ok: "contents_ok H ?db" by (rule contents.run_inv[OF assms(1,2)])
  then have ids: "distinct (map dc_id (y_docs ?db))" by (simp add: contents_ok_def table_ok_def)
  have "find_first (\<lambda>x. dc_id x = dc_id d \<and> dc_tenant x = dc_tenant d) (y_docs ?db) = Some d"
    by (rule find_first_unique[where rid = dc_id]) (use ids assms(3) in auto)
  then have f: "find_document (dc_tenant d) (dc_id d) ?db = Inr d" by (simp add: find_document_def)
  obtain body where body: "has_object d (y_objects ?db) = Some body" "H body = fd_sha d" "length body = fd_bytes d"
    using ok assms(3) unfolding contents_ok_def by blast
  then obtain b k where ob: "find_first (\<lambda>(b, k, body). b = dc_bucket d \<and> k = dc_key d) (y_objects ?db) = Some (b, k, body)"
    by (auto simp: has_object_def)
  have "\<exists>r. stream_download (dc_tenant d) (dc_id d) ?db = Inr r \<and> dn_body r = body"
    unfolding stream_download_def f bindR_simps ob by simp
  moreover have "d' = d" if "d' \<in> set (y_docs ?db)" "dc_tenant d' = dc_tenant d" "fd_sha d' = fd_sha d" for d'
    using ok that assms(3) by (auto simp: contents_ok_def distinct_map dest: inj_onD)
  ultimately show ?thesis using body by blast
qed

section \<open>Two uploads at once\<close>

text \<open>Two requests with the same content that both passed their lookup: the second insert finds the
  row of the first and returns it; one document is stored and dispatched once.\<close>

theorem upload_race:
  assumes "\<forall>x\<in>set (y_docs db). \<not> same_content t (fd_sha d) x" "dc_tenant d = t" "fd_sha d' = fd_sha d"
  shows "fst (store_document C E' t d' actor' dto' (snd (store_document C E t d actor dto db))) = Inr d \<and>
    y_docs (snd (store_document C E' t d' actor' dto' (snd (store_document C E t d actor dto db)))) = y_docs db @ [d] \<and>
    y_dispatches (snd (store_document C E' t d' actor' dto' (snd (store_document C E t d actor dto db)))) =
      y_dispatches db @ [dispatch_of C (dc_id d) t (dc_key d) (ud_type dto)]"
proof -
  have n: "find_first (same_content t (fd_sha d)) (y_docs db) = None" using assms(1) by (simp add: find_first_None)
  have s: "same_content t (fd_sha d') d" using assms(2,3) by (simp add: same_content_def)
  have "find_first (same_content t (fd_sha d')) (y_docs db) = None" using n assms(3) by simp
  then show ?thesis using s by (simp add: store_document_def n find_first_append)
qed

section \<open>The race for the status\<close>

definition status_of :: "string \<Rightarrow> 'v fdb \<Rightarrow> doc_status option" where
  "status_of i db = map_option fd_status (find_first (\<lambda>d. dc_id d = i) (y_docs db))"

lemma find_document_Inr: "find_document t i db = Inr d \<Longrightarrow> d \<in> set (y_docs db) \<and> dc_id d = i \<and> dc_tenant d = t"
  by (auto simp: find_document_def split: option.splits dest: find_first_Some)

lemma status_update:
  assumes "find_first P rows = Some d" "\<And>x. P x \<Longrightarrow> dc_id x = i" "\<And>x. dc_id (g x) = dc_id x"
  shows "find_first (\<lambda>x. dc_id x = i) (update_where (\<lambda>x. dc_id x = i) g rows) = map_option g (find_first (\<lambda>x. dc_id x = i) rows)"
    "\<exists>x. find_first (\<lambda>x. dc_id x = i) rows = Some x"
proof -
  show "find_first (\<lambda>x. dc_id x = i) (update_where (\<lambda>x. dc_id x = i) g rows) = map_option g (find_first (\<lambda>x. dc_id x = i) rows)"
    using assms(3) by (induction rows) auto
  show "\<exists>x. find_first (\<lambda>x. dc_id x = i) rows = Some x"
    using find_first_Some[OF assms(1)] assms(2) find_first_None[of "\<lambda>x. dc_id x = i" rows] by (cases "find_first (\<lambda>x. dc_id x = i) rows") auto
qed

lemma doc_find_kept:
  assumes "find_document t i db = Inr d" "y_docs db' = update_where (\<lambda>x. dc_id x = i) g (y_docs db)"
    "\<And>x. dc_id (g x) = dc_id x \<and> dc_tenant (g x) = dc_tenant x"
  shows "find_document t i db' = Inr (g d)"
proof -
  have "find_first (\<lambda>x. dc_id x = i \<and> dc_tenant x = t) (update_where (\<lambda>x. dc_id x = i) g rows) =
      map_option g (find_first (\<lambda>x. dc_id x = i \<and> dc_tenant x = t) rows)" for rows
    using assms(3) by (induction rows) auto
  then show ?thesis using assms(1,2) by (auto simp: find_document_def split: option.splits)
qed

lemma callback_status:
  assumes "find_document (ec_tenant c) (ec_document c) db = Inr d" "ec_status c \<noteq> ''FAILED''"
  shows "status_of (ec_document c) (snd (handle_extraction_callback p q E c db)) = Some (extracted_status c)"
proof -
  have f: "find_first (\<lambda>x. dc_id x = ec_document c \<and> dc_tenant x = ec_tenant c) (y_docs db) = Some d"
    using assms(1) by (auto simp: find_document_def split: option.splits)
  from status_update[OF f, of "ec_document c" "\<lambda>x. x \<lparr> fd_status := extracted_status c, fd_confidence := Some (composite_of c) \<rparr>"]
  show ?thesis using assms by (auto simp: handle_extraction_callback_def status_of_def Let_def)
qed

lemma dispatch_status:
  assumes "d \<in> set (y_docs db)" "dc_id d = i" "p \<in> set (y_dispatches db)" "dp_doc p = i"
  shows "status_of i (dispatch_extraction i accepted db) = Some (if accepted then DsClassified else DsRejected)"
proof -
  obtain p' where p: "find_first (\<lambda>p. dp_doc p = i) (y_dispatches db) = Some p'"
    using assms(3,4) find_first_None[of "\<lambda>p. dp_doc p = i" "y_dispatches db"] by (cases "find_first (\<lambda>p. dp_doc p = i) (y_dispatches db)") auto
  obtain x where x: "find_first (\<lambda>d. dc_id d = i) (y_docs db) = Some x"
    using assms(1,2) find_first_None[of "\<lambda>d. dc_id d = i" "y_docs db"] by (cases "find_first (\<lambda>d. dc_id d = i) (y_docs db)") auto
  from status_update(1)[OF x, of i "\<lambda>d. d \<lparr> fd_status := (if accepted then DsClassified else DsRejected) \<rparr>"]
  show ?thesis by (simp add: dispatch_extraction_def p status_of_def x)
qed

text \<open>The answer of the engine to the dispatch and its callback race. When the answer comes first the
  document ends with the status of the extraction; when the callback comes first, the answer sets
  the document back to classified (or rejected) although its fields are there. A callback that comes after the
  deletion brings a deleted document back as extracted.\<close>

theorem callback_race:
  assumes "find_document (ec_tenant c) (ec_document c) db = Inr d" "ec_status c \<noteq> ''FAILED''"
    and "p \<in> set (y_dispatches db)" "dp_doc p = ec_document c"
  shows "status_of (ec_document c) (snd (handle_extraction_callback pa td E c (dispatch_extraction (ec_document c) a db))) =
      Some (extracted_status c) \<and>
    status_of (ec_document c) (dispatch_extraction (ec_document c) a (snd (handle_extraction_callback pa td E c db))) =
      Some (if a then DsClassified else DsRejected) \<and>
    status_of (ec_document c) (snd (handle_extraction_callback pa td E c (snd (soft_delete E' (ec_tenant c) (ec_document c) actor db)))) =
      Some (extracted_status c)"
proof (intro conjI)
  let ?i = "ec_document c"
  note d = find_document_Inr[OF assms(1)]
  have "\<exists>p'. find_first (\<lambda>p. dp_doc p = ?i) (y_dispatches db) = Some p'"
    using assms(3,4) find_first_None[of "\<lambda>p. dp_doc p = ?i" "y_dispatches db"] by (cases "find_first (\<lambda>p. dp_doc p = ?i) (y_dispatches db)") auto
  then have "y_docs (dispatch_extraction ?i a db) =
      update_where (\<lambda>x. dc_id x = ?i) (\<lambda>x. x \<lparr> fd_status := (if a then DsClassified else DsRejected) \<rparr>) (y_docs db)"
    by (auto simp: dispatch_extraction_def)
  from doc_find_kept[OF assms(1) this]
  show "status_of ?i (snd (handle_extraction_callback pa td E c (dispatch_extraction ?i a db))) = Some (extracted_status c)"
    by (intro callback_status[OF _ assms(2)]) simp
  let ?db = "snd (handle_extraction_callback pa td E c db)"
  have rows: "y_docs ?db = update_where (\<lambda>x. dc_id x = ?i) (\<lambda>x. x \<lparr> fd_status := extracted_status c, fd_confidence := Some (composite_of c) \<rparr>) (y_docs db)"
    "y_dispatches ?db = y_dispatches db" using assms(1,2) by (simp_all add: handle_extraction_callback_def Let_def)
  let ?d = "d \<lparr> fd_status := extracted_status c, fd_confidence := Some (composite_of c) \<rparr>"
  have "?d \<in> set (y_docs ?db)" "dc_id ?d = ?i" "p \<in> set (y_dispatches ?db)"
    unfolding rows set_update_where using d assms(3) by auto
  then show "status_of ?i (dispatch_extraction ?i a ?db) = Some (if a then DsClassified else DsRejected)"
    using assms(4) by (intro dispatch_status[where d = ?d and p = p])
  have "y_docs (snd (soft_delete E' (ec_tenant c) ?i actor db)) = update_where (\<lambda>x. dc_id x = ?i) (\<lambda>x. x \<lparr> fd_status := DsRejected \<rparr>) (y_docs db)"
    using assms(1) by (simp add: soft_delete_def)
  from doc_find_kept[OF assms(1) this]
  show "status_of ?i (snd (handle_extraction_callback pa td E c (snd (soft_delete E' (ec_tenant c) ?i actor db)))) = Some (extracted_status c)"
    by (intro callback_status[OF _ assms(2)]) simp
qed

section \<open>Validation\<close>

definition flagged :: "string \<Rightarrow> string \<Rightarrow> canonical_metric list \<Rightarrow> 'v extraction_field \<Rightarrow> 'v extraction_field" where
  "flagged i t registry f =
     (if xf_document f = i \<and> xf_tenant f = t then (case unit_complaint registry f of None \<Rightarrow> f | Some r \<Rightarrow> flag_field r f) else f)"

lemma flag_field_sel [simp]:
  "xf_id (flag_field r f) = xf_id f" "xf_document (flag_field r f) = xf_document f" "xf_tenant (flag_field r f) = xf_tenant f"
  "xf_key (flag_field r f) = xf_key f" "xf_unit (flag_field r f) = xf_unit f"
  by (simp_all add: flag_field_def)

lemma flag_complaint [simp]: "unit_complaint registry (flag_field r f) = unit_complaint registry f"
  unfolding unit_complaint_def flag_field_sel ..

lemma validate_fold:
  fixes rows :: "'v extraction_field list"
  assumes "distinct (map xf_id rows)" "set fs \<subseteq> set rows" "\<And>f. f \<in> set rows \<Longrightarrow> f \<notin> set fs \<Longrightarrow> g f = f"
    "distinct fs" "\<And>f. f \<in> set fs \<Longrightarrow> g f = (case unit_complaint registry f of None \<Rightarrow> f | Some r \<Rightarrow> flag_field r f)"
  shows "fold (validate_field registry) fs rows = map g rows"
proof -
  define h :: "'v extraction_field \<Rightarrow> 'v extraction_field" where "h = (\<lambda>f. case unit_complaint registry f of None \<Rightarrow> f | Some r \<Rightarrow> flag_field r f)"
  have id: "xf_id (h f) = xf_id f" for f by (simp add: h_def split: option.splits)
  have one: "validate_field registry f (map k rows) = map (k(f := h f)) rows"
    if "f \<in> set rows" "k f = f" "\<And>x. xf_id (k x) = xf_id x" for f k
  proof (cases "unit_complaint registry f")
    case None
    then have "k(f := h f) = k" using that(2) by (auto simp: h_def)
    then show ?thesis using None by (simp add: validate_field_def)
  next
    case (Some r)
    have eq: "x = f" if "x \<in> set rows" "xf_id x = xf_id f" for x
      using assms(1) that \<open>f \<in> set rows\<close> by (auto simp: distinct_map dest: inj_onD)
    have "(if xf_id (k x) = xf_id f then flag_field r (k x) else k x) = (k(f := h f)) x" if "x \<in> set rows" for x
      using eq[OF that] \<open>k f = f\<close> \<open>\<And>x. xf_id (k x) = xf_id x\<close> by (auto simp: h_def Some)
    then show ?thesis by (simp add: validate_field_def Some update_where_def)
  qed
  have "fold (validate_field registry) fs (map k rows) = map (\<lambda>x. if x \<in> set fs then h x else k x) rows"
    if "distinct fs" "set fs \<subseteq> set rows" "\<And>f. f \<in> set fs \<Longrightarrow> k f = f" "\<And>x. xf_id (k x) = xf_id x" for k fs
    using that
  proof (induction fs arbitrary: k)
    case (Cons f fs)
    have "validate_field registry f (map k rows) = map (k(f := h f)) rows" by (rule one) (use Cons.prems in auto)
    moreover have "fold (validate_field registry) fs (map (k(f := h f)) rows) = map (\<lambda>x. if x \<in> set fs then h x else (k(f := h f)) x) rows"
      by (rule Cons.IH) (use Cons.prems id in auto)
    ultimately show ?case using Cons.prems(1) by auto
  qed simp
  from this[OF assms(4,2), of "\<lambda>x. x"] have "fold (validate_field registry) fs rows = map (\<lambda>x. if x \<in> set fs then h x else x) rows" by simp
  also have "\<dots> = map g rows" using assms(3,5) by (intro map_cong) (auto simp: h_def)
  finally show ?thesis .
qed

lemma validation_map:
  assumes "distinct (map xf_id (y_fields db))"
  shows "y_fields (process_validation i t db) = map (flagged i t (m_registry (y_metrics db))) (y_fields db)"
  unfolding process_validation_def
  by (simp, rule validate_fold) (use assms in \<open>auto simp: flagged_def distinct_map intro: distinct_filter\<close>)

text \<open>C33: The validation job flags for review exactly the fields of its document whose unit the registry
  does not allow, and changes no other field; run again by the queue, it changes nothing more. A field
  whose value can be promoted to a metric event is never flagged.\<close>

theorem validation_exact:
  assumes "distinct (map xf_id (y_fields db))"
  shows "y_fields (process_validation i t db) = map (flagged i t (m_registry (y_metrics db))) (y_fields db) \<and>
    process_validation i t (process_validation i t db) = process_validation i t db \<and>
    (promotion E k actor f doc (m_registry (y_metrics db)) \<noteq> None \<longrightarrow> flagged i t (m_registry (y_metrics db)) f = f)"
proof (intro conjI impI)
  let ?r = "m_registry (y_metrics db)" and ?db = "process_validation i t db"
  note one = validation_map[OF assms, of i t]
  show "y_fields ?db = map (flagged i t ?r) (y_fields db)" by (rule one)
  have ids: "map xf_id (y_fields ?db) = map xf_id (y_fields db)"
    unfolding one by (simp add: flagged_def split: option.splits)
  have again: "flagged i t ?r (flagged i t ?r f) = flagged i t ?r f" for f
    by (simp add: flagged_def split: option.splits) (simp add: flag_field_def)
  have m: "y_metrics ?db = y_metrics db" by (simp add: process_validation_def)
  have "distinct (map xf_id (y_fields ?db))" using assms ids by simp
  from validation_map[OF this, of i t] have "y_fields (process_validation i t ?db) = y_fields ?db"
    unfolding m by (simp add: one again)
  then show "process_validation i t ?db = ?db" by (simp add: process_validation_def)
  show "flagged i t ?r f = f" if "promotion E k actor f doc ?r \<noteq> None"
  proof (cases "find_first (\<lambda>c. cm_key c = xf_key f) ?r")
    case None
    then show ?thesis by (simp add: flagged_def unit_complaint_def)
  next
    case (Some c)
    have "\<not> unit_rejected c (promoted_unit f c)"
      using that Some by (auto simp: promotion_def split: option.splits if_splits)
    then have "unit_complaint ?r f = None"
      by (cases "xf_unit f") (auto simp: unit_complaint_def Some unit_rejected_def promoted_unit_def Let_def)
    then show ?thesis by (simp add: flagged_def)
  qed
qed

text \<open>Reprocessing forgets the fields of a document, the approved ones too, while the metric events
  made from them stay and name fields that are gone.\<close>

theorem reprocess_forgets:
  assumes "find_document t i db = Inr d" "f \<in> set (y_fields db)" "xf_document f = i" "xf_tenant f = t"
    and "distinct (map xf_id (y_fields db))" "e \<in> set (m_events (y_metrics db))" "me_extraction e = Some (xf_id f)"
  shows "e \<in> set (m_events (y_metrics (snd (reprocess C E t i actor db)))) \<and>
    me_extraction e \<notin> Some ` xf_id ` set (y_fields (snd (reprocess C E t i actor db)))"
  using assms by (auto simp: reprocess_def distinct_map dest: inj_onD)

section \<open>Witnesses\<close>

definition file_env :: "string \<Rightarrow> env" where
  "file_env x = \<lparr> ev_now = 0, ev_ids = (\<lambda>k. x @ show_nat k), ev_audit_ok = True \<rparr>"

definition plain_config :: file_config where
  "plain_config = \<lparr> fc_bucket = ''b'', fc_internal = None, fc_presign = (\<lambda>b k n f. k), fc_sha = (\<lambda>s. s) \<rparr>"

definition sample_doc :: "string \<Rightarrow> string \<Rightarrow> stored_doc" where
  "sample_doc i body = \<lparr> dc_id = i, dc_tenant = ''t'', dc_scope = ''n'', dc_name = ''a.pdf'', dc_type = ''OTHER'', dc_bucket = ''b'',
     dc_key = i, fd_mime = ''application/pdf'', fd_bytes = length body, fd_sha = body, fd_confidence = None, fd_by = ''u'', fd_at = 0,
     fd_status = DsPending, fd_tags = [] \<rparr>"

definition sample_extracted :: "int extraction_field" where
  "sample_extracted = \<lparr> xf_id = ''f'', xf_tenant = ''t'', xf_document = ''d'', xf_key = ''water'', xf_text = None, xf_num = Some 5,
     xf_unit = Some ''L'', xf_start = Some 0, xf_end = Some 9, xf_page = None, xf_raw = [], xf_confidence = 1, xf_status = FApproved,
     xf_reviewed_by = None, xf_reviewed_at = None, xf_reason = None, xf_created = 0 \<rparr>"

definition sample_made :: "int metric_event" where
  "sample_made = promoted_event (file_env ''e'') 1 ''u'' sample_extracted ''n'' ''L'' 0 9 5"

definition sample_dispatch :: dispatch where
  "sample_dispatch = dispatch_of plain_config ''d'' ''t'' ''d'' None"

definition sample_fdb :: "int fdb" where
  "sample_fdb = \<lparr> y_nodes = [], y_docs = [sample_doc ''d'' ''xyz''], y_fields = [sample_extracted],
     y_metrics = \<lparr> m_nodes = [], m_registry = [\<lparr> cm_key = ''water'', cm_category = ''E'', cm_unit = ''kL'', cm_allowed = [], cm_active = True \<rparr>],
       m_mappings = [], m_events = [sample_made], m_audit = [] \<rparr>,
     y_objects = [(''b'', ''d'', ''xyz'')], y_dispatches = [sample_dispatch], y_jobs = [], y_audit = [] \<rparr>"

definition sample_extracted_call :: extraction_callback where
  "sample_extracted_call = \<lparr> ec_document = ''d'', ec_tenant = ''t'', ec_status = ''EXTRACTED'', ec_error = None, ec_fields = [],
     ec_confidence = Some 1, ec_review = False \<rparr>"

lemmas sample_f_simps = file_env_def plain_config_def sample_doc_def sample_fdb_def sample_extracted_def sample_made_def
  sample_dispatch_def dispatch_of_def sample_extracted_call_def

lemma sample_contents: "contents_ok (\<lambda>s. s) sample_fdb"
  by (simp add: contents_ok_def sample_fdb_def sample_doc_def table_ok_def doc_good_def safe_name_def known_doc_types_def max_bytes_def
      has_object_def control_char_def quoting_chars_def)

theorem download_header_safe_witness:
  "\<exists>name. safe_name name \<and> map_of [(''Content-Disposition'', ''attachment; filename='' @ CHR 0x22 # ''a.pdf'' @ [CHR 0x22])]
     ''Content-Disposition'' = Some (''attachment; filename='' @ CHR 0x22 # name @ [CHR 0x22])"
proof -
  have "\<exists>r. stream_download ''t'' ''d'' sample_fdb = Inr r"
    by (simp add: stream_download_def find_document_def sample_fdb_def sample_doc_def)
  then obtain r where r: "stream_download ''t'' ''d'' sample_fdb = Inr r" by blast
  have n: "sanitize_filename ''a.pdf'' = ''a.pdf''" by code_simp
  have "map_of (dn_headers r) ''Content-Disposition'' = Some (''attachment; filename='' @ CHR 0x22 # ''a.pdf'' @ [CHR 0x22])"
    using r by (auto simp: stream_download_def find_document_def sample_fdb_def sample_doc_def n)
  with download_header_safe[OF r] show ?thesis by simp
qed

theorem document_kept_witness:
  "\<exists>d'\<in>set (y_docs (fold file_step [YoDelete (file_env ''a'') ''t'' ''d'' ''u''] sample_fdb)). doc_content d' = doc_content (sample_doc ''d'' ''xyz'')"
proof -
  have ok: "table_ok dc_id doc_good (y_docs sample_fdb)" using sample_contents by (simp add: contents_ok_def)
  show ?thesis by (rule document_kept[OF ok]) (simp_all add: sample_fdb_def)
qed

theorem download_returns_upload_witness:
  "\<exists>r. stream_download ''t'' ''d'' (fold file_step [YoDispatch ''d'' True] sample_fdb) = Inr r \<and> dn_body r = ''xyz''"
proof -
  let ?d = "sample_doc ''d'' ''xyz'' \<lparr> fd_status := DsClassified \<rparr>"
  have r: "runs_ok file_step (contents_step_ok (\<lambda>s. s)) [YoDispatch ''d'' True] sample_fdb" by simp
  have d: "?d \<in> set (y_docs (fold file_step [YoDispatch ''d'' True] sample_fdb))"
    by (simp add: dispatch_extraction_def sample_f_simps)
  show ?thesis using download_returns_upload[OF sample_contents r d] by (auto simp: sample_doc_def)
qed

theorem upload_race_witness:
  "y_docs (snd (store_document plain_config (file_env ''b'') ''t'' (sample_doc ''y'' ''new'') ''v'' \<lparr> ud_type = None, ud_scope = None, ud_tags = None \<rparr>
     (snd (store_document plain_config (file_env ''a'') ''t'' (sample_doc ''x'' ''new'') ''u'' \<lparr> ud_type = None, ud_scope = None, ud_tags = None \<rparr>
       sample_fdb)))) = y_docs sample_fdb @ [sample_doc ''x'' ''new'']"
proof -
  have "\<forall>x\<in>set (y_docs sample_fdb). \<not> same_content ''t'' (fd_sha (sample_doc ''x'' ''new'')) x"
    "dc_tenant (sample_doc ''x'' ''new'') = ''t''" "fd_sha (sample_doc ''y'' ''new'') = fd_sha (sample_doc ''x'' ''new'')"
    by (simp_all add: sample_fdb_def sample_doc_def same_content_def)
  from upload_race[OF this] show ?thesis by blast
qed

theorem callback_race_witness:
  "status_of ''d'' (dispatch_extraction ''d'' True (snd (handle_extraction_callback (\<lambda>s. None) (\<lambda>s. 0) (file_env ''a'') sample_extracted_call sample_fdb))) =
     Some DsClassified"
proof -
  have "find_document (ec_tenant sample_extracted_call) (ec_document sample_extracted_call) sample_fdb = Inr (sample_doc ''d'' ''xyz'')"
    "ec_status sample_extracted_call \<noteq> ''FAILED''" "sample_dispatch \<in> set (y_dispatches sample_fdb)"
    "dp_doc sample_dispatch = ec_document sample_extracted_call"
    by (simp_all add: find_document_def sample_f_simps)
  from callback_race[OF this, of "\<lambda>s. None" "\<lambda>s. 0" "file_env ''a''" True] show ?thesis by (simp add: sample_extracted_call_def)
qed

theorem validation_exact_witness:
  "map xf_status (y_fields (process_validation ''d'' ''t'' sample_fdb)) = [FNeedsReview]"
proof -
  have "distinct (map xf_id (y_fields sample_fdb))" by (simp add: sample_fdb_def)
  from validation_exact[OF this, of "''d''" "''t''"]
  have "y_fields (process_validation ''d'' ''t'' sample_fdb) = map (flagged ''d'' ''t'' (m_registry (y_metrics sample_fdb))) (y_fields sample_fdb)" by blast
  moreover have "map xf_status (map (flagged ''d'' ''t'' (m_registry (y_metrics sample_fdb))) (y_fields sample_fdb)) = [FNeedsReview]"
    by (simp add: sample_fdb_def sample_extracted_def flagged_def unit_complaint_def flag_field_def Let_def)
  ultimately show ?thesis by (simp only:)
qed

theorem reprocess_forgets_witness:
  "sample_made \<in> set (m_events (y_metrics (snd (reprocess plain_config (file_env ''a'') ''t'' ''d'' ''u'' sample_fdb))))"
proof -
  have "find_document ''t'' ''d'' sample_fdb = Inr (sample_doc ''d'' ''xyz'')" "sample_extracted \<in> set (y_fields sample_fdb)"
    "xf_document sample_extracted = ''d''" "xf_tenant sample_extracted = ''t''" "distinct (map xf_id (y_fields sample_fdb))"
    "sample_made \<in> set (m_events (y_metrics sample_fdb))" "me_extraction sample_made = Some (xf_id sample_extracted)"
    by (simp_all add: find_document_def sample_f_simps promoted_event_def)
  from reprocess_forgets[OF this] show ?thesis by blast
qed

end
