(* ===== verification/Cel_Kinds.thy ===== *)
theory Cel_Kinds
  imports Cel_Props
begin

text \<open>
  A kind system for the formula language. The evaluator checks kinds only while it runs
  (\<open>Arithmetic on non-numeric\<close>, \<open>sum() requires numbers\<close>, ...). \<open>kind_of\<close> is a static
  check of the same rules, and a formula that passes it, in a context whose names are numeric,
  gives a value of its kind or stops on the data it met: two units that differ, a divisor
  that is zero, a number of places the decimal library refuses.
\<close>

section \<open>The kinds\<close>

datatype kind = KNum | KStr | KBool | KNull

definition kind_arith :: "cel_op \<Rightarrow> bool" where
  "kind_arith oper = (oper \<in> {OpPlus, OpMinus, OpTimes, OpDiv, OpMod})"

definition kind_compare :: "cel_op \<Rightarrow> bool" where
  "kind_compare oper = (oper \<in> {OpLt, OpLe, OpGt, OpGe})"

fun kind_present :: "kind list \<Rightarrow> kind" where
  "kind_present [] = KNull"
| "kind_present (k # ks) = (if k = KNull then kind_present ks else k)"

definition kind_call :: "string \<Rightarrow> kind list \<Rightarrow> kind option" where
  "kind_call f ks =
     (if f = ''sum'' \<or> f = ''avg'' then (if set ks \<subseteq> {KNum} then Some KNum else None)
      else if f = ''min'' \<or> f = ''max'' then (if ks \<noteq> [] \<and> set ks \<subseteq> {KNum} then Some KNum else None)
      else if f = ''ratio'' then (if ks = [KNum, KNum] then Some KNum else None)
      else if f = ''abs'' \<or> f = ''round'' then
        (case ks of k # _ \<Rightarrow> if k = KNum then Some KNum else None | [] \<Rightarrow> None)
      else if f = ''coalesce'' then Some (kind_present ks)
      else None)"

fun kind_of :: "string list \<Rightarrow> 'd node \<Rightarrow> kind option"
  and kinds_of :: "string list \<Rightarrow> 'd node list \<Rightarrow> kind list option"
where
  "kind_of ns (NNum v) = Some KNum"
| "kind_of ns (NStr s) = Some KStr"
| "kind_of ns (NBool b) = Some KBool"
| "kind_of ns NNil = Some KNull"
| "kind_of ns (NRef w) = (if w \<in> set ns then Some KNum else None)"
| "kind_of ns (NUnary oper a) = (case kind_of ns a of None \<Rightarrow> None
     | Some k \<Rightarrow>
         if oper = OpNot then Some KBool
         else if oper = OpPlus then Some k
         else if oper = OpMinus \<and> k = KNum then Some KNum
         else None)"
| "kind_of ns (NBin oper a b) = (case (kind_of ns a, kind_of ns b) of
       (Some j, Some k) \<Rightarrow>
         if oper \<in> {OpAnd, OpOr, OpEq, OpNe} then Some KBool
         else if j = KNum \<and> k = KNum then
           (if kind_compare oper then Some KBool else if kind_arith oper then Some KNum else None)
         else None
     | _ \<Rightarrow> None)"
| "kind_of ns (NCond t a b) = (case (kind_of ns t, kind_of ns a, kind_of ns b) of
       (Some _, Some j, Some k) \<Rightarrow> if j = k then Some j else None
     | _ \<Rightarrow> None)"
| "kind_of ns (NCall f as) = (case kinds_of ns as of None \<Rightarrow> None | Some ks \<Rightarrow> kind_call f ks)"
| "kinds_of ns [] = Some []"
| "kinds_of ns (a # as) = (case (kind_of ns a, kinds_of ns as) of
       (Some k, Some ks) \<Rightarrow> Some (k # ks)
     | _ \<Rightarrow> None)"

section \<open>Values of a kind and the errors of the data\<close>

fun has_kind :: "'d cel_payload \<Rightarrow> kind \<Rightarrow> bool" where
  "has_kind (VNum x) k = (k = KNum)"
| "has_kind (VStr s) k = (k = KStr)"
| "has_kind (VBool b) k = (k = KBool)"
| "has_kind VNull k = (k = KNull)"
| "has_kind VUndef k = False"

lemma has_kind_iff [simp]:
  "has_kind p KNum \<longleftrightarrow> (\<exists>x. p = VNum x)"
  "has_kind p KNull \<longleftrightarrow> p = VNull"
  by (cases p; simp)+

definition numeric_names :: "'d cel_context \<Rightarrow> string list \<Rightarrow> bool" where
  "numeric_names ctx ns = list_all (\<lambda>w.
     w = ''periodDays'' \<or>
     (if js_in w (cx_metrics ctx)
      then (case own_get (cx_metrics ctx) w of Some v \<Rightarrow> has_kind (cv_value v) KNum | None \<Rightarrow> False)
      else (case cx_factors ctx of None \<Rightarrow> False
            | Some fs \<Rightarrow> (case own_get fs w of Some v \<Rightarrow> has_kind (cv_value v) KNum | None \<Rightarrow> False)))) ns"

fun data_error :: "cel_error \<Rightarrow> bool" where
  "data_error (CelError m) =
     (m \<in> {''Division by zero'', ''Modulo by zero'', ''ratio() division by zero'',
           ''min() unit mismatch'', ''max() unit mismatch''} \<or>
      starts_with m ''Unit mismatch on '' \<or> starts_with m ''sum() unit mismatch: '' \<or>
      starts_with m ''avg() unit mismatch: '')"
| "data_error DecimalError = True"
| "data_error TypeErr = False"

definition kinded :: "cel_error + 'd cel_value \<Rightarrow> kind \<Rightarrow> bool" where
  "kinded r k = (case r of Inr v \<Rightarrow> has_kind (cv_value v) k | Inl e \<Rightarrow> data_error e)"

fun all_kinded :: "cel_error + 'd cel_value list \<Rightarrow> kind list \<Rightarrow> bool" where
  "all_kinded (Inl e) ks = data_error e"
| "all_kinded (Inr vs) ks = list_all2 (\<lambda>v k. has_kind (cv_value v) k) vs ks"

lemma kinded_simps [simp]:
  "kinded (Inr v) k \<longleftrightarrow> has_kind (cv_value v) k" "kinded (Inl e) k \<longleftrightarrow> data_error e"
  by (simp_all add: kinded_def)

section \<open>The steps of the evaluator\<close>

lemma unit_check_kinded [simp]:
  "require_same_unit l r oper = Inl e \<Longrightarrow> data_error e"
  by (auto simp: require_same_unit_def split: if_splits)

lemma resolve_kinded:
  assumes "numeric_names ctx ns" "w \<in> set ns"
  shows "kinded (resolve_ref D w ctx) KNum"
proof -
  have own: "own_get ob w = Some v \<Longrightarrow> js_in w ob" for ob :: "'a cel_value js_object" and v
    by (auto simp: own_get_def js_in_def dest: map_of_SomeD intro: rev_image_eqI)
  from assms have "w = ''periodDays'' \<or>
     (if js_in w (cx_metrics ctx)
      then (case own_get (cx_metrics ctx) w of Some v \<Rightarrow> has_kind (cv_value v) KNum | None \<Rightarrow> False)
      else (case cx_factors ctx of None \<Rightarrow> False
            | Some fs \<Rightarrow> (case own_get fs w of Some v \<Rightarrow> has_kind (cv_value v) KNum | None \<Rightarrow> False)))"
    by (simp add: numeric_names_def list_all_iff)
  then show ?thesis
    by (auto simp: resolve_ref_def own split: if_splits option.splits)
qed

lemma unary_kinded:
  assumes "kinded r j" "(if oper = OpNot then Some KBool else if oper = OpPlus then Some j
     else if oper = OpMinus \<and> j = KNum then Some KNum else None) = Some k"
  shows "kinded (bindR r (eval_unary D oper)) k"
  using assms by (cases r) (auto simp: eval_unary_def split: if_splits)

lemma strict_kinded:
  assumes "cv_value l = VNum x" "cv_value r = VNum y"
  shows "kind_compare oper \<Longrightarrow> kinded (eval_strict D oper l r) KBool"
    and "kind_arith oper \<Longrightarrow> kinded (eval_strict D oper l r) KNum"
  using assms
  by (cases oper; cases "require_same_unit l r oper"; simp add: kind_compare_def kind_arith_def eval_strict_def)+

lemma equality_kinded: "oper = OpEq \<or> oper = OpNe \<Longrightarrow> kinded (eval_strict D oper l r) KBool"
  by (auto simp: eval_strict_def Let_def)

lemma sum_loop_kinded:
  assumes "list_all (\<lambda>a. \<exists>x. cv_value a = VNum x) as" "f = ''sum'' \<or> f = ''avg''" "sum_loop D f u as acc = Inl e"
  shows "data_error e"
  using assms by (induction as arbitrary: acc) (auto split: if_splits)

lemma best_loop_kinded:
  assumes "list_all (\<lambda>a. \<exists>x. cv_value a = VNum x) as" "f = ''min'' \<or> f = ''max''" "best_loop D f u as b = Inl e"
  shows "data_error e"
  using assms by (induction as arbitrary: b) (auto split: if_splits)

lemma all_numbers:
  "list_all2 (\<lambda>v k. has_kind (cv_value v) k) vs ks \<Longrightarrow> set ks \<subseteq> {KNum} \<Longrightarrow>
     list_all (\<lambda>a. \<exists>x. cv_value a = VNum x) vs"
  by (induction vs ks rule: list_all2_induct) auto

lemma first_present_kinded:
  "list_all2 (\<lambda>v k. has_kind (cv_value v) k) vs ks \<Longrightarrow> has_kind (cv_value (first_present vs)) (kind_present ks)"
proof (induction vs ks rule: list_all2_induct)
  case (Cons v vs k ks)
  then show ?case by (cases "cv_value v") auto
qed simp

lemma fold_kinded:
  assumes "kind_call f ks = Some k" "f \<in> {''sum'', ''avg''}"
    "list_all2 (\<lambda>v k. has_kind (cv_value v) k) vs ks"
  shows "kinded (eval_call D f vs) k"
proof -
  from assms(1,2) have k: "k = KNum" "set ks \<subseteq> {KNum}" by (auto simp: kind_call_def split: if_splits)
  note num = all_numbers[OF assms(3) k(2)]
  show ?thesis
  proof (cases vs)
    case Nil
    then show ?thesis using assms(2) k by (auto simp: eval_call_def cel_functions_def)
  next
    case (Cons v us)
    then show ?thesis using assms(2) k sum_loop_kinded[OF num]
      by (cases "sum_loop D f (cv_unit v) vs (d_of_int D 0)") (auto simp: eval_call_def cel_functions_def)
  qed
qed

lemma extremum_kinded:
  assumes "kind_call f ks = Some k" "f \<in> {''min'', ''max''}"
    "list_all2 (\<lambda>v k. has_kind (cv_value v) k) vs ks"
  shows "kinded (eval_call D f vs) k"
proof -
  from assms(1,2) have k: "k = KNum" "set ks \<subseteq> {KNum}" "ks \<noteq> []"
    by (auto simp: kind_call_def split: if_splits)
  note num = all_numbers[OF assms(3) k(2)]
  from assms(3) k(3) obtain v us where vs: "vs = v # us" by (cases vs) auto
  with num obtain x where x: "cv_value v = VNum x" by auto
  have "data_error e" if "best_loop D f (cv_unit v) us c = Inl e" for c e
    using best_loop_kinded[of us f D _ c e] num vs assms(2) that by auto
  then show ?thesis using assms(2) k vs x
    by (cases "best_loop D f (cv_unit v) vs x") (auto simp: eval_call_def cel_functions_def)
qed

lemma ratio_kinded:
  assumes "kind_call ''ratio'' ks = Some k" "list_all2 (\<lambda>v k. has_kind (cv_value v) k) vs ks"
  shows "kinded (eval_call D ''ratio'' vs) k"
  using assms
  by (auto simp: kind_call_def eval_call_def cel_functions_def list_all2_Cons2 split: if_splits)

lemma scalar_kinded:
  assumes "kind_call f ks = Some k" "f \<in> {''abs'', ''round''}"
    "list_all2 (\<lambda>v k. has_kind (cv_value v) k) vs ks"
  shows "kinded (eval_call D f vs) k"
proof -
  from assms(1,2) obtain rest where k: "k = KNum" "ks = KNum # rest"
    by (auto simp: kind_call_def split: if_splits list.splits)
  with assms(3) obtain v us x where "vs = v # us" "cv_value v = VNum x" by (auto simp: list_all2_Cons2)
  then show ?thesis using assms(2) k
    by (auto simp: eval_call_def cel_functions_def Let_def split: option.splits)
qed

lemma call_kinded:
  assumes "kind_call f ks = Some k" "all_kinded r ks"
  shows "kinded (bindR r (eval_call D f)) k"
proof (cases r)
  case (Inr vs)
  with assms(2) have vs: "list_all2 (\<lambda>v k. has_kind (cv_value v) k) vs ks" by simp
  from assms(1) consider "f \<in> {''sum'', ''avg''}" | "f \<in> {''min'', ''max''}" | "f = ''ratio''"
    | "f \<in> {''abs'', ''round''}" | "f = ''coalesce''"
    by (auto simp: kind_call_def split: if_splits)
  then show ?thesis
  proof cases
    case 1 then show ?thesis using fold_kinded[OF assms(1) _ vs] Inr by simp
  next
    case 2 then show ?thesis using extremum_kinded[OF assms(1) _ vs] Inr by simp
  next
    case 3 then show ?thesis using ratio_kinded[of ks k vs] assms(1) vs Inr by simp
  next
    case 4 then show ?thesis using scalar_kinded[OF assms(1) _ vs] Inr by simp
  next
    case 5
    then show ?thesis using assms(1) Inr first_present_kinded[OF vs]
      by (simp add: kind_call_def eval_call_def cel_functions_def)
  qed
qed (use assms(2) in simp)

section \<open>Well-kinded formulas\<close>

lemma bin_kinded:
  assumes "kinded r j" "kinded s k"
    "(if oper \<in> {OpAnd, OpOr, OpEq, OpNe} then Some KBool
      else if j = KNum \<and> k = KNum then
        (if kind_compare oper then Some KBool else if kind_arith oper then Some KNum else None)
      else None) = Some i"
  shows "kinded (bindR r (\<lambda>l.
       if oper = OpAnd then
         (if truthy D l then bindR s (\<lambda>r. Inr (plain (VBool (truthy D r)))) else Inr (plain (VBool False)))
       else if oper = OpOr then
         (if truthy D l then Inr (plain (VBool True)) else bindR s (\<lambda>r. Inr (plain (VBool (truthy D r)))))
       else bindR s (eval_strict D oper l))) i"
proof (cases r)
  case (Inr l)
  show ?thesis
  proof (cases s)
    case (Inl e)
    then show ?thesis using assms \<open>r = Inr l\<close> by (auto split: if_splits)
  next
    case (Inr v)
    then show ?thesis using assms \<open>r = Inr l\<close> strict_kinded[of l _ v _ oper D] equality_kinded[of oper D l v]
      by (auto split: if_splits)
  qed
qed (use assms(1) in simp)

lemma eval_kinded:
  assumes "numeric_names ctx ns"
  shows "kind_of ns e = Some k \<Longrightarrow> kinded (eval_node D ctx e) k"
    and "kinds_of ns as = Some ks \<Longrightarrow> all_kinded (eval_args D ctx as) ks"
  using assms
proof (induction ns e and ns as arbitrary: k and ks rule: kind_of_kinds_of.induct)
  case (5 ns w)
  then show ?case using resolve_kinded[of ctx ns w D] by (auto split: if_splits)
next
  case (6 ns oper a)
  then obtain j where "kind_of ns a = Some j" by (auto split: option.splits)
  with 6 show ?case using unary_kinded[of "eval_node D ctx a" j oper k D] by simp
next
  case (7 ns oper a b)
  then obtain i j where k: "kind_of ns a = Some i" "kind_of ns b = Some j" by (auto split: option.splits)
  with 7 have "kinded (eval_node D ctx a) i" "kinded (eval_node D ctx b) j" by simp_all
  from bin_kinded[OF this, of oper k D] 7(3) k show ?case by simp
next
  case (8 ns t a b)
  then obtain i where k: "kind_of ns t = Some i" "kind_of ns a = Some k" "kind_of ns b = Some k"
    by (auto split: option.splits if_splits)
  with 8 have "kinded (eval_node D ctx t) i" "kinded (eval_node D ctx a) k" "kinded (eval_node D ctx b) k"
    by simp_all
  then show ?case by (cases "eval_node D ctx t") auto
next
  case (9 ns f as)
  then obtain ks where ks: "kinds_of ns as = Some ks" "kind_call f ks = Some k" by (auto split: option.splits)
  with 9 have "all_kinded (eval_args D ctx as) ks" by simp
  from call_kinded[OF ks(2) this] show ?case by simp
next
  case (11 ns a as)
  then obtain j js where k: "kind_of ns a = Some j" "kinds_of ns as = Some js" "ks = j # js"
    by (auto split: option.splits)
  with 11 have "kinded (eval_node D ctx a) j" "all_kinded (eval_args D ctx as) js" by simp_all
  then show ?case using k(3)
    by (cases "eval_node D ctx a"; cases "eval_args D ctx as") auto
qed auto

definition kind_of_text :: "'d decimal_api \<Rightarrow> string list \<Rightarrow> string \<Rightarrow> kind option" where
  "kind_of_text D ns src = (case bindR (tokenize D src) parse_result of Inl _ \<Rightarrow> None | Inr e \<Rightarrow> kind_of ns e)"

lemma evaluate_kinded:
  assumes "numeric_names ctx ns" "kind_of_text D ns src = Some k"
  shows "case evaluate D src ctx of Inr v \<Rightarrow> has_kind (cv_value v) k | Inl e \<Rightarrow> data_error e"
proof -
  from assms(2) obtain ts e where p: "tokenize D src = Inr ts" "parse_result ts = Inr e" "kind_of ns e = Some k"
    by (auto simp: kind_of_text_def bindR_Inr_iff split: sum.splits)
  from eval_kinded(1)[OF assms(1) p(3), of D] p(1,2) show ?thesis
    by (simp add: evaluate_def kinded_def split: sum.splits)
qed

text \<open>
  C7: Type soundness of the formula language. A formula whose text passes the static kind check
  (arithmetic and comparisons on numbers, listed functions on the arguments they take, names
  known to be numbers) evaluates to a value of the kind the check found, or stops on the data:
  units that differ, a division, modulo or ratio by zero, a number of places that decimal.js
  refuses. None of the other errors of the evaluator (non-numeric arithmetic, a function that
  requires numbers, an unresolved reference, an unknown operator or function) can occur.
\<close>

theorem formulas_kind_sound:
  assumes "numeric_names ctx ns" "kind_of_text D ns src = Some k"
  shows "case evaluate D src ctx of
      Inr v \<Rightarrow> has_kind (cv_value v) k
    | Inl e \<Rightarrow> data_error e"
  using assms by (rule evaluate_kinded)

definition kind_ctx :: "int cel_context" where
  "kind_ctx = \<lparr> cx_metrics = [(''kwh'', \<lparr> cv_value = VNum 40, cv_unit = Some ''kWh'' \<rparr>)],
     cx_factors = Some [(''ef'', plain (VNum 3))], cx_period_days = None \<rparr>"

theorem formulas_kind_sound_witness:
  "numeric_names kind_ctx [''kwh'', ''ef''] \<and>
   kind_of_text int_api [''kwh'', ''ef''] ''kwh > 1 ? sum(kwh) * ef : -1'' = Some KNum \<and>
   kind_of_text int_api [''kwh''] ''kwh + true'' = None \<and>
   (case evaluate int_api ''kwh > 1 ? sum(kwh) * ef : -1'' kind_ctx of
      Inr v \<Rightarrow> has_kind (cv_value v) KNum | Inl e \<Rightarrow> data_error e)"
proof -
  have n: "numeric_names kind_ctx [''kwh'', ''ef'']" by code_simp
  have k: "kind_of_text int_api [''kwh'', ''ef''] ''kwh > 1 ? sum(kwh) * ef : -1'' = Some KNum" by code_simp
  have b: "kind_of_text int_api [''kwh''] ''kwh + true'' = None" by code_simp
  from n k b formulas_kind_sound[OF n k] show ?thesis by blast
qed

end
