(* ===== verification/Cel_Lexemes.thy ===== *)
theory Cel_Lexemes
  imports Cel_Kinds
begin

text \<open>
  The front end does not look into numbers: tokens, trees and kinds of a formula are those found
  with the numbers left as text, and the decimal library only has to read those texts. So a fact
  about a concrete formula is evaluated once, with \<open>text_api\<close>, and holds for every library that
  reads its numbers.
\<close>

definition text_api :: "string decimal_api" where
  "text_api = \<lparr> d_parse = Some, d_of_int = (\<lambda>n. []), d_neg = id, d_abs = id, d_plus = (@), d_minus = (@),
     d_times = (@), d_div = (@), d_mod = (@), d_cmp = (\<lambda>x y. None), d_is_zero = (\<lambda>x. x = []),
     d_to_places = (\<lambda>x p. None) \<rparr>"

section \<open>The parser\<close>

definition map_res :: "('a \<Rightarrow> 'b) \<Rightarrow> ('d \<Rightarrow> 'e) \<Rightarrow> ('a \<times> 'd token list) parsed \<Rightarrow> ('b \<times> 'e token list) parsed" where
  "map_res g h p = (case p of OutOfFuel \<Rightarrow> OutOfFuel | Throw e \<Rightarrow> Throw e
     | Done (x, ts) \<Rightarrow> Done (g x, map (map_token h) ts))"

lemma map_res_simps [simp]:
  "map_res g h OutOfFuel = OutOfFuel" "map_res g h (Throw e) = Throw e"
  "map_res g h (Done (x, ts)) = Done (g x, map (map_token h) ts)"
  by (simp_all add: map_res_def)

lemma bind_map_res:
  "(\<And>x ts. f (g x, map (map_token h) ts) = map_res g' h (f' (x, ts))) \<Longrightarrow>
     bindP (map_res g h p) f = map_res g' h (bindP p f')"
  by (cases p) auto

lemma peek_map [simp]: "peek (map (map_token h) ts) = map_token h (peek ts)"
  by (cases ts) simp_all

lemma token_eq_map [simp]:
  "map_token h t = TColon \<longleftrightarrow> t = TColon" "map_token h t = TRParen \<longleftrightarrow> t = TRParen"
  "map_token h t = TLParen \<longleftrightarrow> t = TLParen" "map_token h t = TComma \<longleftrightarrow> t = TComma"
  "map_token h t = TEof \<longleftrightarrow> t = TEof"
  by (cases t; simp)+

lemma token_name_map [simp]: "token_name (map_token h t) = token_name t"
  by (cases t) simp_all

lemma loop_map:
  assumes "\<And>m ts. parse_expr n m (map (map_token h) ts) = map_res (map_node h) h (parse_expr n m ts)"
    "\<And>m l ts. parse_loop n m (map_node h l) (map (map_token h) ts) = map_res (map_node h) h (parse_loop n m l ts)"
  shows "parse_loop (Suc n) m (map_node h l) (map (map_token h) ts) = map_res (map_node h) h (parse_loop (Suc n) m l ts)"
proof (cases "peek ts")
  case (TOp oper)
  then show ?thesis unfolding parse_loop.simps
    by (auto simp: assms(1) assms(2)[of _ "NBin oper l _", simplified] map_tl[symmetric] intro!: bind_map_res split: option.splits)
next
  case TQMark
  have "bindP (map_res (map_node h) h p) (\<lambda>(b, r'). parse_loop n m (NCond (map_node h l) (map_node h a) b) r') =
      map_res (map_node h) h (bindP p (\<lambda>(b, r'). parse_loop n m (NCond l a b) r'))" for a p
    by (rule bind_map_res) (use assms(2)[of _ "NCond l a _"] in simp)
  then show ?thesis using TQMark unfolding parse_loop.simps
    by (auto simp: assms(1) map_tl[symmetric] intro!: bind_map_res)
qed (simp_all add: parse_loop.simps)

lemma unary_map:
  assumes "\<And>ts. parse_unary n (map (map_token h) ts) = map_res (map_node h) h (parse_unary n ts)"
    "\<And>ts. parse_primary n (map (map_token h) ts) = map_res (map_node h) h (parse_primary n ts)"
  shows "parse_unary (Suc n) (map (map_token h) ts) = map_res (map_node h) h (parse_unary (Suc n) ts)"
  unfolding parse_unary.simps
  by (cases "peek ts") (auto simp: assms map_tl[symmetric] intro!: bind_map_res)

lemma args_map:
  assumes "\<And>m ts. parse_expr n m (map (map_token h) ts) = map_res (map_node h) h (parse_expr n m ts)"
    "\<And>ts. parse_args n (map (map_token h) ts) = map_res (map (map_node h)) h (parse_args n ts)"
  shows "parse_args (Suc n) (map (map_token h) ts) = map_res (map (map_node h)) h (parse_args (Suc n) ts)"
  unfolding parse_args.simps assms(1)
  by (rule bind_map_res) (auto simp: assms(2) map_tl[symmetric] intro!: bind_map_res)

lemma primary_map:
  assumes "\<And>m ts. parse_expr n m (map (map_token h) ts) = map_res (map_node h) h (parse_expr n m ts)"
    "\<And>ts. parse_args n (map (map_token h) ts) = map_res (map (map_node h)) h (parse_args n ts)"
  shows "parse_primary (Suc n) (map (map_token h) ts) = map_res (map_node h) h (parse_primary (Suc n) ts)"
proof (cases ts)
  case (Cons t r)
  then show ?thesis unfolding parse_primary.simps
    by (cases t) (auto simp: assms map_tl[symmetric] intro!: bind_map_res)
qed (simp add: parse_primary.simps)

lemma parse_maps:
  "(\<forall>m ts. parse_expr n m (map (map_token h) ts) = map_res (map_node h) h (parse_expr n m ts)) \<and>
   (\<forall>m l ts. parse_loop n m (map_node h l) (map (map_token h) ts) = map_res (map_node h) h (parse_loop n m l ts)) \<and>
   (\<forall>ts. parse_unary n (map (map_token h) ts) = map_res (map_node h) h (parse_unary n ts)) \<and>
   (\<forall>ts. parse_primary n (map (map_token h) ts) = map_res (map_node h) h (parse_primary n ts)) \<and>
   (\<forall>ts. parse_args n (map (map_token h) ts) = map_res (map (map_node h)) h (parse_args n ts))"
proof (induction n)
  case 0
  show ?case by (simp add: parse_expr.simps parse_loop.simps parse_unary.simps parse_primary.simps parse_args.simps)
next
  case (Suc n)
  have "parse_expr (Suc n) m (map (map_token h) ts) = map_res (map_node h) h (parse_expr (Suc n) m ts)" for m ts
    unfolding parse_expr.simps using Suc by (auto intro!: bind_map_res)
  moreover have "parse_loop (Suc n) m (map_node h l) (map (map_token h) ts) = map_res (map_node h) h (parse_loop (Suc n) m l ts)"
    for m l ts by (rule loop_map) (use Suc in blast)+
  moreover have "parse_unary (Suc n) (map (map_token h) ts) = map_res (map_node h) h (parse_unary (Suc n) ts)" for ts
    by (rule unary_map) (use Suc in blast)+
  moreover have "parse_primary (Suc n) (map (map_token h) ts) = map_res (map_node h) h (parse_primary (Suc n) ts)" for ts
    by (rule primary_map) (use Suc in blast)+
  moreover have "parse_args (Suc n) (map (map_token h) ts) = map_res (map (map_node h)) h (parse_args (Suc n) ts)" for ts
    by (rule args_map) (use Suc in blast)+
  ultimately show ?case by blast
qed

lemma parse_result_map: "parse_result (map (map_token h) ts) = map_sum id (map_node h) (parse_result ts)"
proof -
  have "parse_expr (parse_fuel ts) 0 (map (map_token h) ts) = map_res (map_node h) h (parse_expr (parse_fuel ts) 0 ts)"
    using parse_maps by blast
  then show ?thesis
    by (cases "parse_expr (parse_fuel ts) 0 ts") (auto simp: parse_result_def parse_def parse_fuel_def)
qed

section \<open>The tokenizer\<close>

definition number_texts :: "string token list \<Rightarrow> string list" where
  "number_texts ts = concat (map (\<lambda>t. case t of TNum s \<Rightarrow> [s] | _ \<Rightarrow> []) ts)"

definition reads :: "'d decimal_api \<Rightarrow> string list \<Rightarrow> bool" where
  "reads D ws = list_all (\<lambda>w. d_parse D w \<noteq> None) ws"

lemma reads_simps [simp]: "reads D []" "reads D (w # ws) \<longleftrightarrow> (\<exists>v. d_parse D w = Some v) \<and> reads D ws"
  by (auto simp: reads_def)

lemma number_texts_Cons:
  "number_texts (t # ts) = (case t of TNum s \<Rightarrow> [s] | _ \<Rightarrow> []) @ number_texts ts"
  by (simp add: number_texts_def)

lemma number_texts_free:
  "number_texts (word_token w # ts) = number_texts ts" "number_texts (TOp oper # ts) = number_texts ts"
  "number_texts (TStr w # ts) = number_texts ts" "punct c = Some t \<Longrightarrow> number_texts (t # ts) = number_texts ts"
  by (auto simp: number_texts_Cons word_token_def punct_def split: if_splits)

lemma word_token_map: "map_token h (word_token w) = word_token w"
  by (simp add: word_token_def)

lemma punct_map: "punct c = map_option (map_token h) (punct c)"
  by (simp add: punct_def)

lemma push_Inr: "push_token t r = Inr ts \<longleftrightarrow> (\<exists>us. r = Inr us \<and> ts = t # us)"
  by (cases r) auto

lemma tokenize_from_reads:
  "tokenize_from text_api i s = Inr ts \<Longrightarrow> reads D (number_texts ts) \<Longrightarrow>
     tokenize_from D i s = Inr (map (map_token (\<lambda>w. the (d_parse D w))) ts)"
proof (induction "text_api" i s arbitrary: ts rule: tokenize_from.induct)
  case (1 i)
  then show ?case by (auto simp: tokenize_from.simps)
next
  case (2 i c s)
  note eq = tokenize_from.simps(2)[of text_api i c s] tokenize_from.simps(2)[of D i c s]
  consider (space) "lex_space c" | (digit) "\<not> lex_space c" "is_digit c"
    | (quote) "\<not> lex_space c" "\<not> is_digit c" "is_quote c"
    | (ident) "\<not> lex_space c" "\<not> is_digit c" "\<not> is_quote c" "ident_start c"
    | (oper) "\<not> lex_space c" "\<not> is_digit c" "\<not> is_quote c" "\<not> ident_start c" by blast
  then show ?case
  proof cases
    case space
    then show ?thesis using 2 unfolding eq by simp
  next
    case digit
    obtain w r where w: "scan_number (c # s) = (w, r)" by (cases "scan_number (c # s)")
    let ?w = "filter (\<lambda>x. x \<noteq> CHR ''_'') w"
    have p: "d_parse text_api ?w = Some ?w" by (simp add: text_api_def)
    with digit w 2(8) obtain us where us: "tokenize_from text_api (i + length w) r = Inr us" "ts = TNum ?w # us"
      unfolding eq by (auto simp: push_Inr)
    with 2(9) obtain v where v: "d_parse D ?w = Some v" "reads D (number_texts us)"
      by (auto simp: number_texts_Cons)
    from 2(2)[OF digit w[symmetric] p us(1) v(2)] show ?thesis
      using digit w us(2) v(1) unfolding eq by simp
  next
    case quote
    from quote 2(8) obtain w r where w: "scan_string c s = Some (w, r)"
      unfolding eq by (auto split: option.splits)
    with quote 2(8) obtain us where us: "tokenize_from text_api (i + (length (c # s) - length r)) r = Inr us" "ts = TStr w # us"
      unfolding eq by (auto simp: push_Inr)
    from 2(3)[OF quote w refl us(1)] 2(9) us(2) show ?thesis
      using quote w unfolding eq by (simp add: number_texts_free)
  next
    case ident
    let ?w = "takeWhile ident_char (c # s)" and ?r = "dropWhile ident_char (c # s)"
    from ident 2(8) obtain us where us: "tokenize_from text_api (i + length ?w) ?r = Inr us" "ts = word_token ?w # us"
      unfolding eq by (auto simp: push_Inr simp del: takeWhile.simps dropWhile.simps)
    from 2(4)[OF ident us(1)] 2(9) us(2) show ?thesis
      using ident unfolding eq by (simp add: number_texts_free word_token_map del: takeWhile.simps dropWhile.simps)
  next
    case oper
    show ?thesis
    proof (cases "case s of [] \<Rightarrow> None | d # s' \<Rightarrow> two_char_op c d")
      case (Some op2)
      from oper Some 2(8) obtain us where us: "tokenize_from text_api (i + 2) (tl s) = Inr us" "ts = TOp op2 # us"
        unfolding eq by (auto simp: push_Inr)
      from 2(7)[OF oper Some us(1)] 2(9) us(2) show ?thesis
        using oper Some unfolding eq by (simp add: number_texts_free)
    next
      case None
      show ?thesis
      proof (cases "one_char_op c")
        case (Some op1)
        from oper None Some 2(8) obtain us where us: "tokenize_from text_api (i + 1) s = Inr us" "ts = TOp op1 # us"
          unfolding eq by (auto simp: push_Inr)
        from 2(6)[OF oper None Some us(1)] 2(9) us(2) show ?thesis
          using oper None Some unfolding eq by (simp add: number_texts_free)
      next
        case none1: None
        from oper None none1 2(8) obtain t us where us: "punct c = Some t" "tokenize_from text_api (i + 1) s = Inr us" "ts = t # us"
          unfolding eq by (auto simp: push_Inr split: option.splits)
        have pc: "punct c = Some (map_token (\<lambda>w. the (d_parse D w)) t)" 
          unfolding punct_map[of c "\<lambda>w. the (d_parse D w)"] us(1) by simp
        from 2(5)[OF oper None none1 us(1,2)] 2(9) us(1,3) show ?thesis
          using oper None none1 pc unfolding eq by (simp add: number_texts_free)
      qed
    qed
  qed
qed

section \<open>Kinds\<close>

lemma kind_of_map:
  "kind_of ns (map_node h e) = kind_of ns e" "kinds_of ns (map (map_node h) as) = kinds_of ns as"
  by (induction ns e and ns as rule: kind_of_kinds_of.induct) (simp_all split: option.splits)

lemma kind_of_text_reads:
  assumes "tokenize text_api src = Inr ts" "reads D (number_texts ts)"
  shows "kind_of_text D ns src = kind_of_text text_api ns src"
proof -
  have "tokenize D src = Inr (map (map_token (\<lambda>w. the (d_parse D w))) ts)"
    using tokenize_from_reads[of 0 src ts D] assms by (simp add: tokenize_def)
  then show ?thesis
    using assms(1) by (cases "parse_result ts") (simp_all add: kind_of_text_def parse_result_map kind_of_map)
qed

end
