(* ===== verification/Fw_Base.thy ===== *)
theory Fw_Base
  imports Prelude
begin

text \<open>
  The types of the tables of packages/frameworks/src: canonical metrics (canonical/metrics.ts) and
  the disclosures of the reporting frameworks (frameworks/*.ts). A union of string literals is a
  datatype, an optional or nullable field an option, and a text is its UTF-8 bytes.
\<close>

section \<open>Canonical metrics\<close>

datatype aggregation_rule =
  AggSum | AggAvg | AggWeightedAvg | AggLast | AggMax | AggMin | AggRatio | AggBoolAny

datatype metric_category = CatEnvironment | CatSocial | CatGovernance

datatype ghg_basis = BasisAR5 | BasisAR6_100 | BasisAR6_20 | BasisAR4

datatype boundary_tag =
    Scope1Stationary | Scope1Mobile | Scope1Process | Scope1Fugitive
  | Scope2Location | Scope2Market | Scope3Cat nat | Biogenic | OutOfScope

datatype dimension_key =
    DimPeriod | DimScopeNode | DimGas | DimFuelType | DimVehicleType | DimCountry | DimState
  | DimGridRegion | DimFacility | DimGender | DimAgeBracket | DimEmploymentType
  | DimDisabilityStatus | DimSesCategory | DimSector | DimSupplierTier | DimProductLine
  | DimChannel | DimCurrency | DimSourceCategory | DimDischargeDestination

datatype value_dtype = DtInt | DtFloat | DtBool | DtString

record value_constraints =
  vc_min :: "int option"
  vc_max :: "int option"
  vc_dtype :: value_dtype

definition non_negative_float :: value_constraints where
  "non_negative_float = \<lparr> vc_min = Some 0, vc_max = None, vc_dtype = DtFloat \<rparr>"

definition percentage_range :: value_constraints where
  "percentage_range = \<lparr> vc_min = Some 0, vc_max = Some 100, vc_dtype = DtFloat \<rparr>"

definition non_negative_int :: value_constraints where
  "non_negative_int = \<lparr> vc_min = Some 0, vc_max = None, vc_dtype = DtInt \<rparr>"

definition boolean_range :: value_constraints where
  "boolean_range = \<lparr> vc_min = None, vc_max = None, vc_dtype = DtBool \<rparr>"

text \<open>\<open>Omit<CanonicalMetric, "version" | "valid_from">\<close> and the whole metric, which extends it.\<close>

record metric_spec =
  cmt_key :: string
  cmt_name :: string
  cmt_description :: string
  cmt_unit :: string
  cmt_allowed :: "string list"
  cmt_category :: metric_category
  cmt_subcategory :: string
  cmt_dimensions :: "dimension_key list"
  cmt_rule :: aggregation_rule
  cmt_boundary :: "boundary_tag option"
  cmt_basis :: "ghg_basis option"
  cmt_tier :: nat
  cmt_constraints :: value_constraints
  cmt_aliases :: "string list"

record canonical_metric = metric_spec +
  cmt_version :: nat
  cmt_valid_from :: string

definition canon_metric :: "metric_spec \<Rightarrow> canonical_metric" where
  "canon_metric p = metric_spec.extend p (canonical_metric.fields 1 ''2024-04-01'')"

lemma canon_metric_sel [simp]:
  "cmt_key (canon_metric p) = cmt_key p" "cmt_unit (canon_metric p) = cmt_unit p"
  "cmt_allowed (canon_metric p) = cmt_allowed p" "cmt_category (canon_metric p) = cmt_category p"
  "cmt_subcategory (canon_metric p) = cmt_subcategory p" "cmt_rule (canon_metric p) = cmt_rule p"
  "cmt_boundary (canon_metric p) = cmt_boundary p" "cmt_basis (canon_metric p) = cmt_basis p"
  "cmt_constraints (canon_metric p) = cmt_constraints p" "cmt_dimensions (canon_metric p) = cmt_dimensions p"
  "cmt_version (canon_metric p) = 1" "cmt_valid_from (canon_metric p) = ''2024-04-01''"
  by (simp_all add: canon_metric_def metric_spec.defs canonical_metric.defs)

section \<open>Disclosures\<close>

datatype response_type = RespNumeric | RespText | RespBoolean | RespTable | RespPercentage

text \<open>\<open>Omit<BrsrDisclosure, "principle_name">\<close> and the whole disclosure.\<close>

record brsr_spec =
  brd_section :: string
  brd_principle :: nat
  brd_section_name :: string
  brd_question :: string
  brd_response :: response_type
  brd_unit :: "string option"
  brd_mandatory :: bool
  brd_core :: bool
  brd_keys :: "string list"
  brd_formula :: "string option"
  brd_narrative :: "string option"

record brsr_disclosure = brsr_spec +
  brd_principle_name :: string

record gri_disclosure =
  grd_section :: string
  grd_standard :: nat
  grd_standard_name :: string
  grd_number :: string
  grd_question :: string
  grd_response :: response_type
  grd_unit :: "string option"
  grd_mandatory :: bool
  grd_keys :: "string list"
  grd_formula :: "string option"
  grd_narrative :: "string option"

record sasb_disclosure =
  sad_section :: string
  sad_sector :: string
  sad_sector_name :: string
  sad_topic :: string
  sad_question :: string
  sad_response :: response_type
  sad_unit :: "string option"
  sad_mandatory :: bool
  sad_keys :: "string list"
  sad_narrative :: "string option"

datatype tcfd_pillar = PillarGovernance | PillarStrategy | PillarRiskManagement | PillarMetricsTargets

record tcfd_disclosure =
  tcd_section :: string
  tcd_pillar :: tcfd_pillar
  tcd_recommendation :: string
  tcd_question :: string
  tcd_response :: response_type
  tcd_unit :: "string option"
  tcd_mandatory :: bool
  tcd_keys :: "string list"
  tcd_narrative :: "string option"

datatype ifrs_standard = IfrsS1 | IfrsS2

record ifrs_disclosure =
  ifd_section :: string
  ifd_standard :: ifrs_standard
  ifd_topic :: string
  ifd_paragraph :: string
  ifd_question :: string
  ifd_response :: response_type
  ifd_unit :: "string option"
  ifd_mandatory :: bool
  ifd_keys :: "string list"
  ifd_narrative :: "string option"

datatype esrs_category = EsrsCrossCutting | EsrsEnvironment | EsrsSocial | EsrsGovernance

record esrs_disclosure =
  esd_section :: string
  esd_standard :: string
  esd_standard_name :: string
  esd_category :: esrs_category
  esd_requirement :: string
  esd_question :: string
  esd_response :: response_type
  esd_unit :: "string option"
  esd_mandatory :: bool
  esd_keys :: "string list"
  esd_narrative :: "string option"

datatype cdp_module = CdpClimate | CdpWater | CdpForests

record cdp_disclosure =
  cdd_section :: string
  cdd_module :: cdp_module
  cdd_section_name :: string
  cdd_question :: string
  cdd_response :: response_type
  cdd_unit :: "string option"
  cdd_mandatory :: bool
  cdd_keys :: "string list"
  cdd_narrative :: "string option"

section \<open>The keys of the fifteen scope 3 categories\<close>

definition scope3_metric_keys :: "string list" where
  "scope3_metric_keys = map (\<lambda>i. ''scope3_cat'' @ show_nat (i + 1) @ ''_tco2e'') [0..<15]"

fun join_text :: "string \<Rightarrow> string list \<Rightarrow> string" where
  "join_text sep [] = []"
| "join_text sep [s] = s"
| "join_text sep (s # t # ts) = s @ sep @ join_text sep (t # ts)"

definition scope3_sum_formula :: string where
  "scope3_sum_formula = join_text '' + '' (map (\<lambda>k. ''m.'' @ k) scope3_metric_keys)"

section \<open>Reading an object\<close>

text \<open>What \<open>obj[key]\<close> is: an own entry, a member of the prototype, or undefined.\<close>

datatype 'a js_read = JsOwn 'a | JsHost | JsUndefined

definition js_read :: "'a js_object \<Rightarrow> string \<Rightarrow> 'a js_read" where
  "js_read ob k = (case own_get ob k of
     Some v \<Rightarrow> JsOwn v
   | None \<Rightarrow> if k \<in> set object_prototype then JsHost else JsUndefined)"

end
