(* ===== verification/Fw_Metrics.thy ===== *)
theory Fw_Metrics
  imports Fw_Base
begin

text \<open>
  The canonical metric registry (packages/frameworks/src/canonical/metrics.ts): the literal
  metrics section by section, the scope 3 block made from its categories, the construction of
  the registry with its check for duplicate keys, and the lookups.
\<close>

section \<open>The metrics\<close>

definition metrics_energy_1 :: "canonical_metric list" where
  "metrics_energy_1 = [
     canon_metric \<lparr> cmt_key = ''electricity_kwh'', cmt_name = ''Electricity consumed'',
        cmt_description = ''Total electrical energy consumed across all sources (grid + on-site renewable + on-site fossil generation).'',
        cmt_unit = ''kwh'', cmt_allowed = [''kwh'', ''mwh'', ''gwh'', ''gj'', ''mj''],
        cmt_category = CatEnvironment, cmt_subcategory = ''energy'',
        cmt_dimensions = [DimPeriod, DimScopeNode, DimFacility, DimState], cmt_rule = AggSum,
        cmt_boundary = None, cmt_basis = None, cmt_tier = 1, cmt_constraints = non_negative_float,
        cmt_aliases = [''electricity consumption'', ''power consumed'', ''electricity used'', ''kwh consumed'', ''electricity drawn''] \<rparr>,
     canon_metric \<lparr> cmt_key = ''electricity_from_renewable_kwh'', cmt_name = ''Renewable electricity consumed'',
        cmt_description = ''Electricity sourced from renewable sources (on-site solar/wind, PPAs, I-RECs).'',
        cmt_unit = ''kwh'', cmt_allowed = [''kwh'', ''mwh'', ''gwh''], cmt_category = CatEnvironment,
        cmt_subcategory = ''energy'', cmt_dimensions = [DimPeriod, DimScopeNode, DimFacility, DimSourceCategory],
        cmt_rule = AggSum, cmt_boundary = None, cmt_basis = None, cmt_tier = 2,
        cmt_constraints = non_negative_float,
        cmt_aliases = [''renewable electricity'', ''green power'', ''solar consumed'', ''wind consumed'', ''rec backed electricity''] \<rparr>,
     canon_metric \<lparr> cmt_key = ''electricity_from_grid_kwh'', cmt_name = ''Grid electricity consumed'',
        cmt_description = ''Electricity purchased from the grid (location-based).'', cmt_unit = ''kwh'',
        cmt_allowed = [''kwh'', ''mwh'', ''gwh''], cmt_category = CatEnvironment, cmt_subcategory = ''energy'',
        cmt_dimensions = [DimPeriod, DimScopeNode, DimFacility, DimGridRegion, DimState], cmt_rule = AggSum,
        cmt_boundary = None, cmt_basis = None, cmt_tier = 1, cmt_constraints = non_negative_float,
        cmt_aliases = [''grid electricity'', ''purchased electricity'', ''utility power'', ''discom electricity''] \<rparr>,
     canon_metric \<lparr> cmt_key = ''diesel_l'', cmt_name = ''Diesel consumed'',
        cmt_description = ''Volume of diesel consumed in stationary and mobile combustion sources.'',
        cmt_unit = ''l'', cmt_allowed = [''l'', ''kl'', ''gal_us'', ''gal_uk''], cmt_category = CatEnvironment,
        cmt_subcategory = ''energy'', cmt_dimensions = [DimPeriod, DimScopeNode, DimFacility, DimFuelType],
        cmt_rule = AggSum, cmt_boundary = None, cmt_basis = None, cmt_tier = 1,
        cmt_constraints = non_negative_float,
        cmt_aliases = [''hsd'', ''high speed diesel'', ''diesel fuel'', ''diesel litres''] \<rparr>,
     canon_metric \<lparr> cmt_key = ''petrol_l'', cmt_name = ''Petrol consumed'',
        cmt_description = ''Volume of petrol/gasoline consumed in mobile combustion sources.'', cmt_unit = ''l'',
        cmt_allowed = [''l'', ''kl'', ''gal_us''], cmt_category = CatEnvironment, cmt_subcategory = ''energy'',
        cmt_dimensions = [DimPeriod, DimScopeNode, DimFacility], cmt_rule = AggSum, cmt_boundary = None,
        cmt_basis = None, cmt_tier = 1, cmt_constraints = non_negative_float,
        cmt_aliases = [''gasoline'', ''ms'', ''motor spirit'', ''petrol fuel''] \<rparr>,
     canon_metric \<lparr> cmt_key = ''lpg_kg'', cmt_name = ''LPG consumed'',
        cmt_description = ''Liquefied petroleum gas consumed for stationary combustion (heating, cooking, process).'',
        cmt_unit = ''kg'', cmt_allowed = [''kg'', ''tonnes'', ''cylinder_14_2kg'', ''cylinder_19kg''],
        cmt_category = CatEnvironment, cmt_subcategory = ''energy'',
        cmt_dimensions = [DimPeriod, DimScopeNode, DimFacility], cmt_rule = AggSum, cmt_boundary = None,
        cmt_basis = None, cmt_tier = 1, cmt_constraints = non_negative_float,
        cmt_aliases = [''liquefied petroleum gas'', ''cooking gas'', ''propane'', ''butane''] \<rparr>,
     canon_metric \<lparr> cmt_key = ''lng_kg'', cmt_name = ''LNG consumed'', cmt_description = ''Liquefied natural gas consumed.'',
        cmt_unit = ''kg'', cmt_allowed = [''kg'', ''tonnes'', ''scm''], cmt_category = CatEnvironment,
        cmt_subcategory = ''energy'', cmt_dimensions = [DimPeriod, DimScopeNode, DimFacility], cmt_rule = AggSum,
        cmt_boundary = None, cmt_basis = None, cmt_tier = 1, cmt_constraints = non_negative_float,
        cmt_aliases = [''liquefied natural gas''] \<rparr>,
     canon_metric \<lparr> cmt_key = ''png_scm'', cmt_name = ''Piped natural gas consumed'',
        cmt_description = ''PNG consumed via pipeline, in standard cubic metres.'', cmt_unit = ''scm'',
        cmt_allowed = [''scm'', ''nm3'', ''mmbtu'', ''kwh''], cmt_category = CatEnvironment,
        cmt_subcategory = ''energy'', cmt_dimensions = [DimPeriod, DimScopeNode, DimFacility], cmt_rule = AggSum,
        cmt_boundary = None, cmt_basis = None, cmt_tier = 1, cmt_constraints = non_negative_float,
        cmt_aliases = [''piped natural gas'', ''natural gas pipeline'', ''city gas'', ''png''] \<rparr>,
     canon_metric \<lparr> cmt_key = ''coal_tonnes'', cmt_name = ''Coal consumed'',
        cmt_description = ''Coal consumed for stationary combustion (boilers, captive power).'',
        cmt_unit = ''tonnes'', cmt_allowed = [''tonnes'', ''kg''], cmt_category = CatEnvironment,
        cmt_subcategory = ''energy'', cmt_dimensions = [DimPeriod, DimScopeNode, DimFacility, DimFuelType],
        cmt_rule = AggSum, cmt_boundary = None, cmt_basis = None, cmt_tier = 1,
        cmt_constraints = non_negative_float,
        cmt_aliases = [''coal usage'', ''thermal coal'', ''lignite'', ''bituminous coal''] \<rparr>,
     canon_metric \<lparr> cmt_key = ''biomass_tonnes'', cmt_name = ''Biomass consumed'',
        cmt_description = ''Solid biomass (woodchips, husks, pellets) consumed for combustion. Reported as biogenic.'',
        cmt_unit = ''tonnes'', cmt_allowed = [''tonnes'', ''kg''], cmt_category = CatEnvironment,
        cmt_subcategory = ''energy'', cmt_dimensions = [DimPeriod, DimScopeNode, DimFacility], cmt_rule = AggSum,
        cmt_boundary = Some Biogenic, cmt_basis = None, cmt_tier = 2, cmt_constraints = non_negative_float,
        cmt_aliases = [''biofuel'', ''husk'', ''wood chips'', ''agri residue'', ''briquette''] \<rparr>]"

definition metrics_energy_2 :: "canonical_metric list" where
  "metrics_energy_2 = [
     canon_metric \<lparr> cmt_key = ''steam_purchased_gj'', cmt_name = ''Steam purchased'',
        cmt_description = ''Thermal energy purchased as steam.'', cmt_unit = ''gj'',
        cmt_allowed = [''gj'', ''mj'', ''kwh'', ''mmbtu'', ''tonnes_steam''], cmt_category = CatEnvironment,
        cmt_subcategory = ''energy'', cmt_dimensions = [DimPeriod, DimScopeNode, DimFacility], cmt_rule = AggSum,
        cmt_boundary = None, cmt_basis = None, cmt_tier = 1, cmt_constraints = non_negative_float,
        cmt_aliases = [''purchased steam'', ''external steam''] \<rparr>,
     canon_metric \<lparr> cmt_key = ''total_energy_consumed_gj'', cmt_name = ''Total energy consumed'',
        cmt_description = ''Sum of all fuels + electricity + steam, converted to GJ. Derived metric.'',
        cmt_unit = ''gj'', cmt_allowed = [''gj'', ''tj'', ''kwh'', ''mwh''], cmt_category = CatEnvironment,
        cmt_subcategory = ''energy'', cmt_dimensions = [DimPeriod, DimScopeNode], cmt_rule = AggSum,
        cmt_boundary = None, cmt_basis = None, cmt_tier = 2, cmt_constraints = non_negative_float,
        cmt_aliases = [''total energy'', ''total energy consumption'', ''energy consumed''] \<rparr>,
     canon_metric \<lparr> cmt_key = ''energy_intensity_per_revenue'', cmt_name = ''Energy intensity per revenue'',
        cmt_description = ''Total energy GJ / revenue INR. Restated each period.'',
        cmt_unit = ''gj_per_inr_crore'', cmt_allowed = [''gj_per_inr_crore'', ''gj_per_usd_million''],
        cmt_category = CatEnvironment, cmt_subcategory = ''energy'', cmt_dimensions = [DimPeriod, DimScopeNode],
        cmt_rule = AggRatio, cmt_boundary = None, cmt_basis = None, cmt_tier = 2,
        cmt_constraints = non_negative_float, cmt_aliases = [''energy intensity'', ''energy per revenue''] \<rparr>,
     canon_metric \<lparr> cmt_key = ''energy_intensity_per_employee'', cmt_name = ''Energy intensity per employee'',
        cmt_description = ''Total energy GJ / headcount.'', cmt_unit = ''gj_per_employee'',
        cmt_allowed = [''gj_per_employee'', ''kwh_per_employee''], cmt_category = CatEnvironment,
        cmt_subcategory = ''energy'', cmt_dimensions = [DimPeriod, DimScopeNode], cmt_rule = AggRatio,
        cmt_boundary = None, cmt_basis = None, cmt_tier = 2, cmt_constraints = non_negative_float,
        cmt_aliases = [''energy per employee'', ''per capita energy''] \<rparr>]"

definition metrics_energy :: "canonical_metric list" where
  "metrics_energy = metrics_energy_1 @ metrics_energy_2"

definition metrics_water :: "canonical_metric list" where
  "metrics_water = [
     canon_metric \<lparr> cmt_key = ''water_withdrawn_kl_groundwater'', cmt_name = ''Groundwater withdrawn'',
        cmt_description = ''Volume of water withdrawn from groundwater sources (boreholes, wells).'',
        cmt_unit = ''kl'', cmt_allowed = [''kl'', ''ml'', ''m3'', ''l''], cmt_category = CatEnvironment,
        cmt_subcategory = ''water'', cmt_dimensions = [DimPeriod, DimScopeNode, DimFacility], cmt_rule = AggSum,
        cmt_boundary = None, cmt_basis = None, cmt_tier = 2, cmt_constraints = non_negative_float,
        cmt_aliases = [''ground water'', ''borewell'', ''well water''] \<rparr>,
     canon_metric \<lparr> cmt_key = ''water_withdrawn_kl_surface'', cmt_name = ''Surface water withdrawn'',
        cmt_description = ''Volume of water withdrawn from surface sources (rivers, lakes, rainwater capture).'',
        cmt_unit = ''kl'', cmt_allowed = [''kl'', ''ml'', ''m3''], cmt_category = CatEnvironment,
        cmt_subcategory = ''water'', cmt_dimensions = [DimPeriod, DimScopeNode, DimFacility], cmt_rule = AggSum,
        cmt_boundary = None, cmt_basis = None, cmt_tier = 2, cmt_constraints = non_negative_float,
        cmt_aliases = [''river water'', ''lake water'', ''surface water''] \<rparr>,
     canon_metric \<lparr> cmt_key = ''water_withdrawn_kl_third_party'', cmt_name = ''Third-party water withdrawn'',
        cmt_description = ''Water purchased from municipalities or water utilities.'', cmt_unit = ''kl'',
        cmt_allowed = [''kl'', ''ml'', ''m3''], cmt_category = CatEnvironment, cmt_subcategory = ''water'',
        cmt_dimensions = [DimPeriod, DimScopeNode, DimFacility], cmt_rule = AggSum, cmt_boundary = None,
        cmt_basis = None, cmt_tier = 1, cmt_constraints = non_negative_float,
        cmt_aliases = [''municipal water'', ''purchased water'', ''tanker water''] \<rparr>,
     canon_metric \<lparr> cmt_key = ''water_withdrawn_kl_seawater'', cmt_name = ''Seawater withdrawn'',
        cmt_description = ''Volume of seawater withdrawn (cooling, desalination feed).'', cmt_unit = ''kl'',
        cmt_allowed = [''kl'', ''ml'', ''m3''], cmt_category = CatEnvironment, cmt_subcategory = ''water'',
        cmt_dimensions = [DimPeriod, DimScopeNode, DimFacility], cmt_rule = AggSum, cmt_boundary = None,
        cmt_basis = None, cmt_tier = 2, cmt_constraints = non_negative_float,
        cmt_aliases = [''sea water'', ''marine water''] \<rparr>,
     canon_metric \<lparr> cmt_key = ''water_withdrawn_kl_produced'', cmt_name = ''Produced water'',
        cmt_description = ''Water that comes up as a by-product of operations (e.g. mining, O&G).'',
        cmt_unit = ''kl'', cmt_allowed = [''kl'', ''ml'', ''m3''], cmt_category = CatEnvironment,
        cmt_subcategory = ''water'', cmt_dimensions = [DimPeriod, DimScopeNode, DimFacility], cmt_rule = AggSum,
        cmt_boundary = None, cmt_basis = None, cmt_tier = 2, cmt_constraints = non_negative_float,
        cmt_aliases = [''process water'', ''mine water'', ''associated water''] \<rparr>,
     canon_metric \<lparr> cmt_key = ''water_withdrawn_total_kl'', cmt_name = ''Total water withdrawn'',
        cmt_description = ''Sum of all withdrawal sources.'', cmt_unit = ''kl'',
        cmt_allowed = [''kl'', ''ml'', ''m3''], cmt_category = CatEnvironment, cmt_subcategory = ''water'',
        cmt_dimensions = [DimPeriod, DimScopeNode], cmt_rule = AggSum, cmt_boundary = None, cmt_basis = None,
        cmt_tier = 2, cmt_constraints = non_negative_float,
        cmt_aliases = [''total water withdrawal'', ''gross water''] \<rparr>,
     canon_metric \<lparr> cmt_key = ''water_discharged_kl'', cmt_name = ''Water discharged'',
        cmt_description = ''Volume of water discharged to any destination after use.'', cmt_unit = ''kl'',
        cmt_allowed = [''kl'', ''ml'', ''m3''], cmt_category = CatEnvironment, cmt_subcategory = ''water'',
        cmt_dimensions = [DimPeriod, DimScopeNode, DimDischargeDestination], cmt_rule = AggSum,
        cmt_boundary = None, cmt_basis = None, cmt_tier = 2, cmt_constraints = non_negative_float,
        cmt_aliases = [''water discharge'', ''effluent discharged'', ''wastewater discharged''] \<rparr>,
     canon_metric \<lparr> cmt_key = ''water_consumed_kl'', cmt_name = ''Water consumed'',
        cmt_description = ''Water withdrawn minus discharged (i.e. evaporated/embedded in product).'',
        cmt_unit = ''kl'', cmt_allowed = [''kl'', ''ml'', ''m3''], cmt_category = CatEnvironment,
        cmt_subcategory = ''water'', cmt_dimensions = [DimPeriod, DimScopeNode], cmt_rule = AggSum,
        cmt_boundary = None, cmt_basis = None, cmt_tier = 3, cmt_constraints = non_negative_float,
        cmt_aliases = [''water consumption'', ''net water use''] \<rparr>,
     canon_metric \<lparr> cmt_key = ''water_recycled_kl'', cmt_name = ''Water recycled / reused'',
        cmt_description = ''Volume of treated wastewater recycled back into processes.'', cmt_unit = ''kl'',
        cmt_allowed = [''kl'', ''ml'', ''m3''], cmt_category = CatEnvironment, cmt_subcategory = ''water'',
        cmt_dimensions = [DimPeriod, DimScopeNode], cmt_rule = AggSum, cmt_boundary = None, cmt_basis = None,
        cmt_tier = 2, cmt_constraints = non_negative_float,
        cmt_aliases = [''recycled water'', ''reused water'', ''ztl water''] \<rparr>,
     canon_metric \<lparr> cmt_key = ''water_intensity_per_revenue'', cmt_name = ''Water intensity per revenue'',
        cmt_description = ''Water withdrawn / revenue.'', cmt_unit = ''kl_per_inr_crore'',
        cmt_allowed = [''kl_per_inr_crore'', ''kl_per_usd_million''], cmt_category = CatEnvironment,
        cmt_subcategory = ''water'', cmt_dimensions = [DimPeriod, DimScopeNode], cmt_rule = AggRatio,
        cmt_boundary = None, cmt_basis = None, cmt_tier = 2, cmt_constraints = non_negative_float,
        cmt_aliases = [''water intensity''] \<rparr>]"

definition metrics_waste_1 :: "canonical_metric list" where
  "metrics_waste_1 = [
     canon_metric \<lparr> cmt_key = ''waste_hazardous_kg'', cmt_name = ''Hazardous waste generated'',
        cmt_description = ''Hazardous waste generated, per Schedule I of Hazardous Waste Rules 2016.'',
        cmt_unit = ''kg'', cmt_allowed = [''kg'', ''tonnes''], cmt_category = CatEnvironment,
        cmt_subcategory = ''waste'', cmt_dimensions = [DimPeriod, DimScopeNode, DimFacility], cmt_rule = AggSum,
        cmt_boundary = None, cmt_basis = None, cmt_tier = 2, cmt_constraints = non_negative_float,
        cmt_aliases = [''haz waste'', ''schedule I waste'', ''hw''] \<rparr>,
     canon_metric \<lparr> cmt_key = ''waste_non_hazardous_kg'', cmt_name = ''Non-hazardous waste generated'',
        cmt_description = ''Non-hazardous solid waste generated.'', cmt_unit = ''kg'',
        cmt_allowed = [''kg'', ''tonnes''], cmt_category = CatEnvironment, cmt_subcategory = ''waste'',
        cmt_dimensions = [DimPeriod, DimScopeNode, DimFacility], cmt_rule = AggSum, cmt_boundary = None,
        cmt_basis = None, cmt_tier = 2, cmt_constraints = non_negative_float,
        cmt_aliases = [''non hazardous waste'', ''general waste'', ''msw''] \<rparr>,
     canon_metric \<lparr> cmt_key = ''waste_recycled_kg'', cmt_name = ''Waste recycled'',
        cmt_description = ''Waste diverted to recycling.'', cmt_unit = ''kg'',
        cmt_allowed = [''kg'', ''tonnes''], cmt_category = CatEnvironment, cmt_subcategory = ''waste'',
        cmt_dimensions = [DimPeriod, DimScopeNode], cmt_rule = AggSum, cmt_boundary = None, cmt_basis = None,
        cmt_tier = 2, cmt_constraints = non_negative_float,
        cmt_aliases = [''recycled waste'', ''recovered waste''] \<rparr>,
     canon_metric \<lparr> cmt_key = ''waste_to_landfill_kg'', cmt_name = ''Waste sent to landfill'',
        cmt_description = ''Waste disposed in landfills.'', cmt_unit = ''kg'',
        cmt_allowed = [''kg'', ''tonnes''], cmt_category = CatEnvironment, cmt_subcategory = ''waste'',
        cmt_dimensions = [DimPeriod, DimScopeNode], cmt_rule = AggSum, cmt_boundary = None, cmt_basis = None,
        cmt_tier = 2, cmt_constraints = non_negative_float,
        cmt_aliases = [''landfilled'', ''dumped'', ''land disposal''] \<rparr>,
     canon_metric \<lparr> cmt_key = ''waste_to_incineration_kg'', cmt_name = ''Waste incinerated'',
        cmt_description = ''Waste incinerated (with or without energy recovery).'', cmt_unit = ''kg'',
        cmt_allowed = [''kg'', ''tonnes''], cmt_category = CatEnvironment, cmt_subcategory = ''waste'',
        cmt_dimensions = [DimPeriod, DimScopeNode], cmt_rule = AggSum, cmt_boundary = None, cmt_basis = None,
        cmt_tier = 2, cmt_constraints = non_negative_float,
        cmt_aliases = [''incinerated waste'', ''burnt waste''] \<rparr>,
     canon_metric \<lparr> cmt_key = ''e_waste_kg'', cmt_name = ''E-waste generated'',
        cmt_description = ''Electronic waste generated, per E-Waste Management Rules 2022.'', cmt_unit = ''kg'',
        cmt_allowed = [''kg'', ''tonnes''], cmt_category = CatEnvironment, cmt_subcategory = ''waste'',
        cmt_dimensions = [DimPeriod, DimScopeNode], cmt_rule = AggSum, cmt_boundary = None, cmt_basis = None,
        cmt_tier = 2, cmt_constraints = non_negative_float,
        cmt_aliases = [''electronic waste'', ''weee'', ''ewaste''] \<rparr>,
     canon_metric \<lparr> cmt_key = ''plastic_waste_kg'', cmt_name = ''Plastic waste generated'',
        cmt_description = ''Plastic waste generated, per Plastic Waste Management Rules 2016.'',
        cmt_unit = ''kg'', cmt_allowed = [''kg'', ''tonnes''], cmt_category = CatEnvironment,
        cmt_subcategory = ''waste'', cmt_dimensions = [DimPeriod, DimScopeNode], cmt_rule = AggSum,
        cmt_boundary = None, cmt_basis = None, cmt_tier = 2, cmt_constraints = non_negative_float,
        cmt_aliases = [''plastic packaging'', ''single use plastic'', ''pwm''] \<rparr>,
     canon_metric \<lparr> cmt_key = ''biomedical_waste_kg'', cmt_name = ''Biomedical waste generated'',
        cmt_description = ''Biomedical waste, per Bio-Medical Waste Management Rules 2016.'', cmt_unit = ''kg'',
        cmt_allowed = [''kg'', ''tonnes''], cmt_category = CatEnvironment, cmt_subcategory = ''waste'',
        cmt_dimensions = [DimPeriod, DimScopeNode], cmt_rule = AggSum, cmt_boundary = None, cmt_basis = None,
        cmt_tier = 2, cmt_constraints = non_negative_float,
        cmt_aliases = [''biomedical'', ''medical waste'', ''bmw''] \<rparr>,
     canon_metric \<lparr> cmt_key = ''battery_waste_kg'', cmt_name = ''Battery waste generated'',
        cmt_description = ''Battery waste, per Battery Waste Management Rules 2022.'', cmt_unit = ''kg'',
        cmt_allowed = [''kg'', ''tonnes''], cmt_category = CatEnvironment, cmt_subcategory = ''waste'',
        cmt_dimensions = [DimPeriod, DimScopeNode], cmt_rule = AggSum, cmt_boundary = None, cmt_basis = None,
        cmt_tier = 2, cmt_constraints = non_negative_float, cmt_aliases = [''used batteries'', ''battery scrap''] \<rparr>,
     canon_metric \<lparr> cmt_key = ''radioactive_waste_kg'', cmt_name = ''Radioactive waste generated'',
        cmt_description = ''Radioactive waste, per AERB regulations.'', cmt_unit = ''kg'',
        cmt_allowed = [''kg'', ''tonnes''], cmt_category = CatEnvironment, cmt_subcategory = ''waste'',
        cmt_dimensions = [DimPeriod, DimScopeNode], cmt_rule = AggSum, cmt_boundary = None, cmt_basis = None,
        cmt_tier = 2, cmt_constraints = non_negative_float, cmt_aliases = [''radioactive'', ''nuclear waste''] \<rparr>]"

definition metrics_waste_2 :: "canonical_metric list" where
  "metrics_waste_2 = [
     canon_metric \<lparr> cmt_key = ''other_waste_kg'', cmt_name = ''Other waste generated'',
        cmt_description = ''Other waste streams not captured by specific categories.'', cmt_unit = ''kg'',
        cmt_allowed = [''kg'', ''tonnes''], cmt_category = CatEnvironment, cmt_subcategory = ''waste'',
        cmt_dimensions = [DimPeriod, DimScopeNode], cmt_rule = AggSum, cmt_boundary = None, cmt_basis = None,
        cmt_tier = 3, cmt_constraints = non_negative_float, cmt_aliases = [''miscellaneous waste''] \<rparr>]"

definition metrics_waste :: "canonical_metric list" where
  "metrics_waste = metrics_waste_1 @ metrics_waste_2"

definition metrics_ghg :: "canonical_metric list" where
  "metrics_ghg = [
     canon_metric \<lparr> cmt_key = ''scope1_total_tco2e'', cmt_name = ''Scope 1 GHG emissions (total)'',
        cmt_description = ''Direct GHG emissions from owned/controlled sources.'', cmt_unit = ''tco2e'',
        cmt_allowed = [''tco2e'', ''kgco2e'', ''mtco2e''], cmt_category = CatEnvironment,
        cmt_subcategory = ''ghg'', cmt_dimensions = [DimPeriod, DimScopeNode, DimFacility, DimGas],
        cmt_rule = AggSum, cmt_boundary = Some Scope1Stationary, cmt_basis = Some BasisAR6_100, cmt_tier = 2,
        cmt_constraints = non_negative_float, cmt_aliases = [''scope 1'', ''direct emissions'', ''scope1''] \<rparr>,
     canon_metric \<lparr> cmt_key = ''scope1_stationary_tco2e'', cmt_name = ''Scope 1 - stationary combustion'',
        cmt_description = ''Direct emissions from stationary combustion (boilers, furnaces, captive power).'',
        cmt_unit = ''tco2e'', cmt_allowed = [''tco2e'', ''kgco2e''], cmt_category = CatEnvironment,
        cmt_subcategory = ''ghg'', cmt_dimensions = [DimPeriod, DimScopeNode, DimFacility, DimFuelType],
        cmt_rule = AggSum, cmt_boundary = Some Scope1Stationary, cmt_basis = Some BasisAR6_100, cmt_tier = 2,
        cmt_constraints = non_negative_float, cmt_aliases = [''stationary combustion'', ''boiler emissions''] \<rparr>,
     canon_metric \<lparr> cmt_key = ''scope1_mobile_tco2e'', cmt_name = ''Scope 1 - mobile combustion'',
        cmt_description = ''Direct emissions from mobile sources (owned fleet, forklifts).'',
        cmt_unit = ''tco2e'', cmt_allowed = [''tco2e'', ''kgco2e''], cmt_category = CatEnvironment,
        cmt_subcategory = ''ghg'', cmt_dimensions = [DimPeriod, DimScopeNode, DimVehicleType], cmt_rule = AggSum,
        cmt_boundary = Some Scope1Mobile, cmt_basis = Some BasisAR6_100, cmt_tier = 2,
        cmt_constraints = non_negative_float,
        cmt_aliases = [''mobile combustion'', ''fleet emissions'', ''vehicle emissions''] \<rparr>,
     canon_metric \<lparr> cmt_key = ''scope1_process_tco2e'', cmt_name = ''Scope 1 - process emissions'',
        cmt_description = ''Direct emissions from chemical/physical processes (cement calcination, ammonia, steel).'',
        cmt_unit = ''tco2e'', cmt_allowed = [''tco2e'', ''kgco2e''], cmt_category = CatEnvironment,
        cmt_subcategory = ''ghg'', cmt_dimensions = [DimPeriod, DimScopeNode, DimFacility], cmt_rule = AggSum,
        cmt_boundary = Some Scope1Process, cmt_basis = Some BasisAR6_100, cmt_tier = 2,
        cmt_constraints = non_negative_float,
        cmt_aliases = [''process emissions'', ''industrial process emissions''] \<rparr>,
     canon_metric \<lparr> cmt_key = ''scope1_fugitive_tco2e'', cmt_name = ''Scope 1 - fugitive emissions'',
        cmt_description = ''Direct emissions from leaks (refrigerants, SF6, methane leaks).'',
        cmt_unit = ''tco2e'', cmt_allowed = [''tco2e'', ''kgco2e''], cmt_category = CatEnvironment,
        cmt_subcategory = ''ghg'', cmt_dimensions = [DimPeriod, DimScopeNode, DimGas], cmt_rule = AggSum,
        cmt_boundary = Some Scope1Fugitive, cmt_basis = Some BasisAR6_100, cmt_tier = 3,
        cmt_constraints = non_negative_float,
        cmt_aliases = [''fugitive emissions'', ''refrigerant leak'', ''sf6 leak''] \<rparr>,
     canon_metric \<lparr> cmt_key = ''scope2_location_tco2e'', cmt_name = ''Scope 2 - location-based'',
        cmt_description = ''Indirect emissions from purchased electricity using grid average factor.'',
        cmt_unit = ''tco2e'', cmt_allowed = [''tco2e'', ''kgco2e''], cmt_category = CatEnvironment,
        cmt_subcategory = ''ghg'', cmt_dimensions = [DimPeriod, DimScopeNode, DimGridRegion], cmt_rule = AggSum,
        cmt_boundary = Some Scope2Location, cmt_basis = Some BasisAR6_100, cmt_tier = 2,
        cmt_constraints = non_negative_float, cmt_aliases = [''scope 2 location'', ''location based scope 2''] \<rparr>,
     canon_metric \<lparr> cmt_key = ''scope2_market_tco2e'', cmt_name = ''Scope 2 - market-based'',
        cmt_description = ''Indirect emissions from purchased electricity using contract instruments (PPAs, RECs).'',
        cmt_unit = ''tco2e'', cmt_allowed = [''tco2e'', ''kgco2e''], cmt_category = CatEnvironment,
        cmt_subcategory = ''ghg'', cmt_dimensions = [DimPeriod, DimScopeNode], cmt_rule = AggSum,
        cmt_boundary = Some Scope2Market, cmt_basis = Some BasisAR6_100, cmt_tier = 2,
        cmt_constraints = non_negative_float, cmt_aliases = [''scope 2 market'', ''market based scope 2''] \<rparr>]"

definition metrics_ghg_intensity :: "canonical_metric list" where
  "metrics_ghg_intensity = [
     canon_metric \<lparr> cmt_key = ''ghg_intensity_per_revenue'', cmt_name = ''GHG intensity per revenue'',
        cmt_description = ''Scope 1+2 / revenue.'', cmt_unit = ''tco2e_per_inr_crore'',
        cmt_allowed = [''tco2e_per_inr_crore'', ''tco2e_per_usd_million''], cmt_category = CatEnvironment,
        cmt_subcategory = ''ghg'', cmt_dimensions = [DimPeriod, DimScopeNode], cmt_rule = AggRatio,
        cmt_boundary = None, cmt_basis = None, cmt_tier = 2, cmt_constraints = non_negative_float,
        cmt_aliases = [''ghg intensity revenue'', ''emissions intensity''] \<rparr>,
     canon_metric \<lparr> cmt_key = ''ghg_intensity_per_unit_output'', cmt_name = ''GHG intensity per unit output'',
        cmt_description = ''Scope 1+2 / physical production unit (tonne, MWh, etc.).'',
        cmt_unit = ''tco2e_per_unit'',
        cmt_allowed = [''tco2e_per_tonne'', ''tco2e_per_mwh'', ''kgco2e_per_unit''],
        cmt_category = CatEnvironment, cmt_subcategory = ''ghg'',
        cmt_dimensions = [DimPeriod, DimScopeNode, DimProductLine], cmt_rule = AggRatio, cmt_boundary = None,
        cmt_basis = None, cmt_tier = 2, cmt_constraints = non_negative_float,
        cmt_aliases = [''emissions per unit'', ''ghg per output''] \<rparr>]"

definition metrics_air :: "canonical_metric list" where
  "metrics_air = [
     canon_metric \<lparr> cmt_key = ''nox_kg'', cmt_name = ''NOx emissions'',
        cmt_description = ''Nitrogen oxides emitted to air.'', cmt_unit = ''kg'',
        cmt_allowed = [''kg'', ''tonnes''], cmt_category = CatEnvironment, cmt_subcategory = ''air'',
        cmt_dimensions = [DimPeriod, DimScopeNode, DimFacility], cmt_rule = AggSum, cmt_boundary = None,
        cmt_basis = None, cmt_tier = 3, cmt_constraints = non_negative_float,
        cmt_aliases = [''nox'', ''nitrogen oxides'', ''no2''] \<rparr>,
     canon_metric \<lparr> cmt_key = ''sox_kg'', cmt_name = ''SOx emissions'', cmt_description = ''Sulphur oxides emitted to air.'',
        cmt_unit = ''kg'', cmt_allowed = [''kg'', ''tonnes''], cmt_category = CatEnvironment,
        cmt_subcategory = ''air'', cmt_dimensions = [DimPeriod, DimScopeNode, DimFacility], cmt_rule = AggSum,
        cmt_boundary = None, cmt_basis = None, cmt_tier = 3, cmt_constraints = non_negative_float,
        cmt_aliases = [''sox'', ''sulphur oxides'', ''so2''] \<rparr>,
     canon_metric \<lparr> cmt_key = ''pm_kg'', cmt_name = ''Particulate matter emissions'',
        cmt_description = ''Particulate matter (PM2.5 + PM10) emitted to air.'', cmt_unit = ''kg'',
        cmt_allowed = [''kg'', ''tonnes''], cmt_category = CatEnvironment, cmt_subcategory = ''air'',
        cmt_dimensions = [DimPeriod, DimScopeNode, DimFacility], cmt_rule = AggSum, cmt_boundary = None,
        cmt_basis = None, cmt_tier = 3, cmt_constraints = non_negative_float,
        cmt_aliases = [''particulate matter'', ''pm'', ''pm10'', ''pm2.5'', ''dust''] \<rparr>,
     canon_metric \<lparr> cmt_key = ''voc_kg'', cmt_name = ''VOC emissions'',
        cmt_description = ''Volatile organic compounds emitted to air.'', cmt_unit = ''kg'',
        cmt_allowed = [''kg'', ''tonnes''], cmt_category = CatEnvironment, cmt_subcategory = ''air'',
        cmt_dimensions = [DimPeriod, DimScopeNode, DimFacility], cmt_rule = AggSum, cmt_boundary = None,
        cmt_basis = None, cmt_tier = 3, cmt_constraints = non_negative_float,
        cmt_aliases = [''volatile organic compounds'', ''vocs''] \<rparr>,
     canon_metric \<lparr> cmt_key = ''ods_kg'', cmt_name = ''Ozone-depleting substances'',
        cmt_description = ''ODS emissions, expressed in CFC-11 equivalent.'', cmt_unit = ''kg'',
        cmt_allowed = [''kg'', ''tonnes''], cmt_category = CatEnvironment, cmt_subcategory = ''air'',
        cmt_dimensions = [DimPeriod, DimScopeNode, DimGas], cmt_rule = AggSum, cmt_boundary = None,
        cmt_basis = None, cmt_tier = 3, cmt_constraints = non_negative_float,
        cmt_aliases = [''ods'', ''ozone depleting substances'', ''cfc''] \<rparr>]"

definition metrics_biodiversity :: "canonical_metric list" where
  "metrics_biodiversity = [
     canon_metric \<lparr> cmt_key = ''protected_area_sqkm'', cmt_name = ''Operations in protected areas'',
        cmt_description = ''Total land of operations within or adjacent to protected areas.'',
        cmt_unit = ''sqkm'', cmt_allowed = [''sqkm'', ''ha'', ''acre''], cmt_category = CatEnvironment,
        cmt_subcategory = ''biodiversity'', cmt_dimensions = [DimPeriod, DimScopeNode, DimFacility],
        cmt_rule = AggSum, cmt_boundary = None, cmt_basis = None, cmt_tier = 3,
        cmt_constraints = non_negative_float,
        cmt_aliases = [''protected areas'', ''ecologically sensitive area''] \<rparr>,
     canon_metric \<lparr> cmt_key = ''land_disturbed_ha'', cmt_name = ''Land disturbed'',
        cmt_description = ''Total area of land disturbed by operations during the period.'', cmt_unit = ''ha'',
        cmt_allowed = [''ha'', ''sqkm'', ''acre''], cmt_category = CatEnvironment,
        cmt_subcategory = ''biodiversity'', cmt_dimensions = [DimPeriod, DimScopeNode], cmt_rule = AggSum,
        cmt_boundary = None, cmt_basis = None, cmt_tier = 3, cmt_constraints = non_negative_float,
        cmt_aliases = [''land disturbance'', ''land use change''] \<rparr>,
     canon_metric \<lparr> cmt_key = ''land_restored_ha'', cmt_name = ''Land restored / rehabilitated'',
        cmt_description = ''Area of land restored to natural or productive use.'', cmt_unit = ''ha'',
        cmt_allowed = [''ha'', ''sqkm''], cmt_category = CatEnvironment, cmt_subcategory = ''biodiversity'',
        cmt_dimensions = [DimPeriod, DimScopeNode], cmt_rule = AggSum, cmt_boundary = None, cmt_basis = None,
        cmt_tier = 3, cmt_constraints = non_negative_float,
        cmt_aliases = [''land rehabilitation'', ''reforested area'', ''afforestation''] \<rparr>]"

definition metrics_materials :: "canonical_metric list" where
  "metrics_materials = [
     canon_metric \<lparr> cmt_key = ''virgin_materials_tonnes'', cmt_name = ''Virgin materials consumed'',
        cmt_description = ''Materials extracted from primary sources used as inputs.'', cmt_unit = ''tonnes'',
        cmt_allowed = [''tonnes'', ''kg''], cmt_category = CatEnvironment, cmt_subcategory = ''materials'',
        cmt_dimensions = [DimPeriod, DimScopeNode, DimProductLine], cmt_rule = AggSum, cmt_boundary = None,
        cmt_basis = None, cmt_tier = 2, cmt_constraints = non_negative_float,
        cmt_aliases = [''virgin materials'', ''primary materials''] \<rparr>,
     canon_metric \<lparr> cmt_key = ''recycled_materials_tonnes'', cmt_name = ''Recycled materials consumed'',
        cmt_description = ''Materials sourced from recycled/secondary inputs.'', cmt_unit = ''tonnes'',
        cmt_allowed = [''tonnes'', ''kg''], cmt_category = CatEnvironment, cmt_subcategory = ''materials'',
        cmt_dimensions = [DimPeriod, DimScopeNode, DimProductLine], cmt_rule = AggSum, cmt_boundary = None,
        cmt_basis = None, cmt_tier = 2, cmt_constraints = non_negative_float,
        cmt_aliases = [''recycled inputs'', ''post consumer recycled''] \<rparr>,
     canon_metric \<lparr> cmt_key = ''renewable_materials_tonnes'', cmt_name = ''Renewable materials consumed'',
        cmt_description = ''Bio-based / renewable raw materials used.'', cmt_unit = ''tonnes'',
        cmt_allowed = [''tonnes'', ''kg''], cmt_category = CatEnvironment, cmt_subcategory = ''materials'',
        cmt_dimensions = [DimPeriod, DimScopeNode], cmt_rule = AggSum, cmt_boundary = None, cmt_basis = None,
        cmt_tier = 2, cmt_constraints = non_negative_float,
        cmt_aliases = [''bio based materials'', ''renewable inputs''] \<rparr>]"

definition metrics_workforce_1 :: "canonical_metric list" where
  "metrics_workforce_1 = [
     canon_metric \<lparr> cmt_key = ''employee_count_total'', cmt_name = ''Total employees'',
        cmt_description = ''Headcount of permanent employees at period end.'', cmt_unit = ''count'',
        cmt_allowed = [''count''], cmt_category = CatSocial, cmt_subcategory = ''workforce'',
        cmt_dimensions = [DimPeriod, DimScopeNode, DimFacility], cmt_rule = AggLast, cmt_boundary = None,
        cmt_basis = None, cmt_tier = 1, cmt_constraints = non_negative_int,
        cmt_aliases = [''total employees'', ''total headcount'', ''total workforce''] \<rparr>,
     canon_metric \<lparr> cmt_key = ''employee_count_male'', cmt_name = ''Male employees'',
        cmt_description = ''Male permanent employees at period end.'', cmt_unit = ''count'',
        cmt_allowed = [''count''], cmt_category = CatSocial, cmt_subcategory = ''workforce'',
        cmt_dimensions = [DimPeriod, DimScopeNode, DimFacility], cmt_rule = AggLast, cmt_boundary = None,
        cmt_basis = None, cmt_tier = 1, cmt_constraints = non_negative_int,
        cmt_aliases = [''male employees'', ''men employees''] \<rparr>,
     canon_metric \<lparr> cmt_key = ''employee_count_female'', cmt_name = ''Female employees'',
        cmt_description = ''Female permanent employees at period end.'', cmt_unit = ''count'',
        cmt_allowed = [''count''], cmt_category = CatSocial, cmt_subcategory = ''workforce'',
        cmt_dimensions = [DimPeriod, DimScopeNode, DimFacility], cmt_rule = AggLast, cmt_boundary = None,
        cmt_basis = None, cmt_tier = 1, cmt_constraints = non_negative_int,
        cmt_aliases = [''female employees'', ''women employees''] \<rparr>,
     canon_metric \<lparr> cmt_key = ''employee_count_lgbtq'', cmt_name = ''LGBTQ+ employees'',
        cmt_description = ''Employees self-identifying as LGBTQ+. Voluntary disclosure.'', cmt_unit = ''count'',
        cmt_allowed = [''count''], cmt_category = CatSocial, cmt_subcategory = ''workforce'',
        cmt_dimensions = [DimPeriod, DimScopeNode], cmt_rule = AggLast, cmt_boundary = None, cmt_basis = None,
        cmt_tier = 3, cmt_constraints = non_negative_int, cmt_aliases = [''lgbtq employees'', ''lgbt employees''] \<rparr>,
     canon_metric \<lparr> cmt_key = ''employee_count_pwd'', cmt_name = ''Employees with disabilities'',
        cmt_description = ''Employees with disabilities (PwD) at period end.'', cmt_unit = ''count'',
        cmt_allowed = [''count''], cmt_category = CatSocial, cmt_subcategory = ''workforce'',
        cmt_dimensions = [DimPeriod, DimScopeNode, DimDisabilityStatus], cmt_rule = AggLast, cmt_boundary = None,
        cmt_basis = None, cmt_tier = 2, cmt_constraints = non_negative_int,
        cmt_aliases = [''pwd'', ''differently abled'', ''persons with disabilities''] \<rparr>,
     canon_metric \<lparr> cmt_key = ''employee_count_perm'', cmt_name = ''Permanent employees'',
        cmt_description = ''Headcount on permanent rolls.'', cmt_unit = ''count'', cmt_allowed = [''count''],
        cmt_category = CatSocial, cmt_subcategory = ''workforce'',
        cmt_dimensions = [DimPeriod, DimScopeNode, DimGender], cmt_rule = AggLast, cmt_boundary = None,
        cmt_basis = None, cmt_tier = 1, cmt_constraints = non_negative_int,
        cmt_aliases = [''permanent employees'', ''regular employees''] \<rparr>,
     canon_metric \<lparr> cmt_key = ''employee_count_temp'', cmt_name = ''Temporary / fixed-term employees'',
        cmt_description = ''Employees on temporary contracts.'', cmt_unit = ''count'', cmt_allowed = [''count''],
        cmt_category = CatSocial, cmt_subcategory = ''workforce'',
        cmt_dimensions = [DimPeriod, DimScopeNode, DimGender], cmt_rule = AggLast, cmt_boundary = None,
        cmt_basis = None, cmt_tier = 1, cmt_constraints = non_negative_int,
        cmt_aliases = [''temporary employees'', ''fixed term workers''] \<rparr>,
     canon_metric \<lparr> cmt_key = ''employee_count_contract'', cmt_name = ''Contract workers'',
        cmt_description = ''Non-employee workforce engaged via contractors.'', cmt_unit = ''count'',
        cmt_allowed = [''count''], cmt_category = CatSocial, cmt_subcategory = ''workforce'',
        cmt_dimensions = [DimPeriod, DimScopeNode, DimGender], cmt_rule = AggLast, cmt_boundary = None,
        cmt_basis = None, cmt_tier = 2, cmt_constraints = non_negative_int,
        cmt_aliases = [''contract workers'', ''contractor headcount'', ''outsourced workforce''] \<rparr>,
     canon_metric \<lparr> cmt_key = ''employee_count_by_age_bracket'', cmt_name = ''Employees by age bracket'',
        cmt_description = ''Headcount broken down by age bracket (under_30, 30_to_50, over_50).'',
        cmt_unit = ''count'', cmt_allowed = [''count''], cmt_category = CatSocial,
        cmt_subcategory = ''workforce'', cmt_dimensions = [DimPeriod, DimScopeNode, DimAgeBracket],
        cmt_rule = AggLast, cmt_boundary = None, cmt_basis = None, cmt_tier = 2,
        cmt_constraints = non_negative_int, cmt_aliases = [''age distribution'', ''employees by age''] \<rparr>,
     canon_metric \<lparr> cmt_key = ''employee_new_hires'', cmt_name = ''New employees hired'',
        cmt_description = ''Employees joining during the period.'', cmt_unit = ''count'',
        cmt_allowed = [''count''], cmt_category = CatSocial, cmt_subcategory = ''workforce'',
        cmt_dimensions = [DimPeriod, DimScopeNode, DimGender, DimAgeBracket], cmt_rule = AggSum,
        cmt_boundary = None, cmt_basis = None, cmt_tier = 1, cmt_constraints = non_negative_int,
        cmt_aliases = [''new hires'', ''joiners'', ''hires during period''] \<rparr>]"

definition metrics_workforce_2 :: "canonical_metric list" where
  "metrics_workforce_2 = [
     canon_metric \<lparr> cmt_key = ''employee_turnover'', cmt_name = ''Employees leaving'',
        cmt_description = ''Employees exiting during the period (voluntary + involuntary).'',
        cmt_unit = ''count'', cmt_allowed = [''count''], cmt_category = CatSocial,
        cmt_subcategory = ''workforce'', cmt_dimensions = [DimPeriod, DimScopeNode, DimGender],
        cmt_rule = AggSum, cmt_boundary = None, cmt_basis = None, cmt_tier = 1,
        cmt_constraints = non_negative_int, cmt_aliases = [''attrition'', ''exits'', ''leavers''] \<rparr>]"

definition metrics_workforce :: "canonical_metric list" where
  "metrics_workforce = metrics_workforce_1 @ metrics_workforce_2"

definition metrics_diversity :: "canonical_metric list" where
  "metrics_diversity = [
     canon_metric \<lparr> cmt_key = ''women_in_workforce_pct'', cmt_name = ''Women in workforce (%)'',
        cmt_description = ''Female employees / total employees x 100.'', cmt_unit = ''pct'',
        cmt_allowed = [''pct'', ''ratio''], cmt_category = CatSocial, cmt_subcategory = ''diversity'',
        cmt_dimensions = [DimPeriod, DimScopeNode], cmt_rule = AggRatio, cmt_boundary = None, cmt_basis = None,
        cmt_tier = 2, cmt_constraints = percentage_range, cmt_aliases = [''women percentage'', ''female ratio''] \<rparr>,
     canon_metric \<lparr> cmt_key = ''women_in_management_pct'', cmt_name = ''Women in management (%)'',
        cmt_description = ''Female employees in management roles / total management.'', cmt_unit = ''pct'',
        cmt_allowed = [''pct''], cmt_category = CatSocial, cmt_subcategory = ''diversity'',
        cmt_dimensions = [DimPeriod, DimScopeNode], cmt_rule = AggRatio, cmt_boundary = None, cmt_basis = None,
        cmt_tier = 2, cmt_constraints = percentage_range,
        cmt_aliases = [''women in management'', ''female managers''] \<rparr>,
     canon_metric \<lparr> cmt_key = ''women_on_board_pct'', cmt_name = ''Women on board (%)'',
        cmt_description = ''Female directors / total board size.'', cmt_unit = ''pct'', cmt_allowed = [''pct''],
        cmt_category = CatGovernance, cmt_subcategory = ''board'', cmt_dimensions = [DimPeriod],
        cmt_rule = AggRatio, cmt_boundary = None, cmt_basis = None, cmt_tier = 1,
        cmt_constraints = percentage_range, cmt_aliases = [''women on board'', ''female board members''] \<rparr>,
     canon_metric \<lparr> cmt_key = ''lgbtq_in_workforce_pct'', cmt_name = ''LGBTQ+ in workforce (%)'',
        cmt_description = ''LGBTQ+ self-identification rate.'', cmt_unit = ''pct'', cmt_allowed = [''pct''],
        cmt_category = CatSocial, cmt_subcategory = ''diversity'', cmt_dimensions = [DimPeriod, DimScopeNode],
        cmt_rule = AggRatio, cmt_boundary = None, cmt_basis = None, cmt_tier = 3,
        cmt_constraints = percentage_range, cmt_aliases = [''lgbtq percentage''] \<rparr>,
     canon_metric \<lparr> cmt_key = ''pwd_in_workforce_pct'', cmt_name = ''PwD in workforce (%)'',
        cmt_description = ''Employees with disabilities / total employees.'', cmt_unit = ''pct'',
        cmt_allowed = [''pct''], cmt_category = CatSocial, cmt_subcategory = ''diversity'',
        cmt_dimensions = [DimPeriod, DimScopeNode], cmt_rule = AggRatio, cmt_boundary = None, cmt_basis = None,
        cmt_tier = 2, cmt_constraints = percentage_range,
        cmt_aliases = [''pwd percentage'', ''disability ratio''] \<rparr>]"

definition metrics_compensation :: "canonical_metric list" where
  "metrics_compensation = [
     canon_metric \<lparr> cmt_key = ''median_remuneration_male'', cmt_name = ''Median remuneration - male'',
        cmt_description = ''Median annual remuneration of male employees.'', cmt_unit = ''inr'',
        cmt_allowed = [''inr'', ''inr_lakh'', ''inr_crore'', ''usd''], cmt_category = CatSocial,
        cmt_subcategory = ''compensation'', cmt_dimensions = [DimPeriod, DimScopeNode, DimEmploymentType],
        cmt_rule = AggWeightedAvg, cmt_boundary = None, cmt_basis = None, cmt_tier = 2,
        cmt_constraints = non_negative_float, cmt_aliases = [''male median pay'', ''median salary male''] \<rparr>,
     canon_metric \<lparr> cmt_key = ''median_remuneration_female'', cmt_name = ''Median remuneration - female'',
        cmt_description = ''Median annual remuneration of female employees.'', cmt_unit = ''inr'',
        cmt_allowed = [''inr'', ''inr_lakh'', ''inr_crore'', ''usd''], cmt_category = CatSocial,
        cmt_subcategory = ''compensation'', cmt_dimensions = [DimPeriod, DimScopeNode, DimEmploymentType],
        cmt_rule = AggWeightedAvg, cmt_boundary = None, cmt_basis = None, cmt_tier = 2,
        cmt_constraints = non_negative_float, cmt_aliases = [''female median pay'', ''median salary female''] \<rparr>,
     canon_metric \<lparr> cmt_key = ''gender_pay_gap_pct'', cmt_name = ''Gender pay gap (%)'',
        cmt_description = ''(Male median - Female median) / Male median x 100.'', cmt_unit = ''pct'',
        cmt_allowed = [''pct''], cmt_category = CatSocial, cmt_subcategory = ''compensation'',
        cmt_dimensions = [DimPeriod, DimScopeNode], cmt_rule = AggRatio, cmt_boundary = None, cmt_basis = None,
        cmt_tier = 2,
        cmt_constraints = \<lparr> vc_min = Some (- 100), vc_max = Some 100, vc_dtype = DtFloat \<rparr>,
        cmt_aliases = [''pay gap'', ''gender wage gap''] \<rparr>,
     canon_metric \<lparr> cmt_key = ''ceo_to_worker_pay_ratio'', cmt_name = ''CEO to median worker pay ratio'',
        cmt_description = ''CEO total compensation / median employee compensation.'', cmt_unit = ''ratio'',
        cmt_allowed = [''ratio''], cmt_category = CatGovernance, cmt_subcategory = ''compensation'',
        cmt_dimensions = [DimPeriod], cmt_rule = AggRatio, cmt_boundary = None, cmt_basis = None, cmt_tier = 2,
        cmt_constraints = non_negative_float, cmt_aliases = [''ceo pay ratio'', ''pay multiple''] \<rparr>]"

definition metrics_training :: "canonical_metric list" where
  "metrics_training = [
     canon_metric \<lparr> cmt_key = ''training_hours_total'', cmt_name = ''Total training hours'',
        cmt_description = ''Total hours of employee training delivered.'', cmt_unit = ''hours'',
        cmt_allowed = [''hours'', ''person_hours''], cmt_category = CatSocial, cmt_subcategory = ''training'',
        cmt_dimensions = [DimPeriod, DimScopeNode, DimGender], cmt_rule = AggSum, cmt_boundary = None,
        cmt_basis = None, cmt_tier = 2, cmt_constraints = non_negative_float,
        cmt_aliases = [''training hours'', ''learning hours''] \<rparr>,
     canon_metric \<lparr> cmt_key = ''training_hours_ehs'', cmt_name = ''EHS training hours'',
        cmt_description = ''Training hours specifically related to environment, health & safety.'',
        cmt_unit = ''hours'', cmt_allowed = [''hours''], cmt_category = CatSocial,
        cmt_subcategory = ''training'', cmt_dimensions = [DimPeriod, DimScopeNode], cmt_rule = AggSum,
        cmt_boundary = None, cmt_basis = None, cmt_tier = 2, cmt_constraints = non_negative_float,
        cmt_aliases = [''safety training'', ''ehs training''] \<rparr>,
     canon_metric \<lparr> cmt_key = ''training_hours_skill'', cmt_name = ''Skill upgradation training hours'',
        cmt_description = ''Training hours on technical / skill upgradation.'', cmt_unit = ''hours'',
        cmt_allowed = [''hours''], cmt_category = CatSocial, cmt_subcategory = ''training'',
        cmt_dimensions = [DimPeriod, DimScopeNode], cmt_rule = AggSum, cmt_boundary = None, cmt_basis = None,
        cmt_tier = 2, cmt_constraints = non_negative_float,
        cmt_aliases = [''skill training'', ''upskilling hours''] \<rparr>,
     canon_metric \<lparr> cmt_key = ''training_coverage_pct'', cmt_name = ''Training coverage (%)'',
        cmt_description = ''Employees who received at least one training / total employees.'',
        cmt_unit = ''pct'', cmt_allowed = [''pct''], cmt_category = CatSocial, cmt_subcategory = ''training'',
        cmt_dimensions = [DimPeriod, DimScopeNode, DimGender], cmt_rule = AggRatio, cmt_boundary = None,
        cmt_basis = None, cmt_tier = 2, cmt_constraints = percentage_range,
        cmt_aliases = [''training coverage'', ''employees trained''] \<rparr>,
     canon_metric \<lparr> cmt_key = ''training_hours_per_employee'', cmt_name = ''Training hours per employee'',
        cmt_description = ''Total training hours / total employees.'', cmt_unit = ''hours_per_employee'',
        cmt_allowed = [''hours_per_employee''], cmt_category = CatSocial, cmt_subcategory = ''training'',
        cmt_dimensions = [DimPeriod, DimScopeNode, DimGender], cmt_rule = AggRatio, cmt_boundary = None,
        cmt_basis = None, cmt_tier = 2, cmt_constraints = non_negative_float,
        cmt_aliases = [''avg training hours'', ''per capita training''] \<rparr>]"

definition metrics_health_safety :: "canonical_metric list" where
  "metrics_health_safety = [
     canon_metric \<lparr> cmt_key = ''ltifr'', cmt_name = ''Lost Time Injury Frequency Rate'',
        cmt_description = ''LTIs x 1,000,000 / man-hours worked.'', cmt_unit = ''per_million_hours'',
        cmt_allowed = [''per_million_hours'', ''per_200k_hours''], cmt_category = CatSocial,
        cmt_subcategory = ''health_safety'', cmt_dimensions = [DimPeriod, DimScopeNode, DimEmploymentType],
        cmt_rule = AggRatio, cmt_boundary = None, cmt_basis = None, cmt_tier = 1,
        cmt_constraints = non_negative_float, cmt_aliases = [''lost time injury'', ''ltifr'', ''lti rate''] \<rparr>,
     canon_metric \<lparr> cmt_key = ''trifr'', cmt_name = ''Total Recordable Injury Frequency Rate'',
        cmt_description = ''TRIs x 1,000,000 / man-hours worked.'', cmt_unit = ''per_million_hours'',
        cmt_allowed = [''per_million_hours'', ''per_200k_hours''], cmt_category = CatSocial,
        cmt_subcategory = ''health_safety'', cmt_dimensions = [DimPeriod, DimScopeNode, DimEmploymentType],
        cmt_rule = AggRatio, cmt_boundary = None, cmt_basis = None, cmt_tier = 1,
        cmt_constraints = non_negative_float, cmt_aliases = [''total recordable injury rate'', ''trifr''] \<rparr>,
     canon_metric \<lparr> cmt_key = ''fatality_count_employees'', cmt_name = ''Fatalities - employees'',
        cmt_description = ''Work-related fatalities of employees.'', cmt_unit = ''count'',
        cmt_allowed = [''count''], cmt_category = CatSocial, cmt_subcategory = ''health_safety'',
        cmt_dimensions = [DimPeriod, DimScopeNode, DimFacility], cmt_rule = AggSum, cmt_boundary = None,
        cmt_basis = None, cmt_tier = 1, cmt_constraints = non_negative_int,
        cmt_aliases = [''employee fatalities'', ''deaths at work employees''] \<rparr>,
     canon_metric \<lparr> cmt_key = ''fatality_count_contractors'', cmt_name = ''Fatalities - contractors'',
        cmt_description = ''Work-related fatalities of contractor workers.'', cmt_unit = ''count'',
        cmt_allowed = [''count''], cmt_category = CatSocial, cmt_subcategory = ''health_safety'',
        cmt_dimensions = [DimPeriod, DimScopeNode, DimFacility], cmt_rule = AggSum, cmt_boundary = None,
        cmt_basis = None, cmt_tier = 1, cmt_constraints = non_negative_int,
        cmt_aliases = [''contractor fatalities'', ''deaths at work contractors''] \<rparr>,
     canon_metric \<lparr> cmt_key = ''near_miss_count'', cmt_name = ''Near miss incidents'',
        cmt_description = ''Near miss incidents reported.'', cmt_unit = ''count'', cmt_allowed = [''count''],
        cmt_category = CatSocial, cmt_subcategory = ''health_safety'',
        cmt_dimensions = [DimPeriod, DimScopeNode, DimFacility], cmt_rule = AggSum, cmt_boundary = None,
        cmt_basis = None, cmt_tier = 2, cmt_constraints = non_negative_int,
        cmt_aliases = [''near miss'', ''close call''] \<rparr>,
     canon_metric \<lparr> cmt_key = ''occupational_disease_cases'', cmt_name = ''Occupational disease cases'',
        cmt_description = ''Cases of work-related illness identified during the period.'', cmt_unit = ''count'',
        cmt_allowed = [''count''], cmt_category = CatSocial, cmt_subcategory = ''health_safety'',
        cmt_dimensions = [DimPeriod, DimScopeNode], cmt_rule = AggSum, cmt_boundary = None, cmt_basis = None,
        cmt_tier = 2, cmt_constraints = non_negative_int,
        cmt_aliases = [''occupational illness'', ''work related disease''] \<rparr>,
     canon_metric \<lparr> cmt_key = ''safety_training_coverage_pct'', cmt_name = ''Safety training coverage (%)'',
        cmt_description = ''Employees + contractors who received safety training / total workforce.'',
        cmt_unit = ''pct'', cmt_allowed = [''pct''], cmt_category = CatSocial,
        cmt_subcategory = ''health_safety'', cmt_dimensions = [DimPeriod, DimScopeNode], cmt_rule = AggRatio,
        cmt_boundary = None, cmt_basis = None, cmt_tier = 2, cmt_constraints = percentage_range,
        cmt_aliases = [''safety training coverage''] \<rparr>]"

definition metrics_human_rights :: "canonical_metric list" where
  "metrics_human_rights = [
     canon_metric \<lparr> cmt_key = ''human_rights_training_pct'', cmt_name = ''Human rights training coverage (%)'',
        cmt_description = ''Employees trained on human rights / total.'', cmt_unit = ''pct'',
        cmt_allowed = [''pct''], cmt_category = CatSocial, cmt_subcategory = ''human_rights'',
        cmt_dimensions = [DimPeriod, DimScopeNode, DimGender], cmt_rule = AggRatio, cmt_boundary = None,
        cmt_basis = None, cmt_tier = 2, cmt_constraints = percentage_range,
        cmt_aliases = [''human rights training'', ''hr training''] \<rparr>,
     canon_metric \<lparr> cmt_key = ''human_rights_complaints_received'', cmt_name = ''Human rights complaints received'',
        cmt_description = ''Complaints alleging human rights violations received.'', cmt_unit = ''count'',
        cmt_allowed = [''count''], cmt_category = CatSocial, cmt_subcategory = ''human_rights'',
        cmt_dimensions = [DimPeriod, DimScopeNode], cmt_rule = AggSum, cmt_boundary = None, cmt_basis = None,
        cmt_tier = 1, cmt_constraints = non_negative_int,
        cmt_aliases = [''human rights complaints'', ''hr complaints''] \<rparr>,
     canon_metric \<lparr> cmt_key = ''human_rights_complaints_resolved'', cmt_name = ''Human rights complaints resolved'',
        cmt_description = ''Human rights complaints closed/resolved during the period.'', cmt_unit = ''count'',
        cmt_allowed = [''count''], cmt_category = CatSocial, cmt_subcategory = ''human_rights'',
        cmt_dimensions = [DimPeriod, DimScopeNode], cmt_rule = AggSum, cmt_boundary = None, cmt_basis = None,
        cmt_tier = 1, cmt_constraints = non_negative_int, cmt_aliases = [''complaints resolved''] \<rparr>,
     canon_metric \<lparr> cmt_key = ''child_labour_incidents'', cmt_name = ''Child labour incidents'',
        cmt_description = ''Confirmed incidents of child labour in operations or supply chain.'',
        cmt_unit = ''count'', cmt_allowed = [''count''], cmt_category = CatSocial,
        cmt_subcategory = ''human_rights'', cmt_dimensions = [DimPeriod, DimScopeNode, DimSupplierTier],
        cmt_rule = AggSum, cmt_boundary = None, cmt_basis = None, cmt_tier = 1,
        cmt_constraints = non_negative_int, cmt_aliases = [''child labour'', ''child labor incidents''] \<rparr>,
     canon_metric \<lparr> cmt_key = ''forced_labour_incidents'', cmt_name = ''Forced labour incidents'',
        cmt_description = ''Confirmed incidents of forced or compulsory labour.'', cmt_unit = ''count'',
        cmt_allowed = [''count''], cmt_category = CatSocial, cmt_subcategory = ''human_rights'',
        cmt_dimensions = [DimPeriod, DimScopeNode, DimSupplierTier], cmt_rule = AggSum, cmt_boundary = None,
        cmt_basis = None, cmt_tier = 1, cmt_constraints = non_negative_int,
        cmt_aliases = [''forced labour'', ''modern slavery''] \<rparr>,
     canon_metric \<lparr> cmt_key = ''discrimination_complaints'', cmt_name = ''Discrimination complaints'',
        cmt_description = ''Complaints of workplace discrimination received.'', cmt_unit = ''count'',
        cmt_allowed = [''count''], cmt_category = CatSocial, cmt_subcategory = ''human_rights'',
        cmt_dimensions = [DimPeriod, DimScopeNode], cmt_rule = AggSum, cmt_boundary = None, cmt_basis = None,
        cmt_tier = 1, cmt_constraints = non_negative_int,
        cmt_aliases = [''discrimination cases'', ''harassment complaints''] \<rparr>]"

definition metrics_community :: "canonical_metric list" where
  "metrics_community = [
     canon_metric \<lparr> cmt_key = ''csr_spend_inr'', cmt_name = ''CSR expenditure'',
        cmt_description = ''CSR spend as per Section 135 of Companies Act 2013.'', cmt_unit = ''inr'',
        cmt_allowed = [''inr'', ''inr_lakh'', ''inr_crore''], cmt_category = CatSocial,
        cmt_subcategory = ''community'', cmt_dimensions = [DimPeriod, DimScopeNode], cmt_rule = AggSum,
        cmt_boundary = None, cmt_basis = None, cmt_tier = 1, cmt_constraints = non_negative_float,
        cmt_aliases = [''csr spend'', ''csr expenditure'', ''section 135 spend''] \<rparr>,
     canon_metric \<lparr> cmt_key = ''csr_beneficiaries_count'', cmt_name = ''CSR beneficiaries'',
        cmt_description = ''Number of beneficiaries directly impacted by CSR programmes.'', cmt_unit = ''count'',
        cmt_allowed = [''count''], cmt_category = CatSocial, cmt_subcategory = ''community'',
        cmt_dimensions = [DimPeriod, DimScopeNode, DimSesCategory], cmt_rule = AggSum, cmt_boundary = None,
        cmt_basis = None, cmt_tier = 2, cmt_constraints = non_negative_int,
        cmt_aliases = [''csr beneficiaries'', ''lives impacted''] \<rparr>,
     canon_metric \<lparr> cmt_key = ''local_communities_engaged'', cmt_name = ''Local communities engaged'',
        cmt_description = ''Number of distinct local communities engaged via formal mechanisms.'',
        cmt_unit = ''count'', cmt_allowed = [''count''], cmt_category = CatSocial,
        cmt_subcategory = ''community'', cmt_dimensions = [DimPeriod, DimScopeNode], cmt_rule = AggSum,
        cmt_boundary = None, cmt_basis = None, cmt_tier = 2, cmt_constraints = non_negative_int,
        cmt_aliases = [''communities engaged''] \<rparr>,
     canon_metric \<lparr> cmt_key = ''displacement_count'', cmt_name = ''People displaced'',
        cmt_description = ''People displaced by operations during the period.'', cmt_unit = ''count'',
        cmt_allowed = [''count''], cmt_category = CatSocial, cmt_subcategory = ''community'',
        cmt_dimensions = [DimPeriod, DimScopeNode], cmt_rule = AggSum, cmt_boundary = None, cmt_basis = None,
        cmt_tier = 2, cmt_constraints = non_negative_int, cmt_aliases = [''resettlement'', ''displaced persons''] \<rparr>]"

definition metrics_customer_1 :: "canonical_metric list" where
  "metrics_customer_1 = [
     canon_metric \<lparr> cmt_key = ''customer_complaints_received'', cmt_name = ''Customer complaints received'',
        cmt_description = ''Complaints received from customers / consumers.'', cmt_unit = ''count'',
        cmt_allowed = [''count''], cmt_category = CatSocial, cmt_subcategory = ''customer'',
        cmt_dimensions = [DimPeriod, DimScopeNode, DimChannel], cmt_rule = AggSum, cmt_boundary = None,
        cmt_basis = None, cmt_tier = 1, cmt_constraints = non_negative_int,
        cmt_aliases = [''customer complaints'', ''consumer complaints''] \<rparr>,
     canon_metric \<lparr> cmt_key = ''customer_complaints_resolved'', cmt_name = ''Customer complaints resolved'',
        cmt_description = ''Customer complaints resolved during the period.'', cmt_unit = ''count'',
        cmt_allowed = [''count''], cmt_category = CatSocial, cmt_subcategory = ''customer'',
        cmt_dimensions = [DimPeriod, DimScopeNode], cmt_rule = AggSum, cmt_boundary = None, cmt_basis = None,
        cmt_tier = 1, cmt_constraints = non_negative_int, cmt_aliases = [''complaints resolved''] \<rparr>,
     canon_metric \<lparr> cmt_key = ''product_recall_count'', cmt_name = ''Product recalls'',
        cmt_description = ''Number of product recall events during the period.'', cmt_unit = ''count'',
        cmt_allowed = [''count''], cmt_category = CatSocial, cmt_subcategory = ''customer'',
        cmt_dimensions = [DimPeriod, DimScopeNode, DimProductLine], cmt_rule = AggSum, cmt_boundary = None,
        cmt_basis = None, cmt_tier = 1, cmt_constraints = non_negative_int,
        cmt_aliases = [''product recalls'', ''voluntary recall''] \<rparr>,
     canon_metric \<lparr> cmt_key = ''customer_satisfaction_score'', cmt_name = ''Customer satisfaction (CSAT)'',
        cmt_description = ''Customer satisfaction score (0-100).'', cmt_unit = ''score'',
        cmt_allowed = [''score'', ''pct'', ''nps''], cmt_category = CatSocial, cmt_subcategory = ''customer'',
        cmt_dimensions = [DimPeriod, DimScopeNode, DimChannel], cmt_rule = AggWeightedAvg, cmt_boundary = None,
        cmt_basis = None, cmt_tier = 2,
        cmt_constraints = \<lparr> vc_min = Some 0, vc_max = Some 100, vc_dtype = DtFloat \<rparr>,
        cmt_aliases = [''csat'', ''customer satisfaction''] \<rparr>,
     canon_metric \<lparr> cmt_key = ''data_breach_count'', cmt_name = ''Data breach incidents'',
        cmt_description = ''Personal data breach incidents during the period.'', cmt_unit = ''count'',
        cmt_allowed = [''count''], cmt_category = CatSocial, cmt_subcategory = ''customer'',
        cmt_dimensions = [DimPeriod, DimScopeNode], cmt_rule = AggSum, cmt_boundary = None, cmt_basis = None,
        cmt_tier = 1, cmt_constraints = non_negative_int,
        cmt_aliases = [''data breaches'', ''privacy incidents''] \<rparr>,
     canon_metric \<lparr> cmt_key = ''data_subjects_affected'', cmt_name = ''Data subjects affected by breaches'',
        cmt_description = ''Number of distinct individuals affected by data breach incidents.'',
        cmt_unit = ''count'', cmt_allowed = [''count''], cmt_category = CatSocial,
        cmt_subcategory = ''customer'', cmt_dimensions = [DimPeriod, DimScopeNode], cmt_rule = AggSum,
        cmt_boundary = None, cmt_basis = None, cmt_tier = 2, cmt_constraints = non_negative_int,
        cmt_aliases = [''users affected'', ''customers affected by breach''] \<rparr>,
     canon_metric \<lparr> cmt_key = ''parental_leave_taken'', cmt_name = ''Parental leave taken'',
        cmt_description = ''Employees who took parental leave during the period.'', cmt_unit = ''count'',
        cmt_allowed = [''count''], cmt_category = CatSocial, cmt_subcategory = ''workforce'',
        cmt_dimensions = [DimPeriod, DimScopeNode, DimGender], cmt_rule = AggSum, cmt_boundary = None,
        cmt_basis = None, cmt_tier = 1, cmt_constraints = non_negative_int,
        cmt_aliases = [''parental leave'', ''maternity leave'', ''paternity leave''] \<rparr>,
     canon_metric \<lparr> cmt_key = ''parental_leave_return_rate_pct'', cmt_name = ''Parental leave return rate (%)'',
        cmt_description = ''Employees returning to work after parental leave / those taking leave.'',
        cmt_unit = ''pct'', cmt_allowed = [''pct''], cmt_category = CatSocial, cmt_subcategory = ''workforce'',
        cmt_dimensions = [DimPeriod, DimScopeNode, DimGender], cmt_rule = AggRatio, cmt_boundary = None,
        cmt_basis = None, cmt_tier = 2, cmt_constraints = percentage_range,
        cmt_aliases = [''return to work rate''] \<rparr>,
     canon_metric \<lparr> cmt_key = ''collective_bargaining_coverage_pct'', cmt_name = ''Collective bargaining coverage (%)'',
        cmt_description = ''Employees covered by collective bargaining agreements / total.'', cmt_unit = ''pct'',
        cmt_allowed = [''pct''], cmt_category = CatSocial, cmt_subcategory = ''workforce'',
        cmt_dimensions = [DimPeriod, DimScopeNode], cmt_rule = AggRatio, cmt_boundary = None, cmt_basis = None,
        cmt_tier = 2, cmt_constraints = percentage_range, cmt_aliases = [''union coverage'', ''cba coverage''] \<rparr>,
     canon_metric \<lparr> cmt_key = ''supplier_local_pct'', cmt_name = ''Local supplier share (%)'',
        cmt_description = ''Percentage of procurement spend with locally based suppliers (MSME / district).'',
        cmt_unit = ''pct'', cmt_allowed = [''pct''], cmt_category = CatSocial,
        cmt_subcategory = ''supply_chain'', cmt_dimensions = [DimPeriod, DimScopeNode], cmt_rule = AggRatio,
        cmt_boundary = None, cmt_basis = None, cmt_tier = 2, cmt_constraints = percentage_range,
        cmt_aliases = [''local sourcing'', ''msme spend share''] \<rparr>]"

definition metrics_customer_2 :: "canonical_metric list" where
  "metrics_customer_2 = [
     canon_metric \<lparr> cmt_key = ''supplier_assessed_count'', cmt_name = ''Suppliers assessed (ESG)'',
        cmt_description = ''Number of suppliers assessed on ESG criteria during the period.'',
        cmt_unit = ''count'', cmt_allowed = [''count''], cmt_category = CatSocial,
        cmt_subcategory = ''supply_chain'', cmt_dimensions = [DimPeriod, DimScopeNode, DimSupplierTier],
        cmt_rule = AggSum, cmt_boundary = None, cmt_basis = None, cmt_tier = 1,
        cmt_constraints = non_negative_int, cmt_aliases = [''suppliers screened'', ''vendors audited''] \<rparr>]"

definition metrics_customer :: "canonical_metric list" where
  "metrics_customer = metrics_customer_1 @ metrics_customer_2"

definition metrics_board :: "canonical_metric list" where
  "metrics_board = [
     canon_metric \<lparr> cmt_key = ''board_size'', cmt_name = ''Board size'',
        cmt_description = ''Number of directors on the board.'', cmt_unit = ''count'', cmt_allowed = [''count''],
        cmt_category = CatGovernance, cmt_subcategory = ''board'', cmt_dimensions = [DimPeriod],
        cmt_rule = AggLast, cmt_boundary = None, cmt_basis = None, cmt_tier = 1,
        cmt_constraints = non_negative_int, cmt_aliases = [''board size'', ''directors count''] \<rparr>,
     canon_metric \<lparr> cmt_key = ''independent_directors_count'', cmt_name = ''Independent directors'',
        cmt_description = ''Number of independent directors on the board.'', cmt_unit = ''count'',
        cmt_allowed = [''count''], cmt_category = CatGovernance, cmt_subcategory = ''board'',
        cmt_dimensions = [DimPeriod], cmt_rule = AggLast, cmt_boundary = None, cmt_basis = None, cmt_tier = 1,
        cmt_constraints = non_negative_int,
        cmt_aliases = [''independent directors'', ''non executive independent''] \<rparr>,
     canon_metric \<lparr> cmt_key = ''women_directors_count'', cmt_name = ''Women directors'',
        cmt_description = ''Number of women on the board.'', cmt_unit = ''count'', cmt_allowed = [''count''],
        cmt_category = CatGovernance, cmt_subcategory = ''board'', cmt_dimensions = [DimPeriod],
        cmt_rule = AggLast, cmt_boundary = None, cmt_basis = None, cmt_tier = 1,
        cmt_constraints = non_negative_int, cmt_aliases = [''women directors'', ''female directors''] \<rparr>,
     canon_metric \<lparr> cmt_key = ''board_meetings_count'', cmt_name = ''Board meetings held'',
        cmt_description = ''Number of board meetings convened in the period.'', cmt_unit = ''count'',
        cmt_allowed = [''count''], cmt_category = CatGovernance, cmt_subcategory = ''board'',
        cmt_dimensions = [DimPeriod], cmt_rule = AggSum, cmt_boundary = None, cmt_basis = None, cmt_tier = 1,
        cmt_constraints = non_negative_int, cmt_aliases = [''board meetings'', ''directors meetings''] \<rparr>,
     canon_metric \<lparr> cmt_key = ''board_attendance_pct'', cmt_name = ''Board meeting attendance (%)'',
        cmt_description = ''Average attendance at board meetings.'', cmt_unit = ''pct'', cmt_allowed = [''pct''],
        cmt_category = CatGovernance, cmt_subcategory = ''board'', cmt_dimensions = [DimPeriod],
        cmt_rule = AggRatio, cmt_boundary = None, cmt_basis = None, cmt_tier = 1,
        cmt_constraints = percentage_range, cmt_aliases = [''board attendance''] \<rparr>,
     canon_metric \<lparr> cmt_key = ''ceo_chair_separation_bool'', cmt_name = ''CEO and Chair are separate'',
        cmt_description = ''True if the CEO and the Board Chair are distinct individuals.'', cmt_unit = ''bool'',
        cmt_allowed = [''bool''], cmt_category = CatGovernance, cmt_subcategory = ''board'',
        cmt_dimensions = [DimPeriod], cmt_rule = AggBoolAny, cmt_boundary = None, cmt_basis = None, cmt_tier = 1,
        cmt_constraints = boolean_range, cmt_aliases = [''ceo chair separation''] \<rparr>]"

definition metrics_ethics :: "canonical_metric list" where
  "metrics_ethics = [
     canon_metric \<lparr> cmt_key = ''anticorruption_training_pct'', cmt_name = ''Anti-corruption training coverage (%)'',
        cmt_description = ''Employees trained on anti-corruption / total.'', cmt_unit = ''pct'',
        cmt_allowed = [''pct''], cmt_category = CatGovernance, cmt_subcategory = ''ethics'',
        cmt_dimensions = [DimPeriod, DimScopeNode], cmt_rule = AggRatio, cmt_boundary = None, cmt_basis = None,
        cmt_tier = 2, cmt_constraints = percentage_range,
        cmt_aliases = [''anti corruption training'', ''anti bribery training''] \<rparr>,
     canon_metric \<lparr> cmt_key = ''whistleblower_cases_count'', cmt_name = ''Whistleblower cases'',
        cmt_description = ''Cases received via whistleblower / vigil mechanism.'', cmt_unit = ''count'',
        cmt_allowed = [''count''], cmt_category = CatGovernance, cmt_subcategory = ''ethics'',
        cmt_dimensions = [DimPeriod, DimScopeNode], cmt_rule = AggSum, cmt_boundary = None, cmt_basis = None,
        cmt_tier = 1, cmt_constraints = non_negative_int,
        cmt_aliases = [''whistleblower complaints'', ''vigil cases''] \<rparr>,
     canon_metric \<lparr> cmt_key = ''corruption_cases_disciplinary'', cmt_name = ''Corruption cases - disciplinary action'',
        cmt_description = ''Cases of corruption resulting in disciplinary action.'', cmt_unit = ''count'',
        cmt_allowed = [''count''], cmt_category = CatGovernance, cmt_subcategory = ''ethics'',
        cmt_dimensions = [DimPeriod, DimScopeNode], cmt_rule = AggSum, cmt_boundary = None, cmt_basis = None,
        cmt_tier = 1, cmt_constraints = non_negative_int, cmt_aliases = [''bribery cases'', ''fraud cases''] \<rparr>,
     canon_metric \<lparr> cmt_key = ''political_contributions_inr'', cmt_name = ''Political contributions'',
        cmt_description = ''Total political contributions made during the period.'', cmt_unit = ''inr'',
        cmt_allowed = [''inr'', ''inr_lakh'', ''inr_crore''], cmt_category = CatGovernance,
        cmt_subcategory = ''ethics'', cmt_dimensions = [DimPeriod], cmt_rule = AggSum, cmt_boundary = None,
        cmt_basis = None, cmt_tier = 1, cmt_constraints = non_negative_float,
        cmt_aliases = [''political contributions'', ''electoral contributions''] \<rparr>]"

definition metrics_risk :: "canonical_metric list" where
  "metrics_risk = [
     canon_metric \<lparr> cmt_key = ''enterprise_risks_count'', cmt_name = ''Enterprise risks identified'',
        cmt_description = ''Distinct enterprise risks in the register.'', cmt_unit = ''count'',
        cmt_allowed = [''count''], cmt_category = CatGovernance, cmt_subcategory = ''risk'',
        cmt_dimensions = [DimPeriod], cmt_rule = AggLast, cmt_boundary = None, cmt_basis = None, cmt_tier = 2,
        cmt_constraints = non_negative_int, cmt_aliases = [''risk register size''] \<rparr>,
     canon_metric \<lparr> cmt_key = ''climate_risks_identified_count'', cmt_name = ''Climate risks identified'',
        cmt_description = ''Distinct climate-related risks identified per TCFD methodology.'',
        cmt_unit = ''count'', cmt_allowed = [''count''], cmt_category = CatGovernance,
        cmt_subcategory = ''risk'', cmt_dimensions = [DimPeriod], cmt_rule = AggLast, cmt_boundary = None,
        cmt_basis = None, cmt_tier = 2, cmt_constraints = non_negative_int,
        cmt_aliases = [''climate risks'', ''tcfd risks''] \<rparr>,
     canon_metric \<lparr> cmt_key = ''tcfd_scenarios_used'', cmt_name = ''TCFD scenarios used'',
        cmt_description = ''Number of climate scenarios used in scenario analysis.'', cmt_unit = ''count'',
        cmt_allowed = [''count''], cmt_category = CatGovernance, cmt_subcategory = ''risk'',
        cmt_dimensions = [DimPeriod], cmt_rule = AggLast, cmt_boundary = None, cmt_basis = None, cmt_tier = 2,
        cmt_constraints = non_negative_int, cmt_aliases = [''climate scenarios''] \<rparr>]"

definition metrics_tax :: "canonical_metric list" where
  "metrics_tax = [
     canon_metric \<lparr> cmt_key = ''effective_tax_rate_pct'', cmt_name = ''Effective tax rate (%)'',
        cmt_description = ''Income tax / PBT.'', cmt_unit = ''pct'', cmt_allowed = [''pct''],
        cmt_category = CatGovernance, cmt_subcategory = ''tax'', cmt_dimensions = [DimPeriod],
        cmt_rule = AggRatio, cmt_boundary = None, cmt_basis = None, cmt_tier = 1,
        cmt_constraints = \<lparr> vc_min = Some (- 100), vc_max = Some 100, vc_dtype = DtFloat \<rparr>,
        cmt_aliases = [''etr'', ''effective tax rate''] \<rparr>,
     canon_metric \<lparr> cmt_key = ''tax_paid_inr_by_country'', cmt_name = ''Tax paid by country'',
        cmt_description = ''Cash taxes paid by jurisdiction.'', cmt_unit = ''inr'',
        cmt_allowed = [''inr'', ''inr_lakh'', ''inr_crore'', ''usd''], cmt_category = CatGovernance,
        cmt_subcategory = ''tax'', cmt_dimensions = [DimPeriod, DimCountry], cmt_rule = AggSum,
        cmt_boundary = None, cmt_basis = None, cmt_tier = 1, cmt_constraints = non_negative_float,
        cmt_aliases = [''tax paid'', ''country by country tax''] \<rparr>]"

definition metrics_compliance_1 :: "canonical_metric list" where
  "metrics_compliance_1 = [
     canon_metric \<lparr> cmt_key = ''regulatory_actions_count'', cmt_name = ''Regulatory actions'',
        cmt_description = ''Distinct regulatory enforcement actions during the period.'', cmt_unit = ''count'',
        cmt_allowed = [''count''], cmt_category = CatGovernance, cmt_subcategory = ''compliance'',
        cmt_dimensions = [DimPeriod, DimScopeNode, DimCountry], cmt_rule = AggSum, cmt_boundary = None,
        cmt_basis = None, cmt_tier = 1, cmt_constraints = non_negative_int,
        cmt_aliases = [''regulatory actions'', ''show cause notices''] \<rparr>,
     canon_metric \<lparr> cmt_key = ''fines_paid_inr'', cmt_name = ''Fines & penalties paid'',
        cmt_description = ''Monetary value of fines and penalties paid.'', cmt_unit = ''inr'',
        cmt_allowed = [''inr'', ''inr_lakh'', ''inr_crore''], cmt_category = CatGovernance,
        cmt_subcategory = ''compliance'', cmt_dimensions = [DimPeriod, DimScopeNode, DimCountry],
        cmt_rule = AggSum, cmt_boundary = None, cmt_basis = None, cmt_tier = 1,
        cmt_constraints = non_negative_float,
        cmt_aliases = [''fines paid'', ''penalties'', ''monetary sanctions''] \<rparr>,
     canon_metric \<lparr> cmt_key = ''environmental_violations'', cmt_name = ''Environmental violations'',
        cmt_description = ''Confirmed environmental violations during the period.'', cmt_unit = ''count'',
        cmt_allowed = [''count''], cmt_category = CatGovernance, cmt_subcategory = ''compliance'',
        cmt_dimensions = [DimPeriod, DimScopeNode], cmt_rule = AggSum, cmt_boundary = None, cmt_basis = None,
        cmt_tier = 1, cmt_constraints = non_negative_int,
        cmt_aliases = [''environment violations'', ''notices from pcb''] \<rparr>,
     canon_metric \<lparr> cmt_key = ''data_privacy_violations'', cmt_name = ''Data privacy violations'',
        cmt_description = ''Confirmed data protection / privacy law violations during the period.'',
        cmt_unit = ''count'', cmt_allowed = [''count''], cmt_category = CatGovernance,
        cmt_subcategory = ''compliance'', cmt_dimensions = [DimPeriod, DimScopeNode, DimCountry],
        cmt_rule = AggSum, cmt_boundary = None, cmt_basis = None, cmt_tier = 1,
        cmt_constraints = non_negative_int, cmt_aliases = [''dpdp violations'', ''gdpr violations''] \<rparr>,
     canon_metric \<lparr> cmt_key = ''ml_models_in_production'', cmt_name = ''ML models in production'',
        cmt_description = ''Number of ML/AI models actively serving production decisions (for AI governance disclosures).'',
        cmt_unit = ''count'', cmt_allowed = [''count''], cmt_category = CatGovernance,
        cmt_subcategory = ''ai_governance'', cmt_dimensions = [DimPeriod, DimScopeNode], cmt_rule = AggLast,
        cmt_boundary = None, cmt_basis = None, cmt_tier = 1, cmt_constraints = non_negative_int,
        cmt_aliases = [''ai models'', ''production models''] \<rparr>,
     canon_metric \<lparr> cmt_key = ''board_committee_count'', cmt_name = ''Board committees'',
        cmt_description = ''Number of board committees (audit, NRC, stakeholder relationship, CSR, risk management).'',
        cmt_unit = ''count'', cmt_allowed = [''count''], cmt_category = CatGovernance,
        cmt_subcategory = ''board'', cmt_dimensions = [DimPeriod], cmt_rule = AggLast, cmt_boundary = None,
        cmt_basis = None, cmt_tier = 1, cmt_constraints = non_negative_int,
        cmt_aliases = [''board committees'', ''committees of the board''] \<rparr>,
     canon_metric \<lparr> cmt_key = ''esg_committee_exists_bool'', cmt_name = ''ESG / sustainability committee exists'',
        cmt_description = ''Whether a board or management committee is responsible for ESG / sustainability oversight.'',
        cmt_unit = ''bool'', cmt_allowed = [''bool''], cmt_category = CatGovernance, cmt_subcategory = ''board'',
        cmt_dimensions = [DimPeriod], cmt_rule = AggBoolAny, cmt_boundary = None, cmt_basis = None, cmt_tier = 1,
        cmt_constraints = boolean_range, cmt_aliases = [''esg committee'', ''sustainability committee''] \<rparr>,
     canon_metric \<lparr> cmt_key = ''director_independence_pct'', cmt_name = ''Board independence (%)'',
        cmt_description = ''Independent directors / total directors x 100.'', cmt_unit = ''pct'',
        cmt_allowed = [''pct''], cmt_category = CatGovernance, cmt_subcategory = ''board'',
        cmt_dimensions = [DimPeriod], cmt_rule = AggRatio, cmt_boundary = None, cmt_basis = None, cmt_tier = 1,
        cmt_constraints = percentage_range, cmt_aliases = [''board independence''] \<rparr>,
     canon_metric \<lparr> cmt_key = ''ceo_tenure_years'', cmt_name = ''CEO tenure'',
        cmt_description = ''Years the current CEO has been in role.'', cmt_unit = ''years'',
        cmt_allowed = [''years''], cmt_category = CatGovernance, cmt_subcategory = ''board'',
        cmt_dimensions = [DimPeriod], cmt_rule = AggLast, cmt_boundary = None, cmt_basis = None, cmt_tier = 1,
        cmt_constraints = non_negative_float, cmt_aliases = [''ceo tenure''] \<rparr>,
     canon_metric \<lparr> cmt_key = ''external_audit_qualifications'', cmt_name = ''External audit qualifications'',
        cmt_description = ''Number of qualifications, adverse remarks or disclaimers raised by the external auditor on the financial statements.'',
        cmt_unit = ''count'', cmt_allowed = [''count''], cmt_category = CatGovernance,
        cmt_subcategory = ''ethics'', cmt_dimensions = [DimPeriod], cmt_rule = AggSum, cmt_boundary = None,
        cmt_basis = None, cmt_tier = 1, cmt_constraints = non_negative_int,
        cmt_aliases = [''audit qualifications'', ''auditor remarks''] \<rparr>]"

definition metrics_compliance_2 :: "canonical_metric list" where
  "metrics_compliance_2 = [
     canon_metric \<lparr> cmt_key = ''transition_plan_adopted_bool'', cmt_name = ''Climate transition plan adopted'',
        cmt_description = ''Whether a formal climate transition plan has been adopted by the board.'',
        cmt_unit = ''bool'', cmt_allowed = [''bool''], cmt_category = CatGovernance, cmt_subcategory = ''risk'',
        cmt_dimensions = [DimPeriod], cmt_rule = AggBoolAny, cmt_boundary = None, cmt_basis = None, cmt_tier = 1,
        cmt_constraints = boolean_range, cmt_aliases = [''transition plan'', ''net zero plan''] \<rparr>,
     canon_metric \<lparr> cmt_key = ''scope3_screened_categories_count'', cmt_name = ''Scope 3 categories screened'',
        cmt_description = ''Number of GHG Protocol Scope 3 categories the entity has screened for materiality (0-15).'',
        cmt_unit = ''count'', cmt_allowed = [''count''], cmt_category = CatGovernance,
        cmt_subcategory = ''risk'', cmt_dimensions = [DimPeriod], cmt_rule = AggLast, cmt_boundary = None,
        cmt_basis = None, cmt_tier = 1,
        cmt_constraints = \<lparr> vc_min = Some 0, vc_max = Some 15, vc_dtype = DtInt \<rparr>,
        cmt_aliases = [''scope 3 screening''] \<rparr>,
     canon_metric \<lparr> cmt_key = ''esg_targets_count'', cmt_name = ''ESG targets set'',
        cmt_description = ''Number of publicly disclosed ESG targets currently being tracked.'',
        cmt_unit = ''count'', cmt_allowed = [''count''], cmt_category = CatGovernance,
        cmt_subcategory = ''risk'', cmt_dimensions = [DimPeriod], cmt_rule = AggLast, cmt_boundary = None,
        cmt_basis = None, cmt_tier = 1, cmt_constraints = non_negative_int, cmt_aliases = [''esg targets''] \<rparr>]"

definition metrics_compliance :: "canonical_metric list" where
  "metrics_compliance = metrics_compliance_1 @ metrics_compliance_2"

section \<open>Scope 3, generated as a block\<close>

record scope3_cat =
  sct_n :: nat
  sct_name :: string
  sct_alias :: "string list"

definition scope3_cats :: "scope3_cat list" where
  "scope3_cats = [
     \<lparr> sct_n = 1, sct_name = ''Purchased goods and services'', sct_alias = [''purchased goods'', ''supplier emissions''] \<rparr>,
     \<lparr> sct_n = 2, sct_name = ''Capital goods'', sct_alias = [''capital goods'', ''capex emissions''] \<rparr>,
     \<lparr> sct_n = 3, sct_name = ''Fuel- and energy-related activities'', sct_alias = [''upstream fuel'', ''well to tank''] \<rparr>,
     \<lparr> sct_n = 4, sct_name = ''Upstream transportation and distribution'', sct_alias = [''upstream logistics'', ''inbound transport''] \<rparr>,
     \<lparr> sct_n = 5, sct_name = ''Waste generated in operations'', sct_alias = [''waste disposal emissions''] \<rparr>,
     \<lparr> sct_n = 6, sct_name = ''Business travel'', sct_alias = [''business travel'', ''flights emissions''] \<rparr>,
     \<lparr> sct_n = 7, sct_name = ''Employee commuting'', sct_alias = [''employee commute''] \<rparr>,
     \<lparr> sct_n = 8, sct_name = ''Upstream leased assets'', sct_alias = [''leased assets upstream''] \<rparr>,
     \<lparr> sct_n = 9, sct_name = ''Downstream transportation and distribution'', sct_alias = [''outbound logistics'', ''downstream transport''] \<rparr>,
     \<lparr> sct_n = 10, sct_name = ''Processing of sold products'', sct_alias = [''processing sold products''] \<rparr>,
     \<lparr> sct_n = 11, sct_name = ''Use of sold products'', sct_alias = [''product use phase''] \<rparr>,
     \<lparr> sct_n = 12, sct_name = ''End-of-life of sold products'', sct_alias = [''end of life products''] \<rparr>,
     \<lparr> sct_n = 13, sct_name = ''Downstream leased assets'', sct_alias = [''leased assets downstream''] \<rparr>,
     \<lparr> sct_n = 14, sct_name = ''Franchises'', sct_alias = [''franchises''] \<rparr>,
     \<lparr> sct_n = 15, sct_name = ''Investments'', sct_alias = [''financed emissions'', ''pcaf''] \<rparr>]"

definition metrics_scope3 :: "canonical_metric list" where
  "metrics_scope3 = map (\<lambda>c. canon_metric
     \<lparr> cmt_key = ''scope3_cat'' @ show_nat (sct_n c) @ ''_tco2e'',
       cmt_name = ''Scope 3 cat '' @ show_nat (sct_n c) @ '' - '' @ sct_name c,
       cmt_description = ''GHG Protocol Scope 3 Category '' @ show_nat (sct_n c) @ '': '' @ sct_name c @ ''.'',
       cmt_unit = ''tco2e'', cmt_allowed = [''tco2e'', ''kgco2e''], cmt_category = CatEnvironment,
       cmt_subcategory = ''ghg'', cmt_dimensions = [DimPeriod, DimScopeNode], cmt_rule = AggSum,
       cmt_boundary = Some (Scope3Cat (sct_n c)), cmt_basis = Some BasisAR6_100, cmt_tier = 3,
       cmt_constraints = non_negative_float, cmt_aliases = sct_alias c \<rparr>) scope3_cats"

section \<open>The registry\<close>

definition all_metrics :: "canonical_metric list" where
  "all_metrics = metrics_energy @ metrics_water @ metrics_waste @ metrics_ghg @ metrics_scope3 @
     metrics_ghg_intensity @ metrics_air @ metrics_biodiversity @ metrics_materials @ metrics_workforce @
     metrics_diversity @ metrics_compensation @ metrics_training @ metrics_health_safety @
     metrics_human_rights @ metrics_community @ metrics_customer @ metrics_board @ metrics_ethics @
     metrics_risk @ metrics_tax @ metrics_compliance"

text \<open>\<open>out[metric.key]\<close> is truthy for an own entry and for a member of the prototype.\<close>

fun registry_loop :: "canonical_metric list \<Rightarrow> canonical_metric js_object \<Rightarrow> string + canonical_metric js_object" where
  "registry_loop [] out = Inr out"
| "registry_loop (metric # ms) out =
     (if js_in (cmt_key metric) out
      then Inl (''Duplicate canonical metric key: '' @ cmt_key metric @ ''. Keys must be unique across the registry.'')
      else registry_loop ms (upsert (cmt_key metric) metric out))"

definition build_registry :: "string + canonical_metric js_object" where
  "build_registry = registry_loop all_metrics []"

text \<open>The module's constants: a throw while the module loads leaves none.\<close>

definition canonical_metrics :: "canonical_metric js_object" where
  "canonical_metrics = (case build_registry of Inr out \<Rightarrow> out | Inl _ \<Rightarrow> [])"

definition canonical_keys :: "string list" where
  "canonical_keys = map fst canonical_metrics"

definition get_canonical_metric :: "string \<Rightarrow> canonical_metric js_read" where
  "get_canonical_metric key = js_read canonical_metrics key"

definition list_metrics_by_category :: "metric_category \<Rightarrow> canonical_metric list" where
  "list_metrics_by_category c = filter (\<lambda>x. cmt_category x = c) (map snd canonical_metrics)"

definition list_metrics_by_subcategory :: "string \<Rightarrow> canonical_metric list" where
  "list_metrics_by_subcategory s = filter (\<lambda>x. cmt_subcategory x = s) (map snd canonical_metrics)"

end
