(* ===== verification/Fw_Brsr.thy ===== *)
theory Fw_Brsr
  imports Fw_Base
begin

text \<open>
  The BRSR schedule (packages/frameworks/src/frameworks/brsr.ts): the literal disclosures, the
  generated board oversight questions and sub-breakouts, and the filters.
\<close>

section \<open>Principles\<close>

definition principle_names :: "nat \<Rightarrow> string" where
  "principle_names p =
     [''General Disclosures'', ''Ethics, Transparency & Accountability'',
      ''Sustainability throughout the Value Chain'', ''Employee Wellbeing'',
      ''Stakeholder Responsiveness'', ''Human Rights'', ''Environment'', ''Public Policy'',
      ''Inclusive Growth'', ''Customer Value''] ! p"

definition brsr_row :: "brsr_spec \<Rightarrow> brsr_disclosure" where
  "brsr_row p = brsr_spec.extend p (brsr_disclosure.fields (principle_names (brd_principle p)))"

lemma brsr_row_sel [simp]:
  "brd_section (brsr_row p) = brd_section p" "brd_principle (brsr_row p) = brd_principle p"
  "brd_keys (brsr_row p) = brd_keys p" "brd_core (brsr_row p) = brd_core p"
  "brd_formula (brsr_row p) = brd_formula p" "brd_narrative (brsr_row p) = brd_narrative p"
  "brd_mandatory (brsr_row p) = brd_mandatory p" "brd_response (brsr_row p) = brd_response p"
  "brd_principle_name (brsr_row p) = principle_names (brd_principle p)"
  by (simp_all add: brsr_row_def brsr_spec.defs brsr_disclosure.defs)

section \<open>The disclosures\<close>

definition brsr_section_a :: "brsr_disclosure list" where
  "brsr_section_a = [
     brsr_row \<lparr> brd_section = ''A.I.1'', brd_principle = 0, brd_section_name = ''Details of listed entity'',
        brd_question = ''Corporate Identity Number (CIN) of the listed entity.'', brd_response = RespText,
        brd_unit = None, brd_mandatory = True, brd_core = False, brd_keys = [], brd_formula = None,
        brd_narrative = None \<rparr>,
     brsr_row \<lparr> brd_section = ''A.I.2'', brd_principle = 0, brd_section_name = ''Details of listed entity'',
        brd_question = ''Name of the listed entity.'', brd_response = RespText, brd_unit = None,
        brd_mandatory = True, brd_core = False, brd_keys = [], brd_formula = None, brd_narrative = None \<rparr>,
     brsr_row \<lparr> brd_section = ''A.II.16'', brd_principle = 0, brd_section_name = ''Products and services'',
        brd_question = ''Number of locations where plants and/or operations/offices are situated.'',
        brd_response = RespTable, brd_unit = None, brd_mandatory = True, brd_core = False, brd_keys = [],
        brd_formula = None, brd_narrative = None \<rparr>,
     brsr_row \<lparr> brd_section = ''A.III.18.a'', brd_principle = 0, brd_section_name = ''Employees and workers'',
        brd_question = ''Details of employees as at the end of financial year, by gender.'',
        brd_response = RespTable, brd_unit = Some ''count'', brd_mandatory = True, brd_core = True,
        brd_keys = [''employee_count_total'', ''employee_count_male'', ''employee_count_female'', ''employee_count_perm'', ''employee_count_temp'', ''employee_count_contract''],
        brd_formula = None,
        brd_narrative = Some ''As at year end, total employees and workers stood at {{metric.employee_count_total}} ({{metric.employee_count_male}} male, {{metric.employee_count_female}} female).'' \<rparr>,
     brsr_row \<lparr> brd_section = ''A.III.18.b'', brd_principle = 0, brd_section_name = ''Employees and workers'',
        brd_question = ''Differently abled employees and workers.'', brd_response = RespTable,
        brd_unit = Some ''count'', brd_mandatory = True, brd_core = False, brd_keys = [''employee_count_pwd''],
        brd_formula = None, brd_narrative = None \<rparr>,
     brsr_row \<lparr> brd_section = ''A.III.20.a'', brd_principle = 0, brd_section_name = ''Diversity'',
        brd_question = ''Participation/Inclusion/Representation of women.'', brd_response = RespPercentage,
        brd_unit = Some ''pct'', brd_mandatory = True, brd_core = True,
        brd_keys = [''women_in_workforce_pct'', ''women_in_management_pct'', ''women_on_board_pct''],
        brd_formula = Some ''m.women_in_workforce_pct'',
        brd_narrative = Some ''Women constitute {{metric.women_in_workforce_pct}}% of the workforce, {{metric.women_in_management_pct}}% of management and {{metric.women_on_board_pct}}% of the board.'' \<rparr>,
     brsr_row \<lparr> brd_section = ''A.III.21'', brd_principle = 0, brd_section_name = ''Turnover'',
        brd_question = ''Turnover rate for permanent employees and workers.'', brd_response = RespPercentage,
        brd_unit = Some ''pct'', brd_mandatory = True, brd_core = True,
        brd_keys = [''employee_turnover'', ''employee_count_perm''],
        brd_formula = Some ''m.employee_count_perm > 0 ? (m.employee_turnover / m.employee_count_perm * 100) : 0'',
        brd_narrative = Some ''Turnover for the year was {{metric.employee_turnover}} ({{calc.turnover_pct}}%) of average permanent headcount.'' \<rparr>]"

definition brsr_section_b :: "brsr_disclosure list" where
  "brsr_section_b = [
     brsr_row \<lparr> brd_section = ''B.1'', brd_principle = 0, brd_section_name = ''Policy and management processes'',
        brd_question = ''Whether the entity's policy/policies cover each principle and its core elements of the NGRBCs.'',
        brd_response = RespTable, brd_unit = None, brd_mandatory = True, brd_core = False, brd_keys = [],
        brd_formula = None, brd_narrative = None \<rparr>,
     brsr_row \<lparr> brd_section = ''B.6'', brd_principle = 0, brd_section_name = ''Governance, leadership and oversight'',
        brd_question = ''Statement by director responsible for the business responsibility report.'',
        brd_response = RespText, brd_unit = None, brd_mandatory = True, brd_core = False, brd_keys = [],
        brd_formula = None, brd_narrative = None \<rparr>,
     brsr_row \<lparr> brd_section = ''B.7'', brd_principle = 0, brd_section_name = ''Governance, leadership and oversight'',
        brd_question = ''Details of the highest authority responsible for implementation and oversight of the BR policy.'',
        brd_response = RespText, brd_unit = None, brd_mandatory = True, brd_core = False, brd_keys = [],
        brd_formula = None, brd_narrative = None \<rparr>]"

definition brsr_p1 :: "brsr_disclosure list" where
  "brsr_p1 = [
     brsr_row \<lparr> brd_section = ''P1.E.1'', brd_principle = 1, brd_section_name = ''Essential indicators'',
        brd_question = ''Percentage coverage by training programmes on principles covered by NGRBC for board, KMP, employees, workers.'',
        brd_response = RespPercentage, brd_unit = Some ''pct'', brd_mandatory = True, brd_core = True,
        brd_keys = [''anticorruption_training_pct'', ''training_coverage_pct''],
        brd_formula = Some ''m.anticorruption_training_pct'',
        brd_narrative = Some ''{{metric.anticorruption_training_pct}}% of employees were trained on the NGRBC principles, including anti-corruption modules.'' \<rparr>,
     brsr_row \<lparr> brd_section = ''P1.E.2'', brd_principle = 1, brd_section_name = ''Essential indicators'',
        brd_question = ''Details of fines / penalties / punishment / award / compounding fees / settlement amount paid.'',
        brd_response = RespNumeric, brd_unit = Some ''inr'', brd_mandatory = True, brd_core = True,
        brd_keys = [''fines_paid_inr''], brd_formula = Some ''m.fines_paid_inr'',
        brd_narrative = Some ''INR {{metric.fines_paid_inr}} was paid in fines and penalties during the reporting period.'' \<rparr>,
     brsr_row \<lparr> brd_section = ''P1.E.3'', brd_principle = 1, brd_section_name = ''Essential indicators'',
        brd_question = ''Cases involving disciplinary action by any law enforcement agency for corruption.'',
        brd_response = RespNumeric, brd_unit = Some ''count'', brd_mandatory = True, brd_core = True,
        brd_keys = [''corruption_cases_disciplinary''], brd_formula = Some ''m.corruption_cases_disciplinary'',
        brd_narrative = Some ''There were {{metric.corruption_cases_disciplinary}} corruption-related disciplinary cases during the year.'' \<rparr>,
     brsr_row \<lparr> brd_section = ''P1.E.4'', brd_principle = 1, brd_section_name = ''Essential indicators'',
        brd_question = ''Complaints / cases received with regard to conflicts of interest.'',
        brd_response = RespNumeric, brd_unit = Some ''count'', brd_mandatory = True, brd_core = False,
        brd_keys = [''whistleblower_cases_count''], brd_formula = Some ''m.whistleblower_cases_count'',
        brd_narrative = None \<rparr>,
     brsr_row \<lparr> brd_section = ''P1.E.5'', brd_principle = 1, brd_section_name = ''Essential indicators'',
        brd_question = ''Number of days of accounts payables ((Accounts payable x 365) / Cost of goods/services procured).'',
        brd_response = RespNumeric, brd_unit = Some ''days'', brd_mandatory = True, brd_core = True,
        brd_keys = [], brd_formula = None, brd_narrative = None \<rparr>,
     brsr_row \<lparr> brd_section = ''P1.L.1'', brd_principle = 1, brd_section_name = ''Leadership indicators'',
        brd_question = ''Awareness programmes conducted for value chain partners on any of the principles during the year.'',
        brd_response = RespText, brd_unit = None, brd_mandatory = False, brd_core = False, brd_keys = [],
        brd_formula = None, brd_narrative = None \<rparr>,
     brsr_row \<lparr> brd_section = ''P1.L.2'', brd_principle = 1, brd_section_name = ''Leadership indicators'',
        brd_question = ''Processes in place to avoid / manage conflicts of interest involving members of the Board.'',
        brd_response = RespText, brd_unit = None, brd_mandatory = False, brd_core = False, brd_keys = [],
        brd_formula = None, brd_narrative = None \<rparr>]"

definition brsr_p2 :: "brsr_disclosure list" where
  "brsr_p2 = [
     brsr_row \<lparr> brd_section = ''P2.E.1'', brd_principle = 2, brd_section_name = ''Essential indicators'',
        brd_question = ''Percentage of R&D and capex investments in technologies to improve environmental & social impacts of product and processes to total R&D and capex investments.'',
        brd_response = RespPercentage, brd_unit = Some ''pct'', brd_mandatory = True, brd_core = True,
        brd_keys = [], brd_formula = None, brd_narrative = None \<rparr>,
     brsr_row \<lparr> brd_section = ''P2.E.2'', brd_principle = 2, brd_section_name = ''Essential indicators'',
        brd_question = ''Procedures in place for sustainable sourcing.'', brd_response = RespText,
        brd_unit = None, brd_mandatory = True, brd_core = True, brd_keys = [], brd_formula = None,
        brd_narrative = None \<rparr>,
     brsr_row \<lparr> brd_section = ''P2.E.3'', brd_principle = 2, brd_section_name = ''Essential indicators'',
        brd_question = ''Processes in place to safely reclaim products for reusing, recycling and disposing at the end of life (Plastics, E-waste, Hazardous Waste).'',
        brd_response = RespTable, brd_unit = None, brd_mandatory = True, brd_core = True,
        brd_keys = [''plastic_waste_kg'', ''e_waste_kg'', ''waste_hazardous_kg''], brd_formula = None,
        brd_narrative = None \<rparr>,
     brsr_row \<lparr> brd_section = ''P2.E.4'', brd_principle = 2, brd_section_name = ''Essential indicators'',
        brd_question = ''Extended Producer Responsibility (EPR) applicability and compliance status.'',
        brd_response = RespText, brd_unit = None, brd_mandatory = True, brd_core = False,
        brd_keys = [''plastic_waste_kg'', ''e_waste_kg''], brd_formula = None, brd_narrative = None \<rparr>,
     brsr_row \<lparr> brd_section = ''P2.L.1'', brd_principle = 2, brd_section_name = ''Leadership indicators'',
        brd_question = ''Life cycle assessments (LCA) conducted for products / services contributing to >10% of turnover.'',
        brd_response = RespTable, brd_unit = None, brd_mandatory = False, brd_core = False, brd_keys = [],
        brd_formula = None, brd_narrative = None \<rparr>,
     brsr_row \<lparr> brd_section = ''P2.L.2'', brd_principle = 2, brd_section_name = ''Leadership indicators'',
        brd_question = ''Percentage of recycled or reused input material to total material used.'',
        brd_response = RespPercentage, brd_unit = Some ''pct'', brd_mandatory = False, brd_core = False,
        brd_keys = [''recycled_materials_tonnes'', ''virgin_materials_tonnes''],
        brd_formula = Some ''(m.recycled_materials_tonnes + m.virgin_materials_tonnes) > 0 ? (m.recycled_materials_tonnes / (m.recycled_materials_tonnes + m.virgin_materials_tonnes) * 100) : 0'',
        brd_narrative = Some ''Recycled inputs accounted for {{calc.recycled_pct}}% of total raw materials.'' \<rparr>,
     brsr_row \<lparr> brd_section = ''P2.L.3'', brd_principle = 2, brd_section_name = ''Leadership indicators'',
        brd_question = ''Products reclaimed at end of life and waste collected through EPR, per category.'',
        brd_response = RespTable, brd_unit = Some ''kg'', brd_mandatory = False, brd_core = False,
        brd_keys = [''plastic_waste_kg'', ''e_waste_kg'', ''waste_hazardous_kg''], brd_formula = None,
        brd_narrative = None \<rparr>]"

definition brsr_p3_1 :: "brsr_disclosure list" where
  "brsr_p3_1 = [
     brsr_row \<lparr> brd_section = ''P3.E.1.a'', brd_principle = 3, brd_section_name = ''Essential indicators'',
        brd_question = ''Measures for the wellbeing of employees: coverage of health insurance.'',
        brd_response = RespPercentage, brd_unit = Some ''pct'', brd_mandatory = True, brd_core = True,
        brd_keys = [], brd_formula = None, brd_narrative = None \<rparr>,
     brsr_row \<lparr> brd_section = ''P3.E.1.b'', brd_principle = 3, brd_section_name = ''Essential indicators'',
        brd_question = ''Measures for the wellbeing of employees: accident insurance / maternity benefits / paternity benefits / day care.'',
        brd_response = RespTable, brd_unit = None, brd_mandatory = True, brd_core = True, brd_keys = [],
        brd_formula = None, brd_narrative = None \<rparr>,
     brsr_row \<lparr> brd_section = ''P3.E.2'', brd_principle = 3, brd_section_name = ''Essential indicators'',
        brd_question = ''Details of retirement benefits, for current and previous financial year (PF / Gratuity / ESI / others).'',
        brd_response = RespTable, brd_unit = None, brd_mandatory = True, brd_core = False, brd_keys = [],
        brd_formula = None, brd_narrative = None \<rparr>,
     brsr_row \<lparr> brd_section = ''P3.E.3'', brd_principle = 3, brd_section_name = ''Essential indicators'',
        brd_question = ''Accessibility of workplaces for differently abled employees and workers.'',
        brd_response = RespText, brd_unit = None, brd_mandatory = True, brd_core = False,
        brd_keys = [''employee_count_pwd''], brd_formula = None, brd_narrative = None \<rparr>,
     brsr_row \<lparr> brd_section = ''P3.E.4'', brd_principle = 3, brd_section_name = ''Essential indicators'',
        brd_question = ''Equal Opportunity policy as per the Rights of Persons with Disabilities Act, 2016.'',
        brd_response = RespBoolean, brd_unit = None, brd_mandatory = True, brd_core = False, brd_keys = [],
        brd_formula = None, brd_narrative = None \<rparr>,
     brsr_row \<lparr> brd_section = ''P3.E.5'', brd_principle = 3, brd_section_name = ''Essential indicators'',
        brd_question = ''Return to work and retention rates of permanent employees and workers that took parental leave.'',
        brd_response = RespTable, brd_unit = Some ''pct'', brd_mandatory = True, brd_core = False, brd_keys = [],
        brd_formula = None, brd_narrative = None \<rparr>,
     brsr_row \<lparr> brd_section = ''P3.E.6'', brd_principle = 3, brd_section_name = ''Essential indicators'',
        brd_question = ''Mechanisms available to receive and redress grievances of employees and workers.'',
        brd_response = RespText, brd_unit = None, brd_mandatory = True, brd_core = False, brd_keys = [],
        brd_formula = None, brd_narrative = None \<rparr>,
     brsr_row \<lparr> brd_section = ''P3.E.7'', brd_principle = 3, brd_section_name = ''Essential indicators'',
        brd_question = ''Membership of employees and workers in association(s) or unions recognised by the listed entity.'',
        brd_response = RespPercentage, brd_unit = Some ''pct'', brd_mandatory = True, brd_core = True,
        brd_keys = [], brd_formula = None, brd_narrative = None \<rparr>,
     brsr_row \<lparr> brd_section = ''P3.E.8'', brd_principle = 3, brd_section_name = ''Essential indicators'',
        brd_question = ''Details of training given to employees and workers, broken down by category.'',
        brd_response = RespTable, brd_unit = Some ''hours'', brd_mandatory = True, brd_core = True,
        brd_keys = [''training_hours_total'', ''training_hours_ehs'', ''training_hours_skill'', ''training_coverage_pct'', ''training_hours_per_employee''],
        brd_formula = Some ''m.training_hours_total'',
        brd_narrative = Some ''Total {{metric.training_hours_total}} person-hours of training were delivered, averaging {{metric.training_hours_per_employee}} hours per employee. Coverage was {{metric.training_coverage_pct}}%.'' \<rparr>,
     brsr_row \<lparr> brd_section = ''P3.E.9'', brd_principle = 3, brd_section_name = ''Essential indicators'',
        brd_question = ''Details of performance and career development reviews of employees and workers.'',
        brd_response = RespPercentage, brd_unit = Some ''pct'', brd_mandatory = True, brd_core = False,
        brd_keys = [], brd_formula = None, brd_narrative = None \<rparr>]"

definition brsr_p3_2 :: "brsr_disclosure list" where
  "brsr_p3_2 = [
     brsr_row \<lparr> brd_section = ''P3.E.10'', brd_principle = 3, brd_section_name = ''Essential indicators'',
        brd_question = ''Health and safety management system - coverage of internal & external assessments.'',
        brd_response = RespText, brd_unit = None, brd_mandatory = True, brd_core = True, brd_keys = [],
        brd_formula = None, brd_narrative = None \<rparr>,
     brsr_row \<lparr> brd_section = ''P3.E.11.a'', brd_principle = 3, brd_section_name = ''Essential indicators'',
        brd_question = ''Details of safety-related incidents (LTIFR per million man-hours worked).'',
        brd_response = RespNumeric, brd_unit = Some ''per_million_hours'', brd_mandatory = True, brd_core = True,
        brd_keys = [''ltifr'', ''trifr''], brd_formula = Some ''m.ltifr'',
        brd_narrative = Some ''LTIFR for the period was {{metric.ltifr}} per million man-hours; TRIFR was {{metric.trifr}}.'' \<rparr>,
     brsr_row \<lparr> brd_section = ''P3.E.11.b'', brd_principle = 3, brd_section_name = ''Essential indicators'',
        brd_question = ''Details of safety-related incidents (Total recordable work-related injuries).'',
        brd_response = RespNumeric, brd_unit = Some ''count'', brd_mandatory = True, brd_core = True,
        brd_keys = [''trifr''], brd_formula = Some ''m.trifr'',
        brd_narrative = Some ''Total recordable injury frequency rate (TRIFR) was {{metric.trifr}} per million man-hours worked.'' \<rparr>,
     brsr_row \<lparr> brd_section = ''P3.E.11.c'', brd_principle = 3, brd_section_name = ''Essential indicators'',
        brd_question = ''No. of fatalities (employees, workers).'', brd_response = RespNumeric,
        brd_unit = Some ''count'', brd_mandatory = True, brd_core = True,
        brd_keys = [''fatality_count_employees'', ''fatality_count_contractors''],
        brd_formula = Some ''m.fatality_count_employees + m.fatality_count_contractors'', brd_narrative = None \<rparr>,
     brsr_row \<lparr> brd_section = ''P3.E.11.d'', brd_principle = 3, brd_section_name = ''Essential indicators'',
        brd_question = ''High consequence work-related injury or ill-health (excluding fatalities).'',
        brd_response = RespNumeric, brd_unit = Some ''count'', brd_mandatory = True, brd_core = True,
        brd_keys = [''occupational_disease_cases''], brd_formula = Some ''m.occupational_disease_cases'',
        brd_narrative = None \<rparr>,
     brsr_row \<lparr> brd_section = ''P3.E.12'', brd_principle = 3, brd_section_name = ''Essential indicators'',
        brd_question = ''Describe the measures taken by the entity to ensure a safe and healthy workplace.'',
        brd_response = RespText, brd_unit = None, brd_mandatory = True, brd_core = False, brd_keys = [],
        brd_formula = None, brd_narrative = None \<rparr>,
     brsr_row \<lparr> brd_section = ''P3.E.13'', brd_principle = 3, brd_section_name = ''Essential indicators'',
        brd_question = ''Number of complaints filed and pending on the following: working conditions, health & safety.'',
        brd_response = RespTable, brd_unit = Some ''count'', brd_mandatory = True, brd_core = True,
        brd_keys = [''human_rights_complaints_received'', ''human_rights_complaints_resolved''],
        brd_formula = None, brd_narrative = None \<rparr>,
     brsr_row \<lparr> brd_section = ''P3.E.14'', brd_principle = 3, brd_section_name = ''Essential indicators'',
        brd_question = ''Assessments for the year (plants and offices, % covered).'',
        brd_response = RespPercentage, brd_unit = Some ''pct'', brd_mandatory = True, brd_core = False,
        brd_keys = [], brd_formula = None, brd_narrative = None \<rparr>,
     brsr_row \<lparr> brd_section = ''P3.E.15'', brd_principle = 3, brd_section_name = ''Essential indicators'',
        brd_question = ''Corrective action taken or underway on safety incidents and complaints.'',
        brd_response = RespText, brd_unit = None, brd_mandatory = True, brd_core = False, brd_keys = [],
        brd_formula = None, brd_narrative = None \<rparr>,
     brsr_row \<lparr> brd_section = ''P3.L.1'', brd_principle = 3, brd_section_name = ''Leadership indicators'',
        brd_question = ''Details on assessment of value chain partners on health and safety practices, working conditions.'',
        brd_response = RespPercentage, brd_unit = Some ''pct'', brd_mandatory = False, brd_core = False,
        brd_keys = [], brd_formula = None, brd_narrative = None \<rparr>]"

definition brsr_p3_3 :: "brsr_disclosure list" where
  "brsr_p3_3 = [
     brsr_row \<lparr> brd_section = ''P3.L.2'', brd_principle = 3, brd_section_name = ''Leadership indicators'',
        brd_question = ''Provide details of any corrective actions taken or underway on safety and working conditions of value chain partners.'',
        brd_response = RespText, brd_unit = None, brd_mandatory = False, brd_core = False, brd_keys = [],
        brd_formula = None, brd_narrative = None \<rparr>]"

definition brsr_p3 :: "brsr_disclosure list" where
  "brsr_p3 = brsr_p3_1 @ brsr_p3_2 @ brsr_p3_3"

definition brsr_p4 :: "brsr_disclosure list" where
  "brsr_p4 = [
     brsr_row \<lparr> brd_section = ''P4.E.1'', brd_principle = 4, brd_section_name = ''Essential indicators'',
        brd_question = ''Describe the processes for identifying key stakeholder groups of the entity.'',
        brd_response = RespText, brd_unit = None, brd_mandatory = True, brd_core = False, brd_keys = [],
        brd_formula = None, brd_narrative = None \<rparr>,
     brsr_row \<lparr> brd_section = ''P4.E.2'', brd_principle = 4, brd_section_name = ''Essential indicators'',
        brd_question = ''List stakeholder groups identified as key for the entity and the channels of communication used to engage with them.'',
        brd_response = RespTable, brd_unit = None, brd_mandatory = True, brd_core = False,
        brd_keys = [''local_communities_engaged''], brd_formula = None, brd_narrative = None \<rparr>,
     brsr_row \<lparr> brd_section = ''P4.L.1'', brd_principle = 4, brd_section_name = ''Leadership indicators'',
        brd_question = ''Processes through which feedback from stakeholders is consolidated and provided to the Board.'',
        brd_response = RespText, brd_unit = None, brd_mandatory = False, brd_core = False, brd_keys = [],
        brd_formula = None, brd_narrative = None \<rparr>,
     brsr_row \<lparr> brd_section = ''P4.L.2'', brd_principle = 4, brd_section_name = ''Leadership indicators'',
        brd_question = ''Instances of engagement with, and actions taken to, address the concerns of vulnerable / marginalized stakeholder groups.'',
        brd_response = RespText, brd_unit = None, brd_mandatory = False, brd_core = False,
        brd_keys = [''csr_beneficiaries_count''], brd_formula = None, brd_narrative = None \<rparr>]"

definition brsr_p5_1 :: "brsr_disclosure list" where
  "brsr_p5_1 = [
     brsr_row \<lparr> brd_section = ''P5.E.1'', brd_principle = 5, brd_section_name = ''Essential indicators'',
        brd_question = ''Employees and workers who have been provided training on human rights issues and policy(ies) of the entity.'',
        brd_response = RespPercentage, brd_unit = Some ''pct'', brd_mandatory = True, brd_core = True,
        brd_keys = [''human_rights_training_pct''], brd_formula = Some ''m.human_rights_training_pct'',
        brd_narrative = Some ''{{metric.human_rights_training_pct}}% of employees received training on human rights during the period.'' \<rparr>,
     brsr_row \<lparr> brd_section = ''P5.E.2'', brd_principle = 5, brd_section_name = ''Essential indicators'',
        brd_question = ''Details of minimum wages paid to employees and workers, in the following format.'',
        brd_response = RespTable, brd_unit = None, brd_mandatory = True, brd_core = True, brd_keys = [],
        brd_formula = None, brd_narrative = None \<rparr>,
     brsr_row \<lparr> brd_section = ''P5.E.3'', brd_principle = 5, brd_section_name = ''Essential indicators'',
        brd_question = (''Details of remuneration / salary / wages '' @ [CHR 0xE2, CHR 0x80, CHR 0x94] @ '' gross annual remuneration of (a) board of directors, (b) KMP, (c) employees, (d) workers, segregated by gender; median remuneration; gender pay gap.''),
        brd_response = RespTable, brd_unit = None, brd_mandatory = True, brd_core = True,
        brd_keys = [''median_remuneration_male'', ''median_remuneration_female'', ''gender_pay_gap_pct'', ''ceo_to_worker_pay_ratio''],
        brd_formula = Some ''m.gender_pay_gap_pct'',
        brd_narrative = Some ''The median gender pay gap was {{metric.gender_pay_gap_pct}}%; CEO-to-median-worker pay ratio was {{metric.ceo_to_worker_pay_ratio}}.'' \<rparr>,
     brsr_row \<lparr> brd_section = ''P5.E.4'', brd_principle = 5, brd_section_name = ''Essential indicators'',
        brd_question = ''Do you have a focal point responsible for addressing human rights issues for the entity?'',
        brd_response = RespBoolean, brd_unit = None, brd_mandatory = True, brd_core = False, brd_keys = [],
        brd_formula = None, brd_narrative = None \<rparr>,
     brsr_row \<lparr> brd_section = ''P5.E.5'', brd_principle = 5, brd_section_name = ''Essential indicators'',
        brd_question = ''Describe the internal mechanisms in place to redress grievances related to human rights issues.'',
        brd_response = RespText, brd_unit = None, brd_mandatory = True, brd_core = False, brd_keys = [],
        brd_formula = None, brd_narrative = None \<rparr>,
     brsr_row \<lparr> brd_section = ''P5.E.6'', brd_principle = 5, brd_section_name = ''Essential indicators'',
        brd_question = ''Number of complaints on the following made by employees and workers (sexual harassment, discrimination at workplace, child labour, forced labour, wages, others).'',
        brd_response = RespTable, brd_unit = Some ''count'', brd_mandatory = True, brd_core = True,
        brd_keys = [''discrimination_complaints'', ''child_labour_incidents'', ''forced_labour_incidents'', ''human_rights_complaints_received'', ''human_rights_complaints_resolved''],
        brd_formula = Some ''m.discrimination_complaints + m.child_labour_incidents + m.forced_labour_incidents'',
        brd_narrative = Some ''Total human-rights related complaints: {{metric.human_rights_complaints_received}} received and {{metric.human_rights_complaints_resolved}} resolved. Confirmed child-labour incidents: {{metric.child_labour_incidents}}; forced-labour incidents: {{metric.forced_labour_incidents}}.'' \<rparr>,
     brsr_row \<lparr> brd_section = ''P5.E.7'', brd_principle = 5, brd_section_name = ''Essential indicators'',
        brd_question = ''Mechanisms to prevent adverse consequences to the complainant in discrimination and harassment cases.'',
        brd_response = RespText, brd_unit = None, brd_mandatory = True, brd_core = False, brd_keys = [],
        brd_formula = None, brd_narrative = None \<rparr>,
     brsr_row \<lparr> brd_section = ''P5.E.8'', brd_principle = 5, brd_section_name = ''Essential indicators'',
        brd_question = ''Do human rights requirements form part of your business agreements and contracts?'',
        brd_response = RespBoolean, brd_unit = None, brd_mandatory = True, brd_core = True, brd_keys = [],
        brd_formula = None, brd_narrative = None \<rparr>,
     brsr_row \<lparr> brd_section = ''P5.E.9'', brd_principle = 5, brd_section_name = ''Essential indicators'',
        brd_question = ''Assessments for the year (child labour, forced labour, sexual harassment, etc., % of plants assessed).'',
        brd_response = RespTable, brd_unit = Some ''pct'', brd_mandatory = True, brd_core = True, brd_keys = [],
        brd_formula = None, brd_narrative = None \<rparr>,
     brsr_row \<lparr> brd_section = ''P5.L.1'', brd_principle = 5, brd_section_name = ''Leadership indicators'',
        brd_question = ''Details of a business process being modified / introduced as a result of addressing human rights grievances/complaints.'',
        brd_response = RespText, brd_unit = None, brd_mandatory = False, brd_core = False, brd_keys = [],
        brd_formula = None, brd_narrative = None \<rparr>]"

definition brsr_p5_2 :: "brsr_disclosure list" where
  "brsr_p5_2 = [
     brsr_row \<lparr> brd_section = ''P5.L.2'', brd_principle = 5, brd_section_name = ''Leadership indicators'',
        brd_question = ''Details of the scope and coverage of any human rights due-diligence conducted.'',
        brd_response = RespText, brd_unit = None, brd_mandatory = False, brd_core = False, brd_keys = [],
        brd_formula = None, brd_narrative = None \<rparr>,
     brsr_row \<lparr> brd_section = ''P5.L.3'', brd_principle = 5, brd_section_name = ''Leadership indicators'',
        brd_question = ''Is the premise / office of the entity accessible to differently abled visitors, as per the requirements of the Rights of Persons with Disabilities Act, 2016?'',
        brd_response = RespBoolean, brd_unit = None, brd_mandatory = False, brd_core = False, brd_keys = [],
        brd_formula = None, brd_narrative = None \<rparr>,
     brsr_row \<lparr> brd_section = ''P5.L.4'', brd_principle = 5, brd_section_name = ''Leadership indicators'',
        brd_question = ''Details on assessment of value chain partners on human rights.'',
        brd_response = RespPercentage, brd_unit = Some ''pct'', brd_mandatory = False, brd_core = False,
        brd_keys = [], brd_formula = None, brd_narrative = None \<rparr>]"

definition brsr_p5 :: "brsr_disclosure list" where
  "brsr_p5 = brsr_p5_1 @ brsr_p5_2"

definition brsr_p6_1 :: "brsr_disclosure list" where
  "brsr_p6_1 = [
     brsr_row \<lparr> brd_section = ''P6.E.1'', brd_principle = 6, brd_section_name = ''Energy consumption'',
        brd_question = ''Details of total energy consumption (in Joules or multiples) and energy intensity.'',
        brd_response = RespTable, brd_unit = Some ''gj'', brd_mandatory = True, brd_core = True,
        brd_keys = [''electricity_kwh'', ''electricity_from_renewable_kwh'', ''electricity_from_grid_kwh'', ''diesel_l'', ''petrol_l'', ''lpg_kg'', ''lng_kg'', ''png_scm'', ''coal_tonnes'', ''biomass_tonnes'', ''steam_purchased_gj'', ''total_energy_consumed_gj'', ''energy_intensity_per_revenue''],
        brd_formula = Some ''m.total_energy_consumed_gj'',
        brd_narrative = Some ''Total energy consumed during the year was {{metric.total_energy_consumed_gj}} GJ, of which {{metric.electricity_from_renewable_kwh}} kWh was from renewable sources. Energy intensity per crore of revenue was {{metric.energy_intensity_per_revenue}} GJ.'' \<rparr>,
     brsr_row \<lparr> brd_section = ''P6.E.2'', brd_principle = 6, brd_section_name = ''Energy consumption'',
        brd_question = ''Sites identified as designated consumers (DCs) under the Performance, Achieve and Trade (PAT) Scheme.'',
        brd_response = RespTable, brd_unit = None, brd_mandatory = True, brd_core = True, brd_keys = [],
        brd_formula = None, brd_narrative = None \<rparr>,
     brsr_row \<lparr> brd_section = ''P6.E.3'', brd_principle = 6, brd_section_name = ''Water'',
        brd_question = ''Details of water withdrawal by source (kilolitres).'', brd_response = RespTable,
        brd_unit = Some ''kl'', brd_mandatory = True, brd_core = True,
        brd_keys = [''water_withdrawn_kl_groundwater'', ''water_withdrawn_kl_surface'', ''water_withdrawn_kl_third_party'', ''water_withdrawn_kl_seawater'', ''water_withdrawn_kl_produced'', ''water_withdrawn_total_kl''],
        brd_formula = Some ''m.water_withdrawn_kl_groundwater + m.water_withdrawn_kl_surface + m.water_withdrawn_kl_third_party + m.water_withdrawn_kl_seawater + m.water_withdrawn_kl_produced'',
        brd_narrative = Some ''Total water withdrawal was {{metric.water_withdrawn_total_kl}} KL: groundwater {{metric.water_withdrawn_kl_groundwater}}, surface {{metric.water_withdrawn_kl_surface}}, third-party {{metric.water_withdrawn_kl_third_party}}, seawater {{metric.water_withdrawn_kl_seawater}}, produced {{metric.water_withdrawn_kl_produced}}.'' \<rparr>,
     brsr_row \<lparr> brd_section = ''P6.E.4'', brd_principle = 6, brd_section_name = ''Water'',
        brd_question = ''Water intensity per revenue.'', brd_response = RespNumeric,
        brd_unit = Some ''kl_per_inr_crore'', brd_mandatory = True, brd_core = True,
        brd_keys = [''water_intensity_per_revenue''], brd_formula = Some ''m.water_intensity_per_revenue'',
        brd_narrative = Some ''Water intensity for the year was {{metric.water_intensity_per_revenue}} KL/INR Crore of revenue.'' \<rparr>,
     brsr_row \<lparr> brd_section = ''P6.E.5'', brd_principle = 6, brd_section_name = ''Water'',
        brd_question = ''Has the entity implemented a mechanism for Zero Liquid Discharge?'',
        brd_response = RespText, brd_unit = None, brd_mandatory = True, brd_core = True,
        brd_keys = [''water_recycled_kl'', ''water_discharged_kl''], brd_formula = None, brd_narrative = None \<rparr>,
     brsr_row \<lparr> brd_section = ''P6.E.6'', brd_principle = 6, brd_section_name = ''Water'',
        brd_question = ''Details related to water discharged by destination and level of treatment.'',
        brd_response = RespTable, brd_unit = Some ''kl'', brd_mandatory = True, brd_core = True,
        brd_keys = [''water_discharged_kl''], brd_formula = Some ''m.water_discharged_kl'', brd_narrative = None \<rparr>,
     brsr_row \<lparr> brd_section = ''P6.E.7'', brd_principle = 6, brd_section_name = ''Air'',
        brd_question = ''Details of air emissions (other than GHG) by the entity (NOx, SOx, PM, POP, VOC, HAP).'',
        brd_response = RespTable, brd_unit = Some ''kg'', brd_mandatory = True, brd_core = True,
        brd_keys = [''nox_kg'', ''sox_kg'', ''pm_kg'', ''voc_kg'', ''ods_kg''],
        brd_formula = Some ''m.nox_kg + m.sox_kg + m.pm_kg + m.voc_kg'',
        brd_narrative = Some ''Air emissions: NOx {{metric.nox_kg}} kg, SOx {{metric.sox_kg}} kg, PM {{metric.pm_kg}} kg, VOC {{metric.voc_kg}} kg.'' \<rparr>,
     brsr_row \<lparr> brd_section = ''P6.E.8'', brd_principle = 6, brd_section_name = ''GHG'',
        brd_question = ''Details of greenhouse gas emissions (Scope 1 and Scope 2 emissions) and their intensity.'',
        brd_response = RespTable, brd_unit = Some ''tco2e'', brd_mandatory = True, brd_core = True,
        brd_keys = [''scope1_total_tco2e'', ''scope1_stationary_tco2e'', ''scope1_mobile_tco2e'', ''scope1_process_tco2e'', ''scope1_fugitive_tco2e'', ''scope2_location_tco2e'', ''scope2_market_tco2e'', ''ghg_intensity_per_revenue''],
        brd_formula = Some ''m.scope1_total_tco2e + m.scope2_location_tco2e'',
        brd_narrative = Some ''Scope 1 emissions were {{metric.scope1_total_tco2e}} tCO2e and Scope 2 (location-based) were {{metric.scope2_location_tco2e}} tCO2e. Total GHG intensity was {{metric.ghg_intensity_per_revenue}} tCO2e per INR Crore revenue.'' \<rparr>]"

definition brsr_p6_2 :: "brsr_disclosure list" where
  "brsr_p6_2 = [
     brsr_row \<lparr> brd_section = ''P6.E.9'', brd_principle = 6, brd_section_name = ''GHG'',
        brd_question = ''Projects undertaken for reducing GHG emissions.'', brd_response = RespText,
        brd_unit = None, brd_mandatory = True, brd_core = False, brd_keys = [], brd_formula = None,
        brd_narrative = None \<rparr>,
     brsr_row \<lparr> brd_section = ''P6.E.10'', brd_principle = 6, brd_section_name = ''Waste'',
        brd_question = ''Details related to waste management by the entity (total waste generated, by category).'',
        brd_response = RespTable, brd_unit = Some ''kg'', brd_mandatory = True, brd_core = True,
        brd_keys = [''waste_hazardous_kg'', ''waste_non_hazardous_kg'', ''e_waste_kg'', ''plastic_waste_kg'', ''biomedical_waste_kg'', ''battery_waste_kg'', ''radioactive_waste_kg'', ''other_waste_kg'', ''waste_recycled_kg'', ''waste_to_landfill_kg'', ''waste_to_incineration_kg''],
        brd_formula = Some ''m.waste_hazardous_kg + m.waste_non_hazardous_kg + m.e_waste_kg + m.plastic_waste_kg + m.biomedical_waste_kg + m.battery_waste_kg + m.radioactive_waste_kg + m.other_waste_kg'',
        brd_narrative = Some ''Total waste generated: hazardous {{metric.waste_hazardous_kg}} kg, non-hazardous {{metric.waste_non_hazardous_kg}} kg, plastic {{metric.plastic_waste_kg}} kg, e-waste {{metric.e_waste_kg}} kg. Recycled: {{metric.waste_recycled_kg}} kg; landfilled: {{metric.waste_to_landfill_kg}} kg.'' \<rparr>,
     brsr_row \<lparr> brd_section = ''P6.E.11'', brd_principle = 6, brd_section_name = ''Waste'',
        brd_question = ''Practices adopted to manage waste.'', brd_response = RespText, brd_unit = None,
        brd_mandatory = True, brd_core = False, brd_keys = [], brd_formula = None, brd_narrative = None \<rparr>,
     brsr_row \<lparr> brd_section = ''P6.E.12'', brd_principle = 6, brd_section_name = ''Biodiversity'',
        brd_question = ''Operations in/around ecologically sensitive areas (national parks, wildlife sanctuaries, biosphere reserves, wetlands).'',
        brd_response = RespTable, brd_unit = None, brd_mandatory = True, brd_core = True,
        brd_keys = [''protected_area_sqkm''], brd_formula = Some ''m.protected_area_sqkm'', brd_narrative = None \<rparr>,
     brsr_row \<lparr> brd_section = ''P6.E.13'', brd_principle = 6, brd_section_name = ''Compliance'',
        brd_question = ''Details of significant direct and indirect environmental impacts of the entity.'',
        brd_response = RespText, brd_unit = None, brd_mandatory = True, brd_core = False,
        brd_keys = [''environmental_violations''], brd_formula = None, brd_narrative = None \<rparr>,
     brsr_row \<lparr> brd_section = ''P6.E.14'', brd_principle = 6, brd_section_name = ''Compliance'',
        brd_question = ''Is the entity compliant with the applicable environmental law/regulations/guidelines in India?'',
        brd_response = RespBoolean, brd_unit = None, brd_mandatory = True, brd_core = True,
        brd_keys = [''environmental_violations'', ''fines_paid_inr''], brd_formula = None, brd_narrative = None \<rparr>,
     brsr_row \<lparr> brd_section = ''P6.L.1'', brd_principle = 6, brd_section_name = ''Leadership indicators'',
        brd_question = ''Water withdrawal, consumption and discharge in areas of water stress.'',
        brd_response = RespTable, brd_unit = Some ''kl'', brd_mandatory = False, brd_core = False,
        brd_keys = [''water_withdrawn_total_kl'', ''water_consumed_kl'', ''water_discharged_kl''],
        brd_formula = None, brd_narrative = None \<rparr>,
     brsr_row \<lparr> brd_section = ''P6.L.2'', brd_principle = 6, brd_section_name = ''Leadership indicators'',
        brd_question = ''Total Scope 3 emissions and their intensity.'', brd_response = RespTable,
        brd_unit = Some ''tco2e'', brd_mandatory = False, brd_core = False, brd_keys = scope3_metric_keys,
        brd_formula = Some scope3_sum_formula,
        brd_narrative = Some ''Total Scope 3 emissions across all 15 categories were {{calc.scope3_total}} tCO2e.'' \<rparr>,
     brsr_row \<lparr> brd_section = ''P6.L.3'', brd_principle = 6, brd_section_name = ''Leadership indicators'',
        brd_question = ''Biodiversity impact for operations in/around ecologically sensitive areas.'',
        brd_response = RespText, brd_unit = None, brd_mandatory = False, brd_core = False,
        brd_keys = [''protected_area_sqkm'', ''land_disturbed_ha'', ''land_restored_ha''], brd_formula = None,
        brd_narrative = None \<rparr>]"

definition brsr_p6_3 :: "brsr_disclosure list" where
  "brsr_p6_3 = [
     brsr_row \<lparr> brd_section = ''P6.L.4'', brd_principle = 6, brd_section_name = ''Leadership indicators'',
        brd_question = ''Initiatives for cleaner technology, energy efficiency, renewable energy.'',
        brd_response = RespTable, brd_unit = None, brd_mandatory = False, brd_core = False,
        brd_keys = [''electricity_from_renewable_kwh''], brd_formula = None, brd_narrative = None \<rparr>,
     brsr_row \<lparr> brd_section = ''P6.L.5'', brd_principle = 6, brd_section_name = ''Leadership indicators'',
        brd_question = ''Does the entity have a business continuity and disaster management plan?'',
        brd_response = RespBoolean, brd_unit = None, brd_mandatory = False, brd_core = False,
        brd_keys = [''climate_risks_identified_count''], brd_formula = None, brd_narrative = None \<rparr>,
     brsr_row \<lparr> brd_section = ''P6.L.6'', brd_principle = 6, brd_section_name = ''Leadership indicators'',
        brd_question = ''Disclose any significant adverse impact to the environment, arising from the value chain of the entity.'',
        brd_response = RespText, brd_unit = None, brd_mandatory = False, brd_core = False, brd_keys = [],
        brd_formula = None, brd_narrative = None \<rparr>,
     brsr_row \<lparr> brd_section = ''P6.L.7'', brd_principle = 6, brd_section_name = ''Leadership indicators'',
        brd_question = ''Percentage of value chain partners assessed for environmental impacts.'',
        brd_response = RespPercentage, brd_unit = Some ''pct'', brd_mandatory = False, brd_core = False,
        brd_keys = [], brd_formula = None, brd_narrative = None \<rparr>]"

definition brsr_p6 :: "brsr_disclosure list" where
  "brsr_p6 = brsr_p6_1 @ brsr_p6_2 @ brsr_p6_3"

definition brsr_p7 :: "brsr_disclosure list" where
  "brsr_p7 = [
     brsr_row \<lparr> brd_section = ''P7.E.1'', brd_principle = 7, brd_section_name = ''Essential indicators'',
        brd_question = ''Number of affiliations with trade and industry chambers / associations.'',
        brd_response = RespNumeric, brd_unit = Some ''count'', brd_mandatory = True, brd_core = False,
        brd_keys = [], brd_formula = None, brd_narrative = None \<rparr>,
     brsr_row \<lparr> brd_section = ''P7.E.2'', brd_principle = 7, brd_section_name = ''Essential indicators'',
        brd_question = ''Top 10 trade and industry chambers / associations of which the entity is a member of / affiliated to.'',
        brd_response = RespTable, brd_unit = None, brd_mandatory = True, brd_core = False, brd_keys = [],
        brd_formula = None, brd_narrative = None \<rparr>,
     brsr_row \<lparr> brd_section = ''P7.E.3'', brd_principle = 7, brd_section_name = ''Essential indicators'',
        brd_question = ''Details of corrective action taken or underway on any issues related to anti-competitive conduct by the entity.'',
        brd_response = RespText, brd_unit = None, brd_mandatory = True, brd_core = False, brd_keys = [],
        brd_formula = None, brd_narrative = None \<rparr>,
     brsr_row \<lparr> brd_section = ''P7.L.1'', brd_principle = 7, brd_section_name = ''Leadership indicators'',
        brd_question = ''Details of public policy positions advocated by the entity.'', brd_response = RespTable,
        brd_unit = None, brd_mandatory = False, brd_core = False, brd_keys = [''political_contributions_inr''],
        brd_formula = None, brd_narrative = None \<rparr>]"

definition brsr_p8 :: "brsr_disclosure list" where
  "brsr_p8 = [
     brsr_row \<lparr> brd_section = ''P8.E.1'', brd_principle = 8, brd_section_name = ''Essential indicators'',
        brd_question = ''Details of Social Impact Assessments (SIA) of projects undertaken by the entity based on applicable laws.'',
        brd_response = RespTable, brd_unit = None, brd_mandatory = True, brd_core = False, brd_keys = [],
        brd_formula = None, brd_narrative = None \<rparr>,
     brsr_row \<lparr> brd_section = ''P8.E.2'', brd_principle = 8, brd_section_name = ''Essential indicators'',
        brd_question = ''Information on projects for which ongoing Rehabilitation and Resettlement (R&R) is being undertaken.'',
        brd_response = RespTable, brd_unit = None, brd_mandatory = True, brd_core = False,
        brd_keys = [''displacement_count''], brd_formula = Some ''m.displacement_count'', brd_narrative = None \<rparr>,
     brsr_row \<lparr> brd_section = ''P8.E.3'', brd_principle = 8, brd_section_name = ''Essential indicators'',
        brd_question = ''Describe the mechanisms to receive and redress grievances of the community.'',
        brd_response = RespText, brd_unit = None, brd_mandatory = True, brd_core = False, brd_keys = [],
        brd_formula = None, brd_narrative = None \<rparr>,
     brsr_row \<lparr> brd_section = ''P8.E.4'', brd_principle = 8, brd_section_name = ''Essential indicators'',
        brd_question = (''Percentage of input material (inputs to total inputs by value) sourced from suppliers '' @ [CHR 0xE2, CHR 0x80, CHR 0x94] @ '' directly from MSMEs / small producers / from within the district and neighbouring districts.''),
        brd_response = RespPercentage, brd_unit = Some ''pct'', brd_mandatory = True, brd_core = True,
        brd_keys = [], brd_formula = None, brd_narrative = None \<rparr>,
     brsr_row \<lparr> brd_section = ''P8.E.5'', brd_principle = 8, brd_section_name = ''Essential indicators'',
        brd_question = ''Job creation in smaller towns (% of new hires).'', brd_response = RespPercentage,
        brd_unit = Some ''pct'', brd_mandatory = True, brd_core = True, brd_keys = [''employee_new_hires''],
        brd_formula = None, brd_narrative = None \<rparr>,
     brsr_row \<lparr> brd_section = ''P8.L.1'', brd_principle = 8, brd_section_name = ''Leadership indicators'',
        brd_question = ''Provide details of actions taken to mitigate any negative social impacts identified in SIA.'',
        brd_response = RespText, brd_unit = None, brd_mandatory = False, brd_core = False, brd_keys = [],
        brd_formula = None, brd_narrative = None \<rparr>,
     brsr_row \<lparr> brd_section = ''P8.L.2'', brd_principle = 8, brd_section_name = ''Leadership indicators'',
        brd_question = ''CSR projects undertaken by your entity in designated aspirational districts identified by the government.'',
        brd_response = RespTable, brd_unit = None, brd_mandatory = False, brd_core = False,
        brd_keys = [''csr_spend_inr'', ''csr_beneficiaries_count''], brd_formula = Some ''m.csr_spend_inr'',
        brd_narrative = Some ''CSR spend during the period was INR {{metric.csr_spend_inr}}, reaching {{metric.csr_beneficiaries_count}} beneficiaries.'' \<rparr>,
     brsr_row \<lparr> brd_section = ''P8.L.3'', brd_principle = 8, brd_section_name = ''Leadership indicators'',
        brd_question = ''Preferential procurement policy giving preference to purchase from suppliers comprising marginalized / vulnerable groups.'',
        brd_response = RespBoolean, brd_unit = None, brd_mandatory = False, brd_core = False, brd_keys = [],
        brd_formula = None, brd_narrative = None \<rparr>,
     brsr_row \<lparr> brd_section = ''P8.L.4'', brd_principle = 8, brd_section_name = ''Leadership indicators'',
        brd_question = ''Benefits derived and shared from the intellectual properties owned or acquired by your entity (based on traditional knowledge).'',
        brd_response = RespText, brd_unit = None, brd_mandatory = False, brd_core = False, brd_keys = [],
        brd_formula = None, brd_narrative = None \<rparr>,
     brsr_row \<lparr> brd_section = ''P8.L.5'', brd_principle = 8, brd_section_name = ''Leadership indicators'',
        brd_question = (''CSR '' @ [CHR 0xE2, CHR 0x80, CHR 0x94] @ '' beneficiaries from designated aspirational districts / SC/ST / OBC / women / PwD.''),
        brd_response = RespPercentage, brd_unit = Some ''pct'', brd_mandatory = False, brd_core = False,
        brd_keys = [''csr_beneficiaries_count''], brd_formula = None, brd_narrative = None \<rparr>]"

definition brsr_p9_1 :: "brsr_disclosure list" where
  "brsr_p9_1 = [
     brsr_row \<lparr> brd_section = ''P9.E.1'', brd_principle = 9, brd_section_name = ''Essential indicators'',
        brd_question = ''Describe the mechanisms in place to receive and respond to consumer complaints and feedback.'',
        brd_response = RespText, brd_unit = None, brd_mandatory = True, brd_core = False,
        brd_keys = [''customer_complaints_received'', ''customer_complaints_resolved''], brd_formula = None,
        brd_narrative = None \<rparr>,
     brsr_row \<lparr> brd_section = ''P9.E.2'', brd_principle = 9, brd_section_name = ''Essential indicators'',
        brd_question = ''Turnover of products and services as a percentage of turnover from all products / services that carry information about environmental and social parameters relevant to the product.'',
        brd_response = RespPercentage, brd_unit = Some ''pct'', brd_mandatory = True, brd_core = True,
        brd_keys = [], brd_formula = None, brd_narrative = None \<rparr>,
     brsr_row \<lparr> brd_section = ''P9.E.3'', brd_principle = 9, brd_section_name = ''Essential indicators'',
        brd_question = ''Number of consumer complaints in respect of the following (data privacy, advertising, cybersecurity, delivery of essential services, restrictive trade practices, unfair trade practices, other).'',
        brd_response = RespTable, brd_unit = Some ''count'', brd_mandatory = True, brd_core = True,
        brd_keys = [''customer_complaints_received'', ''customer_complaints_resolved'', ''data_breach_count''],
        brd_formula = Some ''m.customer_complaints_received'',
        brd_narrative = Some ''Customer complaints received: {{metric.customer_complaints_received}}; resolved: {{metric.customer_complaints_resolved}}. Data breaches: {{metric.data_breach_count}}.'' \<rparr>,
     brsr_row \<lparr> brd_section = ''P9.E.4'', brd_principle = 9, brd_section_name = ''Essential indicators'',
        brd_question = ''Details of instances of product recalls on account of safety issues.'',
        brd_response = RespTable, brd_unit = Some ''count'', brd_mandatory = True, brd_core = True,
        brd_keys = [''product_recall_count''], brd_formula = Some ''m.product_recall_count'',
        brd_narrative = Some ''There were {{metric.product_recall_count}} product recalls during the reporting period.'' \<rparr>,
     brsr_row \<lparr> brd_section = ''P9.E.5'', brd_principle = 9, brd_section_name = ''Essential indicators'',
        brd_question = ''Does the entity have a framework / policy on cyber security and risks related to data privacy?'',
        brd_response = RespBoolean, brd_unit = None, brd_mandatory = True, brd_core = True,
        brd_keys = [''data_breach_count''], brd_formula = None, brd_narrative = None \<rparr>,
     brsr_row \<lparr> brd_section = ''P9.E.6'', brd_principle = 9, brd_section_name = ''Essential indicators'',
        brd_question = ''Provide details of any corrective actions taken or underway on issues relating to advertising, and delivery of essential services; cyber security and data privacy of customers; re-occurrence of instances of product recalls; penalty / action taken by regulatory authorities on safety of products / services.'',
        brd_response = RespText, brd_unit = None, brd_mandatory = True, brd_core = True,
        brd_keys = [''data_breach_count'', ''product_recall_count'', ''fines_paid_inr''], brd_formula = None,
        brd_narrative = None \<rparr>,
     brsr_row \<lparr> brd_section = ''P9.L.1'', brd_principle = 9, brd_section_name = ''Leadership indicators'',
        brd_question = ''Channels / platforms where information on products and services of the entity can be accessed.'',
        brd_response = RespText, brd_unit = None, brd_mandatory = False, brd_core = False, brd_keys = [],
        brd_formula = None, brd_narrative = None \<rparr>,
     brsr_row \<lparr> brd_section = ''P9.L.2'', brd_principle = 9, brd_section_name = ''Leadership indicators'',
        brd_question = ''Steps taken to inform and educate consumers about safe and responsible usage of products and / or services.'',
        brd_response = RespText, brd_unit = None, brd_mandatory = False, brd_core = False, brd_keys = [],
        brd_formula = None, brd_narrative = None \<rparr>,
     brsr_row \<lparr> brd_section = ''P9.L.3'', brd_principle = 9, brd_section_name = ''Leadership indicators'',
        brd_question = ''Mechanisms in place to inform consumers of any risk of disruption / discontinuation of essential services.'',
        brd_response = RespText, brd_unit = None, brd_mandatory = False, brd_core = False, brd_keys = [],
        brd_formula = None, brd_narrative = None \<rparr>,
     brsr_row \<lparr> brd_section = ''P9.L.4'', brd_principle = 9, brd_section_name = ''Leadership indicators'',
        brd_question = ''Customer satisfaction score, methodology and trend.'', brd_response = RespNumeric,
        brd_unit = Some ''score'', brd_mandatory = False, brd_core = False,
        brd_keys = [''customer_satisfaction_score''], brd_formula = Some ''m.customer_satisfaction_score'',
        brd_narrative = Some ''Customer satisfaction score was {{metric.customer_satisfaction_score}} for the period.'' \<rparr>]"

definition brsr_p9_2 :: "brsr_disclosure list" where
  "brsr_p9_2 = [
     brsr_row \<lparr> brd_section = ''P9.L.5'', brd_principle = 9, brd_section_name = ''Leadership indicators'',
        brd_question = ''Information on data breaches: number, percentage involving personally identifiable information, number of customers / data subjects affected.'',
        brd_response = RespTable, brd_unit = Some ''count'', brd_mandatory = False, brd_core = True,
        brd_keys = [''data_breach_count'', ''data_subjects_affected''],
        brd_formula = Some ''m.data_breach_count'',
        brd_narrative = Some ''{{metric.data_breach_count}} data breaches affecting {{metric.data_subjects_affected}} data subjects were reported during the period.'' \<rparr>]"

definition brsr_p9 :: "brsr_disclosure list" where
  "brsr_p9 = brsr_p9_1 @ brsr_p9_2"

section \<open>Generated disclosures\<close>

definition board_row :: "nat \<Rightarrow> string \<Rightarrow> string \<Rightarrow> brsr_disclosure" where
  "board_row p suffix question = brsr_row
     \<lparr> brd_section = ''P'' @ show_nat p @ suffix, brd_principle = p, brd_section_name = ''Board oversight'',
       brd_question = question, brd_response = RespText, brd_unit = None, brd_mandatory = True,
       brd_core = False, brd_keys = [], brd_formula = None, brd_narrative = None \<rparr>"

definition expand_board_oversight :: "brsr_disclosure list" where
  "expand_board_oversight = concat (map (\<lambda>p.
     [board_row p ''.B.1'' ''Whether the Board reviewed performance against this Principle during the year; frequency of review.'',
      board_row p ''.B.2'' ''Performance of the entity against the policies/principles for the financial year. Specific commitments / targets / goals set out by the entity.''])
     [1..<10])"

definition sub_categories :: "(nat \<times> string \<times> string) list" where
  "sub_categories = [
     (3, ''8a'', ''training - permanent employees''),
     (3, ''8b'', ''training - permanent workers''),
     (3, ''8c'', ''training - other than permanent employees''),
     (3, ''8d'', ''training - other than permanent workers''),
     (5, ''6a'', ''complaints - sexual harassment''),
     (5, ''6b'', ''complaints - discrimination at workplace''),
     (5, ''6c'', ''complaints - child labour''),
     (5, ''6d'', ''complaints - forced labour''),
     (5, ''6e'', ''complaints - involuntary labour''),
     (5, ''6f'', ''complaints - wages''),
     (6, ''1a'', ''energy - electricity''),
     (6, ''1b'', ''energy - fuel''),
     (6, ''1c'', ''energy - other sources''),
     (6, ''8a'', ''ghg - scope 1''),
     (6, ''8b'', ''ghg - scope 2''),
     (6, ''10a'', ''waste - hazardous''),
     (6, ''10b'', ''waste - non hazardous''),
     (6, ''10c'', ''waste - plastic''),
     (6, ''10d'', ''waste - e-waste''),
     (6, ''10e'', ''waste - bio-medical''),
     (6, ''10f'', ''waste - radioactive''),
     (6, ''10g'', ''waste - other''),
     (9, ''3a'', ''complaints - data privacy''),
     (9, ''3b'', ''complaints - advertising''),
     (9, ''3c'', ''complaints - cyber security''),
     (9, ''3d'', ''complaints - delivery of essential services''),
     (9, ''3e'', ''complaints - restrictive trade practices''),
     (9, ''3f'', ''complaints - unfair trade practices''),
     (9, ''3g'', ''complaints - other'')]"

definition sub_row :: "nat \<times> string \<times> string \<Rightarrow> brsr_disclosure" where
  "sub_row c = (case c of (p, sub, label) \<Rightarrow> brsr_row
     \<lparr> brd_section = ''P'' @ show_nat p @ ''.E.'' @ sub, brd_principle = p, brd_section_name = ''Sub-disclosure'',
       brd_question = ''Details of '' @ label @ '' (sub-breakout under Principle '' @ show_nat p @ '').'',
       brd_response = RespTable, brd_unit = None, brd_mandatory = True, brd_core = (p = 6),
       brd_keys = [], brd_formula = None, brd_narrative = None \<rparr>)"

definition expand_sub_breakouts :: "brsr_disclosure list" where
  "expand_sub_breakouts = map sub_row sub_categories"

section \<open>The schedule\<close>

definition brsr_disclosures :: "brsr_disclosure list" where
  "brsr_disclosures = brsr_section_a @ brsr_section_b @ brsr_p1 @ brsr_p2 @ brsr_p3 @ brsr_p4 @ brsr_p5 @
     brsr_p6 @ brsr_p7 @ brsr_p8 @ brsr_p9 @ expand_board_oversight @ expand_sub_breakouts"

definition brsr_section_ids :: "string list" where
  "brsr_section_ids = map brd_section brsr_disclosures"

definition get_brsr_core :: "brsr_disclosure list" where
  "get_brsr_core = filter brd_core brsr_disclosures"

definition get_brsr_by_principle :: "nat \<Rightarrow> brsr_disclosure list" where
  "get_brsr_by_principle p = filter (\<lambda>x. brd_principle x = p) brsr_disclosures"

end
