(* ===== verification/Fw_Gri.thy ===== *)
theory Fw_Gri
  imports Fw_Base
begin

text \<open>
  The GRI disclosures (packages/frameworks/src/frameworks/gri.ts).
\<close>


definition gri_universal :: "gri_disclosure list" where
  "gri_universal = [
     \<lparr> grd_section = ''GRI 2-1'', grd_standard = 2, grd_standard_name = ''General Disclosures 2021'',
        grd_number = ''2-1'', grd_question = ''Organisational details.'', grd_response = RespText,
        grd_unit = None, grd_mandatory = True, grd_keys = [], grd_formula = None, grd_narrative = None \<rparr>,
     \<lparr> grd_section = ''GRI 2-7'', grd_standard = 2, grd_standard_name = ''General Disclosures 2021'',
        grd_number = ''2-7'', grd_question = ''Employees - total number, by gender and region.'',
        grd_response = RespTable, grd_unit = Some ''count'', grd_mandatory = True,
        grd_keys = [''employee_count_total'', ''employee_count_male'', ''employee_count_female'', ''employee_count_perm'', ''employee_count_temp''],
        grd_formula = Some ''m.employee_count_total'',
        grd_narrative = Some ''Total employees: {{metric.employee_count_total}} ({{metric.employee_count_male}} male; {{metric.employee_count_female}} female).'' \<rparr>,
     \<lparr> grd_section = ''GRI 2-8'', grd_standard = 2, grd_standard_name = ''General Disclosures 2021'',
        grd_number = ''2-8'', grd_question = ''Workers who are not employees.'', grd_response = RespNumeric,
        grd_unit = Some ''count'', grd_mandatory = True, grd_keys = [''employee_count_contract''],
        grd_formula = Some ''m.employee_count_contract'', grd_narrative = None \<rparr>,
     \<lparr> grd_section = ''GRI 2-9'', grd_standard = 2, grd_standard_name = ''General Disclosures 2021'',
        grd_number = ''2-9'', grd_question = ''Governance structure and composition.'', grd_response = RespTable,
        grd_unit = None, grd_mandatory = True,
        grd_keys = [''board_size'', ''independent_directors_count'', ''women_directors_count''],
        grd_formula = None, grd_narrative = None \<rparr>,
     \<lparr> grd_section = ''GRI 2-27'', grd_standard = 2, grd_standard_name = ''General Disclosures 2021'',
        grd_number = ''2-27'', grd_question = ''Compliance with laws and regulations.'',
        grd_response = RespTable, grd_unit = None, grd_mandatory = True,
        grd_keys = [''regulatory_actions_count'', ''fines_paid_inr''], grd_formula = Some ''m.fines_paid_inr'',
        grd_narrative = None \<rparr>,
     \<lparr> grd_section = ''GRI 3-1'', grd_standard = 3, grd_standard_name = ''Material Topics 2021'',
        grd_number = ''3-1'', grd_question = ''Process to determine material topics.'', grd_response = RespText,
        grd_unit = None, grd_mandatory = True, grd_keys = [], grd_formula = None, grd_narrative = None \<rparr>,
     \<lparr> grd_section = ''GRI 3-2'', grd_standard = 3, grd_standard_name = ''Material Topics 2021'',
        grd_number = ''3-2'', grd_question = ''List of material topics.'', grd_response = RespTable,
        grd_unit = None, grd_mandatory = True, grd_keys = [], grd_formula = None, grd_narrative = None \<rparr>,
     \<lparr> grd_section = ''GRI 3-3'', grd_standard = 3, grd_standard_name = ''Material Topics 2021'',
        grd_number = ''3-3'', grd_question = ''Management of material topics.'', grd_response = RespText,
        grd_unit = None, grd_mandatory = True, grd_keys = [], grd_formula = None, grd_narrative = None \<rparr>]"

definition gri_energy :: "gri_disclosure list" where
  "gri_energy = [
     \<lparr> grd_section = ''GRI 302-1'', grd_standard = 302, grd_standard_name = ''Energy 2016'',
        grd_number = ''302-1'',
        grd_question = ''Energy consumption within the organisation (renewable + non-renewable, electricity, heating, cooling, steam).'',
        grd_response = RespTable, grd_unit = Some ''gj'', grd_mandatory = True,
        grd_keys = [''electricity_kwh'', ''electricity_from_renewable_kwh'', ''electricity_from_grid_kwh'', ''diesel_l'', ''petrol_l'', ''lpg_kg'', ''lng_kg'', ''png_scm'', ''coal_tonnes'', ''biomass_tonnes'', ''steam_purchased_gj'', ''total_energy_consumed_gj''],
        grd_formula = Some ''m.total_energy_consumed_gj'',
        grd_narrative = Some ''Total energy consumed within the organisation: {{metric.total_energy_consumed_gj}} GJ. Renewable share: {{metric.electricity_from_renewable_kwh}} kWh of the total.'' \<rparr>,
     \<lparr> grd_section = ''GRI 302-2'', grd_standard = 302, grd_standard_name = ''Energy 2016'',
        grd_number = ''302-2'', grd_question = ''Energy consumption outside of the organisation.'',
        grd_response = RespNumeric, grd_unit = Some ''gj'', grd_mandatory = False,
        grd_keys = [''scope3_cat3_tco2e'', ''scope3_cat4_tco2e'', ''scope3_cat6_tco2e'', ''scope3_cat7_tco2e''],
        grd_formula = None, grd_narrative = None \<rparr>,
     \<lparr> grd_section = ''GRI 302-3'', grd_standard = 302, grd_standard_name = ''Energy 2016'',
        grd_number = ''302-3'', grd_question = ''Energy intensity.'', grd_response = RespNumeric,
        grd_unit = Some ''gj_per_inr_crore'', grd_mandatory = False,
        grd_keys = [''energy_intensity_per_revenue'', ''energy_intensity_per_employee''],
        grd_formula = Some ''m.energy_intensity_per_revenue'',
        grd_narrative = Some ''Energy intensity: {{metric.energy_intensity_per_revenue}} GJ per INR Crore revenue.'' \<rparr>,
     \<lparr> grd_section = ''GRI 302-4'', grd_standard = 302, grd_standard_name = ''Energy 2016'',
        grd_number = ''302-4'', grd_question = ''Reduction of energy consumption.'', grd_response = RespNumeric,
        grd_unit = Some ''gj'', grd_mandatory = False, grd_keys = [''total_energy_consumed_gj''],
        grd_formula = None, grd_narrative = None \<rparr>,
     \<lparr> grd_section = ''GRI 302-5'', grd_standard = 302, grd_standard_name = ''Energy 2016'',
        grd_number = ''302-5'', grd_question = ''Reductions in energy requirements of products and services.'',
        grd_response = RespText, grd_unit = None, grd_mandatory = False, grd_keys = [], grd_formula = None,
        grd_narrative = None \<rparr>]"

definition gri_water :: "gri_disclosure list" where
  "gri_water = [
     \<lparr> grd_section = ''GRI 303-1'', grd_standard = 303, grd_standard_name = ''Water and Effluents 2018'',
        grd_number = ''303-1'', grd_question = ''Interactions with water as a shared resource.'',
        grd_response = RespText, grd_unit = None, grd_mandatory = True, grd_keys = [], grd_formula = None,
        grd_narrative = None \<rparr>,
     \<lparr> grd_section = ''GRI 303-2'', grd_standard = 303, grd_standard_name = ''Water and Effluents 2018'',
        grd_number = ''303-2'', grd_question = ''Management of water discharge-related impacts.'',
        grd_response = RespText, grd_unit = None, grd_mandatory = True, grd_keys = [''water_discharged_kl''],
        grd_formula = None, grd_narrative = None \<rparr>,
     \<lparr> grd_section = ''GRI 303-3'', grd_standard = 303, grd_standard_name = ''Water and Effluents 2018'',
        grd_number = ''303-3'',
        grd_question = ''Water withdrawal by source (surface, ground, seawater, produced, third-party).'',
        grd_response = RespTable, grd_unit = Some ''kl'', grd_mandatory = True,
        grd_keys = [''water_withdrawn_kl_groundwater'', ''water_withdrawn_kl_surface'', ''water_withdrawn_kl_third_party'', ''water_withdrawn_kl_seawater'', ''water_withdrawn_kl_produced'', ''water_withdrawn_total_kl''],
        grd_formula = Some ''m.water_withdrawn_total_kl'',
        grd_narrative = Some ''Water withdrawal: {{metric.water_withdrawn_total_kl}} KL (ground {{metric.water_withdrawn_kl_groundwater}}, surface {{metric.water_withdrawn_kl_surface}}, third-party {{metric.water_withdrawn_kl_third_party}}).'' \<rparr>,
     \<lparr> grd_section = ''GRI 303-4'', grd_standard = 303, grd_standard_name = ''Water and Effluents 2018'',
        grd_number = ''303-4'',
        grd_question = ''Water discharge by destination, treatment level and priority substances.'',
        grd_response = RespTable, grd_unit = Some ''kl'', grd_mandatory = True,
        grd_keys = [''water_discharged_kl''], grd_formula = Some ''m.water_discharged_kl'', grd_narrative = None \<rparr>,
     \<lparr> grd_section = ''GRI 303-5'', grd_standard = 303, grd_standard_name = ''Water and Effluents 2018'',
        grd_number = ''303-5'', grd_question = ''Water consumption.'', grd_response = RespNumeric,
        grd_unit = Some ''kl'', grd_mandatory = True,
        grd_keys = [''water_consumed_kl'', ''water_recycled_kl'', ''water_intensity_per_revenue''],
        grd_formula = Some ''m.water_consumed_kl'',
        grd_narrative = Some ''Water consumption: {{metric.water_consumed_kl}} KL. Water recycled: {{metric.water_recycled_kl}} KL.'' \<rparr>]"

definition gri_emissions :: "gri_disclosure list" where
  "gri_emissions = [
     \<lparr> grd_section = ''GRI 305-1'', grd_standard = 305, grd_standard_name = ''Emissions 2016'',
        grd_number = ''305-1'', grd_question = ''Direct (Scope 1) GHG emissions.'', grd_response = RespNumeric,
        grd_unit = Some ''tco2e'', grd_mandatory = True,
        grd_keys = [''scope1_total_tco2e'', ''scope1_stationary_tco2e'', ''scope1_mobile_tco2e'', ''scope1_process_tco2e'', ''scope1_fugitive_tco2e''],
        grd_formula = Some ''m.scope1_total_tco2e'',
        grd_narrative = Some ''Scope 1 emissions: {{metric.scope1_total_tco2e}} tCO2e (stationary {{metric.scope1_stationary_tco2e}}, mobile {{metric.scope1_mobile_tco2e}}, process {{metric.scope1_process_tco2e}}, fugitive {{metric.scope1_fugitive_tco2e}}).'' \<rparr>,
     \<lparr> grd_section = ''GRI 305-2'', grd_standard = 305, grd_standard_name = ''Emissions 2016'',
        grd_number = ''305-2'',
        grd_question = ''Energy indirect (Scope 2) GHG emissions (location-based and market-based).'',
        grd_response = RespTable, grd_unit = Some ''tco2e'', grd_mandatory = True,
        grd_keys = [''scope2_location_tco2e'', ''scope2_market_tco2e''],
        grd_formula = Some ''m.scope2_location_tco2e'',
        grd_narrative = Some ''Scope 2 emissions: location-based {{metric.scope2_location_tco2e}} tCO2e; market-based {{metric.scope2_market_tco2e}} tCO2e.'' \<rparr>,
     \<lparr> grd_section = ''GRI 305-3'', grd_standard = 305, grd_standard_name = ''Emissions 2016'',
        grd_number = ''305-3'', grd_question = ''Other indirect (Scope 3) GHG emissions by category.'',
        grd_response = RespTable, grd_unit = Some ''tco2e'', grd_mandatory = False,
        grd_keys = scope3_metric_keys, grd_formula = Some scope3_sum_formula,
        grd_narrative = Some ''Scope 3 emissions across all 15 categories: {{calc.scope3_total}} tCO2e.'' \<rparr>,
     \<lparr> grd_section = ''GRI 305-4'', grd_standard = 305, grd_standard_name = ''Emissions 2016'',
        grd_number = ''305-4'', grd_question = ''GHG emissions intensity.'', grd_response = RespNumeric,
        grd_unit = Some ''tco2e_per_inr_crore'', grd_mandatory = False,
        grd_keys = [''ghg_intensity_per_revenue'', ''ghg_intensity_per_unit_output''],
        grd_formula = Some ''m.ghg_intensity_per_revenue'', grd_narrative = None \<rparr>,
     \<lparr> grd_section = ''GRI 305-5'', grd_standard = 305, grd_standard_name = ''Emissions 2016'',
        grd_number = ''305-5'', grd_question = ''Reduction of GHG emissions.'', grd_response = RespNumeric,
        grd_unit = Some ''tco2e'', grd_mandatory = False,
        grd_keys = [''scope1_total_tco2e'', ''scope2_location_tco2e''], grd_formula = None, grd_narrative = None \<rparr>,
     \<lparr> grd_section = ''GRI 305-6'', grd_standard = 305, grd_standard_name = ''Emissions 2016'',
        grd_number = ''305-6'', grd_question = ''Emissions of ozone-depleting substances (ODS).'',
        grd_response = RespNumeric, grd_unit = Some ''kg'', grd_mandatory = False, grd_keys = [''ods_kg''],
        grd_formula = Some ''m.ods_kg'', grd_narrative = None \<rparr>,
     \<lparr> grd_section = ''GRI 305-7'', grd_standard = 305, grd_standard_name = ''Emissions 2016'',
        grd_number = ''305-7'', grd_question = ''NOx, SOx, and other significant air emissions.'',
        grd_response = RespTable, grd_unit = Some ''kg'', grd_mandatory = True,
        grd_keys = [''nox_kg'', ''sox_kg'', ''pm_kg'', ''voc_kg''],
        grd_formula = Some ''m.nox_kg + m.sox_kg + m.pm_kg + m.voc_kg'',
        grd_narrative = Some ''Air emissions other than GHG: NOx {{metric.nox_kg}} kg; SOx {{metric.sox_kg}} kg; PM {{metric.pm_kg}} kg; VOC {{metric.voc_kg}} kg.'' \<rparr>]"

definition gri_waste :: "gri_disclosure list" where
  "gri_waste = [
     \<lparr> grd_section = ''GRI 306-1'', grd_standard = 306, grd_standard_name = ''Waste 2020'',
        grd_number = ''306-1'', grd_question = ''Waste generation and significant waste-related impacts.'',
        grd_response = RespText, grd_unit = None, grd_mandatory = True, grd_keys = [], grd_formula = None,
        grd_narrative = None \<rparr>,
     \<lparr> grd_section = ''GRI 306-2'', grd_standard = 306, grd_standard_name = ''Waste 2020'',
        grd_number = ''306-2'', grd_question = ''Management of significant waste-related impacts.'',
        grd_response = RespText, grd_unit = None, grd_mandatory = True, grd_keys = [], grd_formula = None,
        grd_narrative = None \<rparr>,
     \<lparr> grd_section = ''GRI 306-3'', grd_standard = 306, grd_standard_name = ''Waste 2020'',
        grd_number = ''306-3'', grd_question = ''Waste generated.'', grd_response = RespTable,
        grd_unit = Some ''kg'', grd_mandatory = True,
        grd_keys = [''waste_hazardous_kg'', ''waste_non_hazardous_kg'', ''e_waste_kg'', ''plastic_waste_kg'', ''biomedical_waste_kg'', ''battery_waste_kg'', ''radioactive_waste_kg'', ''other_waste_kg''],
        grd_formula = Some ''m.waste_hazardous_kg + m.waste_non_hazardous_kg + m.e_waste_kg + m.plastic_waste_kg + m.biomedical_waste_kg + m.battery_waste_kg + m.radioactive_waste_kg + m.other_waste_kg'',
        grd_narrative = Some ''Total waste generated: hazardous {{metric.waste_hazardous_kg}} kg; non-hazardous {{metric.waste_non_hazardous_kg}} kg.'' \<rparr>,
     \<lparr> grd_section = ''GRI 306-4'', grd_standard = 306, grd_standard_name = ''Waste 2020'',
        grd_number = ''306-4'', grd_question = ''Waste diverted from disposal (recycling, reuse).'',
        grd_response = RespNumeric, grd_unit = Some ''kg'', grd_mandatory = True,
        grd_keys = [''waste_recycled_kg''], grd_formula = Some ''m.waste_recycled_kg'', grd_narrative = None \<rparr>,
     \<lparr> grd_section = ''GRI 306-5'', grd_standard = 306, grd_standard_name = ''Waste 2020'',
        grd_number = ''306-5'', grd_question = ''Waste directed to disposal (landfill, incineration).'',
        grd_response = RespTable, grd_unit = Some ''kg'', grd_mandatory = True,
        grd_keys = [''waste_to_landfill_kg'', ''waste_to_incineration_kg''],
        grd_formula = Some ''m.waste_to_landfill_kg + m.waste_to_incineration_kg'', grd_narrative = None \<rparr>]"

definition gri_employment :: "gri_disclosure list" where
  "gri_employment = [
     \<lparr> grd_section = ''GRI 401-1'', grd_standard = 401, grd_standard_name = ''Employment 2016'',
        grd_number = ''401-1'',
        grd_question = ''New employee hires and employee turnover, by age group and gender.'',
        grd_response = RespTable, grd_unit = Some ''count'', grd_mandatory = True,
        grd_keys = [''employee_new_hires'', ''employee_turnover''], grd_formula = None,
        grd_narrative = Some ''New hires: {{metric.employee_new_hires}}; exits: {{metric.employee_turnover}}.'' \<rparr>,
     \<lparr> grd_section = ''GRI 401-2'', grd_standard = 401, grd_standard_name = ''Employment 2016'',
        grd_number = ''401-2'',
        grd_question = ''Benefits provided to full-time employees not provided to temporary or part-time employees.'',
        grd_response = RespText, grd_unit = None, grd_mandatory = False, grd_keys = [], grd_formula = None,
        grd_narrative = None \<rparr>,
     \<lparr> grd_section = ''GRI 401-3'', grd_standard = 401, grd_standard_name = ''Employment 2016'',
        grd_number = ''401-3'', grd_question = ''Parental leave.'', grd_response = RespTable, grd_unit = None,
        grd_mandatory = True, grd_keys = [], grd_formula = None, grd_narrative = None \<rparr>]"

definition gri_health_safety :: "gri_disclosure list" where
  "gri_health_safety = [
     \<lparr> grd_section = ''GRI 403-1'', grd_standard = 403,
        grd_standard_name = ''Occupational Health and Safety 2018'', grd_number = ''403-1'',
        grd_question = ''Occupational health and safety management system.'', grd_response = RespText,
        grd_unit = None, grd_mandatory = True, grd_keys = [], grd_formula = None, grd_narrative = None \<rparr>,
     \<lparr> grd_section = ''GRI 403-2'', grd_standard = 403,
        grd_standard_name = ''Occupational Health and Safety 2018'', grd_number = ''403-2'',
        grd_question = ''Hazard identification, risk assessment, and incident investigation.'',
        grd_response = RespText, grd_unit = None, grd_mandatory = True, grd_keys = [''near_miss_count''],
        grd_formula = None, grd_narrative = None \<rparr>,
     \<lparr> grd_section = ''GRI 403-3'', grd_standard = 403,
        grd_standard_name = ''Occupational Health and Safety 2018'', grd_number = ''403-3'',
        grd_question = ''Occupational health services.'', grd_response = RespText, grd_unit = None,
        grd_mandatory = True, grd_keys = [], grd_formula = None, grd_narrative = None \<rparr>,
     \<lparr> grd_section = ''GRI 403-4'', grd_standard = 403,
        grd_standard_name = ''Occupational Health and Safety 2018'', grd_number = ''403-4'',
        grd_question = ''Worker participation, consultation, and communication on OH&S.'',
        grd_response = RespText, grd_unit = None, grd_mandatory = True, grd_keys = [], grd_formula = None,
        grd_narrative = None \<rparr>,
     \<lparr> grd_section = ''GRI 403-5'', grd_standard = 403,
        grd_standard_name = ''Occupational Health and Safety 2018'', grd_number = ''403-5'',
        grd_question = ''Worker training on occupational health and safety.'', grd_response = RespPercentage,
        grd_unit = Some ''pct'', grd_mandatory = True,
        grd_keys = [''safety_training_coverage_pct'', ''training_hours_ehs''],
        grd_formula = Some ''m.safety_training_coverage_pct'', grd_narrative = None \<rparr>,
     \<lparr> grd_section = ''GRI 403-6'', grd_standard = 403,
        grd_standard_name = ''Occupational Health and Safety 2018'', grd_number = ''403-6'',
        grd_question = ''Promotion of worker health.'', grd_response = RespText, grd_unit = None,
        grd_mandatory = True, grd_keys = [], grd_formula = None, grd_narrative = None \<rparr>,
     \<lparr> grd_section = ''GRI 403-7'', grd_standard = 403,
        grd_standard_name = ''Occupational Health and Safety 2018'', grd_number = ''403-7'',
        grd_question = ''Prevention and mitigation of OH&S impacts directly linked by business relationships.'',
        grd_response = RespText, grd_unit = None, grd_mandatory = True, grd_keys = [], grd_formula = None,
        grd_narrative = None \<rparr>,
     \<lparr> grd_section = ''GRI 403-8'', grd_standard = 403,
        grd_standard_name = ''Occupational Health and Safety 2018'', grd_number = ''403-8'',
        grd_question = ''Workers covered by an occupational health and safety management system.'',
        grd_response = RespPercentage, grd_unit = Some ''pct'', grd_mandatory = True, grd_keys = [],
        grd_formula = None, grd_narrative = None \<rparr>,
     \<lparr> grd_section = ''GRI 403-9'', grd_standard = 403,
        grd_standard_name = ''Occupational Health and Safety 2018'', grd_number = ''403-9'',
        grd_question = ''Work-related injuries (rates and number).'', grd_response = RespTable,
        grd_unit = Some ''count'', grd_mandatory = True,
        grd_keys = [''ltifr'', ''trifr'', ''fatality_count_employees'', ''fatality_count_contractors''],
        grd_formula = Some ''m.fatality_count_employees + m.fatality_count_contractors'',
        grd_narrative = Some ''LTIFR {{metric.ltifr}}; TRIFR {{metric.trifr}}; fatalities (employees {{metric.fatality_count_employees}}, contractors {{metric.fatality_count_contractors}}).'' \<rparr>,
     \<lparr> grd_section = ''GRI 403-10'', grd_standard = 403,
        grd_standard_name = ''Occupational Health and Safety 2018'', grd_number = ''403-10'',
        grd_question = ''Work-related ill health.'', grd_response = RespNumeric, grd_unit = Some ''count'',
        grd_mandatory = True, grd_keys = [''occupational_disease_cases''],
        grd_formula = Some ''m.occupational_disease_cases'', grd_narrative = None \<rparr>]"

definition gri_training :: "gri_disclosure list" where
  "gri_training = [
     \<lparr> grd_section = ''GRI 404-1'', grd_standard = 404, grd_standard_name = ''Training and Education 2016'',
        grd_number = ''404-1'',
        grd_question = ''Average hours of training per year per employee, by gender and employee category.'',
        grd_response = RespNumeric, grd_unit = Some ''hours_per_employee'', grd_mandatory = True,
        grd_keys = [''training_hours_per_employee'', ''training_hours_total''],
        grd_formula = Some ''m.training_hours_per_employee'',
        grd_narrative = Some ''Average training hours per employee: {{metric.training_hours_per_employee}}.'' \<rparr>,
     \<lparr> grd_section = ''GRI 404-2'', grd_standard = 404, grd_standard_name = ''Training and Education 2016'',
        grd_number = ''404-2'',
        grd_question = ''Programmes for upgrading employee skills and transition assistance programmes.'',
        grd_response = RespText, grd_unit = None, grd_mandatory = False, grd_keys = [''training_hours_skill''],
        grd_formula = None, grd_narrative = None \<rparr>,
     \<lparr> grd_section = ''GRI 404-3'', grd_standard = 404, grd_standard_name = ''Training and Education 2016'',
        grd_number = ''404-3'',
        grd_question = ''Percentage of employees receiving regular performance and career development reviews.'',
        grd_response = RespPercentage, grd_unit = Some ''pct'', grd_mandatory = True,
        grd_keys = [''training_coverage_pct''], grd_formula = Some ''m.training_coverage_pct'',
        grd_narrative = None \<rparr>]"

definition gri_diversity :: "gri_disclosure list" where
  "gri_diversity = [
     \<lparr> grd_section = ''GRI 405-1'', grd_standard = 405,
        grd_standard_name = ''Diversity and Equal Opportunity 2016'', grd_number = ''405-1'',
        grd_question = ''Diversity of governance bodies and employees.'', grd_response = RespTable,
        grd_unit = None, grd_mandatory = True,
        grd_keys = [''women_in_workforce_pct'', ''women_in_management_pct'', ''women_on_board_pct'', ''pwd_in_workforce_pct'', ''employee_count_by_age_bracket''],
        grd_formula = Some ''m.women_in_workforce_pct'',
        grd_narrative = Some ''Women in workforce: {{metric.women_in_workforce_pct}}%; in management: {{metric.women_in_management_pct}}%; on board: {{metric.women_on_board_pct}}%.'' \<rparr>,
     \<lparr> grd_section = ''GRI 405-2'', grd_standard = 405,
        grd_standard_name = ''Diversity and Equal Opportunity 2016'', grd_number = ''405-2'',
        grd_question = ''Ratio of basic salary and remuneration of women to men.'', grd_response = RespNumeric,
        grd_unit = Some ''ratio'', grd_mandatory = True,
        grd_keys = [''gender_pay_gap_pct'', ''median_remuneration_male'', ''median_remuneration_female''],
        grd_formula = Some ''m.median_remuneration_male > 0 ? (m.median_remuneration_female / m.median_remuneration_male) : 0'',
        grd_narrative = Some ''Female-to-male median remuneration ratio: {{calc.gender_pay_ratio}}. Gender pay gap: {{metric.gender_pay_gap_pct}}%.'' \<rparr>]"

definition gri_supply_chain :: "gri_disclosure list" where
  "gri_supply_chain = [
     \<lparr> grd_section = ''GRI 308-1'', grd_standard = 308,
        grd_standard_name = ''Supplier Environmental Assessment 2016'', grd_number = ''308-1'',
        grd_question = ''New suppliers screened using environmental criteria.'', grd_response = RespPercentage,
        grd_unit = Some ''pct'', grd_mandatory = True, grd_keys = [], grd_formula = None, grd_narrative = None \<rparr>,
     \<lparr> grd_section = ''GRI 308-2'', grd_standard = 308,
        grd_standard_name = ''Supplier Environmental Assessment 2016'', grd_number = ''308-2'',
        grd_question = ''Negative environmental impacts in the supply chain and actions taken.'',
        grd_response = RespText, grd_unit = None, grd_mandatory = True, grd_keys = [], grd_formula = None,
        grd_narrative = None \<rparr>,
     \<lparr> grd_section = ''GRI 414-1'', grd_standard = 414, grd_standard_name = ''Supplier Social Assessment 2016'',
        grd_number = ''414-1'', grd_question = ''New suppliers screened using social criteria.'',
        grd_response = RespPercentage, grd_unit = Some ''pct'', grd_mandatory = True, grd_keys = [],
        grd_formula = None, grd_narrative = None \<rparr>,
     \<lparr> grd_section = ''GRI 414-2'', grd_standard = 414, grd_standard_name = ''Supplier Social Assessment 2016'',
        grd_number = ''414-2'',
        grd_question = ''Negative social impacts in the supply chain and actions taken.'',
        grd_response = RespText, grd_unit = None, grd_mandatory = True,
        grd_keys = [''child_labour_incidents'', ''forced_labour_incidents''], grd_formula = None,
        grd_narrative = None \<rparr>]"

definition gri_disclosures :: "gri_disclosure list" where
  "gri_disclosures = gri_universal @ gri_energy @ gri_water @ gri_emissions @ gri_waste @ gri_employment @
     gri_health_safety @ gri_training @ gri_diversity @ gri_supply_chain"

definition get_gri_by_standard :: "nat \<Rightarrow> gri_disclosure list" where
  "get_gri_by_standard n = filter (\<lambda>d. grd_standard d = n) gri_disclosures"

end
