(* ===== verification/Fw_Esrs.thy ===== *)
theory Fw_Esrs
  imports Fw_Base
begin

text \<open>
  The ESRS disclosures (packages/frameworks/src/frameworks/csrd-esrs.ts).
\<close>


definition esrs_cross_cutting :: "esrs_disclosure list" where
  "esrs_cross_cutting = [
     \<lparr> esd_section = ''ESRS 1-1'', esd_standard = ''ESRS 1'', esd_standard_name = ''General requirements'',
        esd_category = EsrsCrossCutting, esd_requirement = ''1-1'',
        esd_question = ''Categories of ESRS Standards, sustainability statements: general requirements.'',
        esd_response = RespText, esd_unit = None, esd_mandatory = True, esd_keys = [], esd_narrative = None \<rparr>,
     \<lparr> esd_section = ''ESRS 2-BP-1'', esd_standard = ''ESRS 2'', esd_standard_name = ''General disclosures'',
        esd_category = EsrsCrossCutting, esd_requirement = ''BP-1'',
        esd_question = ''Basis for preparation: general basis for preparation of sustainability statements.'',
        esd_response = RespText, esd_unit = None, esd_mandatory = True, esd_keys = [], esd_narrative = None \<rparr>,
     \<lparr> esd_section = ''ESRS 2-GOV-1'', esd_standard = ''ESRS 2'', esd_standard_name = ''General disclosures'',
        esd_category = EsrsCrossCutting, esd_requirement = ''GOV-1'',
        esd_question = ''Role of administrative, management and supervisory bodies.'', esd_response = RespTable,
        esd_unit = None, esd_mandatory = True,
        esd_keys = [''board_size'', ''independent_directors_count'', ''women_directors_count'', ''board_meetings_count'', ''board_attendance_pct''],
        esd_narrative = None \<rparr>,
     \<lparr> esd_section = ''ESRS 2-SBM-1'', esd_standard = ''ESRS 2'', esd_standard_name = ''General disclosures'',
        esd_category = EsrsCrossCutting, esd_requirement = ''SBM-1'',
        esd_question = ''Strategy, business model and value chain: market position, products, services, customer groups.'',
        esd_response = RespText, esd_unit = None, esd_mandatory = True, esd_keys = [], esd_narrative = None \<rparr>,
     \<lparr> esd_section = ''ESRS 2-IRO-1'', esd_standard = ''ESRS 2'', esd_standard_name = ''General disclosures'',
        esd_category = EsrsCrossCutting, esd_requirement = ''IRO-1'',
        esd_question = ''Description of the process to identify and assess material impacts, risks and opportunities.'',
        esd_response = RespText, esd_unit = None, esd_mandatory = True, esd_keys = [''enterprise_risks_count''],
        esd_narrative = None \<rparr>]"

definition esrs_e1 :: "esrs_disclosure list" where
  "esrs_e1 = [
     \<lparr> esd_section = ''ESRS E1-1'', esd_standard = ''ESRS E1'', esd_standard_name = ''Climate change'',
        esd_category = EsrsEnvironment, esd_requirement = ''E1-1'',
        esd_question = ''Transition plan for climate change mitigation.'', esd_response = RespText,
        esd_unit = None, esd_mandatory = True, esd_keys = [], esd_narrative = None \<rparr>,
     \<lparr> esd_section = ''ESRS E1-4'', esd_standard = ''ESRS E1'', esd_standard_name = ''Climate change'',
        esd_category = EsrsEnvironment, esd_requirement = ''E1-4'',
        esd_question = ''Targets related to climate change mitigation and adaptation.'',
        esd_response = RespTable, esd_unit = None, esd_mandatory = True,
        esd_keys = [''scope1_total_tco2e'', ''scope2_location_tco2e''], esd_narrative = None \<rparr>,
     \<lparr> esd_section = ''ESRS E1-5'', esd_standard = ''ESRS E1'', esd_standard_name = ''Climate change'',
        esd_category = EsrsEnvironment, esd_requirement = ''E1-5'',
        esd_question = ''Energy consumption and mix.'', esd_response = RespTable, esd_unit = Some ''gj'',
        esd_mandatory = True,
        esd_keys = [''electricity_kwh'', ''electricity_from_renewable_kwh'', ''electricity_from_grid_kwh'', ''diesel_l'', ''petrol_l'', ''lpg_kg'', ''lng_kg'', ''png_scm'', ''coal_tonnes'', ''biomass_tonnes'', ''total_energy_consumed_gj''],
        esd_narrative = Some ''Total energy consumed during the period: {{metric.total_energy_consumed_gj}} GJ; renewable share by source disclosed in the data table.'' \<rparr>,
     \<lparr> esd_section = ''ESRS E1-6'', esd_standard = ''ESRS E1'', esd_standard_name = ''Climate change'',
        esd_category = EsrsEnvironment, esd_requirement = ''E1-6'',
        esd_question = ''Gross Scopes 1, 2, 3 and Total GHG emissions.'', esd_response = RespTable,
        esd_unit = Some ''tco2e'', esd_mandatory = True,
        esd_keys = ([''scope1_total_tco2e'', ''scope2_location_tco2e'', ''scope2_market_tco2e''] @ scope3_metric_keys),
        esd_narrative = Some ''Scope 1: {{metric.scope1_total_tco2e}} tCO2e; Scope 2 (location-based): {{metric.scope2_location_tco2e}} tCO2e; Scope 2 (market-based): {{metric.scope2_market_tco2e}} tCO2e; Scope 3: {{calc.scope3_total}} tCO2e.'' \<rparr>,
     \<lparr> esd_section = ''ESRS E1-7'', esd_standard = ''ESRS E1'', esd_standard_name = ''Climate change'',
        esd_category = EsrsEnvironment, esd_requirement = ''E1-7'',
        esd_question = ''GHG removals and storage projects.'', esd_response = RespTable,
        esd_unit = Some ''tco2e'', esd_mandatory = False, esd_keys = [''land_restored_ha''], esd_narrative = None \<rparr>,
     \<lparr> esd_section = ''ESRS E1-8'', esd_standard = ''ESRS E1'', esd_standard_name = ''Climate change'',
        esd_category = EsrsEnvironment, esd_requirement = ''E1-8'', esd_question = ''Internal carbon pricing.'',
        esd_response = RespText, esd_unit = None, esd_mandatory = False, esd_keys = [], esd_narrative = None \<rparr>]"

definition esrs_e2 :: "esrs_disclosure list" where
  "esrs_e2 = [
     \<lparr> esd_section = ''ESRS E2-4'', esd_standard = ''ESRS E2'', esd_standard_name = ''Pollution'',
        esd_category = EsrsEnvironment, esd_requirement = ''E2-4'',
        esd_question = ''Pollution of air, water and soil.'', esd_response = RespTable, esd_unit = Some ''kg'',
        esd_mandatory = True, esd_keys = [''nox_kg'', ''sox_kg'', ''pm_kg'', ''voc_kg'', ''ods_kg''],
        esd_narrative = None \<rparr>,
     \<lparr> esd_section = ''ESRS E2-5'', esd_standard = ''ESRS E2'', esd_standard_name = ''Pollution'',
        esd_category = EsrsEnvironment, esd_requirement = ''E2-5'',
        esd_question = ''Substances of concern and substances of very high concern.'', esd_response = RespTable,
        esd_unit = None, esd_mandatory = True, esd_keys = [], esd_narrative = None \<rparr>]"

definition esrs_e3 :: "esrs_disclosure list" where
  "esrs_e3 = [
     \<lparr> esd_section = ''ESRS E3-4'', esd_standard = ''ESRS E3'',
        esd_standard_name = ''Water and marine resources'', esd_category = EsrsEnvironment,
        esd_requirement = ''E3-4'', esd_question = ''Water consumption.'', esd_response = RespTable,
        esd_unit = Some ''kl'', esd_mandatory = True,
        esd_keys = [''water_withdrawn_total_kl'', ''water_consumed_kl'', ''water_discharged_kl'', ''water_recycled_kl''],
        esd_narrative = Some ''Water withdrawn: {{metric.water_withdrawn_total_kl}} KL; consumed: {{metric.water_consumed_kl}} KL; recycled: {{metric.water_recycled_kl}} KL.'' \<rparr>]"

definition esrs_e4 :: "esrs_disclosure list" where
  "esrs_e4 = [
     \<lparr> esd_section = ''ESRS E4-5'', esd_standard = ''ESRS E4'',
        esd_standard_name = ''Biodiversity and ecosystems'', esd_category = EsrsEnvironment,
        esd_requirement = ''E4-5'',
        esd_question = ''Impact metrics related to biodiversity and ecosystem change.'',
        esd_response = RespTable, esd_unit = None, esd_mandatory = True,
        esd_keys = [''protected_area_sqkm'', ''land_disturbed_ha'', ''land_restored_ha''], esd_narrative = None \<rparr>]"

definition esrs_e5 :: "esrs_disclosure list" where
  "esrs_e5 = [
     \<lparr> esd_section = ''ESRS E5-4'', esd_standard = ''ESRS E5'',
        esd_standard_name = ''Resource use and circular economy'', esd_category = EsrsEnvironment,
        esd_requirement = ''E5-4'', esd_question = ''Resource inflows.'', esd_response = RespTable,
        esd_unit = Some ''tonnes'', esd_mandatory = True,
        esd_keys = [''virgin_materials_tonnes'', ''recycled_materials_tonnes'', ''renewable_materials_tonnes''],
        esd_narrative = None \<rparr>,
     \<lparr> esd_section = ''ESRS E5-5'', esd_standard = ''ESRS E5'',
        esd_standard_name = ''Resource use and circular economy'', esd_category = EsrsEnvironment,
        esd_requirement = ''E5-5'', esd_question = ''Resource outflows including waste.'',
        esd_response = RespTable, esd_unit = Some ''kg'', esd_mandatory = True,
        esd_keys = [''waste_hazardous_kg'', ''waste_non_hazardous_kg'', ''waste_recycled_kg'', ''waste_to_landfill_kg'', ''waste_to_incineration_kg'', ''e_waste_kg'', ''plastic_waste_kg''],
        esd_narrative = None \<rparr>]"

definition esrs_s1 :: "esrs_disclosure list" where
  "esrs_s1 = [
     \<lparr> esd_section = ''ESRS S1-6'', esd_standard = ''ESRS S1'', esd_standard_name = ''Own workforce'',
        esd_category = EsrsSocial, esd_requirement = ''S1-6'',
        esd_question = ''Characteristics of the undertaking's employees.'', esd_response = RespTable,
        esd_unit = None, esd_mandatory = True,
        esd_keys = [''employee_count_total'', ''employee_count_male'', ''employee_count_female'', ''employee_count_perm'', ''employee_count_temp''],
        esd_narrative = None \<rparr>,
     \<lparr> esd_section = ''ESRS S1-7'', esd_standard = ''ESRS S1'', esd_standard_name = ''Own workforce'',
        esd_category = EsrsSocial, esd_requirement = ''S1-7'',
        esd_question = ''Characteristics of non-employees in the undertaking's own workforce.'',
        esd_response = RespTable, esd_unit = None, esd_mandatory = True,
        esd_keys = [''employee_count_contract''], esd_narrative = None \<rparr>,
     \<lparr> esd_section = ''ESRS S1-9'', esd_standard = ''ESRS S1'', esd_standard_name = ''Own workforce'',
        esd_category = EsrsSocial, esd_requirement = ''S1-9'', esd_question = ''Diversity metrics.'',
        esd_response = RespTable, esd_unit = None, esd_mandatory = True,
        esd_keys = [''women_in_workforce_pct'', ''women_in_management_pct'', ''pwd_in_workforce_pct'', ''employee_count_by_age_bracket''],
        esd_narrative = None \<rparr>,
     \<lparr> esd_section = ''ESRS S1-13'', esd_standard = ''ESRS S1'', esd_standard_name = ''Own workforce'',
        esd_category = EsrsSocial, esd_requirement = ''S1-13'',
        esd_question = ''Training and skills development metrics.'', esd_response = RespTable,
        esd_unit = Some ''hours'', esd_mandatory = True,
        esd_keys = [''training_hours_total'', ''training_hours_per_employee'', ''training_coverage_pct''],
        esd_narrative = None \<rparr>,
     \<lparr> esd_section = ''ESRS S1-14'', esd_standard = ''ESRS S1'', esd_standard_name = ''Own workforce'',
        esd_category = EsrsSocial, esd_requirement = ''S1-14'', esd_question = ''Health and safety metrics.'',
        esd_response = RespTable, esd_unit = None, esd_mandatory = True,
        esd_keys = [''ltifr'', ''trifr'', ''fatality_count_employees'', ''fatality_count_contractors'', ''occupational_disease_cases''],
        esd_narrative = None \<rparr>,
     \<lparr> esd_section = ''ESRS S1-16'', esd_standard = ''ESRS S1'', esd_standard_name = ''Own workforce'',
        esd_category = EsrsSocial, esd_requirement = ''S1-16'',
        esd_question = ''Remuneration metrics (pay gap and total remuneration).'', esd_response = RespTable,
        esd_unit = None, esd_mandatory = True,
        esd_keys = [''gender_pay_gap_pct'', ''ceo_to_worker_pay_ratio'', ''median_remuneration_male'', ''median_remuneration_female''],
        esd_narrative = Some ''Gender pay gap: {{metric.gender_pay_gap_pct}}%. CEO to median worker pay ratio: {{metric.ceo_to_worker_pay_ratio}}.'' \<rparr>,
     \<lparr> esd_section = ''ESRS S1-17'', esd_standard = ''ESRS S1'', esd_standard_name = ''Own workforce'',
        esd_category = EsrsSocial, esd_requirement = ''S1-17'',
        esd_question = ''Incidents, complaints and severe human-rights impacts.'', esd_response = RespTable,
        esd_unit = None, esd_mandatory = True,
        esd_keys = [''human_rights_complaints_received'', ''human_rights_complaints_resolved'', ''discrimination_complaints'', ''child_labour_incidents'', ''forced_labour_incidents''],
        esd_narrative = None \<rparr>]"

definition esrs_s2 :: "esrs_disclosure list" where
  "esrs_s2 = [
     \<lparr> esd_section = ''ESRS S2-1'', esd_standard = ''ESRS S2'',
        esd_standard_name = ''Workers in the value chain'', esd_category = EsrsSocial,
        esd_requirement = ''S2-1'', esd_question = ''Policies related to value-chain workers.'',
        esd_response = RespText, esd_unit = None, esd_mandatory = True, esd_keys = [], esd_narrative = None \<rparr>,
     \<lparr> esd_section = ''ESRS S2-4'', esd_standard = ''ESRS S2'',
        esd_standard_name = ''Workers in the value chain'', esd_category = EsrsSocial,
        esd_requirement = ''S2-4'', esd_question = ''Taking action on material impacts on value-chain workers.'',
        esd_response = RespText, esd_unit = None, esd_mandatory = True,
        esd_keys = [''child_labour_incidents'', ''forced_labour_incidents''], esd_narrative = None \<rparr>]"

definition esrs_s3 :: "esrs_disclosure list" where
  "esrs_s3 = [
     \<lparr> esd_section = ''ESRS S3-1'', esd_standard = ''ESRS S3'', esd_standard_name = ''Affected communities'',
        esd_category = EsrsSocial, esd_requirement = ''S3-1'',
        esd_question = ''Policies related to affected communities.'', esd_response = RespText, esd_unit = None,
        esd_mandatory = True, esd_keys = [], esd_narrative = None \<rparr>,
     \<lparr> esd_section = ''ESRS S3-4'', esd_standard = ''ESRS S3'', esd_standard_name = ''Affected communities'',
        esd_category = EsrsSocial, esd_requirement = ''S3-4'',
        esd_question = ''Taking action on material impacts on affected communities.'', esd_response = RespText,
        esd_unit = None, esd_mandatory = True,
        esd_keys = [''csr_spend_inr'', ''csr_beneficiaries_count'', ''displacement_count'', ''local_communities_engaged''],
        esd_narrative = None \<rparr>]"

definition esrs_s4 :: "esrs_disclosure list" where
  "esrs_s4 = [
     \<lparr> esd_section = ''ESRS S4-1'', esd_standard = ''ESRS S4'', esd_standard_name = ''Consumers and end-users'',
        esd_category = EsrsSocial, esd_requirement = ''S4-1'',
        esd_question = ''Policies related to consumers and end-users.'', esd_response = RespText,
        esd_unit = None, esd_mandatory = True, esd_keys = [], esd_narrative = None \<rparr>,
     \<lparr> esd_section = ''ESRS S4-4'', esd_standard = ''ESRS S4'', esd_standard_name = ''Consumers and end-users'',
        esd_category = EsrsSocial, esd_requirement = ''S4-4'',
        esd_question = ''Taking action on material impacts on consumers and end-users.'',
        esd_response = RespText, esd_unit = None, esd_mandatory = True,
        esd_keys = [''customer_complaints_received'', ''customer_complaints_resolved'', ''product_recall_count'', ''customer_satisfaction_score'', ''data_breach_count'', ''data_subjects_affected''],
        esd_narrative = None \<rparr>]"

definition esrs_g1 :: "esrs_disclosure list" where
  "esrs_g1 = [
     \<lparr> esd_section = ''ESRS G1-1'', esd_standard = ''ESRS G1'', esd_standard_name = ''Business conduct'',
        esd_category = EsrsGovernance, esd_requirement = ''G1-1'',
        esd_question = ''Corporate culture and business conduct policies.'', esd_response = RespText,
        esd_unit = None, esd_mandatory = True, esd_keys = [], esd_narrative = None \<rparr>,
     \<lparr> esd_section = ''ESRS G1-3'', esd_standard = ''ESRS G1'', esd_standard_name = ''Business conduct'',
        esd_category = EsrsGovernance, esd_requirement = ''G1-3'',
        esd_question = ''Prevention and detection of corruption and bribery.'', esd_response = RespTable,
        esd_unit = None, esd_mandatory = True,
        esd_keys = [''anticorruption_training_pct'', ''corruption_cases_disciplinary''], esd_narrative = None \<rparr>,
     \<lparr> esd_section = ''ESRS G1-4'', esd_standard = ''ESRS G1'', esd_standard_name = ''Business conduct'',
        esd_category = EsrsGovernance, esd_requirement = ''G1-4'',
        esd_question = ''Incidents of corruption or bribery.'', esd_response = RespTable, esd_unit = None,
        esd_mandatory = True, esd_keys = [''corruption_cases_disciplinary'', ''whistleblower_cases_count''],
        esd_narrative = None \<rparr>,
     \<lparr> esd_section = ''ESRS G1-5'', esd_standard = ''ESRS G1'', esd_standard_name = ''Business conduct'',
        esd_category = EsrsGovernance, esd_requirement = ''G1-5'',
        esd_question = ''Political influence and lobbying activities.'', esd_response = RespTable,
        esd_unit = None, esd_mandatory = True, esd_keys = [''political_contributions_inr''], esd_narrative = None \<rparr>]"

definition esrs_disclosures :: "esrs_disclosure list" where
  "esrs_disclosures = esrs_cross_cutting @ esrs_e1 @ esrs_e2 @ esrs_e3 @ esrs_e4 @ esrs_e5 @ esrs_s1 @
     esrs_s2 @ esrs_s3 @ esrs_s4 @ esrs_g1"

definition get_esrs_by_standard :: "string \<Rightarrow> esrs_disclosure list" where
  "get_esrs_by_standard code = filter (\<lambda>d. esd_standard d = code) esrs_disclosures"

end
