(* ===== verification/Fw_Sasb.thy ===== *)
theory Fw_Sasb
  imports Fw_Base
begin

text \<open>
  The SASB metrics (packages/frameworks/src/frameworks/sasb.ts).
\<close>


definition sasb_rr_se :: "sasb_disclosure list" where
  "sasb_rr_se = [
     \<lparr> sad_section = ''RR-SE-130a.1'', sad_sector = ''RR-SE'',
        sad_sector_name = ''Solar Technology & Project Developers'', sad_topic = ''Energy Management'',
        sad_question = ''Total energy consumed, % grid electricity, % renewable.'', sad_response = RespTable,
        sad_unit = Some ''gj'', sad_mandatory = True,
        sad_keys = [''total_energy_consumed_gj'', ''electricity_from_grid_kwh'', ''electricity_from_renewable_kwh''],
        sad_narrative = None \<rparr>,
     \<lparr> sad_section = ''RR-SE-140a.1'', sad_sector = ''RR-SE'',
        sad_sector_name = ''Solar Technology & Project Developers'',
        sad_topic = ''Water Management in Manufacturing'',
        sad_question = ''Total water withdrawn / consumed, % in regions of High or Extremely High Baseline Water Stress.'',
        sad_response = RespTable, sad_unit = Some ''kl'', sad_mandatory = True,
        sad_keys = [''water_withdrawn_total_kl'', ''water_consumed_kl''], sad_narrative = None \<rparr>,
     \<lparr> sad_section = ''RR-SE-150a.1'', sad_sector = ''RR-SE'',
        sad_sector_name = ''Solar Technology & Project Developers'', sad_topic = ''Hazardous Waste Management'',
        sad_question = ''Hazardous waste generated, % recycled.'', sad_response = RespTable,
        sad_unit = Some ''kg'', sad_mandatory = True, sad_keys = [''waste_hazardous_kg'', ''waste_recycled_kg''],
        sad_narrative = None \<rparr>,
     \<lparr> sad_section = ''RR-SE-160a.1'', sad_sector = ''RR-SE'',
        sad_sector_name = ''Solar Technology & Project Developers'',
        sad_topic = ''Ecological Impacts of Project Development'',
        sad_question = ''Number and area of solar projects sited on land with significant biodiversity value.'',
        sad_response = RespTable, sad_unit = Some ''ha'', sad_mandatory = True,
        sad_keys = [''land_disturbed_ha'', ''protected_area_sqkm''], sad_narrative = None \<rparr>,
     \<lparr> sad_section = ''RR-SE-410a.1'', sad_sector = ''RR-SE'',
        sad_sector_name = ''Solar Technology & Project Developers'',
        sad_topic = ''Product End-of-Life Management'',
        sad_question = ''Percentage of products sold that are recyclable or reusable.'',
        sad_response = RespPercentage, sad_unit = Some ''pct'', sad_mandatory = True,
        sad_keys = [''recycled_materials_tonnes''], sad_narrative = None \<rparr>]"

definition sasb_rt_ee :: "sasb_disclosure list" where
  "sasb_rt_ee = [
     \<lparr> sad_section = ''RT-EE-130a.1'', sad_sector = ''RT-EE'',
        sad_sector_name = ''Electrical & Electronic Equipment'', sad_topic = ''Energy Management'',
        sad_question = ''Total energy consumed, % grid electricity, % renewable.'', sad_response = RespTable,
        sad_unit = Some ''gj'', sad_mandatory = True,
        sad_keys = [''total_energy_consumed_gj'', ''electricity_from_grid_kwh'', ''electricity_from_renewable_kwh''],
        sad_narrative = None \<rparr>,
     \<lparr> sad_section = ''RT-EE-150a.1'', sad_sector = ''RT-EE'',
        sad_sector_name = ''Electrical & Electronic Equipment'', sad_topic = ''Hazardous Waste Management'',
        sad_question = ''Amount of hazardous waste generated, % recycled.'', sad_response = RespTable,
        sad_unit = Some ''kg'', sad_mandatory = True,
        sad_keys = [''waste_hazardous_kg'', ''waste_recycled_kg'', ''e_waste_kg''], sad_narrative = None \<rparr>,
     \<lparr> sad_section = ''RT-EE-410a.1'', sad_sector = ''RT-EE'',
        sad_sector_name = ''Electrical & Electronic Equipment'', sad_topic = ''Product Lifecycle Management'',
        sad_question = ''% of products by revenue containing IEC 62474 declarable substances.'',
        sad_response = RespPercentage, sad_unit = Some ''pct'', sad_mandatory = True, sad_keys = [],
        sad_narrative = None \<rparr>,
     \<lparr> sad_section = ''RT-EE-410a.3'', sad_sector = ''RT-EE'',
        sad_sector_name = ''Electrical & Electronic Equipment'', sad_topic = ''Product Lifecycle Management'',
        sad_question = ''Revenue from renewable energy-related and energy efficiency-related products.'',
        sad_response = RespNumeric, sad_unit = Some ''inr'', sad_mandatory = True, sad_keys = [],
        sad_narrative = None \<rparr>,
     \<lparr> sad_section = ''RT-EE-440a.1'', sad_sector = ''RT-EE'',
        sad_sector_name = ''Electrical & Electronic Equipment'', sad_topic = ''Materials Sourcing'',
        sad_question = ''Description of management of risks associated with use of critical materials.'',
        sad_response = RespText, sad_unit = None, sad_mandatory = True,
        sad_keys = [''virgin_materials_tonnes'', ''recycled_materials_tonnes''], sad_narrative = None \<rparr>]"

definition sasb_em_cm :: "sasb_disclosure list" where
  "sasb_em_cm = [
     \<lparr> sad_section = ''EM-CM-110a.1'', sad_sector = ''EM-CM'', sad_sector_name = ''Construction Materials'',
        sad_topic = ''GHG Emissions'',
        sad_question = ''Gross global Scope 1 emissions, % covered under emissions-limiting regulations.'',
        sad_response = RespTable, sad_unit = Some ''tco2e'', sad_mandatory = True,
        sad_keys = [''scope1_total_tco2e'', ''scope1_process_tco2e'', ''scope1_stationary_tco2e''],
        sad_narrative = None \<rparr>,
     \<lparr> sad_section = ''EM-CM-120a.1'', sad_sector = ''EM-CM'', sad_sector_name = ''Construction Materials'',
        sad_topic = ''Air Quality'',
        sad_question = ''Air emissions: NOx (excl. N2O), SOx, PM10, dioxins/furans, VOCs, PAHs, HAPs.'',
        sad_response = RespTable, sad_unit = Some ''kg'', sad_mandatory = True,
        sad_keys = [''nox_kg'', ''sox_kg'', ''pm_kg'', ''voc_kg''], sad_narrative = None \<rparr>,
     \<lparr> sad_section = ''EM-CM-130a.1'', sad_sector = ''EM-CM'', sad_sector_name = ''Construction Materials'',
        sad_topic = ''Energy Management'',
        sad_question = ''Total energy consumed, % grid electricity, % alternative, % renewable.'',
        sad_response = RespTable, sad_unit = Some ''gj'', sad_mandatory = True,
        sad_keys = [''total_energy_consumed_gj'', ''electricity_from_renewable_kwh'', ''biomass_tonnes''],
        sad_narrative = None \<rparr>,
     \<lparr> sad_section = ''EM-CM-140a.1'', sad_sector = ''EM-CM'', sad_sector_name = ''Construction Materials'',
        sad_topic = ''Water Management'',
        sad_question = ''Total fresh water withdrawn, % recycled, % in regions of High or Extremely High Baseline Water Stress.'',
        sad_response = RespTable, sad_unit = Some ''kl'', sad_mandatory = True,
        sad_keys = [''water_withdrawn_total_kl'', ''water_recycled_kl''], sad_narrative = None \<rparr>,
     \<lparr> sad_section = ''EM-CM-150a.1'', sad_sector = ''EM-CM'', sad_sector_name = ''Construction Materials'',
        sad_topic = ''Waste Management'', sad_question = ''Amount of waste generated, % hazardous, % recycled.'',
        sad_response = RespTable, sad_unit = Some ''kg'', sad_mandatory = True,
        sad_keys = [''waste_hazardous_kg'', ''waste_non_hazardous_kg'', ''waste_recycled_kg''],
        sad_narrative = None \<rparr>,
     \<lparr> sad_section = ''EM-CM-160a.1'', sad_sector = ''EM-CM'', sad_sector_name = ''Construction Materials'',
        sad_topic = ''Biodiversity Impacts'',
        sad_question = ''Description of environmental management policies and practices for active sites.'',
        sad_response = RespText, sad_unit = None, sad_mandatory = True,
        sad_keys = [''protected_area_sqkm'', ''land_disturbed_ha'', ''land_restored_ha''], sad_narrative = None \<rparr>]"

definition sasb_em_is :: "sasb_disclosure list" where
  "sasb_em_is = [
     \<lparr> sad_section = ''EM-IS-110a.1'', sad_sector = ''EM-IS'', sad_sector_name = ''Iron & Steel Producers'',
        sad_topic = ''GHG Emissions'',
        sad_question = ''Gross global Scope 1 emissions, % covered under emissions-limiting regulations.'',
        sad_response = RespTable, sad_unit = Some ''tco2e'', sad_mandatory = True,
        sad_keys = [''scope1_total_tco2e'', ''scope1_process_tco2e''], sad_narrative = None \<rparr>,
     \<lparr> sad_section = ''EM-IS-120a.1'', sad_sector = ''EM-IS'', sad_sector_name = ''Iron & Steel Producers'',
        sad_topic = ''Air Quality'',
        sad_question = ''Air emissions: CO, NOx (excl. N2O), SOx, PM10, manganese (MnO), lead (Pb), VOCs, PAHs.'',
        sad_response = RespTable, sad_unit = Some ''kg'', sad_mandatory = True,
        sad_keys = [''nox_kg'', ''sox_kg'', ''pm_kg'', ''voc_kg''], sad_narrative = None \<rparr>,
     \<lparr> sad_section = ''EM-IS-130a.1'', sad_sector = ''EM-IS'', sad_sector_name = ''Iron & Steel Producers'',
        sad_topic = ''Energy Management'',
        sad_question = ''Total energy consumed, % grid electricity, % renewable. Total fuel consumed, % coal, % natural gas.'',
        sad_response = RespTable, sad_unit = Some ''gj'', sad_mandatory = True,
        sad_keys = [''total_energy_consumed_gj'', ''coal_tonnes'', ''lng_kg'', ''png_scm''], sad_narrative = None \<rparr>,
     \<lparr> sad_section = ''EM-IS-140a.1'', sad_sector = ''EM-IS'', sad_sector_name = ''Iron & Steel Producers'',
        sad_topic = ''Water Management'',
        sad_question = ''Total fresh water withdrawn, % recycled, % in regions of High or Extremely High Baseline Water Stress.'',
        sad_response = RespTable, sad_unit = Some ''kl'', sad_mandatory = True,
        sad_keys = [''water_withdrawn_total_kl'', ''water_recycled_kl''], sad_narrative = None \<rparr>,
     \<lparr> sad_section = ''EM-IS-150a.1'', sad_sector = ''EM-IS'', sad_sector_name = ''Iron & Steel Producers'',
        sad_topic = ''Waste Management'',
        sad_question = ''Amount of waste from manufacturing processes, % hazardous, % recycled.'',
        sad_response = RespTable, sad_unit = Some ''kg'', sad_mandatory = True,
        sad_keys = [''waste_hazardous_kg'', ''waste_recycled_kg''], sad_narrative = None \<rparr>,
     \<lparr> sad_section = ''EM-IS-320a.1'', sad_sector = ''EM-IS'', sad_sector_name = ''Iron & Steel Producers'',
        sad_topic = ''Workforce Health & Safety'',
        sad_question = ''TRIR, fatality rate, near miss frequency rate for full-time and contract employees.'',
        sad_response = RespTable, sad_unit = None, sad_mandatory = True,
        sad_keys = [''trifr'', ''ltifr'', ''fatality_count_employees'', ''fatality_count_contractors'', ''near_miss_count''],
        sad_narrative = None \<rparr>]"

definition sasb_rt_ig :: "sasb_disclosure list" where
  "sasb_rt_ig = [
     \<lparr> sad_section = ''RT-IG-130a.1'', sad_sector = ''RT-IG'',
        sad_sector_name = ''Industrial Machinery & Goods'', sad_topic = ''Energy Management'',
        sad_question = ''Total energy consumed, % grid electricity, % renewable.'', sad_response = RespTable,
        sad_unit = Some ''gj'', sad_mandatory = True,
        sad_keys = [''total_energy_consumed_gj'', ''electricity_from_grid_kwh'', ''electricity_from_renewable_kwh''],
        sad_narrative = None \<rparr>,
     \<lparr> sad_section = ''RT-IG-320a.1'', sad_sector = ''RT-IG'',
        sad_sector_name = ''Industrial Machinery & Goods'', sad_topic = ''Employee Health & Safety'',
        sad_question = ''TRIR, fatality rate, and near miss frequency rate.'', sad_response = RespTable,
        sad_unit = None, sad_mandatory = True, sad_keys = [''trifr'', ''ltifr'', ''fatality_count_employees''],
        sad_narrative = None \<rparr>,
     \<lparr> sad_section = ''RT-IG-410a.1'', sad_sector = ''RT-IG'',
        sad_sector_name = ''Industrial Machinery & Goods'',
        sad_topic = ''Fuel Economy & Emissions in Use-phase'',
        sad_question = ''Sales-weighted fleet fuel efficiency for various equipment categories.'',
        sad_response = RespNumeric, sad_unit = None, sad_mandatory = True, sad_keys = [''scope3_cat11_tco2e''],
        sad_narrative = None \<rparr>,
     \<lparr> sad_section = ''RT-IG-440a.1'', sad_sector = ''RT-IG'',
        sad_sector_name = ''Industrial Machinery & Goods'', sad_topic = ''Materials Sourcing'',
        sad_question = ''Description of the management of risks associated with the use of critical materials.'',
        sad_response = RespText, sad_unit = None, sad_mandatory = True,
        sad_keys = [''virgin_materials_tonnes'', ''recycled_materials_tonnes''], sad_narrative = None \<rparr>]"

definition sasb_tc_im :: "sasb_disclosure list" where
  "sasb_tc_im = [
     \<lparr> sad_section = ''TC-IM-130a.1'', sad_sector = ''TC-IM'', sad_sector_name = ''Internet Media & Services'',
        sad_topic = ''Environmental Footprint of Hardware Infrastructure'',
        sad_question = ''(1) Total energy consumed, (2) percentage grid electricity, (3) percentage renewable.'',
        sad_response = RespTable, sad_unit = Some ''gj'', sad_mandatory = True,
        sad_keys = [''total_energy_consumed_gj'', ''electricity_from_grid_kwh'', ''electricity_from_renewable_kwh''],
        sad_narrative = None \<rparr>,
     \<lparr> sad_section = ''TC-IM-130a.2'', sad_sector = ''TC-IM'', sad_sector_name = ''Internet Media & Services'',
        sad_topic = ''Environmental Footprint of Hardware Infrastructure'',
        sad_question = ''Total water withdrawn / consumed, % in regions of High or Extremely High Baseline Water Stress.'',
        sad_response = RespTable, sad_unit = Some ''kl'', sad_mandatory = True,
        sad_keys = [''water_withdrawn_total_kl'', ''water_consumed_kl''], sad_narrative = None \<rparr>,
     \<lparr> sad_section = ''TC-IM-220a.1'', sad_sector = ''TC-IM'', sad_sector_name = ''Internet Media & Services'',
        sad_topic = ''Data Privacy, Advertising Standards & Freedom of Expression'',
        sad_question = ''Description of policies and practices relating to behavioural advertising and user privacy.'',
        sad_response = RespText, sad_unit = None, sad_mandatory = True, sad_keys = [''data_breach_count''],
        sad_narrative = None \<rparr>,
     \<lparr> sad_section = ''TC-IM-230a.1'', sad_sector = ''TC-IM'', sad_sector_name = ''Internet Media & Services'',
        sad_topic = ''Data Security'',
        sad_question = ''(1) Number of data breaches, (2) % involving PII, (3) number of users affected.'',
        sad_response = RespTable, sad_unit = None, sad_mandatory = True,
        sad_keys = [''data_breach_count'', ''data_subjects_affected''], sad_narrative = None \<rparr>,
     \<lparr> sad_section = ''TC-IM-330a.3'', sad_sector = ''TC-IM'', sad_sector_name = ''Internet Media & Services'',
        sad_topic = ''Employee Recruitment, Inclusion & Performance'',
        sad_question = ''Employee engagement as a percentage; representation of gender and ethnic groups across management, technical and all employees.'',
        sad_response = RespTable, sad_unit = None, sad_mandatory = True,
        sad_keys = [''women_in_workforce_pct'', ''women_in_management_pct''], sad_narrative = None \<rparr>]"

definition sasb_tc_si :: "sasb_disclosure list" where
  "sasb_tc_si = [
     \<lparr> sad_section = ''TC-SI-130a.1'', sad_sector = ''TC-SI'', sad_sector_name = ''Software & IT Services'',
        sad_topic = ''Environmental Footprint of Hardware Infrastructure'',
        sad_question = ''Total energy consumed, % grid electricity, % renewable.'', sad_response = RespTable,
        sad_unit = Some ''gj'', sad_mandatory = True,
        sad_keys = [''total_energy_consumed_gj'', ''electricity_from_grid_kwh'', ''electricity_from_renewable_kwh''],
        sad_narrative = None \<rparr>,
     \<lparr> sad_section = ''TC-SI-130a.2'', sad_sector = ''TC-SI'', sad_sector_name = ''Software & IT Services'',
        sad_topic = ''Environmental Footprint of Hardware Infrastructure'',
        sad_question = ''Total water withdrawn / consumed, % in regions of High or Extremely High Baseline Water Stress.'',
        sad_response = RespTable, sad_unit = Some ''kl'', sad_mandatory = True,
        sad_keys = [''water_withdrawn_total_kl'', ''water_consumed_kl''], sad_narrative = None \<rparr>,
     \<lparr> sad_section = ''TC-SI-220a.1'', sad_sector = ''TC-SI'', sad_sector_name = ''Software & IT Services'',
        sad_topic = ''Data Privacy & Freedom of Expression'',
        sad_question = ''Description of policies and practices relating to user privacy and freedom of expression.'',
        sad_response = RespText, sad_unit = None, sad_mandatory = True, sad_keys = [], sad_narrative = None \<rparr>,
     \<lparr> sad_section = ''TC-SI-230a.1'', sad_sector = ''TC-SI'', sad_sector_name = ''Software & IT Services'',
        sad_topic = ''Data Security'',
        sad_question = ''Number of data breaches, % involving personally identifiable information, number of users affected.'',
        sad_response = RespTable, sad_unit = None, sad_mandatory = True,
        sad_keys = [''data_breach_count'', ''data_subjects_affected''], sad_narrative = None \<rparr>,
     \<lparr> sad_section = ''TC-SI-330a.2'', sad_sector = ''TC-SI'', sad_sector_name = ''Software & IT Services'',
        sad_topic = ''Recruiting & Managing a Global, Diverse & Skilled Workforce'',
        sad_question = ''Employee engagement as a percentage; representation of gender and racial/ethnic groups across employee categories.'',
        sad_response = RespTable, sad_unit = None, sad_mandatory = True,
        sad_keys = [''women_in_workforce_pct'', ''women_in_management_pct''], sad_narrative = None \<rparr>]"

definition sasb_disclosures :: "sasb_disclosure list" where
  "sasb_disclosures = sasb_rr_se @ sasb_rt_ee @ sasb_em_cm @ sasb_em_is @ sasb_rt_ig @ sasb_tc_im @ sasb_tc_si"

definition get_sasb_by_sector :: "string \<Rightarrow> sasb_disclosure list" where
  "get_sasb_by_sector code = filter (\<lambda>d. sad_sector d = code) sasb_disclosures"

end
