(* ===== verification/Fw_Climate.thy ===== *)
theory Fw_Climate
  imports Fw_Base
begin

text \<open>
  The CDP, IFRS S1/S2 and TCFD disclosures (packages/frameworks/src/frameworks/cdp.ts, ifrs.ts, tcfd.ts).
\<close>


definition cdp_climate_disclosures :: "cdp_disclosure list" where
  "cdp_climate_disclosures = [
     \<lparr> cdd_section = ''C1.1a'', cdd_module = CdpClimate, cdd_section_name = ''Governance'',
        cdd_question = ''Identify the position(s) (do not include any names) of the individual(s) with the highest-level responsibility for climate-related issues.'',
        cdd_response = RespTable, cdd_unit = None, cdd_mandatory = True,
        cdd_keys = [''board_size'', ''independent_directors_count''], cdd_narrative = None \<rparr>,
     \<lparr> cdd_section = ''C1.2'', cdd_module = CdpClimate, cdd_section_name = ''Governance'',
        cdd_question = ''Provide the highest management-level position(s) or committee(s) with responsibility for climate-related issues.'',
        cdd_response = RespText, cdd_unit = None, cdd_mandatory = True, cdd_keys = [], cdd_narrative = None \<rparr>,
     \<lparr> cdd_section = ''C2.1a'', cdd_module = CdpClimate, cdd_section_name = ''Risks and Opportunities'',
        cdd_question = ''Identify climate-related risks and opportunities with potential to have a substantive financial or strategic impact on your business.'',
        cdd_response = RespTable, cdd_unit = None, cdd_mandatory = True,
        cdd_keys = [''climate_risks_identified_count''], cdd_narrative = None \<rparr>,
     \<lparr> cdd_section = ''C3.2'', cdd_module = CdpClimate, cdd_section_name = ''Business Strategy'',
        cdd_question = ''Does your organisation use climate-related scenario analysis to inform its strategy?'',
        cdd_response = RespBoolean, cdd_unit = None, cdd_mandatory = True, cdd_keys = [''tcfd_scenarios_used''],
        cdd_narrative = None \<rparr>,
     \<lparr> cdd_section = ''C4.1a'', cdd_module = CdpClimate, cdd_section_name = ''Targets and Performance'',
        cdd_question = ''Provide details of your absolute emissions target(s) and progress against those targets.'',
        cdd_response = RespTable, cdd_unit = None, cdd_mandatory = True,
        cdd_keys = [''scope1_total_tco2e'', ''scope2_location_tco2e'', ''scope2_market_tco2e''],
        cdd_narrative = None \<rparr>,
     \<lparr> cdd_section = ''C6.1'', cdd_module = CdpClimate, cdd_section_name = ''Emissions Data'',
        cdd_question = ''What were your organisation's gross global Scope 1 emissions in metric tons of CO2e?'',
        cdd_response = RespNumeric, cdd_unit = Some ''tco2e'', cdd_mandatory = True,
        cdd_keys = [''scope1_total_tco2e'', ''scope1_stationary_tco2e'', ''scope1_mobile_tco2e'', ''scope1_process_tco2e'', ''scope1_fugitive_tco2e''],
        cdd_narrative = Some ''Gross global Scope 1 emissions: {{metric.scope1_total_tco2e}} tCO2e.'' \<rparr>,
     \<lparr> cdd_section = ''C6.3'', cdd_module = CdpClimate, cdd_section_name = ''Emissions Data'',
        cdd_question = ''What were your organisation's gross global Scope 2 emissions in metric tons of CO2e? (location-based and market-based).'',
        cdd_response = RespTable, cdd_unit = Some ''tco2e'', cdd_mandatory = True,
        cdd_keys = [''scope2_location_tco2e'', ''scope2_market_tco2e''], cdd_narrative = None \<rparr>,
     \<lparr> cdd_section = ''C6.5'', cdd_module = CdpClimate, cdd_section_name = ''Emissions Data'',
        cdd_question = ''Account for your organisation's gross global Scope 3 emissions, disclosing and explaining any exclusions.'',
        cdd_response = RespTable, cdd_unit = Some ''tco2e'', cdd_mandatory = True, cdd_keys = scope3_metric_keys,
        cdd_narrative = None \<rparr>,
     \<lparr> cdd_section = ''C6.10'', cdd_module = CdpClimate, cdd_section_name = ''Emissions Data'',
        cdd_question = ''Describe your gross global combined Scope 1 and 2 emissions for the reporting year in metric tons CO2e per unit currency total revenue.'',
        cdd_response = RespNumeric, cdd_unit = Some ''tco2e_per_inr_crore'', cdd_mandatory = True,
        cdd_keys = [''ghg_intensity_per_revenue''], cdd_narrative = None \<rparr>,
     \<lparr> cdd_section = ''C8.2a'', cdd_module = CdpClimate, cdd_section_name = ''Energy'',
        cdd_question = ''Report your organisation's energy consumption totals (excluding feedstocks) in MWh.'',
        cdd_response = RespTable, cdd_unit = Some ''mwh'', cdd_mandatory = True,
        cdd_keys = [''electricity_kwh'', ''electricity_from_grid_kwh'', ''electricity_from_renewable_kwh'', ''diesel_l'', ''petrol_l'', ''lpg_kg'', ''lng_kg'', ''png_scm'', ''coal_tonnes'', ''biomass_tonnes'', ''steam_purchased_gj'', ''total_energy_consumed_gj''],
        cdd_narrative = Some ''Total energy consumed in the reporting period: {{metric.total_energy_consumed_gj}} GJ, of which {{metric.electricity_from_renewable_kwh}} kWh was from renewable sources.'' \<rparr>,
     \<lparr> cdd_section = ''C9.1'', cdd_module = CdpClimate, cdd_section_name = ''Additional Metrics'',
        cdd_question = ''Provide any additional climate-related metrics relevant to your business.'',
        cdd_response = RespTable, cdd_unit = None, cdd_mandatory = False,
        cdd_keys = [''ghg_intensity_per_unit_output'', ''energy_intensity_per_revenue''], cdd_narrative = None \<rparr>]"

definition cdp_water_disclosures :: "cdp_disclosure list" where
  "cdp_water_disclosures = [
     \<lparr> cdd_section = ''W1.1'', cdd_module = CdpWater, cdd_section_name = ''Current State'',
        cdd_question = ''Rate the importance (current and future) of water quality and water quantity to the success of your business.'',
        cdd_response = RespTable, cdd_unit = None, cdd_mandatory = True, cdd_keys = [], cdd_narrative = None \<rparr>,
     \<lparr> cdd_section = ''W1.2b'', cdd_module = CdpWater, cdd_section_name = ''Current State'',
        cdd_question = ''What are the total volumes of water withdrawn, discharged, and consumed across all your operations, and how do these volumes compare to the previous reporting year?'',
        cdd_response = RespTable, cdd_unit = Some ''kl'', cdd_mandatory = True,
        cdd_keys = [''water_withdrawn_total_kl'', ''water_discharged_kl'', ''water_consumed_kl'', ''water_recycled_kl''],
        cdd_narrative = Some ''Total water withdrawn: {{metric.water_withdrawn_total_kl}} KL; discharged: {{metric.water_discharged_kl}} KL; consumed: {{metric.water_consumed_kl}} KL.'' \<rparr>,
     \<lparr> cdd_section = ''W1.2h'', cdd_module = CdpWater, cdd_section_name = ''Current State'',
        cdd_question = ''Provide total water withdrawal data by source.'', cdd_response = RespTable,
        cdd_unit = Some ''kl'', cdd_mandatory = True,
        cdd_keys = [''water_withdrawn_kl_groundwater'', ''water_withdrawn_kl_surface'', ''water_withdrawn_kl_third_party'', ''water_withdrawn_kl_seawater'', ''water_withdrawn_kl_produced''],
        cdd_narrative = None \<rparr>,
     \<lparr> cdd_section = ''W3.3'', cdd_module = CdpWater, cdd_section_name = ''Procedures'',
        cdd_question = ''Have you identified any water-related inherent risks with the potential to have a substantive financial or strategic impact on your business?'',
        cdd_response = RespBoolean, cdd_unit = None, cdd_mandatory = True,
        cdd_keys = [''climate_risks_identified_count''], cdd_narrative = None \<rparr>,
     \<lparr> cdd_section = ''W6.1'', cdd_module = CdpWater, cdd_section_name = ''Governance'',
        cdd_question = ''Does your organisation have a water policy?'', cdd_response = RespBoolean,
        cdd_unit = None, cdd_mandatory = True, cdd_keys = [], cdd_narrative = None \<rparr>,
     \<lparr> cdd_section = ''W7.1'', cdd_module = CdpWater, cdd_section_name = ''Business Strategy'',
        cdd_question = ''Are water-related issues integrated into any aspects of your long-term strategic business plan, and if so how?'',
        cdd_response = RespText, cdd_unit = None, cdd_mandatory = True, cdd_keys = [], cdd_narrative = None \<rparr>]"

definition cdp_forests_disclosures :: "cdp_disclosure list" where
  "cdp_forests_disclosures = [
     \<lparr> cdd_section = ''F1.1'', cdd_module = CdpForests, cdd_section_name = ''Current State'',
        cdd_question = ''How does your organisation produce, use or sell forest-risk commodities?'',
        cdd_response = RespTable, cdd_unit = None, cdd_mandatory = True,
        cdd_keys = [''virgin_materials_tonnes'', ''renewable_materials_tonnes''], cdd_narrative = None \<rparr>,
     \<lparr> cdd_section = ''F1.5'', cdd_module = CdpForests, cdd_section_name = ''Current State'',
        cdd_question = ''Does your organisation collect production and / or consumption data for forest-risk commodities?'',
        cdd_response = RespBoolean, cdd_unit = None, cdd_mandatory = True, cdd_keys = [], cdd_narrative = None \<rparr>,
     \<lparr> cdd_section = ''F4.5'', cdd_module = CdpForests, cdd_section_name = ''Risks and Opportunities'',
        cdd_question = ''Describe the actions taken to identify, assess, and respond to forest-related risks and opportunities.'',
        cdd_response = RespText, cdd_unit = None, cdd_mandatory = True,
        cdd_keys = [''protected_area_sqkm'', ''land_disturbed_ha'', ''land_restored_ha''], cdd_narrative = None \<rparr>,
     \<lparr> cdd_section = ''F6.1'', cdd_module = CdpForests, cdd_section_name = ''Governance'',
        cdd_question = ''Does your organisation have a policy that includes forests-related issues, and if so, what does it cover?'',
        cdd_response = RespText, cdd_unit = None, cdd_mandatory = True, cdd_keys = [], cdd_narrative = None \<rparr>]"

definition ifrs_s1_disclosures :: "ifrs_disclosure list" where
  "ifrs_s1_disclosures = [
     \<lparr> ifd_section = ''S1.27'', ifd_standard = IfrsS1, ifd_topic = ''Governance'', ifd_paragraph = ''27'',
        ifd_question = ''Disclosure of governance processes, controls and procedures used to monitor, manage and oversee sustainability-related risks and opportunities.'',
        ifd_response = RespText, ifd_unit = None, ifd_mandatory = True, ifd_keys = [], ifd_narrative = None \<rparr>,
     \<lparr> ifd_section = ''S1.28'', ifd_standard = IfrsS1, ifd_topic = ''Governance'', ifd_paragraph = ''28'',
        ifd_question = ''Identification of the body or individual within the entity with responsibility for oversight of sustainability-related risks and opportunities.'',
        ifd_response = RespText, ifd_unit = None, ifd_mandatory = True,
        ifd_keys = [''board_size'', ''independent_directors_count''], ifd_narrative = None \<rparr>,
     \<lparr> ifd_section = ''S1.30'', ifd_standard = IfrsS1, ifd_topic = ''Strategy'', ifd_paragraph = ''30'',
        ifd_question = ''Disclosure of sustainability-related risks and opportunities reasonably expected to affect prospects.'',
        ifd_response = RespTable, ifd_unit = None, ifd_mandatory = True, ifd_keys = [''enterprise_risks_count''],
        ifd_narrative = None \<rparr>,
     \<lparr> ifd_section = ''S1.33'', ifd_standard = IfrsS1, ifd_topic = ''Strategy'', ifd_paragraph = ''33'',
        ifd_question = ''Disclosure of the current and anticipated effects of sustainability-related risks and opportunities on business model and value chain.'',
        ifd_response = RespText, ifd_unit = None, ifd_mandatory = True, ifd_keys = [], ifd_narrative = None \<rparr>,
     \<lparr> ifd_section = ''S1.34'', ifd_standard = IfrsS1, ifd_topic = ''Strategy'', ifd_paragraph = ''34'',
        ifd_question = ''Disclosure of the entity's strategy for addressing each sustainability-related risk and opportunity.'',
        ifd_response = RespText, ifd_unit = None, ifd_mandatory = True, ifd_keys = [], ifd_narrative = None \<rparr>,
     \<lparr> ifd_section = ''S1.43'', ifd_standard = IfrsS1, ifd_topic = ''Risk Management'', ifd_paragraph = ''43'',
        ifd_question = ''Disclosure of processes used to identify, assess, prioritise and monitor sustainability-related risks.'',
        ifd_response = RespText, ifd_unit = None, ifd_mandatory = True, ifd_keys = [], ifd_narrative = None \<rparr>,
     \<lparr> ifd_section = ''S1.46'', ifd_standard = IfrsS1, ifd_topic = ''Metrics & Targets'',
        ifd_paragraph = ''46'',
        ifd_question = ''Disclosure of metrics used to measure and monitor sustainability-related risks and opportunities.'',
        ifd_response = RespTable, ifd_unit = None, ifd_mandatory = True, ifd_keys = [], ifd_narrative = None \<rparr>,
     \<lparr> ifd_section = ''S1.51'', ifd_standard = IfrsS1, ifd_topic = ''Metrics & Targets'',
        ifd_paragraph = ''51'', ifd_question = ''Disclosure of targets set and progress against them.'',
        ifd_response = RespTable, ifd_unit = None, ifd_mandatory = True, ifd_keys = [], ifd_narrative = None \<rparr>]"

definition ifrs_s2_disclosures_1 :: "ifrs_disclosure list" where
  "ifrs_s2_disclosures_1 = [
     \<lparr> ifd_section = ''S2.6'', ifd_standard = IfrsS2, ifd_topic = ''Governance'', ifd_paragraph = ''6'',
        ifd_question = ''Disclosure of governance processes, controls and procedures used to monitor, manage and oversee climate-related risks and opportunities.'',
        ifd_response = RespText, ifd_unit = None, ifd_mandatory = True, ifd_keys = [], ifd_narrative = None \<rparr>,
     \<lparr> ifd_section = ''S2.9'', ifd_standard = IfrsS2, ifd_topic = ''Strategy'', ifd_paragraph = ''9'',
        ifd_question = ''Disclosure of climate-related risks and opportunities reasonably expected to affect prospects, including transition and physical risks.'',
        ifd_response = RespTable, ifd_unit = None, ifd_mandatory = True,
        ifd_keys = [''climate_risks_identified_count''], ifd_narrative = None \<rparr>,
     \<lparr> ifd_section = ''S2.13'', ifd_standard = IfrsS2, ifd_topic = ''Strategy - resilience'',
        ifd_paragraph = ''13'',
        ifd_question = ''Disclosure of the resilience of the entity's strategy and business model to climate-related changes, developments and uncertainties, including scenario analysis.'',
        ifd_response = RespText, ifd_unit = None, ifd_mandatory = True, ifd_keys = [''tcfd_scenarios_used''],
        ifd_narrative = None \<rparr>,
     \<lparr> ifd_section = ''S2.25'', ifd_standard = IfrsS2, ifd_topic = ''Risk Management'', ifd_paragraph = ''25'',
        ifd_question = ''Disclosure of processes used to identify, assess, prioritise and monitor climate-related risks.'',
        ifd_response = RespText, ifd_unit = None, ifd_mandatory = True,
        ifd_keys = [''climate_risks_identified_count''], ifd_narrative = None \<rparr>,
     \<lparr> ifd_section = ''S2.29(a)'', ifd_standard = IfrsS2, ifd_topic = ''Metrics - GHG emissions Scope 1'',
        ifd_paragraph = ''29(a)'',
        ifd_question = ''Disclosure of absolute gross Scope 1 GHG emissions for the reporting period in metric tonnes of CO2 equivalent.'',
        ifd_response = RespNumeric, ifd_unit = Some ''tco2e'', ifd_mandatory = True,
        ifd_keys = [''scope1_total_tco2e'', ''scope1_stationary_tco2e'', ''scope1_mobile_tco2e'', ''scope1_process_tco2e'', ''scope1_fugitive_tco2e''],
        ifd_narrative = Some ''Absolute gross Scope 1 GHG emissions were {{metric.scope1_total_tco2e}} tCO2e for the period.'' \<rparr>,
     \<lparr> ifd_section = ''S2.29(b)'', ifd_standard = IfrsS2, ifd_topic = ''Metrics - GHG emissions Scope 2'',
        ifd_paragraph = ''29(b)'',
        ifd_question = ''Disclosure of absolute gross Scope 2 GHG emissions for the reporting period in metric tonnes of CO2 equivalent (location-based; market-based as alternative).'',
        ifd_response = RespTable, ifd_unit = Some ''tco2e'', ifd_mandatory = True,
        ifd_keys = [''scope2_location_tco2e'', ''scope2_market_tco2e''],
        ifd_narrative = Some ''Scope 2 (location-based) emissions: {{metric.scope2_location_tco2e}} tCO2e. Scope 2 (market-based): {{metric.scope2_market_tco2e}} tCO2e.'' \<rparr>,
     \<lparr> ifd_section = ''S2.29(c)'', ifd_standard = IfrsS2, ifd_topic = ''Metrics - GHG emissions Scope 3'',
        ifd_paragraph = ''29(c)'',
        ifd_question = ''Disclosure of absolute gross Scope 3 GHG emissions for the reporting period in metric tonnes of CO2 equivalent, disaggregated by the 15 categories of the GHG Protocol Scope 3 Standard.'',
        ifd_response = RespTable, ifd_unit = Some ''tco2e'', ifd_mandatory = True, ifd_keys = scope3_metric_keys,
        ifd_narrative = Some ''Scope 3 emissions across all 15 categories: {{calc.scope3_total}} tCO2e.'' \<rparr>,
     \<lparr> ifd_section = ''S2.29(d)'', ifd_standard = IfrsS2, ifd_topic = ''Metrics - Industry-based'',
        ifd_paragraph = ''29(d)'',
        ifd_question = ''Industry-based metrics associated with particular business models, activities or other common features that characterise participation in the industry.'',
        ifd_response = RespTable, ifd_unit = None, ifd_mandatory = True,
        ifd_keys = [''ghg_intensity_per_unit_output'', ''ghg_intensity_per_revenue'', ''energy_intensity_per_revenue'', ''water_intensity_per_revenue''],
        ifd_narrative = None \<rparr>,
     \<lparr> ifd_section = ''S2.29(e)'', ifd_standard = IfrsS2, ifd_topic = ''Metrics - Transition risks'',
        ifd_paragraph = ''29(e)'',
        ifd_question = ''Amount and percentage of assets or business activities vulnerable to climate-related transition risks.'',
        ifd_response = RespTable, ifd_unit = None, ifd_mandatory = True, ifd_keys = [], ifd_narrative = None \<rparr>,
     \<lparr> ifd_section = ''S2.29(f)'', ifd_standard = IfrsS2, ifd_topic = ''Metrics - Physical risks'',
        ifd_paragraph = ''29(f)'',
        ifd_question = ''Amount and percentage of assets or business activities vulnerable to climate-related physical risks.'',
        ifd_response = RespTable, ifd_unit = None, ifd_mandatory = True, ifd_keys = [], ifd_narrative = None \<rparr>]"

definition ifrs_s2_disclosures_2 :: "ifrs_disclosure list" where
  "ifrs_s2_disclosures_2 = [
     \<lparr> ifd_section = ''S2.29(g)'', ifd_standard = IfrsS2,
        ifd_topic = ''Metrics - Climate-related opportunities'', ifd_paragraph = ''29(g)'',
        ifd_question = ''Amount and percentage of assets or business activities aligned with climate-related opportunities.'',
        ifd_response = RespTable, ifd_unit = None, ifd_mandatory = True,
        ifd_keys = [''electricity_from_renewable_kwh''], ifd_narrative = None \<rparr>,
     \<lparr> ifd_section = ''S2.29(h)'', ifd_standard = IfrsS2, ifd_topic = ''Metrics - Capital deployment'',
        ifd_paragraph = ''29(h)'',
        ifd_question = ''Amount of capital expenditure, financing or investment deployed toward climate-related risks and opportunities.'',
        ifd_response = RespNumeric, ifd_unit = Some ''inr'', ifd_mandatory = True, ifd_keys = [],
        ifd_narrative = None \<rparr>,
     \<lparr> ifd_section = ''S2.33'', ifd_standard = IfrsS2, ifd_topic = ''Targets'', ifd_paragraph = ''33'',
        ifd_question = ''Disclosure of climate-related targets set, and progress made against them.'',
        ifd_response = RespTable, ifd_unit = None, ifd_mandatory = True,
        ifd_keys = [''scope1_total_tco2e'', ''scope2_location_tco2e'', ''electricity_from_renewable_kwh''],
        ifd_narrative = None \<rparr>]"

definition ifrs_s2_disclosures :: "ifrs_disclosure list" where
  "ifrs_s2_disclosures = ifrs_s2_disclosures_1 @ ifrs_s2_disclosures_2"

definition tcfd_disclosures :: "tcfd_disclosure list" where
  "tcfd_disclosures = [
     \<lparr> tcd_section = ''TCFD-Gov-a'', tcd_pillar = PillarGovernance, tcd_recommendation = ''Governance-a'',
        tcd_question = ''Describe the board's oversight of climate-related risks and opportunities.'',
        tcd_response = RespText, tcd_unit = None, tcd_mandatory = True, tcd_keys = [''board_meetings_count''],
        tcd_narrative = Some ''The Board reviewed climate-related risks {{calc.climate_review_count}} times during the period; {{metric.board_meetings_count}} board meetings were held in total.'' \<rparr>,
     \<lparr> tcd_section = ''TCFD-Gov-b'', tcd_pillar = PillarGovernance, tcd_recommendation = ''Governance-b'',
        tcd_question = ''Describe management's role in assessing and managing climate-related risks and opportunities.'',
        tcd_response = RespText, tcd_unit = None, tcd_mandatory = True, tcd_keys = [], tcd_narrative = None \<rparr>,
     \<lparr> tcd_section = ''TCFD-Strat-a'', tcd_pillar = PillarStrategy, tcd_recommendation = ''Strategy-a'',
        tcd_question = ''Describe the climate-related risks and opportunities identified over the short, medium and long term.'',
        tcd_response = RespTable, tcd_unit = None, tcd_mandatory = True,
        tcd_keys = [''climate_risks_identified_count''],
        tcd_narrative = Some ''{{metric.climate_risks_identified_count}} distinct climate-related risks have been identified and prioritised across short, medium and long-term horizons.'' \<rparr>,
     \<lparr> tcd_section = ''TCFD-Strat-b'', tcd_pillar = PillarStrategy, tcd_recommendation = ''Strategy-b'',
        tcd_question = ''Describe the impact of climate-related risks and opportunities on the organisation's businesses, strategy, and financial planning.'',
        tcd_response = RespText, tcd_unit = None, tcd_mandatory = True, tcd_keys = [], tcd_narrative = None \<rparr>,
     \<lparr> tcd_section = ''TCFD-Strat-c'', tcd_pillar = PillarStrategy, tcd_recommendation = ''Strategy-c'',
        tcd_question = ''Describe the resilience of the organisation's strategy, taking into consideration different climate-related scenarios, including a 2C or lower scenario.'',
        tcd_response = RespText, tcd_unit = None, tcd_mandatory = True, tcd_keys = [''tcfd_scenarios_used''],
        tcd_narrative = Some ''Strategy resilience was tested against {{metric.tcfd_scenarios_used}} climate scenarios including a 2C-aligned pathway.'' \<rparr>,
     \<lparr> tcd_section = ''TCFD-Risk-a'', tcd_pillar = PillarRiskManagement,
        tcd_recommendation = ''RiskManagement-a'',
        tcd_question = ''Describe the organisation's processes for identifying and assessing climate-related risks.'',
        tcd_response = RespText, tcd_unit = None, tcd_mandatory = True,
        tcd_keys = [''enterprise_risks_count'', ''climate_risks_identified_count''], tcd_narrative = None \<rparr>,
     \<lparr> tcd_section = ''TCFD-Risk-b'', tcd_pillar = PillarRiskManagement,
        tcd_recommendation = ''RiskManagement-b'',
        tcd_question = ''Describe the organisation's processes for managing climate-related risks.'',
        tcd_response = RespText, tcd_unit = None, tcd_mandatory = True, tcd_keys = [], tcd_narrative = None \<rparr>,
     \<lparr> tcd_section = ''TCFD-Risk-c'', tcd_pillar = PillarRiskManagement,
        tcd_recommendation = ''RiskManagement-c'',
        tcd_question = ''Describe how processes for identifying, assessing and managing climate-related risks are integrated into the organisation's overall risk management.'',
        tcd_response = RespText, tcd_unit = None, tcd_mandatory = True, tcd_keys = [''enterprise_risks_count''],
        tcd_narrative = None \<rparr>,
     \<lparr> tcd_section = ''TCFD-Metr-a'', tcd_pillar = PillarMetricsTargets,
        tcd_recommendation = ''MetricsTargets-a'',
        tcd_question = ''Disclose the metrics used by the organisation to assess climate-related risks and opportunities in line with its strategy and risk management process.'',
        tcd_response = RespTable, tcd_unit = None, tcd_mandatory = True,
        tcd_keys = [''ghg_intensity_per_revenue'', ''ghg_intensity_per_unit_output'', ''energy_intensity_per_revenue'', ''electricity_from_renewable_kwh''],
        tcd_narrative = None \<rparr>,
     \<lparr> tcd_section = ''TCFD-Metr-b'', tcd_pillar = PillarMetricsTargets,
        tcd_recommendation = ''MetricsTargets-b'',
        tcd_question = ''Disclose Scope 1, Scope 2, and, if appropriate, Scope 3 greenhouse gas (GHG) emissions, and the related risks.'',
        tcd_response = RespTable, tcd_unit = Some ''tco2e'', tcd_mandatory = True,
        tcd_keys = ([''scope1_total_tco2e'', ''scope2_location_tco2e'', ''scope2_market_tco2e''] @ scope3_metric_keys),
        tcd_narrative = Some ''Scope 1: {{metric.scope1_total_tco2e}} tCO2e; Scope 2 (location): {{metric.scope2_location_tco2e}} tCO2e; Scope 2 (market): {{metric.scope2_market_tco2e}} tCO2e; Scope 3 (all 15 categories): {{calc.scope3_total}} tCO2e.'' \<rparr>,
     \<lparr> tcd_section = ''TCFD-Metr-c'', tcd_pillar = PillarMetricsTargets,
        tcd_recommendation = ''MetricsTargets-c'',
        tcd_question = ''Describe the targets used by the organisation to manage climate-related risks and opportunities and performance against targets.'',
        tcd_response = RespTable, tcd_unit = None, tcd_mandatory = True,
        tcd_keys = [''scope1_total_tco2e'', ''scope2_location_tco2e'', ''electricity_from_renewable_kwh''],
        tcd_narrative = None \<rparr>]"

definition cdp_disclosures :: "cdp_disclosure list" where
  "cdp_disclosures = cdp_climate_disclosures @ cdp_water_disclosures @ cdp_forests_disclosures"

definition get_cdp_by_module :: "cdp_module \<Rightarrow> cdp_disclosure list" where
  "get_cdp_by_module m = filter (\<lambda>d. cdd_module d = m) cdp_disclosures"

definition get_tcfd_by_pillar :: "tcfd_pillar \<Rightarrow> tcfd_disclosure list" where
  "get_tcfd_by_pillar p = filter (\<lambda>d. tcd_pillar d = p) tcfd_disclosures"

end
