(* ===== verification/Crosswalks.thy ===== *)
theory Crosswalks
  imports Fw_Metrics Fw_Brsr Fw_Gri Fw_Esrs Fw_Sasb Fw_Climate
begin

text \<open>
  The crosswalk between canonical metrics and framework disclosures
  (packages/frameworks/src/crosswalks/index.ts) and the choice of a framework's disclosures
  (packages/frameworks/src/index.ts). A \<open>Map\<close> and an object are association lists in insertion
  order; the keys of a crosswalk entry are framework codes.
\<close>

section \<open>Frameworks\<close>

datatype framework_code =
  FwBrsr | FwGri | FwSasb | FwTcfd | FwIfrsS1 | FwIfrsS2 | FwEsrs | FwCdp

datatype any_disclosure =
    AnyBrsr brsr_disclosure | AnyGri gri_disclosure | AnySasb sasb_disclosure | AnyTcfd tcfd_disclosure
  | AnyIfrs ifrs_disclosure | AnyEsrs esrs_disclosure | AnyCdp cdp_disclosure

fun get_disclosures_by_framework :: "framework_code \<Rightarrow> any_disclosure list" where
  "get_disclosures_by_framework FwBrsr = map AnyBrsr brsr_disclosures"
| "get_disclosures_by_framework FwGri = map AnyGri gri_disclosures"
| "get_disclosures_by_framework FwSasb = map AnySasb sasb_disclosures"
| "get_disclosures_by_framework FwTcfd = map AnyTcfd tcfd_disclosures"
| "get_disclosures_by_framework FwIfrsS1 = map AnyIfrs ifrs_s1_disclosures"
| "get_disclosures_by_framework FwIfrsS2 = map AnyIfrs ifrs_s2_disclosures"
| "get_disclosures_by_framework FwEsrs = map AnyEsrs esrs_disclosures"
| "get_disclosures_by_framework FwCdp = map AnyCdp cdp_disclosures"

definition all_frameworks :: "framework_code list" where
  "all_frameworks = [FwBrsr, FwGri, FwSasb, FwTcfd, FwIfrsS1, FwIfrsS2, FwEsrs, FwCdp]"

text \<open>\<open>DisclosureLike\<close>: the two fields every disclosure has.\<close>

record disclosure_like =
  dl_section :: string
  dl_keys :: "string list"

fun as_disclosure :: "any_disclosure \<Rightarrow> disclosure_like" where
  "as_disclosure (AnyBrsr d) = \<lparr> dl_section = brd_section d, dl_keys = brd_keys d \<rparr>"
| "as_disclosure (AnyGri d) = \<lparr> dl_section = grd_section d, dl_keys = grd_keys d \<rparr>"
| "as_disclosure (AnySasb d) = \<lparr> dl_section = sad_section d, dl_keys = sad_keys d \<rparr>"
| "as_disclosure (AnyTcfd d) = \<lparr> dl_section = tcd_section d, dl_keys = tcd_keys d \<rparr>"
| "as_disclosure (AnyIfrs d) = \<lparr> dl_section = ifd_section d, dl_keys = ifd_keys d \<rparr>"
| "as_disclosure (AnyEsrs d) = \<lparr> dl_section = esd_section d, dl_keys = esd_keys d \<rparr>"
| "as_disclosure (AnyCdp d) = \<lparr> dl_section = cdd_section d, dl_keys = cdd_keys d \<rparr>"

definition disclosures_of :: "framework_code \<Rightarrow> disclosure_like list" where
  "disclosures_of fw = map as_disclosure (get_disclosures_by_framework fw)"

section \<open>Inverting the mapped keys\<close>

type_synonym crosswalk_map = "(framework_code \<times> string list) list"

definition ids_of :: "crosswalk_map \<Rightarrow> framework_code \<Rightarrow> string list" where
  "ids_of entry fw = (case map_of entry fw of None \<Rightarrow> [] | Some ids \<Rightarrow> ids)"

definition entry_of :: "(string \<times> crosswalk_map) list \<Rightarrow> string \<Rightarrow> crosswalk_map" where
  "entry_of acc key = (case map_of acc key of None \<Rightarrow> [] | Some e \<Rightarrow> e)"

definition add_id :: "framework_code \<Rightarrow> string \<Rightarrow> crosswalk_map \<Rightarrow> crosswalk_map" where
  "add_id fw sid entry =
     (let existing = ids_of entry fw
      in upsert fw (if sid \<in> set existing then existing else existing @ [sid]) entry)"

definition invert_key :: "framework_code \<Rightarrow> string \<Rightarrow> (string \<times> crosswalk_map) list \<Rightarrow> string \<Rightarrow> (string \<times> crosswalk_map) list" where
  "invert_key fw sid acc key = upsert key (add_id fw sid (entry_of acc key)) acc"

definition invert_framework ::
  "disclosure_like list \<Rightarrow> framework_code \<Rightarrow> (string \<times> crosswalk_map) list \<Rightarrow> (string \<times> crosswalk_map) list" where
  "invert_framework ds fw acc =
     foldl (\<lambda>a d. foldl (invert_key fw (dl_section d)) a (dl_keys d)) acc ds"

section \<open>The golden mappings\<close>

definition golden_crosswalks :: "(string \<times> crosswalk_map) list" where
  "golden_crosswalks = [
     (''electricity_kwh'',
       [(FwBrsr, [''P6.E.1'']),
        (FwGri, [''GRI 302-1'']),
        (FwSasb, [''RR-SE-130a.1'', ''RT-EE-130a.1'', ''EM-CM-130a.1'', ''EM-IS-130a.1'', ''RT-IG-130a.1'', ''TC-IM-130a.1'', ''TC-SI-130a.1'']),
        (FwTcfd, [''TCFD-Metr-a'']),
        (FwIfrsS2, [''S2.29(d)'']),
        (FwEsrs, [''ESRS E1-5'']),
        (FwCdp, [''C8.2a''])]),
     (''electricity_from_renewable_kwh'',
       [(FwBrsr, [''P6.E.1'', ''P6.L.4'']),
        (FwGri, [''GRI 302-1'']),
        (FwSasb, [''RR-SE-130a.1'', ''TC-IM-130a.1'', ''TC-SI-130a.1'']),
        (FwTcfd, [''TCFD-Metr-a'', ''TCFD-Metr-c'']),
        (FwIfrsS2, [''S2.29(g)'']),
        (FwEsrs, [''ESRS E1-5'']),
        (FwCdp, [''C8.2a''])]),
     (''scope1_total_tco2e'',
       [(FwBrsr, [''P6.E.8'']),
        (FwGri, [''GRI 305-1'']),
        (FwSasb, [''EM-CM-110a.1'', ''EM-IS-110a.1'']),
        (FwTcfd, [''TCFD-Metr-b'', ''TCFD-Metr-c'']),
        (FwIfrsS2, [''S2.29(a)'']),
        (FwEsrs, [''ESRS E1-6'']),
        (FwCdp, [''C6.1''])]),
     (''scope2_location_tco2e'',
       [(FwBrsr, [''P6.E.8'']),
        (FwGri, [''GRI 305-2'']),
        (FwTcfd, [''TCFD-Metr-b'']),
        (FwIfrsS2, [''S2.29(b)'']),
        (FwEsrs, [''ESRS E1-6'']),
        (FwCdp, [''C6.3''])]),
     (''scope2_market_tco2e'',
       [(FwBrsr, [''P6.E.8'']),
        (FwGri, [''GRI 305-2'']),
        (FwTcfd, [''TCFD-Metr-b'']),
        (FwIfrsS2, [''S2.29(b)'']),
        (FwEsrs, [''ESRS E1-6'']),
        (FwCdp, [''C6.3''])]),
     (''water_withdrawn_total_kl'',
       [(FwBrsr, [''P6.E.3'', ''P6.L.1'']),
        (FwGri, [''GRI 303-3'']),
        (FwSasb, [''RR-SE-140a.1'', ''EM-CM-140a.1'', ''EM-IS-140a.1'', ''TC-IM-130a.2'', ''TC-SI-130a.2'']),
        (FwEsrs, [''ESRS E3-4'']),
        (FwCdp, [''W1.2b''])]),
     (''water_discharged_kl'',
       [(FwBrsr, [''P6.E.6'']),
        (FwGri, [''GRI 303-4'']),
        (FwEsrs, [''ESRS E3-4'']),
        (FwCdp, [''W1.2b''])]),
     (''water_consumed_kl'',
       [(FwBrsr, [''P6.L.1'']),
        (FwGri, [''GRI 303-5'']),
        (FwSasb, [''RR-SE-140a.1'', ''TC-IM-130a.2'', ''TC-SI-130a.2'']),
        (FwEsrs, [''ESRS E3-4'']),
        (FwCdp, [''W1.2b''])]),
     (''waste_hazardous_kg'',
       [(FwBrsr, [''P6.E.10'']),
        (FwGri, [''GRI 306-3'']),
        (FwSasb, [''RR-SE-150a.1'', ''RT-EE-150a.1'', ''EM-CM-150a.1'', ''EM-IS-150a.1'']),
        (FwEsrs, [''ESRS E5-5''])]),
     (''ltifr'',
       [(FwBrsr, [''P3.E.11.a'']),
        (FwGri, [''GRI 403-9'']),
        (FwSasb, [''EM-IS-320a.1'', ''RT-IG-320a.1'']),
        (FwEsrs, [''ESRS S1-14''])]),
     (''women_in_workforce_pct'',
       [(FwBrsr, [''A.III.20.a'']),
        (FwGri, [''GRI 405-1'']),
        (FwSasb, [''TC-IM-330a.3'', ''TC-SI-330a.2'']),
        (FwEsrs, [''ESRS S1-9''])]),
     (''gender_pay_gap_pct'',
       [(FwBrsr, [''P5.E.3'']),
        (FwGri, [''GRI 405-2'']),
        (FwEsrs, [''ESRS S1-16''])]),
     (''csr_spend_inr'',
       [(FwBrsr, [''P8.L.2'']),
        (FwEsrs, [''ESRS S3-4''])]),
     (''data_breach_count'',
       [(FwBrsr, [''P9.E.3'', ''P9.L.5'']),
        (FwSasb, [''TC-IM-230a.1'', ''TC-SI-230a.1'']),
        (FwEsrs, [''ESRS S4-4''])])]"

text \<open>\<open>Array.from(new Set(xs))\<close>: the first occurrence of each element stays.\<close>

definition js_set :: "'a list \<Rightarrow> 'a list" where
  "js_set xs = foldl (\<lambda>s x. if x \<in> set s then s else s @ [x]) [] xs"

definition merge_golden_entry :: "crosswalk_map \<Rightarrow> crosswalk_map \<Rightarrow> crosswalk_map" where
  "merge_golden_entry golden entry =
     foldl (\<lambda>e (fw, ids). upsert fw (js_set (ids_of e fw @ ids)) e) entry golden"

definition merge_golden ::
  "(string \<times> crosswalk_map) list \<Rightarrow> (string \<times> crosswalk_map) list \<Rightarrow> (string \<times> crosswalk_map) list" where
  "merge_golden goldens acc =
     foldl (\<lambda>a (key, golden). upsert key (merge_golden_entry golden (entry_of a key)) a) acc goldens"

text \<open>Every canonical key gets an entry.\<close>

definition fill_keys :: "string list \<Rightarrow> (string \<times> crosswalk_map) list \<Rightarrow> (string \<times> crosswalk_map) list" where
  "fill_keys ks acc = foldl (\<lambda>a k. if map_of a k = None then upsert k [] a else a) acc ks"

section \<open>The crosswalk\<close>

definition invert_all :: "(framework_code \<Rightarrow> disclosure_like list) \<Rightarrow> (string \<times> crosswalk_map) list" where
  "invert_all T = foldl (\<lambda>a fw. invert_framework (T fw) fw a) [] all_frameworks"

definition crosswalks_from ::
  "(framework_code \<Rightarrow> disclosure_like list) \<Rightarrow> string list \<Rightarrow> (string \<times> crosswalk_map) list \<Rightarrow> (string \<times> crosswalk_map) list" where
  "crosswalks_from T ks goldens = merge_golden goldens (fill_keys ks (invert_all T))"

definition crosswalks :: "(string \<times> crosswalk_map) list" where
  "crosswalks = crosswalks_from disclosures_of canonical_keys golden_crosswalks"

section \<open>Lookups\<close>

text \<open>
  The lookups take the object \<open>C\<close>. A key of the prototype reads a host object, which is truthy and
  has no enumerable entries.
\<close>

definition get_crosswalk :: "crosswalk_map js_object \<Rightarrow> string \<Rightarrow> crosswalk_map js_read" where
  "get_crosswalk C key = (case js_read C key of JsUndefined \<Rightarrow> JsOwn [] | r \<Rightarrow> r)"

definition read_entries :: "crosswalk_map js_object \<Rightarrow> string \<Rightarrow> crosswalk_map" where
  "read_entries C key = (case js_read C key of JsOwn xw \<Rightarrow> xw | JsHost \<Rightarrow> [] | JsUndefined \<Rightarrow> [])"

definition get_frameworks_containing :: "crosswalk_map js_object \<Rightarrow> string \<Rightarrow> framework_code list" where
  "get_frameworks_containing C key = map fst (filter (\<lambda>(fw, ids). ids \<noteq> []) (read_entries C key))"

definition get_disclosures_answered :: "crosswalk_map js_object \<Rightarrow> string \<Rightarrow> string list" where
  "get_disclosures_answered C key = concat (map snd (read_entries C key))"

definition get_keys_for_disclosure :: "crosswalk_map js_object \<Rightarrow> framework_code \<Rightarrow> string \<Rightarrow> string list" where
  "get_keys_for_disclosure C fw sid = map fst (filter (\<lambda>(key, xw). sid \<in> set (ids_of xw fw)) C)"

end
