(* ===== verification/Crosswalk_Laws.thy ===== *)
theory Crosswalk_Laws
  imports Crosswalks
begin

text \<open>
  What the construction of the crosswalk does for any tables: which identifiers an entry holds
  after inverting the tables, filling in the keys and merging the hand-curated mappings, and what
  the registry loop accepts.
\<close>

section \<open>Association lists\<close>

lemma entry_of_upsert [simp]: "entry_of (upsert k e acc) k' = (if k' = k then e else entry_of acc k')"
  by (simp add: entry_of_def)

lemma ids_of_upsert [simp]: "ids_of (upsert fw ids e) fw' = (if fw' = fw then ids else ids_of e fw')"
  by (simp add: ids_of_def)

lemma entry_of_Nil [simp]: "entry_of [] k = []" and ids_of_Nil [simp]: "ids_of [] fw = []"
  by (simp_all add: entry_of_def ids_of_def)

abbreviation listed :: "(string \<times> crosswalk_map) list \<Rightarrow> string \<Rightarrow> framework_code \<Rightarrow> string set" where
  "listed acc key fw \<equiv> set (ids_of (entry_of acc key) fw)"

section \<open>Inverting\<close>

lemma add_id_ids: "set (ids_of (add_id fw sid e) fw') = set (ids_of e fw') \<union> (if fw' = fw then {sid} else {})"
  by (auto simp: add_id_def Let_def)

lemma invert_keys_listed:
  "listed (foldl (invert_key fw sid) acc ks) key fw' =
     listed acc key fw' \<union> (if fw' = fw \<and> key \<in> set ks then {sid} else {})"
  by (induction ks arbitrary: acc) (auto simp: invert_key_def add_id_ids)

lemma invert_framework_listed:
  "listed (invert_framework ds fw acc) key fw' =
     listed acc key fw' \<union> (if fw' = fw then {dl_section d |d. d \<in> set ds \<and> key \<in> set (dl_keys d)} else {})"
proof (induction ds arbitrary: acc)
  case (Cons d ds)
  show ?case
    using Cons[of "foldl (invert_key fw (dl_section d)) acc (dl_keys d)"]
    by (auto simp: invert_framework_def invert_keys_listed)
qed (simp add: invert_framework_def)

lemma invert_frameworks_listed:
  "listed (foldl (\<lambda>a fw. invert_framework (T fw) fw a) acc fws) key fw' =
     listed acc key fw' \<union> (if fw' \<in> set fws then {dl_section d |d. d \<in> set (T fw') \<and> key \<in> set (dl_keys d)} else {})"
  by (induction fws arbitrary: acc) (auto simp: invert_framework_listed)

lemma all_frameworks_all: "fw \<in> set all_frameworks"
  by (cases fw) (simp_all add: all_frameworks_def)

lemma invert_all_listed: "listed (invert_all T) key fw = {dl_section d |d. d \<in> set (T fw) \<and> key \<in> set (dl_keys d)}"
  by (simp add: invert_all_def invert_frameworks_listed all_frameworks_all)

section \<open>Filling and merging\<close>

lemma fill_keys_entry: "entry_of (fill_keys ks acc) key = entry_of acc key"
  unfolding fill_keys_def
proof (induction ks arbitrary: acc)
  case (Cons k ks)
  have "entry_of (if map_of acc k = None then upsert k [] acc else acc) key = entry_of acc key"
    by (auto simp: entry_of_def)
  then show ?case using Cons by simp
qed simp

lemma js_set_set [simp]: "set (js_set xs) = set xs"
  by (induction xs rule: rev_induct) (auto simp: js_set_def)

lemma js_set_distinct [simp]: "distinct (js_set xs)"
  by (induction xs rule: rev_induct) (auto simp: js_set_def)

lemma js_set_id: "distinct xs \<Longrightarrow> js_set xs = xs"
  by (induction xs rule: rev_induct) (auto simp: js_set_def)

lemma merge_entry_listed:
  "distinct (map fst golden) \<Longrightarrow>
     set (ids_of (merge_golden_entry golden e) fw) = set (ids_of e fw) \<union> set (ids_of golden fw)"
proof (induction golden arbitrary: e)
  case (Cons g golden)
  obtain f ids where g: "g = (f, ids)" by (cases g)
  have none: "ids_of golden f = []" using Cons.prems g
    by (auto simp: ids_of_def map_of_eq_None_iff split: option.splits dest: map_of_SomeD intro: rev_image_eqI)
  have step: "merge_golden_entry (g # golden) e = merge_golden_entry golden (upsert f (js_set (ids_of e f @ ids)) e)"
    by (simp add: merge_golden_entry_def g)
  show ?case using Cons none unfolding step by (auto simp: g) (auto simp: ids_of_def)
qed (simp add: merge_golden_entry_def)

lemma merge_golden_listed:
  "distinct (map fst goldens) \<Longrightarrow> list_all (\<lambda>(k, golden). distinct (map fst golden)) goldens \<Longrightarrow>
     listed (merge_golden goldens acc) key fw = listed acc key fw \<union> listed goldens key fw"
proof (induction goldens arbitrary: acc)
  case (Cons g goldens)
  obtain k golden where g: "g = (k, golden)" by (cases g)
  have none: "entry_of goldens k = []" using Cons.prems(1) g
    by (auto simp: entry_of_def split: option.splits dest: map_of_SomeD intro: rev_image_eqI)
  have step: "merge_golden (g # goldens) acc = merge_golden goldens (upsert k (merge_golden_entry golden (entry_of acc k)) acc)"
    by (simp add: merge_golden_def g)
  show ?case
  proof (cases "key = k")
    case True
    then show ?thesis using Cons none merge_entry_listed[of golden "entry_of acc k" fw] unfolding step
      by (simp add: g) (simp add: entry_of_def)
  next
    case False
    then show ?thesis using Cons unfolding step by (simp add: g) (simp add: entry_of_def)
  qed
qed (simp add: merge_golden_def)

section \<open>The keys of the crosswalk\<close>

lemma upsert_keys: "set (map fst (upsert k v ob)) = insert k (set (map fst ob))"
  by (simp add: keys_upsert del: set_map) auto

text \<open>An invariant of the map under construction: its keys are distinct, and so are the ids of an entry.\<close>

definition crosswalk_ok :: "(string \<times> crosswalk_map) list \<Rightarrow> bool" where
  "crosswalk_ok acc \<longleftrightarrow> distinct (map fst acc) \<and>
     (\<forall>key. distinct (map fst (entry_of acc key)) \<and> (\<forall>fw. distinct (ids_of (entry_of acc key) fw)))"

lemma crosswalk_ok_upsert:
  "crosswalk_ok acc \<Longrightarrow> distinct (map fst e) \<Longrightarrow> (\<And>fw. distinct (ids_of e fw)) \<Longrightarrow> crosswalk_ok (upsert k e acc)"
  by (simp add: crosswalk_ok_def distinct_upsert)

lemma invert_key_ok: "crosswalk_ok acc \<Longrightarrow> crosswalk_ok (invert_key fw sid acc key)"
  unfolding invert_key_def 
  by (rule crosswalk_ok_upsert) (simp_all add: crosswalk_ok_def add_id_def Let_def distinct_upsert)

lemma invert_keys_ok: "crosswalk_ok acc \<Longrightarrow> crosswalk_ok (foldl (invert_key fw sid) acc ks)"
  by (induction ks arbitrary: acc) (simp_all add: invert_key_ok)

lemma invert_framework_ok: "crosswalk_ok acc \<Longrightarrow> crosswalk_ok (invert_framework ds fw acc)"
  unfolding invert_framework_def by (induction ds arbitrary: acc) (simp_all add: invert_keys_ok)

lemma invert_all_ok: "crosswalk_ok (invert_all T)"
proof -
  have "crosswalk_ok acc \<Longrightarrow> crosswalk_ok (foldl (\<lambda>a fw. invert_framework (T fw) fw a) acc fws)" for acc fws
    by (induction fws arbitrary: acc) (simp_all add: invert_framework_ok)
  then show ?thesis by (simp add: invert_all_def crosswalk_ok_def)
qed

lemma fill_keys_ok: "crosswalk_ok acc \<Longrightarrow> crosswalk_ok (fill_keys ks acc)"
  unfolding fill_keys_def
  by (induction ks arbitrary: acc) (simp_all add: crosswalk_ok_upsert)

lemma merge_entry_distinct:
  "(\<And>fw. distinct (ids_of e fw)) \<Longrightarrow> distinct (ids_of (merge_golden_entry golden e) fw)"
  unfolding merge_golden_entry_def by (induction golden arbitrary: e) auto

lemma merge_entry_fws:
  "distinct (map fst e) \<Longrightarrow> distinct (map fst (merge_golden_entry golden e))"
  unfolding merge_golden_entry_def by (induction golden arbitrary: e) (auto simp: distinct_upsert)

lemma merge_golden_ok: "crosswalk_ok acc \<Longrightarrow> crosswalk_ok (merge_golden goldens acc)"
  unfolding merge_golden_def
proof (induction goldens arbitrary: acc)
  case (Cons g goldens)
  have "crosswalk_ok (upsert (fst g) (merge_golden_entry (snd g) (entry_of acc (fst g))) acc)"
    using Cons.prems
    by (intro crosswalk_ok_upsert merge_entry_fws merge_entry_distinct) (simp_all add: crosswalk_ok_def)
  then show ?case using Cons.IH by (simp add: case_prod_unfold)
qed simp

lemma crosswalks_from_ok: "crosswalk_ok (crosswalks_from T ks goldens)"
  by (simp add: crosswalks_from_def merge_golden_ok fill_keys_ok invert_all_ok)

lemma invert_keys_keys: "set (map fst (foldl (invert_key fw sid) acc ks)) = set (map fst acc) \<union> set ks"
  by (induction ks arbitrary: acc) (simp_all add: invert_key_def upsert_keys del: set_map)

lemma invert_framework_keys:
  "set (map fst (invert_framework ds fw acc)) = set (map fst acc) \<union> (\<Union>d\<in>set ds. set (dl_keys d))"
  unfolding invert_framework_def
  by (induction ds arbitrary: acc) (simp_all add: invert_keys_keys Un_assoc del: set_map)

lemma invert_all_keys: "set (map fst (invert_all T)) = (\<Union>fw. \<Union>d\<in>set (T fw). set (dl_keys d))"
proof -
  have "set (map fst (foldl (\<lambda>a fw. invert_framework (T fw) fw a) acc fws)) =
      set (map fst acc) \<union> (\<Union>fw\<in>set fws. \<Union>d\<in>set (T fw). set (dl_keys d))" for acc fws
    by (induction fws arbitrary: acc) (simp_all add: invert_framework_keys Un_assoc del: set_map)
  then show ?thesis by (simp add: invert_all_def all_frameworks_all del: set_map) (use all_frameworks_all in blast)
qed

lemma fill_keys_keys: "set (map fst (fill_keys ks acc)) = set (map fst acc) \<union> set ks"
  unfolding fill_keys_def
proof (induction ks arbitrary: acc)
  case (Cons k ks)
  have "map_of acc k \<noteq> None \<Longrightarrow> k \<in> set (map fst acc)" by (simp add: map_of_eq_None_iff)
  then show ?case using Cons by (auto simp: upsert_keys simp del: set_map)
qed simp

lemma merge_golden_keys: "set (map fst (merge_golden goldens acc)) = set (map fst acc) \<union> set (map fst goldens)"
  unfolding merge_golden_def
  by (induction goldens arbitrary: acc) (simp_all add: upsert_keys case_prod_unfold del: set_map)

lemma crosswalks_from_keys:
  "set (map fst (crosswalks_from T ks goldens)) =
     (\<Union>fw. \<Union>d\<in>set (T fw). set (dl_keys d)) \<union> set ks \<union> set (map fst goldens)"
  by (simp add: crosswalks_from_def merge_golden_keys fill_keys_keys invert_all_keys del: set_map)

section \<open>Lookups\<close>

lemma keys_for_disclosure_iff:
  assumes "crosswalk_ok C"
  shows "key \<in> set (get_keys_for_disclosure C fw sid) \<longleftrightarrow> sid \<in> listed C key fw"
proof -
  have "(key, xw) \<in> set C \<longleftrightarrow> map_of C key = Some xw" for xw
    using assms by (simp add: crosswalk_ok_def)
  then show ?thesis
    by (auto simp: get_keys_for_disclosure_def entry_of_def image_iff split: option.splits)
qed

lemma read_entries_eq: "read_entries C key = entry_of C key"
  by (simp add: read_entries_def js_read_def own_get_def entry_of_def split: option.splits)

section \<open>The registry loop\<close>

lemma registry_loop_ok:
  "distinct (map cmt_key ms) \<Longrightarrow> set (map cmt_key ms) \<inter> (set (map fst out) \<union> set object_prototype) = {} \<Longrightarrow>
     registry_loop ms out = Inr (out @ map (\<lambda>m. (cmt_key m, m)) ms)"
proof (induction ms arbitrary: out)
  case (Cons m ms)
  have new: "upsert (cmt_key m) m out = out @ [(cmt_key m, m)]" if "cmt_key m \<notin> set (map fst out)"
    using that by (induction out) auto
  show ?case using Cons by (auto simp: js_in_def new simp del: set_map)
qed simp

lemma registry_loop_dup:
  "\<not> distinct (map cmt_key ms) \<or> set (map cmt_key ms) \<inter> (set (map fst out) \<union> set object_prototype) \<noteq> {} \<Longrightarrow>
     \<exists>k. k \<in> set (map cmt_key ms) \<and>
       registry_loop ms out = Inl (''Duplicate canonical metric key: '' @ k @ ''. Keys must be unique across the registry.'')"
proof (induction ms arbitrary: out)
  case (Cons m ms)
  show ?case
  proof (cases "js_in (cmt_key m) out")
    case True
    then show ?thesis by (intro exI[of _ "cmt_key m"]) simp
  next
    case False
    then have "\<not> distinct (map cmt_key ms) \<or>
        set (map cmt_key ms) \<inter> (set (map fst (upsert (cmt_key m) m out)) \<union> set object_prototype) \<noteq> {}"
      using Cons.prems unfolding upsert_keys by (auto simp: js_in_def)
    from Cons.IH[OF this] show ?thesis using False by auto
  qed
qed simp

end
