(* ===== verification/Fw_Integrity.thy ===== *)
theory Fw_Integrity
  imports Crosswalk_Laws
begin

text \<open>
  Facts about the tables as they stand: the keys of the canonical metrics, that they are distinct,
  that every table maps to canonical keys only, and that section identifiers are unique. They are
  found by evaluating the tables; \<open>differ\<close> compares texts character by character and stops at
  the first difference.
\<close>

section \<open>Distinct texts\<close>

fun differ :: "string \<Rightarrow> string \<Rightarrow> bool" where
  "differ [] [] = False"
| "differ (c # s) [] = True"
| "differ [] (d # t) = True"
| "differ (c # s) (d # t) = (if c = d then differ s t else True)"

fun differ_all :: "string \<Rightarrow> string list \<Rightarrow> bool" where
  "differ_all x [] = True"
| "differ_all x (y # ys) = (if differ x y then differ_all x ys else False)"

fun pairwise_differ :: "string list \<Rightarrow> bool" where
  "pairwise_differ [] = True"
| "pairwise_differ (x # xs) = (if differ_all x xs then pairwise_differ xs else False)"

lemma differ_iff: "differ s t \<longleftrightarrow> s \<noteq> t"
  by (induction s t rule: differ.induct) auto

lemma differ_all_iff: "differ_all x ys \<longleftrightarrow> x \<notin> set ys"
  by (induction ys) (auto simp: differ_iff)

lemma pairwise_differ_iff: "pairwise_differ xs \<longleftrightarrow> distinct xs"
  by (induction xs) (auto simp: differ_all_iff)

lemmas differ_eval = pairwise_differ.simps differ_all.simps differ.simps char.inject simp_thms if_True if_False

section \<open>The tables\<close>

lemma show_small:
  "show_nat (Suc 0) = ''1''" "show_nat 2 = ''2''" "show_nat 3 = ''3''" "show_nat 4 = ''4''" "show_nat 5 = ''5''"
  "show_nat 6 = ''6''" "show_nat 7 = ''7''" "show_nat 8 = ''8''" "show_nat 9 = ''9''" "show_nat 10 = ''10''"
  "show_nat 11 = ''11''" "show_nat 12 = ''12''" "show_nat 13 = ''13''" "show_nat 14 = ''14''" "show_nat 15 = ''15''"
  by code_simp+

lemma scope3_metric_keys_eq: "scope3_metric_keys = [
     ''scope3_cat1_tco2e'', ''scope3_cat2_tco2e'', ''scope3_cat3_tco2e'', ''scope3_cat4_tco2e'',
     ''scope3_cat5_tco2e'', ''scope3_cat6_tco2e'', ''scope3_cat7_tco2e'', ''scope3_cat8_tco2e'',
     ''scope3_cat9_tco2e'', ''scope3_cat10_tco2e'', ''scope3_cat11_tco2e'', ''scope3_cat12_tco2e'',
     ''scope3_cat13_tco2e'', ''scope3_cat14_tco2e'', ''scope3_cat15_tco2e'']"
  by code_simp

lemmas metric_tables =
  metrics_energy_1_def metrics_energy_2_def metrics_energy_def metrics_water_def
  metrics_waste_1_def metrics_waste_2_def metrics_waste_def metrics_ghg_def
  metrics_ghg_intensity_def metrics_air_def metrics_biodiversity_def metrics_materials_def
  metrics_workforce_1_def metrics_workforce_2_def metrics_workforce_def metrics_diversity_def
  metrics_compensation_def metrics_training_def metrics_health_safety_def metrics_human_rights_def
  metrics_community_def metrics_customer_1_def metrics_customer_2_def metrics_customer_def
  metrics_board_def metrics_ethics_def metrics_risk_def metrics_tax_def metrics_compliance_1_def
  metrics_compliance_2_def metrics_compliance_def metrics_scope3_def scope3_cats_def

lemmas brsr_tables =
  brsr_section_a_def brsr_section_b_def brsr_p1_def brsr_p2_def brsr_p3_1_def brsr_p3_2_def
  brsr_p3_3_def brsr_p3_def brsr_p4_def brsr_p5_1_def brsr_p5_2_def brsr_p5_def brsr_p6_1_def
  brsr_p6_2_def brsr_p6_3_def brsr_p6_def brsr_p7_def brsr_p8_def brsr_p9_1_def brsr_p9_2_def
  brsr_p9_def expand_board_oversight_def board_row_def expand_sub_breakouts_def sub_categories_def
  sub_row_def

lemmas gri_tables =
  gri_universal_def gri_energy_def gri_water_def gri_emissions_def gri_waste_def gri_employment_def
  gri_health_safety_def gri_training_def gri_diversity_def gri_supply_chain_def

lemmas esrs_tables =
  esrs_cross_cutting_def esrs_e1_def esrs_e2_def esrs_e3_def esrs_e4_def esrs_e5_def esrs_s1_def
  esrs_s2_def esrs_s3_def esrs_s4_def esrs_g1_def

lemmas sasb_tables =
  sasb_rr_se_def sasb_rt_ee_def sasb_em_cm_def sasb_em_is_def sasb_rt_ig_def sasb_tc_im_def
  sasb_tc_si_def

lemmas ifrs_tables =
  ifrs_s1_disclosures_def ifrs_s2_disclosures_1_def ifrs_s2_disclosures_2_def
  ifrs_s2_disclosures_def

lemmas cdp_tables =
  cdp_climate_disclosures_def cdp_water_disclosures_def cdp_forests_disclosures_def

section \<open>Canonical keys\<close>

lemma metric_keys: "map cmt_key all_metrics = [
      ''electricity_kwh'', ''electricity_from_renewable_kwh'', ''electricity_from_grid_kwh'',
      ''diesel_l'', ''petrol_l'', ''lpg_kg'', ''lng_kg'', ''png_scm'', ''coal_tonnes'',
      ''biomass_tonnes'', ''steam_purchased_gj'', ''total_energy_consumed_gj'',
      ''energy_intensity_per_revenue'', ''energy_intensity_per_employee'',
      ''water_withdrawn_kl_groundwater'', ''water_withdrawn_kl_surface'',
      ''water_withdrawn_kl_third_party'', ''water_withdrawn_kl_seawater'',
      ''water_withdrawn_kl_produced'', ''water_withdrawn_total_kl'', ''water_discharged_kl'',
      ''water_consumed_kl'', ''water_recycled_kl'', ''water_intensity_per_revenue'',
      ''waste_hazardous_kg'', ''waste_non_hazardous_kg'', ''waste_recycled_kg'',
      ''waste_to_landfill_kg'', ''waste_to_incineration_kg'', ''e_waste_kg'', ''plastic_waste_kg'',
      ''biomedical_waste_kg'', ''battery_waste_kg'', ''radioactive_waste_kg'', ''other_waste_kg'',
      ''scope1_total_tco2e'', ''scope1_stationary_tco2e'', ''scope1_mobile_tco2e'',
      ''scope1_process_tco2e'', ''scope1_fugitive_tco2e'', ''scope2_location_tco2e'',
      ''scope2_market_tco2e'', ''scope3_cat1_tco2e'', ''scope3_cat2_tco2e'', ''scope3_cat3_tco2e'',
      ''scope3_cat4_tco2e'', ''scope3_cat5_tco2e'', ''scope3_cat6_tco2e'', ''scope3_cat7_tco2e'',
      ''scope3_cat8_tco2e'', ''scope3_cat9_tco2e'', ''scope3_cat10_tco2e'', ''scope3_cat11_tco2e'',
      ''scope3_cat12_tco2e'', ''scope3_cat13_tco2e'', ''scope3_cat14_tco2e'', ''scope3_cat15_tco2e'',
      ''ghg_intensity_per_revenue'', ''ghg_intensity_per_unit_output'', ''nox_kg'', ''sox_kg'',
      ''pm_kg'', ''voc_kg'', ''ods_kg'', ''protected_area_sqkm'', ''land_disturbed_ha'',
      ''land_restored_ha'', ''virgin_materials_tonnes'', ''recycled_materials_tonnes'',
      ''renewable_materials_tonnes'', ''employee_count_total'', ''employee_count_male'',
      ''employee_count_female'', ''employee_count_lgbtq'', ''employee_count_pwd'',
      ''employee_count_perm'', ''employee_count_temp'', ''employee_count_contract'',
      ''employee_count_by_age_bracket'', ''employee_new_hires'', ''employee_turnover'',
      ''women_in_workforce_pct'', ''women_in_management_pct'', ''women_on_board_pct'',
      ''lgbtq_in_workforce_pct'', ''pwd_in_workforce_pct'', ''median_remuneration_male'',
      ''median_remuneration_female'', ''gender_pay_gap_pct'', ''ceo_to_worker_pay_ratio'',
      ''training_hours_total'', ''training_hours_ehs'', ''training_hours_skill'',
      ''training_coverage_pct'', ''training_hours_per_employee'', ''ltifr'', ''trifr'',
      ''fatality_count_employees'', ''fatality_count_contractors'', ''near_miss_count'',
      ''occupational_disease_cases'', ''safety_training_coverage_pct'',
      ''human_rights_training_pct'', ''human_rights_complaints_received'',
      ''human_rights_complaints_resolved'', ''child_labour_incidents'', ''forced_labour_incidents'',
      ''discrimination_complaints'', ''csr_spend_inr'', ''csr_beneficiaries_count'',
      ''local_communities_engaged'', ''displacement_count'', ''customer_complaints_received'',
      ''customer_complaints_resolved'', ''product_recall_count'', ''customer_satisfaction_score'',
      ''data_breach_count'', ''data_subjects_affected'', ''parental_leave_taken'',
      ''parental_leave_return_rate_pct'', ''collective_bargaining_coverage_pct'',
      ''supplier_local_pct'', ''supplier_assessed_count'', ''board_size'',
      ''independent_directors_count'', ''women_directors_count'', ''board_meetings_count'',
      ''board_attendance_pct'', ''ceo_chair_separation_bool'', ''anticorruption_training_pct'',
      ''whistleblower_cases_count'', ''corruption_cases_disciplinary'',
      ''political_contributions_inr'', ''enterprise_risks_count'',
      ''climate_risks_identified_count'', ''tcfd_scenarios_used'', ''effective_tax_rate_pct'',
      ''tax_paid_inr_by_country'', ''regulatory_actions_count'', ''fines_paid_inr'',
      ''environmental_violations'', ''data_privacy_violations'', ''ml_models_in_production'',
      ''board_committee_count'', ''esg_committee_exists_bool'', ''director_independence_pct'',
      ''ceo_tenure_years'', ''external_audit_qualifications'', ''transition_plan_adopted_bool'',
      ''scope3_screened_categories_count'', ''esg_targets_count'']"
  by (simp add: all_metrics_def metric_tables show_small)

lemma metric_keys_distinct: "distinct (map cmt_key all_metrics)"
  unfolding metric_keys pairwise_differ_iff[symmetric] by (simp only: differ_eval)

lemma metric_keys_own: "set (map cmt_key all_metrics) \<inter> set object_prototype = {}"
proof -
  have "list_all (\<lambda>k. differ_all k object_prototype) (map cmt_key all_metrics)"
    unfolding metric_keys object_prototype_def by (simp only: list.pred_inject differ_eval)
  then show ?thesis by (auto simp: differ_all_iff list_all_iff)
qed

lemma build_registry_eq: "build_registry = Inr (map (\<lambda>m. (cmt_key m, m)) all_metrics)"
  using registry_loop_ok[of all_metrics "[]"] metric_keys_distinct metric_keys_own by (simp add: build_registry_def)

lemma canonical_metrics_eq: "canonical_metrics = map (\<lambda>m. (cmt_key m, m)) all_metrics"
  by (simp add: canonical_metrics_def build_registry_eq)

lemma canonical_keys_eq: "canonical_keys = map cmt_key all_metrics"
  by (simp add: canonical_keys_def canonical_metrics_eq comp_def)

lemma all_in: "ks = ls \<Longrightarrow> list_all (\<lambda>k. k \<in> set ks) ls"
  by (simp add: list_all_iff)

lemmas canonical_key_in = all_in[OF trans[OF canonical_keys_eq metric_keys], unfolded list.pred_inject simp_thms]

section \<open>Mapped keys\<close>

definition keys_known :: "disclosure_like list \<Rightarrow> bool" where
  "keys_known ds = list_all (\<lambda>d. list_all (\<lambda>k. k \<in> set canonical_keys) (dl_keys d)) ds"

lemma keys_known_simps:
  "keys_known []" "keys_known (d # ds) \<longleftrightarrow> list_all (\<lambda>k. k \<in> set canonical_keys) (dl_keys d) \<and> keys_known ds"
  "keys_known (as @ bs) \<longleftrightarrow> keys_known as \<and> keys_known bs"
  by (simp_all add: keys_known_def)

lemmas known_eval = disclosures_of_def keys_known_simps canonical_key_in scope3_metric_keys_eq

lemma principle_range: "[Suc 0..<10] = [1, 2, 3, 4, 5, 6, 7, 8, 9]"
  by code_simp

lemma brsr_known: "keys_known (disclosures_of FwBrsr)"
  by (simp add: known_eval brsr_disclosures_def brsr_tables principle_range)

lemma gri_known: "keys_known (disclosures_of FwGri)"
  by (simp add: known_eval gri_disclosures_def gri_tables)

lemma sasb_known: "keys_known (disclosures_of FwSasb)"
  by (simp add: known_eval sasb_disclosures_def sasb_tables)

lemma tcfd_known: "keys_known (disclosures_of FwTcfd)"
  by (simp add: known_eval tcfd_disclosures_def)

lemma ifrs_known: "keys_known (disclosures_of FwIfrsS1)" "keys_known (disclosures_of FwIfrsS2)"
  by (simp_all add: known_eval ifrs_tables)

lemma esrs_known: "keys_known (disclosures_of FwEsrs)"
  by (simp add: known_eval esrs_disclosures_def esrs_tables)

lemma cdp_known: "keys_known (disclosures_of FwCdp)"
  by (simp add: known_eval cdp_disclosures_def cdp_tables)

lemma tables_known: "keys_known (disclosures_of fw)"
  by (cases fw) (simp_all add: brsr_known gri_known sasb_known tcfd_known ifrs_known esrs_known cdp_known)
section \<open>Section identifiers\<close>

lemma brsr_sections: "map dl_section (disclosures_of FwBrsr) = [
     ''A.I.1'', ''A.I.2'', ''A.II.16'', ''A.III.18.a'', ''A.III.18.b'', ''A.III.20.a'',
     ''A.III.21'', ''B.1'', ''B.6'', ''B.7'', ''P1.E.1'', ''P1.E.2'', ''P1.E.3'', ''P1.E.4'',
     ''P1.E.5'', ''P1.L.1'', ''P1.L.2'', ''P2.E.1'', ''P2.E.2'', ''P2.E.3'', ''P2.E.4'',
     ''P2.L.1'', ''P2.L.2'', ''P2.L.3'', ''P3.E.1.a'', ''P3.E.1.b'', ''P3.E.2'', ''P3.E.3'',
     ''P3.E.4'', ''P3.E.5'', ''P3.E.6'', ''P3.E.7'', ''P3.E.8'', ''P3.E.9'', ''P3.E.10'',
     ''P3.E.11.a'', ''P3.E.11.b'', ''P3.E.11.c'', ''P3.E.11.d'', ''P3.E.12'', ''P3.E.13'',
     ''P3.E.14'', ''P3.E.15'', ''P3.L.1'', ''P3.L.2'', ''P4.E.1'', ''P4.E.2'', ''P4.L.1'',
     ''P4.L.2'', ''P5.E.1'', ''P5.E.2'', ''P5.E.3'', ''P5.E.4'', ''P5.E.5'', ''P5.E.6'',
     ''P5.E.7'', ''P5.E.8'', ''P5.E.9'', ''P5.L.1'', ''P5.L.2'', ''P5.L.3'', ''P5.L.4'',
     ''P6.E.1'', ''P6.E.2'', ''P6.E.3'', ''P6.E.4'', ''P6.E.5'', ''P6.E.6'', ''P6.E.7'',
     ''P6.E.8'', ''P6.E.9'', ''P6.E.10'', ''P6.E.11'', ''P6.E.12'', ''P6.E.13'', ''P6.E.14'',
     ''P6.L.1'', ''P6.L.2'', ''P6.L.3'', ''P6.L.4'', ''P6.L.5'', ''P6.L.6'', ''P6.L.7'',
     ''P7.E.1'', ''P7.E.2'', ''P7.E.3'', ''P7.L.1'', ''P8.E.1'', ''P8.E.2'', ''P8.E.3'',
     ''P8.E.4'', ''P8.E.5'', ''P8.L.1'', ''P8.L.2'', ''P8.L.3'', ''P8.L.4'', ''P8.L.5'',
     ''P9.E.1'', ''P9.E.2'', ''P9.E.3'', ''P9.E.4'', ''P9.E.5'', ''P9.E.6'', ''P9.L.1'',
     ''P9.L.2'', ''P9.L.3'', ''P9.L.4'', ''P9.L.5'', ''P1.B.1'', ''P1.B.2'', ''P2.B.1'',
     ''P2.B.2'', ''P3.B.1'', ''P3.B.2'', ''P4.B.1'', ''P4.B.2'', ''P5.B.1'', ''P5.B.2'',
     ''P6.B.1'', ''P6.B.2'', ''P7.B.1'', ''P7.B.2'', ''P8.B.1'', ''P8.B.2'', ''P9.B.1'',
     ''P9.B.2'', ''P3.E.8a'', ''P3.E.8b'', ''P3.E.8c'', ''P3.E.8d'', ''P5.E.6a'', ''P5.E.6b'',
     ''P5.E.6c'', ''P5.E.6d'', ''P5.E.6e'', ''P5.E.6f'', ''P6.E.1a'', ''P6.E.1b'', ''P6.E.1c'',
     ''P6.E.8a'', ''P6.E.8b'', ''P6.E.10a'', ''P6.E.10b'', ''P6.E.10c'', ''P6.E.10d'',
     ''P6.E.10e'', ''P6.E.10f'', ''P6.E.10g'', ''P9.E.3a'', ''P9.E.3b'', ''P9.E.3c'', ''P9.E.3d'',
     ''P9.E.3e'', ''P9.E.3f'', ''P9.E.3g'']"
  by (simp add: disclosures_of_def brsr_disclosures_def brsr_tables principle_range show_small)

lemma brsr_distinct: "distinct (map dl_section (disclosures_of FwBrsr))"
  unfolding brsr_sections pairwise_differ_iff[symmetric] by (simp only: differ_eval)

lemma gri_sections: "map dl_section (disclosures_of FwGri) = [
     ''GRI 2-1'', ''GRI 2-7'', ''GRI 2-8'', ''GRI 2-9'', ''GRI 2-27'', ''GRI 3-1'', ''GRI 3-2'',
     ''GRI 3-3'', ''GRI 302-1'', ''GRI 302-2'', ''GRI 302-3'', ''GRI 302-4'', ''GRI 302-5'',
     ''GRI 303-1'', ''GRI 303-2'', ''GRI 303-3'', ''GRI 303-4'', ''GRI 303-5'', ''GRI 305-1'',
     ''GRI 305-2'', ''GRI 305-3'', ''GRI 305-4'', ''GRI 305-5'', ''GRI 305-6'', ''GRI 305-7'',
     ''GRI 306-1'', ''GRI 306-2'', ''GRI 306-3'', ''GRI 306-4'', ''GRI 306-5'', ''GRI 401-1'',
     ''GRI 401-2'', ''GRI 401-3'', ''GRI 403-1'', ''GRI 403-2'', ''GRI 403-3'', ''GRI 403-4'',
     ''GRI 403-5'', ''GRI 403-6'', ''GRI 403-7'', ''GRI 403-8'', ''GRI 403-9'', ''GRI 403-10'',
     ''GRI 404-1'', ''GRI 404-2'', ''GRI 404-3'', ''GRI 405-1'', ''GRI 405-2'', ''GRI 308-1'',
     ''GRI 308-2'', ''GRI 414-1'', ''GRI 414-2'']"
  by (simp add: disclosures_of_def gri_disclosures_def gri_tables)

lemma gri_distinct: "distinct (map dl_section (disclosures_of FwGri))"
  unfolding gri_sections pairwise_differ_iff[symmetric] by (simp only: differ_eval)

lemma sasb_sections: "map dl_section (disclosures_of FwSasb) = [
     ''RR-SE-130a.1'', ''RR-SE-140a.1'', ''RR-SE-150a.1'', ''RR-SE-160a.1'', ''RR-SE-410a.1'',
     ''RT-EE-130a.1'', ''RT-EE-150a.1'', ''RT-EE-410a.1'', ''RT-EE-410a.3'', ''RT-EE-440a.1'',
     ''EM-CM-110a.1'', ''EM-CM-120a.1'', ''EM-CM-130a.1'', ''EM-CM-140a.1'', ''EM-CM-150a.1'',
     ''EM-CM-160a.1'', ''EM-IS-110a.1'', ''EM-IS-120a.1'', ''EM-IS-130a.1'', ''EM-IS-140a.1'',
     ''EM-IS-150a.1'', ''EM-IS-320a.1'', ''RT-IG-130a.1'', ''RT-IG-320a.1'', ''RT-IG-410a.1'',
     ''RT-IG-440a.1'', ''TC-IM-130a.1'', ''TC-IM-130a.2'', ''TC-IM-220a.1'', ''TC-IM-230a.1'',
     ''TC-IM-330a.3'', ''TC-SI-130a.1'', ''TC-SI-130a.2'', ''TC-SI-220a.1'', ''TC-SI-230a.1'',
     ''TC-SI-330a.2'']"
  by (simp add: disclosures_of_def sasb_disclosures_def sasb_tables)

lemma sasb_distinct: "distinct (map dl_section (disclosures_of FwSasb))"
  unfolding sasb_sections pairwise_differ_iff[symmetric] by (simp only: differ_eval)

lemma tcfd_sections: "map dl_section (disclosures_of FwTcfd) = [
     ''TCFD-Gov-a'', ''TCFD-Gov-b'', ''TCFD-Strat-a'', ''TCFD-Strat-b'', ''TCFD-Strat-c'',
     ''TCFD-Risk-a'', ''TCFD-Risk-b'', ''TCFD-Risk-c'', ''TCFD-Metr-a'', ''TCFD-Metr-b'',
     ''TCFD-Metr-c'']"
  by (simp add: disclosures_of_def tcfd_disclosures_def)

lemma tcfd_distinct: "distinct (map dl_section (disclosures_of FwTcfd))"
  unfolding tcfd_sections pairwise_differ_iff[symmetric] by (simp only: differ_eval)

lemma ifrs_s1_sections: "map dl_section (disclosures_of FwIfrsS1) = [
     ''S1.27'', ''S1.28'', ''S1.30'', ''S1.33'', ''S1.34'', ''S1.43'', ''S1.46'', ''S1.51'']"
  by (simp add: disclosures_of_def ifrs_tables)

lemma ifrs_s1_distinct: "distinct (map dl_section (disclosures_of FwIfrsS1))"
  unfolding ifrs_s1_sections pairwise_differ_iff[symmetric] by (simp only: differ_eval)

lemma ifrs_s2_sections: "map dl_section (disclosures_of FwIfrsS2) = [
     ''S2.6'', ''S2.9'', ''S2.13'', ''S2.25'', ''S2.29(a)'', ''S2.29(b)'', ''S2.29(c)'',
     ''S2.29(d)'', ''S2.29(e)'', ''S2.29(f)'', ''S2.29(g)'', ''S2.29(h)'', ''S2.33'']"
  by (simp add: disclosures_of_def ifrs_tables)

lemma ifrs_s2_distinct: "distinct (map dl_section (disclosures_of FwIfrsS2))"
  unfolding ifrs_s2_sections pairwise_differ_iff[symmetric] by (simp only: differ_eval)

lemma esrs_sections: "map dl_section (disclosures_of FwEsrs) = [
     ''ESRS 1-1'', ''ESRS 2-BP-1'', ''ESRS 2-GOV-1'', ''ESRS 2-SBM-1'', ''ESRS 2-IRO-1'',
     ''ESRS E1-1'', ''ESRS E1-4'', ''ESRS E1-5'', ''ESRS E1-6'', ''ESRS E1-7'', ''ESRS E1-8'',
     ''ESRS E2-4'', ''ESRS E2-5'', ''ESRS E3-4'', ''ESRS E4-5'', ''ESRS E5-4'', ''ESRS E5-5'',
     ''ESRS S1-6'', ''ESRS S1-7'', ''ESRS S1-9'', ''ESRS S1-13'', ''ESRS S1-14'', ''ESRS S1-16'',
     ''ESRS S1-17'', ''ESRS S2-1'', ''ESRS S2-4'', ''ESRS S3-1'', ''ESRS S3-4'', ''ESRS S4-1'',
     ''ESRS S4-4'', ''ESRS G1-1'', ''ESRS G1-3'', ''ESRS G1-4'', ''ESRS G1-5'']"
  by (simp add: disclosures_of_def esrs_disclosures_def esrs_tables)

lemma esrs_distinct: "distinct (map dl_section (disclosures_of FwEsrs))"
  unfolding esrs_sections pairwise_differ_iff[symmetric] by (simp only: differ_eval)

lemma cdp_sections: "map dl_section (disclosures_of FwCdp) = [
     ''C1.1a'', ''C1.2'', ''C2.1a'', ''C3.2'', ''C4.1a'', ''C6.1'', ''C6.3'', ''C6.5'', ''C6.10'',
     ''C8.2a'', ''C9.1'', ''W1.1'', ''W1.2b'', ''W1.2h'', ''W3.3'', ''W6.1'', ''W7.1'', ''F1.1'',
     ''F1.5'', ''F4.5'', ''F6.1'']"
  by (simp add: disclosures_of_def cdp_disclosures_def cdp_tables)

lemma cdp_distinct: "distinct (map dl_section (disclosures_of FwCdp))"
  unfolding cdp_sections pairwise_differ_iff[symmetric] by (simp only: differ_eval)

lemma tables_distinct: "distinct (map dl_section (disclosures_of fw))"
  by (cases fw) (simp_all only: brsr_distinct gri_distinct sasb_distinct tcfd_distinct ifrs_s1_distinct
      ifrs_s2_distinct esrs_distinct cdp_distinct)

end
