(* ===== verification/Fw_Formulas.thy ===== *)
theory Fw_Formulas
  imports Cel_Lexemes Fw_Integrity
begin

text \<open>
  The formulas of the BRSR and GRI tables under the evaluator of the formula language. A formula
  refers to the canonical metric \<open>k\<close> as \<open>m.k\<close> (the convention the tables document).
\<close>

definition formula_rows :: "(string list \<times> string) list" where
  "formula_rows =
     concat (map (\<lambda>d. case brd_formula d of None \<Rightarrow> [] | Some f \<Rightarrow> [(brd_keys d, f)]) brsr_disclosures) @
     concat (map (\<lambda>d. case grd_formula d of None \<Rightarrow> [] | Some f \<Rightarrow> [(grd_keys d, f)]) gri_disclosures)"

definition metric_refs :: "string list \<Rightarrow> string list" where
  "metric_refs ks = map (\<lambda>k. ''m.'' @ k) ks"

definition formula_ok :: "string list \<times> string \<Rightarrow> bool" where
  "formula_ok r = (case r of (ks, f) \<Rightarrow>
     (case tokenize text_api f of
        Inl _ \<Rightarrow> False
      | Inr ts \<Rightarrow> set (number_texts ts) \<subseteq> {''0'', ''100''} \<and> kind_of_text text_api (metric_refs ks) f = Some KNum))"

lemma brsr_formulas:
  "concat (map (\<lambda>d. case brd_formula d of None \<Rightarrow> [] | Some f \<Rightarrow> [(brd_keys d, f)]) brsr_disclosures) = [
     ([''women_in_workforce_pct'', ''women_in_management_pct'', ''women_on_board_pct''],
      ''m.women_in_workforce_pct''),
     ([''employee_turnover'', ''employee_count_perm''],
      ''m.employee_count_perm > 0 ? (m.employee_turnover / m.employee_count_perm * 100) : 0''),
     ([''anticorruption_training_pct'', ''training_coverage_pct''],
      ''m.anticorruption_training_pct''),
     ([''fines_paid_inr''],
      ''m.fines_paid_inr''),
     ([''corruption_cases_disciplinary''],
      ''m.corruption_cases_disciplinary''),
     ([''whistleblower_cases_count''],
      ''m.whistleblower_cases_count''),
     ([''recycled_materials_tonnes'', ''virgin_materials_tonnes''],
      ''(m.recycled_materials_tonnes + m.virgin_materials_tonnes) > 0 ? (m.recycled_materials_tonnes / (m.recycled_materials_tonnes + m.virgin_materials_tonnes) * 100) : 0''),
     ([''training_hours_total'', ''training_hours_ehs'', ''training_hours_skill'',
      ''training_coverage_pct'', ''training_hours_per_employee''],
      ''m.training_hours_total''),
     ([''ltifr'', ''trifr''],
      ''m.ltifr''),
     ([''trifr''],
      ''m.trifr''),
     ([''fatality_count_employees'', ''fatality_count_contractors''],
      ''m.fatality_count_employees + m.fatality_count_contractors''),
     ([''occupational_disease_cases''],
      ''m.occupational_disease_cases''),
     ([''human_rights_training_pct''],
      ''m.human_rights_training_pct''),
     ([''median_remuneration_male'', ''median_remuneration_female'', ''gender_pay_gap_pct'',
      ''ceo_to_worker_pay_ratio''],
      ''m.gender_pay_gap_pct''),
     ([''discrimination_complaints'', ''child_labour_incidents'', ''forced_labour_incidents'',
      ''human_rights_complaints_received'', ''human_rights_complaints_resolved''],
      ''m.discrimination_complaints + m.child_labour_incidents + m.forced_labour_incidents''),
     ([''electricity_kwh'', ''electricity_from_renewable_kwh'', ''electricity_from_grid_kwh'',
      ''diesel_l'', ''petrol_l'', ''lpg_kg'', ''lng_kg'', ''png_scm'', ''coal_tonnes'',
      ''biomass_tonnes'', ''steam_purchased_gj'', ''total_energy_consumed_gj'',
      ''energy_intensity_per_revenue''],
      ''m.total_energy_consumed_gj''),
     ([''water_withdrawn_kl_groundwater'', ''water_withdrawn_kl_surface'',
      ''water_withdrawn_kl_third_party'', ''water_withdrawn_kl_seawater'',
      ''water_withdrawn_kl_produced'', ''water_withdrawn_total_kl''],
      ''m.water_withdrawn_kl_groundwater + m.water_withdrawn_kl_surface + m.water_withdrawn_kl_third_party + m.water_withdrawn_kl_seawater + m.water_withdrawn_kl_produced''),
     ([''water_intensity_per_revenue''],
      ''m.water_intensity_per_revenue''),
     ([''water_discharged_kl''],
      ''m.water_discharged_kl''),
     ([''nox_kg'', ''sox_kg'', ''pm_kg'', ''voc_kg'', ''ods_kg''],
      ''m.nox_kg + m.sox_kg + m.pm_kg + m.voc_kg''),
     ([''scope1_total_tco2e'', ''scope1_stationary_tco2e'', ''scope1_mobile_tco2e'',
      ''scope1_process_tco2e'', ''scope1_fugitive_tco2e'', ''scope2_location_tco2e'',
      ''scope2_market_tco2e'', ''ghg_intensity_per_revenue''],
      ''m.scope1_total_tco2e + m.scope2_location_tco2e''),
     ([''waste_hazardous_kg'', ''waste_non_hazardous_kg'', ''e_waste_kg'', ''plastic_waste_kg'',
      ''biomedical_waste_kg'', ''battery_waste_kg'', ''radioactive_waste_kg'', ''other_waste_kg'',
      ''waste_recycled_kg'', ''waste_to_landfill_kg'', ''waste_to_incineration_kg''],
      ''m.waste_hazardous_kg + m.waste_non_hazardous_kg + m.e_waste_kg + m.plastic_waste_kg + m.biomedical_waste_kg + m.battery_waste_kg + m.radioactive_waste_kg + m.other_waste_kg''),
     ([''protected_area_sqkm''],
      ''m.protected_area_sqkm''),
     (scope3_metric_keys,
      scope3_sum_formula),
     ([''displacement_count''],
      ''m.displacement_count''),
     ([''csr_spend_inr'', ''csr_beneficiaries_count''],
      ''m.csr_spend_inr''),
     ([''customer_complaints_received'', ''customer_complaints_resolved'', ''data_breach_count''],
      ''m.customer_complaints_received''),
     ([''product_recall_count''],
      ''m.product_recall_count''),
     ([''customer_satisfaction_score''],
      ''m.customer_satisfaction_score''),
     ([''data_breach_count'', ''data_subjects_affected''],
      ''m.data_breach_count'')]"
  unfolding brsr_disclosures_def brsr_p3_def brsr_p5_def brsr_p6_def map_append concat_append
  by (simp add: brsr_tables principle_range)

lemma gri_formulas:
  "concat (map (\<lambda>d. case grd_formula d of None \<Rightarrow> [] | Some f \<Rightarrow> [(grd_keys d, f)]) gri_disclosures) = [
     ([''employee_count_total'', ''employee_count_male'', ''employee_count_female'',
      ''employee_count_perm'', ''employee_count_temp''],
      ''m.employee_count_total''),
     ([''employee_count_contract''],
      ''m.employee_count_contract''),
     ([''regulatory_actions_count'', ''fines_paid_inr''],
      ''m.fines_paid_inr''),
     ([''electricity_kwh'', ''electricity_from_renewable_kwh'', ''electricity_from_grid_kwh'',
      ''diesel_l'', ''petrol_l'', ''lpg_kg'', ''lng_kg'', ''png_scm'', ''coal_tonnes'',
      ''biomass_tonnes'', ''steam_purchased_gj'', ''total_energy_consumed_gj''],
      ''m.total_energy_consumed_gj''),
     ([''energy_intensity_per_revenue'', ''energy_intensity_per_employee''],
      ''m.energy_intensity_per_revenue''),
     ([''water_withdrawn_kl_groundwater'', ''water_withdrawn_kl_surface'',
      ''water_withdrawn_kl_third_party'', ''water_withdrawn_kl_seawater'',
      ''water_withdrawn_kl_produced'', ''water_withdrawn_total_kl''],
      ''m.water_withdrawn_total_kl''),
     ([''water_discharged_kl''],
      ''m.water_discharged_kl''),
     ([''water_consumed_kl'', ''water_recycled_kl'', ''water_intensity_per_revenue''],
      ''m.water_consumed_kl''),
     ([''scope1_total_tco2e'', ''scope1_stationary_tco2e'', ''scope1_mobile_tco2e'',
      ''scope1_process_tco2e'', ''scope1_fugitive_tco2e''],
      ''m.scope1_total_tco2e''),
     ([''scope2_location_tco2e'', ''scope2_market_tco2e''],
      ''m.scope2_location_tco2e''),
     (scope3_metric_keys,
      scope3_sum_formula),
     ([''ghg_intensity_per_revenue'', ''ghg_intensity_per_unit_output''],
      ''m.ghg_intensity_per_revenue''),
     ([''ods_kg''],
      ''m.ods_kg''),
     ([''nox_kg'', ''sox_kg'', ''pm_kg'', ''voc_kg''],
      ''m.nox_kg + m.sox_kg + m.pm_kg + m.voc_kg''),
     ([''waste_hazardous_kg'', ''waste_non_hazardous_kg'', ''e_waste_kg'', ''plastic_waste_kg'',
      ''biomedical_waste_kg'', ''battery_waste_kg'', ''radioactive_waste_kg'', ''other_waste_kg''],
      ''m.waste_hazardous_kg + m.waste_non_hazardous_kg + m.e_waste_kg + m.plastic_waste_kg + m.biomedical_waste_kg + m.battery_waste_kg + m.radioactive_waste_kg + m.other_waste_kg''),
     ([''waste_recycled_kg''],
      ''m.waste_recycled_kg''),
     ([''waste_to_landfill_kg'', ''waste_to_incineration_kg''],
      ''m.waste_to_landfill_kg + m.waste_to_incineration_kg''),
     ([''safety_training_coverage_pct'', ''training_hours_ehs''],
      ''m.safety_training_coverage_pct''),
     ([''ltifr'', ''trifr'', ''fatality_count_employees'', ''fatality_count_contractors''],
      ''m.fatality_count_employees + m.fatality_count_contractors''),
     ([''occupational_disease_cases''],
      ''m.occupational_disease_cases''),
     ([''training_hours_per_employee'', ''training_hours_total''],
      ''m.training_hours_per_employee''),
     ([''training_coverage_pct''],
      ''m.training_coverage_pct''),
     ([''women_in_workforce_pct'', ''women_in_management_pct'', ''women_on_board_pct'',
      ''pwd_in_workforce_pct'', ''employee_count_by_age_bracket''],
      ''m.women_in_workforce_pct''),
     ([''gender_pay_gap_pct'', ''median_remuneration_male'', ''median_remuneration_female''],
      ''m.median_remuneration_male > 0 ? (m.median_remuneration_female / m.median_remuneration_male) : 0'')]"
  unfolding gri_disclosures_def map_append concat_append
  by (simp add: gri_tables)

text \<open>The classes of the characters that occur in the formulas.\<close>

lemma char_facts:
  "\<not> lex_space (CHR ''a'')" "\<not> is_digit (CHR ''a'')" "\<not> is_quote (CHR ''a'')" "ident_start (CHR ''a'')" "ident_char (CHR ''a'')" "\<not> num_char (CHR ''a'')"
  "\<not> lex_space (CHR ''b'')" "\<not> is_digit (CHR ''b'')" "\<not> is_quote (CHR ''b'')" "ident_start (CHR ''b'')" "ident_char (CHR ''b'')" "\<not> num_char (CHR ''b'')"
  "\<not> lex_space (CHR ''c'')" "\<not> is_digit (CHR ''c'')" "\<not> is_quote (CHR ''c'')" "ident_start (CHR ''c'')" "ident_char (CHR ''c'')" "\<not> num_char (CHR ''c'')"
  "\<not> lex_space (CHR ''d'')" "\<not> is_digit (CHR ''d'')" "\<not> is_quote (CHR ''d'')" "ident_start (CHR ''d'')" "ident_char (CHR ''d'')" "\<not> num_char (CHR ''d'')"
  "\<not> lex_space (CHR ''e'')" "\<not> is_digit (CHR ''e'')" "\<not> is_quote (CHR ''e'')" "ident_start (CHR ''e'')" "ident_char (CHR ''e'')" "\<not> num_char (CHR ''e'')"
  "\<not> lex_space (CHR ''f'')" "\<not> is_digit (CHR ''f'')" "\<not> is_quote (CHR ''f'')" "ident_start (CHR ''f'')" "ident_char (CHR ''f'')" "\<not> num_char (CHR ''f'')"
  "\<not> lex_space (CHR ''g'')" "\<not> is_digit (CHR ''g'')" "\<not> is_quote (CHR ''g'')" "ident_start (CHR ''g'')" "ident_char (CHR ''g'')" "\<not> num_char (CHR ''g'')"
  "\<not> lex_space (CHR ''h'')" "\<not> is_digit (CHR ''h'')" "\<not> is_quote (CHR ''h'')" "ident_start (CHR ''h'')" "ident_char (CHR ''h'')" "\<not> num_char (CHR ''h'')"
  "\<not> lex_space (CHR ''i'')" "\<not> is_digit (CHR ''i'')" "\<not> is_quote (CHR ''i'')" "ident_start (CHR ''i'')" "ident_char (CHR ''i'')" "\<not> num_char (CHR ''i'')"
  "\<not> lex_space (CHR ''j'')" "\<not> is_digit (CHR ''j'')" "\<not> is_quote (CHR ''j'')" "ident_start (CHR ''j'')" "ident_char (CHR ''j'')" "\<not> num_char (CHR ''j'')"
  "\<not> lex_space (CHR ''k'')" "\<not> is_digit (CHR ''k'')" "\<not> is_quote (CHR ''k'')" "ident_start (CHR ''k'')" "ident_char (CHR ''k'')" "\<not> num_char (CHR ''k'')"
  "\<not> lex_space (CHR ''l'')" "\<not> is_digit (CHR ''l'')" "\<not> is_quote (CHR ''l'')" "ident_start (CHR ''l'')" "ident_char (CHR ''l'')" "\<not> num_char (CHR ''l'')"
  "\<not> lex_space (CHR ''m'')" "\<not> is_digit (CHR ''m'')" "\<not> is_quote (CHR ''m'')" "ident_start (CHR ''m'')" "ident_char (CHR ''m'')" "\<not> num_char (CHR ''m'')"
  "\<not> lex_space (CHR ''n'')" "\<not> is_digit (CHR ''n'')" "\<not> is_quote (CHR ''n'')" "ident_start (CHR ''n'')" "ident_char (CHR ''n'')" "\<not> num_char (CHR ''n'')"
  "\<not> lex_space (CHR ''o'')" "\<not> is_digit (CHR ''o'')" "\<not> is_quote (CHR ''o'')" "ident_start (CHR ''o'')" "ident_char (CHR ''o'')" "\<not> num_char (CHR ''o'')"
  "\<not> lex_space (CHR ''p'')" "\<not> is_digit (CHR ''p'')" "\<not> is_quote (CHR ''p'')" "ident_start (CHR ''p'')" "ident_char (CHR ''p'')" "\<not> num_char (CHR ''p'')"
  "\<not> lex_space (CHR ''q'')" "\<not> is_digit (CHR ''q'')" "\<not> is_quote (CHR ''q'')" "ident_start (CHR ''q'')" "ident_char (CHR ''q'')" "\<not> num_char (CHR ''q'')"
  "\<not> lex_space (CHR ''r'')" "\<not> is_digit (CHR ''r'')" "\<not> is_quote (CHR ''r'')" "ident_start (CHR ''r'')" "ident_char (CHR ''r'')" "\<not> num_char (CHR ''r'')"
  "\<not> lex_space (CHR ''s'')" "\<not> is_digit (CHR ''s'')" "\<not> is_quote (CHR ''s'')" "ident_start (CHR ''s'')" "ident_char (CHR ''s'')" "\<not> num_char (CHR ''s'')"
  "\<not> lex_space (CHR ''t'')" "\<not> is_digit (CHR ''t'')" "\<not> is_quote (CHR ''t'')" "ident_start (CHR ''t'')" "ident_char (CHR ''t'')" "\<not> num_char (CHR ''t'')"
  "\<not> lex_space (CHR ''u'')" "\<not> is_digit (CHR ''u'')" "\<not> is_quote (CHR ''u'')" "ident_start (CHR ''u'')" "ident_char (CHR ''u'')" "\<not> num_char (CHR ''u'')"
  "\<not> lex_space (CHR ''v'')" "\<not> is_digit (CHR ''v'')" "\<not> is_quote (CHR ''v'')" "ident_start (CHR ''v'')" "ident_char (CHR ''v'')" "\<not> num_char (CHR ''v'')"
  "\<not> lex_space (CHR ''w'')" "\<not> is_digit (CHR ''w'')" "\<not> is_quote (CHR ''w'')" "ident_start (CHR ''w'')" "ident_char (CHR ''w'')" "\<not> num_char (CHR ''w'')"
  "\<not> lex_space (CHR ''x'')" "\<not> is_digit (CHR ''x'')" "\<not> is_quote (CHR ''x'')" "ident_start (CHR ''x'')" "ident_char (CHR ''x'')" "\<not> num_char (CHR ''x'')"
  "\<not> lex_space (CHR ''y'')" "\<not> is_digit (CHR ''y'')" "\<not> is_quote (CHR ''y'')" "ident_start (CHR ''y'')" "ident_char (CHR ''y'')" "\<not> num_char (CHR ''y'')"
  "\<not> lex_space (CHR ''z'')" "\<not> is_digit (CHR ''z'')" "\<not> is_quote (CHR ''z'')" "ident_start (CHR ''z'')" "ident_char (CHR ''z'')" "\<not> num_char (CHR ''z'')"
  "\<not> lex_space (CHR ''0'')" "is_digit (CHR ''0'')" "\<not> is_quote (CHR ''0'')" "\<not> ident_start (CHR ''0'')" "ident_char (CHR ''0'')" "num_char (CHR ''0'')"
  "\<not> lex_space (CHR ''1'')" "is_digit (CHR ''1'')" "\<not> is_quote (CHR ''1'')" "\<not> ident_start (CHR ''1'')" "ident_char (CHR ''1'')" "num_char (CHR ''1'')"
  "\<not> lex_space (CHR ''2'')" "is_digit (CHR ''2'')" "\<not> is_quote (CHR ''2'')" "\<not> ident_start (CHR ''2'')" "ident_char (CHR ''2'')" "num_char (CHR ''2'')"
  "\<not> lex_space (CHR ''3'')" "is_digit (CHR ''3'')" "\<not> is_quote (CHR ''3'')" "\<not> ident_start (CHR ''3'')" "ident_char (CHR ''3'')" "num_char (CHR ''3'')"
  "\<not> lex_space (CHR ''4'')" "is_digit (CHR ''4'')" "\<not> is_quote (CHR ''4'')" "\<not> ident_start (CHR ''4'')" "ident_char (CHR ''4'')" "num_char (CHR ''4'')"
  "\<not> lex_space (CHR ''5'')" "is_digit (CHR ''5'')" "\<not> is_quote (CHR ''5'')" "\<not> ident_start (CHR ''5'')" "ident_char (CHR ''5'')" "num_char (CHR ''5'')"
  "\<not> lex_space (CHR ''6'')" "is_digit (CHR ''6'')" "\<not> is_quote (CHR ''6'')" "\<not> ident_start (CHR ''6'')" "ident_char (CHR ''6'')" "num_char (CHR ''6'')"
  "\<not> lex_space (CHR ''7'')" "is_digit (CHR ''7'')" "\<not> is_quote (CHR ''7'')" "\<not> ident_start (CHR ''7'')" "ident_char (CHR ''7'')" "num_char (CHR ''7'')"
  "\<not> lex_space (CHR ''8'')" "is_digit (CHR ''8'')" "\<not> is_quote (CHR ''8'')" "\<not> ident_start (CHR ''8'')" "ident_char (CHR ''8'')" "num_char (CHR ''8'')"
  "\<not> lex_space (CHR ''9'')" "is_digit (CHR ''9'')" "\<not> is_quote (CHR ''9'')" "\<not> ident_start (CHR ''9'')" "ident_char (CHR ''9'')" "num_char (CHR ''9'')"
  "\<not> lex_space (CHR ''_'')" "\<not> is_digit (CHR ''_'')" "\<not> is_quote (CHR ''_'')" "ident_start (CHR ''_'')" "ident_char (CHR ''_'')" "num_char (CHR ''_'')"
  "\<not> lex_space (CHR ''.'')" "\<not> is_digit (CHR ''.'')" "\<not> is_quote (CHR ''.'')" "\<not> ident_start (CHR ''.'')" "ident_char (CHR ''.'')" "num_char (CHR ''.'')"
  "lex_space (CHR '' '')" "\<not> is_digit (CHR '' '')" "\<not> is_quote (CHR '' '')" "\<not> ident_start (CHR '' '')" "\<not> ident_char (CHR '' '')" "\<not> num_char (CHR '' '')"
  "\<not> lex_space (CHR ''+'')" "\<not> is_digit (CHR ''+'')" "\<not> is_quote (CHR ''+'')" "\<not> ident_start (CHR ''+'')" "\<not> ident_char (CHR ''+'')" "\<not> num_char (CHR ''+'')"
  "\<not> lex_space (CHR ''-'')" "\<not> is_digit (CHR ''-'')" "\<not> is_quote (CHR ''-'')" "\<not> ident_start (CHR ''-'')" "\<not> ident_char (CHR ''-'')" "\<not> num_char (CHR ''-'')"
  "\<not> lex_space (CHR ''*'')" "\<not> is_digit (CHR ''*'')" "\<not> is_quote (CHR ''*'')" "\<not> ident_start (CHR ''*'')" "\<not> ident_char (CHR ''*'')" "\<not> num_char (CHR ''*'')"
  "\<not> lex_space (CHR ''/'')" "\<not> is_digit (CHR ''/'')" "\<not> is_quote (CHR ''/'')" "\<not> ident_start (CHR ''/'')" "\<not> ident_char (CHR ''/'')" "\<not> num_char (CHR ''/'')"
  "\<not> lex_space (CHR ''('')" "\<not> is_digit (CHR ''('')" "\<not> is_quote (CHR ''('')" "\<not> ident_start (CHR ''('')" "\<not> ident_char (CHR ''('')" "\<not> num_char (CHR ''('')"
  "\<not> lex_space (CHR '')'')" "\<not> is_digit (CHR '')'')" "\<not> is_quote (CHR '')'')" "\<not> ident_start (CHR '')'')" "\<not> ident_char (CHR '')'')" "\<not> num_char (CHR '')'')"
  "\<not> lex_space (CHR ''>'')" "\<not> is_digit (CHR ''>'')" "\<not> is_quote (CHR ''>'')" "\<not> ident_start (CHR ''>'')" "\<not> ident_char (CHR ''>'')" "\<not> num_char (CHR ''>'')"
  "\<not> lex_space (CHR ''?'')" "\<not> is_digit (CHR ''?'')" "\<not> is_quote (CHR ''?'')" "\<not> ident_start (CHR ''?'')" "\<not> ident_char (CHR ''?'')" "\<not> num_char (CHR ''?'')"
  "\<not> lex_space (CHR '':'')" "\<not> is_digit (CHR '':'')" "\<not> is_quote (CHR '':'')" "\<not> ident_start (CHR '':'')" "\<not> ident_char (CHR '':'')" "\<not> num_char (CHR '':'')"
  by code_simp+

lemmas tokens_eval = tokenize_def tokenize_from.simps char_facts text_api_def scan_number_def Let_def
  word_token_def two_char_op_def one_char_op_def punct_def

definition tokens_ok :: "string list \<Rightarrow> string token list \<Rightarrow> bool" where
  "tokens_ok ks ts =
     (set (number_texts ts) \<subseteq> {''0'', ''100''} \<and>
      (case parse_result ts of Inl _ \<Rightarrow> False | Inr e \<Rightarrow> kind_of (metric_refs ks) e = Some KNum))"

lemma formula_okI: "tokenize text_api f = Inr ts \<Longrightarrow> tokens_ok ks ts \<Longrightarrow> formula_ok (ks, f)"
  by (simp add: formula_ok_def tokens_ok_def kind_of_text_def split: sum.splits)

lemma formula_row_1: "formula_ok ([''women_in_workforce_pct'', ''women_in_management_pct'', ''women_on_board_pct''],
      ''m.women_in_workforce_pct'')"
  by (rule formula_okI, simp add: tokens_eval, code_simp)

lemma formula_row_2: "formula_ok ([''employee_turnover'', ''employee_count_perm''],
      ''m.employee_count_perm > 0 ? (m.employee_turnover / m.employee_count_perm * 100) : 0'')"
  by (rule formula_okI, simp add: tokens_eval, code_simp)

lemma formula_row_3: "formula_ok ([''anticorruption_training_pct'', ''training_coverage_pct''],
      ''m.anticorruption_training_pct'')"
  by (rule formula_okI, simp add: tokens_eval, code_simp)

lemma formula_row_4: "formula_ok ([''fines_paid_inr''],
      ''m.fines_paid_inr'')"
  by (rule formula_okI, simp add: tokens_eval, code_simp)

lemma formula_row_5: "formula_ok ([''corruption_cases_disciplinary''],
      ''m.corruption_cases_disciplinary'')"
  by (rule formula_okI, simp add: tokens_eval, code_simp)

lemma formula_row_6: "formula_ok ([''whistleblower_cases_count''],
      ''m.whistleblower_cases_count'')"
  by (rule formula_okI, simp add: tokens_eval, code_simp)

lemma formula_row_7: "formula_ok ([''recycled_materials_tonnes'', ''virgin_materials_tonnes''],
      ''(m.recycled_materials_tonnes + m.virgin_materials_tonnes) > 0 ? (m.recycled_materials_tonnes / (m.recycled_materials_tonnes + m.virgin_materials_tonnes) * 100) : 0'')"
  by (rule formula_okI, simp add: tokens_eval, code_simp)

lemma formula_row_8: "formula_ok ([''training_hours_total'', ''training_hours_ehs'', ''training_hours_skill'',
      ''training_coverage_pct'', ''training_hours_per_employee''],
      ''m.training_hours_total'')"
  by (rule formula_okI, simp add: tokens_eval, code_simp)

lemma formula_row_9: "formula_ok ([''ltifr'', ''trifr''],
      ''m.ltifr'')"
  by (rule formula_okI, simp add: tokens_eval, code_simp)

lemma formula_row_10: "formula_ok ([''trifr''],
      ''m.trifr'')"
  by (rule formula_okI, simp add: tokens_eval, code_simp)

lemma formula_row_11: "formula_ok ([''fatality_count_employees'', ''fatality_count_contractors''],
      ''m.fatality_count_employees + m.fatality_count_contractors'')"
  by (rule formula_okI, simp add: tokens_eval, code_simp)

lemma formula_row_12: "formula_ok ([''occupational_disease_cases''],
      ''m.occupational_disease_cases'')"
  by (rule formula_okI, simp add: tokens_eval, code_simp)

lemma formula_row_13: "formula_ok ([''human_rights_training_pct''],
      ''m.human_rights_training_pct'')"
  by (rule formula_okI, simp add: tokens_eval, code_simp)

lemma formula_row_14: "formula_ok ([''median_remuneration_male'', ''median_remuneration_female'', ''gender_pay_gap_pct'',
      ''ceo_to_worker_pay_ratio''],
      ''m.gender_pay_gap_pct'')"
  by (rule formula_okI, simp add: tokens_eval, code_simp)

lemma formula_row_15: "formula_ok ([''discrimination_complaints'', ''child_labour_incidents'', ''forced_labour_incidents'',
      ''human_rights_complaints_received'', ''human_rights_complaints_resolved''],
      ''m.discrimination_complaints + m.child_labour_incidents + m.forced_labour_incidents'')"
  by (rule formula_okI, simp add: tokens_eval, code_simp)

lemma formula_row_16: "formula_ok ([''electricity_kwh'', ''electricity_from_renewable_kwh'', ''electricity_from_grid_kwh'',
      ''diesel_l'', ''petrol_l'', ''lpg_kg'', ''lng_kg'', ''png_scm'', ''coal_tonnes'',
      ''biomass_tonnes'', ''steam_purchased_gj'', ''total_energy_consumed_gj'',
      ''energy_intensity_per_revenue''],
      ''m.total_energy_consumed_gj'')"
  by (rule formula_okI, simp add: tokens_eval, code_simp)

lemma formula_row_17: "formula_ok ([''water_withdrawn_kl_groundwater'', ''water_withdrawn_kl_surface'',
      ''water_withdrawn_kl_third_party'', ''water_withdrawn_kl_seawater'',
      ''water_withdrawn_kl_produced'', ''water_withdrawn_total_kl''],
      ''m.water_withdrawn_kl_groundwater + m.water_withdrawn_kl_surface + m.water_withdrawn_kl_third_party + m.water_withdrawn_kl_seawater + m.water_withdrawn_kl_produced'')"
  by (rule formula_okI, simp add: tokens_eval, code_simp)

lemma formula_row_18: "formula_ok ([''water_intensity_per_revenue''],
      ''m.water_intensity_per_revenue'')"
  by (rule formula_okI, simp add: tokens_eval, code_simp)

lemma formula_row_19: "formula_ok ([''water_discharged_kl''],
      ''m.water_discharged_kl'')"
  by (rule formula_okI, simp add: tokens_eval, code_simp)

lemma formula_row_20: "formula_ok ([''nox_kg'', ''sox_kg'', ''pm_kg'', ''voc_kg'', ''ods_kg''],
      ''m.nox_kg + m.sox_kg + m.pm_kg + m.voc_kg'')"
  by (rule formula_okI, simp add: tokens_eval, code_simp)

lemma formula_row_21: "formula_ok ([''scope1_total_tco2e'', ''scope1_stationary_tco2e'', ''scope1_mobile_tco2e'',
      ''scope1_process_tco2e'', ''scope1_fugitive_tco2e'', ''scope2_location_tco2e'',
      ''scope2_market_tco2e'', ''ghg_intensity_per_revenue''],
      ''m.scope1_total_tco2e + m.scope2_location_tco2e'')"
  by (rule formula_okI, simp add: tokens_eval, code_simp)

lemma formula_row_22: "formula_ok ([''waste_hazardous_kg'', ''waste_non_hazardous_kg'', ''e_waste_kg'', ''plastic_waste_kg'',
      ''biomedical_waste_kg'', ''battery_waste_kg'', ''radioactive_waste_kg'', ''other_waste_kg'',
      ''waste_recycled_kg'', ''waste_to_landfill_kg'', ''waste_to_incineration_kg''],
      ''m.waste_hazardous_kg + m.waste_non_hazardous_kg + m.e_waste_kg + m.plastic_waste_kg + m.biomedical_waste_kg + m.battery_waste_kg + m.radioactive_waste_kg + m.other_waste_kg'')"
  by (rule formula_okI, simp add: tokens_eval, code_simp)

lemma formula_row_23: "formula_ok ([''protected_area_sqkm''],
      ''m.protected_area_sqkm'')"
  by (rule formula_okI, simp add: tokens_eval, code_simp)

lemma formula_row_24: "formula_ok ([''displacement_count''],
      ''m.displacement_count'')"
  by (rule formula_okI, simp add: tokens_eval, code_simp)

lemma formula_row_25: "formula_ok ([''csr_spend_inr'', ''csr_beneficiaries_count''],
      ''m.csr_spend_inr'')"
  by (rule formula_okI, simp add: tokens_eval, code_simp)

lemma formula_row_26: "formula_ok ([''customer_complaints_received'', ''customer_complaints_resolved'', ''data_breach_count''],
      ''m.customer_complaints_received'')"
  by (rule formula_okI, simp add: tokens_eval, code_simp)

lemma formula_row_27: "formula_ok ([''product_recall_count''],
      ''m.product_recall_count'')"
  by (rule formula_okI, simp add: tokens_eval, code_simp)

lemma formula_row_28: "formula_ok ([''customer_satisfaction_score''],
      ''m.customer_satisfaction_score'')"
  by (rule formula_okI, simp add: tokens_eval, code_simp)

lemma formula_row_29: "formula_ok ([''data_breach_count'', ''data_subjects_affected''],
      ''m.data_breach_count'')"
  by (rule formula_okI, simp add: tokens_eval, code_simp)

lemma formula_row_30: "formula_ok ([''employee_count_total'', ''employee_count_male'', ''employee_count_female'',
      ''employee_count_perm'', ''employee_count_temp''],
      ''m.employee_count_total'')"
  by (rule formula_okI, simp add: tokens_eval, code_simp)

lemma formula_row_31: "formula_ok ([''employee_count_contract''],
      ''m.employee_count_contract'')"
  by (rule formula_okI, simp add: tokens_eval, code_simp)

lemma formula_row_32: "formula_ok ([''regulatory_actions_count'', ''fines_paid_inr''],
      ''m.fines_paid_inr'')"
  by (rule formula_okI, simp add: tokens_eval, code_simp)

lemma formula_row_33: "formula_ok ([''electricity_kwh'', ''electricity_from_renewable_kwh'', ''electricity_from_grid_kwh'',
      ''diesel_l'', ''petrol_l'', ''lpg_kg'', ''lng_kg'', ''png_scm'', ''coal_tonnes'',
      ''biomass_tonnes'', ''steam_purchased_gj'', ''total_energy_consumed_gj''],
      ''m.total_energy_consumed_gj'')"
  by (rule formula_okI, simp add: tokens_eval, code_simp)

lemma formula_row_34: "formula_ok ([''energy_intensity_per_revenue'', ''energy_intensity_per_employee''],
      ''m.energy_intensity_per_revenue'')"
  by (rule formula_okI, simp add: tokens_eval, code_simp)

lemma formula_row_35: "formula_ok ([''water_withdrawn_kl_groundwater'', ''water_withdrawn_kl_surface'',
      ''water_withdrawn_kl_third_party'', ''water_withdrawn_kl_seawater'',
      ''water_withdrawn_kl_produced'', ''water_withdrawn_total_kl''],
      ''m.water_withdrawn_total_kl'')"
  by (rule formula_okI, simp add: tokens_eval, code_simp)

lemma formula_row_36: "formula_ok ([''water_consumed_kl'', ''water_recycled_kl'', ''water_intensity_per_revenue''],
      ''m.water_consumed_kl'')"
  by (rule formula_okI, simp add: tokens_eval, code_simp)

lemma formula_row_37: "formula_ok ([''scope1_total_tco2e'', ''scope1_stationary_tco2e'', ''scope1_mobile_tco2e'',
      ''scope1_process_tco2e'', ''scope1_fugitive_tco2e''],
      ''m.scope1_total_tco2e'')"
  by (rule formula_okI, simp add: tokens_eval, code_simp)

lemma formula_row_38: "formula_ok ([''scope2_location_tco2e'', ''scope2_market_tco2e''],
      ''m.scope2_location_tco2e'')"
  by (rule formula_okI, simp add: tokens_eval, code_simp)

lemma formula_row_39: "formula_ok ([''ghg_intensity_per_revenue'', ''ghg_intensity_per_unit_output''],
      ''m.ghg_intensity_per_revenue'')"
  by (rule formula_okI, simp add: tokens_eval, code_simp)

lemma formula_row_40: "formula_ok ([''ods_kg''],
      ''m.ods_kg'')"
  by (rule formula_okI, simp add: tokens_eval, code_simp)

lemma formula_row_41: "formula_ok ([''nox_kg'', ''sox_kg'', ''pm_kg'', ''voc_kg''],
      ''m.nox_kg + m.sox_kg + m.pm_kg + m.voc_kg'')"
  by (rule formula_okI, simp add: tokens_eval, code_simp)

lemma formula_row_42: "formula_ok ([''waste_hazardous_kg'', ''waste_non_hazardous_kg'', ''e_waste_kg'', ''plastic_waste_kg'',
      ''biomedical_waste_kg'', ''battery_waste_kg'', ''radioactive_waste_kg'', ''other_waste_kg''],
      ''m.waste_hazardous_kg + m.waste_non_hazardous_kg + m.e_waste_kg + m.plastic_waste_kg + m.biomedical_waste_kg + m.battery_waste_kg + m.radioactive_waste_kg + m.other_waste_kg'')"
  by (rule formula_okI, simp add: tokens_eval, code_simp)

lemma formula_row_43: "formula_ok ([''waste_recycled_kg''],
      ''m.waste_recycled_kg'')"
  by (rule formula_okI, simp add: tokens_eval, code_simp)

lemma formula_row_44: "formula_ok ([''waste_to_landfill_kg'', ''waste_to_incineration_kg''],
      ''m.waste_to_landfill_kg + m.waste_to_incineration_kg'')"
  by (rule formula_okI, simp add: tokens_eval, code_simp)

lemma formula_row_45: "formula_ok ([''safety_training_coverage_pct'', ''training_hours_ehs''],
      ''m.safety_training_coverage_pct'')"
  by (rule formula_okI, simp add: tokens_eval, code_simp)

lemma formula_row_46: "formula_ok ([''ltifr'', ''trifr'', ''fatality_count_employees'', ''fatality_count_contractors''],
      ''m.fatality_count_employees + m.fatality_count_contractors'')"
  by (rule formula_okI, simp add: tokens_eval, code_simp)

lemma formula_row_47: "formula_ok ([''training_hours_per_employee'', ''training_hours_total''],
      ''m.training_hours_per_employee'')"
  by (rule formula_okI, simp add: tokens_eval, code_simp)

lemma formula_row_48: "formula_ok ([''training_coverage_pct''],
      ''m.training_coverage_pct'')"
  by (rule formula_okI, simp add: tokens_eval, code_simp)

lemma formula_row_49: "formula_ok ([''women_in_workforce_pct'', ''women_in_management_pct'', ''women_on_board_pct'',
      ''pwd_in_workforce_pct'', ''employee_count_by_age_bracket''],
      ''m.women_in_workforce_pct'')"
  by (rule formula_okI, simp add: tokens_eval, code_simp)

lemma formula_row_50: "formula_ok ([''gender_pay_gap_pct'', ''median_remuneration_male'', ''median_remuneration_female''],
      ''m.median_remuneration_male > 0 ? (m.median_remuneration_female / m.median_remuneration_male) : 0'')"
  by (rule formula_okI, simp add: tokens_eval, code_simp)

lemma scope3_formula_row: "formula_ok (scope3_metric_keys, scope3_sum_formula)"
proof (rule formula_okI)
  show "tokenize text_api scope3_sum_formula = Inr (
    concat (map (\<lambda>k. [TIdent (''m.'' @ k), TOp OpPlus]) (butlast scope3_metric_keys)) @
    [TIdent (''m.'' @ last scope3_metric_keys), TEof])"
    by (simp add: scope3_sum_formula_def scope3_metric_keys_eq tokens_eval)
qed code_simp

lemmas formula_rows_ok = scope3_formula_row
  formula_row_1 formula_row_2 formula_row_3 formula_row_4 formula_row_5 formula_row_6 formula_row_7
  formula_row_8 formula_row_9 formula_row_10 formula_row_11 formula_row_12 formula_row_13
  formula_row_14 formula_row_15 formula_row_16 formula_row_17 formula_row_18 formula_row_19
  formula_row_20 formula_row_21 formula_row_22 formula_row_23 formula_row_24 formula_row_25
  formula_row_26 formula_row_27 formula_row_28 formula_row_29 formula_row_30 formula_row_31
  formula_row_32 formula_row_33 formula_row_34 formula_row_35 formula_row_36 formula_row_37
  formula_row_38 formula_row_39 formula_row_40 formula_row_41 formula_row_42 formula_row_43
  formula_row_44 formula_row_45 formula_row_46 formula_row_47 formula_row_48 formula_row_49
  formula_row_50

lemma formulas_ok: "list_all formula_ok formula_rows"
  unfolding formula_rows_def brsr_formulas gri_formulas list_all_append
  by (simp add: formula_rows_ok)

text \<open>
  C8: Every formula of the BRSR and GRI tables can be computed. Whatever decimal library reads the
  numbers 0 and 100, in a context that gives a number for each canonical metric its disclosure is
  mapped to, the formula tokenizes, parses and evaluates to a number, or stops on the data (units
  that differ, a zero divisor); it never fails on an unknown name, a kind or a function.
\<close>

theorem table_formulas_compute:
  assumes "d_parse D ''0'' \<noteq> None" "d_parse D ''100'' \<noteq> None"
    and "(ks, f) \<in> set formula_rows" "numeric_names ctx (metric_refs ks)"
  shows "case evaluate D f ctx of Inr v \<Rightarrow> has_kind (cv_value v) KNum | Inl e \<Rightarrow> data_error e"
proof -
  from assms(3) formulas_ok have "formula_ok (ks, f)" by (auto simp: list_all_iff)
  then obtain ts where ts: "tokenize text_api f = Inr ts" "set (number_texts ts) \<subseteq> {''0'', ''100''}"
      "kind_of_text text_api (metric_refs ks) f = Some KNum"
    by (auto simp: formula_ok_def split: sum.splits)
  from ts(2) assms(1,2) have "reads D (number_texts ts)" by (auto simp: reads_def list_all_iff)
  with ts have "kind_of_text D (metric_refs ks) f = Some KNum" by (simp add: kind_of_text_reads)
  from evaluate_kinded[OF assms(4) this] show ?thesis .
qed

definition turnover_ctx :: "int cel_context" where
  "turnover_ctx = \<lparr> cx_metrics = [(''m.employee_turnover'', plain (VNum 30)), (''m.employee_count_perm'', plain (VNum 0))],
     cx_factors = None, cx_period_days = None \<rparr>"

theorem table_formulas_compute_witness:
  "case evaluate int_api ''m.employee_count_perm > 0 ? (m.employee_turnover / m.employee_count_perm * 100) : 0'' turnover_ctx of
     Inr v \<Rightarrow> has_kind (cv_value v) KNum | Inl e \<Rightarrow> data_error e"
proof (rule table_formulas_compute)
  show "d_parse int_api ''0'' \<noteq> None" "d_parse int_api ''100'' \<noteq> None" by code_simp+
  show "([''employee_turnover'', ''employee_count_perm''],
      ''m.employee_count_perm > 0 ? (m.employee_turnover / m.employee_count_perm * 100) : 0'') \<in> set formula_rows"
    unfolding formula_rows_def brsr_formulas by simp
  show "numeric_names turnover_ctx (metric_refs [''employee_turnover'', ''employee_count_perm''])" by code_simp
qed

end
