(* ===== verification/Crosswalk_Props.thy ===== *)
theory Crosswalk_Props
  imports Fw_Integrity "HOL-Library.Multiset"
begin

text \<open>
  What the registry, the tables and the crosswalk guarantee together: the registry loads, the
  tables only name what exists, and the crosswalk holds exactly the links of the tables and of the
  hand-curated mappings, in both directions.
\<close>

section \<open>The registry\<close>

lemma own_get_missing: "own_get ob k = None \<longleftrightarrow> k \<notin> set (map fst ob)"
  by (simp add: own_get_def map_of_eq_None_iff)

text \<open>
  C37: The canonical registry loads: no two metrics share a key, so building it does not throw, it
  has one entry per metric of the source in their order, every metric is found under its key, and
  a key that is neither a metric's nor a name of the object prototype is undefined.
\<close>

theorem registry_complete:
  "build_registry = Inr canonical_metrics \<and> map snd canonical_metrics = all_metrics \<and>
   distinct canonical_keys \<and> length canonical_keys = 151 \<and>
   map (\<lambda>m. get_canonical_metric (cmt_key m)) all_metrics = map JsOwn all_metrics \<and>
   (get_canonical_metric key = JsUndefined \<longleftrightarrow> key \<notin> set canonical_keys \<and> key \<notin> set object_prototype)"
proof -
  have get: "get_canonical_metric (cmt_key m) = JsOwn m" if "m \<in> set all_metrics" for m
  proof -
    have "map_of canonical_metrics (cmt_key m) = Some m"
      using that metric_keys_distinct by (intro map_of_is_SomeI) (auto simp: canonical_metrics_eq comp_def)
    then show ?thesis by (simp add: get_canonical_metric_def js_read_def own_get_def)
  qed
  have len: "length canonical_keys = 151"
    unfolding canonical_keys_eq metric_keys by simp
  have undef: "get_canonical_metric key = JsUndefined \<longleftrightarrow> key \<notin> set canonical_keys \<and> key \<notin> set object_prototype"
    using own_get_missing[of canonical_metrics key]
    by (cases "own_get canonical_metrics key") (simp_all add: get_canonical_metric_def js_read_def canonical_keys_def)
  have "map (\<lambda>m. get_canonical_metric (cmt_key m)) all_metrics = map JsOwn all_metrics" by (simp add: get)
  moreover have "map snd canonical_metrics = all_metrics" by (simp add: canonical_metrics_eq comp_def)
  moreover have "build_registry = Inr canonical_metrics" by (simp add: build_registry_eq canonical_metrics_eq)
  moreover have "distinct canonical_keys" using metric_keys_distinct by (simp only: canonical_keys_eq)
  ultimately show ?thesis using len undef by blast
qed

text \<open>The loop throws on exactly the lists with a repeated key (or a key of the prototype).\<close>

theorem registry_rejects_duplicates:
  "is_ok (registry_loop ms []) \<longleftrightarrow>
     distinct (map cmt_key ms) \<and> set (map cmt_key ms) \<inter> set object_prototype = {}"
proof (cases "distinct (map cmt_key ms) \<and> set (map cmt_key ms) \<inter> set object_prototype = {}")
  case True
  then show ?thesis using registry_loop_ok[of ms "[]"] by (simp add: is_ok_def)
next
  case False
  then have "\<not> distinct (map cmt_key ms) \<or>
      set (map cmt_key ms) \<inter> (set (map fst ([] :: canonical_metric js_object)) \<union> set object_prototype) \<noteq> {}"
    by simp
  from registry_loop_dup[OF this] False show ?thesis by (auto simp: is_ok_def)
qed

section \<open>The tables\<close>

text \<open>
  C15: Every disclosure of every framework is answerable: the canonical keys it is mapped to are
  metrics of the registry, and no two disclosures of a framework share their section identifier.
\<close>

theorem tables_name_metrics:
  "set (concat (map dl_keys (disclosures_of fw))) \<subseteq> set canonical_keys \<and>
   distinct (map dl_section (disclosures_of fw))"
  using tables_known[of fw] tables_distinct[of fw] by (auto simp: keys_known_def list_all_iff)

lemmas brsr_id = all_in[OF brsr_sections, unfolded list.pred_inject simp_thms]
  and gri_id = all_in[OF gri_sections, unfolded list.pred_inject simp_thms]
  and sasb_id = all_in[OF sasb_sections, unfolded list.pred_inject simp_thms]
  and tcfd_id = all_in[OF tcfd_sections, unfolded list.pred_inject simp_thms]
  and ifrs_s2_id = all_in[OF ifrs_s2_sections, unfolded list.pred_inject simp_thms]
  and esrs_id = all_in[OF esrs_sections, unfolded list.pred_inject simp_thms]
  and cdp_id = all_in[OF cdp_sections, unfolded list.pred_inject simp_thms]

definition sections_of :: "framework_code \<Rightarrow> string set" where
  "sections_of fw = set (map dl_section (disclosures_of fw))"

lemmas section_in = brsr_id[folded sections_of_def] gri_id[folded sections_of_def] sasb_id[folded sections_of_def]
  tcfd_id[folded sections_of_def] ifrs_s2_id[folded sections_of_def] esrs_id[folded sections_of_def]
  cdp_id[folded sections_of_def]

lemma golden_known:
  "list_all (\<lambda>(key, golden). key \<in> set canonical_keys \<and>
     list_all (\<lambda>(fw, ids). list_all (\<lambda>sid. sid \<in> sections_of fw) ids) golden) golden_crosswalks"
  by (simp add: golden_crosswalks_def canonical_key_in section_in)

lemma golden_frameworks_distinct: "list_all (\<lambda>(k, golden). distinct (map fst golden)) golden_crosswalks"
  by (simp add: golden_crosswalks_def)

lemma golden_keys_distinct: "distinct (map fst golden_crosswalks)"
proof -
  have "pairwise_differ (map fst golden_crosswalks)"
    unfolding golden_crosswalks_def by (simp only: list.map fst_conv differ_eval)
  then show ?thesis by (simp only: pairwise_differ_iff)
qed

section \<open>The crosswalk\<close>

text \<open>
  The hand-curated mappings resolve: every key they name is a canonical metric and every
  section they give for a framework is a disclosure of that framework.
\<close>

theorem golden_resolves:
  "list_all (\<lambda>(key, golden). key \<in> set canonical_keys \<and>
     list_all (\<lambda>(fw, ids). set ids \<subseteq> set (map dl_section (disclosures_of fw))) golden) golden_crosswalks"
  using golden_known by (auto simp: list_all_iff sections_of_def) blast

lemma crosswalk_ok: "crosswalk_ok crosswalks"
  by (simp add: crosswalks_def crosswalks_from_ok)

lemma golden_in_keys: "set (map fst golden_crosswalks) \<subseteq> set canonical_keys"
  using golden_known by (auto simp: list_all_iff)

lemma golden_in_sections: "set (ids_of (entry_of golden_crosswalks key) fw) \<subseteq> sections_of fw"
proof
  fix sid assume sid: "sid \<in> set (ids_of (entry_of golden_crosswalks key) fw)"
  then obtain golden where g1: "map_of golden_crosswalks key = Some golden"
    by (cases "map_of golden_crosswalks key") (auto simp: entry_of_def)
  with sid obtain ids where g: "map_of golden fw = Some ids" "sid \<in> set ids"
    by (cases "map_of golden fw") (auto simp: entry_of_def ids_of_def)
  from golden_known map_of_SomeD[OF g1] map_of_SomeD[OF g(1)] g(2) show "sid \<in> sections_of fw"
    by (fastforce simp: list_all_iff)
qed

lemma crosswalk_keys: "set (map fst crosswalks) = set canonical_keys"
proof -
  have "set (dl_keys d) \<subseteq> set canonical_keys" if "d \<in> set (disclosures_of f)" for d f
    using tables_known[of f] that by (auto simp: keys_known_def list_all_iff)
  then show ?thesis using golden_in_keys unfolding crosswalks_def crosswalks_from_keys by blast
qed

text \<open>
  The crosswalk is exact. For every canonical key and framework, the identifiers listed are
  those of the disclosures whose table row maps the key and those the hand-curated mappings add,
  each once; its keys are the canonical keys, each once; and every listed identifier is a
  disclosure of the framework.
\<close>

theorem crosswalk_exact:
  "set (ids_of (entry_of crosswalks key) fw) =
     {dl_section d |d. d \<in> set (disclosures_of fw) \<and> key \<in> set (dl_keys d)} \<union>
     set (ids_of (entry_of golden_crosswalks key) fw) \<and>
   distinct (ids_of (entry_of crosswalks key) fw) \<and>
   set (map fst crosswalks) = set canonical_keys \<and> distinct (map fst crosswalks) \<and>
   set (ids_of (entry_of crosswalks key) fw) \<subseteq> set (map dl_section (disclosures_of fw))"
proof -
  have ids: "set (ids_of (entry_of crosswalks key) fw) =
     {dl_section d |d. d \<in> set (disclosures_of fw) \<and> key \<in> set (dl_keys d)} \<union>
     set (ids_of (entry_of golden_crosswalks key) fw)"
    by (simp add: crosswalks_def crosswalks_from_def fill_keys_entry invert_all_listed
        merge_golden_listed[OF golden_keys_distinct golden_frameworks_distinct])
  moreover have "{dl_section d |d. d \<in> set (disclosures_of fw) \<and> key \<in> set (dl_keys d)} \<subseteq> sections_of fw"
    by (auto simp: sections_of_def)
  ultimately show ?thesis using crosswalk_ok crosswalk_keys golden_in_sections[of key fw]
    by (simp add: crosswalk_ok_def sections_of_def del: set_map)
qed


section \<open>Metrics\<close>

fun has_infix :: "string \<Rightarrow> string \<Rightarrow> bool" where
  "has_infix p [] = (p = [])"
| "has_infix p (c # s) = (if starts_with (c # s) p then True else has_infix p s)"

text \<open>A rate: a percentage, a ratio or an amount per something.\<close>

definition rate_unit :: "string \<Rightarrow> bool" where
  "rate_unit u = (u = ''pct'' \<or> u = ''ratio'' \<or> has_infix ''per_'' u)"

definition rule_ok :: "canonical_metric \<Rightarrow> bool" where
  "rule_ok m = (case cmt_rule m of
     AggSum \<Rightarrow> if rate_unit (cmt_unit m) then False else vc_min (cmt_constraints m) = Some 0
   | AggRatio \<Rightarrow> rate_unit (cmt_unit m)
   | AggBoolAny \<Rightarrow> vc_dtype (cmt_constraints m) = DtBool
   | _ \<Rightarrow> vc_min (cmt_constraints m) = Some 0)"

lemmas metric_parts = all_metrics_def metrics_energy_def metrics_waste_def metrics_workforce_def metrics_customer_def metrics_compliance_def
lemmas metric_eval = metric_tables show_small non_negative_float_def non_negative_int_def
  percentage_range_def boolean_range_def

lemma rules_eval: "list_all rule_ok all_metrics"
  unfolding metric_parts list_all_append by (simp add: metric_eval rule_ok_def rate_unit_def)

lemma units_eval: "map cmt_key (filter (\<lambda>m. cmt_unit m \<notin> set (cmt_allowed m)) all_metrics) = [''ghg_intensity_per_unit_output'']"
  unfolding metric_parts filter_append map_append by (simp add: metric_eval)

lemma total_tagged_stationary:
  "map cmt_key (filter (\<lambda>m. cmt_boundary m = Some Scope1Stationary) all_metrics) =
     [''scope1_total_tco2e'', ''scope1_stationary_tco2e'']"
  unfolding metric_parts filter_append map_append by (simp add: metric_eval)

lemma categories_partition:
  "mset (concat (map list_metrics_by_category [CatEnvironment, CatSocial, CatGovernance])) = mset all_metrics"
proof -
  have "mset (filter (\<lambda>m. cmt_category m = CatEnvironment) ms) + mset (filter (\<lambda>m. cmt_category m = CatSocial) ms) +
      mset (filter (\<lambda>m. cmt_category m = CatGovernance) ms) = mset ms" for ms :: "canonical_metric list"
  proof (induction ms)
    case (Cons m ms)
    then show ?case by (cases "cmt_category m") (simp_all add: ac_simps)
  qed simp
  then show ?thesis
    by (simp add: list_metrics_by_category_def canonical_metrics_eq comp_def add.assoc)
qed

text \<open>
  Roll-ups of the registry are sound by declaration: a metric that is summed over nodes and
  periods is an amount that cannot be negative and never a rate, every ratio has the unit of a
  rate, and every flag is combined as a flag. The storage unit is one of the accepted units for
  every metric but the emission intensity per unit of output, which accepts three units and is
  stored in a fourth. The three categories partition the registry.
\<close>

theorem metric_rules:
  "list_all rule_ok all_metrics \<and>
   map cmt_key (filter (\<lambda>m. cmt_unit m \<notin> set (cmt_allowed m)) all_metrics) = [''ghg_intensity_per_unit_output''] \<and>
   mset (concat (map list_metrics_by_category [CatEnvironment, CatSocial, CatGovernance])) = mset all_metrics"
  using rules_eval units_eval categories_partition by blast

section \<open>Size of the schedule\<close>

text \<open>The comment above the generated questions speaks of more than 200 disclosures.\<close>

lemma brsr_count: "length brsr_disclosures = 155"
proof -
  have "length (map dl_section (disclosures_of FwBrsr)) = 155" unfolding brsr_sections by simp
  then show ?thesis by (simp add: disclosures_of_def)
qed

end
