(* ===== verification/Units.thy ===== *)
theory Units
  imports Doubles
begin

text \<open>
  Unit conversion (packages/shared/src/units.ts): the registry of units with their conversion
  functions to and from the base unit of their family, the aliases, \<open>convert\<close>, \<open>canConvert\<close>,
  \<open>unitsInFamily\<close>, \<open>family\<close> and \<open>registerUnit\<close>; and the warming potentials of the same package
  (gwp.ts). Numbers are doubles as in \<open>Doubles\<close>; the registry is the state.
\<close>

section \<open>The registry\<close>

datatype unit_family =
    FamEnergy | FamMass | FamVolume | FamArea | FamDistance | FamTime | FamMoney | FamPower | FamEmission

fun family_text :: "unit_family \<Rightarrow> string" where
  "family_text FamEnergy = ''ENERGY''"
| "family_text FamMass = ''MASS''"
| "family_text FamVolume = ''VOLUME''"
| "family_text FamArea = ''AREA''"
| "family_text FamDistance = ''DISTANCE''"
| "family_text FamTime = ''TIME''"
| "family_text FamMoney = ''MONEY''"
| "family_text FamPower = ''POWER''"
| "family_text FamEmission = ''EMISSION''"

record measure_unit =
  mu_symbol :: string
  mu_family :: unit_family

record unit_call =
  uc_symbol :: string
  uc_family :: unit_family
  uc_to :: "rat \<Rightarrow> rat"
  uc_from :: "rat \<Rightarrow> rat"

record unit_registry =
  ur_units :: "measure_unit js_object"
  ur_to :: "(rat \<Rightarrow> rat) js_object"
  ur_from :: "(rat \<Rightarrow> rat) js_object"
  ur_proto :: "unit_call option"

text \<open>
  The three tables are plain objects: an assignment to the key \<open>__proto__\<close> makes the unit and its
  functions their prototypes instead of adding a property (\<open>ur_proto\<close>). What the lookups find through
  such a prototype (\<open>symbol\<close> and \<open>family\<close> become names of units) is not modelled; the properties
  assume that no unit is registered under that name.
\<close>

definition register_unit :: "unit_registry \<Rightarrow> unit_call \<Rightarrow> unit_registry" where
  "register_unit R c =
     (let key = js_lower (uc_symbol c) in
      if key = ''__proto__'' then R \<lparr> ur_proto := Some c \<rparr>
      else R \<lparr> ur_units := upsert key \<lparr> mu_symbol = uc_symbol c, mu_family = uc_family c \<rparr> (ur_units R),
        ur_to := upsert key (uc_to c) (ur_to R),
        ur_from := upsert key (uc_from c) (ur_from R) \<rparr>)"

text \<open>\<open>factor(k)\<close>: its two functions, in a call of \<open>register\<close>; the base units use the identity.\<close>

definition scaled_unit :: "string \<Rightarrow> unit_family \<Rightarrow> rat \<Rightarrow> unit_call" where
  "scaled_unit symbol fam k = \<lparr> uc_symbol = symbol, uc_family = fam,
     uc_to = (\<lambda>v. fl (v * fl k)), uc_from = (\<lambda>v. fl (v / fl k)) \<rparr>"

definition base_unit :: "string \<Rightarrow> unit_family \<Rightarrow> unit_call" where
  "base_unit symbol fam = \<lparr> uc_symbol = symbol, uc_family = fam, uc_to = (\<lambda>v. v), uc_from = (\<lambda>v. v) \<rparr>"

definition builtin_units :: "unit_call list" where
  "builtin_units = [
     base_unit ''J'' FamEnergy, scaled_unit ''kJ'' FamEnergy (1000),
     scaled_unit ''MJ'' FamEnergy (1000000), scaled_unit ''GJ'' FamEnergy (1000000000),
     scaled_unit ''TJ'' FamEnergy (1000000000000), scaled_unit ''Wh'' FamEnergy (3600),
     scaled_unit ''kWh'' FamEnergy (3600000), scaled_unit ''MWh'' FamEnergy (3600000000),
     scaled_unit ''GWh'' FamEnergy (3600000000000),
     scaled_unit ''TWh'' FamEnergy (3600000000000000), scaled_unit ''cal'' FamEnergy (4.184),
     scaled_unit ''kcal'' FamEnergy (4184), scaled_unit ''BTU'' FamEnergy (1055.06),
     scaled_unit ''therm'' FamEnergy (105506000), base_unit ''kg'' FamMass,
     scaled_unit ''g'' FamMass (1 / 1000), scaled_unit ''mg'' FamMass (1 / 1000000),
     scaled_unit ''t'' FamMass (1000), scaled_unit ''lb'' FamMass (0.45359237),
     scaled_unit ''oz'' FamMass (0.0283495231), base_unit ''L'' FamVolume,
     scaled_unit ''mL'' FamVolume (1 / 1000), scaled_unit ''kL'' FamVolume (1000),
     scaled_unit ''m3'' FamVolume (1000), scaled_unit ''cm3'' FamVolume (1 / 1000),
     scaled_unit ''gal_us'' FamVolume (3.78541), scaled_unit ''gal_uk'' FamVolume (4.54609),
     scaled_unit ''bbl'' FamVolume (158.987), base_unit ''m2'' FamArea,
     scaled_unit ''cm2'' FamArea (1 / 10000), scaled_unit ''km2'' FamArea (1000000),
     scaled_unit ''ha'' FamArea (10000), scaled_unit ''hectare'' FamArea (10000),
     scaled_unit ''acre'' FamArea (4046.8564224), base_unit ''m'' FamDistance,
     scaled_unit ''km'' FamDistance (1000), scaled_unit ''cm'' FamDistance (1 / 100),
     scaled_unit ''mi'' FamDistance (1609.344), scaled_unit ''ft'' FamDistance (0.3048),
     base_unit ''s'' FamTime, scaled_unit ''min'' FamTime (60), scaled_unit ''h'' FamTime (3600),
     scaled_unit ''d'' FamTime (86400), base_unit ''W'' FamPower,
     scaled_unit ''kW'' FamPower (1000), scaled_unit ''MW'' FamPower (1000000),
     scaled_unit ''GW'' FamPower (1000000000), scaled_unit ''hp'' FamPower (745.6999),
     base_unit ''kgCO2e'' FamEmission, scaled_unit ''tCO2e'' FamEmission (1000),
     scaled_unit ''gCO2e'' FamEmission (1 / 1000), scaled_unit ''MtCO2e'' FamEmission (1000000000),
     base_unit ''USD'' FamMoney]"

definition empty_registry :: unit_registry where
  "empty_registry = \<lparr> ur_units = [], ur_to = [], ur_from = [], ur_proto = None \<rparr>"

definition builtin_registry :: unit_registry where
  "builtin_registry = foldl register_unit empty_registry builtin_units"

section \<open>Aliases\<close>

definition unit_aliases :: "string js_object" where
  "unit_aliases = [
     (''kwh'', ''kwh''), (''mwh'', ''mwh''), (''gwh'', ''gwh''), (''twh'', ''twh''),
     (''kilowatt-hour'', ''kwh''), (''kilowatt hour'', ''kwh''), (''kilowatt hours'', ''kwh''),
     (''btu'', ''btu''), (''therms'', ''therm''), (''tonne'', ''t''), (''tonnes'', ''t''),
     (''ton'', ''t''), (''tons'', ''t''), (''metric_ton'', ''t''), (''metric ton'', ''t''),
     (''metric tons'', ''t''), (''metric_tons'', ''t''), (''pound'', ''lb''), (''pounds'', ''lb''),
     (''lbs'', ''lb''), (''ounce'', ''oz''), (''ounces'', ''oz''), (''gram'', ''g''),
     (''grams'', ''g''), (''kilogram'', ''kg''), (''kilograms'', ''kg''), (''liter'', ''l''),
     (''liters'', ''l''), (''litre'', ''l''), (''litres'', ''l''), (''milliliter'', ''ml''),
     (''milliliters'', ''ml''), (''cubicmeter'', ''m3''), (''cubic meter'', ''m3''),
     (''cubic meters'', ''m3''), (''m^3'', ''m3''), (''gallon'', ''gal_us''),
     (''gallons'', ''gal_us''), (''us gallon'', ''gal_us''), (''uk gallon'', ''gal_uk''),
     (''imperial gallon'', ''gal_uk''), (''barrel'', ''bbl''), (''barrels'', ''bbl''),
     (''m^2'', ''m2''), (''sq m'', ''m2''), (''sqm'', ''m2''), (''hectares'', ''ha''),
     (''hectare'', ''ha''), (''acres'', ''acre''), (''meter'', ''m''), (''meters'', ''m''),
     (''kilometer'', ''km''), (''kilometers'', ''km''), (''mile'', ''mi''), (''miles'', ''mi''),
     (''feet'', ''ft''), (''foot'', ''ft''), (''second'', ''s''), (''seconds'', ''s''),
     (''sec'', ''s''), (''minute'', ''min''), (''minutes'', ''min''), (''mins'', ''min''),
     (''hour'', ''h''), (''hours'', ''h''), (''hr'', ''h''), (''hrs'', ''h''), (''day'', ''d''),
     (''days'', ''d''), (''watt'', ''w''), (''watts'', ''w''), (''kilowatt'', ''kw''),
     (''kilowatts'', ''kw''), (''megawatt'', ''mw''), (''megawatts'', ''mw''),
     (''horsepower'', ''hp''), (''kg co2e'', ''kgco2e''), (''kgco2-e'', ''kgco2e''),
     (''kg co2-e'', ''kgco2e''), (''tco2-e'', ''tco2e''), (''t co2e'', ''tco2e''),
     (''g co2e'', ''gco2e'')]"

text \<open>
  \<open>ALIASES[key] ?? key\<close> as it is used, a property key: a name of the prototype reads a host object,
  which is turned into text. The key is in lower case, so the names are constructor and
  \<open>__proto__\<close>.
\<close>

definition host_key :: "string \<Rightarrow> string" where
  "host_key k = (if k = ''constructor'' then ''function Object() { [native code] }'' else ''[object Object]'')"

definition normalize_unit :: "string \<Rightarrow> string" where
  "normalize_unit symbol =
     (let key = js_lower (js_trim symbol) in
      case own_get unit_aliases key of
        Some k \<Rightarrow> k
      | None \<Rightarrow> if key \<in> set object_prototype then host_key key else key)"

definition lookup_unit :: "unit_registry \<Rightarrow> string \<Rightarrow> measure_unit option" where
  "lookup_unit R symbol = own_get (ur_units R) (normalize_unit symbol)"

section \<open>Operations\<close>

text \<open>The dash of the message is its UTF-8 bytes.\<close>

definition convert_unit :: "unit_registry \<Rightarrow> rat \<Rightarrow> string \<Rightarrow> string \<Rightarrow> string + rat" where
  "convert_unit R value src dst =
     (case lookup_unit R src of
        None \<Rightarrow> Inl (''Unknown unit: '' @ src)
      | Some su \<Rightarrow>
     (case lookup_unit R dst of
        None \<Rightarrow> Inl (''Unknown unit: '' @ dst)
      | Some du \<Rightarrow>
        if mu_family su \<noteq> mu_family du then
          Inl (''Cannot convert '' @ src @ '' ('' @ family_text (mu_family su) @ '') to '' @ dst @ '' ('' @
               family_text (mu_family du) @ '')'')
        else if mu_family su = FamMoney then
          Inl (''Currency conversion is not supported here '' @ [CHR 0xE2, CHR 0x80, CHR 0x94] @ '' use the FX service'')
        else
          (case (own_get (ur_to R) (normalize_unit src), own_get (ur_from R) (normalize_unit dst)) of
             (Some to_b, Some from_b) \<Rightarrow> Inr (from_b (to_b value))
           | _ \<Rightarrow> Inl ''Conversion function missing in registry'')))"

definition can_convert :: "unit_registry \<Rightarrow> string \<Rightarrow> string \<Rightarrow> bool" where
  "can_convert R src dst =
     (case (lookup_unit R src, lookup_unit R dst) of
        (Some su, Some du) \<Rightarrow>
          if mu_family su \<noteq> mu_family du then False else if mu_family su = FamMoney then False else True
      | _ \<Rightarrow> False)"

definition units_in_family :: "unit_registry \<Rightarrow> unit_family \<Rightarrow> string list" where
  "units_in_family R fam = map (mu_symbol \<circ> snd) (filter (\<lambda>(k, u). mu_family u = fam) (ur_units R))"

definition unit_family_of :: "unit_registry \<Rightarrow> string \<Rightarrow> unit_family option" where
  "unit_family_of R symbol = map_option mu_family (lookup_unit R symbol)"

end
