(* ===== verification/Units_Props.thy ===== *)
theory Units_Props
  imports Units
begin

text \<open>
  Unit conversion: which conversions succeed, that the error of an inconsistent registry cannot
  occur whatever units are registered, the rounding error of a conversion there and back, and the
  aliases.
\<close>

section \<open>The registry after any registrations\<close>

definition last_call :: "unit_call list \<Rightarrow> string \<Rightarrow> unit_call option" where
  "last_call cs key = find (\<lambda>c. js_lower (uc_symbol c) = key) (rev cs)"

definition registry_of :: "unit_call list \<Rightarrow> unit_registry" where
  "registry_of cs = foldl register_unit empty_registry cs"

text \<open>No unit is registered as \<open>__proto__\<close>.\<close>

definition registrable :: "unit_call list \<Rightarrow> bool" where
  "registrable cs \<longleftrightarrow> (\<forall>c\<in>set cs. js_lower (uc_symbol c) \<noteq> ''__proto__'')"

lemma registry_lookup:
  assumes "registrable cs"
  shows "own_get (ur_units (registry_of cs)) key = map_option (\<lambda>c. \<lparr> mu_symbol = uc_symbol c, mu_family = uc_family c \<rparr>) (last_call cs key)"
  "own_get (ur_to (registry_of cs)) key = map_option uc_to (last_call cs key)"
  "own_get (ur_from (registry_of cs)) key = map_option uc_from (last_call cs key)"
  using assms
  by (induction cs rule: rev_induct)
    (auto simp: registry_of_def empty_registry_def register_unit_def last_call_def own_get_def registrable_def Let_def)

lemma last_call_in: "last_call cs key = Some c \<Longrightarrow> c \<in> set cs"
  by (auto simp: last_call_def find_Some_iff dest: nth_mem) (metis nth_mem set_rev length_rev)

lemma lookup_unit_of:
  "registrable cs \<Longrightarrow> lookup_unit (registry_of cs) s =
     map_option (\<lambda>c. \<lparr> mu_symbol = uc_symbol c, mu_family = uc_family c \<rparr>) (last_call cs (normalize_unit s))"
  by (simp add: lookup_unit_def registry_lookup)

lemma can_convert_iff:
  "registrable cs \<Longrightarrow> can_convert (registry_of cs) src dst \<longleftrightarrow>
     (\<exists>a b. last_call cs (normalize_unit src) = Some a \<and> last_call cs (normalize_unit dst) = Some b \<and>
        uc_family a = uc_family b \<and> uc_family a \<noteq> FamMoney)"
  by (auto simp: can_convert_def lookup_unit_of split: option.splits)

lemma convert_calls:
  assumes "registrable cs" "last_call cs (normalize_unit src) = Some a" "last_call cs (normalize_unit dst) = Some b"
    "uc_family a = uc_family b" "uc_family a \<noteq> FamMoney"
  shows "convert_unit (registry_of cs) v src dst = Inr (uc_from b (uc_to a v))"
  using assms by (simp add: convert_unit_def lookup_unit_of registry_lookup)

text \<open>
  C17: Conversion decides. In the registry left by any sequence of registrations, none of them under
  the name \<open>__proto__\<close>, \<open>convert\<close> returns a number exactly when \<open>canConvert\<close> says so, the number is
  the target's function of the last registration after the source's, and it fails with an unknown
  source exactly when the source has no family; the registry inconsistency it guards against does
  not occur.
\<close>

theorem convert_decides:
  assumes "registrable cs"
  shows "(is_ok (convert_unit (registry_of cs) v src dst) \<longleftrightarrow> can_convert (registry_of cs) src dst) \<and>
   (can_convert (registry_of cs) src dst \<longrightarrow> (\<exists>a b. last_call cs (normalize_unit src) = Some a \<and>
      last_call cs (normalize_unit dst) = Some b \<and> convert_unit (registry_of cs) v src dst = Inr (uc_from b (uc_to a v)))) \<and>
   convert_unit (registry_of cs) v src dst \<noteq> Inl ''Conversion function missing in registry'' \<and>
   (convert_unit (registry_of cs) v src dst = Inl (''Unknown unit: '' @ src) \<longleftrightarrow> unit_family_of (registry_of cs) src = None)"
proof (cases "can_convert (registry_of cs) src dst")
  case True
  then show ?thesis unfolding can_convert_iff[OF assms]
    by (auto simp: convert_calls[OF assms] is_ok_def unit_family_of_def lookup_unit_of[OF assms])
next
  case False
  then show ?thesis
    by (auto simp: can_convert_def convert_unit_def is_ok_def unit_family_of_def lookup_unit_of[OF assms] registry_lookup[OF assms]
        split: option.splits if_splits)
qed

text \<open>A unit registered again: the later registration counts, whatever the case it is written in.\<close>

definition doubled_unit :: "unit_call list" where
  "doubled_unit = [\<lparr> uc_symbol = ''x'', uc_family = FamMass, uc_to = (\<lambda>v. v), uc_from = (\<lambda>v. v) \<rparr>,
     \<lparr> uc_symbol = ''X'', uc_family = FamMass, uc_to = (\<lambda>v. v * 2), uc_from = (\<lambda>v. v / 2) \<rparr>]"

theorem convert_decides_witness:
  "is_ok (convert_unit (registry_of doubled_unit) 3 ''x'' ''X'')"
proof -
  have k: "js_lower ''x'' = ''x''" "js_lower ''X'' = ''x''" "normalize_unit ''x'' = ''x''" "normalize_unit ''X'' = ''x''" by code_simp+
  have r: "registrable doubled_unit" by (simp add: registrable_def doubled_unit_def k)
  have "can_convert (registry_of doubled_unit) ''x'' ''X''"
    unfolding can_convert_iff[OF r] by (simp add: last_call_def doubled_unit_def k)
  then show ?thesis using convert_decides[OF r, of 3 "''x''" "''X''"] by blast
qed

section \<open>Rounding\<close>

definition ulp :: rat where
  "ulp = 1 / 2 ^ 53"

text \<open>A function that multiplies by \<open>k\<close> up to one rounding.\<close>

definition scales :: "rat \<Rightarrow> (rat \<Rightarrow> rat) \<Rightarrow> bool" where
  "scales k f \<longleftrightarrow> (\<forall>v. \<exists>d. f v = v * k * (1 + d) \<and> \<bar>d\<bar> \<le> ulp)"

lemma rounds: "\<exists>d. fl q = q * (1 + d) \<and> \<bar>d\<bar> \<le> ulp"
proof (cases "q = 0")
  case False
  have "fl q / q - 1 = (fl q - q) / q" using False by (simp add: diff_divide_distrib)
  then have "\<bar>fl q / q - 1\<bar> = \<bar>fl q - q\<bar> / \<bar>q\<bar>" by (simp only: abs_divide)
  also have "\<dots> \<le> ulp" using fl_error[of q] False by (simp add: ulp_def pos_divide_le_eq)
  finally have "fl q = q * (1 + (fl q / q - 1)) \<and> \<bar>fl q / q - 1\<bar> \<le> ulp" using False by simp
  then show ?thesis by (rule exI)
qed (auto intro!: exI[of _ 0] simp: ulp_def)

text \<open>The factors of the registry are between one and ten to the seventeen.\<close>

definition linear_call :: "unit_call \<Rightarrow> bool" where
  "linear_call c \<longleftrightarrow> (\<exists>k. 1 / 10 ^ 17 \<le> k \<and> k \<le> 10 ^ 17 \<and> scales k (uc_to c) \<and> scales (1 / k) (uc_from c))"

lemma scaled_linear:
  assumes "1 / 10 ^ 16 \<le> k" "k \<le> 10 ^ 16"
  shows "linear_call (scaled_unit s f k)"
proof -
  have k: "0 \<le> k" using assms(1) by (rule order_trans[rotated]) simp
  have "k * (1 - 1 / 2 ^ 53) \<le> fl k \<and> fl k \<le> k * (1 + 1 / 2 ^ 53)" by (rule fl_bounds[OF k])
  moreover have "k * (1 - 1 / 2 ^ 53) \<ge> k / 10" "k * (1 + 1 / 2 ^ 53) \<le> k * 10" using k by (simp_all add: field_simps)
  ultimately have "1 / 10 ^ 17 \<le> fl k" "fl k \<le> 10 ^ 17" using assms by simp_all
  moreover have "scales (fl k) (\<lambda>v. fl (v * fl k))" by (simp add: scales_def rounds)
  moreover have "\<exists>d. fl (v / fl k) = v * (1 / fl k) * (1 + d) \<and> \<bar>d\<bar> \<le> ulp" for v using rounds[of "v / fl k"] by simp
  then have "scales (1 / fl k) (\<lambda>v. fl (v / fl k))" by (simp add: scales_def)
  ultimately show ?thesis unfolding linear_call_def scaled_unit_def by auto
qed

lemma base_linear: "linear_call (base_unit s f)"
  unfolding linear_call_def base_unit_def scales_def
  by (intro exI[of _ 1] conjI allI exI[of _ 0]) (simp_all add: ulp_def)

lemma builtin_linear: "list_all linear_call builtin_units"
  by (simp add: builtin_units_def scaled_linear base_linear)

text \<open>One conversion function keeps a value within a factor of ten to the eighteen.\<close>

lemma scales_range:
  assumes "scales k f" "1 / 10 ^ 17 \<le> k" "k \<le> 10 ^ 17"
  shows "\<bar>v\<bar> / 10 ^ 18 \<le> \<bar>f v\<bar> \<and> \<bar>f v\<bar> \<le> \<bar>v\<bar> * 10 ^ 18"
proof -
  obtain d where d: "f v = v * k * (1 + d)" "\<bar>d\<bar> \<le> ulp" using assms(1) unfolding scales_def by blast
  have u: "1 / 10 \<le> 1 + d" "1 + d \<le> 10" using d(2) by (simp_all add: ulp_def abs_le_iff)
  have k: "0 \<le> k" using assms(2) by (rule order_trans[rotated]) simp
  have a: "\<bar>f v\<bar> = \<bar>v\<bar> * (k * (1 + d))" using u k by (simp add: d(1) abs_mult)
  have "1 / 10 ^ 17 * (1 / 10) \<le> k * (1 + d)" using assms(2) u k by (intro mult_mono) simp_all
  moreover have "k * (1 + d) \<le> 10 ^ 17 * 10" using assms(3) u by (intro mult_mono) simp_all
  ultimately have "\<bar>v\<bar> * (1 / 10 ^ 18) \<le> \<bar>f v\<bar>" "\<bar>f v\<bar> \<le> \<bar>v\<bar> * 10 ^ 18"
    unfolding a by (intro mult_left_mono; simp)+
  then show ?thesis by simp
qed

lemma factor_close:
  assumes "\<bar>d\<bar> \<le> ulp" "\<bar>p - 1\<bar> \<le> e" "e \<le> 1"
  shows "\<bar>p * (1 + d) - 1\<bar> \<le> e + 2 * ulp"
proof -
  have p: "\<bar>p\<bar> \<le> 2" using assms(2,3) by linarith
  have "\<bar>p * d\<bar> \<le> 2 * ulp" unfolding abs_mult using p assms(1) by (intro mult_mono) simp_all
  moreover have "p * (1 + d) - 1 = (p - 1) + p * d" by (simp add: algebra_simps)
  ultimately show ?thesis using assms(2) by linarith
qed

lemma four_roundings:
  assumes "\<bar>a\<bar> \<le> ulp" "\<bar>b\<bar> \<le> ulp" "\<bar>c\<bar> \<le> ulp" "\<bar>d\<bar> \<le> ulp"
  shows "\<bar>(1 + a) * (1 + b) * (1 + c) * (1 + d) - 1\<bar> \<le> 7 * ulp"
proof -
  have u: "7 * ulp \<le> 1" by (simp add: ulp_def)
  have 1: "\<bar>(1 + a) - 1\<bar> \<le> ulp" using assms(1) by simp
  have 2: "\<bar>(1 + a) * (1 + b) - 1\<bar> \<le> 3 * ulp" using factor_close[OF assms(2) 1] u by (simp add: ulp_def)
  have 3: "\<bar>(1 + a) * (1 + b) * (1 + c) - 1\<bar> \<le> 5 * ulp" using factor_close[OF assms(3) 2] u by (simp add: ulp_def)
  show ?thesis using factor_close[OF assms(4) 3] u by (simp add: ulp_def)
qed

lemma there_and_back:
  assumes "linear_call a" "linear_call b"
  shows "\<bar>uc_from a (uc_to b (uc_from b (uc_to a v))) - v\<bar> \<le> \<bar>v\<bar> * (7 * ulp)"
proof -
  from assms obtain k l where kl': "1 / 10 ^ 17 \<le> k" "1 / 10 ^ 17 \<le> l" "scales k (uc_to a)" "scales (1 / k) (uc_from a)"
      "scales l (uc_to b)" "scales (1 / l) (uc_from b)"
    unfolding linear_call_def by blast
  have "0 < 1 / (10 :: rat) ^ 17" by simp
  then have kl: "0 < k" "0 < l" "scales k (uc_to a)" "scales (1 / k) (uc_from a)"
      "scales l (uc_to b)" "scales (1 / l) (uc_from b)" using kl' by linarith+
  define x1 where "x1 = uc_to a v"
  define x2 where "x2 = uc_from b x1"
  define x3 where "x3 = uc_to b x2"
  define x4 where "x4 = uc_from a x3"
  note xs = x1_def x2_def x3_def x4_def
  obtain d1 where d1: "x1 = v * k * (1 + d1)" "\<bar>d1\<bar> \<le> ulp" using kl(3) unfolding scales_def x1_def by blast
  obtain d2 where d2: "x2 = x1 * (1 / l) * (1 + d2)" "\<bar>d2\<bar> \<le> ulp" using kl(6) unfolding scales_def x2_def by blast
  obtain d3 where d3: "x3 = x2 * l * (1 + d3)" "\<bar>d3\<bar> \<le> ulp" using kl(5) unfolding scales_def x3_def by blast
  obtain d4 where d4: "x4 = x3 * (1 / k) * (1 + d4)" "\<bar>d4\<bar> \<le> ulp" using kl(4) unfolding scales_def x4_def by blast
  have "x4 - v = v * ((1 + d1) * (1 + d2) * (1 + d3) * (1 + d4) - 1)"
    unfolding d4(1) d3(1) d2(1) d1(1) using kl(1,2) by (simp add: field_simps)
  then have "\<bar>x4 - v\<bar> \<le> \<bar>v\<bar> * (7 * ulp)"
    using four_roundings[OF d1(2) d2(2) d3(2) d4(2)] by (simp add: abs_mult mult_left_mono)
  then show ?thesis by (simp add: xs)
qed

lemma one_conversion_range:
  assumes "linear_call a" "linear_call b"
  shows "\<bar>v\<bar> / 10 ^ 36 \<le> \<bar>uc_from b (uc_to a v)\<bar> \<and> \<bar>uc_from b (uc_to a v)\<bar> \<le> \<bar>v\<bar> * 10 ^ 36"
proof -
  from assms obtain k l where kl: "1 / 10 ^ 17 \<le> k" "k \<le> 10 ^ 17" "1 / 10 ^ 17 \<le> l" "l \<le> 10 ^ 17" "scales k (uc_to a)" "scales (1 / l) (uc_from b)"
    unfolding linear_call_def by blast
  have "0 < 1 / (10 :: rat) ^ 17" by simp
  then have "0 < l" using kl(3) by linarith
  then have "1 / 10 ^ 17 \<le> 1 / l" "1 / l \<le> 10 ^ 17" using kl(3,4) by (simp_all add: field_simps)
  from scales_range[OF kl(6) this, of "uc_to a v"] scales_range[OF kl(5,1,2), of v]
  show ?thesis by (simp add: field_simps)
qed

lemma builtin_is: "builtin_registry = registry_of builtin_units"
  by (simp add: builtin_registry_def registry_of_def)

section \<open>Evaluating the registry\<close>

lemma letter_facts:
  "js_lower_char (CHR ''A'') = CHR ''a''" "\<not> js_space (CHR ''A'')"
  "js_lower_char (CHR ''B'') = CHR ''b''" "\<not> js_space (CHR ''B'')"
  "js_lower_char (CHR ''C'') = CHR ''c''" "\<not> js_space (CHR ''C'')"
  "js_lower_char (CHR ''D'') = CHR ''d''" "\<not> js_space (CHR ''D'')"
  "js_lower_char (CHR ''E'') = CHR ''e''" "\<not> js_space (CHR ''E'')"
  "js_lower_char (CHR ''F'') = CHR ''f''" "\<not> js_space (CHR ''F'')"
  "js_lower_char (CHR ''G'') = CHR ''g''" "\<not> js_space (CHR ''G'')"
  "js_lower_char (CHR ''H'') = CHR ''h''" "\<not> js_space (CHR ''H'')"
  "js_lower_char (CHR ''I'') = CHR ''i''" "\<not> js_space (CHR ''I'')"
  "js_lower_char (CHR ''J'') = CHR ''j''" "\<not> js_space (CHR ''J'')"
  "js_lower_char (CHR ''K'') = CHR ''k''" "\<not> js_space (CHR ''K'')"
  "js_lower_char (CHR ''L'') = CHR ''l''" "\<not> js_space (CHR ''L'')"
  "js_lower_char (CHR ''M'') = CHR ''m''" "\<not> js_space (CHR ''M'')"
  "js_lower_char (CHR ''N'') = CHR ''n''" "\<not> js_space (CHR ''N'')"
  "js_lower_char (CHR ''O'') = CHR ''o''" "\<not> js_space (CHR ''O'')"
  "js_lower_char (CHR ''P'') = CHR ''p''" "\<not> js_space (CHR ''P'')"
  "js_lower_char (CHR ''Q'') = CHR ''q''" "\<not> js_space (CHR ''Q'')"
  "js_lower_char (CHR ''R'') = CHR ''r''" "\<not> js_space (CHR ''R'')"
  "js_lower_char (CHR ''S'') = CHR ''s''" "\<not> js_space (CHR ''S'')"
  "js_lower_char (CHR ''T'') = CHR ''t''" "\<not> js_space (CHR ''T'')"
  "js_lower_char (CHR ''U'') = CHR ''u''" "\<not> js_space (CHR ''U'')"
  "js_lower_char (CHR ''V'') = CHR ''v''" "\<not> js_space (CHR ''V'')"
  "js_lower_char (CHR ''W'') = CHR ''w''" "\<not> js_space (CHR ''W'')"
  "js_lower_char (CHR ''X'') = CHR ''x''" "\<not> js_space (CHR ''X'')"
  "js_lower_char (CHR ''Y'') = CHR ''y''" "\<not> js_space (CHR ''Y'')"
  "js_lower_char (CHR ''Z'') = CHR ''z''" "\<not> js_space (CHR ''Z'')"
  "js_lower_char (CHR ''a'') = CHR ''a''" "\<not> js_space (CHR ''a'')"
  "js_lower_char (CHR ''b'') = CHR ''b''" "\<not> js_space (CHR ''b'')"
  "js_lower_char (CHR ''c'') = CHR ''c''" "\<not> js_space (CHR ''c'')"
  "js_lower_char (CHR ''d'') = CHR ''d''" "\<not> js_space (CHR ''d'')"
  "js_lower_char (CHR ''e'') = CHR ''e''" "\<not> js_space (CHR ''e'')"
  "js_lower_char (CHR ''f'') = CHR ''f''" "\<not> js_space (CHR ''f'')"
  "js_lower_char (CHR ''g'') = CHR ''g''" "\<not> js_space (CHR ''g'')"
  "js_lower_char (CHR ''h'') = CHR ''h''" "\<not> js_space (CHR ''h'')"
  "js_lower_char (CHR ''i'') = CHR ''i''" "\<not> js_space (CHR ''i'')"
  "js_lower_char (CHR ''j'') = CHR ''j''" "\<not> js_space (CHR ''j'')"
  "js_lower_char (CHR ''k'') = CHR ''k''" "\<not> js_space (CHR ''k'')"
  "js_lower_char (CHR ''l'') = CHR ''l''" "\<not> js_space (CHR ''l'')"
  "js_lower_char (CHR ''m'') = CHR ''m''" "\<not> js_space (CHR ''m'')"
  "js_lower_char (CHR ''n'') = CHR ''n''" "\<not> js_space (CHR ''n'')"
  "js_lower_char (CHR ''o'') = CHR ''o''" "\<not> js_space (CHR ''o'')"
  "js_lower_char (CHR ''p'') = CHR ''p''" "\<not> js_space (CHR ''p'')"
  "js_lower_char (CHR ''q'') = CHR ''q''" "\<not> js_space (CHR ''q'')"
  "js_lower_char (CHR ''r'') = CHR ''r''" "\<not> js_space (CHR ''r'')"
  "js_lower_char (CHR ''s'') = CHR ''s''" "\<not> js_space (CHR ''s'')"
  "js_lower_char (CHR ''t'') = CHR ''t''" "\<not> js_space (CHR ''t'')"
  "js_lower_char (CHR ''u'') = CHR ''u''" "\<not> js_space (CHR ''u'')"
  "js_lower_char (CHR ''v'') = CHR ''v''" "\<not> js_space (CHR ''v'')"
  "js_lower_char (CHR ''w'') = CHR ''w''" "\<not> js_space (CHR ''w'')"
  "js_lower_char (CHR ''x'') = CHR ''x''" "\<not> js_space (CHR ''x'')"
  "js_lower_char (CHR ''y'') = CHR ''y''" "\<not> js_space (CHR ''y'')"
  "js_lower_char (CHR ''z'') = CHR ''z''" "\<not> js_space (CHR ''z'')"
  "js_lower_char (CHR ''0'') = CHR ''0''" "\<not> js_space (CHR ''0'')"
  "js_lower_char (CHR ''1'') = CHR ''1''" "\<not> js_space (CHR ''1'')"
  "js_lower_char (CHR ''2'') = CHR ''2''" "\<not> js_space (CHR ''2'')"
  "js_lower_char (CHR ''3'') = CHR ''3''" "\<not> js_space (CHR ''3'')"
  "js_lower_char (CHR ''4'') = CHR ''4''" "\<not> js_space (CHR ''4'')"
  "js_lower_char (CHR ''5'') = CHR ''5''" "\<not> js_space (CHR ''5'')"
  "js_lower_char (CHR ''6'') = CHR ''6''" "\<not> js_space (CHR ''6'')"
  "js_lower_char (CHR ''7'') = CHR ''7''" "\<not> js_space (CHR ''7'')"
  "js_lower_char (CHR ''8'') = CHR ''8''" "\<not> js_space (CHR ''8'')"
  "js_lower_char (CHR ''9'') = CHR ''9''" "\<not> js_space (CHR ''9'')"
  "js_lower_char (CHR ''_'') = CHR ''_''" "\<not> js_space (CHR ''_'')"
  "js_lower_char (CHR ''^'') = CHR ''^''" "\<not> js_space (CHR ''^'')"
  "js_lower_char (CHR ''-'') = CHR ''-''" "\<not> js_space (CHR ''-'')"
  "js_lower_char (CHR '' '') = CHR '' ''" "js_space (CHR '' '')"
  by code_simp+

lemmas name_eval = normalize_unit_def js_lower_def js_trim_def letter_facts Let_def own_get_def

definition family_keys :: "(string \<times> unit_family) list" where
  "family_keys = map (\<lambda>c. (js_lower (uc_symbol c), uc_family c)) builtin_units"

lemma family_keys_eq: "family_keys = [
    (''j'', FamEnergy), (''kj'', FamEnergy), (''mj'', FamEnergy), (''gj'', FamEnergy),
     (''tj'', FamEnergy), (''wh'', FamEnergy), (''kwh'', FamEnergy), (''mwh'', FamEnergy),
     (''gwh'', FamEnergy), (''twh'', FamEnergy), (''cal'', FamEnergy), (''kcal'', FamEnergy),
     (''btu'', FamEnergy), (''therm'', FamEnergy), (''kg'', FamMass), (''g'', FamMass),
     (''mg'', FamMass), (''t'', FamMass), (''lb'', FamMass), (''oz'', FamMass), (''l'', FamVolume),
     (''ml'', FamVolume), (''kl'', FamVolume), (''m3'', FamVolume), (''cm3'', FamVolume),
     (''gal_us'', FamVolume), (''gal_uk'', FamVolume), (''bbl'', FamVolume), (''m2'', FamArea),
     (''cm2'', FamArea), (''km2'', FamArea), (''ha'', FamArea), (''hectare'', FamArea),
     (''acre'', FamArea), (''m'', FamDistance), (''km'', FamDistance), (''cm'', FamDistance),
     (''mi'', FamDistance), (''ft'', FamDistance), (''s'', FamTime), (''min'', FamTime),
     (''h'', FamTime), (''d'', FamTime), (''w'', FamPower), (''kw'', FamPower), (''mw'', FamPower),
     (''gw'', FamPower), (''hp'', FamPower), (''kgco2e'', FamEmission), (''tco2e'', FamEmission),
     (''gco2e'', FamEmission), (''mtco2e'', FamEmission), (''usd'', FamMoney)]"
  by (simp add: family_keys_def builtin_units_def base_unit_def scaled_unit_def js_lower_def letter_facts)

lemma find_map_of: "map_option uc_family (find (\<lambda>c. js_lower (uc_symbol c) = key) cs) =
    map_of (map (\<lambda>c. (js_lower (uc_symbol c), uc_family c)) cs) key"
  by (induction cs) auto

lemma builtin_registrable [simp]: "registrable builtin_units"
proof -
  have "\<forall>k\<in>set (map fst family_keys). k \<noteq> ''__proto__''" unfolding family_keys_eq by simp
  then show ?thesis by (auto simp: registrable_def family_keys_def)
qed

lemma builtin_family: "unit_family_of builtin_registry s = map_of (rev family_keys) (normalize_unit s)"
  using find_map_of[of "normalize_unit s" "rev builtin_units"]
  by (simp add: unit_family_of_def builtin_is lookup_unit_of[OF builtin_registrable] last_call_def family_keys_def rev_map
      option.map_comp comp_def)

lemma can_convert_families:
  "can_convert R src dst \<longleftrightarrow> unit_family_of R src \<noteq> None \<and> unit_family_of R src = unit_family_of R dst \<and>
     unit_family_of R src \<noteq> Some FamMoney"
  by (auto simp: can_convert_def unit_family_of_def split: option.splits)

section \<open>There and back\<close>

text \<open>
  C16: Converting there and back is accurate. Between any two units of the built-in registry that
  convert, for a value that is zero or between 10^-230 and 10^230 in size, both directions succeed,
  the results are in the range of normal doubles (and so is every intermediate result, the factors
  being between 10^-6 and 3.6 * 10^15), and the value returns within a factor of 1 +/- 2^-50: four
  roundings.
\<close>

theorem convert_roundtrip:
  assumes "can_convert builtin_registry src dst" "v = 0 \<or> 1 / 10 ^ 230 \<le> \<bar>v\<bar> \<and> \<bar>v\<bar> \<le> 10 ^ 230"
  shows "\<exists>w w'. convert_unit builtin_registry v src dst = Inr w \<and> convert_unit builtin_registry w dst src = Inr w' \<and>
    double_range w \<and> double_range w' \<and> \<bar>w' - v\<bar> \<le> \<bar>v\<bar> / 2 ^ 50"
proof -
  from assms(1) obtain a b where ab: "last_call builtin_units (normalize_unit src) = Some a"
      "last_call builtin_units (normalize_unit dst) = Some b" "uc_family a = uc_family b" "uc_family a \<noteq> FamMoney"
    unfolding builtin_is can_convert_iff[OF builtin_registrable] by blast
  have lin: "linear_call a" "linear_call b"
    using builtin_linear last_call_in[OF ab(1)] last_call_in[OF ab(2)] by (simp_all add: list_all_iff)
  let ?w = "uc_from b (uc_to a v)" and ?w' = "uc_from a (uc_to b (uc_from b (uc_to a v)))"
  have bounds: "1 / 2 ^ 1022 \<le> (1 / 10 ^ 230) / 10 ^ 36 / (10 ^ 36 :: rat)" "10 ^ 230 * 10 ^ 36 * 10 ^ 36 \<le> (2 ^ 1023 :: rat)" by simp_all
  have far: "double_range q" if "\<bar>v\<bar> / 10 ^ 36 / 10 ^ 36 \<le> \<bar>q\<bar>" "\<bar>q\<bar> \<le> \<bar>v\<bar> * 10 ^ 36 * 10 ^ 36" for q
  proof (cases "v = 0")
    case False
    then have v: "1 / 10 ^ 230 \<le> \<bar>v\<bar>" "\<bar>v\<bar> \<le> 10 ^ 230" using assms(2) by simp_all
    have "(1 / 10 ^ 230) / 10 ^ 36 / 10 ^ 36 \<le> \<bar>v\<bar> / 10 ^ 36 / 10 ^ 36" using v(1) by (intro divide_right_mono) simp_all
    moreover have "\<bar>v\<bar> * 10 ^ 36 * 10 ^ 36 \<le> 10 ^ 230 * 10 ^ 36 * 10 ^ 36" using v(2) by (intro mult_right_mono) simp_all
    ultimately have "1 / 2 ^ 1022 \<le> \<bar>q\<bar>" "\<bar>q\<bar> \<le> 2 ^ 1023" using that bounds by (meson order_trans)+
    then show ?thesis unfolding double_range_def by blast
  qed (use that in \<open>simp add: double_range_def\<close>)
  have w: "\<bar>v\<bar> / 10 ^ 36 \<le> \<bar>?w\<bar>" "\<bar>?w\<bar> \<le> \<bar>v\<bar> * 10 ^ 36" using one_conversion_range[OF lin, of v] by simp_all
  have w': "\<bar>?w\<bar> / 10 ^ 36 \<le> \<bar>?w'\<bar>" "\<bar>?w'\<bar> \<le> \<bar>?w\<bar> * 10 ^ 36" using one_conversion_range[OF lin(2,1), of ?w] by simp_all
  have n: "0 \<le> \<bar>v\<bar>" by simp
  have "\<bar>v\<bar> / 10 ^ 36 / 10 ^ 36 \<le> \<bar>v\<bar> / 10 ^ 36" "\<bar>v\<bar> * 10 ^ 36 \<le> \<bar>v\<bar> * 10 ^ 36 * 10 ^ 36" using n by (simp_all add: field_simps)
  then have r: "double_range ?w" using w by (intro far) (meson order_trans)+
  have "\<bar>v\<bar> / 10 ^ 36 / 10 ^ 36 \<le> \<bar>?w\<bar> / 10 ^ 36" "\<bar>?w\<bar> * 10 ^ 36 \<le> \<bar>v\<bar> * 10 ^ 36 * 10 ^ 36"
    using w by (simp_all add: divide_right_mono mult_right_mono)
  then have r': "double_range ?w'" using w' by (intro far) (meson order_trans)+
  have "\<bar>v\<bar> * (7 * ulp) \<le> \<bar>v\<bar> / 2 ^ 50" by (simp add: ulp_def)
  then have "\<bar>?w' - v\<bar> \<le> \<bar>v\<bar> / 2 ^ 50" using there_and_back[OF lin, of v] by simp
  with r r' show ?thesis using ab by (simp add: builtin_is convert_calls[OF builtin_registrable])
qed

lemma kwh_mj: "can_convert builtin_registry ''kWh'' '' mj ''"
  by (simp add: can_convert_families builtin_family family_keys_eq name_eval unit_aliases_def object_prototype_def)

theorem convert_roundtrip_witness:
  "\<exists>w w'. convert_unit builtin_registry 100 ''kWh'' '' mj '' = Inr w \<and> convert_unit builtin_registry w '' mj '' ''kWh'' = Inr w' \<and>
    \<bar>w' - 100\<bar> \<le> \<bar>100\<bar> / 2 ^ 50"
  using convert_roundtrip[OF kwh_mj, of 100] by auto

section \<open>Names of units\<close>

text \<open>Every alias names a unit of the registry.\<close>

lemma aliases_resolve: "list_all (\<lambda>(a, k). map_of (rev family_keys) k \<noteq> None) unit_aliases"
  by (simp add: family_keys_eq unit_aliases_def)

text \<open>Upper and lower case are one unit: the megalitre \<open>ML\<close> is read as a millilitre, the milliwatt \<open>mW\<close> as a megawatt.\<close>

lemma case_is_ignored:
  "normalize_unit ''ML'' = ''ml''" "normalize_unit ''mW'' = normalize_unit ''MW''"
  by (simp_all add: name_eval unit_aliases_def object_prototype_def)

lemma megalitre_is_millilitre:
  "convert_unit builtin_registry v ''ML'' ''kL'' = Inr (fl (fl (v * fl (1 / 1000)) / fl 1000))"
proof -
  have n: "normalize_unit ''kL'' = ''kl''" by (simp add: name_eval unit_aliases_def object_prototype_def)
  have "last_call builtin_units ''ml'' = Some (scaled_unit ''mL'' FamVolume (1 / 1000))"
    "last_call builtin_units ''kl'' = Some (scaled_unit ''kL'' FamVolume 1000)"
    by (simp_all add: last_call_def builtin_units_def scaled_unit_def base_unit_def js_lower_def letter_facts)
  then have "last_call builtin_units (normalize_unit ''ML'') = Some (scaled_unit ''mL'' FamVolume (1 / 1000))"
    "last_call builtin_units (normalize_unit ''kL'') = Some (scaled_unit ''kL'' FamVolume 1000)"
    by (simp_all only: case_is_ignored n)
  from convert_calls[OF builtin_registrable this] show ?thesis by (simp add: builtin_is scaled_unit_def)
qed

end
