(* ===== verification/Fw_Units.thy ===== *)
theory Fw_Units
  imports Crosswalk_Props Units_Props
begin

text \<open>
  The accepted units of the canonical metrics under the shared unit converter.
\<close>

text \<open>Looking a unit up with \<open>differ\<close>, which stops at the first difference.\<close>

definition family_of_key :: "string \<Rightarrow> unit_family option" where
  "family_of_key key = map_of (rev family_keys)
     (case map_of unit_aliases key of
        Some k \<Rightarrow> k
      | None \<Rightarrow> if differ_all key object_prototype then key else host_key key)"

lemma family_by_key: "js_lower (js_trim s) = key \<Longrightarrow> unit_family_of builtin_registry s = family_of_key key"
  by (auto simp: builtin_family family_of_key_def normalize_unit_def own_get_def Let_def differ_all_iff split: option.splits)

lemma map_of_differ:
  "map_of [] key = None" "map_of ((k, v) # ps) key = (if differ k key then map_of ps key else Some v)"
  by (simp_all add: differ_iff)

lemmas family_eval = family_of_key_def family_keys_eq rev.simps append.simps unit_aliases_def object_prototype_def
  map_of_differ option.case differ_eval

lemma plain_names:
  "js_lower (js_trim ''kwh'') = ''kwh''"
  "js_lower (js_trim ''mwh'') = ''mwh''"
  "js_lower (js_trim ''gwh'') = ''gwh''"
  "js_lower (js_trim ''gj'') = ''gj''"
  "js_lower (js_trim ''mj'') = ''mj''"
  "js_lower (js_trim ''l'') = ''l''"
  "js_lower (js_trim ''kl'') = ''kl''"
  "js_lower (js_trim ''gal_us'') = ''gal_us''"
  "js_lower (js_trim ''gal_uk'') = ''gal_uk''"
  "js_lower (js_trim ''kg'') = ''kg''"
  "js_lower (js_trim ''tonnes'') = ''tonnes''"
  "js_lower (js_trim ''cylinder_14_2kg'') = ''cylinder_14_2kg''"
  "js_lower (js_trim ''cylinder_19kg'') = ''cylinder_19kg''"
  "js_lower (js_trim ''scm'') = ''scm''"
  "js_lower (js_trim ''nm3'') = ''nm3''"
  "js_lower (js_trim ''mmbtu'') = ''mmbtu''"
  "js_lower (js_trim ''tonnes_steam'') = ''tonnes_steam''"
  "js_lower (js_trim ''tj'') = ''tj''"
  "js_lower (js_trim ''gj_per_inr_crore'') = ''gj_per_inr_crore''"
  "js_lower (js_trim ''gj_per_usd_million'') = ''gj_per_usd_million''"
  "js_lower (js_trim ''gj_per_employee'') = ''gj_per_employee''"
  "js_lower (js_trim ''kwh_per_employee'') = ''kwh_per_employee''"
  "js_lower (js_trim ''ml'') = ''ml''"
  "js_lower (js_trim ''m3'') = ''m3''"
  "js_lower (js_trim ''kl_per_inr_crore'') = ''kl_per_inr_crore''"
  "js_lower (js_trim ''kl_per_usd_million'') = ''kl_per_usd_million''"
  "js_lower (js_trim ''tco2e'') = ''tco2e''"
  "js_lower (js_trim ''kgco2e'') = ''kgco2e''"
  "js_lower (js_trim ''mtco2e'') = ''mtco2e''"
  "js_lower (js_trim ''tco2e_per_inr_crore'') = ''tco2e_per_inr_crore''"
  "js_lower (js_trim ''tco2e_per_usd_million'') = ''tco2e_per_usd_million''"
  "js_lower (js_trim ''tco2e_per_tonne'') = ''tco2e_per_tonne''"
  "js_lower (js_trim ''tco2e_per_mwh'') = ''tco2e_per_mwh''"
  "js_lower (js_trim ''kgco2e_per_unit'') = ''kgco2e_per_unit''"
  "js_lower (js_trim ''tco2e_per_unit'') = ''tco2e_per_unit''"
  "js_lower (js_trim ''sqkm'') = ''sqkm''"
  "js_lower (js_trim ''ha'') = ''ha''"
  "js_lower (js_trim ''acre'') = ''acre''"
  "js_lower (js_trim ''count'') = ''count''"
  "js_lower (js_trim ''pct'') = ''pct''"
  "js_lower (js_trim ''ratio'') = ''ratio''"
  "js_lower (js_trim ''inr'') = ''inr''"
  "js_lower (js_trim ''inr_lakh'') = ''inr_lakh''"
  "js_lower (js_trim ''inr_crore'') = ''inr_crore''"
  "js_lower (js_trim ''usd'') = ''usd''"
  "js_lower (js_trim ''hours'') = ''hours''"
  "js_lower (js_trim ''person_hours'') = ''person_hours''"
  "js_lower (js_trim ''hours_per_employee'') = ''hours_per_employee''"
  "js_lower (js_trim ''per_million_hours'') = ''per_million_hours''"
  "js_lower (js_trim ''per_200k_hours'') = ''per_200k_hours''"
  "js_lower (js_trim ''score'') = ''score''"
  "js_lower (js_trim ''nps'') = ''nps''"
  "js_lower (js_trim ''bool'') = ''bool''"
  "js_lower (js_trim ''years'') = ''years''"
  by (simp_all add: js_lower_def js_trim_def letter_facts)

lemmas plain_families = plain_names[THEN family_by_key]

lemma accepted_families:
  "unit_family_of builtin_registry ''kwh'' = Some FamEnergy"
  "unit_family_of builtin_registry ''mwh'' = Some FamEnergy"
  "unit_family_of builtin_registry ''gwh'' = Some FamEnergy"
  "unit_family_of builtin_registry ''gj'' = Some FamEnergy"
  "unit_family_of builtin_registry ''mj'' = Some FamEnergy"
  "unit_family_of builtin_registry ''l'' = Some FamVolume"
  "unit_family_of builtin_registry ''kl'' = Some FamVolume"
  "unit_family_of builtin_registry ''gal_us'' = Some FamVolume"
  "unit_family_of builtin_registry ''gal_uk'' = Some FamVolume"
  "unit_family_of builtin_registry ''kg'' = Some FamMass"
  "unit_family_of builtin_registry ''tonnes'' = Some FamMass"
  "unit_family_of builtin_registry ''cylinder_14_2kg'' = None"
  "unit_family_of builtin_registry ''cylinder_19kg'' = None"
  "unit_family_of builtin_registry ''scm'' = None"
  "unit_family_of builtin_registry ''nm3'' = None"
  "unit_family_of builtin_registry ''mmbtu'' = None"
  "unit_family_of builtin_registry ''tonnes_steam'' = None"
  "unit_family_of builtin_registry ''tj'' = Some FamEnergy"
  "unit_family_of builtin_registry ''gj_per_inr_crore'' = None"
  "unit_family_of builtin_registry ''gj_per_usd_million'' = None"
  "unit_family_of builtin_registry ''gj_per_employee'' = None"
  "unit_family_of builtin_registry ''kwh_per_employee'' = None"
  "unit_family_of builtin_registry ''ml'' = Some FamVolume"
  "unit_family_of builtin_registry ''m3'' = Some FamVolume"
  "unit_family_of builtin_registry ''kl_per_inr_crore'' = None"
  "unit_family_of builtin_registry ''kl_per_usd_million'' = None"
  "unit_family_of builtin_registry ''tco2e'' = Some FamEmission"
  "unit_family_of builtin_registry ''kgco2e'' = Some FamEmission"
  "unit_family_of builtin_registry ''mtco2e'' = Some FamEmission"
  "unit_family_of builtin_registry ''tco2e_per_inr_crore'' = None"
  "unit_family_of builtin_registry ''tco2e_per_usd_million'' = None"
  "unit_family_of builtin_registry ''tco2e_per_tonne'' = None"
  "unit_family_of builtin_registry ''tco2e_per_mwh'' = None"
  "unit_family_of builtin_registry ''kgco2e_per_unit'' = None"
  "unit_family_of builtin_registry ''tco2e_per_unit'' = None"
  "unit_family_of builtin_registry ''sqkm'' = None"
  "unit_family_of builtin_registry ''ha'' = Some FamArea"
  "unit_family_of builtin_registry ''acre'' = Some FamArea"
  "unit_family_of builtin_registry ''count'' = None"
  "unit_family_of builtin_registry ''pct'' = None"
  "unit_family_of builtin_registry ''ratio'' = None"
  "unit_family_of builtin_registry ''inr'' = None"
  "unit_family_of builtin_registry ''inr_lakh'' = None"
  "unit_family_of builtin_registry ''inr_crore'' = None"
  "unit_family_of builtin_registry ''usd'' = Some FamMoney"
  "unit_family_of builtin_registry ''hours'' = Some FamTime"
  "unit_family_of builtin_registry ''person_hours'' = None"
  "unit_family_of builtin_registry ''hours_per_employee'' = None"
  "unit_family_of builtin_registry ''per_million_hours'' = None"
  "unit_family_of builtin_registry ''per_200k_hours'' = None"
  "unit_family_of builtin_registry ''score'' = None"
  "unit_family_of builtin_registry ''nps'' = None"
  "unit_family_of builtin_registry ''bool'' = None"
  "unit_family_of builtin_registry ''years'' = None"
  by (simp_all only: plain_families family_eval)

definition units_convert :: "canonical_metric \<Rightarrow> bool" where
  "units_convert m = list_all (\<lambda>u. if u = cmt_unit m then True else can_convert builtin_registry u (cmt_unit m)) (cmt_allowed m)"

text \<open>
  The registry of metrics and the unit converter fit together: for 128 of the 151 canonical
  metrics every accepted unit converts to the storage unit. The others, listed, accept a unit
  the converter does not know (money multiples, rates, square kilometres, gas volumes) or one of
  another family.
\<close>

theorem accepted_units_convert:
  "map cmt_key (filter (\<lambda>m. \<not> units_convert m) all_metrics) = [
    ''lpg_kg'', ''lng_kg'', ''png_scm'', ''steam_purchased_gj'', ''energy_intensity_per_revenue'',
     ''energy_intensity_per_employee'', ''water_intensity_per_revenue'',
     ''ghg_intensity_per_revenue'', ''ghg_intensity_per_unit_output'', ''protected_area_sqkm'',
     ''land_disturbed_ha'', ''land_restored_ha'', ''women_in_workforce_pct'',
     ''median_remuneration_male'', ''median_remuneration_female'', ''training_hours_total'',
     ''ltifr'', ''trifr'', ''csr_spend_inr'', ''customer_satisfaction_score'',
     ''political_contributions_inr'', ''tax_paid_inr_by_country'', ''fines_paid_inr'']"
  unfolding metric_parts filter_append map_append
  by (simp add: metric_eval units_convert_def can_convert_families accepted_families)

end
