(* ===== verification/Fw_Factors.thy ===== *)
theory Fw_Factors
  imports Fw_Base Doubles
begin

text \<open>
  The emission factor tables of packages/frameworks/src/factors: the grid factors of the Indian
  states (cea-india.ts), the fuel factors (defra.ts) and the global warming potentials
  (ipcc-gwp.ts), with their lookups. A factor is the decimal the table gives; the arithmetic
  rounds it and the result to doubles.
\<close>

section \<open>Grid factors\<close>

datatype grid_region = GridNorthern | GridWestern | GridSouthern | GridEastern | GridNorthEastern | GridAllIndia

record grid_factor =
  gf_state :: string
  gf_region :: grid_region
  gf_factor :: rat
  gf_year :: int
  gf_note :: "string option"

definition cea_grid_factors :: "grid_factor list" where
  "cea_grid_factors = [
     \<lparr> gf_state = ''Punjab'', gf_region = GridNorthern, gf_factor = 0.78, gf_year = 2024, gf_note = None \<rparr>,
     \<lparr> gf_state = ''Haryana'', gf_region = GridNorthern, gf_factor = 0.81, gf_year = 2024, gf_note = None \<rparr>,
     \<lparr> gf_state = ''Delhi'', gf_region = GridNorthern, gf_factor = 0.74, gf_year = 2024, gf_note = None \<rparr>,
     \<lparr> gf_state = ''Rajasthan'', gf_region = GridNorthern, gf_factor = 0.79, gf_year = 2024, gf_note = None \<rparr>,
     \<lparr> gf_state = ''Uttar Pradesh'', gf_region = GridNorthern, gf_factor = 0.83, gf_year = 2024, gf_note = None \<rparr>,
     \<lparr> gf_state = ''Uttarakhand'', gf_region = GridNorthern, gf_factor = 0.50, gf_year = 2024, gf_note = Some ''Significant hydro share.'' \<rparr>,
     \<lparr> gf_state = ''Himachal Pradesh'', gf_region = GridNorthern, gf_factor = 0.30, gf_year = 2024, gf_note = Some ''Predominantly hydro.'' \<rparr>,
     \<lparr> gf_state = ''Jammu and Kashmir'', gf_region = GridNorthern, gf_factor = 0.55, gf_year = 2024, gf_note = None \<rparr>,
     \<lparr> gf_state = ''Ladakh'', gf_region = GridNorthern, gf_factor = 0.55, gf_year = 2024, gf_note = None \<rparr>,
     \<lparr> gf_state = ''Chandigarh'', gf_region = GridNorthern, gf_factor = 0.78, gf_year = 2024, gf_note = None \<rparr>,
     \<lparr> gf_state = ''Maharashtra'', gf_region = GridWestern, gf_factor = 0.85, gf_year = 2024, gf_note = None \<rparr>,
     \<lparr> gf_state = ''Gujarat'', gf_region = GridWestern, gf_factor = 0.82, gf_year = 2024, gf_note = None \<rparr>,
     \<lparr> gf_state = ''Madhya Pradesh'', gf_region = GridWestern, gf_factor = 0.91, gf_year = 2024, gf_note = None \<rparr>,
     \<lparr> gf_state = ''Chhattisgarh'', gf_region = GridWestern, gf_factor = 0.94, gf_year = 2024, gf_note = Some ''Coal-heavy generation mix.'' \<rparr>,
     \<lparr> gf_state = ''Goa'', gf_region = GridWestern, gf_factor = 0.83, gf_year = 2024, gf_note = None \<rparr>,
     \<lparr> gf_state = ''Dadra and Nagar Haveli'', gf_region = GridWestern, gf_factor = 0.83, gf_year = 2024, gf_note = None \<rparr>,
     \<lparr> gf_state = ''Daman and Diu'', gf_region = GridWestern, gf_factor = 0.83, gf_year = 2024, gf_note = None \<rparr>,
     \<lparr> gf_state = ''Karnataka'', gf_region = GridSouthern, gf_factor = 0.72, gf_year = 2024, gf_note = None \<rparr>,
     \<lparr> gf_state = ''Tamil Nadu'', gf_region = GridSouthern, gf_factor = 0.65, gf_year = 2024, gf_note = None \<rparr>,
     \<lparr> gf_state = ''Kerala'', gf_region = GridSouthern, gf_factor = 0.45, gf_year = 2024, gf_note = Some ''High hydro and renewables share.'' \<rparr>,
     \<lparr> gf_state = ''Andhra Pradesh'', gf_region = GridSouthern, gf_factor = 0.75, gf_year = 2024, gf_note = None \<rparr>,
     \<lparr> gf_state = ''Telangana'', gf_region = GridSouthern, gf_factor = 0.78, gf_year = 2024, gf_note = None \<rparr>,
     \<lparr> gf_state = ''Puducherry'', gf_region = GridSouthern, gf_factor = 0.65, gf_year = 2024, gf_note = None \<rparr>,
     \<lparr> gf_state = ''Lakshadweep'', gf_region = GridSouthern, gf_factor = 0.85, gf_year = 2024, gf_note = Some ''Diesel-dependent.'' \<rparr>,
     \<lparr> gf_state = ''Andaman and Nicobar Islands'', gf_region = GridSouthern, gf_factor = 0.85, gf_year = 2024, gf_note = Some ''Diesel-dependent.'' \<rparr>,
     \<lparr> gf_state = ''West Bengal'', gf_region = GridEastern, gf_factor = 0.92, gf_year = 2024, gf_note = None \<rparr>,
     \<lparr> gf_state = ''Bihar'', gf_region = GridEastern, gf_factor = 0.95, gf_year = 2024, gf_note = None \<rparr>,
     \<lparr> gf_state = ''Jharkhand'', gf_region = GridEastern, gf_factor = 0.97, gf_year = 2024, gf_note = Some ''Coal-belt state.'' \<rparr>,
     \<lparr> gf_state = ''Odisha'', gf_region = GridEastern, gf_factor = 0.93, gf_year = 2024, gf_note = None \<rparr>,
     \<lparr> gf_state = ''Sikkim'', gf_region = GridEastern, gf_factor = 0.25, gf_year = 2024, gf_note = Some ''Almost entirely hydro.'' \<rparr>,
     \<lparr> gf_state = ''Assam'', gf_region = GridNorthEastern, gf_factor = 0.55, gf_year = 2024, gf_note = None \<rparr>,
     \<lparr> gf_state = ''Arunachal Pradesh'', gf_region = GridNorthEastern, gf_factor = 0.30, gf_year = 2024, gf_note = None \<rparr>,
     \<lparr> gf_state = ''Manipur'', gf_region = GridNorthEastern, gf_factor = 0.50, gf_year = 2024, gf_note = None \<rparr>,
     \<lparr> gf_state = ''Meghalaya'', gf_region = GridNorthEastern, gf_factor = 0.30, gf_year = 2024, gf_note = None \<rparr>,
     \<lparr> gf_state = ''Mizoram'', gf_region = GridNorthEastern, gf_factor = 0.40, gf_year = 2024, gf_note = None \<rparr>,
     \<lparr> gf_state = ''Nagaland'', gf_region = GridNorthEastern, gf_factor = 0.55, gf_year = 2024, gf_note = None \<rparr>,
     \<lparr> gf_state = ''Tripura'', gf_region = GridNorthEastern, gf_factor = 0.65, gf_year = 2024, gf_note = Some ''Gas-based generation.'' \<rparr>]"

fun cea_regional :: "grid_region \<Rightarrow> rat" where
  "cea_regional GridNorthern = 0.78"
| "cea_regional GridWestern = 0.85"
| "cea_regional GridSouthern = 0.65"
| "cea_regional GridEastern = 0.93"
| "cea_regional GridNorthEastern = 0.50"
| "cea_regional GridAllIndia = 0.716"

definition cea_history :: "(int \<times> rat) list" where
  "cea_history = [(2018, 0.79), (2019, 0.77), (2020, 0.75), (2021, 0.73), (2022, 0.72), (2023, 0.718), (2024, 0.716)]"

definition state_index :: "grid_factor js_object" where
  "state_index = foldl (\<lambda>out f. upsert (js_lower (gf_state f)) f out) [] cea_grid_factors"

text \<open>A host object found under a name of the prototype has no such field: \<^const>\<open>None\<close> is undefined.\<close>

definition get_cea_factor :: "string \<Rightarrow> int \<Rightarrow> rat option" where
  "get_cea_factor state year =
     (case js_read state_index (js_lower (js_trim state)) of
        JsOwn f \<Rightarrow> Some (fl (gf_factor f))
      | JsHost \<Rightarrow> None
      | JsUndefined \<Rightarrow>
          (case map_of cea_history year of
             Some historical \<Rightarrow> Some (fl historical)
           | None \<Rightarrow> Some (fl (cea_regional GridAllIndia))))"

definition get_cea_factor_by_region :: "grid_region \<Rightarrow> rat" where
  "get_cea_factor_by_region region = fl (cea_regional region)"

section \<open>Fuel factors\<close>

datatype fuel_category = FuelLiquid | FuelGaseous | FuelSolid | FuelAviation | FuelMarine | FuelBiofuel

record fuel_factor =
  ff_id :: string
  ff_name :: string
  ff_unit :: string
  ff_combustion :: rat
  ff_wtt :: rat
  ff_category :: fuel_category
  ff_source :: string

definition defra_fuels_1 :: "fuel_factor list" where
  "defra_fuels_1 = [
     \<lparr> ff_id = ''diesel'', ff_name = ''Diesel (average biofuel blend)'', ff_unit = ''litre'', ff_combustion = 2.68,
       ff_wtt = 0.61, ff_category = FuelLiquid, ff_source = ''DEFRA 2024 Table Fuels'' \<rparr>,
     \<lparr> ff_id = ''petrol'', ff_name = ''Petrol / Gasoline (average biofuel blend)'', ff_unit = ''litre'', ff_combustion = 2.31,
       ff_wtt = 0.61, ff_category = FuelLiquid, ff_source = ''DEFRA 2024 Table Fuels'' \<rparr>,
     \<lparr> ff_id = ''fuel_oil'', ff_name = ''Fuel oil'', ff_unit = ''litre'', ff_combustion = 3.16,
       ff_wtt = 0.66, ff_category = FuelLiquid, ff_source = ''DEFRA 2024'' \<rparr>,
     \<lparr> ff_id = ''kerosene'', ff_name = ''Burning oil / Kerosene'', ff_unit = ''litre'', ff_combustion = 2.54,
       ff_wtt = 0.55, ff_category = FuelLiquid, ff_source = ''DEFRA 2024'' \<rparr>,
     \<lparr> ff_id = ''naphtha'', ff_name = ''Naphtha'', ff_unit = ''litre'', ff_combustion = 2.12,
       ff_wtt = 0.51, ff_category = FuelLiquid, ff_source = ''DEFRA 2024'' \<rparr>,
     \<lparr> ff_id = ''lpg'', ff_name = ''LPG (liquefied petroleum gas)'', ff_unit = ''kg'', ff_combustion = 1.51,
       ff_wtt = 0.22, ff_category = FuelGaseous, ff_source = ''DEFRA 2024'' \<rparr>,
     \<lparr> ff_id = ''lng'', ff_name = ''LNG (liquefied natural gas)'', ff_unit = ''kg'', ff_combustion = 2.55,
       ff_wtt = 0.71, ff_category = FuelGaseous, ff_source = ''DEFRA 2024'' \<rparr>,
     \<lparr> ff_id = ''cng'', ff_name = ''CNG (compressed natural gas)'', ff_unit = ''kg'', ff_combustion = 2.55,
       ff_wtt = 0.42, ff_category = FuelGaseous, ff_source = ''DEFRA 2024'' \<rparr>,
     \<lparr> ff_id = ''natural_gas'', ff_name = ''Natural gas (pipeline)'', ff_unit = ''kwh'', ff_combustion = 0.18,
       ff_wtt = 0.029, ff_category = FuelGaseous, ff_source = ''DEFRA 2024'' \<rparr>,
     \<lparr> ff_id = ''coal_industrial'', ff_name = ''Industrial coal'', ff_unit = ''tonne'', ff_combustion = 2403.0,
       ff_wtt = 220.0, ff_category = FuelSolid, ff_source = ''DEFRA 2024'' \<rparr>,
     \<lparr> ff_id = ''coal_electricity_gen'', ff_name = ''Coal (electricity generation)'', ff_unit = ''tonne'', ff_combustion = 2252.0,
       ff_wtt = 210.0, ff_category = FuelSolid, ff_source = ''DEFRA 2024'' \<rparr>,
     \<lparr> ff_id = ''coking_coal'', ff_name = ''Coking coal'', ff_unit = ''tonne'', ff_combustion = 3160.0,
       ff_wtt = 235.0, ff_category = FuelSolid, ff_source = ''DEFRA 2024'' \<rparr>,
     \<lparr> ff_id = ''lignite'', ff_name = ''Lignite'', ff_unit = ''tonne'', ff_combustion = 1281.0,
       ff_wtt = 95.0, ff_category = FuelSolid, ff_source = ''DEFRA 2024'' \<rparr>,
     \<lparr> ff_id = ''petroleum_coke'', ff_name = ''Petroleum coke'', ff_unit = ''tonne'', ff_combustion = 3386.0,
       ff_wtt = 312.0, ff_category = FuelSolid, ff_source = ''DEFRA 2024'' \<rparr>,
     \<lparr> ff_id = ''aviation_spirit'', ff_name = ''Aviation spirit'', ff_unit = ''litre'', ff_combustion = 2.33,
       ff_wtt = 0.54, ff_category = FuelAviation, ff_source = ''DEFRA 2024'' \<rparr>]"

definition defra_fuels_2 :: "fuel_factor list" where
  "defra_fuels_2 = [
     \<lparr> ff_id = ''aviation_turbine_fuel'', ff_name = ''Aviation turbine fuel (Jet A1)'', ff_unit = ''litre'', ff_combustion = 2.55,
       ff_wtt = 0.55, ff_category = FuelAviation, ff_source = ''DEFRA 2024'' \<rparr>,
     \<lparr> ff_id = ''marine_gas_oil'', ff_name = ''Marine gas oil'', ff_unit = ''litre'', ff_combustion = 2.78,
       ff_wtt = 0.62, ff_category = FuelMarine, ff_source = ''DEFRA 2024'' \<rparr>,
     \<lparr> ff_id = ''marine_fuel_oil'', ff_name = ''Marine fuel oil'', ff_unit = ''litre'', ff_combustion = 3.21,
       ff_wtt = 0.67, ff_category = FuelMarine, ff_source = ''DEFRA 2024'' \<rparr>,
     \<lparr> ff_id = ''biodiesel'', ff_name = ''Biodiesel (B100)'', ff_unit = ''litre'', ff_combustion = 0.17,
       ff_wtt = 0.55, ff_category = FuelBiofuel, ff_source = ''DEFRA 2024'' \<rparr>,
     \<lparr> ff_id = ''bioethanol'', ff_name = ''Bioethanol'', ff_unit = ''litre'', ff_combustion = 0.012,
       ff_wtt = 0.41, ff_category = FuelBiofuel, ff_source = ''DEFRA 2024'' \<rparr>,
     \<lparr> ff_id = ''wood_pellets'', ff_name = ''Wood pellets'', ff_unit = ''tonne'', ff_combustion = 39.5,
       ff_wtt = 92.0, ff_category = FuelBiofuel, ff_source = ''DEFRA 2024'' \<rparr>,
     \<lparr> ff_id = ''biomass_solid'', ff_name = ''Biomass (solid, generic)'', ff_unit = ''tonne'', ff_combustion = 26.8,
       ff_wtt = 67.0, ff_category = FuelBiofuel, ff_source = ''DEFRA 2024'' \<rparr>]"

definition defra_fuels :: "fuel_factor list" where
  "defra_fuels = defra_fuels_1 @ defra_fuels_2"

definition fuel_index :: "fuel_factor js_object" where
  "fuel_index = foldl (\<lambda>out f. upsert (ff_id f) f out) [] defra_fuels"

definition get_fuel_factor :: "string \<Rightarrow> fuel_factor js_read" where
  "get_fuel_factor fuel = js_read fuel_index fuel"

text \<open>What a calculation returns: null, NaN (a host object has no factor), or a number.\<close>

datatype num_result = ResNull | ResNaN | ResNum rat

definition calc_with :: "(fuel_factor \<Rightarrow> rat) \<Rightarrow> string \<Rightarrow> rat \<Rightarrow> num_result" where
  "calc_with factor_of fuel quantity = (case js_read fuel_index fuel of
     JsUndefined \<Rightarrow> ResNull
   | JsHost \<Rightarrow> ResNaN
   | JsOwn f \<Rightarrow> ResNum (fl (quantity * fl (factor_of f))))"

definition calc_combustion_emissions :: "string \<Rightarrow> rat \<Rightarrow> num_result" where
  "calc_combustion_emissions = calc_with ff_combustion"

definition calc_wtt_emissions :: "string \<Rightarrow> rat \<Rightarrow> num_result" where
  "calc_wtt_emissions = calc_with ff_wtt"

section \<open>Global warming potentials\<close>

definition gwp_ar5 :: "rat js_object" where
  "gwp_ar5 = [
     (''CO2'', 1), (''CH4'', 28), (''CH4_FOSSIL'', 30), (''CH4_NON_FOSSIL'', 28), (''N2O'', 265),
     (''HFC-23'', 12400), (''HFC-32'', 677), (''HFC-125'', 3170), (''HFC-134a'', 1300),
     (''HFC-143a'', 4800), (''HFC-152a'', 138), (''HFC-227ea'', 3350), (''HFC-236fa'', 8060),
     (''HFC-245fa'', 858), (''R-404A'', 3922), (''R-407A'', 2107), (''R-407C'', 1774),
     (''R-410A'', 2088), (''R-507A'', 3985), (''SF6'', 23500), (''NF3'', 16100), (''PFC-14'', 6630),
     (''PFC-116'', 11100), (''PFC-218'', 8900), (''PFC-318'', 9540)]"

definition gwp_ar6_100y :: "rat js_object" where
  "gwp_ar6_100y = [
     (''CO2'', 1), (''CH4'', 27.9), (''CH4_FOSSIL'', 29.8), (''CH4_NON_FOSSIL'', 27),
     (''N2O'', 273), (''HFC-23'', 14600), (''HFC-32'', 771), (''HFC-125'', 3740),
     (''HFC-134a'', 1530), (''HFC-143a'', 5810), (''HFC-152a'', 164), (''HFC-227ea'', 3600),
     (''HFC-236fa'', 8690), (''HFC-245fa'', 962), (''R-404A'', 4728), (''R-407A'', 2262),
     (''R-407C'', 1908), (''R-410A'', 2256), (''R-507A'', 4282), (''SF6'', 24300), (''NF3'', 17400),
     (''PFC-14'', 7380), (''PFC-116'', 12400), (''PFC-218'', 9290), (''PFC-318'', 10000)]"

definition gwp_ar6_20y :: "rat js_object" where
  "gwp_ar6_20y = [
     (''CO2'', 1), (''CH4'', 81.2), (''CH4_FOSSIL'', 82.5), (''CH4_NON_FOSSIL'', 79.7),
     (''N2O'', 273), (''HFC-23'', 15300), (''HFC-32'', 2690), (''HFC-125'', 6740),
     (''HFC-134a'', 4140), (''HFC-143a'', 7840), (''HFC-152a'', 591), (''HFC-227ea'', 5850),
     (''HFC-236fa'', 8240), (''HFC-245fa'', 3170), (''R-404A'', 6940), (''R-407A'', 4380),
     (''R-407C'', 4115), (''R-410A'', 4715), (''R-507A'', 7110), (''SF6'', 18300), (''NF3'', 13400),
     (''PFC-14'', 5300), (''PFC-116'', 8940), (''PFC-218'', 6770), (''PFC-318'', 7110)]"

definition gwp_ar4 :: "rat js_object" where
  "gwp_ar4 = [
     (''CO2'', 1), (''CH4'', 25), (''CH4_FOSSIL'', 25), (''CH4_NON_FOSSIL'', 25), (''N2O'', 298),
     (''HFC-23'', 14800), (''HFC-32'', 675), (''HFC-125'', 3500), (''HFC-134a'', 1430),
     (''HFC-143a'', 4470), (''HFC-152a'', 124), (''HFC-227ea'', 3220), (''HFC-236fa'', 9810),
     (''HFC-245fa'', 1030), (''R-404A'', 3922), (''R-407A'', 2107), (''R-407C'', 1774),
     (''R-410A'', 2088), (''R-507A'', 3985), (''SF6'', 22800), (''NF3'', 17200), (''PFC-14'', 7390),
     (''PFC-116'', 12200), (''PFC-218'', 8830), (''PFC-318'', 10300)]"

fun gwp_table :: "ghg_basis \<Rightarrow> rat js_object" where
  "gwp_table BasisAR4 = gwp_ar4"
| "gwp_table BasisAR5 = gwp_ar5"
| "gwp_table BasisAR6_100 = gwp_ar6_100y"
| "gwp_table BasisAR6_20 = gwp_ar6_20y"

definition basis_text :: "ghg_basis \<Rightarrow> string" where
  "basis_text b = (case b of BasisAR4 \<Rightarrow> ''AR4'' | BasisAR5 \<Rightarrow> ''AR5'' | BasisAR6_100 \<Rightarrow> ''AR6_100'' | BasisAR6_20 \<Rightarrow> ''AR6_20'')"

text \<open>A host object is defined, so it is returned.\<close>

definition get_gwp :: "string \<Rightarrow> ghg_basis \<Rightarrow> string + rat js_read" where
  "get_gwp gas basis = (case js_read (gwp_table basis) gas of
     JsUndefined \<Rightarrow> Inl (''Unknown gas '' @ CHR 0x27 # gas @ CHR 0x27 # '' for GWP basis '' @ CHR 0x27 # basis_text basis @
       CHR 0x27 # ''. Add it to factors/ipcc-gwp.ts.'')
   | r \<Rightarrow> Inr r)"

definition to_co2e :: "string \<Rightarrow> rat \<Rightarrow> ghg_basis \<Rightarrow> string + num_result" where
  "to_co2e gas quantity basis = (case get_gwp gas basis of
     Inl e \<Rightarrow> Inl e
   | Inr (JsOwn g) \<Rightarrow> Inr (ResNum (fl (quantity * fl g)))
   | Inr _ \<Rightarrow> Inr ResNaN)"

end
