(* ===== verification/Shared_Pkg.thy ===== *)
theory Shared_Pkg
  imports Doubles
begin

text \<open>
  The small modules of packages/shared/src: ltree paths (ltree.ts), results (result.ts),
  confidence scores (confidence.ts) and warming potentials (gwp.ts). Numbers are doubles as in
  \<open>Doubles\<close>; a not-a-number argument is \<^const>\<open>None\<close> where the code tests for it.
\<close>

section \<open>Paths\<close>

definition lower_label_char :: "char \<Rightarrow> bool" where
  "lower_label_char c = (let n = of_char c :: nat in (97 \<le> n \<and> n \<le> 122) \<or> (48 \<le> n \<and> n \<le> 57) \<or> n = 95)"

definition segment_char :: "char \<Rightarrow> bool" where
  "segment_char c = (let n = of_char c :: nat in
     (65 \<le> n \<and> n \<le> 90) \<or> (97 \<le> n \<and> n \<le> 122) \<or> (48 \<le> n \<and> n \<le> 57) \<or> n = 95)"

text \<open>Each maximal run of characters of a class becomes one underscore.\<close>

function replace_runs :: "(char \<Rightarrow> bool) \<Rightarrow> string \<Rightarrow> string" where
  "replace_runs P [] = []"
| "replace_runs P (c # s) = (if P c then CHR ''_'' # replace_runs P (dropWhile P s) else c # replace_runs P s)"
  by pat_completeness auto
termination
  by (relation "measure (\<lambda>(P, s). length s)") (simp_all add: less_Suc_eq_le length_dropWhile_le)

definition strip_underscores :: "string \<Rightarrow> string" where
  "strip_underscores s =
     rev (dropWhile (\<lambda>c. c = CHR ''_'') (rev (dropWhile (\<lambda>c. c = CHR ''_'') s)))"

definition sanitize_label :: "string \<Rightarrow> string" where
  "sanitize_label s =
     strip_underscores (replace_runs (\<lambda>c. c = CHR ''_'') (replace_runs (\<lambda>c. \<not> lower_label_char c) (js_lower s)))"

definition join_path :: "string list \<Rightarrow> string" where
  "join_path segments = join_with (CHR ''.'') (filter (\<lambda>s. length s > 0) (map sanitize_label segments))"

definition parent_path :: "string \<Rightarrow> string option" where
  "parent_path path =
     (if CHR ''.'' \<notin> set path then None
      else Some (rev (tl (dropWhile (\<lambda>c. c \<noteq> CHR ''.'') (rev path)))))"

definition is_ancestor :: "string \<Rightarrow> string \<Rightarrow> bool" where
  "is_ancestor anc desc = (if anc = desc then True else starts_with desc (anc @ ''.''))"

definition path_depth :: "string \<Rightarrow> nat" where
  "path_depth path = (if length path = 0 then 0 else length (split_on (CHR ''.'') path))"

definition append_child :: "string \<Rightarrow> string \<Rightarrow> string + string" where
  "append_child path label =
     (let safe = sanitize_label label in
      if length safe = 0 then Inl ''Label sanitizes to empty string''
      else if length path = 0 then Inr safe
      else Inr (path @ ''.'' @ safe))"

definition path_segments :: "string \<Rightarrow> string list" where
  "path_segments path = (if length path = 0 then [] else split_on (CHR ''.'') path)"

definition segment_ok :: "string \<Rightarrow> bool" where
  "segment_ok seg = (seg \<noteq> [] \<and> list_all segment_char seg)"

fun check_segments :: "string list \<Rightarrow> string + unit" where
  "check_segments [] = Inr ()"
| "check_segments (seg # segs) =
     (if \<not> segment_ok seg then Inl (''Invalid ltree segment: '' @ [CHR 0x22] @ seg @ [CHR 0x22])
      else check_segments segs)"

definition validate_path :: "string \<Rightarrow> string + unit" where
  "validate_path path =
     (if length path = 0 then Inl ''Path is empty'' else check_segments (split_on (CHR ''.'') path))"

section \<open>Results\<close>

text \<open>\<open>Result<T, E>\<close> is \<open>'e + 'a\<close>: \<open>ok\<close> is \<^const>\<open>Inr\<close> and \<open>err\<close> is \<^const>\<open>Inl\<close>.\<close>

definition map_result :: "'e + 'a \<Rightarrow> ('a \<Rightarrow> 'b) \<Rightarrow> 'e + 'b" where
  "map_result r f = (case r of Inr v \<Rightarrow> Inr (f v) | Inl e \<Rightarrow> Inl e)"

definition flat_map_result :: "'e + 'a \<Rightarrow> ('a \<Rightarrow> 'e + 'b) \<Rightarrow> 'e + 'b" where
  "flat_map_result r f = (case r of Inr v \<Rightarrow> f v | Inl e \<Rightarrow> Inl e)"

definition map_err :: "'e + 'a \<Rightarrow> ('e \<Rightarrow> 'f) \<Rightarrow> 'f + 'a" where
  "map_err r f = (case r of Inr v \<Rightarrow> Inr v | Inl e \<Rightarrow> Inl (f e))"

definition unwrap_or :: "'e + 'a \<Rightarrow> 'a \<Rightarrow> 'a" where
  "unwrap_or r fallback = (case r of Inr v \<Rightarrow> v | Inl e \<Rightarrow> fallback)"

text \<open>
  What a statement can throw: an Error or any other value, here by its text. \<open>unwrap\<close> throws what
  it holds, \<open>tryCatch\<close> turns a throw into a result that holds an Error.
\<close>

datatype thrown = ThrownError string | ThrownValue string

definition unwrap :: "thrown + 'a \<Rightarrow> thrown + 'a" where
  "unwrap r = (case r of
     Inr v \<Rightarrow> Inr v
   | Inl (ThrownError m) \<Rightarrow> Inl (ThrownError m)
   | Inl (ThrownValue s) \<Rightarrow> Inl (ThrownError (''unwrap called on Err: '' @ s)))"

definition try_catch :: "thrown + 'a \<Rightarrow> thrown + 'a" where
  "try_catch run = (case run of
     Inr v \<Rightarrow> Inr v
   | Inl (ThrownError m) \<Rightarrow> Inl (ThrownError m)
   | Inl (ThrownValue s) \<Rightarrow> Inl (ThrownError s))"

fun combine_loop :: "('e + 'a) list \<Rightarrow> 'a list \<Rightarrow> 'e + 'a list" where
  "combine_loop [] out = Inr out"
| "combine_loop (r # rs) out = (case r of Inl e \<Rightarrow> Inl e | Inr v \<Rightarrow> combine_loop rs (out @ [v]))"

definition combine_results :: "('e + 'a) list \<Rightarrow> 'e + 'a list" where
  "combine_results rs = combine_loop rs []"

section \<open>Confidence\<close>

definition conf_epsilon :: rat where
  "conf_epsilon = fl (1 / 1000000)"

text \<open>
  A component is a number or not-a-number (\<^const>\<open>None\<close>). The type of the argument requires all five: one
  that is missing altogether, which the test for not-a-number would let through, is not modelled.
\<close>

record confidence_components =
  cp_model_logprob :: "rat option"
  cp_cross_validation :: "rat option"
  cp_peer_zscore :: "rat option"
  cp_schema_validation :: "rat option"
  cp_cross_source :: "rat option"

record confidence_weights =
  cw_model_logprob :: rat
  cw_cross_validation :: rat
  cw_peer_zscore :: rat
  cw_schema_validation :: rat
  cw_cross_source :: rat

definition default_weights :: confidence_weights where
  "default_weights = \<lparr> cw_model_logprob = fl 0.25, cw_cross_validation = fl 0.2, cw_peer_zscore = fl 0.15,
     cw_schema_validation = fl 0.2, cw_cross_source = fl 0.2 \<rparr>"

definition clamp01 :: "rat option \<Rightarrow> rat" where
  "clamp01 x = (case x of
     None \<Rightarrow> conf_epsilon
   | Some q \<Rightarrow> if q < conf_epsilon then conf_epsilon else if q > 1 then 1 else q)"

definition conf_entries :: "confidence_components \<Rightarrow> confidence_weights \<Rightarrow> (rat \<times> rat) list" where
  "conf_entries c w =
     [(clamp01 (cp_model_logprob c), cw_model_logprob w), (clamp01 (cp_cross_validation c), cw_cross_validation w),
      (clamp01 (cp_peer_zscore c), cw_peer_zscore w), (clamp01 (cp_schema_validation c), cw_schema_validation w),
      (clamp01 (cp_cross_source c), cw_cross_source w)]"

text \<open>The loop of both means: the sum of the weights and of the weighted values.\<close>

fun conf_loop :: "(rat \<Rightarrow> rat) \<Rightarrow> (rat \<times> rat) list \<Rightarrow> rat \<Rightarrow> rat \<Rightarrow> rat \<times> rat" where
  "conf_loop g [] weight_sum acc = (weight_sum, acc)"
| "conf_loop g ((value, weight) # es) weight_sum acc =
     (if weight \<le> 0 then conf_loop g es weight_sum acc
      else conf_loop g es (fl (weight_sum + weight)) (fl (acc + fl (weight * g value))))"

text \<open>\<open>Math.log\<close> and \<open>Math.exp\<close> are the parameters \<open>lg\<close> and \<open>ex\<close>.\<close>

definition composite_confidence ::
  "(rat \<Rightarrow> rat) \<Rightarrow> (rat \<Rightarrow> rat) \<Rightarrow> confidence_components \<Rightarrow> confidence_weights \<Rightarrow> rat" where
  "composite_confidence lg ex c w =
     (case conf_loop lg (conf_entries c w) 0 0 of (weight_sum, log_sum) \<Rightarrow>
        if weight_sum = 0 then 0 else ex (fl (log_sum / weight_sum)))"

definition weighted_arithmetic_confidence :: "confidence_components \<Rightarrow> confidence_weights \<Rightarrow> rat" where
  "weighted_arithmetic_confidence c w =
     (case conf_loop (\<lambda>v. v) (conf_entries c w) 0 0 of (weight_sum, weighted) \<Rightarrow>
        if weight_sum = 0 then 0 else fl (weighted / weight_sum))"

datatype confidence_band = BandLow | BandMedium | BandHigh | BandVerified

definition confidence_band_of :: "rat \<Rightarrow> confidence_band" where
  "confidence_band_of score =
     (if score < fl 0.5 then BandLow else if score < fl 0.75 then BandMedium
      else if score < fl 0.9 then BandHigh else BandVerified)"

definition combine_confidences :: "rat option \<Rightarrow> rat option \<Rightarrow> rat" where
  "combine_confidences a b = fl (clamp01 a * clamp01 b)"

section \<open>Warming potentials\<close>

text \<open>The argument types are unions of these names, so no name of the prototype is passed.\<close>

definition shared_gwp_table :: "rat js_object js_object" where
  "shared_gwp_table = [
     (''AR5'', [
        (''CO2'', 1), (''CH4_FOSSIL'', 30), (''CH4_BIOGENIC'', 28), (''N2O'', 265),
        (''SF6'', 23500), (''NF3'', 16100), (''HFC_134a'', 1300), (''HFC_152a'', 138),
        (''HFC_32'', 677), (''HFC_125'', 3170), (''HFC_143a'', 4800), (''HFC_23'', 12400),
        (''PFC_CF4'', 6630), (''PFC_C2F6'', 11100)]),
     (''AR6_100Y'', [
        (''CO2'', 1), (''CH4_FOSSIL'', 29.8), (''CH4_BIOGENIC'', 27.0), (''N2O'', 273),
        (''SF6'', 25200), (''NF3'', 17400), (''HFC_134a'', 1530), (''HFC_152a'', 164),
        (''HFC_32'', 771), (''HFC_125'', 3740), (''HFC_143a'', 5810), (''HFC_23'', 14600),
        (''PFC_CF4'', 7380), (''PFC_C2F6'', 12400)]),
     (''AR6_20Y'', [
        (''CO2'', 1), (''CH4_FOSSIL'', 82.5), (''CH4_BIOGENIC'', 79.7), (''N2O'', 273),
        (''SF6'', 18300), (''NF3'', 13400), (''HFC_134a'', 4140), (''HFC_152a'', 591),
        (''HFC_32'', 2690), (''HFC_125'', 6740), (''HFC_143a'', 7840), (''HFC_23'', 12700),
        (''PFC_CF4'', 5300), (''PFC_C2F6'', 8940)])]"

definition shared_gwp :: "string \<Rightarrow> string \<Rightarrow> string + rat" where
  "shared_gwp species basis = (case own_get shared_gwp_table basis of
     None \<Rightarrow> Inl (''Unknown GWP basis: '' @ basis)
   | Some tab \<Rightarrow> (case own_get tab species of
       None \<Rightarrow> Inl (''Unknown species '' @ species @ '' for basis '' @ basis)
     | Some v \<Rightarrow> Inr (fl v)))"

definition co2e_from_mass :: "rat \<Rightarrow> string \<Rightarrow> string \<Rightarrow> string + rat" where
  "co2e_from_mass mass species basis = bindR (shared_gwp species basis) (\<lambda>g. Inr (fl (mass * g)))"

record gas_mass =
  gm_species :: string
  gm_mass :: rat
  gm_basis :: "string option"

fun co2e_loop :: "gas_mass list \<Rightarrow> string \<Rightarrow> rat \<Rightarrow> string + rat" where
  "co2e_loop [] default_basis acc = Inr acc"
| "co2e_loop (item # items) default_basis acc =
     bindR (co2e_from_mass (gm_mass item) (gm_species item)
              (case gm_basis item of Some b \<Rightarrow> b | None \<Rightarrow> default_basis))
       (\<lambda>x. co2e_loop items default_basis (fl (acc + x)))"

definition co2e_from_kg_array :: "gas_mass list \<Rightarrow> string \<Rightarrow> string + rat" where
  "co2e_from_kg_array items default_basis = co2e_loop items default_basis 0"

end
