(* ===== verification/Factors_Props.thy ===== *)
theory Factors_Props
  imports Fw_Factors Shared_Pkg Fw_Integrity Units_Props
begin

text \<open>
  The factor lookups: which factor a state, a fuel or a gas gets, and where the warming potentials
  of the two packages differ.
\<close>

section \<open>Indexes\<close>

lemma index_loop:
  "distinct (map key fs) \<Longrightarrow> own_get (foldl (\<lambda>out f. upsert (key f) f out) acc fs) k =
     (case find (\<lambda>f. key f = k) fs of Some f \<Rightarrow> Some f | None \<Rightarrow> own_get acc k)"
proof (induction fs arbitrary: acc)
  case (Cons f fs)
  have "find (\<lambda>g. key g = key f) fs = None" using Cons.prems by (force simp: find_None_iff image_iff)
  then show ?case using Cons by (auto simp: own_get_upsert split: option.splits)
qed simp

lemma index_lookup:
  assumes "distinct (map key fs)"
  shows "own_get (foldl (\<lambda>out f. upsert (key f) f out) [] fs) k = find (\<lambda>f. key f = k) fs"
  unfolding index_loop[OF assms] by (simp add: own_get_def split: option.split)

lemma state_keys: "map (\<lambda>f. js_lower (gf_state f)) cea_grid_factors = [
    ''punjab'', ''haryana'', ''delhi'', ''rajasthan'', ''uttar pradesh'', ''uttarakhand'',
     ''himachal pradesh'', ''jammu and kashmir'', ''ladakh'', ''chandigarh'', ''maharashtra'',
     ''gujarat'', ''madhya pradesh'', ''chhattisgarh'', ''goa'', ''dadra and nagar haveli'',
     ''daman and diu'', ''karnataka'', ''tamil nadu'', ''kerala'', ''andhra pradesh'',
     ''telangana'', ''puducherry'', ''lakshadweep'', ''andaman and nicobar islands'',
     ''west bengal'', ''bihar'', ''jharkhand'', ''odisha'', ''sikkim'', ''assam'',
     ''arunachal pradesh'', ''manipur'', ''meghalaya'', ''mizoram'', ''nagaland'', ''tripura'']"
  by (simp add: cea_grid_factors_def js_lower_def letter_facts)

lemma state_keys_distinct: "distinct (map (\<lambda>f. js_lower (gf_state f)) cea_grid_factors)"
  unfolding state_keys pairwise_differ_iff[symmetric] by (simp only: differ_eval)

lemma fuel_keys: "map ff_id defra_fuels = [
    ''diesel'', ''petrol'', ''fuel_oil'', ''kerosene'', ''naphtha'', ''lpg'', ''lng'', ''cng'',
     ''natural_gas'', ''coal_industrial'', ''coal_electricity_gen'', ''coking_coal'', ''lignite'',
     ''petroleum_coke'', ''aviation_spirit'', ''aviation_turbine_fuel'', ''marine_gas_oil'',
     ''marine_fuel_oil'', ''biodiesel'', ''bioethanol'', ''wood_pellets'', ''biomass_solid'']"
  by (simp add: defra_fuels_def defra_fuels_1_def defra_fuels_2_def)

lemma fuel_keys_distinct: "distinct (map ff_id defra_fuels)"
  unfolding fuel_keys pairwise_differ_iff[symmetric] by (simp only: differ_eval)

section \<open>Grid and fuel factors\<close>

text \<open>
  A grid factor is found by state alone. A listed state, in any case and with blanks around it,
  gets its own factor whatever the year; any other name gets the all-India value of the year, or
  the current all-India value for a year without one. The regional averages are never used.
\<close>

theorem cea_factor_exact:
  "get_cea_factor state year =
     (case find (\<lambda>f. js_lower (gf_state f) = js_lower (js_trim state)) cea_grid_factors of
        Some f \<Rightarrow> Some (fl (gf_factor f))
      | None \<Rightarrow>
          if js_lower (js_trim state) \<in> set object_prototype then None
          else Some (fl (case map_of cea_history year of Some h \<Rightarrow> h | None \<Rightarrow> cea_regional GridAllIndia)))"
  unfolding get_cea_factor_def js_read_def state_index_def index_lookup[OF state_keys_distinct]
  by (simp split: option.splits)

lemma fuel_lookup: "js_read fuel_index fuel =
    (case find (\<lambda>f. ff_id f = fuel) defra_fuels of Some f \<Rightarrow> JsOwn f
     | None \<Rightarrow> if fuel \<in> set object_prototype then JsHost else JsUndefined)"
  unfolding js_read_def fuel_index_def index_lookup[OF fuel_keys_distinct] by (rule refl)

lemma fuels_nonneg: "list_all (\<lambda>f. 0 \<le> ff_combustion f \<and> 0 \<le> ff_wtt f) defra_fuels"
  by (simp add: defra_fuels_def defra_fuels_1_def defra_fuels_2_def)

text \<open>
  Emissions of a fuel are its quantity times the factor of the one fuel with that id, rounded,
  and an unknown fuel gives null and not zero, for combustion exactly when for the upstream part;
  no factor is negative.
\<close>

theorem fuel_emissions:
  "calc_combustion_emissions fuel quantity =
     (case find (\<lambda>f. ff_id f = fuel) defra_fuels of
        Some f \<Rightarrow> ResNum (fl (quantity * fl (ff_combustion f)))
      | None \<Rightarrow> if fuel \<in> set object_prototype then ResNaN else ResNull) \<and>
   (calc_wtt_emissions fuel quantity = ResNull \<longleftrightarrow> calc_combustion_emissions fuel quantity = ResNull) \<and>
   (calc_wtt_emissions fuel quantity = ResNull \<longleftrightarrow> fuel \<notin> set (map ff_id defra_fuels) \<and> fuel \<notin> set object_prototype) \<and>
   list_all (\<lambda>f. 0 \<le> ff_combustion f \<and> 0 \<le> ff_wtt f) defra_fuels"
proof (cases "find (\<lambda>f. ff_id f = fuel) defra_fuels")
  case None
  then have "fuel \<notin> set (map ff_id defra_fuels)" by (auto simp: find_None_iff)
  then show ?thesis
    by (simp add: calc_combustion_emissions_def calc_wtt_emissions_def calc_with_def fuel_lookup None fuels_nonneg)
next
  case (Some f)
  then have "f \<in> set defra_fuels" "ff_id f = fuel" by (auto simp: find_Some_iff)
  then have "fuel \<in> set (map ff_id defra_fuels)" by auto
  then show ?thesis
    by (simp add: calc_combustion_emissions_def calc_wtt_emissions_def calc_with_def fuel_lookup Some fuels_nonneg)
qed

section \<open>Warming potentials\<close>

definition gwp_gases :: "string list" where
  "gwp_gases = [
    ''CO2'', ''CH4'', ''CH4_FOSSIL'', ''CH4_NON_FOSSIL'', ''N2O'', ''HFC-23'', ''HFC-32'',
     ''HFC-125'', ''HFC-134a'', ''HFC-143a'', ''HFC-152a'', ''HFC-227ea'', ''HFC-236fa'',
     ''HFC-245fa'', ''R-404A'', ''R-407A'', ''R-407C'', ''R-410A'', ''R-507A'', ''SF6'', ''NF3'',
     ''PFC-14'', ''PFC-116'', ''PFC-218'', ''PFC-318'']"

lemma gwp_same_gases: "map fst (gwp_table basis) = gwp_gases"
  by (cases basis) (simp_all add: gwp_gases_def gwp_ar4_def gwp_ar5_def gwp_ar6_100y_def gwp_ar6_20y_def)

lemma gwp_positive: "list_all (\<lambda>(g, v). 1 \<le> v) (gwp_table basis)"
  by (cases basis) (simp_all add: gwp_ar4_def gwp_ar5_def gwp_ar6_100y_def gwp_ar6_20y_def)

text \<open>
  No gas is silently dropped: the four tables list the same gases, a conversion to CO2e throws
  exactly for a gas that is not listed (host names apart), and a listed gas weighs at least its
  own mass up to rounding.
\<close>

theorem gwp_lookup_total:
  "(is_ok (to_co2e gas quantity basis) \<longleftrightarrow> gas \<in> set gwp_gases \<union> set object_prototype) \<and>
   is_ok (to_co2e gas quantity basis) = is_ok (to_co2e gas quantity' basis') \<and>
   list_all (\<lambda>(g, v). 1 \<le> v) (gwp_table basis)"
proof -
  have "is_ok (to_co2e gas q b) \<longleftrightarrow> gas \<in> set gwp_gases \<union> set object_prototype" for q b
  proof -
    have "own_get (gwp_table b) gas = None \<longleftrightarrow> gas \<notin> set gwp_gases"
      by (simp add: own_get_def map_of_eq_None_iff gwp_same_gases[of b, symmetric])
    then show ?thesis
      by (auto simp: to_co2e_def get_gwp_def js_read_def is_ok_def split: option.splits)
  qed
  then show ?thesis using gwp_positive by blast
qed

text \<open>
  The tables of the two packages differ: the same mass of SF6 (AR6, 100 years) gives two amounts of CO2e.
\<close>

lemma gwp_tables_differ:
  "Option.bind (own_get shared_gwp_table ''AR6_100Y'') (\<lambda>tab. own_get tab ''SF6'') = Some 25200"
  "own_get (gwp_table BasisAR6_100) ''SF6'' = Some 24300"
  "Option.bind (own_get shared_gwp_table ''AR6_20Y'') (\<lambda>tab. own_get tab ''HFC_23'') = Some 12700"
  "own_get (gwp_table BasisAR6_20) ''HFC-23'' = Some 15300"
  by (simp_all add: shared_gwp_table_def own_get_def gwp_ar6_100y_def gwp_ar6_20y_def)

end
