(* ===== verification/Shared_Props.thy ===== *)
theory Shared_Props
  imports Shared_Pkg "HOL-Library.Sublist"
begin

text \<open>
  What the shared modules guarantee: sanitized labels and paths are valid, the path operations
  agree with the list of segments, results combine to the first error, and confidence scores stay
  between zero and one.
\<close>

section \<open>Labels\<close>

lemma lower_label_segment: "lower_label_char c \<Longrightarrow> segment_char c"
  by (auto simp: lower_label_char_def segment_char_def Let_def)

lemma underscore_label [simp]: "lower_label_char (CHR ''_'')" "\<not> lower_label_char (CHR ''.'')"
  by code_simp+

lemma set_dropWhile_sub: "set (dropWhile P s) \<subseteq> set s"
  using set_dropWhileD by fast

lemma replace_runs_set: "set (replace_runs P s) \<subseteq> insert (CHR ''_'') {c \<in> set s. \<not> P c}"
proof (induction P s rule: replace_runs.induct)
  case (2 P c s)
  then show ?case using set_dropWhile_sub[of P s] by (cases "P c") auto
qed simp

lemma replace_runs_id: "list_all (\<lambda>c. \<not> P c) s \<Longrightarrow> replace_runs P s = s"
  by (induction P s rule: replace_runs.induct) auto

abbreviation usc :: "char \<Rightarrow> bool" where "usc c \<equiv> c = CHR ''_''"

text \<open>No two underscores in a row.\<close>

fun no_double :: "string \<Rightarrow> bool" where
  "no_double [] = True"
| "no_double [c] = True"
| "no_double (c # d # s) = (\<not> (usc c \<and> usc d) \<and> no_double (d # s))"

lemma no_double_Cons: "no_double (c # s) \<longleftrightarrow> no_double s \<and> \<not> (usc c \<and> s \<noteq> [] \<and> usc (hd s))"
  by (cases s) auto

lemma no_double_append: "no_double (a @ b) \<Longrightarrow> no_double a \<and> no_double b"
  by (induction a) (auto simp: no_double_Cons)

lemma hd_replace_runs: "s \<noteq> [] \<Longrightarrow> \<not> usc (hd s) \<Longrightarrow> hd (replace_runs usc s) = hd s"
  by (cases s) auto

lemma replace_runs_us: "replace_runs usc s = [] \<longleftrightarrow> s = []"
  by (cases s) auto

lemma no_double_replace: "no_double (replace_runs usc s)"
proof (induction usc s rule: replace_runs.induct)
  case (2 c s)
  show ?case
  proof (cases "usc c")
    case True
    let ?d = "dropWhile usc s"
    have "\<not> usc (hd (replace_runs usc ?d))" if "replace_runs usc ?d \<noteq> []"
    proof -
      have n: "?d \<noteq> []" using that replace_runs_us[of ?d] by blast
      then have "\<not> usc (hd ?d)" by (rule hd_dropWhile)
      with hd_replace_runs[OF n this] show ?thesis by simp
    qed
    then have "replace_runs usc ?d = [] \<or> \<not> usc (hd (replace_runs usc ?d))" by blast
    then show ?thesis using 2(1)[OF True] True by (simp add: no_double_Cons)
  next
    case False
    then show ?thesis using 2(2)[OF False] by (simp add: no_double_Cons)
  qed
qed simp

lemma replace_runs_no_double: "no_double s \<Longrightarrow> replace_runs usc s = s"
proof (induction s)
  case (Cons c s)
  then have nd: "no_double s" "\<not> (usc c \<and> s \<noteq> [] \<and> usc (hd s))" by (simp_all add: no_double_Cons)
  have "dropWhile usc s = s" if "usc c" using nd(2) that by (cases s) auto
  then show ?case using Cons.IH[OF nd(1)] by simp
qed simp

lemma no_double_sub: "no_double (a @ s @ b) \<Longrightarrow> no_double s"
  using no_double_append[of a "s @ b"] no_double_append[of s b] by blast

lemma strip_parts: "\<exists>a b. s = a @ strip_underscores s @ b"
proof -
  let ?m = "dropWhile usc s"
  have "s = takeWhile usc s @ ?m" by simp
  moreover have "?m = rev (dropWhile usc (rev ?m)) @ rev (takeWhile usc (rev ?m))"
    by (metis rev_append rev_rev_ident takeWhile_dropWhile_id)
  ultimately show ?thesis unfolding strip_underscores_def by metis
qed

lemma strip_ends:
  assumes "strip_underscores s \<noteq> []"
  shows "\<not> usc (hd (strip_underscores s)) \<and> \<not> usc (last (strip_underscores s))"
proof
  let ?m = "dropWhile usc s" and ?r = "dropWhile usc (rev (dropWhile usc s))"
  have r: "?r \<noteq> []" using assms by (simp add: strip_underscores_def)
  have m: "?m \<noteq> []"
  proof
    assume "?m = []"
    then have "?r = []" by (simp only: rev.simps dropWhile.simps)
    with r show False by blast
  qed
  from r have "last (strip_underscores s) = hd ?r" by (simp add: strip_underscores_def last_rev)
  then show "\<not> usc (last (strip_underscores s))" using hd_dropWhile[OF r] by simp
  have "?m = rev ?r @ rev (takeWhile usc (rev ?m))" by (metis rev_append rev_rev_ident takeWhile_dropWhile_id)
  then have "hd ?m = hd (rev ?r)" using r by (metis hd_append2 rev_is_Nil_conv)
  then show "\<not> usc (hd (strip_underscores s))" using hd_dropWhile[OF m] by (simp add: strip_underscores_def)
qed

lemma strip_id:
  assumes "s = [] \<or> \<not> usc (hd s) \<and> \<not> usc (last s)"
  shows "strip_underscores s = s"
proof -
  have d: "dropWhile usc t = t" if "t = [] \<or> \<not> usc (hd t)" for t using that by (cases t) auto
  have "dropWhile usc s = s" "dropWhile usc (rev s) = rev s"
    using assms by (auto intro!: d simp: hd_rev)
  then show ?thesis by (simp add: strip_underscores_def)
qed

lemma sanitize_props:
  "list_all lower_label_char (sanitize_label s)" "no_double (sanitize_label s)"
  "sanitize_label s = [] \<or> \<not> usc (hd (sanitize_label s)) \<and> \<not> usc (last (sanitize_label s))"
proof -
  let ?r = "replace_runs usc (replace_runs (\<lambda>c. \<not> lower_label_char c) (js_lower s))"
  obtain a b where ab: "?r = a @ sanitize_label s @ b" using strip_parts[of ?r] unfolding sanitize_label_def by blast
  have "set ?r \<subseteq> {c. lower_label_char c}"
    using replace_runs_set[of usc "replace_runs (\<lambda>c. \<not> lower_label_char c) (js_lower s)"]
      replace_runs_set[of "\<lambda>c. \<not> lower_label_char c" "js_lower s"] by auto
  then show "list_all lower_label_char (sanitize_label s)" using ab by (auto simp: list_all_iff)
  show "no_double (sanitize_label s)" using no_double_sub[of a "sanitize_label s" b] no_double_replace ab by metis
  show "sanitize_label s = [] \<or> \<not> usc (hd (sanitize_label s)) \<and> \<not> usc (last (sanitize_label s))"
    using strip_ends unfolding sanitize_label_def by blast
qed

lemma lower_fixed: "lower_label_char c \<Longrightarrow> js_lower_char c = c"
  by (auto simp: lower_label_char_def js_lower_char_def Let_def)

lemma sanitize_id:
  assumes "list_all lower_label_char s" "no_double s" "s = [] \<or> \<not> usc (hd s) \<and> \<not> usc (last s)"
  shows "sanitize_label s = s"
proof -
  have "js_lower s = s" using assms(1) by (induction s) (auto simp: js_lower_def lower_fixed)
  then show ?thesis
    using assms by (simp add: sanitize_label_def replace_runs_id replace_runs_no_double strip_id)
qed

text \<open>
  Sanitized labels are valid ltree labels: any text becomes a run of lower-case letters, digits
  and single underscores with none at either end, sanitizing again changes nothing, and the label
  passes the segment check unless nothing of the text was left.
\<close>

theorem sanitize_valid:
  "list_all lower_label_char (sanitize_label s) \<and> sanitize_label (sanitize_label s) = sanitize_label s \<and>
   (segment_ok (sanitize_label s) \<longleftrightarrow> sanitize_label s \<noteq> []) \<and> no_double (sanitize_label s)"
  using sanitize_props[of s] sanitize_id[of "sanitize_label s"]
  by (auto simp: segment_ok_def list_all_iff lower_label_segment)

section \<open>Paths\<close>

abbreviation dot :: char where "dot \<equiv> CHR ''.''"

lemma label_no_dot: "dot \<notin> set (sanitize_label s)"
  using sanitize_props(1)[of s] by (auto simp: list_all_iff)

lemma parent_of_append: "dot \<notin> set w \<Longrightarrow> parent_path (p @ dot # w) = Some p"
proof -
  assume w: "dot \<notin> set w"
  have "dropWhile (\<lambda>c. c \<noteq> dot) (rev w @ dot # rev p) = dot # rev p"
    by (subst dropWhile_append2) (use w in auto)
  then show ?thesis by (simp add: parent_path_def)
qed

lemma split_append: "split_on c (a @ c # b) = split_on c a @ split_on c b"
proof (induction a)
  case (Cons x a)
  then show ?case
    by (cases "split_on c a") (use split_on_nonempty[of c a] in auto)
qed simp

lemma starts_with_dot_iff: "starts_with d (a @ [dot]) \<longleftrightarrow> (\<exists>r. d = a @ dot # r)"
  by (simp add: starts_with_iff)

lemma append_child_path:
  assumes "path \<noteq> []" "append_child path label = Inr child"
  shows "child = path @ dot # sanitize_label label" "sanitize_label label \<noteq> []"
  using assms by (auto simp: append_child_def Let_def split: if_splits)

text \<open>
  A child lies directly under its parent: appending a label to a path, when the label does not
  sanitize to nothing, gives a path whose parent is the given one, whose segments are the
  parent's and the sanitized label, one deeper, and below the parent in the ancestor test.
\<close>

theorem child_under_parent:
  assumes "path \<noteq> []" "append_child path label = Inr child"
  shows "parent_path child = Some path" "path_segments child = path_segments path @ [sanitize_label label]"
    "path_depth child = path_depth path + 1" "is_ancestor path child"
  using append_child_path[OF assms] assms(1) label_no_dot[of label]
  by (simp_all add: parent_of_append path_segments_def path_depth_def split_append split_on_clean is_ancestor_def
      starts_with_dot_iff)

theorem child_under_parent_witness:
  "parent_path ''acme.region.plant_1'' = Some ''acme.region''"
proof (rule child_under_parent(1))
  show "append_child ''acme.region'' ''Plant #1'' = Inr ''acme.region.plant_1''" by code_simp
qed simp

lemma ancestor_cases: "is_ancestor a d \<longleftrightarrow> d = a \<or> (\<exists>r. d = a @ dot # r)"
  by (auto simp: is_ancestor_def starts_with_dot_iff)

lemma join_append:
  assumes "vs \<noteq> []" "ws \<noteq> []"
  shows "join_with c (vs @ ws) = join_with c vs @ c # join_with c ws"
  using assms by (induction c vs rule: join_with.induct) (auto simp: join_with_Cons)

lemma split_inj: "split_on dot a = split_on dot d \<longleftrightarrow> a = d"
  by (metis join_split)

lemma ancestor_segments:
  "is_ancestor a d \<longleftrightarrow> prefix (split_on dot a) (split_on dot d)"
proof
  assume "is_ancestor a d"
  then consider "d = a" | r where "d = a @ dot # r" unfolding ancestor_cases by blast
  then show "prefix (split_on dot a) (split_on dot d)" by cases (simp_all add: split_append)
next
  assume "prefix (split_on dot a) (split_on dot d)"
  then obtain ws where ws: "split_on dot d = split_on dot a @ ws" by (auto simp: prefix_def)
  show "is_ancestor a d"
  proof (cases "ws = []")
    case True
    then have "d = a" using ws split_inj[of a d] by simp
    then show ?thesis by (simp add: ancestor_cases)
  next
    case False
    from ws have "join_with dot (split_on dot d) = join_with dot (split_on dot a @ ws)" by simp
    then have "d = a @ dot # join_with dot ws" by (simp add: join_append False join_split)
    then show ?thesis unfolding ancestor_cases by blast
  qed
qed

text \<open>
  C39: The ancestor test on text is the prefix order on segments: a path is an ancestor exactly when
  its segments are an initial part of the other's, so \<open>acme\<close> is above \<open>acme.region\<close> and not above
  \<open>acmecorp\<close>; the test is a partial order.
\<close>

theorem ancestor_is_prefix:
  "(is_ancestor a d \<longleftrightarrow> prefix (split_on dot a) (split_on dot d)) \<and> is_ancestor a a \<and>
   (is_ancestor a d \<and> is_ancestor d a \<longleftrightarrow> a = d) \<and>
   {e. is_ancestor a d \<and> is_ancestor d e} \<subseteq> {e. is_ancestor a e}"
proof -
  have anti: "is_ancestor a d \<and> is_ancestor d a \<longleftrightarrow> a = d"
    unfolding ancestor_segments using prefix_order.eq_iff[of "split_on dot a" "split_on dot d"] split_inj[of a d] by blast
  have trans: "is_ancestor a e" if "is_ancestor a d" "is_ancestor d e" for e
    using that unfolding ancestor_segments by (rule prefix_order.trans)
  show ?thesis using anti trans ancestor_segments[of a d] by (simp add: ancestor_segments) blast
qed

section \<open>Results\<close>

definition combine_spec :: "('e + 'a) list \<Rightarrow> 'e + 'a list" where
  "combine_spec rs = (case find (\<lambda>r. \<not> is_ok r) rs of Some r \<Rightarrow> Inl (projl r) | None \<Rightarrow> Inr (map projr rs))"

lemma combine_loop_eq:
  "combine_loop rs out = (case find (\<lambda>r. \<not> is_ok r) rs of Some r \<Rightarrow> Inl (projl r) | None \<Rightarrow> Inr (out @ map projr rs))"
  by (induction rs arbitrary: out) (auto simp: is_ok_def split: sum.splits option.splits)

lemma combine_eq: "combine_results rs = combine_spec rs"
  unfolding combine_results_def combine_loop_eq combine_spec_def append_Nil by (rule refl)

lemma result_laws:
  "flat_map_result (flat_map_result r f) g = flat_map_result r (\<lambda>v. flat_map_result (f v) g)"
  "flat_map_result r Inr = r" "map_result r h = flat_map_result r (\<lambda>v. Inr (h v))"
  "map_err (map_result r h) k = map_result (map_err r k) h"
  by (cases r; simp add: flat_map_result_def map_result_def map_err_def)+

lemma unwrap_catch: "unwrap (try_catch q) = try_catch q"
  by (cases q) (auto simp: unwrap_def try_catch_def split: thrown.splits)

text \<open>
  Results combine to their first error: the combination is the list of the values when every
  result is ok, and otherwise the error of the first result that is not; mapping and chaining
  follow the laws of a monad, so refactoring a chain does not change it.
\<close>

theorem results_combine:
  "combine_results rs = (case find (\<lambda>r. \<not> is_ok r) rs of Some r \<Rightarrow> Inl (projl r) | None \<Rightarrow> Inr (map projr rs)) \<and>
   flat_map_result (flat_map_result r f) g = flat_map_result r (\<lambda>v. flat_map_result (f v) g) \<and>
   flat_map_result r Inr = r \<and> map_result r h = flat_map_result r (\<lambda>v. Inr (h v)) \<and>
   map_err (map_result r h) k = map_result (map_err r k) h \<and> unwrap (try_catch q) = try_catch q"
  unfolding combine_eq combine_spec_def using result_laws unwrap_catch by blast

section \<open>Confidence\<close>

lemma clamp01_bounds: "0 < clamp01 x" "clamp01 x \<le> 1"
proof -
  have e: "0 < conf_epsilon" "conf_epsilon \<le> 1" by (simp_all add: conf_epsilon_def) (code_simp+)
  show "0 < clamp01 x" "clamp01 x \<le> 1" using e by (auto simp: clamp01_def split: option.splits)
qed

lemma clamp01_low: "conf_epsilon \<le> clamp01 x"
proof -
  have "conf_epsilon \<le> 1" by (simp add: conf_epsilon_def) code_simp
  then show ?thesis by (auto simp: clamp01_def split: option.splits)
qed

text \<open>The loop keeps the accumulated values under the accumulated weights, for weights that are doubles.\<close>

lemma conf_loop_bounds:
  assumes "list_all (\<lambda>(v, w). 0 \<le> v \<and> v \<le> 1 \<and> fl w = w) es" "0 \<le> acc" "acc \<le> ws"
    "conf_loop (\<lambda>v. v) es ws acc = (ws', acc')"
  shows "0 \<le> acc' \<and> acc' \<le> ws'"
  using assms
proof (induction es arbitrary: ws acc)
  case (Cons e es)
  obtain v w where e: "e = (v, w)" by (cases e)
  with Cons.prems have v: "0 \<le> v" "v \<le> 1" "fl w = w" by simp_all
  show ?case
  proof (cases "w \<le> 0")
    case True
    then show ?thesis using Cons e by simp
  next
    case False
    have "w * v \<le> w * 1" using v False by (intro mult_left_mono) simp_all
    then have "fl (w * v) \<le> w" using fl_mono[of "w * v" w] v(3) by simp
    moreover have "0 \<le> fl (w * v)" using v False by (intro fl_nonneg) simp
    ultimately have "0 \<le> fl (acc + fl (w * v))" "fl (acc + fl (w * v)) \<le> fl (ws + w)"
      using Cons.prems(2,3) by (auto intro!: fl_nonneg fl_mono)
    then show ?thesis using Cons.IH[of "fl (acc + fl (w * v))" "fl (ws + w)"] Cons.prems(1,4) e False by simp
  qed
qed simp

lemma conf_loop_log:
  assumes "list_all (\<lambda>(v, w). lg v \<le> 0) es" "acc \<le> 0" "0 \<le> ws" "conf_loop lg es ws acc = (ws', acc')"
  shows "acc' \<le> 0 \<and> 0 \<le> ws'"
  using assms
proof (induction es arbitrary: ws acc)
  case (Cons e es)
  obtain v w where e: "e = (v, w)" by (cases e)
  show ?case
  proof (cases "w \<le> 0")
    case True
    then show ?thesis using Cons e by simp
  next
    case False
    have neg: "fl q \<le> 0" if "q \<le> 0" for q using fl_mono[of q 0] that by simp
    have "w * lg v \<le> 0" using Cons.prems(1) e False by (simp add: mult_nonneg_nonpos)
    then have "fl (acc + fl (w * lg v)) \<le> 0" using neg[of "w * lg v"] Cons.prems(2) by (intro neg) simp
    moreover have "0 \<le> fl (ws + w)" using False Cons.prems(3) by (intro fl_nonneg) simp
    ultimately show ?thesis using Cons.IH[of "fl (acc + fl (w * lg v))" "fl (ws + w)"] Cons.prems(1,4) e False by simp
  qed
qed simp

text \<open>Weights that are doubles and, where they count, between 2^-900 and 2^900.\<close>

definition double_weights :: "confidence_weights \<Rightarrow> bool" where
  "double_weights w = list_all (\<lambda>x. fl x = x \<and> (x \<le> 0 \<or> 1 / 2 ^ 900 \<le> x \<and> x \<le> 2 ^ 900))
     [cw_model_logprob w, cw_cross_validation w, cw_peer_zscore w, cw_schema_validation w, cw_cross_source w]"

text \<open>
  C40: Confidence scores are scores: whatever numbers the five components are, not-a-number and out of
  range ones included, and for weights that are doubles, the positive ones between 2^-900 and 2^900
  (no sum or product overflows then), the arithmetic composite lies between 0 and 1; so does the
  geometric composite, given a logarithm between -14 and 0 from the smallest score up to 1 and an
  exponential between 0 and 1 below 0; and the product of two confidences does.
\<close>

theorem confidence_bounds:
  assumes "double_weights w" and "\<And>x. conf_epsilon \<le> x \<Longrightarrow> x \<le> 1 \<Longrightarrow> - 14 \<le> lg x \<and> lg x \<le> 0" and "\<And>x. x \<le> 0 \<Longrightarrow> 0 \<le> ex x \<and> ex x \<le> 1"
  shows "weighted_arithmetic_confidence c w \<in> {0..1} \<and> composite_confidence lg ex c w \<in> {0..1} \<and>
    combine_confidences a b \<in> {0..1}"
proof (intro conjI)
  have one: "fl 1 = 1" by code_simp
  have unit: "fl q \<in> {0..1}" if "0 \<le> q" "q \<le> 1" for q
    using fl_nonneg[OF that(1)] fl_mono[OF that(2)] one by simp
  obtain ws acc where l: "conf_loop (\<lambda>v. v) (conf_entries c w) 0 0 = (ws, acc)" by fastforce
  have "list_all (\<lambda>(v, w). 0 \<le> v \<and> v \<le> 1 \<and> fl w = w) (conf_entries c w)"
    using assms(1) clamp01_bounds by (simp add: conf_entries_def double_weights_def less_imp_le)
  from conf_loop_bounds[OF this _ _ l] have b: "0 \<le> acc" "acc \<le> ws" by simp_all
  then have "0 \<le> acc / ws" "acc / ws \<le> 1" by (auto simp: divide_le_eq_1)
  then show "weighted_arithmetic_confidence c w \<in> {0..1}"
    using unit by (simp add: weighted_arithmetic_confidence_def l)
  obtain ws' acc' where l': "conf_loop lg (conf_entries c w) 0 0 = (ws', acc')" by fastforce
  have "list_all (\<lambda>(v, w). lg v \<le> 0) (conf_entries c w)"
    using assms(2) clamp01_low clamp01_bounds(2) by (simp add: conf_entries_def)
  from conf_loop_log[OF this _ _ l'] have "acc' / ws' \<le> 0" by (simp add: divide_nonpos_nonneg)
  then have "fl (acc' / ws') \<le> 0" using fl_mono[of "acc' / ws'" 0] by simp
  then show "composite_confidence lg ex c w \<in> {0..1}" using assms(3) by (simp add: composite_confidence_def l')
  have "clamp01 a * clamp01 b \<le> 1 * 1" using clamp01_bounds by (intro mult_mono) (simp_all add: less_imp_le)
  then show "combine_confidences a b \<in> {0..1}"
    using unit clamp01_bounds[of a] clamp01_bounds[of b] by (simp add: combine_confidences_def less_imp_le)
qed

definition sample_components :: confidence_components where
  "sample_components = \<lparr> cp_model_logprob = Some 0.5, cp_cross_validation = None, cp_peer_zscore = Some 2,
     cp_schema_validation = Some 0, cp_cross_source = Some 1 \<rparr>"

definition sample_weights :: confidence_weights where
  "sample_weights = \<lparr> cw_model_logprob = 1, cw_cross_validation = 0.5, cw_peer_zscore = 0.25,
     cw_schema_validation = 0, cw_cross_source = - 1 \<rparr>"

lemma sample_weights_ok: "double_weights sample_weights"
proof -
  have "fl 1 = 1" "fl 0.5 = 0.5" "fl 0.25 = 0.25" "fl 0 = 0" "fl (- 1) = - 1" by code_simp+
  then show ?thesis by (simp add: double_weights_def sample_weights_def)
qed

theorem confidence_bounds_witness:
  "composite_confidence (\<lambda>x. x - 1) (\<lambda>x. 1 / (1 - x)) sample_components sample_weights \<in> {0..1}"
proof -
  have e: "0 < conf_epsilon" by (simp add: conf_epsilon_def) code_simp
  have lg: "- 14 \<le> x - 1 \<and> x - 1 \<le> 0" if "conf_epsilon \<le> x" "x \<le> 1" for x using that e by simp
  have ex: "0 \<le> 1 / (1 - x) \<and> 1 / (1 - x) \<le> 1" if "x \<le> 0" for x :: rat using that by (simp add: field_simps)
  show ?thesis
    using confidence_bounds[of sample_weights "\<lambda>x. x - 1" "\<lambda>x. 1 / (1 - x)" sample_components, OF sample_weights_ok lg ex] by simp
qed

end
