(* ===== verification/Tenants.thy ===== *)
theory Tenants
  imports Audit_Log
begin

text \<open>
  Tenants (services/api/src/tenants/tenants.service.ts): branding and settings. Of a tenant's row the
  columns the service writes are kept; a setting holds a JSON value. A null where a request allows a
  text is left out. Properties follow the
  definitions: what is set is read back, once, and only in the tenant's own settings.
\<close>

section \<open>Data\<close>

record tenant_row =
  tn_id :: string
  tn_name :: string
  tn_color :: "string option"
  tn_logo :: "string option"

record tenant_setting =
  ts_id :: string
  ts_tenant :: string
  ts_key :: string
  ts_value :: json

datatype tenant_snap =
    SnapTenant tenant_row
  | SnapSetting tenant_setting
  | SnapBranding
  | SnapKey string

record tdb =
  t_tenants :: "tenant_row list"
  t_settings :: "tenant_setting list"
  t_audit :: "tenant_snap audit_row list"

record branding_dto =
  bd_logo :: "string option"
  bd_primary :: "string option"
  bd_secondary :: "string option"
  bd_footer :: "string option"
  bd_name :: "string option"

section \<open>Operations\<close>

definition my_tenant :: "string \<Rightarrow> tdb \<Rightarrow> tenant_row outcome" where
  "my_tenant t db =
     (case find_first (\<lambda>r. tn_id r = t) (t_tenants db) of None \<Rightarrow> Inl (NotFound ''Tenant not found'') | Some r \<Rightarrow> Inr r)"

text \<open>The row of a tenant and a key (a unique index), updated or made.\<close>

definition put_setting :: "string \<Rightarrow> string \<Rightarrow> string \<Rightarrow> json \<Rightarrow> tenant_setting list \<Rightarrow> tenant_setting list" where
  "put_setting i t k v rows =
     (if \<exists>x\<in>set rows. ts_tenant x = t \<and> ts_key x = k
      then update_where (\<lambda>x. ts_tenant x = t \<and> ts_key x = k) (\<lambda>x. x \<lparr> ts_value := v \<rparr>) rows
      else rows @ [\<lparr> ts_id = i, ts_tenant = t, ts_key = k, ts_value = v \<rparr>])"

definition brand :: "branding_dto \<Rightarrow> tenant_row \<Rightarrow> tenant_row" where
  "brand dto r =
     r \<lparr> tn_logo := (case bd_logo dto of None \<Rightarrow> tn_logo r | Some v \<Rightarrow> Some v),
         tn_color := (case bd_primary dto of None \<Rightarrow> tn_color r | Some v \<Rightarrow> Some v),
         tn_name := (case bd_name dto of None \<Rightarrow> tn_name r | Some v \<Rightarrow> v) \<rparr>"

text \<open>The colours and texts the table has no column for become settings, made with the identifiers 1 and 2.\<close>

definition brand_extras :: "branding_dto \<Rightarrow> (string \<times> json) list" where
  "brand_extras dto =
     (case bd_secondary dto of None \<Rightarrow> [] | Some v \<Rightarrow> [(''branding.secondaryColor'', JStr v)]) @
     (case bd_footer dto of None \<Rightarrow> [] | Some v \<Rightarrow> [(''branding.reportFooter'', JStr v)])"

definition put_extras :: "env \<Rightarrow> string \<Rightarrow> (string \<times> json) list \<Rightarrow> tenant_setting list \<Rightarrow> tenant_setting list" where
  "put_extras E t extras rows = fold (\<lambda>(n, (k, v)). put_setting (ev_ids E n) t k v) (List.enumerate 1 extras) rows"

definition update_branding :: "env \<Rightarrow> string \<Rightarrow> branding_dto \<Rightarrow> string \<Rightarrow> tdb \<Rightarrow> tenant_row outcome \<times> tdb" where
  "update_branding E t dto actor db =
     (case my_tenant t db of
        Inl e \<Rightarrow> (Inl e, db)
      | Inr r \<Rightarrow> (Inr (brand dto r),
          db \<lparr> t_tenants := update_where (\<lambda>x. tn_id x = t) (brand dto) (t_tenants db),
               t_settings := put_extras E t (brand_extras dto) (t_settings db),
               t_audit := audit_log E (audit_entry t actor ''Tenant'' (Some t) ''UPDATE'' (Some (SnapTenant r))
                 (Some (SnapTenant (brand dto r))) (Some SnapBranding)) (t_audit db) \<rparr>))"

definition list_settings :: "string \<Rightarrow> tdb \<Rightarrow> tenant_setting list" where
  "list_settings t db = sort_key ts_key (filter (\<lambda>x. ts_tenant x = t) (t_settings db))"

definition find_setting :: "string \<Rightarrow> string \<Rightarrow> tenant_setting list \<Rightarrow> tenant_setting option" where
  "find_setting t k rows = find_first (\<lambda>x. ts_tenant x = t \<and> ts_key x = k) rows"

text \<open>
  The value is optional in the request. The database client refuses a null in a required JSON column;
  an absent value leaves an existing row as it is and makes no new one.
\<close>

definition upsert_setting :: "env \<Rightarrow> string \<Rightarrow> string \<Rightarrow> json \<Rightarrow> string \<Rightarrow> tdb \<Rightarrow> tenant_setting outcome \<times> tdb" where
  "upsert_setting E t k v actor db =
     (let before = find_setting t k (t_settings db) in
      if v = JNull \<or> v = JUndefined \<and> before = None then (Inl (PlainError ''PrismaClientValidationError''), db)
      else (let rows = (if v = JUndefined then t_settings db else put_setting (ev_ids E 1) t k v (t_settings db)) in
        case find_setting t k rows of
          None \<Rightarrow> (Inl (PlainError ''PrismaClientValidationError''), db)
        | Some s \<Rightarrow> (Inr s, db \<lparr> t_settings := rows,
            t_audit := audit_log E (audit_entry t actor ''TenantSetting'' (Some (ts_id s)) ''upsert''
              (map_option SnapSetting before) (Some (SnapSetting s)) (Some (SnapKey k))) (t_audit db) \<rparr>)))"

section \<open>Properties\<close>

definition one_per_key :: "tenant_setting list \<Rightarrow> bool" where
  "one_per_key rows = distinct (map (\<lambda>x. (ts_tenant x, ts_key x)) rows)"

lemma put_setting_keys:
  "map (\<lambda>x. (ts_tenant x, ts_key x)) (put_setting i t k v rows) =
     map (\<lambda>x. (ts_tenant x, ts_key x)) rows @ (if \<exists>x\<in>set rows. ts_tenant x = t \<and> ts_key x = k then [] else [(t, k)])"
  by (simp add: put_setting_def update_where_keeps)

lemma put_setting_one: "one_per_key rows \<Longrightarrow> one_per_key (put_setting i t k v rows)"
  unfolding one_per_key_def put_setting_keys by auto

lemma find_update:
  "(\<And>x. P (f x) = P x) \<Longrightarrow> find_first P (update_where P f rows) = map_option f (find_first P rows)"
  by (induction rows) auto

lemma find_none: "\<forall>x\<in>set rows. \<not> P x \<Longrightarrow> find_first P rows = None"
  by (induction rows) auto

lemma find_put: "find_setting t k (put_setting i t k v rows) = Some (case find_setting t k rows of
    None \<Rightarrow> \<lparr> ts_id = i, ts_tenant = t, ts_key = k, ts_value = v \<rparr> | Some x \<Rightarrow> x \<lparr> ts_value := v \<rparr>)"
proof (cases "\<exists>x\<in>set rows. ts_tenant x = t \<and> ts_key x = k")
  case True
  then have "find_setting t k rows \<noteq> None" unfolding find_setting_def by (induction rows) auto
  then show ?thesis using True by (auto simp: put_setting_def find_setting_def find_update)
next
  case False
  then have "find_setting t k rows = None" unfolding find_setting_def by (intro find_none) blast
  moreover have "put_setting i t k v rows = rows @ [\<lparr> ts_id = i, ts_tenant = t, ts_key = k, ts_value = v \<rparr>]"
    using False unfolding put_setting_def by (rule if_not_P)
  ultimately show ?thesis by (simp add: find_setting_def find_first_append)
qed

lemma find_update_other:
  "(\<And>x. P x \<Longrightarrow> \<not> Q x \<and> \<not> Q (f x)) \<Longrightarrow> find_first Q (update_where P f rows) = find_first Q rows"
  by (induction rows) auto

lemma find_put_other:
  assumes "(t', k') \<noteq> (t, k)"
  shows "find_setting t' k' (put_setting i t k v rows) = find_setting t' k' rows"
proof (cases "\<exists>x\<in>set rows. ts_tenant x = t \<and> ts_key x = k")
  case True
  then have "put_setting i t k v rows = update_where (\<lambda>x. ts_tenant x = t \<and> ts_key x = k) (\<lambda>x. x \<lparr> ts_value := v \<rparr>) rows"
    unfolding put_setting_def by (rule if_P)
  then show ?thesis using assms by (simp add: find_setting_def) (rule find_update_other, auto)
next
  case False
  then have "put_setting i t k v rows = rows @ [\<lparr> ts_id = i, ts_tenant = t, ts_key = k, ts_value = v \<rparr>]"
    unfolding put_setting_def by (rule if_not_P)
  then show ?thesis using assms by (auto simp: find_setting_def find_first_append split: option.split)
qed

text \<open>A setting is read back as it was set, every other setting of every tenant stays, and there is one row
  for each key.\<close>

theorem setting_read_back:
  assumes "one_per_key (t_settings db)" "fst (upsert_setting E t k v actor db) = Inr s" "v \<noteq> JUndefined"
  shows "find_setting t k (t_settings (snd (upsert_setting E t k v actor db))) = Some s \<and> ts_value s = v \<and>
    one_per_key (t_settings (snd (upsert_setting E t k v actor db))) \<and>
    (\<forall>t' k'. (t', k') \<noteq> (t, k) \<longrightarrow>
       find_setting t' k' (t_settings (snd (upsert_setting E t k v actor db))) = find_setting t' k' (t_settings db))"
proof -
  have v: "v \<noteq> JNull" using assms(2) by (auto simp: upsert_setting_def Let_def)
  let ?rows = "put_setting (ev_ids E 1) t k v (t_settings db)"
  obtain x where x: "find_setting t k ?rows = Some x" "ts_value x = v"
    using find_put[of t k "ev_ids E 1" v "t_settings db"] by (auto split: option.splits)
  have r: "upsert_setting E t k v actor db = (Inr x, db \<lparr> t_settings := ?rows,
      t_audit := audit_log E (audit_entry t actor ''TenantSetting'' (Some (ts_id x)) ''upsert''
        (map_option SnapSetting (find_setting t k (t_settings db))) (Some (SnapSetting x)) (Some (SnapKey k))) (t_audit db) \<rparr>)"
    using v assms(3) x(1) by (simp add: upsert_setting_def Let_def)
  then have "s = x" using assms(2) by simp
  then show ?thesis using x put_setting_one[OF assms(1)] find_put_other by (simp add: r del: prod.inject)
qed

lemma put_all_other: "t' \<noteq> t \<Longrightarrow>
    find_setting t' k (fold (\<lambda>(n, (k, v)). put_setting (ids n) t k v) es rows) = find_setting t' k rows"
  by (induction es arbitrary: rows) (auto simp: find_put_other)

lemma find_tenant_update: "u \<noteq> t \<Longrightarrow> (\<And>x. tn_id (f x) = tn_id x) \<Longrightarrow>
    find_first (\<lambda>r. tn_id r = u) (update_where (\<lambda>x. tn_id x = t) f rows) = find_first (\<lambda>r. tn_id r = u) rows"
  by (induction rows) auto

lemma brand_id [simp]: "tn_id (brand dto r) = tn_id r"
  by (simp add: brand_def)

text \<open>The branding of one tenant leaves the row and the settings of every other.\<close>

theorem branding_tenants_apart:
  assumes "u \<noteq> t"
  shows "my_tenant u (snd (update_branding E t dto actor db)) = my_tenant u db \<and>
    find_setting u k (t_settings (snd (update_branding E t dto actor db))) = find_setting u k (t_settings db)"
proof -
  have "find_first (\<lambda>r. tn_id r = u) (update_where (\<lambda>x. tn_id x = t) (brand dto) (t_tenants db)) = find_first (\<lambda>r. tn_id r = u) (t_tenants db)"
    by (rule find_tenant_update[OF assms]) simp
  then show ?thesis using put_all_other[OF assms]
    by (cases "my_tenant t db") (simp_all add: update_branding_def my_tenant_def[of u] put_extras_def)
qed

end
