(* ===== verification/Data_Sources.thy ===== *)
theory Data_Sources
  imports Audit_Log Lifecycle
begin

text \<open>
  Connections to other systems (services/api/src/data-sources/data-sources.service.ts,
  data-source-sync.processor.ts): the register, the probe and the queue of synchronisations. The
  configuration is an object of JSON values; the audit trail has a redacted copy of the row. The
  worker dispatches nothing. Properties follow the definitions: a removed connection stays removed
  and is never queued, tenants stay apart, the service writes no configuration to the trail.
\<close>

section \<open>Data\<close>

datatype source_kind = KSap | KOracle | KWorkday | KSheets | KCsvUpload | KIot | KCustomApi

fun map_kind_to_type :: "source_kind \<Rightarrow> string" where
  "map_kind_to_type KSap = ''SAP''"
| "map_kind_to_type KOracle = ''ORACLE''"
| "map_kind_to_type KWorkday = ''WORKDAY''"
| "map_kind_to_type KIot = ''IOT''"
| "map_kind_to_type KSheets = ''UPLOAD''"
| "map_kind_to_type KCsvUpload = ''UPLOAD''"
| "map_kind_to_type KCustomApi = ''REST_API''"

record 'c source_row =
  so_id :: string
  so_tenant :: string
  so_name :: string
  so_type :: string
  so_config :: 'c
  so_active :: bool
  so_created :: int

type_synonym data_source = "json js_object source_row"

text \<open>What the audit trail gets: \<open>{ ...ds, config: '[redacted]' }\<close>, or the facts of a probe or a start.\<close>

datatype source_snap =
    SnapSource "string source_row"
  | SnapProbe string bool
  | SnapSync

definition redacted :: "data_source \<Rightarrow> string source_row" where
  "redacted r = \<lparr> so_id = so_id r, so_tenant = so_tenant r, so_name = so_name r, so_type = so_type r,
     so_config = ''[redacted]'', so_active = so_active r, so_created = so_created r \<rparr>"

record sync_job =
  sj_source :: string
  sj_tenant :: string
  sj_type :: string
  sj_config :: "json js_object"

record dsdb =
  d_sources :: "data_source list"
  d_jobs :: "sync_job list"
  d_audit :: "source_snap audit_row list"

record source_dto =
  dd_kind :: source_kind
  dd_name :: string
  dd_description :: "string option"
  dd_config :: "json js_object option"
  dd_secret :: "string option"
  dd_cron :: "string option"

record source_patch =
  dp_kind :: "source_kind option"
  dp_name :: "string option"
  dp_description :: "string option"
  dp_config :: "json js_object option"
  dp_secret :: "string option"
  dp_cron :: "string option"

section \<open>Operations\<close>

definition list_sources :: "string \<Rightarrow> dsdb \<Rightarrow> data_source list" where
  "list_sources t db = sort_key (\<lambda>r. - so_created r) (filter (\<lambda>r. so_tenant r = t \<and> so_active r) (d_sources db))"

definition find_source :: "string \<Rightarrow> string \<Rightarrow> dsdb \<Rightarrow> data_source outcome" where
  "find_source t i db =
     (case find_first (\<lambda>r. so_id r = i \<and> so_tenant r = t) (d_sources db) of
        None \<Rightarrow> Inl (NotFound ''Data source not found'') | Some r \<Rightarrow> Inr r)"

text \<open>Spreading an object into another, and the same for one optional key: absent and empty texts add nothing.\<close>

definition spread :: "json js_object \<Rightarrow> json js_object \<Rightarrow> json js_object" where
  "spread new old = fold (\<lambda>(k, v). upsert k v) new old"

definition spread_text :: "string \<Rightarrow> string option \<Rightarrow> json js_object \<Rightarrow> json js_object" where
  "spread_text k v c = (case v of None \<Rightarrow> c | Some s \<Rightarrow> if s = [] then c else upsert k (JStr s) c)"

definition new_config :: "source_dto \<Rightarrow> json js_object" where
  "new_config dto = spread_text ''cron'' (dd_cron dto) (spread_text ''secretRef'' (dd_secret dto)
     (spread_text ''description'' (dd_description dto) (case dd_config dto of None \<Rightarrow> [] | Some c \<Rightarrow> spread c [])))"

definition create_source :: "env \<Rightarrow> string \<Rightarrow> source_dto \<Rightarrow> string \<Rightarrow> dsdb \<Rightarrow> data_source outcome \<times> dsdb" where
  "create_source E t dto actor db =
     (let r = \<lparr> so_id = ev_ids E 1, so_tenant = t, so_name = dd_name dto, so_type = map_kind_to_type (dd_kind dto),
                so_config = new_config dto, so_active = True, so_created = ev_now E \<rparr>
      in (Inr r, db \<lparr> d_sources := d_sources db @ [r],
            d_audit := audit_log E (audit_entry t actor ''DataSource'' (Some (so_id r)) ''CREATE'' None
              (Some (SnapSource (redacted r))) None) (d_audit db) \<rparr>))"

text \<open>A text that is given, the empty one included, replaces its key here.\<close>

definition set_text :: "string \<Rightarrow> string option \<Rightarrow> json js_object \<Rightarrow> json js_object" where
  "set_text k v c = (case v of None \<Rightarrow> c | Some s \<Rightarrow> upsert k (JStr s) c)"

definition patch_config :: "source_patch \<Rightarrow> json js_object \<Rightarrow> json js_object" where
  "patch_config p old =
     (if dp_config p = None \<and> dp_cron p = None \<and> dp_description p = None \<and> dp_secret p = None then old
      else set_text ''secretRef'' (dp_secret p) (set_text ''description'' (dp_description p) (set_text ''cron'' (dp_cron p)
        (case dp_config p of None \<Rightarrow> old | Some c \<Rightarrow> spread c old))))"

definition patch_source :: "source_patch \<Rightarrow> data_source \<Rightarrow> data_source" where
  "patch_source p r =
     r \<lparr> so_name := (case dp_name p of None \<Rightarrow> so_name r | Some n \<Rightarrow> n),
         so_type := (case dp_kind p of None \<Rightarrow> so_type r | Some k \<Rightarrow> map_kind_to_type k),
         so_config := patch_config p (so_config r) \<rparr>"

definition update_source :: "env \<Rightarrow> string \<Rightarrow> string \<Rightarrow> source_patch \<Rightarrow> string \<Rightarrow> dsdb \<Rightarrow> data_source outcome \<times> dsdb" where
  "update_source E t i p actor db =
     (case find_source t i db of
        Inl e \<Rightarrow> (Inl e, db)
      | Inr r \<Rightarrow> (Inr (patch_source p r),
          db \<lparr> d_sources := update_where (\<lambda>x. so_id x = i) (patch_source p) (d_sources db),
               d_audit := audit_log E (audit_entry t actor ''DataSource'' (Some i) ''UPDATE'' (Some (SnapSource (redacted r)))
                 (Some (SnapSource (redacted (patch_source p r)))) None) (d_audit db) \<rparr>))"

definition remove_source :: "env \<Rightarrow> string \<Rightarrow> string \<Rightarrow> string \<Rightarrow> dsdb \<Rightarrow> unit outcome \<times> dsdb" where
  "remove_source E t i actor db =
     (case find_source t i db of
        Inl e \<Rightarrow> (Inl e, db)
      | Inr r \<Rightarrow> (Inr (),
          db \<lparr> d_sources := update_where (\<lambda>x. so_id x = i) (\<lambda>x. x \<lparr> so_active := False \<rparr>) (d_sources db),
               d_audit := audit_log E (audit_entry t actor ''DataSource'' (Some i) ''DELETE'' (Some (SnapSource (redacted r)))
                 None None) (d_audit db) \<rparr>))"

text \<open>The probe is the type of the connection; it is logged without a user.\<close>

definition test_source :: "env \<Rightarrow> string \<Rightarrow> string \<Rightarrow> dsdb \<Rightarrow> string outcome \<times> dsdb" where
  "test_source E t i db =
     (case find_source t i db of
        Inl e \<Rightarrow> (Inl e, db)
      | Inr r \<Rightarrow>
          (let probed = so_type r \<noteq> ''IOT'';
               db' = db \<lparr> d_audit := audit_log E (audit_entry t [] ''DataSource'' (Some i) ''UPDATE'' None None
                 (Some (SnapProbe (so_type r) probed)) \<lparr> ai_user := None \<rparr>) (d_audit db) \<rparr>
           in if probed then (Inr (so_type r), db') else (Inl (ServiceUnavailable ''Probe failed (push-style connector)''), db')))"

definition sync_source :: "env \<Rightarrow> string \<Rightarrow> string \<Rightarrow> string \<Rightarrow> dsdb \<Rightarrow> unit outcome \<times> dsdb" where
  "sync_source E t i actor db =
     (case find_source t i db of
        Inl e \<Rightarrow> (Inl e, db)
      | Inr r \<Rightarrow>
          if \<not> so_active r then (Inl (BadRequest ''Cannot sync an inactive data source''), db)
          else (Inr (), db \<lparr> d_jobs := d_jobs db @ [\<lparr> sj_source = so_id r, sj_tenant = t, sj_type = so_type r, sj_config = so_config r \<rparr>],
                 d_audit := audit_log E (audit_entry t actor ''DataSource'' (Some i) ''UPDATE'' None None (Some SnapSync)) (d_audit db) \<rparr>))"

text \<open>The worker: whether the connection is active only decides what is printed; an error of the database is thrown again.\<close>

definition process_sync :: "bool \<Rightarrow> sync_job \<Rightarrow> dsdb \<Rightarrow> unit outcome \<times> dsdb" where
  "process_sync db_up job db = (if db_up then (Inr (), db) else (Inl (PlainError ''database''), db))"

datatype source_op =
    SrcCreate env string source_dto string
  | SrcUpdate env string string source_patch string
  | SrcRemove env string string string
  | SrcTest env string string
  | SrcSync env string string string
  | SrcProcess string bool sync_job

fun source_step :: "source_op \<Rightarrow> dsdb \<Rightarrow> dsdb" where
  "source_step (SrcCreate E t dto actor) db = snd (create_source E t dto actor db)"
| "source_step (SrcUpdate E t i p actor) db = snd (update_source E t i p actor db)"
| "source_step (SrcRemove E t i actor) db = snd (remove_source E t i actor db)"
| "source_step (SrcTest E t i) db = snd (test_source E t i db)"
| "source_step (SrcSync E t i actor) db = snd (sync_source E t i actor db)"
| "source_step (SrcProcess t up job) db = snd (process_sync up job db)"

fun source_op_tenant :: "source_op \<Rightarrow> string" where
  "source_op_tenant (SrcCreate E t dto actor) = t"
| "source_op_tenant (SrcUpdate E t i p actor) = t"
| "source_op_tenant (SrcRemove E t i actor) = t"
| "source_op_tenant (SrcTest E t i) = t"
| "source_op_tenant (SrcSync E t i actor) = t"
| "source_op_tenant (SrcProcess t up job) = t"

fun source_ok :: "source_op \<Rightarrow> dsdb \<Rightarrow> bool" where
  "source_ok (SrcCreate E t dto actor) db \<longleftrightarrow> ev_ids E 1 \<notin> set (map so_id (d_sources db))"
| "source_ok _ db \<longleftrightarrow> True"

section \<open>The register as a table\<close>

inductive source_move :: "data_source \<Rightarrow> data_source \<Rightarrow> bool" where
  patched: "source_move r (patch_source p r)"
| removed: "source_move r (r \<lparr> so_active := False \<rparr>)"

inductive_cases source_move_cases: "source_move r r'"

lemma find_source_Inr: "find_source t i db = Inr r \<Longrightarrow> r \<in> set (d_sources db) \<and> so_id r = i \<and> so_tenant r = t"
  by (auto simp: find_source_def split: option.splits dest: find_first_Some)

lemma patch_source_sel [simp]:
  "so_id (patch_source p r) = so_id r" "so_tenant (patch_source p r) = so_tenant r" "so_active (patch_source p r) = so_active r"
  by (simp_all add: patch_source_def)

lemma source_step_table:
  assumes "distinct (map so_id (d_sources db))" "source_ok c db"
  shows "table_move so_id so_tenant so_active source_move (source_op_tenant c) (d_sources db) (d_sources (source_step c db))"
proof -
  note up = table_move_update[OF assms(1)]
  show ?thesis
  proof (cases c)
    case (SrcCreate E t dto actor)
    then show ?thesis using assms(2) by (auto simp: create_source_def Let_def intro!: table_move_append)
  qed (auto simp: update_source_def remove_source_def test_source_def sync_source_def process_sync_def Let_def table_move_refl
      split: sum.splits dest!: find_source_Inr intro!: up source_move.intros)
qed

interpretation connections: table_system so_id so_tenant so_active source_move "\<lambda>_. True" source_step source_ok d_sources source_op_tenant
proof
  show "so_id r' = so_id r \<and> so_tenant r' = so_tenant r" if "source_move r r'" for r r'
    using that by (auto elim!: source_move_cases)
qed (simp_all add: source_step_table)

section \<open>Properties\<close>

lemma source_moves_inactive: "source_move\<^sup>*\<^sup>* r r' \<Longrightarrow> \<not> so_active r \<Longrightarrow> \<not> so_active r'"
  by (induction rule: rtranclp_induct) (auto elim!: source_move_cases)

text \<open>A removed connection stays removed, whatever is called: no operation takes it up again, and
  a request to synchronise it is refused.\<close>

theorem removed_source_final:
  assumes "distinct (map so_id (d_sources db))" "runs_ok source_step source_ok cs db" "r \<in> set (d_sources db)" "\<not> so_active r"
  shows "\<exists>e. sync_source E (so_tenant r) (so_id r) actor (fold source_step cs db) = (Inl e, fold source_step cs db)"
proof -
  let ?db = "fold source_step cs db"
  have ok: "table_ok so_id (\<lambda>_. True) (d_sources db)" using assms(1) by (simp add: table_ok_def)
  obtain r' where r': "r' \<in> set (d_sources ?db)" "source_move\<^sup>*\<^sup>* r r'"
    using connections.run_row_later[OF ok assms(2,3)] by blast
  have "distinct (map so_id (d_sources ?db))" using connections.scoped.run_inv[OF ok assms(2)] by (simp add: table_ok_def)
  moreover have "so_id r' = so_id r" "so_tenant r' = so_tenant r" using connections.moves_keep[OF r'(2)] by simp_all
  ultimately have "find_first (\<lambda>x. so_id x = so_id r \<and> so_tenant x = so_tenant r) (d_sources ?db) = Some r'"
    using r'(1) by (intro find_first_unique[where rid = so_id]) auto
  then show ?thesis using source_moves_inactive[OF r'(2) assms(4)] by (simp add: sync_source_def find_source_def)
qed

text \<open>Runs of other tenants leave what a tenant sees of its connections.\<close>

theorem sources_tenants_apart:
  assumes "distinct (map so_id (d_sources db))" "runs_ok source_step source_ok cs db" "t \<notin> source_op_tenant ` set cs"
  shows "list_sources t (fold source_step cs db) = list_sources t db"
proof -
  have ok: "table_ok so_id (\<lambda>_. True) (d_sources db)" using assms(1) by (simp add: table_ok_def)
  have "list_sources t d = sort_key (\<lambda>r. - so_created r) (filter so_active (filter (\<lambda>r. so_tenant r = t) (d_sources d)))" for d
    by (simp add: list_sources_def conj_commute)
  note listed = this
  show ?thesis unfolding listed connections.scoped.run_foreign[OF ok assms(2,3)] ..
qed

text \<open>
  What an operation says apart from configurations: the same call with the configuration, the
  description, the secret and the schedule left out.
\<close>

fun without_config :: "source_op \<Rightarrow> source_op" where
  "without_config (SrcCreate E t dto actor) =
     SrcCreate E t (dto \<lparr> dd_config := None, dd_description := None, dd_secret := None, dd_cron := None \<rparr>) actor"
| "without_config (SrcUpdate E t i p actor) =
     SrcUpdate E t i (p \<lparr> dp_config := None, dp_description := None, dp_secret := None, dp_cron := None \<rparr>) actor"
| "without_config (SrcProcess t up job) = SrcProcess t up (job \<lparr> sj_config := [] \<rparr>)"
| "without_config c = c"

definition same_but_config :: "dsdb \<Rightarrow> dsdb \<Rightarrow> bool" where
  "same_but_config a b \<longleftrightarrow> map redacted (d_sources a) = map redacted (d_sources b) \<and> d_audit a = d_audit b"

lemma redacted_sel:
  assumes "redacted a = redacted b"
  shows "so_id a = so_id b" "so_tenant a = so_tenant b" "so_type a = so_type b" "so_active a = so_active b" "so_name a = so_name b"
  using assms by (simp_all add: redacted_def)

lemma find_source_redacted:
  assumes "map redacted as = map redacted bs"
  shows "map_option redacted (find_first (\<lambda>r. so_id r = i \<and> so_tenant r = t) as) =
    map_option redacted (find_first (\<lambda>r. so_id r = i \<and> so_tenant r = t) bs)"
  using assms
proof (induction as arbitrary: bs)
  case (Cons a as)
  then obtain b bs' where b: "bs = b # bs'" "redacted a = redacted b" "map redacted as = map redacted bs'" by (cases bs) auto
  then show ?case using Cons.IH[of bs'] redacted_sel[of a b] by simp
qed simp

lemma same_find_cases:
  assumes "same_but_config a b"
  obtains e where "find_source t i a = Inl e" "find_source t i b = Inl e"
  | r q where "find_source t i a = Inr r" "find_source t i b = Inr q" "redacted r = redacted q"
  using find_source_redacted[of "d_sources a" "d_sources b" i t] assms
  by (cases "find_first (\<lambda>r. so_id r = i \<and> so_tenant r = t) (d_sources a)";
      cases "find_first (\<lambda>r. so_id r = i \<and> so_tenant r = t) (d_sources b)") (auto simp: find_source_def same_but_config_def)

lemma redacted_updates:
  assumes "map redacted as = map redacted bs" "\<And>a b. redacted a = redacted b \<Longrightarrow> redacted (f a) = redacted (g b)"
  shows "map redacted (update_where (\<lambda>x. so_id x = i) f as) = map redacted (update_where (\<lambda>x. so_id x = i) g bs)"
  using assms(1)
proof (induction as arbitrary: bs)
  case (Cons a as)
  then obtain b bs' where b: "bs = b # bs'" "redacted a = redacted b" "map redacted as = map redacted bs'" by (cases bs) auto
  then show ?case using Cons.IH[of bs'] redacted_sel[of a b] assms(2)[OF b(2)] by simp
qed simp

lemma redacted_patch:
  "redacted a = redacted b \<Longrightarrow> redacted (patch_source p a) =
     redacted (patch_source (p \<lparr> dp_config := None, dp_description := None, dp_secret := None, dp_cron := None \<rparr>) b)"
  by (simp add: redacted_def patch_source_def split: option.split)

lemma without_config_step:
  assumes "same_but_config a b"
  shows "same_but_config (source_step c a) (source_step (without_config c) b)"
proof (cases c)
  case (SrcCreate E t dto actor)
  then show ?thesis using assms by (simp add: create_source_def same_but_config_def redacted_def Let_def)
next
  case (SrcUpdate E t i p actor)
  show ?thesis
  proof (rule same_find_cases[OF assms, of t i])
    fix r q
    assume f: "find_source t i a = Inr r" "find_source t i b = Inr q" "redacted r = redacted q"
    show ?thesis using assms f(3) redacted_patch[of _ _ p] redacted_updates[of "d_sources a" "d_sources b" "patch_source p", OF _ redacted_patch]
      by (simp add: SrcUpdate update_source_def f(1,2) same_but_config_def)
  qed (use assms SrcUpdate in \<open>simp add: update_source_def\<close>)
next
  case (SrcRemove E t i actor)
  have u: "redacted x = redacted y \<Longrightarrow> redacted (x \<lparr> so_active := False \<rparr>) = redacted (y \<lparr> so_active := False \<rparr>)" for x y
    by (simp add: redacted_def)
  show ?thesis
  proof (rule same_find_cases[OF assms, of t i])
    fix r q
    assume f: "find_source t i a = Inr r" "find_source t i b = Inr q" "redacted r = redacted q"
    show ?thesis using assms f(3) redacted_updates[of "d_sources a" "d_sources b", OF _ u]
      by (simp add: SrcRemove remove_source_def f(1,2) same_but_config_def)
  qed (use assms SrcRemove in \<open>simp add: remove_source_def\<close>)
next
  case (SrcTest E t i)
  show ?thesis
  proof (rule same_find_cases[OF assms, of t i])
    fix r q
    assume f: "find_source t i a = Inr r" "find_source t i b = Inr q" "redacted r = redacted q"
    show ?thesis using assms redacted_sel(3)[OF f(3)] by (simp add: SrcTest test_source_def f(1,2) same_but_config_def Let_def)
  qed (use assms SrcTest in \<open>simp add: test_source_def\<close>)
next
  case (SrcSync E t i actor)
  show ?thesis
  proof (rule same_find_cases[OF assms, of t i])
    fix r q
    assume f: "find_source t i a = Inr r" "find_source t i b = Inr q" "redacted r = redacted q"
    show ?thesis using assms redacted_sel(4)[OF f(3)] by (simp add: SrcSync sync_source_def f(1,2) same_but_config_def)
  qed (use assms SrcSync in \<open>simp add: sync_source_def\<close>)
qed (use assms in \<open>simp add: process_sync_def same_but_config_def\<close>)

text \<open>The entries the service writes to the audit trail say nothing about configurations, secrets and
  schedules: a run leaves the same trail with all of them left out of its calls. (The interceptor of the
  controller adds entries of its own, with the answers as they are.)\<close>

theorem trail_without_secrets: "d_audit (fold source_step cs db) = d_audit (fold source_step (map without_config cs) db)"
proof -
  have "same_but_config (fold source_step cs a) (fold source_step (map without_config cs) b)" if "same_but_config a b" for a b
    using that without_config_step by (induction cs arbitrary: a b) simp_all
  then show ?thesis by (simp add: same_but_config_def)
qed

text \<open>The job of a synchronisation carries the configuration, the secret reference included, and the worker
  does nothing with it.\<close>

lemma sync_is_a_stub: "snd (process_sync up job db) = db"
  by (simp add: process_sync_def)

end
