(* ===== verification/Spec2Isabelle.thy ===== *)
theory Spec2Isabelle
  imports Cel_Props Audit_Props Hierarchy_Props Dates_Props Metrics_Props Calc_Props Iam_Props Brsr_Props
    Extraction_Props Suppliers_Props Materiality_Props Assurance_Props Carbon_Props Files_Props
    Fw_Formulas Fw_Units Factors_Props Shared_Props Tenants Data_Sources
begin

text \<open>
  A verification library for the BRSR platform: sustainability reporting for several tenants.

  \<^bold>\<open>The program.\<close> A NestJS service (services/api) over a relational database (Prisma), queues
  (BullMQ), an object store, and an extraction engine reached over HTTP; shared TypeScript packages
  (packages/shared, packages/frameworks, packages/contracts); a web application. Documents are
  uploaded (files) and sent to the engine, whose callback stores extracted fields; reviewers
  correct and approve them (extraction), which makes drafts of metric events (metrics). Metric
  events are also typed in, imported from spreadsheets, or computed by formulas (calculations, over
  the formula language of common/utils/cel-evaluator.ts). A second person approves them. Approved
  values feed the disclosures and reports (brsr, reports), the carbon overview (carbon) and the
  snapshots of the auditor (assurance). Suppliers and stakeholders answer through magic links
  (suppliers, materiality). Every service writes to the audit trail (audit), and every request
  passes the guards (common/guards) with the roles of iam, inside the organisation tree of hierarchy.

  \<^bold>\<open>Conventions.\<close> A handler \<open>async f(tenant, dto, actor)\<close> of a service becomes a definition
  \<open>f E t dto actor db\<close> that returns the outcome and the new tables: \<open>E\<close> has the clock and the
  identifiers the database makes, an outcome is a value or one of the exceptions of \<open>Prelude\<close>. Tables are lists of
  records in insertion order (\<open>Store\<close>); a unique index is a check that gives the error P2002.
  A handler is one step: statements of two requests interleave only where the model says so (logins
  and refreshes of tokens, the submissions of suppliers, the upload race, the dispatch beside its
  callback, the steps of the report and calculation workers). Instants are integers of milliseconds, the server's time zone a fixed
  offset. Text is Latin-1; a text of the framework tables is its UTF-8 bytes.

  \<^bold>\<open>Theories\<close> (each names its source in its first block):
  \<^item> \<open>Prelude\<close>, \<open>Store\<close>, \<open>Lifecycle\<close>: exceptions and results, strings, plain objects with their
    prototype, tables; the interfaces \<open>invariant_system\<close>, \<open>tenant_scoped\<close>, \<open>history_system\<close> and
    \<open>table_system\<close> (what a service over a table keeps, once its steps are shown to append fresh rows
    and move rows along a relation), interpreted on each service.
  \<^item> \<open>Doubles\<close>: doubles and twenty-digit decimals as rounded rationals, as two interpretations of
    the interface \<open>digit_rounding\<close> (error, monotonicity, exactness, idempotence). The exponent is not
    bounded: \<open>double_range\<close> is where a rounded value is the double of the program, and the properties
    whose code could leave it bound their inputs (\<open>convert_roundtrip\<close>, \<open>confidence_bounds\<close>).
  \<^item> \<open>Cel_Lexer\<close>, \<open>Cel_Parser\<close>, \<open>Cel_Eval\<close>, \<open>Cel_Print\<close>, \<open>Cel_Props\<close>: the formula language of
    common/utils/cel-evaluator.ts, with the printer as the specification of its grammar.
  \<^item> \<open>Topo_Sort\<close>, \<open>Calc\<close>, \<open>Calc_Props\<close>: calculations/calculations.service.ts and
    calculation.processor.ts.
  \<^item> \<open>Audit_Log\<close>, \<open>Audit_Props\<close>: audit/audit.service.ts, common/utils/hash.ts.
  \<^item> \<open>Hierarchy\<close>, \<open>Hierarchy_Props\<close>: hierarchy/hierarchy.service.ts. That paths spell the parent links
    needs codes without dots, which the create request enforces and the import does not
    (\<open>dotted_import\<close>).
  \<^item> \<open>Calendar\<close>, \<open>Dates\<close>, \<open>Dates_Props\<close>: the Date of the language (\<open>utc\<close> reads years 0 to 99 as
    those of the twentieth century; instants after \<open>max_time\<close> are not dates);
    packages/shared/src/dates.ts.
  \<^item> \<open>Metrics\<close>, \<open>Metrics_Props\<close>: metrics/metrics.service.ts.
  \<^item> \<open>Guards\<close>, \<open>Links\<close>: common/guards, common/filters, common/utils/magic-link.ts.
  \<^item> \<open>Iam\<close>, \<open>Iam_Props\<close>: iam/iam.service.ts. A login is the lockout check and what follows the
    password comparison, a refresh is its check and its rotation; the steps of the system are
    these halves, in any order with those of other requests.
  \<^item> \<open>Brsr\<close>, \<open>Brsr_Props\<close>, \<open>Reports\<close>, \<open>Reports_Props\<close>: brsr/brsr.service.ts,
    brsr-report.processor.ts, reports/reports.service.ts.
  \<^item> \<open>Extraction_Review\<close>, \<open>Extraction_Props\<close>: extraction/extraction.service.ts, over one database
    with the metrics service.
  \<^item> \<open>Suppliers\<close>, \<open>Suppliers_Props\<close>: suppliers/suppliers.service.ts; the portal as a system has the
    check and the write of a submission as steps of their own. \<open>Materiality\<close>, \<open>Assurance\<close> with their \<open>_Props\<close>: the services of these names.
  \<^item> \<open>Carbon\<close>, \<open>Carbon_Props\<close>: carbon/carbon.service.ts, over metrics and calculations.
  \<^item> \<open>Files\<close>, \<open>Files_Props\<close>: files/files.service.ts, post-extraction.processor.ts.
  \<^item> \<open>Tenants\<close>, \<open>Data_Sources\<close>: tenants/tenants.service.ts; data-sources/data-sources.service.ts and
    its worker, with their properties.
  \<^item> \<open>Cel_Kinds\<close>, \<open>Cel_Lexemes\<close>: a kind system for the formula language, and the independence of
    the front end from the decimal library.
  \<^item> \<open>Fw_Base\<close>, \<open>Fw_Metrics\<close>, \<open>Fw_Brsr\<close>, \<open>Fw_Gri\<close>, \<open>Fw_Esrs\<close>, \<open>Fw_Sasb\<close>, \<open>Fw_Climate\<close>: the tables of
    packages/frameworks/src (canonical metrics and the disclosures of eight frameworks), row by row;
    a long table is defined in parts. \<open>Crosswalks\<close>, \<open>Crosswalk_Laws\<close>, \<open>Crosswalk_Props\<close>: the
    registry and the crosswalk between metrics and disclosures, for any tables and for these;
    \<open>Fw_Integrity\<close> evaluates the tables; \<open>Fw_Formulas\<close> runs their formulas through the
    formula language, \<open>Fw_Units\<close> their accepted units through the converter.
  \<^item> \<open>Fw_Factors\<close>, \<open>Factors_Props\<close>: packages/frameworks/src/factors. \<open>Units\<close>, \<open>Units_Props\<close>,
    \<open>Shared_Pkg\<close>, \<open>Shared_Props\<close>: units (a unit registered as \<open>__proto__\<close> sets the prototype of the
    registries), warming potentials (the tables of the two packages differ: \<open>gwp_tables_differ\<close>),
    confidence, paths and results of packages/shared/src.

  \<^bold>\<open>What is shown.\<close> Of the formula language: the front end answers on every text, printing and
  parsing are inverse, the fuel of the parser (four times the tokens and four, \<open>parse_fuel\<close>) is
  never used up, and a formula that passes a static kind check fails only on its data. Of the life cycles: who may move a row, which states are final, that each table's
  service is a refinement of its relation; of the tenants: calls of others leave one's rows alone; of
  the computations: calculation results solve their formulas, resolved disclosures, roll-ups, means,
  emission figures and pathways are the sums they claim, with the rounding counted; of the
  sequences across services: a promoted value names its source over every interleaving, the hash of
  a snapshot stays that of its members, a download returns what was uploaded; of the tables: the
  registry loads, every disclosure and curated mapping names metrics and sections that exist, the
  crosswalk holds exactly these links, every formula of the tables computes. The findings of the
  manifest are behaviours that contradict a comment or the evident purpose; some are theorems here.

  \<^bold>\<open>Parameters.\<close> Code outside the repository is an argument, with its documented behaviour as a
  hypothesis where a theorem needs it: decimal.js as the record \<open>decimal_api\<close>, SHA-256 (no
  collision among the texts at hand, only where a theorem says so), the JWT and bcrypt libraries as \<open>jwt_api\<close>, the codecs of magic
  links as \<open>link_api\<close>, the parsing of dates and numerals, address signing, random draws, the PDF and
  spreadsheet libraries. Witnesses instantiate each with a concrete function.

  \<^bold>\<open>Not modelled.\<close> Controllers and modules (routing decorators), interceptors (logging, request
  ids, envelopes), the clients of outside services and probes have no logic of their own; the
  dashboard and the copilot proxy read tables or forward requests; contracts are types
  and validation schemas; seeds are demonstration data; the web application and
  the user interface kit are rendering; the AI engine and the copilot are Python around language
  models; infrastructure is configuration. Text outside Latin-1, doubles out of
  range and transactions cut short by a crash are outside the model.
\<close>

end
